(* ===== verification/Fwts_Prelude.thy ===== *)
theory Fwts_Prelude
  imports Main "HOL-Library.Word"
begin

text \<open>
  Shared vocabulary of the development: the machine integer types, the return codes of
  src/src/lib/include/fwts_types.h, C strings and the few functions of the C library that
  the modelled sources call (a C string is its characters without the terminating NUL),
  decimal and hexadecimal rendering, and generic lemmas on lists and words.
\<close>

unbundle bit_operations_syntax

named_theorems fwts_defs "definitions unfolded by the component proofs"
named_theorems cstring "facts about the C string functions"

section \<open>Types\<close>

type_synonym u8 = "8 word"
type_synonym u16 = "16 word"
type_synonym u32 = "32 word"
type_synonym u64 = "64 word"

type_synonym cstr = "string"
type_synonym bytes = "u8 list"

subsection \<open>Return codes (fwts_types.h)\<close>

definition FWTS_OK :: int where "FWTS_OK = 0"
definition FWTS_ERROR :: int where "FWTS_ERROR = -1"
definition FWTS_SKIP :: int where "FWTS_SKIP = -2"
definition FWTS_ABORTED :: int where "FWTS_ABORTED = -3"
definition FWTS_COMPLETE :: int where "FWTS_COMPLETE = -8"

lemmas fwts_ret_defs = FWTS_OK_def FWTS_ERROR_def FWTS_SKIP_def FWTS_ABORTED_def FWTS_COMPLETE_def

section \<open>Characters\<close>

definition NL :: char where "NL = CHR 0x0A"
definition CR :: char where "CR = CHR 0x0D"
definition TAB :: char where "TAB = CHR 0x09"
definition BS :: char where "BS = CHR 0x08"
definition FF :: char where "FF = CHR 0x0C"

lemmas ctrl_char_defs = NL_def CR_def TAB_def BS_def FF_def

text \<open>isspace(), isdigit(), toupper() and tolower() of the C locale.\<close>

definition isspace :: "char \<Rightarrow> bool" where
  "isspace c \<longleftrightarrow> c = CHR 0x20 \<or> (9 \<le> (of_char c :: nat) \<and> (of_char c :: nat) \<le> 13)"

definition isdigit :: "char \<Rightarrow> bool" where
  "isdigit c \<longleftrightarrow> 48 \<le> (of_char c :: nat) \<and> (of_char c :: nat) \<le> 57"

definition toupper :: "char \<Rightarrow> char" where
  "toupper c = (if 97 \<le> (of_char c :: nat) \<and> (of_char c :: nat) \<le> 122
                then char_of (of_char c - 32 :: nat) else c)"

definition tolower :: "char \<Rightarrow> char" where
  "tolower c = (if 65 \<le> (of_char c :: nat) \<and> (of_char c :: nat) \<le> 90
                then char_of (of_char c + 32 :: nat) else c)"

lemma isspace_blank [simp]: "isspace CHR 0x20"
  by (simp add: isspace_def)

section \<open>C string functions\<close>

text \<open>strstr(): the suffix that starts at the first occurrence, NULL as None.\<close>

fun is_prefix :: "'a list \<Rightarrow> 'a list \<Rightarrow> bool" where
  "is_prefix [] ys = True"
| "is_prefix (x # xs) [] = False"
| "is_prefix (x # xs) (y # ys) = (x = y \<and> is_prefix xs ys)"

fun c_strstr :: "cstr \<Rightarrow> cstr \<Rightarrow> cstr option" where
  "c_strstr s needle =
     (if is_prefix needle s then Some s
      else case s of [] \<Rightarrow> None | _ # cs \<Rightarrow> c_strstr cs needle)"

declare c_strstr.simps [simp del]

text \<open>
  The tokens strtok() and strtok_r() return one after the other: maximal non-empty runs
  of characters that are not delimiters.
\<close>

function c_strtok :: "(char \<Rightarrow> bool) \<Rightarrow> cstr \<Rightarrow> cstr list" where
  "c_strtok dl s =
     (case dropWhile dl s of
        [] \<Rightarrow> []
      | c # cs \<Rightarrow> (c # takeWhile (\<lambda>x. \<not> dl x) cs) # c_strtok dl (dropWhile (\<lambda>x. \<not> dl x) cs))"
  by pat_completeness auto
termination
proof (relation "measure (\<lambda>(dl, s). length s)")
  fix dl :: "char \<Rightarrow> bool" and s c cs
  assume "dropWhile dl s = c # cs"
  then have "length (c # cs) \<le> length s"
    by (metis length_dropWhile_le)
  moreover have "length (dropWhile (\<lambda>x. \<not> dl x) cs) \<le> length cs"
    by (rule length_dropWhile_le)
  ultimately show "((dl, dropWhile (\<lambda>x. \<not> dl x) cs), dl, s) \<in> measure (\<lambda>(dl, s). length s)"
    by simp
qed simp

declare c_strtok.simps [simp del]

lemma c_strtok_Nil:
  assumes "dropWhile dl s = []"
  shows "c_strtok dl s = []"
  by (simp only: c_strtok.simps [of dl s] assms list.case)

lemma c_strtok_step:
  assumes "dropWhile dl s = c # cs"
  shows "c_strtok dl s = (c # takeWhile (\<lambda>x. \<not> dl x) cs) # c_strtok dl (dropWhile (\<lambda>x. \<not> dl x) cs)"
  by (simp only: c_strtok.simps [of dl s] assms list.case)

lemma c_strtok_no_delim:
  "t \<in> set (c_strtok dl s) \<Longrightarrow> t \<noteq> [] \<and> (\<forall>c \<in> set t. \<not> dl c)"
proof (induction dl s rule: c_strtok.induct)
  case (1 dl s)
  show ?case
  proof (cases "dropWhile dl s")
    case Nil
    with "1.prems" show ?thesis by (simp add: c_strtok_Nil)
  next
    case (Cons c cs)
    then have "\<not> dl c" by (simp add: dropWhile_eq_Cons_conv)
    have "t = c # takeWhile (\<lambda>x. \<not> dl x) cs \<or>
        t \<in> set (c_strtok dl (dropWhile (\<lambda>x. \<not> dl x) cs))"
      using "1.prems" unfolding c_strtok_step [OF Cons] by (simp only: set_ConsD list.set insert_iff)
    then show ?thesis
    proof
      assume "t = c # takeWhile (\<lambda>x. \<not> dl x) cs"
      with \<open>\<not> dl c\<close> show ?thesis by (auto dest: set_takeWhileD)
    next
      assume "t \<in> set (c_strtok dl (dropWhile (\<lambda>x. \<not> dl x) cs))"
      with Cons show ?thesis by (rule "1.IH")
    qed
  qed
qed

lemma c_strtok_empty [simp]: "c_strtok dl [] = []"
  by (rule c_strtok_Nil) simp

lemma c_strtok_skip:
  assumes "dl d"
  shows "c_strtok dl (d # s) = c_strtok dl s"
proof -
  have "dropWhile dl (d # s) = dropWhile dl s" using assms by simp
  then show ?thesis by (simp only: c_strtok.simps [of dl "d # s"] c_strtok.simps [of dl s])
qed

lemma c_strtok_single [cstring]:
  assumes "t \<noteq> []" and "\<forall>c \<in> set t. \<not> dl c"
  shows "c_strtok dl t = [t]"
proof -
  obtain c cs where t: "t = c # cs" using assms(1) by (cases t) auto
  have "takeWhile (\<lambda>x. \<not> dl x) cs = cs" and "dropWhile (\<lambda>x. \<not> dl x) cs = []"
    using assms t by (simp_all add: takeWhile_eq_all_conv dropWhile_eq_Nil_conv)
  moreover have "dropWhile dl t = c # cs" using assms t by simp
  ultimately show ?thesis by (simp only: c_strtok_step c_strtok_empty t)
qed

lemma c_strtok_Cons [cstring]:
  assumes "t \<noteq> []" and "\<forall>c \<in> set t. \<not> dl c" and "dl d"
  shows "c_strtok dl (t @ d # s) = t # c_strtok dl s"
proof -
  obtain c cs where t: "t = c # cs" using assms(1) by (cases t) auto
  have "takeWhile (\<lambda>x. \<not> dl x) (cs @ d # s) = cs" and "dropWhile (\<lambda>x. \<not> dl x) (cs @ d # s) = d # s"
    using assms t by (simp_all add: takeWhile_append2 dropWhile_append2)
  moreover have "dropWhile dl (t @ d # s) = c # cs @ d # s" using assms t by simp
  ultimately have "c_strtok dl (t @ d # s) = t # c_strtok dl (d # s)"
    by (simp only: c_strtok_step t)
  with assms(3) show ?thesis by (simp add: c_strtok_skip)
qed

text \<open>strrchr()/rindex(): the suffix that starts at the last occurrence.\<close>

fun c_rindex :: "cstr \<Rightarrow> char \<Rightarrow> cstr option" where
  "c_rindex [] ch = None"
| "c_rindex (c # cs) ch =
     (case c_rindex cs ch of
        Some p \<Rightarrow> Some p
      | None \<Rightarrow> if c = ch then Some (c # cs) else None)"

lemma c_rindex_suffix: "c_rindex s ch = Some p \<Longrightarrow> \<exists>pre. s = pre @ p"
proof (induction s arbitrary: p)
  case (Cons c cs)
  show ?case
  proof (cases "c_rindex cs ch")
    case None
    with Cons.prems have "c # cs = [] @ p" by (simp split: if_splits)
    then show ?thesis by blast
  next
    case (Some q)
    with Cons.prems Cons.IH obtain pre where "cs = pre @ p" by auto
    then have "c # cs = (c # pre) @ p" by simp
    then show ?thesis by blast
  qed
qed simp

lemma c_rindex_none [simp]: "c_rindex s ch = None \<longleftrightarrow> ch \<notin> set s"
  by (induction s) (auto split: option.splits)

lemma c_rindex_append [cstring]:
  "ch \<notin> set b \<Longrightarrow> c_rindex (a @ ch # b) ch = Some (ch # b)"
proof (induction a)
  case Nil
  then have "c_rindex b ch = None" by simp
  then show ?case by (simp only: append_Nil c_rindex.simps option.case if_True simp_thms)
qed simp

text \<open>strlcpy() into a buffer of the given size.\<close>

definition c_strlcpy :: "nat \<Rightarrow> cstr \<Rightarrow> cstr" where
  "c_strlcpy sz s = take (sz - 1) s"

section \<open>Numbers as text\<close>

definition digit_char :: "nat \<Rightarrow> char" where
  "digit_char d = char_of (48 + d)"

definition char_digit :: "char \<Rightarrow> nat" where
  "char_digit c = of_char c - 48"

text \<open>The rendering of the conversion \<open>%u\<close>.\<close>

fun show_nat :: "nat \<Rightarrow> cstr" where
  "show_nat n = (if n < 10 then [digit_char n] else show_nat (n div 10) @ [digit_char (n mod 10)])"

declare show_nat.simps [simp del]

text \<open>The rendering of the conversion \<open>%d\<close>.\<close>

definition show_int :: "int \<Rightarrow> cstr" where
  "show_int i = (if i < 0 then CHR ''-'' # show_nat (nat (- i)) else show_nat (nat i))"

text \<open>The value of a run of decimal digits, most significant first.\<close>

definition digits_val :: "cstr \<Rightarrow> nat" where
  "digits_val s = foldl (\<lambda>n c. 10 * n + char_digit c) 0 s"

lemma of_char_digit_char: "d < 10 \<Longrightarrow> of_char (digit_char d) = 48 + d"
  by (simp add: digit_char_def)

lemma char_digit_digit_char [simp]: "d < 10 \<Longrightarrow> char_digit (digit_char d) = d"
  by (simp add: char_digit_def of_char_digit_char)

lemma isdigit_digit_char [simp]: "d < 10 \<Longrightarrow> isdigit (digit_char d)"
  by (simp add: isdigit_def of_char_digit_char)

lemma show_nat_digits: "\<forall>c \<in> set (show_nat n). isdigit c"
proof (induction n rule: show_nat.induct)
  case (1 n)
  then show ?case by (cases "n < 10") (auto simp: show_nat.simps [of n])
qed

lemma show_nat_nonempty [simp]: "show_nat n \<noteq> []"
  by (simp add: show_nat.simps [of n])

lemma digits_val_snoc: "digits_val (s @ [c]) = 10 * digits_val s + char_digit c"
  by (simp add: digits_val_def)

lemma digits_val_show_nat [simp]: "digits_val (show_nat n) = n"
proof (induction n rule: show_nat.induct)
  case (1 n)
  show ?case
  proof (cases "n < 10")
    case True
    then show ?thesis by (simp add: show_nat.simps [of n] digits_val_def)
  next
    case False
    with "1.IH" have "digits_val (show_nat (n div 10)) = n div 10" by simp
    with False show ?thesis by (simp add: show_nat.simps [of n] digits_val_snoc)
  qed
qed

lemma show_nat_length: "n < 10 ^ k \<Longrightarrow> 0 < k \<Longrightarrow> length (show_nat n) \<le> k"
proof (induction k arbitrary: n)
  case (Suc k)
  show ?case
  proof (cases "n < 10")
    case False
    with Suc.prems have "n div 10 < 10 ^ k" and "0 < k" by (cases k; auto)+
    then have "length (show_nat (n div 10)) \<le> k" by (rule Suc.IH)
    with False show ?thesis by (simp add: show_nat.simps [of n])
  qed (simp add: show_nat.simps [of n])
qed simp

section \<open>Lists and words\<close>

lemma takeWhile_stop:
  "\<forall>x \<in> set xs. P x \<Longrightarrow> \<not> P y \<Longrightarrow> takeWhile P (xs @ y # ys) = xs"
  by (simp add: takeWhile_append2)

lemma dropWhile_stop:
  "\<forall>x \<in> set xs. P x \<Longrightarrow> \<not> P y \<Longrightarrow> dropWhile P (xs @ y # ys) = y # ys"
  by (simp add: dropWhile_append2)

lemma is_prefix_iff: "is_prefix xs ys \<longleftrightarrow> (\<exists>zs. ys = xs @ zs)"
  by (induction xs ys rule: is_prefix.induct) auto

lemma word_and_or_distrib_self [simp]: "(a OR b) AND b = (b :: 'a::len word)"
  by (auto simp: bit_eq_iff bit_simps)

lemma word_and_not_and [simp]: "(a AND NOT b) AND b = (0 :: 'a::len word)"
  by (simp add: bit_eq_iff bit_simps)

text \<open>The ranges of the word types as naturals.\<close>

lemma u8_range: "unat (w :: u8) < 256"
  using unsigned_less [of w, where 'a = nat] by simp

lemma u16_range: "unat (w :: u16) < 65536"
  using unsigned_less [of w, where 'a = nat] by simp

lemma u32_range: "unat (w :: u32) < 4294967296"
  using unsigned_less [of w, where 'a = nat] by simp

lemma u64_range: "unat (w :: u64) < 18446744073709551616"
  using unsigned_less [of w, where 'a = nat] by simp

end
