(* ===== verification/Fwts_List.thy ===== *)
theory Fwts_List
  imports Fwts_Prelude "HOL-Library.Multiset" "HOL-Library.List_Lexorder" "HOL-Library.Char_ord"
begin

text \<open>
  The singly linked list of src/src/lib/src/fwts_list.c and src/src/lib/include/fwts_list.h,
  on an explicit store of links. A pointer is a \<open>nat option\<close> (None is NULL), a list header
  is the record \<open>fwts_list\<close>, and calloc() hands out the next unused address until the
  store is full (then it returns NULL). Every operation returns an outer option: None stands
  for undefined behaviour (a NULL or dangling pointer is read) or for a walk that does not
  end. The lemmas show that neither happens on a well formed list, and that each operation
  refines its counterpart on HOL lists. The locale \<open>list_ops\<close> is the interface that the
  users of the lists rely on; it is interpreted on the store model at the end.
\<close>

section \<open>Data\<close>

record 'a lnode =
  ldata :: 'a
  lnext :: "nat option"

record 'a lheap =
  cells :: "nat \<Rightarrow> 'a lnode option"
  brk :: nat
  limit :: nat

record fwts_list =
  lhead :: "nat option"
  ltail :: "nat option"
  llen :: int

definition fwts_list_init :: fwts_list where
  "fwts_list_init = \<lparr>lhead = None, ltail = None, llen = 0\<rparr>"

definition fwts_list_len :: "fwts_list option \<Rightarrow> int" where
  "fwts_list_len lo = (case lo of None \<Rightarrow> 0 | Some l \<Rightarrow> llen l)"

definition empty_heap :: "nat \<Rightarrow> 'a lheap" where
  "empty_heap n = \<lparr>cells = (\<lambda>_. None), brk = 0, limit = n\<rparr>"

text \<open>calloc(1, sizeof(fwts_list_link)) followed by the store of the data pointer.\<close>

definition calloc_link :: "'a lheap \<Rightarrow> 'a \<Rightarrow> (nat \<times> 'a lheap) option" where
  "calloc_link h d =
     (if brk h < limit h
      then Some (brk h, h\<lparr>cells := (cells h)(brk h \<mapsto> \<lparr>ldata = d, lnext = None\<rparr>), brk := Suc (brk h)\<rparr>)
      else None)"

section \<open>Operations\<close>

definition fwts_list_append ::
    "'a lheap \<Rightarrow> fwts_list option \<Rightarrow> 'a \<Rightarrow> ('a lheap \<times> fwts_list option \<times> nat option) option" where
  "fwts_list_append h lo d =
     (case lo of
        None \<Rightarrow> Some (h, None, None)
      | Some l \<Rightarrow>
          (case calloc_link h d of
             None \<Rightarrow> Some (h, Some l, None)
           | Some (a, h1) \<Rightarrow>
               (case lhead l of
                  Some _ \<Rightarrow>
                    (case ltail l of
                       None \<Rightarrow> None
                     | Some t \<Rightarrow>
                         (case cells h1 t of
                            None \<Rightarrow> None
                          | Some nd \<Rightarrow>
                              Some (h1\<lparr>cells := (cells h1)(t \<mapsto> nd\<lparr>lnext := Some a\<rparr>)\<rparr>,
                                    Some (l\<lparr>ltail := Some a, llen := llen l + 1\<rparr>), Some a)))
                | None \<Rightarrow>
                    Some (h1, Some (l\<lparr>lhead := Some a, ltail := Some a, llen := llen l + 1\<rparr>), Some a))))"

text \<open>
  fwts_list_add_ordered() walks a pointer to a pointer: either the head field of the list or
  the next field of a link.
\<close>

datatype lslot = SHead | SNext nat

definition slot_get :: "'a lheap \<Rightarrow> fwts_list \<Rightarrow> lslot \<Rightarrow> nat option option" where
  "slot_get h l s =
     (case s of SHead \<Rightarrow> Some (lhead l) | SNext i \<Rightarrow> map_option lnext (cells h i))"

definition slot_set :: "'a lheap \<Rightarrow> fwts_list \<Rightarrow> lslot \<Rightarrow> nat option \<Rightarrow> ('a lheap \<times> fwts_list) option" where
  "slot_set h l s p =
     (case s of
        SHead \<Rightarrow> Some (h, l\<lparr>lhead := p\<rparr>)
      | SNext i \<Rightarrow>
          (case cells h i of
             None \<Rightarrow> None
           | Some nd \<Rightarrow> Some (h\<lparr>cells := (cells h)(i \<mapsto> nd\<lparr>lnext := p\<rparr>)\<rparr>, l)))"

partial_function (option) ordered_slot ::
    "'a lheap \<Rightarrow> fwts_list \<Rightarrow> ('a \<Rightarrow> 'a \<Rightarrow> int) \<Rightarrow> 'a \<Rightarrow> lslot \<Rightarrow> (lslot \<times> nat option) option" where
  "ordered_slot h l cmp d s =
     (case slot_get h l s of
        None \<Rightarrow> None
      | Some None \<Rightarrow> Some (s, None)
      | Some (Some i) \<Rightarrow>
          (case cells h i of
             None \<Rightarrow> None
           | Some nd \<Rightarrow>
               if 0 \<le> cmp (ldata nd) d then Some (s, Some i)
               else ordered_slot h l cmp d (SNext i)))"

definition fwts_list_add_ordered ::
    "'a lheap \<Rightarrow> fwts_list \<Rightarrow> 'a \<Rightarrow> ('a \<Rightarrow> 'a \<Rightarrow> int) \<Rightarrow> ('a lheap \<times> fwts_list \<times> nat option) option" where
  "fwts_list_add_ordered h l d cmp =
     (case calloc_link h d of
        None \<Rightarrow> Some (h, l, None)
      | Some (a, h1) \<Rightarrow>
          (case ordered_slot h1 l cmp d SHead of
             None \<Rightarrow> None
           | Some (s, nx) \<Rightarrow>
               (let h2 = h1\<lparr>cells := (cells h1)(a \<mapsto> \<lparr>ldata = d, lnext = nx\<rparr>)\<rparr>;
                    l2 = (if nx = None then l\<lparr>ltail := Some a\<rparr> else l)
                in case slot_set h2 l2 s (Some a) of
                     None \<Rightarrow> None
                   | Some (h3, l3) \<Rightarrow> Some (h3, l3\<lparr>llen := llen l3 + 1\<rparr>, Some a))))"

text \<open>
  fwts_list_foreach and fwts_list_iterate(): the data of the links from a pointer on, in
  order.
\<close>

partial_function (option) list_walk :: "'a lheap \<Rightarrow> nat option \<Rightarrow> 'a list option" where
  "list_walk h p =
     (case p of
        None \<Rightarrow> Some []
      | Some i \<Rightarrow>
          (case cells h i of
             None \<Rightarrow> None
           | Some nd \<Rightarrow> Option.bind (list_walk h (lnext nd)) (\<lambda>xs. Some (ldata nd # xs))))"

definition fwts_list_iterate :: "'a lheap \<Rightarrow> fwts_list option \<Rightarrow> ('a \<Rightarrow> 'p \<Rightarrow> 'p) \<Rightarrow> 'p \<Rightarrow> 'p option" where
  "fwts_list_iterate h lo callback private =
     (case lo of
        None \<Rightarrow> Some private
      | Some l \<Rightarrow> map_option (\<lambda>xs. fold callback xs private) (list_walk h (lhead l)))"

text \<open>
  fwts_list_free_items(): next is read before the link is freed. The result is the store
  without the links and the data that went to data_free, in order; the header is untouched.
\<close>

partial_function (option) free_links :: "'a lheap \<Rightarrow> nat option \<Rightarrow> ('a lheap \<times> 'a list) option" where
  "free_links h p =
     (case p of
        None \<Rightarrow> Some (h, [])
      | Some i \<Rightarrow>
          (case cells h i of
             None \<Rightarrow> None
           | Some nd \<Rightarrow>
               Option.bind (free_links (h\<lparr>cells := (cells h)(i := None)\<rparr>) (lnext nd))
                 (\<lambda>(h', ds). Some (h', ldata nd # ds))))"

definition fwts_list_free_items :: "'a lheap \<Rightarrow> fwts_list option \<Rightarrow> ('a lheap \<times> 'a list) option" where
  "fwts_list_free_items h lo = (case lo of None \<Rightarrow> Some (h, []) | Some l \<Rightarrow> free_links h (lhead l))"

section \<open>Representation\<close>

text \<open>The links from p to q, with their addresses and data.\<close>

fun lseg :: "(nat \<Rightarrow> 'a lnode option) \<Rightarrow> nat option \<Rightarrow> (nat \<times> 'a) list \<Rightarrow> nat option \<Rightarrow> bool" where
  "lseg c p [] q \<longleftrightarrow> p = q"
| "lseg c p (ax # ps) q \<longleftrightarrow>
     p = Some (fst ax) \<and> (\<exists>n. c (fst ax) = Some \<lparr>ldata = snd ax, lnext = n\<rparr> \<and> lseg c n ps q)"

definition heap_ok :: "'a lheap \<Rightarrow> bool" where
  "heap_ok h \<longleftrightarrow> (\<forall>a \<ge> brk h. cells h a = None)"

definition list_rep :: "'a lheap \<Rightarrow> fwts_list \<Rightarrow> (nat \<times> 'a) list \<Rightarrow> bool" where
  "list_rep h l ps \<longleftrightarrow>
     heap_ok h \<and> lseg (cells h) (lhead l) ps None \<and> distinct (map fst ps) \<and>
     ltail l = (if ps = [] then None else Some (fst (last ps))) \<and> llen l = int (length ps)"

text \<open>The effect of the ordered insertion on the contents.\<close>

definition ins_ordered :: "('a \<Rightarrow> 'a \<Rightarrow> int) \<Rightarrow> 'a \<Rightarrow> 'a list \<Rightarrow> 'a list" where
  "ins_ordered cmp d xs = takeWhile (\<lambda>x. cmp x d < 0) xs @ d # dropWhile (\<lambda>x. cmp x d < 0) xs"

lemma lseg_append [simp]:
  "lseg c p (ps @ qs) q \<longleftrightarrow> (\<exists>m. lseg c p ps m \<and> lseg c m qs q)"
  by (induction ps arbitrary: p) auto

lemma lseg_upd [simp]:
  "a \<notin> fst ` set ps \<Longrightarrow> lseg (c(a := v)) p ps q = lseg c p ps q"
  by (induction ps arbitrary: p) auto

lemma lseg_dom: "lseg c p ps q \<Longrightarrow> ax \<in> set ps \<Longrightarrow> c (fst ax) \<noteq> None"
  by (induction ps arbitrary: p) auto

lemma lseg_Some_iff:
  "lseg c (Some a) ps None \<longleftrightarrow>
     (\<exists>x n qs. ps = (a, x) # qs \<and> c a = Some \<lparr>ldata = x, lnext = n\<rparr> \<and> lseg c n qs None)"
  by (cases ps) auto

lemma heap_ok_fresh: "heap_ok h \<Longrightarrow> lseg (cells h) p ps q \<Longrightarrow> brk h \<notin> fst ` set ps"
  by (auto simp: heap_ok_def dest!: lseg_dom)

lemma list_walk_lseg: "lseg (cells h) p ps None \<Longrightarrow> list_walk h p = Some (map snd ps)"
  by (induction ps arbitrary: p) (auto simp: list_walk.simps [of h])

lemma list_rep_init [simp]: "list_rep (empty_heap n) fwts_list_init []"
  by (simp add: list_rep_def heap_ok_def empty_heap_def fwts_list_init_def)


section \<open>Refinement of each operation\<close>

lemma list_rep_head_None: "list_rep h l ps \<Longrightarrow> lhead l = None \<longleftrightarrow> ps = []"
  by (cases ps) (auto simp: list_rep_def)

lemma append_empty:
  assumes "list_rep h l []" and "brk h < limit h"
  shows "\<exists>h' l'. fwts_list_append h (Some l) d = Some (h', Some l', Some (brk h)) \<and>
           list_rep h' l' [(brk h, d)]"
  using assms
  by (auto simp: fwts_list_append_def calloc_link_def list_rep_def heap_ok_def)

lemma append_snoc:
  assumes rep: "list_rep h l (ps @ [(t, x)])" and room: "brk h < limit h"
  shows "\<exists>h' l'. fwts_list_append h (Some l) d = Some (h', Some l', Some (brk h)) \<and>
           list_rep h' l' (ps @ [(t, x), (brk h, d)])"
proof -
  have seg: "lseg (cells h) (lhead l) (ps @ [(t, x)]) None" and ok: "heap_ok h"
    and tl: "ltail l = Some t" using rep by (auto simp: list_rep_def)
  have t: "cells h t = Some \<lparr>ldata = x, lnext = None\<rparr>" using seg by auto
  have fresh: "brk h \<notin> fst ` set (ps @ [(t, x)])" using ok seg by (rule heap_ok_fresh)
  have hd: "lhead l \<noteq> None" using list_rep_head_None [OF rep] by simp
  show ?thesis
    using rep hd tl t fresh room
    by (auto simp: fwts_list_append_def calloc_link_def list_rep_def heap_ok_def)
qed

theorem append_refines:
  assumes "list_rep h l ps" and "brk h < limit h"
  shows "\<exists>h' l'. fwts_list_append h (Some l) d = Some (h', Some l', Some (brk h)) \<and>
           list_rep h' l' (ps @ [(brk h, d)])"
proof (cases ps rule: rev_cases)
  case Nil
  with assms append_empty [of h l d] show ?thesis by auto
next
  case (snoc qs tx)
  with assms append_snoc [of h l qs "fst tx" "snd tx" d] show ?thesis by simp
qed

lemma append_no_memory:
  "\<not> brk h < limit h \<Longrightarrow> fwts_list_append h (Some l) d = Some (h, Some l, None)"
  by (simp add: fwts_list_append_def calloc_link_def)

text \<open>The slot in front of the remaining links: the head field or the last link passed.\<close>

definition slot_of :: "(nat \<times> 'a) list \<Rightarrow> lslot" where
  "slot_of ps = (if ps = [] then SHead else SNext (fst (last ps)))"

lemma slot_get_slot_of:
  assumes "lseg (cells h) (lhead l) (ps @ qs) None"
  shows "slot_get h l (slot_of ps) = Some (case qs of [] \<Rightarrow> None | q # _ \<Rightarrow> Some (fst q))"
  using assms
  by (cases ps rule: rev_cases; cases qs) (auto simp: slot_get_def slot_of_def)

lemma ordered_slot_walk:
  assumes "lseg (cells h) (lhead l) (ps @ qs) None"
  shows "ordered_slot h l cmp d (slot_of ps) =
     Some (slot_of (ps @ takeWhile (\<lambda>q. cmp (snd q) d < 0) qs),
           case dropWhile (\<lambda>q. cmp (snd q) d < 0) qs of [] \<Rightarrow> None | q # _ \<Rightarrow> Some (fst q))"
  using assms
proof (induction qs arbitrary: ps)
  case Nil
  then show ?case using slot_get_slot_of [OF Nil]
    by (simp add: ordered_slot.simps [of h l cmp d "slot_of ps"])
next
  case (Cons q qs)
  have get: "slot_get h l (slot_of ps) = Some (Some (fst q))"
    using slot_get_slot_of [OF Cons.prems] by simp
  obtain n where cell: "cells h (fst q) = Some \<lparr>ldata = snd q, lnext = n\<rparr>"
    using Cons.prems by auto
  have "ordered_slot h l cmp d (slot_of (ps @ [q])) =
     Some (slot_of ((ps @ [q]) @ takeWhile (\<lambda>q. cmp (snd q) d < 0) qs),
           case dropWhile (\<lambda>q. cmp (snd q) d < 0) qs of [] \<Rightarrow> None | q # _ \<Rightarrow> Some (fst q))"
    using Cons.prems by (intro Cons.IH) simp
  moreover have "slot_of (ps @ [q]) = SNext (fst q)" by (simp add: slot_of_def)
  ultimately show ?case using get cell
    by (simp add: ordered_slot.simps [of h l cmp d "slot_of ps"])
qed

lemma slot_set_lseg:
  assumes "lseg (cells h) (lhead l) ps m" and "distinct (map fst ps)"
  shows "\<exists>h' l'. slot_set h l (slot_of ps) p = Some (h', l') \<and>
     lseg (cells h') (lhead l') ps p \<and> ltail l' = ltail l \<and> llen l' = llen l \<and>
     brk h' = brk h \<and> limit h' = limit h \<and>
     (\<forall>a. a \<notin> fst ` set ps \<longrightarrow> cells h' a = cells h a)"
proof (cases ps rule: rev_cases)
  case Nil
  with assms show ?thesis by (simp add: slot_set_def slot_of_def)
next
  case (snoc qs q)
  with assms show ?thesis by (auto simp: slot_set_def slot_of_def)
qed

lemma lseg_cong:
  "(\<And>a. a \<in> fst ` set ps \<Longrightarrow> c a = c' a) \<Longrightarrow> lseg c p ps q = lseg c' p ps q"
  by (induction ps arbitrary: p) auto

theorem add_ordered_refines:
  assumes rep: "list_rep h l (ps @ qs)" and room: "brk h < limit h"
    and ps: "\<forall>p \<in> set ps. cmp (snd p) d < 0"
    and qs: "qs = [] \<or> 0 \<le> cmp (snd (hd qs)) d"
  shows "\<exists>h' l'. fwts_list_add_ordered h l d cmp = Some (h', l', Some (brk h)) \<and>
           list_rep h' l' (ps @ (brk h, d) # qs) \<and> brk h' = Suc (brk h) \<and> limit h' = limit h"
proof -
  let ?a = "brk h"
  let ?nx = "case qs of [] \<Rightarrow> None | q # _ \<Rightarrow> Some (fst q)"
  define h1 where "h1 = h\<lparr>cells := (cells h)(?a \<mapsto> \<lparr>ldata = d, lnext = None\<rparr>), brk := Suc ?a\<rparr>"
  define h2 where "h2 = h1\<lparr>cells := (cells h1)(?a \<mapsto> \<lparr>ldata = d, lnext = ?nx\<rparr>)\<rparr>"
  define l2 where "l2 = (if ?nx = None then l\<lparr>ltail := Some ?a\<rparr> else l)"
  have seg: "lseg (cells h) (lhead l) (ps @ qs) None" and ok: "heap_ok h"
    and dist: "distinct (map fst (ps @ qs))" and len: "llen l = int (length (ps @ qs))"
    and tl: "ltail l = (if ps @ qs = [] then None else Some (fst (last (ps @ qs))))"
    using rep by (auto simp: list_rep_def)
  have fresh: "?a \<notin> fst ` set (ps @ qs)" using ok seg by (rule heap_ok_fresh)
  then have fps: "?a \<notin> fst ` set ps" and fqs: "?a \<notin> fst ` set qs" by auto
  have seg1: "lseg (cells h1) (lhead l) ([] @ ps @ qs) None"
    using seg fps fqs unfolding h1_def by auto
  have tw: "takeWhile (\<lambda>q. cmp (snd q) d < 0) (ps @ qs) = ps"
    and dw: "dropWhile (\<lambda>q. cmp (snd q) d < 0) (ps @ qs) = qs"
    using ps qs by (cases qs; simp add: takeWhile_append2 dropWhile_append2)+
  have walk: "ordered_slot h1 l cmp d SHead = Some (slot_of ps, ?nx)"
    using ordered_slot_walk [OF seg1, of cmp d] unfolding tw dw by (simp add: slot_of_def)
  have seg2: "lseg (cells h2) (lhead l2) ps ?nx" and segq: "lseg (cells h2) ?nx qs None"
    using seg fps fqs unfolding h2_def h1_def l2_def by (cases qs; auto)+
  have dps: "distinct (map fst ps)" using dist by simp
  obtain h3 l3 where set3: "slot_set h2 l2 (slot_of ps) (Some ?a) = Some (h3, l3)"
    and seg3: "lseg (cells h3) (lhead l3) ps (Some ?a)" and t3: "ltail l3 = ltail l2"
    and n3: "llen l3 = llen l2" and b3: "brk h3 = brk h2" and m3: "limit h3 = limit h2"
    and frame: "\<forall>a. a \<notin> fst ` set ps \<longrightarrow> cells h3 a = cells h2 a"
    using slot_set_lseg [OF seg2 dps, of "Some ?a"] by blast
  have cella: "cells h3 ?a = Some \<lparr>ldata = d, lnext = ?nx\<rparr>"
    using frame fps by (simp add: h2_def)
  have segq3: "lseg (cells h3) ?nx qs None"
  proof -
    have "cells h2 a = cells h3 a" if "a \<in> fst ` set qs" for a
    proof -
      have "a \<notin> fst ` set ps" using dist that by auto
      then show ?thesis using frame by simp
    qed
    with segq show ?thesis using lseg_cong by metis
  qed
  have ok3: "heap_ok h3"
    unfolding heap_ok_def
  proof (intro allI impI)
    fix a assume "brk h3 \<le> a"
    then have big: "Suc ?a \<le> a" using b3 by (simp add: h2_def h1_def)
    then have none: "cells h a = None" using ok by (simp add: heap_ok_def)
    have "a \<notin> fst ` set ps"
      using lseg_dom [OF seg] none by (metis (no_types, lifting) Un_iff image_iff set_append)
    then show "cells h3 a = None" using frame none big by (simp add: h2_def h1_def)
  qed
  have "list_rep h3 (l3\<lparr>llen := llen l3 + 1\<rparr>) (ps @ (?a, d) # qs)"
    unfolding list_rep_def
    using ok3 seg3 cella segq3 dist fresh t3 n3 tl len
    by (auto simp: l2_def split: list.splits)
  moreover have "fwts_list_add_ordered h l d cmp =
      Some (h3, l3\<lparr>llen := llen l3 + 1\<rparr>, Some ?a)"
    using room walk set3
    unfolding fwts_list_add_ordered_def calloc_link_def h1_def h2_def l2_def
    by (simp add: Let_def)
  moreover have "brk h3 = Suc ?a" and "limit h3 = limit h"
    using b3 m3 by (simp_all add: h2_def h1_def)
  ultimately show ?thesis by blast
qed

lemma list_rep_snoc_brk:
  "list_rep h l ps \<Longrightarrow> brk h < limit h \<Longrightarrow>
   \<exists>h' l'. fwts_list_append h (Some l) d = Some (h', Some l', Some (brk h)) \<and>
     list_rep h' l' (ps @ [(brk h, d)]) \<and> brk h' = Suc (brk h) \<and> limit h' = limit h"
  using append_refines [of h l ps d]
  by (fastforce simp: fwts_list_append_def calloc_link_def split: option.splits)

lemma ins_ordered_map_snd:
  "map snd (takeWhile (\<lambda>q. cmp (snd q) d < 0) ps @ (a, d) # dropWhile (\<lambda>q. cmp (snd q) d < 0) ps)
     = ins_ordered cmp d (map snd ps)"
  by (simp add: ins_ordered_def takeWhile_map dropWhile_map comp_def)

lemma add_ordered_ins_ordered:
  assumes "list_rep h l ps" and "brk h < limit h"
  shows "\<exists>h' l' ps'. fwts_list_add_ordered h l d cmp = Some (h', l', Some (brk h)) \<and>
           list_rep h' l' ps' \<and> map snd ps' = ins_ordered cmp d (map snd ps) \<and>
           brk h' = Suc (brk h) \<and> limit h' = limit h"
proof -
  let ?P = "\<lambda>q. cmp (snd q) d < 0"
  have "dropWhile ?P ps = [] \<or> 0 \<le> cmp (snd (hd (dropWhile ?P ps))) d"
    using hd_dropWhile [of ?P ps] by fastforce
  then show ?thesis
    using add_ordered_refines [of h l "takeWhile ?P ps" "dropWhile ?P ps" cmp d] assms
    by (fastforce dest: set_takeWhileD simp flip: ins_ordered_map_snd [of cmp d ps "brk h"])
qed

lemma free_links_lseg:
  assumes "lseg (cells h) p ps None" and "distinct (map fst ps)"
  shows "\<exists>h'. free_links h p = Some (h', map snd ps) \<and>
           (\<forall>a. cells h' a = (if a \<in> fst ` set ps then None else cells h a))"
  using assms
proof (induction ps arbitrary: h p)
  case Nil
  then show ?case by (simp add: free_links.simps [of h])
next
  case (Cons q ps)
  then obtain n where p: "p = Some (fst q)" and cell: "cells h (fst q) = Some \<lparr>ldata = snd q, lnext = n\<rparr>"
    and seg: "lseg (cells h) n ps None" by auto
  let ?h = "h\<lparr>cells := (cells h)(fst q := None)\<rparr>"
  have "lseg (cells ?h) n ps None" and "distinct (map fst ps)"
    using seg Cons.prems by auto
  then obtain h' where "free_links ?h n = Some (h', map snd ps)"
    and "\<forall>a. cells h' a = (if a \<in> fst ` set ps then None else cells ?h a)"
    using Cons.IH by blast
  then show ?case using p cell by (simp add: free_links.simps [of h])
qed

section \<open>The interface of the lists\<close>

locale list_ops =
  fixes empty :: "'s"
    and append :: "'s \<Rightarrow> 'a \<Rightarrow> 's"
    and add_ordered :: "('a \<Rightarrow> 'a \<Rightarrow> int) \<Rightarrow> 's \<Rightarrow> 'a \<Rightarrow> 's"
    and items :: "'s \<Rightarrow> 'a list"
    and len :: "'s \<Rightarrow> int"
    and room :: "'s \<Rightarrow> nat"
    and invar :: "'s \<Rightarrow> bool"
  assumes invar_empty: "invar empty"
    and items_empty: "items empty = []"
    and items_append: "invar s \<Longrightarrow> 0 < room s \<Longrightarrow> items (append s d) = items s @ [d]"
    and invar_append: "invar s \<Longrightarrow> 0 < room s \<Longrightarrow> invar (append s d)"
    and room_append: "invar s \<Longrightarrow> 0 < room s \<Longrightarrow> room (append s d) = room s - 1"
    and items_add: "invar s \<Longrightarrow> 0 < room s \<Longrightarrow> items (add_ordered cmp s d) = ins_ordered cmp d (items s)"
    and invar_add: "invar s \<Longrightarrow> 0 < room s \<Longrightarrow> invar (add_ordered cmp s d)"
    and room_add: "invar s \<Longrightarrow> 0 < room s \<Longrightarrow> room (add_ordered cmp s d) = room s - 1"
    and len_items: "invar s \<Longrightarrow> len s = int (length (items s))"
begin

lemma items_fold_append:
  "invar s \<Longrightarrow> length ds \<le> room s \<Longrightarrow>
   items (fold (\<lambda>d s. append s d) ds s) = items s @ ds \<and> invar (fold (\<lambda>d s. append s d) ds s)"
proof (induction ds arbitrary: s)
  case (Cons d ds)
  then have "0 < room s" by auto
  with Cons.prems Cons.IH [of "append s d"] show ?case
    by (simp add: items_append invar_append room_append)
qed simp

lemma items_fold_add:
  "invar s \<Longrightarrow> length ds \<le> room s \<Longrightarrow>
   items (fold (\<lambda>d s. add_ordered cmp s d) ds s) = fold (ins_ordered cmp) ds (items s) \<and>
   invar (fold (\<lambda>d s. add_ordered cmp s d) ds s)"
proof (induction ds arbitrary: s)
  case (Cons d ds)
  then have "0 < room s" by auto
  with Cons.prems Cons.IH [of "add_ordered cmp s d"] show ?case
    by (simp add: items_add invar_add room_add)
qed simp

lemma len_fold_add:
  "invar s \<Longrightarrow> length ds \<le> room s \<Longrightarrow>
   len (fold (\<lambda>d s. add_ordered cmp s d) ds s) = int (length (fold (ins_ordered cmp) ds (items s)))"
  using items_fold_add [of s ds cmp] by (simp add: len_items)

end

text \<open>The store model as an implementation: a store together with one list header.\<close>

type_synonym 'a hlist = "'a lheap \<times> fwts_list"

definition hl_empty :: "nat \<Rightarrow> 'a hlist" where
  "hl_empty n = (empty_heap n, fwts_list_init)"

definition hl_append :: "'a hlist \<Rightarrow> 'a \<Rightarrow> 'a hlist" where
  "hl_append s d =
     (case fwts_list_append (fst s) (Some (snd s)) d of Some (h, Some l, _) \<Rightarrow> (h, l) | _ \<Rightarrow> s)"

definition hl_add_ordered :: "('a \<Rightarrow> 'a \<Rightarrow> int) \<Rightarrow> 'a hlist \<Rightarrow> 'a \<Rightarrow> 'a hlist" where
  "hl_add_ordered cmp s d =
     (case fwts_list_add_ordered (fst s) (snd s) d cmp of Some (h, l, _) \<Rightarrow> (h, l) | None \<Rightarrow> s)"

definition hl_items :: "'a hlist \<Rightarrow> 'a list" where
  "hl_items s = (case list_walk (fst s) (lhead (snd s)) of Some xs \<Rightarrow> xs | None \<Rightarrow> [])"

definition hl_room :: "'a hlist \<Rightarrow> nat" where
  "hl_room s = limit (fst s) - brk (fst s)"

definition hl_invar :: "'a hlist \<Rightarrow> bool" where
  "hl_invar s \<longleftrightarrow> (\<exists>ps. list_rep (fst s) (snd s) ps)"

lemma hl_items_rep: "list_rep (fst s) (snd s) ps \<Longrightarrow> hl_items s = map snd ps"
  using list_walk_lseg [of "fst s" "lhead (snd s)" ps] by (simp add: hl_items_def list_rep_def)

lemma hl_append_rep:
  assumes "hl_invar s" and "0 < hl_room s"
  shows "hl_items (hl_append s d) = hl_items s @ [d] \<and> hl_invar (hl_append s d) \<and>
         hl_room (hl_append s d) = hl_room s - 1"
proof -
  obtain ps where rep: "list_rep (fst s) (snd s) ps" using assms(1) by (auto simp: hl_invar_def)
  have "brk (fst s) < limit (fst s)" using assms(2) by (simp add: hl_room_def)
  from list_rep_snoc_brk [OF rep this, of d] obtain h' l'
    where app: "hl_append s d = (h', l')" and rep': "list_rep h' l' (ps @ [(brk (fst s), d)])"
      and b: "brk h' = Suc (brk (fst s))" "limit h' = limit (fst s)"
    by (auto simp: hl_append_def)
  then show ?thesis
    using hl_items_rep [OF rep] hl_items_rep [of "(h', l')" "ps @ [(brk (fst s), d)]"]
    by (auto simp: hl_room_def hl_invar_def)
qed

lemma hl_add_ordered_rep:
  assumes "hl_invar s" and "0 < hl_room s"
  shows "hl_items (hl_add_ordered cmp s d) = ins_ordered cmp d (hl_items s) \<and>
         hl_invar (hl_add_ordered cmp s d) \<and> hl_room (hl_add_ordered cmp s d) = hl_room s - 1"
proof -
  obtain ps where rep: "list_rep (fst s) (snd s) ps" using assms(1) by (auto simp: hl_invar_def)
  have "brk (fst s) < limit (fst s)" using assms(2) by (simp add: hl_room_def)
  from add_ordered_ins_ordered [OF rep this, of d cmp] obtain h' l' ps'
    where add: "hl_add_ordered cmp s d = (h', l')" and rep': "list_rep h' l' ps'"
      and m: "map snd ps' = ins_ordered cmp d (map snd ps)"
      and b: "brk h' = Suc (brk (fst s))" "limit h' = limit (fst s)"
    by (auto simp: hl_add_ordered_def)
  then show ?thesis
    using hl_items_rep [OF rep] hl_items_rep [of "(h', l')" ps']
    by (auto simp: hl_room_def hl_invar_def)
qed

interpretation hl: list_ops "hl_empty n" hl_append hl_add_ordered hl_items
  "\<lambda>s. fwts_list_len (Some (snd s))" hl_room hl_invar
proof unfold_locales
  show "hl_invar (hl_empty n)" and "hl_items (hl_empty n) = []"
    using hl_items_rep [of "hl_empty n" "[]"]
    by (auto simp: hl_invar_def hl_empty_def intro: exI [of _ "[]"])
next
  fix s :: "'a hlist"
  assume "hl_invar s"
  then show "fwts_list_len (Some (snd s)) = int (length (hl_items s))"
    by (auto simp: hl_invar_def hl_items_rep fwts_list_len_def) (simp add: list_rep_def)
qed (simp_all add: hl_append_rep hl_add_ordered_rep)

section \<open>Lists kept in order by a key\<close>

text \<open>
  Where the comparison orders the data by a key, lists built with add_ordered alone are
  sorted by it and hold exactly what was added; equal keys are in reverse order of arrival.
\<close>

lemma ins_ordered_mset [simp]: "mset (ins_ordered cmp d xs) = add_mset d (mset xs)"
proof -
  have "mset (takeWhile (\<lambda>x. cmp x d < 0) xs) + mset (dropWhile (\<lambda>x. cmp x d < 0) xs) = mset xs"
    by (metis mset_append takeWhile_dropWhile_id)
  then show ?thesis by (simp add: ins_ordered_def)
qed

lemma ins_ordered_length [simp]: "length (ins_ordered cmp d xs) = Suc (length xs)"
  by (metis ins_ordered_mset size_add_mset size_mset)

lemma ins_ordered_set [simp]: "set (ins_ordered cmp d xs) = insert d (set xs)"
  by (metis ins_ordered_mset set_mset_add_mset_insert set_mset_mset)

lemma fold_ins_ordered_mset:
  "mset (fold (ins_ordered cmp) ds xs) = mset ds + mset xs"
  by (induction ds arbitrary: xs) simp_all

lemma fold_ins_ordered_set [simp]:
  "set (fold (ins_ordered cmp) ds xs) = set ds \<union> set xs"
  by (induction ds arbitrary: xs) auto

lemma ins_ordered_sorted:
  fixes key :: "'a \<Rightarrow> 'k :: linorder"
  assumes "\<And>x y. cmp x y < 0 \<longleftrightarrow> key x < key y" and "sorted (map key xs)"
  shows "sorted (map key (ins_ordered cmp d xs))"
  using assms(2)
proof (induction xs)
  case (Cons x xs)
  then show ?case
    by (cases "key x < key d")
      (auto simp: ins_ordered_def assms(1) dest!: set_takeWhileD set_dropWhileD)
qed (simp add: ins_ordered_def)

lemma ins_ordered_before_equals:
  fixes key :: "'a \<Rightarrow> 'k :: linorder"
  assumes "\<And>x y. cmp x y < 0 \<longleftrightarrow> key x < key y" and "sorted (map key xs)"
  shows "filter (\<lambda>x. key x = key d) (ins_ordered cmp d xs) = d # filter (\<lambda>x. key x = key d) xs"
  using assms(2)
  by (induction xs) (auto simp: ins_ordered_def assms(1) filter_empty_conv)

locale keyed_lists = list_ops empty append add_ordered items len room invar
  for empty :: "'s"
    and append :: "'s \<Rightarrow> 'a \<Rightarrow> 's"
    and add_ordered :: "('a \<Rightarrow> 'a \<Rightarrow> int) \<Rightarrow> 's \<Rightarrow> 'a \<Rightarrow> 's"
    and items :: "'s \<Rightarrow> 'a list"
    and len :: "'s \<Rightarrow> int"
    and room :: "'s \<Rightarrow> nat"
    and invar :: "'s \<Rightarrow> bool" +
  fixes cmp :: "'a \<Rightarrow> 'a \<Rightarrow> int"
    and key :: "'a \<Rightarrow> 'k :: linorder"
  assumes cmp_key: "cmp x y < 0 \<longleftrightarrow> key x < key y"
begin

lemma registry_sorted:
  assumes "length ds \<le> room empty"
  shows "sorted (map key (items (fold (\<lambda>d s. add_ordered cmp s d) ds empty)))"
proof -
  have "sorted (map key (fold (ins_ordered cmp) ds xs))" if "sorted (map key xs)" for xs
    using that by (induction ds arbitrary: xs) (simp_all add: ins_ordered_sorted [where key = key, OF cmp_key])
  with assms show ?thesis using items_fold_add [OF invar_empty assms, of cmp] by (simp add: items_empty)
qed

lemma registry_mset:
  "length ds \<le> room empty \<Longrightarrow>
   mset (items (fold (\<lambda>d s. add_ordered cmp s d) ds empty)) = mset ds"
  using items_fold_add [OF invar_empty, of ds cmp] by (simp add: items_empty fold_ins_ordered_mset)

end

end
