(* ===== verification/Fwts_Strings.thy ===== *)
theory Fwts_Strings
  imports Fwts_List
begin

text \<open>
  The string helpers of src/src/lib/src: fwts_stringextras.c, fwts_text_list.c,
  fwts_formatting.c, fwts_guid.c, fwts_checksum.c and fwts_args_comma_list() of fwts_args.c.
  Where a function reports a failed allocation, the model takes the allocator's answer as a
  predicate \<open>mem\<close> on the requested size.
\<close>

section \<open>Comparison\<close>

text \<open>strcmp(): the difference of the first characters that differ (as unsigned char).\<close>

fun strcmp :: "cstr \<Rightarrow> cstr \<Rightarrow> int" where
  "strcmp [] [] = 0"
| "strcmp [] (b # bs) = - int (of_char b) - 1"
| "strcmp (a # as) [] = int (of_char a) + 1"
| "strcmp (a # as) (b # bs) =
     (if a = b then strcmp as bs else int (of_char a) - int (of_char b))"

lemma strcmp_eq_0 [simp]: "strcmp a b = 0 \<longleftrightarrow> a = b"
  by (induction a b rule: strcmp.induct) auto

lemma strcmp_less: "strcmp a b < 0 \<longleftrightarrow> a < b"
  by (induction a b rule: strcmp.induct) (auto simp: less_char_def)

section \<open>fwts_stringextras.c\<close>

fun chop_while :: "char \<Rightarrow> cstr \<Rightarrow> cstr" where
  "chop_while c s = (if s \<noteq> [] \<and> last s = c then chop_while c (butlast s) else s)"

declare chop_while.simps [simp del]

definition fwts_chop_newline :: "cstr \<Rightarrow> cstr" where
  "fwts_chop_newline str = chop_while CR (chop_while CHR '' '' (chop_while NL str))"

definition fwts_realloc_strcat :: "(nat \<Rightarrow> bool) \<Rightarrow> cstr option \<Rightarrow> cstr \<Rightarrow> cstr option" where
  "fwts_realloc_strcat mem orig newstr =
     (case orig of
        Some s \<Rightarrow> if mem (length s + length newstr + 1) then Some (s @ newstr) else None
      | None \<Rightarrow> if mem (length newstr + 1) then Some newstr else None)"

definition fwts_string_endswith :: "cstr \<Rightarrow> cstr \<Rightarrow> cstr option" where
  "fwts_string_endswith str postfix =
     (let sl = length str; pl = length postfix
      in if pl = 0 then Some (drop sl str)
         else if sl < pl then None
         else if drop (sl - pl) str \<noteq> postfix then None
         else Some (drop (sl - pl) str))"

lemma chop_while_snoc [simp]:
  "chop_while c (s @ [d]) = (if c = d then chop_while c s else s @ [d])"
  by (auto simp: chop_while.simps [of c "s @ [d]"])

lemma chop_while_Nil [simp]: "chop_while c [] = []"
  by (simp add: chop_while.simps)

lemma chop_while_split: "\<exists>n. s = chop_while c s @ replicate n c"
proof (induction s rule: rev_induct)
  case (snoc d s)
  then obtain n where n: "s = chop_while c s @ replicate n c" by blast
  show ?case
  proof (cases "c = d")
    case True
    have "s @ [c] = chop_while c s @ replicate (Suc n) c"
      using n by (metis append.assoc replicate_Suc replicate_append_same)
    moreover have "chop_while c (s @ [d]) = chop_while c s" using True by simp
    ultimately show ?thesis using True by metis
  next
    case False
    then have "s @ [d] = chop_while c (s @ [d]) @ replicate 0 c" by simp
    then show ?thesis by blast
  qed
qed simp

lemma chop_while_last: "chop_while c s \<noteq> [] \<Longrightarrow> last (chop_while c s) \<noteq> c"
  by (induction s rule: rev_induct) (auto split: if_splits)

lemma chop_while_id: "s = [] \<or> last s \<noteq> c \<Longrightarrow> chop_while c s = s"
  by (subst chop_while.simps) auto

lemma fwts_chop_newline_split:
  "\<exists>i j k. str = fwts_chop_newline str @ replicate i CR @ replicate j CHR '' '' @ replicate k NL"
proof -
  obtain k where k: "str = chop_while NL str @ replicate k NL" using chop_while_split by blast
  obtain j where j: "chop_while NL str = chop_while CHR '' '' (chop_while NL str) @ replicate j CHR '' ''"
    using chop_while_split by blast
  obtain i where i: "chop_while CHR '' '' (chop_while NL str) = fwts_chop_newline str @ replicate i CR"
    using chop_while_split unfolding fwts_chop_newline_def by blast
  show ?thesis using i j k by (metis append.assoc)
qed

lemma fwts_chop_newline_id:
  assumes "str = [] \<or> last str \<notin> {NL, CR, CHR '' ''}"
  shows "fwts_chop_newline str = str"
  using assms by (auto simp: fwts_chop_newline_def chop_while_id)

lemma endswith_iff:
  "fwts_string_endswith str postfix = (if \<exists>pre. str = pre @ postfix then Some postfix else None)"
proof (cases "\<exists>pre. str = pre @ postfix")
  case True
  then obtain pre where "str = pre @ postfix" by blast
  then show ?thesis by (auto simp: fwts_string_endswith_def Let_def)
next
  case False
  have "postfix \<noteq> []" using False by (metis append_Nil2)
  moreover have "drop (length str - length postfix) str \<noteq> postfix"
    using False append_take_drop_id by metis
  ultimately show ?thesis using False by (simp add: fwts_string_endswith_def Let_def)
qed

section \<open>fwts_text_list.c\<close>

definition fwts_text_list_append :: "(nat \<Rightarrow> bool) \<Rightarrow> cstr list \<Rightarrow> cstr \<Rightarrow> cstr list" where
  "fwts_text_list_append mem list text = (if mem (length text + 1) then list @ [text] else list)"

fun fwts_text_list_strstr :: "cstr list \<Rightarrow> cstr \<Rightarrow> cstr option" where
  "fwts_text_list_strstr [] needle = None"
| "fwts_text_list_strstr (item # list) needle =
     (case c_strstr item needle of
        Some match \<Rightarrow> Some match
      | None \<Rightarrow> fwts_text_list_strstr list needle)"

function fwts_list_from_text :: "cstr \<Rightarrow> cstr list" where
  "fwts_list_from_text ptr =
     (if ptr = [] then []
      else (let str = takeWhile (\<lambda>c. c \<noteq> NL) ptr; rest = dropWhile (\<lambda>c. c \<noteq> NL) ptr
            in str # fwts_list_from_text (case rest of [] \<Rightarrow> [] | _ # r \<Rightarrow> r)))"
  by pat_completeness auto
termination
proof (relation "measure length", goal_cases)
  case (2 ptr str rest)
  have "length rest \<le> length ptr" using 2 by (simp add: length_dropWhile_le)
  moreover have "length (case rest of [] \<Rightarrow> [] | _ # r \<Rightarrow> r) < length ptr"
    using 2(1) calculation by (cases rest) auto
  ultimately show ?case by simp
qed simp

declare fwts_list_from_text.simps [simp del]

lemma c_strstr_iff: "c_strstr s needle \<noteq> None \<longleftrightarrow> (\<exists>a b. s = a @ needle @ b)"
proof (induction s needle rule: c_strstr.induct)
  case (1 s needle)
  show ?case
  proof (cases "is_prefix needle s")
    case True
    then obtain z where "s = [] @ needle @ z" by (auto simp: is_prefix_iff)
    then have "\<exists>a b. s = a @ needle @ b" by blast
    with True show ?thesis by (simp add: c_strstr.simps [of s])
  next
    case False
    show ?thesis
    proof (cases s)
      case Nil
      with False show ?thesis by (subst c_strstr.simps) (auto simp: is_prefix_iff)
    next
      case (Cons c cs)
      have "(\<exists>a b. c # cs = a @ needle @ b) \<longleftrightarrow> (\<exists>a b. cs = a @ needle @ b)"
      proof
        assume "\<exists>a b. c # cs = a @ needle @ b"
        then obtain a b where ab: "c # cs = a @ needle @ b" by blast
        with False Cons have "a \<noteq> []" by (auto simp: is_prefix_iff)
        then obtain a' where "a = c # a'" using ab by (cases a) auto
        with ab show "\<exists>a b. cs = a @ needle @ b" by auto
      next
        assume "\<exists>a b. cs = a @ needle @ b"
        then show "\<exists>a b. c # cs = a @ needle @ b" by (metis append_Cons)
      qed
      moreover have "c_strstr s needle = c_strstr cs needle"
        using False Cons by (subst c_strstr.simps) simp
      ultimately show ?thesis using "1.IH" [OF False Cons] Cons by simp
    qed
  qed
qed

lemma text_list_strstr_iff:
  "fwts_text_list_strstr list needle \<noteq> None \<longleftrightarrow> (\<exists>item \<in> set list. \<exists>a b. item = a @ needle @ b)"
proof (induction list)
  case (Cons item list)
  then show ?case using c_strstr_iff [of item needle] by (cases "c_strstr item needle") auto
qed simp

lemma list_from_text_Nil [simp]: "fwts_list_from_text [] = []"
  by (simp add: fwts_list_from_text.simps)

lemma list_from_text_line:
  "NL \<notin> set l \<Longrightarrow> fwts_list_from_text (l @ NL # rest) = l # fwts_list_from_text rest"
proof -
  assume l: "NL \<notin> set l"
  have "takeWhile (\<lambda>c. c \<noteq> NL) (l @ NL # rest) = l"
    and "dropWhile (\<lambda>c. c \<noteq> NL) (l @ NL # rest) = NL # rest"
    using l by (auto intro!: takeWhile_stop dropWhile_stop)
  then show ?thesis by (subst fwts_list_from_text.simps) (simp add: Let_def)
qed

lemma list_from_text_no_newline: "l \<in> set (fwts_list_from_text t) \<Longrightarrow> NL \<notin> set l"
proof (induction t rule: fwts_list_from_text.induct)
  case (1 ptr)
  then show ?case
    by (cases "ptr = []")
      (auto simp: fwts_list_from_text.simps [of ptr] Let_def dest: set_takeWhileD)
qed

section \<open>fwts_formatting.c\<close>

text \<open>
  Positions in the tidied text stand for the pointers textptr, linestart and lastspace;
  linelen is a size_t. dup_line() copies the characters from start up to end (its buffer is
  at least that long, whatever the width).
\<close>

definition dup_line :: "cstr \<Rightarrow> nat \<Rightarrow> nat \<Rightarrow> cstr" where
  "dup_line t start end' = take (end' - start) (drop start t)"

function format_remove_multiple_whitespaces :: "cstr \<Rightarrow> cstr" where
  "format_remove_multiple_whitespaces [] = []"
| "format_remove_multiple_whitespaces (c # cs) =
     (if isspace c then CHR '' '' # format_remove_multiple_whitespaces (dropWhile isspace cs)
      else c # format_remove_multiple_whitespaces cs)"
  by pat_completeness auto
termination
  by (relation "measure length") (auto simp: le_imp_less_Suc length_dropWhile_le)

definition break_point :: "cstr \<Rightarrow> nat \<Rightarrow> nat option \<Rightarrow> bool" where
  "break_point t i lastspace \<longleftrightarrow>
     isspace (t ! i) \<or>
     (lastspace \<noteq> None \<and> t ! (i - 1) \<noteq> CHR ''/'' \<and> t ! i = CHR ''/'') \<or>
     t ! i = CHR '':'' \<or> t ! i = CHR '';'' \<or> t ! i = CHR '',''"

text \<open>The loop: k characters are left, so the position is \<open>length t - k\<close>.\<close>

fun format_loop ::
    "cstr \<Rightarrow> u64 \<Rightarrow> nat \<Rightarrow> nat \<Rightarrow> nat option \<Rightarrow> u64 \<Rightarrow> cstr list \<Rightarrow> nat \<times> cstr list" where
  "format_loop t width 0 linestart lastspace linelen out = (linestart, out)"
| "format_loop t width (Suc k) linestart lastspace linelen out =
     (let i = length t - Suc k;
          lastspace1 = (if break_point t i lastspace then Some i else lastspace)
      in if width \<le> linelen
         then (case lastspace1 of
                 Some p \<Rightarrow>
                   (let linestart' = p + (if isspace (t ! p) then 1 else 0)
                    in format_loop t width k linestart' None
                         ((word_of_nat i - word_of_nat linestart') + 1) (out @ [dup_line t linestart p]))
               | None \<Rightarrow> format_loop t width k linestart None (linelen + 1) out)
         else format_loop t width k linestart lastspace1 (linelen + 1) out)"

definition fwts_format_text :: "cstr \<Rightarrow> u64 \<Rightarrow> cstr list" where
  "fwts_format_text text width =
     (let tidied = format_remove_multiple_whitespaces text;
          (linestart, out) = format_loop tidied width (length tidied) 0 None 0 []
      in out @ [dup_line tidied linestart (length tidied)])"

abbreviation ink :: "cstr \<Rightarrow> cstr" where
  "ink \<equiv> filter (\<lambda>c. \<not> isspace c)"

lemma ink_dropWhile [simp]: "ink (dropWhile isspace cs) = ink cs"
  by (induction cs) auto

lemma ink_tidy: "ink (format_remove_multiple_whitespaces cs) = ink cs"
  by (induction cs rule: format_remove_multiple_whitespaces.induct) auto

lemma ink_dup_split:
  assumes "a \<le> b" and "b \<le> c"
  shows "dup_line t a b @ dup_line t b c = dup_line t a c"
proof -
  have "take (c - a) (drop a t) = take (b - a) (drop a t) @ take (c - b) (drop (b - a) (drop a t))"
    by (metis (no_types, lifting) assms Nat.diff_diff_right diff_le_mono le_add_diff_inverse take_add
        Nat.add_diff_assoc2 add.commute le_diff_conv)
  then show ?thesis using assms by (simp add: dup_line_def)
qed

lemma dup_line_step: "a < length t \<Longrightarrow> dup_line t a (Suc a) = [t ! a]"
  by (simp add: dup_line_def take_Suc_conv_app_nth hd_drop_conv_nth take_Suc drop_eq_Nil)

lemma ink_skip_space:
  assumes "p < length t" and "p' = p + (if isspace (t ! p) then 1 else 0)"
  shows "ink (dup_line t p (length t)) = ink (dup_line t p' (length t))"
proof (cases "isspace (t ! p)")
  case True
  have "dup_line t p (length t) = dup_line t p (Suc p) @ dup_line t (Suc p) (length t)"
    using assms(1) by (simp add: ink_dup_split)
  then show ?thesis using assms True by (simp add: dup_line_step)
qed (simp add: assms)

lemma format_loop_ink:
  assumes "k \<le> length t" and "linestart \<le> length t - k"
    and "\<And>p. lastspace = Some p \<Longrightarrow> linestart \<le> p \<and> p < length t - k"
    and "format_loop t width k linestart lastspace linelen out = (linestart', out')"
  shows "linestart' \<le> length t \<and>
     ink (concat out' @ dup_line t linestart' (length t)) =
     ink (concat out @ dup_line t linestart (length t))"
  using assms
proof (induction t width k linestart lastspace linelen out rule: format_loop.induct)
  case (2 t width k linestart lastspace linelen out)
  define i where "i = length t - Suc k"
  define ls where "ls = (if break_point t i lastspace then Some i else lastspace)"
  have i: "i < length t" "linestart \<le> i" "length t - k = Suc i" "k \<le> length t"
    using "2.prems" by (auto simp: i_def)
  have ls: "linestart \<le> p \<and> p < Suc i" if "ls = Some p" for p
    using that "2.prems"(3) [of p] i unfolding i_def ls_def by (auto split: if_splits)
  note IH = "2.IH" [OF i_def ls_def, folded ls_def i_def]
  note eq = "2.prems"(4) [unfolded format_loop.simps Let_def, folded i_def, folded ls_def]
  show ?case
  proof (cases "width \<le> linelen \<and> ls \<noteq> None")
    case True
    then obtain p where w: "width \<le> linelen" and p: "ls = Some p" by blast
    let ?st = "p + (if isspace (t ! p) then 1 else 0)"
    have pt: "linestart \<le> p" "p < length t" "?st \<le> Suc i" using ls [OF p] i by auto
    have "format_loop t width k ?st None ((word_of_nat i - word_of_nat ?st) + 1)
        (out @ [dup_line t linestart p]) = (linestart', out')"
      using eq w p by simp
    then have "linestart' \<le> length t \<and>
        ink (concat out' @ dup_line t linestart' (length t)) =
        ink (concat (out @ [dup_line t linestart p]) @ dup_line t ?st (length t))"
      using IH(2) [OF w p refl] pt i by simp
    moreover have "concat out @ dup_line t linestart (length t) =
        concat (out @ [dup_line t linestart p]) @ dup_line t p (length t)"
      using pt by (simp add: ink_dup_split)
    moreover have "ink (dup_line t p (length t)) = ink (dup_line t ?st (length t))"
      using pt by (intro ink_skip_space) auto
    ultimately show ?thesis by (simp only: filter_append simp_thms)
  next
    case False
    have ls3: "\<And>p. ls = Some p \<Longrightarrow> linestart \<le> p \<and> p < length t - k"
      using ls i by auto
    have st: "linestart \<le> length t - k" using i by simp
    show ?thesis
    proof (cases "width \<le> linelen")
      case True
      with False have "ls = None" by simp
      with eq True have "format_loop t width k linestart None (linelen + 1) out = (linestart', out')"
        by simp
      then show ?thesis using IH(1) [OF True \<open>ls = None\<close> i(4) st] by simp
    next
      case wide: False
      with eq have "format_loop t width k linestart ls (linelen + 1) out = (linestart', out')"
        by simp
      then show ?thesis using IH(3) [OF wide i(4) st ls3] by blast
    qed
  qed
qed auto

theorem format_text_ink:
  "ink (concat (fwts_format_text text width)) = ink text"
proof -
  let ?t = "format_remove_multiple_whitespaces text"
  obtain ls out where eq:
    "format_loop ?t width (length ?t) 0 None 0 [] = (ls, out)" by fastforce
  have "ink (concat out @ dup_line ?t ls (length ?t)) = ink (dup_line ?t 0 (length ?t))"
    using format_loop_ink [OF _ _ _ eq] by simp
  then show ?thesis
    using ink_tidy [of "text"] by (simp add: fwts_format_text_def Let_def eq dup_line_def)
qed

section \<open>fwts_guid.c\<close>

text \<open>The conversion \<open>%02X\<close> of a byte, and \<open>%2hhx\<close> of sscanf().\<close>

definition hex_digit :: "nat \<Rightarrow> char" where
  "hex_digit n = ''0123456789ABCDEF'' ! n"

definition hex_byte :: "u8 \<Rightarrow> cstr" where
  "hex_byte b = [hex_digit (unat b div 16), hex_digit (unat b mod 16)]"

definition hex_val :: "char \<Rightarrow> nat option" where
  "hex_val c = (let n = of_char c in
     if 48 \<le> n \<and> n \<le> 57 then Some (n - 48)
     else if 65 \<le> n \<and> n \<le> 70 then Some (n - 55)
     else if 97 \<le> n \<and> n \<le> 102 then Some (n - 87)
     else None)"

text \<open>
  Leading white space is skipped; of the two characters of the field the first may be a
  sign, and \<open>0x\<close> alone reads as zero.
\<close>

definition scan_hhx :: "cstr \<Rightarrow> (u8 \<times> cstr) option" where
  "scan_hhx s =
     (case dropWhile isspace s of
        [] \<Rightarrow> None
      | c # cs \<Rightarrow>
          (if c = CHR ''+'' \<or> c = CHR ''-'' then
             (case cs of
                [] \<Rightarrow> None
              | d # ds \<Rightarrow>
                  (case hex_val d of
                     None \<Rightarrow> None
                   | Some v \<Rightarrow> Some (if c = CHR ''-'' then - word_of_nat v else word_of_nat v, ds)))
           else
             (case hex_val c of
                None \<Rightarrow> None
              | Some v \<Rightarrow>
                  (case cs of
                     [] \<Rightarrow> Some (word_of_nat v, [])
                   | d # ds \<Rightarrow>
                       if c = CHR ''0'' \<and> (d = CHR ''x'' \<or> d = CHR ''X'') then Some (0, ds)
                       else (case hex_val d of
                               None \<Rightarrow> Some (word_of_nat v, d # ds)
                             | Some w \<Rightarrow> Some (word_of_nat (16 * v + w), ds))))))"

text \<open>One step of a scanf format: a byte field that is stored at an index, or a dash.\<close>

datatype guid_item = GByte nat | GDash

definition guid_format :: "guid_item list" where
  "guid_format =
     [GByte 3, GByte 2, GByte 1, GByte 0, GDash, GByte 5, GByte 4, GDash, GByte 7, GByte 6, GDash,
      GByte 8, GByte 9, GDash, GByte 10, GByte 11, GByte 12, GByte 13, GByte 14, GByte 15]"

definition fwts_guid_buf_to_str :: "bytes \<Rightarrow> nat \<Rightarrow> cstr option" where
  "fwts_guid_buf_to_str guid guid_str_len =
     (if 36 < guid_str_len
      then Some (concat (map (\<lambda>it. case it of GByte i \<Rightarrow> hex_byte (guid ! i) | GDash \<Rightarrow> ''-'') guid_format))
      else None)"

fun guid_scan :: "guid_item list \<Rightarrow> cstr \<Rightarrow> bytes \<Rightarrow> bytes" where
  "guid_scan [] s guid = guid"
| "guid_scan (GDash # fs) s guid = (case s of c # cs \<Rightarrow> if c = CHR ''-'' then guid_scan fs cs guid else guid | [] \<Rightarrow> guid)"
| "guid_scan (GByte i # fs) s guid =
     (case scan_hhx s of Some (b, cs) \<Rightarrow> guid_scan fs cs (guid[i := b]) | None \<Rightarrow> guid)"

definition fwts_guid_str_to_buf :: "cstr \<Rightarrow> bytes \<Rightarrow> nat \<Rightarrow> bytes" where
  "fwts_guid_str_to_buf guid_str guid guid_len =
     (if 16 \<le> guid_len then guid_scan guid_format guid_str guid else guid)"

definition fwts_guid_match :: "bytes \<Rightarrow> bytes \<Rightarrow> nat \<Rightarrow> bool" where
  "fwts_guid_match guid guid2 guid_size \<longleftrightarrow> list_all (\<lambda>i. guid ! i = guid2 ! i) [0..<guid_size]"

lemma hex_digit_val:
  "n < 16 \<Longrightarrow> hex_val (hex_digit n) = Some n \<and> \<not> isspace (hex_digit n) \<and>
     hex_digit n \<notin> {CHR ''+'', CHR ''-'', CHR ''x'', CHR ''X''}"
proof -
  have "\<forall>m \<in> set [0..<16]. hex_val (hex_digit m) = Some m \<and> \<not> isspace (hex_digit m) \<and>
     hex_digit m \<notin> {CHR ''+'', CHR ''-'', CHR ''x'', CHR ''X''}"
    by code_simp
  then show "n < 16 \<Longrightarrow> ?thesis" by simp
qed

lemma scan_hhx_byte [simp]: "scan_hhx (hex_byte b @ s) = Some (b, s)"
proof -
  have "unat b div 16 < 16" using u8_range [of b] by simp
  note d = hex_digit_val [OF this]
  have m: "hex_val (hex_digit (unat b mod 16)) = Some (unat b mod 16)"
    and x: "hex_digit (unat b mod 16) \<notin> {CHR ''x'', CHR ''X''}"
    using hex_digit_val [of "unat b mod 16"] by simp_all
  have "16 * (unat b div 16) + unat b mod 16 = unat b" by simp
  then have "word_of_nat (16 * (unat b div 16) + unat b mod 16) = b" by simp
  then show ?thesis using d m x by (simp add: scan_hhx_def hex_byte_def)
qed

lemma scan_hhx_byte_end [simp]: "scan_hhx (hex_byte b) = Some (b, [])"
  using scan_hhx_byte [of b "[]"] by simp

theorem guid_roundtrip:
  assumes "length guid = 16" and "length buf = 16" and "36 < n" and "16 \<le> m"
    and "fwts_guid_buf_to_str guid n = Some s"
  shows "fwts_guid_str_to_buf s buf m = guid"
proof -
  have "fwts_guid_str_to_buf s buf m =
      buf[3 := guid ! 3, 2 := guid ! 2, 1 := guid ! 1, 0 := guid ! 0, 5 := guid ! 5, 4 := guid ! 4,
          7 := guid ! 7, 6 := guid ! 6, 8 := guid ! 8, 9 := guid ! 9, 10 := guid ! 10, 11 := guid ! 11,
          12 := guid ! 12, 13 := guid ! 13, 14 := guid ! 14, 15 := guid ! 15]" (is "_ = ?b")
    using assms by (auto simp: fwts_guid_str_to_buf_def fwts_guid_buf_to_str_def guid_format_def)
  also have "?b = guid"
  proof (rule nth_equalityI)
    fix i assume "i < length ?b"
    then have "i \<in> set [0..<16]" using assms(2) by simp
    moreover have "[0..<16] = [0, 1, 2, 3, 4, 5, 6, 7, 8, 9, 10, 11, 12, 13, 14, 15]" by code_simp
    ultimately have "i \<in> {0, 1, 2, 3, 4, 5, 6, 7, 8, 9, 10, 11, 12, 13, 14, 15}" by simp
    then show "?b ! i = guid ! i" using assms(2) by (auto simp: nth_list_update)
  qed (simp add: assms)
  finally show ?thesis .
qed

section \<open>fwts_checksum.c\<close>

text \<open>The loop adds the first \<open>length'\<close> bytes; the buffer has at least that many.\<close>

fun fwts_checksum_loop :: "bytes \<Rightarrow> nat \<Rightarrow> u8 \<Rightarrow> u8" where
  "fwts_checksum_loop data 0 checksum = checksum"
| "fwts_checksum_loop [] (Suc n) checksum = checksum"
| "fwts_checksum_loop (b # data) (Suc n) checksum = fwts_checksum_loop data n (checksum + b)"

definition fwts_checksum :: "bytes \<Rightarrow> nat \<Rightarrow> u8" where
  "fwts_checksum data len = fwts_checksum_loop data len 0"

lemma checksum_loop_sum:
  "fwts_checksum_loop data n c = c + sum_list (take n data)"
  by (induction data n c rule: fwts_checksum_loop.induct) (simp_all add: add.assoc)

lemma checksum_sum: "fwts_checksum data n = sum_list (take n data)"
  by (simp add: fwts_checksum_def checksum_loop_sum)

lemma checksum_append:
  "n = length a + m \<Longrightarrow> fwts_checksum (a @ b) n = fwts_checksum a (length a) + fwts_checksum b m"
  by (simp add: checksum_sum)

section \<open>fwts_args_comma_list()\<close>

fun comma_list_loop :: "(nat \<Rightarrow> bool) \<Rightarrow> cstr list \<Rightarrow> cstr option \<Rightarrow> cstr option option" where
  "comma_list_loop mem [] retstr = Some retstr"
| "comma_list_loop mem (token # tokens) retstr =
     (let sep = (case retstr of
                   None \<Rightarrow> Some None
                 | Some r \<Rightarrow> (case fwts_realloc_strcat mem (Some r) '' '' of
                              None \<Rightarrow> None | Some r' \<Rightarrow> Some (Some r')))
      in case sep of
           None \<Rightarrow> None
         | Some r \<Rightarrow> (case fwts_realloc_strcat mem r token of
                        None \<Rightarrow> None
                      | Some r' \<Rightarrow> comma_list_loop mem tokens (Some r')))"

definition fwts_args_comma_list :: "(nat \<Rightarrow> bool) \<Rightarrow> cstr \<Rightarrow> cstr option" where
  "fwts_args_comma_list mem arg =
     (if \<not> mem (length arg + 1) then None
      else case comma_list_loop mem (c_strtok (\<lambda>c. c = CHR '','') arg) None of
             None \<Rightarrow> None
           | Some None \<Rightarrow> if mem 1 then Some [] else None
           | Some (Some r) \<Rightarrow> Some r)"

fun join_sp :: "cstr list \<Rightarrow> cstr" where
  "join_sp [] = []"
| "join_sp [t] = t"
| "join_sp (t # u # ts) = t @ CHR '' '' # join_sp (u # ts)"

lemma join_sp_Cons: "ts \<noteq> [] \<Longrightarrow> join_sp (t # ts) = t @ CHR '' '' # join_sp ts"
  by (cases ts) auto

lemma comma_list_loop_join:
  "comma_list_loop (\<lambda>_. True) ts (Some r) = Some (Some (join_sp (r # ts)))"
  by (induction ts arbitrary: r)
    (auto simp: fwts_realloc_strcat_def join_sp_Cons split: list.splits, metis join_sp.simps(2,3) append.assoc append_Cons append_Nil join_sp_Cons list.distinct(1))

lemma comma_list_join:
  "fwts_args_comma_list (\<lambda>_. True) arg = Some (join_sp (c_strtok (\<lambda>c. c = CHR '','') arg))"
  by (cases "c_strtok (\<lambda>c. c = CHR '','') arg")
    (simp_all add: fwts_args_comma_list_def fwts_realloc_strcat_def comma_list_loop_join)

end
