(* ===== verification/Fwts_Log.thy ===== *)
theory Fwts_Log
  imports Fwts_Strings
begin

text \<open>
  The log of src/src/lib/src/fwts_log.c and src/src/lib/include/fwts_log.h: field and level
  names, the field filter, log file names, and the dispatch of every call to the open log
  files. What a backend (plain text, XML, JSON, HTML) is called with is kept per log file as
  a sequence of events, so a backend is a function of that sequence.
  stat() and fopen() answer through the parameters \<open>special\<close> and \<open>can_open\<close>; \<open>mem\<close> is
  the allocator's answer.
\<close>

section \<open>Constants\<close>

definition LOG_NO_FIELD :: u32 where [simp]: "LOG_NO_FIELD = 0"
definition LOG_RESULT :: u32 where [simp]: "LOG_RESULT = 0x1"
definition LOG_ERROR :: u32 where [simp]: "LOG_ERROR = 0x2"
definition LOG_WARNING :: u32 where [simp]: "LOG_WARNING = 0x4"
definition LOG_DEBUG :: u32 where [simp]: "LOG_DEBUG = 0x8"
definition LOG_INFO :: u32 where [simp]: "LOG_INFO = 0x10"
definition LOG_SUMMARY :: u32 where [simp]: "LOG_SUMMARY = 0x20"
definition LOG_SEPARATOR :: u32 where [simp]: "LOG_SEPARATOR = 0x40"
definition LOG_NEWLINE :: u32 where [simp]: "LOG_NEWLINE = 0x80"
definition LOG_ADVICE :: u32 where [simp]: "LOG_ADVICE = 0x100"
definition LOG_HEADING :: u32 where [simp]: "LOG_HEADING = 0x200"
definition LOG_PASSED :: u32 where [simp]: "LOG_PASSED = 0x400"
definition LOG_FAILED :: u32 where [simp]: "LOG_FAILED = 0x800"
definition LOG_SKIPPED :: u32 where [simp]: "LOG_SKIPPED = 0x1000"
definition LOG_ABORTED :: u32 where [simp]: "LOG_ABORTED = 0x2000"
definition LOG_INFOONLY :: u32 where [simp]: "LOG_INFOONLY = 0x4000"
definition LOG_FIELD_MASK :: u32 where [simp]: "LOG_FIELD_MASK = 0xffff"
definition LOG_VERBATUM :: u32 where [simp]: "LOG_VERBATUM = 0x10000000"
definition LOG_NO_FIELDS :: u32 where [simp]: "LOG_NO_FIELDS = 0x20000000"

definition LOG_LEVEL_NONE :: u32 where [simp]: "LOG_LEVEL_NONE = 0"
definition LOG_LEVEL_CRITICAL :: u32 where [simp]: "LOG_LEVEL_CRITICAL = 0x1"
definition LOG_LEVEL_HIGH :: u32 where [simp]: "LOG_LEVEL_HIGH = 0x2"
definition LOG_LEVEL_MEDIUM :: u32 where [simp]: "LOG_LEVEL_MEDIUM = 0x4"
definition LOG_LEVEL_LOW :: u32 where [simp]: "LOG_LEVEL_LOW = 0x8"
definition LOG_LEVEL_INFO :: u32 where [simp]: "LOG_LEVEL_INFO = 0x10"
definition LOG_LEVEL_ALL :: u32 where [simp]: "LOG_LEVEL_ALL = 0x1f"

definition LOG_TYPE_NONE :: u32 where [simp]: "LOG_TYPE_NONE = 0"
definition LOG_TYPE_PLAINTEXT :: u32 where [simp]: "LOG_TYPE_PLAINTEXT = 0x1"
definition LOG_TYPE_JSON :: u32 where [simp]: "LOG_TYPE_JSON = 0x2"
definition LOG_TYPE_XML :: u32 where [simp]: "LOG_TYPE_XML = 0x4"
definition LOG_TYPE_HTML :: u32 where [simp]: "LOG_TYPE_HTML = 0x8"

definition LOG_MAGIC :: u64 where "LOG_MAGIC = 0xfe23ab13cb1ef754"

text \<open>FWTS_LEVEL_IGNORE(fw, level) of fwts_framework.h, over fw's filter_level.\<close>

definition FWTS_LEVEL_IGNORE :: "u32 \<Rightarrow> u32 \<Rightarrow> bool" where
  "FWTS_LEVEL_IGNORE filter_level level \<longleftrightarrow> level \<noteq> 0 \<and> \<not> (level AND filter_level \<noteq> 0)"

section \<open>Names of fields and levels\<close>

definition fwts_log_field_to_str :: "u32 \<Rightarrow> cstr" where
  "fwts_log_field_to_str field =
     (let f = field AND LOG_FIELD_MASK in
      if f = LOG_RESULT then ''RES'' else if f = LOG_ERROR then ''ERR''
      else if f = LOG_WARNING then ''WRN'' else if f = LOG_DEBUG then ''DBG''
      else if f = LOG_INFO then ''INF'' else if f = LOG_SUMMARY then ''SUM''
      else if f = LOG_SEPARATOR then ''SEP'' else if f = LOG_NEWLINE then ''NLN''
      else if f = LOG_ADVICE then ''ADV'' else if f = LOG_HEADING then ''HED''
      else if f = LOG_PASSED then ''PAS'' else if f = LOG_FAILED then ''FAL''
      else if f = LOG_SKIPPED then ''SKP'' else if f = LOG_ABORTED then ''ABT''
      else if f = LOG_INFOONLY then ''INO'' else ''???'')"

definition fwts_log_field_to_str_full :: "u32 \<Rightarrow> cstr" where
  "fwts_log_field_to_str_full field =
     (let f = field AND LOG_FIELD_MASK in
      if f = LOG_RESULT then ''Result'' else if f = LOG_ERROR then ''Error''
      else if f = LOG_WARNING then ''Warning'' else if f = LOG_DEBUG then ''Debug''
      else if f = LOG_INFO then ''Info'' else if f = LOG_SUMMARY then ''Summary''
      else if f = LOG_SEPARATOR then ''Separator'' else if f = LOG_NEWLINE then ''Newline''
      else if f = LOG_ADVICE then ''Advice'' else if f = LOG_HEADING then ''Heading''
      else if f = LOG_PASSED then ''Passed'' else if f = LOG_FAILED then ''Failed''
      else if f = LOG_SKIPPED then ''Skipped'' else if f = LOG_ABORTED then ''Aborted''
      else if f = LOG_INFOONLY then ''Info Only'' else ''Unknown'')"

definition fwts_log_field_to_str_upper :: "u32 \<Rightarrow> cstr" where
  "fwts_log_field_to_str_upper field = map toupper (fwts_log_field_to_str_full field)"

definition fwts_log_str_to_level :: "cstr option \<Rightarrow> u32" where
  "fwts_log_str_to_level so =
     (case so of
        None \<Rightarrow> LOG_LEVEL_MEDIUM
      | Some str \<Rightarrow>
          if c_strstr str ''CRITICAL'' \<noteq> None then LOG_LEVEL_CRITICAL
          else if c_strstr str ''HIGH'' \<noteq> None then LOG_LEVEL_HIGH
          else if c_strstr str ''MEDIUM'' \<noteq> None then LOG_LEVEL_MEDIUM
          else if c_strstr str ''LOW'' \<noteq> None then LOG_LEVEL_LOW
          else if c_strstr str ''INFO'' \<noteq> None then LOG_LEVEL_INFO
          else LOG_LEVEL_MEDIUM)"

definition fwts_log_level_to_str :: "u32 \<Rightarrow> cstr" where
  "fwts_log_level_to_str level =
     (if level = LOG_LEVEL_CRITICAL then ''CRITICAL'' else if level = LOG_LEVEL_HIGH then ''HIGH''
      else if level = LOG_LEVEL_MEDIUM then ''MEDIUM'' else if level = LOG_LEVEL_LOW then ''LOW''
      else if level = LOG_LEVEL_INFO then ''INFO'' else '' '')"

text \<open>fwts_log_print_fields(): the loop variable is \<open>1 << k\<close>.\<close>

function print_fields_loop :: "nat \<Rightarrow> cstr" where
  "print_fields_loop k =
     (let field = push_bit k (1 :: u32) in
      if 32 \<le> k \<or> \<not> field \<le> LOG_NO_FIELDS then []
      else (let str = fwts_log_field_to_str field in
            if str = ''???'' then []
            else (if field = 1 then [] else '','') @ str @ print_fields_loop (Suc k)))"
  by pat_completeness auto
termination
  by (relation "measure (\<lambda>k. 32 - k)") auto

declare print_fields_loop.simps [simp del]

definition fwts_log_print_fields :: cstr where
  "fwts_log_print_fields = ''Available fields: '' @ print_fields_loop 0 @ [NL]"

definition log_field_mappings :: "(cstr \<times> u32) list" where
  "log_field_mappings =
     [(''RES'', LOG_RESULT), (''ERR'', LOG_ERROR), (''WRN'', LOG_WARNING), (''DBG'', LOG_DEBUG),
      (''INF'', LOG_INFO), (''SUM'', LOG_SUMMARY), (''SEP'', LOG_SEPARATOR), (''NLN'', LOG_NEWLINE),
      (''ADV'', LOG_ADVICE), (''HED'', LOG_HEADING), (''PAS'', LOG_PASSED), (''FAL'', LOG_FAILED),
      (''SKP'', LOG_SKIPPED), (''ABT'', LOG_ABORTED), (''INO'', LOG_INFOONLY), (''ALL'', NOT 0)]"

definition fwts_log_str_to_field :: "cstr \<Rightarrow> u32" where
  "fwts_log_str_to_field str =
     (case map_of log_field_mappings str of Some f \<Rightarrow> f | None \<Rightarrow> LOG_NO_FIELD)"

section \<open>Filter, width and format (the file's globals)\<close>

record log_globals =
  log_line_width :: int
  log_filter :: u32
  log_format :: cstr

definition log_globals_init :: log_globals where
  "log_globals_init = \<lparr>log_line_width = 0, log_filter = NOT 0, log_format = []\<rparr>"

definition fwts_log_set_line_width :: "int \<Rightarrow> log_globals \<Rightarrow> log_globals" where
  "fwts_log_set_line_width width g =
     (if 80 \<le> width \<and> width \<le> 1024 then g\<lparr>log_line_width := width\<rparr> else g)"

definition fwts_log_filter_set_field :: "u32 \<Rightarrow> log_globals \<Rightarrow> log_globals" where
  "fwts_log_filter_set_field f g = g\<lparr>log_filter := log_filter g OR f\<rparr>"

definition fwts_log_filter_unset_field :: "u32 \<Rightarrow> log_globals \<Rightarrow> log_globals" where
  "fwts_log_filter_unset_field f g = g\<lparr>log_filter := log_filter g AND NOT f\<rparr>"

fun field_filter_token :: "cstr \<Rightarrow> log_globals \<Rightarrow> log_globals" where
  "field_filter_token [] g = g"
| "field_filter_token (c # cs) g =
     (if c = CHR ''^'' \<or> c = CHR ''~'' then
        (let field = fwts_log_str_to_field cs in
         if field \<noteq> LOG_NO_FIELD then fwts_log_filter_unset_field field g else g)
      else
        (let field = fwts_log_str_to_field (c # cs) in
         if field \<noteq> LOG_NO_FIELD then fwts_log_filter_set_field field g else g))"

definition fwts_log_set_field_filter :: "cstr \<Rightarrow> log_globals \<Rightarrow> log_globals" where
  "fwts_log_set_field_filter str g =
     fold field_filter_token (c_strtok (\<lambda>c. c = CHR '','' \<or> c = CHR ''|'') str) g"

definition fwts_log_set_format :: "cstr \<Rightarrow> log_globals \<Rightarrow> log_globals" where
  "fwts_log_set_format str g = g\<lparr>log_format := str\<rparr>"

section \<open>File names\<close>

datatype fwts_log_filename_type = LOG_FILENAME_TYPE_STDOUT | LOG_FILENAME_TYPE_STDERR | LOG_FILENAME_TYPE_FILE

definition fwts_log_type_filename_suffix :: "u32 \<Rightarrow> cstr" where
  "fwts_log_type_filename_suffix type =
     (if type = LOG_TYPE_JSON then ''.json'' else if type = LOG_TYPE_XML then ''.xml''
      else if type = LOG_TYPE_HTML then ''.html'' else ''.log'')"

definition known_suffix :: "cstr \<Rightarrow> bool" where
  "known_suffix p \<longleftrightarrow> p = ''.log'' \<or> p = ''.json'' \<or> p = ''.xml'' \<or> p = ''.html''"

definition fwts_log_filename :: "(cstr \<Rightarrow> bool) \<Rightarrow> (nat \<Rightarrow> bool) \<Rightarrow> cstr \<Rightarrow> u32 \<Rightarrow> cstr option" where
  "fwts_log_filename special mem filename type =
     (if special filename then (if mem (length filename + 1) then Some filename else None)
      else
        (let suffix = fwts_log_type_filename_suffix type in
         case c_rindex filename CHR ''.'' of
           Some ptr \<Rightarrow>
             if known_suffix ptr then
               (let trunc_len = length filename - length ptr in
                if mem (trunc_len + length suffix + 1) then Some (take trunc_len filename @ suffix) else None)
             else if mem (length filename + length suffix + 1) then Some (filename @ suffix) else None
         | None \<Rightarrow>
             if mem (length filename + length suffix + 1) then Some (filename @ suffix) else None))"

definition fwts_log_get_filename_type :: "cstr \<Rightarrow> fwts_log_filename_type" where
  "fwts_log_get_filename_type filename =
     (if filename = ''stderr'' then LOG_FILENAME_TYPE_STDERR
      else if filename = ''stdout'' then LOG_FILENAME_TYPE_STDOUT
      else LOG_FILENAME_TYPE_FILE)"

text \<open>The log types a bit mask holds, lowest bit first: \<open>for (i = 0; i < 32; i++)\<close>.\<close>

definition type_masks :: "u32 \<Rightarrow> u32 list" where
  "type_masks type = filter (\<lambda>m. type AND m \<noteq> 0) (map (\<lambda>i. push_bit i 1) [0..<32])"

definition fwts_log_type_count :: "u32 \<Rightarrow> nat" where
  "fwts_log_type_count type = length (filter (bit type) [0..<32])"

fun get_filenames_loop ::
    "(cstr \<Rightarrow> bool) \<Rightarrow> (nat \<Rightarrow> bool) \<Rightarrow> cstr \<Rightarrow> u32 list \<Rightarrow> cstr option \<Rightarrow> cstr option option" where
  "get_filenames_loop special mem filename [] filenames = Some filenames"
| "get_filenames_loop special mem filename (m # ms) filenames =
     (case fwts_log_filename special mem filename m of
        None \<Rightarrow> None
      | Some tmp \<Rightarrow>
          (case filenames of
             Some fs \<Rightarrow>
               if mem (length fs + 1 + length tmp + 1)
               then get_filenames_loop special mem filename ms (Some (fs @ '' '' @ tmp)) else None
           | None \<Rightarrow>
               if mem (length tmp + 1)
               then get_filenames_loop special mem filename ms (Some tmp) else None))"

definition fwts_log_get_filenames :: "(cstr \<Rightarrow> bool) \<Rightarrow> (nat \<Rightarrow> bool) \<Rightarrow> cstr \<Rightarrow> u32 \<Rightarrow> cstr option" where
  "fwts_log_get_filenames special mem filename type =
     (case get_filenames_loop special mem filename (type_masks type) None of
        Some r \<Rightarrow> r | None \<Rightarrow> None)"

section \<open>The log and its dispatch\<close>

datatype log_event =
    EvPrint u32 u32 cstr "cstr option" cstr cstr  \<comment> \<open>field, level, status, label, prefix, buffer\<close>
  | EvUnderline char
  | EvNewline
  | EvBegin cstr
  | EvEnd
  | EvOpen
  | EvClose

record fwts_log_file =
  lf_type :: u32
  lf_filename_type :: fwts_log_filename_type
  lf_line_width :: int
  lf_calls :: "log_event list"

record fwts_log =
  log_magic :: u64
  log_files :: "fwts_log_file list"
  log_owner :: cstr

definition log_call :: "log_event \<Rightarrow> fwts_log option \<Rightarrow> fwts_log option" where
  "log_call ev lo =
     (case lo of
        None \<Rightarrow> None
      | Some l \<Rightarrow>
          if log_magic l = LOG_MAGIC
          then Some (l\<lparr>log_files := map (\<lambda>f. f\<lparr>lf_calls := lf_calls f @ [ev]\<rparr>) (log_files l)\<rparr>)
          else Some l)"

definition fwts_log_printf ::
    "log_globals \<Rightarrow> u32 \<Rightarrow> u32 \<Rightarrow> u32 \<Rightarrow> cstr \<Rightarrow> cstr option \<Rightarrow> cstr \<Rightarrow> cstr \<Rightarrow>
     fwts_log option \<Rightarrow> fwts_log option" where
  "fwts_log_printf g filter_level field level status label prefix buffer lo =
     (if (field AND LOG_FIELD_MASK) AND log_filter g = 0 then lo
      else if FWTS_LEVEL_IGNORE filter_level level then lo
      else log_call (EvPrint field level status label prefix buffer) lo)"

definition fwts_log_underline :: "char \<Rightarrow> fwts_log option \<Rightarrow> fwts_log option" where
  "fwts_log_underline ch lo = log_call (EvUnderline ch) lo"

definition fwts_log_newline :: "fwts_log option \<Rightarrow> fwts_log option" where
  "fwts_log_newline lo = log_call EvNewline lo"

definition fwts_log_section_begin :: "cstr \<Rightarrow> fwts_log option \<Rightarrow> fwts_log option" where
  "fwts_log_section_begin name lo = log_call (EvBegin name) lo"

definition fwts_log_section_end :: "fwts_log option \<Rightarrow> fwts_log option" where
  "fwts_log_section_end lo = log_call EvEnd lo"

definition fwts_log_set_owner :: "(nat \<Rightarrow> bool) \<Rightarrow> cstr \<Rightarrow> fwts_log option \<Rightarrow> int \<times> fwts_log option" where
  "fwts_log_set_owner mem owner lo =
     (case lo of
        None \<Rightarrow> (FWTS_ERROR, None)
      | Some l \<Rightarrow>
          if log_magic l = LOG_MAGIC \<and> mem (length owner + 1)
          then (FWTS_OK, Some (l\<lparr>log_owner := owner\<rparr>)) else (FWTS_ERROR, Some l))"

text \<open>
  fwts_log_open(): one log file per type bit; a failure closes what is open and returns NULL.
\<close>

fun log_open_files ::
    "log_globals \<Rightarrow> (cstr \<Rightarrow> bool) \<Rightarrow> (nat \<Rightarrow> bool) \<Rightarrow> (cstr \<Rightarrow> bool) \<Rightarrow> int \<Rightarrow> cstr \<Rightarrow> u32 list \<Rightarrow>
     fwts_log_file list \<Rightarrow> fwts_log_file list option" where
  "log_open_files g special mem can_open tty_width filename [] files = Some files"
| "log_open_files g special mem can_open tty_width filename (m # ms) files =
     (let ft = fwts_log_get_filename_type filename;
          ok = (case ft of
                  LOG_FILENAME_TYPE_FILE \<Rightarrow>
                    (case fwts_log_filename special mem filename m of
                       None \<Rightarrow> False | Some newname \<Rightarrow> can_open newname)
                | _ \<Rightarrow> True);
          w = (if log_line_width g \<noteq> 0 then log_line_width g else tty_width)
      in if ok
         then log_open_files g special mem can_open tty_width filename ms
                (files @ [\<lparr>lf_type = m, lf_filename_type = ft, lf_line_width = w, lf_calls = [EvOpen]\<rparr>])
         else None)"

definition fwts_log_open ::
    "log_globals \<Rightarrow> (cstr \<Rightarrow> bool) \<Rightarrow> (nat \<Rightarrow> bool) \<Rightarrow> (cstr \<Rightarrow> bool) \<Rightarrow> int \<Rightarrow> cstr \<Rightarrow> cstr \<Rightarrow> u32 \<Rightarrow>
     fwts_log option" where
  "fwts_log_open g special mem can_open tty_width owner filename type =
     (case log_open_files g special mem can_open tty_width filename (type_masks type) [] of
        None \<Rightarrow> None
      | Some files \<Rightarrow>
          snd (fwts_log_set_owner mem owner
            (Some \<lparr>log_magic = LOG_MAGIC, log_files = files, log_owner = []\<rparr>)))"

text \<open>fwts_log_close(): every backend gets its close call; the calls of each file are final.\<close>

definition fwts_log_close :: "fwts_log option \<Rightarrow> log_event list list" where
  "fwts_log_close lo =
     (case lo of
        None \<Rightarrow> []
      | Some l \<Rightarrow> if log_magic l = LOG_MAGIC then map (\<lambda>f. lf_calls f @ [EvClose]) (log_files l) else [])"

section \<open>Names: round trips\<close>

definition log_fields :: "u32 list" where
  "log_fields = [LOG_RESULT, LOG_ERROR, LOG_WARNING, LOG_DEBUG, LOG_INFO, LOG_SUMMARY, LOG_SEPARATOR,
     LOG_NEWLINE, LOG_ADVICE, LOG_HEADING, LOG_PASSED, LOG_FAILED, LOG_SKIPPED, LOG_ABORTED, LOG_INFOONLY]"

lemma field_roundtrip_all:
  "list_all (\<lambda>f. fwts_log_str_to_field (fwts_log_field_to_str f) = f \<and>
                 fwts_log_field_to_str (f OR LOG_VERBATUM) = fwts_log_field_to_str f) log_fields"
  by (simp add: log_fields_def fwts_log_str_to_field_def fwts_log_field_to_str_def
      log_field_mappings_def Let_def)

lemma field_roundtrip:
  "f \<in> set log_fields \<Longrightarrow> fwts_log_str_to_field (fwts_log_field_to_str f) = f"
  using field_roundtrip_all by (simp add: list_all_iff)

section \<open>The filter as a set of bits\<close>

definition bits_of :: "u32 \<Rightarrow> nat set" where
  "bits_of w = {k. bit w k}"

lemma bits_of_or [simp]: "bits_of (a OR b) = bits_of a \<union> bits_of b"
  by (auto simp: bits_of_def bit_or_iff)

lemma bits_of_and_not [simp]: "bits_of (a AND NOT b) = bits_of a - bits_of b"
  by (auto simp: bits_of_def bit_and_iff bit_not_iff dest: bit_imp_le_length)

lemma bits_of_0 [simp]: "bits_of 0 = {}"
  by (simp add: bits_of_def)

text \<open>What one token of --log-filter means for the set of enabled bits.\<close>

fun token_bits :: "cstr \<Rightarrow> nat set \<Rightarrow> nat set" where
  "token_bits [] S = S"
| "token_bits (c # cs) S =
     (if c = CHR ''^'' \<or> c = CHR ''~'' then S - bits_of (fwts_log_str_to_field cs)
      else S \<union> bits_of (fwts_log_str_to_field (c # cs)))"

lemma field_filter_token_bits:
  "bits_of (log_filter (field_filter_token t g)) = token_bits t (bits_of (log_filter g))"
  by (cases t)
    (simp_all add: Let_def fwts_log_filter_set_field_def fwts_log_filter_unset_field_def)

lemma fold_field_filter_bits:
  "bits_of (log_filter (fold field_filter_token ts g)) = fold token_bits ts (bits_of (log_filter g))"
  by (induction ts arbitrary: g) (simp_all add: field_filter_token_bits)

lemma set_field_filter_bits:
  "bits_of (log_filter (fwts_log_set_field_filter str g)) =
     fold token_bits (c_strtok (\<lambda>c. c = CHR '','' \<or> c = CHR ''|'') str) (bits_of (log_filter g))"
  by (simp add: fwts_log_set_field_filter_def fold_field_filter_bits)

lemma field_filter_token_frame:
  "log_line_width (field_filter_token t g) = log_line_width g \<and>
   log_format (field_filter_token t g) = log_format g"
  by (cases t)
    (simp_all add: Let_def fwts_log_filter_set_field_def fwts_log_filter_unset_field_def)

section \<open>Log file names\<close>

lemma type_suffix_cases:
  "\<exists>s. fwts_log_type_filename_suffix t = CHR ''.'' # s \<and> CHR ''.'' \<notin> set s \<and>
       known_suffix (fwts_log_type_filename_suffix t)"
  by (simp add: fwts_log_type_filename_suffix_def known_suffix_def)

lemma rindex_type_suffix:
  "c_rindex (pre @ fwts_log_type_filename_suffix t) CHR ''.'' = Some (fwts_log_type_filename_suffix t)"
  using type_suffix_cases [of t] by (auto simp: c_rindex_append)

definition log_stem :: "cstr \<Rightarrow> cstr" where
  "log_stem filename =
     (case c_rindex filename CHR ''.'' of
        Some p \<Rightarrow> if known_suffix p then take (length filename - length p) filename else filename
      | None \<Rightarrow> filename)"

lemma log_filename_stem:
  "\<not> special filename \<Longrightarrow>
   fwts_log_filename special (\<lambda>_. True) filename t = Some (log_stem filename @ fwts_log_type_filename_suffix t)"
  by (cases "c_rindex filename CHR ''.''")
    (auto simp: fwts_log_filename_def log_stem_def Let_def simp del: c_rindex_none)

lemma log_stem_suffix [simp]: "log_stem (s @ fwts_log_type_filename_suffix t) = s"
  using type_suffix_cases [of t] by (auto simp: log_stem_def rindex_type_suffix)

lemma log_filename_retype:
  assumes "\<not> special filename" and "fwts_log_filename special (\<lambda>_. True) filename t = Some n"
    and "\<not> special n"
  shows "fwts_log_filename special (\<lambda>_. True) n t' = fwts_log_filename special (\<lambda>_. True) filename t'"
  using assms by (auto simp: log_filename_stem)

section \<open>Dispatch\<close>

definition log_calls :: "fwts_log option \<Rightarrow> log_event list list" where
  "log_calls lo = (case lo of None \<Rightarrow> [] | Some l \<Rightarrow> map lf_calls (log_files l))"

definition log_ok :: "fwts_log option \<Rightarrow> bool" where
  "log_ok lo \<longleftrightarrow>
     (case lo of
        None \<Rightarrow> True
      | Some l \<Rightarrow> log_magic l = LOG_MAGIC \<and> (\<forall>f \<in> set (log_files l). lf_calls f \<noteq> []))"

lemma log_ok_call [simp]: "log_ok lo \<Longrightarrow> log_ok (log_call ev lo)"
  by (cases lo) (auto simp: log_ok_def log_call_def)

lemma log_calls_call [simp]:
  "log_ok lo \<Longrightarrow> log_calls (log_call ev lo) = map (\<lambda>es. es @ [ev]) (log_calls lo)"
  by (cases lo) (auto simp: log_ok_def log_call_def log_calls_def)

lemma log_ok_printf [simp]:
  "log_ok lo \<Longrightarrow> log_ok (fwts_log_printf g fl f l st lb p b lo)"
  by (simp add: fwts_log_printf_def)

lemma log_ok_owner [simp]: "log_ok (snd (fwts_log_set_owner mem w lo)) = log_ok lo"
  by (cases lo) (simp_all add: fwts_log_set_owner_def log_ok_def)

lemma log_calls_owner [simp]: "log_calls (snd (fwts_log_set_owner mem w lo)) = log_calls lo"
  by (cases lo) (simp_all add: fwts_log_set_owner_def log_calls_def)

lemma log_open_files_calls:
  "log_open_files g special mem can_open tty fn ms files = Some files' \<Longrightarrow>
   map lf_calls files' = map lf_calls files @ replicate (length ms) [EvOpen] \<and>
   map lf_type files' = map lf_type files @ ms"
proof (induction ms arbitrary: files)
  case (Cons m ms)
  from Cons.prems obtain f where "lf_calls f = [EvOpen]" and "lf_type f = m"
    and "log_open_files g special mem can_open tty fn ms (files @ [f]) = Some files'"
    unfolding log_open_files.simps Let_def by (metis (no_types, lifting) fwts_log_file.select_convs(1,4) option.distinct(1))
  with Cons.IH [of "files @ [f]"] show ?case by simp
qed simp

lemma log_open_ok:
  "fwts_log_open g special mem can_open tty w fn t = Some l \<Longrightarrow>
   log_ok (Some l) \<and> log_calls (Some l) = replicate (length (type_masks t)) [EvOpen]"
proof -
  assume "fwts_log_open g special mem can_open tty w fn t = Some l"
  then have "log_magic l = LOG_MAGIC \<and> map lf_calls (log_files l) = replicate (length (type_masks t)) [EvOpen]"
    by (auto simp: fwts_log_open_def fwts_log_set_owner_def split: option.splits if_splits dest!: log_open_files_calls)
  moreover from this have "\<forall>f \<in> set (log_files l). lf_calls f = [EvOpen]"
    by (metis (no_types, lifting) imageI in_set_replicate list.set_map)
  ultimately show ?thesis by (simp add: log_ok_def log_calls_def)
qed

end
