(* ===== verification/Fwts_State.thy ===== *)
theory Fwts_State
  imports Fwts_Log
begin

text \<open>
  The state of a run: \<open>struct fwts_framework\<close> of src/src/lib/include/fwts_framework.h, the
  registered tests, and the file-scope state the framework, the log and the summary keep
  (tests_to_skip, the log globals, the summary lists). A test is known by its number, its
  address in C: what a run changes of it (results, was_run) is a map in the state, the rest
  is the record \<open>fwts_framework_test\<close>. The state also holds what the environment answers:
  the allocator, geteuid() and stat(). Callbacks are functions on the state.
\<close>

section \<open>Results\<close>

record fwts_results =
  passed :: u32
  failed :: u32
  aborted :: u32
  warning :: u32
  skipped :: u32
  infoonly :: u32

definition fwts_results_zero :: fwts_results where
  "fwts_results_zero = \<lparr>passed = 0, failed = 0, aborted = 0, warning = 0, skipped = 0, infoonly = 0\<rparr>"

definition fwts_framework_summate_results :: "fwts_results \<Rightarrow> fwts_results \<Rightarrow> fwts_results" where
  "fwts_framework_summate_results tot increment =
     tot\<lparr>aborted := aborted tot + aborted increment,
         failed := failed tot + failed increment,
         passed := passed tot + passed increment,
         warning := warning tot + warning increment,
         skipped := skipped tot + skipped increment,
         infoonly := infoonly tot + infoonly increment\<rparr>"

section \<open>Priorities, architectures, power methods\<close>

datatype fwts_priority =
  FWTS_TEST_FIRST | FWTS_TEST_EARLY | FWTS_TEST_ANYTIME | FWTS_TEST_LATE | FWTS_TEST_LAST

primrec priority_val :: "fwts_priority \<Rightarrow> int" where
  "priority_val FWTS_TEST_FIRST = 0"
| "priority_val FWTS_TEST_EARLY = 1"
| "priority_val FWTS_TEST_ANYTIME = 2"
| "priority_val FWTS_TEST_LATE = 3"
| "priority_val FWTS_TEST_LAST = 4"

lemma priority_val_inject: "priority_val p = priority_val q \<longleftrightarrow> p = q"
  by (cases p; cases q) simp_all

instantiation fwts_priority :: linorder
begin
definition less_eq_fwts_priority :: "fwts_priority \<Rightarrow> fwts_priority \<Rightarrow> bool" where
  "less_eq_fwts_priority p q \<longleftrightarrow> priority_val p \<le> priority_val q"
definition less_fwts_priority :: "fwts_priority \<Rightarrow> fwts_priority \<Rightarrow> bool" where
  "less_fwts_priority p q \<longleftrightarrow> priority_val p < priority_val q"
instance
  by standard (auto simp: less_eq_fwts_priority_def less_fwts_priority_def priority_val_inject)
end

datatype fwts_architecture =
  FWTS_ARCH_X86 | FWTS_ARCH_IA64 | FWTS_ARCH_ARM64 | FWTS_ARCH_RISCV64 | FWTS_ARCH_OTHER

datatype fwts_pm_method = FWTS_PM_LOGIND | FWTS_PM_PMUTILS | FWTS_PM_SYSFS | FWTS_PM_UNDEFINED

section \<open>Flags\<close>

definition FWTS_FLAG_DEFAULT :: u32 where [simp]: "FWTS_FLAG_DEFAULT = 0"
definition FWTS_FLAG_STDOUT_SUMMARY :: u32 where [simp]: "FWTS_FLAG_STDOUT_SUMMARY = 0x1"
definition FWTS_FLAG_SHOW_PROGRESS :: u32 where [simp]: "FWTS_FLAG_SHOW_PROGRESS = 0x2"
definition FWTS_FLAG_FORCE_CLEAN :: u32 where [simp]: "FWTS_FLAG_FORCE_CLEAN = 0x4"
definition FWTS_FLAG_SHOW_TESTS :: u32 where [simp]: "FWTS_FLAG_SHOW_TESTS = 0x8"
definition FWTS_FLAG_SHOW_PROGRESS_DIALOG :: u32 where [simp]: "FWTS_FLAG_SHOW_PROGRESS_DIALOG = 0x10"
definition FWTS_FLAG_ACPICA_DEBUG :: u32 where [simp]: "FWTS_FLAG_ACPICA_DEBUG = 0x20"
definition FWTS_FLAG_DUMP :: u32 where [simp]: "FWTS_FLAG_DUMP = 0x40"
definition FWTS_FLAG_BATCH :: u32 where [simp]: "FWTS_FLAG_BATCH = 0x100"
definition FWTS_FLAG_INTERACTIVE :: u32 where [simp]: "FWTS_FLAG_INTERACTIVE = 0x200"
definition FWTS_FLAG_BATCH_EXPERIMENTAL :: u32 where [simp]: "FWTS_FLAG_BATCH_EXPERIMENTAL = 0x400"
definition FWTS_FLAG_INTERACTIVE_EXPERIMENTAL :: u32 where [simp]: "FWTS_FLAG_INTERACTIVE_EXPERIMENTAL = 0x800"
definition FWTS_FLAG_POWER_STATES :: u32 where [simp]: "FWTS_FLAG_POWER_STATES = 0x1000"
definition FWTS_FLAG_ROOT_PRIV :: u32 where [simp]: "FWTS_FLAG_ROOT_PRIV = 0x2000"
definition FWTS_FLAG_UNSAFE :: u32 where [simp]: "FWTS_FLAG_UNSAFE = 0x4000"
definition FWTS_FLAG_FIRMWARE_VENDOR :: u32 where [simp]: "FWTS_FLAG_FIRMWARE_VENDOR = 0x8000"
definition FWTS_FLAG_UEFI :: u32 where [simp]: "FWTS_FLAG_UEFI = 0x20000"
definition FWTS_FLAG_ACPI :: u32 where [simp]: "FWTS_FLAG_ACPI = 0x40000"
definition FWTS_FLAG_UTILS :: u32 where [simp]: "FWTS_FLAG_UTILS = 0x80000"
definition FWTS_FLAG_QUIET :: u32 where [simp]: "FWTS_FLAG_QUIET = 0x100000"
definition FWTS_FLAG_SHOW_TESTS_FULL :: u32 where [simp]: "FWTS_FLAG_SHOW_TESTS_FULL = 0x200000"
definition FWTS_FLAG_SHOW_TESTS_CATEGORIES :: u32 where [simp]: "FWTS_FLAG_SHOW_TESTS_CATEGORIES = 0x400000"
definition FWTS_FLAG_COMPLIANCE_ACPI :: u32 where [simp]: "FWTS_FLAG_COMPLIANCE_ACPI = 0x800000"
definition FWTS_FLAG_SBBR :: u32 where [simp]: "FWTS_FLAG_SBBR = 0x1000000"
definition FWTS_FLAG_EBBR :: u32 where [simp]: "FWTS_FLAG_EBBR = 0x2000000"

definition FWTS_FLAG_RUN_ALL :: u32 where
  "FWTS_FLAG_RUN_ALL =
     FWTS_FLAG_BATCH OR FWTS_FLAG_INTERACTIVE OR FWTS_FLAG_BATCH_EXPERIMENTAL OR
     FWTS_FLAG_INTERACTIVE_EXPERIMENTAL OR FWTS_FLAG_POWER_STATES OR FWTS_FLAG_UTILS OR
     FWTS_FLAG_UNSAFE OR FWTS_FLAG_UEFI OR FWTS_FLAG_ACPI OR FWTS_FLAG_COMPLIANCE_ACPI OR
     FWTS_FLAG_SBBR OR FWTS_FLAG_EBBR"

lemma FWTS_FLAG_RUN_ALL_value: "FWTS_FLAG_RUN_ALL = 0x38e5f00"
  by (simp add: FWTS_FLAG_RUN_ALL_def)

text \<open>FWTS_TEST_INTERACTIVE(flags).\<close>

definition FWTS_TEST_INTERACTIVE :: "u32 \<Rightarrow> u32" where
  "FWTS_TEST_INTERACTIVE f = f AND (FWTS_FLAG_INTERACTIVE OR FWTS_FLAG_INTERACTIVE_EXPERIMENTAL)"

section \<open>The framework\<close>

record summary_item =
  si_test :: cstr
  si_text :: cstr

record fwts_framework =
  results :: "fwts_log option"
  results_logname :: "cstr option"
  lspci :: "cstr option"
  acpi_table_path :: "cstr option"
  acpi_table_acpidump_file :: "cstr option"
  clog :: "cstr option"
  klog :: "cstr option"
  olog :: "cstr option"
  json_data_path :: "cstr option"
  json_data_file :: "cstr option"
  current_major_test :: nat
  rsdp :: u64
  current_minor_test_name :: "cstr option"
  current_minor_test_num :: u32
  current_major_test_num :: u32
  major_tests_total :: u32
  total_run :: u32
  minor_test_progress :: u32
  minor_tests :: fwts_results
  totals :: fwts_results
  flags :: u32
  failed_level :: u32
  filter_level :: u32
  log_type :: u32
  errors_filter_keep :: "cstr list"
  errors_filter_discard :: "cstr list"
  acpica_mode :: u32
  pm_method :: fwts_pm_method
  target_arch :: fwts_architecture
  print_summary :: bool
  error_filtered_out :: bool
  show_progress :: bool
  \<comment> \<open>results and was_run of the registered tests\<close>
  test_results :: "nat \<Rightarrow> fwts_results"
  test_was_run :: "nat \<Rightarrow> bool"
  \<comment> \<open>file-scope state\<close>
  tests_to_skip :: "nat list"
  summaries :: "nat \<Rightarrow> summary_item list"
  logg :: log_globals
  \<comment> \<open>lines written to stdout\<close>
  stdout_lines :: "cstr list"
  \<comment> \<open>what the environment answers\<close>
  alloc_ok :: "nat \<Rightarrow> bool"
  euid_root :: bool
  path_exists :: "cstr \<Rightarrow> bool"

type_synonym test_func = "fwts_framework \<Rightarrow> int \<times> fwts_framework"

record fwts_framework_minor_test =
  minor_func :: test_func
  minor_name :: "cstr option"

text \<open>
  An option of a table (fwts_args.h), and a table with its handler and its check; a handler
  gets the option character (0 for a long option), the index of the option in its table and
  optarg.
\<close>

record fwts_option =
  long_name :: cstr
  short_name :: "cstr option"
  has_arg :: int
  explanation :: cstr

type_synonym optarg_handler = "fwts_framework \<Rightarrow> int \<Rightarrow> int \<Rightarrow> cstr \<Rightarrow> int \<times> fwts_framework"

record fwts_options_table =
  ot_options :: "fwts_option list"
  ot_num_options :: int
  ot_handler :: optarg_handler
  ot_check :: "test_func option"

record fwts_framework_ops =
  ops_description :: "cstr option"
  ops_init :: "test_func option"
  ops_deinit :: "test_func option"
  ops_options :: "fwts_option list option"
  ops_options_handler :: "optarg_handler option"
  ops_options_check :: "test_func option"
  ops_minor_tests :: "fwts_framework_minor_test list"
  ops_total_tests :: int

record fwts_framework_test =
  test_id :: nat
  test_name :: cstr
  test_ops :: fwts_framework_ops
  test_priority :: fwts_priority
  test_flags :: u32
  test_fw_features :: u32

section \<open>Logging through the framework\<close>

definition fw_printf :: "u32 \<Rightarrow> u32 \<Rightarrow> cstr \<Rightarrow> cstr option \<Rightarrow> cstr \<Rightarrow> cstr \<Rightarrow> fwts_framework \<Rightarrow> fwts_framework" where
  "fw_printf field level status label prefix buffer fw =
     fw\<lparr>results := fwts_log_printf (logg fw) (filter_level fw) field level status label prefix buffer (results fw)\<rparr>"

definition fwts_log_info :: "cstr \<Rightarrow> fwts_framework \<Rightarrow> fwts_framework" where
  "fwts_log_info s fw = fw_printf LOG_INFO LOG_LEVEL_NONE [] (Some []) [] s fw"

definition fwts_log_error :: "cstr \<Rightarrow> fwts_framework \<Rightarrow> fwts_framework" where
  "fwts_log_error s fw = fw_printf LOG_ERROR LOG_LEVEL_NONE [] (Some []) [] s fw"

definition fwts_log_summary :: "cstr \<Rightarrow> fwts_framework \<Rightarrow> fwts_framework" where
  "fwts_log_summary s fw = fw_printf LOG_SUMMARY LOG_LEVEL_NONE [] (Some []) [] s fw"

definition fwts_log_summary_verbatim :: "cstr \<Rightarrow> fwts_framework \<Rightarrow> fwts_framework" where
  "fwts_log_summary_verbatim s fw = fw_printf (LOG_SUMMARY OR LOG_VERBATUM) LOG_LEVEL_NONE [] (Some []) [] s fw"

definition fwts_log_heading :: "cstr \<Rightarrow> fwts_framework \<Rightarrow> fwts_framework" where
  "fwts_log_heading s fw = fw_printf LOG_HEADING LOG_LEVEL_NONE [] (Some []) [] s fw"

definition fwts_log_nl :: "fwts_framework \<Rightarrow> fwts_framework" where
  "fwts_log_nl fw = fw_printf LOG_NEWLINE LOG_LEVEL_NONE [] (Some []) [] [] fw"

definition fw_section_begin :: "cstr \<Rightarrow> fwts_framework \<Rightarrow> fwts_framework" where
  "fw_section_begin name fw = fw\<lparr>results := fwts_log_section_begin name (results fw)\<rparr>"

definition fw_section_end :: "fwts_framework \<Rightarrow> fwts_framework" where
  "fw_section_end fw = fw\<lparr>results := fwts_log_section_end (results fw)\<rparr>"

definition fw_underline :: "char \<Rightarrow> fwts_framework \<Rightarrow> fwts_framework" where
  "fw_underline ch fw = fw\<lparr>results := fwts_log_underline ch (results fw)\<rparr>"

definition fw_newline :: "fwts_framework \<Rightarrow> fwts_framework" where
  "fw_newline fw = fw\<lparr>results := fwts_log_newline (results fw)\<rparr>"

definition fw_set_owner :: "cstr \<Rightarrow> fwts_framework \<Rightarrow> fwts_framework" where
  "fw_set_owner owner fw = fw\<lparr>results := snd (fwts_log_set_owner (alloc_ok fw) owner (results fw))\<rparr>"

lemmas fw_log_defs = fw_printf_def fwts_log_info_def fwts_log_error_def fwts_log_summary_def
  fwts_log_summary_verbatim_def fwts_log_heading_def fwts_log_nl_def fw_section_begin_def
  fw_section_end_def fw_underline_def fw_newline_def fw_set_owner_def

section \<open>The log as the sequence of section marks\<close>

text \<open>
  \<open>sec_ext evs lo lo'\<close>: the log files of \<open>lo'\<close> got the marks \<open>evs\<close>, and other calls in between,
  after the calls of \<open>lo\<close>. Marks are the ends of sections and of the log; the first call of a
  log file is kept whatever it is.
\<close>

definition opens_closes :: "log_event \<Rightarrow> bool" where
  "opens_closes ev \<longleftrightarrow> ev = EvOpen \<or> ev = EvClose"

definition is_section :: "log_event \<Rightarrow> bool" where
  "is_section ev \<longleftrightarrow> (\<exists>n. ev = EvBegin n) \<or> ev = EvEnd \<or> opens_closes ev"

definition sections :: "fwts_log option \<Rightarrow> log_event list list" where
  "sections lo = map (\<lambda>es. take 1 es @ filter is_section (drop 1 es)) (log_calls lo)"

definition sec_ext :: "log_event list \<Rightarrow> fwts_log option \<Rightarrow> fwts_log option \<Rightarrow> bool" where
  "sec_ext evs lo lo' \<longleftrightarrow>
     (log_ok lo \<longrightarrow> log_ok lo' \<and> sections lo' = map (\<lambda>es. es @ evs) (sections lo))"

lemma is_section_simps [simp]:
  "is_section (EvBegin n)" "is_section EvEnd" "\<not> is_section (EvPrint f l st lb p b)"
  "\<not> is_section (EvUnderline c)" "\<not> is_section EvNewline" "is_section EvOpen" "is_section EvClose"
  by (auto simp: is_section_def opens_closes_def)

lemma sections_call [simp]:
  "log_ok lo \<Longrightarrow>
   sections (log_call ev lo) = map (\<lambda>es. es @ (if is_section ev then [ev] else [])) (sections lo)"
proof -
  assume ok: "log_ok lo"
  then have "\<forall>es \<in> set (log_calls lo). es \<noteq> []" by (auto simp: log_ok_def log_calls_def split: option.splits)
  then show ?thesis using ok by (simp add: sections_def Suc_le_eq)
qed

lemma sec_ext_refl [simp]: "sec_ext [] lo lo"
  by (simp add: sec_ext_def)

lemma sec_ext_trans:
  "sec_ext xs a b \<Longrightarrow> sec_ext ys b c \<Longrightarrow> sec_ext (xs @ ys) a c"
  by (auto simp: sec_ext_def)

lemma sec_ext_call:
  "sec_ext (if is_section ev then [ev] else []) lo (log_call ev lo)"
  by (simp add: sec_ext_def)

lemma sec_ext_printf: "sec_ext [] lo (fwts_log_printf g fl f l st lb p b lo)"
  using sec_ext_call [of "EvPrint f l st lb p b" lo] by (simp add: fwts_log_printf_def)

lemma sec_ext_owner: "sec_ext [] lo (snd (fwts_log_set_owner mem w lo))"
  by (simp add: sec_ext_def sections_def)

end
