(* ===== verification/Fwts_Summary.thy ===== *)
theory Fwts_Summary
  imports Fwts_State
begin

text \<open>
  The failure summary of src/src/lib/src/fwts_summary.c: one list of messages per level, to
  which a message is added unless its text is there already, and the report at the end of a
  run. The lists are the field \<open>summaries\<close> of the state.
\<close>

definition SUMMARY_CRITICAL :: nat where [simp]: "SUMMARY_CRITICAL = 0"
definition SUMMARY_HIGH :: nat where [simp]: "SUMMARY_HIGH = 1"
definition SUMMARY_MEDIUM :: nat where [simp]: "SUMMARY_MEDIUM = 2"
definition SUMMARY_LOW :: nat where [simp]: "SUMMARY_LOW = 3"
definition SUMMARY_UNKNOWN :: nat where [simp]: "SUMMARY_UNKNOWN = 4"
definition SUMMARY_MAX :: nat where [simp]: "SUMMARY_MAX = 5"

definition fwts_summary_init :: "fwts_framework \<Rightarrow> int \<times> fwts_framework" where
  "fwts_summary_init fw =
     (if alloc_ok fw 24 then (FWTS_OK, fw\<lparr>summaries := (\<lambda>_. [])\<rparr>) else (FWTS_ERROR, fw))"

definition fwts_summary_level_to_index :: "u32 \<Rightarrow> nat" where
  "fwts_summary_level_to_index level =
     (if level = LOG_LEVEL_CRITICAL then SUMMARY_CRITICAL
      else if level = LOG_LEVEL_HIGH then SUMMARY_HIGH
      else if level = LOG_LEVEL_MEDIUM then SUMMARY_MEDIUM
      else if level = LOG_LEVEL_LOW then SUMMARY_LOW
      else SUMMARY_UNKNOWN)"

text \<open>
  The three allocations are the item (16 bytes) and the two copies; fwts_list_append() may
  fail too (16 bytes for the link), which the code does not look at.
\<close>

definition fwts_summary_add :: "cstr \<Rightarrow> u32 \<Rightarrow> cstr \<Rightarrow> fwts_framework \<Rightarrow> int \<times> fwts_framework" where
  "fwts_summary_add test level text fw =
     (let index = fwts_summary_level_to_index level;
          items = summaries fw index
      in if FWTS_LEVEL_IGNORE (filter_level fw) level then (FWTS_OK, fw)
         else if list_ex (\<lambda>it. text = si_text it) items then (FWTS_OK, fw)
         else if \<not> alloc_ok fw 16 then (FWTS_ERROR, fw)
         else if \<not> alloc_ok fw (length test + 1) then (FWTS_ERROR, fw)
         else if \<not> alloc_ok fw (length text + 1) then (FWTS_ERROR, fw)
         else (FWTS_OK,
               fw\<lparr>summaries := (summaries fw)
                    (index := items @ [\<lparr>si_test = test, si_text = fwts_chop_newline text\<rparr>])\<rparr>))"

text \<open>The conversions \<open>%5u\<close>, \<open>%5d\<close>, \<open>%-w.ws\<close> and \<open>%w.ws\<close>.\<close>

definition pad_left :: "nat \<Rightarrow> cstr \<Rightarrow> cstr" where
  "pad_left w s = replicate (w - length s) CHR '' '' @ s"

definition pad_right :: "nat \<Rightarrow> cstr \<Rightarrow> cstr" where
  "pad_right w s = s @ replicate (w - length s) CHR '' ''"

definition fwts_summary_format_field :: "nat \<Rightarrow> u32 \<Rightarrow> cstr" where
  "fwts_summary_format_field buflen value =
     (if value \<noteq> 0 then take (buflen - 1) (pad_left 5 (show_nat (unat value))) else [])"

definition summary_names :: "cstr list" where
  "summary_names = [''Critical'', ''High'', ''Medium'', ''Low'', ''Other'']"

definition summary_levels :: "u32 list" where
  "summary_levels = [LOG_LEVEL_CRITICAL, LOG_LEVEL_HIGH, LOG_LEVEL_MEDIUM, LOG_LEVEL_LOW, LOG_LEVEL_NONE]"

definition summary_report_item :: "summary_item \<Rightarrow> fwts_framework \<Rightarrow> fwts_framework" where
  "summary_report_item it fw =
     (if log_type fw = LOG_TYPE_HTML
      then fwts_log_summary ('' '' @ si_test it @ '' test: '' @ si_text it) fw
      else fwts_log_summary_verbatim ('' '' @ si_test it @ '': '' @ si_text it) fw)"

definition summary_report_level :: "nat \<Rightarrow> fwts_framework \<Rightarrow> fwts_framework" where
  "summary_report_level i fw =
     (if FWTS_LEVEL_IGNORE (filter_level fw) (summary_levels ! i) then fw
      else
        (let fw = fw_section_begin ''failure'' fw;
             items = summaries fw i;
             fw = (if items \<noteq> [] then
                     (let fw = fwts_log_summary
                                 ((summary_names ! i) @ '' failures: '' @ show_int (int (length items))) fw;
                          fw = fw_section_begin ''failures'' fw;
                          fw = fold summary_report_item items fw
                      in fw_section_end fw)
                   else fwts_log_summary ((summary_names ! i) @ '' failures: NONE'') fw);
             fw = fw_section_end fw
         in fwts_log_nl fw))"

definition summary_row :: "fwts_results \<Rightarrow> cstr \<Rightarrow> cstr" where
  "summary_row r name =
     (let cell = (\<lambda>v. pad_left 5 (take 5 (fwts_summary_format_field 16 v)) @ ''|'') in
      pad_right 15 (take 15 name) @ ''|'' @ cell (passed r) @ cell (failed r) @ cell (aborted r) @
      cell (warning r) @ cell (skipped r) @ cell (infoonly r))"

definition summary_total_row :: "fwts_results \<Rightarrow> cstr" where
  "summary_total_row r =
     (let cell = (\<lambda>v :: u32. pad_left 5 (show_int (sint v)) @ ''|'') in
      ''Total:         |'' @ cell (passed r) @ cell (failed r) @ cell (aborted r) @
      cell (warning r) @ cell (skipped r) @ cell (infoonly r))"

definition summary_rule :: cstr where
  "summary_rule = ''---------------+-----+-----+-----+-----+-----+-----+''"

text \<open>fwts_framework_compare_test_name() of fwts_framework.c.\<close>

definition fwts_framework_compare_test_name :: "fwts_framework_test \<Rightarrow> fwts_framework_test \<Rightarrow> int" where
  "fwts_framework_compare_test_name test1 test2 = strcmp (test_name test1) (test_name test2)"

definition summary_table :: "fwts_framework_test list \<Rightarrow> fwts_framework \<Rightarrow> fwts_framework" where
  "summary_table test_list fw =
     (let sorted = fold (ins_ordered fwts_framework_compare_test_name) test_list [];
          fw = fwts_log_summary_verbatim ''Test           |Pass |Fail |Abort|Warn |Skip |Info |'' fw;
          fw = fwts_log_summary_verbatim summary_rule fw;
          fw = fold (\<lambda>t fw. if test_was_run fw (test_id t)
                            then fwts_log_summary_verbatim
                                   (summary_row (test_results fw (test_id t)) (test_name t)) fw
                            else fw) sorted fw;
          fw = fwts_log_summary_verbatim summary_rule fw;
          fw = fwts_log_summary_verbatim (summary_total_row (totals fw)) fw
      in fwts_log_summary_verbatim summary_rule fw)"

definition fwts_summary_report :: "fwts_framework_test list \<Rightarrow> fwts_framework \<Rightarrow> int \<times> fwts_framework" where
  "fwts_summary_report test_list fw =
     (let fw = fwts_log_summary ''Test Failure Summary'' fw;
          fw = fw_underline CHR ''='' fw;
          fw = fwts_log_nl fw;
          fw = fold summary_report_level [0..<SUMMARY_MAX] fw
      in if log_type fw AND (LOG_TYPE_PLAINTEXT OR LOG_TYPE_HTML) \<noteq> 0 \<and> 0 < total_run fw
         then if \<not> alloc_ok fw 24
              then (FWTS_ERROR, fwts_log_error ''Out of memory allocating test summary list'' fw)
              else (FWTS_OK, summary_table test_list fw)
         else (FWTS_OK, fw))"

section \<open>What the lists hold\<close>

text \<open>No text twice on a level, provided the texts do not end in what is chopped.\<close>

definition summary_inv :: "fwts_framework \<Rightarrow> bool" where
  "summary_inv fw \<longleftrightarrow> (\<forall>i. distinct (map si_text (summaries fw i)))"

lemma summary_init_inv: "fwts_summary_init fw = (FWTS_OK, fw') \<Longrightarrow> summary_inv fw'"
  by (auto simp: fwts_summary_init_def summary_inv_def fwts_ret_defs split: if_splits)

lemma summary_add_inv:
  assumes "summary_inv fw" and "fwts_chop_newline text = text"
  shows "summary_inv (snd (fwts_summary_add test level text fw))"
  using assms by (auto simp: fwts_summary_add_def Let_def summary_inv_def list_ex_iff)

lemma summary_add_frame:
  "\<exists>f. snd (fwts_summary_add test level text fw) = fw\<lparr>summaries := f\<rparr>"
proof -
  let ?r = "snd (fwts_summary_add test level text fw)"
  have "?r = fw \<or> (\<exists>f. ?r = fw\<lparr>summaries := f\<rparr>)"
    unfolding fwts_summary_add_def Let_def by (simp only: snd_conv split: if_split) blast
  moreover have "fw = fw\<lparr>summaries := summaries fw\<rparr>" by simp
  ultimately show ?thesis by metis
qed

lemma summary_add_present:
  assumes "fst (fwts_summary_add test level text fw) = FWTS_OK"
    and "\<not> FWTS_LEVEL_IGNORE (filter_level fw) level"
  shows "\<exists>it \<in> set (summaries (snd (fwts_summary_add test level text fw)) (fwts_summary_level_to_index level)).
           si_text it = text \<or> si_text it = fwts_chop_newline text"
  using assms by (auto simp: fwts_summary_add_def Let_def list_ex_iff fwts_ret_defs split: if_splits)

lemma summary_add_other_levels:
  "i \<noteq> fwts_summary_level_to_index level \<Longrightarrow>
   summaries (snd (fwts_summary_add test level text fw)) i = summaries fw i"
  by (simp add: fwts_summary_add_def Let_def)

text \<open>The stored text is chopped, the searched one is not: such a message is added again.\<close>

lemma summary_add_repeats:
  assumes "\<not> FWTS_LEVEL_IGNORE (filter_level fw) level" and "\<forall>n. alloc_ok fw n"
    and "\<forall>it \<in> set (summaries fw (fwts_summary_level_to_index level)). si_text it \<noteq> text"
    and "fwts_chop_newline text \<noteq> text"
  shows "summaries (snd (fwts_summary_add t level text (snd (fwts_summary_add t level text fw))))
           (fwts_summary_level_to_index level) =
         summaries fw (fwts_summary_level_to_index level) @
           replicate 2 \<lparr>si_test = t, si_text = fwts_chop_newline text\<rparr>"
  using assms by (auto simp: fwts_summary_add_def Let_def list_ex_iff numeral_2_eq_2)

end
