(* ===== verification/Fwts_Framework.thy ===== *)
theory Fwts_Framework
  imports Fwts_Summary
begin

text \<open>
  The test framework of src/src/lib/src/fwts_framework.c: registration of tests, the log of a
  test result with its counters and error filters, the run of a test and of a list of tests.
  Progress output to stderr is not modelled. Registered tests are a list in the order of
  fwts_framework_test_list, built with the refined list operations of Fwts_List.
\<close>

section \<open>Registration\<close>

definition fwts_framework_compare_priority :: "fwts_framework_test \<Rightarrow> fwts_framework_test \<Rightarrow> int" where
  "fwts_framework_compare_priority test1 test2 =
     priority_val (test_priority test1) - priority_val (test_priority test2)"

text \<open>fwts_args_add_options() of fwts_args.c.\<close>

definition fwts_args_add_options ::
    "(nat \<Rightarrow> bool) \<Rightarrow> fwts_option list \<Rightarrow> optarg_handler \<Rightarrow> test_func option \<Rightarrow>
     fwts_options_table list \<Rightarrow> int \<times> fwts_options_table list" where
  "fwts_args_add_options mem options handler check tables =
     (if \<not> mem 32 then (FWTS_ERROR, tables)
      else (FWTS_OK, tables @ [\<lparr>ot_options = options, ot_num_options = int (length options),
                               ot_handler = handler, ot_check = check\<rparr>]))"

text \<open>
  fwts_framework_test_add(): None is exit(EXIT_FAILURE). The minor tests are the entries up
  to the one without a function, which are counted into total_tests.
\<close>

definition fwts_framework_test_add ::
    "(nat \<Rightarrow> bool) \<Rightarrow> nat \<Rightarrow> cstr \<Rightarrow> fwts_framework_ops \<Rightarrow> fwts_priority \<Rightarrow> u32 \<Rightarrow> u32 \<Rightarrow>
     fwts_framework_test list \<times> fwts_options_table list \<Rightarrow>
     (fwts_framework_test list \<times> fwts_options_table list) option" where
  "fwts_framework_test_add mem new_id name ops priority fl fw_features reg =
     (if fl AND NOT (FWTS_FLAG_RUN_ALL OR FWTS_FLAG_ROOT_PRIV) \<noteq> 0 then None
      else if \<not> mem 72 then None
      else
        (let ops' = ops\<lparr>ops_total_tests := int (length (ops_minor_tests ops))\<rparr>;
             new_test = \<lparr>test_id = new_id, test_name = name, test_ops = ops',
                         test_priority = priority, test_flags = fl, test_fw_features = fw_features\<rparr>;
             tests = ins_ordered fwts_framework_compare_priority new_test (fst reg)
         in case (ops_options ops, ops_options_handler ops) of
              (Some opts, Some handler) \<Rightarrow>
                (let (ret, tables) = fwts_args_add_options mem opts handler (ops_options_check ops) (snd reg)
                 in if ret = FWTS_ERROR then None else Some (tests, tables))
            | _ \<Rightarrow> Some (tests, snd reg)))"

definition fwts_framework_test_find :: "fwts_framework_test list \<Rightarrow> cstr \<Rightarrow> fwts_framework_test option" where
  "fwts_framework_test_find tests name = find (\<lambda>t. name = test_name t) tests"

section \<open>Formatting of results\<close>

definition fwts_framework_strtrunc :: "cstr option \<Rightarrow> nat \<Rightarrow> cstr" where
  "fwts_framework_strtrunc src mx =
     (case src of
        None \<Rightarrow> []
      | Some s \<Rightarrow>
          if 3 < mx \<and> mx < length s then take (mx - 3) s @ ''..''
          else c_strlcpy mx s)"

text \<open>
  One snprintf() of fwts_framework_format_results(): the state is n (the length of the last
  output), the space left (an int) and the text so far.
\<close>

definition format_step :: "bool \<Rightarrow> (nat \<Rightarrow> cstr) \<Rightarrow> nat \<times> int \<times> cstr \<Rightarrow> nat \<times> int \<times> cstr" where
  "format_step cond piece st =
     (case st of (n, buflen, out) \<Rightarrow>
        if cond \<and> 0 < buflen then
          (let s = piece n in (length s, buflen - int (length s), out @ take (nat buflen - 1) s))
        else st)"

definition result_piece :: "u32 \<Rightarrow> cstr \<Rightarrow> nat \<Rightarrow> cstr" where
  "result_piece v label n = (if 0 < n then '', '' else []) @ show_nat (unat v) @ '' '' @ label"

definition fwts_framework_format_results :: "int \<Rightarrow> fwts_results \<Rightarrow> bool \<Rightarrow> cstr" where
  "fwts_framework_format_results buflen r include_zero_results =
     (let st = (0, buflen, []);
          st = format_step (include_zero_results \<or> 0 < passed r)
                 (\<lambda>n. show_nat (unat (passed r)) @ '' passed'') st;
          st = format_step (include_zero_results \<or> 0 < failed r) (result_piece (failed r) ''failed'') st;
          st = format_step (include_zero_results \<or> 0 < warning r)
                 (result_piece (warning r) (if 1 < warning r then ''warnings'' else ''warning'')) st;
          st = format_step (include_zero_results \<or> 0 < aborted r) (result_piece (aborted r) ''aborted'') st;
          st = format_step (include_zero_results \<or> 0 < skipped r) (result_piece (skipped r) ''skipped'') st;
          st = format_step (include_zero_results \<or> 0 < infoonly r) (result_piece (infoonly r) ''info only'') st
      in snd (snd st))"

section \<open>Error filters\<close>

definition fwts_error_filtered_out :: "fwts_framework \<Rightarrow> cstr \<Rightarrow> bool" where
  "fwts_error_filtered_out fw label =
     (if errors_filter_discard fw \<noteq> [] then list_ex (\<lambda>l. label = l) (errors_filter_discard fw)
      else if errors_filter_keep fw \<noteq> [] then \<not> list_ex (\<lambda>l. label = l) (errors_filter_keep fw)
      else False)"

definition fwts_error_inc :: "fwts_framework \<Rightarrow> cstr \<Rightarrow> int \<Rightarrow> int" where
  "fwts_error_inc fw label n = (if fwts_error_filtered_out fw label then n else n + 1)"

section \<open>Logging a test result\<close>

text \<open>The counter that a caller of fwts_framework_log() points to.\<close>

datatype fwts_counter = CPassed | CFailed | CAborted | CWarning | CSkipped | CInfoonly

primrec inc_counter :: "fwts_counter \<Rightarrow> fwts_results \<Rightarrow> fwts_results" where
  "inc_counter CPassed r = r\<lparr>passed := passed r + 1\<rparr>"
| "inc_counter CFailed r = r\<lparr>failed := failed r + 1\<rparr>"
| "inc_counter CAborted r = r\<lparr>aborted := aborted r + 1\<rparr>"
| "inc_counter CWarning r = r\<lparr>warning := warning r + 1\<rparr>"
| "inc_counter CSkipped r = r\<lparr>skipped := skipped r + 1\<rparr>"
| "inc_counter CInfoonly r = r\<lparr>infoonly := infoonly r + 1\<rparr>"

text \<open>
  fwts_framework_log(): \<open>buffer\<close> is the formatted message, cut at the buffer's 4095
  characters; \<open>lookup_name\<close> gives the name of the current major test.
\<close>

definition prefix256 :: "cstr \<Rightarrow> cstr" where
  "prefix256 s = take 255 s"

definition log_advice_part :: "u32 \<Rightarrow> cstr option \<Rightarrow> cstr \<Rightarrow> fwts_framework \<Rightarrow> bool \<times> fwts_framework" where
  "log_advice_part level label buffer fw =
     (if error_filtered_out fw then (False, fw)
      else
        (let str = fwts_log_field_to_str_upper LOG_ADVICE;
             fw = fwts_log_nl fw;
             fw = fw_printf LOG_ADVICE level str label (prefix256 (str @ '': '')) buffer fw
         in (\<not> FWTS_LEVEL_IGNORE (filter_level fw) level, fwts_log_nl fw)))"

definition log_failed_part ::
    "cstr \<Rightarrow> u32 \<Rightarrow> cstr \<Rightarrow> cstr \<Rightarrow> fwts_framework \<Rightarrow> bool \<times> fwts_framework" where
  "log_failed_part major_name level label buffer fw =
     (if fwts_error_filtered_out fw label then (False, fw\<lparr>error_filtered_out := True\<rparr>)
      else
        (let str = fwts_log_field_to_str_upper LOG_FAILED;
             fw = fw\<lparr>error_filtered_out := False\<rparr>;
             fw = fw\<lparr>failed_level := failed_level fw OR level\<rparr>;
             fw = snd (fwts_summary_add major_name level buffer fw);
             prefix = prefix256 (str @ '' ['' @ fwts_log_level_to_str level @ ''] '' @ label @
                        '': Test '' @ show_int (sint (current_minor_test_num fw)) @ '', '')
         in (\<not> FWTS_LEVEL_IGNORE (filter_level fw) level,
             fw_printf LOG_FAILED level str (Some label) prefix buffer fw)))"

definition log_other_part ::
    "u32 \<Rightarrow> u32 \<Rightarrow> cstr option \<Rightarrow> cstr \<Rightarrow> fwts_framework \<Rightarrow> bool \<times> fwts_framework" where
  "log_other_part field level label buffer fw =
     (let str = fwts_log_field_to_str_upper field;
          prefix = prefix256 (str @ '': Test '' @ show_int (sint (current_minor_test_num fw)) @ '', '')
      in (\<not> FWTS_LEVEL_IGNORE (filter_level fw) level, fw_printf field level str label prefix buffer fw))"

definition fwts_framework_log ::
    "(nat \<Rightarrow> cstr) \<Rightarrow> u32 \<Rightarrow> cstr option \<Rightarrow> u32 \<Rightarrow> fwts_counter option \<Rightarrow> cstr \<Rightarrow>
     fwts_framework \<Rightarrow> fwts_framework" where
  "fwts_framework_log name_of field label level cnt msg fw =
     (let buffer = take 4095 msg;
          (do_count, fw) =
            (if field = LOG_ADVICE then log_advice_part level label buffer fw
             else if field = LOG_FAILED then
               log_failed_part (name_of (current_major_test fw)) level
                 (case label of Some l \<Rightarrow> l | None \<Rightarrow> []) buffer fw
             else if field = LOG_PASSED \<or> field = LOG_WARNING \<or> field = LOG_SKIPPED \<or> field = LOG_ABORTED
             then log_other_part field level label buffer fw
             else (\<not> FWTS_LEVEL_IGNORE (filter_level fw) level, fw))
      in case cnt of
           Some c \<Rightarrow> if do_count then fw\<lparr>minor_tests := inc_counter c (minor_tests fw)\<rparr> else fw
         | None \<Rightarrow> fw)"

definition fwts_tests_passed :: "fwts_framework \<Rightarrow> bool" where
  "fwts_tests_passed fw \<longleftrightarrow>
     failed (minor_tests fw) + warning (minor_tests fw) + aborted (minor_tests fw) = 0"

section \<open>The reports of a test\<close>

text \<open>
  The macros fwts_passed(), fwts_failed(), fwts_warning(), fwts_advice(), fwts_skipped(),
  fwts_aborted() and fwts_infoonly() of fwts_framework.h, as data: the tests below return
  the sequence of their reports. The message texts are not part of a report; they are the
  parameter \<open>msg\<close> of \<open>run_reports\<close>, which performs the calls.
\<close>

datatype report =
    Passed
  | Failed u32 cstr
  | Warning
  | Advice
  | Skipped
  | Aborted
  | Infoonly

definition fw_report :: "(nat \<Rightarrow> cstr) \<Rightarrow> cstr \<Rightarrow> report \<Rightarrow> fwts_framework \<Rightarrow> fwts_framework" where
  "fw_report name_of msg r fw =
     (case r of
        Passed \<Rightarrow> fwts_framework_log name_of LOG_PASSED None LOG_LEVEL_NONE (Some CPassed) msg fw
      | Failed level label \<Rightarrow>
          fwts_framework_log name_of LOG_FAILED (Some label) level (Some CFailed) msg fw
      | Warning \<Rightarrow> fwts_framework_log name_of LOG_WARNING None LOG_LEVEL_MEDIUM (Some CWarning) msg fw
      | Advice \<Rightarrow> fwts_framework_log name_of LOG_ADVICE None LOG_LEVEL_NONE None msg fw
      | Skipped \<Rightarrow> fwts_framework_log name_of LOG_SKIPPED None LOG_LEVEL_MEDIUM (Some CSkipped) msg fw
      | Aborted \<Rightarrow> fwts_framework_log name_of LOG_ABORTED None LOG_LEVEL_MEDIUM (Some CAborted) msg fw
      | Infoonly \<Rightarrow> fwts_framework_log name_of LOG_INFOONLY None LOG_LEVEL_NONE (Some CInfoonly) msg fw)"

fun run_reports :: "(nat \<Rightarrow> cstr) \<Rightarrow> (nat \<Rightarrow> cstr) \<Rightarrow> nat \<Rightarrow> report list \<Rightarrow> fwts_framework \<Rightarrow> fwts_framework" where
  "run_reports name_of msg i [] fw = fw"
| "run_reports name_of msg i (r # rs) fw = run_reports name_of msg (Suc i) rs (fw_report name_of (msg i) r fw)"

section \<open>Lemmas: registration\<close>

interpretation prio: keyed_lists "hl_empty n" hl_append hl_add_ordered hl_items
  "\<lambda>s. fwts_list_len (Some (snd s))" hl_room hl_invar
  fwts_framework_compare_priority "test_priority :: fwts_framework_test \<Rightarrow> fwts_priority"
  by unfold_locales (simp add: fwts_framework_compare_priority_def less_fwts_priority_def)

interpretation byname: keyed_lists "hl_empty n" hl_append hl_add_ordered hl_items
  "\<lambda>s. fwts_list_len (Some (snd s))" hl_room hl_invar
  fwts_framework_compare_test_name "test_name :: fwts_framework_test \<Rightarrow> cstr"
  by unfold_locales (simp add: fwts_framework_compare_test_name_def strcmp_less)

lemma test_add_sorted:
  assumes "fwts_framework_test_add mem i name ops p fl ff (tests, tabs) = Some (tests', tabs')"
    and "sorted (map test_priority tests)"
  shows "sorted (map test_priority tests') \<and>
         (\<exists>t. mset tests' = add_mset t (mset tests) \<and> test_name t = name \<and> test_id t = i \<and>
              ops_total_tests (test_ops t) = int (length (ops_minor_tests ops)))"
proof -
  obtain t where t: "tests' = ins_ordered fwts_framework_compare_priority t tests"
    and "test_name t = name" and "test_id t = i"
    and "ops_total_tests (test_ops t) = int (length (ops_minor_tests ops))"
    using assms(1)
    by (auto simp: fwts_framework_test_add_def Let_def split: if_splits option.splits prod.splits)
  moreover have "sorted (map test_priority tests')"
    unfolding t using prio.cmp_key assms(2) by (rule ins_ordered_sorted)
  ultimately show ?thesis by (auto intro!: exI [of _ t])
qed

lemma test_add_bad_flags:
  "fl AND NOT (FWTS_FLAG_RUN_ALL OR FWTS_FLAG_ROOT_PRIV) \<noteq> 0 \<Longrightarrow>
   fwts_framework_test_add mem i name ops p fl ff reg = None"
  by (simp add: fwts_framework_test_add_def)

section \<open>Lemmas: formatting\<close>

lemma strtrunc_length: "0 < mx \<Longrightarrow> length (fwts_framework_strtrunc src mx) < mx"
  by (auto simp: fwts_framework_strtrunc_def c_strlcpy_def split: option.splits)

lemma show_u32_length: "length (show_nat (unat (v :: u32))) \<le> 10"
  using u32_range [of v] by (intro show_nat_length) simp_all

lemma format_step_fits:
  "cond \<Longrightarrow> length out + length (piece n) < 128 \<Longrightarrow>
   format_step cond piece (n, 128 - int (length out), out) =
     (length (piece n), 128 - int (length (out @ piece n)), out @ piece n)"
  by (simp add: format_step_def Let_def)

lemma result_piece_length: "length (result_piece v label n) \<le> 13 + length label"
  using show_u32_length [of v] by (simp add: result_piece_def)

text \<open>What the framework prints for the six counters: no buffer of 128 bytes cuts it.\<close>

definition results_text :: "fwts_results \<Rightarrow> cstr" where
  "results_text r =
     show_nat (unat (passed r)) @ '' passed, '' @ show_nat (unat (failed r)) @ '' failed, '' @
     show_nat (unat (warning r)) @ (if 1 < warning r then '' warnings, '' else '' warning, '') @
     show_nat (unat (aborted r)) @ '' aborted, '' @ show_nat (unat (skipped r)) @ '' skipped, '' @
     show_nat (unat (infoonly r)) @ '' info only''"

lemma results_text_length: "length (results_text r) \<le> 119"
  using show_u32_length [of "passed r"] show_u32_length [of "failed r"] show_u32_length [of "warning r"]
    show_u32_length [of "aborted r"] show_u32_length [of "skipped r"] show_u32_length [of "infoonly r"]
  by (simp add: results_text_def)

lemma format_results_text: "fwts_framework_format_results 128 r True = results_text r"
proof -
  have p: "length (show_nat (unat (passed r)) @ '' passed'') \<le> 17"
    using show_u32_length [of "passed r"] by simp
  have f: "length (result_piece (failed r) ''failed'' n) \<le> 19" for n
    using result_piece_length [of "failed r" "''failed''" n] by simp
  have w: "length (result_piece (warning r) (if 1 < warning r then ''warnings'' else ''warning'') n) \<le> 21" for n
    using result_piece_length [of "warning r" "''warnings''" n] result_piece_length [of "warning r" "''warning''" n]
    by simp
  have a: "length (result_piece (aborted r) ''aborted'' n) \<le> 20" for n
    using result_piece_length [of "aborted r" "''aborted''" n] by simp
  have k: "length (result_piece (skipped r) ''skipped'' n) \<le> 20" for n
    using result_piece_length [of "skipped r" "''skipped''" n] by simp
  have i: "length (result_piece (infoonly r) ''info only'' n) \<le> 22" for n
    using result_piece_length [of "infoonly r" "''info only''" n] by simp
  have pos [simp]: "result_piece v l n \<noteq> []" for v l n by (simp add: result_piece_def)
  define s1 where "s1 = show_nat (unat (passed r)) @ '' passed''"
  define s2 where "s2 = result_piece (failed r) ''failed'' 1"
  define s3 where "s3 = result_piece (warning r) (if 1 < warning r then ''warnings'' else ''warning'') 1"
  define s4 where "s4 = result_piece (aborted r) ''aborted'' 1"
  define s5 where "s5 = result_piece (skipped r) ''skipped'' 1"
  define s6 where "s6 = result_piece (infoonly r) ''info only'' 1"
  have comma: "result_piece v l m = result_piece v l 1" if "0 < m" for v l m
    using that by (simp add: result_piece_def)
  have len: "length s1 \<le> 17" "length s2 \<le> 19" "length s3 \<le> 21" "length s4 \<le> 20" "length s5 \<le> 20"
    "length s6 \<le> 22"
    unfolding s1_def s2_def s3_def s4_def s5_def s6_def by (rule p f w a k i)+
  have ne: "0 < length s1" "0 < length s2" "0 < length s3" "0 < length s4" "0 < length s5"
    unfolding s1_def s2_def s3_def s4_def s5_def by simp_all
  have step: "format_step (True \<or> X) (result_piece v l) (m, 128 - int (length out), out) =
      (length (result_piece v l 1), 128 - int (length (out @ result_piece v l 1)), out @ result_piece v l 1)"
    if "0 < m" "length out + length (result_piece v l 1) < 128" for X v l m out
    using format_step_fits [of "True \<or> X" out "result_piece v l" m] that(2)
    unfolding comma [OF that(1), of v l] by simp
  have 1: "format_step (True \<or> 0 < passed r) (\<lambda>n. show_nat (unat (passed r)) @ '' passed'') (0, 128, [])
      = (length s1, 128 - int (length s1), s1)"
    using format_step_fits [of "True \<or> 0 < passed r" "[]" "\<lambda>n. s1" 0] len by (simp add: s1_def)
  have 2: "format_step (True \<or> 0 < failed r) (result_piece (failed r) ''failed'')
      (length s1, 128 - int (length (s1)), s1) =
      (length s2, 128 - int (length (s1 @ s2)), s1 @ s2)"
    using len ne unfolding s2_def by (intro step) simp_all
  have 3: "format_step (True \<or> 0 < warning r) (result_piece (warning r) (if 1 < warning r then ''warnings'' else ''warning''))
      (length s2, 128 - int (length ((s1 @ s2))), (s1 @ s2)) =
      (length s3, 128 - int (length ((s1 @ s2) @ s3)), (s1 @ s2) @ s3)"
    using len ne unfolding s3_def by (intro step) simp_all
  have 4: "format_step (True \<or> 0 < aborted r) (result_piece (aborted r) ''aborted'')
      (length s3, 128 - int (length (((s1 @ s2) @ s3))), ((s1 @ s2) @ s3)) =
      (length s4, 128 - int (length (((s1 @ s2) @ s3) @ s4)), ((s1 @ s2) @ s3) @ s4)"
    using len ne unfolding s4_def by (intro step) simp_all
  have 5: "format_step (True \<or> 0 < skipped r) (result_piece (skipped r) ''skipped'')
      (length s4, 128 - int (length ((((s1 @ s2) @ s3) @ s4))), (((s1 @ s2) @ s3) @ s4)) =
      (length s5, 128 - int (length ((((s1 @ s2) @ s3) @ s4) @ s5)), (((s1 @ s2) @ s3) @ s4) @ s5)"
    using len ne unfolding s5_def by (intro step) simp_all
  have 6: "format_step (True \<or> 0 < infoonly r) (result_piece (infoonly r) ''info only'')
      (length s5, 128 - int (length (((((s1 @ s2) @ s3) @ s4) @ s5))), ((((s1 @ s2) @ s3) @ s4) @ s5)) =
      (length s6, 128 - int (length (((((s1 @ s2) @ s3) @ s4) @ s5) @ s6)), ((((s1 @ s2) @ s3) @ s4) @ s5) @ s6)"
    using len ne unfolding s6_def by (intro step) simp_all
  have "fwts_framework_format_results 128 r True = s1 @ s2 @ s3 @ s4 @ s5 @ s6"
    unfolding fwts_framework_format_results_def Let_def 1 2 3 4 5 6 by simp
  then show ?thesis
    by (simp add: s1_def s2_def s3_def s4_def s5_def s6_def result_piece_def results_text_def)
qed

section \<open>What a test may change\<close>

text \<open>
  A test module logs and reports, and (acpi/s3, acpi/s4, acpi/s3power) sets pm_method; it
  opens no log section. Everything else of the state stays as it is.
\<close>

definition test_frame :: "fwts_framework \<Rightarrow> fwts_framework \<Rightarrow> bool" where
  "test_frame fw fw' \<longleftrightarrow>
     sec_ext [] (results fw) (results fw') \<and>
     results_logname fw' = results_logname fw \<and>
     lspci fw' = lspci fw \<and>
     acpi_table_path fw' = acpi_table_path fw \<and>
     acpi_table_acpidump_file fw' = acpi_table_acpidump_file fw \<and>
     clog fw' = clog fw \<and>
     klog fw' = klog fw \<and>
     olog fw' = olog fw \<and>
     json_data_path fw' = json_data_path fw \<and>
     json_data_file fw' = json_data_file fw \<and>
     current_major_test fw' = current_major_test fw \<and>
     rsdp fw' = rsdp fw \<and>
     current_minor_test_num fw' = current_minor_test_num fw \<and>
     current_major_test_num fw' = current_major_test_num fw \<and>
     major_tests_total fw' = major_tests_total fw \<and>
     total_run fw' = total_run fw \<and>
     totals fw' = totals fw \<and>
     flags fw' = flags fw \<and>
     filter_level fw' = filter_level fw \<and>
     log_type fw' = log_type fw \<and>
     errors_filter_keep fw' = errors_filter_keep fw \<and>
     errors_filter_discard fw' = errors_filter_discard fw \<and>
     acpica_mode fw' = acpica_mode fw \<and>
     target_arch fw' = target_arch fw \<and>
     print_summary fw' = print_summary fw \<and>
     show_progress fw' = show_progress fw \<and>
     test_results fw' = test_results fw \<and>
     test_was_run fw' = test_was_run fw \<and>
     tests_to_skip fw' = tests_to_skip fw \<and>
     logg fw' = logg fw \<and>
     stdout_lines fw' = stdout_lines fw \<and>
     alloc_ok fw' = alloc_ok fw \<and>
     euid_root fw' = euid_root fw \<and>
     path_exists fw' = path_exists fw"

definition well_behaved :: "test_func \<Rightarrow> bool" where
  "well_behaved f \<longleftrightarrow> (\<forall>fw. test_frame fw (snd (f fw)))"

lemma test_frame_refl [simp]: "test_frame fw fw"
  by (simp add: test_frame_def)

lemma test_frame_trans: "test_frame a b \<Longrightarrow> test_frame b c \<Longrightarrow> test_frame a c"
  unfolding test_frame_def using sec_ext_trans [of "[]" _ _ "[]"] by auto

lemma frame_printf: "test_frame fw (fw_printf f l st lb p b fw)"
  by (simp add: test_frame_def fw_printf_def sec_ext_printf)

lemma frame_summary_add: "test_frame fw (snd (fwts_summary_add test level text fw))"
  using summary_add_frame [of test level "text" fw] by (auto simp: test_frame_def)

lemma frame_upd [simp]:
  "test_frame fw (fw\<lparr>error_filtered_out := b\<rparr>)"
  "test_frame fw (fw\<lparr>failed_level := l\<rparr>)"
  "test_frame fw (fw\<lparr>minor_tests := r\<rparr>)"
  "test_frame fw (fw\<lparr>pm_method := m\<rparr>)"
  by (simp_all add: test_frame_def)

lemma frame_advice: "test_frame fw (snd (log_advice_part l lb b fw))"
proof -
  have "test_frame fw (fw_printf f3 l3 s3 b3 p3 t3 (fw_printf f2 l2 s2 b2 p2 t2 (fw_printf f1 l1 s1 b1 p1 t1 fw)))"
    for f1 l1 s1 b1 p1 t1 f2 l2 s2 b2 p2 t2 f3 l3 s3 b3 p3 t3
    by (rule test_frame_trans [OF test_frame_trans [OF frame_printf frame_printf] frame_printf])
  then show ?thesis by (simp add: log_advice_part_def Let_def fwts_log_nl_def)
qed

lemma frame_failed: "test_frame fw (snd (log_failed_part nm l lb b fw))"
  unfolding log_failed_part_def Let_def
  by (auto intro!: frame_upd(1) intro: test_frame_trans [OF test_frame_trans [OF frame_upd(1) frame_upd(2)]
        test_frame_trans [OF frame_summary_add frame_printf]])

lemma frame_other: "test_frame fw (snd (log_other_part f l lb b fw))"
  by (simp add: log_other_part_def Let_def frame_printf)

lemma frame_log: "test_frame fw (fwts_framework_log name_of field label level cnt msg fw)"
proof -
  define r where "r =
    (if field = LOG_ADVICE then log_advice_part level label (take 4095 msg) fw
     else if field = LOG_FAILED then
       log_failed_part (name_of (current_major_test fw)) level
         (case label of Some l \<Rightarrow> l | None \<Rightarrow> []) (take 4095 msg) fw
     else if field = LOG_PASSED \<or> field = LOG_WARNING \<or> field = LOG_SKIPPED \<or> field = LOG_ABORTED
     then log_other_part field level label (take 4095 msg) fw
     else (\<not> FWTS_LEVEL_IGNORE (filter_level fw) level, fw))"
  have "test_frame fw (snd r)"
    unfolding r_def by (simp only: frame_advice frame_failed frame_other test_frame_refl snd_conv split: if_split) simp
  moreover have "fwts_framework_log name_of field label level cnt msg fw =
      (case cnt of Some c \<Rightarrow> if fst r then (snd r)\<lparr>minor_tests := inc_counter c (minor_tests (snd r))\<rparr> else snd r
                 | None \<Rightarrow> snd r)"
    unfolding fwts_framework_log_def Let_def r_def [symmetric] by (simp add: case_prod_beta)
  ultimately show ?thesis
    by (auto split: option.splits intro: test_frame_trans [OF _ frame_upd(3)])
qed

lemma frame_report: "test_frame fw (fw_report name_of msg r fw)"
  by (simp add: fw_report_def frame_log del: LOG_PASSED_def LOG_FAILED_def LOG_WARNING_def LOG_ADVICE_def
      LOG_SKIPPED_def LOG_ABORTED_def LOG_INFOONLY_def split: report.split)

lemma frame_run_reports: "test_frame fw (run_reports name_of msg i rs fw)"
proof (induction rs arbitrary: fw i)
  case (Cons r rs)
  show ?case using test_frame_trans [OF frame_report Cons.IH] by simp
qed simp

lemma well_behaved_reports:
  "well_behaved (\<lambda>fw. (ret fw, run_reports name_of msg i (rs fw) fw))"
  by (simp add: well_behaved_def frame_run_reports)

section \<open>Counters\<close>

primrec counter_of :: "report \<Rightarrow> fwts_counter option" where
  "counter_of Passed = Some CPassed"
| "counter_of (Failed level label) = Some CFailed"
| "counter_of Warning = Some CWarning"
| "counter_of Advice = None"
| "counter_of Skipped = Some CSkipped"
| "counter_of Aborted = Some CAborted"
| "counter_of Infoonly = Some CInfoonly"

text \<open>Whether a report is counted: level and label filters decide.\<close>

definition counted :: "fwts_framework \<Rightarrow> report \<Rightarrow> bool" where
  "counted fw r \<longleftrightarrow>
     (case r of
        Passed \<Rightarrow> True | Infoonly \<Rightarrow> True | Advice \<Rightarrow> False
      | Failed level label \<Rightarrow>
          \<not> FWTS_LEVEL_IGNORE (filter_level fw) level \<and> \<not> fwts_error_filtered_out fw label
      | _ \<Rightarrow> \<not> FWTS_LEVEL_IGNORE (filter_level fw) LOG_LEVEL_MEDIUM)"

lemma minor_tests_printf [simp]: "minor_tests (fw_printf f l st lb p b fw) = minor_tests fw"
  by (simp add: fw_printf_def)

lemma minor_tests_summary_add [simp]:
  "minor_tests (snd (fwts_summary_add test level text fw)) = minor_tests fw"
  using summary_add_frame [of test level "text" fw] by auto

lemma filter_level_printf [simp]: "filter_level (fw_printf f l st lb p b fw) = filter_level fw"
  by (simp add: fw_printf_def)

lemma filter_level_summary_add [simp]:
  "filter_level (snd (fwts_summary_add test level text fw)) = filter_level fw"
  using summary_add_frame [of test level "text" fw] by auto

definition count_one :: "(report \<Rightarrow> bool) \<Rightarrow> report \<Rightarrow> fwts_results \<Rightarrow> fwts_results" where
  "count_one P r acc =
     (case counter_of r of Some c \<Rightarrow> if P r then inc_counter c acc else acc | None \<Rightarrow> acc)"

lemma report_counter:
  "minor_tests (fw_report name_of msg r fw) = count_one (counted fw) r (minor_tests fw)"
  by (cases r)
    (simp_all add: fw_report_def fwts_framework_log_def Let_def counted_def log_advice_part_def
      log_failed_part_def log_other_part_def fwts_log_nl_def FWTS_LEVEL_IGNORE_def count_one_def)

lemma counted_frame: "test_frame fw fw' \<Longrightarrow> counted fw' r = counted fw r"
  by (simp add: counted_def test_frame_def fwts_error_filtered_out_def split: report.split)

text \<open>The counters after a sequence of reports are the counts of the reports.\<close>

definition add_reports :: "(report \<Rightarrow> bool) \<Rightarrow> report list \<Rightarrow> fwts_results \<Rightarrow> fwts_results" where
  "add_reports P rs r0 = fold (count_one P) rs r0"

lemma run_reports_counters:
  "minor_tests (run_reports name_of msg i rs fw) = add_reports (counted fw) rs (minor_tests fw)"
proof (induction rs arbitrary: fw i)
  case (Cons r rs)
  have "counted (fw_report name_of (msg i) r fw) = counted fw"
    by (rule ext) (rule counted_frame [OF frame_report])
  with Cons show ?case by (simp add: add_reports_def report_counter)
qed (simp add: add_reports_def)

definition count_reports :: "(report \<Rightarrow> bool) \<Rightarrow> report list \<Rightarrow> nat" where
  "count_reports P rs = length (filter P rs)"

lemma add_reports_value:
  "add_reports P rs r0 = r0\<lparr>
     passed := passed r0 + of_nat (count_reports (\<lambda>r. counter_of r = Some CPassed \<and> P r) rs),
     failed := failed r0 + of_nat (count_reports (\<lambda>r. counter_of r = Some CFailed \<and> P r) rs),
     aborted := aborted r0 + of_nat (count_reports (\<lambda>r. counter_of r = Some CAborted \<and> P r) rs),
     warning := warning r0 + of_nat (count_reports (\<lambda>r. counter_of r = Some CWarning \<and> P r) rs),
     skipped := skipped r0 + of_nat (count_reports (\<lambda>r. counter_of r = Some CSkipped \<and> P r) rs),
     infoonly := infoonly r0 + of_nat (count_reports (\<lambda>r. counter_of r = Some CInfoonly \<and> P r) rs)\<rparr>"
proof (induction rs arbitrary: r0)
  case (Cons r rs)
  have "add_reports P (r # rs) r0 = add_reports P rs (count_one P r r0)"
    by (simp add: add_reports_def)
  with Cons [of "count_one P r r0"] show ?case
    by (cases r; cases "P r") (simp_all add: count_one_def count_reports_def)
qed (simp add: add_reports_def count_reports_def)

end
