(* ===== verification/Fwts_Run.thy ===== *)
theory Fwts_Run
  imports Fwts_Framework
begin

text \<open>
  Running tests: fwts_framework_run_test() and fwts_framework_tests_run() of
  src/src/lib/src/fwts_framework.c, with the parts of src/src/lib/src/fwts_firmware.c they
  use. The function is cut at its labels and loops: \<open>rt_start\<close> up to the first progress
  report, \<open>rt_gate\<close> the three early exits, \<open>rt_minor\<close> and \<open>rt_minors\<close> the loop over the
  minor tests, \<open>rt_finish\<close> from the label done on. The lemmas give the accounting of the
  counters and the nesting of the log sections on every path.
\<close>

section \<open>Firmware features (fwts_firmware.c)\<close>

definition fwts_firmware_features :: "(cstr \<Rightarrow> bool) \<Rightarrow> u32" where
  "fwts_firmware_features stat_ok =
     (let features =
        (if stat_ok ''/sys/firmware/acpi'' then 1
         else if stat_ok ''/sys/firmware/devicetree/base'' then 2 else 0)
      in if stat_ok ''/dev/ipmi0'' then features OR 4 else features)"

definition fwts_firmware_has_features :: "(cstr \<Rightarrow> bool) \<Rightarrow> u32 \<Rightarrow> bool" where
  "fwts_firmware_has_features stat_ok features \<longleftrightarrow>
     fwts_firmware_features stat_ok AND features = features"

fun feature_string_loop :: "u32 \<Rightarrow> (u32 \<times> cstr) list \<Rightarrow> cstr \<Rightarrow> cstr" where
  "feature_string_loop features [] str = str"
| "feature_string_loop features ((f, name) # fs) str =
     (if features AND f = 0 then feature_string_loop features fs str
      else feature_string_loop features fs
             ((if str \<noteq> [] then str @ '', '' else str) @ name))"

definition fwts_firmware_feature_string :: "u32 \<Rightarrow> cstr" where
  "fwts_firmware_feature_string features =
     feature_string_loop features [(1, ''ACPI''), (2, ''devicetree''), (4, ''IPMI'')] []"

section \<open>Progress and summary\<close>

text \<open>fwts_framework_minor_test_progress(): the state it changes.\<close>

definition fwts_framework_minor_test_progress :: "int \<Rightarrow> fwts_framework \<Rightarrow> fwts_framework" where
  "fwts_framework_minor_test_progress percent fw =
     (if 0 \<le> percent \<and> percent \<le> 100 then fw\<lparr>minor_test_progress := word_of_int percent\<rparr> else fw)"

definition stdout_summary_line :: "u32 \<Rightarrow> fwts_results \<Rightarrow> cstr" where
  "stdout_summary_line flevel r =
     (if 0 < failed r then
        fwts_log_field_to_str_upper LOG_FAILED @
        (if flevel AND LOG_LEVEL_CRITICAL \<noteq> 0 then ''_CRITICAL''
         else if flevel AND LOG_LEVEL_HIGH \<noteq> 0 then ''_HIGH''
         else if flevel AND LOG_LEVEL_MEDIUM \<noteq> 0 then ''_MEDIUM''
         else if flevel AND LOG_LEVEL_LOW \<noteq> 0 then ''_LOW''
         else [])
      else if 0 < skipped r then fwts_log_field_to_str_upper LOG_SKIPPED
      else if 0 < warning r then fwts_log_field_to_str_upper LOG_WARNING
      else if 0 < aborted r then fwts_log_field_to_str_upper LOG_ABORTED
      else fwts_log_field_to_str_upper LOG_PASSED)"

definition fwts_framework_test_summary :: "fwts_framework \<Rightarrow> fwts_framework" where
  "fwts_framework_test_summary fw =
     (let r = test_results fw (current_major_test fw);
          fw = fw_underline CHR ''='' fw;
          fw = fwts_log_summary (fwts_framework_format_results 128 r True @ ''.'') fw;
          fw = fw_underline CHR ''='' fw;
          fw = (if flags fw AND FWTS_FLAG_STDOUT_SUMMARY \<noteq> 0
                then fw\<lparr>stdout_lines := stdout_lines fw @ [stdout_summary_line (failed_level fw) r]\<rparr>
                else fw)
      in fw_newline fw)"

definition fwts_framework_total_summary :: "fwts_framework \<Rightarrow> fwts_framework" where
  "fwts_framework_total_summary fw =
     fwts_log_summary (fwts_framework_format_results 128 (totals fw) True @ ''.'') fw"

section \<open>One test\<close>

definition fwts_check_root_euid :: "bool \<Rightarrow> fwts_framework \<Rightarrow> int \<times> fwts_framework" where
  "fwts_check_root_euid warn fw =
     (if \<not> euid_root fw then
        (FWTS_ERROR,
         if warn then fwts_log_error ''Must be run as root or sudo to be able to read system information.'' fw
         else fw)
      else (FWTS_OK, fw))"

definition upd_major :: "(fwts_results \<Rightarrow> fwts_results) \<Rightarrow> fwts_framework \<Rightarrow> fwts_framework" where
  "upd_major f fw =
     fw\<lparr>test_results := (test_results fw)(current_major_test fw := f (test_results fw (current_major_test fw)))\<rparr>"

definition add_aborted :: "u32 \<Rightarrow> fwts_results \<Rightarrow> fwts_results" where
  "add_aborted n r = r\<lparr>aborted := aborted r + n\<rparr>"

definition add_skipped :: "u32 \<Rightarrow> fwts_results \<Rightarrow> fwts_results" where
  "add_skipped n r = r\<lparr>skipped := skipped r + n\<rparr>"

definition total_tests :: "fwts_framework_test \<Rightarrow> u32" where
  "total_tests test = word_of_int (ops_total_tests (test_ops test))"

definition rt_start :: "fwts_framework_test \<Rightarrow> fwts_framework \<Rightarrow> fwts_framework" where
  "rt_start test fw =
     (let fw = fw\<lparr>current_major_test := test_id test, current_minor_test_name := Some [],
                  test_was_run := (test_was_run fw)(test_id test := True),
                  total_run := total_run fw + 1\<rparr>;
          fw = upd_major (\<lambda>_. fwts_results_zero) fw;
          fw = fw\<lparr>failed_level := 0\<rparr>;
          fw = fw_section_begin (test_name test) fw;
          fw = fw_set_owner (test_name test) fw;
          fw = fw\<lparr>current_minor_test_num := 1,
                  show_progress := (flags fw AND FWTS_FLAG_SHOW_PROGRESS \<noteq> 0 \<and>
                                    FWTS_TEST_INTERACTIVE (test_flags test) = 0)\<rparr>;
          fw = (if test_flags test AND FWTS_FLAG_UTILS = 0 then fw\<lparr>print_summary := True\<rparr> else fw);
          fw = (case ops_description (test_ops test) of
                  Some d \<Rightarrow> fw_underline CHR ''-'' (fwts_log_heading (test_name test @ '': '' @ d) fw)
                | None \<Rightarrow> fw)
      in fwts_framework_minor_test_progress 0 fw)"

text \<open>The early exits: Inl is a jump to done.\<close>

definition rt_gate :: "fwts_framework_test \<Rightarrow> fwts_framework \<Rightarrow> fwts_framework + fwts_framework" where
  "rt_gate test fw =
     (let n = total_tests test;
          (ret, fw) = (if test_flags test AND FWTS_FLAG_ROOT_PRIV \<noteq> 0
                       then fwts_check_root_euid True fw else (FWTS_OK, fw))
      in if ret \<noteq> FWTS_OK then
           (let fw = fwts_log_error ''Aborted test, insufficient privilege.'' fw;
                fw = upd_major (add_aborted n) fw
            in Inl (fw\<lparr>totals := add_aborted n (totals fw)\<rparr>))
         else if \<not> fwts_firmware_has_features (path_exists fw) (test_fw_features test) then
           (let missing = test_fw_features test AND NOT (fwts_firmware_features (path_exists fw));
                fw = fwts_log_info (''Test skipped, missing features: '' @ fwts_firmware_feature_string missing) fw;
                fw = upd_major (add_skipped n) fw
            in Inl (fw\<lparr>totals := add_skipped n (totals fw)\<rparr>))
         else
           (case ops_init (test_ops test) of
              None \<Rightarrow> Inr fw
            | Some init \<Rightarrow>
                (let (ret, fw) = init fw
                 in if ret = FWTS_OK then Inr fw
                    else if ret = FWTS_SKIP then
                      (let fw = upd_major (add_skipped n) fw
                       in Inl (fw\<lparr>totals := add_skipped n (totals fw)\<rparr>))
                    else
                      (let fw = fwts_log_error ''Aborted test, initialisation failed.'' fw;
                           fw = upd_major (add_aborted n) fw
                       in Inl (fw\<lparr>totals := add_aborted n (totals fw)\<rparr>)))))"

text \<open>One round of the loop: whether to go on (the function did not return FWTS_ABORTED).\<close>

definition rt_minor_pre :: "fwts_framework_test \<Rightarrow> fwts_framework_minor_test \<Rightarrow> fwts_framework \<Rightarrow> fwts_framework" where
  "rt_minor_pre test m fw =
     (let fw = fw_section_begin ''subtest'' fw;
          fw = fw\<lparr>current_minor_test_name := minor_name m\<rparr>;
          fw = fw\<lparr>minor_tests := fwts_results_zero\<rparr>;
          fw = (case minor_name m of
                  Some name \<Rightarrow>
                    (let fw = fw_section_begin ''subtest_info'' fw;
                         fw = fwts_log_info (''Test '' @ show_int (sint (current_minor_test_num fw)) @ '' of '' @
                                show_int (ops_total_tests (test_ops test)) @ '': '' @ name) fw
                     in fw_section_end fw)
                | None \<Rightarrow> fw);
          fw = fw_section_begin ''subtest_results'' fw
      in fwts_framework_minor_test_progress 0 fw)"

definition rt_minor_post :: "fwts_framework_test \<Rightarrow> int \<Rightarrow> fwts_framework \<Rightarrow> bool \<times> fwts_framework" where
  "rt_minor_post test ret fw =
     (if ret = FWTS_ABORTED then
        (let n = total_tests test - (current_minor_test_num fw - 1);
             fw = upd_major (add_aborted n) fw;
             fw = fw_section_end fw;
             fw = fwts_log_nl fw
         in (False, fw_section_end fw))
      else
        (let fw = fwts_framework_minor_test_progress 100 fw;
             fw = upd_major (\<lambda>r. fwts_framework_summate_results r (minor_tests fw)) fw;
             fw = fw_section_end fw;
             fw = fwts_log_nl fw
         in (True, fw_section_end fw)))"

definition rt_minor ::
    "fwts_framework_test \<Rightarrow> fwts_framework_minor_test \<Rightarrow> fwts_framework \<Rightarrow> bool \<times> fwts_framework" where
  "rt_minor test m fw =
     (let (ret, fw) = minor_func m (rt_minor_pre test m fw) in rt_minor_post test ret fw)"

fun rt_minors :: "fwts_framework_test \<Rightarrow> fwts_framework_minor_test list \<Rightarrow> fwts_framework \<Rightarrow> fwts_framework" where
  "rt_minors test [] fw = fw"
| "rt_minors test (m # ms) fw =
     (let (go_on, fw) = rt_minor test m fw
      in if go_on then rt_minors test ms (fw\<lparr>current_minor_test_num := current_minor_test_num fw + 1\<rparr>)
         else fw)"

definition rt_body :: "fwts_framework_test \<Rightarrow> fwts_framework \<Rightarrow> fwts_framework" where
  "rt_body test fw =
     (let fw = fw_section_begin ''subtests'' fw;
          fw = rt_minors test (ops_minor_tests (test_ops test)) fw;
          fw = fw_section_end fw;
          fw = fw\<lparr>totals := fwts_framework_summate_results (totals fw) (test_results fw (current_major_test fw))\<rparr>
      in case ops_deinit (test_ops test) of Some deinit \<Rightarrow> snd (deinit fw) | None \<Rightarrow> fw)"

definition rt_finish :: "fwts_framework_test \<Rightarrow> fwts_framework \<Rightarrow> fwts_framework" where
  "rt_finish test fw =
     (let fw = (if test_flags test AND FWTS_FLAG_UTILS = 0
                then fw_section_end (fwts_framework_test_summary (fw_section_begin ''results'' fw))
                else fw);
          fw = fw_section_end fw
      in fw_set_owner ''fwts'' fw)"

definition fwts_framework_run_test :: "fwts_framework_test \<Rightarrow> fwts_framework \<Rightarrow> fwts_framework" where
  "fwts_framework_run_test test fw =
     (case rt_gate test (rt_start test fw) of
        Inl fw \<Rightarrow> rt_finish test fw
      | Inr fw \<Rightarrow> rt_finish test (rt_body test fw))"

section \<open>A list of tests\<close>

definition run_step :: "fwts_framework_test \<Rightarrow> fwts_framework \<Rightarrow> fwts_framework" where
  "run_step test fw =
     (let fw = fwts_framework_run_test test fw
      in fw\<lparr>current_major_test_num := current_major_test_num fw + 1\<rparr>)"

definition fwts_framework_tests_run :: "fwts_framework_test list \<Rightarrow> fwts_framework \<Rightarrow> fwts_framework" where
  "fwts_framework_tests_run tests_to_run fw =
     fold run_step tests_to_run
       (fw\<lparr>current_major_test_num := 1, major_tests_total := of_nat (length tests_to_run)\<rparr>)"

section \<open>Accounting\<close>

definition wb_test :: "fwts_framework_test \<Rightarrow> bool" where
  "wb_test t \<longleftrightarrow>
     (\<forall>f. ops_init (test_ops t) = Some f \<longrightarrow> well_behaved f) \<and>
     (\<forall>f. ops_deinit (test_ops t) = Some f \<longrightarrow> well_behaved f) \<and>
     (\<forall>m \<in> set (ops_minor_tests (test_ops t)). well_behaved (minor_func m)) \<and>
     ops_total_tests (test_ops t) = int (length (ops_minor_tests (test_ops t)))"

text \<open>The part of the state the accounting is about.\<close>

definition same_books :: "fwts_framework \<Rightarrow> fwts_framework \<Rightarrow> bool" where
  "same_books fw fw' \<longleftrightarrow>
     totals fw' = totals fw \<and> test_results fw' = test_results fw \<and>
     current_major_test fw' = current_major_test fw \<and>
     current_minor_test_num fw' = current_minor_test_num fw"

lemma same_books_refl [simp]: "same_books fw fw"
  by (simp add: same_books_def)

lemma same_books_trans: "same_books a b \<Longrightarrow> same_books b c \<Longrightarrow> same_books a c"
  by (simp add: same_books_def)

lemma frame_books: "test_frame fw fw' \<Longrightarrow> same_books fw fw'"
  by (simp add: test_frame_def same_books_def)

lemma books_log [simp]:
  "same_books fw (fw_section_begin n fw)" "same_books fw (fw_section_end fw)"
  "same_books fw (fwts_log_nl fw)" "same_books fw (fwts_log_info t fw)"
  "same_books fw (fwts_log_error t fw)" "same_books fw (fw_set_owner w fw)"
  "same_books fw (fwts_framework_minor_test_progress p fw)"
  by (simp_all add: same_books_def fw_log_defs fwts_framework_minor_test_progress_def)

lemma summate_zero_aborted:
  "fwts_framework_summate_results r (add_aborted n fwts_results_zero) = add_aborted n r"
  by (simp add: fwts_framework_summate_results_def add_aborted_def fwts_results_zero_def)

lemma summate_zero_skipped:
  "fwts_framework_summate_results r (add_skipped n fwts_results_zero) = add_skipped n r"
  by (simp add: fwts_framework_summate_results_def add_skipped_def fwts_results_zero_def)

lemma rt_start_books:
  "totals (rt_start t fw) = totals fw \<and> current_major_test (rt_start t fw) = test_id t \<and>
   current_minor_test_num (rt_start t fw) = 1 \<and>
   test_results (rt_start t fw) = (test_results fw)(test_id t := fwts_results_zero) \<and>
   test_was_run (rt_start t fw) = (test_was_run fw)(test_id t := True)"
  by (simp add: rt_start_def Let_def upd_major_def fw_log_defs fwts_framework_minor_test_progress_def
      split: option.split)

lemma check_euid_frame: "test_frame fw (snd (fwts_check_root_euid b fw))"
  by (simp add: fwts_check_root_euid_def fwts_log_error_def frame_printf)

lemma rt_gate_frame:
  assumes "wb_test t" and "rt_gate t fw = Inr fw'"
  shows "test_frame fw fw'"
proof -
  define e where "e = (if test_flags t AND FWTS_FLAG_ROOT_PRIV \<noteq> 0
                       then fwts_check_root_euid True fw else (FWTS_OK, fw))"
  have e: "test_frame fw (snd e)" by (simp add: e_def check_euid_frame)
  show ?thesis
  proof (cases "ops_init (test_ops t)")
    case None
    with assms(2) have "fw' = snd e"
      unfolding rt_gate_def Let_def e_def [symmetric] by (auto simp: case_prod_beta split: if_splits)
    with e show ?thesis by simp
  next
    case (Some init)
    with assms(2) have "fw' = snd (init (snd e))"
      unfolding rt_gate_def Let_def e_def [symmetric] by (auto simp: case_prod_beta split: if_splits)
    moreover have "test_frame (snd e) (snd (init (snd e)))"
      using assms(1) Some by (simp add: wb_test_def well_behaved_def)
    ultimately show ?thesis using e test_frame_trans by blast
  qed
qed

text \<open>On an early exit the test's own results and the totals get the same amount.\<close>

definition booked :: "u32 \<Rightarrow> nat \<Rightarrow> fwts_framework \<Rightarrow> fwts_framework \<Rightarrow> bool" where
  "booked n i fw fw' \<longleftrightarrow>
     current_major_test fw' = i \<and>
     (\<exists>add. add \<in> {add_aborted n, add_skipped n} \<and>
            totals fw' = add (totals fw) \<and>
            test_results fw' = (test_results fw)(i := add (test_results fw i)))"

lemma booked_books:
  "same_books fw fw1 \<Longrightarrow> current_major_test fw = i \<Longrightarrow> add \<in> {add_aborted n, add_skipped n} \<Longrightarrow>
   booked n i fw (upd_major add fw1\<lparr>totals := add (totals (upd_major add fw1))\<rparr>)"
  unfolding booked_def by (rule conjI) (auto simp: same_books_def upd_major_def)

lemma rt_gate_booked:
  assumes "wb_test t" and "current_major_test fw = test_id t" and "rt_gate t fw = Inl fw'"
  shows "booked (total_tests t) (test_id t) fw fw'"
proof -
  define e where "e = (if test_flags t AND FWTS_FLAG_ROOT_PRIV \<noteq> 0
                       then fwts_check_root_euid True fw else (FWTS_OK, fw))"
  have e: "same_books fw (snd e)" by (simp add: e_def check_euid_frame frame_books)
  note eq = assms(3) [unfolded rt_gate_def Let_def, folded e_def]
  note b = booked_books [OF same_books_trans [OF e] assms(2)]
  consider "fst e \<noteq> FWTS_OK"
    | "fst e = FWTS_OK" "\<not> fwts_firmware_has_features (path_exists (snd e)) (test_fw_features t)"
    | init where "fst e = FWTS_OK" "fwts_firmware_has_features (path_exists (snd e)) (test_fw_features t)"
        "ops_init (test_ops t) = Some init"
    | "fst e = FWTS_OK" "fwts_firmware_has_features (path_exists (snd e)) (test_fw_features t)"
        "ops_init (test_ops t) = None"
    by (cases "ops_init (test_ops t)") auto
  then show ?thesis
  proof cases
    case 1
    then show ?thesis
      using eq b [of "fwts_log_error ''Aborted test, insufficient privilege.'' (snd e)"]
      by (auto simp: case_prod_beta upd_major_def)
  next
    case 2
    then show ?thesis
      using eq b [of "fwts_log_info (''Test skipped, missing features: '' @
              fwts_firmware_feature_string (test_fw_features t AND NOT (fwts_firmware_features (path_exists (snd e))))) (snd e)"]
      by (auto simp: case_prod_beta upd_major_def)
  next
    case 3
    have i: "same_books (snd e) (snd (init (snd e)))"
      using assms(1) 3(3) by (intro frame_books) (simp add: wb_test_def well_behaved_def)
    show ?thesis
      using eq 3 i b [of "snd (init (snd e))"]
        b [OF same_books_trans [OF i], of "fwts_log_error ''Aborted test, initialisation failed.'' (snd (init (snd e)))"]
      by (auto simp: case_prod_beta upd_major_def split: if_splits)
  next
    case 4
    then show ?thesis using eq by (auto simp: case_prod_beta)
  qed
qed

lemma upd_major_simps [simp]:
  "totals (upd_major f fw) = totals fw"
  "current_major_test (upd_major f fw) = current_major_test fw"
  "current_minor_test_num (upd_major f fw) = current_minor_test_num fw"
  "test_results (upd_major f fw) =
     (test_results fw)(current_major_test fw := f (test_results fw (current_major_test fw)))"
  "minor_tests (upd_major f fw) = minor_tests fw"
  by (simp_all add: upd_major_def)

lemma rt_minor_pre_books: "same_books fw (rt_minor_pre t m fw)"
  by (simp add: rt_minor_pre_def Let_def same_books_def fw_log_defs
      fwts_framework_minor_test_progress_def split: option.split)

lemma rt_minor_pre_zero: "minor_tests (rt_minor_pre t m fw) = fwts_results_zero"
  by (simp add: rt_minor_pre_def Let_def fw_log_defs
      fwts_framework_minor_test_progress_def split: option.split)

text \<open>The result a round adds to the test's results.\<close>

definition minor_gain :: "fwts_framework_test \<Rightarrow> int \<Rightarrow> fwts_framework \<Rightarrow> fwts_results \<Rightarrow> fwts_results" where
  "minor_gain t ret fw r =
     (if ret = FWTS_ABORTED then add_aborted (total_tests t - (current_minor_test_num fw - 1)) r
      else fwts_framework_summate_results r (minor_tests fw))"

lemma rt_minor_post_books:
  "rt_minor_post t ret fw = (go_on, fw') \<Longrightarrow>
   (go_on \<longleftrightarrow> ret \<noteq> FWTS_ABORTED) \<and> totals fw' = totals fw \<and>
   current_major_test fw' = current_major_test fw \<and>
   current_minor_test_num fw' = current_minor_test_num fw \<and>
   test_results fw' = (test_results fw)(current_major_test fw :=
     minor_gain t ret fw (test_results fw (current_major_test fw)))"
  by (auto simp: rt_minor_post_def Let_def fw_log_defs minor_gain_def
      fwts_framework_minor_test_progress_def split: if_splits)

lemma rt_minor_books:
  assumes "well_behaved (minor_func m)" and "rt_minor t m fw = (go_on, fw')"
  shows "\<exists>ret fw1. minor_func m (rt_minor_pre t m fw) = (ret, fw1) \<and>
           test_frame (rt_minor_pre t m fw) fw1 \<and> (go_on \<longleftrightarrow> ret \<noteq> FWTS_ABORTED) \<and>
           totals fw' = totals fw \<and> current_major_test fw' = current_major_test fw \<and>
           current_minor_test_num fw' = current_minor_test_num fw \<and>
           test_results fw' = (test_results fw)(current_major_test fw :=
             minor_gain t ret fw1 (test_results fw (current_major_test fw)))"
proof -
  obtain ret fw1 where r: "minor_func m (rt_minor_pre t m fw) = (ret, fw1)" by fastforce
  have f: "test_frame (rt_minor_pre t m fw) fw1"
    using assms(1) r by (metis well_behaved_def snd_conv)
  have b: "same_books fw fw1"
    using rt_minor_pre_books frame_books [OF f] by (rule same_books_trans)
  have "rt_minor_post t ret fw1 = (go_on, fw')" using assms(2) r by (simp add: rt_minor_def)
  from rt_minor_post_books [OF this] b r f show ?thesis by (auto simp: same_books_def)
qed

lemma rt_minors_books:
  assumes "\<forall>m \<in> set ms. well_behaved (minor_func m)"
  shows "totals (rt_minors t ms fw) = totals fw \<and>
         current_major_test (rt_minors t ms fw) = current_major_test fw \<and>
         (\<forall>i. i \<noteq> current_major_test fw \<longrightarrow> test_results (rt_minors t ms fw) i = test_results fw i)"
  using assms
proof (induction ms arbitrary: fw)
  case (Cons m ms)
  obtain go_on fw' where r: "rt_minor t m fw = (go_on, fw')" by fastforce
  have "well_behaved (minor_func m)" using Cons.prems by simp
  from rt_minor_books [OF this r] have "totals fw' = totals fw"
    and "current_major_test fw' = current_major_test fw"
    and "\<forall>i. i \<noteq> current_major_test fw \<longrightarrow> test_results fw' i = test_results fw i" by auto
  then show ?case using Cons r by simp
qed simp

lemma rt_body_books:
  assumes "wb_test t"
  shows "totals (rt_body t fw) =
           fwts_framework_summate_results (totals fw) (test_results (rt_body t fw) (current_major_test fw)) \<and>
         current_major_test (rt_body t fw) = current_major_test fw \<and>
         (\<forall>i. i \<noteq> current_major_test fw \<longrightarrow> test_results (rt_body t fw) i = test_results fw i)"
proof -
  define fw1 where "fw1 = rt_minors t (ops_minor_tests (test_ops t)) (fw_section_begin ''subtests'' fw)"
  have m: "totals fw1 = totals fw \<and> current_major_test fw1 = current_major_test fw \<and>
      (\<forall>i. i \<noteq> current_major_test fw \<longrightarrow> test_results fw1 i = test_results fw i)"
    using assms rt_minors_books [of "ops_minor_tests (test_ops t)" t "fw_section_begin ''subtests'' fw"]
    by (simp add: fw1_def wb_test_def fw_section_begin_def)
  define fw2 where "fw2 = (let f = fw_section_end fw1 in
    f\<lparr>totals := fwts_framework_summate_results (totals f) (test_results f (current_major_test f))\<rparr>)"
  have b: "same_books fw2 (rt_body t fw)"
  proof (cases "ops_deinit (test_ops t)")
    case None
    then show ?thesis by (simp add: rt_body_def fw2_def fw1_def Let_def)
  next
    case (Some d)
    then have "test_frame fw2 (snd (d fw2))" using assms by (simp add: wb_test_def well_behaved_def)
    with Some show ?thesis
      using frame_books by (simp add: rt_body_def fw2_def fw1_def Let_def)
  qed
  with m show ?thesis by (simp add: same_books_def fw2_def Let_def fw_section_end_def)
qed

lemma rt_finish_books: "same_books fw (rt_finish t fw)"
  by (simp add: rt_finish_def Let_def same_books_def fw_log_defs fwts_framework_test_summary_def)

theorem run_test_totals:
  assumes "wb_test t"
  shows "totals (fwts_framework_run_test t fw) =
           fwts_framework_summate_results (totals fw)
             (test_results (fwts_framework_run_test t fw) (test_id t))"
    and "\<forall>i. i \<noteq> test_id t \<longrightarrow> test_results (fwts_framework_run_test t fw) i = test_results fw i"
proof -
  let ?s = "rt_start t fw"
  note st = rt_start_books [of t fw]
  have "totals (fwts_framework_run_test t fw) =
           fwts_framework_summate_results (totals fw)
             (test_results (fwts_framework_run_test t fw) (test_id t)) \<and>
        (\<forall>i. i \<noteq> test_id t \<longrightarrow> test_results (fwts_framework_run_test t fw) i = test_results fw i)"
  proof (cases "rt_gate t ?s")
    case (Inl fw1)
    have "booked (total_tests t) (test_id t) ?s fw1"
      using st by (intro rt_gate_booked [OF assms _ Inl]) simp
    then show ?thesis
      using Inl st rt_finish_books [of fw1 t]
      by (auto simp: fwts_framework_run_test_def booked_def same_books_def
          summate_zero_aborted summate_zero_skipped)
  next
    case (Inr fw1)
    have "same_books ?s fw1" by (rule frame_books [OF rt_gate_frame [OF assms Inr]])
    then show ?thesis
      using Inr st rt_body_books [OF assms, of fw1] rt_finish_books [of "rt_body t fw1" t]
      by (simp add: fwts_framework_run_test_def same_books_def)
  qed
  then show "totals (fwts_framework_run_test t fw) =
           fwts_framework_summate_results (totals fw)
             (test_results (fwts_framework_run_test t fw) (test_id t))"
    and "\<forall>i. i \<noteq> test_id t \<longrightarrow> test_results (fwts_framework_run_test t fw) i = test_results fw i"
    by blast+
qed

lemma tests_run_totals:
  assumes "\<forall>t \<in> set ts. wb_test t" and "distinct (map test_id ts)"
  shows "totals (fold run_step ts fw) =
           fold (\<lambda>t acc. fwts_framework_summate_results acc (test_results (fold run_step ts fw) (test_id t)))
             ts (totals fw) \<and>
         (\<forall>i. i \<notin> test_id ` set ts \<longrightarrow> test_results (fold run_step ts fw) i = test_results fw i)"
  using assms
proof (induction ts arbitrary: fw)
  case (Cons t ts)
  let ?f = "run_step t fw"
  have wb: "wb_test t" using Cons.prems by simp
  have tot: "totals ?f = fwts_framework_summate_results (totals fw) (test_results ?f (test_id t))"
    and oth: "\<forall>i. i \<noteq> test_id t \<longrightarrow> test_results ?f i = test_results fw i"
    using run_test_totals [OF wb, of fw] by (simp_all add: run_step_def Let_def)
  have IH: "totals (fold run_step ts ?f) =
      fold (\<lambda>t acc. fwts_framework_summate_results acc (test_results (fold run_step ts ?f) (test_id t))) ts (totals ?f)"
    and keep: "\<forall>i. i \<notin> test_id ` set ts \<longrightarrow> test_results (fold run_step ts ?f) i = test_results ?f i"
    using Cons.IH [of ?f] Cons.prems by auto
  have "test_results (fold run_step ts ?f) (test_id t) = test_results ?f (test_id t)"
    using keep Cons.prems by auto
  with IH tot oth keep show ?case by auto
qed simp

section \<open>Every minor test is accounted for\<close>

definition outcomes :: "fwts_results \<Rightarrow> u32" where
  "outcomes r = passed r + failed r + aborted r + warning r + skipped r + infoonly r"

text \<open>Each minor test that does not abort reports exactly one counted outcome.\<close>

definition one_outcome :: "fwts_framework_test \<Rightarrow> bool" where
  "one_outcome t \<longleftrightarrow>
     (\<forall>m \<in> set (ops_minor_tests (test_ops t)). \<forall>fw.
        fst (minor_func m fw) \<noteq> FWTS_ABORTED \<longrightarrow>
        outcomes (minor_tests (snd (minor_func m fw))) = outcomes (minor_tests fw) + 1)"

lemma outcomes_zero [simp]: "outcomes fwts_results_zero = 0"
  by (simp add: outcomes_def fwts_results_zero_def)

lemma outcomes_add [simp]:
  "outcomes (add_aborted n r) = outcomes r + n"
  "outcomes (add_skipped n r) = outcomes r + n"
  "outcomes (fwts_framework_summate_results r r') = outcomes r + outcomes r'"
  by (simp_all add: outcomes_def add_aborted_def add_skipped_def fwts_framework_summate_results_def)

lemma rt_minors_outcomes:
  assumes "\<forall>m \<in> set ms. well_behaved (minor_func m)"
    and "\<forall>m \<in> set ms. \<forall>fw. fst (minor_func m fw) \<noteq> FWTS_ABORTED \<longrightarrow>
           outcomes (minor_tests (snd (minor_func m fw))) = outcomes (minor_tests fw) + 1"
    and "current_major_test fw = i"
    and "outcomes (test_results fw i) = current_minor_test_num fw - 1"
    and "total_tests t = current_minor_test_num fw - 1 + of_nat (length ms)"
  shows "outcomes (test_results (rt_minors t ms fw) i) = total_tests t"
  using assms
proof (induction ms arbitrary: fw)
  case (Cons m ms)
  obtain go_on fw' where r: "rt_minor t m fw = (go_on, fw')" by fastforce
  have wm: "well_behaved (minor_func m)" using Cons.prems by simp
  from rt_minor_books [OF wm r] obtain ret fw1
    where c: "minor_func m (rt_minor_pre t m fw) = (ret, fw1)"
      and f: "test_frame (rt_minor_pre t m fw) fw1" and go: "go_on \<longleftrightarrow> ret \<noteq> FWTS_ABORTED"
      and cur: "current_major_test fw' = current_major_test fw"
      and num: "current_minor_test_num fw' = current_minor_test_num fw"
      and res: "test_results fw' = (test_results fw)(current_major_test fw :=
             minor_gain t ret fw1 (test_results fw (current_major_test fw)))" by blast
  have num1: "current_minor_test_num fw1 = current_minor_test_num fw"
    using frame_books [OF f] rt_minor_pre_books [of fw t m] by (simp add: same_books_def)
  show ?case
  proof (cases "ret = FWTS_ABORTED")
    case True
    then show ?thesis
      using r go res num1 Cons.prems by (simp add: minor_gain_def algebra_simps)
  next
    case False
    have "outcomes (minor_tests fw1) = 1"
    proof -
      have "fst (minor_func m (rt_minor_pre t m fw)) \<noteq> FWTS_ABORTED" using c False by simp
      then have "outcomes (minor_tests (snd (minor_func m (rt_minor_pre t m fw)))) =
          outcomes (minor_tests (rt_minor_pre t m fw)) + 1"
        using Cons.prems(2) by simp
      then show ?thesis by (simp add: c rt_minor_pre_zero)
    qed
    then have "outcomes (test_results fw' i) = current_minor_test_num fw"
      using False res Cons.prems by (simp add: minor_gain_def)
    moreover have "total_tests t = current_minor_test_num fw + of_nat (length ms)"
      using Cons.prems(5) by simp
    ultimately have "outcomes (test_results (rt_minors t ms
        (fw'\<lparr>current_minor_test_num := current_minor_test_num fw' + 1\<rparr>)) i) = total_tests t"
      using Cons.prems(1-3) num cur by (intro Cons.IH) simp_all
    then show ?thesis using r go False by simp
  qed
qed simp

theorem run_test_outcomes:
  assumes "wb_test t" and "one_outcome t"
  shows "outcomes (test_results (fwts_framework_run_test t fw) (test_id t)) = total_tests t"
proof -
  let ?s = "rt_start t fw"
  note st = rt_start_books [of t fw]
  show ?thesis
  proof (cases "rt_gate t ?s")
    case (Inl fw1)
    have "booked (total_tests t) (test_id t) ?s fw1"
      using st by (intro rt_gate_booked [OF assms(1) _ Inl]) simp
    then show ?thesis
      using Inl st rt_finish_books [of fw1 t]
      by (auto simp: fwts_framework_run_test_def booked_def same_books_def)
  next
    case (Inr fw1)
    have b: "same_books ?s fw1" by (rule frame_books [OF rt_gate_frame [OF assms(1) Inr]])
    let ?ms = "ops_minor_tests (test_ops t)"
    let ?f = "rt_minors t ?ms (fw_section_begin ''subtests'' fw1)"
    have "outcomes (test_results ?f (test_id t)) = total_tests t"
      using assms b st
      by (intro rt_minors_outcomes)
        (auto simp: wb_test_def one_outcome_def same_books_def fw_section_begin_def total_tests_def)
    moreover have "test_results (rt_body t fw1) = test_results ?f"
    proof (cases "ops_deinit (test_ops t)")
      case (Some d)
      then have "\<And>g. same_books g (snd (d g))"
        using assms(1) frame_books by (simp add: wb_test_def well_behaved_def)
      with Some show ?thesis by (simp add: rt_body_def Let_def same_books_def fw_section_end_def)
    qed (simp add: rt_body_def Let_def fw_section_end_def)
    ultimately show ?thesis
      using Inr rt_finish_books [of "rt_body t fw1" t]
      by (simp add: fwts_framework_run_test_def same_books_def)
  qed
qed

section \<open>Nesting of the log sections\<close>

text \<open>
  \<open>sec_run lim d evs\<close> follows the depth of the open sections from d on: None where a section
  is closed that is not open, or more than \<open>lim\<close> are open at a time.
\<close>

fun sec_run :: "nat \<Rightarrow> nat \<Rightarrow> log_event list \<Rightarrow> nat option" where
  "sec_run lim d [] = Some d"
| "sec_run lim d (EvBegin n # evs) = (if d < lim then sec_run lim (Suc d) evs else None)"
| "sec_run lim d (EvEnd # evs) = (case d of 0 \<Rightarrow> None | Suc d' \<Rightarrow> sec_run lim d' evs)"
| "sec_run lim d (_ # evs) = sec_run lim d evs"

definition nest :: "nat \<Rightarrow> log_event list \<Rightarrow> bool" where
  "nest n evs \<longleftrightarrow>
     (\<forall>ev \<in> set evs. \<not> opens_closes ev) \<and> (\<forall>d lim. d + n \<le> lim \<longrightarrow> sec_run lim d evs = Some d)"

lemma sec_run_append:
  "sec_run lim d (xs @ ys) = (case sec_run lim d xs of None \<Rightarrow> None | Some d' \<Rightarrow> sec_run lim d' ys)"
  by (induction lim d xs rule: sec_run.induct) (auto split: nat.split)

lemma nest_Nil [simp]: "nest n []"
  by (simp add: nest_def)

lemma opens_closes_simps [simp]: "\<not> opens_closes (EvBegin n)" "\<not> opens_closes EvEnd"
  by (simp_all add: opens_closes_def)

lemma nest_append: "nest n xs \<Longrightarrow> nest n ys \<Longrightarrow> nest n (xs @ ys)"
  by (auto simp: nest_def sec_run_append)

lemma nest_mono: "nest n xs \<Longrightarrow> n \<le> m \<Longrightarrow> nest m xs"
  by (simp add: nest_def)

lemma nest_wrap: "nest n xs \<Longrightarrow> nest (Suc n) (EvBegin s # xs @ [EvEnd])"
  by (simp add: nest_def sec_run_append)

lemma sections_printf [simp]:
  "log_ok lo \<Longrightarrow> sections (fwts_log_printf g fl f l st lb p b lo) = sections lo"
  by (simp add: fwts_log_printf_def)

lemma sections_owner [simp]: "sections (snd (fwts_log_set_owner mem w lo)) = sections lo"
  by (simp add: sections_def)

lemma results_fw_log [simp]:
  "results (fw_section_begin n fw) = log_call (EvBegin n) (results fw)"
  "results (fw_section_end fw) = log_call EvEnd (results fw)"
  "results (fw_underline c fw) = log_call (EvUnderline c) (results fw)"
  "results (fw_newline fw) = log_call EvNewline (results fw)"
  "results (upd_major f fw) = results fw"
  "results (fwts_framework_minor_test_progress p fw) = results fw"
  by (simp_all add: fw_section_begin_def fwts_log_section_begin_def fw_section_end_def
      fwts_log_section_end_def fw_underline_def fwts_log_underline_def fw_newline_def
      fwts_log_newline_def upd_major_def fwts_framework_minor_test_progress_def)

abbreviation fw_ext :: "log_event list \<Rightarrow> fwts_framework \<Rightarrow> fwts_framework \<Rightarrow> bool" where
  "fw_ext evs fw fw' \<equiv> sec_ext evs (results fw) (results fw')"

lemma fw_ext_printf [simp]: "fw_ext [] fw (fw_printf f l st lb p b fw)"
  by (simp add: fw_printf_def sec_ext_printf)

lemma fw_ext_frame: "test_frame fw fw' \<Longrightarrow> fw_ext [] fw fw'"
  by (simp add: test_frame_def)

lemma rt_start_ext: "fw_ext [EvBegin (test_name t)] fw (rt_start t fw)"
  by (simp add: rt_start_def Let_def sec_ext_def fwts_log_heading_def fw_printf_def fw_set_owner_def
      split: option.split)

lemma rt_minor_pre_ext:
  "fw_ext (EvBegin ''subtest'' #
     (if minor_name m = None then [] else [EvBegin ''subtest_info'', EvEnd]) @ [EvBegin ''subtest_results''])
     fw (rt_minor_pre t m fw)"
  by (simp add: rt_minor_pre_def Let_def sec_ext_def fwts_log_info_def fw_printf_def comp_def
      split: option.split)

lemma rt_minor_post_ext: "fw_ext [EvEnd, EvEnd] fw (snd (rt_minor_post t ret fw))"
  by (simp add: rt_minor_post_def Let_def sec_ext_def fwts_log_nl_def fw_printf_def comp_def)

lemma rt_minor_ext:
  assumes "well_behaved (minor_func m)"
  shows "\<exists>evs. fw_ext evs fw (snd (rt_minor t m fw)) \<and> nest 2 evs"
proof -
  let ?p = "rt_minor_pre t m fw"
  let ?in = "(if minor_name m = None then [] else [EvBegin ''subtest_info'', EvEnd])"
  have c: "fw_ext [] ?p (snd (minor_func m ?p))"
    using assms by (simp add: well_behaved_def fw_ext_frame)
  have eq: "snd (rt_minor t m fw) = snd (rt_minor_post t (fst (minor_func m ?p)) (snd (minor_func m ?p)))"
    by (simp add: rt_minor_def case_prod_beta)
  have "fw_ext ((EvBegin ''subtest'' # ?in @ [EvBegin ''subtest_results'']) @ [] @ [EvEnd, EvEnd])
      fw (snd (rt_minor t m fw))"
    unfolding eq by (rule sec_ext_trans [OF rt_minor_pre_ext sec_ext_trans [OF c rt_minor_post_ext]])
  moreover have "nest 2 ((EvBegin ''subtest'' # ?in @ [EvBegin ''subtest_results'']) @ [] @ [EvEnd, EvEnd])"
    by (simp add: nest_def)
  ultimately show ?thesis by blast
qed

lemma rt_minors_ext:
  assumes "\<forall>m \<in> set ms. well_behaved (minor_func m)"
  shows "\<exists>evs. fw_ext evs fw (rt_minors t ms fw) \<and> nest 2 evs"
  using assms
proof (induction ms arbitrary: fw)
  case Nil
  show ?case by (rule exI [of _ "[]"]) simp
next
  case (Cons m ms)
  obtain go_on fw' where r: "rt_minor t m fw = (go_on, fw')" by fastforce
  have "well_behaved (minor_func m)" using Cons.prems by simp
  from rt_minor_ext [OF this, of fw t] r obtain e1 where e1: "fw_ext e1 fw fw'" "nest 2 e1" by auto
  show ?case
  proof (cases go_on)
    case True
    let ?f = "fw'\<lparr>current_minor_test_num := current_minor_test_num fw' + 1\<rparr>"
    from Cons.IH [of ?f] Cons.prems obtain e2 where e2: "fw_ext e2 ?f (rt_minors t ms ?f)" "nest 2 e2"
      by auto
    have "fw_ext e2 fw' (rt_minors t ms ?f)" using e2(1) by simp
    then have "fw_ext (e1 @ e2) fw (rt_minors t ms ?f)" by (rule sec_ext_trans [OF e1(1)])
    with r True e1 e2 show ?thesis by (auto intro: nest_append)
  next
    case False
    with r e1 show ?thesis by auto
  qed
qed

lemma rt_body_ext:
  assumes "wb_test t"
  shows "\<exists>evs. fw_ext evs fw (rt_body t fw) \<and> nest 3 evs"
proof -
  let ?a = "fw_section_begin ''subtests'' fw"
  let ?b = "rt_minors t (ops_minor_tests (test_ops t)) ?a"
  obtain evs where e: "fw_ext evs ?a ?b" "nest 2 evs"
    using assms rt_minors_ext [of "ops_minor_tests (test_ops t)" ?a t] by (auto simp: wb_test_def)
  define c where "c = (let f = fw_section_end ?b in
    f\<lparr>totals := fwts_framework_summate_results (totals f) (test_results f (current_major_test f))\<rparr>)"
  have "fw_ext [EvBegin ''subtests''] fw ?a" and "fw_ext [EvEnd] ?b c"
    by (simp_all add: sec_ext_def c_def Let_def)
  then have "fw_ext ([EvBegin ''subtests''] @ evs @ [EvEnd]) fw c"
    using e(1) by (blast intro: sec_ext_trans)
  moreover have "fw_ext [] c (rt_body t fw)"
  proof (cases "ops_deinit (test_ops t)")
    case (Some d)
    then have "fw_ext [] c (snd (d c))"
      using assms by (simp add: wb_test_def well_behaved_def fw_ext_frame)
    with Some show ?thesis by (simp add: rt_body_def c_def Let_def)
  qed (simp add: rt_body_def c_def Let_def)
  ultimately have "fw_ext (([EvBegin ''subtests''] @ evs @ [EvEnd]) @ []) fw (rt_body t fw)"
    by (rule sec_ext_trans)
  moreover have "nest 3 (([EvBegin ''subtests''] @ evs @ [EvEnd]) @ [])"
    using nest_wrap [OF e(2)] by (simp add: numeral_3_eq_3 numeral_2_eq_2)
  ultimately show ?thesis by blast
qed

lemma rt_gate_ext:
  assumes "wb_test t"
  shows "fw_ext [] fw (case rt_gate t fw of Inl f \<Rightarrow> f | Inr f \<Rightarrow> f)"
proof -
  define e where "e = (if test_flags t AND FWTS_FLAG_ROOT_PRIV \<noteq> 0
                       then fwts_check_root_euid True fw else (FWTS_OK, fw))"
  have e: "fw_ext [] fw (snd e)" by (simp add: e_def check_euid_frame fw_ext_frame)
  have i: "fw_ext [] (snd e) (snd (init (snd e)))" if "ops_init (test_ops t) = Some init" for init
    using assms that by (simp add: wb_test_def well_behaved_def fw_ext_frame)
  have p: "fw_ext [] fw g" if "fw_ext [] (snd e) g" for g
    using sec_ext_trans [OF e that] by simp
  have q: "fw_ext [] fw (fw_printf f l st lb pp b g)" if "fw_ext [] fw g" for f l st lb pp b g
    using sec_ext_trans [OF that fw_ext_printf] by simp
  show ?thesis
    unfolding rt_gate_def Let_def e_def [symmetric]
    using e i p q
    by (auto simp: case_prod_beta fwts_log_error_def fwts_log_info_def split: option.split)
qed

lemma rt_finish_ext:
  "\<exists>evs. fw_ext (evs @ [EvEnd]) fw (rt_finish t fw) \<and> nest 1 evs"
proof -
  let ?evs = "(if test_flags t AND FWTS_FLAG_UTILS = 0 then [EvBegin ''results'', EvEnd] else [])"
  have "fw_ext (?evs @ [EvEnd]) fw (rt_finish t fw)"
    by (simp add: rt_finish_def Let_def sec_ext_def fwts_framework_test_summary_def fwts_log_summary_def
        fw_printf_def fw_set_owner_def comp_def)
  moreover have "nest 1 ?evs" by (simp add: nest_def)
  ultimately show ?thesis by blast
qed

theorem run_test_sections:
  assumes "wb_test t"
  shows "\<exists>evs. fw_ext evs fw (fwts_framework_run_test t fw) \<and> nest 4 evs"
proof -
  let ?s = "rt_start t fw"
  have "\<exists>f evs. fw_ext evs ?s f \<and> nest 3 evs \<and> fwts_framework_run_test t fw = rt_finish t f"
  proof (cases "rt_gate t ?s")
    case (Inl f)
    then have "fw_ext [] ?s f" using rt_gate_ext [OF assms, of ?s] by simp
    with Inl show ?thesis by (auto simp: fwts_framework_run_test_def intro!: exI [of _ "[]"])
  next
    case (Inr f)
    then have g: "fw_ext [] ?s f" using rt_gate_ext [OF assms, of ?s] by simp
    obtain evs where "fw_ext evs f (rt_body t f)" "nest 3 evs" using rt_body_ext [OF assms] by blast
    with sec_ext_trans [OF g] Inr show ?thesis by (fastforce simp: fwts_framework_run_test_def)
  qed
  then obtain f evs where b: "fw_ext evs ?s f" "nest 3 evs"
    and eq: "fwts_framework_run_test t fw = rt_finish t f" by blast
  obtain e2 where e2: "fw_ext (e2 @ [EvEnd]) f (rt_finish t f)" "nest 1 e2"
    using rt_finish_ext by blast
  have "fw_ext ([EvBegin (test_name t)] @ evs @ e2 @ [EvEnd]) fw (rt_finish t f)"
    by (rule sec_ext_trans [OF rt_start_ext sec_ext_trans [OF b(1) e2(1)]])
  moreover have "nest 3 (evs @ e2)" using b(2) nest_mono [OF e2(2), of 3] by (simp add: nest_append)
  then have "nest 4 ([EvBegin (test_name t)] @ evs @ e2 @ [EvEnd])"
    using nest_wrap [of 3 "evs @ e2" "test_name t"] by simp
  ultimately show ?thesis using eq by auto
qed

lemma tests_run_sections:
  "\<forall>t \<in> set ts. wb_test t \<Longrightarrow> \<exists>evs. fw_ext evs fw (fold run_step ts fw) \<and> nest 4 evs"
proof (induction ts arbitrary: fw)
  case Nil
  show ?case by (rule exI [of _ "[]"]) simp
next
  case (Cons t ts)
  obtain e1 where e1: "fw_ext e1 fw (fwts_framework_run_test t fw)" "nest 4 e1"
    using run_test_sections Cons.prems by (meson list.set_intros(1))
  then have s: "fw_ext e1 fw (run_step t fw)" by (simp add: run_step_def Let_def)
  obtain e2 where e2: "fw_ext e2 (run_step t fw) (fold run_step ts (run_step t fw))" "nest 4 e2"
    using Cons.IH [of "run_step t fw"] Cons.prems by auto
  have "fw_ext (e1 @ e2) fw (fold run_step (t # ts) fw)" using sec_ext_trans [OF s e2(1)] by simp
  with e1 e2 show ?case by (blast intro: nest_append)
qed

end
