(* ===== verification/Fwts_Numbers.thy ===== *)
theory Fwts_Numbers
  imports Fwts_Prelude
begin

text \<open>
  The number scanners of the C library the sources call: strtol() and strtoul() with base 0
  or 10, and atoi(). Long is 64 bits; out of range they return the nearest value, as the
  library documents, and atoi() narrows to int, as the C library in use does.
\<close>

section \<open>Digits of a radix\<close>

definition digit_value :: "char \<Rightarrow> nat" where
  "digit_value c =
     (if isdigit c then of_char c - 48
      else if 97 \<le> (of_char c :: nat) \<and> (of_char c :: nat) \<le> 122 then of_char c - 87
      else if 65 \<le> (of_char c :: nat) \<and> (of_char c :: nat) \<le> 90 then of_char c - 55
      else 36)"

definition radix_run :: "nat \<Rightarrow> cstr \<Rightarrow> cstr" where
  "radix_run b s = takeWhile (\<lambda>c. digit_value c < b) s"

definition radix_val :: "nat \<Rightarrow> cstr \<Rightarrow> nat" where
  "radix_val b s = foldl (\<lambda>n c. b * n + digit_value c) 0 s"

definition c_sign :: "cstr \<Rightarrow> bool \<times> cstr" where
  "c_sign s =
     (case s of
        c # cs \<Rightarrow> if c = CHR ''-'' then (True, cs) else if c = CHR ''+'' then (False, cs) else (False, s)
      | [] \<Rightarrow> (False, []))"

text \<open>The radix and the digits of a number whose sign has been read, for base 0.\<close>

definition c_radix0 :: "cstr \<Rightarrow> nat \<times> cstr" where
  "c_radix0 s =
     (case s of
        z # x # d # ds \<Rightarrow>
          if z = CHR ''0'' \<and> (x = CHR ''x'' \<or> x = CHR ''X'') \<and> digit_value d < 16 then (16, d # ds)
          else if z = CHR ''0'' then (8, s) else (10, s)
      | z # _ \<Rightarrow> if z = CHR ''0'' then (8, s) else (10, s)
      | [] \<Rightarrow> (10, []))"

definition c_strtoul0 :: "cstr \<Rightarrow> u64" where
  "c_strtoul0 s =
     (let (neg, s) = c_sign (dropWhile isspace s);
          (b, s) = c_radix0 s;
          v = radix_val b (radix_run b s)
      in if 2 ^ 64 \<le> v then NOT 0
         else if neg then - word_of_nat v else word_of_nat v)"

definition c_strtol10 :: "cstr \<Rightarrow> int" where
  "c_strtol10 s =
     (let (neg, s) = c_sign (dropWhile isspace s);
          v = int (radix_val 10 (radix_run 10 s));
          v = (if neg then - v else v)
      in if v < - (2 ^ 63) then - (2 ^ 63) else if 2 ^ 63 - 1 < v then 2 ^ 63 - 1 else v)"

definition c_atoi :: "cstr \<Rightarrow> int" where
  "c_atoi s = sint (word_of_int (c_strtol10 s) :: u32)"

section \<open>Scanning what the printf conversions print\<close>

lemma digit_value_isdigit: "digit_value c < 10 \<longleftrightarrow> isdigit c"
  by (auto simp: digit_value_def isdigit_def)

lemma radix_run_digits: "\<forall>c \<in> set s. isdigit c \<Longrightarrow> radix_run 10 s = s"
  by (simp add: radix_run_def digit_value_isdigit)

lemma radix_run_stop:
  "\<forall>c \<in> set s. isdigit c \<Longrightarrow> (case r of [] \<Rightarrow> True | c # _ \<Rightarrow> \<not> isdigit c) \<Longrightarrow> radix_run 10 (s @ r) = s"
  by (cases r) (simp_all add: radix_run_def digit_value_isdigit takeWhile_stop)

lemma radix_val_digits: "\<forall>c \<in> set s. isdigit c \<Longrightarrow> radix_val 10 s = digits_val s"
  unfolding radix_val_def digits_val_def
proof (induction s rule: rev_induct)
  case (snoc c s)
  then show ?case by (simp add: digit_value_def char_digit_def)
qed simp

lemma digit_not_sign: "isdigit c \<Longrightarrow> c \<noteq> CHR ''-'' \<and> c \<noteq> CHR ''+'' \<and> \<not> isspace c"
  by (auto simp: isdigit_def isspace_def)

lemma show_nat_Cons: "\<exists>c cs. show_nat n = c # cs \<and> isdigit c"
  using show_nat_digits [of n] show_nat_nonempty [of n] by (cases "show_nat n") auto

lemma c_sign_show_nat: "c_sign (dropWhile isspace (show_nat n)) = (False, show_nat n)"
proof -
  obtain c cs where "show_nat n = c # cs" "isdigit c" using show_nat_Cons by blast
  then show ?thesis using digit_not_sign [of c] by (simp add: c_sign_def)
qed

lemma strtol_show_nat: "int n < 2 ^ 63 \<Longrightarrow> c_strtol10 (show_nat n) = int n"
  using show_nat_digits [of n]
  by (simp add: c_strtol10_def c_sign_show_nat radix_run_digits radix_val_digits)

lemma strtol_show_int:
  assumes "- (2 ^ 63) \<le> i" and "i < 2 ^ 63"
  shows "c_strtol10 (show_int i) = i"
proof (cases "i < 0")
  case True
  have "isspace CHR ''-'' = False" by (simp add: isspace_def)
  moreover have "c_strtol10 (CHR ''-'' # show_nat (nat (- i))) = i"
    using True assms show_nat_digits [of "nat (- i)"] calculation
    by (auto simp: c_strtol10_def c_sign_def radix_run_digits radix_val_digits)
  ultimately show ?thesis using True by (simp add: show_int_def)
next
  case False
  then show ?thesis using assms strtol_show_nat [of "nat i"] by (simp add: show_int_def)
qed

lemma atoi_show_int: "- (2 ^ 31) \<le> i \<Longrightarrow> i < 2 ^ 31 \<Longrightarrow> c_atoi (show_int i) = i"
  by (simp add: c_atoi_def strtol_show_int signed_take_bit_int_eq_self sint_sbintrunc')

lemma atoi_range: "- (2 ^ 31) \<le> c_atoi s \<and> c_atoi s < 2 ^ 31"
  using sint_range_size [of "word_of_int (c_strtol10 s) :: u32"] by (simp add: c_atoi_def word_size)

section \<open>strtoull() with an end pointer\<close>

text \<open>The prefix that base 16 allows.\<close>

definition c_prefix16 :: "cstr \<Rightarrow> cstr" where
  "c_prefix16 s =
     (case s of
        z # x # d # ds \<Rightarrow>
          if z = CHR ''0'' \<and> (x = CHR ''x'' \<or> x = CHR ''X'') \<and> digit_value d < 16 then d # ds else s
      | _ \<Rightarrow> s)"

text \<open>The value and the rest of the string; without a digit the rest is the whole string.\<close>

definition c_strtoull :: "nat \<Rightarrow> cstr \<Rightarrow> u64 \<times> cstr" where
  "c_strtoull b s =
     (let (neg, t) = c_sign (dropWhile isspace s);
          t = (if b = 16 then c_prefix16 t else t);
          ds = radix_run b t;
          v = radix_val b ds
      in if ds = [] then (0, s)
         else (if 2 ^ 64 \<le> v then NOT 0 else if neg then - word_of_nat v else word_of_nat v,
               drop (length ds) t))"

text \<open>The conversions \<open>%x\<close> and, with a width, \<open>%16.16x\<close>.\<close>

definition hex_lower :: "nat \<Rightarrow> char" where
  "hex_lower d = char_of (if d < 10 then 48 + d else 87 + d)"

fun show_hex :: "nat \<Rightarrow> cstr" where
  "show_hex n = (if n < 16 then [hex_lower n] else show_hex (n div 16) @ [hex_lower (n mod 16)])"

declare show_hex.simps [simp del]

definition show_hex_pad :: "nat \<Rightarrow> nat \<Rightarrow> cstr" where
  "show_hex_pad w n = replicate (w - length (show_hex n)) CHR ''0'' @ show_hex n"

lemma digit_value_hex_lower: "d < 16 \<Longrightarrow> digit_value (hex_lower d) = d"
  by (simp add: hex_lower_def digit_value_def isdigit_def)

lemma show_hex_digits: "\<forall>c \<in> set (show_hex n). digit_value c < 16"
proof (induction n rule: show_hex.induct)
  case (1 n)
  then show ?case by (cases "n < 16") (auto simp: show_hex.simps [of n] digit_value_hex_lower)
qed

lemma radix_val_snoc: "radix_val b (s @ [c]) = b * radix_val b s + digit_value c"
  by (simp add: radix_val_def)

lemma radix_val_show_hex: "radix_val 16 (show_hex n) = n"
proof (induction n rule: show_hex.induct)
  case (1 n)
  then show ?case
    by (cases "n < 16")
      (simp_all add: show_hex.simps [of n] radix_val_snoc digit_value_hex_lower, simp add: radix_val_def digit_value_hex_lower)
qed

lemma show_hex_nonempty [simp]: "show_hex n \<noteq> []"
  by (simp add: show_hex.simps [of n])

end
