(* ===== verification/Fwts_Options.thy ===== *)
theory Fwts_Options
  imports Fwts_Run Fwts_Numbers
begin

text \<open>
  The command line options of the framework itself: the option table, the parsers of option
  arguments and fwts_framework_options_handler() of src/lib/src/fwts_framework.c, and the
  architecture names of src/lib/src/fwts_arch.c.

  The handler changes the framework and file-scope state only (the list of tests to skip and
  the log's globals are fields of the framework record); lines it prints on stdout are added
  to stdout_lines, messages on stderr are left out. What depends on the build or on other
  parts of the program is an argument: the registered tests, the lines of the help and of the
  version, the FWTS_ENABLE_LOGIND switch, and the disassembler of fwts_iasl.c. The platform
  modelled is x86, where --sbbr and --ebbr are refused.
\<close>

section \<open>fwts_arch.c\<close>

definition arch_info :: "(cstr \<times> fwts_architecture) list" where
  "arch_info =
     [(''x86'', FWTS_ARCH_X86), (''x86_32'', FWTS_ARCH_X86), (''x86_64'', FWTS_ARCH_X86),
      (''i686'', FWTS_ARCH_X86), (''ia64'', FWTS_ARCH_IA64), (''arm64'', FWTS_ARCH_ARM64),
      (''aarch64'', FWTS_ARCH_ARM64), (''riscv64'', FWTS_ARCH_RISCV64)]"

definition arch_name :: "(fwts_architecture \<times> cstr) list" where
  "arch_name =
     [(FWTS_ARCH_X86, ''x86''), (FWTS_ARCH_IA64, ''ia64''), (FWTS_ARCH_ARM64, ''arm64''),
      (FWTS_ARCH_RISCV64, ''riscv64'')]"

definition fwts_arch_get_arch_by_name :: "cstr \<Rightarrow> fwts_architecture" where
  "fwts_arch_get_arch_by_name name =
     (case map_of arch_info name of Some a \<Rightarrow> a | None \<Rightarrow> FWTS_ARCH_OTHER)"

definition fwts_arch_get_arch :: "cstr \<Rightarrow> fwts_architecture" where
  "fwts_arch_get_arch name = fwts_arch_get_arch_by_name name"

text \<open>The answer of uname(), if it has one.\<close>

definition fwts_arch_get_host :: "cstr option \<Rightarrow> fwts_architecture" where
  "fwts_arch_get_host machine =
     (case machine of None \<Rightarrow> FWTS_ARCH_OTHER | Some m \<Rightarrow> fwts_arch_get_arch_by_name m)"

definition fwts_arch_names :: cstr where
  "fwts_arch_names = concat (map (\<lambda>p. fst p @ '' '') arch_info)"

definition fwts_arch_get_name :: "fwts_architecture \<Rightarrow> cstr" where
  "fwts_arch_get_name arch = (case map_of arch_name arch of Some n \<Rightarrow> n | None \<Rightarrow> ''other'')"

section \<open>The option table\<close>

definition fw_option :: "cstr \<Rightarrow> cstr \<Rightarrow> int \<Rightarrow> cstr \<Rightarrow> fwts_option" where
  "fw_option l s n e = \<lparr>long_name = l, short_name = Some s, has_arg = n, explanation = e\<rparr>"

definition fwts_framework_options :: "cstr \<Rightarrow> fwts_option list" where
  "fwts_framework_options version =
     [fw_option ''stdout-summary'' '''' 0 ''Output SUCCESS or FAILED to stdout at end of tests.'',
      fw_option ''help'' ''h?'' 0 ''Get help.'',
      fw_option ''results-output'' ''r:'' 1 ''Output results to a named file. Filename can also be stout or stderr, e.g. --results-output=myresults.log,  -r stdout.'',
      fw_option ''results-no-separators'' '''' 0 ''No horizontal separators in results log.'',
      fw_option ''log-filter'' '''' 1 ''Define filters to dump out specific log fields: --log-filter=RES,SUM - dump out results and summary, --log-filter=ALL,~INF - dump out all fields except info fields.'',
      fw_option ''log-fields'' '''' 0 ''Show available log filtering fields.'',
      fw_option ''log-format'' '''' 1 ''Define output log format:  e.g. --log-format=\"%date %time [%field] (%owner): \".  Fields are: %time - time, %field - filter field, %owner - name of test, %level - failure error level, %line - log line number.'',
      fw_option ''show-progress'' ''p'' 0 ''Output test progress report to stderr.'',
      fw_option ''show-tests'' ''s'' 0 ''Show available tests.'',
      fw_option ''klog'' ''k:'' 1 ''Specify kernel log file rather than reading it from the kernel, e.g. --klog=dmesg.log'',
      fw_option ''olog'' ''o:'' 1 ''Specify Other logs to be analyzed, main usage is for custom log analysis, best to use custom json file for pattern matching, e.g. -o /var/log/my_opal_msglog --json-data-file=olog.json --json-data-path=/home/myuser, on PPC this will default to dumping the OPAL msglog for analysis.'',
      fw_option ''log-width'' ''w:'' 1 ''Define the output log width in characters.'',
      fw_option ''lspci'' '''' 1 ''Specify path to lspci, e.g. --lspci=path.'',
      fw_option ''batch'' ''b'' 0 ''Run non-Interactive tests.'',
      fw_option ''interactive'' ''i'' 0 ''Just run Interactive tests.'',
      fw_option ''force-clean'' ''f'' 0 ''Force a clean results log file.'',
      fw_option ''version'' ''v'' 0 (''Show version ('' @ version @ '').''),
      fw_option ''dump'' ''d'' 0 ''Dump out dmesg, dmidecode, lspci, ACPI tables to logs.'',
      fw_option ''table-path'' ''t:'' 1 ''Path to ACPI tables dumped by acpidump and then acpixtract, e.g. --table-path=/some/path/to/acpidumps'',
      fw_option ''batch-experimental'' '''' 0 ''Run Batch Experimental tests.'',
      fw_option ''interactive-experimental'' '''' 0 ''Just run Interactive Experimental tests.'',
      fw_option ''power-states'' ''P'' 0 ''Test S3, S4 power states.'',
      fw_option ''all'' ''a'' 0 ''Run all tests.'',
      fw_option ''show-progress-dialog'' ''D'' 0 ''Output test progress for use in dialog tool.'',
      fw_option ''skip-test'' ''S:'' 1 ''Skip listed tests, e.g. --skip-test=s3,nx,method'',
      fw_option ''quiet'' ''q'' 0 ''Run quietly.'',
      fw_option ''dumpfile'' '''' 1 ''Load ACPI tables using file generated by acpidump, e.g. --dumpfile=acpidump.dat'',
      fw_option ''show-tests-full'' '''' 0 ''Show available tests including all minor tests.'',
      fw_option ''utils'' ''u'' 0 ''Run Utility 'tests'.'',
      fw_option ''json-data-path'' ''j:'' 1 ''Specify path to fwts json data files - default is /usr/share/fwts.'',
      fw_option ''json-data-file'' ''J:'' 1 ''Specify the file to use for pattern matching on --olog, you may need to specify the json-data-path also if non-default location.'',
      fw_option ''disassemble-aml'' '''' 2 ''Disassemble AML from DSDT and SSDT tables.'',
      fw_option ''log-type'' '''' 1 ''Specify log type (plaintext, json, html or xml).'',
      fw_option ''unsafe'' ''U'' 0 ''Unsafe tests (tests that can potentially cause kernel oopses).'',
      fw_option ''filter-error-discard'' '''' 1 ''Discard errors that match any of the specified labels.'',
      fw_option ''filter-error-keep'' '''' 1 ''Keep errors that match any of the specified labels.'',
      fw_option ''acpica-debug'' '''' 0 ''Enable ACPICA debug/warning messages.'',
      fw_option ''acpica'' '''' 1 ''Enable ACPICA run time options.'',
      fw_option ''uefitests'' '''' 0 ''Run UEFI tests.'',
      fw_option ''rsdp'' ''R:'' 1 ''Specify the physical address of the ACPI RSDP.'',
      fw_option ''pm-method'' '''' 1 ''Select the power method to use. Accepted values are \"logind\", \"pm-utils\", \"sysfs\"'',
      fw_option ''show-tests-categories'' '''' 0 ''Show tests and associated categories.'',
      fw_option ''acpitests'' '''' 0 ''Run general ACPI tests.'',
      fw_option ''acpicompliance'' '''' 0 ''Run ACPI tests for spec compliance.'',
      fw_option ''log-level'' '''' 1 ''Specify error level to report failed test messages,'',
      fw_option ''arch'' '''' 1 ''Specify arch of the tables being tested (defaults to current host).'',
      fw_option ''sbbr'' '''' 0 ''Run ARM SBBR tests.'',
      fw_option ''ifv'' '''' 0 ''Run tests in firmware-vendor modes.'',
      fw_option ''clog'' '''' 1 ''Specify a coreboot logfile dump'',
      fw_option ''ebbr'' '''' 0 ''Run EBBR tests.'']"

section \<open>Parsers of option arguments\<close>

definition fwts_framework_strdup :: "(nat \<Rightarrow> bool) \<Rightarrow> cstr \<Rightarrow> cstr option" where
  "fwts_framework_strdup mem str = (if mem (length str + 1) then Some str else None)"

definition comma_tokens :: "cstr \<Rightarrow> cstr list" where
  "comma_tokens arg = c_strtok (\<lambda>c. c = CHR '','') arg"

definition fwts_framework_skip_test :: "fwts_framework \<Rightarrow> fwts_framework_test \<Rightarrow> bool" where
  "fwts_framework_skip_test fw test \<longleftrightarrow> test_id test \<in> set (tests_to_skip fw)"

fun skip_test_loop :: "fwts_framework_test list \<Rightarrow> cstr list \<Rightarrow> fwts_framework \<Rightarrow> int \<times> fwts_framework" where
  "skip_test_loop tests [] fw = (FWTS_OK, fw)"
| "skip_test_loop tests (token # tokens) fw =
     (case fwts_framework_test_find tests token of
        None \<Rightarrow> (FWTS_ERROR, fw)
      | Some test \<Rightarrow>
          skip_test_loop tests tokens
            (if alloc_ok fw 16 then fw\<lparr>tests_to_skip := tests_to_skip fw @ [test_id test]\<rparr> else fw))"

definition fwts_framework_skip_test_parse ::
    "fwts_framework_test list \<Rightarrow> cstr \<Rightarrow> fwts_framework \<Rightarrow> int \<times> fwts_framework" where
  "fwts_framework_skip_test_parse tests arg fw = skip_test_loop tests (comma_tokens arg) fw"

definition fwts_framework_filter_error_parse :: "(nat \<Rightarrow> bool) \<Rightarrow> cstr \<Rightarrow> cstr list \<Rightarrow> int \<times> cstr list" where
  "fwts_framework_filter_error_parse mem arg lst =
     (if comma_tokens arg = [] \<or> mem 16 then (FWTS_OK, lst @ comma_tokens arg) else (FWTS_ERROR, []))"

definition log_type_names :: "(cstr \<times> u32) list" where
  "log_type_names = [(''plaintext'', LOG_TYPE_PLAINTEXT), (''json'', LOG_TYPE_JSON),
                     (''xml'', LOG_TYPE_XML), (''html'', LOG_TYPE_HTML)]"

text \<open>The loops of the two mask parsers: an unknown name ends them, with the bits so far.\<close>

fun mask_loop :: "(cstr \<times> u32) list \<Rightarrow> cstr list \<Rightarrow> u32 \<Rightarrow> bool \<times> u32" where
  "mask_loop names [] m = (True, m)"
| "mask_loop names (token # tokens) m =
     (case map_of names token of
        Some b \<Rightarrow> mask_loop names tokens (m OR b)
      | None \<Rightarrow> (False, m))"

definition fwts_framework_log_type_parse :: "cstr \<Rightarrow> fwts_framework \<Rightarrow> int \<times> fwts_framework" where
  "fwts_framework_log_type_parse arg fw =
     (let (ok, m) = mask_loop log_type_names (comma_tokens arg) 0 in
      if \<not> ok then (FWTS_ERROR, fw\<lparr>log_type := m\<rparr>)
      else (FWTS_OK, fw\<lparr>log_type := (if m = 0 then LOG_TYPE_PLAINTEXT else m)\<rparr>))"

definition acpica_mode_names :: "(cstr \<times> u32) list" where
  "acpica_mode_names = [(''serialized'', 1), (''slack'', 2), (''ignore-errors'', 4),
                        (''disable-auto-repair'', 8)]"

definition fwts_framework_acpica_parse :: "cstr \<Rightarrow> fwts_framework \<Rightarrow> int \<times> fwts_framework" where
  "fwts_framework_acpica_parse arg fw =
     (let (ok, m) = mask_loop acpica_mode_names (comma_tokens arg) 0;
          fw = fw\<lparr>acpica_mode := m\<rparr>
      in if \<not> ok then (FWTS_ERROR, fw)
         else (FWTS_OK, if log_type fw = 0 then fw\<lparr>log_type := LOG_TYPE_PLAINTEXT\<rparr> else fw))"

definition fwts_framework_pm_method_parse :: "bool \<Rightarrow> cstr \<Rightarrow> fwts_framework \<Rightarrow> int \<times> fwts_framework" where
  "fwts_framework_pm_method_parse logind arg fw =
     (if logind \<and> arg = ''logind'' then (FWTS_OK, fw\<lparr>pm_method := FWTS_PM_LOGIND\<rparr>)
      else if arg = ''pm-utils'' then (FWTS_OK, fw\<lparr>pm_method := FWTS_PM_PMUTILS\<rparr>)
      else if arg = ''sysfs'' then (FWTS_OK, fw\<lparr>pm_method := FWTS_PM_SYSFS\<rparr>)
      else (FWTS_ERROR, fw))"

definition log_levels :: "(cstr \<times> u32) list" where
  "log_levels =
     [(''critical'', LOG_LEVEL_CRITICAL),
      (''high'', LOG_LEVEL_CRITICAL OR LOG_LEVEL_HIGH),
      (''medium'', LOG_LEVEL_CRITICAL OR LOG_LEVEL_HIGH OR LOG_LEVEL_MEDIUM),
      (''low'', LOG_LEVEL_CRITICAL OR LOG_LEVEL_HIGH OR LOG_LEVEL_MEDIUM OR LOG_LEVEL_LOW),
      (''info'', LOG_LEVEL_CRITICAL OR LOG_LEVEL_HIGH OR LOG_LEVEL_MEDIUM OR LOG_LEVEL_LOW OR LOG_LEVEL_INFO),
      (''all'', LOG_LEVEL_ALL)]"

definition fwts_framework_ll_parse :: "cstr \<Rightarrow> fwts_framework \<Rightarrow> int \<times> fwts_framework" where
  "fwts_framework_ll_parse arg fw =
     (case map_of log_levels arg of
        Some l \<Rightarrow> (FWTS_OK, fw\<lparr>filter_level := l\<rparr>)
      | None \<Rightarrow> (FWTS_ERROR, fw))"

definition fwts_framework_an_parse :: "cstr \<Rightarrow> fwts_framework \<Rightarrow> int \<times> fwts_framework" where
  "fwts_framework_an_parse arg fw =
     (let fw = fw\<lparr>target_arch := fwts_arch_get_arch arg\<rparr> in
      if target_arch fw = FWTS_ARCH_OTHER then (FWTS_ERROR, fw) else (FWTS_OK, fw))"

section \<open>The options handler\<close>

record opt_env =
  oe_tests :: "fwts_framework_test list"
  oe_syntax :: "cstr list"
  oe_version :: cstr
  oe_logind :: bool
  oe_disassemble :: "cstr \<Rightarrow> fwts_framework \<Rightarrow> fwts_framework"

definition say :: "cstr list \<Rightarrow> fwts_framework \<Rightarrow> fwts_framework" where
  "say ls fw = fw\<lparr>stdout_lines := stdout_lines fw @ ls\<rparr>"

definition set_flag :: "u32 \<Rightarrow> fwts_framework \<Rightarrow> int \<times> fwts_framework" where
  "set_flag f fw = (FWTS_OK, fw\<lparr>flags := flags fw OR f\<rparr>)"

text \<open>\<open>fw->flags = (fw->flags & ~(o1 | o2)) | m\<close>, one of the three output modes.\<close>

definition set_mode :: "u32 \<Rightarrow> u32 \<Rightarrow> u32 \<Rightarrow> fwts_framework \<Rightarrow> int \<times> fwts_framework" where
  "set_mode m o1 o2 fw = (FWTS_OK, fw\<lparr>flags := (flags fw AND NOT (o1 OR o2)) OR m\<rparr>)"

definition set_log :: "(log_globals \<Rightarrow> log_globals) \<Rightarrow> fwts_framework \<Rightarrow> int \<times> fwts_framework" where
  "set_log f fw = (FWTS_OK, fw\<lparr>logg := f (logg fw)\<rparr>)"

definition keep_error :: "int \<times> fwts_framework \<Rightarrow> int \<times> fwts_framework" where
  "keep_error r = (if fst r \<noteq> FWTS_OK then (FWTS_ERROR, snd r) else (FWTS_OK, snd r))"

definition do_skip :: "opt_env \<Rightarrow> cstr \<Rightarrow> fwts_framework \<Rightarrow> int \<times> fwts_framework" where
  "do_skip env arg fw =
     (let (ret, fw) = fwts_framework_skip_test_parse (oe_tests env) arg fw in
      if ret \<noteq> FWTS_OK then (FWTS_COMPLETE, fw) else (FWTS_OK, fw))"

text \<open>case 0: a long option, by its index in the table.\<close>

definition long_options_handler :: "opt_env \<Rightarrow> fwts_framework \<Rightarrow> int \<Rightarrow> cstr \<Rightarrow> int \<times> fwts_framework" where
  "long_options_handler env fw long_index optarg =
     (let dup = fwts_framework_strdup (alloc_ok fw) optarg in
      if long_index = 0 then set_flag FWTS_FLAG_STDOUT_SUMMARY fw
      else if long_index = 1 then (FWTS_COMPLETE, say (oe_syntax env) fw)
      else if long_index = 2 then (FWTS_OK, fw\<lparr>results_logname := dup\<rparr>)
      else if long_index = 3 then set_log (fwts_log_filter_unset_field LOG_SEPARATOR) fw
      else if long_index = 4 then
        set_log (\<lambda>g. fwts_log_set_field_filter optarg (fwts_log_filter_unset_field (NOT 0) g)) fw
      else if long_index = 5 then (FWTS_COMPLETE, say [fwts_log_print_fields] fw)
      else if long_index = 6 then set_log (fwts_log_set_format optarg) fw
      else if long_index = 7 then
        set_mode FWTS_FLAG_SHOW_PROGRESS FWTS_FLAG_QUIET FWTS_FLAG_SHOW_PROGRESS_DIALOG fw
      else if long_index = 8 then set_flag FWTS_FLAG_SHOW_TESTS fw
      else if long_index = 9 then (FWTS_OK, fw\<lparr>klog := dup\<rparr>)
      else if long_index = 10 then (FWTS_OK, fw\<lparr>olog := dup\<rparr>)
      else if long_index = 11 then set_log (fwts_log_set_line_width (c_atoi optarg)) fw
      else if long_index = 12 then (FWTS_OK, fw\<lparr>lspci := dup\<rparr>)
      else if long_index = 13 then set_flag FWTS_FLAG_BATCH fw
      else if long_index = 14 then set_flag FWTS_FLAG_INTERACTIVE fw
      else if long_index = 15 then set_flag FWTS_FLAG_FORCE_CLEAN fw
      else if long_index = 16 then (FWTS_COMPLETE, say [oe_version env] fw)
      else if long_index = 17 then set_flag FWTS_FLAG_DUMP fw
      else if long_index = 18 then (FWTS_OK, fw\<lparr>acpi_table_path := dup\<rparr>)
      else if long_index = 19 then set_flag FWTS_FLAG_BATCH_EXPERIMENTAL fw
      else if long_index = 20 then set_flag FWTS_FLAG_INTERACTIVE_EXPERIMENTAL fw
      else if long_index = 21 then set_flag FWTS_FLAG_POWER_STATES fw
      else if long_index = 22 then set_flag FWTS_FLAG_RUN_ALL fw
      else if long_index = 23 then
        set_mode FWTS_FLAG_SHOW_PROGRESS_DIALOG FWTS_FLAG_QUIET FWTS_FLAG_SHOW_PROGRESS fw
      else if long_index = 24 then do_skip env optarg fw
      else if long_index = 25 then
        set_mode FWTS_FLAG_QUIET FWTS_FLAG_SHOW_PROGRESS FWTS_FLAG_SHOW_PROGRESS_DIALOG fw
      else if long_index = 26 then (FWTS_OK, fw\<lparr>acpi_table_acpidump_file := dup\<rparr>)
      else if long_index = 27 then set_flag FWTS_FLAG_SHOW_TESTS_FULL fw
      else if long_index = 28 then set_flag FWTS_FLAG_UTILS fw
      else if long_index = 29 then (FWTS_OK, fw\<lparr>json_data_path := dup\<rparr>)
      else if long_index = 30 then (FWTS_OK, fw\<lparr>json_data_file := dup\<rparr>)
      else if long_index = 31 then (FWTS_COMPLETE, oe_disassemble env optarg fw)
      else if long_index = 32 then keep_error (fwts_framework_log_type_parse optarg fw)
      else if long_index = 33 then set_flag FWTS_FLAG_UNSAFE fw
      else if long_index = 34 then
        (let (ret, l) = fwts_framework_filter_error_parse (alloc_ok fw) optarg (errors_filter_discard fw)
         in keep_error (ret, fw\<lparr>errors_filter_discard := l\<rparr>))
      else if long_index = 35 then
        (let (ret, l) = fwts_framework_filter_error_parse (alloc_ok fw) optarg (errors_filter_keep fw)
         in keep_error (ret, fw\<lparr>errors_filter_keep := l\<rparr>))
      else if long_index = 36 then set_flag FWTS_FLAG_ACPICA_DEBUG fw
      else if long_index = 37 then keep_error (fwts_framework_acpica_parse optarg fw)
      else if long_index = 38 then set_flag FWTS_FLAG_UEFI fw
      else if long_index = 39 then (FWTS_OK, fw\<lparr>rsdp := c_strtoul0 optarg\<rparr>)
      else if long_index = 40 then keep_error (fwts_framework_pm_method_parse (oe_logind env) optarg fw)
      else if long_index = 41 then set_flag FWTS_FLAG_SHOW_TESTS_CATEGORIES fw
      else if long_index = 42 then set_flag FWTS_FLAG_ACPI fw
      else if long_index = 43 then set_flag FWTS_FLAG_COMPLIANCE_ACPI fw
      else if long_index = 44 then keep_error (fwts_framework_ll_parse optarg fw)
      else if long_index = 45 then keep_error (fwts_framework_an_parse optarg fw)
      else if long_index = 46 then (FWTS_ERROR, fw)
      else if long_index = 47 then set_flag FWTS_FLAG_FIRMWARE_VENDOR fw
      else if long_index = 48 then (FWTS_OK, fw\<lparr>clog := dup\<rparr>)
      else if long_index = 49 then (FWTS_ERROR, fw)
      else (FWTS_OK, fw))"

text \<open>The short options; the option character is an int.\<close>

definition short_options_handler :: "opt_env \<Rightarrow> fwts_framework \<Rightarrow> char \<Rightarrow> cstr \<Rightarrow> int \<times> fwts_framework" where
  "short_options_handler env fw ch optarg =
     (let dup = fwts_framework_strdup (alloc_ok fw) optarg in
      if ch = CHR ''a'' then set_flag FWTS_FLAG_RUN_ALL fw
      else if ch = CHR ''b'' then set_flag FWTS_FLAG_BATCH fw
      else if ch = CHR ''d'' then set_flag FWTS_FLAG_DUMP fw
      else if ch = CHR ''D'' then
        set_mode FWTS_FLAG_SHOW_PROGRESS_DIALOG FWTS_FLAG_QUIET FWTS_FLAG_SHOW_PROGRESS fw
      else if ch = CHR ''f'' then set_flag FWTS_FLAG_FORCE_CLEAN fw
      else if ch = CHR ''h'' then (FWTS_COMPLETE, say (oe_syntax env) fw)
      else if ch = CHR ''?'' then (FWTS_COMPLETE, fw)
      else if ch = CHR ''i'' then set_flag FWTS_FLAG_INTERACTIVE fw
      else if ch = CHR ''j'' then (FWTS_OK, fw\<lparr>json_data_path := dup\<rparr>)
      else if ch = CHR ''J'' then (FWTS_OK, fw\<lparr>json_data_file := dup\<rparr>)
      else if ch = CHR ''k'' then (FWTS_OK, fw\<lparr>klog := dup\<rparr>)
      else if ch = CHR ''l'' then (FWTS_OK, fw)
      else if ch = CHR ''o'' then (FWTS_OK, fw\<lparr>olog := dup\<rparr>)
      else if ch = CHR ''p'' then
        set_mode FWTS_FLAG_SHOW_PROGRESS FWTS_FLAG_QUIET FWTS_FLAG_SHOW_PROGRESS_DIALOG fw
      else if ch = CHR ''P'' then set_flag FWTS_FLAG_POWER_STATES fw
      else if ch = CHR ''q'' then
        set_mode FWTS_FLAG_QUIET FWTS_FLAG_SHOW_PROGRESS FWTS_FLAG_SHOW_PROGRESS_DIALOG fw
      else if ch = CHR ''r'' then (FWTS_OK, fw\<lparr>results_logname := dup\<rparr>)
      else if ch = CHR ''s'' then set_flag FWTS_FLAG_SHOW_TESTS fw
      else if ch = CHR ''S'' then do_skip env optarg fw
      else if ch = CHR ''t'' then (FWTS_OK, fw\<lparr>acpi_table_path := dup\<rparr>)
      else if ch = CHR ''u'' then set_flag FWTS_FLAG_UTILS fw
      else if ch = CHR ''U'' then set_flag FWTS_FLAG_UNSAFE fw
      else if ch = CHR ''v'' then (FWTS_COMPLETE, say [oe_version env] fw)
      else if ch = CHR ''w'' then set_log (fwts_log_set_line_width (c_atoi optarg)) fw
      else if ch = CHR ''R'' then (FWTS_OK, fw\<lparr>rsdp := c_strtoul0 optarg\<rparr>)
      else (FWTS_OK, fw))"

definition fwts_framework_options_handler :: "opt_env \<Rightarrow> optarg_handler" where
  "fwts_framework_options_handler env fw option_char long_index optarg =
     (if option_char = 0 then long_options_handler env fw long_index optarg
      else short_options_handler env fw (char_of (nat option_char)) optarg)"


section \<open>Argument parsers\<close>

lemma mask_loop_ok: "fst (mask_loop names tokens m) \<longleftrightarrow> (\<forall>t \<in> set tokens. t \<in> dom (map_of names))"
  by (induction names tokens m rule: mask_loop.induct) (auto split: option.split)

lemma mask_loop_bits:
  "fst (mask_loop names tokens m) \<Longrightarrow>
   bit (snd (mask_loop names tokens m)) n \<longleftrightarrow>
     bit m n \<or> (\<exists>t \<in> set tokens. \<exists>b. map_of names t = Some b \<and> bit b n)"
  by (induction names tokens m rule: mask_loop.induct) (auto simp: bit_simps split: option.splits)

lemma skip_test_loop_spec:
  assumes "alloc_ok fw 16"
  shows "skip_test_loop tests tokens fw =
           (let known = takeWhile (\<lambda>n. fwts_framework_test_find tests n \<noteq> None) tokens
            in (if length known = length tokens then FWTS_OK else FWTS_ERROR,
                fw\<lparr>tests_to_skip := tests_to_skip fw @
                     map (\<lambda>n. test_id (the (fwts_framework_test_find tests n))) known\<rparr>))"
  using assms
  by (induction tests tokens fw rule: skip_test_loop.induct) (auto simp: Let_def split: option.split)

lemma test_find_Some:
  "fwts_framework_test_find tests name = Some t \<Longrightarrow> t \<in> set tests \<and> test_name t = name"
  unfolding fwts_framework_test_find_def by (metis (mono_tags, lifting) find_Some_iff nth_mem)

lemma test_find_None:
  "fwts_framework_test_find tests name = None \<longleftrightarrow> (\<forall>t \<in> set tests. test_name t \<noteq> name)"
  unfolding fwts_framework_test_find_def find_None_iff by auto

section \<open>The output modes\<close>

definition output_modes :: u32 where
  "output_modes = FWTS_FLAG_QUIET OR FWTS_FLAG_SHOW_PROGRESS OR FWTS_FLAG_SHOW_PROGRESS_DIALOG"

definition one_mode :: "fwts_framework \<Rightarrow> bool" where
  "one_mode fw \<longleftrightarrow> flags fw AND output_modes \<in>
     {FWTS_FLAG_QUIET, FWTS_FLAG_SHOW_PROGRESS, FWTS_FLAG_SHOW_PROGRESS_DIALOG}"

lemma one_mode_flags: "flags fw' = flags fw \<Longrightarrow> one_mode fw' = one_mode fw"
  by (simp add: one_mode_def)

lemma set_flag_mode: "f AND output_modes = 0 \<Longrightarrow> one_mode (snd (set_flag f fw)) = one_mode fw"
  by (simp add: one_mode_def set_flag_def bit.conj_disj_distrib2)

lemma set_mode_mode:
  assumes "m \<in> {FWTS_FLAG_QUIET, FWTS_FLAG_SHOW_PROGRESS, FWTS_FLAG_SHOW_PROGRESS_DIALOG}"
    and "a OR b OR m = output_modes"
  shows "one_mode (snd (set_mode m a b fw))"
proof -
  have "((x AND NOT (a OR b)) OR m) AND (a OR b OR m) = m" for x
    by (auto simp: bit_eq_iff bit_simps)
  with assms show ?thesis by (simp add: one_mode_def set_mode_def)
qed

lemma skip_test_loop_flags [simp]: "flags (snd (skip_test_loop tests tokens fw)) = flags fw"
  by (induction tests tokens fw rule: skip_test_loop.induct) (auto split: option.split)

lemma parser_flags [simp]:
  "flags (snd (do_skip env arg fw)) = flags fw"
  "flags (snd (fwts_framework_log_type_parse arg fw)) = flags fw"
  "flags (snd (fwts_framework_acpica_parse arg fw)) = flags fw"
  "flags (snd (fwts_framework_pm_method_parse lg arg fw)) = flags fw"
  "flags (snd (fwts_framework_ll_parse arg fw)) = flags fw"
  "flags (snd (fwts_framework_an_parse arg fw)) = flags fw"
  "flags (snd (set_log f fw)) = flags fw"
  "flags (say ls fw) = flags fw"
  "snd (keep_error r) = snd r"
  by (simp_all add: do_skip_def fwts_framework_skip_test_parse_def fwts_framework_log_type_parse_def
      fwts_framework_acpica_parse_def fwts_framework_pm_method_parse_def fwts_framework_ll_parse_def
      fwts_framework_an_parse_def set_log_def say_def keep_error_def Let_def case_prod_unfold
      split: option.split)

lemma mode_ifI:
  "(b \<Longrightarrow> one_mode (snd x)) \<Longrightarrow> (\<not> b \<Longrightarrow> one_mode (snd y)) \<Longrightarrow> one_mode (snd (if b then x else y))"
  by simp

lemma one_mode_keep: "one_mode fw \<Longrightarrow> flags fw' = flags fw \<Longrightarrow> one_mode fw'"
  by (simp add: one_mode_def)

lemma one_mode_set_flag: "one_mode fw \<Longrightarrow> f AND output_modes = 0 \<Longrightarrow> one_mode (snd (set_flag f fw))"
  by (simp add: set_flag_mode)

lemma long_options_mode:
  assumes "one_mode fw" and "\<forall>a f. flags (oe_disassemble env a f) = flags f"
  shows "one_mode (snd (long_options_handler env fw i arg))"
  unfolding long_options_handler_def Let_def
  apply (intro mode_ifI)
  apply (rule one_mode_set_flag [OF assms(1)] set_mode_mode one_mode_keep [OF assms(1)];
      simp add: output_modes_def FWTS_FLAG_RUN_ALL_value assms(2) case_prod_unfold)+
  done

lemma short_options_mode:
  assumes "one_mode fw"
  shows "one_mode (snd (short_options_handler env fw c arg))"
  unfolding short_options_handler_def Let_def
  apply (intro mode_ifI)
  apply (rule one_mode_set_flag [OF assms(1)] set_mode_mode one_mode_keep [OF assms(1)];
      simp add: output_modes_def FWTS_FLAG_RUN_ALL_value)+
  done

section \<open>Short and long options\<close>

definition short_chars :: "fwts_option \<Rightarrow> cstr" where
  "short_chars opt = (case short_name opt of None \<Rightarrow> [] | Some s \<Rightarrow> filter (\<lambda>c. c \<noteq> CHR '':'') s)"

lemma short_chars_option: "short_chars (fw_option l s n e) = filter (\<lambda>c. c \<noteq> CHR '':'') s"
  by (simp add: short_chars_def fw_option_def)

lemma options_short_chars:
  "map short_chars (fwts_framework_options v) =
     ['''', ''h?'', ''r'', '''', '''', '''', '''', ''p'', ''s'', ''k'', ''o'', ''w'', '''', ''b'', ''i'', ''f'', ''v'',
      ''d'', ''t'', '''', '''', ''P'', ''a'', ''D'', ''S'', ''q'', '''', '''', ''u'', ''j'', ''J'', '''', '''', ''U'',
      '''', '''', '''', '''', '''', ''R'', '''', '''', '''', '''', '''', '''', '''', '''', '''', '''']"
  by (simp add: fwts_framework_options_def short_chars_option)

lemma options_length: "length (fwts_framework_options v) = 50"
  using arg_cong [OF options_short_chars, of length v] by simp

definition short_pairs :: "(char \<times> nat) list" where
  "short_pairs =
     [(CHR ''h'', 1), (CHR ''r'', 2), (CHR ''p'', 7), (CHR ''s'', 8), (CHR ''k'', 9), (CHR ''o'', 10),
      (CHR ''w'', 11), (CHR ''b'', 13), (CHR ''i'', 14), (CHR ''f'', 15), (CHR ''v'', 16), (CHR ''d'', 17),
      (CHR ''t'', 18), (CHR ''P'', 21), (CHR ''a'', 22), (CHR ''D'', 23), (CHR ''S'', 24), (CHR ''q'', 25),
      (CHR ''u'', 28), (CHR ''j'', 29), (CHR ''J'', 30), (CHR ''U'', 33), (CHR ''R'', 39)]"

lemma short_pairs_eq:
  "[(c, i). (i, s) \<leftarrow> enumerate 0 (map short_chars (fwts_framework_options v)), c \<leftarrow> s, c \<noteq> CHR ''?''] =
     short_pairs"
  unfolding options_short_chars short_pairs_def by simp

lemma short_char_pairs:
  assumes "i < 50" and "c \<in> set (short_chars (fwts_framework_options v ! i))" and "c \<noteq> CHR ''?''"
  shows "(c, i) \<in> set short_pairs"
proof -
  have "(i, short_chars (fwts_framework_options v ! i)) \<in>
      set (enumerate 0 (map short_chars (fwts_framework_options v)))"
    using assms(1) by (simp add: in_set_enumerate_eq options_length)
  with assms(2,3) show ?thesis unfolding short_pairs_eq [of v, symmetric] by force
qed

lemma short_long_all:
  "\<forall>p \<in> set short_pairs.
     short_options_handler env fw (fst p) arg = long_options_handler env fw (int (snd p)) arg"
  unfolding short_pairs_def list.set ball_simps fst_conv snd_conv
  by (simp add: short_options_handler_def long_options_handler_def)

lemma short_long_step:
  "(c, i) \<in> set short_pairs \<Longrightarrow>
   short_options_handler env fw c arg = long_options_handler env fw (int i) arg"
  using short_long_all [of env fw arg] by force

section \<open>Levels\<close>

text \<open>The names of --log-level in order: each adds a level to those reported.\<close>

lemma log_levels_reported:
  "i < 5 \<Longrightarrow> j < 5 \<Longrightarrow>
   FWTS_LEVEL_IGNORE (snd (log_levels ! i))
     ([LOG_LEVEL_CRITICAL, LOG_LEVEL_HIGH, LOG_LEVEL_MEDIUM, LOG_LEVEL_LOW, LOG_LEVEL_INFO] ! j) \<longleftrightarrow> i < j"
proof -
  assume "i < 5" and "j < 5"
  then have "i = 0 \<or> i = 1 \<or> i = 2 \<or> i = 3 \<or> i = 4" and "j = 0 \<or> j = 1 \<or> j = 2 \<or> j = 3 \<or> j = 4"
    by auto
  then show ?thesis by (elim disjE) (simp_all add: log_levels_def FWTS_LEVEL_IGNORE_def)
qed

end
