(* ===== verification/Fwts_Args.thy ===== *)
theory Fwts_Args
  imports Fwts_Options
begin

text \<open>
  The option parser of src/lib/src/fwts_args.c: the tables of options, the two option strings
  handed to getopt_long(), the dispatch of what it returns to the handler of the table an
  option belongs to, the checks, and the help text.

  getopt_long() belongs to the C library and is an argument: from the short option string,
  the long options and the argument vector it gives its results in order (the option
  character or 0, the index of the long option, optarg), the argument vector as it has
  permuted it, and optind.
\<close>

section \<open>The parameter\<close>

record getopt_answer =
  go_calls :: "(int \<times> nat \<times> cstr) list"
  go_argv :: "cstr list"
  go_optind :: nat

type_synonym getopt_long = "cstr \<Rightarrow> (cstr \<times> int) list \<Rightarrow> cstr list \<Rightarrow> getopt_answer"

section \<open>fwts_args_parse()\<close>

definition all_options :: "fwts_options_table list \<Rightarrow> fwts_option list" where
  "all_options tables = concat (map ot_options tables)"

definition long_options_of :: "fwts_options_table list \<Rightarrow> (cstr \<times> int) list" where
  "long_options_of tables = map (\<lambda>opt. (long_name opt, has_arg opt)) (all_options tables)"

text \<open>The short option string and its length as the code counts it; None is out of memory.\<close>

fun short_options_loop ::
    "(nat \<Rightarrow> bool) \<Rightarrow> fwts_option list \<Rightarrow> cstr option \<Rightarrow> nat \<Rightarrow> cstr option option" where
  "short_options_loop mem [] short_options len = Some short_options"
| "short_options_loop mem (opt # opts) short_options len =
     (case short_name opt of
        None \<Rightarrow> short_options_loop mem opts short_options len
      | Some [] \<Rightarrow> short_options_loop mem opts short_options len
      | Some s \<Rightarrow>
          (case short_options of
             Some so \<Rightarrow>
               if mem (len + length s + 1)
               then short_options_loop mem opts (Some (so @ s)) (len + length s + 1) else None
           | None \<Rightarrow>
               if mem (length s + 1)
               then short_options_loop mem opts (Some s) (len + length s + 1) else None))"

definition short_options_of :: "(nat \<Rightarrow> bool) \<Rightarrow> fwts_options_table list \<Rightarrow> cstr option" where
  "short_options_of mem tables =
     (case short_options_loop mem (all_options tables) None 0 of
        None \<Rightarrow> None
      | Some (Some s) \<Rightarrow> Some s
      | Some None \<Rightarrow> if mem 1 then Some [] else None)"

text \<open>The position of the first element with a property: the search loops of the dispatch.\<close>

fun find_index :: "('a \<Rightarrow> bool) \<Rightarrow> 'a list \<Rightarrow> nat option" where
  "find_index P [] = None"
| "find_index P (x # xs) = (if P x then Some 0 else map_option Suc (find_index P xs))"

definition has_short :: "int \<Rightarrow> fwts_option \<Rightarrow> bool" where
  "has_short c opt \<longleftrightarrow> (case short_name opt of None \<Rightarrow> False | Some s \<Rightarrow> char_of (nat c) \<in> set s)"

fun args_dispatch ::
    "fwts_options_table list \<Rightarrow> int \<Rightarrow> cstr \<Rightarrow> cstr \<Rightarrow> fwts_framework \<Rightarrow> int \<times> fwts_framework" where
  "args_dispatch [] c name arg fw = (FWTS_OK, fw)"
| "args_dispatch (t # ts) c name arg fw =
     (if c \<noteq> 0 then
        (case find_index (has_short c) (ot_options t) of
           Some i \<Rightarrow> ot_handler t fw c 0 arg
         | None \<Rightarrow> args_dispatch ts c name arg fw)
      else
        (case find_index (\<lambda>opt. long_name opt = name) (ot_options t) of
           Some i \<Rightarrow> ot_handler t fw c (int i) arg
         | None \<Rightarrow> args_dispatch ts c name arg fw))"

fun args_loop ::
    "fwts_options_table list \<Rightarrow> (int \<times> nat \<times> cstr) list \<Rightarrow> fwts_framework \<Rightarrow> int \<times> fwts_framework" where
  "args_loop tables [] fw = (FWTS_OK, fw)"
| "args_loop tables ((c, option_index, arg) # calls) fw =
     (let (ret, fw) = args_dispatch tables c (fst (long_options_of tables ! option_index)) arg fw
      in if ret \<noteq> FWTS_OK then (ret, fw) else args_loop tables calls fw)"

fun args_checks :: "fwts_options_table list \<Rightarrow> fwts_framework \<Rightarrow> int \<times> fwts_framework" where
  "args_checks [] fw = (FWTS_OK, fw)"
| "args_checks (t # ts) fw =
     (case ot_check t of
        None \<Rightarrow> args_checks ts fw
      | Some check \<Rightarrow>
          (let (ret, fw) = check fw in if ret \<noteq> FWTS_OK then (ret, fw) else args_checks ts fw))"

text \<open>The result, the framework, and what getopt_long() made of the arguments.\<close>

definition fwts_args_parse ::
    "getopt_long \<Rightarrow> fwts_options_table list \<Rightarrow> cstr list \<Rightarrow> fwts_framework \<Rightarrow>
     int \<times> fwts_framework \<times> cstr list \<times> nat" where
  "fwts_args_parse getopt tables argv fw =
     (if \<not> alloc_ok fw ((length (all_options tables) + 1) * 32) then
        (FWTS_ERROR, fwts_log_error ''Out of memory allocating long options.'' fw, argv, 1)
      else
        (case short_options_of (alloc_ok fw) tables of
           None \<Rightarrow> (FWTS_ERROR, fwts_log_error ''Out of memory allocating options.'' fw, argv, 1)
         | Some short_options \<Rightarrow>
             (let go = getopt short_options (long_options_of tables) argv;
                  (ret, fw) = args_loop tables (go_calls go) fw;
                  (ret, fw) = (if ret \<noteq> FWTS_OK then (ret, fw) else args_checks tables fw)
              in (ret, fw, go_argv go, go_optind go))))"

section \<open>The help text\<close>

definition FWTS_ARGS_WIDTH :: nat where [simp]: "FWTS_ARGS_WIDTH = 28"
definition FWTS_MIN_TTY_WIDTH :: int where [simp]: "FWTS_MIN_TTY_WIDTH = 50"

definition fwts_args_compare_options :: "fwts_option \<Rightarrow> fwts_option \<Rightarrow> int" where
  "fwts_args_compare_options opt1 opt2 = strcmp (long_name opt1) (long_name opt2)"

definition show_option_lines :: "cstr \<Rightarrow> cstr list \<Rightarrow> cstr list" where
  "show_option_lines option ls =
     map (\<lambda>(lineno, l). pad_right FWTS_ARGS_WIDTH (take FWTS_ARGS_WIDTH (if lineno = 0 then option else [])) @
                        '' '' @ l)
       (enumerate 0 ls)"

definition fwts_args_show_option :: "int \<Rightarrow> cstr \<Rightarrow> cstr \<Rightarrow> cstr list" where
  "fwts_args_show_option width option expl =
     show_option_lines option
       (fwts_format_text expl
          (word_of_int (if width < 0 then FWTS_MIN_TTY_WIDTH - int FWTS_ARGS_WIDTH - 1 else width)))"

definition option_names :: "fwts_option \<Rightarrow> cstr" where
  "option_names opt =
     (let shorts = short_chars opt
      in concat (map (\<lambda>ch. [CHR ''-'', ch, CHR '','', CHR '' '']) shorts) @ ''--'' @
         take (79 - 4 * length shorts - 2) (long_name opt))"

definition fwts_args_show_options :: "int \<Rightarrow> fwts_options_table list \<Rightarrow> cstr list" where
  "fwts_args_show_options tty_width tables =
     (let width = (if tty_width - (int FWTS_ARGS_WIDTH + 1) < 0 then FWTS_MIN_TTY_WIDTH else tty_width)
                  - (int FWTS_ARGS_WIDTH + 1);
          sorted_options = fold (ins_ordered fwts_args_compare_options) (all_options tables) []
      in concat (map (\<lambda>opt. fwts_args_show_option width (option_names opt) (explanation opt)) sorted_options))"

section \<open>Dispatch\<close>

lemma find_index_Some:
  "find_index P xs = Some i \<longleftrightarrow> i < length xs \<and> P (xs ! i) \<and> (\<forall>j < i. \<not> P (xs ! j))"
proof (induction xs arbitrary: i)
  case (Cons x xs)
  then show ?case by (cases i) (auto simp: less_Suc_eq_0_disj)
qed simp

lemma find_index_None: "find_index P xs = None \<longleftrightarrow> (\<forall>x \<in> set xs. \<not> P x)"
  by (induction xs) auto

lemma find_index_distinct:
  assumes "distinct (map f xs)" and "i < length xs"
  shows "find_index (\<lambda>x. f x = f (xs ! i)) xs = Some i"
  using assms by (auto simp: find_index_Some distinct_conv_nth)

lemma dispatch_long:
  assumes "distinct (map long_name (all_options tables))" and "k < length tables"
    and "i < length (ot_options (tables ! k))"
  shows "args_dispatch tables 0 (long_name (ot_options (tables ! k) ! i)) arg fw =
         ot_handler (tables ! k) fw 0 (int i) arg"
  using assms
proof (induction tables arbitrary: k)
  case (Cons t ts)
  have d: "distinct (map long_name (ot_options t))" "distinct (map long_name (all_options ts))"
    and dis: "set (map long_name (ot_options t)) \<inter> set (map long_name (all_options ts)) = {}"
    using Cons.prems(1) by (auto simp: all_options_def)
  show ?case
  proof (cases k)
    case 0
    with Cons.prems(3) have "find_index (\<lambda>opt. long_name opt = long_name (ot_options t ! i)) (ot_options t) = Some i"
      by (intro find_index_distinct [OF d(1)]) simp
    with 0 show ?thesis by simp
  next
    case (Suc k')
    with Cons.prems have k': "k' < length ts" "i < length (ot_options (ts ! k'))" by auto
    have "ts ! k' \<in> set ts" "ot_options (ts ! k') ! i \<in> set (ot_options (ts ! k'))"
      using k' by auto
    then have "ot_options (ts ! k') ! i \<in> set (all_options ts)"
      by (auto simp: all_options_def)
    with dis have "find_index (\<lambda>opt. long_name opt = long_name (ot_options (ts ! k') ! i)) (ot_options t) = None"
      by (auto simp: find_index_None)
    with Suc Cons.IH [OF d(2) k'] show ?thesis by simp
  qed
qed simp

lemma dispatch_short:
  assumes "c \<noteq> 0" and "\<forall>t \<in> set ts. \<forall>opt \<in> set (ot_options t). \<not> has_short c opt"
    and "\<exists>opt \<in> set (ot_options t). has_short c opt"
  shows "args_dispatch (ts @ t # us) c name arg fw = ot_handler t fw c 0 arg"
  using assms
proof (induction ts)
  case Nil
  then have "find_index (has_short c) (ot_options t) \<noteq> None" by (simp add: find_index_None)
  with Nil.prems(1) show ?case by auto
next
  case (Cons u ts)
  then have "find_index (has_short c) (ot_options u) = None" by (simp add: find_index_None)
  with Cons show ?case by auto
qed

lemma dispatch_unknown:
  assumes "\<forall>t \<in> set tables. \<forall>opt \<in> set (ot_options t). (c \<noteq> 0 \<longrightarrow> \<not> has_short c opt) \<and> (c = 0 \<longrightarrow> long_name opt \<noteq> name)"
  shows "args_dispatch tables c name arg fw = (FWTS_OK, fw)"
  using assms
proof (induction tables)
  case (Cons t ts)
  then show ?case
    by (cases "c = 0") (simp_all add: find_index_None [THEN iffD2])
qed simp

text \<open>An invariant of the handlers and checks is one of the parser.\<close>

lemma args_dispatch_invariant:
  assumes "I fw" and "\<forall>t \<in> set tables. \<forall>f i. I f \<longrightarrow> I (snd (ot_handler t f c i arg))"
  shows "I (snd (args_dispatch tables c name arg fw))"
  using assms(2)
proof (induction tables)
  case (Cons t ts)
  then show ?case using assms(1) by (cases "c = 0") (auto split: option.split)
qed (simp add: assms(1))

lemma args_loop_invariant:
  assumes "I fw" and h: "\<forall>t \<in> set tables. \<forall>f c i arg. I f \<longrightarrow> I (snd (ot_handler t f c i arg))"
  shows "I (snd (args_loop tables calls fw))"
  using assms(1)
proof (induction calls arbitrary: fw)
  case (Cons call calls)
  obtain c oi arg where call: "call = (c, oi, arg)" by (cases call)
  let ?d = "args_dispatch tables c (fst (long_options_of tables ! oi)) arg fw"
  have "I (snd ?d)" by (rule args_dispatch_invariant [where I = I]) (use Cons.prems h in auto)
  moreover obtain r f where d: "?d = (r, f)" by (cases ?d)
  ultimately show ?case using Cons.IH [of f] by (auto simp: call d)
qed simp

lemma args_checks_invariant:
  assumes "I fw" and "\<forall>t \<in> set tables. \<forall>f chk. ot_check t = Some chk \<longrightarrow> I f \<longrightarrow> I (snd (chk f))"
  shows "I (snd (args_checks tables fw))"
  using assms
proof (induction tables arbitrary: fw)
  case (Cons t ts)
  from Cons.prems(2) have ts: "\<forall>t \<in> set ts. \<forall>f chk. ot_check t = Some chk \<longrightarrow> I f \<longrightarrow> I (snd (chk f))"
    by simp
  show ?case
  proof (cases "ot_check t")
    case None
    then show ?thesis using Cons.IH [OF Cons.prems(1) ts] by simp
  next
    case (Some chk)
    moreover obtain r f where c: "chk fw = (r, f)" by (cases "chk fw")
    moreover have "I (snd (chk fw))" using Some Cons.prems by simp
    ultimately show ?thesis using Cons.IH [OF _ ts, of f] by auto
  qed
qed simp

lemma short_options_loop_mem:
  "\<forall>n. mem n \<Longrightarrow> short_options_loop mem opts so len \<noteq> None"
  by (induction mem opts so len rule: short_options_loop.induct) (auto split: option.splits list.splits)

lemma short_options_mem: "\<forall>n. mem n \<Longrightarrow> short_options_of mem tables \<noteq> None"
  using short_options_loop_mem [of mem "all_options tables" None 0]
  by (auto simp: short_options_of_def split: option.split)

end
