(* ===== verification/Fwts_Main.thy ===== *)
theory Fwts_Main
  imports Fwts_Args
begin

text \<open>
  fwts_framework_args() of src/lib/src/fwts_framework.c: from the arguments of the program to
  its exit status, with the listings of the registered tests and the heading of the log.

  The environment is an argument: what getopt_long() makes of the arguments, the machine name
  of uname(), the widths of the terminal, whether log files can be opened, the strings of the
  build and of the clock, and the functions of other parts of the program (the disassembler,
  fwts_dump_info(), fwts_devicetree_read()). The result is the exit status, the final state
  (FWTS_OK with None where not even the framework could be allocated), and what has been
  written to the log files.
\<close>

section \<open>The environment\<close>

record args_env =
  ae_alloc :: "nat \<Rightarrow> bool"
  ae_root :: bool
  ae_exists :: "cstr \<Rightarrow> bool"
  ae_machine :: "cstr option"
  ae_getopt :: getopt_long
  ae_argv :: "cstr list"
  ae_stdin_width :: int
  ae_log_width :: int
  ae_special :: "cstr \<Rightarrow> bool"
  ae_can_open :: "cstr \<Rightarrow> bool"
  ae_version :: cstr
  ae_date :: cstr
  ae_json_data_path :: cstr
  ae_when :: cstr
  ae_logind :: bool
  ae_disassemble :: "cstr \<Rightarrow> fwts_framework \<Rightarrow> fwts_framework"
  ae_dump_info :: "fwts_framework \<Rightarrow> fwts_framework"
  ae_devicetree_read :: "fwts_framework \<Rightarrow> fwts_framework"

definition argv0 :: "args_env \<Rightarrow> cstr" where
  "argv0 env = (case ae_argv env of [] \<Rightarrow> [] | a # _ \<Rightarrow> a)"

section \<open>Listings\<close>

definition categories :: "(cstr \<times> u32) list" where
  "categories =
     [(''ACPI'', FWTS_FLAG_ACPI), (''Batch'', FWTS_FLAG_BATCH), (''Interactive'', FWTS_FLAG_INTERACTIVE),
      (''Batch Experimental'', FWTS_FLAG_BATCH_EXPERIMENTAL),
      (''Interactive Experimental'', FWTS_FLAG_INTERACTIVE_EXPERIMENTAL),
      (''Power States'', FWTS_FLAG_POWER_STATES), (''SBBR'', FWTS_FLAG_SBBR), (''EBBR'', FWTS_FLAG_EBBR),
      (''Utilities'', FWTS_FLAG_UTILS), (''Unsafe'', FWTS_FLAG_UNSAFE), (''UEFI'', FWTS_FLAG_UEFI),
      (''ACPI Spec Compliance'', FWTS_FLAG_COMPLIANCE_ACPI)]"

definition sort_tests :: "fwts_framework_test list \<Rightarrow> fwts_framework_test list" where
  "sort_tests tests = fold (ins_ordered fwts_framework_compare_test_name) tests []"

definition join_with :: "cstr \<Rightarrow> cstr list \<Rightarrow> cstr" where
  "join_with sep ss = (case ss of [] \<Rightarrow> [] | s # r \<Rightarrow> s @ concat (map (\<lambda>x. sep @ x) r))"

definition fwts_framework_show_tests_categories :: "fwts_framework_test list \<Rightarrow> cstr list" where
  "fwts_framework_show_tests_categories tests =
     map (\<lambda>test. pad_right 17 (take 17 (test_name test)) @
            (let ts = map (map tolower \<circ> fst) (filter (\<lambda>c. snd c AND test_flags test \<noteq> 0) categories)
             in if ts = [] then [] else '' '' @ join_with '', '' ts))
       (sort_tests tests)"

definition show_test_lines :: "bool \<Rightarrow> fwts_framework_test \<Rightarrow> cstr list" where
  "show_test_lines full test =
     (let n = ops_total_tests (test_ops test);
          name = '' '' @ pad_right 15 (take 15 (test_name test))
      in if full then
           (name @ '' ('' @ show_int n @ '' test'' @ (if 1 < n then ''s'' else []) @ ''):'') #
           map (\<lambda>m. ''  '' @ (case minor_name m of Some s \<Rightarrow> s | None \<Rightarrow> ''(null)''))
             (take (nat n) (ops_minor_tests (test_ops test)))
         else [name @ '' '' @ (case ops_description (test_ops test) of Some d \<Rightarrow> d | None \<Rightarrow> [])])"

text \<open>One category: the lines so far tell whether a blank line comes first.\<close>

definition show_category ::
    "bool \<Rightarrow> u32 \<Rightarrow> fwts_framework_test list \<Rightarrow> cstr \<times> u32 \<Rightarrow> cstr list \<Rightarrow> cstr list" where
  "show_category full fl tests cat out =
     (if fl AND FWTS_FLAG_RUN_ALL = 0 \<or> fl AND FWTS_FLAG_RUN_ALL AND snd cat \<noteq> 0 then
        (let sorted = sort_tests (filter (\<lambda>t. test_flags t AND FWTS_FLAG_RUN_ALL AND snd cat \<noteq> 0) tests)
         in if sorted \<noteq> []
            then out @ (if out = [] then [] else [[]]) @
                 [fst cat @ (if snd cat AND FWTS_FLAG_UTILS \<noteq> 0 then [] else '' tests'') @ '':''] @
                 concat (map (show_test_lines full) sorted)
            else out)
      else out)"

definition fwts_framework_show_tests :: "bool \<Rightarrow> u32 \<Rightarrow> fwts_framework_test list \<Rightarrow> cstr list" where
  "fwts_framework_show_tests full fl tests = fold (show_category full fl tests) categories []"

definition fwts_framework_show_version :: "args_env \<Rightarrow> cstr" where
  "fwts_framework_show_version env =
     argv0 env @ '', Version '' @ ae_version env @ '', '' @ ae_date env"

definition fwts_copyright :: "cstr list" where
  "fwts_copyright =
     [''Some of this work - Copyright (c) 1999 - 2026, Intel Corp. All rights reserved.'',
      ''Some of this work - Copyright (c) 2010 - 2026, Canonical.'',
      ''Some of this work - Copyright (c) 2016 - 2026, IBM.'',
      ''Some of this work - Copyright (c) 2017 - 2026, ARM Ltd.'']"

definition fwts_framework_syntax :: "args_env \<Rightarrow> fwts_options_table list \<Rightarrow> cstr list" where
  "fwts_framework_syntax env tables =
     (''Usage '' @ argv0 env @ '': [OPTION] [TEST]'') #
     fwts_args_show_options (ae_stdin_width env) tables @ [] # fwts_copyright"

definition fwts_framework_heading_info ::
    "args_env \<Rightarrow> fwts_framework_test list \<Rightarrow> cstr list \<Rightarrow> fwts_framework \<Rightarrow> fwts_framework" where
  "fwts_framework_heading_info env tests_to_run argv fw =
     (let fw = fwts_log_info (''Results generated by fwts: Version '' @ ae_version env @ '' ('' @ ae_date env @ '').'') fw;
          fw = fwts_log_nl fw;
          fw = fold fwts_log_info fwts_copyright fw;
          fw = fwts_log_nl fw;
          fw = fwts_log_info (''This test run on '' @ ae_when env @ ''.'') fw;
          fw = fwts_log_nl fw;
          args = concat (map (\<lambda>a. '' '' @ a) (drop 1 argv));
          fw = (if alloc_ok fw (length args + 1) then fwts_log_info (''Command: \"fwts '' @ args @ ''\".'') fw else fw);
          names = map test_name tests_to_run
      in if alloc_ok fw (sum_list (map (\<lambda>n. length n + 1) names) + 1)
         then fw_newline (fwts_log_info (''Running tests: '' @
                (if names = [] then ''None'' else join_with '' '' names) @ ''.'') fw)
         else fw)"

section \<open>fwts_framework_args()\<close>

definition fw_init :: "args_env \<Rightarrow> fwts_framework" where
  "fw_init env =
     \<lparr>results = None, results_logname = None, lspci = None, acpi_table_path = None,
      acpi_table_acpidump_file = None, clog = None, klog = None, olog = None, json_data_path = None,
      json_data_file = None, current_major_test = 0, rsdp = 0, current_minor_test_name = None,
      current_minor_test_num = 0, current_major_test_num = 0, major_tests_total = 0, total_run = 0,
      minor_test_progress = 0, minor_tests = fwts_results_zero, totals = fwts_results_zero, flags = 0,
      failed_level = 0, filter_level = 0, log_type = 0, errors_filter_keep = [], errors_filter_discard = [],
      acpica_mode = 0, pm_method = FWTS_PM_UNDEFINED, target_arch = fwts_arch_get_host (ae_machine env),
      print_summary = False, error_filtered_out = False, show_progress = False,
      test_results = (\<lambda>_. fwts_results_zero), test_was_run = (\<lambda>_. False), tests_to_skip = [],
      summaries = (\<lambda>_. []), logg = log_globals_init, stdout_lines = [],
      alloc_ok = ae_alloc env, euid_root = ae_root env, path_exists = ae_exists env\<rparr>"

definition args_defaults :: "args_env \<Rightarrow> fwts_framework \<Rightarrow> fwts_framework" where
  "args_defaults env fw =
     (let fw = fw\<lparr>flags := FWTS_FLAG_DEFAULT OR FWTS_FLAG_SHOW_PROGRESS, log_type := LOG_TYPE_PLAINTEXT,
                  filter_level := LOG_LEVEL_ALL, errors_filter_keep := [], errors_filter_discard := []\<rparr>;
          fw = snd (fwts_summary_init fw)
      in fw\<lparr>lspci := fwts_framework_strdup (alloc_ok fw) ''/usr/bin/lspci'',
            results_logname := fwts_framework_strdup (alloc_ok fw) ''results'',
            json_data_path := fwts_framework_strdup (alloc_ok fw) (ae_json_data_path env),
            tests_to_skip := []\<rparr>)"

text \<open>The option - among the arguments: results go to stdout, quietly.\<close>

definition args_dash :: "cstr list \<Rightarrow> fwts_framework \<Rightarrow> fwts_framework" where
  "args_dash argv fw =
     (if ''-'' \<in> set (drop 1 argv)
      then snd (set_mode FWTS_FLAG_QUIET FWTS_FLAG_SHOW_PROGRESS FWTS_FLAG_SHOW_PROGRESS_DIALOG
                 (fw\<lparr>results_logname := fwts_framework_strdup (alloc_ok fw) ''stdout''\<rparr>))
      else fw)"

text \<open>What is done before the log is opened: Inl is a jump to tidy_close.\<close>

definition args_gate ::
    "args_env \<Rightarrow> fwts_framework_test list \<Rightarrow> fwts_framework \<Rightarrow> (int \<times> fwts_framework) + fwts_framework" where
  "args_gate env tests fw =
     (if flags fw AND FWTS_FLAG_SHOW_TESTS \<noteq> 0 then
        Inl (FWTS_OK, say (fwts_framework_show_tests False (flags fw) tests) fw)
      else if flags fw AND FWTS_FLAG_SHOW_TESTS_FULL \<noteq> 0 then
        Inl (FWTS_OK, say (fwts_framework_show_tests True (flags fw) tests) fw)
      else if flags fw AND FWTS_FLAG_SHOW_TESTS_CATEGORIES \<noteq> 0 then
        Inl (FWTS_OK, say (fwts_framework_show_tests_categories tests) fw)
      else if flags fw AND FWTS_FLAG_DUMP \<noteq> 0 then Inl (FWTS_OK, ae_dump_info env fw)
      else if lspci fw = None \<or> results_logname fw = None then Inl (FWTS_ERROR, fw)
      else if errors_filter_keep fw \<noteq> [] \<and> errors_filter_discard fw \<noteq> [] then Inl (FWTS_ERROR, fw)
      else if 1 < fwts_log_type_count (log_type fw) \<and>
              fwts_log_get_filename_type (the (results_logname fw)) \<noteq> LOG_FILENAME_TYPE_FILE
      then Inl (FWTS_ERROR, fw)
      else
        (case fwts_log_open (logg fw) (ae_special env) (alloc_ok fw) (ae_can_open env) (ae_log_width env)
                ''fwts'' (the (results_logname fw)) (log_type fw) of
           None \<Rightarrow> Inl (FWTS_ERROR, fw)
         | Some log \<Rightarrow> Inr (fw\<lparr>results := Some log\<rparr>)))"

definition tests_append :: "fwts_framework \<Rightarrow> fwts_framework_test \<Rightarrow> fwts_framework_test list \<Rightarrow> fwts_framework_test list" where
  "tests_append fw test run =
     (if fwts_framework_skip_test fw test \<or> \<not> alloc_ok fw 16 then run else run @ [test])"

text \<open>The tests named among the arguments; None is a name that is not registered.\<close>

fun collect_named ::
    "fwts_framework_test list \<Rightarrow> fwts_framework \<Rightarrow> cstr list \<Rightarrow> fwts_framework_test list \<Rightarrow>
     fwts_framework_test list option" where
  "collect_named tests fw [] run = Some run"
| "collect_named tests fw (arg # args) run =
     (if take 1 arg = ''-'' then collect_named tests fw args run
      else
        (case fwts_framework_test_find tests arg of
           None \<Rightarrow> None
         | Some test \<Rightarrow> collect_named tests fw args (tests_append fw test run)))"

fun collect_eligible ::
    "fwts_framework \<Rightarrow> fwts_framework_test list \<Rightarrow> fwts_framework_test list \<Rightarrow> fwts_framework_test list" where
  "collect_eligible fw [] run = run"
| "collect_eligible fw (test # tests) run =
     collect_eligible fw tests
       (if flags fw AND test_flags test AND FWTS_FLAG_RUN_ALL \<noteq> 0 then tests_append fw test run else run)"

definition args_select ::
    "fwts_framework_test list \<Rightarrow> cstr list \<Rightarrow> fwts_framework \<Rightarrow>
     (fwts_framework_test list \<times> fwts_framework) option" where
  "args_select tests args fw =
     (case collect_named tests fw args [] of
        None \<Rightarrow> None
      | Some run \<Rightarrow>
          (let fw = (if FWTS_FLAG_RUN_ALL AND flags fw = 0 \<and> run = []
                     then fw\<lparr>flags := flags fw OR FWTS_FLAG_BATCH\<rparr> else fw)
           in Some (collect_eligible fw tests run, fw)))"

definition args_announce :: "args_env \<Rightarrow> fwts_framework_test list \<Rightarrow> fwts_framework \<Rightarrow> fwts_framework" where
  "args_announce env run fw =
     (if flags fw AND FWTS_FLAG_QUIET = 0 then
        (case fwts_log_get_filenames (ae_special env) (alloc_ok fw) (the (results_logname fw)) (log_type fw) of
           Some filenames \<Rightarrow>
             say [''Running '' @ show_int (int (length run)) @ '' tests, results appended to '' @ filenames] fw
         | None \<Rightarrow> fw)
      else fw)"

definition args_run ::
    "args_env \<Rightarrow> fwts_framework_test list \<Rightarrow> cstr list \<Rightarrow> fwts_framework_test list \<Rightarrow> fwts_framework \<Rightarrow> fwts_framework" where
  "args_run env tests argv run fw =
     (let fw = args_announce env run fw;
          fw = fw_section_begin ''heading'' fw;
          fw = fwts_framework_heading_info env run argv fw;
          fw = fw_section_end fw;
          fw = fw_section_begin ''tests'' fw;
          fw = fwts_framework_tests_run run fw;
          fw = fw_section_end fw
      in if print_summary fw then
           (let fw = fw_section_begin ''summary'' fw;
                fw = fw_set_owner ''summary'' fw;
                fw = fwts_log_nl fw;
                fw = fwts_framework_total_summary fw;
                fw = fwts_log_nl fw;
                fw = snd (fwts_summary_report tests fw)
            in fw_section_end fw)
         else fw)"

text \<open>tidy_close: failed tests and warnings make the status an error.\<close>

definition exit_status :: "int \<Rightarrow> fwts_framework \<Rightarrow> int" where
  "exit_status ret fw =
     (if 0 < failed (totals fw) \<or> 0 < warning (totals fw) then FWTS_ERROR else ret)"

definition args_opened ::
    "args_env \<Rightarrow> fwts_framework_test list \<Rightarrow> cstr list \<Rightarrow> nat \<Rightarrow> fwts_framework \<Rightarrow> int \<times> fwts_framework" where
  "args_opened env tests argv optind fw =
     (let fw = ae_devicetree_read env fw in
      case args_select tests (drop optind argv) fw of
        None \<Rightarrow> (FWTS_ERROR, fw)
      | Some (run, fw) \<Rightarrow> (FWTS_OK, args_run env tests argv run fw))"

definition args_parsed ::
    "args_env \<Rightarrow> fwts_framework_test list \<Rightarrow> int \<times> fwts_framework \<times> cstr list \<times> nat \<Rightarrow>
     int \<times> fwts_framework" where
  "args_parsed env tests parsed =
     (let (ret, fw, argv, optind) = parsed in
      if ret = FWTS_COMPLETE then (FWTS_OK, fw)
      else if ret \<noteq> FWTS_OK then (FWTS_ERROR, fw)
      else
        (case args_gate env tests (args_dash argv fw) of
           Inl r \<Rightarrow> r
         | Inr fw \<Rightarrow> args_opened env tests argv optind fw))"

definition main_opt_env :: "args_env \<Rightarrow> fwts_framework_test list \<Rightarrow> fwts_options_table list \<Rightarrow> opt_env" where
  "main_opt_env env tests tables =
     \<lparr>oe_tests = tests, oe_syntax = fwts_framework_syntax env tables,
      oe_version = fwts_framework_show_version env, oe_logind = ae_logind env,
      oe_disassemble = ae_disassemble env\<rparr>"

text \<open>
  The table of the framework comes after those of the registered tests; the handler of the
  help option sees all of them, its own included.
\<close>

definition main_tables :: "args_env \<Rightarrow> fwts_framework_test list \<Rightarrow> fwts_options_table list \<Rightarrow> fwts_options_table list" where
  "main_tables env tests tables =
     (let opts = fwts_framework_options (ae_version env);
          own = (\<lambda>h. \<lparr>ot_options = opts, ot_num_options = int (length opts), ot_handler = h, ot_check = None\<rparr>);
          all = tables @ [own (\<lambda>fw c i arg. (FWTS_OK, fw))]
      in tables @ [own (fwts_framework_options_handler (main_opt_env env tests all))])"

definition fwts_framework_args ::
    "args_env \<Rightarrow> fwts_framework_test list \<Rightarrow> fwts_options_table list \<Rightarrow>
     int \<times> fwts_framework option \<times> log_event list list" where
  "fwts_framework_args env tests tables =
     (if \<not> ae_alloc env 488 then (FWTS_ERROR, None, [])
      else if \<not> ae_alloc env 32 then (FWTS_ERROR, Some (fw_init env), [])
      else
        (let fw = args_defaults env (fw_init env);
             (ret, fw) = args_parsed env tests
                           (fwts_args_parse (ae_getopt env) (main_tables env tests tables) (ae_argv env) fw)
         in (exit_status ret fw, Some fw, fwts_log_close (results fw))))"

section \<open>Which tests are run\<close>

definition runnable :: "fwts_framework \<Rightarrow> fwts_framework_test \<Rightarrow> bool" where
  "runnable fw t \<longleftrightarrow> \<not> fwts_framework_skip_test fw t \<and> alloc_ok fw 16"

lemma tests_append_runnable: "tests_append fw t run = run @ filter (runnable fw) [t]"
  by (simp add: tests_append_def runnable_def)

definition named_args :: "cstr list \<Rightarrow> cstr list" where
  "named_args args = filter (\<lambda>a. take 1 a \<noteq> ''-'') args"

lemma collect_named_spec:
  "collect_named tests fw args run =
     (if \<forall>a \<in> set (named_args args). fwts_framework_test_find tests a \<noteq> None
      then Some (run @ filter (runnable fw) (map (\<lambda>a. the (fwts_framework_test_find tests a)) (named_args args)))
      else None)"
  by (induction tests fw args run rule: collect_named.induct)
     (auto simp: named_args_def tests_append_runnable split: option.split)

lemma collect_eligible_spec:
  "collect_eligible fw tests run =
     run @ filter (\<lambda>t. flags fw AND test_flags t AND FWTS_FLAG_RUN_ALL \<noteq> 0 \<and> runnable fw t) tests"
  by (induction fw tests run rule: collect_eligible.induct) (auto simp: tests_append_runnable)

lemma args_select_None:
  "args_select tests args fw = None \<longleftrightarrow>
     (\<exists>a \<in> set (named_args args). \<forall>t \<in> set tests. test_name t \<noteq> a)"
  by (auto simp: args_select_def collect_named_spec Let_def test_find_None split: option.split)

lemma args_select_Some:
  assumes "args_select tests args fw = Some (run, fw')"
  shows "run = filter (runnable fw) (map (\<lambda>a. the (fwts_framework_test_find tests a)) (named_args args)) @
               filter (\<lambda>t. flags fw' AND test_flags t AND FWTS_FLAG_RUN_ALL \<noteq> 0 \<and> runnable fw t) tests"
    and "fw' = (if FWTS_FLAG_RUN_ALL AND flags fw = 0 \<and>
                   filter (runnable fw) (map (\<lambda>a. the (fwts_framework_test_find tests a)) (named_args args)) = []
                then fw\<lparr>flags := flags fw OR FWTS_FLAG_BATCH\<rparr> else fw)"
  using assms
  by (auto simp: args_select_def collect_named_spec collect_eligible_spec Let_def runnable_def
      fwts_framework_skip_test_def split: option.splits if_splits)

lemma args_select_set:
  assumes "args_select tests args fw = Some (run, fw')"
  shows "set run =
    {t \<in> set tests. runnable fw t \<and>
       ((\<exists>a \<in> set (named_args args). fwts_framework_test_find tests a = Some t) \<or>
        flags fw' AND test_flags t AND FWTS_FLAG_RUN_ALL \<noteq> 0)}"
proof -
  have found: "\<forall>a \<in> set (named_args args). \<exists>t. fwts_framework_test_find tests a = Some t"
    using assms by (auto simp: args_select_def collect_named_spec split: option.splits if_splits)
  show ?thesis
    unfolding args_select_Some(1) [OF assms] using found test_find_Some by force
qed

section \<open>The books of a whole run\<close>

lemma fold_log_totals: "totals (fold fwts_log_info ls fw) = totals fw"
  by (induction ls arbitrary: fw) (simp_all add: fw_log_defs)

lemma log_totals [simp]:
  "totals (fwts_log_info s fw) = totals fw" "totals (fwts_log_nl fw) = totals fw"
  "totals (fw_newline fw) = totals fw" "totals (fw_section_begin n fw) = totals fw"
  "totals (fw_section_end fw) = totals fw" "totals (fw_set_owner w fw) = totals fw"
  "totals (fwts_log_summary s fw) = totals fw" "totals (fwts_log_summary_verbatim s fw) = totals fw"
  "totals (fw_underline c fw) = totals fw" "totals (say ls fw) = totals fw"
  "totals (fwts_log_error s fw) = totals fw"
  by (simp_all add: fw_log_defs say_def)

lemma heading_totals [simp]: "totals (fwts_framework_heading_info env run argv fw) = totals fw"
  by (simp add: fwts_framework_heading_info_def Let_def fold_log_totals)

lemma announce_totals [simp]: "totals (args_announce env run fw) = totals fw"
  by (simp add: args_announce_def split: option.split)

lemma fold_totals: "(\<And>x f. totals (g x f) = totals f) \<Longrightarrow> totals (fold g xs fw) = totals fw"
  by (induction xs arbitrary: fw) simp_all

lemma summary_report_totals [simp]: "totals (snd (fwts_summary_report tests fw)) = totals fw"
proof -
  have item: "totals (summary_report_item it f) = totals f" for it f
    by (simp add: summary_report_item_def)
  have level: "totals (summary_report_level i f) = totals f" for i f
    by (simp add: summary_report_level_def Let_def fold_totals item)
  show ?thesis
    by (simp add: fwts_summary_report_def summary_table_def Let_def fold_totals level)
qed

lemma total_summary_totals [simp]: "totals (fwts_framework_total_summary fw) = totals fw"
  by (simp add: fwts_framework_total_summary_def)

lemma args_run_totals:
  "totals (args_run env tests argv run fw) =
   totals (fwts_framework_tests_run run
     (fw_section_begin ''tests'' (fw_section_end (fwts_framework_heading_info env run argv
       (fw_section_begin ''heading'' (args_announce env run fw))))))"
  by (simp add: args_run_def Let_def)

section \<open>The sections of a whole run\<close>

lemma fold_ext: "(\<And>x f. fw_ext [] f (g x f)) \<Longrightarrow> fw_ext [] fw (fold g xs fw)"
proof (induction xs arbitrary: fw)
  case (Cons x xs)
  then show ?case using sec_ext_trans [of "[]" "results fw" "results (g x fw)" "[]"] by simp
qed simp

lemma fold_nest:
  assumes "\<And>x f. \<exists>evs. fw_ext evs f (g x f) \<and> nest n evs"
  shows "\<exists>evs. fw_ext evs fw (fold g xs fw) \<and> nest n evs"
proof (induction xs arbitrary: fw)
  case Nil
  show ?case by (rule exI [of _ "[]"]) simp
next
  case (Cons x xs)
  obtain e1 where e1: "fw_ext e1 fw (g x fw)" "nest n e1" using assms by blast
  obtain e2 where e2: "fw_ext e2 (g x fw) (fold g xs (g x fw))" "nest n e2" using Cons by blast
  show ?case using sec_ext_trans [OF e1(1) e2(1)] nest_append [OF e1(2) e2(2)] by auto
qed

lemma log_ext [simp]:
  "fw_ext [] fw (fwts_log_info s fw)" "fw_ext [] fw (fwts_log_nl fw)"
  "fw_ext [] fw (fwts_log_summary s fw)" "fw_ext [] fw (fwts_log_summary_verbatim s fw)"
  "fw_ext [] fw (fwts_log_error s fw)" "fw_ext [] fw (fwts_log_heading s fw)"
  by (simp_all add: fwts_log_info_def fwts_log_nl_def fwts_log_summary_def
      fwts_log_summary_verbatim_def fwts_log_error_def fwts_log_heading_def)

lemma line_ext [simp]:
  "fw_ext [] fw (fw_newline fw)" "fw_ext [] fw (fw_underline c fw)"
  using sec_ext_call [of EvNewline "results fw"] sec_ext_call [of "EvUnderline c" "results fw"] by simp_all

lemma owner_ext [simp]: "fw_ext [] fw (fw_set_owner w fw)"
  by (simp add: fw_set_owner_def sec_ext_owner)

lemma say_results [simp]: "results (say ls fw) = results fw"
  by (simp add: say_def)

lemma ext_step: "fw_ext xs a b \<Longrightarrow> fw_ext [] b c \<Longrightarrow> fw_ext xs a c"
  using sec_ext_trans [of xs "results a" "results b" "[]" "results c"] by simp

lemma ext_begin: "fw_ext xs a b \<Longrightarrow> fw_ext (xs @ [EvBegin n]) a (fw_section_begin n b)"
  using sec_ext_trans [of xs "results a" "results b" "[EvBegin n]"] sec_ext_call [of "EvBegin n" "results b"]
  by simp

lemma ext_end: "fw_ext xs a b \<Longrightarrow> fw_ext (xs @ [EvEnd]) a (fw_section_end b)"
  using sec_ext_trans [of xs "results a" "results b" "[EvEnd]"] sec_ext_call [of EvEnd "results b"] by simp

lemma heading_ext: "fw_ext [] fw (fwts_framework_heading_info env run argv fw)"
proof -
  let ?a = "fwts_log_nl (fwts_log_info (''Results generated by fwts: Version '' @ ae_version env @ '' ('' @ ae_date env @ '').'') fw)"
  let ?b = "fold fwts_log_info fwts_copyright ?a"
  let ?c = "fwts_log_nl (fwts_log_info (''This test run on '' @ ae_when env @ ''.'') (fwts_log_nl ?b))"
  have a: "fw_ext [] fw ?a" by (rule ext_step [OF log_ext(1) log_ext(2)])
  have b: "fw_ext [] fw ?b" by (rule ext_step [OF a fold_ext]) simp
  have c: "fw_ext [] fw ?c"
    by (rule ext_step [OF ext_step [OF ext_step [OF b log_ext(2)] log_ext(1)] log_ext(2)])
  have d: "fw_ext [] fw (if P then fwts_log_info s ?c else ?c)" for P s
    using c ext_step [OF c log_ext(1)] by simp
  have e: "fw_ext [] f g \<Longrightarrow> fw_ext [] f (if P then fw_newline (fwts_log_info s g) else g)" for f g P s
    using ext_step [OF ext_step [OF _ log_ext(1)] line_ext(1), of "[]" f g] by simp
  show ?thesis
    unfolding fwts_framework_heading_info_def Let_def by (rule e [OF d])
qed

lemma report_level_ext: "\<exists>evs. fw_ext evs fw (summary_report_level i fw) \<and> nest 2 evs"
proof (cases "FWTS_LEVEL_IGNORE (filter_level fw) (summary_levels ! i)")
  case True
  then show ?thesis by (intro exI [of _ "[]"]) (simp add: summary_report_level_def)
next
  case False
  let ?b = "fw_section_begin ''failure'' fw"
  let ?in = "if summaries ?b i \<noteq> [] then [EvBegin ''failures'', EvEnd] else []"
  let ?m = "if summaries ?b i \<noteq> []
            then fw_section_end (fold summary_report_item (summaries ?b i)
                   (fw_section_begin ''failures'' (fwts_log_summary
                     ((summary_names ! i) @ '' failures: '' @ show_int (int (length (summaries ?b i)))) ?b)))
            else fwts_log_summary ((summary_names ! i) @ '' failures: NONE'') ?b"
  have b: "fw_ext [EvBegin ''failure''] fw ?b" using ext_begin [of "[]" fw fw] by simp
  have item: "fw_ext [] f (summary_report_item it f)" for it f by (simp add: summary_report_item_def)
  have "fw_ext (EvBegin ''failure'' # ?in) fw ?m"
    using ext_step [OF b log_ext(3)]
      ext_end [OF ext_step [OF ext_begin [OF ext_step [OF b log_ext(3)], of "''failures''"]
                               fold_ext [of summary_report_item, OF item]]]
    by simp
  then have "fw_ext ((EvBegin ''failure'' # ?in) @ [EvEnd]) fw (fwts_log_nl (fw_section_end ?m))"
    by (intro ext_step [OF ext_end log_ext(2)])
  moreover have "fwts_log_nl (fw_section_end ?m) = summary_report_level i fw"
    using False by (simp add: summary_report_level_def Let_def)
  moreover have "nest 2 ((EvBegin ''failure'' # ?in) @ [EvEnd])"
    using nest_wrap [of 0 "[]"] nest_wrap [of 1 "[EvBegin ''failures'', EvEnd]"] nest_wrap [of 1 "[]"]
    by (auto simp: nest_def numeral_2_eq_2)
  ultimately show ?thesis by metis
qed

lemma summary_table_ext: "fw_ext [] fw (summary_table tests fw)"
proof -
  have row: "fw_ext [] f (if P t f then fwts_log_summary_verbatim (s t f) f else f)" for P s t f by simp
  show ?thesis unfolding summary_table_def Let_def
    by (intro ext_step [OF ext_step [OF ext_step [OF ext_step [OF ext_step [OF log_ext(4) log_ext(4)]
          fold_ext] log_ext(4)] log_ext(4)] log_ext(4)]) (rule row)
qed

lemma summary_report_ext: "\<exists>evs. fw_ext evs fw (snd (fwts_summary_report tests fw)) \<and> nest 2 evs"
proof -
  let ?a = "fwts_log_nl (fw_underline CHR ''='' (fwts_log_summary ''Test Failure Summary'' fw))"
  let ?b = "fold summary_report_level [0..<SUMMARY_MAX] ?a"
  obtain evs where e: "fw_ext evs ?a ?b" "nest 2 evs" using fold_nest [of summary_report_level 2, OF report_level_ext] by blast
  have "fw_ext [] fw ?a" by (rule ext_step [OF ext_step [OF log_ext(3) line_ext(2)] log_ext(2)])
  from sec_ext_trans [OF this e(1)] have b: "fw_ext evs fw ?b" by simp
  have "fw_ext evs fw (snd (fwts_summary_report tests fw))"
    using b ext_step [OF b log_ext(5)] ext_step [OF b summary_table_ext]
    by (simp add: fwts_summary_report_def Let_def)
  with e(2) show ?thesis by blast
qed

lemma tests_run_ext:
  assumes "\<forall>t \<in> set run. wb_test t"
  shows "\<exists>evs. fw_ext evs fw (fwts_framework_tests_run run fw) \<and> nest 4 evs"
  using tests_run_sections [OF assms,
      of "fw\<lparr>current_major_test_num := 1, major_tests_total := of_nat (length run)\<rparr>"]
  by (simp add: fwts_framework_tests_run_def)

lemma announce_ext [simp]: "fw_ext [] fw (args_announce env run fw)"
  by (simp add: args_announce_def split: option.split)

lemma args_run_ext:
  assumes "\<forall>t \<in> set run. wb_test t"
  shows "\<exists>evs. fw_ext evs fw (args_run env tests argv run fw) \<and> nest 5 evs"
proof -
  let ?a = "fw_section_begin ''heading'' (args_announce env run fw)"
  let ?b = "fw_section_begin ''tests'' (fw_section_end (fwts_framework_heading_info env run argv ?a))"
  let ?c = "fwts_framework_tests_run run ?b"
  let ?d = "fw_section_end ?c"
  let ?e = "fwts_log_nl (fwts_framework_total_summary (fwts_log_nl (fw_set_owner ''summary''
              (fw_section_begin ''summary'' ?d))))"
  obtain te where te: "fw_ext te ?b ?c" "nest 4 te" using tests_run_ext [OF assms] by blast
  obtain se where se: "fw_ext se ?e (snd (fwts_summary_report tests ?e))" "nest 2 se"
    using summary_report_ext by blast
  let ?h = "[EvBegin ''heading'', EvEnd]" and ?t = "EvBegin ''tests'' # te @ [EvEnd]"
    and ?s = "EvBegin ''summary'' # se @ [EvEnd]"
  have "fw_ext [EvBegin ''heading''] fw ?a" using ext_begin [OF announce_ext] by simp
  then have b: "fw_ext (?h @ [EvBegin ''tests'']) fw ?b"
    using ext_begin [OF ext_end [OF ext_step [OF _ heading_ext]]] by fastforce
  have d: "fw_ext (?h @ ?t) fw ?d" using ext_end [OF sec_ext_trans [OF b te(1)]] by simp
  have ts: "fw_ext [] f (fwts_framework_total_summary f)" for f
    by (simp add: fwts_framework_total_summary_def)
  have "fw_ext ((?h @ ?t) @ [EvBegin ''summary'']) fw ?e"
    by (rule ext_step [OF ext_step [OF ext_step [OF ext_step [OF ext_begin [OF d] owner_ext] log_ext(2)] ts] log_ext(2)])
  from ext_end [OF sec_ext_trans [OF this se(1)]]
  have e: "fw_ext (?h @ ?t @ ?s) fw (fw_section_end (snd (fwts_summary_report tests ?e)))" by simp
  have n: "nest 5 ?h" "nest 5 ?t" "nest 5 ?s"
    using nest_wrap [of 0 "[]"] nest_wrap [OF te(2)] nest_wrap [OF se(2)] nest_mono by (simp_all add: nest_def)
  have "fw_ext (?h @ ?t @ (if print_summary ?d then ?s else [])) fw (args_run env tests argv run fw)"
    using d e by (auto simp: args_run_def Let_def)
  moreover have "nest 5 (?h @ ?t @ (if print_summary ?d then ?s else []))"
    by (intro nest_append) (use n in simp_all)
  ultimately show ?thesis by blast
qed

section \<open>The log when it is closed\<close>

lemma sec_run_filter: "sec_run lim d (filter is_section es) = sec_run lim d es"
  by (induction lim d es rule: sec_run.induct) (auto split: nat.split)

lemma closed_log:
  assumes "args_gate env tests fw0 = Inr fw" and "\<forall>t \<in> set run. wb_test t"
    and "es \<in> set (fwts_log_close (results (args_run env tests' argv run fw)))"
  shows "\<exists>evs. es = EvOpen # evs @ [EvClose] \<and> (\<forall>ev \<in> set evs. \<not> opens_closes ev) \<and> sec_run 5 0 evs = Some 0"
proof -
  obtain l where l: "results fw = Some l" "log_ok (Some l)"
    "log_calls (Some l) = replicate (length (type_masks (log_type fw0))) [EvOpen]"
    using assms(1) log_open_ok by (fastforce simp: args_gate_def split: if_splits option.splits)
  obtain evs where ev: "fw_ext evs fw (args_run env tests' argv run fw)" "nest 5 evs"
    using args_run_ext [OF assms(2)] by blast
  let ?r = "results (args_run env tests' argv run fw)"
  have ok: "log_ok ?r" and secs: "sections ?r = map (\<lambda>es. es @ evs) (sections (Some l))"
    using ev(1) l by (simp_all add: sec_ext_def)
  obtain cs where cs: "cs \<in> set (log_calls ?r)" "es = cs @ [EvClose]"
    using assms(3) ok by (auto simp: fwts_log_close_def log_calls_def log_ok_def split: option.splits)
  have "take 1 cs @ filter is_section (drop 1 cs) \<in> set (sections ?r)" using cs(1) by (simp add: sections_def)
  moreover have "sections (Some l) = replicate (length (type_masks (log_type fw0))) [EvOpen]"
    using l(3) by (simp add: sections_def)
  ultimately have m: "take 1 cs @ filter is_section (drop 1 cs) = EvOpen # evs" by (auto simp: secs)
  have "cs \<noteq> []" using cs(1) ok by (auto simp: log_ok_def log_calls_def split: option.splits)
  then obtain c ds where d: "cs = c # ds" by (cases cs) auto
  with m have c: "c = EvOpen" and f: "filter is_section ds = evs" by simp_all
  have "\<not> opens_closes e" if "e \<in> set ds" for e
  proof
    assume "opens_closes e"
    then have "e \<in> set evs" using that f by (auto simp: is_section_def)
    with \<open>opens_closes e\<close> ev(2) show False by (auto simp: nest_def)
  qed
  moreover have "sec_run 5 0 ds = Some 0" using ev(2) f sec_run_filter [of 5 0 ds] by (simp add: nest_def)
  ultimately show ?thesis using cs(2) c d by auto
qed

section \<open>The recorded results and the exit status\<close>

lemma log_results [simp]:
  "test_results (fwts_log_info s fw) = test_results fw" "test_results (fwts_log_nl fw) = test_results fw"
  "test_results (fw_newline fw) = test_results fw" "test_results (fw_section_begin n fw) = test_results fw"
  "test_results (fw_section_end fw) = test_results fw" "test_results (fw_set_owner w fw) = test_results fw"
  "test_results (fwts_log_summary s fw) = test_results fw"
  "test_results (fwts_log_summary_verbatim s fw) = test_results fw"
  "test_results (fw_underline c fw) = test_results fw"
  "test_results (fwts_log_error s fw) = test_results fw"
  "test_results (fwts_framework_total_summary fw) = test_results fw"
  by (simp_all add: fw_log_defs fwts_framework_total_summary_def)

lemma fold_results: "(\<And>x f. test_results (g x f) = test_results f) \<Longrightarrow> test_results (fold g xs fw) = test_results fw"
  by (induction xs arbitrary: fw) simp_all

lemma summary_report_results [simp]: "test_results (snd (fwts_summary_report tests fw)) = test_results fw"
proof -
  have item: "test_results (summary_report_item it f) = test_results f" for it f
    by (simp add: summary_report_item_def)
  have level: "test_results (summary_report_level i f) = test_results f" for i f
    by (simp add: summary_report_level_def Let_def fold_results item)
  show ?thesis
    by (simp add: fwts_summary_report_def summary_table_def Let_def fold_results level)
qed

lemma args_run_results:
  "test_results (args_run env tests argv run fw) =
   test_results (fwts_framework_tests_run run
     (fw_section_begin ''tests'' (fw_section_end (fwts_framework_heading_info env run argv
       (fw_section_begin ''heading'' (args_announce env run fw))))))"
  by (simp add: args_run_def Let_def)

lemma closed_length: "log_ok lo \<Longrightarrow> length (fwts_log_close lo) = length (log_calls lo)"
  by (auto simp: fwts_log_close_def log_calls_def log_ok_def split: option.splits)

section \<open>The output mode after parsing\<close>

lemma defaults_one_mode: "one_mode (args_defaults env (fw_init env))"
  by (simp add: one_mode_def args_defaults_def fwts_summary_init_def Let_def output_modes_def)

lemma parsed_one_mode:
  assumes "\<forall>t \<in> set tables. \<forall>f c i arg. flags (snd (ot_handler t f c i arg)) = flags f"
    and "\<forall>t \<in> set tables. \<forall>f chk. ot_check t = Some chk \<longrightarrow> flags (snd (chk f)) = flags f"
    and "\<forall>a f. flags (ae_disassemble env a f) = flags f"
  shows "one_mode (fst (snd (fwts_args_parse getopt (main_tables env tests tables) argv
           (args_defaults env (fw_init env)))))"
proof -
  let ?fw = "args_defaults env (fw_init env)" and ?t = "main_tables env tests tables"
  have d: "\<forall>a f. flags (oe_disassemble (main_opt_env env tests ts) a f) = flags f" for ts
    using assms(3) by (simp add: main_opt_env_def)
  have handlers: "\<forall>t \<in> set ?t. \<forall>f c i arg. one_mode f \<longrightarrow> one_mode (snd (ot_handler t f c i arg))"
  proof (intro ballI allI impI)
    fix t f c i arg assume t: "t \<in> set ?t" and f: "one_mode f"
    show "one_mode (snd (ot_handler t f c i arg))"
    proof (cases "t \<in> set tables")
      case True
      with assms(1) have "flags (snd (ot_handler t f c i arg)) = flags f" by blast
      with f show ?thesis by (rule one_mode_keep)
    next
      case False
      then obtain ts where "ot_handler t = fwts_framework_options_handler (main_opt_env env tests ts)"
        using t by (auto simp: main_tables_def Let_def)
      then show ?thesis
        using long_options_mode [OF f d] short_options_mode [OF f] by (simp add: fwts_framework_options_handler_def)
    qed
  qed
  have checks: "\<forall>t \<in> set ?t. \<forall>f chk. ot_check t = Some chk \<longrightarrow> one_mode f \<longrightarrow> one_mode (snd (chk f))"
  proof (intro ballI allI impI)
    fix t f chk assume t: "t \<in> set ?t" and c: "ot_check t = Some chk" and f: "one_mode f"
    from t c have "t \<in> set tables" by (auto simp: main_tables_def Let_def)
    with assms(2) c have "flags (snd (chk f)) = flags f" by blast
    with f show "one_mode (snd (chk f))" by (rule one_mode_keep)
  qed
  have err: "one_mode (fwts_log_error s ?fw)" for s
    using defaults_one_mode [of env] by (simp add: one_mode_def fw_log_defs)
  have loop: "one_mode (snd (args_loop ?t calls ?fw))" for calls
    by (rule args_loop_invariant [where I = one_mode, OF defaults_one_mode handlers])
  have "one_mode (snd (args_checks ?t f))" if "one_mode f" for f
    by (rule args_checks_invariant [where I = one_mode, OF that checks])
  then show ?thesis
    using err loop
    by (auto simp: fwts_args_parse_def Let_def case_prod_unfold split: option.split)
qed

section \<open>The exit status\<close>

text \<open>Up to the first test the totals are zero, if the functions of other parts of the program leave them alone.\<close>

definition keeps_totals :: "args_env \<Rightarrow> fwts_options_table list \<Rightarrow> bool" where
  "keeps_totals env tables \<longleftrightarrow>
     (\<forall>t \<in> set tables. (\<forall>f c i arg. totals (snd (ot_handler t f c i arg)) = totals f) \<and>
        (\<forall>f chk. ot_check t = Some chk \<longrightarrow> totals (snd (chk f)) = totals f)) \<and>
     (\<forall>a f. totals (ae_disassemble env a f) = totals f) \<and> (\<forall>f. totals (ae_devicetree_read env f) = totals f)"

lemma skip_test_totals: "totals (snd (skip_test_loop tests tokens fw)) = totals fw"
  by (induction tests tokens fw rule: skip_test_loop.induct) (auto split: option.split)

lemma parser_totals [simp]:
  "totals (snd (do_skip env arg fw)) = totals fw"
  "totals (snd (fwts_framework_log_type_parse arg fw)) = totals fw"
  "totals (snd (fwts_framework_acpica_parse arg fw)) = totals fw"
  "totals (snd (fwts_framework_pm_method_parse lg arg fw)) = totals fw"
  "totals (snd (fwts_framework_ll_parse arg fw)) = totals fw"
  "totals (snd (fwts_framework_an_parse arg fw)) = totals fw"
  "totals (snd (set_log f fw)) = totals fw"
  "totals (snd (set_flag fl fw)) = totals fw"
  "totals (snd (set_mode m o1 o2 fw)) = totals fw"
  by (simp_all add: do_skip_def fwts_framework_skip_test_parse_def fwts_framework_log_type_parse_def
      fwts_framework_acpica_parse_def fwts_framework_pm_method_parse_def fwts_framework_ll_parse_def
      fwts_framework_an_parse_def set_log_def set_flag_def set_mode_def skip_test_totals Let_def case_prod_unfold
      split: option.split)

lemma totals_ifI:
  "(b \<Longrightarrow> totals (snd x) = s) \<Longrightarrow> (\<not> b \<Longrightarrow> totals (snd y) = s) \<Longrightarrow> totals (snd (if b then x else y)) = s"
  by simp

lemma options_totals:
  assumes "\<forall>a f. totals (oe_disassemble env a f) = totals f"
  shows "totals (snd (fwts_framework_options_handler env fw c i arg)) = totals fw"
  unfolding fwts_framework_options_handler_def long_options_handler_def short_options_handler_def Let_def
  by (intro totals_ifI) (simp_all add: assms case_prod_unfold)

lemma parsed_totals:
  assumes "keeps_totals env tables"
  shows "totals (fst (snd (fwts_args_parse getopt (main_tables env tests tables) argv fw))) = totals fw"
proof -
  let ?t = "main_tables env tests tables" and ?I = "\<lambda>f. totals f = totals fw"
  have handlers: "\<forall>t \<in> set ?t. \<forall>f c i arg. ?I f \<longrightarrow> ?I (snd (ot_handler t f c i arg))"
    using assms by (auto simp: main_tables_def keeps_totals_def main_opt_env_def options_totals Let_def)
  have checks: "\<forall>t \<in> set ?t. \<forall>f chk. ot_check t = Some chk \<longrightarrow> ?I f \<longrightarrow> ?I (snd (chk f))"
    using assms by (auto simp: main_tables_def keeps_totals_def Let_def)
  have loop: "?I (snd (args_loop ?t calls fw))" for calls
    by (rule args_loop_invariant [where I = ?I, OF _ handlers]) simp
  have "?I (snd (args_checks ?t f))" if "?I f" for f
    by (rule args_checks_invariant [where I = ?I, OF that checks])
  then show ?thesis
    using loop by (auto simp: fwts_args_parse_def Let_def case_prod_unfold split: option.split)
qed

lemma selected_totals:
  assumes env: "keeps_totals env tables"
    and parsed: "fwts_args_parse (ae_getopt env) (main_tables env tests tables) (ae_argv env)
           (args_defaults env (fw_init env)) = (FWTS_OK, fw, argv, optind)"
    and gate: "args_gate env tests (args_dash argv fw) = Inr fw1"
    and select: "args_select tests (drop optind argv) (ae_devicetree_read env fw1) = Some (run, fw2)"
  shows "totals fw2 = fwts_results_zero"
proof -
  have "totals fw = fwts_results_zero"
    using parsed_totals [OF env, of "ae_getopt env" tests "ae_argv env" "args_defaults env (fw_init env)"]
    by (simp add: parsed) (simp add: args_defaults_def fw_init_def fwts_summary_init_def Let_def)
  then have "totals (args_dash argv fw) = fwts_results_zero" by (simp add: args_dash_def)
  with gate have "totals fw1 = fwts_results_zero" by (auto simp: args_gate_def split: if_splits option.splits)
  then have "totals (ae_devicetree_read env fw1) = fwts_results_zero" using env by (simp add: keeps_totals_def)
  then show ?thesis using args_select_Some(2) [OF select] by simp
qed

lemma main_exit:
  assumes mem: "ae_alloc env 488" "ae_alloc env 32" and env: "keeps_totals env tables"
    and parsed: "fwts_args_parse (ae_getopt env) (main_tables env tests tables) (ae_argv env)
           (args_defaults env (fw_init env)) = (FWTS_OK, fw, argv, optind)"
    and gate: "args_gate env tests (args_dash argv fw) = Inr fw1"
    and select: "args_select tests (drop optind argv) (ae_devicetree_read env fw1) = Some (run, fw2)"
    and wb: "\<forall>t \<in> set run. wb_test t" and ids: "distinct (map test_id run)"
    and ended: "fw3 = args_run env tests argv run fw2"
  shows "totals fw3 = fold (\<lambda>t acc. fwts_framework_summate_results acc (test_results fw3 (test_id t))) run fwts_results_zero"
    and "fwts_framework_args env tests tables =
      (if failed (totals fw3) \<noteq> 0 \<or> warning (totals fw3) \<noteq> 0 then FWTS_ERROR else FWTS_OK,
       Some fw3, fwts_log_close (results fw3))"
proof -
  let ?s = "fw_section_begin ''tests'' (fw_section_end (fwts_framework_heading_info env run argv
       (fw_section_begin ''heading'' (args_announce env run fw2))))"
  have "args_parsed env tests (FWTS_OK, fw, argv, optind) = (FWTS_OK, fw3)"
    using gate select by (simp add: args_parsed_def args_opened_def fwts_ret_defs ended Let_def)
  then show "fwts_framework_args env tests tables =
      (if failed (totals fw3) \<noteq> 0 \<or> warning (totals fw3) \<noteq> 0 then FWTS_ERROR else FWTS_OK,
       Some fw3, fwts_log_close (results fw3))"
    using mem parsed by (simp add: fwts_framework_args_def exit_status_def word_gt_0 Let_def)
  show "totals fw3 = fold (\<lambda>t acc. fwts_framework_summate_results acc (test_results fw3 (test_id t))) run fwts_results_zero"
    using tests_run_totals [OF wb ids, of "?s\<lparr>current_major_test_num := 1, major_tests_total := of_nat (length run)\<rparr>"]
      selected_totals [OF env parsed gate select]
    by (simp add: ended args_run_totals args_run_results fwts_framework_tests_run_def)
qed

end
