(* ===== verification/Fwts_Json.thy ===== *)
theory Fwts_Json
  imports Fwts_Strings Fwts_Numbers
begin

text \<open>
  The json reader and writer of src/lib/src/fwts_json.c (the subset of json fwts keeps its
  log patterns and its json log in): the tokens, the recursive descent parser, the object
  interface, and the conversion of an object to text.

  A file is the list of its characters, and the position in it the characters still to read;
  pushing a token back seeks to where it started. The line and character counts only serve
  the error messages on stderr and are left out, as is memory exhaustion (every allocation
  succeeds here; each failure would make the function return NULL). An object owns its
  members, so the tree of json_object structs is a datatype.

  The parser is a family of mutually recursive functions that reads the file as it goes. Its
  model takes fuel; two units per character and one more are always enough (json_enough), so
  json_parse is total and satisfies the equations of the code.
\<close>

section \<open>Objects\<close>

datatype json_object =
    JNull (jkey: "cstr option")
  | JInt (jkey: "cstr option") (intval: int)
  | JString (jkey: "cstr option") (strval: cstr)
  | JObject (jkey: "cstr option") (items: "json_object list")
  | JArray (jkey: "cstr option") (items: "json_object list")

primrec set_key :: "cstr \<Rightarrow> json_object \<Rightarrow> json_object" where
  "set_key k (JNull _) = JNull (Some k)"
| "set_key k (JInt _ i) = JInt (Some k) i"
| "set_key k (JString _ s) = JString (Some k) s"
| "set_key k (JObject _ xs) = JObject (Some k) xs"
| "set_key k (JArray _ xs) = JArray (Some k) xs"

definition json_object_new_object :: json_object where "json_object_new_object = JObject None []"
definition json_object_new_array :: json_object where "json_object_new_array = JArray None []"
definition json_object_new_int :: "int \<Rightarrow> json_object" where "json_object_new_int v = JInt None v"
definition json_object_new_string :: "cstr \<Rightarrow> json_object" where "json_object_new_string s = JString None s"

definition json_object_array_length :: "json_object option \<Rightarrow> int" where
  "json_object_array_length obj = (case obj of Some (JArray _ xs) \<Rightarrow> int (length xs) | _ \<Rightarrow> 0)"

text \<open>The result is 0, or negative where nothing is added.\<close>

definition json_object_array_add :: "json_object \<Rightarrow> json_object \<Rightarrow> int \<times> json_object" where
  "json_object_array_add obj item =
     (case obj of JArray k xs \<Rightarrow> (0, JArray k (xs @ [item])) | _ \<Rightarrow> (-1, obj))"

definition json_object_object_add :: "json_object \<Rightarrow> cstr \<Rightarrow> json_object \<Rightarrow> json_object" where
  "json_object_object_add obj key v =
     (case obj of JObject k xs \<Rightarrow> JObject k (xs @ [set_key key v]) | _ \<Rightarrow> obj)"

definition json_object_array_get_idx :: "json_object option \<Rightarrow> nat \<Rightarrow> json_object option" where
  "json_object_array_get_idx obj index =
     (case obj of Some (JArray _ xs) \<Rightarrow> if index < length xs then Some (xs ! index) else None | _ \<Rightarrow> None)"

definition json_object_get_string :: "json_object option \<Rightarrow> cstr option" where
  "json_object_get_string obj = (case obj of Some (JString _ s) \<Rightarrow> Some s | _ \<Rightarrow> None)"

definition json_object_object_get :: "json_object option \<Rightarrow> cstr \<Rightarrow> json_object option" where
  "json_object_object_get obj key =
     (case obj of Some (JObject _ xs) \<Rightarrow> find (\<lambda>x. jkey x = Some key) xs | _ \<Rightarrow> None)"

section \<open>Tokens\<close>

datatype json_token =
    TLbrace | TRbrace | TLbracket | TRbracket | TColon | TComma
  | TInt int | TString cstr | TTrue | TFalse | TNull | TError | TEof

definition BACKSLASH :: char where "BACKSLASH = CHR 0x5C"
definition QUOTE :: char where "QUOTE = CHR 0x22"

definition unescape :: "char \<Rightarrow> char" where
  "unescape e =
     (if e = CHR ''b'' then BS else if e = CHR ''f'' then FF else if e = CHR ''n'' then NL
      else if e = CHR ''r'' then CR else if e = CHR ''t'' then TAB
      else if e = CHR ''u'' then CHR ''?'' else e)"

text \<open>A C string ends at the first NUL of the buffer.\<close>

definition c_str :: "cstr \<Rightarrow> cstr" where
  "c_str buf = takeWhile (\<lambda>c. c \<noteq> CHR 0x00) buf"

definition string_max :: nat where [simp]: "string_max = 4096"

fun json_get_string :: "cstr \<Rightarrow> cstr \<Rightarrow> json_token \<times> cstr" where
  "json_get_string buf [] = (TError, [])"
| "json_get_string buf (ch # cs) =
     (if ch = BACKSLASH then
        (case cs of
           [] \<Rightarrow> (TError, [])
         | e # cs' \<Rightarrow>
             if string_max \<le> length buf + 1 then (TError, cs')
             else json_get_string (buf @ [unescape e]) cs')
      else if ch = QUOTE then (TString (c_str buf), cs)
      else if string_max \<le> length buf + 1 then (TError, cs)
      else json_get_string (buf @ [ch]) cs)"

text \<open>Called after the first digit has been read.\<close>

fun json_get_int :: "cstr \<Rightarrow> cstr \<Rightarrow> json_token \<times> cstr" where
  "json_get_int buf [] = (TInt (c_atoi buf), [])"
| "json_get_int buf (ch # cs) =
     (if \<not> isdigit ch then (TInt (c_atoi buf), ch # cs)
      else if 64 \<le> length buf + 1 then (TError, cs)
      else json_get_int (buf @ [ch]) cs)"

definition json_space :: "char \<Rightarrow> bool" where
  "json_space c \<longleftrightarrow> c = NL \<or> c = CHR '' '' \<or> c = CR \<or> c = TAB"

fun json_get_token :: "cstr \<Rightarrow> json_token \<times> cstr" where
  "json_get_token [] = (TEof, [])"
| "json_get_token (ch # cs) =
     (if json_space ch then json_get_token cs
      else if ch = CHR ''{'' then (TLbrace, cs)
      else if ch = CHR ''}'' then (TRbrace, cs)
      else if ch = CHR ''['' then (TLbracket, cs)
      else if ch = CHR '']'' then (TRbracket, cs)
      else if ch = CHR '':'' then (TColon, cs)
      else if ch = CHR '','' then (TComma, cs)
      else if ch = QUOTE then json_get_string [] cs
      else if isdigit ch then json_get_int [] cs
      else (TError, cs))"

section \<open>The parser\<close>

datatype presult = POk json_object cstr | PFail | PFuel

text \<open>
  The tokens of a member up to that of its value: the closing brace, or a key, a colon and the
  token after it.
\<close>

datatype member = MEnd cstr | MFail | MValue cstr json_token cstr

definition json_member :: "cstr \<Rightarrow> member" where
  "json_member cs =
     (case json_get_token cs of
        (TRbrace, r) \<Rightarrow> MEnd r
      | (TString key, r) \<Rightarrow>
          (case json_get_token r of
             (TColon, r2) \<Rightarrow> (let (token, r3) = json_get_token r2 in MValue key token r3)
           | _ \<Rightarrow> MFail)
      | _ \<Rightarrow> MFail)"

text \<open>
  json_parse_object() up to the loop; the loop, at a key; the loop, after a value; and
  json_parse_array(), at an element.
\<close>

fun json_parse_object :: "nat \<Rightarrow> cstr \<Rightarrow> presult"
and json_object_loop :: "nat \<Rightarrow> json_object \<Rightarrow> cstr \<Rightarrow> presult"
and json_object_next :: "nat \<Rightarrow> json_object \<Rightarrow> cstr \<Rightarrow> presult"
and json_parse_array :: "nat \<Rightarrow> json_object \<Rightarrow> cstr \<Rightarrow> presult" where
  "json_parse_object 0 cs = PFuel"
| "json_parse_object (Suc n) cs =
     (case json_get_token cs of
        (TLbrace, r) \<Rightarrow> json_object_loop n json_object_new_object r
      | _ \<Rightarrow> PFail)"
| "json_object_loop 0 obj cs = PFuel"
| "json_object_loop (Suc n) obj cs =
     (case json_member cs of
        MEnd r \<Rightarrow> POk obj r
      | MFail \<Rightarrow> PFail
      | MValue key token r \<Rightarrow>
          (case token of
             TString s \<Rightarrow> json_object_next n (json_object_object_add obj key (json_object_new_string s)) r
           | TInt i \<Rightarrow> json_object_next n (json_object_object_add obj key (json_object_new_int i)) r
           | TLbracket \<Rightarrow>
               (case json_parse_array n json_object_new_array r of
                  POk a r' \<Rightarrow> json_object_next n (json_object_object_add obj key a) r'
                | e \<Rightarrow> e)
           | TLbrace \<Rightarrow> PFail
           | TTrue \<Rightarrow> PFail
           | TFalse \<Rightarrow> PFail
           | TNull \<Rightarrow> PFail
           | _ \<Rightarrow> json_object_next n obj r))"
| "json_object_next 0 obj cs = PFuel"
| "json_object_next (Suc n) obj cs =
     (case json_get_token cs of
        (TComma, r) \<Rightarrow> json_object_loop n obj r
      | (TRbrace, r) \<Rightarrow> POk obj r
      | _ \<Rightarrow> PFail)"
| "json_parse_array 0 arr cs = PFuel"
| "json_parse_array (Suc n) arr cs =
     (case json_parse_object n cs of
        POk obj r \<Rightarrow>
          (let (ret, arr') = json_object_array_add arr obj
           in if ret < 0 then PFail
              else
                (case json_get_token r of
                   (TRbracket, r') \<Rightarrow> POk arr' r'
                 | (TComma, r') \<Rightarrow> json_parse_array n arr' r'
                 | _ \<Rightarrow> json_parse_array n arr' r))
      | e \<Rightarrow> e)"

definition json_fuel :: "cstr \<Rightarrow> nat" where
  "json_fuel cs = 2 * length cs + 1"

text \<open>json_object_from_file(): None for a file that cannot be opened.\<close>

definition json_object_from_file :: "(cstr \<Rightarrow> cstr option) \<Rightarrow> cstr \<Rightarrow> json_object option" where
  "json_object_from_file fs filename =
     (case fs filename of
        None \<Rightarrow> None
      | Some cs \<Rightarrow> (case json_parse_object (json_fuel cs) cs of POk obj r \<Rightarrow> Some obj | _ \<Rightarrow> None))"

section \<open>Conversion to text\<close>

definition str_indent :: "nat \<Rightarrow> cstr" where
  "str_indent indent = replicate (min 80 (indent + indent)) CHR '' ''"

definition char_escape :: "char \<Rightarrow> char option" where
  "char_escape c =
     (if c = QUOTE then Some QUOTE else if c = BS then Some CHR ''b'' else if c = FF then Some CHR ''f''
      else if c = NL then Some CHR ''n'' else if c = CR then Some CHR ''r''
      else if c = TAB then Some CHR ''t'' else None)"

fun str_escape :: "cstr \<Rightarrow> cstr" where
  "str_escape [] = []"
| "str_escape (c # cs) =
     (case char_escape c of
        Some e \<Rightarrow> BACKSLASH # e # str_escape cs
      | None \<Rightarrow> c # str_escape cs)"

definition key_text :: "cstr option \<Rightarrow> nat \<Rightarrow> cstr" where
  "key_text key indent =
     (case key of None \<Rightarrow> [] | Some k \<Rightarrow> str_indent indent @ [QUOTE] @ k @ [QUOTE, CHR '':''])"

fun json_object_to_json_string_indent :: "json_object \<Rightarrow> nat \<Rightarrow> cstr"
and array_text :: "bool \<Rightarrow> json_object list \<Rightarrow> nat \<Rightarrow> cstr"
and object_text :: "bool \<Rightarrow> json_object list \<Rightarrow> nat \<Rightarrow> cstr" where
  "json_object_to_json_string_indent (JArray k xs) i =
     key_text k i @ [NL] @ str_indent i @ [CHR ''[''] @ array_text True xs i @
     [NL] @ str_indent i @ [CHR '']'']"
| "json_object_to_json_string_indent (JObject k xs) i =
     str_indent i @ key_text k i @ [NL] @ str_indent i @ [CHR ''{''] @ object_text True xs i @
     [NL] @ str_indent i @ [CHR ''}''] @ str_indent i"
| "json_object_to_json_string_indent (JString k s) i =
     key_text k i @ [QUOTE] @ str_escape s @ [QUOTE]"
| "json_object_to_json_string_indent (JNull k) i = key_text k i @ ''(null)''"
| "json_object_to_json_string_indent (JInt k v) i = key_text k i @ show_int v"
| "array_text first [] i = []"
| "array_text first (x # xs) i =
     (if first then [] else [NL] @ str_indent (i + 1) @ [CHR '','']) @
     json_object_to_json_string_indent x (i + 1) @ array_text False xs i"
| "object_text first [] i = []"
| "object_text first (x # xs) i =
     (if first then [NL] else [CHR '','', NL]) @
     json_object_to_json_string_indent x (i + 1) @ object_text False xs i"

definition json_object_to_json_string :: "json_object \<Rightarrow> cstr" where
  "json_object_to_json_string obj = json_object_to_json_string_indent obj 0"

section \<open>Objects: what is added is found\<close>

lemma jkey_set_key [simp]: "jkey (set_key k v) = Some k"
  by (cases v) simp_all

lemma object_get_add:
  "json_object_object_get (Some (JObject k xs)) key = None \<Longrightarrow>
   json_object_object_get (Some (json_object_object_add (JObject k xs) key v)) key = Some (set_key key v)"
  by (induction xs) (auto simp: json_object_object_get_def json_object_object_add_def split: if_splits)

lemma object_get_add_other:
  "key' \<noteq> key \<Longrightarrow>
   json_object_object_get (Some (json_object_object_add obj key v)) key' = json_object_object_get (Some obj) key'"
proof (cases obj)
  case (JObject k xs)
  then show "key' \<noteq> key \<Longrightarrow> ?thesis"
    by (induction xs arbitrary: obj) (auto simp: json_object_object_get_def json_object_object_add_def)
qed (simp_all add: json_object_object_add_def)

lemma object_get_first:
  "json_object_object_get (Some (JObject k xs)) key = Some v \<Longrightarrow>
   json_object_object_get (Some (json_object_object_add (JObject k xs) key w)) key = Some v"
  by (induction xs) (auto simp: json_object_object_get_def json_object_object_add_def split: if_splits)

lemma array_get_add:
  "json_object_array_add (JArray k xs) item = (r, arr) \<Longrightarrow>
   r = 0 \<and> json_object_array_length (Some arr) = json_object_array_length (Some (JArray k xs)) + 1 \<and>
   json_object_array_get_idx (Some arr) i =
     (if i = length xs then Some item else json_object_array_get_idx (Some (JArray k xs)) i)"
  by (auto simp: json_object_array_add_def json_object_array_length_def json_object_array_get_idx_def nth_append)

section \<open>The parser ends\<close>

lemma get_string_rest: "json_get_string buf cs = (t, r) \<Longrightarrow> length r \<le> length cs \<and> t \<noteq> TEof"
  by (induction buf cs rule: json_get_string.induct) (fastforce split: if_splits list.splits)+

lemma get_int_rest: "json_get_int buf cs = (t, r) \<Longrightarrow> length r \<le> length cs \<and> t \<noteq> TEof"
  by (induction buf cs rule: json_get_int.induct) (fastforce split: if_splits)+

lemma get_token_rest:
  "json_get_token cs = (t, r) \<Longrightarrow> length r \<le> length cs \<and> (t \<noteq> TEof \<longrightarrow> length r < length cs)"
proof (induction cs rule: json_get_token.induct)
  case (2 ch cs)
  show ?case
  proof (cases "json_space ch")
    case True
    with 2 show ?thesis by fastforce
  next
    case False
    with 2(2) show ?thesis
      using get_string_rest [of "[]" cs t r] get_int_rest [of "[]" cs t r]
      by (auto split: if_splits)
  qed
qed simp

lemma token_less: "json_get_token cs = (t, r) \<Longrightarrow> t \<noteq> TEof \<Longrightarrow> length r < length cs"
  using get_token_rest by blast

lemma token_le: "json_get_token cs = (t, r) \<Longrightarrow> length r \<le> length cs"
  using get_token_rest by blast

lemma member_rest:
  "json_member cs = MEnd r \<Longrightarrow> length r < length cs"
  "json_member cs = MValue key token r \<Longrightarrow> length r + 2 \<le> length cs"
  by (force simp: json_member_def dest: token_less token_le split: prod.splits json_token.splits)+

lemma parse_rest:
  "(\<forall>cs obj r. json_parse_object n cs = POk obj r \<longrightarrow> length r < length cs) \<and>
   (\<forall>ob cs obj r. json_object_loop n ob cs = POk obj r \<longrightarrow> length r < length cs) \<and>
   (\<forall>ob cs obj r. json_object_next n ob cs = POk obj r \<longrightarrow> length r < length cs) \<and>
   (\<forall>arr cs obj r. json_parse_array n arr cs = POk obj r \<longrightarrow> length r < length cs)"
proof (induction n)
  case (Suc n)
  note IH = Suc.IH
  have "length r < length cs" if "json_parse_object (Suc n) cs = POk obj r" for cs obj r
    using that IH by (fastforce dest: token_less split: prod.splits json_token.splits)
  moreover have "length r < length cs" if "json_object_next (Suc n) ob cs = POk obj r" for ob cs obj r
    using that IH by (fastforce dest: token_less split: prod.splits json_token.splits)
  moreover have "length r < length cs" if l: "json_object_loop (Suc n) ob cs = POk obj r" for ob cs obj r
  proof (cases "json_member cs")
    case (MEnd r1)
    then show ?thesis using l member_rest(1) by simp
  next
    case (MValue key token r1)
    then have r1: "length r1 < length cs" using member_rest(2) by fastforce
    have next': "length r < length cs" if "json_object_next n ob' r' = POk obj r" "length r' \<le> length r1" for ob' r'
    proof -
      have "length r < length r'" using that(1) IH by blast
      with that(2) r1 show ?thesis by simp
    qed
    show ?thesis
    proof (cases "token = TLbracket")
      case True
      then obtain a r2 where "json_parse_array n json_object_new_array r1 = POk a r2"
        and "json_object_next n (json_object_object_add ob key a) r2 = POk obj r"
        using l MValue by (auto split: presult.splits)
      moreover from calculation(1) have "length r2 < length r1" using IH by blast
      ultimately show ?thesis using next' by simp
    next
      case False
      then show ?thesis using l MValue next' [OF _ le_refl] by (cases token) auto
    qed
  qed (use l in simp)
  moreover have "length r < length cs" if l: "json_parse_array (Suc n) arr cs = POk obj r" for arr cs obj r
  proof -
    from l obtain o1 r1 where o1: "json_parse_object n cs = POk o1 r1"
      by (auto split: presult.splits)
    then have r1: "length r1 < length cs" using IH by blast
    have again: "length r < length cs" if "json_parse_array n a r' = POk obj r" "length r' \<le> length r1" for a r'
    proof -
      have "length r < length r'" using that(1) IH by blast
      with that(2) r1 show ?thesis by simp
    qed
    obtain t r2 where t: "json_get_token r1 = (t, r2)" by (cases "json_get_token r1")
    then have "length r2 \<le> length r1" using token_le by blast
    then show ?thesis using l o1 t r1 again by (cases t) (auto simp: case_prod_unfold Let_def split: if_splits)
  qed
  ultimately show ?case by blast
qed simp


text \<open>Two units of fuel per character and one more (two in an array) are enough.\<close>

lemma json_enough:
  "(\<forall>cs. 2 * length cs + 1 \<le> n \<longrightarrow> json_parse_object n cs \<noteq> PFuel) \<and>
   (\<forall>ob cs. 2 * length cs + 1 \<le> n \<longrightarrow> json_object_loop n ob cs \<noteq> PFuel) \<and>
   (\<forall>ob cs. 2 * length cs + 1 \<le> n \<longrightarrow> json_object_next n ob cs \<noteq> PFuel) \<and>
   (\<forall>arr cs. 2 * length cs + 2 \<le> n \<longrightarrow> json_parse_array n arr cs \<noteq> PFuel)"
proof (induction n)
  case (Suc n)
  note IH = Suc.IH
  have "json_parse_object (Suc n) cs \<noteq> PFuel" if "2 * length cs + 1 \<le> Suc n" for cs
    using that IH by (fastforce dest: token_less split: prod.splits json_token.splits)
  moreover have "json_object_next (Suc n) ob cs \<noteq> PFuel" if "2 * length cs + 1 \<le> Suc n" for ob cs
    using that IH by (fastforce dest: token_less split: prod.splits json_token.splits)
  moreover have "json_object_loop (Suc n) ob cs \<noteq> PFuel" if b: "2 * length cs + 1 \<le> Suc n" for ob cs
  proof (cases "json_member cs")
    case (MValue key token r1)
    then have r1: "length r1 + 2 \<le> length cs" using member_rest(2) by blast
    have next': "json_object_next n ob' r' \<noteq> PFuel" if "length r' \<le> length r1" for ob' r'
    proof -
      have "2 * length r' + 1 \<le> n" using that r1 b by linarith
      with IH show ?thesis by blast
    qed
    show ?thesis
    proof (cases "token = TLbracket")
      case True
      have "2 * length r1 + 2 \<le> n" using r1 b by linarith
      then have "json_parse_array n json_object_new_array r1 \<noteq> PFuel" using IH by blast
      moreover have "length r2 \<le> length r1" if "json_parse_array n json_object_new_array r1 = POk a r2" for a r2
        using that parse_rest [of n] less_imp_le by blast
      ultimately show ?thesis using True MValue next' by (auto split: presult.splits)
    next
      case False
      then show ?thesis using MValue next' [OF le_refl] by (cases token) auto
    qed
  qed simp_all
  moreover have "json_parse_array (Suc n) arr cs \<noteq> PFuel" if b: "2 * length cs + 2 \<le> Suc n" for arr cs
  proof (cases "json_parse_object n cs")
    case (POk o1 r1)
    then have r1: "length r1 < length cs" using parse_rest by blast
    have again: "json_parse_array n a r' \<noteq> PFuel" if "length r' \<le> length r1" for a r'
    proof -
      have "2 * length r' + 2 \<le> n" using that r1 b by linarith
      with IH show ?thesis by blast
    qed
    obtain t r2 where t: "json_get_token r1 = (t, r2)" by (cases "json_get_token r1")
    then have "length r2 \<le> length r1" using token_le by blast
    then show ?thesis using POk t again by (cases t) (auto simp: case_prod_unfold Let_def)
  next
    case PFuel
    have "2 * length cs + 1 \<le> n" using b by linarith
    with PFuel IH show ?thesis by blast
  qed simp
  ultimately show ?case by blast
qed simp

section \<open>The parser without fuel\<close>

lemma json_mono:
  "(\<forall>cs. json_parse_object n cs \<noteq> PFuel \<longrightarrow> json_parse_object (Suc n) cs = json_parse_object n cs) \<and>
   (\<forall>ob cs. json_object_loop n ob cs \<noteq> PFuel \<longrightarrow> json_object_loop (Suc n) ob cs = json_object_loop n ob cs) \<and>
   (\<forall>ob cs. json_object_next n ob cs \<noteq> PFuel \<longrightarrow> json_object_next (Suc n) ob cs = json_object_next n ob cs) \<and>
   (\<forall>arr cs. json_parse_array n arr cs \<noteq> PFuel \<longrightarrow> json_parse_array (Suc n) arr cs = json_parse_array n arr cs)"
proof (induction n)
  case (Suc n)
  note o = Suc.IH [THEN conjunct1, rule_format]
    and l = Suc.IH [THEN conjunct2, THEN conjunct1, rule_format]
    and x = Suc.IH [THEN conjunct2, THEN conjunct2, THEN conjunct1, rule_format]
    and a = Suc.IH [THEN conjunct2, THEN conjunct2, THEN conjunct2, rule_format]
  have "json_parse_object (Suc (Suc n)) cs = json_parse_object (Suc n) cs"
    if "json_parse_object (Suc n) cs \<noteq> PFuel" for cs
  proof -
    obtain t r where t: "json_get_token cs = (t, r)" by (cases "json_get_token cs")
    with that show ?thesis
      using l [of json_object_new_object r] unfolding json_parse_object.simps by (cases t) simp_all
  qed
  moreover have "json_object_next (Suc (Suc n)) ob cs = json_object_next (Suc n) ob cs"
    if "json_object_next (Suc n) ob cs \<noteq> PFuel" for ob cs
  proof -
    obtain t r where t: "json_get_token cs = (t, r)" by (cases "json_get_token cs")
    with that show ?thesis using l [of ob r] unfolding json_object_next.simps by (cases t) simp_all
  qed
  moreover have "json_object_loop (Suc (Suc n)) ob cs = json_object_loop (Suc n) ob cs"
    if p: "json_object_loop (Suc n) ob cs \<noteq> PFuel" for ob cs
  proof (cases "json_member cs")
    case (MValue key token r)
    show ?thesis
    proof (cases "token = TLbracket")
      case True
      with MValue p have "json_parse_array n json_object_new_array r \<noteq> PFuel" by auto
      with True MValue p show ?thesis
        using a [of json_object_new_array r] x
        unfolding json_object_loop.simps by (cases "json_parse_array n json_object_new_array r") simp_all
    next
      case False
      with MValue p show ?thesis using x unfolding json_object_loop.simps by (cases token) simp_all
    qed
  qed simp_all
  moreover have "json_parse_array (Suc (Suc n)) arr cs = json_parse_array (Suc n) arr cs"
    if p: "json_parse_array (Suc n) arr cs \<noteq> PFuel" for arr cs
  proof -
    from p have "json_parse_object n cs \<noteq> PFuel" by auto
    moreover obtain t r where "json_get_token (case json_parse_object n cs of POk ob r \<Rightarrow> r | _ \<Rightarrow> []) = (t, r)"
      by fastforce
    ultimately show ?thesis
      using p o [of cs] a unfolding json_parse_array.simps
      by (cases "json_parse_object n cs"; cases t) (simp_all add: Let_def case_prod_unfold split: if_splits)
  qed
  ultimately show ?case by blast
qed simp

lemma fuel_stable:
  assumes "\<And>n. f n \<noteq> PFuel \<Longrightarrow> f (Suc n) = f n" and "f m \<noteq> PFuel" and "m \<le> n"
  shows "f n = f m"
  using assms(3)
proof (induction n)
  case (Suc n)
  then show ?case using assms(1,2) by (cases "m = Suc n") (auto simp: le_Suc_eq)
qed simp

definition parse_object :: "cstr \<Rightarrow> presult" where
  "parse_object cs = json_parse_object (2 * length cs + 1) cs"

definition parse_loop :: "json_object \<Rightarrow> cstr \<Rightarrow> presult" where
  "parse_loop ob cs = json_object_loop (2 * length cs + 1) ob cs"

definition parse_next :: "json_object \<Rightarrow> cstr \<Rightarrow> presult" where
  "parse_next ob cs = json_object_next (2 * length cs + 1) ob cs"

definition parse_array :: "json_object \<Rightarrow> cstr \<Rightarrow> presult" where
  "parse_array arr cs = json_parse_array (2 * length cs + 2) arr cs"

lemma parse_fuel:
  "2 * length cs + 1 \<le> n \<Longrightarrow> json_parse_object n cs = parse_object cs"
  "2 * length cs + 1 \<le> n \<Longrightarrow> json_object_loop n ob cs = parse_loop ob cs"
  "2 * length cs + 1 \<le> n \<Longrightarrow> json_object_next n ob cs = parse_next ob cs"
  "2 * length cs + 2 \<le> n \<Longrightarrow> json_parse_array n arr cs = parse_array arr cs"
  unfolding parse_object_def parse_loop_def parse_next_def parse_array_def
  using fuel_stable [of "\<lambda>n. json_parse_object n cs" "2 * length cs + 1" n]
    fuel_stable [of "\<lambda>n. json_object_loop n ob cs" "2 * length cs + 1" n]
    fuel_stable [of "\<lambda>n. json_object_next n ob cs" "2 * length cs + 1" n]
    fuel_stable [of "\<lambda>n. json_parse_array n arr cs" "2 * length cs + 2" n]
    json_mono json_enough by (metis order_refl)+

text \<open>The equations of the code.\<close>

lemma parse_object_eq:
  "parse_object cs =
     (case json_get_token cs of (TLbrace, r) \<Rightarrow> parse_loop json_object_new_object r | _ \<Rightarrow> PFail)"
proof -
  obtain t r where t: "json_get_token cs = (t, r)" by (cases "json_get_token cs")
  show ?thesis
  proof (cases "t = TLbrace")
    case True
    then have "length r < length cs" using token_less [OF t] by simp
    then have "2 * length r + 1 \<le> 2 * length cs" by linarith
    with True t show ?thesis by (simp add: parse_object_def parse_fuel(2))
  next
    case False
    with t show ?thesis by (cases t) (simp_all add: parse_object_def)
  qed
qed

lemma parse_next_eq:
  "parse_next ob cs =
     (case json_get_token cs of
        (TComma, r) \<Rightarrow> parse_loop ob r | (TRbrace, r) \<Rightarrow> POk ob r | _ \<Rightarrow> PFail)"
proof -
  obtain t r where t: "json_get_token cs = (t, r)" by (cases "json_get_token cs")
  show ?thesis
  proof (cases "t = TComma")
    case True
    then have "length r < length cs" using token_less [OF t] by simp
    then have "2 * length r + 1 \<le> 2 * length cs" by linarith
    with True t show ?thesis by (simp add: parse_next_def parse_fuel(2))
  next
    case False
    with t show ?thesis by (cases t) (simp_all add: parse_next_def)
  qed
qed

lemma parse_loop_end: "json_member cs = MEnd r \<Longrightarrow> parse_loop ob cs = POk ob r"
  by (simp add: parse_loop_def)

lemma parse_loop_value:
  assumes "json_member cs = MValue key token r"
  shows "token = TString s \<Longrightarrow> parse_loop ob cs = parse_next (json_object_object_add ob key (JString None s)) r"
    and "token = TInt i \<Longrightarrow> parse_loop ob cs = parse_next (json_object_object_add ob key (JInt None i)) r"
    and "token = TLbracket \<Longrightarrow> parse_array json_object_new_array r = POk a r' \<Longrightarrow>
           parse_loop ob cs = parse_next (json_object_object_add ob key a) r'"
    and "token \<in> {TRbrace, TRbracket, TColon, TComma, TError, TEof} \<Longrightarrow> parse_loop ob cs = parse_next ob r"
proof -
  have r: "length r + 2 \<le> length cs" by (rule member_rest(2) [OF assms])
  then have n: "2 * length r + 1 \<le> 2 * length cs" and a: "2 * length r + 2 \<le> 2 * length cs" by linarith+
  have u: "parse_loop ob cs = json_object_loop (Suc (2 * length cs)) ob cs" by (simp add: parse_loop_def)
  show "token = TString s \<Longrightarrow> parse_loop ob cs = parse_next (json_object_object_add ob key (JString None s)) r"
    using assms n by (simp add: u json_object_new_string_def parse_fuel(3))
  show "token = TInt i \<Longrightarrow> parse_loop ob cs = parse_next (json_object_object_add ob key (JInt None i)) r"
    using assms n by (simp add: u json_object_new_int_def parse_fuel(3))
  show "token \<in> {TRbrace, TRbracket, TColon, TComma, TError, TEof} \<Longrightarrow> parse_loop ob cs = parse_next ob r"
    using assms n by (auto simp: u parse_fuel(3))
  assume tk: "token = TLbracket" and pa: "parse_array json_object_new_array r = POk a r'"
  then have "length r' < length r" using parse_rest [of "2 * length r + 2"] unfolding parse_array_def by blast
  then have "2 * length r' + 1 \<le> 2 * length cs" using r by linarith
  then show "parse_loop ob cs = parse_next (json_object_object_add ob key a) r'"
    using assms tk pa a by (simp add: u parse_fuel(3,4))
qed

lemma parse_array_step:
  assumes "parse_object cs = POk obj r" and "json_get_token r = (t, r')"
  shows "parse_array (JArray k xs) cs =
           (if t = TRbracket then POk (JArray k (xs @ [obj])) r'
            else parse_array (JArray k (xs @ [obj])) (if t = TComma then r' else r))"
proof -
  have "length r < length cs" using parse_rest [of "2 * length cs + 1"] assms(1) unfolding parse_object_def by blast
  moreover have "length r' \<le> length r" by (rule token_le [OF assms(2)])
  ultimately have n: "2 * length r + 2 \<le> 2 * length cs + 1" "2 * length r' + 2 \<le> 2 * length cs + 1" by linarith+
  obtain m where m: "m = 2 * length cs + 1" by simp
  have o: "json_parse_object m cs = POk obj r" using assms(1) by (simp only: parse_object_def m)
  have a: "json_parse_array m arr r = parse_array arr r" "json_parse_array m arr r' = parse_array arr r'" for arr
    using n unfolding m by (simp_all only: parse_fuel(4))
  have "parse_array (JArray k xs) cs = json_parse_array (Suc m) (JArray k xs) cs"
    by (simp add: parse_array_def m)
  also have "\<dots> = (if t = TRbracket then POk (JArray k (xs @ [obj])) r'
            else parse_array (JArray k (xs @ [obj])) (if t = TComma then r' else r))"
    using o assms(2) a by (cases t) (simp_all add: json_object_array_add_def)
  finally show ?thesis .
qed

lemma parse_array_fail: "parse_object cs = PFail \<Longrightarrow> parse_array arr cs = PFail"
  by (simp add: parse_array_def parse_object_def)

section \<open>Reading back what is written\<close>

text \<open>The strings and keys the format carries unharmed.\<close>

definition json_text :: "cstr \<Rightarrow> bool" where
  "json_text s \<longleftrightarrow> (\<forall>c \<in> set s. c \<noteq> BACKSLASH \<and> c \<noteq> CHR 0x00) \<and> length s < string_max"

definition json_key :: "cstr option \<Rightarrow> bool" where
  "json_key key \<longleftrightarrow> (case key of None \<Rightarrow> False | Some k \<Rightarrow> json_text k \<and> QUOTE \<notin> set k)"

text \<open>
  The objects the parser can return, as the outermost object and as a member; and what is
  read where they have been written: the reader leaves out the first digit of a number.
\<close>

fun obj_ok :: "json_object \<Rightarrow> bool" and member_ok :: "json_object \<Rightarrow> bool" where
  "obj_ok (JObject k xs) \<longleftrightarrow> k = None \<and> (\<forall>x \<in> set xs. member_ok x)"
| "obj_ok (JNull k) \<longleftrightarrow> False"
| "obj_ok (JInt k v) \<longleftrightarrow> False"
| "obj_ok (JString k s) \<longleftrightarrow> False"
| "obj_ok (JArray k xs) \<longleftrightarrow> False"
| "member_ok (JString k s) \<longleftrightarrow> json_key k \<and> json_text s"
| "member_ok (JInt k v) \<longleftrightarrow> json_key k \<and> 0 \<le> v \<and> v < 2 ^ 31"
| "member_ok (JArray k xs) \<longleftrightarrow> json_key k \<and> xs \<noteq> [] \<and> (\<forall>x \<in> set xs. obj_ok x)"
| "member_ok (JObject k xs) \<longleftrightarrow> False"
| "member_ok (JNull k) \<longleftrightarrow> False"

fun reread :: "json_object \<Rightarrow> json_object" where
  "reread (JInt k v) = JInt k (c_atoi (tl (show_int v)))"
| "reread (JString k s) = JString k s"
| "reread (JNull k) = JNull k"
| "reread (JObject k xs) = JObject k (map reread xs)"
| "reread (JArray k xs) = JArray k (map reread xs)"

lemmas json_chars = BACKSLASH_def QUOTE_def NL_def CR_def TAB_def BS_def FF_def

lemma get_string_escape:
  "\<forall>c \<in> set s. c \<noteq> BACKSLASH \<Longrightarrow> length buf + length s < 4096 \<Longrightarrow>
   json_get_string buf (str_escape s @ QUOTE # r) = (TString (c_str (buf @ s)), r)"
proof (induction s arbitrary: buf)
  case (Cons c s)
  show ?case
  proof (cases "char_escape c")
    case None
    then have "c \<noteq> QUOTE" by (auto simp: char_escape_def)
    with None Cons show ?thesis by simp
  next
    case (Some e)
    then have "unescape e = c" by (auto simp: char_escape_def unescape_def json_chars split: if_splits)
    with Some Cons show ?thesis by simp
  qed
qed (simp add: QUOTE_def BACKSLASH_def)

lemma get_string_key:
  "\<forall>c \<in> set s. c \<noteq> BACKSLASH \<and> c \<noteq> QUOTE \<Longrightarrow> length buf + length s < 4096 \<Longrightarrow>
   json_get_string buf (s @ QUOTE # r) = (TString (c_str (buf @ s)), r)"
  by (induction s arbitrary: buf) (auto simp: QUOTE_def BACKSLASH_def)

lemma c_str_text: "json_text s \<Longrightarrow> c_str s = s"
  by (simp add: c_str_def json_text_def)

lemma get_int_digits:
  "\<forall>c \<in> set ds. isdigit c \<Longrightarrow> (case r of [] \<Rightarrow> True | c # _ \<Rightarrow> \<not> isdigit c) \<Longrightarrow> length buf + length ds < 64 \<Longrightarrow>
   json_get_int buf (ds @ r) = (TInt (c_atoi (buf @ ds)), r)"
  by (induction ds arbitrary: buf) (auto split: list.splits)

definition spaces :: "cstr \<Rightarrow> bool" where
  "spaces ws \<longleftrightarrow> (\<forall>c \<in> set ws. json_space c)"

lemma get_token_spaces: "spaces ws \<Longrightarrow> json_get_token (ws @ cs) = json_get_token cs"
  by (induction ws) (auto simp: spaces_def)

lemma spaces_intro [simp]:
  "spaces []" "spaces (ws @ ws') \<longleftrightarrow> spaces ws \<and> spaces ws'" "spaces (NL # ws) \<longleftrightarrow> spaces ws"
  "spaces (str_indent i)"
  by (auto simp: spaces_def json_space_def str_indent_def)

lemma json_space_NL [simp]: "json_space NL"
  by (simp add: json_space_def)

lemma punctuation [simp]:
  "json_get_token (CHR ''{'' # cs) = (TLbrace, cs)" "json_get_token (CHR ''}'' # cs) = (TRbrace, cs)"
  "json_get_token (CHR ''['' # cs) = (TLbracket, cs)" "json_get_token (CHR '']'' # cs) = (TRbracket, cs)"
  "json_get_token (CHR '':'' # cs) = (TColon, cs)" "json_get_token (CHR '','' # cs) = (TComma, cs)"
  "json_get_token (QUOTE # cs) = json_get_string [] cs"
  by (simp_all add: json_space_def json_chars)

declare json_get_token.simps(2) [simp del]

lemma member_key:
  assumes "spaces ws" and "json_key key"
  shows "json_member (ws @ key_text key i @ cs) =
           (let (token, r) = json_get_token cs in MValue (the key) token r)"
proof -
  from assms(2) obtain k where k: "key = Some k" and t: "json_text k" and q: "QUOTE \<notin> set k"
    by (auto simp: json_key_def split: option.splits)
  have g: "json_get_string [] (k @ QUOTE # r) = (TString k, r)" for r
    using get_string_key [of k "[]" r] t q c_str_text [OF t] by (auto simp: json_text_def)
  have "json_get_token (ws @ key_text key i @ cs) = (TString k, CHR '':'' # cs)"
    using assms(1) get_token_spaces [of "ws @ str_indent i" "QUOTE # k @ QUOTE # CHR '':'' # cs"]
    by (simp add: k key_text_def g)
  then show ?thesis by (simp add: json_member_def k)
qed

lemma member_end: "spaces ws \<Longrightarrow> json_member (ws @ CHR ''}'' # r) = MEnd r"
  by (simp add: json_member_def get_token_spaces)

text \<open>What follows a number must not go on with a digit.\<close>

definition stops :: "cstr \<Rightarrow> bool" where
  "stops r \<longleftrightarrow> (case r of [] \<Rightarrow> True | c # _ \<Rightarrow> \<not> isdigit c)"

lemma stops_text [simp]: "stops (NL # r)" "stops (CHR '','' # r)"
  by (simp_all add: stops_def isdigit_def NL_def)

lemma get_token_int:
  assumes "0 \<le> v" and "v < 2 ^ 31" and "stops r"
  shows "json_get_token (show_int v @ r) = (TInt (c_atoi (tl (show_int v))), r)"
proof -
  obtain d ds where s: "show_nat (nat v) = d # ds" and d: "isdigit d" using show_nat_Cons by blast
  have ds: "\<forall>c \<in> set ds. isdigit c" using show_nat_digits [of "nat v"] s by simp
  have "nat v < 10 ^ 10" using assms(2) by simp
  then have "length (d # ds) \<le> 10" using show_nat_length [of "nat v" 10] by (simp add: s)
  then have "json_get_int [] (ds @ r) = (TInt (c_atoi ds), r)"
    using get_int_digits [OF ds, of r "[]"] assms(3) by (simp add: stops_def)
  moreover have "json_get_token (d # cs) = json_get_int [] cs" for cs
  proof -
    have "\<not> json_space d" "d \<noteq> CHR ''{''" "d \<noteq> CHR ''}''" "d \<noteq> CHR ''[''" "d \<noteq> CHR '']''"
      "d \<noteq> CHR '':''" "d \<noteq> CHR '',''" "d \<noteq> QUOTE"
      using d by (auto simp: json_space_def isdigit_def json_chars)
    with d show ?thesis by (simp add: json_get_token.simps(2))
  qed
  ultimately show ?thesis using assms(1) by (simp add: show_int_def s)
qed

text \<open>A written member, read at the position of a key; a written object.\<close>

definition reads_member :: "json_object \<Rightarrow> bool" where
  "reads_member x \<longleftrightarrow> (\<forall>ws i r ys. spaces ws \<longrightarrow> stops r \<longrightarrow>
     parse_loop (JObject None ys) (ws @ json_object_to_json_string_indent x i @ r) =
     parse_next (JObject None (ys @ [reread x])) r)"

definition reads_object :: "json_object \<Rightarrow> bool" where
  "reads_object x \<longleftrightarrow> (\<forall>ws i r. spaces ws \<longrightarrow>
     parse_object (ws @ json_object_to_json_string_indent x i @ r) = POk (reread x) (str_indent i @ r))"

lemma the_json_key: "json_key k \<Longrightarrow> k = Some (the k)"
  by (simp add: json_key_def split: option.splits)

lemma reads_string:
  assumes "json_key k" and "json_text s"
  shows "reads_member (JString k s)"
  unfolding reads_member_def
proof (intro allI impI)
  fix ws i r ys assume ws: "spaces ws"
  have "json_get_token (QUOTE # str_escape s @ QUOTE # r) = (TString s, r)"
    using get_string_escape [of s "[]" r] assms(2) c_str_text [OF assms(2)] by (simp add: json_text_def)
  then have "json_member (ws @ json_object_to_json_string_indent (JString k s) i @ r) = MValue (the k) (TString s) r"
    using member_key [OF ws assms(1), of i "QUOTE # str_escape s @ QUOTE # r"] by simp
  from parse_loop_value(1) [OF this]
  show "parse_loop (JObject None ys) (ws @ json_object_to_json_string_indent (JString k s) i @ r) =
     parse_next (JObject None (ys @ [reread (JString k s)])) r"
    using the_json_key [OF assms(1)] by (simp add: json_object_object_add_def)
qed

lemma reads_int:
  assumes "json_key k" and "0 \<le> v" and "v < 2 ^ 31"
  shows "reads_member (JInt k v)"
  unfolding reads_member_def
proof (intro allI impI)
  fix ws i r ys assume ws: "spaces ws" and r: "stops r"
  have "json_member (ws @ json_object_to_json_string_indent (JInt k v) i @ r) =
      MValue (the k) (TInt (c_atoi (tl (show_int v)))) r"
    using member_key [OF ws assms(1), of i "show_int v @ r"] get_token_int [OF assms(2,3) r] by simp
  from parse_loop_value(2) [OF this]
  show "parse_loop (JObject None ys) (ws @ json_object_to_json_string_indent (JInt k v) i @ r) =
     parse_next (JObject None (ys @ [reread (JInt k v)])) r"
    using the_json_key [OF assms(1)] by (simp add: json_object_object_add_def)
qed

lemma reads_items:
  assumes "\<forall>x \<in> set xs. reads_object x" and "xs \<noteq> []"
  shows "parse_array (JArray None ys) (array_text True xs i @ NL # str_indent i @ CHR '']'' # r) =
     POk (JArray None (ys @ map reread xs)) r"
proof -
  have step: "parse_array (JArray None ys) (array_text True (x # xs) i @ NL # str_indent i @ CHR '']'' # r) =
     POk (JArray None (ys @ map reread (x # xs))) r"
    if "\<forall>x \<in> set (x # xs). reads_object x" for x xs ys
    using that
  proof (induction xs arbitrary: x ys)
    case Nil
    let ?r = "NL # str_indent i @ CHR '']'' # r"
    have "parse_object (json_object_to_json_string_indent x (i + 1) @ ?r) = POk (reread x) (str_indent (i + 1) @ ?r)"
      using Nil unfolding reads_object_def by (metis append_Nil list.set_intros(1) spaces_intro(1))
    moreover have "json_get_token (str_indent (i + 1) @ ?r) = (TRbracket, r)"
      using get_token_spaces [of "str_indent (i + 1) @ NL # str_indent i" "CHR '']'' # r"] by simp
    ultimately show ?case using parse_array_step by simp
  next
    case (Cons x' xs)
    let ?t = "array_text True (x' # xs) i @ NL # str_indent i @ CHR '']'' # r"
    let ?r = "NL # str_indent (i + 1) @ CHR '','' # ?t"
    have "parse_object (json_object_to_json_string_indent x (i + 1) @ ?r) = POk (reread x) (str_indent (i + 1) @ ?r)"
      using Cons.prems unfolding reads_object_def by (metis append_Nil list.set_intros(1) spaces_intro(1))
    moreover have "json_get_token (str_indent (i + 1) @ ?r) = (TComma, ?t)"
      using get_token_spaces [of "str_indent (i + 1) @ NL # str_indent (i + 1)" "CHR '','' # ?t"] by simp
    ultimately have "parse_array (JArray None ys) (json_object_to_json_string_indent x (i + 1) @ ?r) =
        parse_array (JArray None (ys @ [reread x])) ?t"
      using parse_array_step by simp
    also have "\<dots> = POk (JArray None ((ys @ [reread x]) @ map reread (x' # xs))) r"
      using Cons.IH [of x' "ys @ [reread x]"] Cons.prems by simp
    finally show ?case by simp
  qed
  from assms show ?thesis using step by (cases xs) auto
qed

lemma reads_members:
  assumes "\<forall>x \<in> set xs. reads_member x"
  shows "parse_next (JObject None ys) (object_text False xs i @ NL # str_indent i @ CHR ''}'' # r) =
     POk (JObject None (ys @ map reread xs)) r"
  using assms
proof (induction xs arbitrary: ys)
  case Nil
  show ?case using get_token_spaces [of "NL # str_indent i" "CHR ''}'' # r"] by (simp add: parse_next_eq)
next
  case (Cons x xs)
  let ?r = "object_text False xs i @ NL # str_indent i @ CHR ''}'' # r"
  have "stops ?r" by (cases xs) simp_all
  moreover have "spaces [NL]" by simp
  ultimately have "parse_loop (JObject None ys) ([NL] @ json_object_to_json_string_indent x (i + 1) @ ?r) =
      parse_next (JObject None (ys @ [reread x])) ?r"
    using Cons.prems unfolding reads_member_def by (meson list.set_intros(1))
  then show ?case using Cons.IH [of "ys @ [reread x]"] Cons.prems by (simp add: parse_next_eq [of "JObject None ys"])
qed

lemma reads_array:
  assumes "json_key k" and "xs \<noteq> []" and "\<forall>x \<in> set xs. reads_object x"
  shows "reads_member (JArray k xs)"
  unfolding reads_member_def
proof (intro allI impI)
  fix ws i r ys assume ws: "spaces ws"
  let ?t = "array_text True xs i @ NL # str_indent i @ CHR '']'' # r"
  have "json_get_token (NL # str_indent i @ CHR ''['' # ?t) = (TLbracket, ?t)"
    using get_token_spaces [of "NL # str_indent i" "CHR ''['' # ?t"] by simp
  then have m: "json_member (ws @ json_object_to_json_string_indent (JArray k xs) i @ r) = MValue (the k) TLbracket ?t"
    using member_key [OF ws assms(1), of i "NL # str_indent i @ CHR ''['' # ?t"] by simp
  have a: "parse_array json_object_new_array ?t = POk (JArray None (map reread xs)) r"
    using reads_items [OF assms(3,2), of "[]"] by (simp add: json_object_new_array_def)
  from parse_loop_value(3) [OF m refl a]
  show "parse_loop (JObject None ys) (ws @ json_object_to_json_string_indent (JArray k xs) i @ r) =
     parse_next (JObject None (ys @ [reread (JArray k xs)])) r"
    using the_json_key [OF assms(1)] by (simp add: json_object_object_add_def)
qed

lemma reads_outer:
  assumes "\<forall>x \<in> set xs. reads_member x"
  shows "reads_object (JObject None xs)"
  unfolding reads_object_def
proof (intro allI impI)
  fix ws i r assume ws: "spaces ws"
  let ?s = "str_indent i @ r"
  let ?t = "object_text True xs i @ NL # str_indent i @ CHR ''}'' # ?s"
  have "json_get_token (ws @ json_object_to_json_string_indent (JObject None xs) i @ r) = (TLbrace, ?t)"
    using get_token_spaces [of "ws @ str_indent i @ NL # str_indent i" "CHR ''{'' # ?t"] ws
    by (simp add: key_text_def)
  then have "parse_object (ws @ json_object_to_json_string_indent (JObject None xs) i @ r) =
      parse_loop (JObject None []) ?t"
    by (simp add: parse_object_eq json_object_new_object_def)
  also have "\<dots> = POk (JObject None (map reread xs)) ?s"
  proof (cases xs)
    case Nil
    then show ?thesis using parse_loop_end [OF member_end [of "NL # str_indent i"]] by simp
  next
    case (Cons x xs')
    let ?r = "object_text False xs' i @ NL # str_indent i @ CHR ''}'' # ?s"
    have "stops ?r" by (cases xs') simp_all
    moreover have "spaces [NL]" by simp
    ultimately have "parse_loop (JObject None []) ([NL] @ json_object_to_json_string_indent x (i + 1) @ ?r) =
        parse_next (JObject None ([] @ [reread x])) ?r"
      using assms Cons unfolding reads_member_def by (meson list.set_intros(1))
    then show ?thesis using Cons assms reads_members [of xs' "[reread x]" i ?s] by simp
  qed
  finally show "parse_object (ws @ json_object_to_json_string_indent (JObject None xs) i @ r) =
      POk (reread (JObject None xs)) ?s" by simp
qed

lemma json_reads: "(obj_ok x \<longrightarrow> reads_object x) \<and> (member_ok x \<longrightarrow> reads_member x)"
proof (induction x)
  case (JObject k xs)
  then show ?case using reads_outer by (auto simp del: reread.simps)
next
  case (JArray k xs)
  then show ?case using reads_array by (auto simp del: reread.simps)
qed (simp_all add: reads_string reads_int)

lemma parse_written:
  assumes "obj_ok x"
  shows "json_object_from_file (\<lambda>n. if n = f then Some (json_object_to_json_string x) else None) f = Some (reread x)"
proof -
  have "reads_object x" using json_reads [of x] assms by blast
  then have "parse_object ([] @ json_object_to_json_string_indent x 0 @ []) = POk (reread x) (str_indent 0 @ [])"
    unfolding reads_object_def using spaces_intro(1) by blast
  then show ?thesis
    by (simp add: json_object_from_file_def json_object_to_json_string_def parse_object_def json_fuel_def)
qed

text \<open>Objects without numbers are read as they were written.\<close>

fun no_ints :: "json_object \<Rightarrow> bool" where
  "no_ints (JInt k v) \<longleftrightarrow> False"
| "no_ints (JString k s) \<longleftrightarrow> True"
| "no_ints (JNull k) \<longleftrightarrow> True"
| "no_ints (JObject k xs) \<longleftrightarrow> (\<forall>x \<in> set xs. no_ints x)"
| "no_ints (JArray k xs) \<longleftrightarrow> (\<forall>x \<in> set xs. no_ints x)"

lemma reread_no_ints: "no_ints x \<Longrightarrow> reread x = x"
  by (induction x) (auto intro: map_idI)

text \<open>Of a number of d digits the reader keeps the last d - 1.\<close>

lemma show_nat_tl: "10 \<le> n \<Longrightarrow> \<exists>k d. show_nat n = digit_char d # tl (show_nat n) \<and> 0 < d \<and> d < 10 \<and>
    digits_val (tl (show_nat n)) = n - d * 10 ^ k \<and> d * 10 ^ k \<le> n \<and> n < (d + 1) * 10 ^ k"
proof (induction n rule: show_nat.induct)
  case (1 n)
  have s: "show_nat n = show_nat (n div 10) @ [digit_char (n mod 10)]"
    using 1(2) by (simp add: show_nat.simps [of n])
  have m: "n mod 10 < 10" by simp
  show ?case
  proof (cases "n div 10 < 10")
    case True
    then have "show_nat n = [digit_char (n div 10), digit_char (n mod 10)]"
      using s by (simp add: show_nat.simps [of "n div 10"])
    moreover have "n - n div 10 * 10 ^ 1 = n mod 10" by (simp add: minus_div_mult_eq_mod)
    moreover have "0 < n div 10" using 1(2) by simp
    moreover have "n < (n div 10 + 1) * 10 ^ 1" using m by (metis add.commute div_mult_mod_eq mult.commute mult_Suc nat_add_left_cancel_less plus_1_eq_Suc power_one_right)
    ultimately show ?thesis using True m
      by (intro exI [of _ 1] exI [of _ "n div 10"]) (simp add: digits_val_def)
  next
    case False
    then obtain k d where kd: "show_nat (n div 10) = digit_char d # tl (show_nat (n div 10))" "0 < d" "d < 10"
      "digits_val (tl (show_nat (n div 10))) = n div 10 - d * 10 ^ k" "d * 10 ^ k \<le> n div 10"
      "n div 10 < (d + 1) * 10 ^ k"
      using 1 by (auto simp: not_less)
    have t: "tl (show_nat n) = tl (show_nat (n div 10)) @ [digit_char (n mod 10)]"
      using s kd(1) by (metis list.sel(3) tl_append2 show_nat_nonempty)
    have "10 * (n div 10 - d * 10 ^ k) + n mod 10 = n - d * 10 ^ Suc k"
      using kd(5) by (simp add: diff_mult_distrib2)
    moreover have "d * 10 ^ Suc k \<le> n" using kd(5) by (simp add: less_eq_div_iff_mult_less_eq mult.assoc mult.commute mult.left_commute)
    moreover have "n < (d + 1) * 10 ^ Suc k" using kd(6) by (simp add: div_less_iff_less_mult mult.assoc mult.commute mult.left_commute)
    moreover have "show_nat n = digit_char d # tl (show_nat n)" using s t kd(1) by (metis append_Cons)
    ultimately show ?thesis using kd(2,3,4) m
      by (intro exI [of _ "Suc k"] exI [of _ d]) (simp add: t digits_val_snoc)
  qed
qed

lemma atoi_digits:
  assumes "\<forall>c \<in> set ds. isdigit c" and "digits_val ds < 2 ^ 31"
  shows "c_atoi ds = int (digits_val ds)"
proof -
  have "c_sign (dropWhile isspace ds) = (False, ds)"
  proof (cases ds)
    case (Cons c cs)
    then show ?thesis using assms(1) digit_not_sign [of c] by (simp add: c_sign_def)
  qed (simp add: c_sign_def)
  then have "c_strtol10 ds = int (digits_val ds)"
    using assms by (simp add: c_strtol10_def radix_run_digits radix_val_digits)
  with assms(2) show ?thesis
    by (simp add: c_atoi_def sint_sbintrunc' signed_take_bit_int_eq_self del: of_int_of_nat_eq)
qed

lemma reread_int_less:
  assumes "0 < v" and "v < 2 ^ 31"
  shows "c_atoi (tl (show_int v)) < v"
proof -
  obtain n where n: "v = int n" "0 < n" "n < 2 ^ 31" using assms by (cases v) auto
  have s: "show_int v = show_nat n" by (simp add: show_int_def n(1))
  have ds: "\<forall>c \<in> set (tl (show_nat n)). isdigit c" using show_nat_digits [of n] by (auto dest: list.set_sel(2) [rotated])
  have "digits_val (tl (show_nat n)) < n"
  proof (cases "n < 10")
    case True
    then show ?thesis using n(2) by (simp add: show_nat.simps [of n] digits_val_def)
  next
    case False
    then obtain k d where "0 < d" "digits_val (tl (show_nat n)) = n - d * 10 ^ k" "d * 10 ^ k \<le> n"
      using show_nat_tl [of n] by auto
    moreover from this(1) have "0 < d * 10 ^ k" by simp
    ultimately show ?thesis using n(2) by linarith
  qed
  then show ?thesis using atoi_digits [OF ds] n(3) unfolding s unfolding n(1) by simp
qed

text \<open>A backslash is written as it is and read as the start of an escape.\<close>

lemma backslash_lost:
  "json_get_string [] (str_escape [BACKSLASH, CHR ''n''] @ QUOTE # r) = (TString [NL], r)"
  by (simp add: char_escape_def unescape_def json_chars c_str_def)

end
