(* ===== verification/Fwts_Log_Json.thy ===== *)
theory Fwts_Log_Json
  imports Fwts_Json Fwts_Main
begin

text \<open>
  The json log of src/lib/src/fwts_log_json.c: every section is a json object with one array,
  entered into the array of the enclosing section when it begins and filled through a pointer
  on a stack while it is open.

  The objects are shared (the stack points into the tree), so they live in an explicit store:
  a cell per json_object struct, addressed by its position; cells are only added. The tree at
  an address is what json_object_to_json_string() sees. exit(), and the read before the stack
  where nothing is open, are None. The clock is an argument: the date and the time texts at a
  line. Freeing the tree when the log is closed is left out.

  The specification works on sequences: a stack of the names and contents of the open
  sections. The main lemma (json_log_refines) says that the text written at the end is that of
  the tree of sections, which takes the sharing to be right: no open section's array is part
  of a finished object.
\<close>

section \<open>The store\<close>

datatype jcell =
    CInt "cstr option" int
  | CString "cstr option" cstr
  | CObject "cstr option" "nat list"
  | CArray "cstr option" "nat list"

type_synonym jstore = "jcell list"

primrec cell_key :: "cstr \<Rightarrow> jcell \<Rightarrow> jcell" where
  "cell_key k (CInt _ v) = CInt (Some k) v"
| "cell_key k (CString _ s) = CString (Some k) s"
| "cell_key k (CObject _ vs) = CObject (Some k) vs"
| "cell_key k (CArray _ vs) = CArray (Some k) vs"

definition st_object_add :: "nat \<Rightarrow> cstr \<Rightarrow> nat \<Rightarrow> jstore \<Rightarrow> jstore" where
  "st_object_add obj key v st =
     (case st ! obj of
        CObject k vs \<Rightarrow> (st[v := cell_key key (st ! v)])[obj := CObject k (vs @ [v])]
      | _ \<Rightarrow> st)"

definition st_array_add :: "nat \<Rightarrow> nat \<Rightarrow> jstore \<Rightarrow> int \<times> jstore" where
  "st_array_add arr item st =
     (case st ! arr of CArray k vs \<Rightarrow> (0, st[arr := CArray k (vs @ [item])]) | _ \<Rightarrow> (-1, st))"

fun tree_of :: "nat \<Rightarrow> jstore \<Rightarrow> nat \<Rightarrow> json_object" where
  "tree_of 0 st a = JNull None"
| "tree_of (Suc n) st a =
     (case st ! a of
        CInt k v \<Rightarrow> JInt k v
      | CString k s \<Rightarrow> JString k s
      | CObject k vs \<Rightarrow> JObject k (map (tree_of n st) vs)
      | CArray k vs \<Rightarrow> JArray k (map (tree_of n st) vs))"

section \<open>The log\<close>

definition MAX_JSON_STACK :: nat where [simp]: "MAX_JSON_STACK = 64"

record json_log =
  jl_store :: jstore
  jl_stack :: "(nat \<times> nat) list"
  jl_index :: nat
  jl_line :: u32
  jl_out :: cstr

definition json_log_init :: json_log where
  "json_log_init = \<lparr>jl_store = [], jl_stack = replicate MAX_JSON_STACK (0, 0), jl_index = 0,
                    jl_line = 0, jl_out = []\<rparr>"

text \<open>A new object and its addition to another one under a key.\<close>

definition add_member :: "nat \<Rightarrow> cstr \<times> jcell \<Rightarrow> jstore \<Rightarrow> jstore" where
  "add_member header m st = st_object_add header (fst m) (length st) (st @ [snd m])"

definition print_members ::
    "u32 \<Rightarrow> cstr \<Rightarrow> cstr \<Rightarrow> u32 \<Rightarrow> u32 \<Rightarrow> cstr \<Rightarrow> cstr option \<Rightarrow> cstr \<Rightarrow> (cstr \<times> jcell) list" where
  "print_members line date time field level status label buffer =
     [(''line_num'', CInt None (sint line)),
      (''date'', CString None date),
      (''time'', CString None time),
      (''field_type'', CString None (fwts_log_field_to_str_full field)),
      (''level'', CString None (let str = fwts_log_level_to_str level in if str = '' '' then ''None'' else str)),
      (''status'', CString None (if status \<noteq> [] then status else ''None'')),
      (''failure_label'', CString None (case label of Some l \<Rightarrow> if l \<noteq> [] then l else ''None'' | None \<Rightarrow> ''None'')),
      (''log_text'', CString None buffer)]"

definition json_printed :: "log_globals \<Rightarrow> u32 \<Rightarrow> bool" where
  "json_printed g field \<longleftrightarrow>
     (field AND LOG_FIELD_MASK) AND log_filter g \<noteq> 0 \<and>
     field AND (LOG_NEWLINE OR LOG_SEPARATOR OR LOG_DEBUG) = 0"

definition fwts_log_print_json ::
    "log_globals \<Rightarrow> (u32 \<Rightarrow> cstr \<times> cstr) \<Rightarrow> u32 \<Rightarrow> u32 \<Rightarrow> cstr \<Rightarrow> cstr option \<Rightarrow> cstr \<Rightarrow> json_log \<Rightarrow> json_log option" where
  "fwts_log_print_json g clock field level status label buffer jl =
     (if jl_index jl = 0 then None
      else
        (let arr = snd (jl_stack jl ! (jl_index jl - 1)) in
         if \<not> json_printed g field then Some jl
         else
           (let header = length (jl_store jl);
                (date, time) = clock (jl_line jl);
                st = fold (add_member header)
                       (print_members (jl_line jl) date time field level status label buffer)
                       (jl_store jl @ [CObject None []]);
                (_, st) = st_array_add arr header st
            in Some (jl\<lparr>jl_store := st, jl_line := jl_line jl + 1\<rparr>))))"

definition fwts_log_section_begin_json :: "cstr \<Rightarrow> json_log \<Rightarrow> json_log option" where
  "fwts_log_section_begin_json name jl =
     (let json_obj = length (jl_store jl);
          json_arr = json_obj + 1;
          st = st_object_add json_obj name json_arr (jl_store jl @ [CObject None [], CArray None []]);
          (ret, st) = (if 0 < jl_index jl
                       then st_array_add (snd (jl_stack jl ! (jl_index jl - 1))) json_obj st else (0, st))
      in if ret \<noteq> 0 then None
         else if jl_index jl < MAX_JSON_STACK
         then Some (jl\<lparr>jl_store := st, jl_stack := (jl_stack jl)[jl_index jl := (json_obj, json_arr)],
                       jl_index := jl_index jl + 1\<rparr>)
         else None)"

definition fwts_log_section_end_json :: "json_log \<Rightarrow> json_log option" where
  "fwts_log_section_end_json jl =
     (if 0 < jl_index jl then Some (jl\<lparr>jl_index := jl_index jl - 1\<rparr>) else None)"

definition fwts_log_open_json :: "json_log \<Rightarrow> json_log option" where
  "fwts_log_open_json jl = fwts_log_section_begin_json ''fwts'' jl"

definition fwts_log_close_json :: "json_log \<Rightarrow> json_log option" where
  "fwts_log_close_json jl =
     (case fwts_log_section_end_json jl of
        None \<Rightarrow> None
      | Some jl \<Rightarrow>
          Some (jl\<lparr>jl_out := jl_out jl @
                    json_object_to_json_string (tree_of (length (jl_store jl)) (jl_store jl) (fst (jl_stack jl ! 0))) @ [NL],
                   jl_line := jl_line jl + 1\<rparr>))"

text \<open>fwts_log_json_ops: what each call of the log front end does.\<close>

definition json_event :: "log_globals \<Rightarrow> (u32 \<Rightarrow> cstr \<times> cstr) \<Rightarrow> log_event \<Rightarrow> json_log \<Rightarrow> json_log option" where
  "json_event g clock ev jl =
     (case ev of
        EvPrint field level status label prefix buffer \<Rightarrow>
          fwts_log_print_json g clock field level status label buffer jl
      | EvUnderline ch \<Rightarrow> Some jl
      | EvNewline \<Rightarrow> Some jl
      | EvBegin name \<Rightarrow> fwts_log_section_begin_json name jl
      | EvEnd \<Rightarrow> fwts_log_section_end_json jl
      | EvOpen \<Rightarrow> fwts_log_open_json jl
      | EvClose \<Rightarrow> fwts_log_close_json jl)"

fun json_events :: "log_globals \<Rightarrow> (u32 \<Rightarrow> cstr \<times> cstr) \<Rightarrow> log_event list \<Rightarrow> json_log \<Rightarrow> json_log option" where
  "json_events g clock [] jl = Some jl"
| "json_events g clock (ev # evs) jl =
     (case json_event g clock ev jl of None \<Rightarrow> None | Some jl \<Rightarrow> json_events g clock evs jl)"

section \<open>Specification: a stack of open sections\<close>

type_synonym frames = "(cstr \<times> json_object list) list"

definition print_object ::
    "u32 \<Rightarrow> cstr \<Rightarrow> cstr \<Rightarrow> u32 \<Rightarrow> u32 \<Rightarrow> cstr \<Rightarrow> cstr option \<Rightarrow> cstr \<Rightarrow> json_object" where
  "print_object line date time field level status label buffer =
     JObject None (map (\<lambda>m. case snd m of CInt _ v \<Rightarrow> JInt (Some (fst m)) v | CString _ s \<Rightarrow> JString (Some (fst m)) s
                                    | _ \<Rightarrow> JNull None)
       (print_members line date time field level status label buffer))"

definition section_object :: "cstr \<Rightarrow> json_object list \<Rightarrow> json_object" where
  "section_object name xs = JObject None [JArray (Some name) xs]"

text \<open>Enter an object into the innermost section.\<close>

definition enter :: "json_object \<Rightarrow> frames \<Rightarrow> frames" where
  "enter x fs = (case fs of [] \<Rightarrow> [] | (n, xs) # fs' \<Rightarrow> (n, xs @ [x]) # fs')"

fun spec_event :: "log_globals \<Rightarrow> (u32 \<Rightarrow> cstr \<times> cstr) \<Rightarrow> log_event \<Rightarrow> u32 \<times> frames \<Rightarrow> u32 \<times> frames" where
  "spec_event g clock (EvPrint field level status label prefix buffer) (line, fs) =
     (if json_printed g field
      then (line + 1, enter (print_object line (fst (clock line)) (snd (clock line)) field level status label buffer) fs)
      else (line, fs))"
| "spec_event g clock (EvBegin name) (line, fs) = (line, (name, []) # fs)"
| "spec_event g clock EvEnd (line, fs) =
     (line, case fs of (n, xs) # fs' \<Rightarrow> enter (section_object n xs) fs' | [] \<Rightarrow> [])"
| "spec_event g clock _ (line, fs) = (line, fs)"

definition spec_events :: "log_globals \<Rightarrow> (u32 \<Rightarrow> cstr \<times> cstr) \<Rightarrow> log_event list \<Rightarrow> u32 \<times> frames \<Rightarrow> u32 \<times> frames" where
  "spec_events g clock evs s = fold (spec_event g clock) evs s"

section \<open>Trees in the store\<close>

text \<open>
  \<open>rep st open a t\<close>: the cells from a on form the tree t, none of them is among the open ones,
  and every cell comes before its members.
\<close>

inductive rep :: "jstore \<Rightarrow> nat set \<Rightarrow> nat \<Rightarrow> json_object \<Rightarrow> bool" for st :: jstore and opn :: "nat set" where
  rep_int: "a < length st \<Longrightarrow> a \<notin> opn \<Longrightarrow> st ! a = CInt k v \<Longrightarrow> rep st opn a (JInt k v)"
| rep_string: "a < length st \<Longrightarrow> a \<notin> opn \<Longrightarrow> st ! a = CString k s \<Longrightarrow> rep st opn a (JString k s)"
| rep_object: "a < length st \<Longrightarrow> a \<notin> opn \<Longrightarrow> st ! a = CObject k cs \<Longrightarrow>
     list_all2 (\<lambda>c x. a < c \<and> rep st opn c x) cs xs \<Longrightarrow> rep st opn a (JObject k xs)"
| rep_array: "a < length st \<Longrightarrow> a \<notin> opn \<Longrightarrow> st ! a = CArray k cs \<Longrightarrow>
     list_all2 (\<lambda>c x. a < c \<and> rep st opn c x) cs xs \<Longrightarrow> rep st opn a (JArray k xs)"
monos list_all2_mono

lemma rep_frame:
  assumes "rep st opn a t" and "\<forall>b. b < length st \<longrightarrow> b \<notin> opn \<longrightarrow> st' ! b = st ! b"
    and "length st \<le> length st'" and "\<forall>b < length st. b \<in> opn' \<longrightarrow> b \<in> opn"
  shows "rep st' opn' a t"
  using assms(1)
proof induction
  case (rep_object a k cs xs)
  then have "list_all2 (\<lambda>c x. a < c \<and> rep st' opn' c x) cs xs" by (auto elim: list_all2_mono)
  with rep_object assms show ?case by (auto intro: rep.rep_object)
next
  case (rep_array a k cs xs)
  then have "list_all2 (\<lambda>c x. a < c \<and> rep st' opn' c x) cs xs" by (auto elim: list_all2_mono)
  with rep_array assms show ?case by (auto intro: rep.rep_array)
qed (use assms in \<open>auto intro: rep.intros\<close>)

lemma rep_less: "rep st opn a t \<Longrightarrow> a < length st"
  by (auto elim: rep.cases)

lemma map_tree:
  "list_all2 (\<lambda>c x. a < c \<and> rep st opn c x \<and> (\<forall>n. length st - c \<le> n \<longrightarrow> tree_of n st c = x)) cs xs \<Longrightarrow>
   a < length st \<Longrightarrow> length st - a \<le> Suc m \<Longrightarrow> map (tree_of m st) cs = xs"
proof (induction cs xs rule: list_all2_induct)
  case (Cons c cs x xs)
  then have "length st - c \<le> m" by linarith
  with Cons show ?case by simp
qed simp

lemma tree_of_rep: "rep st opn a t \<Longrightarrow> length st - a \<le> n \<Longrightarrow> tree_of n st a = t"
proof (induction arbitrary: n rule: rep.induct)
  case (rep_object a k cs xs)
  then obtain m where "n = Suc m" by (cases n) auto
  moreover have "list_all2 (\<lambda>c x. a < c \<and> rep st opn c x \<and> (\<forall>n. length st - c \<le> n \<longrightarrow> tree_of n st c = x)) cs xs"
    using rep_object.IH by (auto elim: list_all2_mono)
  ultimately show ?case using rep_object map_tree [of a st opn cs xs m] by simp
next
  case (rep_array a k cs xs)
  then obtain m where "n = Suc m" by (cases n) auto
  moreover have "list_all2 (\<lambda>c x. a < c \<and> rep st opn c x \<and> (\<forall>n. length st - c \<le> n \<longrightarrow> tree_of n st c = x)) cs xs"
    using rep_array.IH by (auto elim: list_all2_mono)
  ultimately show ?case using rep_array map_tree [of a st opn cs xs m] by simp
qed (case_tac n; simp)+

section \<open>The simulation\<close>

text \<open>
  The open sections, innermost first: their cells, their names and contents, and what the
  array has beyond the contents (the section inside that is still open).
\<close>

fun rel :: "jstore \<Rightarrow> nat set \<Rightarrow> (nat \<times> nat) list \<Rightarrow> frames \<Rightarrow> nat list \<Rightarrow> bool" where
  "rel st opn [] fs ch \<longleftrightarrow> fs = []"
| "rel st opn (ol # sk) [] ch \<longleftrightarrow> False"
| "rel st opn (ol # sk) (f # fs) ch \<longleftrightarrow>
     fst ol < snd ol \<and> snd ol < length st \<and> fst ol \<notin> opn \<and> st ! fst ol = CObject None [snd ol] \<and>
     (\<exists>cs. st ! snd ol = CArray (Some (fst f)) (cs @ ch) \<and>
           list_all2 (\<lambda>c x. snd ol < c \<and> rep st opn c x) cs (snd f)) \<and>
     (\<forall>c \<in> set ch. snd ol < c) \<and> rel st opn sk fs [fst ol]"

definition open_stack :: "json_log \<Rightarrow> (nat \<times> nat) list" where
  "open_stack jl = rev (take (jl_index jl) (jl_stack jl))"

definition sim :: "json_log \<Rightarrow> u32 \<times> frames \<Rightarrow> bool" where
  "sim jl s \<longleftrightarrow>
     jl_line jl = fst s \<and> jl_out jl = [] \<and> length (jl_stack jl) = MAX_JSON_STACK \<and> jl_index jl \<le> MAX_JSON_STACK \<and>
     distinct (map snd (open_stack jl)) \<and>
     rel (jl_store jl) (snd ` set (open_stack jl)) (open_stack jl) (snd s) []"

lemma rel_keep:
  assumes "rel st opn sk fs ch"
    and "\<forall>b < length st. b \<notin> opn \<or> b \<in> snd ` set sk \<longrightarrow> st' ! b = st ! b"
    and "length st \<le> length st'" and "\<forall>b < length st. b \<in> opn' \<longrightarrow> b \<in> opn"
  shows "rel st' opn' sk fs ch"
  using assms
proof (induction st opn sk fs ch rule: rel.induct)
  case (3 st opn ol sk f fs ch)
  then obtain cs where cs: "st ! snd ol = CArray (Some (fst f)) (cs @ ch)"
    "list_all2 (\<lambda>c x. snd ol < c \<and> rep st opn c x) cs (snd f)" by auto
  have frame: "rep st' opn' a t" if "rep st opn a t" for a t
    using that 3(3-5) by (intro rep_frame [OF that]) auto
  have "list_all2 (\<lambda>c x. snd ol < c \<and> rep st' opn' c x) cs (snd f)"
    using cs(2) by (rule list_all2_mono) (use frame in blast)
  moreover have "rel st' opn' sk fs [fst ol]" using 3 by auto
  ultimately show ?case using 3(2-5) cs by auto
qed simp_all

lemma rel_length: "rel st opn sk fs ch \<Longrightarrow> length fs = length sk"
  by (induction st opn sk fs ch rule: rel.induct) auto

lemma open_stack_Suc:
  "jl_index jl = Suc i \<Longrightarrow> jl_index jl \<le> length (jl_stack jl) \<Longrightarrow>
   open_stack jl = jl_stack jl ! i # rev (take i (jl_stack jl))"
  by (simp add: open_stack_def take_Suc_conv_app_nth)

lemma rel_nonempty: "rel st opn (ol # sk) fs ch \<Longrightarrow> \<exists>f fs'. fs = f # fs'"
  by (cases fs) auto

lemma add_members:
  "fold (add_member (length pre)) ms (pre @ CObject None vs # post) =
     pre @ CObject None (vs @ [length pre + 1 + length post ..< length pre + 1 + length post + length ms]) #
     post @ map (\<lambda>m. cell_key (fst m) (snd m)) ms"
proof (induction ms arbitrary: vs post)
  case (Cons m ms)
  let ?v = "length pre + 1 + length post"
  have "add_member (length pre) m (pre @ CObject None vs # post) =
      pre @ CObject None (vs @ [?v]) # post @ [cell_key (fst m) (snd m)]"
    by (simp add: add_member_def st_object_add_def nth_append list_update_append)
  then show ?case using Cons [of "vs @ [?v]" "post @ [cell_key (fst m) (snd m)]"]
    by (simp add: upt_rec)
qed simp

lemma print_leaves:
  "\<forall>m \<in> set (print_members line date time field level status label buffer).
     (\<exists>v. snd m = CInt None v) \<or> (\<exists>s. snd m = CString None s)"
  by (simp add: print_members_def)

lemma rep_members:
  assumes "\<forall>m \<in> set ms. (\<exists>v. snd m = CInt None v) \<or> (\<exists>s. snd m = CString None s)"
    and "\<forall>i < length ms. h + 1 + i < length st \<and> h + 1 + i \<notin> opn \<and>
           st ! (h + 1 + i) = cell_key (fst (ms ! i)) (snd (ms ! i))"
    and "st ! h = CObject None [h + 1 ..< h + 1 + length ms]" and "h < length st" and "h \<notin> opn"
  shows "rep st opn h (JObject None (map (\<lambda>m. case snd m of CInt _ v \<Rightarrow> JInt (Some (fst m)) v
             | CString _ s \<Rightarrow> JString (Some (fst m)) s | _ \<Rightarrow> JNull None) ms))"
proof (rule rep_object [OF assms(4,5,3)], rule list_all2_all_nthI)
  fix i assume "i < length [h + 1 ..< h + 1 + length ms]"
  then have i: "i < length ms" by (simp del: upt_Suc)
  then have "(\<exists>v. snd (ms ! i) = CInt None v) \<or> (\<exists>s. snd (ms ! i) = CString None s)"
    using assms(1) nth_mem by blast
  with i assms(2) show "h < [h + 1 ..< h + 1 + length ms] ! i \<and> rep st opn ([h + 1 ..< h + 1 + length ms] ! i)
      (map (\<lambda>m. case snd m of CInt _ v \<Rightarrow> JInt (Some (fst m)) v
             | CString _ s \<Rightarrow> JString (Some (fst m)) s | _ \<Rightarrow> JNull None) ms ! i)"
    by (auto intro!: rep_int rep_string simp del: upt_Suc)
qed (simp del: upt_Suc)

lemma rel_bounds: "rel st opn sk fs ch \<Longrightarrow> \<forall>ol \<in> set sk. fst ol < length st \<and> snd ol < length st"
  by (induction st opn sk fs ch rule: rel.induct) auto

text \<open>Entering a finished object, at address h after all older cells, into the innermost array.\<close>

lemma rel_enter:
  assumes r: "rel st opn ((oa, l) # sk) ((n, xs) # fs) []" and opn: "opn = insert l (snd ` set sk)"
    and d: "l \<notin> snd ` set sk"
    and st': "st' = st1[l := CArray (Some n) (cs @ [h])]" and cs: "st ! l = CArray (Some n) cs"
    and st1: "\<forall>b < length st. st1 ! b = st ! b" "length st \<le> length st1"
    and x: "rep st' opn h x" and h: "l < h"
  shows "rel st' opn ((oa, l) # sk) ((n, xs @ [x]) # fs) []"
proof -
  from r have o: "oa < l" "l < length st" "oa \<notin> opn" "st ! oa = CObject None [l]"
    and l2: "list_all2 (\<lambda>c x. l < c \<and> rep st opn c x) cs xs" and rest: "rel st opn sk fs [oa]"
    using cs by auto
  have same: "st' ! b = st ! b" if "b < length st" "b \<noteq> l" for b using that st1 by (simp add: st')
  have frame: "rep st' opn a t" if "rep st opn a t" for a t
    using st1(2) opn by (intro rep_frame [OF that]) (auto simp: same, simp add: st')
  have "list_all2 (\<lambda>c x. l < c \<and> rep st' opn c x) (cs @ [h]) (xs @ [x])"
    using l2 x h by (auto intro!: list_all2_appendI elim: list_all2_mono simp: frame)
  moreover have "\<forall>b < length st. b \<notin> opn \<or> b \<in> snd ` set sk \<longrightarrow> st' ! b = st ! b"
    using same opn d by blast
  then have "rel st' opn sk fs [oa]"
    by (rule rel_keep [OF rest]) (use st1(2) in \<open>simp_all add: st'\<close>)
  moreover have "st' ! l = CArray (Some n) (cs @ [h])" using o(2) st1(2) by (simp add: st')
  ultimately show ?thesis using o same [of oa] st1(2) by (simp add: st')
qed

lemma open_top:
  assumes "sim jl (line, fs)" and "0 < jl_index jl"
  obtains oa l sk n xs fs' where "open_stack jl = (oa, l) # sk" "fs = (n, xs) # fs'"
    "jl_stack jl ! (jl_index jl - 1) = (oa, l)" "open_stack (jl\<lparr>jl_index := jl_index jl - 1\<rparr>) = sk"
proof -
  obtain i where i: "jl_index jl = Suc i" using assms(2) gr0_implies_Suc by blast
  have len: "jl_index jl \<le> length (jl_stack jl)" using assms(1) by (simp add: sim_def)
  obtain oa l where ol: "jl_stack jl ! i = (oa, l)" by fastforce
  have os: "open_stack jl = (oa, l) # rev (take i (jl_stack jl))"
    using open_stack_Suc [OF i len] ol by simp
  have "rel (jl_store jl) (snd ` set (open_stack jl)) (open_stack jl) fs []" using assms(1) by (simp add: sim_def)
  then obtain f fs' where "fs = f # fs'" using rel_nonempty unfolding os by blast
  then show ?thesis using that [of oa l "rev (take i (jl_stack jl))" "fst f" "snd f" fs'] os i ol
    by (simp add: open_stack_def)
qed

lemma sim_print:
  assumes s: "sim jl (line, fs)" and i: "0 < jl_index jl"
  shows "\<exists>jl'. fwts_log_print_json g clock field level status label buffer jl = Some jl' \<and>
           jl_index jl' = jl_index jl \<and>
           sim jl' (spec_event g clock (EvPrint field level status label prefix buffer) (line, fs))"
proof (cases "json_printed g field")
  case False
  then show ?thesis using s i by (simp add: fwts_log_print_json_def Let_def)
next
  case True
  obtain oa l sk n xs fs' where os: "open_stack jl = (oa, l) # sk" and fs: "fs = (n, xs) # fs'"
    and top: "jl_stack jl ! (jl_index jl - 1) = (oa, l)" using open_top [OF s i] by metis
  let ?st = "jl_store jl" and ?h = "length (jl_store jl)"
  let ?ms = "print_members line (fst (clock line)) (snd (clock line)) field level status label buffer"
  let ?cells = "map (\<lambda>m. cell_key (fst m) (snd m)) ?ms"
  let ?st1 = "?st @ CObject None [?h + 1 ..< ?h + 1 + length ?ms] # ?cells"
  let ?x = "print_object line (fst (clock line)) (snd (clock line)) field level status label buffer"
  have line: "jl_line jl = line" and d: "distinct (map snd ((oa, l) # sk))"
    and r: "rel ?st (insert l (snd ` set sk)) ((oa, l) # sk) ((n, xs) # fs') []"
    using s by (simp_all add: sim_def os fs)
  have below: "\<forall>b \<in> insert l (snd ` set sk). b < ?h" using rel_bounds [OF r] by auto
  obtain cs where cs: "?st ! l = CArray (Some n) cs" using r by auto
  let ?st2 = "?st1[l := CArray (Some n) (cs @ [?h])]"
  have "rep ?st2 (insert l (snd ` set sk)) ?h ?x"
    unfolding print_object_def
    by (rule rep_members [OF print_leaves]) (use below in \<open>auto simp: nth_append simp del: upt_Suc\<close>)
  from rel_enter [OF r refl _ refl cs _ _ this]
  have "rel ?st2 (insert l (snd ` set sk)) ((oa, l) # sk) ((n, xs @ [?x]) # fs') []"
    using d below by (auto simp: nth_append simp del: upt_Suc)
  moreover have "fold (add_member ?h) ?ms (?st @ [CObject None []]) = ?st1"
    using add_members [of ?st ?ms "[]" "[]"] by (simp del: upt_Suc)
  moreover have "st_array_add l ?h ?st1 = (0, ?st2)"
    using below cs by (simp add: st_array_add_def nth_append del: upt_Suc)
  ultimately show ?thesis
    using s i True top
    by (simp add: fwts_log_print_json_def Let_def line sim_def open_stack_def [of "jl\<lparr>jl_store := ?st2, jl_line := line + 1\<rparr>"]
        enter_def fs case_prod_unfold del: upt_Suc) (use os in \<open>simp add: open_stack_def del: upt_Suc\<close>)
qed

lemma rel_open:
  assumes r: "rel st opn ((oa, l) # sk) ((n, xs) # fs) []" and opn: "opn = insert l (snd ` set sk)"
    and d: "l \<notin> snd ` set sk"
    and st': "st' = st1[l := CArray (Some n) (cs @ [h])]" and cs: "st ! l = CArray (Some n) cs"
    and st1: "\<forall>b < length st. st1 ! b = st ! b" "length st \<le> length st1"
    and opn': "\<forall>b < length st. b \<in> opn' \<longrightarrow> b \<in> opn" and h: "l < h"
  shows "rel st' opn' ((oa, l) # sk) ((n, xs) # fs) [h]"
proof -
  from r have o: "oa < l" "l < length st" "oa \<notin> opn" "st ! oa = CObject None [l]"
    and l2: "list_all2 (\<lambda>c x. l < c \<and> rep st opn c x) cs xs" and rest: "rel st opn sk fs [oa]"
    using cs by auto
  have same: "st' ! b = st ! b" if "b < length st" "b \<noteq> l" for b using that st1 by (simp add: st')
  have len: "length st \<le> length st'" using st1(2) by (simp add: st')
  have frame: "rep st' opn' a t" if "rep st opn a t" for a t
    using same opn by (intro rep_frame [OF that _ len opn']) auto
  have "list_all2 (\<lambda>c x. l < c \<and> rep st' opn' c x) cs xs" using l2 by (auto elim: list_all2_mono simp: frame)
  moreover have "\<forall>b < length st. b \<notin> opn \<or> b \<in> snd ` set sk \<longrightarrow> st' ! b = st ! b"
    using same opn d by blast
  then have "rel st' opn' sk fs [oa]" by (rule rel_keep [OF rest _ len opn'])
  moreover have "st' ! l = CArray (Some n) (cs @ [h])" using o(2) st1(2) by (simp add: st')
  moreover have "oa \<notin> opn'" using o opn' by auto
  ultimately show ?thesis using o same [of oa] h len by simp
qed

lemma sim_begin:
  assumes s: "sim jl (line, fs)" and i: "jl_index jl < MAX_JSON_STACK"
  shows "\<exists>jl'. fwts_log_section_begin_json name jl = Some jl' \<and> jl_index jl' = jl_index jl + 1 \<and>
           sim jl' (line, (name, []) # fs)"
proof -
  let ?st = "jl_store jl" and ?h = "length (jl_store jl)" and ?sk = "open_stack jl"
  let ?st1 = "?st @ [CObject None [?h + 1], CArray (Some name) []]"
  let ?opn' = "insert (?h + 1) (snd ` set ?sk)"
  have d: "distinct (map snd ?sk)" and r: "rel ?st (snd ` set ?sk) ?sk fs []"
    and len: "jl_index jl < length (jl_stack jl)"
    using s i by (simp_all add: sim_def)
  have below: "\<forall>b \<in> snd ` set ?sk. b < ?h" using rel_bounds [OF r] by auto
  have st1: "st_object_add ?h name (?h + 1) (?st @ [CObject None [], CArray None []]) = ?st1"
    by (simp add: st_object_add_def nth_append list_update_append)
  have os: "open_stack (jl\<lparr>jl_store := st, jl_stack := (jl_stack jl)[jl_index jl := x], jl_index := jl_index jl + 1\<rparr>) =
      x # ?sk" for st x
    using len by (simp add: open_stack_def take_Suc_conv_app_nth)
  have new: "sim (jl\<lparr>jl_store := st2, jl_stack := (jl_stack jl)[jl_index jl := (?h, ?h + 1)],
                     jl_index := jl_index jl + 1\<rparr>) (line, (name, []) # fs)"
    if r2: "rel st2 ?opn' ?sk fs [?h]" and st2: "st2 ! ?h = CObject None [?h + 1]"
      "st2 ! (?h + 1) = CArray (Some name) []" "length st2 = ?h + 2" for st2
  proof -
    have "?h + 1 \<notin> snd ` set ?sk" and "?h \<notin> ?opn'" using below by fastforce+
    then show ?thesis using s i d r2 st2 os by (simp add: sim_def)
  qed
  show ?thesis
  proof (cases "jl_index jl")
    case 0
    then have "?sk = []" and "fs = []" using r by (simp_all add: open_stack_def)
    then have "rel ?st1 ?opn' ?sk fs [?h]" by simp
    from new [OF this] 0 i st1 show ?thesis
      by (simp add: fwts_log_section_begin_json_def Let_def nth_append)
  next
    case (Suc k)
    obtain oa l sk n xs fs' where sk: "?sk = (oa, l) # sk" and fs: "fs = (n, xs) # fs'"
      and top: "jl_stack jl ! (jl_index jl - 1) = (oa, l)" using open_top [OF s] Suc by (metis zero_less_Suc)
    obtain cs where cs: "?st ! l = CArray (Some n) cs" using r sk fs by auto
    have l: "l < ?h" using below sk by simp
    let ?st2 = "?st1[l := CArray (Some n) (cs @ [?h])]"
    have r': "rel ?st (insert l (snd ` set sk)) ((oa, l) # sk) ((n, xs) # fs') []" using r by (simp add: sk fs)
    have "rel ?st2 ?opn' ?sk fs [?h]"
      unfolding sk fs
      by (rule rel_open [OF r' refl _ refl cs]) (use d sk l in \<open>auto simp: nth_append\<close>)
    moreover have "st_array_add l ?h ?st1 = (0, ?st2)" using cs l by (simp add: st_array_add_def nth_append)
    ultimately show ?thesis using new [of ?st2] st1 top Suc i l
      by (simp add: fwts_log_section_begin_json_def Let_def nth_append nth_list_update)
  qed
qed

lemma section_rep:
  assumes "rel st opn ((oa, l) # sk) ((n, xs) # fs) []" and "\<forall>b. b \<in> opn' \<longrightarrow> b \<in> opn" and "l \<notin> opn'"
  shows "rep st opn' oa (section_object n xs)"
proof -
  obtain cs where cs: "st ! l = CArray (Some n) cs" "list_all2 (\<lambda>c x. l < c \<and> rep st opn c x) cs xs"
    and o: "oa < l" "l < length st" "oa \<notin> opn" "st ! oa = CObject None [l]" using assms(1) by auto
  have "list_all2 (\<lambda>c x. l < c \<and> rep st opn' c x) cs xs"
    using cs(2) by (rule list_all2_mono) (use assms(2) rep_frame [of st opn _ _ st opn'] in auto)
  then have "rep st opn' l (JArray (Some n) xs)" using cs(1) o assms(3) by (intro rep_array)
  then show ?thesis using o assms(2) by (auto simp: section_object_def intro!: rep_object)
qed

lemma sim_end:
  assumes s: "sim jl (line, fs)" and i: "1 < jl_index jl"
  shows "\<exists>jl'. fwts_log_section_end_json jl = Some jl' \<and> jl_index jl' = jl_index jl - 1 \<and>
           sim jl' (spec_event g clock EvEnd (line, fs))"
proof -
  have i0: "0 < jl_index jl" using i by simp
  let ?jl' = "jl\<lparr>jl_index := jl_index jl - 1\<rparr>"
  obtain oa l sk n xs fs' where sk: "open_stack jl = (oa, l) # sk" and fs: "fs = (n, xs) # fs'"
    and os: "open_stack ?jl' = sk" using open_top [OF s i0] by metis
  have "length sk = jl_index jl - 1" using s i os by (auto simp: open_stack_def sim_def)
  then obtain ob m sk' where sk': "sk = (ob, m) # sk'" using i by (cases sk) auto
  have d: "distinct (map snd ((oa, l) # sk))"
    and r: "rel (jl_store jl) (insert l (snd ` set sk)) ((oa, l) # sk) ((n, xs) # fs') []"
    using s by (simp_all add: sim_def sk fs)
  then have r2: "rel (jl_store jl) (insert l (snd ` set sk)) sk fs' [oa]" by simp
  then obtain n2 ys fs2 where fs': "fs' = (n2, ys) # fs2" using rel_nonempty sk' by (metis prod.collapse)
  have x: "rep (jl_store jl) (snd ` set sk) oa (section_object n xs)"
    using section_rep [OF r, of "snd ` set sk"] d by auto
  have "rel (jl_store jl) (snd ` set sk) sk fs' [oa]" by (rule rel_keep [OF r2]) auto
  then have "rel (jl_store jl) (snd ` set sk) sk ((n2, ys @ [section_object n xs]) # fs2) []"
    using x unfolding sk' fs' by (auto intro: list_all2_appendI)
  then show ?thesis using s i i0 os d
    by (auto simp: fwts_log_section_end_json_def sim_def fs fs' enter_def)
qed

section \<open>A whole log\<close>

lemma sim_event:
  assumes "sim jl s" and "jl_index jl = Suc d" and "\<not> opens_closes ev" and "sec_run 63 d [ev] = Some d'"
  shows "\<exists>jl'. json_event g clock ev jl = Some jl' \<and> jl_index jl' = Suc d' \<and> sim jl' (spec_event g clock ev s)"
proof (cases ev)
  case (EvPrint field level status label prefix buffer)
  then show ?thesis
    using sim_print [of jl "fst s" "snd s"] assms by (simp add: json_event_def)
next
  case (EvBegin name)
  with assms(4) have "d < 63" "d' = Suc d" by (simp_all split: if_splits)
  then show ?thesis
    using sim_begin [of jl "fst s" "snd s" name] assms EvBegin by (cases s) (simp add: json_event_def)
next
  case EvEnd
  with assms(4) have "d = Suc d'" by (simp split: nat.splits)
  then show ?thesis
    using sim_end [of jl "fst s" "snd s" g clock] assms EvEnd by (simp add: json_event_def)
qed (use assms in \<open>simp_all add: json_event_def opens_closes_def, (cases s; simp)+\<close>)

lemma sim_events:
  assumes "sim jl s" and "jl_index jl = Suc d" and "\<forall>ev \<in> set evs. \<not> opens_closes ev"
    and "sec_run 63 d evs = Some d'"
  shows "\<exists>jl'. json_events g clock evs jl = Some jl' \<and> jl_index jl' = Suc d' \<and>
           sim jl' (spec_events g clock evs s)"
  using assms
proof (induction evs arbitrary: jl s d)
  case Nil
  then show ?case by (simp add: spec_events_def)
next
  case (Cons ev evs)
  have "sec_run 63 d ([ev] @ evs) = Some d'" using Cons.prems(4) by simp
  then obtain d1 where d1: "sec_run 63 d [ev] = Some d1" "sec_run 63 d1 evs = Some d'"
    unfolding sec_run_append by (auto split: option.splits)
  obtain jl1 where j1: "json_event g clock ev jl = Some jl1" "jl_index jl1 = Suc d1"
    "sim jl1 (spec_event g clock ev s)"
    using sim_event [OF Cons.prems(1,2) _ d1(1), of g clock] Cons.prems(3) by (meson list.set_intros(1))
  from Cons.IH [OF j1(3,2) _ d1(2)] Cons.prems(3) j1(1) show ?case by (simp add: spec_events_def)
qed

text \<open>The bottom section keeps its name.\<close>

lemma spec_bottom:
  "sec_run lim d evs = Some d' \<Longrightarrow> length fs = d \<Longrightarrow>
   \<exists>line' fs' xs'. spec_events g clock evs (line, fs @ [(n, xs)]) = (line', fs' @ [(n, xs')]) \<and> length fs' = d'"
proof (induction evs arbitrary: d line fs xs)
  case (Cons ev evs)
  have en: "\<exists>fs' xs'. enter x (fs @ [(n, xs)]) = fs' @ [(n, xs')] \<and> length fs' = length fs" for x fs xs
    by (cases fs) (auto simp: enter_def split: prod.split)
  obtain d1 where d1: "sec_run lim d [ev] = Some d1" "sec_run lim d1 evs = Some d'"
    using Cons.prems(1) sec_run_append [of lim d "[ev]" evs] by (auto split: option.splits)
  have "\<exists>line1 fs1 xs1. spec_event g clock ev (line, fs @ [(n, xs)]) = (line1, fs1 @ [(n, xs1)]) \<and> length fs1 = d1"
  proof (cases ev)
    case (EvPrint field level status label prefix buffer)
    then show ?thesis
      using d1(1) Cons.prems(2) en [of _ fs xs] by (cases "json_printed g field") auto
  next
    case (EvBegin name)
    then show ?thesis using d1(1) Cons.prems(2)
      by (intro exI [of _ line] exI [of _ "(name, []) # fs"] exI [of _ xs]) (auto split: if_splits)
  next
    case EvEnd
    then obtain f fs0 where fs: "fs = f # fs0" "d = Suc d1" using d1(1) Cons.prems(2) by (cases fs) (auto split: nat.splits)
    obtain fs1 xs1 where "enter (section_object (fst f) (snd f)) (fs0 @ [(n, xs)]) = fs1 @ [(n, xs1)]"
      "length fs1 = length fs0" using en by blast
    then show ?thesis using EvEnd fs Cons.prems(2) by (cases f) simp
  qed (use d1(1) Cons.prems(2) in auto)
  then obtain line1 fs1 xs1 where "spec_event g clock ev (line, fs @ [(n, xs)]) = (line1, fs1 @ [(n, xs1)])"
    "length fs1 = d1" by blast
  with Cons.IH [OF d1(2), of fs1 line1 xs1] show ?case by (simp add: spec_events_def)
qed (simp add: spec_events_def)

text \<open>What the sections of a balanced log come to.\<close>

definition log_tree :: "log_globals \<Rightarrow> (u32 \<Rightarrow> cstr \<times> cstr) \<Rightarrow> log_event list \<Rightarrow> json_object" where
  "log_tree g clock evs =
     (case snd (spec_events g clock evs (0, [(''fwts'', [])])) of
        (n, xs) # _ \<Rightarrow> section_object n xs | [] \<Rightarrow> JNull None)"

lemma json_log_refines:
  assumes "\<forall>ev \<in> set evs. \<not> opens_closes ev" and "sec_run 63 0 evs = Some 0"
  shows "\<exists>jl. json_events g clock (EvOpen # evs @ [EvClose]) json_log_init = Some jl \<and>
           jl_out jl = json_object_to_json_string (log_tree g clock evs) @ [NL]"
proof -
  have "sim json_log_init (0, [])" by (simp add: sim_def json_log_init_def open_stack_def)
  from sim_begin [OF this, of "''fwts''"] obtain j1 where j1:
    "fwts_log_section_begin_json ''fwts'' json_log_init = Some j1" "jl_index j1 = Suc 0" "sim j1 (0, [(''fwts'', [])])"
    by (auto simp: json_log_init_def)
  from sim_events [OF j1(3,2) assms] obtain j2 where j2:
    "json_events g clock evs j1 = Some j2" "jl_index j2 = Suc 0" "sim j2 (spec_events g clock evs (0, [(''fwts'', [])]))"
    by blast
  obtain line fs' xs where sp: "spec_events g clock evs (0, [] @ [(''fwts'', [])]) = (line, fs' @ [(''fwts'', xs)])"
    and "length fs' = 0" using spec_bottom [OF assms(2), of "[]"] by (metis list.size(3))
  then have fr: "spec_events g clock evs (0, [(''fwts'', [])]) = (line, [(''fwts'', xs)])" by simp
  obtain oa l sk n xs' fs2 where os: "open_stack j2 = (oa, l) # sk" and f: "[(''fwts'', xs)] = (n, xs') # fs2"
    and top: "jl_stack j2 ! (jl_index j2 - 1) = (oa, l)"
    using open_top [OF j2(3) [unfolded fr]] j2(2) by (metis zero_less_Suc)
  have "length (open_stack j2) \<le> 1" using j2(2) by (simp add: open_stack_def)
  then have sk: "sk = []" using os by simp
  have r: "rel (jl_store j2) {l} [(oa, l)] [(''fwts'', xs)] []" using j2(3) os f by (simp add: sim_def fr sk)
  have "rep (jl_store j2) {} oa (section_object ''fwts'' xs)" by (rule section_rep [OF r]) simp_all
  then have "tree_of (length (jl_store j2)) (jl_store j2) oa = section_object ''fwts'' xs"
    by (rule tree_of_rep) simp
  moreover have "jl_out j2 = []" using j2(3) by (simp add: sim_def)
  ultimately have "\<exists>jl. fwts_log_close_json j2 = Some jl \<and>
      jl_out jl = json_object_to_json_string (section_object ''fwts'' xs) @ [NL]"
    using top j2(2) by (simp add: fwts_log_close_json_def fwts_log_section_end_json_def)
  moreover have "json_events g clock (evs @ [EvClose]) j1 = json_events g clock [EvClose] j2"
    using j2(1) by (induction evs arbitrary: j1) (auto split: option.splits)
  ultimately show ?thesis
    using j1(1) by (auto simp: json_event_def fwts_log_open_json_def log_tree_def fr)
qed

lemma sec_run_mono: "sec_run lim d evs = Some d' \<Longrightarrow> lim \<le> lim' \<Longrightarrow> sec_run lim' d evs = Some d'"
  by (induction lim d evs rule: sec_run.induct) (auto split: if_splits nat.splits)

lemma json_log_of_run:
  assumes "args_gate env tests fw0 = Inr fw" and "\<forall>t \<in> set run. wb_test t"
    and "es \<in> set (fwts_log_close (results (args_run env tests' argv run fw)))"
  shows "\<exists>evs jl. es = EvOpen # evs @ [EvClose] \<and> json_events g clock es json_log_init = Some jl \<and>
           jl_out jl = json_object_to_json_string (log_tree g clock evs) @ [NL]"
proof -
  obtain evs where e: "es = EvOpen # evs @ [EvClose]" "\<forall>ev \<in> set evs. \<not> opens_closes ev" "sec_run 5 0 evs = Some 0"
    using closed_log [OF assms] by blast
  from json_log_refines [OF e(2) sec_run_mono [OF e(3)], of g clock] e(1) show ?thesis by auto
qed

end
