(* ===== verification/Fwts_Reports.thy ===== *)
theory Fwts_Reports
  imports Fwts_Framework Fwts_Numbers
begin

text \<open>
  What the test modules under src/ (bios, acpi, ...) do to the framework, as data: the calls of
  the log macros of src/src/lib/include/fwts_log.h and of the report macros of fwts_framework.h in
  the order they are made, with their formatted texts. perform makes the calls; a test that
  performs its output is well behaved, and the counters after it are determined by its reports.
\<close>

datatype test_output =
    Info cstr
  | Info_verbatim cstr
  | Err cstr
  | Warn cstr
  | Nl
  | Rep report cstr

definition fw_output :: "(nat \<Rightarrow> cstr) \<Rightarrow> test_output \<Rightarrow> fwts_framework \<Rightarrow> fwts_framework" where
  "fw_output name_of out fw =
     (case out of
        Info s \<Rightarrow> fwts_log_info s fw
      | Info_verbatim s \<Rightarrow> fw_printf (LOG_INFO OR LOG_VERBATUM) LOG_LEVEL_NONE [] (Some []) [] s fw
      | Err s \<Rightarrow> fwts_log_error s fw
      | Warn s \<Rightarrow> fw_printf LOG_WARNING LOG_LEVEL_NONE [] (Some []) [] s fw
      | Nl \<Rightarrow> fwts_log_nl fw
      | Rep r s \<Rightarrow> fw_report name_of s r fw)"

definition perform :: "(nat \<Rightarrow> cstr) \<Rightarrow> test_output list \<Rightarrow> fwts_framework \<Rightarrow> fwts_framework" where
  "perform name_of outs fw = fold (fw_output name_of) outs fw"

primrec report_of :: "test_output \<Rightarrow> report list" where
  "report_of (Info s) = []"
| "report_of (Info_verbatim s) = []"
| "report_of (Err s) = []"
| "report_of (Warn s) = []"
| "report_of Nl = []"
| "report_of (Rep r s) = [r]"

definition reports_of :: "test_output list \<Rightarrow> report list" where
  "reports_of outs = concat (map report_of outs)"

lemma reports_of_simps [simp]:
  "reports_of [] = []"
  "reports_of (out # outs) = report_of out @ reports_of outs"
  "reports_of (outs @ outs') = reports_of outs @ reports_of outs'"
  by (simp_all add: reports_of_def)

text \<open>Whether a sequence of reports has a failure, and the labels of the failures.\<close>

primrec is_failed :: "report \<Rightarrow> bool" where
  "is_failed Passed = False"
| "is_failed (Failed l s) = True"
| "is_failed Warning = False"
| "is_failed Advice = False"
| "is_failed Skipped = False"
| "is_failed Aborted = False"
| "is_failed Infoonly = False"

lemma frame_output: "test_frame fw (fw_output name_of out fw)"
  by (cases out)
    (simp_all add: fw_output_def frame_printf frame_report fwts_log_info_def fwts_log_error_def fwts_log_nl_def)

lemma frame_perform: "test_frame fw (perform name_of outs fw)"
  unfolding perform_def
proof (induction outs arbitrary: fw)
  case (Cons out outs)
  show ?case using test_frame_trans [OF frame_output Cons.IH] by simp
qed simp

lemma well_behaved_perform: "well_behaved (\<lambda>fw. (ret fw, perform name_of (outs fw) fw))"
  by (simp add: well_behaved_def frame_perform)

lemma counted_output: "counted (fw_output name_of out fw) = counted fw"
  by (rule ext) (rule counted_frame [OF frame_output])

lemma perform_counters:
  "minor_tests (perform name_of outs fw) = add_reports (counted fw) (reports_of outs) (minor_tests fw)"
proof (induction outs arbitrary: fw)
  case (Cons out outs)
  have "minor_tests (fw_output name_of out fw) = add_reports (counted fw) (report_of out) (minor_tests fw)"
    by (cases out)
      (simp_all add: fw_output_def report_counter add_reports_def fwts_log_info_def fwts_log_error_def
        fwts_log_nl_def fw_printf_def)
  then show ?case using Cons [of "fw_output name_of out fw"]
    by (simp add: perform_def counted_output add_reports_def)
qed (simp add: perform_def add_reports_def)

end
