(* ===== verification/Fwts_Klog.thy ===== *)
theory Fwts_Klog
  imports Fwts_Reports Fwts_Json Fwts_Strings
begin

text \<open>
  Scanning of logs: src/src/lib/src/fwts_log_scan.c with its users fwts_klog.c (kernel log),
  fwts_clog.c (coreboot), fwts_olog.c (OPAL) and fwts_oops.c, the reading of text files
  (fwts_fileio.c), and the tests of src/src/kernel/klog, oops and olog and src/src/coreboot/clog.

  A log is the list of its lines. A pointer that leaves its string is None. regcomp() and
  regexec() are a record of functions; for patterns of ordinary characters and plain bracket
  expressions their meaning is defined (ere_atoms, ere_search). Memory exhaustion, progress
  output and the copying of the OPAL log are left out. The framework is an argument of the
  functions that read its settings; what they report is their output.
\<close>

section \<open>Text files\<close>

text \<open>The lines fgets() returns for a buffer of n characters.\<close>

definition fgets_line :: "nat \<Rightarrow> cstr \<Rightarrow> cstr" where
  "fgets_line n s = take (n - 1) (takeWhile (\<lambda>c. c \<noteq> NL) s @ (if NL \<in> set s then [NL] else []))"

function fgets_lines :: "nat \<Rightarrow> cstr \<Rightarrow> cstr list" where
  "fgets_lines n s =
     (if s = [] \<or> n \<le> 1 then []
      else (let line = fgets_line n s in line # fgets_lines n (drop (length line) s)))"
  by pat_completeness auto
termination
proof (relation "measure (\<lambda>(n, s). length s)", goal_cases)
  case (2 n s line)
  then have "line \<noteq> []" by (cases s) (auto simp: fgets_line_def)
  with 2 show ?case by (cases s) auto
qed simp

declare fgets_lines.simps [simp del]

definition fwts_file_read :: "cstr \<Rightarrow> cstr list" where
  "fwts_file_read content = map (\<lambda>buffer. take (length buffer - 1) buffer) (fgets_lines 8192 content)"

definition fwts_file_open_and_read :: "(cstr \<Rightarrow> cstr option) \<Rightarrow> cstr \<Rightarrow> cstr list option" where
  "fwts_file_open_and_read fs file = map_option fwts_file_read (fs file)"

section \<open>Lines and changes\<close>

text \<open>A syslog priority in front of a line: three characters, the first and the last are compared.\<close>

definition skip_priority :: "cstr \<Rightarrow> cstr option" where
  "skip_priority s =
     (case s of
        [] \<Rightarrow> Some s
      | c # cs \<Rightarrow>
          if c \<noteq> CHR ''<'' then Some s
          else (case cs of
                  [] \<Rightarrow> None
                | _ # ds \<Rightarrow> (case ds of [] \<Rightarrow> Some s | d # rest \<Rightarrow> if d = CHR ''>'' then Some rest else Some s)))"

definition fwts_log_remove_timestamp :: "cstr \<Rightarrow> cstr option" where
  "fwts_log_remove_timestamp s =
     (case skip_priority s of
        None \<Rightarrow> None
      | Some ptr \<Rightarrow>
          (let ptr = (if is_prefix ''['' ptr then dropWhile (\<lambda>c. c \<noteq> CHR '']'') ptr else ptr) in
           if is_prefix '']'' ptr then (if length ptr = 1 then None else Some (drop 2 ptr)) else Some ptr))"

fun lines_after :: "cstr \<Rightarrow> cstr list \<Rightarrow> cstr list" where
  "lines_after old [] = []"
| "lines_after old (new # rest) = (if new = old then rest else lines_after old rest)"

definition fwts_log_find_changes :: "cstr list option \<Rightarrow> cstr list option \<Rightarrow> cstr list option" where
  "fwts_log_find_changes log_old log_new =
     (case log_new of
        None \<Rightarrow> None
      | Some new \<Rightarrow>
          (case log_old of
             None \<Rightarrow> Some new
           | Some old \<Rightarrow> if old = [] then Some [] else Some (lines_after (last old) new)))"

section \<open>The reduced log\<close>

definition strip_line :: "bool \<Rightarrow> cstr \<Rightarrow> cstr option" where
  "strip_line remove_timestamp s = (if remove_timestamp then fwts_log_remove_timestamp s else Some s)"

text \<open>
  One line against the reduced log: count it where its text is known, or append it.
\<close>

fun count_line :: "bool \<Rightarrow> cstr \<Rightarrow> cstr \<Rightarrow> (cstr \<times> nat) list \<Rightarrow> (cstr \<times> nat) list option" where
  "count_line rt newline data [] = Some [(data, 0)]"
| "count_line rt newline data ((l, n) # rest) =
     (case strip_line rt l of
        None \<Rightarrow> None
      | Some line \<Rightarrow>
          if newline = line then Some ((l, n + 1) # rest)
          else map_option (\<lambda>r. (l, n) # r) (count_line rt newline data rest))"

fun reduce_log :: "bool \<Rightarrow> cstr list \<Rightarrow> (cstr \<times> nat) list \<Rightarrow> (cstr \<times> nat) list option" where
  "reduce_log rt [] reduced = Some reduced"
| "reduce_log rt (x # xs) reduced =
     (case strip_line rt x of
        None \<Rightarrow> None
      | Some newline \<Rightarrow>
          if newline = [] then reduce_log rt xs reduced
          else (case count_line rt newline x reduced of
                  None \<Rightarrow> None
                | Some reduced \<Rightarrow> reduce_log rt xs reduced))"

text \<open>A callback gets a line, how often it is repeated and the line before; it changes the match count and reports.\<close>

type_synonym scan_func = "cstr \<Rightarrow> nat \<Rightarrow> cstr \<Rightarrow> int \<times> test_output list \<Rightarrow> int \<times> test_output list"

fun scan_reduced :: "scan_func \<Rightarrow> (cstr \<times> nat) list \<Rightarrow> cstr \<Rightarrow> int \<times> test_output list \<Rightarrow> (int \<times> test_output list) option" where
  "scan_reduced f [] prev st = Some st"
| "scan_reduced f ((l, n) # rest) prev st =
     (case skip_priority l of None \<Rightarrow> None | Some line \<Rightarrow> scan_reduced f rest line (f line n prev st))"

text \<open>The return code, the match count and the output.\<close>

definition fwts_log_scan :: "cstr list option \<Rightarrow> scan_func \<Rightarrow> bool \<Rightarrow> (int \<times> int \<times> test_output list) option" where
  "fwts_log_scan log scan_func remove_timestamp =
     (case log of
        None \<Rightarrow> Some (FWTS_ERROR, 0, [])
      | Some ls \<Rightarrow>
          (case reduce_log remove_timestamp ls [] of
             None \<Rightarrow> None
           | Some reduced \<Rightarrow>
               map_option (\<lambda>(m, outs). (FWTS_OK, m, outs)) (scan_reduced scan_func reduced [] (0, []))))"

section \<open>Regular expressions\<close>

datatype regex_result = REG_OK | REG_NOMATCH | REG_ERR cstr

record regex_lib =
  re_comp :: "cstr \<Rightarrow> int"
  re_exec :: "cstr \<Rightarrow> cstr \<Rightarrow> regex_result"

text \<open>
  Extended regular expressions made of ordinary characters and bracket expressions that are
  plain lists of characters: a sequence of sets of characters, searched for in the line.
\<close>

definition ere_special :: "char \<Rightarrow> bool" where
  "ere_special c \<longleftrightarrow> c \<in> set ''.[]()*+?{}|^$'' \<or> c = CHR 0x5C"

function ere_atoms :: "cstr \<Rightarrow> (char \<Rightarrow> bool) list option" where
  "ere_atoms [] = Some []"
| "ere_atoms (c # cs) =
     (if c = CHR ''['' then
        (let body = takeWhile (\<lambda>x. x \<noteq> CHR '']'') cs; rest = dropWhile (\<lambda>x. x \<noteq> CHR '']'') cs in
         if body = [] \<or> list_ex (\<lambda>x. x = CHR ''^'' \<or> x = CHR ''-'' \<or> x = CHR ''['') body \<or> rest = [] then None
         else map_option (\<lambda>as. (\<lambda>x. x \<in> set body) # as) (ere_atoms (drop 1 rest)))
      else if ere_special c then None
      else map_option (\<lambda>as. (\<lambda>x. x = c) # as) (ere_atoms cs))"
  by pat_completeness auto
termination
proof (relation "measure length", goal_cases)
  case (2 c cs body rest)
  then have "length rest \<le> length cs" by (simp add: length_dropWhile_le)
  then show ?case by simp
qed auto

fun ere_here :: "(char \<Rightarrow> bool) list \<Rightarrow> cstr \<Rightarrow> bool" where
  "ere_here [] s = True"
| "ere_here (a # as) [] = False"
| "ere_here (a # as) (c # cs) = (a c \<and> ere_here as cs)"

fun ere_search :: "(char \<Rightarrow> bool) list \<Rightarrow> cstr \<Rightarrow> bool" where
  "ere_search as s = (ere_here as s \<or> (case s of [] \<Rightarrow> False | _ # cs \<Rightarrow> ere_search as cs))"

declare ere_search.simps [simp del]

text \<open>What the C library promises for such a pattern.\<close>

definition regex_plain :: "regex_lib \<Rightarrow> bool" where
  "regex_plain rx \<longleftrightarrow>
     (\<forall>p as. ere_atoms p = Some as \<longrightarrow>
        re_comp rx p = 0 \<and> (\<forall>s. re_exec rx p s = (if ere_search as s then REG_OK else REG_NOMATCH)))"

section \<open>Counting the lines that match\<close>

definition fwts_log_regex_find_callback :: "regex_lib \<Rightarrow> cstr \<Rightarrow> scan_func" where
  "fwts_log_regex_find_callback rx pattern line repeated prev st =
     (case st of (m, outs) \<Rightarrow>
        (let rc = re_comp rx pattern in
         if rc \<noteq> 0 then
           (m, outs @ [Err (''Regex '' @ pattern @ '' failed to compile: '' @ show_int rc @ ''.'')])
         else if re_exec rx pattern line = REG_OK then (m + 1, outs) else (m, outs)))"

definition fwts_log_regex_find :: "regex_lib \<Rightarrow> cstr list option \<Rightarrow> cstr \<Rightarrow> bool \<Rightarrow> (int \<times> test_output list) option" where
  "fwts_log_regex_find rx log pattern remove_timestamp =
     map_option (\<lambda>(ret, found, outs). (found, outs))
       (fwts_log_scan log (fwts_log_regex_find_callback rx pattern) remove_timestamp)"

definition fwts_klog_regex_find :: "regex_lib \<Rightarrow> cstr list option \<Rightarrow> cstr \<Rightarrow> (int \<times> test_output list) option" where
  "fwts_klog_regex_find rx log pattern = fwts_log_regex_find rx log pattern True"

section \<open>Patterns\<close>

datatype fwts_compare_mode = FWTS_COMPARE_REGEX | FWTS_COMPARE_STRING | FWTS_COMPARE_UNKNOWN

record fwts_log_pattern =
  lp_compare_mode :: fwts_compare_mode
  lp_level :: u32
  lp_pattern :: cstr
  lp_advice :: cstr
  lp_label :: cstr
  lp_compiled_ok :: bool

definition fwts_log_compare_mode_str_to_val :: "cstr \<Rightarrow> fwts_compare_mode" where
  "fwts_log_compare_mode_str_to_val str =
     (if str = ''regex'' then FWTS_COMPARE_REGEX
      else if str = ''string'' then FWTS_COMPARE_STRING
      else FWTS_COMPARE_UNKNOWN)"

text \<open>
  A label made of the first words of a pattern: \<open>room\<close> is the space left in the buffer.
\<close>

definition isalnum :: "char \<Rightarrow> bool" where
  "isalnum c \<longleftrightarrow> isdigit c \<or> (65 \<le> (of_char c :: nat) \<and> (of_char c :: nat) \<le> 90) \<or>
     (97 \<le> (of_char c :: nat) \<and> (of_char c :: nat) \<le> 122)"

fun unique_label_loop :: "nat \<Rightarrow> nat \<Rightarrow> bool \<Rightarrow> cstr \<Rightarrow> cstr" where
  "unique_label_loop room words forceupper [] = []"
| "unique_label_loop room words forceupper (c # src) =
     (if room = 0 \<or> 4 \<le> words then []
      else if c = CHR ''|'' \<or> c = CHR ''/'' \<or> c = CHR '' '' then unique_label_loop room (words + 1) True src
      else if \<not> isalnum c then unique_label_loop room words forceupper src
      else (if forceupper then toupper c else c) # unique_label_loop (room - 1) words False src)"

definition fwts_log_unique_label :: "cstr \<Rightarrow> cstr \<Rightarrow> cstr" where
  "fwts_log_unique_label str label = label @ unique_label_loop (1023 - length label) 0 True str"

definition pattern_matches :: "regex_lib \<Rightarrow> cstr \<Rightarrow> fwts_log_pattern \<Rightarrow> bool \<times> test_output list" where
  "pattern_matches rx line p =
     (case lp_compare_mode p of
        FWTS_COMPARE_REGEX \<Rightarrow>
          if lp_compiled_ok p then
            (case re_exec rx (lp_pattern p) line of
               REG_OK \<Rightarrow> (True, [])
             | REG_NOMATCH \<Rightarrow> (False, [])
             | REG_ERR msg \<Rightarrow> (False, [Info (''regular expression engine error: '' @ msg @ ''.'')]))
          else (False, [])
      | _ \<Rightarrow> (c_strstr line (lp_pattern p) \<noteq> None, []))"

definition pattern_report ::
    "fwts_framework \<Rightarrow> cstr \<Rightarrow> cstr \<Rightarrow> cstr \<Rightarrow> nat \<Rightarrow> fwts_log_pattern \<Rightarrow> int \<Rightarrow> int \<times> test_output list" where
  "pattern_report fw name advice line repeated p errors =
     (let text = name @ '' message: '' @ line;
          (errors, outs) =
            (if lp_level p = LOG_LEVEL_INFO then (errors, [Info text])
             else (fwts_error_inc fw (lp_label p) errors,
                   [Rep (Failed (lp_level p) (lp_label p)) (fwts_log_level_to_str (lp_level p) @ '' '' @ text)]))
      in (errors,
          outs @
          (if repeated \<noteq> 0 then [Info (''Message repeated '' @ show_nat repeated @ '' times.'')] else []) @
          [Rep Advice (if lp_advice p \<noteq> [] then lp_advice p else advice)]))"

fun fwts_log_scan_patterns ::
    "regex_lib \<Rightarrow> fwts_framework \<Rightarrow> fwts_log_pattern list \<Rightarrow> cstr \<Rightarrow> cstr \<Rightarrow> scan_func" where
  "fwts_log_scan_patterns rx fw [] name advice line repeated prev st = st"
| "fwts_log_scan_patterns rx fw (p # ps) name advice line repeated prev (errors, outs) =
     (case pattern_matches rx line p of
        (matched, o1) \<Rightarrow>
          if matched then
            (case pattern_report fw name advice line repeated p errors of
               (errors, o2) \<Rightarrow> (errors, outs @ o1 @ o2))
          else fwts_log_scan_patterns rx fw ps name advice line repeated prev (errors, outs @ o1))"

section \<open>The table of patterns\<close>

definition fwts_json_str :: "cstr \<Rightarrow> nat \<Rightarrow> json_object \<Rightarrow> cstr \<Rightarrow> bool \<Rightarrow> cstr option \<times> test_output list" where
  "fwts_json_str table i obj key log_error =
     (case json_object_get_string (json_object_object_get (Some obj) key) of
        Some str \<Rightarrow> (Some str, [])
      | None \<Rightarrow>
          (None,
           if log_error then
             [Err (''Cannot fetch '' @ key @ '' val from item '' @ show_nat i @ '', table '' @ table @ ''.'')]
           else []))"

definition load_pattern :: "regex_lib \<Rightarrow> cstr \<Rightarrow> cstr \<Rightarrow> nat \<Rightarrow> json_object \<Rightarrow> fwts_log_pattern option \<times> test_output list" where
  "load_pattern rx table label i obj =
     (case fwts_json_str table i obj ''compare_mode'' True of
        (None, o1) \<Rightarrow> (None, o1)
      | (Some mode, _) \<Rightarrow>
          (case fwts_json_str table i obj ''log_level'' True of
             (None, o1) \<Rightarrow> (None, o1)
           | (Some level, _) \<Rightarrow>
               (case fwts_json_str table i obj ''pattern'' True of
                  (None, o1) \<Rightarrow> (None, o1)
                | (Some pat, _) \<Rightarrow>
                    (case fwts_json_str table i obj ''advice'' True of
                       (None, o1) \<Rightarrow> (None, o1)
                     | (Some adv, _) \<Rightarrow>
                         (let lab = (case fst (fwts_json_str table i obj ''label'' False) of
                                       Some s \<Rightarrow> s | None \<Rightarrow> fwts_log_unique_label pat label);
                              cm = fwts_log_compare_mode_str_to_val mode;
                              rc = re_comp rx pat;
                              ok = (cm = FWTS_COMPARE_REGEX \<and> rc = 0)
                          in (Some \<lparr>lp_compare_mode = cm, lp_level = fwts_log_str_to_level (Some level),
                                    lp_pattern = pat, lp_advice = adv, lp_label = lab, lp_compiled_ok = ok\<rparr>,
                              if cm = FWTS_COMPARE_REGEX \<and> rc \<noteq> 0 then
                                [Err (''Regex '' @ pat @ '' failed to compile: '' @ show_int rc @ ''.'')]
                              else []))))))"

fun load_patterns :: "regex_lib \<Rightarrow> cstr \<Rightarrow> cstr \<Rightarrow> json_object \<Rightarrow> nat \<Rightarrow> nat \<Rightarrow> fwts_log_pattern list option \<times> test_output list" where
  "load_patterns rx table label tab i 0 = (Some [], [])"
| "load_patterns rx table label tab i (Suc n) =
     (case json_object_array_get_idx (Some tab) i of
        None \<Rightarrow> (None, [Err (''Cannot fetch '' @ show_nat i @ '' item from table '' @ table @ ''.'')])
      | Some obj \<Rightarrow>
          (case load_pattern rx table label i obj of
             (None, o1) \<Rightarrow> (None, o1)
           | (Some p, o1) \<Rightarrow>
               (case load_patterns rx table label tab (Suc i) n of
                  (r, o2) \<Rightarrow> (map_option (\<lambda>ps. p # ps) r, o1 @ o2))))"

text \<open>
  The body of fwts_log_check() and of fwts_olog_check(), which differ in one word of two
  messages: what the json file of patterns says, then the scan. The result is the return code, the
  number of errors and the output.
\<close>

definition check_log ::
    "cstr \<Rightarrow> regex_lib \<Rightarrow> (cstr \<Rightarrow> cstr option) \<Rightarrow> cstr \<Rightarrow> (fwts_log_pattern list \<Rightarrow> scan_func) \<Rightarrow>
     cstr list option \<Rightarrow> cstr \<Rightarrow> cstr \<Rightarrow> bool \<Rightarrow> (int \<times> int \<times> test_output list) option" where
  "check_log kind rx fs table scan log path label remove_timestamp =
     (case fs path of
        None \<Rightarrow>
          Some (FWTS_ERROR, 0,
            [Err (''Cannot read file '' @ path @ '', check the path and check that the file exists, '' @
                  ''you may need to specify -j or -J.'')])
      | Some _ \<Rightarrow>
          (case json_object_from_file fs path of
             None \<Rightarrow> Some (FWTS_ERROR, 0, [Err (''Cannot load '' @ kind @ '' data from '' @ path @ ''.'')])
           | Some objs \<Rightarrow>
               (case json_object_object_get (Some objs) table of
                  None \<Rightarrow>
                    Some (FWTS_ERROR, 0,
                      [Err (''Cannot fetch '' @ kind @ '' table object '' @ [CHR 0x27] @ table @ [CHR 0x27] @
                            '' from '' @ path @ ''.'')])
                | Some tab \<Rightarrow>
                    (case load_patterns rx table label tab 0 (nat (json_object_array_length (Some tab))) of
                       (None, outs) \<Rightarrow> Some (FWTS_ERROR, 0, outs)
                     | (Some patterns, outs) \<Rightarrow>
                         map_option (\<lambda>(ret, errors, o2). (ret, errors, outs @ o2))
                           (fwts_log_scan log (scan patterns) remove_timestamp)))))"

definition fwts_log_check ::
    "regex_lib \<Rightarrow> (cstr \<Rightarrow> cstr option) \<Rightarrow> cstr \<Rightarrow> (fwts_log_pattern list \<Rightarrow> scan_func) \<Rightarrow>
     cstr list option \<Rightarrow> cstr \<Rightarrow> cstr \<Rightarrow> bool \<Rightarrow> (int \<times> int \<times> test_output list) option" where
  "fwts_log_check rx fs table scan log path label remove_timestamp =
     check_log ''log'' rx fs table scan log path label remove_timestamp"

section \<open>The kernel log, the coreboot log and the OPAL log\<close>

definition KLOG_DATA_JSON_FILE :: cstr where "KLOG_DATA_JSON_FILE = ''klog.json''"
definition CLOG_DATA_JSON_FILE :: cstr where "CLOG_DATA_JSON_FILE = ''clog.json''"
definition OLOG_DATA_JSON_FILE :: cstr where "OLOG_DATA_JSON_FILE = ''olog.json''"
definition UNIQUE_KLOG_LABEL :: cstr where "UNIQUE_KLOG_LABEL = ''Klog''"
definition UNIQUE_CLOG_LABEL :: cstr where "UNIQUE_CLOG_LABEL = ''Clog''"

text \<open>klogctl() gives the text of the kernel log, None where it fails.\<close>

definition fwts_klog_read :: "cstr option \<Rightarrow> cstr list option" where
  "fwts_klog_read answer = map_option fwts_list_from_text answer"

definition fwts_klog_scan_patterns :: "regex_lib \<Rightarrow> fwts_framework \<Rightarrow> fwts_log_pattern list \<Rightarrow> scan_func" where
  "fwts_klog_scan_patterns rx fw patterns =
     fwts_log_scan_patterns rx fw patterns ''Kernel''
       (''This is a bug picked up by the kernel, but as yet, the '' @
        ''firmware test suite has no diagnostic advice for this particular problem.'')"

definition fwts_clog_scan_patterns :: "regex_lib \<Rightarrow> fwts_framework \<Rightarrow> fwts_log_pattern list \<Rightarrow> scan_func" where
  "fwts_clog_scan_patterns rx fw patterns =
     fwts_log_scan_patterns rx fw patterns ''coreboot''
       (''This is a bug picked up by coreboot, but as yet, the '' @
        ''firmware test suite has no diagnostic advice for this particular problem.'')"

text \<open>The path of a json file, cut at the buffer's 4095 characters; a null pointer is printed as such.\<close>

definition data_path :: "fwts_framework \<Rightarrow> cstr \<Rightarrow> cstr" where
  "data_path fw file =
     take 4095 ((case json_data_path fw of Some p \<Rightarrow> p | None \<Rightarrow> ''(null)'') @ ''/'' @ file)"

definition fwts_klog_check ::
    "regex_lib \<Rightarrow> (cstr \<Rightarrow> cstr option) \<Rightarrow> fwts_framework \<Rightarrow> cstr \<Rightarrow> cstr list option \<Rightarrow>
     (int \<times> int \<times> test_output list) option" where
  "fwts_klog_check rx fs fw table log =
     (let path = data_path fw (case json_data_file fw of Some f \<Rightarrow> f | None \<Rightarrow> KLOG_DATA_JSON_FILE) in
      fwts_log_check rx fs table (fwts_klog_scan_patterns rx fw) log path UNIQUE_KLOG_LABEL True)"

definition fwts_klog_firmware_check ::
    "regex_lib \<Rightarrow> (cstr \<Rightarrow> cstr option) \<Rightarrow> fwts_framework \<Rightarrow> cstr list option \<Rightarrow>
     (int \<times> int \<times> test_output list) option" where
  "fwts_klog_firmware_check rx fs fw log = fwts_klog_check rx fs fw ''firmware_error_warning_patterns'' log"

definition fwts_klog_pm_check ::
    "regex_lib \<Rightarrow> (cstr \<Rightarrow> cstr option) \<Rightarrow> fwts_framework \<Rightarrow> cstr list option \<Rightarrow>
     (int \<times> int \<times> test_output list) option" where
  "fwts_klog_pm_check rx fs fw log = fwts_klog_check rx fs fw ''pm_error_warning_patterns'' log"

definition fwts_clog_firmware_check ::
    "regex_lib \<Rightarrow> (cstr \<Rightarrow> cstr option) \<Rightarrow> fwts_framework \<Rightarrow> cstr list option \<Rightarrow>
     (int \<times> int \<times> test_output list) option" where
  "fwts_clog_firmware_check rx fs fw log =
     fwts_log_check rx fs ''firmware_error_warning_patterns'' (fwts_clog_scan_patterns rx fw) log
       (data_path fw CLOG_DATA_JSON_FILE) UNIQUE_CLOG_LABEL True"

definition fwts_olog_firmware_check ::
    "regex_lib \<Rightarrow> (cstr \<Rightarrow> cstr option) \<Rightarrow> fwts_framework \<Rightarrow> cstr list option \<Rightarrow>
     (int \<times> int \<times> test_output list) option" where
  "fwts_olog_firmware_check rx fs fw log =
     (let path = data_path fw (case json_data_file fw of Some f \<Rightarrow> f | None \<Rightarrow> OLOG_DATA_JSON_FILE) in
      check_log ''olog'' rx fs ''olog_error_warning_patterns'' (fwts_klog_scan_patterns rx fw) log path
        UNIQUE_KLOG_LABEL True)"

section \<open>The tests klog, clog and olog\<close>

text \<open>\<open>answer\<close> is the text klogctl() gives.\<close>

definition read_klog :: "(cstr \<Rightarrow> cstr option) \<Rightarrow> cstr option \<Rightarrow> fwts_framework \<Rightarrow> cstr list option" where
  "read_klog fs answer fw =
     (case klog fw of Some file \<Rightarrow> fwts_file_open_and_read fs file | None \<Rightarrow> fwts_klog_read answer)"

definition klog_init :: "(cstr \<Rightarrow> cstr option) \<Rightarrow> cstr option \<Rightarrow> fwts_framework \<Rightarrow> int \<times> test_output list \<times> cstr list option" where
  "klog_init fs answer fw =
     (case read_klog fs answer fw of
        None \<Rightarrow> (FWTS_ERROR, [Err ''Cannot read kernel log.''], None)
      | Some log \<Rightarrow> (FWTS_OK, [], Some log))"

text \<open>The end of the three tests: what the number of errors leads to.\<close>

definition klog_test1 ::
    "regex_lib \<Rightarrow> (cstr \<Rightarrow> cstr option) \<Rightarrow> fwts_framework \<Rightarrow> cstr list option \<Rightarrow> (int \<times> test_output list) option" where
  "klog_test1 rx fs fw log =
     (case fwts_klog_firmware_check rx fs fw log of
        None \<Rightarrow> None
      | Some (ret, errors, outs) \<Rightarrow>
          if ret \<noteq> FWTS_OK then Some (FWTS_ERROR, outs @ [Err ''Error parsing kernel log.''])
          else Some (FWTS_OK, outs @
            [if 0 < errors then Info (''Found '' @ show_int errors @ '' unique errors in kernel log.'')
             else Rep Passed ''Found no errors in kernel log.'']))"

definition clog_test1 ::
    "regex_lib \<Rightarrow> (cstr \<Rightarrow> cstr option) \<Rightarrow> fwts_framework \<Rightarrow> cstr list option \<Rightarrow> (int \<times> test_output list) option" where
  "clog_test1 rx fs fw log =
     (case fwts_clog_firmware_check rx fs fw log of
        None \<Rightarrow> None
      | Some (ret, errors, outs) \<Rightarrow>
          if ret \<noteq> FWTS_OK then Some (FWTS_ERROR, outs @ [Err ''Error parsing coreboot log.''])
          else Some (FWTS_OK, outs @
            [if 0 < errors then Info (''Found '' @ show_int errors @ '' unique errors in coreboot log.'')
             else Rep Passed ''Found no errors in coreboot log.'']))"

definition olog_test1 ::
    "regex_lib \<Rightarrow> (cstr \<Rightarrow> cstr option) \<Rightarrow> fwts_framework \<Rightarrow> cstr list option \<Rightarrow> (int \<times> test_output list) option" where
  "olog_test1 rx fs fw log =
     (case fwts_olog_firmware_check rx fs fw log of
        None \<Rightarrow> None
      | Some (ret, errors, outs) \<Rightarrow>
          if ret \<noteq> FWTS_OK then
            Some (FWTS_ERROR, outs @ [Rep (Failed LOG_LEVEL_LOW ''olog_firmware_check'')
              (''Problem in the OLOG processing, see earlier in'' @ '' this log for details on the problem.'')])
          else Some (FWTS_OK, outs @
            [if 0 < errors then Info (''OLOG scan and analysis found '' @ show_int errors @ '' unique issue(s).'')
             else Rep Passed ''OLOG scan and analysis passed.'']))"

section \<open>Oopses\<close>

definition FWTS_OOPS_GOT_OOPS :: u32 where [simp]: "FWTS_OOPS_GOT_OOPS = 0x0001"
definition FWTS_OOPS_GOT_CALL_TRACE :: u32 where [simp]: "FWTS_OOPS_GOT_CALL_TRACE = 0x0002"
definition FWTS_OOPS_GOT_END_TRACE :: u32 where [simp]: "FWTS_OOPS_GOT_END_TRACE = 0x0004"
definition FWTS_OOPS_GOT_WARN_ON :: u32 where [simp]: "FWTS_OOPS_GOT_WARN_ON = 0x0008"

definition FWTS_OOPS_DUMPABLE :: u32 where
  "FWTS_OOPS_DUMPABLE = FWTS_OOPS_GOT_OOPS OR FWTS_OOPS_GOT_CALL_TRACE OR FWTS_OOPS_GOT_END_TRACE"
definition FWTS_WARN_ON_DUMPABLE :: u32 where
  "FWTS_WARN_ON_DUMPABLE = FWTS_OOPS_GOT_WARN_ON OR FWTS_OOPS_GOT_CALL_TRACE OR FWTS_OOPS_GOT_END_TRACE"

text \<open>What one line adds to the flags.\<close>

definition oops_flags :: "cstr \<Rightarrow> u32" where
  "oops_flags line =
     (let has = (\<lambda>needle. c_strstr line needle \<noteq> None) in
      (if has ''Oops:'' \<or> has ''kernel BUG at'' then FWTS_OOPS_GOT_OOPS else 0) OR
      (if has ''WARNING: at'' \<or> has ''WARNING: CPU:'' then FWTS_OOPS_GOT_WARN_ON else 0) OR
      (if has ''Call Trace:'' then FWTS_OOPS_GOT_CALL_TRACE else 0) OR
      (if has ''--[ end trace'' then FWTS_OOPS_GOT_END_TRACE else 0))"

text \<open>
  The scan from the line of a bug: it gives up (None), or it stops at the end of the trace or of the
  log, with the flags, the number of lines before and whether the end was found.
\<close>

fun oops_scan :: "cstr list \<Rightarrow> nat \<Rightarrow> u32 \<Rightarrow> (u32 \<times> nat \<times> bool) option" where
  "oops_scan [] n dumpable = Some (dumpable, n, False)"
| "oops_scan (line # rest) n dumpable =
     (let dumpable = dumpable OR oops_flags line in
      if c_strstr line ''--[ end trace'' \<noteq> None then Some (dumpable, n, True)
      else if 5 < n + 1 \<and> dumpable AND (FWTS_OOPS_GOT_OOPS OR FWTS_OOPS_GOT_WARN_ON) = 0 then None
      else oops_scan rest (n + 1) dumpable)"

text \<open>The lines are those without their timestamps. The state is the counts of oopses and warnings, and the output.\<close>

definition fwts_klog_stack_dump :: "cstr list \<Rightarrow> int \<times> int \<times> test_output list \<Rightarrow> int \<times> int \<times> test_output list" where
  "fwts_klog_stack_dump ls st =
     (case st of (oopses, warn_ons, outs) \<Rightarrow>
        (case oops_scan ls 0 0 of
           None \<Rightarrow> st
         | Some (dumpable, n, found) \<Rightarrow>
             if 100 < n \<or> \<not> found then st
             else
               (let oops = (dumpable AND FWTS_OOPS_DUMPABLE = FWTS_OOPS_DUMPABLE);
                    warn = (dumpable AND FWTS_WARN_ON_DUMPABLE = FWTS_WARN_ON_DUMPABLE);
                    oopses = (if oops then oopses + 1 else oopses);
                    warn_ons = (if warn then warn_ons + 1 else warn_ons)
                in (oopses, warn_ons,
                    outs @
                    (if oops then [Info (''Found OOPS ('' @ show_int oopses @ ''):'')] else []) @
                    (if warn then [Info (''Found WARNING ('' @ show_int warn_ons @ ''):'')] else []) @
                    (if oops \<or> warn then map (\<lambda>l. Info_verbatim (''  '' @ l)) (take n ls) @ [Nl] else [])))))"

definition starts_bug :: "cstr \<Rightarrow> bool" where
  "starts_bug line \<longleftrightarrow> is_prefix ''BUG:'' line \<or> is_prefix ''kernel BUG'' line \<or> is_prefix ''WARNING:'' line"

fun oops_loop :: "cstr list \<Rightarrow> int \<times> int \<times> test_output list \<Rightarrow> int \<times> int \<times> test_output list" where
  "oops_loop [] st = st"
| "oops_loop (line # rest) st =
     oops_loop rest (if starts_bug line then fwts_klog_stack_dump (line # rest) st else st)"

text \<open>
  None where a timestamp that is removed leaves its line; lines that are looked at only by
  an inner scan are looked at by the outer one as well.
\<close>

definition fwts_oops_check :: "cstr list option \<Rightarrow> (int \<times> int \<times> int \<times> test_output list) option" where
  "fwts_oops_check log =
     (case log of
        None \<Rightarrow> Some (FWTS_ERROR, 0, 0, [])
      | Some ls \<Rightarrow>
          if list_ex (\<lambda>l. fwts_log_remove_timestamp l = None) ls then None
          else (case oops_loop (map (\<lambda>l. the (fwts_log_remove_timestamp l)) ls) (0, 0, []) of
                  (oopses, warn_ons, outs) \<Rightarrow> Some (FWTS_OK, oopses, warn_ons, outs)))"

definition oops_test1 :: "cstr list option \<Rightarrow> (int \<times> test_output list) option" where
  "oops_test1 log =
     (case fwts_oops_check log of
        None \<Rightarrow> None
      | Some (ret, oopses, warn_ons, outs) \<Rightarrow>
          if ret \<noteq> FWTS_OK then Some (FWTS_ERROR, outs @ [Err ''Error parsing kernel log.''])
          else Some (FWTS_OK, outs @
            [if 0 < oopses then
               Rep (Failed LOG_LEVEL_CRITICAL ''KernelOops'') (''Found '' @ show_int oopses @ '' oopses in kernel log.'')
             else Rep Passed ''Found no oopses in kernel log.'',
             if 0 < warn_ons then
               Rep (Failed LOG_LEVEL_HIGH ''KernelWarnOns'')
                 (''Found '' @ show_int warn_ons @ '' WARN_ON warnings in kernel log.'')
             else Rep Passed ''Found no WARN_ON warnings in kernel log.'']))"

section \<open>The reduced log is the log without repetitions\<close>

text \<open>The texts of a log, and its texts in the order of their first occurrence.\<close>

definition log_texts :: "bool \<Rightarrow> cstr list \<Rightarrow> cstr list" where
  "log_texts rt log = filter (\<lambda>t. t \<noteq> []) (map (\<lambda>l. the (strip_line rt l)) log)"

definition first_texts :: "cstr list \<Rightarrow> cstr list" where
  "first_texts ts = rev (remdups (rev ts))"

definition reduced_text :: "bool \<Rightarrow> cstr \<times> nat \<Rightarrow> cstr" where
  "reduced_text rt r = the (strip_line rt (fst r))"

definition reduced_rep :: "bool \<Rightarrow> cstr list \<Rightarrow> (cstr \<times> nat) list \<Rightarrow> bool" where
  "reduced_rep rt seen red \<longleftrightarrow>
     map (reduced_text rt) red = first_texts seen \<and>
     (\<forall>r \<in> set red. strip_line rt (fst r) \<noteq> None \<and> Suc (snd r) = count_list seen (reduced_text rt r))"

lemma first_texts_snoc: "first_texts (ts @ [t]) = (if t \<in> set ts then first_texts ts else first_texts ts @ [t])"
  by (simp add: first_texts_def)

lemma set_first_texts [simp]: "set (first_texts ts) = set ts"
  by (simp add: first_texts_def)

lemma distinct_first_texts [simp]: "distinct (first_texts ts)"
  by (simp add: first_texts_def)

lemma reduced_rep_texts:
  assumes "reduced_rep rt seen red"
  shows "set (map (reduced_text rt) red) = set seen" and "distinct (map (reduced_text rt) red)"
proof -
  have "map (reduced_text rt) red = first_texts seen" using assms by (simp add: reduced_rep_def)
  then show "set (map (reduced_text rt) red) = set seen" and "distinct (map (reduced_text rt) red)"
    by (simp_all only: set_first_texts distinct_first_texts)
qed

lemma count_line_known:
  "\<forall>r \<in> set red. strip_line rt (fst r) \<noteq> None \<Longrightarrow> distinct (map (reduced_text rt) red) \<Longrightarrow>
   t \<in> set (map (reduced_text rt) red) \<Longrightarrow>
   count_line rt t item red = Some (map (\<lambda>r. (fst r, if reduced_text rt r = t then snd r + 1 else snd r)) red)"
proof (induction red)
  case (Cons r red)
  obtain l n where r: "r = (l, n)" by (cases r)
  obtain s where s: "strip_line rt l = Some s" using Cons.prems(1) r by auto
  show ?case
  proof (cases "t = s")
    case True
    have "t \<notin> set (map (reduced_text rt) red)" using Cons.prems(2) r s True by (auto simp: reduced_text_def)
    then have "map (\<lambda>r. (fst r, if reduced_text rt r = t then snd r + 1 else snd r)) red = red"
      by (induction red) (auto simp: reduced_text_def)
    with True r s show ?thesis by (simp add: reduced_text_def)
  next
    case False
    with Cons r s show ?thesis by (auto simp: reduced_text_def)
  qed
qed simp

lemma count_line_new:
  "\<forall>r \<in> set red. strip_line rt (fst r) \<noteq> None \<Longrightarrow> t \<notin> set (map (reduced_text rt) red) \<Longrightarrow>
   count_line rt t item red = Some (red @ [(item, 0)])"
  by (induction red) (auto simp: reduced_text_def)

lemma count_line_rep:
  assumes "reduced_rep rt seen red" and "strip_line rt item = Some t"
  shows "\<exists>red'. count_line rt t item red = Some red' \<and> reduced_rep rt (seen @ [t]) red' \<and> fst ` set red' \<subseteq> insert item (fst ` set red)"
proof (cases "t \<in> set seen")
  case True
  let ?red = "map (\<lambda>r. (fst r, if reduced_text rt r = t then snd r + 1 else snd r)) red"
  have t: "t \<in> set (map (reduced_text rt) red)" and d: "distinct (map (reduced_text rt) red)"
    using reduced_rep_texts [OF assms(1)] True by simp_all
  have "count_line rt t item red = Some ?red"
    using assms(1) by (intro count_line_known d t) (simp add: reduced_rep_def)
  moreover have "map (reduced_text rt) ?red = map (reduced_text rt) red" by (simp add: reduced_text_def)
  then have "map (reduced_text rt) ?red = first_texts (seen @ [t])"
    using assms(1) True by (simp only: first_texts_snoc reduced_rep_def if_True)
  then have "reduced_rep rt (seen @ [t]) ?red"
    using assms(1) by (auto simp: reduced_rep_def reduced_text_def)
  moreover have "fst ` set ?red \<subseteq> insert item (fst ` set red)" by (force simp: image_iff)
  ultimately show ?thesis by blast
next
  case False
  then have "t \<notin> set (map (reduced_text rt) red)" using reduced_rep_texts [OF assms(1)] by simp
  moreover have "\<forall>r \<in> set red. strip_line rt (fst r) \<noteq> None" using assms(1) by (simp add: reduced_rep_def)
  ultimately have "count_line rt t item red = Some (red @ [(item, 0)])" by (intro count_line_new)
  moreover have "reduced_text rt r \<noteq> t" if "r \<in> set red" for r
    using that False reduced_rep_texts(1) [OF assms(1)] by auto
  then have "reduced_rep rt (seen @ [t]) (red @ [(item, 0)])"
    using assms False by (auto simp: reduced_rep_def first_texts_snoc reduced_text_def count_list_0_iff)
  moreover have "fst ` set (red @ [(item, 0)]) \<subseteq> insert item (fst ` set red)" by auto
  ultimately show ?thesis by blast
qed

lemma reduce_log_rep:
  "reduced_rep rt seen red \<Longrightarrow> \<forall>l \<in> set log. strip_line rt l \<noteq> None \<Longrightarrow>
   \<exists>red'. reduce_log rt log red = Some red' \<and> reduced_rep rt (seen @ log_texts rt log) red' \<and>
          fst ` set red' \<subseteq> fst ` set red \<union> set log"
proof (induction log arbitrary: seen red)
  case (Cons l log)
  obtain t where t: "strip_line rt l = Some t" using Cons.prems(2) by auto
  show ?case
  proof (cases "t = []")
    case True
    then have "log_texts rt (l # log) = log_texts rt log" using t by (simp add: log_texts_def)
    moreover obtain red' where "reduce_log rt log red = Some red'" "reduced_rep rt (seen @ log_texts rt log) red'"
      "fst ` set red' \<subseteq> fst ` set red \<union> set log"
      using Cons.IH [OF Cons.prems(1)] Cons.prems(2) by auto
    moreover have "fst ` set red \<union> set log \<subseteq> fst ` set red \<union> set (l # log)" by auto
    ultimately show ?thesis using True t by (auto intro: exI [of _ red'] simp del: list.set)
  next
    case False
    obtain red1 where r: "count_line rt t l red = Some red1" "reduced_rep rt (seen @ [t]) red1"
      "fst ` set red1 \<subseteq> insert l (fst ` set red)"
      using count_line_rep [OF Cons.prems(1) t] by blast
    obtain red2 where r2: "reduce_log rt log red1 = Some red2"
      "reduced_rep rt ((seen @ [t]) @ log_texts rt log) red2" "fst ` set red2 \<subseteq> fst ` set red1 \<union> set log"
      using Cons.IH [OF r(2)] Cons.prems(2) by auto
    moreover have "log_texts rt (l # log) = t # log_texts rt log" using t False by (simp add: log_texts_def)
    moreover have "reduce_log rt (l # log) red = Some red2" using t False r(1) r2(1) by simp
    moreover have "fst ` set red2 \<subseteq> fst ` set red \<union> set (l # log)"
      by (rule subset_trans [OF r2(3)]) (use r(3) in \<open>unfold list.set, blast\<close>)
    ultimately show ?thesis by (metis append.assoc append_Cons append_Nil)
  qed
qed (simp add: log_texts_def)

lemma reduce_log_None: "\<exists>l \<in> set log. strip_line rt l = None \<Longrightarrow> reduce_log rt log red = None"
  by (induction log arbitrary: red) (auto split: option.split)

lemma reduced_rep_Nil [simp]: "reduced_rep rt [] []"
  by (simp add: reduced_rep_def first_texts_def)

lemma reduce_log_iff: "reduce_log rt log [] = None \<longleftrightarrow> (\<exists>l \<in> set log. strip_line rt l = None)"
  using reduce_log_rep [OF reduced_rep_Nil, of log rt] reduce_log_None [of log rt "[]"] by fastforce

lemma reduce_log_spec:
  assumes "reduce_log rt log [] = Some red"
  shows "reduced_rep rt (log_texts rt log) red" and "fst ` set red \<subseteq> set log"
proof -
  have "\<forall>l \<in> set log. strip_line rt l \<noteq> None" using assms reduce_log_iff [of rt log] by auto
  from reduce_log_rep [OF reduced_rep_Nil this] assms
  show "reduced_rep rt (log_texts rt log) red" and "fst ` set red \<subseteq> set log" by auto
qed

section \<open>Pointers that leave a line\<close>

lemma skip_priority_None: "skip_priority s = None \<longleftrightarrow> s = ''<''"
  by (auto simp: skip_priority_def split: list.splits)

lemma remove_timestamp_skip: "fwts_log_remove_timestamp s \<noteq> None \<Longrightarrow> skip_priority s \<noteq> None"
  by (auto simp: fwts_log_remove_timestamp_def split: option.splits)

lemma dropWhile_last: "dropWhile P s = [c] \<longleftrightarrow> (\<exists>a. (\<forall>x \<in> set a. P x) \<and> \<not> P c \<and> s = a @ [c])"
proof
  assume "dropWhile P s = [c]"
  then have "s = takeWhile P s @ [c]" "\<not> P c" by (simp_all add: dropWhile_eq_Cons_conv)
  then show "\<exists>a. (\<forall>x \<in> set a. P x) \<and> \<not> P c \<and> s = a @ [c]"
    by (intro exI [of _ "takeWhile P s"] conjI) (auto dest: set_takeWhileD)
next
  assume "\<exists>a. (\<forall>x \<in> set a. P x) \<and> \<not> P c \<and> s = a @ [c]"
  then show "dropWhile P s = [c]" by (auto simp: dropWhile_append2)
qed

lemma remove_timestamp_None:
  "fwts_log_remove_timestamp s = None \<longleftrightarrow>
     s = ''<'' \<or>
     (\<exists>ptr. skip_priority s = Some ptr \<and>
        (ptr = '']'' \<or> (\<exists>stamp. CHR '']'' \<notin> set stamp \<and> ptr = ''['' @ stamp @ '']'')))"
proof (cases "skip_priority s")
  case None
  then show ?thesis using skip_priority_None [of s] by (simp add: fwts_log_remove_timestamp_def)
next
  case (Some ptr)
  have tail: "is_prefix '']'' p \<and> length p = 1 \<longleftrightarrow> p = '']''" for p :: cstr
    by (cases p) auto
  have drop: "dropWhile (\<lambda>c. c \<noteq> CHR '']'') p = '']'' \<longleftrightarrow> (\<exists>a. CHR '']'' \<notin> set a \<and> p = a @ '']'')" for p :: cstr
    by (auto simp: dropWhile_last)
  have ne: "s \<noteq> ''<''" using Some skip_priority_None [of s] by auto
  show ?thesis
  proof (cases "\<exists>cs. ptr = CHR ''['' # cs")
    case True
    then obtain cs where p: "ptr = CHR ''['' # cs" by blast
    have "fwts_log_remove_timestamp s = None \<longleftrightarrow> dropWhile (\<lambda>c. c \<noteq> CHR '']'') cs = '']''"
      using Some p tail [of "dropWhile (\<lambda>c. c \<noteq> CHR '']'') cs"]
      by (auto simp: fwts_log_remove_timestamp_def Let_def split: if_splits)
    then show ?thesis using Some p drop [of cs] ne by simp
  next
    case False
    then have "\<not> is_prefix ''['' ptr" by (cases ptr) auto
    then have "fwts_log_remove_timestamp s = None \<longleftrightarrow> ptr = '']''"
      using Some tail [of ptr] by (auto simp: fwts_log_remove_timestamp_def Let_def split: if_splits)
    then show ?thesis using Some False ne by simp
  qed
qed

lemma strip_line_True: "strip_line True = fwts_log_remove_timestamp"
  by (rule ext) (simp add: strip_line_def)

section \<open>What a scan calls\<close>

text \<open>The calls of a scan: line, repetitions, previous line.\<close>

fun scan_calls :: "(cstr \<times> nat) list \<Rightarrow> cstr \<Rightarrow> (cstr \<times> nat \<times> cstr) list" where
  "scan_calls [] prev = []"
| "scan_calls ((l, n) # rest) prev = (the (skip_priority l), n, prev) # scan_calls rest (the (skip_priority l))"

definition make_call :: "scan_func \<Rightarrow> cstr \<times> nat \<times> cstr \<Rightarrow> int \<times> test_output list \<Rightarrow> int \<times> test_output list" where
  "make_call f c = f (fst c) (fst (snd c)) (snd (snd c))"

lemma scan_reduced_calls:
  "\<forall>r \<in> set red. skip_priority (fst r) \<noteq> None \<Longrightarrow>
   scan_reduced f red prev st = Some (fold (make_call f) (scan_calls red prev) st)"
proof (induction red prev arbitrary: st rule: scan_calls.induct)
  case (2 l n rest prev)
  then obtain line where "skip_priority l = Some line" by auto
  with 2 show ?case by (simp add: make_call_def)
qed simp

lemma log_scan_calls:
  assumes "reduce_log True log [] = Some red"
  shows "fwts_log_scan (Some log) f True =
    Some (FWTS_OK, fold (make_call f) (scan_calls red []) (0, []))"
proof -
  have "\<forall>r \<in> set red. skip_priority (fst r) \<noteq> None"
    using reduce_log_spec [OF assms] remove_timestamp_skip by (auto simp: reduced_rep_def strip_line_True)
  from scan_reduced_calls [OF this, of f "[]" "(0, [])"] assms show ?thesis
    by (simp add: fwts_log_scan_def case_prod_beta)
qed

lemma log_scan_None: "fwts_log_scan (Some log) f True = None \<longleftrightarrow> (\<exists>l \<in> set log. fwts_log_remove_timestamp l = None)"
proof (cases "reduce_log True log []")
  case None
  then show ?thesis using reduce_log_iff [of True log] by (simp add: fwts_log_scan_def strip_line_True)
next
  case (Some red)
  then show ?thesis using reduce_log_iff [of True log] log_scan_calls [OF Some, of f] by (auto simp: strip_line_True)
qed

section \<open>What the patterns report\<close>

text \<open>The first pattern that matches a line, and the reports it leads to.\<close>

definition first_match :: "regex_lib \<Rightarrow> fwts_log_pattern list \<Rightarrow> cstr \<Rightarrow> fwts_log_pattern option" where
  "first_match rx ps line = find (\<lambda>p. fst (pattern_matches rx line p)) ps"

definition match_reports :: "fwts_log_pattern option \<Rightarrow> report list" where
  "match_reports m =
     (case m of
        None \<Rightarrow> []
      | Some p \<Rightarrow> (if lp_level p = LOG_LEVEL_INFO then [] else [Failed (lp_level p) (lp_label p)]) @ [Advice])"

definition match_error :: "fwts_framework \<Rightarrow> fwts_log_pattern option \<Rightarrow> bool" where
  "match_error fw m =
     (case m of None \<Rightarrow> False
      | Some p \<Rightarrow> lp_level p \<noteq> LOG_LEVEL_INFO \<and> \<not> fwts_error_filtered_out fw (lp_label p))"

lemma matches_no_report: "reports_of (snd (pattern_matches rx line p)) = []"
  by (simp add: pattern_matches_def split: fwts_compare_mode.split regex_result.split)

lemma pattern_report_result:
  "fst (pattern_report fw name advice line n p errors) = (if match_error fw (Some p) then errors + 1 else errors)"
  "reports_of (snd (pattern_report fw name advice line n p errors)) = match_reports (Some p)"
  by (simp_all add: pattern_report_def Let_def match_error_def match_reports_def fwts_error_inc_def del: LOG_LEVEL_INFO_def)

lemma scan_patterns_result:
  "fst (fwts_log_scan_patterns rx fw ps name advice line n prev (errors, outs)) =
     (if match_error fw (first_match rx ps line) then errors + 1 else errors)"
  "reports_of (snd (fwts_log_scan_patterns rx fw ps name advice line n prev (errors, outs))) =
     reports_of outs @ match_reports (first_match rx ps line)"
proof (induction ps arbitrary: outs)
  case (Cons p ps)
  {
    case 1
    show ?case using Cons.IH(1) pattern_report_result(1) [of fw name advice line n p errors]
      by (simp add: first_match_def case_prod_beta)
  next
    case 2
    show ?case
      using Cons.IH(2) pattern_report_result(2) [of fw name advice line n p errors] matches_no_report [of rx line p]
      by (simp add: first_match_def case_prod_beta)
  }
qed (simp_all add: first_match_def match_error_def match_reports_def)

lemma make_call_patterns:
  "fst (make_call (fwts_log_scan_patterns rx fw ps name advice) c s) =
     (if match_error fw (first_match rx ps (fst c)) then fst s + 1 else fst s)"
  "reports_of (snd (make_call (fwts_log_scan_patterns rx fw ps name advice) c s)) =
     reports_of (snd s) @ match_reports (first_match rx ps (fst c))"
  by (cases s, simp only: make_call_def scan_patterns_result fst_conv snd_conv)+

lemma fold_patterns_result:
  "fst (fold (make_call (fwts_log_scan_patterns rx fw ps name advice)) calls s) =
     fst s + int (length (filter (\<lambda>c. match_error fw (first_match rx ps (fst c))) calls))"
  "reports_of (snd (fold (make_call (fwts_log_scan_patterns rx fw ps name advice)) calls s)) =
     reports_of (snd s) @ concat (map (\<lambda>c. match_reports (first_match rx ps (fst c))) calls)"
  by (induction calls arbitrary: s) (simp_all add: make_call_patterns)

section \<open>The verdict of the kernel log test\<close>

text \<open>The lines of a log a scan looks at, and the patterns of the kernel log.\<close>

definition unique_lines :: "cstr list \<Rightarrow> cstr list" where
  "unique_lines log = map (\<lambda>r. the (skip_priority (fst r))) (the (reduce_log True log []))"

definition klog_patterns :: "regex_lib \<Rightarrow> (cstr \<Rightarrow> cstr option) \<Rightarrow> fwts_framework \<Rightarrow> fwts_log_pattern list option" where
  "klog_patterns rx fs fw =
     (let path = data_path fw (case json_data_file fw of Some f \<Rightarrow> f | None \<Rightarrow> KLOG_DATA_JSON_FILE);
          table = ''firmware_error_warning_patterns''
      in case json_object_from_file fs path of
           None \<Rightarrow> None
         | Some objs \<Rightarrow>
             (case json_object_object_get (Some objs) table of
                None \<Rightarrow> None
              | Some tab \<Rightarrow>
                  fst (load_patterns rx table UNIQUE_KLOG_LABEL tab 0 (nat (json_object_array_length (Some tab))))))"

lemma fst_scan_calls: "map fst (scan_calls red prev) = map (\<lambda>r. the (skip_priority (fst r))) red"
  by (induction red prev rule: scan_calls.induct) auto

lemma json_str_no_report: "reports_of (snd (fwts_json_str table i obj key e)) = []"
  by (simp add: fwts_json_str_def split: option.split)

lemma load_pattern_no_report: "reports_of (snd (load_pattern rx table label i obj)) = []"
  by (auto simp: load_pattern_def Let_def fwts_json_str_def split: option.split)

lemma load_patterns_no_report: "reports_of (snd (load_patterns rx table label tab i n)) = []"
proof (induction n arbitrary: i)
  case (Suc n)
  show ?case
  proof (cases "json_object_array_get_idx (Some tab) i")
    case (Some obj)
    obtain p o1 where p: "load_pattern rx table label i obj = (p, o1)" by fastforce
    then have "reports_of o1 = []" using load_pattern_no_report [of rx table label i obj] by simp
    then show ?thesis using Some p Suc [of "Suc i"] by (cases p) (auto split: prod.split)
  qed simp
qed simp

lemma calls_concat: "concat (map (\<lambda>c. g (fst c)) (scan_calls red prev)) = concat (map g (map (\<lambda>r. the (skip_priority (fst r))) red))"
  unfolding fst_scan_calls [symmetric, of red prev] by (simp add: o_def)

lemma calls_filter: "filter (\<lambda>c. P (fst c)) (scan_calls red prev) = [] \<longleftrightarrow> filter P (map (\<lambda>r. the (skip_priority (fst r))) red) = []"
  unfolding fst_scan_calls [symmetric, of red prev] by (simp add: filter_map o_def)

lemma klog_verdict:
  assumes pats: "klog_patterns rx fs fw = Some ps"
    and lines: "\<forall>l \<in> set log. fwts_log_remove_timestamp l \<noteq> None"
  shows "\<exists>outs. klog_test1 rx fs fw (Some log) = Some (FWTS_OK, outs) \<and>
     reports_of outs = concat (map (\<lambda>l. match_reports (first_match rx ps l)) (unique_lines log)) @
       (if \<exists>l \<in> set (unique_lines log). match_error fw (first_match rx ps l) then [] else [Passed])"
proof -
  let ?path = "data_path fw (case json_data_file fw of Some f \<Rightarrow> f | None \<Rightarrow> KLOG_DATA_JSON_FILE)"
  let ?table = "''firmware_error_warning_patterns''"
  obtain objs where j: "json_object_from_file fs ?path = Some objs"
    using pats by (auto simp: klog_patterns_def Let_def split: option.splits)
  obtain cs where f: "fs ?path = Some cs" using j by (auto simp: json_object_from_file_def split: option.splits)
  obtain tab where t: "json_object_object_get (Some objs) ?table = Some tab"
    using pats j by (auto simp: klog_patterns_def Let_def split: option.splits)
  obtain o1 where l: "load_patterns rx ?table UNIQUE_KLOG_LABEL tab 0 (nat (json_object_array_length (Some tab))) = (Some ps, o1)"
    using pats j t by (cases "load_patterns rx ?table UNIQUE_KLOG_LABEL tab 0 (nat (json_object_array_length (Some tab)))")
      (simp add: klog_patterns_def Let_def)
  have o1: "reports_of o1 = []"
    using load_patterns_no_report [of rx ?table UNIQUE_KLOG_LABEL tab 0 "nat (json_object_array_length (Some tab))"] l by simp
  obtain red where r: "reduce_log True log [] = Some red"
    using lines reduce_log_iff [of True log] by (cases "reduce_log True log []") (auto simp: strip_line_True)
  let ?adv = "''This is a bug picked up by the kernel, but as yet, the '' @
        ''firmware test suite has no diagnostic advice for this particular problem.''"
  let ?res = "fold (make_call (fwts_log_scan_patterns rx fw ps ''Kernel'' ?adv)) (scan_calls red []) (0, [])"
  have check: "fwts_klog_firmware_check rx fs fw (Some log) = Some (FWTS_OK, fst ?res, o1 @ snd ?res)"
    using f j t l log_scan_calls [OF r, of "fwts_klog_scan_patterns rx fw ps"]
    by (simp add: fwts_klog_firmware_check_def fwts_klog_check_def fwts_log_check_def check_log_def Let_def
        fwts_klog_scan_patterns_def case_prod_beta)
  have errors: "0 < fst ?res \<longleftrightarrow> (\<exists>l \<in> set (unique_lines log). match_error fw (first_match rx ps l))"
    using calls_filter [of "\<lambda>l. match_error fw (first_match rx ps l)" red "[]"]
    by (simp add: fold_patterns_result unique_lines_def r filter_empty_conv)
  have reps: "reports_of (snd ?res) = concat (map (\<lambda>l. match_reports (first_match rx ps l)) (unique_lines log))"
    using calls_concat [of "\<lambda>l. match_reports (first_match rx ps l)" red "[]"]
    by (simp add: fold_patterns_result unique_lines_def r)
  show ?thesis using check errors reps o1 by (simp add: klog_test1_def)
qed

section \<open>Counting with a plain pattern\<close>

lemma regex_find_plain:
  assumes "regex_plain rx" and "ere_atoms pattern = Some as"
    and "\<forall>l \<in> set log. fwts_log_remove_timestamp l \<noteq> None"
  shows "fwts_klog_regex_find rx (Some log) pattern =
    Some (int (length (filter (ere_search as) (unique_lines log))), [])"
proof -
  obtain red where r: "reduce_log True log [] = Some red"
    using assms(3) reduce_log_iff [of True log] by (cases "reduce_log True log []") (auto simp: strip_line_True)
  have call: "make_call (fwts_log_regex_find_callback rx pattern) c s =
      (if ere_search as (fst c) then fst s + 1 else fst s, snd s)" for c s
    using assms(1,2) by (cases s) (simp add: make_call_def fwts_log_regex_find_callback_def regex_plain_def)
  have "fold (make_call (fwts_log_regex_find_callback rx pattern)) calls s =
      (fst s + int (length (filter (\<lambda>c. ere_search as (fst c)) calls)), snd s)" for calls s
    by (induction calls arbitrary: s) (simp_all add: call)
  moreover have "length (filter (\<lambda>c. ere_search as (fst c)) (scan_calls red [])) = length (filter (ere_search as) (unique_lines log))"
    unfolding unique_lines_def r option.sel fst_scan_calls [symmetric, of red "[]"] by (simp add: filter_map o_def)
  ultimately show ?thesis
    using log_scan_calls [OF r, of "fwts_log_regex_find_callback rx pattern"]
    by (simp add: fwts_klog_regex_find_def fwts_log_regex_find_def)
qed

lemma ere_here_literal:
  "ere_here (map (\<lambda>d x. x = d) lit @ as) s \<longleftrightarrow> (\<exists>r. s = lit @ r \<and> ere_here as r)"
proof (induction lit arbitrary: s)
  case (Cons d lit)
  show ?case using Cons by (cases s) auto
qed simp

lemma ere_search_suffix: "ere_search as s \<longleftrightarrow> (\<exists>a b. s = a @ b \<and> ere_here as b)"
proof (induction s)
  case Nil
  then show ?case by (simp add: ere_search.simps)
next
  case (Cons c s)
  have "(\<exists>a b. c # s = a @ b \<and> ere_here as b) \<longleftrightarrow> ere_here as (c # s) \<or> (\<exists>a b. s = a @ b \<and> ere_here as b)"
    (is "?l \<longleftrightarrow> ?r")
  proof
    assume ?l
    then obtain a b where ab: "c # s = a @ b" "ere_here as b" by blast
    show ?r using ab by (cases a) auto
  next
    assume ?r
    then show ?l by (metis append_Cons append_Nil)
  qed
  then show ?case unfolding Cons.IH [symmetric] by (simp add: ere_search.simps [of as "c # s"])
qed

lemma ere_atoms_literal:
  "\<forall>c \<in> set lit. \<not> ere_special c \<Longrightarrow> ere_atoms (lit @ p) = map_option (\<lambda>as. map (\<lambda>d x. x = d) lit @ as) (ere_atoms p)"
proof (induction lit)
  case (Cons c lit)
  have c: "\<not> ere_special c" and "c \<noteq> CHR ''[''" using Cons.prems by (auto simp: ere_special_def)
  then have "ere_atoms ((c # lit) @ p) = map_option (\<lambda>as. (\<lambda>x. x = c) # as) (ere_atoms (lit @ p))"
    by (simp add: ere_atoms.simps(2) [of c "lit @ p"] del: ere_atoms.simps)
  moreover have "\<forall>c \<in> set lit. \<not> ere_special c" using Cons.prems by simp
  ultimately show ?case using Cons.IH by (simp add: option.map_comp o_def del: ere_atoms.simps)
qed (cases "ere_atoms p"; simp)

section \<open>Changes of a log\<close>

lemma lines_after_append: "l \<notin> set xs \<Longrightarrow> lines_after l (xs @ l # ys) = ys"
  by (induction xs) auto

lemma find_changes_added:
  assumes "old \<noteq> []" and "last old \<notin> set (butlast old)"
  shows "fwts_log_find_changes (Some old) (Some (old @ added)) = Some added"
proof -
  have split: "old @ added = butlast old @ last old # added" using assms(1) by simp
  have "lines_after (last old) (old @ added) = added"
    unfolding split by (rule lines_after_append [OF assms(2)])
  then show ?thesis using assms(1) by (simp add: fwts_log_find_changes_def)
qed

section \<open>Reading text files\<close>

lemma fgets_line_newline:
  "NL \<notin> set l \<Longrightarrow> length l + 1 < n \<Longrightarrow> fgets_line n (l @ NL # s) = l @ [NL]"
proof -
  assume l: "NL \<notin> set l" "length l + 1 < n"
  then have "takeWhile (\<lambda>c. c \<noteq> NL) (l @ NL # s) = l" by (intro takeWhile_stop) auto
  then show ?thesis using l(2) by (simp add: fgets_line_def)
qed

lemma fgets_lines_newline:
  assumes "NL \<notin> set l" and "length l + 1 < n"
  shows "fgets_lines n (l @ NL # s) = (l @ [NL]) # fgets_lines n s"
proof -
  have "\<not> (l @ NL # s = [] \<or> n \<le> 1)" using assms(2) by auto
  then have "fgets_lines n (l @ NL # s) =
      fgets_line n (l @ NL # s) # fgets_lines n (drop (length (fgets_line n (l @ NL # s))) (l @ NL # s))"
    by (subst fgets_lines.simps) (simp add: Let_def)
  then show ?thesis unfolding fgets_line_newline [OF assms] by simp
qed

lemma fgets_lines_last:
  assumes "NL \<notin> set l" and "length l + 1 < n" and "l \<noteq> []"
  shows "fgets_lines n l = [l]"
proof -
  have tw: "takeWhile (\<lambda>c. c \<noteq> NL) l = l" using assms(1) by (auto simp: takeWhile_eq_all_conv)
  have w: "fgets_line n l = l" using assms(1,2) unfolding fgets_line_def tw by simp
  have "\<not> (l = [] \<or> n \<le> 1)" using assms(2,3) by auto
  then have "fgets_lines n l = fgets_line n l # fgets_lines n (drop (length (fgets_line n l)) l)"
    by (subst fgets_lines.simps) (simp add: Let_def)
  then show ?thesis unfolding w by (simp add: fgets_lines.simps)
qed

lemma file_read_lines:
  assumes "\<forall>l \<in> set ls. NL \<notin> set l \<and> length l < 8191"
  shows "fwts_file_read (concat (map (\<lambda>l. l @ [NL]) ls) @ s) = ls @ fwts_file_read s"
  using assms
proof (induction ls)
  case (Cons l ls)
  have "fgets_lines 8192 (l @ NL # (concat (map (\<lambda>l. l @ [NL]) ls) @ s)) =
      (l @ [NL]) # fgets_lines 8192 (concat (map (\<lambda>l. l @ [NL]) ls) @ s)"
    using Cons.prems by (intro fgets_lines_newline) auto
  with Cons show ?case by (simp add: fwts_file_read_def)
qed simp

lemma file_read_last: "NL \<notin> set l \<Longrightarrow> length l < 8191 \<Longrightarrow> l \<noteq> [] \<Longrightarrow> fwts_file_read l = [butlast l]"
  by (simp add: fwts_file_read_def fgets_lines_last butlast_conv_take)

lemma file_read_Nil [simp]: "fwts_file_read [] = []"
  by (simp add: fwts_file_read_def fgets_lines.simps)

end
