(* ===== verification/Fwts_Mtrr.thy ===== *)
theory Fwts_Mtrr
  imports Fwts_Klog Fwts_Summary
begin

text \<open>
  The MTRR test, src/src/bios/mtrr/mtrr.c: the memory type range registers of /proc/mtrr, the
  ranges of /proc/iomem, and the cache types each range must and must not have.

  Files of the kernel are the lists of lines fgets() returns (None: they cannot be opened), the
  model specific registers a function (None: the read fails), the configuration space of a
  PCI device the bytes read() returns. The static variables of the file are a record. A failing
  read of the default type may clear it; the only caller overwrites it then. Memory exhaustion
  is left out.
\<close>

section \<open>Types and registers\<close>

definition UNCACHED :: u32 where [simp]: "UNCACHED = 0x0001"
definition WRITE_BACK :: u32 where [simp]: "WRITE_BACK = 0x0002"
definition WRITE_COMBINING :: u32 where [simp]: "WRITE_COMBINING = 0x0004"
definition WRITE_THROUGH :: u32 where [simp]: "WRITE_THROUGH = 0x0008"
definition WRITE_PROTECT :: u32 where [simp]: "WRITE_PROTECT = 0x0010"
definition DEFAULT :: u32 where [simp]: "DEFAULT = 0x0020"
definition DISABLED :: u32 where [simp]: "DISABLED = 0x0040"
definition UNKNOWN :: u32 where [simp]: "UNKNOWN = 0x0080"

definition MTRR_DEF_TYPE_MSR :: u32 where [simp]: "MTRR_DEF_TYPE_MSR = 0x2FF"
definition AMD_SYS_CFG_MSR :: u32 where [simp]: "AMD_SYS_CFG_MSR = 0xC0010010"
definition AMD_TOM2_MSR :: u32 where [simp]: "AMD_TOM2_MSR = 0xC001001D"

definition MTRR_ENABLE :: u64 where [simp]: "MTRR_ENABLE = 0x800"
definition FIXED_MTRR_ENABLE :: u64 where [simp]: "FIXED_MTRR_ENABLE = 0x400"

record mtrr_entry =
  me_reg :: u8
  me_start :: u64
  me_end :: u64
  me_size :: u64
  me_type :: u8

record mtrr_state =
  mtrr_list :: "mtrr_entry list"
  mtrr_default :: u64
  amd_tom2_addr :: u64
  amd_Tom2ForceMemTypeWB :: bool
  mtrr_klog :: "cstr list option"
  mtrr_vendor :: "cstr option"

record mtrr_env =
  env_proc_mtrr :: "cstr list option"
  env_proc_iomem :: "cstr list option"
  env_mtrr_access :: bool
  env_readmsr :: "u32 \<Rightarrow> u64 option"
  env_pci_config :: "cstr \<Rightarrow> bytes option"
  env_klog :: "cstr list option"
  env_cpu_vendor :: "cstr option option"
  env_regex :: regex_lib

definition mtrr_state_init :: mtrr_state where
  "mtrr_state_init = \<lparr>mtrr_list = [], mtrr_default = 0, amd_tom2_addr = 0,
                      amd_Tom2ForceMemTypeWB = False, mtrr_klog = None, mtrr_vendor = None\<rparr>"

definition has_bits :: "'a::len word \<Rightarrow> 'a word \<Rightarrow> bool" where
  "has_bits w m \<longleftrightarrow> w AND m \<noteq> 0"

definition cache_to_string :: "u64 \<Rightarrow> u32 \<Rightarrow> cstr" where
  "cache_to_string dflt ty =
     (if has_bits ty UNCACHED \<or> ty = 0 then '' Uncached'' else []) @
     (if has_bits ty WRITE_BACK then '' Write-Back'' else []) @
     (if has_bits ty WRITE_COMBINING then '' Write-Combining'' else []) @
     (if has_bits ty WRITE_THROUGH then '' Write-Through'' else []) @
     (if has_bits ty WRITE_PROTECT then '' Write-Protect'' else []) @
     (if has_bits ty DEFAULT then
        '' Default'' @
        (if has_bits dflt (ucast UNCACHED) then '' (Uncached)'' else []) @
        (if has_bits dflt (ucast WRITE_BACK) then '' (Write-Back)'' else []) @
        (if has_bits dflt (ucast WRITE_COMBINING) then '' (Write-Combining)'' else []) @
        (if has_bits dflt (ucast WRITE_THROUGH) then '' (Write-Through)'' else []) @
        (if has_bits dflt (ucast WRITE_PROTECT) then '' (Write-Protect)'' else []) @
        (if has_bits dflt (ucast UNKNOWN) then '' (Unknown)'' else [])
      else []) @
     (if has_bits ty UNKNOWN then '' Unknown'' else [])"

section \<open>/proc/mtrr\<close>

definition mtrr_type_of_line :: "cstr \<Rightarrow> u32" where
  "mtrr_type_of_line line =
     (if c_strstr line ''write-back'' \<noteq> None then WRITE_BACK
      else if c_strstr line ''uncachable'' \<noteq> None then UNCACHED
      else if c_strstr line ''write-through'' \<noteq> None then WRITE_THROUGH
      else if c_strstr line ''write-combining'' \<noteq> None then WRITE_COMBINING
      else if c_strstr line ''write-protect'' \<noteq> None then WRITE_PROTECT
      else UNKNOWN)"

definition mtrr_line :: "cstr \<Rightarrow> mtrr_entry option" where
  "mtrr_line text =
     (let line = map tolower text in
      if \<not> is_prefix ''reg'' line then None
      else
        (let reg = ucast (fst (c_strtoull 10 (drop 3 line))) in
         case c_strstr line ''base=0x'' of None \<Rightarrow> None
         | Some ptr1 \<Rightarrow>
             (let start = fst (c_strtoull 16 (drop 5 ptr1)) in
              case c_strstr line ''size='' of None \<Rightarrow> None
              | Some ptr1 \<Rightarrow>
                  (let (size, ptr2) = c_strtoull 10 (drop 5 ptr1);
                       size = (if is_prefix ''m'' ptr2 then size * (1024 * 1024) else size);
                       size = (if is_prefix ''k'' ptr2 then size * 1024 else size)
                   in Some \<lparr>me_reg = reg, me_start = start, me_end = start + size - 1, me_size = size,
                            me_type = ucast (mtrr_type_of_line line)\<rparr>))))"

definition get_mtrrs :: "mtrr_env \<Rightarrow> mtrr_state \<Rightarrow> int \<times> mtrr_state" where
  "get_mtrrs env s =
     (case env_proc_mtrr env of
        None \<Rightarrow> (FWTS_ERROR, s\<lparr>mtrr_list := []\<rparr>)
      | Some ls \<Rightarrow> (FWTS_OK, s\<lparr>mtrr_list := List.map_filter mtrr_line ls\<rparr>))"

section \<open>The default type\<close>

definition amd_or_hygon :: "cstr \<Rightarrow> bool" where
  "amd_or_hygon vendor \<longleftrightarrow> c_strstr vendor ''AMD'' \<noteq> None \<or> c_strstr vendor ''Hygon'' \<noteq> None"

definition get_amd_defaults :: "mtrr_env \<Rightarrow> mtrr_state \<Rightarrow> mtrr_state" where
  "get_amd_defaults env s =
     (let s = (case env_readmsr env AMD_SYS_CFG_MSR of
                 Some conf \<Rightarrow> if has_bits conf 0x200000 then s\<lparr>amd_Tom2ForceMemTypeWB := True\<rparr> else s
               | None \<Rightarrow> s)
      in case env_readmsr env AMD_TOM2_MSR of
           Some a \<Rightarrow> s\<lparr>amd_tom2_addr := a\<rparr>
         | None \<Rightarrow> s\<lparr>amd_tom2_addr := 0x100000000\<rparr>)"

definition default_type :: "u64 \<Rightarrow> u32" where
  "default_type msr =
     (let t = msr AND 0xFF in
      if t = 0 then UNCACHED
      else if t = 1 then WRITE_COMBINING
      else if t = 4 then WRITE_THROUGH
      else if t = 5 then WRITE_PROTECT
      else if t = 6 then WRITE_BACK
      else UNKNOWN)"

text \<open>None: the vendor is a null pointer, which strstr() is called with.\<close>

definition get_default_mtrr :: "mtrr_env \<Rightarrow> mtrr_state \<Rightarrow> (int \<times> mtrr_state) option" where
  "get_default_mtrr env s =
     (case mtrr_vendor s of
        None \<Rightarrow> None
      | Some vendor \<Rightarrow>
          (let s = (if amd_or_hygon vendor then get_amd_defaults env s else s)
           in case env_readmsr env MTRR_DEF_TYPE_MSR of
                Some v \<Rightarrow> Some (FWTS_OK, s\<lparr>mtrr_default := ucast (default_type v)\<rparr>)
              | None \<Rightarrow> Some (FWTS_ERROR, s)))"

section \<open>The types of a range\<close>

definition overlap_types :: "mtrr_entry list \<Rightarrow> u64 \<Rightarrow> u64 \<Rightarrow> u32" where
  "overlap_types entries start e =
     fold (\<lambda>x ty. if start \<le> me_end x \<and> me_start x \<le> e then ty OR ucast (me_type x) else ty) entries 0"

text \<open>
  The loop at the label restart: \<open>rest\<close> is what is left of the list in the current round.
\<close>

function uncovered_end :: "mtrr_entry list \<Rightarrow> u64 \<Rightarrow> mtrr_entry list \<Rightarrow> u64 \<Rightarrow> u64" where
  "uncovered_end entries start [] e = e"
| "uncovered_end entries start (x # rest) e =
     (if e \<le> me_end x \<and> me_start x < e then
        (let e' = (if me_start x = 0 then 0 else me_start x - 1) in
         if e' < start then uncovered_end entries start rest start
         else uncovered_end entries start entries e')
      else uncovered_end entries start rest e)"
  by pat_completeness auto
termination
proof (relation "measures [\<lambda>(entries, start, rest, e). unat e - unat start, \<lambda>(entries, start, rest, e). length rest]", goal_cases)
  case (4 entries start x rest e)
  then show ?case by simp
next
  case (3 entries start x rest e e')
  have "e' < e"
  proof (cases "me_start x = 0")
    case False
    then have "me_start x - 1 < me_start x" by (simp add: word_less_nat_alt unat_minus_one unat_gt_0)
    then have "me_start x - 1 < e" using 3(1) by (auto intro: less_trans)
    then show ?thesis using 3(2) False by simp
  qed (use 3(1,2) in auto)
  moreover have "start \<le> e'" using 3(3) by simp
  ultimately have "unat e' - unat start < unat e - unat start"
    by (simp add: word_less_nat_alt word_le_nat_alt diff_less_mono)
  then show ?case by simp
qed auto

definition cache_types :: "mtrr_state \<Rightarrow> u64 \<Rightarrow> u64 \<Rightarrow> u32" where
  "cache_types s start e =
     (let ty = overlap_types (mtrr_list s) start e in
      if ty = 0 \<and> amd_Tom2ForceMemTypeWB s \<and> 0x100000000 \<le> start \<and> start \<le> amd_tom2_addr s then WRITE_BACK
      else
        (let e = uncovered_end (mtrr_list s) start (mtrr_list s) e;
             ty = (if start \<noteq> e then ty OR DEFAULT else ty)
         in if has_bits ty DEFAULT \<and> mtrr_default s \<noteq> ucast UNCACHED
            then (ty AND NOT DEFAULT) OR ucast (mtrr_default s) else ty))"

section \<open>What a range must and must not be\<close>

definition FWTS_PCI_CONFIG_HEADER_TYPE :: nat where [simp]: "FWTS_PCI_CONFIG_HEADER_TYPE = 0x0e"

definition le_word :: "bytes \<Rightarrow> 'a::len word" where
  "le_word bs = foldr (\<lambda>b v. push_bit 8 v OR ucast b) bs 0"

definition pci_bar :: "bytes \<Rightarrow> nat \<Rightarrow> u32" where
  "pci_bar config i = le_word (take 4 (drop (0x10 + 4 * i) config))"

function bar_loop :: "bytes \<Rightarrow> u64 \<Rightarrow> nat \<Rightarrow> nat \<Rightarrow> bool" where
  "bar_loop config address bars i =
     (if bars \<le> i then False
      else
        (let bar = pci_bar config i;
             kind = drop_bit 1 bar AND 0x03;
             is_prefetchable = has_bits bar 0x08
         in if has_bits bar 1 then bar_loop config address bars (i + 1)
            else if kind = 1 then
              (if ucast (bar AND 0xfff0) = address then is_prefetchable else bar_loop config address bars (i + 1))
            else if kind = 0 then
              (if ucast (bar AND 0xfffffff0) = address then is_prefetchable else bar_loop config address bars (i + 1))
            else if kind = 2 then
              (if ucast (bar AND 0xfffffff0) OR push_bit 32 (ucast (pci_bar config (i + 1))) = address
               then is_prefetchable else bar_loop config address bars (i + 2))
            else bar_loop config address bars (i + 1)))"
  by pat_completeness auto
termination
  by (relation "measure (\<lambda>(config, address, bars, i). bars - i)") auto

declare bar_loop.simps [simp del]

definition check_prefetchable :: "mtrr_env \<Rightarrow> cstr \<Rightarrow> u64 \<Rightarrow> int \<times> bool \<times> test_output list" where
  "check_prefetchable env device address =
     (case env_pci_config env device of
        None \<Rightarrow> (FWTS_ERROR, False, [Err (''Cannot read PCI config for device '' @ device @ [NL])])
      | Some config \<Rightarrow>
          if length config < 64 then (FWTS_OK, False, [])
          else
            (let header = config ! FWTS_PCI_CONFIG_HEADER_TYPE AND 0x7f in
             if header = 0 then (FWTS_OK, bar_loop config address 6 0, [])
             else if header = 1 then (FWTS_OK, bar_loop config address 2 0, [])
             else (FWTS_OK, False, [])))"

text \<open>The return code, the types the range must have, those it must not have, and the output.\<close>

definition guess_cache_type :: "mtrr_env \<Rightarrow> cstr \<Rightarrow> u64 \<Rightarrow> int \<times> u32 \<times> u32 \<times> test_output list" where
  "guess_cache_type env str address =
     (if c_strstr str ''System RAM'' \<noteq> None then (FWTS_OK, WRITE_BACK, NOT WRITE_BACK, [])
      else if c_strstr str ''0000:'' \<noteq> None then
        (case check_prefetchable env str address of
           (ret, pref, outs) \<Rightarrow>
             if ret \<noteq> FWTS_OK then (FWTS_ERROR, 0, 0, outs)
             else if pref then (FWTS_OK, 0, WRITE_BACK, outs)
             else (FWTS_OK, UNCACHED, NOT UNCACHED AND NOT DEFAULT, outs))
      else (FWTS_OK, 0, 0, []))"

definition multi_types_check :: "u32 \<Rightarrow> u32 \<times> test_output list" where
  "multi_types_check ty =
     (let n_types = length (filter (\<lambda>i. has_bits ty (push_bit i 1)) [0..<5]) in
      if 2 \<le> n_types then
        (if has_bits ty UNCACHED then
           (UNCACHED,
            [Info (''Detected more than one type has been set. '' @
                   ''From Intel Software Developer Manual 11.11.4.1 MTRR Precedences, '' @
                   ''If two or more variable memory ranges match and one of the memory '' @
                   ''types is UC, the UC memory type used. FWTS will check with type '' @
                   ''UNCACHED here.'')])
         else if has_bits ty WRITE_THROUGH \<and> has_bits ty WRITE_BACK then
           (WRITE_THROUGH,
            [Info (''Detected more than one type has been set. '' @
                   ''From Intel Software Developer Manual 11.11.4.1 MTRR Precedences, '' @
                   ''If two or more variable memory ranges match and the memory types '' @
                   ''are WT and WB, the WT memory type is used. FWTS will check with type '' @
                   ''WRITE_THROUGH here.'')])
         else
           (ty, [Rep Warning (''Detected more than one type has been set. The overlaps not defined, '' @
                   ''processor behavior is undefined.'')]))
      else (ty, []))"

section \<open>/proc/iomem\<close>

definition c_strchr :: "cstr \<Rightarrow> char \<Rightarrow> cstr option" where
  "c_strchr s ch = (case dropWhile (\<lambda>c. c \<noteq> ch) s of [] \<Rightarrow> None | c # cs \<Rightarrow> Some (c # cs))"

text \<open>
  One line: the depth of PCI buses after it, and the range to check with its name. The end of
  the string is no blank, so the indentation is looked at within the line only.
\<close>

definition pci_depth :: "nat \<Rightarrow> cstr \<Rightarrow> nat" where
  "pci_depth depth line =
     (let i = length (takeWhile (\<lambda>c. c = CHR '' '') line) in if i < depth * 2 then i div 2 else depth)"

definition iomem_line :: "nat \<Rightarrow> cstr \<Rightarrow> nat \<times> (u64 \<times> u64 \<times> cstr) option" where
  "iomem_line depth text =
     (let buffer = fwts_chop_newline text in
      if c_strstr buffer '': PCI Bus '' \<noteq> None then (depth + 1, None)
      else
        (let depth = pci_depth depth buffer;
             c = drop (depth * 2) buffer
         in (depth,
             if is_prefix '' '' c then None
             else
               (let start = fst (c_strtoull 16 c) in
                case c_strchr c CHR ''-'' of None \<Rightarrow> None
                | Some c2 \<Rightarrow>
                    (let e = fst (c_strtoull 16 (drop 1 c2)) in
                     case c_strstr c '' : '' of None \<Rightarrow> None
                     | Some c2 \<Rightarrow>
                         if 640 * 1024 \<le> start \<and> e \<le> 1024 * 1024 then None
                         else Some (start, e, drop 3 c2))))))"

definition range_text :: "u64 \<Rightarrow> u64 \<Rightarrow> cstr \<Rightarrow> cstr" where
  "range_text start e name =
     ''Memory range 0x'' @ show_hex (unat start) @ '' to 0x'' @ show_hex (unat e) @ '' ('' @ name @ '') ''"

text \<open>The checks of one range: the return code, the number of failures and the output.\<close>

definition range_check :: "mtrr_env \<Rightarrow> mtrr_state \<Rightarrow> u64 \<Rightarrow> u64 \<Rightarrow> cstr \<Rightarrow> int \<times> nat \<times> test_output list" where
  "range_check env s start e name =
     (let (ty, outs1) = multi_types_check (cache_types s start e);
          (ret, type_must, type_mustnot, outs2) = guess_cache_type env name start
      in if ret \<noteq> FWTS_OK then (FWTS_ERROR, 0, outs1 @ outs2 @ [Rep Skipped ''Could not guess cache type.''])
         else
           (let bad = has_bits ty type_mustnot;
                outs3 = (if bad then
                   [Rep (Failed LOG_LEVEL_CRITICAL ''MTRRIncorrectAttr'')
                     (range_text start e name @ ''has incorrect attribute'' @
                      cache_to_string (mtrr_default s) (ty AND type_mustnot) @ ''.'')] else []);
                skiperror = (bad \<and> type_must = UNCACHED);
                ty = (if has_bits ty DEFAULT then (ty OR UNCACHED) AND NOT DEFAULT else ty);
                lack = (ty AND type_must \<noteq> type_must \<and> \<not> skiperror);
                outs4 = (if lack then
                   [Rep (Failed LOG_LEVEL_MEDIUM ''MTRRLackingAttr'')
                     (range_text start e name @ ''is lacking attribute'' @
                      cache_to_string (mtrr_default s) ((ty AND type_must) XOR type_must) @ ''.'')] else [])
            in (FWTS_OK, of_bool bad + of_bool lack, outs1 @ outs2 @ outs3 @ outs4)))"

fun validate_loop :: "mtrr_env \<Rightarrow> mtrr_state \<Rightarrow> cstr list \<Rightarrow> nat \<Rightarrow> nat \<Rightarrow> int \<times> test_output list" where
  "validate_loop env s [] depth failures =
     (FWTS_OK, if failures = 0 then [Rep Passed ''Memory ranges seem to have correct attributes.''] else [])"
| "validate_loop env s (line # lines) depth failures =
     (case iomem_line depth line of
        (depth, None) \<Rightarrow> validate_loop env s lines depth failures
      | (depth, Some (start, e, name)) \<Rightarrow>
          (case range_check env s start e name of
             (ret, n, outs) \<Rightarrow>
               if ret \<noteq> FWTS_OK then (FWTS_ERROR, outs)
               else (let (ret, outs') = validate_loop env s lines depth (failures + n) in (ret, outs @ outs'))))"

definition validate_iomem :: "mtrr_env \<Rightarrow> mtrr_state \<Rightarrow> (int \<times> test_output list \<times> mtrr_state) option" where
  "validate_iomem env s =
     (case env_proc_iomem env of
        None \<Rightarrow> Some (FWTS_ERROR, [], s)
      | Some lines \<Rightarrow>
          (case get_default_mtrr env s of
             None \<Rightarrow> None
           | Some (ret, s) \<Rightarrow>
               (let s = (if ret \<noteq> FWTS_OK then s\<lparr>mtrr_default := ucast UNKNOWN\<rparr> else s);
                    (ret, outs) = validate_loop env s lines 0 0
                in Some (ret, outs, s))))"

section \<open>The tests\<close>

definition mtrr_entry_text :: "mtrr_state \<Rightarrow> mtrr_entry \<Rightarrow> cstr" where
  "mtrr_entry_text s x =
     (if has_bits (ucast (me_type x)) DISABLED then ''Reg '' @ show_nat (unat (me_reg x)) @ '': disabled''
      else
        (let big = 1024 * 1024 \<le> me_size x in
         ''Reg '' @ show_nat (unat (me_reg x)) @ '': 0x'' @ show_hex_pad 16 (unat (me_start x)) @ '' - 0x'' @
         show_hex_pad 16 (unat (me_end x)) @ '' ('' @
         pad_left 6 (show_nat (unat (if big then me_size x div (1024 * 1024) else me_size x div 1024))) @ '' '' @
         (if big then ''M'' else ''K'') @ ''B)  '' @ cache_to_string (mtrr_default s) (ucast (me_type x))))"

definition do_mtrr_resource :: "mtrr_state \<Rightarrow> test_output list" where
  "do_mtrr_resource s =
     [Info_verbatim ''MTRR overview'', Info_verbatim ''-------------''] @
     map (\<lambda>x. Info_verbatim (mtrr_entry_text s x)) (mtrr_list s) @ [Nl]"

definition mtrr_init :: "mtrr_env \<Rightarrow> mtrr_state \<Rightarrow> int \<times> test_output list \<times> mtrr_state" where
  "mtrr_init env s =
     (case get_mtrrs env s of
        (ret, s) \<Rightarrow>
          if ret \<noteq> FWTS_OK then (FWTS_ERROR, [Err ''Failed to read /proc/mtrr.''], s)
          else if \<not> env_mtrr_access env then (FWTS_ERROR, [], s)
          else
            (case env_klog env of
               None \<Rightarrow> (FWTS_ERROR, [Err ''Failed to read kernel log.''], s\<lparr>mtrr_klog := None\<rparr>)
             | Some k \<Rightarrow>
                 (let s = s\<lparr>mtrr_klog := Some k\<rparr> in
                  case env_cpu_vendor env of
                    None \<Rightarrow> (FWTS_ERROR, [Err ''Cannot get CPU info''], s)
                  | Some v \<Rightarrow> (let s = s\<lparr>mtrr_vendor := v\<rparr> in (FWTS_OK, do_mtrr_resource s, s)))))"

definition mtrr_test0 :: "mtrr_env \<Rightarrow> int \<times> test_output list" where
  "mtrr_test0 env =
     (case env_readmsr env MTRR_DEF_TYPE_MSR of
        None \<Rightarrow> (FWTS_ERROR, [Rep (Failed LOG_LEVEL_CRITICAL ''MTRRMSRDefaultNotAvailable'')
                  ''MTRR_DEF_TYPE_MSR cannot be read from CPU.''])
      | Some msr \<Rightarrow>
          (FWTS_OK,
           [if has_bits msr MTRR_ENABLE
            then Rep Passed ''MTRRs enabled flag is set in MTRR_DEF_TYPE MSR correctly.''
            else Rep (Failed LOG_LEVEL_CRITICAL ''MTRRDisabled'')
              ''MTRRs enabled flag is clear in MTRR_DEF_TYPE MSR and all MTRRs are disabled '',
            if has_bits msr FIXED_MTRR_ENABLE
            then Rep Passed ''fixed MTRRs enabled flag is set in MTRR_DEF_TYPE MSR correctly.''
            else Rep (Failed LOG_LEVEL_CRITICAL ''MTRRFixedRangeDisabled'')
              ''Fixed MTRRs enabled flag is clear in MTRR_DEF_TYPE MSR and all Fixed-range MTRRs are disabled '']))"

definition mtrr_test1 :: "mtrr_env \<Rightarrow> mtrr_state \<Rightarrow> (int \<times> test_output list \<times> mtrr_state) option" where
  "mtrr_test1 env s = validate_iomem env s"

text \<open>One search of the kernel log: whether something was found, and the output, with a text if so.\<close>

definition klog_finds :: "regex_lib \<Rightarrow> cstr list \<Rightarrow> cstr \<Rightarrow> test_output list \<Rightarrow> (bool \<times> test_output list) option" where
  "klog_finds rx k pattern found =
     (case fwts_klog_regex_find rx (Some k) pattern of
        None \<Rightarrow> None
      | Some (n, outs) \<Rightarrow> Some (0 < n, outs @ (if 0 < n then found else [])))"

definition mtrr_test2 :: "mtrr_env \<Rightarrow> mtrr_state \<Rightarrow> (int \<times> test_output list) option" where
  "mtrr_test2 env s =
     (case mtrr_klog s of
        None \<Rightarrow> Some (FWTS_OK, [Err ''No boot dmesg found.''])
      | Some k \<Rightarrow>
          (case (klog_finds (env_regex env) k ''mtrr: your CPUs had inconsistent fixed MTRR settings''
                   [Info ''Detected CPUs with inconsistent fixed MTRR settings which the kernel fixed.''],
                 klog_finds (env_regex env) k ''mtrr: your CPUs had inconsistent variable MTRR settings''
                   [Info ''Detected CPUs with inconsistent variable MTRR settings which the kernel fixed.''],
                 klog_finds (env_regex env) k ''mtrr: your CPUs had inconsistent MTRRdefType''
                   [Info ''Detected CPUs with inconsistent variable MTRR settings which the kernel fixed.'']) of
             (Some (f1, o1), Some (f2, o2), Some (f3, o3)) \<Rightarrow>
               Some (FWTS_OK, o1 @ o2 @ o3 @
                 [if f1 \<or> f2 \<or> f3
                  then Rep (Failed LOG_LEVEL_MEDIUM ''MTRRCPUsMisconfigured'')
                    (''It is probable that the BIOS does not set up '' @
                     ''all the CPUs correctly and the kernel has now '' @
                     ''corrected this misconfiguration.'')
                  else Rep Passed ''All processors have the a consistent MTRR setup.''])
           | _ \<Rightarrow> None))"

definition mtrr_fix_dram_text :: cstr where
  "mtrr_fix_dram_text =
     ''The BIOS is expected to clear MtrrFixDramModEn bit, see for example '' @
     [CHR 0x22] @ ''BIOS and Kernel Developer'' @ [CHR 0x27] @ ''s Guide for the AMD Athlon 64 and AMD '' @
     ''Opteron Processors'' @ [CHR 0x22] @ '' (26094 Rev. 3.30 February 2006), section '' @
     [CHR 0x22] @ ''13.2.1.2 SYSCFG Register'' @ [CHR 0x22] @ '': '' @ [CHR 0x22] @
     ''The MtrrFixDramModEn bit should be set '' @
     ''to 1 during BIOS initialization of the fixed MTRRs, then cleared to '' @
     ''0 for operation.'' @ [CHR 0x22]"

definition SYSCFG_PATTERN :: cstr where
  "SYSCFG_PATTERN = ''SYSCFG[MtrrFixDramModEn] not cleared by BIOS, clearing this bit''"

definition mtrr_test3 :: "mtrr_env \<Rightarrow> mtrr_state \<Rightarrow> (int \<times> test_output list) option" where
  "mtrr_test3 env s =
     (case mtrr_vendor s of
        None \<Rightarrow> Some (FWTS_ERROR, [Err ''Cannot get CPU vendor_id''])
      | Some vendor \<Rightarrow>
          if amd_or_hygon vendor then
            (case mtrr_klog s of
               None \<Rightarrow> Some (FWTS_OK, [])
             | Some k \<Rightarrow>
                 (case klog_finds (env_regex env) k SYSCFG_PATTERN [] of
                    None \<Rightarrow> None
                  | Some (found, outs) \<Rightarrow>
                      Some (FWTS_OK, outs @
                        [if found then Rep (Failed LOG_LEVEL_MEDIUM ''MTRRFixDramModEnBit'') mtrr_fix_dram_text
                         else Rep Passed ''No MtrrFixDramModEn error detected.''])))
          else Some (FWTS_OK, [Rep Skipped ''CPU is not an AMD, cannot test.'']))"

section \<open>The loop over the registers\<close>

definition covered :: "mtrr_entry list \<Rightarrow> u64 \<Rightarrow> bool" where
  "covered entries a \<longleftrightarrow> (\<exists>x \<in> set entries. me_start x \<le> a \<and> a \<le> me_end x)"

text \<open>Registers and ranges are pairs of an even first and an odd last address; pages are.\<close>

definition aligned :: "u64 \<Rightarrow> u64 \<Rightarrow> bool" where
  "aligned a b \<longleftrightarrow> \<not> bit a 0 \<and> bit b 0"

lemma below_start: "me_start x < start \<Longrightarrow> (if me_start x = 0 then 0 else me_start x - 1) < (start :: u64)"
proof (cases "me_start x = 0")
  case False
  assume a: "me_start x < start"
  have "me_start x - 1 < me_start x" using False by (simp add: word_less_nat_alt unat_minus_one unat_gt_0)
  then show ?thesis using a False by (auto intro: less_trans)
qed simp

lemma uncovered_end_start: "uncovered_end entries start rest start = start"
proof (induction rest)
  case (Cons x rest)
  have "(if me_start x = 0 then 0 else me_start x - 1) < start" if "me_start x < start"
    by (rule below_start [OF that])
  with Cons show ?case by (auto simp: Let_def)
qed simp

lemma even_minus_one: "\<not> bit w 0 \<Longrightarrow> bit (w - 1 :: u64) 0"
  by (simp add: bit_0)

lemma minus_one_less:
  assumes "w \<noteq> (0 :: u64)"
  shows "w - 1 < a \<longleftrightarrow> w \<le> a" and "a \<le> w - 1 \<longleftrightarrow> a < w"
proof -
  have "0 < unat w" using assms by (simp add: unat_gt_0)
  then show "w - 1 < a \<longleftrightarrow> w \<le> a" and "a \<le> w - 1 \<longleftrightarrow> a < w"
    using assms by (auto simp: word_less_nat_alt word_le_nat_alt unat_minus_one)
qed

lemma uncovered_end_full:
  assumes "\<forall>x \<in> set entries. aligned (me_start x) (me_end x)"
  shows "set rest \<subseteq> set entries \<Longrightarrow> aligned start e \<Longrightarrow> start \<le> e \<Longrightarrow>
    \<forall>x \<in> set entries - set rest. \<not> (e \<le> me_end x \<and> me_start x < e) \<Longrightarrow>
    uncovered_end entries start rest e = start \<longleftrightarrow> (\<forall>a. start \<le> a \<and> a \<le> e \<longrightarrow> covered entries a)"
  using assms
proof (induction entries start rest e rule: uncovered_end.induct)
  case (1 entries start e)
  have "e \<noteq> start" using "1.prems" by (auto simp: aligned_def)
  moreover have "\<not> covered entries e"
  proof
    assume "covered entries e"
    then obtain x where x: "x \<in> set entries" "me_start x \<le> e" "e \<le> me_end x" by (auto simp: covered_def)
    then have "me_start x = e" using "1.prems" by auto
    then show False using x "1.prems" by (auto simp: aligned_def)
  qed
  ultimately show ?case using "1.prems" by auto
next
  case (2 entries start x rest e)
  define e' where "e' = (if me_start x = 0 then 0 else me_start x - 1)"
  have x: "x \<in> set entries" using "2.prems" by simp
  show ?case
  proof (cases "e \<le> me_end x \<and> me_start x < e")
    case m: True
    show ?thesis
    proof (cases "e' < start \<or> me_start x = 0")
      case True
      have "uncovered_end entries start (x # rest) e = start"
      proof (cases "e' < start")
        case False
        with True have "me_start x = 0" by simp
        moreover from this False have "\<not> 0 < start" by (simp add: e'_def)
        moreover from this have "start = 0" by (meson word_neq_0_conv)
        ultimately show ?thesis using m by (simp add: uncovered_end_start)
      next
        case True
        then show ?thesis using m by (simp add: uncovered_end_start flip: e'_def)
      qed
      moreover have "me_start x \<le> start" using True by (auto simp: e'_def minus_one_less split: if_splits)
      then have "\<forall>a. start \<le> a \<and> a \<le> e \<longrightarrow> covered entries a"
        using m x by (auto simp: covered_def intro!: bexI [of _ x])
      ultimately show ?thesis by simp
    next
      case False
      then have e': "e' = me_start x - 1" "me_start x \<noteq> 0" "start \<le> e'" by (auto simp: e'_def)
      have "uncovered_end entries start (x # rest) e = uncovered_end entries start entries e'"
        using m False e' by (simp add: Let_def)
      moreover have "aligned start e'"
        using "2.prems" x e' even_minus_one [of "me_start x"] by (auto simp: aligned_def)
      moreover have "(\<forall>a. start \<le> a \<and> a \<le> e' \<longrightarrow> covered entries a) \<longleftrightarrow> (\<forall>a. start \<le> a \<and> a \<le> e \<longrightarrow> covered entries a)"
      proof -
        have "covered entries a" if "e' < a" "a \<le> e" for a
          using that m x e' by (auto simp: covered_def minus_one_less intro!: bexI [of _ x])
        moreover have "e' < e" using m e' by (simp add: minus_one_less less_imp_le)
        then have "e' \<le> e" by simp
        ultimately show ?thesis by (meson not_less order.trans)
      qed
      ultimately show ?thesis using "2.IH"(2) [OF m e'_def] False e'(3) "2.prems" by simp
    qed
  next
    case False
    then have "uncovered_end entries start (x # rest) e = uncovered_end entries start rest e"
      by (simp only: uncovered_end.simps(2) if_False)
    then show ?thesis using "2.IH"(3) [OF False] "2.prems" False by auto
  qed
qed

section \<open>The types of a range\<close>

lemma overlap_no_default:
  assumes "\<forall>x \<in> set entries. \<not> has_bits (ucast (me_type x)) DEFAULT"
  shows "\<not> has_bits (overlap_types entries start e) DEFAULT"
proof -
  have "fold (\<lambda>x ty. if start \<le> me_end x \<and> me_start x \<le> e then ty OR ucast (me_type x) else ty) xs ty AND DEFAULT = 0"
    if "set xs \<subseteq> set entries" "ty AND DEFAULT = 0" for xs and ty :: u32
    using that
  proof (induction xs arbitrary: ty)
    case (Cons x xs)
    have "ucast (me_type x) AND DEFAULT = 0" using assms Cons.prems(1) by (simp add: has_bits_def)
    then have "(ty OR ucast (me_type x)) AND DEFAULT = 0" using Cons.prems(2) by (simp only: word_ao_dist) simp
    with Cons show ?case by auto
  qed simp
  from this [of entries 0] show ?thesis by (simp add: overlap_types_def has_bits_def)
qed

lemma cache_types_value:
  assumes "\<forall>x \<in> set (mtrr_list s). aligned (me_start x) (me_end x) \<and> \<not> has_bits (ucast (me_type x)) DEFAULT"
    and "aligned start e" and "start \<le> e"
  shows "cache_types s start e =
    (let ty = overlap_types (mtrr_list s) start e;
         rest = (if mtrr_default s = ucast UNCACHED then DEFAULT else ucast (mtrr_default s))
     in if ty = 0 \<and> amd_Tom2ForceMemTypeWB s \<and> 0x100000000 \<le> start \<and> start \<le> amd_tom2_addr s then WRITE_BACK
        else if \<forall>a. start \<le> a \<and> a \<le> e \<longrightarrow> covered (mtrr_list s) a then ty else ty OR rest)"
proof -
  let ?ty = "overlap_types (mtrr_list s) start e"
  have d: "?ty AND DEFAULT = 0"
    using overlap_no_default [of "mtrr_list s" start e] assms(1) by (simp add: has_bits_def)
  have full: "uncovered_end (mtrr_list s) start (mtrr_list s) e = start \<longleftrightarrow>
      (\<forall>a. start \<le> a \<and> a \<le> e \<longrightarrow> covered (mtrr_list s) a)"
    using uncovered_end_full [of "mtrr_list s" "mtrr_list s" start e] assms by simp
  have "has_bits (?ty OR DEFAULT) DEFAULT" by (simp add: has_bits_def del: DEFAULT_def) simp
  moreover have "(?ty OR DEFAULT) AND NOT DEFAULT = ?ty"
    using d by (auto simp: bit_eq_iff bit_simps simp del: DEFAULT_def)
  moreover have "\<not> has_bits ?ty DEFAULT" using d by (simp add: has_bits_def)
  ultimately show ?thesis unfolding cache_types_def Let_def using full by (auto simp del: DEFAULT_def UNCACHED_def)
qed

section \<open>The verdict on a range\<close>

text \<open>What the test accepts, of a range with its types.\<close>

definition range_ok :: "mtrr_env \<Rightarrow> mtrr_state \<Rightarrow> u64 \<times> u64 \<times> cstr \<Rightarrow> bool" where
  "range_ok env s r =
     (case r of (start, e, name) \<Rightarrow>
        (let ty = fst (multi_types_check (cache_types s start e)) in
         if c_strstr name ''System RAM'' \<noteq> None then ty = WRITE_BACK
         else if c_strstr name ''0000:'' \<noteq> None then
           (if fst (snd (check_prefetchable env name start)) then \<not> has_bits ty WRITE_BACK
            else ty \<noteq> 0 \<and> ty AND NOT UNCACHED AND NOT DEFAULT = 0)
         else True))"

lemma only_bit: "ty AND NOT (m :: 'a::len word) = 0 \<Longrightarrow> ty AND m = ty"
  by (simp add: bit_eq_iff bit_simps) blast

lemma wb_only:
  fixes ty :: u32
  shows "ty AND NOT WRITE_BACK = 0 \<and>
     ((if has_bits ty DEFAULT then (ty OR UNCACHED) AND NOT DEFAULT else ty) AND WRITE_BACK = WRITE_BACK) \<longleftrightarrow>
   ty = WRITE_BACK"
proof -
  { assume "ty AND NOT WRITE_BACK = 0"
    then have t: "ty AND WRITE_BACK = ty" by (rule only_bit)
    then have "ty AND DEFAULT = (ty AND WRITE_BACK) AND DEFAULT" by simp
    also have "\<dots> = 0" by (simp add: word_bw_assocs)
    finally have "\<not> has_bits ty DEFAULT" by (simp add: has_bits_def)
    with t have "((if has_bits ty DEFAULT then (ty OR UNCACHED) AND NOT DEFAULT else ty) AND WRITE_BACK = WRITE_BACK) \<longleftrightarrow>
      ty = WRITE_BACK" by auto }
  then show ?thesis by (auto simp: has_bits_def)
qed

lemma uc_only:
  fixes ty :: u32
  assumes "ty AND NOT UNCACHED AND NOT DEFAULT = 0"
  shows "((if has_bits ty DEFAULT then (ty OR UNCACHED) AND NOT DEFAULT else ty) AND UNCACHED = UNCACHED) \<longleftrightarrow> ty \<noteq> 0"
proof (cases "has_bits ty DEFAULT")
  case True
  have "((ty OR UNCACHED) AND NOT DEFAULT) AND UNCACHED = UNCACHED" by (simp add: word_ao_dist word_bw_assocs)
  moreover have "ty \<noteq> 0" using True by (auto simp: has_bits_def)
  ultimately show ?thesis using True by simp
next
  case False
  then have "ty AND DEFAULT = 0" by (simp add: has_bits_def)
  then have "ty AND UNCACHED = ty" using assms
    by (auto simp: bit_eq_iff bit_simps simp del: DEFAULT_def UNCACHED_def)
  moreover have "ty AND UNCACHED = (if odd ty then 1 else 0)" by (simp add: and_one_eq mod2_eq_if)
  ultimately show ?thesis using False by (auto split: if_splits)
qed

lemma multi_types_reports: "set (reports_of (snd (multi_types_check ty))) \<subseteq> {Warning}"
  by (simp add: multi_types_check_def Let_def del: One_nat_def upt_Suc)

lemma guess_reports: "guess_cache_type env name start = (ret, must, mustnot, outs) \<Longrightarrow> reports_of outs = []"
  by (auto simp: guess_cache_type_def check_prefetchable_def Let_def split: if_splits option.splits)

lemma guess_cases:
  assumes "guess_cache_type env name start = (FWTS_OK, must, mustnot, outs)"
  shows "(must, mustnot) =
    (if c_strstr name ''System RAM'' \<noteq> None then (WRITE_BACK, NOT WRITE_BACK)
     else if c_strstr name ''0000:'' \<noteq> None then
       (if fst (snd (check_prefetchable env name start)) then (0, WRITE_BACK)
        else (UNCACHED, NOT UNCACHED AND NOT DEFAULT))
     else (0, 0))"
  using assms unfolding guess_cache_type_def
  by (cases "check_prefetchable env name start")
    (auto simp: FWTS_OK_def FWTS_ERROR_def simp del: DEFAULT_def UNCACHED_def WRITE_BACK_def split: if_splits)

lemma range_check_ok:
  assumes "range_check env s start e name = (FWTS_OK, n, outs)"
  shows "n = 0 \<longleftrightarrow> range_ok env s (start, e, name)"
    and "n = 0 \<longleftrightarrow> (\<forall>r \<in> set (reports_of outs). \<not> is_failed r)"
    and "Passed \<notin> set (reports_of outs)"
proof -
  obtain ty o1 where ty: "multi_types_check (cache_types s start e) = (ty, o1)" by fastforce
  obtain ret must mustnot o2 where g: "guess_cache_type env name start = (ret, must, mustnot, o2)"
    by (metis prod.exhaust)
  have ret: "ret = FWTS_OK" using assms by (auto simp: range_check_def ty g fwts_ret_defs split: if_splits)
  define ty' where "ty' = (if has_bits ty DEFAULT then (ty OR UNCACHED) AND NOT DEFAULT else ty)"
  define bad where "bad \<longleftrightarrow> has_bits ty mustnot"
  define lack where "lack \<longleftrightarrow> ty' AND must \<noteq> must \<and> \<not> (bad \<and> must = UNCACHED)"
  obtain m1 m2 where n: "n = of_bool bad + of_bool lack"
    and outs: "outs = o1 @ o2 @ (if bad then [Rep (Failed LOG_LEVEL_CRITICAL ''MTRRIncorrectAttr'') m1] else []) @
      (if lack then [Rep (Failed LOG_LEVEL_MEDIUM ''MTRRLackingAttr'') m2] else [])"
    using assms unfolding range_check_def ty g ret Let_def prod.case
    by (simp add: ty'_def bad_def lack_def cong: if_cong del: DEFAULT_def UNCACHED_def) blast
  have "set (reports_of o1) \<subseteq> {Warning}" using multi_types_reports [of "cache_types s start e"] ty by simp
  moreover have "reports_of o2 = []" using guess_reports [OF g] .
  ultimately show "n = 0 \<longleftrightarrow> (\<forall>r \<in> set (reports_of outs). \<not> is_failed r)" and "Passed \<notin> set (reports_of outs)"
    unfolding n outs by auto
  have "n = 0 \<longleftrightarrow> \<not> bad \<and> ty' AND must = must" unfolding n lack_def by auto
  also have "\<dots> \<longleftrightarrow> range_ok env s (start, e, name)"
    using guess_cases [OF g [unfolded ret]] wb_only [of ty] uc_only [of ty]
    by (auto simp: range_ok_def ty bad_def ty'_def has_bits_def Let_def split: if_splits)
  finally show "n = 0 \<longleftrightarrow> range_ok env s (start, e, name)" .
qed

section \<open>The verdict on the memory map\<close>

text \<open>The ranges of the file that are checked.\<close>

fun iomem_ranges :: "nat \<Rightarrow> cstr list \<Rightarrow> (u64 \<times> u64 \<times> cstr) list" where
  "iomem_ranges depth [] = []"
| "iomem_ranges depth (line # lines) =
     (case iomem_line depth line of
        (depth, None) \<Rightarrow> iomem_ranges depth lines
      | (depth, Some r) \<Rightarrow> r # iomem_ranges depth lines)"

lemma validate_loop_verdict:
  "validate_loop env s lines depth n = (FWTS_OK, outs) \<Longrightarrow>
   (Passed \<in> set (reports_of outs) \<longleftrightarrow> n = 0 \<and> (\<forall>r \<in> set (iomem_ranges depth lines). range_ok env s r)) \<and>
   ((\<exists>r \<in> set (reports_of outs). is_failed r) \<longleftrightarrow> (\<exists>r \<in> set (iomem_ranges depth lines). \<not> range_ok env s r))"
proof (induction lines arbitrary: depth n outs)
  case Nil
  then show ?case by (auto split: if_splits)
next
  case (Cons line lines)
  obtain depth' r where l: "iomem_line depth line = (depth', r)" by fastforce
  show ?case
  proof (cases r)
    case None
    then show ?thesis using Cons l by simp
  next
    case (Some rng)
    obtain start e name where rng: "rng = (start, e, name)" by (cases rng)
    obtain ret m o1 where c: "range_check env s start e name = (ret, m, o1)" by (cases "range_check env s start e name")
    have ret: "ret = FWTS_OK" using Cons.prems l Some rng c by (auto simp: fwts_ret_defs split: if_splits)
    obtain ret2 o2 where v: "validate_loop env s lines depth' (n + m) = (ret2, o2)" by fastforce
    have r2: "ret2 = FWTS_OK" "outs = o1 @ o2" using Cons.prems l Some rng c ret v by auto
    note ok = range_check_ok [OF c [unfolded ret]]
    show ?thesis using Cons.IH [OF v [unfolded r2(1)]] ok r2(2) l Some rng by auto
  qed
qed

section \<open>The message of the kernel\<close>

text \<open>
  As a regular expression the name in brackets is one character of that name, so the pattern
  does not match the message the kernel prints.
\<close>

lemma syscfg_atoms:
  "\<exists>as. ere_atoms SYSCFG_PATTERN =
     Some (map (\<lambda>d x. x = d) ''SYSCFG'' @ (\<lambda>x. x \<in> set ''MtrrFixDramModEn'') # as)"
proof -
  have "\<forall>c \<in> set ''SYSCFG''. \<not> ere_special c" by (simp add: ere_special_def)
  moreover have "\<exists>as. ere_atoms ''[MtrrFixDramModEn] not cleared by BIOS, clearing this bit'' = Some ((\<lambda>x. x \<in> set ''MtrrFixDramModEn'') # as)"
    by (simp add: ere_special_def)
  moreover have "SYSCFG_PATTERN = ''SYSCFG'' @ ''[MtrrFixDramModEn] not cleared by BIOS, clearing this bit''"
    by (simp add: SYSCFG_PATTERN_def)
  ultimately show ?thesis using ere_atoms_literal [of "''SYSCFG''" "''[MtrrFixDramModEn] not cleared by BIOS, clearing this bit''"]
    by auto
qed

lemma syscfg_no_match:
  assumes "ere_atoms SYSCFG_PATTERN = Some as" and "ere_search as line"
  shows "\<exists>a c b. line = a @ ''SYSCFG'' @ c # b \<and> c \<noteq> CHR ''[''"
proof -
  obtain bs where bs: "as = map (\<lambda>d x. x = d) ''SYSCFG'' @ (\<lambda>x. x \<in> set ''MtrrFixDramModEn'') # bs"
    using syscfg_atoms assms(1) by auto
  obtain a b where ab: "line = a @ b" "ere_here as b" using assms(2) by (auto simp: ere_search_suffix)
  obtain r where r: "b = ''SYSCFG'' @ r" "ere_here ((\<lambda>x. x \<in> set ''MtrrFixDramModEn'') # bs) r"
    using ab(2) unfolding bs ere_here_literal by blast
  then obtain c d where "r = c # d" "c \<in> set ''MtrrFixDramModEn''" by (cases r) auto
  then show ?thesis using ab(1) r(1) by (intro exI [of _ a] exI [of _ c] exI [of _ d]) auto
qed

lemma skip_priority_suffix: "skip_priority s = Some t \<Longrightarrow> \<exists>p. s = p @ t"
proof -
  assume "skip_priority s = Some t"
  then have "t = s \<or> t = drop 3 s" by (auto simp: skip_priority_def split: list.splits if_splits)
  moreover have "s = take 3 s @ drop 3 s" by simp
  ultimately show ?thesis by (metis append_Nil)
qed

lemma unique_line_in_log:
  assumes "\<forall>l \<in> set log. fwts_log_remove_timestamp l \<noteq> None" and "l \<in> set (unique_lines log)"
  shows "\<exists>p. p @ l \<in> set log"
proof -
  obtain red where r: "reduce_log True log [] = Some red"
    using assms(1) reduce_log_iff [of True log] by (cases "reduce_log True log []") (auto simp: strip_line_True)
  obtain x where x: "x \<in> set red" "l = the (skip_priority (fst x))"
    using assms(2) r by (auto simp: unique_lines_def)
  have log: "fst x \<in> set log" using reduce_log_spec(2) [OF r] x(1) by blast
  then have "skip_priority (fst x) = Some l" using assms(1) remove_timestamp_skip x(2) by fastforce
  then show ?thesis using log skip_priority_suffix by metis
qed

lemma syscfg_passes:
  assumes "regex_plain (env_regex env)" and "mtrr_vendor s = Some vendor" and "amd_or_hygon vendor"
    and "mtrr_klog s = Some log" and "\<forall>l \<in> set log. fwts_log_remove_timestamp l \<noteq> None"
    and "\<forall>l \<in> set log. \<forall>a c b. l = a @ ''SYSCFG'' @ c # b \<longrightarrow> c = CHR ''[''"
  shows "mtrr_test3 env s = Some (FWTS_OK, [Rep Passed ''No MtrrFixDramModEn error detected.''])"
proof -
  obtain as where as: "ere_atoms SYSCFG_PATTERN = Some as" using syscfg_atoms by blast
  have "\<not> ere_search as l" if u: "l \<in> set (unique_lines log)" for l
  proof
    assume "ere_search as l"
    then obtain a c b where l: "l = a @ ''SYSCFG'' @ c # b" "c \<noteq> CHR ''[''" using syscfg_no_match [OF as] by blast
    obtain p where "p @ l \<in> set log" using unique_line_in_log [OF assms(5) u] by blast
    moreover have "p @ l = (p @ a) @ ''SYSCFG'' @ c # b" using l(1) by simp
    ultimately show False using assms(6) l(2) by blast
  qed
  then have "filter (ere_search as) (unique_lines log) = []" by (simp add: filter_empty_conv)
  then have "klog_finds (env_regex env) log SYSCFG_PATTERN [] = Some (False, [])"
    using regex_find_plain [OF assms(1) as assms(5)] by (simp add: klog_finds_def)
  then show ?thesis using assms(2-4) by (simp add: mtrr_test3_def)
qed

end
