(* ===== verification/Fwts_Acpi.thy ===== *)
theory Fwts_Acpi
  imports Fwts_Reports "HOL-Library.Monad_Syntax"
begin

text \<open>
  What the ACPI table tests under src/src/acpi share. A table is the bytes that were loaded; a
  packed struct of src/src/lib/include/fwts_acpi.h is its layout, the list of its members with
  their sizes in the order of the struct, and a member is read in place at its offset, little
  endian and zero extended to 64 bits. None is a read outside the table, which C leaves undefined.

  Then the checks of src/src/lib/src/fwts_acpi_tables.c that many tests call: each is given as the
  list of the reports it makes (a failure with its level and label); where the C function clears a
  flag or returns whether it failed, that is whether the list is not empty. The texts of the
  reports of the table tests and the lines they only print are not modelled: Fwts_Reports.perform
  gets the texts as an argument.

  Last, the loop over the subtables of a table, with its termination.
\<close>

named_theorems layouts "layouts of the packed structs"

section \<open>Tables and packed structs\<close>

type_synonym layout = "(string \<times> nat) list"

definition nest :: "string \<Rightarrow> layout \<Rightarrow> layout" where
  "nest f l = map (\<lambda>(g, n). (f @ ''.'' @ g, n)) l"

fun field_at :: "layout \<Rightarrow> string \<Rightarrow> nat \<Rightarrow> (nat \<times> nat) option" where
  "field_at [] f off = None"
| "field_at ((g, n) # l) f off = (if g = f then Some (off, n) else field_at l f (off + n))"

definition sizeof :: "layout \<Rightarrow> nat" where
  "sizeof l = sum_list (map snd l)"

definition offsetof :: "layout \<Rightarrow> string \<Rightarrow> nat" where
  "offsetof l f = (case field_at l f 0 of None \<Rightarrow> sizeof l | Some (off, n) \<Rightarrow> off)"

fun le_word :: "bytes \<Rightarrow> u64" where
  "le_word [] = 0"
| "le_word (b # bs) = ucast b + 256 * le_word bs"

definition read_bytes :: "bytes \<Rightarrow> nat \<Rightarrow> nat \<Rightarrow> bytes option" where
  "read_bytes t off n = (if off + n \<le> length t then Some (take n (drop off t)) else None)"

definition read_le :: "bytes \<Rightarrow> nat \<Rightarrow> nat \<Rightarrow> u64 option" where
  "read_le t off n = map_option le_word (read_bytes t off n)"

definition get :: "bytes \<Rightarrow> nat \<Rightarrow> layout \<Rightarrow> string \<Rightarrow> u64 option" where
  "get t base l f = (case field_at l f base of None \<Rightarrow> None | Some (off, n) \<Rightarrow> read_le t off n)"

definition get_bytes :: "bytes \<Rightarrow> nat \<Rightarrow> layout \<Rightarrow> string \<Rightarrow> bytes option" where
  "get_bytes t base l f = (case field_at l f base of None \<Rightarrow> None | Some (off, n) \<Rightarrow> read_bytes t off n)"

text \<open>strlen() and the characters of a string inside a table.\<close>

definition read_str :: "bytes \<Rightarrow> nat \<Rightarrow> bytes option" where
  "read_str t off = (let bs = drop off t; s = takeWhile (\<lambda>b. b \<noteq> 0) bs in if length s < length bs then Some s else None)"

text \<open>Writing a member, for the tables that are built or patched.\<close>

fun word_le :: "nat \<Rightarrow> u64 \<Rightarrow> bytes" where
  "word_le 0 v = []"
| "word_le (Suc n) v = ucast v # word_le n (drop_bit 8 v)"

definition write_bytes :: "bytes \<Rightarrow> nat \<Rightarrow> bytes \<Rightarrow> bytes" where
  "write_bytes t off bs = take off t @ bs @ drop (off + length bs) t"

definition put :: "bytes \<Rightarrow> nat \<Rightarrow> layout \<Rightarrow> string \<Rightarrow> u64 \<Rightarrow> bytes" where
  "put t base l f v = (case field_at l f base of None \<Rightarrow> t | Some (off, n) \<Rightarrow> write_bytes t off (word_le n v))"

definition put_bytes :: "bytes \<Rightarrow> nat \<Rightarrow> layout \<Rightarrow> string \<Rightarrow> bytes \<Rightarrow> bytes" where
  "put_bytes t base l f bs = (case field_at l f base of None \<Rightarrow> t | Some (off, n) \<Rightarrow> write_bytes t off bs)"

subsection \<open>Facts\<close>

lemma field_at_bound: "field_at l f off = Some (o', n) \<Longrightarrow> off \<le> o' \<and> o' + n \<le> off + sizeof l"
  by (induction l f off rule: field_at.induct) (auto simp: sizeof_def split: if_splits)

lemma field_at_defined: "f \<in> fst ` set l \<Longrightarrow> field_at l f off \<noteq> None"
  by (induction l f off rule: field_at.induct) auto

lemma read_le_defined: "off + n \<le> length t \<Longrightarrow> \<exists>v. read_le t off n = Some v"
  by (simp add: read_le_def read_bytes_def)

lemma get_defined:
  assumes "f \<in> fst ` set l" and "base + sizeof l \<le> length t"
  shows "\<exists>v. get t base l f = Some v"
proof -
  obtain o' n where f: "field_at l f base = Some (o', n)" using field_at_defined [OF assms(1)] by fastforce
  then show ?thesis using assms(2) field_at_bound [OF f] by (simp add: get_def read_le_defined)
qed

lemma add_as_or: "take_bit 8 v + push_bit 8 w = take_bit 8 v OR push_bit 8 (w :: u64)"
  by (rule disjunctive_add_eq_or, rule bit_word_eqI) (auto simp: bit_simps)

lemma byte_cast: "(ucast b :: u64) = take_bit 8 (ucast (b :: u8))"
  by (rule bit_word_eqI) (auto simp: bit_simps dest: bit_imp_le_length)

lemma le_word_Cons: "le_word (b # bs) = take_bit 8 (ucast b) OR push_bit 8 (le_word bs)"
proof -
  have "256 * le_word bs = push_bit 8 (le_word bs)" by (simp add: push_bit_eq_mult mult.commute)
  then show ?thesis unfolding le_word.simps by (subst byte_cast) (simp add: add_as_or)
qed

lemma le_word_bits: "bit (le_word bs) n \<Longrightarrow> n < 8 * length bs"
proof (induction bs arbitrary: n)
  case (Cons b bs)
  then show ?case using Cons.IH [of "n - 8"] by (fastforce simp: le_word_Cons bit_simps simp del: le_word.simps)
qed simp

lemma le_word_bound: "unat (le_word bs) < 256 ^ length bs"
proof -
  have "le_word bs = take_bit (8 * length bs) (le_word bs)"
    by (rule bit_word_eqI) (use le_word_bits in \<open>auto simp: bit_simps\<close>)
  then have "unat (le_word bs) = take_bit (8 * length bs) (unat (le_word bs))" by (metis unsigned_take_bit_eq)
  also have "\<dots> < 2 ^ (8 * length bs)" by simp
  finally show ?thesis by (simp add: power_mult)
qed

lemma word_le_length [simp]: "length (word_le n v) = n"
  by (induction n arbitrary: v) auto

lemma le_word_le: "n \<le> 8 \<Longrightarrow> le_word (word_le n v) = take_bit (8 * n) v"
proof (induction n arbitrary: v)
  case (Suc n)
  have "take_bit 8 (ucast (ucast v :: u8)) = take_bit 8 v"
    by (rule bit_word_eqI) (auto simp: bit_simps)
  moreover have "take_bit 8 v OR push_bit 8 (take_bit (8 * n) (drop_bit 8 v)) = take_bit (8 * Suc n) v"
    by (rule bit_word_eqI) (auto simp: bit_simps)
  ultimately show ?case using Suc by (simp add: le_word_Cons del: le_word.simps)
qed simp

lemma write_length [simp]: "off + length bs \<le> length t \<Longrightarrow> length (write_bytes t off bs) = length t"
  by (simp add: write_bytes_def)

lemma read_write: "off + length bs \<le> length t \<Longrightarrow> read_bytes (write_bytes t off bs) off (length bs) = Some bs"
  by (simp add: read_bytes_def write_bytes_def)

lemma get_put:
  assumes "field_at l f base = Some (off, n)" and "n \<le> 8" and "base + sizeof l \<le> length t"
  shows "get (put t base l f v) base l f = Some (take_bit (8 * n) v)"
  using assms field_at_bound [OF assms(1)] read_write [of off "word_le n v" t]
  by (simp add: get_def put_def read_le_def le_word_le)

section \<open>Layouts shared by the tables (fwts_acpi.h)\<close>

definition fwts_acpi_gas :: layout where [layouts]:
  "fwts_acpi_gas = [(''address_space_id'', 1), (''register_bit_width'', 1), (''register_bit_offset'', 1),
     (''access_width'', 1), (''address'', 8)]"

definition fwts_acpi_table_header :: layout where [layouts]:
  "fwts_acpi_table_header = [(''signature'', 4), (''length'', 4), (''revision'', 1), (''checksum'', 1),
     (''oem_id'', 6), (''oem_tbl_id'', 8), (''oem_revision'', 4), (''creator_id'', 4),
     (''creator_revision'', 4)]"

definition fwts_acpi_table_rsdp :: layout where [layouts]:
  "fwts_acpi_table_rsdp = [(''signature'', 8), (''checksum'', 1), (''oem_id'', 6), (''revision'', 1),
     (''rsdt_address'', 4), (''length'', 4), (''xsdt_address'', 8), (''extended_checksum'', 1),
     (''reserved'', 3)]"

definition fwts_acpi_table_fadt :: layout where [layouts]:
  "fwts_acpi_table_fadt = nest ''header'' fwts_acpi_table_header @ [(''firmware_control'', 4),
     (''dsdt'', 4), (''reserved'', 1), (''preferred_pm_profile'', 1), (''sci_int'', 2), (''smi_cmd'', 4),
     (''acpi_enable'', 1), (''acpi_disable'', 1), (''s4bios_req'', 1), (''pstate_cnt'', 1),
     (''pm1a_evt_blk'', 4), (''pm1b_evt_blk'', 4), (''pm1a_cnt_blk'', 4), (''pm1b_cnt_blk'', 4),
     (''pm2_cnt_blk'', 4), (''pm_tmr_blk'', 4), (''gpe0_blk'', 4), (''gpe1_blk'', 4), (''pm1_evt_len'', 1),
     (''pm1_cnt_len'', 1), (''pm2_cnt_len'', 1), (''pm_tmr_len'', 1), (''gpe0_blk_len'', 1),
     (''gpe1_blk_len'', 1), (''gpe1_base'', 1), (''cst_cnt'', 1), (''p_lvl2_lat'', 2), (''p_lvl3_lat'', 2),
     (''flush_size'', 2), (''flush_stride'', 2), (''duty_offset'', 1), (''duty_width'', 1),
     (''day_alrm'', 1), (''mon_alrm'', 1), (''century'', 1), (''iapc_boot_arch'', 2), (''reserved1'', 1),
     (''flags'', 4)] @ nest ''reset_reg'' fwts_acpi_gas @ [(''reset_value'', 1), (''arm_boot_flags'', 2),
     (''minor_version'', 1), (''x_firmware_ctrl'', 8), (''x_dsdt'', 8)] @
     nest ''x_pm1a_evt_blk'' fwts_acpi_gas @ nest ''x_pm1b_evt_blk'' fwts_acpi_gas @
     nest ''x_pm1a_cnt_blk'' fwts_acpi_gas @ nest ''x_pm1b_cnt_blk'' fwts_acpi_gas @
     nest ''x_pm2_cnt_blk'' fwts_acpi_gas @ nest ''x_pm_tmr_blk'' fwts_acpi_gas @
     nest ''x_gpe0_blk'' fwts_acpi_gas @ nest ''x_gpe1_blk'' fwts_acpi_gas @
     nest ''sleep_control_reg'' fwts_acpi_gas @ nest ''sleep_status_reg'' fwts_acpi_gas @
     [(''hypervisor_id'', 8)]"

definition fwts_acpi_table_facs :: layout where [layouts]:
  "fwts_acpi_table_facs = [(''signature'', 4), (''length'', 4), (''hardware_signature'', 4),
     (''firmware_waking_vector'', 4), (''global_lock'', 4), (''flags'', 4),
     (''x_firmware_waking_vector'', 8), (''version'', 1), (''reserved'', 3), (''ospm_flags'', 4),
     (''reserved2'', 24)]"

definition fwts_acpi_table_xsdt :: layout where [layouts]:
  "fwts_acpi_table_xsdt = nest ''header'' fwts_acpi_table_header @ [(''entries'', 0)]"

definition fwts_acpi_table_rsdt :: layout where [layouts]:
  "fwts_acpi_table_rsdt = nest ''header'' fwts_acpi_table_header @ [(''entries'', 0)]"

text \<open>The members every table starts with.\<close>

definition header_field :: "bytes \<Rightarrow> string \<Rightarrow> u64 option" where
  "header_field t f = get t 0 fwts_acpi_table_header f"

section \<open>Checks (fwts_acpi_tables.c)\<close>

text \<open>The label of a check is made of four characters of the table name and a suffix.\<close>

definition acpi_label :: "cstr \<Rightarrow> cstr \<Rightarrow> cstr" where
  "acpi_label table suffix = (if length table < 4 then table else take 4 table @ suffix)"

definition fail_if :: "bool \<Rightarrow> report \<Rightarrow> report list" where
  "fail_if bad r = (if bad then [r] else [])"

definition pass_or :: "bool \<Rightarrow> report \<Rightarrow> report list" where
  "pass_or ok r = (if ok then [Passed] else [r])"

text \<open>The tests that count their failures end with one passed report if there were none.\<close>

definition no_issues :: "report list \<Rightarrow> report list" where
  "no_issues rs = (if rs = [] then [Passed] else rs)"

definition fwts_acpi_reserved_zero :: "cstr \<Rightarrow> cstr \<Rightarrow> u64 \<Rightarrow> report list" where
  "fwts_acpi_reserved_zero table field v = fail_if (v \<noteq> 0) (Failed LOG_LEVEL_MEDIUM (acpi_label table ''ReservedNonZero''))"

definition fwts_acpi_reserved_zero_array :: "cstr \<Rightarrow> cstr \<Rightarrow> bytes \<Rightarrow> report list" where
  "fwts_acpi_reserved_zero_array table field bs =
     fail_if (sum_list (map ucast bs) \<noteq> (0 :: u32)) (Failed LOG_LEVEL_MEDIUM (take 19 table @ ''ReservedNonZero''))"

definition fwts_acpi_fixed_value :: "u32 \<Rightarrow> cstr \<Rightarrow> cstr \<Rightarrow> u64 \<Rightarrow> u64 \<Rightarrow> report list" where
  "fwts_acpi_fixed_value level table field actual must_be =
     fail_if (take_bit 8 actual \<noteq> take_bit 8 must_be) (Failed level (acpi_label table ''BadFieldValue''))"

definition fwts_acpi_revision_check :: "cstr \<Rightarrow> u64 \<Rightarrow> u64 \<Rightarrow> report list" where
  "fwts_acpi_revision_check table actual must_be =
     fwts_acpi_fixed_value LOG_LEVEL_HIGH table ''Revision'' actual must_be"

definition bits_mask :: "nat \<Rightarrow> nat \<Rightarrow> u64" where
  "bits_mask lo hi = fold (\<lambda>i m. m OR push_bit i 1) [lo..<Suc hi] 0"

definition fwts_acpi_reserved_bits :: "cstr \<Rightarrow> cstr \<Rightarrow> u64 \<Rightarrow> nat \<Rightarrow> nat \<Rightarrow> report list" where
  "fwts_acpi_reserved_bits table field v lo hi =
     fail_if (v AND bits_mask lo hi \<noteq> 0) (Failed LOG_LEVEL_HIGH (acpi_label table ''ReservedBitsNonZero''))"

definition fwts_acpi_reserved_type :: "cstr \<Rightarrow> u64 \<Rightarrow> u64 \<Rightarrow> u64 \<Rightarrow> report list" where
  "fwts_acpi_reserved_type table v lo reserved =
     fail_if (take_bit 8 v < take_bit 8 lo \<or> take_bit 8 v \<ge> take_bit 8 reserved)
       (Failed LOG_LEVEL_HIGH (acpi_label table ''BadSubTableType''))"

definition fwts_acpi_space_id :: "cstr \<Rightarrow> cstr \<Rightarrow> u64 \<Rightarrow> u64 list \<Rightarrow> report list" where
  "fwts_acpi_space_id table field actual ids =
     fail_if (take_bit 8 actual \<notin> set ids) (Failed LOG_LEVEL_HIGH (acpi_label table ''BadAddressSpaceId''))"

definition fwts_acpi_table_length :: "cstr \<Rightarrow> u64 \<Rightarrow> nat \<Rightarrow> report list" where
  "fwts_acpi_table_length table len sz =
     fail_if ((ucast len :: u32) < of_nat sz) (Failed LOG_LEVEL_HIGH (acpi_label table ''TooShort''))"

definition fwts_acpi_structure_length :: "cstr \<Rightarrow> u64 \<Rightarrow> u64 \<Rightarrow> nat \<Rightarrow> report list" where
  "fwts_acpi_structure_length table type actual sz =
     fail_if (unat actual \<noteq> sz) (Failed LOG_LEVEL_CRITICAL (acpi_label table ''BadStructureLength''))"

definition fwts_acpi_structure_length_zero :: "cstr \<Rightarrow> u64 \<Rightarrow> nat \<Rightarrow> report list" where
  "fwts_acpi_structure_length_zero table len off =
     fail_if (take_bit 16 len = 0) (Failed LOG_LEVEL_CRITICAL (acpi_label table ''StructLengthZero''))"

definition fwts_acpi_structure_range :: "cstr \<Rightarrow> nat \<Rightarrow> nat \<Rightarrow> report list" where
  "fwts_acpi_structure_range table table_length off =
     fail_if (off > unat (of_nat table_length :: u32)) (Failed LOG_LEVEL_CRITICAL (acpi_label table ''BadTableLength''))"

lemmas acpi_checks = fail_if_def pass_or_def no_issues_def fwts_acpi_reserved_zero_def
  fwts_acpi_reserved_zero_array_def fwts_acpi_fixed_value_def fwts_acpi_revision_check_def
  fwts_acpi_reserved_bits_def fwts_acpi_reserved_type_def fwts_acpi_space_id_def
  fwts_acpi_table_length_def fwts_acpi_structure_length_def fwts_acpi_structure_length_zero_def
  fwts_acpi_structure_range_def

lemma bit_fold_or: "bit (fold (\<lambda>i m. m OR push_bit i 1) is m) n \<longleftrightarrow> bit (m :: u64) n \<or> n \<in> set is \<and> n < 64"
  by (induction "is" arbitrary: m) (auto simp: bit_simps)

lemma bit_bits_mask: "bit (bits_mask lo hi) n \<longleftrightarrow> lo \<le> n \<and> n \<le> hi \<and> n < 64"
  unfolding bits_mask_def bit_fold_or by auto

text \<open>The check of reserved bits fails exactly if one of them is set.\<close>

lemma reserved_bits_iff:
  "fwts_acpi_reserved_bits table field v lo hi \<noteq> [] \<longleftrightarrow> (\<exists>n. lo \<le> n \<and> n \<le> hi \<and> bit v n)"
proof -
  have "v AND bits_mask lo hi \<noteq> 0 \<longleftrightarrow> (\<exists>n. bit (v AND bits_mask lo hi) n)"
    using bit_word_eqI [of "v AND bits_mask lo hi" 0] by auto
  also have "\<dots> \<longleftrightarrow> (\<exists>n. lo \<le> n \<and> n \<le> hi \<and> bit v n)"
    using bit_imp_le_length [of v] by (auto simp: bit_and_iff bit_bits_mask)
  finally show ?thesis by (simp add: fwts_acpi_reserved_bits_def fail_if_def)
qed

text \<open>The sum of a reserved array is zero exactly if its bytes are: it has at most 255 of them.\<close>

lemma byte_less: "unat (b :: u8) < 256"
  using unsigned_less [of b] by simp

lemma sum_bytes: "unat (sum_list (map ucast bs) :: u32) = sum_list (map unat (bs :: bytes))" if "length bs \<le> 255"
proof -
  have le: "sum_list (map unat bs) \<le> 255 * length bs" for bs :: bytes
  proof (induction bs)
    case (Cons b bs)
    show ?case using Cons byte_less [of b] by simp
  qed simp
  show ?thesis using that
  proof (induction bs)
    case (Cons b bs)
    have "unat (ucast b :: u32) = unat b" 
      using byte_less [of b] by (simp add: unsigned_ucast_eq take_bit_nat_eq_self_iff)
    moreover have "sum_list (map unat (b # bs)) < 2 ^ 32" using le [of "b # bs"] Cons.prems by simp
    ultimately show ?case using Cons by (simp add: unat_word_ariths)
  qed simp
qed

lemma reserved_zero_array_iff:
  assumes "length bs \<le> 255"
  shows "fwts_acpi_reserved_zero_array table field bs = [] \<longleftrightarrow> (\<forall>b \<in> set bs. b = 0)"
proof -
  have "sum_list (map ucast bs) = (0 :: u32) \<longleftrightarrow> sum_list (map unat bs) = 0"
    unfolding sum_bytes [OF assms, symmetric] by (simp only: unat_eq_zero)
  also have "\<dots> \<longleftrightarrow> (\<forall>b \<in> set bs. b = 0)" by (auto simp: unat_eq_zero)
  finally show ?thesis by (simp add: fwts_acpi_reserved_zero_array_def fail_if_def)
qed

section \<open>The loop over the subtables of a table\<close>

text \<open>
  The loop visits the offset \<open>off\<close> while \<open>inside off\<close>; its body gives the reports, the state of the
  test after it and how far the loop advances, where 0 stands for leaving it. The fuel is only the
  argument of the recursion: \<open>subtable_walk.fuel_enough\<close> shows that one more than the bytes left is
  enough, because every round advances.
\<close>

fun walk :: "nat \<Rightarrow> (nat \<Rightarrow> bool) \<Rightarrow> (nat \<Rightarrow> 's \<Rightarrow> (report list \<times> 's \<times> nat) option) \<Rightarrow> nat \<Rightarrow> 's \<Rightarrow>
    (report list \<times> 's) option" where
  "walk 0 inside body off s = None"
| "walk (Suc fuel) inside body off s =
     (if \<not> inside off then Some ([], s)
      else do { (rs, s', adv) \<leftarrow> body off s;
                if adv = 0 then Some (rs, s')
                else do { (rs', s'') \<leftarrow> walk fuel inside body (off + adv) s'; Some (rs @ rs', s'') } })"

locale subtable_walk =
  fixes limit :: nat
    and inside :: "nat \<Rightarrow> bool"
    and body :: "nat \<Rightarrow> 's \<Rightarrow> (report list \<times> 's \<times> nat) option"
  assumes bounded: "inside off \<Longrightarrow> off < limit"
begin

lemma fuel_enough:
  assumes "limit - off < fuel" and "limit - off < fuel'"
  shows "walk fuel inside body off s = walk fuel' inside body off s"
  using assms
proof (induction fuel arbitrary: fuel' off s)
  case (Suc fuel)
  then obtain k where k: "fuel' = Suc k" by (cases fuel') auto
  have "walk fuel inside body (off + adv) s' = walk k inside body (off + adv) s'"
    if "inside off" and "adv \<noteq> 0" for adv s'
    using that bounded [of off] Suc.prems k by (intro Suc.IH) auto
  then show ?case by (auto simp: k intro!: bind_option_cong split: prod.split)
qed simp

lemma total:
  assumes "limit - off < fuel" and "\<And>off s. inside off \<Longrightarrow> body off s \<noteq> None"
  shows "walk fuel inside body off s \<noteq> None"
  using assms(1)
proof (induction fuel arbitrary: off s)
  case (Suc fuel)
  show ?case
  proof (cases "inside off")
    case True
    then obtain rs s' adv where b: "body off s = Some (rs, s', adv)" using assms(2) by fastforce
    show ?thesis
    proof (cases "adv = 0")
      case False
      then have "walk fuel inside body (off + adv) s' \<noteq> None"
        using Suc.prems bounded [OF True] by (intro Suc.IH) auto
      then show ?thesis using b True False by auto
    qed (use b True in auto)
  qed simp
qed simp

lemma keeps:
  assumes "walk fuel inside body off s = Some (rs, s'')" and "I s"
    and "\<And>off s rs s' adv. body off s = Some (rs, s', adv) \<Longrightarrow> I s \<Longrightarrow> I s'"
  shows "I s''"
  using assms(1,2)
proof (induction fuel arbitrary: off s rs)
  case (Suc fuel)
  then show ?case using assms(3)
    by (fastforce split: if_splits bind_splits prod.splits simp: bind_eq_Some_conv)
qed simp

end

end
