(* ===== verification/Fwts_Dump.thy ===== *)
theory Fwts_Dump
  imports Fwts_Acpi Fwts_Klog
begin

text \<open>
  The text form of the ACPI tables: fwts_dump_data.c and dump_acpi_table() of
  src/src/lib/src/fwts_dump.c write it, fwts_acpi_load_table_from_acpidump() and
  fwts_acpi_load_tables_from_acpidump() of fwts_acpi_tables.c read it. The reader keeps its line
  buffer of 128 characters between lines, and the step over the separator of a row can leave the
  line, so the buffer is part of the model; None is a read beyond it. The memory for a table is
  taken to be available. A table that is read is its name, its address, 0 if there is none in the
  dump, and its bytes. The result is that what is written is read back.
\<close>

section \<open>Writing a table\<close>

definition show_HEX :: "nat \<Rightarrow> nat \<Rightarrow> cstr" where
  "show_HEX w n = map toupper (show_hex_pad w n)"

definition printable :: "u8 \<Rightarrow> char" where
  "printable b = (if b < 32 \<or> b > 126 then CHR ''.'' else char_of (unat b))"

definition row_offset :: "nat \<Rightarrow> cstr" where
  "row_offset addr =
     (if addr \<ge> 0x100000 then show_HEX 6 addr @ '': ''
      else if addr \<ge> 0x10000 then '' '' @ show_HEX 5 addr @ '': ''
      else ''  '' @ show_HEX 4 addr @ '': '')"

definition fwts_dump_raw_data :: "bytes \<Rightarrow> nat \<Rightarrow> cstr" where
  "fwts_dump_raw_data bs addr =
     (let bs = take 16 bs in
      row_offset addr @ concat (map (\<lambda>b. show_HEX 2 (unat b) @ '' '') bs) @
      replicate (3 * (16 - length bs)) CHR '' '' @ '' '' @ map printable bs)"

function dump_rows :: "bytes \<Rightarrow> nat \<Rightarrow> cstr list" where
  "dump_rows bs addr = (if bs = [] then [] else fwts_dump_raw_data bs addr # dump_rows (drop 16 bs) (addr + 16))"
  by pat_completeness auto
termination by (relation "measure (\<lambda>(bs, addr). length bs)") (auto simp: neq_Nil_conv)

declare dump_rows.simps [simp del]

definition dump_acpi_table :: "cstr \<Rightarrow> u64 \<Rightarrow> bytes \<Rightarrow> cstr" where
  "dump_acpi_table name addr t =
     name @ '' @ 0x'' @ show_hex (unat addr) @ [NL] @ concat (map (\<lambda>r. r @ [NL]) (dump_rows t 0)) @ [NL]"

section \<open>Reading a table\<close>

definition DUMP_LINE :: nat where "DUMP_LINE = 128"

text \<open>fgets() into the buffer, and the string in it.\<close>

definition fgets_into :: "cstr \<Rightarrow> cstr \<Rightarrow> cstr" where
  "fgets_into buffer line = line @ CHR 0x00 # drop (length line + 1) buffer"

definition cstring :: "cstr \<Rightarrow> cstr" where
  "cstring buffer = takeWhile (\<lambda>c. c \<noteq> CHR 0x00) buffer"

text \<open>The conversion \<open>%x\<close> of sscanf(): the number and the rest, if there is a digit.\<close>

definition scan_hex :: "cstr \<Rightarrow> (u64 \<times> cstr) option" where
  "scan_hex s = (let (v, r) = c_strtoull 16 s in if length r = length s then None else Some (v, r))"

definition isxdigit :: "char \<Rightarrow> bool" where
  "isxdigit c \<longleftrightarrow> digit_value c < 16"

definition char_at :: "cstr \<Rightarrow> nat \<Rightarrow> char option" where
  "char_at buffer i = (if i < length buffer then Some (buffer ! i) else None)"

text \<open>Up to n bytes of a row, each two hexadecimal digits and a separator.\<close>

fun row_bytes :: "nat \<Rightarrow> cstr \<Rightarrow> nat \<Rightarrow> bytes option" where
  "row_bytes 0 buffer i = Some []"
| "row_bytes (Suc n) buffer i =
     do { c \<leftarrow> char_at buffer i;
          if \<not> isxdigit c then Some []
          else do { d \<leftarrow> char_at buffer (i + 1);
                    if \<not> isxdigit d then Some []
                    else do { bs \<leftarrow> row_bytes n buffer (i + 3);
                              Some (word_of_nat (16 * digit_value c + digit_value d) # bs) } } }"

text \<open>The rows of a table: the bytes read, the lines that follow, the buffer and the messages.\<close>

fun load_rows :: "cstr \<Rightarrow> cstr \<Rightarrow> u32 \<Rightarrow> bytes \<Rightarrow> cstr list \<Rightarrow> (bytes \<times> cstr list \<times> cstr \<times> test_output list) option" where
  "load_rows name buffer expected t [] = Some (t, [], buffer, [])"
| "load_rows name buffer expected t (l # ls) =
     (let buffer = fgets_into buffer l; s = cstring buffer in
      case scan_hex s of
        None \<Rightarrow> Some (t, ls, buffer, [])
      | Some (off, _) \<Rightarrow>
          if (ucast off :: u32) \<noteq> expected then
            Some (t, ls, buffer, [Err (''ACPI dump offsets in table '' @ [CHR 0x27] @ name @ [CHR 0x27] @
                    '' are not incrementing by 16 bytes per row.  Table truncated prematurely due to bad acpidump data.'')])
          else
            case c_strstr s '': '' of
              None \<Rightarrow> Some (t, ls, buffer, [Err (''ACPI dump in table '' @ [CHR 0x27] @ name @ [CHR 0x27] @
                    '' did not contain any data, expecting at least 1 hex byte of data per row.'')])
            | Some p \<Rightarrow>
                do { bs \<leftarrow> row_bytes 16 buffer (length s - length p + 2);
                     if bs = [] then Some (t, ls, buffer, [Err (''ACPI dump in table '' @ [CHR 0x27] @ name @ [CHR 0x27] @
                       '' did not contain any data, expecting at least 1 hex byte of data per row.'')])
                     else if length bs \<noteq> 16 then Some (t @ bs, ls, buffer, [])
                     else load_rows name buffer (expected + 16) (t @ bs) ls })"

text \<open>The name and the address in the line before the rows.\<close>

definition table_header_line :: "cstr \<Rightarrow> (cstr \<times> u64) option" where
  "table_header_line s =
     (case c_strstr s ''@ 0x'' of
        None \<Rightarrow> None
      | Some p \<Rightarrow>
          (let name_len = length s - length p in
           if name_len > 6 \<or> name_len < 5 then None
           else case scan_hex (drop 4 p) of
             None \<Rightarrow> None
           | Some (addr, _) \<Rightarrow>
               (let name = take (name_len - 1) s in
                Some (if is_prefix ''RSD PTR'' name then ''RSDP'' else name, addr))))"

definition fwts_acpi_load_table_from_acpidump ::
    "cstr \<Rightarrow> cstr list \<Rightarrow> ((cstr \<times> u64 \<times> bytes) option \<times> cstr list \<times> cstr \<times> test_output list) option" where
  "fwts_acpi_load_table_from_acpidump buffer lines =
     (case lines of
        [] \<Rightarrow> Some (None, [], buffer, [])
      | l # ls \<Rightarrow>
          (let buffer = fgets_into buffer l in
           case table_header_line (cstring buffer) of
             None \<Rightarrow> Some (None, ls, buffer, [])
           | Some (name, addr) \<Rightarrow>
               do { (t, ls, buffer, outs) \<leftarrow> load_rows name buffer 0 [] ls;
                    Some (if t = []
                      then (None, ls, buffer, outs @ [Err (''ACPI table parser found an empty table '' @ [CHR 0x27] @ name @ [CHR 0x27] @ ''.'')])
                      else (Some (name, addr, t), ls, buffer, outs)) }))"

lemma load_rows_shorter: "load_rows name buffer e t ls = Some (t', ls', r) \<Longrightarrow> length ls' \<le> length ls"
  by (induction name buffer e t ls rule: load_rows.induct)
    (auto simp: Let_def bind_eq_Some_conv intro: le_SucI split: option.splits prod.splits if_splits)

lemma load_table_shorter:
  "fwts_acpi_load_table_from_acpidump buffer (l # ls) = Some (r, ls', q) \<Longrightarrow> length ls' \<le> length ls"
  by (auto simp: fwts_acpi_load_table_from_acpidump_def Let_def bind_eq_Some_conv
      dest: load_rows_shorter split: option.splits prod.splits if_splits)

text \<open>The whole dump, to the end of the file.\<close>

function load_dump :: "cstr \<Rightarrow> cstr list \<Rightarrow> ((cstr \<times> u64 \<times> bytes) list \<times> test_output list) option" where
  "load_dump buffer [] = Some ([], [])"
| "load_dump buffer (l # ls) =
     (case fwts_acpi_load_table_from_acpidump buffer (l # ls) of
        None \<Rightarrow> None
      | Some (r, ls', buffer', outs) \<Rightarrow>
          (case load_dump buffer' ls' of
             None \<Rightarrow> None
           | Some (ts, outs') \<Rightarrow> Some ((case r of None \<Rightarrow> ts | Some t \<Rightarrow> t # ts), outs @ outs')))"
  by pat_completeness auto
termination
  by (relation "measure (\<lambda>(buffer, ls). length ls)") (auto simp: less_Suc_eq_le dest: load_table_shorter)

section \<open>What is written is read back\<close>

lemma digit_value_toupper: "digit_value c < 16 \<Longrightarrow> digit_value (toupper c) = digit_value c"
  by (auto simp: digit_value_def toupper_def isdigit_def split: if_splits)

lemma not_digits [simp]:
  "digit_value CHR '' '' = 36" "digit_value CHR '':'' = 36" "digit_value CHR 0x00 = 36" "digit_value CHR 0x0A = 36"
  "digit_value CHR ''x'' = 33" "digit_value CHR ''X'' = 33" "digit_value CHR ''-'' = 36" "digit_value CHR ''+'' = 36"
  "digit_value CHR ''@'' = 36"
  by (simp_all add: digit_value_def isdigit_def)

lemma digit_not_space: "digit_value c < 16 \<Longrightarrow> \<not> isspace c"
  by (auto simp: digit_value_def isdigit_def isspace_def split: if_splits)

definition hex_digits :: "cstr \<Rightarrow> bool" where
  "hex_digits s \<longleftrightarrow> (\<forall>c \<in> set s. digit_value c < 16)"

lemma digit_zero [simp]: "digit_value CHR ''0'' = 0"
  by (simp add: digit_value_def isdigit_def)

lemma radix_val_zeros: "radix_val b (replicate k CHR ''0'' @ s) = radix_val b s"
proof (induction k)
  case (Suc k)
  then show ?case by (simp add: radix_val_def)
qed simp

lemma radix_val_toupper: "hex_digits s \<Longrightarrow> radix_val 16 (map toupper s) = radix_val 16 s"
proof (induction s rule: rev_induct)
  case (snoc c s)
  then show ?case by (simp add: radix_val_snoc hex_digits_def digit_value_toupper)
qed simp

lemma hex_digits_pad: "hex_digits (show_hex_pad w n)"
  using show_hex_digits [of n] by (auto simp: hex_digits_def show_hex_pad_def)

lemma hex_digits_HEX: "hex_digits (show_HEX w n)"
  using hex_digits_pad [of w n] by (auto simp: hex_digits_def show_HEX_def digit_value_toupper)

lemma radix_val_HEX: "radix_val 16 (show_HEX w n) = n"
  by (simp add: show_HEX_def radix_val_toupper hex_digits_pad) (simp add: show_hex_pad_def radix_val_zeros radix_val_show_hex)

lemma HEX_nonempty: "show_HEX w n \<noteq> []"
  by (simp add: show_HEX_def show_hex_pad_def)

text \<open>A hexadecimal number after blanks is scanned.\<close>

lemma scan_hex_number:
  assumes "hex_digits ds" and "ds \<noteq> []" and "digit_value e = 36" and "radix_val 16 ds < 2 ^ 64"
  shows "scan_hex (replicate k CHR '' '' @ ds @ e # r) = Some (word_of_nat (radix_val 16 ds), e # r)"
proof -
  obtain c cs where ds: "ds = c # cs" using assms(2) by (cases ds) auto
  have c: "digit_value c < 16" using assms(1) by (simp add: ds hex_digits_def)
  have "dropWhile isspace (replicate k CHR '' '' @ ds @ e # r) = ds @ e # r"
    using digit_not_space [OF c] by (subst dropWhile_append2) (auto simp: ds)
  moreover have "c_sign (ds @ e # r) = (False, ds @ e # r)"
    using c not_digits(7,8) by (auto simp: ds c_sign_def)
  moreover have "c_prefix16 (ds @ e # r) = ds @ e # r"
  proof -
    have "x \<noteq> CHR ''x'' \<and> x \<noteq> CHR ''X''" if "x \<in> set (cs @ [e])" for x
      using that assms(1,3) not_digits(5,6) by (fastforce simp: ds hex_digits_def)
    then show ?thesis by (cases cs) (auto simp: ds c_prefix16_def split: list.split)
  qed
  moreover have "radix_run 16 (ds @ e # r) = ds"
    using assms(1,3) by (simp add: radix_run_def takeWhile_stop hex_digits_def)
  ultimately have "c_strtoull 16 (replicate k CHR '' '' @ ds @ e # r) = (word_of_nat (radix_val 16 ds), e # r)"
    using assms(2,4) by (simp add: c_strtoull_def)
  then show ?thesis using assms(2) by (simp add: scan_hex_def)
qed

lemma strstr_first: "c \<notin> set a \<Longrightarrow> c_strstr (a @ c # n @ r) (c # n) = Some (c # n @ r)"
proof (induction a)
  case Nil
  have "is_prefix n (n @ r)" by (auto simp: is_prefix_iff)
  then show ?case by (simp add: c_strstr.simps)
next
  case (Cons x a)
  then show ?case by (subst c_strstr.simps) simp
qed

lemma row_bytes_rows:
  assumes "length bs \<le> n" and "length bs = n \<or> (\<exists>e r. tail = e # r \<and> digit_value e = 36)"
  shows "row_bytes n (a @ concat (map (\<lambda>b. show_HEX 2 (unat b) @ '' '') bs) @ tail) (length a) = Some bs"
  using assms
proof (induction bs arbitrary: a n)
  case Nil
  then show ?case by (cases n) (auto simp: char_at_def isxdigit_def nth_append)
next
  case (Cons b bs)
  then obtain m where n: "n = Suc m" by (cases n) auto
  have b: "unat b div 16 < 16" using byte_less [of b] by simp
  have "length (show_HEX 2 (unat b)) = 2"
    using b by (simp add: show_HEX_def show_hex_pad_def show_hex.simps [of "unat b"] show_hex.simps [of "unat b div 16"])
  then obtain c d where cd: "show_HEX 2 (unat b) = [c, d]" by (auto simp: length_Suc_conv eval_nat_numeral)
  have dig: "digit_value c < 16" "digit_value d < 16"
    using hex_digits_HEX [of 2 "unat b"] by (auto simp: cd hex_digits_def)
  have v: "16 * digit_value c + digit_value d = unat b"
    using radix_val_HEX [of 2 "unat b"] by (simp add: cd radix_val_def)
  define t where "t = concat (map (\<lambda>b. show_HEX 2 (unat b) @ '' '') bs) @ tail"
  have buf: "a @ concat (map (\<lambda>b. show_HEX 2 (unat b) @ '' '') (b # bs)) @ tail = a @ c # d # CHR '' '' # t"
    by (simp add: cd t_def)
  have "row_bytes m ((a @ [c, d, CHR '' '']) @ t) (length (a @ [c, d, CHR '' ''])) = Some bs"
    unfolding t_def using Cons.prems n by (intro Cons.IH) auto
  then have "row_bytes m (a @ c # d # CHR '' '' # t) (length a + 3) = Some bs" by (simp add: eval_nat_numeral)
  then show ?case unfolding buf using dig v
    by (simp add: n char_at_def isxdigit_def nth_append)
qed

lemma printable_char: "printable b \<noteq> CHR 0x00 \<and> printable b \<noteq> NL"
proof (cases "b < 32 \<or> b > 126")
  case False
  then have n: "32 \<le> unat b" "unat b \<le> 126" by (simp_all add: word_less_nat_alt word_le_nat_alt not_less)
  then have "of_char (printable b) = unat b" using False by (simp add: printable_def)
  then show ?thesis using n by (auto simp: NL_def)
qed (auto simp: printable_def NL_def)

lemma row_offset_form: "\<exists>k w. row_offset addr = replicate k CHR '' '' @ show_HEX w addr @ '': ''"
proof -
  consider "addr \<ge> 0x100000" | "addr < 0x100000" "addr \<ge> 0x10000" | "addr < 0x10000" by linarith
  then show ?thesis
  proof cases
    case 1
    then show ?thesis by (intro exI [of _ 0] exI [of _ 6]) (simp add: row_offset_def)
  next
    case 2
    then show ?thesis by (intro exI [of _ 1] exI [of _ 5]) (simp add: row_offset_def)
  next
    case 3
    then show ?thesis by (intro exI [of _ 2] exI [of _ 4]) (simp add: row_offset_def numeral_2_eq_2)
  qed
qed

definition line_text :: "cstr \<Rightarrow> bool" where
  "line_text s \<longleftrightarrow> CHR 0x00 \<notin> set s \<and> NL \<notin> set s"

lemma line_text_append [simp]: "line_text (s @ t) \<longleftrightarrow> line_text s \<and> line_text t"
  by (auto simp: line_text_def)

lemma line_text_Cons: "line_text (c # s) \<longleftrightarrow> c \<noteq> CHR 0x00 \<and> c \<noteq> NL \<and> line_text s"
  by (auto simp: line_text_def)

lemma line_text_HEX: "line_text (show_HEX w n)"
  using hex_digits_HEX [of w n] not_digits(3,4) by (fastforce simp: line_text_def hex_digits_def NL_def)

lemma line_text_blank [simp]: "line_text (replicate k CHR '' '')" "line_text [CHR '' '']" "line_text '': ''"
  by (auto simp: line_text_def NL_def)

lemma line_text_row: "line_text (fwts_dump_raw_data t addr)"
proof -
  obtain k w where off: "row_offset addr = replicate k CHR '' '' @ show_HEX w addr @ '': ''"
    using row_offset_form by blast
  have "line_text (concat (map (\<lambda>b. show_HEX 2 (unat b) @ '' '') bs))" for bs :: bytes
    by (induction bs) (auto simp: line_text_HEX line_text_Cons NL_def, simp add: line_text_def)
  moreover have "line_text (map printable bs)" for bs
    using printable_char by (auto simp: line_text_def) (metis)+
  ultimately show ?thesis by (simp add: fwts_dump_raw_data_def off Let_def line_text_HEX line_text_Cons NL_def)
qed

lemma cstring_line: "line_text s \<Longrightarrow> cstring (fgets_into buffer (s @ [NL])) = s @ [NL]"
  unfolding cstring_def fgets_into_def
  by (rule takeWhile_stop) (auto simp: line_text_def NL_def)

text \<open>A row of the dump is read: its offset, the place of its bytes and the bytes.\<close>

lemma row_read:
  assumes "addr < 2 ^ 64" and "buffer = fgets_into b (fwts_dump_raw_data t addr @ [NL])"
  obtains off r p where "scan_hex (cstring buffer) = Some (word_of_nat addr, r)"
    and "c_strstr (cstring buffer) '': '' = Some p"
    and "row_bytes 16 buffer (length (cstring buffer) - length p + 2) = Some (take 16 t)"
proof -
  obtain k w where off: "row_offset addr = replicate k CHR '' '' @ show_HEX w addr @ '': ''"
    using row_offset_form by blast
  define bs where "bs = take 16 t"
  define tail where "tail = replicate (3 * (16 - length bs)) CHR '' '' @ '' '' @ map printable bs @ [NL]"
  define body where "body = concat (map (\<lambda>b. show_HEX 2 (unat b) @ '' '') bs) @ tail"
  define a where "a = replicate k CHR '' '' @ show_HEX w addr"
  have row: "fwts_dump_raw_data t addr @ [NL] = a @ '': '' @ body"
    by (simp add: fwts_dump_raw_data_def Let_def off body_def tail_def bs_def a_def)
  have cs: "cstring buffer = a @ '': '' @ body"
    unfolding assms(2) cstring_line [OF line_text_row] by (rule row)
  have scan: "scan_hex (cstring buffer) = Some (word_of_nat addr, '': '' @ body)"
    using scan_hex_number [of "show_HEX w addr" "CHR '':''" k "'' '' @ body"] assms(1)
    by (simp add: cs a_def hex_digits_HEX HEX_nonempty radix_val_HEX)
  have "CHR '':'' \<notin> set a" using hex_digits_HEX [of w addr] not_digits(2) by (fastforce simp: a_def hex_digits_def)
  then have str: "c_strstr (cstring buffer) '': '' = Some ('': '' @ body)"
    using strstr_first [of "CHR '':''" a "'' ''" body] by (simp add: cs)
  have pos: "length (cstring buffer) - length ('': '' @ body) + 2 = length (a @ '': '')" by (simp add: cs)
  have "buffer = (a @ '': '') @ concat (map (\<lambda>b. show_HEX 2 (unat b) @ '' '') bs) @ tail @ CHR 0x00 # drop (length (a @ '': '' @ body) + 1) b"
    unfolding assms(2) fgets_into_def row by (simp add: body_def)
  moreover have "length bs = 16 \<or> (\<exists>e r. tail @ s = e # r \<and> digit_value e = 36)" for s
  proof (cases "length bs = 16")
    case False
    then have "length bs < 16" by (simp add: bs_def)
    then obtain m where "3 * (16 - length bs) = Suc m" by (cases "3 * (16 - length bs)") auto
    then show ?thesis by (simp add: tail_def)
  qed simp
  ultimately have "row_bytes 16 buffer (length (a @ '': '')) = Some bs"
    using row_bytes_rows [of bs 16 _ "a @ '': ''"] by (simp add: bs_def)
  then have "row_bytes 16 buffer (length (cstring buffer) - length ('': '' @ body) + 2) = Some (take 16 t)"
    unfolding pos bs_def .
  with scan str show thesis by (rule that)
qed

definition table_lines :: "cstr \<Rightarrow> u64 \<Rightarrow> bytes \<Rightarrow> cstr list" where
  "table_lines name addr t = (name @ '' @ 0x'' @ show_hex (unat addr)) # dump_rows t 0 @ [[]]"

lemma dump_lines: "dump_acpi_table name addr t = concat (map (\<lambda>l. l @ [NL]) (table_lines name addr t))"
  by (simp add: dump_acpi_table_def table_lines_def)

lemma dump_rows_Nil [simp]: "dump_rows [] addr = []"
  by (simp add: dump_rows.simps)

lemma blank_row: "scan_hex (cstring (fgets_into b [NL])) = None"
proof -
  have "cstring (fgets_into b [NL]) = [NL]" using cstring_line [of "[]" b] by (simp add: line_text_def)
  then show ?thesis
    by (simp add: scan_hex_def c_strtoull_def NL_def isspace_def c_sign_def c_prefix16_def radix_run_def)
qed

text \<open>The rows of a table are read up to the blank line after them; a short last row leaves it.\<close>

lemma rows_read:
  assumes "addr + length t < 2 ^ 31"
  shows "\<exists>buffer' ls'. load_rows name buffer (word_of_nat addr) acc (map (\<lambda>r. r @ [NL]) (dump_rows t addr) @ [NL] # ls) =
      Some (acc @ t, ls', buffer', []) \<and> (ls' = ls \<or> ls' = [NL] # ls)"
  using assms
proof (induction t addr arbitrary: buffer acc rule: dump_rows.induct)
  case (1 t addr)
  show ?case
  proof (cases "t = []")
    case True
    then show ?thesis by (simp add: blank_row)
  next
    case False
    define b where "b = fgets_into buffer (fwts_dump_raw_data t addr @ [NL])"
    obtain off r p where row: "scan_hex (cstring b) = Some (word_of_nat addr, r)"
        "c_strstr (cstring b) '': '' = Some p"
        "row_bytes 16 b (length (cstring b) - length p + 2) = Some (take 16 t)"
      using row_read [of addr b buffer t] 1(2) by (auto simp: b_def)
    have rows: "dump_rows t addr = fwts_dump_raw_data t addr # dump_rows (drop 16 t) (addr + 16)"
      using False by (subst dump_rows.simps) simp
    have e: "(ucast (word_of_nat addr :: u64) :: u32) = word_of_nat addr"
      by (rule bit_word_eqI) (simp add: bit_simps)
    show ?thesis
    proof (cases "length (take 16 t) = 16")
      case full: True
      have "\<exists>buffer' ls'. load_rows name b (word_of_nat (addr + 16)) (acc @ take 16 t)
            (map (\<lambda>r. r @ [NL]) (dump_rows (drop 16 t) (addr + 16)) @ [NL] # ls) =
          Some ((acc @ take 16 t) @ drop 16 t, ls', buffer', []) \<and> (ls' = ls \<or> ls' = [NL] # ls)"
        using False 1(2) full by (intro 1(1)) auto
      then show ?thesis using row full False
        by (simp add: rows b_def [symmetric] Let_def e add.commute)
    next
      case short: False
      then have "drop 16 t = []" and "length t \<noteq> 16" by auto
      then show ?thesis using row short False
        by (simp add: rows b_def [symmetric] Let_def e)
    qed
  qed
qed

lemma header_read:
  assumes "length name = 4" and "CHR ''@'' \<notin> set name" and "CHR 0x00 \<notin> set name" and "NL \<notin> set name"
  shows "table_header_line (cstring (fgets_into buffer ((name @ '' @ 0x'' @ show_hex (unat addr)) @ [NL]))) = Some (name, addr)"
proof -
  have hex: "hex_digits (show_hex (unat addr))" using show_hex_digits by (simp add: hex_digits_def)
  have "line_text (show_hex (unat addr))"
    using hex not_digits(3,4) by (fastforce simp: line_text_def hex_digits_def NL_def)
  then have "line_text (name @ '' @ 0x'' @ show_hex (unat addr))"
    using assms(3,4) by (auto simp: line_text_Cons NL_def) (auto simp: line_text_def NL_def)
  note cs = cstring_line [OF this, of buffer]
  have "c_strstr ((name @ '' '') @ CHR ''@'' # '' 0x'' @ show_hex (unat addr) @ [NL]) (CHR ''@'' # '' 0x'') =
      Some (CHR ''@'' # '' 0x'' @ show_hex (unat addr) @ [NL])"
    using assms(2) by (intro strstr_first) auto
  moreover have "scan_hex (show_hex (unat addr) @ [NL]) = Some (addr, [NL])"
    using scan_hex_number [of "show_hex (unat addr)" NL 0 "[]"] hex unsigned_less [of addr]
    by (simp add: radix_val_show_hex NL_def)
  moreover have "\<not> is_prefix ''RSD PTR'' name" using assms(1) by (auto simp: is_prefix_iff)
  ultimately show ?thesis using assms(1) unfolding cs by (simp add: table_header_line_def)
qed

lemma table_read:
  assumes "length name = 4" and "CHR ''@'' \<notin> set name" and "CHR 0x00 \<notin> set name" and "NL \<notin> set name"
    and "t \<noteq> []" and "length t < 2 ^ 31"
  shows "\<exists>buffer' ls'. fwts_acpi_load_table_from_acpidump buffer (map (\<lambda>l. l @ [NL]) (table_lines name addr t) @ ls) =
      Some (Some (name, addr, t), ls', buffer', []) \<and> (ls' = ls \<or> ls' = [NL] # ls)"
proof -
  define b where "b = fgets_into buffer ((name @ '' @ 0x'' @ show_hex (unat addr)) @ [NL])"
  have "table_header_line (cstring b) = Some (name, addr)" unfolding b_def by (rule header_read [OF assms(1-4)])
  moreover obtain buffer' ls' where "load_rows name b 0 [] (map (\<lambda>r. r @ [NL]) (dump_rows t 0) @ [NL] # ls) =
      Some (t, ls', buffer', [])" "ls' = ls \<or> ls' = [NL] # ls"
    using rows_read [of 0 t name b "[]" ls] assms(6) by auto
  ultimately show ?thesis using assms(5)
    by (simp add: fwts_acpi_load_table_from_acpidump_def table_lines_def b_def)
qed

lemma blank_line_skipped: "\<exists>buffer'. load_dump buffer ([NL] # ls) = load_dump buffer' ls"
proof -
  have "cstring (fgets_into buffer [NL]) = [NL]" using cstring_line [of "[]" buffer] by (simp add: line_text_def)
  moreover have "c_strstr [NL] ''@ 0x'' = None" by (simp add: c_strstr.simps NL_def)
  ultimately have "fwts_acpi_load_table_from_acpidump buffer ([NL] # ls) = Some (None, ls, fgets_into buffer [NL], [])"
    by (simp add: fwts_acpi_load_table_from_acpidump_def table_header_line_def)
  then show ?thesis by (intro exI [of _ "fgets_into buffer [NL]"]) (auto split: option.split prod.split)
qed

definition dumpable :: "cstr \<times> u64 \<times> bytes \<Rightarrow> bool" where
  "dumpable x \<longleftrightarrow> (case x of (name, addr, t) \<Rightarrow>
     length name = 4 \<and> CHR ''@'' \<notin> set name \<and> CHR 0x00 \<notin> set name \<and> NL \<notin> set name \<and> t \<noteq> [] \<and> length t < 2 ^ 31)"

definition dump_all :: "(cstr \<times> u64 \<times> bytes) list \<Rightarrow> cstr" where
  "dump_all ts = concat (map (\<lambda>(name, addr, t). dump_acpi_table name addr t) ts)"

definition all_lines :: "(cstr \<times> u64 \<times> bytes) list \<Rightarrow> cstr list" where
  "all_lines ts = concat (map (\<lambda>(name, addr, t). table_lines name addr t) ts)"

lemma load_all_lines:
  assumes "\<forall>x \<in> set ts. dumpable x"
  shows "load_dump buffer (map (\<lambda>l. l @ [NL]) (all_lines ts)) = Some (ts, [])"
  using assms
proof (induction ts arbitrary: buffer)
  case (Cons x ts)
  obtain name addr t where x: "x = (name, addr, t)" by (cases x)
  define ls where "ls = map (\<lambda>l. l @ [NL]) (all_lines ts)"
  obtain buffer' ls' where r: "fwts_acpi_load_table_from_acpidump buffer (map (\<lambda>l. l @ [NL]) (table_lines name addr t) @ ls) =
      Some (Some (name, addr, t), ls', buffer', [])" and ls': "ls' = ls \<or> ls' = [NL] # ls"
    using table_read [of name t buffer addr ls] Cons.prems by (auto simp: x dumpable_def)
  have IH: "load_dump b ls = Some (ts, [])" for b unfolding ls_def using Cons by simp
  then have "load_dump b ([NL] # ls) = Some (ts, [])" for b using blank_line_skipped [of b ls] by metis
  then have "load_dump buffer' ls' = Some (ts, [])" using ls' IH by auto
  moreover obtain h hs where h: "map (\<lambda>l. l @ [NL]) (table_lines name addr t) @ ls = h # hs"
    by (simp add: table_lines_def)
  ultimately have "load_dump buffer (h # hs) = Some (x # ts, [])" using r unfolding h by (simp add: x)
  then show ?case unfolding h [symmetric] by (simp add: all_lines_def x ls_def)
qed (simp add: all_lines_def)

lemma show_hex_length: "n < 16 ^ Suc k \<Longrightarrow> length (show_hex n) \<le> Suc k"
proof (induction k arbitrary: n)
  case (Suc k)
  then have "n div 16 < 16 ^ Suc k" by (simp add: div_less_iff_less_mult mult.commute)
  with Suc.IH have "length (show_hex (n div 16)) \<le> Suc k" by blast
  then show ?case by (subst show_hex.simps) simp
next
  case 0
  then show ?case by (subst show_hex.simps) simp
qed

lemma row_length:
  assumes "addr < 2 ^ 31"
  shows "length (fwts_dump_raw_data t addr) < 127"
proof -
  have "length (show_hex addr) \<le> 8" using show_hex_length [of addr 7] assms by simp
  then have "length (row_offset addr) \<le> 16" by (auto simp: row_offset_def show_HEX_def show_hex_pad_def)
  moreover have "length (concat (map (\<lambda>b. show_HEX 2 (unat b) @ '' '') bs)) = 3 * length bs" for bs :: bytes
  proof (induction bs)
    case (Cons b bs)
    have "length (show_hex (unat b)) \<le> 2" using show_hex_length [of "unat b" 1] byte_less [of b] by simp
    then have "length (show_HEX 2 (unat b)) = 2" by (simp add: show_HEX_def show_hex_pad_def)
    then show ?case using Cons by simp
  qed simp
  ultimately show ?thesis by (simp add: fwts_dump_raw_data_def Let_def)
qed

lemma rows_lines: "addr + length t < 2 ^ 31 \<Longrightarrow> \<forall>r \<in> set (dump_rows t addr). NL \<notin> set r \<and> length r < 127"
proof (induction t addr rule: dump_rows.induct)
  case (1 t addr)
  show ?case
  proof (cases "t = []")
    case False
    then have "\<forall>r \<in> set (dump_rows (drop 16 t) (addr + 16)). NL \<notin> set r \<and> length r < 127"
    proof (cases "16 < length t")
      case True
      with 1(2) False show ?thesis by (intro 1(1)) auto
    qed simp
    then show ?thesis using False row_length [of addr t] line_text_row [of t addr] 1(2)
      by (subst dump_rows.simps) (auto simp: line_text_def)
  qed simp
qed

lemma table_lines_lines:
  assumes "dumpable (name, addr, t)"
  shows "\<forall>l \<in> set (table_lines name addr t). NL \<notin> set l \<and> length l < 127"
proof -
  have "length (show_hex (unat addr)) \<le> 16" using show_hex_length [of "unat addr" 15] unsigned_less [of addr] by simp
  moreover have "NL \<notin> set (show_hex (unat addr))" using show_hex_digits [of "unat addr"] not_digits(4) by (fastforce simp: NL_def)
  ultimately show ?thesis using assms rows_lines [of 0 t] by (auto simp: table_lines_def dumpable_def NL_def)
qed

lemma fgets_lines_all:
  assumes "\<forall>l \<in> set ls. NL \<notin> set l \<and> length l < 127"
  shows "fgets_lines DUMP_LINE (concat (map (\<lambda>l. l @ [NL]) ls)) = map (\<lambda>l. l @ [NL]) ls"
  using assms
proof (induction ls)
  case (Cons l ls)
  have "fgets_lines DUMP_LINE (l @ NL # concat (map (\<lambda>l. l @ [NL]) ls)) =
      (l @ [NL]) # fgets_lines DUMP_LINE (concat (map (\<lambda>l. l @ [NL]) ls))"
    using Cons.prems by (intro fgets_lines_newline) (auto simp: DUMP_LINE_def)
  then show ?case using Cons by simp
qed (simp add: fgets_lines.simps)

lemma dump_all_lines: "dump_all ts = concat (map (\<lambda>l. l @ [NL]) (all_lines ts))"
  by (induction ts) (auto simp: dump_all_def all_lines_def dump_lines)

lemma dump_loaded:
  assumes "\<forall>x \<in> set ts. dumpable x"
  shows "load_dump buffer (fgets_lines DUMP_LINE (dump_all ts)) = Some (ts, [])"
proof -
  have "\<forall>l \<in> set (all_lines ts). NL \<notin> set l \<and> length l < 127"
    using assms table_lines_lines by (fastforce simp: all_lines_def)
  then show ?thesis unfolding dump_all_lines fgets_lines_all [OF \<open>\<forall>l \<in> set (all_lines ts). _ l\<close>]
    by (intro load_all_lines assms)
qed

end
