(* ===== verification/Fwts_Tables.thy ===== *)
theory Fwts_Tables
  imports Fwts_Dump
begin

text \<open>
  The cache of the ACPI tables, src/src/lib/src/fwts_acpi_tables.c, with fwts_scan_efi_systab.c:
  finding the RSDP, loading the tables from
  memory, from files and from a dump, building the RSDP, RSDT, XSDT and FACS that a directory of
  files lacks, and looking tables up.

  The statics of the file are a record, with the log lines they caused. Physical memory, the
  directories and the low memory allocator are fields of the record of the environment. None
  stands for a program that has used memory it had freed or that is not part of a table.
\<close>

section \<open>State\<close>

definition ACPI_MAX_TABLES :: nat where "ACPI_MAX_TABLES = 128"

datatype fwts_acpi_table_provenance =
  FWTS_ACPI_TABLE_FROM_FIRMWARE | FWTS_ACPI_TABLE_FROM_FILE | FWTS_ACPI_TABLE_FROM_FIXUP

record fwts_acpi_table_info =
  ti_name :: cstr
  ti_data :: "bytes option"
  ti_length :: nat
  ti_which :: nat
  ti_index :: nat
  ti_has_aml :: bool
  ti_addr :: u64
  ti_provenance :: fwts_acpi_table_provenance

definition no_table :: fwts_acpi_table_info where
  "no_table = \<lparr> ti_name = [], ti_data = None, ti_length = 0, ti_which = 0, ti_index = 0,
     ti_has_aml = False, ti_addr = 0, ti_provenance = FWTS_ACPI_TABLE_FROM_FIRMWARE \<rparr>"

datatype acpi_table_load_state = ACPI_TABLES_NOT_LOADED | ACPI_TABLES_LOADED_OK | ACPI_TABLES_LOADED_FAILED

record acpi_state =
  tables :: "fwts_acpi_table_info list"
  acpi_tables_loaded :: acpi_table_load_state
  fake_phys_addr :: u32
  facs_last_phys_addr :: u64
  acpi_version :: u32
  acpi_log :: "test_output list"

definition acpi_state_start :: acpi_state where
  "acpi_state_start = \<lparr> tables = replicate ACPI_MAX_TABLES no_table, acpi_tables_loaded = ACPI_TABLES_NOT_LOADED,
     fake_phys_addr = 0xbff00000, facs_last_phys_addr = 0, acpi_version = 0, acpi_log = [] \<rparr>"

datatype dir_file = Open_fails | Stat_fails | Not_regular | Read_fails | Content bytes

text \<open>Physical memory: what mapping n bytes at an address and then reading them gives.\<close>

datatype mapping = Unmapped | Unreadable | Mapped bytes

record acpi_env =
  env_phys :: "u64 \<Rightarrow> nat \<Rightarrow> mapping"
  env_fs :: "cstr \<Rightarrow> cstr option"
  env_klog :: "cstr list option"
  env_intel :: bool
  env_low_alloc :: "nat \<Rightarrow> bool"
  env_scandir :: "cstr \<Rightarrow> (cstr \<times> dir_file) list option"
  env_garbage :: cstr
  env_pointer :: cstr

definition FWTS_ERROR_NO_PRIV :: int where "FWTS_ERROR_NO_PRIV = -4"
definition FWTS_NULL_POINTER :: int where "FWTS_NULL_POINTER = -5"
definition FWTS_FALSE :: int where "FWTS_FALSE = 0"
definition FWTS_TRUE :: int where "FWTS_TRUE = 1"
definition FWTS_BOOL_ERROR :: int where "FWTS_BOOL_ERROR = -1"

definition say :: "test_output \<Rightarrow> acpi_state \<Rightarrow> acpi_state" where
  "say out st = st\<lparr>acpi_log := acpi_log st @ [out]\<rparr>"

text \<open>Bytes as characters, up to a NUL and at most n of them, as strncpy() and strncmp() read them.\<close>

definition chars :: "bytes \<Rightarrow> cstr" where
  "chars bs = map (\<lambda>b. char_of (unat b)) bs"

definition bytes_of :: "cstr \<Rightarrow> bytes" where
  "bytes_of s = map (\<lambda>c. word_of_nat (of_char c)) s"

definition cname :: "nat \<Rightarrow> bytes \<Rightarrow> cstr" where
  "cname n bs = takeWhile (\<lambda>c. c \<noteq> CHR 0x00) (chars (take n bs))"

section \<open>The cache\<close>

text \<open>
  fwts_acpi_add_table(): the loop over the slots with the number of tables of the same name so far;
  the second result tells whether the table was freed because its address is already cached. A
  table that finds no free slot is dropped.
\<close>

definition new_table :: "cstr \<Rightarrow> bytes \<Rightarrow> u64 \<Rightarrow> nat \<Rightarrow> fwts_acpi_table_provenance \<Rightarrow> nat \<Rightarrow> nat \<Rightarrow> fwts_acpi_table_info" where
  "new_table name t addr len prov i which =
     \<lparr> ti_name = take 4 name, ti_data = Some t, ti_length = len, ti_which = which, ti_index = i,
       ti_has_aml = (take 4 name = ''DSDT'' \<or> take 4 name = ''SSDT''), ti_addr = addr, ti_provenance = prov \<rparr>"

fun add_table_loop :: "cstr \<Rightarrow> bytes \<Rightarrow> u64 \<Rightarrow> nat \<Rightarrow> fwts_acpi_table_provenance \<Rightarrow> nat \<Rightarrow> nat \<Rightarrow>
    fwts_acpi_table_info list \<Rightarrow> fwts_acpi_table_info list \<times> bool" where
  "add_table_loop name t addr len prov i which [] = ([], False)"
| "add_table_loop name t addr len prov i which (x # xs) =
     (if addr \<noteq> 0 \<and> ti_addr x = addr then (x # xs, True)
      else let which = (if ti_name x = take 4 name then which + 1 else which) in
        case ti_data x of
          None \<Rightarrow> (new_table name t addr len prov i which # xs, False)
        | Some _ \<Rightarrow> (let (ys, freed) = add_table_loop name t addr len prov (i + 1) which xs in (x # ys, freed)))"

definition fwts_acpi_add_table :: "cstr \<Rightarrow> bytes \<Rightarrow> u64 \<Rightarrow> nat \<Rightarrow> fwts_acpi_table_provenance \<Rightarrow> acpi_state \<Rightarrow> acpi_state \<times> bool" where
  "fwts_acpi_add_table name t addr len prov st =
     (let (xs, freed) = add_table_loop name t addr len prov 0 0 (tables st) in (st\<lparr>tables := xs\<rparr>, freed))"

definition fwts_acpi_free_tables :: "acpi_state \<Rightarrow> acpi_state" where
  "fwts_acpi_free_tables st = st\<lparr>tables := map (\<lambda>x. if ti_data x \<noteq> None then no_table else x) (tables st)\<rparr>"

text \<open>The lookups of tables that are already loaded, as an index into the cache.\<close>

fun find_index :: "(fwts_acpi_table_info \<Rightarrow> bool) \<Rightarrow> fwts_acpi_table_info list \<Rightarrow> nat \<Rightarrow> nat option" where
  "find_index p [] i = None"
| "find_index p (x # xs) i =
     (if ti_data x = None then None else if p x then Some i else find_index p xs (i + 1))"

definition lookup_name :: "cstr \<Rightarrow> nat \<Rightarrow> acpi_state \<Rightarrow> nat option" where
  "lookup_name name which st = find_index (\<lambda>x. ti_name x = name \<and> ti_which x = which) (tables st) 0"

definition lookup_addr :: "u64 \<Rightarrow> acpi_state \<Rightarrow> nat option" where
  "lookup_addr addr st = find_index (\<lambda>x. ti_addr x = addr) (tables st) 0"

definition lookup_index :: "nat \<Rightarrow> acpi_state \<Rightarrow> nat option" where
  "lookup_index i st = (if ti_data (tables st ! i) = None then None else Some i)"

text \<open>The invariant of the cache: the tables fill the slots from the first on, have their position
  as index and, if they have a name, are numbered within it. Tables that were not given another
  address have distinct addresses, where they have one.\<close>

definition used :: "fwts_acpi_table_info list \<Rightarrow> fwts_acpi_table_info list" where
  "used xs = takeWhile (\<lambda>x. ti_data x \<noteq> None) xs"

definition numbered :: "fwts_acpi_table_info list \<Rightarrow> bool" where
  "numbered us \<longleftrightarrow> (\<forall>i < length us. ti_index (us ! i) = i \<and>
     (ti_name (us ! i) \<noteq> [] \<longrightarrow> ti_which (us ! i) = length (filter (\<lambda>x. ti_name x = ti_name (us ! i)) (take i us))))"

definition slots_ok :: "fwts_acpi_table_info list \<Rightarrow> bool" where
  "slots_ok xs \<longleftrightarrow>
     length xs = ACPI_MAX_TABLES \<and> (\<forall>x \<in> set (drop (length (used xs)) xs). x = no_table) \<and> numbered (used xs)"

definition addresses :: "fwts_acpi_table_info list \<Rightarrow> u64 list" where
  "addresses xs = filter (\<lambda>a. a \<noteq> 0) (map ti_addr (used xs))"

section \<open>Finding the RSDP\<close>

text \<open>fwts_scan_efi_systab.c: the number after the equals sign that follows the name, 0 if none.\<close>

fun systab_addr :: "cstr \<Rightarrow> cstr list \<Rightarrow> u64" where
  "systab_addr name [] = 0"
| "systab_addr name (s # ss) =
     (case (c_strstr s name, c_strstr s ''='') of
        (Some s_ptr, Some ptr) \<Rightarrow>
          if int (length s_ptr) - int (length ptr) \<noteq> int (length name) then systab_addr name ss
          else c_strtoul0 (drop 1 ptr)
      | _ \<Rightarrow> systab_addr name ss)"

definition fwts_scan_efi_systab :: "acpi_env \<Rightarrow> cstr \<Rightarrow> u64" where
  "fwts_scan_efi_systab env name =
     (case fwts_file_open_and_read (env_fs env) ''/sys/firmware/efi/systab'' of
        Some ls \<Rightarrow> systab_addr name ls
      | None \<Rightarrow>
          case fwts_file_open_and_read (env_fs env) ''/proc/efi/systab'' of
            Some ls \<Rightarrow> systab_addr name ls
          | None \<Rightarrow> 0)"

definition fwts_acpi_find_rsdp_efi :: "acpi_env \<Rightarrow> u64" where
  "fwts_acpi_find_rsdp_efi env =
     (let addr = fwts_scan_efi_systab env ''ACPI20''
      in if addr = 0 then fwts_scan_efi_systab env ''ACPI'' else addr)"

fun klog_rsdp :: "cstr list \<Rightarrow> u64 option" where
  "klog_rsdp [] = Some 0"
| "klog_rsdp (s # ss) =
     (case c_strstr s ''ACPI: RSDP'' of
        None \<Rightarrow> klog_rsdp ss
      | Some ptr \<Rightarrow> if length ptr < 11 then None else Some (fst (c_strtoull 16 (drop 11 ptr))))"

definition fwts_acpi_find_rsdp_klog :: "acpi_env \<Rightarrow> u64 option" where
  "fwts_acpi_find_rsdp_klog env = (case env_klog env of None \<Rightarrow> Some 0 | Some ls \<Rightarrow> klog_rsdp ls)"

definition BIOS_START :: u64 where "BIOS_START = 0x000e0000"
definition BIOS_END :: u64 where "BIOS_END = 0x000fffff"
definition BIOS_LENGTH :: nat where "BIOS_LENGTH = unat (BIOS_END - BIOS_START)"

definition RSD_PTR :: bytes where "RSD_PTR = [0x52, 0x53, 0x44, 0x20, 0x50, 0x54, 0x52, 0x20]"

definition rsdp_size :: "u64 \<Rightarrow> nat" where
  "rsdp_size revision = (if revision < 1 then 20 else 36)"

text \<open>The window of the BIOS scan at an address: whether it is an RSDP with a correct checksum.\<close>

definition is_rsdp :: "acpi_env \<Rightarrow> u64 \<Rightarrow> bool option" where
  "is_rsdp env addr =
     (case env_phys env addr 8 of
        Mapped sig \<Rightarrow>
          if sig \<noteq> RSD_PTR then Some False
          else (case env_phys env (addr + 15) 1 of
                  Mapped rb \<Rightarrow>
                    (let n = rsdp_size (le_word rb) in
                     case env_phys env addr n of
                       Mapped t \<Rightarrow> Some (fwts_checksum t n = 0)
                     | _ \<Rightarrow> Some False)
                | _ \<Rightarrow> None)
      | _ \<Rightarrow> Some False)"

fun scan_bios :: "acpi_env \<Rightarrow> u64 list \<Rightarrow> u64 option" where
  "scan_bios env [] = Some 0"
| "scan_bios env (addr # addrs) =
     do { found \<leftarrow> is_rsdp env addr; if found then Some addr else scan_bios env addrs }"

definition fwts_acpi_find_rsdp_bios :: "acpi_env \<Rightarrow> u64 option" where
  "fwts_acpi_find_rsdp_bios env =
     (if \<not> env_intel env then Some 0
      else case env_phys env BIOS_START BIOS_LENGTH of
        Unmapped \<Rightarrow> Some 0
      | _ \<Rightarrow> scan_bios env (map (\<lambda>i. BIOS_START + 16 * word_of_nat i) [0..<(BIOS_LENGTH + 15) div 16]))"

text \<open>fwts_acpi_get_rsdp(): a copy of 36 bytes, and 20 or 36 as the length of the table.\<close>

definition fwts_acpi_get_rsdp :: "acpi_env \<Rightarrow> u64 \<Rightarrow> acpi_state \<Rightarrow> (bytes \<times> nat) option \<times> acpi_state" where
  "fwts_acpi_get_rsdp env addr st =
     (if \<not> env_low_alloc env (sizeof fwts_acpi_table_rsdp)
      then (None, say (Err ''Cannot allocate cached RSDP, out of low memory.'') st)
      else case env_phys env addr (sizeof fwts_acpi_table_rsdp) of
        Unmapped \<Rightarrow> (None, st)
      | Unreadable \<Rightarrow> (None, say (Err (''Cannot safely copy RSDP from address '' @ env_pointer env @ ''.'')) st)
      | Mapped t \<Rightarrow>
          if take 8 t \<noteq> RSD_PTR then (None, say (Err ''RSDP did not have expected signature.'') st)
          else (Some (t, rsdp_size (le_word (take 1 (drop (offsetof fwts_acpi_table_rsdp ''revision'') t)))), st))"

section \<open>Loading the tables from memory\<close>

definition fwts_acpi_load_table :: "acpi_env \<Rightarrow> u64 \<Rightarrow> bytes option" where
  "fwts_acpi_load_table env addr =
     (case env_phys env addr (sizeof fwts_acpi_table_header) of
        Mapped hdr \<Rightarrow>
          do { len \<leftarrow> header_field hdr ''length'';
               let n = unat len;
               if n < sizeof fwts_acpi_table_header \<or> 2 ^ 31 \<le> n \<or> \<not> env_low_alloc env n then None
               else case env_phys env addr n of Mapped t \<Rightarrow> Some t | _ \<Rightarrow> None }
      | _ \<Rightarrow> None)"

text \<open>
  fwts_acpi_find_table() and what uses it, for a given way to load the tables: while the tables are
  being loaded, the lookup of the FACP loads them again.
\<close>

type_synonym loader = "acpi_state \<Rightarrow> (int \<times> acpi_state) option"

definition find_table_with :: "loader \<Rightarrow> (acpi_state \<Rightarrow> nat option) \<Rightarrow> acpi_state \<Rightarrow> (int \<times> nat option \<times> acpi_state) option" where
  "find_table_with load look st =
     (case acpi_tables_loaded st of
        ACPI_TABLES_NOT_LOADED \<Rightarrow>
          do { (ret, st) \<leftarrow> load st; Some (if ret \<noteq> FWTS_OK then (ret, None, st) else (FWTS_OK, look st, st)) }
      | _ \<Rightarrow> Some (FWTS_OK, look st, st))"

definition find_name_with :: "loader \<Rightarrow> cstr \<Rightarrow> nat \<Rightarrow> acpi_state \<Rightarrow> (int \<times> nat option \<times> acpi_state) option" where
  "find_name_with load name which st =
     (if acpi_tables_loaded st = ACPI_TABLES_LOADED_FAILED then Some (FWTS_ERROR, None, st)
      else find_table_with load (lookup_name name which) st)"

definition table_at :: "acpi_state \<Rightarrow> nat \<Rightarrow> bytes option" where
  "table_at st i = ti_data (tables st ! i)"

definition FWTS_FADT_FLAGS_HW_REDUCED_ACPI :: u64 where "FWTS_FADT_FLAGS_HW_REDUCED_ACPI = push_bit 20 1"

definition hw_reduced :: "bytes \<Rightarrow> bool option" where
  "hw_reduced fadt =
     do { revision \<leftarrow> header_field fadt ''revision''; len \<leftarrow> header_field fadt ''length'';
          if revision \<ge> 5 \<and> len \<ge> 116
          then do { flags \<leftarrow> get fadt 0 fwts_acpi_table_fadt ''flags'';
                    Some (flags AND FWTS_FADT_FLAGS_HW_REDUCED_ACPI \<noteq> 0) }
          else Some False }"

definition is_reduced_with :: "loader \<Rightarrow> acpi_state \<Rightarrow> (int \<times> acpi_state) option" where
  "is_reduced_with load st =
     do { (ret, info, st) \<leftarrow> find_name_with load ''FACP'' 0 st;
          if ret \<noteq> FWTS_OK then Some (FWTS_BOOL_ERROR, say (Err ''Cannot read ACPI table FACP.'') st)
          else case info of
            None \<Rightarrow> Some (FWTS_BOOL_ERROR, say (Err ''ACPI table FACP does not exist!'') st)
          | Some i \<Rightarrow> do { fadt \<leftarrow> table_at st i; hw \<leftarrow> hw_reduced fadt;
                           Some (if hw then FWTS_TRUE else FWTS_FALSE, st) } }"

text \<open>The address of the FACS or DSDT in the FADT, and loading the table there.\<close>

definition fadt_pointer :: "bytes \<Rightarrow> cstr \<Rightarrow> cstr \<Rightarrow> cstr \<Rightarrow> string \<Rightarrow> string \<Rightarrow> acpi_state \<Rightarrow> ((int, u64) sum \<times> acpi_state) option" where
  "fadt_pointer fadt name name32 name64 f32 f64 st =
     do { len \<leftarrow> header_field fadt ''length'';
          if len \<ge> 140 then
            do { a64 \<leftarrow> get fadt 0 fwts_acpi_table_fadt f64;
                 a32 \<leftarrow> get fadt 0 fwts_acpi_table_fadt f32;
                 let st = (if a64 = 0 then say (Warn (''FADT '' @ name64 @ '' 64 bit pointer was zero, falling back to using ''
                             @ name32 @ '' 32 bit pointer.'')) st else st);
                 let addr = (if a64 = 0 then a32 else a64);
                 Some (if addr = 0
                   then (Inl FWTS_NULL_POINTER, say (Warn (''Failed to load '' @ name @ '': Cannot determine address of '' @ name @
                           '' from FADT, fields '' @ name32 @ '' and '' @ name64 @ '' are zero.'')) st)
                   else (Inr addr, st)) }
          else if len \<ge> 44 then
            do { addr \<leftarrow> get fadt 0 fwts_acpi_table_fadt f32;
                 Some (if addr = 0
                   then (Inl FWTS_NULL_POINTER, say (Warn (''Failed to load '' @ name @ '': Cannot determine address of '' @ name @
                           '' from FADT, field '' @ name32 @ '' is zero.'')) st)
                   else (Inr addr, st)) }
          else Some (Inl FWTS_ERROR, say (Err (''Failed to load '' @ name @ '': FADT is too small and does not have any '' @
                      name32 @ '' or '' @ name64 @ '' fields.'')) st) }"

text \<open>A table that was loaded has its header, with its length and signature.\<close>

definition add_loaded :: "bytes \<Rightarrow> u64 \<Rightarrow> acpi_state \<Rightarrow> (acpi_state \<times> bool) option" where
  "add_loaded t addr st =
     do { len \<leftarrow> header_field t ''length'';
          Some (fwts_acpi_add_table (cname 4 t) t addr (unat len) FWTS_ACPI_TABLE_FROM_FIRMWARE st) }"

definition fwts_acpi_handle_fadt_tables :: "acpi_env \<Rightarrow> bytes \<Rightarrow> cstr \<Rightarrow> cstr \<Rightarrow> cstr \<Rightarrow> string \<Rightarrow> string \<Rightarrow> acpi_state \<Rightarrow> (int \<times> acpi_state) option" where
  "fwts_acpi_handle_fadt_tables env fadt name name32 name64 f32 f64 st =
     do { (p, st) \<leftarrow> fadt_pointer fadt name name32 name64 f32 f64 st;
          case p of
            Inl ret \<Rightarrow> Some (ret, st)
          | Inr addr \<Rightarrow>
              case fwts_acpi_load_table env addr of
                None \<Rightarrow> Some (FWTS_ERROR, say (Err (''Could not load '' @ name @ '' from address 0x'' @ show_hex (unat addr) @ ''.'')) st)
              | Some t \<Rightarrow> do { (st, freed) \<leftarrow> add_loaded t addr st; Some (FWTS_OK, st) } }"

definition fwts_acpi_handle_fadt :: "acpi_env \<Rightarrow> loader \<Rightarrow> u64 \<Rightarrow> bytes \<Rightarrow> acpi_state \<Rightarrow> (int \<times> acpi_state) option" where
  "fwts_acpi_handle_fadt env load phys_addr fadt st =
     (if facs_last_phys_addr st = phys_addr then Some (FWTS_OK, st)
      else do {
        let st = st\<lparr>facs_last_phys_addr := phys_addr\<rparr>;
        (ret, st) \<leftarrow> fwts_acpi_handle_fadt_tables env fadt ''FACS'' ''FIRMWARE_CTRL'' ''X_FIRMWARE_CTRL''
                      ''firmware_control'' ''x_firmware_ctrl'' st;
        (ok, st) \<leftarrow> (if ret = FWTS_OK then Some (True, st)
                    else if ret = FWTS_NULL_POINTER
                    then do { (hw, st) \<leftarrow> is_reduced_with load st;
                              Some (if hw = FWTS_TRUE
                                then (True, say (Info ''Ignore the missing FACS. It is optional in hardware-reduced mode'') st)
                                else (False, st)) }
                    else Some (False, st));
        if \<not> ok then Some (FWTS_ERROR, say (Err ''Failed to load FACS.'') st)
        else do {
          (ret, st) \<leftarrow> fwts_acpi_handle_fadt_tables env fadt ''DSDT'' ''DSTD'' ''X_DSDT'' ''dsdt'' ''x_dsdt'' st;
          Some (if ret \<noteq> FWTS_OK then (FWTS_ERROR, say (Err ''Failed to load DSDT.'') st) else (FWTS_OK, st)) } })"

text \<open>The loop over the entries of the XSDT or RSDT: False for the jump to fail.\<close>

fun load_entries :: "acpi_env \<Rightarrow> loader \<Rightarrow> u64 list \<Rightarrow> acpi_state \<Rightarrow> (bool \<times> acpi_state) option" where
  "load_entries env load [] st = Some (True, st)"
| "load_entries env load (e # es) st =
     (case (if e = 0 then None else fwts_acpi_load_table env e) of
        None \<Rightarrow> load_entries env load es st
      | Some t \<Rightarrow>
          do { (ret, st) \<leftarrow> (if take 4 t = bytes_of ''FACP'' then fwts_acpi_handle_fadt env load e t st else Some (FWTS_OK, st));
               if ret \<noteq> FWTS_OK then Some (False, st)
               else do { (st, freed) \<leftarrow> add_loaded t e st; load_entries env load es st } })"

fun entries_of :: "nat \<Rightarrow> bytes \<Rightarrow> u64 list" where
  "entries_of w bs = (if w = 0 \<or> length bs < w then [] else le_word (take w bs) # entries_of w (drop w bs))"

declare entries_of.simps [simp del]

text \<open>Loading the XSDT or RSDT at an address and its entries; a root table that add_table freed is used after that.\<close>

definition load_root :: "acpi_env \<Rightarrow> loader \<Rightarrow> cstr \<Rightarrow> nat \<Rightarrow> u64 \<Rightarrow> acpi_state \<Rightarrow> (bool \<times> acpi_state) option" where
  "load_root env load name w addr st =
     (case (if addr = 0 then None else fwts_acpi_load_table env addr) of
        None \<Rightarrow> Some (True, st)
      | Some t \<Rightarrow>
          do { len \<leftarrow> header_field t ''length'';
               let (st, freed) = fwts_acpi_add_table name t addr (unat len) FWTS_ACPI_TABLE_FROM_FIRMWARE st;
               if freed then None
               else load_entries env load (entries_of w (drop (sizeof fwts_acpi_table_header) t)) st })"

definition find_rsdp :: "acpi_env \<Rightarrow> fwts_framework \<Rightarrow> u64 option" where
  "find_rsdp env fw =
     (if rsdp fw \<noteq> 0 then Some (rsdp fw)
      else let efi = fwts_acpi_find_rsdp_efi env in
        if efi \<noteq> 0 then Some efi
        else do { bios \<leftarrow> fwts_acpi_find_rsdp_bios env;
                  if bios \<noteq> 0 then Some bios else fwts_acpi_find_rsdp_klog env })"

definition load_tables_from_firmware :: "acpi_env \<Rightarrow> fwts_framework \<Rightarrow> loader \<Rightarrow> acpi_state \<Rightarrow> (int \<times> acpi_state) option" where
  "load_tables_from_firmware env fw load st =
     do { addr \<leftarrow> find_rsdp env fw;
          if addr = 0 then Some (FWTS_ERROR, st)
          else case fwts_acpi_get_rsdp env addr st of
            (None, st) \<Rightarrow> Some (FWTS_ERROR, st)
          | (Some (t, len), st) \<Rightarrow>
              do { let (st, freed) = fwts_acpi_add_table ''RSDP'' t addr len FWTS_ACPI_TABLE_FROM_FIRMWARE st;
                   if freed then None
                   else do {
                     xsdt \<leftarrow> get t 0 fwts_acpi_table_rsdp ''xsdt_address'';
                     rsdt \<leftarrow> get t 0 fwts_acpi_table_rsdp ''rsdt_address'';
                     (ok, st) \<leftarrow> load_root env load ''XSDT'' 8 xsdt st;
                     (ok, st) \<leftarrow> (if ok then load_root env load ''RSDT'' 4 rsdt st else Some (False, st));
                     Some (if ok then (FWTS_OK, st) else (FWTS_ERROR, fwts_acpi_free_tables st)) } } }"

section \<open>Loading the tables from files\<close>

definition fwts_fake_physical_addr :: "nat \<Rightarrow> acpi_state \<Rightarrow> u32 \<times> acpi_state" where
  "fwts_fake_physical_addr n st = (fake_phys_addr st, st\<lparr>fake_phys_addr := fake_phys_addr st + word_of_nat (n + 16)\<rparr>)"

definition add_dumped :: "cstr \<times> u64 \<times> bytes \<Rightarrow> acpi_state \<Rightarrow> acpi_state" where
  "add_dumped x st =
     (case x of (name, addr, t) \<Rightarrow>
        let n = length t;
            (addr, st) = (if addr = 0 then (let (a, st) = fwts_fake_physical_addr n st in (ucast a, st)) else (addr, st));
            (addr, st) = (if addr = 0 then (let (a, st) = fwts_fake_physical_addr n st in (ucast a, st)) else (addr, st))
        in fst (fwts_acpi_add_table name t addr n FWTS_ACPI_TABLE_FROM_FILE st))"

definition quoted :: "cstr \<Rightarrow> cstr" where
  "quoted s = [CHR 0x27] @ s @ [CHR 0x27]"

definition fwts_acpi_load_tables_from_acpidump :: "acpi_env \<Rightarrow> fwts_framework \<Rightarrow> acpi_state \<Rightarrow> (int \<times> acpi_state) option" where
  "fwts_acpi_load_tables_from_acpidump env fw st =
     (case acpi_table_acpidump_file fw of
        None \<Rightarrow> Some (FWTS_ERROR, st)
      | Some file \<Rightarrow>
          case env_fs env file of
            None \<Rightarrow> Some (FWTS_ERROR, say (Err (''Cannot open '' @ quoted file @ '' to read ACPI tables.'')) st)
          | Some content \<Rightarrow>
              do { (ts, outs) \<leftarrow> load_dump (env_garbage env) (fgets_lines DUMP_LINE content);
                   Some (FWTS_OK, fold add_dumped ts (fold say outs st)) })"

text \<open>A raw table file; an empty one has no data.\<close>

definition fwts_acpi_load_table_from_file :: "acpi_env \<Rightarrow> bytes \<Rightarrow> bytes option" where
  "fwts_acpi_load_table_from_file env t =
     (if t = [] \<or> 2 ^ 32 \<le> length t \<or> \<not> env_low_alloc env (length t) then None else Some t)"

definition load_file :: "acpi_env \<Rightarrow> cstr \<Rightarrow> dir_file \<Rightarrow> acpi_state \<Rightarrow> nat \<times> acpi_state" where
  "load_file env path f st =
     (case f of
        Open_fails \<Rightarrow> (0, say (Err (''Cannot load ACPI table from file '' @ quoted path @ [NL])) st)
      | Stat_fails \<Rightarrow> (0, say (Err (''Cannot stat file '' @ quoted path @ [NL])) st)
      | Not_regular \<Rightarrow> (0, st)
      | Read_fails \<Rightarrow> (0, st)
      | Content t \<Rightarrow>
          case fwts_acpi_load_table_from_file env t of
            None \<Rightarrow> (0, st)
          | Some t \<Rightarrow>
              (let name = (if take 8 t = RSD_PTR then ''RSDP'' else cname 4 t) in
               if name = ''XSDT'' \<or> name = ''RSDT'' then (1, st)
               else let (addr, st) = fwts_fake_physical_addr (length t) st
                    in (1, fst (fwts_acpi_add_table name t (ucast addr) (length t) FWTS_ACPI_TABLE_FROM_FILE st))))"

fun load_files :: "acpi_env \<Rightarrow> cstr \<Rightarrow> cstr \<Rightarrow> (cstr \<times> dir_file) list \<Rightarrow> acpi_state \<Rightarrow> nat \<times> acpi_state" where
  "load_files env dir extension [] st = (0, st)"
| "load_files env dir extension ((d_name, f) # es) st =
     (if take 1 d_name = ''.'' \<or> c_strstr d_name extension = None then load_files env dir extension es st
      else let (n, st) = load_file env (take 4095 (dir @ ''/'' @ d_name)) f st;
               (m, st) = load_files env dir extension es st
           in (n + m, st))"

definition fwts_acpi_load_tables_from_file_generic :: "acpi_env \<Rightarrow> cstr option \<Rightarrow> cstr \<Rightarrow> acpi_state \<Rightarrow> int \<times> nat \<times> acpi_state" where
  "fwts_acpi_load_tables_from_file_generic env path extension st =
     (case path of
        None \<Rightarrow> (FWTS_ERROR, 0, st)
      | Some dir \<Rightarrow>
          case env_scandir env dir of
            None \<Rightarrow> (FWTS_ERROR, 0, st)
          | Some es \<Rightarrow> (let (n, st) = load_files env dir extension es st in (FWTS_OK, n, st)))"

definition fwts_acpi_load_tables_from_file :: "acpi_env \<Rightarrow> fwts_framework \<Rightarrow> acpi_state \<Rightarrow> int \<times> acpi_state" where
  "fwts_acpi_load_tables_from_file env fw st =
     (case acpi_table_path fw of
        None \<Rightarrow> (FWTS_ERROR, st)
      | Some path \<Rightarrow>
          (let (_, count, st) = fwts_acpi_load_tables_from_file_generic env (Some path) ''.dat'' st in
           if count = 0
           then (FWTS_ERROR, say (Err (''Could not find any ACPI tables in directory '' @ quoted path @ ''.'' @ [NL])) st)
           else (FWTS_OK, st)))"

definition fwts_acpi_load_tables_from_sysfs :: "acpi_env \<Rightarrow> acpi_state \<Rightarrow> int \<times> acpi_state" where
  "fwts_acpi_load_tables_from_sysfs env st =
     (let (_, n, st) = fwts_acpi_load_tables_from_file_generic env (Some ''/sys/firmware/acpi/tables'') [] st;
          (_, m, st) = fwts_acpi_load_tables_from_file_generic env (Some ''/sys/firmware/acpi/tables/dynamic'') [] st
      in if n + m = 0
         then (FWTS_ERROR, say (Err (''Could not find any ACPI tables in directory '' @ quoted ''/sys/firmware/acpi/tables'' @ ''.'' @ [NL])) st)
         else (FWTS_OK, st))"

section \<open>Completing tables that came from files\<close>

definition fwts_acpi_table_fixable :: "fwts_acpi_table_info \<Rightarrow> bool" where
  "fwts_acpi_table_fixable x =
     (case ti_data x of None \<Rightarrow> False
      | Some t \<Rightarrow> take 4 t \<noteq> bytes_of ''RSDT'' \<and> take 4 t \<noteq> bytes_of ''XSDT'')"

definition set_data :: "nat \<Rightarrow> bytes \<Rightarrow> acpi_state \<Rightarrow> acpi_state" where
  "set_data i t st = st\<lparr>tables := (tables st)[i := (tables st ! i)\<lparr>ti_data := Some t\<rparr>]\<rparr>"

definition set_addr :: "nat \<Rightarrow> u64 \<Rightarrow> acpi_state \<Rightarrow> acpi_state" where
  "set_addr i a st = st\<lparr>tables := (tables st)[i := (tables st ! i)\<lparr>ti_addr := a\<rparr>]\<rparr>"

definition fwts_acpi_fixup_addr_from_fadt :: "cstr \<Rightarrow> u64 \<Rightarrow> u64 \<Rightarrow> acpi_state \<Rightarrow> acpi_state" where
  "fwts_acpi_fixup_addr_from_fadt name a32 a64 st =
     (case lookup_name name 0 st of
        None \<Rightarrow> st
      | Some i \<Rightarrow> if a64 \<noteq> 0 then set_addr i a64 st else if a32 \<noteq> 0 then set_addr i a32 st else st)"

text \<open>An assignment to a member, which must be inside the table.\<close>

definition store :: "bytes \<Rightarrow> layout \<Rightarrow> string \<Rightarrow> u64 \<Rightarrow> bytes option" where
  "store t l f v =
     (case field_at l f 0 of None \<Rightarrow> None | Some (off, n) \<Rightarrow> if off + n \<le> length t then Some (put t 0 l f v) else None)"

definition fake_facs :: bytes where
  "fake_facs =
     (let t = replicate 64 0;
          t = put_bytes t 0 fwts_acpi_table_facs ''signature'' (bytes_of ''FACS'');
          t = put t 0 fwts_acpi_table_facs ''length'' 64;
          t = put t 0 fwts_acpi_table_facs ''hardware_signature'' 0xf000a200;
          t = put t 0 fwts_acpi_table_facs ''flags'' 0
      in put t 0 fwts_acpi_table_facs ''version'' 2)"

text \<open>The address of the FACS that is built: from the FADT, or a new one that is written to the FADT,
  with its checksum.\<close>

definition patch_fadt :: "bytes \<Rightarrow> u64 \<Rightarrow> bytes option" where
  "patch_fadt fadt addr =
     do { len \<leftarrow> header_field fadt ''length'';
          t \<leftarrow> (if len \<ge> 140 then store fadt fwts_acpi_table_fadt ''x_firmware_ctrl'' addr
               else store fadt fwts_acpi_table_fadt ''firmware_control'' (ucast (ucast addr :: u32)));
          c \<leftarrow> header_field t ''checksum'';
          store t fwts_acpi_table_fadt ''header.checksum'' (c - ucast (fwts_checksum (word_le 8 addr) 8)) }"

definition fixup_facs :: "acpi_env \<Rightarrow> nat \<Rightarrow> acpi_state \<Rightarrow> (int \<times> acpi_state) option" where
  "fixup_facs env i st =
     (if lookup_name ''FACS'' 0 st \<noteq> None then Some (FWTS_OK, st)
      else do {
        (hw, st) \<leftarrow> is_reduced_with (\<lambda>st. None) st;
        let st = say (if hw \<noteq> FWTS_FALSE then Info ''No FACS found, fwts has faked one instead.''
                      else Warn ''No FACS found, fwts has faked one instead.'') st;
        if \<not> env_low_alloc env 64 then Some (FWTS_ERROR, say (Err ''Cannot allocate fake FACS.'') st)
        else do {
          fadt \<leftarrow> table_at st i;
          len \<leftarrow> header_field fadt ''length'';
          a64 \<leftarrow> (if len \<ge> 140 then get fadt 0 fwts_acpi_table_fadt ''x_firmware_ctrl'' else Some 0);
          a32 \<leftarrow> get fadt 0 fwts_acpi_table_fadt ''firmware_control'';
          (addr, st) \<leftarrow> (if a64 \<noteq> 0 then Some (a64, st)
                        else if a32 \<noteq> 0 then Some (a32, st)
                        else let (a, st) = fwts_fake_physical_addr 64 st in
                          do { t \<leftarrow> patch_fadt fadt (ucast a); Some (ucast a, set_data i t st) });
          Some (FWTS_OK, fst (fwts_acpi_add_table ''FACS'' fake_facs addr 64 FWTS_ACPI_TABLE_FROM_FIXUP st)) } })"

text \<open>An RSDT or XSDT with the addresses of the tables, w bytes each.\<close>

definition root_entries :: "acpi_state \<Rightarrow> u64 list" where
  "root_entries st = map ti_addr (filter fwts_acpi_table_fixable (used (tables st)))"

definition root_table :: "cstr \<Rightarrow> nat \<Rightarrow> bytes \<Rightarrow> u64 list \<Rightarrow> bytes" where
  "root_table sig w oem_tbl_id addrs =
     (let n = sizeof fwts_acpi_table_header + w * length addrs;
          t = replicate (sizeof fwts_acpi_table_header) 0 @ concat (map (word_le w) addrs);
          t = put_bytes t 0 fwts_acpi_table_header ''signature'' (bytes_of sig);
          t = put t 0 fwts_acpi_table_header ''length'' (word_of_nat n);
          t = put t 0 fwts_acpi_table_header ''revision'' 1;
          t = put_bytes t 0 fwts_acpi_table_header ''oem_id'' (bytes_of ''FWTSID'');
          t = put_bytes t 0 fwts_acpi_table_header ''oem_tbl_id'' oem_tbl_id;
          t = put t 0 fwts_acpi_table_header ''oem_revision'' 1;
          t = put_bytes t 0 fwts_acpi_table_header ''creator_id'' (bytes_of ''FWTS'');
          t = put t 0 fwts_acpi_table_header ''creator_revision'' 1
      in put t 0 fwts_acpi_table_header ''checksum'' (256 - ucast (fwts_checksum t n)))"

definition fixup_root :: "acpi_env \<Rightarrow> cstr \<Rightarrow> nat \<Rightarrow> bytes \<Rightarrow> acpi_state \<Rightarrow> u64 option \<times> acpi_state" where
  "fixup_root env sig w oem_tbl_id st =
     (case lookup_name sig 0 st of
        Some i \<Rightarrow> (Some (ti_addr (tables st ! i)), st)
      | None \<Rightarrow>
          (let n = sizeof fwts_acpi_table_header + w * length (root_entries st) in
           if \<not> env_low_alloc env n then (None, say (Err (''Cannot allocate fake '' @ sig @ ''.'')) st)
           else let t = root_table sig w oem_tbl_id (root_entries st);
                    (a, st) = fwts_fake_physical_addr n st
                in (Some (ucast a), fst (fwts_acpi_add_table sig t (ucast a) n FWTS_ACPI_TABLE_FROM_FIXUP st))))"

definition rsdp_checksums :: "bytes \<Rightarrow> bytes option" where
  "rsdp_checksums t =
     do { t \<leftarrow> store t fwts_acpi_table_rsdp ''checksum'' 0;
          t \<leftarrow> store t fwts_acpi_table_rsdp ''checksum'' (256 - ucast (fwts_checksum t 20));
          t \<leftarrow> store t fwts_acpi_table_rsdp ''extended_checksum'' 0;
          len \<leftarrow> get t 0 fwts_acpi_table_rsdp ''length'';
          if unat len > length t then None
          else store t fwts_acpi_table_rsdp ''extended_checksum'' (256 - ucast (fwts_checksum t (unat len))) }"

definition fake_rsdp :: "bytes option" where
  "fake_rsdp =
     (let t = replicate (sizeof fwts_acpi_table_rsdp) 0;
          t = put_bytes t 0 fwts_acpi_table_rsdp ''signature'' RSD_PTR;
          t = put_bytes t 0 fwts_acpi_table_rsdp ''oem_id'' (bytes_of ''FWTSID'');
          t = put t 0 fwts_acpi_table_rsdp ''revision'' 2;
          t = put t 0 fwts_acpi_table_rsdp ''length'' (word_of_nat (sizeof fwts_acpi_table_rsdp))
      in rsdp_checksums t)"

text \<open>The addresses of the root tables in the RSDP.\<close>

definition fix_rsdt_address :: "bytes \<Rightarrow> u64 \<Rightarrow> (bytes \<times> bool) option" where
  "fix_rsdt_address t addr =
     do { a \<leftarrow> get t 0 fwts_acpi_table_rsdp ''rsdt_address'';
          if a = addr then Some (t, False)
          else do { t \<leftarrow> store t fwts_acpi_table_rsdp ''rsdt_address'' addr; Some (t, True) } }"

definition fix_xsdt_address :: "bytes \<Rightarrow> u64 \<Rightarrow> (bytes \<times> bool) option" where
  "fix_xsdt_address t addr =
     do { revision \<leftarrow> get t 0 fwts_acpi_table_rsdp ''revision'';
          if revision = 0 then Some (t, False)
          else do {
            len \<leftarrow> get t 0 fwts_acpi_table_rsdp ''length'';
            if len < 36 then Some (t, False)
            else do {
              a \<leftarrow> get t 0 fwts_acpi_table_rsdp ''xsdt_address'';
              if a = addr then Some (t, False)
              else do { t \<leftarrow> store t fwts_acpi_table_rsdp ''xsdt_address'' addr; Some (t, True) } } } }"

definition fix_rsdp :: "fwts_framework \<Rightarrow> bytes \<Rightarrow> u64 \<Rightarrow> u64 \<Rightarrow> bytes option" where
  "fix_rsdp fw t rsdt xsdt =
     do { (t, r) \<leftarrow> (if target_arch fw = FWTS_ARCH_ARM64 then Some (t, False) else fix_rsdt_address t rsdt);
          (t, x) \<leftarrow> fix_xsdt_address t xsdt;
          if r \<or> x then rsdp_checksums t else Some t }"

definition fixup_rsdp :: "acpi_env \<Rightarrow> fwts_framework \<Rightarrow> u64 \<Rightarrow> u64 \<Rightarrow> acpi_state \<Rightarrow> (int \<times> acpi_state) option" where
  "fixup_rsdp env fw rsdt xsdt st =
     (case lookup_name ''RSDP'' 0 st of
        Some i \<Rightarrow> do { t \<leftarrow> table_at st i; t \<leftarrow> fix_rsdp fw t rsdt xsdt; Some (FWTS_OK, set_data i t st) }
      | None \<Rightarrow>
          (let n = sizeof fwts_acpi_table_rsdp in
           if \<not> env_low_alloc env n then Some (FWTS_ERROR, say (Err ''Cannot allocate fake RSDP.'') st)
           else let (a, st) = fwts_fake_physical_addr n st in
             do { t \<leftarrow> fake_rsdp; t \<leftarrow> fix_rsdp fw t rsdt xsdt;
                  let (st, freed) = fwts_acpi_add_table ''RSDP'' t (ucast a) n FWTS_ACPI_TABLE_FROM_FIXUP st;
                  if freed then None else Some (FWTS_OK, st) }))"

definition fwts_acpi_load_tables_fixup :: "acpi_env \<Rightarrow> fwts_framework \<Rightarrow> acpi_state \<Rightarrow> (int \<times> acpi_state) option" where
  "fwts_acpi_load_tables_fixup env fw st =
     (case lookup_name ''FACP'' 0 st of
        None \<Rightarrow> Some (FWTS_ERROR, say (Err ''Cannot find FACP.'') st)
      | Some i \<Rightarrow> do {
          (ret, st) \<leftarrow> fixup_facs env i st;
          if ret \<noteq> FWTS_OK then Some (ret, st)
          else do {
            fadt \<leftarrow> table_at st i;
            fc \<leftarrow> get fadt 0 fwts_acpi_table_fadt ''firmware_control'';
            xfc \<leftarrow> get fadt 0 fwts_acpi_table_fadt ''x_firmware_ctrl'';
            let st = fwts_acpi_fixup_addr_from_fadt ''FACS'' fc xfc st;
            dsdt \<leftarrow> get fadt 0 fwts_acpi_table_fadt ''dsdt'';
            xdsdt \<leftarrow> get fadt 0 fwts_acpi_table_fadt ''x_dsdt'';
            let st = fwts_acpi_fixup_addr_from_fadt ''DSDT'' dsdt xdsdt st;
            oem \<leftarrow> get_bytes fadt 0 fwts_acpi_table_fadt ''header.oem_tbl_id'';
            (case fixup_root env ''RSDT'' 4 oem st of
               (None, st) \<Rightarrow> Some (FWTS_ERROR, st)
             | (Some rsdt, st) \<Rightarrow>
                 case fixup_root env ''XSDT'' 8 oem st of
                   (None, st) \<Rightarrow> Some (FWTS_ERROR, st)
                 | (Some xsdt, st) \<Rightarrow> fixup_rsdp env fw rsdt xsdt st) } })"

section \<open>Loading and looking up\<close>

text \<open>fwts_acpi_load_tables() for a given way to load the tables again while they are being loaded.\<close>

definition load_tables_with :: "acpi_env \<Rightarrow> fwts_framework \<Rightarrow> loader \<Rightarrow> loader" where
  "load_tables_with env fw load st =
     do { (ret, fixup, st) \<leftarrow>
            (if acpi_table_path fw \<noteq> None then
               (let (ret, st) = fwts_acpi_load_tables_from_file env fw st in Some (ret, True, st))
             else if acpi_table_acpidump_file fw \<noteq> None then
               do { (ret, st) \<leftarrow> fwts_acpi_load_tables_from_acpidump env fw st; Some (ret, True, st) }
             else if euid_root fw then
               (let (ret, st) = fwts_acpi_load_tables_from_sysfs env st in
                if ret \<noteq> FWTS_OK
                then do { (ret, st) \<leftarrow> load_tables_from_firmware env fw load st; Some (ret, False, st) }
                else Some (ret, True, st))
             else Some (FWTS_ERROR_NO_PRIV, False,
                    say (Err ''Must be run as root or sudo to be able to read system information.'') st));
          if ret = FWTS_OK then
            do { let st = st\<lparr>acpi_tables_loaded := ACPI_TABLES_LOADED_OK\<rparr>;
                 (_, st) \<leftarrow> (if fixup then fwts_acpi_load_tables_fixup env fw st else Some (ret, st));
                 Some (ret, st) }
          else Some (ret, st\<lparr>acpi_tables_loaded := ACPI_TABLES_LOADED_FAILED\<rparr>) }"

definition fwts_acpi_load_tables :: "acpi_env \<Rightarrow> fwts_framework \<Rightarrow> loader" where
  "fwts_acpi_load_tables env fw = load_tables_with env fw (load_tables_with env fw (\<lambda>st. None))"

definition fwts_acpi_find_table ::
    "acpi_env \<Rightarrow> fwts_framework \<Rightarrow> cstr \<Rightarrow> nat \<Rightarrow> acpi_state \<Rightarrow> (int \<times> nat option \<times> acpi_state) option" where
  "fwts_acpi_find_table env fw = find_name_with (fwts_acpi_load_tables env fw)"

definition fwts_acpi_find_table_by_addr ::
    "acpi_env \<Rightarrow> fwts_framework \<Rightarrow> u64 \<Rightarrow> acpi_state \<Rightarrow> (int \<times> nat option \<times> acpi_state) option" where
  "fwts_acpi_find_table_by_addr env fw addr = find_table_with (fwts_acpi_load_tables env fw) (lookup_addr addr)"

definition fwts_acpi_get_table ::
    "acpi_env \<Rightarrow> fwts_framework \<Rightarrow> nat \<Rightarrow> acpi_state \<Rightarrow> (int \<times> nat option \<times> acpi_state) option" where
  "fwts_acpi_get_table env fw i st =
     (if i \<ge> ACPI_MAX_TABLES then Some (FWTS_ERROR, None, st)
      else find_table_with (fwts_acpi_load_tables env fw) (lookup_index i) st)"

definition fwts_acpi_is_reduced_hardware :: "acpi_env \<Rightarrow> fwts_framework \<Rightarrow> acpi_state \<Rightarrow> (int \<times> acpi_state) option" where
  "fwts_acpi_is_reduced_hardware env fw = is_reduced_with (fwts_acpi_load_tables env fw)"

text \<open>The table a test is about, as acpi_table_generic_init() finds it.\<close>

definition acpi_table_generic_init ::
    "acpi_env \<Rightarrow> fwts_framework \<Rightarrow> cstr \<Rightarrow> acpi_state \<Rightarrow> (int \<times> nat option \<times> acpi_state) option" where
  "acpi_table_generic_init env fw name st =
     do { (ret, info, st) \<leftarrow> fwts_acpi_find_table env fw name 0 st;
          Some (if ret \<noteq> FWTS_OK then (FWTS_ERROR, info, say (Err ''Cannot read ACPI tables.'') st)
                else case info of
                  None \<Rightarrow> (FWTS_SKIP, None, say (Err (''ACPI '' @ name @ '' table does not exist, skipping test'')) st)
                | Some i \<Rightarrow>
                    if ti_length (tables st ! i) = 0
                    then (FWTS_SKIP, info, say (Err (''ACPI '' @ name @ '' table does not exist, skipping test'')) st)
                    else (FWTS_OK, info, st)) }"

section \<open>The ACPI version\<close>

definition FWTS_ACPI_VERSION_NEXT :: u32 where "FWTS_ACPI_VERSION_NEXT = 0x670"
definition FWTS_ACPI_VERSION_10 :: u32 where "FWTS_ACPI_VERSION_10 = 0x100"

definition version_of_fadt :: "bytes \<Rightarrow> u32 option" where
  "version_of_fadt fadt =
     do { m \<leftarrow> get fadt 0 fwts_acpi_table_fadt ''minor_version'';
          r \<leftarrow> header_field fadt ''revision'';
          Some (ucast (push_bit 8 r + push_bit 4 (m AND 0xf) + drop_bit 4 (m AND 0xf0))) }"

definition fwts_get_acpi_version :: "acpi_env \<Rightarrow> fwts_framework \<Rightarrow> acpi_state \<Rightarrow> (u32 \<times> acpi_state) option" where
  "fwts_get_acpi_version env fw st =
     (if acpi_version st \<noteq> 0 then Some (acpi_version st, st)
      else do {
        (ret, info, st) \<leftarrow> fwts_acpi_find_table env fw ''FACP'' 0 st;
        if ret \<noteq> FWTS_OK then Some (0, say (Err ''Cannot read ACPI table FACP.'') st)
        else case info of
          None \<Rightarrow> Some (0, say (Err ''ACPI table FACP does not exist!'') st)
        | Some i \<Rightarrow> do {
            fadt \<leftarrow> table_at st i;
            v \<leftarrow> version_of_fadt fadt;
            let st = st\<lparr>acpi_version := v\<rparr>;
            Some (if v > FWTS_ACPI_VERSION_NEXT \<or> v < FWTS_ACPI_VERSION_10 then 0 else v, st) } })"

definition fwts_get_fadt_version :: "acpi_env \<Rightarrow> fwts_framework \<Rightarrow> acpi_state \<Rightarrow> (u8 \<times> u8 \<times> acpi_state) option" where
  "fwts_get_fadt_version env fw st =
     do { (v, st) \<leftarrow> fwts_get_acpi_version env fw st;
          Some (ucast (drop_bit 8 (v AND 0xf00)), ucast (drop_bit 4 (v AND 0xff)), st) }"

section \<open>Facts about the cache\<close>

lemma used_append:
  "\<forall>x \<in> set us. ti_data x \<noteq> None \<Longrightarrow> \<forall>x \<in> set fs. x = no_table \<Longrightarrow> used (us @ fs) = us"
  by (cases fs) (auto simp: used_def no_table_def takeWhile_append2 takeWhile_eq_all_conv)

lemma used_data: "x \<in> set (used xs) \<Longrightarrow> ti_data x \<noteq> None"
  by (auto simp: used_def dest: set_takeWhileD)

lemma used_split: "xs = used xs @ drop (length (used xs)) xs"
  unfolding used_def by (metis takeWhile_dropWhile_id dropWhile_eq_drop)

lemma slots_okE:
  assumes "slots_ok xs"
  obtains us fs where "xs = us @ fs" "used xs = us" "\<forall>x \<in> set us. ti_data x \<noteq> None" "\<forall>x \<in> set fs. x = no_table"
    "length xs = ACPI_MAX_TABLES" "numbered us"
  using assms used_split used_data unfolding slots_ok_def by metis

lemma slots_okI:
  assumes "\<forall>x \<in> set us. ti_data x \<noteq> None" "\<forall>x \<in> set fs. x = no_table" "length (us @ fs) = ACPI_MAX_TABLES"
    "numbered us"
  shows "slots_ok (us @ fs)"
  using assms by (simp add: slots_ok_def used_append)

lemma slots_ok_start: "slots_ok (tables acpi_state_start)"
  using slots_okI [of "[]" "replicate ACPI_MAX_TABLES no_table"]
  by (simp add: acpi_state_start_def numbered_def)

lemma addresses_start: "addresses (tables acpi_state_start) = []"
  by (simp add: acpi_state_start_def addresses_def used_def no_table_def ACPI_MAX_TABLES_def takeWhile_replicate)

text \<open>What fwts_acpi_add_table() does to used slots followed by free ones; a free slot has the empty name.\<close>

definition added_table :: "cstr \<Rightarrow> bytes \<Rightarrow> u64 \<Rightarrow> nat \<Rightarrow> fwts_acpi_table_provenance \<Rightarrow> fwts_acpi_table_info list \<Rightarrow> fwts_acpi_table_info" where
  "added_table name t addr len prov us =
     new_table name t addr len prov (length us)
       (length (filter (\<lambda>x. ti_name x = take 4 name) us) + (if name = [] then 1 else 0))"

lemma add_loop:
  assumes "\<forall>x \<in> set us. ti_data x \<noteq> None" "\<forall>x \<in> set fs. x = no_table"
  shows "add_table_loop name t addr len prov i which (us @ fs) =
     (if addr \<noteq> 0 \<and> addr \<in> ti_addr ` set us then (us @ fs, True)
      else case fs of [] \<Rightarrow> (us, False)
        | f # fs' \<Rightarrow> (us @ new_table name t addr len prov (i + length us)
             (which + length (filter (\<lambda>x. ti_name x = take 4 name) us) + (if name = [] then 1 else 0)) # fs', False))"
  using assms(1)
proof (induction us arbitrary: i which)
  case Nil
  then show ?case using assms(2) by (cases fs) (auto simp: no_table_def)
next
  case (Cons x us)
  obtain d where d: "ti_data x = Some d" using Cons.prems by auto
  show ?case using Cons d by (auto simp: Let_def split: list.split prod.split)
qed

lemma added:
  assumes "slots_ok (tables st)"
  obtains (same) "tables (fst (fwts_acpi_add_table name t addr len prov st)) = tables st"
      "snd (fwts_acpi_add_table name t addr len prov st) \<longleftrightarrow> addr \<in> set (addresses (tables st))"
    | (new) us f fs where "tables st = us @ f # fs" "used (tables st) = us"
      "tables (fst (fwts_acpi_add_table name t addr len prov st)) = (us @ [added_table name t addr len prov us]) @ fs"
      "addr \<notin> set (addresses (tables st))" "\<not> snd (fwts_acpi_add_table name t addr len prov st)"
  using assms
proof (rule slots_okE)
  fix us fs
  assume xs: "tables st = us @ fs" and u: "used (tables st) = us" and us: "\<forall>x \<in> set us. ti_data x \<noteq> None"
    and fs: "\<forall>x \<in> set fs. x = no_table"
  note loop = add_loop [OF us fs, of name t addr len prov 0 0]
  have addrs: "addr \<in> set (addresses (tables st)) \<longleftrightarrow> addr \<noteq> 0 \<and> addr \<in> ti_addr ` set us"
    by (auto simp: addresses_def u)
  show thesis
  proof (cases "addr \<in> set (addresses (tables st))")
    case True
    then show thesis using loop addrs by (intro same) (auto simp: fwts_acpi_add_table_def xs)
  next
    case False
    show thesis
    proof (cases fs)
      case Nil
      then show thesis using loop addrs False by (intro same) (auto simp: fwts_acpi_add_table_def xs)
    next
      case (Cons f fs')
      show thesis
        by (rule new [of us f fs'], unfold fwts_acpi_add_table_def xs)
          (use loop addrs False xs u in \<open>auto simp: Cons added_table_def fwts_acpi_add_table_def\<close>)
    qed
  qed
qed

lemma numbered_added: "numbered us \<Longrightarrow> numbered (us @ [added_table name t addr len prov us])"
  by (auto simp: numbered_def nth_append less_Suc_eq added_table_def new_table_def)

lemma added_data: "ti_data (added_table name t addr len prov us) = Some t"
  by (simp add: added_table_def new_table_def)

lemma add_table_slots:
  assumes "slots_ok (tables st)"
  shows "slots_ok (tables (fst (fwts_acpi_add_table name t addr len prov st)))"
  using assms
proof (cases rule: added [where name = name and t = t and addr = addr and len = len and prov = prov])
  case (new us f fs)
  show ?thesis unfolding new(3)
  proof (rule slots_okI)
    show "\<forall>x \<in> set (us @ [added_table name t addr len prov us]). ti_data x \<noteq> None"
      using used_data [of _ "tables st"] unfolding new(2) by (auto simp: added_data)
    show "\<forall>x \<in> set fs. x = no_table" and "length ((us @ [added_table name t addr len prov us]) @ fs) = ACPI_MAX_TABLES"
      using assms unfolding slots_ok_def new(2) by (auto simp: new(1))
    show "numbered (us @ [added_table name t addr len prov us])"
      using assms unfolding slots_ok_def new(2) by (intro numbered_added) simp
  qed
qed (use assms in simp)

lemma add_table_addresses:
  assumes "slots_ok (tables st)" and "distinct (addresses (tables st))"
  shows "distinct (addresses (tables (fst (fwts_acpi_add_table name t addr len prov st))))"
  using assms(1)
proof (cases rule: added [where name = name and t = t and addr = addr and len = len and prov = prov])
  case (new us f fs)
  have "\<forall>x \<in> set fs. x = no_table" using assms unfolding slots_ok_def new(2) by (auto simp: new(1))
  moreover have "\<forall>x \<in> set (us @ [added_table name t addr len prov us]). ti_data x \<noteq> None"
    using used_data [of _ "tables st"] unfolding new(2) by (auto simp: added_data)
  ultimately have u: "used ((us @ [added_table name t addr len prov us]) @ fs) = us @ [added_table name t addr len prov us]"
    by (intro used_append)
  have "ti_addr (added_table name t addr len prov us) = addr" by (simp add: added_table_def new_table_def)
  then show ?thesis using assms(2) new(4) unfolding new(3) addresses_def u new(2) by auto
qed (use assms in simp)

text \<open>Looking a table up by name and number: the table of that number among those of the name.\<close>

lemma find_index_used:
  "find_index p xs i = (case find p (used xs) of None \<Rightarrow> None | Some x \<Rightarrow> Some (i + length (takeWhile (\<lambda>x. \<not> p x) (used xs))))"
  by (induction p xs i rule: find_index.induct) (auto simp: used_def split: option.splits)

lemma filter_take_nth:
  assumes "i < length us" "P (us ! i)"
  shows "filter P us ! length (filter P (take i us)) = us ! i" "length (filter P (take i us)) < length (filter P us)"
proof -
  have us: "us = take i us @ us ! i # drop (Suc i) us" using assms(1) by (rule id_take_nth_drop)
  have f: "filter P us = filter P (take i us) @ us ! i # filter P (drop (Suc i) us)"
    using assms(2) by (subst us) simp
  then show "filter P us ! length (filter P (take i us)) = us ! i" by (simp add: nth_append)
  show "length (filter P (take i us)) < length (filter P us)" by (simp add: f)
qed

lemma numberedD:
  "numbered us \<Longrightarrow> i < length us \<Longrightarrow> ti_name (us ! i) \<noteq> [] \<Longrightarrow> ti_which (us ! i) = length (filter (\<lambda>x. ti_name x = ti_name (us ! i)) (take i us))"
  by (simp add: numbered_def)

lemma takeWhile_shorter: "\<exists>x \<in> set xs. \<not> P x \<Longrightarrow> length (takeWhile P xs) < length xs"
  by (induction xs) auto

lemma which_unique:
  assumes "numbered us" "i < length us" "j < length us" "ti_name (us ! i) = ti_name (us ! j)" "ti_name (us ! j) \<noteq> []"
    "ti_which (us ! i) = ti_which (us ! j)"
  shows "i = j"
proof (rule ccontr)
  let ?P = "\<lambda>x. ti_name x = ti_name (us ! i)"
  have less: "ti_which (us ! a) < ti_which (us ! b)" if "a < b" "b < length us" "?P (us ! a)" "?P (us ! b)" for a b
  proof -
    have "length (filter ?P (take a us)) < length (filter ?P (take b us))"
      using filter_take_nth(2) [of a "take b us" ?P] that by (simp add: min_absorb1)
    moreover have "ti_which (us ! m) = length (filter ?P (take m us))" if "m < length us" "?P (us ! m)" for m
      using numberedD [OF assms(1) that(1)] that(2) assms(4,5) by simp
    ultimately show ?thesis using that by simp
  qed
  assume "i \<noteq> j"
  then consider "i < j" | "j < i" by linarith
  then show False
  proof cases
    case 1
    show False using less [OF 1 assms(3) refl assms(4) [symmetric]] assms(6) by simp
  next
    case 2
    show False using less [OF 2 assms(2) assms(4) [symmetric] refl] assms(6) by simp
  qed
qed

lemma lookup_name_spec:
  assumes "slots_ok (tables st)" and "name \<noteq> []"
  shows "lookup_name name k st = Some i \<longleftrightarrow>
    i < length (used (tables st)) \<and> ti_name (tables st ! i) = name \<and> ti_which (tables st ! i) = k"
proof -
  obtain us fs where xs: "tables st = us @ fs" "used (tables st) = us" and num: "numbered us"
    using assms(1) by (rule slots_okE) auto
  let ?p = "\<lambda>x. ti_name x = name \<and> ti_which x = k"
  have "lookup_name name k st = Some i \<longleftrightarrow> i < length us \<and> ?p (us ! i)"
  proof
    assume "lookup_name name k st = Some i"
    then obtain x where x: "find ?p us = Some x" "i = length (takeWhile (\<lambda>x. \<not> ?p x) us)"
      by (auto simp: lookup_name_def find_index_used xs(2) split: option.splits)
    have "x \<in> set us" "?p x" using x(1) by (auto simp: find_Some_iff)
    then have "\<exists>x \<in> set us. ?p x" by blast
    then have "i < length us" unfolding x(2) using takeWhile_shorter [of us "\<lambda>x. \<not> ?p x"] by blast
    moreover have "?p (us ! i)" using nth_length_takeWhile [of "\<lambda>x. \<not> ?p x" us] calculation by (simp add: x(2))
    ultimately show "i < length us \<and> ?p (us ! i)" by blast
  next
    assume i: "i < length us \<and> ?p (us ! i)"
    then have ex: "\<exists>x \<in> set us. ?p x" by auto
    define j where "j = length (takeWhile (\<lambda>x. \<not> ?p x) us)"
    have j: "j < length us" unfolding j_def using ex takeWhile_shorter [of us "\<lambda>x. \<not> ?p x"] by blast
    then have "?p (us ! j)" using nth_length_takeWhile [of "\<lambda>x. \<not> ?p x" us] by (simp add: j_def)
    then have "i = j" using which_unique [OF num, of i j] i j assms(2) by auto
    moreover obtain x where "find ?p us = Some x" using ex by (metis (mono_tags) find_None_iff not_None_eq)
    ultimately show "lookup_name name k st = Some i" by (simp add: lookup_name_def find_index_used xs(2) j_def)
  qed
  then show ?thesis unfolding xs(2) by (auto simp: xs(1) nth_append)
qed

text \<open>The abstract cache: the tables of a name in the order they were loaded.\<close>

definition named_tables :: "cstr \<Rightarrow> acpi_state \<Rightarrow> fwts_acpi_table_info list" where
  "named_tables name st = filter (\<lambda>x. ti_name x = name) (used (tables st))"

lemma lookup_named:
  assumes "slots_ok (tables st)" and "name \<noteq> []"
  shows "map_option (\<lambda>i. tables st ! i) (lookup_name name k st) =
    (if k < length (named_tables name st) then Some (named_tables name st ! k) else None)"
proof -
  obtain us fs where xs: "tables st = us @ fs" "used (tables st) = us" and num: "numbered us"
    using assms(1) by (rule slots_okE) auto
  let ?P = "\<lambda>x. ti_name x = name"
  show ?thesis
  proof (cases "lookup_name name k st")
    case (Some i)
    then have i: "i < length us" "ti_name (us ! i) = name" "ti_which (us ! i) = k"
      using lookup_name_spec [OF assms, of k i] unfolding xs(2) by (auto simp: xs(1) nth_append)
    then have "k = length (filter ?P (take i us))" using numberedD [OF num, of i] assms(2) by simp
    then show ?thesis using filter_take_nth [of i us ?P] i Some unfolding named_tables_def xs(2)
      by (simp add: xs(1) nth_append)
  next
    case None
    have "\<not> k < length (named_tables name st)"
    proof
      assume k: "k < length (named_tables name st)"
      have "\<exists>i < length us. ?P (us ! i) \<and> length (filter ?P (take i us)) = k"
        using k unfolding named_tables_def xs(2)
      proof (induction us arbitrary: k)
        case (Cons x us)
        show ?case
        proof (cases "?P x \<and> k = 0")
          case False
          define k' where "k' = (if ?P x then k - 1 else k)"
          have "k' < length (filter ?P us)" using Cons.prems False by (auto simp: k'_def split: if_splits)
          then obtain i where "i < length us" "?P (us ! i)" "length (filter ?P (take i us)) = k'" using Cons.IH by blast
          then show ?thesis using False by (intro exI [of _ "Suc i"]) (auto simp: k'_def)
        qed (intro exI [of _ 0], simp)
      qed simp
      then obtain i where "i < length us" "?P (us ! i)" "ti_which (us ! i) = k"
        using numberedD [OF num] assms(2) by auto
      then have "lookup_name name k st = Some i" using lookup_name_spec [OF assms, of k i] unfolding xs(2) by (simp add: xs(1) nth_append)
      with None show False by simp
    qed
    then show ?thesis using None by simp
  qed
qed

section \<open>What loading keeps\<close>

text \<open>\<open>okay m Q\<close>: if the step m is defined, its result satisfies Q.\<close>

definition okay :: "'a option \<Rightarrow> ('a \<Rightarrow> bool) \<Rightarrow> bool" where
  "okay m Q \<longleftrightarrow> (\<forall>x. m = Some x \<longrightarrow> Q x)"

lemma okay_simps [simp]:
  "okay None Q" "okay (Some x) Q \<longleftrightarrow> Q x"
  "okay (if b then m else m') Q \<longleftrightarrow> (if b then okay m Q else okay m' Q)"
  by (auto simp: okay_def)

lemma okay_bind [simp]: "okay (m \<bind> f) Q \<longleftrightarrow> okay m (\<lambda>x. okay (f x) Q)"
  by (auto simp: okay_def bind_eq_Some_conv)

lemma okay_any: "(\<And>x. Q x) \<Longrightarrow> okay m Q"
  by (simp add: okay_def)

lemmas okay_pure =
  okay_any [where m = "get t b l f" for t b l f] okay_any [where m = "header_field t f" for t f]
  okay_any [where m = "get_bytes t b l f" for t b l f] okay_any [where m = "table_at st i" for st i]
  okay_any [where m = "hw_reduced t" for t] okay_any [where m = "find_rsdp env fw" for env fw]
  okay_any [where m = "load_dump b ls" for b ls] okay_any [where m = "store t l f v" for t l f v]
  okay_any [where m = "patch_fadt t a" for t a] okay_any [where m = "fake_rsdp"]
  okay_any [where m = "fix_rsdp fw t r x" for fw t r x]

lemma tables_say [simp]: "tables (say out st) = tables st"
  by (simp add: say_def)

lemma tables_fold_say [simp]: "tables (fold say outs st) = tables st"
  by (induction outs arbitrary: st) simp_all

lemma tables_fake: "fwts_fake_physical_addr n st = (a, st') \<Longrightarrow> tables st' = tables st"
  by (auto simp: fwts_fake_physical_addr_def)

lemma tables_get_rsdp: "fwts_acpi_get_rsdp env addr st = (r, st') \<Longrightarrow> tables st' = tables st"
  by (auto simp: fwts_acpi_get_rsdp_def split: mapping.splits if_splits)

text \<open>
  A property of the tables that adding a table and freeing them keep is kept by every way to load
  them; one that survives new contents and addresses of a table too is kept by the completion of
  tables that came from files.
\<close>

locale table_invariant =
  fixes P :: "acpi_state \<Rightarrow> bool"
  assumes cong: "tables st = tables st' \<Longrightarrow> P st \<Longrightarrow> P st'"
    and add: "P st \<Longrightarrow> P (fst (fwts_acpi_add_table name t addr len prov st))"
    and free: "P st \<Longrightarrow> P (fwts_acpi_free_tables st)"
begin

lemma say: "P st \<Longrightarrow> P (say out st)"
  by (erule cong [rotated]) simp

lemma says: "P st \<Longrightarrow> P (fold Fwts_Tables.say outs st)"
  by (erule cong [rotated]) simp

lemma adds_keep: "fwts_acpi_add_table name t addr len prov st = (st', freed) \<Longrightarrow> P st \<Longrightarrow> P st'"
  using add [of st name t addr len prov] by simp

lemma fake: "fwts_fake_physical_addr n st = (a, st') \<Longrightarrow> P st \<Longrightarrow> P st'"
  using tables_fake cong by metis

lemma fake_snd: "P st \<Longrightarrow> P (snd (fwts_fake_physical_addr n st))"
  using fake prod.collapse by metis

lemma get_rsdp: "fwts_acpi_get_rsdp env addr st = (r, st') \<Longrightarrow> P st \<Longrightarrow> P st'"
  using tables_get_rsdp cong by metis

lemma pointer:
  assumes "P st"
    and Q: "\<And>p st'. P st' \<Longrightarrow> Q (p, st')"
  shows "okay (fadt_pointer fadt name n32 n64 f32 f64 st) Q"
  using assms(1)
  unfolding fadt_pointer_def by (auto simp: Let_def intro!: Q okay_pure say)

lemma add_loaded:
  assumes "P st"
    and Q: "\<And>freed st'. P st' \<Longrightarrow> Q (st', freed)"
  shows "okay (add_loaded t addr st) Q"
  using assms(1)
  unfolding add_loaded_def
  by (auto intro!: okay_pure) (metis Q add prod.collapse)

lemma fadt_tables:
  assumes "P st"
    and Q: "\<And>ret st'. P st' \<Longrightarrow> Q (ret, st')"
  shows "okay (fwts_acpi_handle_fadt_tables env fadt name n32 n64 f32 f64 st) Q"
  using assms(1)
  unfolding fwts_acpi_handle_fadt_tables_def
  by (auto split: sum.split option.split intro!: Q pointer add_loaded say)

definition keeps :: "loader \<Rightarrow> bool" where
  "keeps load \<longleftrightarrow> (\<forall>st. P st \<longrightarrow> okay (load st) (\<lambda>(ret, st). P st))"

lemma keeps_none: "keeps (\<lambda>st. None)"
  by (simp add: keeps_def)

lemma load:
  assumes "keeps load" and "P st"
    and Q: "\<And>ret st'. P st' \<Longrightarrow> Q (ret, st')"
  shows "okay (load st) Q"
  using assms by (fastforce simp: keeps_def okay_def)

lemma find_name:
  assumes "keeps load" and "P st"
    and Q: "\<And>ret info st'. P st' \<Longrightarrow> Q (ret, info, st')"
  shows "okay (find_name_with load name which st) Q"
  using assms(1,2)
  unfolding find_name_with_def find_table_with_def
  by (auto split: acpi_table_load_state.split intro!: Q load)

lemma reduced:
  assumes "keeps load" and "P st"
    and Q: "\<And>ret st'. P st' \<Longrightarrow> Q (ret, st')"
  shows "okay (is_reduced_with load st) Q"
  using assms(1,2)
  unfolding is_reduced_with_def
  by (auto split: option.split intro!: Q find_name okay_pure say)

lemma handle_fadt:
  assumes "keeps load" and "P st"
    and Q: "\<And>ret st'. P st' \<Longrightarrow> Q (ret, st')"
  shows "okay (fwts_acpi_handle_fadt env load phys fadt st) Q"
proof -
  have "P (st\<lparr>facs_last_phys_addr := phys\<rparr>)" using assms(2) cong [of st] by simp
  with assms(1,2) show ?thesis unfolding fwts_acpi_handle_fadt_def
    by (auto simp: Let_def intro!: Q fadt_tables reduced say)
qed

lemma entries:
  assumes "keeps load" and "P st"
    and Q: "\<And>ok st'. P st' \<Longrightarrow> Q (ok, st')"
  shows "okay (load_entries env load es st) Q"
  using assms(2)
proof (induction es arbitrary: st)
  case (Cons e es)
  then show ?case using assms(1) by (auto split: option.split intro!: Q handle_fadt add_loaded)
qed (simp add: Q)

lemma root:
  assumes "keeps load" and "P st"
    and Q: "\<And>ok st'. P st' \<Longrightarrow> Q (ok, st')"
  shows "okay (load_root env load name w addr st) Q"
  using assms(1,2)
  unfolding load_root_def
  by (auto split: option.split prod.split intro!: Q okay_pure entries dest: adds_keep)

lemma firmware:
  assumes "keeps load" and "P st"
    and Q: "\<And>ret st'. P st' \<Longrightarrow> Q (ret, st')"
  shows "okay (load_tables_from_firmware env fw load st) Q"
  using assms(1,2)
  unfolding load_tables_from_firmware_def
  by (auto split: option.split prod.split intro!: Q okay_pure root free dest: adds_keep get_rsdp)

lemma dumped: "P st \<Longrightarrow> P (add_dumped x st)"
  by (auto simp: add_dumped_def Let_def split_beta intro!: add fake_snd)

lemma dumped_all: "P st \<Longrightarrow> P (fold add_dumped ts st)"
  by (induction ts arbitrary: st) (simp_all add: dumped)

lemma acpidump:
  assumes "P st"
    and Q: "\<And>ret st'. P st' \<Longrightarrow> Q (ret, st')"
  shows "okay (fwts_acpi_load_tables_from_acpidump env fw st) Q"
  using assms(1)
  unfolding fwts_acpi_load_tables_from_acpidump_def
  by (auto split: option.split intro!: Q okay_pure dumped_all says say)

lemma one_file: "P st \<Longrightarrow> P (snd (load_file env path f st))"
  by (auto simp: load_file_def Let_def split_beta split: dir_file.split option.split intro!: say add fake_snd)

lemma files: "P st \<Longrightarrow> P (snd (load_files env dir extension es st))"
proof (induction es arbitrary: st)
  case (Cons e es)
  then show ?case by (cases e) (auto simp: Let_def split_beta intro!: one_file)
qed simp

lemma generic: "P st \<Longrightarrow> P (snd (snd (fwts_acpi_load_tables_from_file_generic env path extension st)))"
  by (auto simp: fwts_acpi_load_tables_from_file_generic_def split_beta Let_def split: option.split intro!: files)

lemma from_file: "P st \<Longrightarrow> P (snd (fwts_acpi_load_tables_from_file env fw st))"
  by (auto simp: fwts_acpi_load_tables_from_file_def split_beta Let_def split: option.split intro!: say generic)

lemma sysfs: "P st \<Longrightarrow> P (snd (fwts_acpi_load_tables_from_sysfs env st))"
  by (auto simp: fwts_acpi_load_tables_from_sysfs_def split_beta Let_def intro!: say generic)

end

locale fixable_invariant = table_invariant +
  assumes data: "P st \<Longrightarrow> i < length (used (tables st)) \<Longrightarrow> P (set_data i t st)"
    and addr: "P st \<Longrightarrow> i < length (used (tables st)) \<Longrightarrow> P (set_addr i a st)"
begin

lemma found:
  assumes "lookup_name name k st = Some i"
  shows "i < length (used (tables st))"
proof -
  let ?p = "\<lambda>x. ti_name x = name \<and> ti_which x = k"
  obtain x where x: "find ?p (used (tables st)) = Some x" and i: "i = length (takeWhile (\<lambda>x. \<not> ?p x) (used (tables st)))"
    using assms by (auto simp: lookup_name_def find_index_used split: option.splits)
  have "x \<in> set (used (tables st))" "?p x" using x by (auto simp: find_Some_iff)
  then show ?thesis unfolding i using takeWhile_shorter [of "used (tables st)" "\<lambda>x. \<not> ?p x"] by blast
qed

lemma fixup_addr: "P st \<Longrightarrow> P (fwts_acpi_fixup_addr_from_fadt name a32 a64 st)"
  by (auto simp: fwts_acpi_fixup_addr_from_fadt_def split: option.split intro: addr found)

lemma same: "P st \<Longrightarrow> tables st' = tables st \<Longrightarrow> P st'"
  using cong by metis

lemma reduced_none:
  assumes Q: "\<And>ret st'. tables st' = tables st \<Longrightarrow> Q (ret, st')"
  shows "okay (is_reduced_with (\<lambda>st. None) st) Q"
  unfolding is_reduced_with_def find_name_with_def find_table_with_def
  by (auto split: option.split acpi_table_load_state.split intro!: okay_pure Q)

lemma facs:
  assumes "P st" and "i < length (used (tables st))" and Q: "\<And>ret st'. P st' \<Longrightarrow> Q (ret, st')"
  shows "okay (fixup_facs env i st) Q"
proof -
  have set: "P (set_data i d st')" if "tables st' = tables st" for d st'
    using that assms(1,2) same by (intro data) auto
  then show ?thesis unfolding fixup_facs_def
    using assms(1,2)
    by (auto simp: Let_def split_beta fwts_fake_physical_addr_def intro!: reduced_none okay_pure Q add set elim: same)
qed

lemma root_fixed: "P st \<Longrightarrow> P (snd (fixup_root env sig w oem st))"
  by (auto simp: fixup_root_def Let_def split_beta split: option.split intro!: say add fake_snd)

lemma rsdp_fixed:
  assumes "P st" and Q: "\<And>ret st'. P st' \<Longrightarrow> Q (ret, st')"
  shows "okay (fixup_rsdp env fw r x st) Q"
  unfolding fixup_rsdp_def using assms(1)
  by (auto simp: Let_def split_beta split: option.split intro!: okay_pure Q say add fake_snd data found)

lemma fixup:
  assumes "P st" and Q: "\<And>ret st'. P st' \<Longrightarrow> Q (ret, st')"
  shows "okay (fwts_acpi_load_tables_fixup env fw st) Q"
  unfolding fwts_acpi_load_tables_fixup_def using assms(1)
  by (auto simp: Let_def split: option.split prod.split intro!: okay_pure Q say facs found rsdp_fixed)
    (metis root_fixed fixup_addr snd_conv)+

lemma loaded: "P st \<Longrightarrow> P (st\<lparr>acpi_tables_loaded := x\<rparr>)"
  by (erule same) simp

lemma all_loads:
  assumes "keeps load"
  shows "keeps (load_tables_with env fw load)"
proof -
  have "okay (load_tables_with env fw load st) (\<lambda>(ret, st). P st)" if "P st" for st
    unfolding load_tables_with_def using that assms
    by (auto simp: Let_def split_beta intro!: okay_pure acpidump firmware fixup say loaded from_file sysfs)
  then show ?thesis by (simp add: keeps_def)
qed

lemma load_tables: "keeps (fwts_acpi_load_tables env fw)"
  unfolding fwts_acpi_load_tables_def by (intro all_loads keeps_none)

end

lemma used_free: "slots_ok (tables st) \<Longrightarrow> tables (fwts_acpi_free_tables st) = replicate ACPI_MAX_TABLES no_table"
proof (erule slots_okE)
  fix us fs
  assume xs: "tables st = us @ fs" and us: "\<forall>x \<in> set us. ti_data x \<noteq> None" and fs: "\<forall>x \<in> set fs. x = no_table"
    and len: "length (tables st) = ACPI_MAX_TABLES"
  have "map (\<lambda>x. if ti_data x \<noteq> None then no_table else x) (us @ fs) = replicate (length (us @ fs)) no_table"
    using us fs by (induction us) (auto simp: map_replicate_const [symmetric])
  then show ?thesis using len by (simp add: fwts_acpi_free_tables_def xs)
qed

lemma slots_update:
  assumes "slots_ok (tables st)" and "i < length (used (tables st))"
    and f: "\<And>x. ti_data (f x) \<noteq> None \<or> ti_data x = None" "\<And>x. ti_name (f x) = ti_name x" "\<And>x. ti_which (f x) = ti_which x"
      "\<And>x. ti_index (f x) = ti_index x"
  shows "slots_ok ((tables st)[i := f (tables st ! i)])"
  using assms(1)
proof (rule slots_okE)
  fix us fs
  assume xs: "tables st = us @ fs" and u: "used (tables st) = us" and us: "\<forall>x \<in> set us. ti_data x \<noteq> None"
    and fs: "\<forall>x \<in> set fs. x = no_table" and len: "length (tables st) = ACPI_MAX_TABLES" and num: "numbered us"
  have i: "i < length us" using assms(2) by (simp add: u)
  define us' where "us' = us[i := f (us ! i)]"
  have same: "map (\<lambda>x. (ti_name x, ti_which x, ti_index x)) us' = map (\<lambda>x. (ti_name x, ti_which x, ti_index x)) us"
    using i f by (simp add: us'_def map_update) (metis (no_types, lifting) length_map list_update_id nth_map)
  then have nth: "ti_name (us' ! j) = ti_name (us ! j) \<and> ti_which (us' ! j) = ti_which (us ! j) \<and> ti_index (us' ! j) = ti_index (us ! j)"
    if "j < length us" for j
    using that by (metis (mono_tags, lifting) length_list_update nth_map prod.inject us'_def)
  have names: "map ti_name us' = map ti_name us" using same by (metis (no_types, lifting) comp_apply fst_conv map_eq_conv map_map)
  have count: "length (filter (\<lambda>x. ti_name x = n) (take j us')) = length (filter (\<lambda>x. ti_name x = n) (take j us))" for n j
  proof -
    have "length (filter (\<lambda>m. m = n) (take j (map ti_name xs))) = length (filter (\<lambda>x. ti_name x = n) (take j xs))" for xs
      by (simp add: take_map filter_map comp_def)
    then show ?thesis using names by metis
  qed
  have l: "length us' = length us" by (simp add: us'_def)
  have "numbered us'" using num nth count unfolding numbered_def l by auto
  moreover have "\<forall>x \<in> set us'. ti_data x \<noteq> None"
    using us f(1) i by (auto simp: us'_def dest!: set_update_subset_insert [THEN subsetD]) (metis nth_mem option.discI)
  moreover have "(tables st)[i := f (tables st ! i)] = us' @ fs" using i by (simp add: xs us'_def nth_append list_update_append)
  ultimately show ?thesis using fs len l by (simp add: slots_okI xs)
qed

interpretation slots: fixable_invariant "\<lambda>st. slots_ok (tables st)"
proof
  fix st st' :: acpi_state and name t addr len prov
  show "tables st = tables st' \<Longrightarrow> slots_ok (tables st) \<Longrightarrow> slots_ok (tables st')" by simp
  show "slots_ok (tables st) \<Longrightarrow> slots_ok (tables (fst (fwts_acpi_add_table name t addr len prov st)))"
    by (rule add_table_slots)
  show "slots_ok (tables st) \<Longrightarrow> slots_ok (tables (fwts_acpi_free_tables st))"
    using used_free [of st] slots_ok_start by (simp add: acpi_state_start_def)
next
  fix st :: acpi_state and i t a
  assume *: "slots_ok (tables st)" "i < length (used (tables st))"
  show "slots_ok (tables (set_data i t st))"
    using slots_update [OF *, of "\<lambda>x. x\<lparr>ti_data := Some t\<rparr>"] by (simp add: set_data_def)
  show "slots_ok (tables (set_addr i a st))"
    unfolding set_addr_def by (simp, rule slots_update [OF *]) auto
qed

definition addresses_ok :: "acpi_state \<Rightarrow> bool" where
  "addresses_ok st \<longleftrightarrow> slots_ok (tables st) \<and> distinct (addresses (tables st))"

interpretation loaded: table_invariant addresses_ok
proof
  fix st st' :: acpi_state and name t addr len prov
  show "tables st = tables st' \<Longrightarrow> addresses_ok st \<Longrightarrow> addresses_ok st'" by (simp add: addresses_ok_def)
  show "addresses_ok st \<Longrightarrow> addresses_ok (fst (fwts_acpi_add_table name t addr len prov st))"
    by (simp add: addresses_ok_def add_table_slots add_table_addresses)
  show "addresses_ok st \<Longrightarrow> addresses_ok (fwts_acpi_free_tables st)"
    using used_free [of st] slots_ok_start addresses_start by (simp add: addresses_ok_def acpi_state_start_def)
qed

lemma load_slots: "slots_ok (tables st) \<Longrightarrow> fwts_acpi_load_tables env fw st = Some (ret, st') \<Longrightarrow> slots_ok (tables st')"
  using slots.load_tables [of env fw] by (force simp: slots.keeps_def okay_def)

section \<open>Memory that was freed\<close>

lemma add_known: "addr \<in> set (addresses (tables st)) \<Longrightarrow> slots_ok (tables st) \<Longrightarrow> snd (fwts_acpi_add_table name t addr len prov st)"
  by (erule added [where name = name and t = t and addr = addr and len = len and prov = prov]) auto

lemma root_freed:
  assumes "slots_ok (tables st)" and "addr \<in> set (addresses (tables st))" and "fwts_acpi_load_table env addr = Some t"
  shows "load_root env load name w addr st = None"
proof -
  have "addr \<noteq> 0" using assms(2) by (simp add: addresses_def)
  with assms add_known [OF assms(2,1)] show ?thesis
    by (auto simp: load_root_def bind_eq_None_conv split_beta Let_def)
qed

lemma load_again:
  assumes "slots_ok (tables st)" and "find_rsdp env fw = Some addr" and "addr \<in> set (addresses (tables st))"
    and "fwts_acpi_get_rsdp env addr st = (Some (t, len), st)"
  shows "load_tables_from_firmware env fw load st = None"
proof -
  have "addr \<noteq> 0" using assms(3) by (simp add: addresses_def)
  with assms add_known [OF assms(3,1)] show ?thesis
    by (auto simp: load_tables_from_firmware_def split_beta Let_def)
qed

section \<open>Checksums of tables that are built or patched\<close>

lemma checksum_take: "fwts_checksum t n = sum_list (take n t)"
  by (simp add: fwts_checksum_def checksum_loop_sum)

lemma sum_write:
  assumes "off + length bs \<le> length t"
  shows "sum_list (write_bytes t off bs) = sum_list t - sum_list (take (length bs) (drop off t)) + (sum_list bs :: u8)"
proof -
  have "t = take off t @ take (length bs) (drop off t) @ drop (off + length bs) t"
    by (metis append_take_drop_id drop_drop add.commute)
  then have "sum_list t = sum_list (take off t) + sum_list (take (length bs) (drop off t)) + sum_list (drop (off + length bs) t)"
    by (metis add.assoc sum_list_append)
  then show ?thesis by (simp add: write_bytes_def)
qed

lemma nth_write: "off + length bs \<le> length t \<Longrightarrow> i < off \<or> off + length bs \<le> i \<Longrightarrow> i < length t \<Longrightarrow> write_bytes t off bs ! i = t ! i"
  by (auto simp: write_bytes_def nth_append min_absorb2)

lemma take_write: "off + length bs \<le> length t \<Longrightarrow> n \<le> off \<Longrightarrow> take n (write_bytes t off bs) = take n t"
  by (simp add: write_bytes_def min_absorb1)

lemma take_write_in:
  "off + length bs \<le> n \<Longrightarrow> n \<le> length t \<Longrightarrow> take n (write_bytes t off bs) = write_bytes (take n t) off bs"
  by (simp add: write_bytes_def min_absorb1 drop_take)

text \<open>A byte that is zero is set to what makes the sum zero.\<close>

lemma ucast_minus: "(ucast (x - y :: u64) :: u8) = ucast x - ucast y"
proof -
  have d: "is_down (ucast :: u64 \<Rightarrow> u8)" by (simp add: is_down)
  have u: "(ucast z :: u8) = word_of_int (uint z)" for z :: u64
    using ucast_down_wi [OF d, of "uint z"] by simp
  have "(ucast (x - y) :: u8) = ucast (word_of_int (uint x - uint y) :: u64)" by (rule arg_cong [OF word_sub_wi])
  also have "\<dots> = word_of_int (uint x - uint y)" by (rule ucast_down_wi [OF d])
  finally show ?thesis unfolding u by (simp only: of_int_diff)
qed
lemma byte_neg: "(ucast (256 - ucast (c :: u8) :: u64) :: u8) = - c"
proof -
  have "(ucast (ucast c :: u64) :: u8) = c" by (rule bit_word_eqI) (auto simp: bit_simps)
  moreover have "(256 :: u8) = 0" by code_simp
  ultimately show ?thesis by (simp add: ucast_minus)
qed

lemma word_le_1 [simp]: "word_le (Suc 0) v = [ucast v]"
  by simp

text \<open>A byte of a table that is zero and is set to what the others lack makes the sum zero.\<close>

lemma sum_corrected:
  assumes "i < length t" and "t ! i = 0"
  shows "sum_list (write_bytes t i [ucast (256 - ucast (sum_list t) :: u64)]) = (0 :: u8)"
proof -
  have "take 1 (drop i t) = [t ! i]" using assms(1) by (simp add: take_Suc_conv_app_nth hd_drop_conv_nth take_Suc)
  then show ?thesis using assms sum_write [of i "[ucast (256 - ucast (sum_list t) :: u64)]" t] by (simp add: byte_neg)
qed

lemma store_checksum: "store t fwts_acpi_table_rsdp ''checksum'' v = (if 9 \<le> length t then Some (write_bytes t 8 [ucast v]) else None)"
  by (simp add: store_def put_def fwts_acpi_table_rsdp_def)

lemma store_extended: "store t fwts_acpi_table_rsdp ''extended_checksum'' v = (if 33 \<le> length t then Some (write_bytes t 32 [ucast v]) else None)"
  by (simp add: store_def put_def fwts_acpi_table_rsdp_def)

lemma write_nth [simp]: "i < length t \<Longrightarrow> write_bytes t i [b] ! i = b"
  by (simp add: write_bytes_def nth_append)

lemma rsdp_sums:
  assumes "rsdp_checksums t = Some t'" and "get t' 0 fwts_acpi_table_rsdp ''length'' = Some len" and "33 \<le> unat len"
  shows "fwts_checksum t' 20 = 0" and "fwts_checksum t' (unat len) = 0"
proof -
  define t1 where "t1 = write_bytes t 8 [0]"
  define t2 where "t2 = write_bytes t1 8 [ucast (256 - ucast (fwts_checksum t1 20) :: u64)]"
  define t3 where "t3 = write_bytes t2 32 [0]"
  from assms(1) obtain len' where l: "33 \<le> length t" "get t3 0 fwts_acpi_table_rsdp ''length'' = Some len'" "unat len' \<le> length t"
    and t': "t' = write_bytes t3 32 [ucast (256 - ucast (fwts_checksum t3 (unat len')) :: u64)]"
    by (auto simp: rsdp_checksums_def store_checksum store_extended t1_def t2_def t3_def bind_eq_Some_conv split: if_splits)
  have len: "length t1 = length t" "length t2 = length t" "length t3 = length t" "length t' = length t"
    using l(1) by (simp_all add: t1_def t2_def t3_def t')
  have "take 4 (drop 20 t') = take 4 (drop 20 t3)"
    using l(1) len by (intro nth_equalityI) (auto simp: t' nth_write)
  then have "len = len'" using assms(2) l(2) len l(1)
    by (simp add: get_def read_le_def read_bytes_def fwts_acpi_table_rsdp_def)
  have "fwts_checksum t' (unat len) = sum_list (write_bytes (take (unat len) t3) 32 [ucast (256 - ucast (sum_list (take (unat len) t3)) :: u64)])"
    unfolding checksum_take t' \<open>len = len'\<close>
    using l(3) len assms(3) \<open>len = len'\<close> by (subst take_write_in) auto
  also have "\<dots> = 0" using len l assms(3) \<open>len = len'\<close> by (intro sum_corrected) (auto simp: t3_def)
  finally show "fwts_checksum t' (unat len) = 0" .
  have "take 20 t' = take 20 t2" using l(1) len by (simp add: t' t3_def take_write)
  also have "\<dots> = write_bytes (take 20 t1) 8 [ucast (256 - ucast (sum_list (take 20 t1)) :: u64)]"
    unfolding t2_def checksum_take using l(1) len by (subst take_write_in) auto
  finally show "fwts_checksum t' 20 = 0"
    unfolding checksum_take using l(1) len by (simp add: sum_corrected t1_def)
qed

text \<open>A root table sums to zero and has the addresses as its entries.\<close>

lemma word_le_entries:
  assumes "0 < w" "w \<le> 8"
  shows "entries_of w (concat (map (word_le w) addrs)) = map (take_bit (8 * w)) addrs"
proof (induction addrs)
  case (Cons a addrs)
  then show ?case using assms by (subst entries_of.simps) (simp add: le_word_le)
qed (subst entries_of.simps, use assms in simp)

definition root_header :: "cstr \<Rightarrow> nat \<Rightarrow> bytes \<Rightarrow> bytes \<Rightarrow> bytes" where
  "root_header sig n oem t =
     (let t = put_bytes t 0 fwts_acpi_table_header ''signature'' (bytes_of sig);
          t = put t 0 fwts_acpi_table_header ''length'' (word_of_nat n);
          t = put t 0 fwts_acpi_table_header ''revision'' 1;
          t = put_bytes t 0 fwts_acpi_table_header ''oem_id'' (bytes_of ''FWTSID'');
          t = put_bytes t 0 fwts_acpi_table_header ''oem_tbl_id'' oem;
          t = put t 0 fwts_acpi_table_header ''oem_revision'' 1;
          t = put_bytes t 0 fwts_acpi_table_header ''creator_id'' (bytes_of ''FWTS'')
      in put t 0 fwts_acpi_table_header ''creator_revision'' 1)"

lemma header_puts:
  "put t 0 fwts_acpi_table_header ''length'' v = write_bytes t 4 (word_le 4 v)"
  "put t 0 fwts_acpi_table_header ''revision'' v = write_bytes t 8 [ucast v]"
  "put t 0 fwts_acpi_table_header ''checksum'' v = write_bytes t 9 [ucast v]"
  "put t 0 fwts_acpi_table_header ''oem_revision'' v = write_bytes t 24 (word_le 4 v)"
  "put t 0 fwts_acpi_table_header ''creator_revision'' v = write_bytes t 32 (word_le 4 v)"
  "put_bytes t 0 fwts_acpi_table_header ''signature'' bs = write_bytes t 0 bs"
  "put_bytes t 0 fwts_acpi_table_header ''oem_id'' bs = write_bytes t 10 bs"
  "put_bytes t 0 fwts_acpi_table_header ''oem_tbl_id'' bs = write_bytes t 16 bs"
  "put_bytes t 0 fwts_acpi_table_header ''creator_id'' bs = write_bytes t 28 bs"
  by (simp_all add: put_def put_bytes_def fwts_acpi_table_header_def)

lemma bytes_of_length [simp]: "length (bytes_of s) = length s"
  by (simp add: bytes_of_def)

lemma header_size: "sizeof fwts_acpi_table_header = 36"
  by (simp add: sizeof_def fwts_acpi_table_header_def)

lemma root_table_sum:
  assumes "length sig = 4" and "length oem = 8"
  shows "sum_list (root_table sig w oem addrs) = 0" and "length (root_table sig w oem addrs) = 36 + w * length addrs"
    and "drop 36 (root_table sig w oem addrs) = concat (map (word_le w) addrs)"
proof -
  define es where "es = concat (map (word_le w) addrs)"
  have es: "length es = w * length addrs" unfolding es_def by (induction addrs) auto
  define t where "t = root_header sig (36 + w * length addrs) oem (replicate 36 0 @ es)"
  have len: "length t = 36 + length es" using assms by (simp add: t_def root_header_def Let_def header_puts)
  have zero: "t ! 9 = 0"
    using assms by (simp add: t_def root_header_def Let_def header_puts nth_write nth_append)
  have root: "root_table sig w oem addrs = write_bytes t 9 [ucast (256 - ucast (sum_list t) :: u64)]"
    using len es by (simp add: root_table_def header_size t_def root_header_def Let_def header_puts checksum_take es_def)
  show "sum_list (root_table sig w oem addrs) = 0" unfolding root using len zero by (intro sum_corrected) simp
  show "length (root_table sig w oem addrs) = 36 + w * length addrs" unfolding root using len es by simp
  have "drop 36 (write_bytes u i bs) = drop 36 u" if "i + length bs \<le> 36" "36 \<le> length u" for u i and bs :: bytes
    using that by (simp add: write_bytes_def drop_append) 
  then show "drop 36 (root_table sig w oem addrs) = concat (map (word_le w) addrs)"
    unfolding root using len assms by (simp add: t_def root_header_def Let_def header_puts es_def)
qed

lemma le_word_zero: "le_word bs = 0 \<Longrightarrow> length bs \<le> 8 \<Longrightarrow> \<forall>b \<in> set bs. b = 0"
proof (induction bs)
  case (Cons b bs)
  have bits: "\<not> bit (le_word (b # bs)) n" for n using Cons.prems(1) by simp
  have low: "\<not> bit b n" for n
  proof
    assume n: "bit b n"
    then have "n < 8" using bit_imp_le_length [of b n] by simp
    with n bits [of n] show False by (simp add: le_word_Cons bit_simps del: le_word.simps)
  qed
  then have "b = 0" by (intro bit_word_eqI) simp
  have "\<not> bit (le_word bs) n" for n
  proof
    assume n: "bit (le_word bs) n"
    then have "n < 8 * length bs" by (rule le_word_bits)
    then have "n + 8 < 64" using Cons.prems(2) by simp
    with n bits [of "n + 8"] show False by (simp add: le_word_Cons bit_simps del: le_word.simps)
  qed
  then have "le_word bs = 0" by (intro bit_word_eqI) simp
  with Cons \<open>b = 0\<close> show ?case by simp
qed simp

lemma sum_zero: "\<forall>b \<in> set bs. b = 0 \<Longrightarrow> sum_list bs = (0 :: u8)"
  by (induction bs) auto

lemma read_zero: "read_le t off n = Some 0 \<Longrightarrow> n \<le> 8 \<Longrightarrow> off + n \<le> length t \<and> sum_list (take n (drop off t)) = (0 :: u8)"
  using le_word_zero [of "take n (drop off t)"] by (auto simp: read_le_def read_bytes_def sum_zero split: if_splits)

lemma sum_word_le_wide: "sum_list (word_le 8 (ucast (a :: u32))) = sum_list (word_le 4 (ucast a))"
proof -
  have "drop_bit 32 (ucast a :: u64) = 0" by (rule bit_word_eqI) (auto simp: bit_simps dest: bit_imp_le_length)
  then show ?thesis by (simp add: eval_nat_numeral drop_bit_drop_bit)
qed

text \<open>Writing the address of the FACS that was built keeps the checksum of the FADT.\<close>

lemma patch_fadt_sum:
  assumes "patch_fadt fadt (ucast (a :: u32)) = Some t'"
    and "get fadt 0 fwts_acpi_table_fadt ''firmware_control'' = Some 0"
    and "header_field fadt ''length'' = Some len"
    and "len \<ge> 140 \<Longrightarrow> get fadt 0 fwts_acpi_table_fadt ''x_firmware_ctrl'' = Some 0"
  shows "sum_list t' = sum_list fadt" and "length t' = length fadt"
proof -
  have patched: "sum_list t' = sum_list fadt \<and> length t' = length fadt"
    if t: "t = write_bytes fadt off (word_le n (ucast a))" and old: "off + n \<le> length fadt" "sum_list (take n (drop off fadt)) = 0"
      and sum: "sum_list (word_le n (ucast a)) = sum_list (word_le 8 (ucast a))"
      and c: "header_field t ''checksum'' = Some c"
      and s: "store t fwts_acpi_table_fadt ''header.checksum'' (c - ucast (fwts_checksum (word_le 8 (ucast a)) 8)) = Some t'"
    for t off n c
  proof -
    have l: "length t = length fadt" using old by (simp add: t)
    have c9: "10 \<le> length t" "c = ucast (t ! 9)"
      using c by (auto simp: header_field_def get_def read_le_def read_bytes_def fwts_acpi_table_header_def take_Suc
          hd_drop_conv_nth split: if_splits)
    have "t' = write_bytes t 9 [t ! 9 - sum_list (word_le 8 (ucast a))]"
    proof -
      have "(ucast (ucast b :: u64) :: u8) = b" for b by (rule bit_word_eqI) (auto simp: bit_simps)
      then show ?thesis using s c9 by (simp add: store_def put_def nest_def fwts_acpi_table_fadt_def fwts_acpi_table_header_def
            ucast_minus checksum_take)
    qed
    moreover have "take 1 (drop 9 t) = [t ! 9]" using c9(1) by (simp add: take_Suc hd_drop_conv_nth)
    ultimately have "sum_list t' = sum_list t - sum_list (word_le 8 (ucast a))" and "length t' = length t"
      using c9(1) sum_write [of 9 "[t ! 9 - sum_list (word_le 8 (ucast a))]" t] by (simp_all add: algebra_simps)
    moreover have "sum_list t = sum_list fadt + sum_list (word_le 8 (ucast a))"
      using old sum_write [of off "word_le n (ucast a)" fadt] sum by (simp add: t)
    ultimately show ?thesis using l by simp
  qed
  from assms(1,3) obtain t c where t: "(if len \<ge> 140 then store fadt fwts_acpi_table_fadt ''x_firmware_ctrl'' (ucast a)
               else store fadt fwts_acpi_table_fadt ''firmware_control'' (ucast (ucast (ucast a :: u64) :: u32))) = Some t"
    and c: "header_field t ''checksum'' = Some c"
    and s: "store t fwts_acpi_table_fadt ''header.checksum'' (c - ucast (fwts_checksum (word_le 8 (ucast a)) 8)) = Some t'"
    by (auto simp: patch_fadt_def bind_eq_Some_conv)
  have aa: "ucast (ucast (ucast a :: u64) :: u32) = (ucast a :: u64)"
    by (rule bit_word_eqI) (auto simp: bit_simps dest: bit_imp_le_length)
  have "sum_list t' = sum_list fadt \<and> length t' = length fadt"
  proof (cases "len \<ge> 140")
    case True
    then have "read_le fadt 132 8 = Some 0" using assms(4) by (simp add: get_def nest_def fwts_acpi_table_fadt_def fwts_acpi_table_header_def fwts_acpi_gas_def)
    then have old: "132 + 8 \<le> length fadt" "sum_list (take 8 (drop 132 fadt)) = 0" using read_zero [of fadt 132 8] by auto
    have "t = write_bytes fadt 132 (word_le 8 (ucast a))"
      using t True old by (simp add: store_def put_def nest_def fwts_acpi_table_fadt_def fwts_acpi_table_header_def fwts_acpi_gas_def)
    then show ?thesis using old refl c s by (rule patched)
  next
    case False
    have "read_le fadt 36 4 = Some 0" using assms(2) by (simp add: get_def nest_def fwts_acpi_table_fadt_def fwts_acpi_table_header_def)
    then have old: "36 + 4 \<le> length fadt" "sum_list (take 4 (drop 36 fadt)) = 0" using read_zero [of fadt 36 4] by auto
    have "t = write_bytes fadt 36 (word_le 4 (ucast a))"
      using t False old aa by (simp add: store_def put_def nest_def fwts_acpi_table_fadt_def fwts_acpi_table_header_def)
    then show ?thesis using old sum_word_le_wide [symmetric] c s by (rule patched)
  qed
  then show "sum_list t' = sum_list fadt" and "length t' = length fadt" by simp_all
qed

text \<open>A version that is not valid is cached: the first call answers 0, the next ones answer it.\<close>

lemma version_cached:
  assumes "acpi_version st = 0" and "acpi_tables_loaded st = ACPI_TABLES_LOADED_OK"
    and "lookup_name ''FACP'' 0 st = Some i" and "table_at st i = Some fadt" and "version_of_fadt fadt = Some v"
    and "v \<noteq> 0" and "v > FWTS_ACPI_VERSION_NEXT \<or> v < FWTS_ACPI_VERSION_10"
  shows "\<exists>st'. fwts_get_acpi_version env fw st = Some (0, st') \<and> fwts_get_acpi_version env fw st' = Some (v, st')"
  using assms
  by (auto simp: fwts_get_acpi_version_def fwts_acpi_find_table_def find_name_with_def find_table_with_def Let_def)

section \<open>Object names\<close>

text \<open>The path of an object with its names filled up to four characters; the root is not counted.\<close>

fun expand_loop :: "int \<Rightarrow> cstr \<Rightarrow> cstr" where
  "expand_loop i [] = replicate (nat (4 - i)) CHR ''_''"
| "expand_loop i (c # cs) =
     (if c = CHR ''.'' then replicate (nat (4 - i)) CHR ''_'' @ c # expand_loop 0 cs else c # expand_loop (i + 1) cs)"

text \<open>fwts_acpi_obj_find() for the result of fwts_acpi_init() and the names fwts_acpi_object_get_names() returns.\<close>

definition fwts_acpi_obj_find :: "int \<Rightarrow> cstr list option \<Rightarrow> cstr \<Rightarrow> bool \<times> test_output list" where
  "fwts_acpi_obj_find init names obj_name =
     (if init \<noteq> FWTS_OK then (False, [Err ''Cannot initialise ACPI.''])
      else case names of
        None \<Rightarrow> (False, [Info ''Cannot find any ACPI objects''])
      | Some ns \<Rightarrow> (expand_loop (-1) obj_name \<in> set ns, []))"

lemma expand_segment:
  assumes "CHR ''.'' \<notin> set s"
  shows "expand_loop i (s @ t) = s @ expand_loop (i + int (length s)) t"
  using assms by (induction s arbitrary: i) (auto simp: algebra_simps)

fun path_text :: "cstr list \<Rightarrow> cstr" where
  "path_text [] = []"
| "path_text [s] = s"
| "path_text (s # ss) = s @ CHR ''.'' # path_text ss"

lemma expand_path:
  assumes "\<forall>s \<in> set ss. CHR ''.'' \<notin> set s" and "ss \<noteq> []"
  shows "expand_loop 0 (path_text ss) = path_text (map (\<lambda>s. s @ replicate (4 - length s) CHR ''_'') ss)"
  using assms
proof (induction ss rule: path_text.induct)
  case (2 s)
  then show ?case using expand_segment [of s 0 "[]"] by (simp add: nat_diff_distrib)
next
  case (3 s s' ss)
  have "nat (4 - int (length s)) = 4 - length s" by simp
  then show ?case using 3 expand_segment [of s 0 "CHR ''.'' # path_text (s' # ss)"] by simp
qed simp

section \<open>Tables loaded from memory\<close>

lemma load_file_count: "fst (load_file env path f st) = fst (load_file env path f st')"
  by (auto simp: load_file_def Let_def split_beta split: dir_file.split option.split)

lemma load_files_count: "fst (load_files env dir extension es st) = fst (load_files env dir extension es st')"
proof (induction es arbitrary: st st')
  case (Cons e es)
  then show ?case using load_file_count
    by (cases e) (simp add: Let_def split_beta, metis (no_types, lifting))
qed simp

lemma generic_count:
  "fst (snd (fwts_acpi_load_tables_from_file_generic env path extension st)) =
   fst (snd (fwts_acpi_load_tables_from_file_generic env path extension st'))"
  unfolding fwts_acpi_load_tables_from_file_generic_def
  by (auto simp: split_beta Let_def split: option.split intro: load_files_count)

lemma sysfs_result: "fst (fwts_acpi_load_tables_from_sysfs env st) = fst (fwts_acpi_load_tables_from_sysfs env st')"
proof -
  define c where "c p = fst (snd (fwts_acpi_load_tables_from_file_generic env p [] acpi_state_start))" for p
  have "fst (snd (fwts_acpi_load_tables_from_file_generic env p [] st)) = c p" for p st
    unfolding c_def by (rule generic_count)
  then show ?thesis by (simp add: fwts_acpi_load_tables_from_sysfs_def split_beta Let_def)
qed

lemma memory_load:
  assumes "acpi_table_path fw = None" and "acpi_table_acpidump_file fw = None"
    and "fst (fwts_acpi_load_tables_from_sysfs env st0) \<noteq> FWTS_OK" and "loaded.keeps load"
  shows "loaded.keeps (load_tables_with env fw load)"
proof -
  have flag: "addresses_ok st \<Longrightarrow> addresses_ok (st\<lparr>acpi_tables_loaded := x\<rparr>)" for st x
    by (erule loaded.cong [rotated]) simp
  have "okay (load_tables_with env fw load st) (\<lambda>(ret, st). addresses_ok st)" if "addresses_ok st" for st
    unfolding load_tables_with_def
    using that assms sysfs_result [of env st st0]
    by (auto simp: Let_def split_beta intro!: okay_pure loaded.firmware loaded.say loaded.sysfs flag)
  then show ?thesis by (simp add: loaded.keeps_def)
qed

lemma memory_addresses:
  assumes "acpi_table_path fw = None" and "acpi_table_acpidump_file fw = None"
    and "fst (fwts_acpi_load_tables_from_sysfs env st) \<noteq> FWTS_OK"
    and "fwts_acpi_load_tables env fw st = Some (ret, st')" and "addresses_ok st"
  shows "addresses_ok st'"
  using loaded.load [OF memory_load [OF assms(1-3) memory_load [OF assms(1-3) loaded.keeps_none]] assms(5), of "\<lambda>(ret, st). addresses_ok st"]
    assms(4) by (simp add: fwts_acpi_load_tables_def okay_def)

lemma load_file_none: "fst (load_file env path f st) = 0 \<Longrightarrow> tables (snd (load_file env path f st)) = tables st"
  by (auto simp: load_file_def Let_def split_beta split: dir_file.split option.split if_splits)

lemma load_files_none:
  "fst (load_files env dir extension es st) = 0 \<Longrightarrow> tables (snd (load_files env dir extension es st)) = tables st"
proof (induction es arbitrary: st)
  case (Cons e es)
  then show ?case using load_file_none by (cases e) (auto simp: Let_def split_beta split: if_splits)
qed simp

lemma generic_none:
  "fst (snd (fwts_acpi_load_tables_from_file_generic env path extension st)) = 0 \<Longrightarrow>
   tables (snd (snd (fwts_acpi_load_tables_from_file_generic env path extension st))) = tables st"
  by (auto simp: fwts_acpi_load_tables_from_file_generic_def split_beta Let_def load_files_none split: option.splits)

lemma sysfs_none:
  "fst (fwts_acpi_load_tables_from_sysfs env st) \<noteq> FWTS_OK \<Longrightarrow> tables (snd (fwts_acpi_load_tables_from_sysfs env st)) = tables st"
  by (auto simp: fwts_acpi_load_tables_from_sysfs_def split_beta Let_def generic_none split: if_splits)

lemma get_rsdp_cases:
  "(\<exists>t len. fwts_acpi_get_rsdp env addr st = (Some (t, len), st) \<and> fst (fwts_acpi_get_rsdp env addr st') = Some (t, len)) \<or>
   fst (fwts_acpi_get_rsdp env addr st) = None \<and> fst (fwts_acpi_get_rsdp env addr st') = None"
  by (auto simp: fwts_acpi_get_rsdp_def split: mapping.splits if_splits)

lemma missing_facs_nested:
  assumes "acpi_table_path fw = None" and "acpi_table_acpidump_file fw = None" and "euid_root fw"
    and "fst (fwts_acpi_load_tables_from_sysfs env st) \<noteq> FWTS_OK"
    and "slots_ok (tables st)" and "acpi_tables_loaded st = ACPI_TABLES_NOT_LOADED"
    and "find_rsdp env fw = Some addr" and "addr \<in> set (addresses (tables st))"
    and "fst (fwts_acpi_get_rsdp env addr st) \<noteq> None"
    and "facs_last_phys_addr st \<noteq> phys"
    and "header_field fadt ''length'' = Some len" and "44 \<le> len"
    and "get fadt 0 fwts_acpi_table_fadt ''firmware_control'' = Some 0"
    and "140 \<le> len \<Longrightarrow> get fadt 0 fwts_acpi_table_fadt ''x_firmware_ctrl'' = Some 0"
  shows "fwts_acpi_handle_fadt env (load_tables_with env fw load) phys fadt st = None"
proof -
  have again: "load_tables_with env fw load st' = None"
    if "tables st' = tables st" for st'
  proof -
    let ?s = "snd (fwts_acpi_load_tables_from_sysfs env st')"
    have bad: "fst (fwts_acpi_load_tables_from_sysfs env st') \<noteq> FWTS_OK" using assms(4) sysfs_result by metis
    then have same: "tables ?s = tables st" using sysfs_none that by simp
    obtain t len where "fwts_acpi_get_rsdp env addr ?s = (Some (t, len), ?s)"
      using get_rsdp_cases [of env addr ?s st] assms(9) by auto
    then have "load_tables_from_firmware env fw load ?s = None"
      using load_again [of ?s env fw addr t len load] assms(5,7,8) same by simp
    then show ?thesis using assms(1-3) bad by (simp add: load_tables_with_def split_beta Let_def)
  qed
  have "FWTS_NULL_POINTER \<noteq> FWTS_OK" by (simp add: FWTS_NULL_POINTER_def FWTS_OK_def)
  then show ?thesis
    using assms(6,10-14)
    by (auto simp: fwts_acpi_handle_fadt_def fwts_acpi_handle_fadt_tables_def fadt_pointer_def Let_def is_reduced_with_def
        find_name_with_def find_table_with_def say_def again)
qed

end
