(* ===== verification/Fwts_Madt.thy ===== *)
theory Fwts_Madt
  imports Fwts_Tables
begin

text \<open>
  The MADT test, src/src/acpi/madt/madt.c: the lengths of the subtables in each version of the
  specification, the choice of the version from the FADT and the MADT, the checks of each type of
  subtable and the loop over the subtables. A handler of a subtable gets the offset of the data
  behind the header of the subtable and the length in the header; all handlers return that length
  less the header, which the loop adds. The statics of the file are a record; the ACPI name space is
  given by the objects that the two walks of ACPICA visit. What the tests only log is left out.
\<close>

section \<open>Layouts (fwts_acpi.h)\<close>

definition fwts_acpi_madt_sub_table_header :: layout where [layouts]:
  "fwts_acpi_madt_sub_table_header = [(''type'', 1), (''length'', 1)]"

definition fwts_acpi_table_madt :: layout where [layouts]:
  "fwts_acpi_table_madt = nest ''header'' fwts_acpi_table_header @ [(''lapic_address'', 4), (''flags'', 4)]"

definition fwts_acpi_madt_processor_local_apic :: layout where [layouts]:
  "fwts_acpi_madt_processor_local_apic = [(''acpi_processor_id'', 1), (''apic_id'', 1), (''flags'', 4)]"

definition fwts_acpi_madt_io_apic :: layout where [layouts]:
  "fwts_acpi_madt_io_apic = [(''io_apic_id'', 1), (''reserved'', 1), (''io_apic_phys_address'', 4),
     (''global_irq_base'', 4)]"

definition fwts_acpi_madt_interrupt_override :: layout where [layouts]:
  "fwts_acpi_madt_interrupt_override = [(''bus'', 1), (''source'', 1), (''gsi'', 4), (''flags'', 2)]"

definition fwts_acpi_madt_nmi :: layout where [layouts]:
  "fwts_acpi_madt_nmi = [(''flags'', 2), (''gsi'', 4)]"

definition fwts_acpi_madt_local_apic_nmi :: layout where [layouts]:
  "fwts_acpi_madt_local_apic_nmi = [(''acpi_processor_id'', 1), (''flags'', 2), (''local_apic_lint'', 1)]"

definition fwts_acpi_madt_local_apic_addr_override :: layout where [layouts]:
  "fwts_acpi_madt_local_apic_addr_override = [(''reserved'', 2), (''address'', 8)]"

definition fwts_acpi_madt_io_sapic :: layout where [layouts]:
  "fwts_acpi_madt_io_sapic = [(''io_sapic_id'', 1), (''reserved'', 1), (''gsi'', 4), (''address'', 8)]"

definition fwts_acpi_madt_local_sapic :: layout where [layouts]:
  "fwts_acpi_madt_local_sapic = [(''acpi_processor_id'', 1), (''local_sapic_id'', 1),
     (''local_sapic_eid'', 1), (''reserved'', 3), (''flags'', 4), (''uid_value'', 4), (''uid_string'', 0)]"

definition fwts_acpi_madt_platform_int_source :: layout where [layouts]:
  "fwts_acpi_madt_platform_int_source = [(''flags'', 2), (''type'', 1), (''processor_id'', 1),
     (''processor_eid'', 1), (''io_sapic_vector'', 1), (''gsi'', 4), (''pis_flags'', 4)]"

definition fwts_acpi_madt_local_x2apic :: layout where [layouts]:
  "fwts_acpi_madt_local_x2apic = [(''reserved'', 2), (''x2apic_id'', 4), (''flags'', 4),
     (''processor_uid'', 4)]"

definition fwts_acpi_madt_local_x2apic_nmi :: layout where [layouts]:
  "fwts_acpi_madt_local_x2apic_nmi = [(''flags'', 2), (''processor_uid'', 4), (''local_x2apic_lint'', 1),
     (''reserved'', 3)]"

definition fwts_acpi_madt_gic :: layout where [layouts]:
  "fwts_acpi_madt_gic = [(''reserved'', 2), (''gic_id'', 4), (''processor_uid'', 4), (''flags'', 4),
     (''parking_protocol_version'', 4), (''performance_interrupt_gsiv'', 4), (''parked_address'', 8),
     (''physical_base_address'', 8), (''gicv'', 8), (''gich'', 8), (''vgic'', 4),
     (''gicr_base_address'', 8), (''mpidr'', 8), (''processor_power_efficiency_class'', 1),
     (''reserved2'', 3)]"

definition fwts_acpi_madt_gicd :: layout where [layouts]:
  "fwts_acpi_madt_gicd = [(''reserved'', 2), (''gic_id'', 4), (''physical_base_address'', 8),
     (''system_vector_base'', 4), (''gic_version'', 1), (''reserved2'', 3)]"

definition fwts_acpi_madt_gic_msi :: layout where [layouts]:
  "fwts_acpi_madt_gic_msi = [(''reserved'', 2), (''frame_id'', 4), (''physical_base_address'', 8),
     (''flags'', 4), (''spi_count'', 2), (''spi_base'', 2), (''spi_flags'', 4)]"

definition fwts_acpi_madt_mp_wakeup :: layout where [layouts]:
  "fwts_acpi_madt_mp_wakeup = [(''mail_box_version'', 2), (''reserved'', 4), (''mail_box_address'', 8),
     (''reset_vector'', 8)]"

definition fwts_acpi_madt_core_pic :: layout where [layouts]:
  "fwts_acpi_madt_core_pic = [(''version'', 1), (''acpi_processor_id'', 4), (''physical_processor_id'', 4),
     (''flag'', 4)]"

definition fwts_acpi_madt_rintc :: layout where [layouts]:
  "fwts_acpi_madt_rintc = [(''version'', 1), (''reserved'', 1), (''flags'', 4), (''hart_id'', 8),
     (''uid'', 4), (''ext_intc_id'', 4), (''imsic_addr'', 8), (''imsic_size'', 4)]"

definition fwts_acpi_madt_imsic :: layout where [layouts]:
  "fwts_acpi_madt_imsic = [(''version'', 1), (''reserved'', 1), (''flags'', 4), (''num_ids'', 2),
     (''num_guest_ids'', 2), (''guest_index_bits'', 1), (''hart_index_bits'', 1), (''group_index_bits'', 1),
     (''group_index_shift'', 1)]"

definition fwts_acpi_madt_aplic :: layout where [layouts]:
  "fwts_acpi_madt_aplic = [(''version'', 1), (''id'', 1), (''flags'', 4), (''hw_id'', 8), (''num_idcs'', 2),
     (''num_sources'', 2), (''gsi_base'', 4), (''addr'', 8), (''size'', 4)]"

definition fwts_acpi_madt_plic :: layout where [layouts]:
  "fwts_acpi_madt_plic = [(''version'', 1), (''id'', 1), (''hw_id'', 8), (''num_irqs'', 2),
     (''max_prio'', 2), (''flags'', 4), (''size'', 4), (''base_addr'', 8), (''gsi_base'', 4)]"

text \<open>In these two a member is a union of a field and a struct: \<open>flags\<close> and \<open>reserved\<close> are the bytes of \<open>reserved\<close>.\<close>

definition fwts_acpi_madt_gicr :: layout where [layouts]:
  "fwts_acpi_madt_gicr = [(''reserved'', 2), (''discovery_range_base_address'', 8), (''discovery_range_length'', 4)]"

definition fwts_acpi_madt_gic_its :: layout where [layouts]:
  "fwts_acpi_madt_gic_its = [(''reserved'', 2), (''its_id'', 4), (''physical_base_address'', 8), (''reserved2'', 4)]"

definition fwts_acpi_madt_gic_flags :: layout where [layouts]:
  "fwts_acpi_madt_gic_flags = [(''flags'', 1), (''reserved'', 1)]"

section \<open>Versions of the specification\<close>

definition SUBTABLE_UNDEFINED :: nat where "SUBTABLE_UNDEFINED = 0"
definition SUBTABLE_VARIABLE :: nat where "SUBTABLE_VARIABLE = 0xff"
definition NUM_SUBTABLE_TYPES :: nat where "NUM_SUBTABLE_TYPES = 28"
definition MAX_IO_APIC_ID :: nat where "MAX_IO_APIC_ID = 256"
definition SBBR_ACPI_MAJOR_VERSION :: u8 where "SBBR_ACPI_MAJOR_VERSION = 6"

record acpi_madt_subtable_lengths =
  major_version :: nat
  minor_version :: nat
  madt_version :: nat
  num_types :: nat
  lengths :: "nat list"

definition spec_entry :: "nat \<Rightarrow> nat \<Rightarrow> nat \<Rightarrow> nat \<Rightarrow> nat list \<Rightarrow> acpi_madt_subtable_lengths" where
  "spec_entry major minor madt types ls =
     \<lparr> major_version = major, minor_version = minor, madt_version = madt, num_types = types,
       lengths = take NUM_SUBTABLE_TYPES (ls @ replicate NUM_SUBTABLE_TYPES 0) \<rparr>"

text \<open>The table ends before the terminator, an entry without types.\<close>

definition spec_info :: "acpi_madt_subtable_lengths list" where
  "spec_info =
     [spec_entry 1 0 1 5 [8, 12, 10, 8, 6],
      spec_entry 3 0 1 9 [8, 12, 10, 8, 6, 16, 20, 8, 16],
      spec_entry 4 0 2 9 [8, 12, 10, 8, 6, 12, 16, SUBTABLE_VARIABLE, 16],
      spec_entry 4 0 3 11 [8, 12, 10, 8, 6, 12, 16, SUBTABLE_VARIABLE, 16, 16, 12],
      spec_entry 5 0 3 13 [8, 12, 10, 8, 6, 12, 16, SUBTABLE_VARIABLE, 16, 16, 12, 40, 24],
      spec_entry 5 1 3 15 [8, 12, 10, 8, 6, 12, 16, SUBTABLE_VARIABLE, 16, 16, 12, 76, 24, 24, 16],
      spec_entry 6 0 3 16 [8, 12, 10, 8, 6, 12, 16, SUBTABLE_VARIABLE, 16, 16, 12, 80, 24, 24, 16, 20],
      spec_entry 6 0 4 16 [8, 12, 10, 8, 6, 12, 16, SUBTABLE_VARIABLE, 16, 16, 12, 80, 24, 24, 16, 20],
      spec_entry 6 1 4 16 [8, 12, 10, 8, 6, 12, 16, SUBTABLE_VARIABLE, 16, 16, 12, 80, 24, 24, 16, 20],
      spec_entry 6 2 4 16 [8, 12, 10, 8, 6, 12, 16, SUBTABLE_VARIABLE, 16, 16, 12, 80, 24, 24, 16, 20],
      spec_entry 6 3 5 16 [8, 12, 10, 8, 6, 12, 16, SUBTABLE_VARIABLE, 16, 16, 12, 80, 24, 24, 16, 20],
      spec_entry 6 4 5 16 [8, 12, 10, 8, 6, 12, 16, SUBTABLE_VARIABLE, 16, 16, 12, 80, 24, 24, 16, 20],
      spec_entry 6 5 6 24 [8, 12, 10, 8, 6, 12, 16, SUBTABLE_VARIABLE, 16, 16, 12, 82, 24, 24, 16, 20, 16,
        15, 23, 21, 13, 19, 17, 15],
      spec_entry 6 6 7 28 [8, 12, 10, 8, 6, 12, 16, SUBTABLE_VARIABLE, 16, 16, 12, 82, 24, 24, 16, 20, 24,
        15, 23, 21, 13, 19, 17, 15, 36, 16, 36, 36]]"

text \<open>The largest version of the FADT among the entries for a revision of the MADT, which are adjacent.\<close>

definition find_spec :: "nat \<Rightarrow> u8 \<Rightarrow> u8 \<Rightarrow> acpi_madt_subtable_lengths option" where
  "find_spec revision major minor =
     (let ms = takeWhile (\<lambda>m. madt_version m = revision) (dropWhile (\<lambda>m. madt_version m \<noteq> revision) spec_info)
      in fold (\<lambda>m found. if major_version m \<le> unat major \<and> minor_version m \<le> unat minor then Some m else found) ms None)"

section \<open>State\<close>

definition ACPI_TYPE_DEVICE :: nat where "ACPI_TYPE_DEVICE = 6"
definition ACPI_TYPE_PROCESSOR :: nat where "ACPI_TYPE_PROCESSOR = 12"

text \<open>An object of the name space: its type and the value that evaluating it, or its _UID, gives.\<close>

type_synonym ns_object = "nat \<times> u64 option"

record madt =
  mtable :: bytes
  ftable :: "bytes option"
  spec_data :: acpi_madt_subtable_lengths
  fadt_major :: u8
  fadt_minor :: u8
  madt_sbbr :: bool
  madt_arch :: fwts_architecture
  madt_acpi_version :: u32
  msi_frame_ids :: "u64 list"
  its_ids :: "u64 list"
  processor_uids :: "(nat \<times> u64) list"
  madt_io_apics :: "bool list"
  madt_io_sapics :: "bool list"
  laao_count :: nat

text \<open>madt_processor_handler(): the object is recorded, or the walk ends.\<close>

definition madt_processor_handler :: "ns_object \<Rightarrow> (nat \<times> u64) list \<Rightarrow> (nat \<times> u64) list option" where
  "madt_processor_handler x uids =
     (case x of (ty, v) \<Rightarrow>
        if ty = ACPI_TYPE_PROCESSOR \<or> ty = ACPI_TYPE_DEVICE then map_option (\<lambda>u. uids @ [(ty, u)]) v else None)"

fun walk_namespace :: "ns_object list \<Rightarrow> (nat \<times> u64) list \<Rightarrow> (nat \<times> u64) list" where
  "walk_namespace [] uids = uids"
| "walk_namespace (x # xs) uids =
     (case madt_processor_handler x uids of None \<Rightarrow> uids | Some uids' \<Rightarrow> walk_namespace xs uids')"

text \<open>The report and the type of the processor that matches; ACPI_NUM_TYPES is None.\<close>

fun find_uid_loop :: "(nat \<times> u64) list \<Rightarrow> u64 \<Rightarrow> cstr \<Rightarrow> nat option" where
  "find_uid_loop [] uid name = None"
| "find_uid_loop ((ty, v) # xs) uid name =
     (if uid = v then Some ty
      else if uid = 0xFF \<and> name = ''LAPICNMI'' then Some ty
      else find_uid_loop xs uid name)"

definition madt_find_processor_uid :: "madt \<Rightarrow> u64 \<Rightarrow> cstr \<Rightarrow> report list \<times> nat option" where
  "madt_find_processor_uid m uid name =
     (case find_uid_loop (processor_uids m) uid name of
        Some ty \<Rightarrow> ([Passed], Some ty)
      | None \<Rightarrow> ([Failed LOG_LEVEL_MEDIUM (''MADT'' @ name @ ''UidMismatch'')], None))"

definition madt_revision_of :: "madt \<Rightarrow> u64 option" where
  "madt_revision_of m = header_field (mtable m) ''revision''"

section \<open>Handlers of the subtables\<close>

type_synonym madt_handler = "madt \<Rightarrow> nat \<Rightarrow> u64 \<Rightarrow> report list option"

definition check_madt_apic_flags :: "madt \<Rightarrow> u64 \<Rightarrow> report list option" where
  "check_madt_apic_flags m fl =
     do { revision \<leftarrow> madt_revision_of m;
          Some (no_issues (fwts_acpi_reserved_bits ''MADT'' ''Local APIC Flags'' fl (if revision < 5 then 1 else 2) 31)) }"

definition madt_local_apic :: madt_handler where
  "madt_local_apic m off hlen =
     do { fl \<leftarrow> get (mtable m) off fwts_acpi_madt_processor_local_apic ''flags'';
          if fl AND 1 = 0 then Some [Skipped]
          else do { uid \<leftarrow> get (mtable m) off fwts_acpi_madt_processor_local_apic ''acpi_processor_id'';
                    rs \<leftarrow> check_madt_apic_flags m fl;
                    Some (fst (madt_find_processor_uid m uid ''LAPIC'') @ rs) } }"

definition madt_io_apic :: "madt \<Rightarrow> nat \<Rightarrow> u64 \<Rightarrow> (report list \<times> madt) option" where
  "madt_io_apic m off hlen =
     do { res \<leftarrow> get (mtable m) off fwts_acpi_madt_io_apic ''reserved'';
          addr \<leftarrow> get (mtable m) off fwts_acpi_madt_io_apic ''io_apic_phys_address'';
          io_id \<leftarrow> get (mtable m) off fwts_acpi_madt_io_apic ''io_apic_id'';
          Some (pass_or (res = 0) (Failed LOG_LEVEL_MEDIUM ''SPECMADTIOAPICFlags'') @
                pass_or (addr \<noteq> 0) (Failed LOG_LEVEL_MEDIUM ''MADTIOAPICAddrZero'') @
                fail_if (madt_io_apics m ! unat io_id) (Failed LOG_LEVEL_MEDIUM ''MADIOSAPICNotUnique''),
                m\<lparr>madt_io_apics := (madt_io_apics m)[unat io_id := True]\<rparr>) }"

definition madt_interrupt_override :: madt_handler where
  "madt_interrupt_override m off hlen =
     do { b \<leftarrow> get (mtable m) off fwts_acpi_madt_interrupt_override ''bus'';
          fl \<leftarrow> get (mtable m) off fwts_acpi_madt_interrupt_override ''flags'';
          Some (pass_or (b = 0) (Failed LOG_LEVEL_MEDIUM ''MADTIRQSrcISA'') @
                pass_or (fl AND 0xfffffff0 = 0) (Failed LOG_LEVEL_MEDIUM ''MADTIRQSrcFlags'')) }"

definition madt_nmi_source :: madt_handler where
  "madt_nmi_source m off hlen =
     do { fl \<leftarrow> get (mtable m) off fwts_acpi_madt_nmi ''flags'';
          Some (pass_or (fl AND 0xfffffff0 = 0) (Failed LOG_LEVEL_MEDIUM ''MADTNMISrcFlags'')) }"

definition madt_local_apic_nmi :: madt_handler where
  "madt_local_apic_nmi m off hlen =
     do { uid \<leftarrow> get (mtable m) off fwts_acpi_madt_local_apic_nmi ''acpi_processor_id'';
          fl \<leftarrow> get (mtable m) off fwts_acpi_madt_local_apic_nmi ''flags'';
          Some (fst (madt_find_processor_uid m uid ''LAPICNMI'') @
                pass_or (fl AND 0xfffffff0 = 0) (Failed LOG_LEVEL_MEDIUM ''MADTLAPICNMIFlags'')) }"

definition madt_lapic_addr_override :: "madt \<Rightarrow> nat \<Rightarrow> u64 \<Rightarrow> (report list \<times> madt) option" where
  "madt_lapic_addr_override m off hlen =
     (let m = m\<lparr>laao_count := laao_count m + 1\<rparr> in
      do { res \<leftarrow> get (mtable m) off fwts_acpi_madt_local_apic_addr_override ''reserved'';
           addr \<leftarrow> get (mtable m) off fwts_acpi_madt_local_apic_addr_override ''address'';
           Some (pass_or (res = 0) (Failed LOG_LEVEL_MEDIUM ''SPECMADTLAPICOVRReserved'') @
                 pass_or (addr \<noteq> 0) (Failed LOG_LEVEL_MEDIUM ''SPECMADTLAPICOVRAddress'') @
                 fail_if (laao_count m > 1) (Failed LOG_LEVEL_MEDIUM ''SPECMADTLAPICOVRCount''), m) })"

definition madt_io_sapic :: "madt \<Rightarrow> nat \<Rightarrow> u64 \<Rightarrow> (report list \<times> madt) option" where
  "madt_io_sapic m off hlen =
     do { res \<leftarrow> get (mtable m) off fwts_acpi_madt_io_sapic ''reserved'';
          addr \<leftarrow> get (mtable m) off fwts_acpi_madt_io_sapic ''address'';
          io_id \<leftarrow> get (mtable m) off fwts_acpi_madt_io_sapic ''io_sapic_id'';
          Some (pass_or (res = 0) (Failed LOG_LEVEL_MEDIUM ''SPECMADTIOSAPICReserved'') @
                pass_or (addr \<noteq> 0) (Failed LOG_LEVEL_MEDIUM ''MADIOSAPICAddrZero'') @
                fail_if (madt_io_sapics m ! unat io_id) (Failed LOG_LEVEL_MEDIUM ''MADIOSAPICNotUnique''),
                m\<lparr>madt_io_sapics := (madt_io_sapics m)[unat io_id := True]\<rparr>) }"

definition lsapic_uid_checks :: "nat option \<Rightarrow> u64 \<Rightarrow> u64 \<Rightarrow> cstr \<Rightarrow> report list" where
  "lsapic_uid_checks ty proc_id uid_value uid_string =
     (if ty = Some ACPI_TYPE_PROCESSOR then []
      else if ty = Some ACPI_TYPE_DEVICE then
        pass_or (uid_value = proc_id) (Failed LOG_LEVEL_MEDIUM ''MADTLSAPICUidCompare'') @
        pass_or (c_atoi uid_string = int (unat proc_id)) (Failed LOG_LEVEL_MEDIUM ''MADTLSAPICUidCompare'')
      else [Warning])"

definition madt_local_sapic :: madt_handler where
  "madt_local_sapic m off hlen =
     do { let t = mtable m;
          s \<leftarrow> read_str t (off + offsetof fwts_acpi_madt_local_sapic ''uid_string'');
          let len = pass_or (unat hlen = length s + 16) (Failed LOG_LEVEL_MEDIUM ''MADTLSAPICLength'');
          fl \<leftarrow> get t off fwts_acpi_madt_local_sapic ''flags'';
          if fl AND 1 = 0 then Some (len @ [Skipped])
          else do {
            proc_id \<leftarrow> get t off fwts_acpi_madt_local_sapic ''acpi_processor_id'';
            uid_value \<leftarrow> get t off fwts_acpi_madt_local_sapic ''uid_value'';
            let (rs, ty) = madt_find_processor_uid m proc_id ''LSAPIC'';
            res \<leftarrow> get_bytes t off fwts_acpi_madt_local_sapic ''reserved'';
            fl_rs \<leftarrow> check_madt_apic_flags m fl;
            Some (len @ rs @ lsapic_uid_checks ty proc_id uid_value (chars s) @
              pass_or (\<forall>b \<in> set res. b = 0) (Failed LOG_LEVEL_MEDIUM ''MADTLSAPICReservedNonZero'') @
              fl_rs @
              pass_or (unat (word_of_nat (length (takeWhile (\<lambda>b. b < 128) s)) :: u8) \<ge> length s)
                (Failed LOG_LEVEL_MEDIUM ''MADTLSAPICUIDNonAscii'')) } }"

definition madt_platform_int_source :: madt_handler where
  "madt_platform_int_source m off hlen =
     do { fl \<leftarrow> get (mtable m) off fwts_acpi_madt_platform_int_source ''flags'';
          ty \<leftarrow> get (mtable m) off fwts_acpi_madt_platform_int_source ''type'';
          vec \<leftarrow> get (mtable m) off fwts_acpi_madt_platform_int_source ''io_sapic_vector'';
          pis \<leftarrow> get (mtable m) off fwts_acpi_madt_platform_int_source ''pis_flags'';
          Some (pass_or (fl AND 0xfffffff0 = 0) (Failed LOG_LEVEL_MEDIUM ''MADTPlatIRQSrcFlags'') @
                pass_or (\<not> (ty < 1 \<or> ty > 3)) (Failed LOG_LEVEL_MEDIUM ''MADTPlatIRQType'') @
                pass_or (vec \<noteq> 0) (Failed LOG_LEVEL_MEDIUM ''MADTPlatIRQIOSAPICVector'') @
                pass_or (pis AND 0xfffffffe = 0) (Failed LOG_LEVEL_MEDIUM ''MADTPlatIRQSrcFlagsNonZero'')) }"

definition madt_local_x2apic :: madt_handler where
  "madt_local_x2apic m off hlen =
     do { fl \<leftarrow> get (mtable m) off fwts_acpi_madt_local_x2apic ''flags'';
          if fl AND 1 = 0 then Some [Skipped]
          else do { res \<leftarrow> get (mtable m) off fwts_acpi_madt_local_x2apic ''reserved'';
                    fl_rs \<leftarrow> check_madt_apic_flags m fl;
                    uid \<leftarrow> get (mtable m) off fwts_acpi_madt_local_x2apic ''processor_uid'';
                    Some (pass_or (res = 0) (Failed LOG_LEVEL_MEDIUM ''MADTLX2APICReservedNonZero'') @ fl_rs @
                          fst (madt_find_processor_uid m uid ''X2APIC'')) } }"

definition madt_local_x2apic_nmi :: madt_handler where
  "madt_local_x2apic_nmi m off hlen =
     do { fl \<leftarrow> get (mtable m) off fwts_acpi_madt_local_x2apic_nmi ''flags'';
          Some (pass_or (fl AND 0xfffffff0 = 0) (Failed LOG_LEVEL_MEDIUM ''MADTLAPICX2APICNMIFlags'')) }"

text \<open>The parking protocol version of a GICC and, from revision 7 on, the PSCI flag of the FADT.\<close>

definition FWTS_FACP_ARM_BOOT_ARCH_PSCI_COMPLIANT :: u64 where "FWTS_FACP_ARM_BOOT_ARCH_PSCI_COMPLIANT = 1"
definition FWTS_ACPI_VERSION_63 :: u32 where "FWTS_ACPI_VERSION_63 = 0x630"

definition gicc_parking :: "madt \<Rightarrow> u64 \<Rightarrow> report list option" where
  "gicc_parking m parking =
     do { revision \<leftarrow> madt_revision_of m;
          if revision \<ge> 7 then
            do { psci \<leftarrow> (case ftable m of
                   None \<Rightarrow> Some [Failed LOG_LEVEL_MEDIUM ''MADTArmPsciCompliance'']
                 | Some fadt \<Rightarrow>
                     do { b \<leftarrow> get fadt 0 fwts_acpi_table_fadt ''arm_boot_flags'';
                          Some (pass_or (b AND FWTS_FACP_ARM_BOOT_ARCH_PSCI_COMPLIANT \<noteq> 0)
                            (Failed LOG_LEVEL_MEDIUM ''MADTArmPsciCompliance'')) });
                 Some (pass_or (parking = 0) (Failed LOG_LEVEL_MEDIUM ''SPECMADTGICCParkingVersion'') @ psci) }
          else Some (pass_or (parking = 0 \<or> parking = 1) (Failed LOG_LEVEL_MEDIUM ''SPECMADTGICCParkingVersion'')) }"

definition madt_gicc :: madt_handler where
  "madt_gicc m off hlen =
     do { res \<leftarrow> get (mtable m) off fwts_acpi_madt_gic ''reserved'';
          fl \<leftarrow> get (mtable m) off fwts_acpi_madt_gic ''flags'';
          uid_rs \<leftarrow> (if fl AND 1 \<noteq> 0
                    then do { uid \<leftarrow> get (mtable m) off fwts_acpi_madt_gic ''processor_uid'';
                              Some (fst (madt_find_processor_uid m uid ''GICC'')) }
                    else Some []);
          let mask = (if hlen = 82 then 0xfffffff0 else if hlen = 80 then 0xfffffff8 else 0xfffffffc);
          parking \<leftarrow> get (mtable m) off fwts_acpi_madt_gic ''parking_protocol_version'';
          park_rs \<leftarrow> gicc_parking m parking;
          res_rs \<leftarrow> (if hlen = 80
                    then do { bs \<leftarrow> get_bytes (mtable m) off fwts_acpi_madt_gic ''reserved2'';
                              let tmp = (if madt_acpi_version m \<ge> FWTS_ACPI_VERSION_63 then bs ! 0
                                         else bs ! 0 OR bs ! 1 OR bs ! 2);
                              Some (pass_or (tmp = 0) (Failed LOG_LEVEL_LOW ''MADTGICCReserved2NonZero'')) }
                    else Some []);
          Some (pass_or (res = 0) (Failed LOG_LEVEL_LOW ''MADTGICCReservedNonZero'') @ uid_rs @
                pass_or (fl AND mask = 0) (Failed LOG_LEVEL_MEDIUM ''MADTGICFLags'') @
                fail_if (hlen = 82 \<and> fl AND 1 \<noteq> 0 \<and> fl AND 8 \<noteq> 0) (Failed LOG_LEVEL_MEDIUM ''MADTGICBadFLag'') @
                park_rs @ res_rs) }"

definition madt_gicd :: madt_handler where
  "madt_gicd m off hlen =
     do { bs \<leftarrow> get_bytes (mtable m) off fwts_acpi_madt_gicd ''reserved2'';
          let res2 = (ucast (bs ! 0) + push_bit 4 (ucast (bs ! 1)) + push_bit 8 (ucast (bs ! 2)) :: u32);
          res \<leftarrow> get (mtable m) off fwts_acpi_madt_gicd ''reserved'';
          base \<leftarrow> get (mtable m) off fwts_acpi_madt_gicd ''system_vector_base'';
          ver \<leftarrow> get (mtable m) off fwts_acpi_madt_gicd ''gic_version'';
          Some (pass_or (res = 0) (Failed LOG_LEVEL_LOW ''MADTGICDReservedNonZero'') @
                pass_or (base = 0) (Failed LOG_LEVEL_LOW ''MADTGICDSystemVectorBaseNonZero'') @
                pass_or (\<not> (ver \<noteq> 0 \<and> ver > 4)) (Failed LOG_LEVEL_LOW ''SPECMADTGICDVersion'') @
                pass_or (res2 = 0) (Failed LOG_LEVEL_LOW ''MADTGICDReserved2NonZero'')) }"

definition madt_gic_msi_frame :: "madt \<Rightarrow> nat \<Rightarrow> u64 \<Rightarrow> (report list \<times> madt) option" where
  "madt_gic_msi_frame m off hlen =
     do { res \<leftarrow> get (mtable m) off fwts_acpi_madt_gic_msi ''reserved'';
          frame \<leftarrow> get (mtable m) off fwts_acpi_madt_gic_msi ''frame_id'';
          fl \<leftarrow> get (mtable m) off fwts_acpi_madt_gic_msi ''flags'';
          let found = (frame \<in> set (msi_frame_ids m));
          Some (pass_or (res = 0) (Failed LOG_LEVEL_LOW ''MADTGICMSIReservedNonZero'') @
                pass_or (\<not> found) (Failed LOG_LEVEL_MEDIUM ''MADTGICMSINonUniqueFrameId'') @
                pass_or (fl AND 0xfffffffe = 0) (Failed LOG_LEVEL_MEDIUM ''MADTGICMSIFLags''),
                if found then m else m\<lparr>msi_frame_ids := msi_frame_ids m @ [frame]\<rparr>) }"

text \<open>The flags and the reserved bytes in front of a GICR and of an ITS.\<close>

definition gic_flags :: "madt \<Rightarrow> nat \<Rightarrow> cstr \<Rightarrow> cstr \<Rightarrow> report list option" where
  "gic_flags m off fl_label res_label =
     do { revision \<leftarrow> madt_revision_of m;
          if revision \<ge> 7 then
            do { fl \<leftarrow> get (mtable m) off fwts_acpi_madt_gic_flags ''flags'';
                 res \<leftarrow> get (mtable m) off fwts_acpi_madt_gic_flags ''reserved'';
                 Some (pass_or (fl AND NOT 1 = 0) (Failed LOG_LEVEL_LOW fl_label) @
                       pass_or (res = 0) (Failed LOG_LEVEL_LOW res_label)) }
          else
            do { res \<leftarrow> get (mtable m) off fwts_acpi_madt_gicr ''reserved'';
                 Some (pass_or (res = 0) (Failed LOG_LEVEL_LOW res_label)) } }"

definition madt_gicr :: madt_handler where
  "madt_gicr m off hlen =
     do { rs \<leftarrow> gic_flags m off ''MADTGICRReservedFlags'' ''MADTGICRReservedNonZero'';
          range \<leftarrow> get (mtable m) off fwts_acpi_madt_gicr ''discovery_range_length'';
          Some (rs @ pass_or (range \<noteq> 0) (Failed LOG_LEVEL_LOW ''SPECMADTGICRZeroLength'')) }"

definition madt_gic_its :: "madt \<Rightarrow> nat \<Rightarrow> u64 \<Rightarrow> (report list \<times> madt) option" where
  "madt_gic_its m off hlen =
     do { rs \<leftarrow> gic_flags m off ''SPECMADTGICITSReservedFlags'' ''SPECMADTGICITSReservedNonZero'';
          its \<leftarrow> get (mtable m) off fwts_acpi_madt_gic_its ''its_id'';
          res2 \<leftarrow> get (mtable m) off fwts_acpi_madt_gic_its ''reserved2'';
          let found = (its \<in> set (its_ids m));
          Some (rs @ pass_or (\<not> found) (Failed LOG_LEVEL_MEDIUM ''SPECMADTGICITSNonUniqueId'') @
                pass_or (res2 = 0) (Failed LOG_LEVEL_LOW ''SPECMADTGICITSReserved2NonZero''),
                if found then m else m\<lparr>its_ids := its_ids m @ [its]\<rparr>) }"

definition madt_mp_wakup :: madt_handler where
  "madt_mp_wakup m off hlen =
     do { revision \<leftarrow> madt_revision_of m;
          ver \<leftarrow> get (mtable m) off fwts_acpi_madt_mp_wakeup ''mail_box_version'';
          res \<leftarrow> get (mtable m) off fwts_acpi_madt_mp_wakeup ''reserved'';
          addr \<leftarrow> get (mtable m) off fwts_acpi_madt_mp_wakeup ''mail_box_address'';
          Some (pass_or (ver = (if revision \<ge> 7 then 1 else 0)) (Failed LOG_LEVEL_LOW ''SPECMADTMPWAKEUPVersion'') @
                pass_or (res = 0) (Failed LOG_LEVEL_LOW ''SPECMADTMPWAKEUPReservedNonZero'') @
                pass_or (addr mod 0x1000 = 0) (Failed LOG_LEVEL_HIGH ''SPECMADTMPWAKEUPAddress'')) }"

definition madt_core_pic :: madt_handler where
  "madt_core_pic m off hlen =
     do { ver \<leftarrow> get (mtable m) off fwts_acpi_madt_core_pic ''version'';
          fl \<leftarrow> get (mtable m) off fwts_acpi_madt_core_pic ''flag'';
          Some (pass_or (ver \<le> 1) (Failed LOG_LEVEL_LOW ''SPECMADTPicVersion'') @
                pass_or (fl AND 0xfffffffe = 0) (Failed LOG_LEVEL_MEDIUM ''SPECMADTPicFlag'')) }"

definition madt_general_pic :: madt_handler where
  "madt_general_pic m off hlen =
     do { ver \<leftarrow> read_le (mtable m) off 1;
          Some (pass_or (ver \<le> 1) (Failed LOG_LEVEL_LOW ''SPECMADTPicVersion'')) }"

definition madt_rintc :: madt_handler where
  "madt_rintc m off hlen =
     do { ver \<leftarrow> get (mtable m) off fwts_acpi_madt_rintc ''version'';
          res \<leftarrow> get (mtable m) off fwts_acpi_madt_rintc ''reserved'';
          fl \<leftarrow> get (mtable m) off fwts_acpi_madt_rintc ''flags'';
          uid \<leftarrow> get (mtable m) off fwts_acpi_madt_rintc ''uid'';
          Some (pass_or (ver = 1) (Failed LOG_LEVEL_LOW ''MADTRINTCVersion'') @
                pass_or (res = 0) (Failed LOG_LEVEL_LOW ''MADTRINTCReservedNonZero'') @
                pass_or (fl AND 0xfffffffc = 0) (Failed LOG_LEVEL_LOW ''MADTRINTCFlags'') @
                fst (madt_find_processor_uid m uid ''RINTC'')) }"

definition madt_imsic :: madt_handler where
  "madt_imsic m off hlen =
     do { ver \<leftarrow> get (mtable m) off fwts_acpi_madt_imsic ''version'';
          res \<leftarrow> get (mtable m) off fwts_acpi_madt_imsic ''reserved'';
          fl \<leftarrow> get (mtable m) off fwts_acpi_madt_imsic ''flags'';
          ids \<leftarrow> get (mtable m) off fwts_acpi_madt_imsic ''num_ids'';
          guests \<leftarrow> get (mtable m) off fwts_acpi_madt_imsic ''num_guest_ids'';
          guest_bits \<leftarrow> get (mtable m) off fwts_acpi_madt_imsic ''guest_index_bits'';
          hart_bits \<leftarrow> get (mtable m) off fwts_acpi_madt_imsic ''hart_index_bits'';
          group_bits \<leftarrow> get (mtable m) off fwts_acpi_madt_imsic ''group_index_bits'';
          shift \<leftarrow> get (mtable m) off fwts_acpi_madt_imsic ''group_index_shift'';
          Some (pass_or (ver = 1) (Failed LOG_LEVEL_LOW ''MADTIMSICVersion'') @
                pass_or (res = 0) (Failed LOG_LEVEL_LOW ''SPECMADTMIMSICReservedNonZero'') @
                pass_or (fl = 0) (Failed LOG_LEVEL_LOW ''MADTIMSICFlags'') @
                pass_or (63 \<le> ids \<and> ids \<le> 2047) (Failed LOG_LEVEL_LOW ''MADTIMSICNumIDs'') @
                pass_or (63 \<le> guests \<and> guests \<le> 2047) (Failed LOG_LEVEL_LOW ''MADTIMSICNumGuestIDs'') @
                pass_or (guest_bits \<le> 7) (Failed LOG_LEVEL_LOW ''MADTIMSICGuestIndexBits'') @
                pass_or (hart_bits \<le> 15) (Failed LOG_LEVEL_LOW ''MADTIMSICHartIndexBits'') @
                pass_or (group_bits \<le> 7) (Failed LOG_LEVEL_LOW ''MADTIMSICGroupIndexBits'') @
                pass_or (shift \<le> 55) (Failed LOG_LEVEL_LOW ''MADTIMSICGroupIndexShift'')) }"

definition madt_aplic :: madt_handler where
  "madt_aplic m off hlen =
     do { ver \<leftarrow> get (mtable m) off fwts_acpi_madt_aplic ''version'';
          fl \<leftarrow> get (mtable m) off fwts_acpi_madt_aplic ''flags'';
          sources \<leftarrow> get (mtable m) off fwts_acpi_madt_aplic ''num_sources'';
          addr \<leftarrow> get (mtable m) off fwts_acpi_madt_aplic ''addr'';
          Some (pass_or (ver = 1) (Failed LOG_LEVEL_LOW ''MADTAPLICVersion'') @
                pass_or (fl = 0) (Failed LOG_LEVEL_LOW ''MADTAPLICFlags'') @
                pass_or (1 \<le> sources \<and> sources \<le> 1023) (Failed LOG_LEVEL_MEDIUM ''MADTAPLICNumSources'') @
                pass_or (addr \<noteq> 0) (Failed LOG_LEVEL_MEDIUM ''MADTAPLICADDR'')) }"

definition madt_plic :: madt_handler where
  "madt_plic m off hlen =
     do { ver \<leftarrow> get (mtable m) off fwts_acpi_madt_plic ''version'';
          irqs \<leftarrow> get (mtable m) off fwts_acpi_madt_plic ''num_irqs'';
          fl \<leftarrow> get (mtable m) off fwts_acpi_madt_plic ''flags'';
          base \<leftarrow> get (mtable m) off fwts_acpi_madt_plic ''base_addr'';
          Some (pass_or (ver = 1) (Failed LOG_LEVEL_LOW ''MADTPLICVersion'') @
                pass_or (1 \<le> irqs \<and> irqs \<le> 1023) (Failed LOG_LEVEL_MEDIUM ''MADTPLICNumIrqs'') @
                pass_or (fl = 0) (Failed LOG_LEVEL_LOW ''MADTPLICFlags'') @
                pass_or (base \<noteq> 0) (Failed LOG_LEVEL_MEDIUM ''MADTPLICADDR'')) }"

section \<open>The loop over the subtables\<close>

definition FWTS_MADT_LOCAL_SAPIC :: nat where "FWTS_MADT_LOCAL_SAPIC = 7"
definition FWTS_MADT_RESERVED :: nat where "FWTS_MADT_RESERVED = 28"
definition FWTS_MADT_OEM :: nat where "FWTS_MADT_OEM = 29"

definition keep :: "madt \<Rightarrow> report list option \<Rightarrow> (report list \<times> madt) option" where
  "keep m r = map_option (\<lambda>rs. (rs, m)) r"

text \<open>The type that the switch uses, and the length expected of a subtable.\<close>

definition subtable_type :: "nat \<Rightarrow> nat" where
  "subtable_type ty = (if ty < NUM_SUBTABLE_TYPES then ty else if ty < 0x80 then FWTS_MADT_RESERVED else FWTS_MADT_OEM)"

definition subtable_len :: "madt \<Rightarrow> nat \<Rightarrow> u64 \<Rightarrow> nat" where
  "subtable_len m ty hlen = (if ty < NUM_SUBTABLE_TYPES then lengths (spec_data m) ! ty else unat hlen)"

text \<open>The check of the length; for a Local SAPIC its struct is laid over the header of the subtable at \<open>off\<close>.\<close>

definition subtable_len_ok :: "madt \<Rightarrow> nat \<Rightarrow> nat \<Rightarrow> u64 \<Rightarrow> bool option" where
  "subtable_len_ok m off ty hlen =
     (if subtable_len m ty hlen = SUBTABLE_VARIABLE then
        (if ty = FWTS_MADT_LOCAL_SAPIC
         then do { s \<leftarrow> read_str (mtable m) (off + offsetof fwts_acpi_madt_local_sapic ''uid_string'');
                   Some (sizeof fwts_acpi_madt_local_sapic + length s + 1 = unat hlen) }
         else Some True)
      else Some (unat hlen = subtable_len m ty hlen))"

definition madt_subtable :: "nat \<Rightarrow> madt \<Rightarrow> nat \<Rightarrow> u64 \<Rightarrow> (report list \<times> madt) option" where
  "madt_subtable ty m off hlen =
     (if ty = 0x00 then keep m (madt_local_apic m off hlen)
      else if ty = 0x01 then madt_io_apic m off hlen
      else if ty = 0x02 then keep m (madt_interrupt_override m off hlen)
      else if ty = 0x03 then keep m (madt_nmi_source m off hlen)
      else if ty = 0x04 then keep m (madt_local_apic_nmi m off hlen)
      else if ty = 0x05 then madt_lapic_addr_override m off hlen
      else if ty = 0x06 then madt_io_sapic m off hlen
      else if ty = FWTS_MADT_LOCAL_SAPIC then keep m (madt_local_sapic m off hlen)
      else if ty = 0x08 then keep m (madt_platform_int_source m off hlen)
      else if ty = 0x09 then keep m (madt_local_x2apic m off hlen)
      else if ty = 0x0a then keep m (madt_local_x2apic_nmi m off hlen)
      else if ty = 0x0b then keep m (madt_gicc m off hlen)
      else if ty = 0x0c then keep m (madt_gicd m off hlen)
      else if ty = 0x0d then madt_gic_msi_frame m off hlen
      else if ty = 0x0e then keep m (madt_gicr m off hlen)
      else if ty = 0x0f then madt_gic_its m off hlen
      else if ty = 0x10 then keep m (madt_mp_wakup m off hlen)
      else if ty = 0x11 then keep m (madt_core_pic m off hlen)
      else if 0x12 \<le> ty \<and> ty \<le> 0x17 then keep m (madt_general_pic m off hlen)
      else if ty = 0x18 then keep m (madt_rintc m off hlen)
      else if ty = 0x19 then keep m (madt_imsic m off hlen)
      else if ty = 0x1a then keep m (madt_aplic m off hlen)
      else if ty = 0x1b then keep m (madt_plic m off hlen)
      else if ty = FWTS_MADT_OEM then Some ([], m)
      else Some ([Failed LOG_LEVEL_MEDIUM ''SPECMADTSubReservedID''], m))"

text \<open>
  One round of the loop at the offset of a subtable: reports, state with the numbers of I/O APICs
  and I/O SAPICs, and the distance to the next subtable, 0 to leave the loop. A handler returns the
  length less the two bytes of the header, so that the distance is the length.
\<close>

definition madt_inside :: "bytes \<Rightarrow> nat \<Rightarrow> bool" where
  "madt_inside t off \<longleftrightarrow> off + sizeof fwts_acpi_madt_sub_table_header < length t"

definition madt_body :: "nat \<Rightarrow> madt \<times> nat \<times> nat \<Rightarrow> (report list \<times> (madt \<times> nat \<times> nat) \<times> nat) option" where
  "madt_body off s =
     (case s of (m, num_ioapics, num_iosapics) \<Rightarrow>
        do { ty8 \<leftarrow> get (mtable m) off fwts_acpi_madt_sub_table_header ''type'';
             hlen \<leftarrow> get (mtable m) off fwts_acpi_madt_sub_table_header ''length'';
             let htype = unat ty8;
             let ty = subtable_type htype;
             let defined = pass_or (subtable_len m htype hlen \<noteq> 0) (Failed LOG_LEVEL_MEDIUM ''SPECMADTSubType'');
             len_rs \<leftarrow> (if madt_sbbr m then Some []
                       else do { ok \<leftarrow> subtable_len_ok m off htype hlen;
                                 Some (pass_or ok (Failed LOG_LEVEL_MEDIUM ''SPECMADTSubLen'')) });
             (rs, m') \<leftarrow> madt_subtable ty m (off + sizeof fwts_acpi_madt_sub_table_header) hlen;
             Some (defined @ len_rs @ rs,
                   (m', num_ioapics + (if ty = 1 then 1 else 0), num_iosapics + (if ty = 6 then 1 else 0)),
                   unat hlen) })"

definition madt_ioapic_sapic_compare :: "madt \<Rightarrow> nat \<Rightarrow> nat \<Rightarrow> report list" where
  "madt_ioapic_sapic_compare m num_ioapics num_iosapics =
     (if num_iosapics = 0 then []
      else let missing = concat (map (\<lambda>i. fail_if (madt_io_apics m ! i \<and> madt_io_apics m ! i \<noteq> madt_io_sapics m ! i)
                            (Failed LOG_LEVEL_MEDIUM ''MADTIOAPICSAPICCOMPARENoSAPIC '')) [0..<MAX_IO_APIC_ID])
        in pass_or (num_ioapics \<le> num_iosapics) (Failed LOG_LEVEL_MEDIUM ''MADTIOAPICSAPICCOMPARELessThan '') @
           missing @ (if missing = [] then [Passed] else []))"

definition madt_subtables :: "madt \<Rightarrow> (report list \<times> madt) option" where
  "madt_subtables m =
     do { let t = mtable m;
          let revision_rs = pass_or (num_types (spec_data m) \<noteq> 0) (Failed LOG_LEVEL_MEDIUM ''SPECMADTRevision'');
          (rs, (m, num_ioapics, num_iosapics)) \<leftarrow>
            walk (Suc (length t)) (madt_inside t) madt_body (sizeof fwts_acpi_table_madt) (m, 0, 0);
          Some (revision_rs @ rs @
                (if madt_sbbr m then [] else madt_ioapic_sapic_compare m num_ioapics num_iosapics), m) }"

section \<open>The other tests\<close>

definition madt_checksum :: "madt \<Rightarrow> report list" where
  "madt_checksum m =
     pass_or (fwts_checksum (mtable m) (length (mtable m)) = 0) (Failed LOG_LEVEL_MEDIUM ''SPECMADTChecksum'')"

definition madt_revision :: "madt \<Rightarrow> report list" where
  "madt_revision m =
     pass_or (num_types (spec_data m) \<noteq> 0) (Failed LOG_LEVEL_MEDIUM ''SPECMADTRevision'') @
     pass_or (major_version (spec_data m) = unat (fadt_major m) \<and> minor_version (spec_data m) = unat (fadt_minor m))
       (Failed LOG_LEVEL_MEDIUM ''SPECMADTFADTRevisions'')"

definition madt_arch_revision :: "madt \<Rightarrow> report list option" where
  "madt_arch_revision m =
     do { revision \<leftarrow> madt_revision_of m;
          let minrev = (case madt_arch m of FWTS_ARCH_ARM64 \<Rightarrow> 3 | FWTS_ARCH_RISCV64 \<Rightarrow> 6 | _ \<Rightarrow> 1);
          Some (pass_or (revision \<ge> minrev) (Failed LOG_LEVEL_MEDIUM ''SPECMADTArchRevision'')) }"

definition madt_flags :: "madt \<Rightarrow> report list option" where
  "madt_flags m =
     do { fl \<leftarrow> get (mtable m) 0 fwts_acpi_table_madt ''flags'';
          Some (pass_or (fl AND 0xfffffffe = 0) (Failed LOG_LEVEL_MEDIUM ''MADTFlagsNonZero'')) }"

definition madt_tests :: "(madt \<Rightarrow> (report list \<times> madt) option) list" where
  "madt_tests = [\<lambda>m. Some (madt_checksum m, m), \<lambda>m. Some (madt_revision m, m), \<lambda>m. keep m (madt_arch_revision m),
     \<lambda>m. keep m (madt_flags m), madt_subtables]"

section \<open>Initialisation and clean up\<close>

text \<open>
  madt_init() for the state of the table cache, the statics that the file keeps, the result of
  fwts_acpica_init() and the objects the two walks visit.
\<close>

definition madt_init :: "acpi_env \<Rightarrow> fwts_framework \<Rightarrow> int \<Rightarrow> ns_object list \<Rightarrow> ns_object list \<Rightarrow>
    bool list \<Rightarrow> bool list \<Rightarrow> nat \<Rightarrow> acpi_state \<Rightarrow> ((int, madt) sum \<times> acpi_state) option" where
  "madt_init env fw acpica processors devices io_apics io_sapics laao st =
     do { (ret, info, st) \<leftarrow> fwts_acpi_find_table env fw ''APIC'' 0 st;
          if ret \<noteq> FWTS_OK then Some (Inl FWTS_ERROR, say (Err ''Cannot find ACPI MADT tables.'') st)
          else case info of None \<Rightarrow> Some (Inl FWTS_ERROR, say (Err ''Cannot read ACPI MADT tables.'') st) | Some i \<Rightarrow> do {
          (ret, info, st) \<leftarrow> fwts_acpi_find_table env fw ''FACP'' 0 st;
          if ret \<noteq> FWTS_OK then Some (Inl FWTS_ERROR, say (Err ''Cannot find ACPI FADT tables.'') st)
          else case info of None \<Rightarrow> Some (Inl FWTS_ERROR, say (Err ''Cannot read ACPI FADT tables.'') st) | Some j \<Rightarrow>
          if ti_length (tables st ! i) = 0 then Some (Inl FWTS_ERROR, say (Err ''Required ACPI MADT (APIC) table not found'') st)
          else if ti_length (tables st ! j) = 0 then Some (Inl FWTS_ERROR, say (Err ''Required ACPI FADT (FACP) table not found'') st)
          else do {
            t \<leftarrow> table_at st i;
            fadt \<leftarrow> table_at st j;
            rev8 \<leftarrow> header_field fadt ''revision'';
            let sbbr = (flags fw AND FWTS_FLAG_SBBR \<noteq> 0);
            if sbbr \<and> (ucast rev8 :: u8) < SBBR_ACPI_MAJOR_VERSION then
              Some (Inl FWTS_ERROR, say (Err (''SBBR support starts with ACPI v6.0, Current revision is outdated: '' @
                 show_nat (unat rev8) @ ''.0'')) st)
            else do {
              (major, minor, st) \<leftarrow> fwts_get_fadt_version env fw st;
              revision \<leftarrow> header_field t ''revision'';
              if acpica \<noteq> FWTS_OK then Some (Inl FWTS_ERROR, st)
              else case find_spec (unat revision) major minor of
                None \<Rightarrow> Some (Inl FWTS_ERROR, st)
              | Some spec \<Rightarrow>
                  Some (Inr \<lparr> mtable = take (ti_length (tables st ! i)) t, ftable = Some fadt, spec_data = spec,
                     fadt_major = major, fadt_minor = minor, madt_sbbr = sbbr, madt_arch = target_arch fw,
                     madt_acpi_version = acpi_version st,
                     msi_frame_ids = [], its_ids = [],
                     processor_uids = walk_namespace devices (walk_namespace processors []),
                     madt_io_apics = io_apics, madt_io_sapics = io_sapics, laao_count = laao \<rparr>, st) } } } }"

text \<open>The clean up answers an error for every framework.\<close>

definition madt_deinit :: "madt \<Rightarrow> int \<times> madt" where
  "madt_deinit m = (FWTS_ERROR, m\<lparr>msi_frame_ids := [], its_ids := [], processor_uids := []\<rparr>)"

section \<open>Reads stay inside the table\<close>

definition returns :: "'a option \<Rightarrow> bool" where
  "returns m \<longleftrightarrow> m \<noteq> None"

lemma returns_Some [intro!, simp]: "returns (Some x)"
  by (simp add: returns_def)

lemma returns_bind: "returns m \<Longrightarrow> (\<And>x. m = Some x \<Longrightarrow> returns (f x)) \<Longrightarrow> returns (m \<bind> f)"
  by (auto simp: returns_def)

lemma returns_read: "off + n \<le> length t \<Longrightarrow> returns (read_le t off n)"
  using read_le_defined [of off n t] by (auto simp: returns_def)

lemma returns_header: "f \<in> fst ` set fwts_acpi_table_header \<Longrightarrow> 36 \<le> length t \<Longrightarrow> returns (header_field t f)"
  using get_defined [of f fwts_acpi_table_header 0 t] by (auto simp: returns_def header_field_def header_size)

lemma returns_keep: "returns r \<Longrightarrow> returns (keep m r)"
  by (simp add: returns_def keep_def)

lemma returns_bytes: "off + n \<le> length t \<Longrightarrow> returns (read_bytes t off n)"
  by (simp add: returns_def read_bytes_def)

lemma returns_if: "(b \<Longrightarrow> returns m) \<Longrightarrow> (\<not> b \<Longrightarrow> returns m') \<Longrightarrow> returns (if b then m else m')"
  by simp

lemmas returns_intros = returns_bind returns_if returns_read returns_bytes

text \<open>The bytes of a subtable behind its header that its handler needs; a Local SAPIC has a string besides.\<close>

definition subtable_size :: "nat \<Rightarrow> nat" where
  "subtable_size ty =
     (if ty < 28 then
        [6, 10, 8, 6, 4, 10, 14, 15, 14, 14, 10, 38, 22, 22, 14, 18, 14, 13, 1, 1, 1, 1, 1, 1, 34, 14, 34, 34] ! ty
      else 0)"

lemma madt_size: "sizeof fwts_acpi_table_madt = 44" "sizeof fwts_acpi_madt_sub_table_header = 2"
  by (simp_all add: sizeof_def layouts nest_def)

text \<open>The tables that the handlers read besides the subtable.\<close>

definition madt_ready :: "madt \<Rightarrow> bool" where
  "madt_ready m \<longleftrightarrow> 44 \<le> length (mtable m) \<and> (\<forall>fadt. ftable m = Some fadt \<longrightarrow> 131 \<le> length fadt)"

lemma returns_revision: "madt_ready m \<Longrightarrow> returns (madt_revision_of m)"
  by (auto simp: madt_ready_def madt_revision_of_def layouts intro!: returns_header)

lemma returns_apic_flags: "madt_ready m \<Longrightarrow> returns (check_madt_apic_flags m fl)"
  by (auto simp: check_madt_apic_flags_def intro!: returns_bind returns_revision)

lemma returns_arm_flags: "131 \<le> length fadt \<Longrightarrow> returns (get fadt 0 fwts_acpi_table_fadt ''arm_boot_flags'')"
  by (simp add: get_def layouts nest_def returns_read)

lemma returns_parking: "madt_ready m \<Longrightarrow> returns (gicc_parking m v)"
  by (auto simp: gicc_parking_def madt_ready_def intro!: returns_bind returns_revision returns_arm_flags split: option.split)

lemma returns_gic_flags: "madt_ready m \<Longrightarrow> off + 2 \<le> length (mtable m) \<Longrightarrow> returns (gic_flags m off a b)"
  unfolding gic_flags_def
  by (auto intro!: returns_bind returns_revision) (auto simp: returns_def get_def read_le_def read_bytes_def layouts)

lemma returns_subtable:
  assumes "madt_ready m" and "off + subtable_size ty \<le> length (mtable m)"
    and "hlen = 80 \<Longrightarrow> off + 78 \<le> length (mtable m)" and "ty \<noteq> FWTS_MADT_LOCAL_SAPIC"
  shows "returns (madt_subtable ty m off hlen)"
proof (cases "ty < 28")
  case True
  then consider "ty = 0" | "ty = 1" | "ty = 2" | "ty = 3" | "ty = 4" | "ty = 5" | "ty = 6" | "ty = 8" | "ty = 9" | "ty = 10"
    | "ty = 11" | "ty = 12" | "ty = 13" | "ty = 14" | "ty = 15" | "ty = 16" | "ty = 17" | "0x12 \<le> ty" "ty \<le> 0x17"
    | "ty = 24" | "ty = 25" | "ty = 26" | "ty = 27"
    using assms(4) unfolding FWTS_MADT_LOCAL_SAPIC_def by atomize_elim presburger
  then show ?thesis
  proof cases
    case 18
    then have "off + 1 \<le> length (mtable m)"
    proof -
      have "ty = 18 \<or> ty = 19 \<or> ty = 20 \<or> ty = 21 \<or> ty = 22 \<or> ty = 23" using 18 by linarith
      then have "subtable_size ty = 1" by (auto simp: subtable_size_def)
      then show ?thesis using assms(2) by simp
    qed
    then show ?thesis using 18
      by (auto simp: madt_subtable_def FWTS_MADT_LOCAL_SAPIC_def madt_general_pic_def intro!: returns_keep returns_intros)
  qed (use assms in \<open>auto simp: madt_subtable_def FWTS_MADT_LOCAL_SAPIC_def subtable_size_def Let_def get_def get_bytes_def layouts
      madt_local_apic_def madt_io_apic_def madt_interrupt_override_def madt_nmi_source_def madt_local_apic_nmi_def
      madt_lapic_addr_override_def madt_io_sapic_def madt_platform_int_source_def madt_local_x2apic_def madt_local_x2apic_nmi_def
      madt_gicc_def madt_gicd_def madt_gic_msi_frame_def madt_gicr_def madt_gic_its_def madt_mp_wakup_def madt_core_pic_def
      madt_rintc_def madt_imsic_def madt_aplic_def madt_plic_def
      intro!: returns_keep returns_intros returns_revision returns_apic_flags returns_parking returns_gic_flags\<close>)
qed (simp add: madt_subtable_def FWTS_MADT_LOCAL_SAPIC_def FWTS_MADT_OEM_def)

definition madt_same :: "madt \<Rightarrow> madt \<Rightarrow> bool" where
  "madt_same m m' \<longleftrightarrow> mtable m' = mtable m \<and> ftable m' = ftable m \<and> spec_data m' = spec_data m \<and> madt_sbbr m' = madt_sbbr m \<and>
     processor_uids m' = processor_uids m \<and> madt_acpi_version m' = madt_acpi_version m"

lemma madt_subtable_same: "madt_subtable ty m off hlen = Some (rs, m') \<Longrightarrow> madt_same m m'"
  by (auto simp: madt_subtable_def keep_def madt_same_def madt_io_apic_def madt_io_sapic_def madt_lapic_addr_override_def
      madt_gic_msi_frame_def madt_gic_its_def Let_def bind_eq_Some_conv split: if_splits)

lemma read_str_returns: "off + k < length t \<Longrightarrow> t ! (off + k) = 0 \<Longrightarrow> returns (read_str t off)"
proof -
  assume k: "off + k < length t" "t ! (off + k) = 0"
  then have "drop off t ! k = 0" and "k < length (drop off t)" by auto
  then have "\<exists>b \<in> set (drop off t). \<not> b \<noteq> 0" by (metis nth_mem)
  then have "length (takeWhile (\<lambda>b. b \<noteq> 0) (drop off t)) < length (drop off t)" by (rule takeWhile_shorter)
  then show ?thesis by (simp add: read_str_def Let_def returns_def)
qed

lemma returns_local_sapic:
  assumes "madt_ready m" and "off + 14 \<le> length (mtable m)" and "returns (read_str (mtable m) (off + 14))"
  shows "returns (madt_local_sapic m off hlen)"
  using assms
  by (auto simp: madt_local_sapic_def Let_def get_def get_bytes_def offsetof_def layouts split_beta
      intro!: returns_intros returns_apic_flags)

text \<open>A subtable that is as long as its header says and as its handler needs.\<close>

definition complete_subtable :: "bytes \<Rightarrow> bool" where
  "complete_subtable s \<longleftrightarrow>
     3 \<le> length s \<and> unat (s ! 1) = length s \<and> 2 + subtable_size (unat (s ! 0)) \<le> length s \<and>
     (s ! 0 = 7 \<longrightarrow> (\<exists>k. 16 \<le> k \<and> k < length s \<and> s ! k = 0))"

lemma subtable_bytes:
  assumes "complete_subtable s" and "mtable m = pre @ s @ post" and "madt_ready m"
  shows "\<exists>rs m'. madt_body (length pre) (m, a, b) = Some (rs, (m', a + (if s ! 0 = 1 then 1 else 0), b + (if s ! 0 = 6 then 1 else 0)), length s)
    \<and> madt_same m m'"
proof -
  let ?off = "length pre"
  have s: "3 \<le> length s" "unat (s ! 1) = length s" "2 + subtable_size (unat (s ! 0)) \<le> length s"
    using assms(1) by (auto simp: complete_subtable_def)
  have s0: "0 < length s" "1 < length s" using s(1) by auto
  have len: "length (mtable m) = ?off + length s + length post" by (simp add: assms(2))
  have nth: "mtable m ! (?off + i) = s ! i" if "i < length s" for i using that by (simp add: assms(2) nth_append)
  have take1: "take 1 (drop (?off + i) (mtable m)) = [s ! i]" if "i < length s" for i
    using that nth [OF that] len by (simp add: take_Suc hd_drop_conv_nth)
  have byte: "unat (ucast (b :: u8) :: u64) = unat b" for b
    using byte_less [of b] by (simp add: unsigned_ucast_eq take_bit_nat_eq_self_iff)
  have ty: "get (mtable m) ?off fwts_acpi_madt_sub_table_header ''type'' = Some (ucast (s ! 0))"
    using take1 [OF s0(1)] s0 len by (simp add: get_def layouts read_le_def read_bytes_def)
  have hlen: "get (mtable m) ?off fwts_acpi_madt_sub_table_header ''length'' = Some (ucast (s ! 1))"
    using take1 [OF s0(2)] s0 len by (simp add: get_def layouts read_le_def read_bytes_def)
  have seven: "returns (read_str (mtable m) (?off + 16)) \<and> returns (read_str (mtable m) (?off + 14))" if "unat (s ! 0) = 7"
  proof -
    have "s ! 0 = 7" using that by (simp add: word_unat_eq_iff)
    then obtain k where k: "16 \<le> k" "k < length s" "s ! k = 0" using assms(1) by (auto simp: complete_subtable_def)
    then have "mtable m ! (?off + k) = 0" using nth by simp
    with k len show ?thesis
      using read_str_returns [of "?off + 16" "k - 16" "mtable m"] read_str_returns [of "?off + 14" "k - 14" "mtable m"] by simp
  qed
  define ty where "ty = unat (s ! 0)"
  have tyn: "unat (ucast (s ! 0) :: u64) = ty" by (simp add: byte ty_def)
  have len_ok: "returns (subtable_len_ok m ?off ty (ucast (s ! 1)))"
    using seven by (auto simp: subtable_len_ok_def FWTS_MADT_LOCAL_SAPIC_def ty_def offsetof_def fwts_acpi_madt_local_sapic_def
        intro!: returns_bind)
  have sub: "returns (madt_subtable (subtable_type ty) m (?off + 2) (ucast (s ! 1)))"
  proof (cases "ty = 7")
    case True
    then have "returns (madt_local_sapic m (?off + 2) (ucast (s ! 1)))"
      using s(3) len seven by (intro returns_local_sapic assms(3)) (auto simp: ty_def subtable_size_def add.commute)
    then show ?thesis using True
      by (simp add: subtable_type_def NUM_SUBTABLE_TYPES_def madt_subtable_def FWTS_MADT_LOCAL_SAPIC_def returns_keep)
  next
    case False
    have "subtable_size (subtable_type ty) \<le> subtable_size ty"
      by (simp add: subtable_type_def subtable_size_def NUM_SUBTABLE_TYPES_def FWTS_MADT_RESERVED_def FWTS_MADT_OEM_def)
    moreover have "length s = 80" if "(ucast (s ! 1) :: u64) = 80" using that s(2) byte [of "s ! 1"] by simp
    moreover have "subtable_type ty \<noteq> FWTS_MADT_LOCAL_SAPIC" using False
      by (simp add: subtable_type_def NUM_SUBTABLE_TYPES_def FWTS_MADT_RESERVED_def FWTS_MADT_OEM_def FWTS_MADT_LOCAL_SAPIC_def)
    ultimately show ?thesis using s(3) len by (intro returns_subtable assms(3)) (auto simp: ty_def)
  qed
  obtain rs m' where m': "madt_subtable (subtable_type ty) m (?off + 2) (ucast (s ! 1)) = Some (rs, m')"
    using sub by (auto simp: returns_def)
  obtain ok where ok: "subtable_len_ok m ?off ty (ucast (s ! 1)) = Some ok" using len_ok by (auto simp: returns_def)
  have types: "subtable_type ty = 1 \<longleftrightarrow> s ! 0 = 1" "subtable_type ty = 6 \<longleftrightarrow> s ! 0 = 6"
    by (auto simp: subtable_type_def NUM_SUBTABLE_TYPES_def FWTS_MADT_RESERVED_def FWTS_MADT_OEM_def ty_def word_unat_eq_iff)
  have "unat (ucast (s ! 1) :: u64) = length s" by (simp only: byte s(2))
  then show ?thesis using madt_subtable_same [OF m'] m' ok
    unfolding madt_body_def prod.case ty hlen bind.bind_lunit Let_def tyn types madt_size by (cases "madt_sbbr m") simp_all
qed

text \<open>What the rounds give on subtables one after the other, from an offset on: each begins where the one before it ends.\<close>

fun each_subtable :: "nat \<Rightarrow> bytes list \<Rightarrow> madt \<times> nat \<times> nat \<Rightarrow> (report list \<times> madt \<times> nat \<times> nat) option" where
  "each_subtable off [] s = Some ([], s)"
| "each_subtable off (x # xs) s =
     do { (rs, s', n) \<leftarrow> madt_body off s;
          (rs', s'') \<leftarrow> each_subtable (off + length x) xs s';
          Some (rs @ rs', s'') }"

text \<open>The loop visits the subtables of a table one after the other and ends behind the last.\<close>

lemma walk_complete:
  assumes "\<forall>s \<in> set subs. complete_subtable s" and "mtable m = pre @ concat subs" and "madt_ready m"
    and "length (concat subs) < fuel"
  shows "\<exists>rs m'. each_subtable (length pre) subs (m, a, b) =
       Some (rs, (m', a + length (filter (\<lambda>s. s ! 0 = 1) subs), b + length (filter (\<lambda>s. s ! 0 = 6) subs))) \<and>
     walk fuel (madt_inside (mtable m)) madt_body (length pre) (m, a, b) = each_subtable (length pre) subs (m, a, b) \<and>
     madt_same m m'"
  using assms
proof (induction subs arbitrary: m pre fuel a b)
  case Nil
  then obtain k where "fuel = Suc k" by (cases fuel) auto
  then show ?case using Nil by (simp add: madt_inside_def madt_same_def)
next
  case (Cons s subs)
  then obtain k where k: "fuel = Suc k" by (cases fuel) auto
  have s3: "3 \<le> length s" using Cons.prems(1) by (auto simp: complete_subtable_def)
  obtain rs m1 where b1: "madt_body (length pre) (m, a, b) =
      Some (rs, (m1, a + (if s ! 0 = 1 then 1 else 0), b + (if s ! 0 = 6 then 1 else 0)), length s)" and same: "madt_same m m1"
    using subtable_bytes [of s m pre "concat subs" a b] Cons.prems by auto
  have t1: "mtable m1 = (pre @ s) @ concat subs" using same Cons.prems(2) by (simp add: madt_same_def)
  have r1: "madt_ready m1" using same Cons.prems(3) by (simp add: madt_same_def madt_ready_def)
  have in1: "madt_inside (mtable m) (length pre)" using s3 by (simp add: madt_inside_def Cons.prems(2) madt_size)
  have mt: "mtable m1 = mtable m" using same by (simp add: madt_same_def)
  obtain rs' m2 where "each_subtable (length (pre @ s)) subs
        (m1, a + (if s ! 0 = 1 then 1 else 0), b + (if s ! 0 = 6 then 1 else 0)) =
      Some (rs', (m2, a + (if s ! 0 = 1 then 1 else 0) + length (filter (\<lambda>s. s ! 0 = 1) subs),
        b + (if s ! 0 = 6 then 1 else 0) + length (filter (\<lambda>s. s ! 0 = 6) subs)))" and "madt_same m1 m2"
    and "walk k (madt_inside (mtable m1)) madt_body (length (pre @ s))
        (m1, a + (if s ! 0 = 1 then 1 else 0), b + (if s ! 0 = 6 then 1 else 0)) =
      each_subtable (length (pre @ s)) subs (m1, a + (if s ! 0 = 1 then 1 else 0), b + (if s ! 0 = 6 then 1 else 0))"
    using Cons.IH [OF _ t1 r1, of k "a + (if s ! 0 = 1 then 1 else 0)" "b + (if s ! 0 = 6 then 1 else 0)"]
      Cons.prems(1,4) s3 by (auto simp: k)
  then show ?case using same b1 in1 s3 unfolding k mt by (auto simp: madt_same_def)
qed

section \<open>The loop over the subtables\<close>

interpretation madt_loop: subtable_walk "length t" "madt_inside t" madt_body for t
  by unfold_locales (simp add: madt_inside_def)

lemma madt_fuel:
  "length t < fuel \<Longrightarrow> walk fuel (madt_inside t) madt_body off s = walk (Suc (length t)) (madt_inside t) madt_body off s"
  by (rule madt_loop.fuel_enough) auto

lemma subtables_complete:
  assumes "\<forall>s \<in> set subs. complete_subtable s" and "mtable m = hdr @ concat subs" and "length hdr = 44" and "madt_ready m"
    and a: "a = length (filter (\<lambda>s. s ! 0 = 1) subs)" and b: "b = length (filter (\<lambda>s. s ! 0 = 6) subs)"
  shows "\<exists>rs m'. each_subtable 44 subs (m, 0, 0) = Some (rs, m', a, b) \<and> madt_same m m' \<and>
    madt_subtables m = Some (pass_or (num_types (spec_data m) \<noteq> 0) (Failed LOG_LEVEL_MEDIUM ''SPECMADTRevision'') @ rs @
      (if madt_sbbr m then [] else madt_ioapic_sapic_compare m' a b), m')"
proof -
  have "length (concat subs) < Suc (length (mtable m))" by (simp add: assms(2))
  then obtain rs m' where "each_subtable 44 subs (m, 0, 0) = Some (rs, m', a, b)" and same: "madt_same m m'"
    and "walk (Suc (length (mtable m))) (madt_inside (mtable m)) madt_body 44 (m, 0, 0) = Some (rs, m', a, b)"
    using walk_complete [OF assms(1,2,4), of "Suc (length (mtable m))" 0 0] unfolding a b assms(3) add_0 by metis
  then show ?thesis by (simp add: madt_subtables_def madt_size madt_same_def Let_def)
qed

section \<open>The length of a Local SAPIC\<close>

lemma read_str_empty: "off < length t \<Longrightarrow> t ! off = 0 \<Longrightarrow> read_str t off = Some []"
  by (cases "drop off t") (auto simp: read_str_def Let_def hd_drop_conv_nth [symmetric])

lemma le_word_small:
  assumes "unat (le_word bs :: u64) < 256 ^ k" and "k < length bs" and "length bs \<le> 8"
  shows "bs ! k = 0"
  using assms
proof (induction bs arbitrary: k)
  case (Cons b bs)
  have len: "length bs < 8" using Cons.prems(3) by simp
  have "unat (le_word bs) < 256 ^ length bs" by (rule le_word_bound)
  also have "\<dots> \<le> 256 ^ 7" using len by (intro power_increasing) auto
  finally have small: "unat (le_word bs :: u64) * 256 + 256 \<le> 2 ^ 64" by simp
  have sum: "unat (le_word (b # bs) :: u64) = unat b + 256 * unat (le_word bs :: u64)"
  proof -
    have "unat (ucast b :: u64) = unat b" using byte_less [of b] by (simp add: unsigned_ucast_eq take_bit_nat_eq_self_iff)
    then show ?thesis using small byte_less [of b] by (simp add: unat_word_ariths)
  qed
  show ?case
  proof (cases k)
    case 0
    then show ?thesis using Cons.prems(1) sum by (simp add: unat_eq_0)
  next
    case (Suc j)
    have "unat (le_word bs :: u64) < 256 ^ j" using Cons.prems(1) sum unfolding Suc by simp
    then show ?thesis using Cons.IH [of j] Cons.prems(2) len by (simp add: Suc)
  qed
qed simp

lemma read_small:
  assumes "read_le t off n = Some v" and "unat v < 256 ^ k" and "k < n" and "n \<le> 8"
  shows "off + k < length t" and "t ! (off + k) = 0"
proof -
  have v: "v = le_word (take n (drop off t))" and len: "off + n \<le> length t"
    using assms(1) by (auto simp: read_le_def read_bytes_def split: if_splits)
  show "off + k < length t" using len assms(3) by simp
  show "t ! (off + k) = 0"
    using le_word_small [of "take n (drop off t)" k] assms(2-4) len by (simp add: v)
qed

text \<open>
  The check of the length lays the struct of a Local SAPIC over the subtable from its header on, two bytes
  before its fields: it reads the string where the upper half of the UID value is.
\<close>

lemma local_sapic_lengths:
  assumes "madt_body off (m, a, b) = Some (rs, s', n)"
    and "get (mtable m) off fwts_acpi_madt_sub_table_header ''type'' = Some 7"
    and "get (mtable m) (off + 2) fwts_acpi_madt_local_sapic ''uid_value'' = Some v" and "unat v < 2 ^ 16"
    and "lengths (spec_data m) ! 7 = SUBTABLE_VARIABLE" and "\<not> madt_sbbr m"
  shows "Failed LOG_LEVEL_MEDIUM ''SPECMADTSubLen'' \<in> set rs \<or> Failed LOG_LEVEL_MEDIUM ''MADTLSAPICLength'' \<in> set rs"
proof -
  have "read_le (mtable m) (off + 12) 4 = Some v" using assms(3) by (simp add: get_def layouts add.commute)
  then have str: "read_str (mtable m) (off + 14) = Some []"
    using read_small [of "mtable m" "off + 12" 4 v 2] assms(4) by (intro read_str_empty) (simp_all add: add.commute)
  obtain hlen where hlen: "get (mtable m) off fwts_acpi_madt_sub_table_header ''length'' = Some hlen"
    using assms(1,2) by (auto simp: madt_body_def bind_eq_Some_conv)
  have seven: "unat (7 :: u64) = 7" by simp
  have ok: "subtable_len_ok m off 7 hlen = Some (unat hlen = 15)"
    by (simp add: subtable_len_ok_def subtable_len_def NUM_SUBTABLE_TYPES_def assms(5) FWTS_MADT_LOCAL_SAPIC_def offsetof_def
        str layouts sizeof_def nest_def eq_commute)
  obtain rs' pre where rs': "madt_local_sapic m (off + 2) hlen = Some rs'"
    and rs: "rs = pre @ pass_or (unat hlen = 15) (Failed LOG_LEVEL_MEDIUM ''SPECMADTSubLen'') @ rs'"
    using assms(1)
    by (cases "madt_local_sapic m (off + 2) hlen")
      (auto simp: madt_body_def assms(2,6) hlen seven Let_def ok subtable_type_def NUM_SUBTABLE_TYPES_def madt_size
        madt_subtable_def FWTS_MADT_LOCAL_SAPIC_def keep_def)
  obtain uid where uid: "read_str (mtable m) (off + 2 + 14) = Some uid"
    using rs' by (cases "read_str (mtable m) (off + 2 + 14)") (simp_all add: madt_local_sapic_def Let_def offsetof_def layouts)
  have "\<exists>suf. rs' = pass_or (unat hlen = length uid + 16) (Failed LOG_LEVEL_MEDIUM ''MADTLSAPICLength'') @ suf"
    using rs' uid unfolding madt_local_sapic_def
    by (auto simp: bind_eq_Some_conv Let_def split_beta offsetof_def layouts split: if_splits)
  with rs show ?thesis by (cases "unat hlen = 15") (auto simp: pass_or_def)
qed

end
