(* ===== verification/Fwts_Log_Text.thy ===== *)
theory Fwts_Log_Text
  imports Fwts_Run
begin

text \<open>
  The log back ends that write text as they go: plain text (fwts_log_plaintext.c), xml (fwts_log_xml.c)
  and html (fwts_log_html.c). A back end is what it does with each call of the log front end
  (log_event); its state is the line number of the file, the stack of open sections and what it has
  written so far. None is the end of the process (exit()) or an access outside a buffer.
\<close>

unbundle bit_operations_syntax

section \<open>Plain text\<close>

record text_log =
  pl_line :: u32
  pl_ticks :: nat
  pl_out :: cstr

definition text_log_init :: text_log where
  "text_log_init = \<lparr>pl_line = 0, pl_ticks = 0, pl_out = []\<rparr>"

text \<open>
  fwts_log_header_plaintext(): a keyword after a percent sign is replaced; the tests for the keywords
  follow each other without an else, so that keywords may stand side by side after one percent sign.
  The pieces are what each snprintf() would write.
\<close>

definition header_fields :: "u32 \<Rightarrow> cstr \<times> cstr \<Rightarrow> u32 \<Rightarrow> u32 \<Rightarrow> cstr option \<Rightarrow> (cstr \<times> cstr) list" where
  "header_fields line now field level owner =
     [(''line'', (let s = show_nat (unat line) in replicate (5 - length s) CHR ''0'' @ s)),
      (''date'', fst now),
      (''time'', snd now),
      (''field'', fwts_log_field_to_str field),
      (''level'', take 1 (fwts_log_level_to_str level))] @
     (case owner of None \<Rightarrow> []
      | Some s \<Rightarrow> [(''owner'', (let s = take 15 s in s @ replicate (15 - length s) CHR '' ''))])"

fun replace_fields :: "(cstr \<times> cstr) list \<Rightarrow> cstr \<Rightarrow> cstr list \<times> cstr" where
  "replace_fields [] ptr = ([], ptr)"
| "replace_fields ((name, s) # fs) ptr =
     (if is_prefix name ptr
      then (let (ps, ptr) = replace_fields fs (drop (length name) ptr) in (s # ps, ptr))
      else replace_fields fs ptr)"

lemma replace_fields_shorter: "length (snd (replace_fields fs ptr)) \<le> length ptr"
proof (induction fs ptr rule: replace_fields.induct)
  case (2 name s fs ptr)
  then show ?case by (cases "is_prefix name ptr") (auto simp: Let_def split_beta intro: le_trans [OF _ diff_le_self])
qed simp

function header_pieces :: "(cstr \<times> cstr) list \<Rightarrow> cstr \<Rightarrow> cstr list" where
  "header_pieces fs [] = []"
| "header_pieces fs (c # cs) =
     (if c = CHR ''%'' then fst (replace_fields fs cs) @ header_pieces fs (snd (replace_fields fs cs))
      else [c] # header_pieces fs cs)"
  by pat_completeness auto

termination
  by (relation "measure (length \<circ> snd)") (auto simp: replace_fields_shorter le_imp_less_Suc)

text \<open>
  Writing the pieces into a buffer of len bytes: the length is the one the whole text would have, as
  snprintf() gives it, and a piece that starts behind the end of the buffer is written there, because
  the room left is negative.
\<close>

fun header_length :: "nat \<Rightarrow> cstr list \<Rightarrow> nat \<Rightarrow> nat option" where
  "header_length len [] n = Some n"
| "header_length len (p # ps) n = (if len < n then None else header_length len ps (n + length p))"

definition fwts_log_header_plaintext ::
    "log_globals \<Rightarrow> (nat \<Rightarrow> cstr \<times> cstr) \<Rightarrow> cstr option \<Rightarrow> u32 \<Rightarrow> u32 \<Rightarrow> nat \<Rightarrow> text_log \<Rightarrow> (cstr \<times> nat \<times> text_log) option" where
  "fwts_log_header_plaintext g clock owner field level len pl =
     (let ps = header_pieces (header_fields (pl_line pl) (clock (pl_ticks pl)) field level owner) (log_format g)
      in map_option (\<lambda>n. (take (len - 1) (concat ps), n, pl\<lparr>pl_ticks := pl_ticks pl + 1\<rparr>)) (header_length len ps 0))"

text \<open>A string written to the start of a buffer, with its end mark.\<close>

definition overwrite :: "cstr \<Rightarrow> cstr \<Rightarrow> cstr" where
  "overwrite buf s = s @ [CHR 0x00] @ drop (length s + 1) buf"

definition TMPBUF :: nat where "TMPBUF = 8192"

text \<open>The lines of a message, each behind a new header of which as many bytes are written as the first had.\<close>

fun print_lines ::
    "log_globals \<Rightarrow> (nat \<Rightarrow> cstr \<times> cstr) \<Rightarrow> cstr option \<Rightarrow> u32 \<Rightarrow> u32 \<Rightarrow> nat \<Rightarrow> cstr list \<Rightarrow> cstr \<Rightarrow> text_log \<Rightarrow> text_log option" where
  "print_lines g clock owner field level header_len [] tmp pl = Some pl"
| "print_lines g clock owner field level header_len (l # ls) tmp pl =
     (case (if field AND LOG_NO_FIELDS \<noteq> 0 then Some ([], tmp, pl)
            else case fwts_log_header_plaintext g clock owner field level TMPBUF pl of
              None \<Rightarrow> None
            | Some (h, n, pl) \<Rightarrow>
                (let tmp = overwrite tmp h in
                 if header_len \<le> TMPBUF then Some (take header_len tmp, tmp, pl) else None)) of
        None \<Rightarrow> None
      | Some (h, tmp, pl) \<Rightarrow>
          print_lines g clock owner field level header_len ls tmp
            (pl\<lparr>pl_out := pl_out pl @ h @ l @ [NL], pl_line := pl_line pl + 1\<rparr>))"

definition fwts_log_print_plaintext ::
    "log_globals \<Rightarrow> (nat \<Rightarrow> cstr \<times> cstr) \<Rightarrow> int \<Rightarrow> cstr option \<Rightarrow> u32 \<Rightarrow> u32 \<Rightarrow> cstr \<Rightarrow> cstr \<Rightarrow> text_log \<Rightarrow> text_log option" where
  "fwts_log_print_plaintext g clock line_width owner field level prefix buffer pl =
     (if (field AND LOG_FIELD_MASK) AND log_filter g = 0 then Some pl
      else case fwts_log_header_plaintext g clock owner field level TMPBUF pl of
        None \<Rightarrow> None
      | Some (h, n, pl) \<Rightarrow>
          if TMPBUF \<le> n then None
          else (let text = take (TMPBUF - 1 - n) (prefix @ buffer);
                    ls = (if field AND LOG_VERBATUM \<noteq> 0 then fwts_list_from_text text
                          else fwts_format_text text (word_of_int (line_width - int n)))
                in print_lines g clock owner field level n ls (overwrite (replicate TMPBUF CHR 0x00) (h @ text)) pl))"

text \<open>The underline: the rest of the line behind the header is filled, also when that rest is negative; no buffer can be had for a
  negative width.\<close>

definition fwts_log_underline_plaintext ::
    "log_globals \<Rightarrow> (nat \<Rightarrow> cstr \<times> cstr) \<Rightarrow> int \<Rightarrow> cstr option \<Rightarrow> char \<Rightarrow> text_log \<Rightarrow> text_log option" where
  "fwts_log_underline_plaintext g clock line_width owner ch pl =
     (if (LOG_SEPARATOR AND LOG_FIELD_MASK) AND log_filter g = 0 \<or> line_width < -1 then Some pl
      else let width = nat (line_width + 1) in
        case fwts_log_header_plaintext g clock owner LOG_SEPARATOR LOG_LEVEL_NONE width pl of
          None \<Rightarrow> None
        | Some (h, n, pl) \<Rightarrow>
            if width < n \<or> width = 0 then None
            else Some (pl\<lparr>pl_out := pl_out pl @ take (width - 1) (h @ replicate (width - n) ch) @ [NL], pl_line := pl_line pl + 1\<rparr>))"

definition fwts_log_newline_plaintext :: "text_log \<Rightarrow> text_log" where
  "fwts_log_newline_plaintext pl = pl\<lparr>pl_out := pl_out pl @ [NL], pl_line := pl_line pl + 1\<rparr>"

definition text_event :: "log_globals \<Rightarrow> (nat \<Rightarrow> cstr \<times> cstr) \<Rightarrow> int \<Rightarrow> cstr option \<Rightarrow> log_event \<Rightarrow> text_log \<Rightarrow> text_log option" where
  "text_event g clock line_width owner ev pl =
     (case ev of
        EvPrint field level status label prefix buffer \<Rightarrow>
          fwts_log_print_plaintext g clock line_width owner field level prefix buffer pl
      | EvUnderline ch \<Rightarrow> fwts_log_underline_plaintext g clock line_width owner ch pl
      | EvNewline \<Rightarrow> Some (fwts_log_newline_plaintext pl)
      | _ \<Rightarrow> Some pl)"

fun events :: "(log_event \<Rightarrow> 's \<Rightarrow> 's option) \<Rightarrow> log_event list \<Rightarrow> 's \<Rightarrow> 's option" where
  "events step [] s = Some s"
| "events step (ev # evs) s = (case step ev s of None \<Rightarrow> None | Some s \<Rightarrow> events step evs s)"

section \<open>Xml\<close>

definition MAX_XML_STACK :: nat where "MAX_XML_STACK = 64"
definition XML_INDENT :: nat where "XML_INDENT = 4"

text \<open>The stack of names, the innermost first, so that its length is xml_stack_index.\<close>

record xml_log =
  xl_stack :: "cstr list"
  xl_line :: u32
  xl_ticks :: nat
  xl_out :: cstr

definition xml_log_init :: xml_log where
  "xml_log_init = \<lparr>xl_stack = [], xl_line = 0, xl_ticks = 0, xl_out = []\<rparr>"

definition xml_line :: "nat \<Rightarrow> cstr \<Rightarrow> cstr" where
  "xml_line depth s = replicate (depth * XML_INDENT) CHR '' '' @ s @ [NL]"

definition xml_element :: "nat \<Rightarrow> cstr \<Rightarrow> cstr \<Rightarrow> cstr" where
  "xml_element depth name s = xml_line depth (''<'' @ name @ ''>'' @ s @ ''</'' @ name @ ''>'')"

definition fwts_log_print_xml ::
    "log_globals \<Rightarrow> (nat \<Rightarrow> cstr \<times> cstr) \<Rightarrow> u32 \<Rightarrow> u32 \<Rightarrow> cstr \<Rightarrow> cstr option \<Rightarrow> cstr \<Rightarrow> xml_log \<Rightarrow> xml_log" where
  "fwts_log_print_xml g clock field level status label buffer xl =
     (if (field AND LOG_FIELD_MASK) AND log_filter g = 0 then xl
      else if field AND (LOG_NEWLINE OR LOG_SEPARATOR OR LOG_DEBUG) \<noteq> 0 then xl
      else
        (let (date, time) = clock (xl_ticks xl);
             d = length (xl_stack xl);
             str = fwts_log_level_to_str level
         in xl\<lparr>xl_ticks := xl_ticks xl + 1, xl_line := xl_line xl + 1,
               xl_out := xl_out xl @
                 xml_line d ''<logentry>'' @
                 xml_element (d + 1) ''line_num'' (show_nat (unat (xl_line xl))) @
                 xml_element (d + 1) ''date'' date @
                 xml_element (d + 1) ''time'' time @
                 xml_element (d + 1) ''field_type'' (fwts_log_field_to_str_full field) @
                 xml_element (d + 1) ''level'' (if str = '' '' then ''None'' else str) @
                 xml_element (d + 1) ''status'' (if status \<noteq> [] then status else ''None'') @
                 xml_element (d + 1) ''failure_label''
                   (case label of Some l \<Rightarrow> if l \<noteq> [] then l else ''None'' | None \<Rightarrow> ''None'') @
                 xml_element (d + 1) ''log_text'' buffer @
                 xml_line d ''</logentry>''\<rparr>))"

definition fwts_log_section_begin_xml :: "cstr \<Rightarrow> xml_log \<Rightarrow> xml_log option" where
  "fwts_log_section_begin_xml name xl =
     (let out = xl_out xl @ xml_line (length (xl_stack xl)) (''<'' @ name @ ''>'') in
      if length (xl_stack xl) < MAX_XML_STACK
      then Some (xl\<lparr>xl_out := out, xl_stack := name # xl_stack xl\<rparr>) else None)"

definition fwts_log_section_end_xml :: "xml_log \<Rightarrow> xml_log option" where
  "fwts_log_section_end_xml xl =
     (case xl_stack xl of
        [] \<Rightarrow> None
      | name # st \<Rightarrow> Some (xl\<lparr>xl_stack := st, xl_out := xl_out xl @ xml_line (length st) (''</'' @ name @ ''>'')\<rparr>))"

definition xml_header :: cstr where
  "xml_header = ''<?xml version='' @ [CHR 0x22] @ ''1.0'' @ [CHR 0x22] @ '' encoding='' @ [CHR 0x22] @ ''UTF-8'' @ [CHR 0x22] @
     '' ?>'' @ [NL]"

definition fwts_log_open_xml :: "xml_log \<Rightarrow> xml_log option" where
  "fwts_log_open_xml xl = fwts_log_section_begin_xml ''fwts'' (xl\<lparr>xl_out := xl_out xl @ xml_header\<rparr>)"

definition fwts_log_close_xml :: "xml_log \<Rightarrow> xml_log option" where
  "fwts_log_close_xml xl =
     map_option (\<lambda>xl. xl\<lparr>xl_out := xl_out xl @ [NL], xl_line := xl_line xl + 1\<rparr>) (fwts_log_section_end_xml xl)"

definition xml_event :: "log_globals \<Rightarrow> (nat \<Rightarrow> cstr \<times> cstr) \<Rightarrow> log_event \<Rightarrow> xml_log \<Rightarrow> xml_log option" where
  "xml_event g clock ev xl =
     (case ev of
        EvPrint field level status label prefix buffer \<Rightarrow> Some (fwts_log_print_xml g clock field level status label buffer xl)
      | EvUnderline ch \<Rightarrow> Some xl
      | EvNewline \<Rightarrow> Some xl
      | EvBegin name \<Rightarrow> fwts_log_section_begin_xml name xl
      | EvEnd \<Rightarrow> fwts_log_section_end_xml xl
      | EvOpen \<Rightarrow> fwts_log_open_xml xl
      | EvClose \<Rightarrow> fwts_log_close_xml xl)"

section \<open>Html\<close>

definition MAX_HTML_STACK :: nat where "MAX_HTML_STACK = 64"
definition HTML_INDENT :: nat where "HTML_INDENT = 2"

text \<open>
  The table of characters. Its characters are unsigned, but the character looked up is a plain char,
  which is signed in the build for x86, so that no entry from 128 on is ever found.
\<close>

definition QUOT :: char where "QUOT = CHR 0x22"

definition fwts_log_html_ascii_table :: "(int \<times> cstr) list" where
  "fwts_log_html_ascii_table =
     [(0x22, ''&quot;''), (0x26, ''&amp;''), (0x3c, ''&lt;''), (0x3e, ''&gt;''), (0x7b, ''&#123;''), (0x7c, ''&#124;''),
      (0x7d, ''&#125;''), (0x7e, ''&#126;''),
      (160, ''&nbsp;''), (161, ''&iexl;''), (162, ''&cent;''), (163, ''&pound;''), (164, ''&curren;''), (165, ''&yen;''),
      (166, ''&brvbar;''), (167, ''&sect;''), (168, ''&uml;''), (169, ''&copy;''), (170, ''&ordf;''), (171, ''&laquo;''),
      (172, ''&not;''), (173, ''&shy;''), (174, ''&reg;''), (175, ''&macr;''),
      (176, ''&deg;''), (177, ''&plusmn;''), (178, ''&sup2;''), (179, ''&sup3;''), (180, ''&acute;''), (181, ''&micro;''),
      (182, ''&para;''), (183, ''&middot;''), (184, ''&cedil;''), (185, ''&sup1;''), (186, ''&ordm;''), (187, ''&raquo;''),
      (187, ''&frac14;''), (189, ''&frac12;''), (190, ''&frac34;''), (191, ''&iquest;''),
      (192, ''&Agrave;''), (193, ''&Aacute;''), (194, ''&Acirc;''), (195, ''&Atilde;''), (196, ''&Auml;''), (197, ''&Aring;''),
      (198, ''&AElig;''), (199, ''&Ccedil;''), (200, ''&Egrave;''), (201, ''&Eacute;''), (202, ''&Ecirc;''), (203, ''&Euml;''),
      (204, ''&lgrave;''), (205, ''&lacute;''), (206, ''&lcirc;''), (207, ''&luml;''),
      (208, ''&ETH;''), (209, ''&Ntilde;''), (210, ''&Ograve;''), (211, ''&Oacute;''), (212, ''&Ocirc;''), (213, ''&Otilde;''),
      (214, ''&Ouml;''), (215, ''&times;''), (216, ''&Oslash;''), (217, ''&Ugrave;''), (218, ''&Uacute;''), (219, ''&Ucirc;''),
      (220, ''&Uuml;''), (221, ''&Yacute;''), (222, ''&THORN;''), (223, ''&szlig;''),
      (224, ''&agrave;''), (225, ''&aacute;''), (226, ''&acirc;''), (227, ''&atilde;''), (228, ''&auml;''), (229, ''&aring;''),
      (230, ''&aelig;''), (231, ''&ccedil;''), (232, ''&egrave;''), (233, ''&eacute;''), (234, ''&ecirc;''), (235, ''&emuml;''),
      (236, ''&igrave;''), (237, ''&iacute;''), (238, ''&icirc;''), (239, ''&iuml;''),
      (240, ''&eth;''), (241, ''&ntilde;''), (242, ''&ograve;''), (243, ''&oacute;''), (244, ''&ocirc;''), (245, ''&otilde;''),
      (246, ''&ouml;''), (247, ''&divide;''), (248, ''&oslash;''), (249, ''&ugrave;''), (250, ''&uacute;''), (251, ''&ucirc;''),
      (252, ''&uuml;''), (253, ''&yacute;''), (254, ''&thorn;''), (255, ''&yuml;'')]"

definition char_value :: "char \<Rightarrow> int" where
  "char_value c = (if (of_char c :: int) < 128 then of_char c else of_char c - 256)"

definition fwts_log_html_convert_ascii :: "char \<Rightarrow> cstr" where
  "fwts_log_html_convert_ascii c = (case map_of fwts_log_html_ascii_table (char_value c) of Some s \<Rightarrow> s | None \<Rightarrow> [c])"

definition fwts_log_html_convert_ascii_str :: "cstr \<Rightarrow> cstr" where
  "fwts_log_html_convert_ascii_str buffer = concat (map fwts_log_html_convert_ascii buffer)"

record html_log =
  hl_stack :: "cstr list"
  hl_line :: u32
  hl_out :: cstr

definition html_log_init :: html_log where
  "html_log_init = \<lparr>hl_stack = [], hl_line = 0, hl_out = []\<rparr>"

definition fwts_log_html :: "cstr \<Rightarrow> html_log \<Rightarrow> html_log" where
  "fwts_log_html s hl = hl\<lparr>hl_out := hl_out hl @ replicate (length (hl_stack hl) * HTML_INDENT) CHR '' '' @ s\<rparr>"

text \<open>The cells of a row: what each kind of message is printed as; the code around a verbatim text is not used for all.\<close>

definition html_cells :: "u32 \<Rightarrow> u32 \<Rightarrow> cstr \<Rightarrow> cstr \<Rightarrow> cstr list" where
  "html_cells field level status text =
     (let f = field AND LOG_FIELD_MASK;
          verbatim = (field AND LOG_VERBATUM \<noteq> 0);
          code = (if verbatim then ''<PRE class=style_code>'' else []) @ text @ (if verbatim then ''</PRE>'' else [])
      in if f = LOG_ERROR then [''  <TD class=style_error>Error</TD><TD COLSPAN=2>'' @ text @ ''</TD>'' @ [NL]]
         else if f = LOG_WARNING
         then [''  <TD class=style_error>Warning</TD><TD COLSPAN=2 class=style_advice_info>'' @ code @ ''</TD>'' @ [NL]]
         else if f = LOG_HEADING then [''<TD COLSPAN=2 class=style_heading>'' @ code @ ''</TD>'' @ [NL]]
         else if f = LOG_INFO then [''  <TD></TD><TD COLSPAN=2 class=style_infos>'' @ code @ ''</TD>'' @ [NL]]
         else if f = LOG_PASSED then [''<TD class=style_passed>PASSED</TD><TD>'' @ text @ ''</TD>'' @ [NL]]
         else if f = LOG_FAILED then
           (let style = (if level = LOG_LEVEL_CRITICAL then '' class=style_critical''
                         else if level = LOG_LEVEL_HIGH then '' class=style_high''
                         else if level = LOG_LEVEL_MEDIUM then '' class=style_medium''
                         else if level = LOG_LEVEL_LOW then '' class=style_low'' else [])
            in [''  <TD'' @ style @ ''>'' @ status @ '' ['' @ fwts_log_level_to_str level @ '']</TD>'' @ [NL],
                ''  <TD>'' @ text @ ''</TD>'' @ [NL]])
         else if f = LOG_SKIPPED then [''<TD class=style_skipped>Skipped</TD><TD>'' @ code @ ''</TD>'' @ [NL]]
         else if f = LOG_SUMMARY then [''  <TD></TD><TD COLSPAN=2 class=style_summary>'' @ code @ ''</TD>'' @ [NL]]
         else if f = LOG_ADVICE
         then [''  <TD class=style_advice>Advice</TD><TD COLSPAN=2 class=style_advice_info>'' @ code @ ''</TD>'' @ [NL]]
         else [])"

definition fwts_log_print_html :: "log_globals \<Rightarrow> u32 \<Rightarrow> u32 \<Rightarrow> cstr \<Rightarrow> cstr \<Rightarrow> html_log \<Rightarrow> html_log" where
  "fwts_log_print_html g field level status buffer hl =
     (if (field AND LOG_FIELD_MASK) AND log_filter g = 0 then hl
      else if field AND (LOG_NEWLINE OR LOG_SEPARATOR OR LOG_DEBUG) \<noteq> 0 then hl
      else
        (let hl = fwts_log_html (''<TR>'' @ [NL]) hl;
             hl = fold fwts_log_html (html_cells field level status (fwts_log_html_convert_ascii_str buffer)) hl;
             hl = fwts_log_html (''</TR>'' @ [NL]) hl
         in hl\<lparr>hl_line := hl_line hl + 1\<rparr>))"

definition fwts_log_section_begin_html :: "cstr \<Rightarrow> html_log \<Rightarrow> html_log option" where
  "fwts_log_section_begin_html name hl =
     (let row = (\<lambda>c s. ''<TR><TD class='' @ c @ '' COLSPAN=2>'' @ s @ ''</TD></TR>'' @ [NL]);
          hl = (if name = ''summary'' then fwts_log_html (row ''style_heading'' ''Summary'') hl
                else if name = ''heading'' then fwts_log_html (row ''style_heading'' ''Firmware Test Suite'') hl
                else if name = ''subtest_info'' then fwts_log_html (row ''style_subtest'' []) hl
                else if name = ''failure'' then fwts_log_html (row ''style_heading'' []) hl
                else hl)
      in if length (hl_stack hl) < MAX_HTML_STACK then Some (hl\<lparr>hl_stack := name # hl_stack hl\<rparr>) else None)"

definition fwts_log_section_end_html :: "html_log \<Rightarrow> html_log option" where
  "fwts_log_section_end_html hl =
     (case hl_stack hl of [] \<Rightarrow> None | _ # st \<Rightarrow> Some (hl\<lparr>hl_stack := st\<rparr>))"

definition html_styles :: cstr where
  "html_styles =
     ''.style_critical { background-color: red; font-weight: bold; text-align: center; vertical-align: center  }'' @ [NL] @
     ''.style_high { background-color: orange; font-weight: bold; text-align: center; vertical-align: center  }'' @ [NL] @
     ''.style_medium { background-color: yellow; font-weight: bold; text-align: center; vertical-align: center  }'' @ [NL] @
     ''.style_low { background-color: #9acd32; font-weight: bold; text-align: center; vertical-align: center  }'' @ [NL] @
     ''.style_passed { background-color: green; font-weight: bold; text-align: center; vertical-align: center  }'' @ [NL] @
     ''.style_advice { text-align: center; vertical-align: center; font-weight: bold }'' @ [NL] @
     ''.style_advice_info { font-style: italic; font-weight: bold }'' @
     ''.style_skipped { background-color: wheat; text-align: center; vertical-align: center }'' @ [NL] @
     ''.style_heading { background-color: wheat; font-weight: bold; text-align: center }'' @ [NL] @
     ''.style_summary { font-weight: bold }'' @ [NL] @
     ''.style_error { background-color: orange; font-weight: bold; text-align: center; vertical-align: center }'' @ [NL] @
     ''.style_subtest { background-color: lightgray; }'' @ [NL] @
     ''.style_infos { max-width:90em }'' @ [NL] @
     ''.style_code { font-family: '' @ [QUOT] @ ''courier'' @ [QUOT, CHR '','', QUOT] @ ''mono'' @ [QUOT] @
     ''; font-size:0.75em; overflow:auto; width:90%; line-height:1.08em; font-stretch:extra-condensed; word-wrap:normal }'' @ [NL]"

definition html_prologue :: "cstr list" where
  "html_prologue =
     [''<HTML>'' @ [NL], ''<HEAD>'' @ [NL], ''  <TITLE>fwts log</TITLE>'' @ [NL], ''</HEAD>'' @ [NL], ''<BODY>'' @ [NL],
      ''<STYLE>'' @ [NL], html_styles, ''</STYLE>'' @ [NL], ''<TABLE WIDTH=1024>'' @ [NL], ''</TR>'' @ [NL]]"

definition fwts_log_open_html :: "html_log \<Rightarrow> html_log option" where
  "fwts_log_open_html hl = fwts_log_section_begin_html ''fwts'' (fold fwts_log_html html_prologue hl)"

definition fwts_log_close_html :: "html_log \<Rightarrow> html_log option" where
  "fwts_log_close_html hl =
     map_option (fold fwts_log_html [''</TABLE>'' @ [NL], ''</BODY>'' @ [NL], ''</HTML>'' @ [NL]]) (fwts_log_section_end_html hl)"

definition html_event :: "log_globals \<Rightarrow> log_event \<Rightarrow> html_log \<Rightarrow> html_log option" where
  "html_event g ev hl =
     (case ev of
        EvPrint field level status label prefix buffer \<Rightarrow> Some (fwts_log_print_html g field level status buffer hl)
      | EvUnderline ch \<Rightarrow> Some hl
      | EvNewline \<Rightarrow> Some hl
      | EvBegin name \<Rightarrow> fwts_log_section_begin_html name hl
      | EvEnd \<Rightarrow> fwts_log_section_end_html hl
      | EvOpen \<Rightarrow> fwts_log_open_html hl
      | EvClose \<Rightarrow> fwts_log_close_html hl)"

section \<open>Line numbers of the plain text log\<close>

abbreviation newlines :: "cstr \<Rightarrow> nat" where
  "newlines s \<equiv> length (filter (\<lambda>c. c = NL) s)"

lemma no_newlines [simp]: "NL \<notin> set s \<Longrightarrow> filter (\<lambda>c. c = NL) s = []"
  by (auto simp: filter_empty_conv)

lemma tidy_no_newline: "NL \<notin> set (format_remove_multiple_whitespaces s)"
proof (induction s rule: format_remove_multiple_whitespaces.induct)
  case (2 c cs)
  then show ?case by (auto simp: NL_def isspace_def)
qed simp

lemma dup_line_set: "set (dup_line t a b) \<subseteq> set t"
  by (auto simp: dup_line_def dest: in_set_takeD in_set_dropD)

lemma format_loop_set:
  "\<forall>l \<in> set out. set l \<subseteq> set t \<Longrightarrow> \<forall>l \<in> set (snd (format_loop t width k ls sp len out)). set l \<subseteq> set t"
proof (induction t width k ls sp len out rule: format_loop.induct)
  case (2 t width k linestart lastspace linelen out)
  then show ?case using dup_line_set by (auto simp: Let_def split: option.split)
qed simp

lemma format_text_no_newline: "l \<in> set (fwts_format_text s width) \<Longrightarrow> NL \<notin> set l"
proof -
  let ?t = "format_remove_multiple_whitespaces s"
  have "\<forall>l \<in> set (snd (format_loop ?t width (length ?t) 0 None 0 [])). set l \<subseteq> set ?t" by (rule format_loop_set) simp
  then have "l \<in> set (fwts_format_text s width) \<Longrightarrow> set l \<subseteq> set ?t"
    by (auto simp: fwts_format_text_def Let_def split_beta dest: dup_line_set [THEN subsetD])
  then show "l \<in> set (fwts_format_text s width) \<Longrightarrow> NL \<notin> set l" using tidy_no_newline by blast
qed

text \<open>A log whose format, owner and clock contain no newline.\<close>

definition one_line :: "log_globals \<Rightarrow> (nat \<Rightarrow> cstr \<times> cstr) \<Rightarrow> cstr option \<Rightarrow> bool" where
  "one_line g clock owner \<longleftrightarrow>
     NL \<notin> set (log_format g) \<and> (\<forall>n. NL \<notin> set (fst (clock n)) \<and> NL \<notin> set (snd (clock n))) \<and> (\<forall>s. owner = Some s \<longrightarrow> NL \<notin> set s)"

lemma show_nat_no_newline: "NL \<notin> set (show_nat n)"
  using show_nat_digits [of n] by (auto simp: NL_def isdigit_def)

lemma field_names_no_newline: "NL \<notin> set (fwts_log_field_to_str f)" "NL \<notin> set (fwts_log_level_to_str l)"
  by (auto simp: fwts_log_field_to_str_def fwts_log_level_to_str_def Let_def NL_def)

lemma header_fields_no_newline:
  "one_line g clock owner \<Longrightarrow> f \<in> set (header_fields line (clock n) field level owner) \<Longrightarrow> NL \<notin> set (snd f)"
  using show_nat_no_newline field_names_no_newline
  by (auto simp: one_line_def header_fields_def Let_def NL_def dest!: in_set_takeD split: option.splits)

lemma replace_fields_no_newline:
  "\<forall>f \<in> set fs. NL \<notin> set (snd f) \<Longrightarrow> NL \<notin> set (concat (fst (replace_fields fs ptr)))"
  by (induction fs ptr rule: replace_fields.induct) (auto simp: Let_def split_beta)

lemma replace_fields_rest: "set (snd (replace_fields fs ptr)) \<subseteq> set ptr"
  by (induction fs ptr rule: replace_fields.induct) (auto simp: Let_def split_beta dest: in_set_dropD)

lemma header_pieces_no_newline:
  "\<forall>f \<in> set fs. NL \<notin> set (snd f) \<Longrightarrow> NL \<notin> set ptr \<Longrightarrow> NL \<notin> set (concat (header_pieces fs ptr))"
proof (induction fs ptr rule: header_pieces.induct)
  case (2 fs c cs)
  have "NL \<notin> set (snd (replace_fields fs cs))" using replace_fields_rest [of fs cs] 2(4) by auto
  then show ?case using 2 replace_fields_no_newline [of fs cs] by auto
qed simp

lemma header_no_newline:
  assumes "one_line g clock owner" and "fwts_log_header_plaintext g clock owner field level len pl = Some (h, n, pl')"
  shows "NL \<notin> set h" and "pl_line pl' = pl_line pl" and "pl_out pl' = pl_out pl"
proof -
  have "NL \<notin> set (concat (header_pieces (header_fields (pl_line pl) (clock (pl_ticks pl)) field level owner) (log_format g)))"
    using header_fields_no_newline [OF assms(1)] assms(1)
    by (intro header_pieces_no_newline) (auto simp: one_line_def)
  then show "NL \<notin> set h" and "pl_line pl' = pl_line pl" and "pl_out pl' = pl_out pl"
    using assms(2) by (auto simp: fwts_log_header_plaintext_def Let_def dest: in_set_takeD)
qed

lemma overwrite_take: "set (take k (overwrite buf s)) \<subseteq> set s \<union> {CHR 0x00} \<union> set (take k buf)"
proof -
  let ?a = "s @ [CHR 0x00]"
  have "take k (overwrite buf s) = take k ?a @ drop (length ?a) (take k buf)"
    unfolding overwrite_def append_assoc [symmetric] take_append drop_take by simp
  then show ?thesis by (auto dest: in_set_takeD in_set_dropD)
qed

definition numbered_lines :: "text_log \<Rightarrow> bool" where
  "numbered_lines pl \<longleftrightarrow> pl_line pl = word_of_nat (newlines (pl_out pl))"

lemma print_lines_numbered:
  assumes "one_line g clock owner" and "\<forall>l \<in> set ls. NL \<notin> set l" and "NL \<notin> set (take header_len tmp)" and "numbered_lines pl"
    and "print_lines g clock owner field level header_len ls tmp pl = Some pl'"
  shows "numbered_lines pl'"
  using assms(2-5)
proof (induction ls arbitrary: tmp pl)
  case (Cons l ls)
  show ?case
  proof (cases "field AND LOG_NO_FIELDS \<noteq> 0")
    case True
    then show ?thesis
      using Cons.prems by (intro Cons.IH [of tmp "pl\<lparr>pl_out := pl_out pl @ l @ [NL], pl_line := pl_line pl + 1\<rparr>"])
        (auto simp: numbered_lines_def filter_empty_conv)
  next
    case False
    obtain h n pl1 where h: "fwts_log_header_plaintext g clock owner field level TMPBUF pl = Some (h, n, pl1)"
      using Cons.prems(4) False by (auto split: option.splits)
    note hn = header_no_newline [OF assms(1) h]
    let ?tmp = "overwrite tmp h"
    have t: "NL \<notin> set (take header_len ?tmp)"
      using overwrite_take [of header_len tmp h] hn(1) Cons.prems(2) by (auto simp: NL_def)
    then show ?thesis
      using Cons.prems h False hn(2,3)
      by (intro Cons.IH [of ?tmp "pl1\<lparr>pl_out := pl_out pl1 @ take header_len ?tmp @ l @ [NL], pl_line := pl_line pl1 + 1\<rparr>"])
        (auto simp: numbered_lines_def filter_empty_conv Let_def split: if_splits)
  qed
qed simp

lemma header_whole:
  assumes "fwts_log_header_plaintext g clock owner field level len pl = Some (h, n, pl')" and "n < len"
  shows "length h = n"
proof -
  have len: "header_length len ps k = Some n \<Longrightarrow> n = k + length (concat ps)" for ps k
    by (induction ps arbitrary: k) (fastforce split: if_splits)+
  show ?thesis using assms by (auto simp: fwts_log_header_plaintext_def Let_def dest!: len)
qed

lemma print_numbered:
  assumes "one_line g clock owner" and "numbered_lines pl"
    and "fwts_log_print_plaintext g clock line_width owner field level prefix buffer pl = Some pl'"
  shows "numbered_lines pl'"
proof (cases "(field AND LOG_FIELD_MASK) AND log_filter g = 0")
  case False
  obtain h n pl1 where h: "fwts_log_header_plaintext g clock owner field level TMPBUF pl = Some (h, n, pl1)" and n: "n < TMPBUF"
    using assms(3) False by (auto simp: fwts_log_print_plaintext_def split: option.splits if_splits)
  note hn = header_no_newline [OF assms(1) h] and len = header_whole [OF h n]
  define body where "body = take (TMPBUF - 1 - n) (prefix @ buffer)"
  define ls where "ls = (if field AND LOG_VERBATUM \<noteq> 0 then fwts_list_from_text body
    else fwts_format_text body (word_of_int (line_width - int n)))"
  have lines: "\<forall>l \<in> set ls. NL \<notin> set l"
    using format_text_no_newline list_from_text_no_newline by (auto simp: ls_def)
  have tmp: "NL \<notin> set (take n (overwrite (replicate TMPBUF CHR 0x00) (h @ body)))"
    using hn(1) by (simp add: overwrite_def len)
  have num: "numbered_lines pl1" using hn assms(2) by (simp add: numbered_lines_def)
  have "print_lines g clock owner field level n ls (overwrite (replicate TMPBUF CHR 0x00) (h @ body)) pl1 = Some pl'"
    using assms(3) False n unfolding ls_def
    by (cases "field AND LOG_VERBATUM = 0") (simp_all add: fwts_log_print_plaintext_def h Let_def body_def)
  then show ?thesis by (rule print_lines_numbered [OF assms(1) lines tmp num])
qed (use assms in \<open>simp add: fwts_log_print_plaintext_def\<close>)

lemma underline_numbered:
  assumes "one_line g clock owner" and "numbered_lines pl" and "ch \<noteq> NL"
    and "fwts_log_underline_plaintext g clock line_width owner ch pl = Some pl'"
  shows "numbered_lines pl'"
proof (cases "(LOG_SEPARATOR AND LOG_FIELD_MASK) AND log_filter g = 0 \<or> line_width < -1")
  case False
  let ?w = "nat (line_width + 1)"
  obtain h n pl1 where h: "fwts_log_header_plaintext g clock owner LOG_SEPARATOR LOG_LEVEL_NONE ?w pl = Some (h, n, pl1)"
    and pl': "pl' = pl1\<lparr>pl_out := pl_out pl1 @ take (?w - 1) (h @ replicate (?w - n) ch) @ [NL], pl_line := pl_line pl1 + 1\<rparr>"
    using assms(4) False by (auto simp: fwts_log_underline_plaintext_def Let_def split: option.splits if_splits)
  note hn = header_no_newline [OF assms(1) h]
  have "NL \<notin> set (take (?w - 1) (h @ replicate (?w - n) ch))" using hn(1) assms(3) by (auto dest: in_set_takeD)
  then show ?thesis using assms(2) hn(2,3) unfolding pl' numbered_lines_def by simp
qed (use assms in \<open>auto simp: fwts_log_underline_plaintext_def\<close>)

lemma text_events_numbered:
  assumes "one_line g clock owner" and "EvUnderline NL \<notin> set evs" and "numbered_lines pl"
    and "events (text_event g clock line_width owner) evs pl = Some pl'"
  shows "numbered_lines pl'"
  using assms(2-4)
proof (induction evs arbitrary: pl)
  case (Cons ev evs)
  obtain pl1 where ev: "text_event g clock line_width owner ev pl = Some pl1"
    and rest: "events (text_event g clock line_width owner) evs pl1 = Some pl'"
    using Cons.prems(3) by (auto split: option.splits)
  have "numbered_lines pl1"
  proof (cases ev)
    case (EvPrint field level status label prefix buffer)
    then show ?thesis using ev print_numbered [OF assms(1) Cons.prems(2)] by (simp add: text_event_def)
  next
    case (EvUnderline ch)
    then have "ch \<noteq> NL" using Cons.prems(1) by auto
    then show ?thesis using EvUnderline ev underline_numbered [OF assms(1) Cons.prems(2)] by (simp add: text_event_def)
  qed (use ev Cons.prems(2) in \<open>auto simp: text_event_def fwts_log_newline_plaintext_def numbered_lines_def\<close>)
  with Cons rest show ?case by simp
qed simp

text \<open>A header that is longer than the line makes the underline write behind its buffer.\<close>

lemma underline_overrun:
  assumes "fwts_log_header_plaintext g clock owner LOG_SEPARATOR LOG_LEVEL_NONE (nat (line_width + 1)) pl = Some (h, n, pl')"
    and "line_width + 1 < int n" and "-1 \<le> line_width" and "log_filter g AND LOG_SEPARATOR \<noteq> 0"
  shows "fwts_log_underline_plaintext g clock line_width owner ch pl = None"
  using assms by (auto simp: fwts_log_underline_plaintext_def Let_def nat_less_iff and.commute)

section \<open>The html text of a message\<close>

text \<open>Decoding of the entities that are used.\<close>

definition entities :: "(cstr \<times> char) list" where
  "entities = [(''&quot;'', CHR 0x22), (''&amp;'', CHR ''&''), (''&lt;'', CHR ''<''), (''&gt;'', CHR ''>''), (''&#123;'', CHR ''{''),
     (''&#124;'', CHR ''|''), (''&#125;'', CHR ''}''), (''&#126;'', CHR ''~'')]"

function html_decode :: "cstr \<Rightarrow> cstr" where
  "html_decode [] = []"
| "html_decode (c # cs) =
     (case find (\<lambda>(s, d). is_prefix s (c # cs)) entities of
        Some (s, d) \<Rightarrow> d # html_decode (drop (length s - 1) cs)
      | None \<Rightarrow> c # html_decode cs)"
  by pat_completeness auto

termination
  by (relation "measure length") auto

lemma int_of_char: "0 \<le> (of_char c :: int)" "(of_char c :: int) < 256"
  using pos_mod_sign [of 256 "of_char c :: int"] pos_mod_bound [of 256 "of_char c :: int"] by simp_all

lemma char_value_eq: "0 \<le> k \<Longrightarrow> k < 128 \<Longrightarrow> char_value c = k \<longleftrightarrow> c = char_of k"
proof -
  assume k: "0 \<le> k" "k < 128"
  have "char_value c = k \<longleftrightarrow> of_char c = k" using k int_of_char [of c] by (auto simp: char_value_def)
  also have "\<dots> \<longleftrightarrow> c = char_of k"
    using k by (auto simp: of_char_of)
  finally show ?thesis .
qed

lemma html_convert_cases:
  "fwts_log_html_convert_ascii c =
     (if c = CHR 0x22 then ''&quot;'' else if c = CHR ''&'' then ''&amp;'' else if c = CHR ''<'' then ''&lt;''
      else if c = CHR ''>'' then ''&gt;'' else if c = CHR ''{'' then ''&#123;'' else if c = CHR ''|'' then ''&#124;''
      else if c = CHR ''}'' then ''&#125;'' else if c = CHR ''~'' then ''&#126;'' else [c])"
proof -
  have "\<forall>k \<in> fst ` set (drop 8 fwts_log_html_ascii_table). 128 \<le> k"
    by (simp add: fwts_log_html_ascii_table_def)
  moreover have "char_value c < 128" using int_of_char [of c] by (simp add: char_value_def)
  ultimately have none: "map_of (drop 8 fwts_log_html_ascii_table) (char_value c) = None" by (force simp: map_of_eq_None_iff)
  have "map_of fwts_log_html_ascii_table (char_value c) = map_of (take 8 fwts_log_html_ascii_table) (char_value c)"
    by (subst append_take_drop_id [of 8, symmetric], subst map_of_append) (simp add: map_add_def none split: option.split)
  moreover have "char_of (0x22 :: int) = CHR 0x22" "char_of (0x26 :: int) = CHR ''&''" "char_of (0x3c :: int) = CHR ''<''"
    "char_of (0x3e :: int) = CHR ''>''" "char_of (0x7b :: int) = CHR ''{''" "char_of (0x7c :: int) = CHR ''|''"
    "char_of (0x7d :: int) = CHR ''}''" "char_of (0x7e :: int) = CHR ''~''"
    by code_simp+
  ultimately show ?thesis
    by (simp add: fwts_log_html_convert_ascii_def fwts_log_html_ascii_table_def char_value_eq)
qed

lemma html_decode_convert: "html_decode (fwts_log_html_convert_ascii c @ r) = c # html_decode r"
  by (simp add: html_convert_cases entities_def)

lemma html_decode_str: "html_decode (fwts_log_html_convert_ascii_str s) = s"
  by (induction s) (simp_all add: fwts_log_html_convert_ascii_str_def html_decode_convert)

lemma html_no_markup:
  "CHR ''<'' \<notin> set (fwts_log_html_convert_ascii_str s)" "CHR ''>'' \<notin> set (fwts_log_html_convert_ascii_str s)"
  by (auto simp: fwts_log_html_convert_ascii_str_def html_convert_cases split: if_splits)

section \<open>Nesting of tags\<close>

text \<open>
  The tags of a text, from the left, with the stack of the elements that are open: None where an end
  tag meets another element. A tag that is not finished stays on the stack as a bracket.
\<close>

function scan_tags :: "cstr list \<Rightarrow> cstr \<Rightarrow> cstr list option" where
  "scan_tags st [] = Some st"
| "scan_tags st (c # cs) =
     (if c \<noteq> CHR ''<'' then scan_tags st cs
      else let tag = takeWhile (\<lambda>c. c \<noteq> CHR ''>'') cs; rest = dropWhile (\<lambda>c. c \<noteq> CHR ''>'') cs in
        if rest = [] then Some (''<'' # st)
        else if take 1 tag = ''/''
        then (if st \<noteq> [] \<and> hd st = drop 1 tag then scan_tags (tl st) (drop 1 rest) else None)
        else if take 1 tag = ''?'' then scan_tags st (drop 1 rest)
        else scan_tags (takeWhile (\<lambda>c. c \<noteq> CHR '' '') tag # st) (drop 1 rest))"
  by pat_completeness auto

termination
  by (relation "measure (length \<circ> snd)") (auto simp: less_Suc_eq_le le_trans [OF diff_le_self length_dropWhile_le])

declare scan_tags.simps(2) [simp del]

definition nests :: "cstr \<Rightarrow> cstr list \<Rightarrow> cstr list \<Rightarrow> bool" where
  "nests s st st' \<longleftrightarrow> (\<forall>r. scan_tags st (s @ r) = scan_tags st' r)"

lemma nests_Nil [simp]: "nests [] st st"
  by (simp add: nests_def)

lemma nests_append: "nests a st st1 \<Longrightarrow> nests b st1 st2 \<Longrightarrow> nests (a @ b) st st2"
  by (simp add: nests_def)

lemma nests_scan: "nests s st st' \<Longrightarrow> scan_tags st s = Some st'"
  unfolding nests_def by (metis append_Nil2 scan_tags.simps(1))

definition tag_text :: "cstr \<Rightarrow> bool" where
  "tag_text s \<longleftrightarrow> CHR ''<'' \<notin> set s"

definition tag_name :: "cstr \<Rightarrow> bool" where
  "tag_name n \<longleftrightarrow> n \<noteq> [] \<and> CHR ''>'' \<notin> set n \<and> CHR '' '' \<notin> set n \<and> hd n \<noteq> CHR ''/'' \<and> hd n \<noteq> CHR ''?''"

lemma nests_text: "tag_text s \<Longrightarrow> nests s st st"
  unfolding nests_def tag_text_def by (induction s) (auto simp: scan_tags.simps(2))

lemma tag_parts:
  assumes "CHR ''>'' \<notin> set n"
  shows "takeWhile (\<lambda>c. c \<noteq> CHR ''>'') (n @ CHR ''>'' # r) = n" and "dropWhile (\<lambda>c. c \<noteq> CHR ''>'') (n @ CHR ''>'' # r) = CHR ''>'' # r"
  using assms by (auto simp: takeWhile_append dropWhile_append)

lemma nests_open: "tag_name n \<Longrightarrow> nests (''<'' @ n @ ''>'') st (n # st)"
proof -
  assume n: "tag_name n"
  then have name: "takeWhile (\<lambda>c. c \<noteq> CHR '' '') n = n" by (auto simp: tag_name_def takeWhile_eq_all_conv)
  have "take 1 n \<noteq> ''/''" "take 1 n \<noteq> ''?''" using n by (cases n; simp add: tag_name_def)+
  then show ?thesis using n tag_parts [of n]
    by (simp add: nests_def scan_tags.simps(2) Let_def tag_name_def name)
qed

lemma nests_close: "CHR ''>'' \<notin> set n \<Longrightarrow> nests (''</'' @ n @ ''>'') (n # st) st"
  using tag_parts [of "CHR ''/'' # n"] by (simp add: nests_def scan_tags.simps(2) Let_def)

lemma nests_line: "nests s st st' \<Longrightarrow> nests (xml_line d s) st st'"
  unfolding xml_line_def
  by (intro nests_append [of _ _ st] nests_append [of s _ st']) (auto intro: nests_text simp: tag_text_def NL_def)

lemma nests_element: "tag_name n \<Longrightarrow> tag_text s \<Longrightarrow> nests (xml_element d n s) st st"
proof -
  assume n: "tag_name n" and s: "tag_text s"
  have "nests ((''<'' @ n @ ''>'') @ s @ (''</'' @ n @ ''>'')) st st"
    using n by (intro nests_append [OF nests_open] nests_append [OF nests_text] nests_close s) (auto simp: tag_name_def)
  then show ?thesis unfolding xml_element_def by (intro nests_line) simp
qed

text \<open>A log whose texts contain no tags, and the clock's neither.\<close>

definition xml_plain :: "log_event \<Rightarrow> bool" where
  "xml_plain ev =
     (case ev of
        EvPrint field level status label prefix buffer \<Rightarrow>
          tag_text status \<and> tag_text buffer \<and> (case label of Some l \<Rightarrow> tag_text l | None \<Rightarrow> True)
      | EvBegin n \<Rightarrow> tag_name n
      | _ \<Rightarrow> True)"

definition plain_clock :: "(nat \<Rightarrow> cstr \<times> cstr) \<Rightarrow> bool" where
  "plain_clock clock \<longleftrightarrow> (\<forall>n. tag_text (fst (clock n)) \<and> tag_text (snd (clock n)))"

lemma tag_names: "tag_name ''logentry''" "tag_name ''line_num''" "tag_name ''date''" "tag_name ''time''" "tag_name ''field_type''"
  "tag_name ''level''" "tag_name ''status''" "tag_name ''failure_label''" "tag_name ''log_text''" "tag_name ''fwts''"
  by (simp_all add: tag_name_def)

lemma tag_texts: "tag_text (show_nat n)" "tag_text (fwts_log_field_to_str_full f)" "tag_text (fwts_log_level_to_str l)"
  "tag_text ''None''"
proof -
  show "tag_text (show_nat n)" using show_nat_digits [of n] by (auto simp: tag_text_def isdigit_def)
qed (auto simp: tag_text_def fwts_log_field_to_str_full_def fwts_log_level_to_str_def Let_def)

lemma print_xml_nests:
  assumes "plain_clock clock" and "xml_plain (EvPrint field level status label prefix buffer)"
    and "nests (xl_out xl) [] (xl_stack xl)"
  shows "nests (xl_out (fwts_log_print_xml g clock field level status label buffer xl)) [] (xl_stack xl)"
    and "xl_stack (fwts_log_print_xml g clock field level status label buffer xl) = xl_stack xl"
proof -
  let ?st = "xl_stack xl"
  have open_entry: "nests (xml_line d ''<logentry>'') ?st (''logentry'' # ?st)" for d
    using nests_open [OF tag_names(1), of ?st] by (intro nests_line) simp
  have close_entry: "nests (xml_line d ''</logentry>'') (''logentry'' # ?st) ?st" for d
    using nests_close [of "''logentry''" ?st] by (intro nests_line) simp
  show "nests (xl_out (fwts_log_print_xml g clock field level status label buffer xl)) [] ?st"
    using assms
    by (auto simp: fwts_log_print_xml_def Let_def split_beta plain_clock_def xml_plain_def
        intro!: nests_append [OF assms(3)] nests_append [OF open_entry] nests_append [OF nests_element] close_entry tag_names tag_texts
        split: option.splits)
  show "xl_stack (fwts_log_print_xml g clock field level status label buffer xl) = ?st"
    by (simp add: fwts_log_print_xml_def Let_def split_beta)
qed

lemma xml_events_nest:
  assumes "plain_clock clock" and "\<forall>ev \<in> set evs. \<not> opens_closes ev \<and> xml_plain ev" and "sec_run 63 d evs = Some d'"
    and "length (xl_stack xl) = Suc d" and "nests (xl_out xl) [] (xl_stack xl)" and "\<forall>n \<in> set (xl_stack xl). CHR ''>'' \<notin> set n"
  shows "\<exists>xl'. events (xml_event g clock) evs xl = Some xl' \<and> length (xl_stack xl') = Suc d' \<and>
    nests (xl_out xl') [] (xl_stack xl') \<and> (\<forall>n \<in> set (xl_stack xl'). CHR ''>'' \<notin> set n)"
  using assms(2-)
proof (induction evs arbitrary: d xl)
  case (Cons ev evs)
  show ?case
  proof (cases ev)
    case (EvPrint field level status label prefix buffer)
    then show ?thesis
      using Cons.prems print_xml_nests [OF assms(1), of field level status label prefix buffer xl g]
        Cons.IH [of d "fwts_log_print_xml g clock field level status label buffer xl"]
      by (simp add: xml_event_def)
  next
    case (EvBegin n)
    let ?xl = "xl\<lparr>xl_out := xl_out xl @ xml_line (length (xl_stack xl)) (''<'' @ n @ ''>''), xl_stack := n # xl_stack xl\<rparr>"
    have n: "tag_name n" and d: "d < 63" using Cons.prems(1,2) EvBegin by (auto simp: xml_plain_def split: if_splits)
    have "nests (xl_out ?xl) [] (xl_stack ?xl)"
      using nests_append [OF Cons.prems(4) nests_line [OF nests_open [OF n]]] by simp
    moreover have "\<forall>n \<in> set (xl_stack ?xl). CHR ''>'' \<notin> set n" using n Cons.prems(5) by (simp add: tag_name_def)
    ultimately show ?thesis
      using Cons.prems d Cons.IH [of "Suc d" ?xl] EvBegin
      by (simp add: xml_event_def fwts_log_section_begin_xml_def MAX_XML_STACK_def)
  next
    case EvEnd
    obtain e where d: "d = Suc e" using Cons.prems(2) EvEnd by (cases d) auto
    obtain n st where st: "xl_stack xl = n # st" using Cons.prems(3) by (cases "xl_stack xl") auto
    let ?xl = "xl\<lparr>xl_stack := st, xl_out := xl_out xl @ xml_line (length st) (''</'' @ n @ ''>'')\<rparr>"
    have gt: "CHR ''>'' \<notin> set n" using Cons.prems(5) st by simp
    have "nests (xl_out ?xl) [] (xl_stack ?xl)"
      using nests_append [OF Cons.prems(4) [unfolded st] nests_line [OF nests_close [OF gt]]] by simp
    then show ?thesis
      using Cons.prems Cons.IH [of e ?xl] EvEnd d st by (simp add: xml_event_def fwts_log_section_end_xml_def)
  qed (use Cons in \<open>auto simp: xml_event_def opens_closes_def\<close>)
qed simp

lemma events_append: "events step (xs @ ys) s = (case events step xs s of None \<Rightarrow> None | Some s \<Rightarrow> events step ys s)"
  by (induction xs arbitrary: s) (auto split: option.split)

lemma xml_log_nests:
  assumes "plain_clock clock" and "\<forall>ev \<in> set evs. \<not> opens_closes ev \<and> xml_plain ev" and "sec_run 63 0 evs = Some 0"
  shows "\<exists>xl. events (xml_event g clock) (EvOpen # evs @ [EvClose]) xml_log_init = Some xl \<and> scan_tags [] (xl_out xl) = Some []"
proof -
  define x0 where "x0 = xml_log_init\<lparr>xl_out := xml_header @ xml_line 0 (''<'' @ ''fwts'' @ ''>''), xl_stack := [''fwts'']\<rparr>"
  have "nests xml_header [] []"
    unfolding nests_def by (simp add: xml_header_def scan_tags.simps(2) NL_def)
  then have x0: "nests (xl_out x0) [] (xl_stack x0)" "xl_stack x0 = [''fwts'']"
    using nests_append [OF _ nests_line [OF nests_open [OF tag_names(10)]]] by (simp_all add: x0_def)
  have start: "xml_event g clock EvOpen xml_log_init = Some x0"
    by (simp add: x0_def xml_event_def fwts_log_open_xml_def fwts_log_section_begin_xml_def xml_log_init_def MAX_XML_STACK_def)
  obtain xl where xl: "events (xml_event g clock) evs x0 = Some xl" "length (xl_stack xl) = Suc 0"
      "nests (xl_out xl) [] (xl_stack xl)" "\<forall>n \<in> set (xl_stack xl). CHR ''>'' \<notin> set n"
    using xml_events_nest [OF assms, of x0 g] x0 by auto
  obtain n where n: "xl_stack xl = [n]" using xl(2) by (cases "xl_stack xl") auto
  define s where "s = xl_out xl @ xml_line 0 (''</'' @ n @ ''>'') @ [NL]"
  have "CHR ''>'' \<notin> set n" using xl(4) n by simp
  then have "nests s [] []"
    unfolding s_def using nests_append [OF xl(3) [unfolded n] nests_append [OF nests_line [OF nests_close] nests_text]]
    by (simp add: tag_text_def NL_def)
  moreover have "\<exists>xl'. xml_event g clock EvClose xl = Some xl' \<and> xl_out xl' = s"
    by (simp add: xml_event_def fwts_log_close_xml_def fwts_log_section_end_xml_def n s_def)
  ultimately show ?thesis using nests_scan start xl(1) by (fastforce simp: events_append)
qed

section \<open>The html document\<close>

lemma scan_stuck: "scan_tags st a = None \<Longrightarrow> scan_tags st (a @ b) = None"
proof (induction st a rule: scan_tags.induct)
  case (2 st c cs)
  show ?case
  proof (cases "c = CHR ''<''")
    case True
    then have rest: "dropWhile (\<lambda>c. c \<noteq> CHR ''>'') cs \<noteq> []" using 2(5) by (auto simp: scan_tags.simps(2) Let_def split: if_splits)
    then have "\<exists>x \<in> set cs. \<not> x \<noteq> CHR ''>''" by (simp add: dropWhile_eq_Nil_conv)
    then have "takeWhile (\<lambda>c. c \<noteq> CHR ''>'') (cs @ b) = takeWhile (\<lambda>c. c \<noteq> CHR ''>'') cs"
      "dropWhile (\<lambda>c. c \<noteq> CHR ''>'') (cs @ b) = dropWhile (\<lambda>c. c \<noteq> CHR ''>'') cs @ b"
      by (auto simp: takeWhile_append1 dropWhile_append1)
    then show ?thesis using True rest 2
      by (cases "dropWhile (\<lambda>c. c \<noteq> CHR ''>'') cs") (auto simp: scan_tags.simps(2) Let_def split: if_splits)
  qed (use 2 in \<open>simp add: scan_tags.simps(2)\<close>)
qed simp

definition html_extends :: "html_log \<Rightarrow> html_log \<Rightarrow> bool" where
  "html_extends hl hl' \<longleftrightarrow> (\<exists>r. hl_out hl' = hl_out hl @ r)"

lemma extends_refl [simp]: "html_extends hl hl"
  by (simp add: html_extends_def)

lemma extends_trans: "html_extends a b \<Longrightarrow> html_extends b c \<Longrightarrow> html_extends a c"
  by (auto simp: html_extends_def)

lemma extends_html [simp]: "html_extends hl (fwts_log_html s hl)"
  by (simp add: html_extends_def fwts_log_html_def)

lemma extends_fold [simp]: "html_extends hl (fold fwts_log_html ss hl)"
  by (induction ss arbitrary: hl) (auto intro: extends_trans [OF extends_html])

lemma extends_print [simp]: "html_extends hl (fwts_log_print_html g field level status buffer hl)"
proof -
  let ?cells = "html_cells field level status (fwts_log_html_convert_ascii_str buffer)"
  have "html_extends hl (fwts_log_html (''</TR>'' @ [NL]) (fold fwts_log_html ?cells (fwts_log_html (''<TR>'' @ [NL]) hl)))"
    by (intro extends_trans [OF _ extends_html] extends_trans [OF _ extends_fold] extends_html)
  then show ?thesis by (simp add: fwts_log_print_html_def Let_def html_extends_def)
qed

lemma extends_begin: "fwts_log_section_begin_html name hl = Some hl' \<Longrightarrow> html_extends hl hl'"
  by (auto simp: fwts_log_section_begin_html_def Let_def html_extends_def fwts_log_html_def split: if_splits)

lemma extends_event: "html_event g ev hl = Some hl' \<Longrightarrow> html_extends hl hl'"
proof (cases ev)
  case EvOpen
  assume "html_event g ev hl = Some hl'"
  then have "fwts_log_section_begin_html ''fwts'' (fold fwts_log_html html_prologue hl) = Some hl'"
    using EvOpen by (simp add: html_event_def fwts_log_open_html_def)
  then show ?thesis using extends_begin extends_trans [OF extends_fold] by blast
next
  case EvClose
  assume "html_event g ev hl = Some hl'"
  then show ?thesis using EvClose
    by (auto simp: html_event_def fwts_log_close_html_def fwts_log_section_end_html_def html_extends_def fwts_log_html_def split: list.splits)
next
  case EvEnd
  assume "html_event g ev hl = Some hl'"
  then show ?thesis using EvEnd
    by (auto simp: html_event_def fwts_log_section_end_html_def html_extends_def split: list.splits)
qed (auto simp: html_event_def extends_begin)

lemma extends_events: "events (html_event g) evs hl = Some hl' \<Longrightarrow> html_extends hl hl'"
  by (induction evs arbitrary: hl) (auto split: option.splits dest: extends_event intro: extends_trans)

text \<open>The end tag of a row that the prologue writes where no row is open.\<close>

lemma html_prologue_stuck: "scan_tags [] (hl_out (fold fwts_log_html html_prologue html_log_init)) = None"
  by code_simp

lemma html_log_stuck:
  assumes "events (html_event g) (EvOpen # evs) html_log_init = Some hl"
  shows "scan_tags [] (hl_out hl) = None"
proof -
  obtain h0 where h0: "fwts_log_section_begin_html ''fwts'' (fold fwts_log_html html_prologue html_log_init) = Some h0"
    and rest: "events (html_event g) evs h0 = Some hl"
    using assms by (auto simp: html_event_def fwts_log_open_html_def split: option.splits)
  obtain r where "hl_out hl = hl_out (fold fwts_log_html html_prologue html_log_init) @ r"
    using extends_trans [OF extends_begin [OF h0] extends_events [OF rest]] by (auto simp: html_extends_def)
  then show ?thesis by (simp add: scan_stuck html_prologue_stuck)
qed

lemma print_lines_total:
  assumes "header_len \<le> TMPBUF" and "\<And>pl. fwts_log_header_plaintext g clock owner field level TMPBUF pl \<noteq> None"
  shows "print_lines g clock owner field level header_len ls tmp pl \<noteq> None"
proof (induction ls arbitrary: tmp pl)
  case (Cons l ls)
  obtain h n pl' where "fwts_log_header_plaintext g clock owner field level TMPBUF pl = Some (h, n, pl')"
    using assms(2) by (metis not_Some_eq prod_cases3)
  then show ?case using Cons assms(1) by (simp add: Let_def)
qed simp

end
