(* ===== verification/Fwts_Object.thy ===== *)
theory Fwts_Object
  imports Fwts_Acpi
begin

text \<open>
  The objects that evaluating an ACPI name returns, and the checks of their shape that all the
  tests of ACPI methods share: the first half of src/src/lib/src/fwts_acpi_object_eval.c.

  An object is the tagged union ACPI_OBJECT of ACPICA; the object of a returned ACPI_BUFFER is None
  when its pointer is NULL (the length of the buffer is not zero exactly if there is an object). A
  check gives the list of its reports; it is None when the C code reads a member of the union that
  the type of the object does not stand for, an element past the end of a package or a byte past
  the end of a buffer. A C function that returns whether it failed has failed exactly if its list
  is not empty, where nothing else is said. The texts of the reports are not modelled, their labels
  are.
\<close>

section \<open>Objects\<close>

datatype ACPI_OBJECT =
    Integer u64
  | String "cstr option"
  | Buffer "bytes option"
  | Package "ACPI_OBJECT list"
  | Reference
  | Other nat

type_synonym ACPI_BUFFER = "ACPI_OBJECT option"

abbreviation (input) ACPI_TYPE_INTEGER :: nat where "ACPI_TYPE_INTEGER \<equiv> 1"
abbreviation (input) ACPI_TYPE_STRING :: nat where "ACPI_TYPE_STRING \<equiv> 2"
abbreviation (input) ACPI_TYPE_BUFFER :: nat where "ACPI_TYPE_BUFFER \<equiv> 3"
abbreviation (input) ACPI_TYPE_PACKAGE :: nat where "ACPI_TYPE_PACKAGE \<equiv> 4"
abbreviation (input) ACPI_TYPE_LOCAL_REFERENCE :: nat where "ACPI_TYPE_LOCAL_REFERENCE \<equiv> 20"
abbreviation (input) ACPI_TYPE_LOCAL_SCOPE :: nat where "ACPI_TYPE_LOCAL_SCOPE \<equiv> 27"
abbreviation (input) ACPI_TYPE_INTBUF :: nat where "ACPI_TYPE_INTBUF \<equiv> 31"

primrec object_type :: "ACPI_OBJECT \<Rightarrow> nat" where
  "object_type (Integer v) = ACPI_TYPE_INTEGER"
| "object_type (String s) = ACPI_TYPE_STRING"
| "object_type (Buffer b) = ACPI_TYPE_BUFFER"
| "object_type (Package es) = ACPI_TYPE_PACKAGE"
| "object_type Reference = ACPI_TYPE_LOCAL_REFERENCE"
| "object_type (Other n) = n"

text \<open>
  Other stands for the types without data of their own; an object never has a type that one of the
  other constructors stands for, nor one that ACPICA has not.
\<close>

fun object_ok :: "ACPI_OBJECT \<Rightarrow> bool" where
  "object_ok (Other n) \<longleftrightarrow> n < 28 \<and> n \<notin> {1, 2, 3, 4, 20}"
| "object_ok (Package es) \<longleftrightarrow> list_all object_ok es"
| "object_ok _ \<longleftrightarrow> True"

text \<open>The members of the union.\<close>

fun int_value :: "ACPI_OBJECT \<Rightarrow> u64 option" where
  "int_value (Integer v) = Some v"
| "int_value _ = None"

fun buffer_bytes :: "ACPI_OBJECT \<Rightarrow> bytes option option" where
  "buffer_bytes (Buffer b) = Some b"
| "buffer_bytes _ = None"

fun elements :: "ACPI_OBJECT \<Rightarrow> ACPI_OBJECT list option" where
  "elements (Package es) = Some es"
| "elements _ = None"

definition buffer_length :: "bytes option \<Rightarrow> nat" where
  "buffer_length b = (case b of None \<Rightarrow> 0 | Some bs \<Rightarrow> length bs)"

definition nth_of :: "'a list \<Rightarrow> nat \<Rightarrow> 'a option" where
  "nth_of xs i = (if i < length xs then Some (xs ! i) else None)"

definition element_at :: "ACPI_OBJECT \<Rightarrow> nat \<Rightarrow> ACPI_OBJECT option" where
  "element_at obj i = do { es \<leftarrow> elements obj; nth_of es i }"

definition type_at :: "ACPI_OBJECT \<Rightarrow> nat \<Rightarrow> nat option" where
  "type_at obj i = map_option object_type (element_at obj i)"

definition int_at :: "ACPI_OBJECT \<Rightarrow> nat \<Rightarrow> u64 option" where
  "int_at obj i = do { e \<leftarrow> element_at obj i; int_value e }"

section \<open>Sequences of checks\<close>

type_synonym outcome = "report list option"

text \<open>A check that returns early, a loop of checks, and the verdicts at the end.\<close>

definition on_ok :: "outcome \<Rightarrow> outcome \<Rightarrow> outcome" where
  "on_ok c k = do { rs \<leftarrow> c; if rs = [] then k else Some rs }"

definition each :: "('a \<Rightarrow> outcome) \<Rightarrow> 'a list \<Rightarrow> outcome" where
  "each f xs = foldr (\<lambda>x k. do { rs \<leftarrow> f x; rs' \<leftarrow> k; Some (rs @ rs') }) xs (Some [])"

definition both :: "outcome \<Rightarrow> outcome \<Rightarrow> outcome" where
  "both c d = do { rs \<leftarrow> c; rs' \<leftarrow> d; Some (rs @ rs') }"

definition sane_or :: "outcome \<Rightarrow> outcome" where
  "sane_or c = map_option no_issues c"

definition sane_or_advice :: "outcome \<Rightarrow> outcome" where
  "sane_or_advice c = map_option (\<lambda>rs. if rs = [] then [Passed] else rs @ [Advice]) c"

section \<open>Labels\<close>

text \<open>The last four characters of the path of an object are its name.\<close>

definition get_object_name :: "cstr \<Rightarrow> cstr" where
  "get_object_name name = (if 4 \<le> length name then drop (length name - 4) name else ''_XYZ'')"

definition method_label :: "cstr \<Rightarrow> cstr \<Rightarrow> cstr" where
  "method_label name suffix = ''Method'' @ get_object_name name @ suffix"

section \<open>Checks of the shape of an object\<close>

definition fwts_method_failed_null_object :: "cstr \<Rightarrow> report list" where
  "fwts_method_failed_null_object name = [Failed LOG_LEVEL_CRITICAL ''MethodReturnNullObj'']"

definition fwts_method_type_matches :: "nat \<Rightarrow> nat \<Rightarrow> bool" where
  "fwts_method_type_matches t1 t2 \<longleftrightarrow>
     t1 = ACPI_TYPE_INTBUF \<and> (t2 = ACPI_TYPE_INTEGER \<or> t2 = ACPI_TYPE_BUFFER) \<or>
     t2 = ACPI_TYPE_INTBUF \<and> (t1 = ACPI_TYPE_INTEGER \<or> t1 = ACPI_TYPE_BUFFER) \<or> t1 = t2"

definition fwts_method_check_type :: "cstr \<Rightarrow> ACPI_BUFFER \<Rightarrow> nat \<Rightarrow> report list" where
  "fwts_method_check_type name buf type =
     (case buf of
        None \<Rightarrow> fwts_method_failed_null_object name
      | Some obj \<Rightarrow>
          if fwts_method_type_matches (object_type obj) type then []
          else [Failed LOG_LEVEL_CRITICAL ''MethodReturnBadType''])"

definition checked :: "cstr \<Rightarrow> ACPI_BUFFER \<Rightarrow> nat \<Rightarrow> (ACPI_OBJECT \<Rightarrow> outcome) \<Rightarrow> outcome" where
  "checked name buf type k =
     on_ok (Some (fwts_method_check_type name buf type)) (do { obj \<leftarrow> buf; k obj })"

text \<open>The table of the names of the types that a report looks up has 28 entries.\<close>

definition fwts_method_check_element_type :: "cstr \<Rightarrow> ACPI_OBJECT \<Rightarrow> nat \<Rightarrow> nat \<Rightarrow> outcome" where
  "fwts_method_check_element_type name obj i type = do {
     t \<leftarrow> type_at obj i;
     if t = type then Some []
     else if type > 27 then Some [Warning]
     else if t > 27 then None
     else Some [Failed LOG_LEVEL_HIGH (method_label name ''BadSubPackageReturnType'')] }"

definition fwts_method_buffer_size :: "cstr \<Rightarrow> ACPI_OBJECT \<Rightarrow> nat \<Rightarrow> outcome" where
  "fwts_method_buffer_size name obj sz = do {
     b \<leftarrow> buffer_bytes obj;
     Some (fail_if (buffer_length b \<noteq> sz) (Failed LOG_LEVEL_CRITICAL ''MethodBadBufferSize'')) }"

definition fwts_method_package_count_min :: "cstr \<Rightarrow> ACPI_OBJECT \<Rightarrow> nat \<Rightarrow> outcome" where
  "fwts_method_package_count_min name obj n = do {
     es \<leftarrow> elements obj;
     Some (fail_if (length es < n) (Failed LOG_LEVEL_CRITICAL (method_label name ''ElementCount''))) }"

definition fwts_method_package_count_equal :: "cstr \<Rightarrow> ACPI_OBJECT \<Rightarrow> nat \<Rightarrow> outcome" where
  "fwts_method_package_count_equal name obj n = do {
     es \<leftarrow> elements obj;
     Some (fail_if (length es \<noteq> n) (Failed LOG_LEVEL_CRITICAL (method_label name ''ElementCount''))) }"

definition fwts_method_subpackage_count_equal :: "cstr \<Rightarrow> ACPI_OBJECT \<Rightarrow> nat \<Rightarrow> outcome" where
  "fwts_method_subpackage_count_equal name obj n = do {
     es \<leftarrow> elements obj;
     Some (fail_if (length es \<noteq> n)
       (Failed LOG_LEVEL_CRITICAL (method_label name ''SubPackageElementCount''))) }"

definition element_type_reports :: "cstr \<Rightarrow> (ACPI_OBJECT \<times> nat) list \<Rightarrow> report list" where
  "element_type_reports name ets =
     concat (map (\<lambda>(e, type). fail_if (\<not> fwts_method_type_matches (object_type e) type)
       (Failed LOG_LEVEL_CRITICAL (method_label name ''ElementType''))) ets)"

definition fwts_method_package_elements_all_type :: "cstr \<Rightarrow> ACPI_OBJECT \<Rightarrow> nat \<Rightarrow> outcome" where
  "fwts_method_package_elements_all_type name obj type = do {
     es \<leftarrow> elements obj;
     Some (element_type_reports name (map (\<lambda>e. (e, type)) es)) }"

text \<open>The types of the elements of a package of fixed length (fwts_package_element).\<close>

definition fwts_method_package_elements_type :: "cstr \<Rightarrow> ACPI_OBJECT \<Rightarrow> nat list \<Rightarrow> outcome" where
  "fwts_method_package_elements_type name obj info =
     on_ok (fwts_method_package_count_equal name obj (length info)) (do {
       es \<leftarrow> elements obj;
       Some (element_type_reports name (zip es info)) })"

text \<open>Whether the revision is the one of the specification: a name that is too short fails silently.\<close>

definition fwts_method_test_revision :: "cstr \<Rightarrow> u32 \<Rightarrow> u32 \<Rightarrow> report list \<times> bool" where
  "fwts_method_test_revision name cur_revision spec_revision =
     (if length name < 4 then ([], False)
      else if cur_revision \<noteq> spec_revision
      then ([Failed LOG_LEVEL_MEDIUM (''Method'' @ drop (length name - 4) name @ ''BadRevision'')], False)
      else ([], True))"

section \<open>Facts\<close>

named_theorems outcomes "when a sequence of checks is defined and when it has no report"

lemma on_ok_None [outcomes]: "on_ok c k = None \<longleftrightarrow> c = None \<or> c = Some [] \<and> k = None"
  by (cases c) (auto simp: on_ok_def)

lemma on_ok_Nil [outcomes]: "on_ok c k = Some [] \<longleftrightarrow> c = Some [] \<and> k = Some []"
  by (cases c) (auto simp: on_ok_def)

lemma on_ok_simps [simp]: "on_ok None k = None" "on_ok (Some []) k = k" "on_ok (Some (r # rs)) k = Some (r # rs)"
  by (simp_all add: on_ok_def)

lemma both_None [outcomes]: "both c d = None \<longleftrightarrow> c = None \<or> d = None"
  by (cases c; cases d) (auto simp: both_def)

lemma both_simps [simp]: "both (Some rs) (Some rs') = Some (rs @ rs')" "both None d = None" "both c None = None"
  by (cases c; simp add: both_def)+

lemma sane_or_None [outcomes]: "sane_or c = None \<longleftrightarrow> c = None"
  by (simp add: sane_or_def)

lemma sane_or_advice_None [outcomes]: "sane_or_advice c = None \<longleftrightarrow> c = None"
  by (simp add: sane_or_advice_def)

lemma each_Nil [simp]: "each f [] = Some []"
  by (simp add: each_def)

lemma each_Cons [simp]: "each f (x # xs) = both (f x) (each f xs)"
  by (simp add: each_def both_def)

lemma each_None: "each f xs = None \<longleftrightarrow> (\<exists>x \<in> set xs. f x = None)"
  by (induction xs) (auto simp: outcomes)

lemma each_Nil_iff: "each f xs = Some [] \<longleftrightarrow> (\<forall>x \<in> set xs. f x = Some [])"
proof (induction xs)
  case (Cons x xs)
  then show ?case by (cases "f x"; cases "each f xs") auto
qed simp

lemma each_reports: "each f xs = Some rs \<Longrightarrow> r \<in> set rs \<Longrightarrow> \<exists>x \<in> set xs. \<exists>rs'. f x = Some rs' \<and> r \<in> set rs'"
proof (induction xs arbitrary: rs)
  case (Cons x xs)
  then show ?case by (cases "f x"; cases "each f xs") auto
qed simp

lemma nth_of_None [outcomes]: "nth_of xs i = None \<longleftrightarrow> length xs \<le> i"
  by (auto simp: nth_of_def)

lemma nth_of_less [simp]: "i < length xs \<Longrightarrow> nth_of xs i = Some (xs ! i)"
  by (simp add: nth_of_def)

lemma element_simps [simp]:
  "elements (Package es) = Some es" "element_at (Package es) i = nth_of es i"
  by (simp_all add: element_at_def)

text \<open>An object of a package that has passed a type check is of that type, and has its members.\<close>

lemma type_matches_simps [simp]:
  "fwts_method_type_matches t 1 \<longleftrightarrow> t = 1 \<or> t = 31"
  "fwts_method_type_matches t 2 \<longleftrightarrow> t = 2"
  "fwts_method_type_matches t 3 \<longleftrightarrow> t = 3 \<or> t = 31"
  "fwts_method_type_matches t 4 \<longleftrightarrow> t = 4"
  "fwts_method_type_matches t 20 \<longleftrightarrow> t = 20"
  "fwts_method_type_matches t 31 \<longleftrightarrow> t = 1 \<or> t = 3 \<or> t = 31"
  by (auto simp: fwts_method_type_matches_def)

lemma type_matches_1 [simp]: "fwts_method_type_matches t (Suc 0) \<longleftrightarrow> t = 1 \<or> t = 31"
  using type_matches_simps(1) by simp

lemma object_type_integer: "object_ok obj \<Longrightarrow> object_type obj = 1 \<longleftrightarrow> (\<exists>v. obj = Integer v)"
  by (cases obj) auto

lemma object_type_string: "object_ok obj \<Longrightarrow> object_type obj = 2 \<longleftrightarrow> (\<exists>s. obj = String s)"
  by (cases obj) auto

lemma object_type_buffer: "object_ok obj \<Longrightarrow> object_type obj = 3 \<longleftrightarrow> (\<exists>b. obj = Buffer b)"
  by (cases obj) auto

lemma object_type_package: "object_ok obj \<Longrightarrow> object_type obj = 4 \<longleftrightarrow> (\<exists>es. obj = Package es)"
  by (cases obj) auto

lemma object_type_reference: "object_ok obj \<Longrightarrow> object_type obj = 20 \<longleftrightarrow> obj = Reference"
  by (cases obj) auto

lemma object_type_less: "object_ok obj \<Longrightarrow> object_type obj < 28"
  by (cases obj) auto

lemmas object_types = object_type_integer object_type_string object_type_buffer object_type_package
  object_type_reference

end
