(* ===== verification/Fwts_Crs.thy ===== *)
theory Fwts_Crs
  imports Fwts_Object
begin

text \<open>
  The checks of the resource descriptors in the buffers that _CRS and _PRS return, of
  src/src/lib/src/fwts_acpi_object_eval.c. The C functions clear the flag passed exactly when they
  report something, and their callers start with it set; so the flag is whether the list of the
  reports is empty, and the C code that stops when the flag is cleared stops here at a report. None
  is a read past the end of the buffer, or a division by zero.
\<close>

section \<open>Bytes of the buffer\<close>

definition byte_at :: "bytes \<Rightarrow> nat \<Rightarrow> u64 option" where
  "byte_at data i = map_option ucast (nth_of data i)"

definition method_CRS_val64 :: "bytes \<Rightarrow> nat \<Rightarrow> u64 option" where
  "method_CRS_val64 data i = read_le data i 8"

definition method_CRS_val32 :: "bytes \<Rightarrow> nat \<Rightarrow> u64 option" where
  "method_CRS_val32 data i = read_le data i 4"

text \<open>The 24 bit values have their lower 8 bits zero, which are not stored.\<close>

definition method_CRS_val24 :: "bytes \<Rightarrow> nat \<Rightarrow> u64 option" where
  "method_CRS_val24 data i = map_option (push_bit 8) (read_le data i 2)"

definition method_CRS_val16 :: "bytes \<Rightarrow> nat \<Rightarrow> u64 option" where
  "method_CRS_val16 data i = read_le data i 2"

definition crs_label :: "cstr \<Rightarrow> cstr \<Rightarrow> cstr" where
  "crs_label objname s = ''Method'' @ objname @ s"

section \<open>Lengths\<close>

definition method_test_CRS_size :: "cstr \<Rightarrow> nat \<Rightarrow> nat \<Rightarrow> nat \<Rightarrow> nat \<Rightarrow> nat \<Rightarrow> report list" where
  "method_test_CRS_size tag crs_length hdr_length data_length mn mx =
     (if crs_length < data_length + hdr_length then [Failed LOG_LEVEL_HIGH tag]
      else fail_if (data_length < mn \<or> data_length > mx) (Failed LOG_LEVEL_CRITICAL tag))"

definition method_test_CRS_small_size :: "cstr \<Rightarrow> bytes \<Rightarrow> nat \<Rightarrow> nat \<Rightarrow> outcome" where
  "method_test_CRS_small_size objname data mn mx = do {
     b \<leftarrow> byte_at data 0;
     Some (method_test_CRS_size (crs_label objname ''SmallResourceSize'') (length data) 1
       (unat (b AND 7)) mn mx) }"

definition fwts_method_test_CRS_large_size :: "cstr \<Rightarrow> bytes \<Rightarrow> nat \<Rightarrow> nat \<Rightarrow> outcome" where
  "fwts_method_test_CRS_large_size objname data mn mx =
     (if length data < 3 then Some [Failed LOG_LEVEL_CRITICAL (crs_label objname ''BufferTooSmall'')]
      else do {
        n \<leftarrow> method_CRS_val16 data 1;
        Some (method_test_CRS_size (crs_label objname ''LargeResourceSize'') (length data) 3 (unat n) mn mx) })"

section \<open>Small resource descriptors\<close>

definition crs_dma :: "cstr \<Rightarrow> bytes \<Rightarrow> outcome" where
  "crs_dma objname data =
     on_ok (method_test_CRS_small_size objname data 2 2) (do {
       b \<leftarrow> byte_at data 2;
       Some (fail_if (b AND 3 = 3) (Failed LOG_LEVEL_HIGH (crs_label objname ''DmaDescriptor''))) })"

definition crs_io_port :: "cstr \<Rightarrow> bytes \<Rightarrow> outcome" where
  "crs_io_port objname data =
     on_ok (method_test_CRS_small_size objname data 7 7) (do {
       b1 \<leftarrow> byte_at data 1;
       b3 \<leftarrow> byte_at data 3;
       b5 \<leftarrow> byte_at data 5;
       Some (fail_if (b1 AND 0xfe \<noteq> 0) (Failed LOG_LEVEL_HIGH (crs_label objname ''IoPortInfoReservedNonZero'')) @
             fail_if (b1 AND 1 = 0 \<and> b3 > 3) (Failed LOG_LEVEL_LOW (crs_label objname ''IoPortInfoMinBase10BitAddr'')) @
             fail_if (b1 AND 1 = 0 \<and> b5 > 3) (Failed LOG_LEVEL_LOW (crs_label objname ''IoPortInfoMaxBase10BitAddr''))) })"

definition crs_fixed_dma :: "cstr \<Rightarrow> bytes \<Rightarrow> outcome" where
  "crs_fixed_dma objname data =
     on_ok (method_test_CRS_small_size objname data 5 5) (do {
       b \<leftarrow> byte_at data 5;
       Some (fail_if (b > 5) (Failed LOG_LEVEL_HIGH (crs_label objname ''FixedDmaTransferWidth''))) })"

definition crs_small_types :: "cstr list" where
  "crs_small_types = [''Reserved'', ''Reserved'', ''Reserved'', ''Reserved'', ''IRQ Descriptor'',
     ''DMA Descriptor'', ''Start Dependent Functions Descriptor'', ''End Dependent Functions Descriptor'',
     ''I/O Port Descriptor'', ''Fixed Location I/O Port Descriptor'', ''Fixed DMA Descriptor'', ''Reserved'',
     ''Reserved'', ''Reserved'', ''Vendor Defined Descriptor'', ''End Tag Descriptor'']"

text \<open>The tag of the item (bits 6:3 of the first byte), its checks and the name of its type.\<close>

definition crs_small_tag :: "u64 \<Rightarrow> nat" where
  "crs_small_tag b = unat (drop_bit 3 b AND 0xf)"

definition fwts_method_test_CRS_small_resource_items :: "cstr \<Rightarrow> bytes \<Rightarrow> (report list \<times> cstr) option" where
  "fwts_method_test_CRS_small_resource_items objname data = do {
     b \<leftarrow> byte_at data 0;
     let tag = crs_small_tag b;
     rs \<leftarrow>
       (if tag = 0x4 then method_test_CRS_small_size objname data 2 3
        else if tag = 0x5 then crs_dma objname data
        else if tag = 0x6 then method_test_CRS_small_size objname data 0 1
        else if tag = 0x7 then method_test_CRS_small_size objname data 0 0
        else if tag = 0x8 then crs_io_port objname data
        else if tag = 0x9 then method_test_CRS_small_size objname data 3 3
        else if tag = 0xa then crs_fixed_dma objname data
        else if tag = 0xe then method_test_CRS_small_size objname data 1 7
        else if tag = 0xf then method_test_CRS_small_size objname data 1 1
        else Some [Failed LOG_LEVEL_HIGH (crs_label objname ''UnkownSmallResourceItem''), Advice]);
     type \<leftarrow> nth_of crs_small_types tag;
     Some (rs, type) }"

section \<open>Address space descriptors\<close>

text \<open>A violation of the rules of table 6-179 is a warning when testing for SBBR.\<close>

definition mif_maf_issue :: "bool \<Rightarrow> bool \<Rightarrow> cstr \<Rightarrow> report list" where
  "mif_maf_issue sbbr bad l =
     (if bad then [if sbbr then Warning else Failed LOG_LEVEL_MEDIUM l, Advice] else [])"

definition method_test_CRS_mif_maf ::
    "bool \<Rightarrow> cstr \<Rightarrow> u64 \<Rightarrow> u64 \<Rightarrow> u64 \<Rightarrow> u64 \<Rightarrow> u64 \<Rightarrow> cstr \<Rightarrow> outcome" where
  "method_test_CRS_mif_maf sbbr objname flag mn mx len granularity tag = (
     let mif = bit flag 2; maf = bit flag 3; lab = (\<lambda>s. ''Method'' @ objname @ tag @ s);
         issue = mif_maf_issue sbbr
     in if len = 0 then
          Some (issue (mif \<and> maf) (lab ''MifMafBothOne'') @
            (if \<not> mif then []
             else if granularity + 1 = 0 then [Warning]
             else issue (mn mod (granularity + 1) \<noteq> 0) (lab ''MinNotMultipleOfGran'')) @
            (if \<not> maf then []
             else if granularity - 1 = 0 then [Warning]
             else issue (mx mod (granularity - 1) \<noteq> 0) (lab ''MaxNotMultipleOfGran'')))
        else if \<not> mif \<and> \<not> maf \<and> granularity + 1 = 0 then None
        else
          Some (issue (\<not> mif \<and> \<not> maf \<and> len mod (granularity + 1) \<noteq> 0) (lab ''LenNotMultipleOfGran'') @
            issue (mif \<noteq> maf) (lab ''MifMafInvalid'') @
            (if mif \<and> maf then
               issue (granularity \<noteq> 0) (lab ''GranularityNotZero'') @
               issue (mn > mx) (lab ''MaxLessThanMin'') @
               issue (mx - mn + 1 \<noteq> len) (lab ''LengthInvalid'')
             else [])))"

section \<open>Large resource descriptors\<close>

text \<open>The descriptors of memory ranges: where the maximum and the length are, and how they are read.\<close>

definition crs_memory_range ::
    "cstr \<Rightarrow> bytes \<Rightarrow> nat \<Rightarrow> cstr \<Rightarrow> (nat \<Rightarrow> u64 option) \<Rightarrow> nat \<Rightarrow> u64 option \<Rightarrow> outcome" where
  "crs_memory_range objname data sz bits val mx_at len_at =
     on_ok (fwts_method_test_CRS_large_size objname data sz sz) (do {
       mn \<leftarrow> val 4;
       mx \<leftarrow> val mx_at;
       len \<leftarrow> len_at;
       Some (fail_if (mx < mn) (Failed LOG_LEVEL_MEDIUM (crs_label objname (bits @ ''BitMemRangeMaxLessThanMin''))) @
             fail_if (len > mx + 1 - mn) (Failed LOG_LEVEL_MEDIUM (crs_label objname (bits @ ''BitMemRangeLengthTooLarge'')))) })"

definition crs_memory24 :: "cstr \<Rightarrow> bytes \<Rightarrow> outcome" where
  "crs_memory24 objname data =
     crs_memory_range objname data 9 ''24'' (method_CRS_val24 data) 6 (method_CRS_val16 data 10)"

definition crs_memory32 :: "cstr \<Rightarrow> bytes \<Rightarrow> outcome" where
  "crs_memory32 objname data =
     crs_memory_range objname data 17 ''32'' (method_CRS_val32 data) 8 (method_CRS_val32 data 16)"

definition crs_generic_register :: "cstr \<Rightarrow> bytes \<Rightarrow> outcome" where
  "crs_generic_register objname data =
     on_ok (fwts_method_test_CRS_large_size objname data 12 12) (do {
       space \<leftarrow> byte_at data 3;
       sz \<leftarrow> byte_at data 6;
       Some (fail_if (\<not> (space \<le> 4 \<or> space = 0x0a \<or> space = 0x7f))
               (Failed LOG_LEVEL_HIGH (crs_label objname ''GenericRegAddrSpaceIdInvalid'')) @
             fail_if (sz > 4) (Failed LOG_LEVEL_HIGH (crs_label objname ''GenericRegAddrSizeInvalid''))) })"

definition crs_address_space ::
    "bool \<Rightarrow> cstr \<Rightarrow> bytes \<Rightarrow> nat \<Rightarrow> nat \<Rightarrow> (nat \<Rightarrow> u64 option) \<Rightarrow> nat \<Rightarrow> nat \<Rightarrow> nat \<Rightarrow> nat \<Rightarrow> cstr \<Rightarrow> outcome" where
  "crs_address_space sbbr objname data lo hi val gra_at mn_at mx_at len_at tag =
     on_ok (fwts_method_test_CRS_large_size objname data lo hi) (do {
       gra \<leftarrow> val gra_at;
       mn \<leftarrow> val mn_at;
       mx \<leftarrow> val mx_at;
       len \<leftarrow> val len_at;
       flag \<leftarrow> byte_at data 4;
       method_test_CRS_mif_maf sbbr objname flag mn mx len gra tag })"

definition crs_dword_space :: "bool \<Rightarrow> cstr \<Rightarrow> bytes \<Rightarrow> outcome" where
  "crs_dword_space sbbr objname data =
     crs_address_space sbbr objname data 23 65535 (method_CRS_val32 data) 6 10 14 22 ''64BitDWordAddrSpace''"

definition crs_word_space :: "bool \<Rightarrow> cstr \<Rightarrow> bytes \<Rightarrow> outcome" where
  "crs_word_space sbbr objname data =
     crs_address_space sbbr objname data 13 65535 (method_CRS_val16 data) 6 8 10 14 ''64BitWordAddrSpace''"

definition crs_qword_space :: "bool \<Rightarrow> cstr \<Rightarrow> bytes \<Rightarrow> outcome" where
  "crs_qword_space sbbr objname data =
     crs_address_space sbbr objname data 43 65535 (method_CRS_val64 data) 6 14 22 38 ''64BitQWordAddrSpace''"

definition crs_extended_space :: "bool \<Rightarrow> cstr \<Rightarrow> bytes \<Rightarrow> outcome" where
  "crs_extended_space sbbr objname data =
     crs_address_space sbbr objname data 53 53 (method_CRS_val64 data) 8 16 24 40 ''64BitExtAddrSpace''"

definition crs_gpio :: "cstr \<Rightarrow> bytes \<Rightarrow> outcome" where
  "crs_gpio objname data =
     on_ok (fwts_method_test_CRS_large_size objname data 22 65535) (do {
       conn \<leftarrow> byte_at data 4;
       pin \<leftarrow> byte_at data 9;
       Some ((if conn > 2 then [Failed LOG_LEVEL_MEDIUM (crs_label objname ''GpioConnTypeInvalid''), Advice] else []) @
             (if pin > 3 \<and> pin < 0x80 then [Failed LOG_LEVEL_HIGH (crs_label objname ''GpioConnTypeInvalid''), Advice] else [])) })"

definition crs_pin_function :: "cstr \<Rightarrow> bytes \<Rightarrow> outcome" where
  "crs_pin_function objname data =
     on_ok (fwts_method_test_CRS_large_size objname data 17 65535) (do {
       b4 \<leftarrow> byte_at data 4;
       b5 \<leftarrow> byte_at data 5;
       Some (fwts_acpi_reserved_bits ''_CRS'' ''Flags[low]'' b4 1 7 @
             fwts_acpi_reserved_zero ''_CRS'' ''Flags[high]'' b5 @
             fwts_acpi_reserved_zero ''_CRS'' ''Flags[high]'' b5) })"

text \<open>The pin configuration descriptors of a device and of a pin group are checked alike.\<close>

definition crs_pin_config :: "cstr \<Rightarrow> bytes \<Rightarrow> outcome" where
  "crs_pin_config objname data =
     on_ok (fwts_method_test_CRS_large_size objname data 19 65535) (do {
       b4 \<leftarrow> byte_at data 4;
       b5 \<leftarrow> byte_at data 5;
       type \<leftarrow> byte_at data 6;
       Some (fwts_acpi_reserved_bits ''_CRS'' ''Flags[low]'' b4 2 7 @
             fwts_acpi_reserved_zero ''_CRS'' ''Flags[high]'' b5 @
             (if type > 0xd \<and> type < 0x80
              then [Failed LOG_LEVEL_MEDIUM (crs_label objname ''PinConfigTypeInvalid''), Advice] else []) @
             fwts_acpi_reserved_zero ''_CRS'' ''Flags[high]'' b5) })"

definition crs_pin_group :: "cstr \<Rightarrow> bytes \<Rightarrow> outcome" where
  "crs_pin_group objname data =
     on_ok (fwts_method_test_CRS_large_size objname data 13 65535) (do {
       b4 \<leftarrow> byte_at data 4;
       b5 \<leftarrow> byte_at data 5;
       Some (fwts_acpi_reserved_bits ''_CRS'' ''Flags[low]'' b4 1 7 @
             fwts_acpi_reserved_zero ''_CRS'' ''Flags[high]'' b5) })"

definition crs_pin_group_function :: "cstr \<Rightarrow> bytes \<Rightarrow> outcome" where
  "crs_pin_group_function objname data =
     on_ok (fwts_method_test_CRS_large_size objname data 16 65535) (do {
       b4 \<leftarrow> byte_at data 4;
       b5 \<leftarrow> byte_at data 5;
       b8 \<leftarrow> byte_at data 8;
       Some (fwts_acpi_reserved_bits ''_CRS'' ''Flags[low]'' b4 2 7 @
             fwts_acpi_reserved_zero ''_CRS'' ''Flags[high]'' b5 @
             fwts_acpi_reserved_zero ''_CRS'' ''Resource Source Index'' b8) })"

definition crs_large_types :: "cstr list" where
  "crs_large_types = [''Reserved'', ''24-bit Memory Range Descriptor'', ''Generic Register Descriptor'',
     ''Reserved'', ''Vendor Defined Descriptor'', ''32-bit Memory Range Descriptor'',
     ''32-bit Fixed Location Memory Range Descriptor'', ''DWORD Address Space Descriptor'',
     ''WORD Address Space Descriptor'', ''Extended IRQ Descriptor'', ''QWORD Address Space Descriptor'',
     ''Extended Address Space Descriptor'', ''GPIO Connection Descriptor'', ''Reserved'',
     ''Generic Serial Bus Connection Descriptor'', ''Pin Configuration Descriptor'',
     ''Pin Group Descriptor'', ''Pin Group Function Descriptor'', ''Pin Group Configuration Descriptor'',
     ''Reserved'']"

definition crs_large_tag :: "u64 \<Rightarrow> nat" where
  "crs_large_tag b = unat (b AND 0x7f)"

definition fwts_method_test_CRS_large_resource_items ::
    "bool \<Rightarrow> cstr \<Rightarrow> bytes \<Rightarrow> (report list \<times> cstr) option" where
  "fwts_method_test_CRS_large_resource_items sbbr objname data = do {
     b \<leftarrow> byte_at data 0;
     let tag = crs_large_tag b;
     rs \<leftarrow>
       (if tag = 0x1 then crs_memory24 objname data
        else if tag = 0x2 then crs_generic_register objname data
        else if tag = 0x4 then fwts_method_test_CRS_large_size objname data 0 65535
        else if tag = 0x5 then crs_memory32 objname data
        else if tag = 0x6 then fwts_method_test_CRS_large_size objname data 9 9
        else if tag = 0x7 then crs_dword_space sbbr objname data
        else if tag = 0x8 then crs_word_space sbbr objname data
        else if tag = 0x9 then fwts_method_test_CRS_large_size objname data 6 65535
        else if tag = 0xa then crs_qword_space sbbr objname data
        else if tag = 0xb then crs_extended_space sbbr objname data
        else if tag = 0xc then crs_gpio objname data
        else if tag = 0xd then crs_pin_function objname data
        else if tag = 0xe then fwts_method_test_CRS_large_size objname data 11 65535
        else if tag = 0xf then crs_pin_config objname data
        else if tag = 0x10 then crs_pin_group objname data
        else if tag = 0x11 then crs_pin_group_function objname data
        else if tag = 0x12 then crs_pin_config objname data
        else Some [Failed LOG_LEVEL_HIGH (crs_label objname ''UnkownLargeResourceItem''), Advice]);
     type \<leftarrow> nth_of crs_large_types (if tag < 16 then tag else 0);
     Some (rs, type) }"

section \<open>Facts\<close>

lemma byte_at_None [outcomes]: "byte_at data i = None \<longleftrightarrow> length data \<le> i"
  by (simp add: byte_at_def outcomes)

lemma read_le_None [outcomes]: "read_le data i n = None \<longleftrightarrow> length data < i + n"
  by (auto simp: read_le_def read_bytes_def)

lemmas crs_values = method_CRS_val64_def method_CRS_val32_def method_CRS_val24_def method_CRS_val16_def

lemma crs_size_Nil: "method_test_CRS_size tag n hdr len mn mx = [] \<longleftrightarrow> len + hdr \<le> n \<and> mn \<le> len \<and> len \<le> mx"
  by (auto simp: method_test_CRS_size_def fail_if_def)

lemma crs_small_size_None [outcomes]: "method_test_CRS_small_size objname data mn mx = None \<longleftrightarrow> data = []"
  by (auto simp: method_test_CRS_small_size_def bind_eq_None_conv outcomes simp del: not_None_eq)

lemma crs_small_size_Nil: "method_test_CRS_small_size objname data mn mx = Some [] \<Longrightarrow> mn + 1 \<le> length data"
  by (auto simp: method_test_CRS_small_size_def crs_size_Nil bind_eq_Some_conv)

lemma crs_large_size_None [outcomes]: "fwts_method_test_CRS_large_size objname data mn mx = None \<longleftrightarrow> False"
  by (auto simp: fwts_method_test_CRS_large_size_def bind_eq_None_conv outcomes crs_values simp del: not_None_eq)

lemma crs_large_size_Nil: "fwts_method_test_CRS_large_size objname data mn mx = Some [] \<Longrightarrow> mn + 3 \<le> length data"
  by (auto simp: fwts_method_test_CRS_large_size_def crs_size_Nil bind_eq_Some_conv split: if_splits)

text \<open>The checks of the small descriptors read nothing past the end of the buffer.\<close>

lemma crs_small_tag_less: "crs_small_tag b < 16"
proof -
  have "drop_bit 3 b AND 0xf \<le> 0xf" by (rule word_and_le1)
  then show ?thesis by (simp add: crs_small_tag_def word_le_nat_alt)
qed

lemma crs_small_parts:
  assumes "data \<noteq> []"
  shows "crs_dma objname data \<noteq> None" "crs_io_port objname data \<noteq> None" "crs_fixed_dma objname data \<noteq> None"
  using assms
  by (auto simp: crs_dma_def crs_io_port_def crs_fixed_dma_def outcomes bind_eq_None_conv simp del: not_None_eq
      dest!: crs_small_size_Nil)

text \<open>
  The verdict on an address space descriptor is undefined only where the code divides by
  granularity + 1 = 0.
\<close>

lemma mif_maf_None: "method_test_CRS_mif_maf sbbr objname flag mn mx len gra tag = None \<longleftrightarrow>
    len \<noteq> 0 \<and> \<not> bit flag 2 \<and> \<not> bit flag 3 \<and> gra + 1 = 0"
  by (auto simp: method_test_CRS_mif_maf_def Let_def)

lemma le_word_below: "length bs < 8 \<Longrightarrow> le_word bs + 1 \<noteq> 0"
proof
  assume len: "length bs < 8" and "le_word bs + 1 = 0"
  then have "le_word bs = - 1" by (simp add: eq_neg_iff_add_eq_0)
  then have "2 ^ 64 - 1 < (256 :: nat) ^ length bs" using le_word_bound [of bs]
    by (simp add: unsigned_minus_1_eq_mask mask_eq_exp_minus_1)
  also have "\<dots> \<le> 256 ^ 7" using len by (intro power_increasing) auto
  finally show False by simp
qed

lemma read_le_small: "read_le data i n = Some v \<Longrightarrow> n < 8 \<Longrightarrow> v + 1 \<noteq> 0"
  using le_word_below by (auto simp: read_le_def read_bytes_def split: if_splits)

lemma crs_address_space_None:
  assumes none: "crs_address_space sbbr objname data lo hi val gra_at mn_at mx_at len_at tag = None"
    and "lo + 3 \<le> length data \<Longrightarrow> list_all (\<lambda>i. val i \<noteq> None) [gra_at, mn_at, mx_at, len_at]"
    and "2 \<le> lo"
  shows "val gra_at = Some (- 1)"
proof -
  have size: "fwts_method_test_CRS_large_size objname data lo hi = Some []"
    using none by (simp add: crs_address_space_def outcomes)
  then have len: "lo + 3 \<le> length data" by (rule crs_large_size_Nil)
  then obtain gra mn mx ln where v: "val gra_at = Some gra" "val mn_at = Some mn" "val mx_at = Some mx" "val len_at = Some ln"
    using assms(2) by auto
  moreover obtain flag where "byte_at data 4 = Some flag" using len assms(3) by (fastforce simp: byte_at_def)
  ultimately have "gra + 1 = 0" using none size by (simp add: crs_address_space_def mif_maf_None)
  then show ?thesis using v by (simp add: eq_neg_iff_add_eq_0)
qed

lemma crs_large_parts:
  "crs_memory24 objname data \<noteq> None" "crs_memory32 objname data \<noteq> None"
  "crs_generic_register objname data \<noteq> None" "crs_gpio objname data \<noteq> None"
  "crs_pin_function objname data \<noteq> None" "crs_pin_config objname data \<noteq> None"
  "crs_pin_group objname data \<noteq> None" "crs_pin_group_function objname data \<noteq> None"
  by (auto simp: crs_memory24_def crs_memory32_def crs_memory_range_def crs_generic_register_def crs_gpio_def
      crs_pin_function_def crs_pin_config_def crs_pin_group_def crs_pin_group_function_def crs_values
      outcomes bind_eq_None_conv simp del: not_None_eq dest!: crs_large_size_Nil)

lemma crs_small_spaces:
  "crs_dword_space sbbr objname data \<noteq> None" "crs_word_space sbbr objname data \<noteq> None"
proof -
  show "crs_dword_space sbbr objname data \<noteq> None"
  proof
    assume "crs_dword_space sbbr objname data = None"
    then have "method_CRS_val32 data 6 = Some (- 1)"
      unfolding crs_dword_space_def by (rule crs_address_space_None) (auto simp: outcomes crs_values simp del: not_None_eq)
    then show False using read_le_small [of data 6 4 "- 1"] by (simp add: crs_values)
  qed
  show "crs_word_space sbbr objname data \<noteq> None"
  proof
    assume "crs_word_space sbbr objname data = None"
    then have "method_CRS_val16 data 6 = Some (- 1)"
      unfolding crs_word_space_def by (rule crs_address_space_None) (auto simp: outcomes crs_values simp del: not_None_eq)
    then show False using read_le_small [of data 6 2 "- 1"] by (simp add: crs_values)
  qed
qed

lemma crs_large_spaces:
  "crs_qword_space sbbr objname data = None \<Longrightarrow> method_CRS_val64 data 6 = Some (- 1)"
  "crs_extended_space sbbr objname data = None \<Longrightarrow> method_CRS_val64 data 8 = Some (- 1)"
  unfolding crs_qword_space_def crs_extended_space_def
  by (erule crs_address_space_None; auto simp: outcomes crs_values simp del: not_None_eq)+

lemma small_items_defined:
  assumes "data \<noteq> []"
  shows "fwts_method_test_CRS_small_resource_items objname data \<noteq> None"
proof -
  obtain b where b: "byte_at data 0 = Some b" using assms by (fastforce simp: byte_at_def)
  have "nth_of crs_small_types (crs_small_tag b) \<noteq> None"
    using crs_small_tag_less [of b] by (simp add: outcomes crs_small_types_def del: not_None_eq)
  then show ?thesis using assms crs_small_parts [OF assms, of objname]
    by (simp add: fwts_method_test_CRS_small_resource_items_def b Let_def bind_eq_None_conv outcomes
        del: not_None_eq)
qed

lemma large_items_None:
  assumes "data \<noteq> []" and "fwts_method_test_CRS_large_resource_items sbbr objname data = None"
  shows "crs_large_tag (ucast (data ! 0)) \<in> {0xa, 0xb}"
    and "method_CRS_val64 data (if crs_large_tag (ucast (data ! 0)) = 0xa then 6 else 8) = Some (- 1)"
proof -
  have b: "byte_at data 0 = Some (ucast (data ! 0))" using assms by (simp add: byte_at_def)
  let ?tag = "crs_large_tag (ucast (data ! 0))"
  have type: "nth_of crs_large_types (if ?tag < 16 then ?tag else 0) \<noteq> None"
    by (simp add: outcomes crs_large_types_def del: not_None_eq)
  have none: "?tag = 0xa \<and> crs_qword_space sbbr objname data = None \<or>
      ?tag = 0xb \<and> crs_extended_space sbbr objname data = None"
    using assms(2) type crs_large_parts [of objname data] crs_small_spaces [of sbbr objname data]
    by (simp add: fwts_method_test_CRS_large_resource_items_def b Let_def bind_eq_None_conv outcomes
        del: not_None_eq split: if_splits)
  then show "?tag \<in> {0xa, 0xb}" by blast
  show "method_CRS_val64 data (if ?tag = 0xa then 6 else 8) = Some (- 1)"
    using none crs_large_spaces [of sbbr objname data] by auto
qed

text \<open>
  The combinations of the fields of an address space descriptor that table 6-179 of the ACPI
  specification allows, without the row for a fixed maximum and no length, where the code differs.
\<close>

definition address_space_allowed :: "bool \<Rightarrow> bool \<Rightarrow> u64 \<Rightarrow> u64 \<Rightarrow> u64 \<Rightarrow> u64 \<Rightarrow> bool" where
  "address_space_allowed mif maf mn mx len gra \<longleftrightarrow>
     (if len = 0 then \<not> maf \<and> (mif \<longrightarrow> (unat gra + 1) dvd unat mn)
      else if mif \<and> maf then gra = 0 \<and> mn \<le> mx \<and> len = mx - mn + 1
      else \<not> mif \<and> \<not> maf \<and> (unat gra + 1) dvd unat len)"

lemma issue_Nil [simp]: "mif_maf_issue sbbr bad l = [] \<longleftrightarrow> \<not> bad"
  by (simp add: mif_maf_issue_def)

lemma granule: "gra + 1 \<noteq> 0 \<Longrightarrow> v mod (gra + 1) = 0 \<longleftrightarrow> (unat gra + 1) dvd unat (v :: u64)"
proof -
  assume "gra + 1 \<noteq> 0"
  then have "unat (v mod (gra + 1)) = unat v mod (unat gra + 1)"
    using unatSuc [of gra] by (simp add: unat_mod add.commute)
  moreover have "v mod (gra + 1) = 0 \<longleftrightarrow> unat (v mod (gra + 1)) = 0" by (metis unat_0 unat_eq_zero)
  ultimately show ?thesis by (simp add: dvd_eq_mod_eq_0)
qed

lemma mif_maf_verdict:
  assumes "gra + 1 \<noteq> 0" and "\<not> (len = 0 \<and> \<not> bit flag 2 \<and> bit flag 3)"
  shows "method_test_CRS_mif_maf sbbr objname flag mn mx len gra tag = Some [] \<longleftrightarrow>
    address_space_allowed (bit flag 2) (bit flag 3) mn mx len gra"
  using assms
  by (auto simp: method_test_CRS_mif_maf_def address_space_allowed_def Let_def granule)

text \<open>
  With a fixed maximum and no length the maximum has to be a multiple of granularity + 1, minus 1;
  the code divides by granularity - 1 instead and reports a maximum of one granule.
\<close>

lemma maf_rejects:
  assumes "gra > 2" and "bit flag 3" and "\<not> bit flag 2"
  shows "method_test_CRS_mif_maf False objname flag mn gra 0 gra tag =
    Some [Failed LOG_LEVEL_MEDIUM (''Method'' @ objname @ tag @ ''MaxNotMultipleOfGran''), Advice]"
proof -
  have g: "2 < unat gra" using assms(1) by (simp add: word_less_nat_alt)
  have "unat (gra - 1) = unat gra - 1" using g by (intro unat_sub_if_size [THEN trans]) (simp add: word_le_nat_alt)
  then have "unat (gra mod (gra - 1)) = unat gra mod (unat gra - 1)" by (simp add: unat_mod)
  also have "\<dots> = 1"
  proof -
    have "unat gra = 1 + (unat gra - 1)" using g by simp
    then have "unat gra mod (unat gra - 1) = 1 mod (unat gra - 1)" by (metis mod_add_self2)
    then show ?thesis using g by simp
  qed
  finally have "gra mod (gra - 1) \<noteq> 0" by (metis unat_0 zero_neq_one)
  moreover have "gra - 1 \<noteq> 0" using assms(1) by auto
  ultimately show ?thesis using assms by (simp add: method_test_CRS_mif_maf_def mif_maf_issue_def Let_def)
qed

end
