(* ===== verification/Fwts_Returns.thy ===== *)
theory Fwts_Returns
  imports Fwts_Crs
begin

text \<open>
  The checks of what an ACPI object returned, of src/src/lib/src/fwts_acpi_object_eval.c: those
  that many objects share, and those of single objects that several test modules use. Each is named
  as its C function; name is the path of the object and buf what the evaluation returned.
\<close>

named_theorems returns_defs "the checks of what an object returned"

section \<open>Checks that many objects share\<close>

definition fwts_method_test_integer_return :: "cstr \<Rightarrow> ACPI_BUFFER \<Rightarrow> outcome" where [returns_defs]:
  "fwts_method_test_integer_return name buf = checked name buf ACPI_TYPE_INTEGER (\<lambda>obj. Some [Passed])"

definition fwts_method_test_string_return :: "cstr \<Rightarrow> ACPI_BUFFER \<Rightarrow> outcome" where [returns_defs]:
  "fwts_method_test_string_return name buf = checked name buf ACPI_TYPE_STRING (\<lambda>obj. Some [Passed])"

definition fwts_method_test_reference_return :: "cstr \<Rightarrow> ACPI_BUFFER \<Rightarrow> outcome" where [returns_defs]:
  "fwts_method_test_reference_return name buf = checked name buf ACPI_TYPE_LOCAL_REFERENCE (\<lambda>obj. Some [Passed])"

text \<open>In the slack mode of ACPICA an object that returns nothing may return an integer.\<close>

definition fwts_method_test_NULL_return :: "bool \<Rightarrow> cstr \<Rightarrow> ACPI_BUFFER \<Rightarrow> outcome" where [returns_defs]:
  "fwts_method_test_NULL_return slack name buf = Some
     (case buf of
        None \<Rightarrow> [Passed]
      | Some obj \<Rightarrow>
          if slack \<and> fwts_method_type_matches (object_type obj) ACPI_TYPE_INTEGER then [Passed]
          else [Failed LOG_LEVEL_MEDIUM ''MethodShouldReturnNothing'', Advice])"

definition fwts_method_test_buffer_return :: "cstr \<Rightarrow> ACPI_BUFFER \<Rightarrow> outcome" where [returns_defs]:
  "fwts_method_test_buffer_return name buf =
     checked name buf ACPI_TYPE_BUFFER (\<lambda>obj. do { b \<leftarrow> buffer_bytes obj; Some [Passed] })"

definition fwts_method_test_all_reference_package_return :: "cstr \<Rightarrow> ACPI_BUFFER \<Rightarrow> outcome" where [returns_defs]:
  "fwts_method_test_all_reference_package_return name buf =
     checked name buf ACPI_TYPE_PACKAGE (\<lambda>obj.
       on_ok (fwts_method_package_elements_all_type name obj ACPI_TYPE_LOCAL_REFERENCE) (Some [Passed]))"

definition fwts_method_test_integer_reserved_bits_return :: "u64 \<Rightarrow> cstr \<Rightarrow> ACPI_BUFFER \<Rightarrow> outcome" where [returns_defs]:
  "fwts_method_test_integer_reserved_bits_return msk name buf =
     checked name buf ACPI_TYPE_INTEGER (\<lambda>obj. do {
       v \<leftarrow> int_value obj;
       Some (pass_or (v AND msk = 0) (Failed LOG_LEVEL_MEDIUM ''MethodIllegalReserved'')) })"

definition fwts_method_test_integer_max_return :: "u64 \<Rightarrow> cstr \<Rightarrow> ACPI_BUFFER \<Rightarrow> outcome" where [returns_defs]:
  "fwts_method_test_integer_max_return mx name buf =
     checked name buf ACPI_TYPE_INTEGER (\<lambda>obj. do {
       v \<leftarrow> int_value obj;
       Some (pass_or (v \<le> mx) (Failed LOG_LEVEL_HIGH ''MethodOutOfRangeValue'')) })"

definition fwts_method_test_package_integer_return :: "nat \<Rightarrow> cstr \<Rightarrow> ACPI_BUFFER \<Rightarrow> outcome" where [returns_defs]:
  "fwts_method_test_package_integer_return element_size name buf =
     (if length name < 4 then Some []
      else checked name buf ACPI_TYPE_PACKAGE (\<lambda>obj.
        on_ok (fwts_method_package_count_equal name obj element_size)
          (on_ok (fwts_method_package_elements_all_type name obj ACPI_TYPE_INTEGER) (Some [Passed]))))"

text \<open>Only the low 32 bits of a returned zero or one are looked at.\<close>

definition fwts_method_test_passed_failed_return :: "cstr \<Rightarrow> ACPI_BUFFER \<Rightarrow> outcome" where [returns_defs]:
  "fwts_method_test_passed_failed_return name buf =
     checked name buf ACPI_TYPE_INTEGER (\<lambda>obj. do {
       v \<leftarrow> int_value obj;
       let val = (ucast v :: u32);
       Some (if val = 0 \<or> val = 1 then [Passed] else [Failed LOG_LEVEL_CRITICAL ''MethodReturnZeroOrOne'', Advice]) })"

definition fwts_method_test_polling_return :: "cstr \<Rightarrow> ACPI_BUFFER \<Rightarrow> outcome" where [returns_defs]:
  "fwts_method_test_polling_return name buf =
     checked name buf ACPI_TYPE_INTEGER (\<lambda>obj. do {
       v \<leftarrow> int_value obj;
       Some (if v < 36000 then [Passed] else [Failed LOG_LEVEL_CRITICAL ''MethodPollTimeTooLong'', Advice]) })"

section \<open>Names of devices\<close>

definition isupper :: "char \<Rightarrow> bool" where
  "isupper c \<longleftrightarrow> 65 \<le> (of_char c :: nat) \<and> (of_char c :: nat) \<le> 90"

definition is_xdigit :: "char \<Rightarrow> bool" where
  "is_xdigit c \<longleftrightarrow> isdigit c \<or> 65 \<le> (of_char c :: nat) \<and> (of_char c :: nat) \<le> 70 \<or>
     97 \<le> (of_char c :: nat) \<and> (of_char c :: nat) \<le> 102"

definition fwts_method_valid_HID_string :: "cstr \<Rightarrow> bool" where
  "fwts_method_valid_HID_string str =
     (if length str = 7 then
        (if \<not> isupper (str ! 0) \<or> \<not> isupper (str ! 1) \<or> \<not> isupper (str ! 2) then False
         else \<not> (\<not> is_xdigit (str ! 3) \<or> \<not> is_xdigit (str ! 4) \<or> \<not> is_xdigit (str ! 5) \<or> \<not> is_xdigit (str ! 6)))
      else if length str = 8 then
        (if (\<not> isupper (str ! 0) \<and> \<not> isdigit (str ! 0)) \<or> (\<not> isupper (str ! 1) \<and> \<not> isdigit (str ! 1)) \<or>
            (\<not> isupper (str ! 2) \<and> \<not> isdigit (str ! 2)) \<or> (\<not> isupper (str ! 3) \<and> \<not> isdigit (str ! 3)) then False
         else \<not> (\<not> is_xdigit (str ! 4) \<or> \<not> is_xdigit (str ! 5) \<or> \<not> is_xdigit (str ! 6) \<or> \<not> is_xdigit (str ! 7)))
      else False)"

text \<open>An EISA ID: three letters of 5 bits, big endian, and two bytes that are printed in hex.\<close>

definition hex_upper :: "nat \<Rightarrow> char" where
  "hex_upper d = (if d < 10 then digit_char d else char_of (d + 55))"

definition eisa_letters :: "u32 \<Rightarrow> nat list" where
  "eisa_letters i =
     [0x40 + unat (drop_bit 2 i AND 0x1f),
      0x40 + unat (push_bit 3 (i AND 0x3)) + unat (drop_bit 13 i AND 0x7),
      0x40 + unat (drop_bit 8 i AND 0x1f)]"

definition eisa_string :: "u32 \<Rightarrow> cstr" where
  "eisa_string i = map char_of (eisa_letters i) @
     (let b = unat (drop_bit 16 i AND 0xff) in [hex_upper (b div 16), hex_upper (b mod 16)]) @
     (let b = unat (drop_bit 24 i AND 0xff) in [hex_upper (b div 16), hex_upper (b mod 16)])"

definition fwts_method_valid_EISA_ID :: "u32 \<Rightarrow> bool" where
  "fwts_method_valid_EISA_ID i = (let buf = eisa_string i in isupper (buf ! 0) \<and> isupper (buf ! 1) \<and> isupper (buf ! 2))"

section \<open>Device identification objects\<close>

text \<open>The checks of _CID, _HID and _SUB differ in the labels of their failures.\<close>

definition id_string_report :: "cstr \<Rightarrow> cstr option \<Rightarrow> report" where
  "id_string_report obj s =
     (case s of
        None \<Rightarrow> Failed LOG_LEVEL_MEDIUM (''Method_'' @ obj @ ''NullString'')
      | Some str \<Rightarrow>
          if fwts_method_valid_HID_string str then Passed
          else Failed LOG_LEVEL_MEDIUM (''Method'' @ obj @ ''InvalidString''))"

definition id_integer_report :: "cstr \<Rightarrow> u64 \<Rightarrow> report" where
  "id_integer_report obj v =
     (if fwts_method_valid_EISA_ID (ucast v) then Passed
      else Failed LOG_LEVEL_MEDIUM (''Method'' @ obj @ ''InvalidInteger''))"

fun fwts_method_valid_CID_Type :: "ACPI_OBJECT \<Rightarrow> report list" where
  "fwts_method_valid_CID_Type (String s) = [id_string_report ''CID'' s]"
| "fwts_method_valid_CID_Type (Integer v) = [id_integer_report ''CID'' v]"
| "fwts_method_valid_CID_Type _ = []"

definition fwts_method_test_CID_return :: "cstr \<Rightarrow> ACPI_BUFFER \<Rightarrow> outcome" where [returns_defs]:
  "fwts_method_test_CID_return name buf =
     (case buf of
        None \<Rightarrow> Some (fwts_method_failed_null_object name)
      | Some obj \<Rightarrow>
          if object_type obj = ACPI_TYPE_STRING \<or> object_type obj = ACPI_TYPE_INTEGER
          then Some (fwts_method_valid_CID_Type obj)
          else if object_type obj = ACPI_TYPE_PACKAGE then
            on_ok (fwts_method_package_count_min name obj 1) (do {
              es \<leftarrow> elements obj;
              Some (concat (map fwts_method_valid_CID_Type es)) })
          else Some [Failed LOG_LEVEL_MEDIUM ''Method_CIDBadReturnType''])"

definition fwts_method_test_HID_return :: "cstr \<Rightarrow> ACPI_BUFFER \<Rightarrow> outcome" where [returns_defs]:
  "fwts_method_test_HID_return name buf = Some
     (case buf of
        None \<Rightarrow> fwts_method_failed_null_object name
      | Some (String s) \<Rightarrow> [id_string_report ''HID'' s]
      | Some (Integer v) \<Rightarrow> [id_integer_report ''HID'' v]
      | Some _ \<Rightarrow> [Failed LOG_LEVEL_MEDIUM ''Method_HIDBadReturnType''])"

definition fwts_method_test_SUB_return :: "cstr \<Rightarrow> ACPI_BUFFER \<Rightarrow> outcome" where [returns_defs]:
  "fwts_method_test_SUB_return name buf = Some
     (case buf of
        None \<Rightarrow> fwts_method_failed_null_object name
      | Some (String s) \<Rightarrow> [id_string_report ''SUB'' s]
      | Some _ \<Rightarrow> [Failed LOG_LEVEL_MEDIUM ''Method_SUBBadReturnType''])"

definition fwts_method_test_UID_return :: "cstr \<Rightarrow> ACPI_BUFFER \<Rightarrow> outcome" where [returns_defs]:
  "fwts_method_test_UID_return name buf = Some
     (case buf of
        None \<Rightarrow> fwts_method_failed_null_object name
      | Some (String s) \<Rightarrow> pass_or (s \<noteq> None) (Failed LOG_LEVEL_MEDIUM ''Method_UIDNullString'')
      | Some (Integer v) \<Rightarrow> [Passed]
      | Some _ \<Rightarrow> [Failed LOG_LEVEL_MEDIUM ''Method_UIDBadReturnType''])"

definition MLS_subpackage :: "cstr \<Rightarrow> ACPI_OBJECT \<Rightarrow> outcome" where [returns_defs]:
  "MLS_subpackage name pkg = do {
     es \<leftarrow> elements pkg;
     if length es \<noteq> 2 then Some [Failed LOG_LEVEL_MEDIUM ''Method_MLSSubPackageElementCount'']
     else do {
       t0 \<leftarrow> type_at pkg 0;
       t1 \<leftarrow> type_at pkg 1;
       Some (fail_if (t0 \<noteq> ACPI_TYPE_STRING) (Failed LOG_LEVEL_MEDIUM ''Method_MLSBadSubPackageReturnType'') @
             fail_if (t1 \<noteq> ACPI_TYPE_BUFFER) (Failed LOG_LEVEL_MEDIUM ''Method_MLSBadSubPackageReturnType'')) } }"

definition fwts_method_test_MLS_return :: "cstr \<Rightarrow> ACPI_BUFFER \<Rightarrow> outcome" where [returns_defs]:
  "fwts_method_test_MLS_return name buf =
     checked name buf ACPI_TYPE_PACKAGE (\<lambda>obj.
       on_ok (fwts_method_package_elements_all_type name obj ACPI_TYPE_PACKAGE) (do {
         es \<leftarrow> elements obj;
         sane_or (each (MLS_subpackage name) es) }))"

definition fwts_method_test_PLD_return :: "cstr \<Rightarrow> ACPI_BUFFER \<Rightarrow> outcome" where [returns_defs]:
  "fwts_method_test_PLD_return name buf =
     checked name buf ACPI_TYPE_PACKAGE (\<lambda>obj.
       on_ok (fwts_method_package_elements_all_type name obj ACPI_TYPE_BUFFER) (Some [Passed]))"

section \<open>NVDIMM devices\<close>

definition nch_return_t :: layout where [layouts]:
  "nch_return_t = [(''status'', 2), (''extended_status'', 2), (''validation_flags'', 2),
     (''health_status_flags'', 4), (''health_status_attributes'', 4), (''reserved'', 50)]"

definition nbs_return_t :: layout where [layouts]:
  "nbs_return_t = [(''status'', 2), (''extended_status'', 2), (''validation_flags'', 2),
     (''data_loss_count'', 4), (''reserved'', 54)]"

definition nic_return_t :: layout where [layouts]:
  "nic_return_t = [(''status'', 2), (''extended_status'', 2), (''health_error_injection'', 4),
     (''health_status_attributes'', 4), (''reserved'', 52)]"

definition nih_return_t :: layout where [layouts]:
  "nih_return_t = [(''status'', 2), (''extended_status'', 2)]"

definition nig_return_t :: layout where [layouts]:
  "nig_return_t = [(''status'', 2), (''extended_status'', 2), (''validation_flags'', 2),
     (''health_status_errors'', 4), (''health_status_attributes'', 4), (''reserved'', 50)]"

definition check_nvdimm_status :: "u64 \<Rightarrow> report list" where
  "check_nvdimm_status status = fail_if (status > 6) (Failed LOG_LEVEL_MEDIUM ''MethodBadStatus'')"

definition check_nvdimm_extended_status :: "u64 \<Rightarrow> u64 \<Rightarrow> report list" where
  "check_nvdimm_extended_status ext_status expected =
     fail_if (ext_status \<noteq> expected) (Failed LOG_LEVEL_MEDIUM ''MethodBadExtendedStatus'')"

text \<open>
  A buffer of the wrong size is reported, and its members are checked all the same: k gets the
  bytes of the buffer.
\<close>

definition nvdimm_buffer :: "cstr \<Rightarrow> ACPI_BUFFER \<Rightarrow> nat \<Rightarrow> layout \<Rightarrow> u64 \<Rightarrow> (bytes \<Rightarrow> outcome) \<Rightarrow> outcome" where
  "nvdimm_buffer name buf sz l expected k =
     checked name buf ACPI_TYPE_BUFFER (\<lambda>obj. sane_or (
       both (fwts_method_buffer_size name obj sz) (do {
         b \<leftarrow> buffer_bytes obj;
         bs \<leftarrow> b;
         status \<leftarrow> get bs 0 l ''status'';
         ext \<leftarrow> get bs 0 l ''extended_status'';
         both (Some (check_nvdimm_status status @ check_nvdimm_extended_status ext expected)) (k bs) })))"

definition fwts_method_test_NBS_return :: "cstr \<Rightarrow> ACPI_BUFFER \<Rightarrow> outcome" where [returns_defs]:
  "fwts_method_test_NBS_return name buf = nvdimm_buffer name buf 64 nbs_return_t 0 (\<lambda>bs. do {
     vf \<leftarrow> get bs 0 nbs_return_t ''validation_flags'';
     Some (fwts_acpi_reserved_bits ''_NBS'' ''Validation Flags'' vf 1 15) })"

definition health_bits :: "cstr \<Rightarrow> cstr \<Rightarrow> u64 \<Rightarrow> report list" where
  "health_bits obj field v =
     fwts_acpi_reserved_bits obj field v 2 7 @ fwts_acpi_reserved_bits obj field v 11 15 @
     fwts_acpi_reserved_bits obj field v 19 31"

definition fwts_method_test_NCH_return :: "cstr \<Rightarrow> ACPI_BUFFER \<Rightarrow> outcome" where [returns_defs]:
  "fwts_method_test_NCH_return name buf = nvdimm_buffer name buf 64 nch_return_t 0 (\<lambda>bs. do {
     ext \<leftarrow> get bs 0 nch_return_t ''extended_status'';
     hf \<leftarrow> get bs 0 nch_return_t ''health_status_flags'';
     ha \<leftarrow> get bs 0 nch_return_t ''health_status_attributes'';
     Some (fwts_acpi_reserved_bits ''_NCH'' ''Validation Flags'' ext 2 15 @
           health_bits ''_NCH'' ''Health Status Flags'' hf @
           fwts_acpi_reserved_bits ''_NCH'' ''Health Status Attributes'' ha 1 31) })"

definition fwts_method_test_NIC_return :: "cstr \<Rightarrow> ACPI_BUFFER \<Rightarrow> outcome" where [returns_defs]:
  "fwts_method_test_NIC_return name buf = nvdimm_buffer name buf 64 nic_return_t 0 (\<lambda>bs. do {
     hi \<leftarrow> get bs 0 nic_return_t ''health_error_injection'';
     ha \<leftarrow> get bs 0 nic_return_t ''health_status_attributes'';
     Some (health_bits ''_NIC'' ''Health Error Injection Capabilities'' hi @
           fwts_acpi_reserved_bits ''_NIC'' ''Health Status Attributes Capabilities'' ha 1 31) })"

definition fwts_method_test_NIH_return :: "cstr \<Rightarrow> ACPI_BUFFER \<Rightarrow> outcome" where [returns_defs]:
  "fwts_method_test_NIH_return name buf = nvdimm_buffer name buf 4 nih_return_t 1 (\<lambda>bs. Some [])"

definition fwts_method_test_NIG_return :: "cstr \<Rightarrow> ACPI_BUFFER \<Rightarrow> outcome" where [returns_defs]:
  "fwts_method_test_NIG_return name buf = nvdimm_buffer name buf 64 nig_return_t 0 (\<lambda>bs. do {
     vf \<leftarrow> get bs 0 nig_return_t ''validation_flags'';
     he \<leftarrow> get bs 0 nig_return_t ''health_status_errors'';
     ha \<leftarrow> get bs 0 nig_return_t ''health_status_attributes'';
     Some (fwts_acpi_reserved_bits ''_NIG'' ''Validation Flags'' vf 2 15 @
           health_bits ''_NIG'' ''Injected Health Status Errors'' he @
           fwts_acpi_reserved_bits ''_NIG'' ''Health Status Attributes of Injected Errors'' ha 1 31) })"

section \<open>Device status and batteries\<close>

definition fwts_method_test_STA_return :: "cstr \<Rightarrow> ACPI_BUFFER \<Rightarrow> outcome" where [returns_defs]:
  "fwts_method_test_STA_return name buf =
     checked name buf ACPI_TYPE_INTEGER (\<lambda>obj. do {
       v \<leftarrow> int_value obj;
       Some (no_issues (fail_if (v AND 3 = 2) (Failed LOG_LEVEL_MEDIUM ''Method_STAEnabledNotPresent'') @
                        fwts_acpi_reserved_bits ''_STA'' ''Reserved Bits'' v 5 31)) })"

text \<open>
  _BMD and _BST hand a flag that says whether a check failed to fwts_acpi_reserved_bits, which
  clears the flag where it should set it. So a reserved bit is reported, but the verdict is that of
  a sane package.
\<close>

definition fwts_method_test_BMD_return :: "cstr \<Rightarrow> ACPI_BUFFER \<Rightarrow> outcome" where [returns_defs]:
  "fwts_method_test_BMD_return name buf =
     checked name buf ACPI_TYPE_PACKAGE (\<lambda>obj.
       on_ok (fwts_method_package_count_equal name obj 5)
         (on_ok (fwts_method_package_elements_all_type name obj ACPI_TYPE_INTEGER) (do {
            status \<leftarrow> int_at obj 0;
            capabilities \<leftarrow> int_at obj 1;
            Some (fwts_acpi_reserved_bits ''_BMD'' ''Status Flags'' status 7 31 @
                  fwts_acpi_reserved_bits ''_BMD'' ''Capability Flags'' capabilities 6 31 @ [Passed]) })))"

definition bst_elements :: "nat list" where "bst_elements = replicate 4 ACPI_TYPE_INTEGER"

definition fwts_method_test_BST_return :: "cstr \<Rightarrow> ACPI_BUFFER \<Rightarrow> outcome" where [returns_defs]:
  "fwts_method_test_BST_return name buf =
     checked name buf ACPI_TYPE_PACKAGE (\<lambda>obj.
       on_ok (fwts_method_package_elements_type name obj bst_elements) (do {
         v \<leftarrow> int_at obj 0;
         Some (fwts_acpi_reserved_bits ''_BST'' ''Battery State'' v 4 31 @
               (if v AND 3 = 3 then [Failed LOG_LEVEL_CRITICAL ''Method_BSTBadState'', Advice] else [Passed])) }))"

definition bif_elements :: "nat list" where
  "bif_elements = replicate 9 ACPI_TYPE_INTEGER @ replicate 4 ACPI_TYPE_STRING"

definition fwts_method_test_BIF_return :: "cstr \<Rightarrow> ACPI_BUFFER \<Rightarrow> outcome" where [returns_defs]:
  "fwts_method_test_BIF_return name buf =
     checked name buf ACPI_TYPE_PACKAGE (\<lambda>obj.
       on_ok (fwts_method_package_elements_type name obj bif_elements) (do {
         units \<leftarrow> int_at obj 0;
         tech \<leftarrow> int_at obj 3;
         sane_or_advice (Some (
           fail_if (units > 2) (Failed LOG_LEVEL_CRITICAL ''Method_BIFBadUnits'') @
           fail_if (tech > 2) (Failed LOG_LEVEL_MEDIUM ''Method_BIFBatTechUnit''))) }))"

definition bix_elements :: "nat list" where
  "bix_elements = replicate 16 ACPI_TYPE_INTEGER @ replicate 4 ACPI_TYPE_STRING"

definition bix_elements_v1 :: "nat list" where
  "bix_elements_v1 = replicate 16 ACPI_TYPE_INTEGER @ replicate 4 ACPI_TYPE_STRING @ [ACPI_TYPE_INTEGER]"

definition bix_revision :: "ACPI_OBJECT \<Rightarrow> u64 option" where
  "bix_revision obj = do {
     es \<leftarrow> elements obj;
     if length es > 1 then do {
       t \<leftarrow> type_at obj 0;
       if t = ACPI_TYPE_INTEGER then int_at obj 0 else Some 0 }
     else Some 0 }"

definition BIX_fields :: "u64 \<Rightarrow> ACPI_OBJECT \<Rightarrow> outcome" where
  "BIX_fields revision obj = do {
     units \<leftarrow> int_at obj 1;
     tech \<leftarrow> int_at obj 4;
     swapping \<leftarrow> (if revision = 1 then int_at obj 20 else Some 0);
     Some (
       fail_if (units > 2) (Failed LOG_LEVEL_CRITICAL ''Method_BIXPowerUnit'') @
       fail_if (tech > 2) (Failed LOG_LEVEL_MEDIUM ''Method_BIXBatteryTechUnit'') @
       fail_if (revision = 1 \<and> swapping > 2) (Failed LOG_LEVEL_CRITICAL ''Method_BIXSwappingCapability'')) }"

definition fwts_method_test_BIX_return :: "cstr \<Rightarrow> ACPI_BUFFER \<Rightarrow> outcome" where [returns_defs]:
  "fwts_method_test_BIX_return name buf =
     checked name buf ACPI_TYPE_PACKAGE (\<lambda>obj. do {
       revision \<leftarrow> bix_revision obj;
       if revision > 1 then Some [Failed LOG_LEVEL_CRITICAL ''Method_BIXRevision'']
       else on_ok (fwts_method_package_elements_type name obj (if revision = 0 then bix_elements else bix_elements_v1))
         (sane_or_advice (BIX_fields revision obj)) })"

text \<open>A revision is compared in 32 bits.\<close>

definition bpc_elements :: "nat list" where "bpc_elements = replicate 4 ACPI_TYPE_INTEGER"
definition bps_elements :: "nat list" where "bps_elements = replicate 5 ACPI_TYPE_INTEGER"

definition fwts_method_test_BPC_return :: "cstr \<Rightarrow> ACPI_BUFFER \<Rightarrow> outcome" where [returns_defs]:
  "fwts_method_test_BPC_return name buf =
     checked name buf ACPI_TYPE_PACKAGE (\<lambda>obj.
       on_ok (fwts_method_package_elements_type name obj bpc_elements) (do {
         revision \<leftarrow> int_at obj 0;
         support \<leftarrow> int_at obj 1;
         let (rs, ok) = fwts_method_test_revision name (ucast revision) 1;
         let rs' = fwts_acpi_reserved_bits ''_BPC'' ''Power Threshold Support Capability'' support 2 31;
         Some (rs @ rs' @ (if ok \<and> rs' = [] then [Passed] else [Advice])) }))"

definition fwts_method_test_BPS_return :: "cstr \<Rightarrow> ACPI_BUFFER \<Rightarrow> outcome" where [returns_defs]:
  "fwts_method_test_BPS_return name buf =
     checked name buf ACPI_TYPE_PACKAGE (\<lambda>obj.
       on_ok (fwts_method_package_elements_type name obj bps_elements) (do {
         revision \<leftarrow> int_at obj 0;
         let (rs, ok) = fwts_method_test_revision name (ucast revision) 1;
         Some (rs @ (if ok then [Passed] else [Advice])) }))"

end
