(* ===== verification/Fwts_Evaluate.thy ===== *)
theory Fwts_Evaluate
  imports Fwts_Returns
begin

text \<open>
  Evaluating ACPI objects: the rest of src/src/lib/src/fwts_acpi_object_eval.c, and the two
  functions of src/src/acpi/method/method.c that find the objects of a name and evaluate them.

  The namespace and the interpreter are those of ACPICA, parameters of the model: a record of the
  functions that the code calls. The interpreter has a state of its own, of any type; an evaluation
  gives a status, the object that was returned, the locks it acquired and released, whether an
  operation region was accessed, and the next state. A test is a function of the state of the
  evaluations, and gives its reports, its return value and the next state.
\<close>

section \<open>ACPICA\<close>

record ACPI_RESOURCE =
  res_type :: nat
  res_length :: nat
  gpio_connection :: nat
  gpio_source :: cstr
  gpio_source_length :: nat
  gpio_pins :: "u64 list"

record 's evaluation =
  ev_status :: u32
  ev_result :: ACPI_BUFFER
  ev_acquired :: int
  ev_released :: int
  ev_region :: bool
  ev_next :: 's

text \<open>
  The namespace by the path of an object (with the path of its parent, empty for the root), and what
  else the tests ask about the machine and the options: the names of all objects, whether resources
  can be decoded, the --sbbr option, the slack mode of ACPICA, the version of ACPI, whether the FADT
  says that the platform is mobile, whether it is hardware reduced and whether it has a backlight.
\<close>

record 's method_env =
  object_names :: "cstr list option"
  AcpiGetHandle :: "cstr \<Rightarrow> cstr \<Rightarrow> u32"
  AcpiGetType :: "cstr \<Rightarrow> nat option"
  AcpiEvaluateObject :: "cstr \<Rightarrow> cstr \<Rightarrow> ACPI_OBJECT list \<Rightarrow> 's \<Rightarrow> 's evaluation"
  AcpiBufferToResource :: "bytes \<Rightarrow> ACPI_RESOURCE list option"
  env_sbbr :: bool
  env_slack :: bool
  env_acpi_version :: nat
  env_mobile :: bool
  env_reduced_hardware :: bool
  env_backlight :: bool
  env_stack :: "nat \<Rightarrow> u8"

record 's method_state =
  interpreter :: 's
  locks_acquired :: int
  locks_released :: int
  region_handler_called :: bool
  gcp_return_value :: u32

abbreviation (input) AE_OK :: u32 where "AE_OK \<equiv> 0"
abbreviation (input) AE_NOT_FOUND :: u32 where "AE_NOT_FOUND \<equiv> 5"

definition ACPI_FAILURE :: "u32 \<Rightarrow> bool" where
  "ACPI_FAILURE status \<longleftrightarrow> status \<noteq> AE_OK"

definition FWTS_NOT_EXIST :: int where "FWTS_NOT_EXIST = -7"

section \<open>Types of checks and tests\<close>

type_synonym 's check = "cstr \<Rightarrow> ACPI_BUFFER \<Rightarrow> 's method_state \<Rightarrow> (report list \<times> 's method_state) option"
type_synonym 's method_test = "'s method_state \<Rightarrow> (report list \<times> int \<times> 's method_state) option"

definition pure_check :: "(cstr \<Rightarrow> ACPI_BUFFER \<Rightarrow> outcome) \<Rightarrow> 's check" where
  "pure_check c name buf st = map_option (\<lambda>rs. (rs, st)) (c name buf)"

section \<open>Errors of an evaluation\<close>

definition acpi_eval_errors :: "(u32 \<times> u32 \<times> cstr) list" where
  "acpi_eval_errors = [
     (0x1, LOG_LEVEL_HIGH, ''AEError''), (0x2, LOG_LEVEL_HIGH, ''AENoACPITables''),
     (0x3, LOG_LEVEL_HIGH, ''AENoNamespace''), (0x4, LOG_LEVEL_CRITICAL, ''AENoMemory''),
     (0x5, LOG_LEVEL_CRITICAL, ''AENotFound''), (0x6, LOG_LEVEL_CRITICAL, ''AENotExist''),
     (0x7, LOG_LEVEL_HIGH, ''AEAlreadyExists''), (0x8, LOG_LEVEL_CRITICAL, ''AETtype''),
     (0x9, LOG_LEVEL_CRITICAL, ''AENullObject''), (0xa, LOG_LEVEL_CRITICAL, ''AENullEntry''),
     (0xb, LOG_LEVEL_CRITICAL, ''AEBufferOverflow''), (0xc, LOG_LEVEL_CRITICAL, ''AEStackOverflow''),
     (0xd, LOG_LEVEL_CRITICAL, ''AEStackUnderflow''), (0xe, LOG_LEVEL_HIGH, ''AENotImplemented''),
     (0xf, LOG_LEVEL_HIGH, ''AESupport''), (0x10, LOG_LEVEL_CRITICAL, ''AELimit''),
     (0x11, LOG_LEVEL_HIGH, ''AETime''), (0x12, LOG_LEVEL_CRITICAL, ''AEAcqDeadlock''),
     (0x13, LOG_LEVEL_CRITICAL, ''AERelDeadlock''), (0x14, LOG_LEVEL_CRITICAL, ''AENotAcq''),
     (0x15, LOG_LEVEL_CRITICAL, ''AEAlreadyAcq''), (0x16, LOG_LEVEL_HIGH, ''AENoHWResponse''),
     (0x17, LOG_LEVEL_HIGH, ''AENoGlobalLock''), (0x18, LOG_LEVEL_CRITICAL, ''AEAbortMethod''),
     (0x19, LOG_LEVEL_HIGH, ''AESameHandler''), (0x1a, LOG_LEVEL_CRITICAL, ''AENoHandler''),
     (0x1b, LOG_LEVEL_HIGH, ''AEOwnerIDLimit''), (0x1001, LOG_LEVEL_HIGH, ''AEBadParam''),
     (0x1002, LOG_LEVEL_HIGH, ''AEBadChar''), (0x1003, LOG_LEVEL_HIGH, ''AEBadPathname''),
     (0x1004, LOG_LEVEL_HIGH, ''AEBadData''), (0x1005, LOG_LEVEL_HIGH, ''AEBadHexConst''),
     (0x1006, LOG_LEVEL_HIGH, ''AEBadOctConst''), (0x1007, LOG_LEVEL_HIGH, ''AEBadDecConst''),
     (0x1008, LOG_LEVEL_CRITICAL, ''AEMissingArgs''), (0x1009, LOG_LEVEL_CRITICAL, ''AEBadAddr''),
     (0x3001, LOG_LEVEL_CRITICAL, ''AEAMLBadOpCode''), (0x3002, LOG_LEVEL_HIGH, ''AEAMLNoOperand''),
     (0x3003, LOG_LEVEL_HIGH, ''AEAMLOperandType''), (0x3004, LOG_LEVEL_HIGH, ''AEAMLOperandValue''),
     (0x3005, LOG_LEVEL_HIGH, ''AEAMLUninitLocal''), (0x3006, LOG_LEVEL_HIGH, ''AEAMLUninitArg''),
     (0x3007, LOG_LEVEL_HIGH, ''AEAMLUninitElement''), (0x3008, LOG_LEVEL_HIGH, ''AEAMLNumericOverflow''),
     (0x3009, LOG_LEVEL_CRITICAL, ''AEAMLRegionLimit''), (0x300a, LOG_LEVEL_CRITICAL, ''AEAMLBufferLimit''),
     (0x300b, LOG_LEVEL_CRITICAL, ''AEAMLPackgeLimit''), (0x300c, LOG_LEVEL_CRITICAL, ''AEAMLDivideByZero''),
     (0x300e, LOG_LEVEL_HIGH, ''AEAMLNameNotFound''), (0x300f, LOG_LEVEL_HIGH, ''AEAMLInternal''),
     (0x3010, LOG_LEVEL_HIGH, ''AEAMLInvalidSpaceID''), (0x3011, LOG_LEVEL_HIGH, ''AEAMLStringLimit''),
     (0x3012, LOG_LEVEL_HIGH, ''AEAMLNoReturnValue''), (0x3013, LOG_LEVEL_HIGH, ''AEAMLMethodLimit''),
     (0x3014, LOG_LEVEL_HIGH, ''AEAMLNotOwner''), (0x3015, LOG_LEVEL_HIGH, ''AEAMLMutexOrder''),
     (0x3016, LOG_LEVEL_HIGH, ''AEAMLMutexNotAcq''), (0x3017, LOG_LEVEL_HIGH, ''AEAMLInvResourceType''),
     (0x3018, LOG_LEVEL_HIGH, ''AEAMLInvIndex''), (0x3019, LOG_LEVEL_HIGH, ''AEAMLRegisterLimit''),
     (0x301a, LOG_LEVEL_CRITICAL, ''AEAMLNoWhile''), (0x301b, LOG_LEVEL_CRITICAL, ''AEAMLAlignment''),
     (0x301c, LOG_LEVEL_HIGH, ''AEAMLNoResEndTag''), (0x301d, LOG_LEVEL_HIGH, ''AEAMLBadResValue''),
     (0x301e, LOG_LEVEL_CRITICAL, ''AEAMLCircularRef''), (0x301f, LOG_LEVEL_HIGH, ''AEAMLBadResLength''),
     (0x3020, LOG_LEVEL_CRITICAL, ''AEAMLIllegalAddr''), (0x3022, LOG_LEVEL_HIGH, ''AEAMLUninitNode''),
     (0x3023, LOG_LEVEL_HIGH, ''AEAMLTargetType''), (0x3024, LOG_LEVEL_HIGH, ''AEAMLViolateProtocol''),
     (0x3025, LOG_LEVEL_HIGH, ''AEAMLBadBufLength'')]"

definition fwts_acpi_object_evaluate_report_error :: "u32 \<Rightarrow> report list" where
  "fwts_acpi_object_evaluate_report_error status =
     (case List.find (\<lambda>(code, level, label). code = status) acpi_eval_errors of
        Some (code, level, label) \<Rightarrow> [Failed level label, Advice]
      | None \<Rightarrow>
          if status = AE_OK then []
          else if status = 0x3021 then [Warning, Advice]
          else [Failed LOG_LEVEL_MEDIUM ''AMLFailedToEvaluate''])"

section \<open>Names\<close>

text \<open>
  strncmp (name, method_name + len - name_len, name_len) = 0. The C pointer is before the start of
  a path that is shorter than the name.
\<close>

definition name_matches :: "cstr \<Rightarrow> cstr \<Rightarrow> bool option" where
  "name_matches name path =
     (if length path < length name then None else Some (drop (length path - length name) path = name))"

fun first_named :: "cstr \<Rightarrow> cstr list \<Rightarrow> cstr option option" where
  "first_named name [] = Some None"
| "first_named name (path # paths) = do {
     m \<leftarrow> name_matches name path;
     if m then Some (Some path) else first_named name paths }"

definition fwts_acpi_object_exists :: "'s method_env \<Rightarrow> cstr \<Rightarrow> cstr option option" where
  "fwts_acpi_object_exists env name =
     (case object_names env of None \<Rightarrow> Some None | Some paths \<Rightarrow> first_named name paths)"

section \<open>One evaluation\<close>

definition fwts_acpica_sem_count_clear :: "'s method_state \<Rightarrow> 's method_state" where
  "fwts_acpica_sem_count_clear st = st\<lparr>locks_acquired := 0, locks_released := 0\<rparr>"

definition evaluate_object ::
    "'s method_env \<Rightarrow> cstr \<Rightarrow> cstr \<Rightarrow> ACPI_OBJECT list \<Rightarrow> 's method_state \<Rightarrow> u32 \<times> ACPI_BUFFER \<times> 's method_state" where
  "evaluate_object env parent name args st = (
     let e = AcpiEvaluateObject env parent name args (interpreter st) in
     (ev_status e, ev_result e,
      st\<lparr>interpreter := ev_next e, locks_acquired := locks_acquired st + ev_acquired e,
         locks_released := locks_released st + ev_released e,
         region_handler_called := region_handler_called st \<or> ev_region e\<rparr>))"

definition lock_reports :: "'s method_state \<Rightarrow> report list" where
  "lock_reports st =
     (if locks_acquired st \<noteq> locks_released st then [Failed LOG_LEVEL_MEDIUM ''AMLLocksAcquired'', Advice] else [])"

text \<open>The function of the library looks an object up below its parent and ignores failed evaluations.\<close>

definition fwts_evaluate_found_method ::
    "'s method_env \<Rightarrow> cstr \<Rightarrow> cstr \<Rightarrow> 's check \<Rightarrow> ACPI_OBJECT list \<Rightarrow> 's method_state \<Rightarrow>
     (report list \<times> 's method_state) option" where
  "fwts_evaluate_found_method env parent name check args st = (
     let (status, buf, st1) = evaluate_object env parent name args (fwts_acpica_sem_count_clear st) in do {
       (rs, st2) \<leftarrow> (if ACPI_FAILURE status then Some ([], st1) else check name buf st1);
       Some (rs @ lock_reports st2, st2) })"

definition METHOD_MANDATORY :: u32 where "METHOD_MANDATORY = 1"
definition METHOD_OPTIONAL :: u32 where "METHOD_OPTIONAL = 2"
definition METHOD_MOBILE :: u32 where "METHOD_MOBILE = 4"
definition METHOD_SILENT :: u32 where "METHOD_SILENT = 8"

definition fwts_evaluate_method ::
    "'s method_env \<Rightarrow> u32 \<Rightarrow> cstr \<Rightarrow> cstr \<Rightarrow> ACPI_OBJECT list \<Rightarrow> 's check \<Rightarrow> 's method_test" where
  "fwts_evaluate_method env test_type parent name args check st = (
     let status = AcpiGetHandle env parent name in do {
       (rs, st1) \<leftarrow> (if ACPI_FAILURE status then Some ([], st)
                    else fwts_evaluate_found_method env parent name check args st);
       Some (if status = AE_NOT_FOUND \<and> test_type AND METHOD_SILENT = 0 \<and> test_type AND METHOD_MANDATORY \<noteq> 0
             then (rs @ [Failed LOG_LEVEL_CRITICAL ''MethodNotExist''], FWTS_ERROR, st1)
             else if status = AE_NOT_FOUND \<and> test_type AND METHOD_SILENT = 0 \<and> test_type AND METHOD_OPTIONAL \<noteq> 0
             then (rs @ [Skipped], FWTS_SKIP, st1)
             else if ACPI_FAILURE status then (rs, FWTS_ERROR, st1)
             else (rs, FWTS_OK, st1)) })"

section \<open>All objects of a name\<close>

text \<open>The function of the method test reports a failed evaluation.\<close>

definition method_evaluate_found_method ::
    "'s method_env \<Rightarrow> cstr \<Rightarrow> 's check \<Rightarrow> ACPI_OBJECT list \<Rightarrow> 's method_state \<Rightarrow>
     (report list \<times> 's method_state) option" where
  "method_evaluate_found_method env name check args st = (
     let (status, buf, st1) = evaluate_object env [] name args (fwts_acpica_sem_count_clear st) in do {
       (rs, st2) \<leftarrow> (if ACPI_FAILURE status then Some (fwts_acpi_object_evaluate_report_error status, st1)
                    else check name buf st1);
       Some (rs @ lock_reports st2, st2) })"

fun evaluate_paths ::
    "'s method_env \<Rightarrow> cstr \<Rightarrow> 's check \<Rightarrow> ACPI_OBJECT list \<Rightarrow> cstr list \<Rightarrow> 's method_state \<Rightarrow>
     (report list \<times> bool \<times> 's method_state) option" where
  "evaluate_paths env name check args [] st = Some ([], False, st)"
| "evaluate_paths env name check args (path # paths) st = do {
     m \<leftarrow> name_matches name path;
     (rs, found, st1) \<leftarrow>
       (if \<not> m then Some ([], False, st)
        else if ACPI_FAILURE (AcpiGetHandle env [] path) then Some ([Warning], False, st)
        else case AcpiGetType env path of
               None \<Rightarrow> Some ([Warning], False, st)
             | Some t \<Rightarrow>
                 if t = ACPI_TYPE_LOCAL_SCOPE then Some ([], False, st)
                 else map_option (\<lambda>(rs, st'). (rs, True, st')) (method_evaluate_found_method env path check args st));
     (rs', found', st2) \<leftarrow> evaluate_paths env name check args paths st1;
     Some (rs @ rs', found \<or> found', st2) }"

definition method_evaluate_method ::
    "'s method_env \<Rightarrow> u32 \<Rightarrow> cstr \<Rightarrow> ACPI_OBJECT list \<Rightarrow> 's check \<Rightarrow> 's method_test" where
  "method_evaluate_method env test_type name args check st = do {
     (rs, found, st1) \<leftarrow>
       (case object_names env of
          None \<Rightarrow> Some ([], False, st)
        | Some paths \<Rightarrow> evaluate_paths env name check args paths st);
     if found then
       Some (rs @ (if test_type AND METHOD_MOBILE \<noteq> 0 \<and> \<not> env_mobile env then [Warning] else []), FWTS_OK, st1)
     else
       Some (rs @ (if test_type AND METHOD_SILENT \<noteq> 0 then []
                   else (if test_type AND METHOD_MANDATORY \<noteq> 0 then [Failed LOG_LEVEL_MEDIUM ''MethodNotExist''] else [])
                        @ [Skipped]), FWTS_NOT_EXIST, st1) }"

section \<open>Device identification objects\<close>

text \<open>The tests that the test modules of single devices share; device is the path of the device.\<close>

definition fwts_method_test_ADR :: "'s method_env \<Rightarrow> cstr \<Rightarrow> 's method_test" where
  "fwts_method_test_ADR env device =
     fwts_evaluate_method env METHOD_OPTIONAL device ''_ADR'' [] (pure_check fwts_method_test_integer_return)"

definition fwts_method_test_CID :: "'s method_env \<Rightarrow> cstr \<Rightarrow> 's method_test" where
  "fwts_method_test_CID env device =
     fwts_evaluate_method env METHOD_OPTIONAL device ''_CID'' [] (pure_check fwts_method_test_CID_return)"

definition fwts_method_test_CLS :: "'s method_env \<Rightarrow> cstr \<Rightarrow> 's method_test" where
  "fwts_method_test_CLS env device =
     fwts_evaluate_method env METHOD_OPTIONAL device ''_CLS'' [] (pure_check (fwts_method_test_package_integer_return 3))"

definition fwts_method_test_DDN :: "'s method_env \<Rightarrow> cstr \<Rightarrow> 's method_test" where
  "fwts_method_test_DDN env device =
     fwts_evaluate_method env METHOD_OPTIONAL device ''_DDN'' [] (pure_check fwts_method_test_string_return)"

definition fwts_method_test_HID :: "'s method_env \<Rightarrow> cstr \<Rightarrow> 's method_test" where
  "fwts_method_test_HID env device =
     fwts_evaluate_method env METHOD_OPTIONAL device ''_HID'' [] (pure_check fwts_method_test_HID_return)"

definition fwts_method_test_HRV :: "'s method_env \<Rightarrow> cstr \<Rightarrow> 's method_test" where
  "fwts_method_test_HRV env device =
     fwts_evaluate_method env METHOD_OPTIONAL device ''_HRV'' [] (pure_check fwts_method_test_integer_return)"

definition fwts_method_test_MLS :: "'s method_env \<Rightarrow> cstr \<Rightarrow> 's method_test" where
  "fwts_method_test_MLS env device =
     fwts_evaluate_method env METHOD_OPTIONAL device ''_MLS'' [] (pure_check fwts_method_test_MLS_return)"

definition fwts_method_test_PLD :: "'s method_env \<Rightarrow> cstr \<Rightarrow> 's method_test" where
  "fwts_method_test_PLD env device =
     fwts_evaluate_method env METHOD_OPTIONAL device ''_PLD'' [] (pure_check fwts_method_test_PLD_return)"

definition fwts_method_test_SUB :: "'s method_env \<Rightarrow> cstr \<Rightarrow> 's method_test" where
  "fwts_method_test_SUB env device =
     fwts_evaluate_method env METHOD_OPTIONAL device ''_SUB'' [] (pure_check fwts_method_test_SUB_return)"

definition fwts_method_test_SUN :: "'s method_env \<Rightarrow> cstr \<Rightarrow> 's method_test" where
  "fwts_method_test_SUN env device =
     fwts_evaluate_method env METHOD_OPTIONAL device ''_SUN'' [] (pure_check fwts_method_test_integer_return)"

definition fwts_method_test_STR :: "'s method_env \<Rightarrow> cstr \<Rightarrow> 's method_test" where
  "fwts_method_test_STR env device =
     fwts_evaluate_method env METHOD_OPTIONAL device ''_STR'' [] (pure_check fwts_method_test_buffer_return)"

definition fwts_method_test_UID :: "'s method_env \<Rightarrow> cstr \<Rightarrow> 's method_test" where
  "fwts_method_test_UID env device =
     fwts_evaluate_method env METHOD_OPTIONAL device ''_UID'' [] (pure_check fwts_method_test_UID_return)"

end
