(* ===== verification/Fwts_Method.thy ===== *)
theory Fwts_Method
  imports Fwts_Evaluate
begin

text \<open>
  The checks of what the ACPI objects returned, of src/src/acpi/method/method.c, in the order of
  the file and each named as its C function. Those that only look at the object are outcomes; those
  that evaluate other objects, or read or set the state of the test, are checks.
\<close>

section \<open>Section 5: events and locks\<close>

definition ACPI_RESOURCE_TYPE_END_TAG :: nat where "ACPI_RESOURCE_TYPE_END_TAG = 7"
definition ACPI_RESOURCE_TYPE_GENERIC_REGISTER :: nat where "ACPI_RESOURCE_TYPE_GENERIC_REGISTER = 16"
definition ACPI_RESOURCE_TYPE_GPIO :: nat where "ACPI_RESOURCE_TYPE_GPIO = 17"

text \<open>
  The loop looks at a resource before it looks for the end tag: it never finds the end tag if that
  is the first resource, and runs past the list of the resources.
\<close>

fun AEI_loop :: "ACPI_RESOURCE list \<Rightarrow> outcome" where
  "AEI_loop [] = None"
| "AEI_loop (r # rest) = both
     (Some (if res_type r = ACPI_RESOURCE_TYPE_GPIO
            then fail_if (gpio_connection r \<noteq> 0) (Failed LOG_LEVEL_MEDIUM ''Method_AEIBadGpioElement'')
            else [Failed LOG_LEVEL_MEDIUM ''Method_AEIBadElement'']))
     (case rest of
        [] \<Rightarrow> None
      | r' # _ \<Rightarrow> if res_type r' = ACPI_RESOURCE_TYPE_END_TAG then Some [] else AEI_loop rest)"

definition buffer_resources :: "'s method_env \<Rightarrow> ACPI_OBJECT \<Rightarrow> ACPI_RESOURCE list option option" where
  "buffer_resources env obj = do {
     b \<leftarrow> buffer_bytes obj;
     Some (case b of None \<Rightarrow> None | Some bs \<Rightarrow> AcpiBufferToResource env bs) }"

definition method_test_AEI_return :: "'s method_env \<Rightarrow> cstr \<Rightarrow> ACPI_BUFFER \<Rightarrow> outcome" where
  "method_test_AEI_return env name buf =
     checked name buf ACPI_TYPE_BUFFER (\<lambda>obj. do {
       res \<leftarrow> buffer_resources env obj;
       case res of None \<Rightarrow> Some [] | Some rs \<Rightarrow> sane_or (AEI_loop rs) })"

text \<open>
  The path of the _EVT method: the source of the resource without its leading spaces. The method is
  evaluated for every pin.
\<close>

fun evaluate_pins ::
    "'s method_env \<Rightarrow> cstr \<Rightarrow> u64 list \<Rightarrow> 's method_state \<Rightarrow> (report list \<times> 's method_state) option" where
  "evaluate_pins env path [] st = Some ([], st)"
| "evaluate_pins env path (p # ps) st = do {
     (rs, st1) \<leftarrow> method_evaluate_found_method env path
       (pure_check (fwts_method_test_NULL_return (env_slack env))) [Integer p] st;
     (rs', st2) \<leftarrow> evaluate_pins env path ps st1;
     Some (rs @ rs', st2) }"

definition check_evt_event ::
    "'s method_env \<Rightarrow> ACPI_RESOURCE \<Rightarrow> 's method_state \<Rightarrow> (report list \<times> 's method_state) option" where
  "check_evt_event env gpio st = (
     let spaces = length (takeWhile (\<lambda>c. c = CHR '' '') (gpio_source gpio)) in
     if spaces \<ge> gpio_source_length gpio then Some ([], st)
     else let path = take 250 (drop spaces (gpio_source gpio) @ ''._EVT'') in
       if ACPI_FAILURE (AcpiGetHandle env [] path) then Some ([], st)
       else evaluate_pins env path (gpio_pins gpio) st)"

fun EVT_loop ::
    "'s method_env \<Rightarrow> ACPI_RESOURCE list \<Rightarrow> 's method_state \<Rightarrow> (report list \<times> 's method_state) option" where
  "EVT_loop env [] st = None"
| "EVT_loop env (r # rest) st =
     (if res_length r = 0 then Some ([], st)
      else do {
        (rs, st1) \<leftarrow> (if res_type r = ACPI_RESOURCE_TYPE_GPIO \<and> gpio_connection r = 0
                     then check_evt_event env r st else Some ([], st));
        (rs', st2) \<leftarrow> (case rest of
            [] \<Rightarrow> None
          | r' # _ \<Rightarrow> if res_type r' = ACPI_RESOURCE_TYPE_END_TAG then Some ([], st1) else EVT_loop env rest st1);
        Some (rs @ rs', st2) })"

definition method_test_EVT_return :: "'s method_env \<Rightarrow> 's check" where
  "method_test_EVT_return env name buf st =
     (case fwts_method_check_type name buf ACPI_TYPE_BUFFER of
        [] \<Rightarrow> do {
          obj \<leftarrow> buf;
          res \<leftarrow> buffer_resources env obj;
          case res of None \<Rightarrow> Some ([], st) | Some [] \<Rightarrow> Some ([], st) | Some rs \<Rightarrow> EVT_loop env rs st }
      | rs \<Rightarrow> Some (rs, st))"

text \<open>A package of packages: each of them is checked by sub.\<close>

definition subpackages :: "cstr \<Rightarrow> ACPI_BUFFER \<Rightarrow> (ACPI_OBJECT \<Rightarrow> outcome) \<Rightarrow> outcome" where
  "subpackages name buf sub =
     checked name buf ACPI_TYPE_PACKAGE (\<lambda>obj.
       on_ok (fwts_method_package_elements_all_type name obj ACPI_TYPE_PACKAGE) (do {
         es \<leftarrow> elements obj;
         sane_or (each sub es) }))"

definition DLM_subpackage :: "cstr \<Rightarrow> ACPI_OBJECT \<Rightarrow> outcome" where [returns_defs]:
  "DLM_subpackage name pkg =
     on_ok (fwts_method_subpackage_count_equal name pkg 2)
       (both (fwts_method_check_element_type name pkg 0 ACPI_TYPE_LOCAL_REFERENCE) (do {
          t \<leftarrow> type_at pkg 1;
          Some (fail_if (t \<noteq> ACPI_TYPE_LOCAL_REFERENCE \<and> t \<noteq> ACPI_TYPE_BUFFER)
            (Failed LOG_LEVEL_MEDIUM ''Method_DLMBadSubPackageReturnType'')) }))"

definition method_test_DLM_return :: "cstr \<Rightarrow> ACPI_BUFFER \<Rightarrow> outcome" where [returns_defs]:
  "method_test_DLM_return name buf = subpackages name buf (DLM_subpackage name)"

section \<open>Section 6: device configuration\<close>

definition method_test_CRS_return :: "bool \<Rightarrow> cstr \<Rightarrow> cstr \<Rightarrow> ACPI_BUFFER \<Rightarrow> outcome" where
  "method_test_CRS_return sbbr objname name buf =
     checked name buf ACPI_TYPE_BUFFER (\<lambda>obj. do {
       b \<leftarrow> buffer_bytes obj;
       case b of
         None \<Rightarrow> Some [Failed LOG_LEVEL_MEDIUM (crs_label objname ''NullBuffer'')]
       | Some data \<Rightarrow>
           if length data < 1 then Some [Failed LOG_LEVEL_MEDIUM (crs_label objname ''BufferTooSmall'')]
           else do {
             b0 \<leftarrow> byte_at data 0;
             (rs, tag) \<leftarrow> (if b0 AND 128 \<noteq> 0 then fwts_method_test_CRS_large_resource_items sbbr objname data
                           else fwts_method_test_CRS_small_resource_items objname data);
             Some (no_issues rs) } })"

definition PRT_element_type :: "nat \<times> ACPI_OBJECT \<Rightarrow> report list" where
  "PRT_element_type = (\<lambda>(j, e).
     fail_if (if j = 2 then object_type e \<noteq> ACPI_TYPE_INTEGER \<and> object_type e \<noteq> ACPI_TYPE_LOCAL_REFERENCE
              else object_type e \<noteq> ACPI_TYPE_INTEGER)
       (Failed LOG_LEVEL_CRITICAL ''Method_PRTBadSubElementType''))"

definition PRT_subpackage :: "cstr \<Rightarrow> ACPI_OBJECT \<Rightarrow> outcome" where [returns_defs]:
  "PRT_subpackage name pkg =
     on_ok (fwts_method_subpackage_count_equal name pkg 4) (do {
       es \<leftarrow> elements pkg;
       addr \<leftarrow> int_at pkg 0;
       pin \<leftarrow> int_at pkg 1;
       Some (concat (map PRT_element_type (enumerate 0 es)) @
             fail_if (addr AND 0xffff \<noteq> 0xffff) (Failed LOG_LEVEL_CRITICAL ''Method_PRTBadSubElement'') @
             fail_if (pin > 3) (Failed LOG_LEVEL_CRITICAL ''Method_PRTBadSubElement'')) })"

definition method_test_PRT_return :: "cstr \<Rightarrow> ACPI_BUFFER \<Rightarrow> outcome" where [returns_defs]:
  "method_test_PRT_return name buf = subpackages name buf (PRT_subpackage name)"

definition method_test_FIX_return :: "cstr \<Rightarrow> ACPI_BUFFER \<Rightarrow> outcome" where [returns_defs]:
  "method_test_FIX_return name buf =
     checked name buf ACPI_TYPE_PACKAGE (\<lambda>obj.
       on_ok (fwts_method_package_elements_all_type name obj ACPI_TYPE_INTEGER) (do {
         es \<leftarrow> elements obj;
         sane_or (each (\<lambda>e. do {
           v \<leftarrow> int_value e;
           Some (fail_if (\<not> fwts_method_valid_EISA_ID (ucast v))
             (Failed LOG_LEVEL_MEDIUM ''Method_FIXInvalidElementValue'')) }) es) }))"

fun DSD_pairs :: "ACPI_OBJECT list \<Rightarrow> report list" where
  "DSD_pairs (uuid # data # es) =
     fail_if (\<not> fwts_method_type_matches (object_type uuid) ACPI_TYPE_BUFFER) (Failed LOG_LEVEL_MEDIUM ''Method_DSDElementBuffer'') @
     fail_if (\<not> fwts_method_type_matches (object_type data) ACPI_TYPE_PACKAGE) (Failed LOG_LEVEL_MEDIUM ''Method_DSDElementPackage'') @
     DSD_pairs es"
| "DSD_pairs _ = []"

definition method_test_DSD_return :: "cstr \<Rightarrow> ACPI_BUFFER \<Rightarrow> outcome" where [returns_defs]:
  "method_test_DSD_return name buf =
     checked name buf ACPI_TYPE_PACKAGE (\<lambda>obj. do {
       es \<leftarrow> elements obj;
       if odd (length es) then Some [Failed LOG_LEVEL_HIGH ''Method_DSDElementCount'']
       else Some (no_issues (DSD_pairs es)) })"

text \<open>An object that returned nothing is not looked for; a 0 or 1 is reported as passed twice.\<close>

definition method_test_GLK_return :: "cstr \<Rightarrow> ACPI_BUFFER \<Rightarrow> outcome" where
  "method_test_GLK_return name buf = do {
     obj \<leftarrow> buf;
     if object_type obj = ACPI_TYPE_INTEGER then do {
       v \<leftarrow> int_value obj;
       Some (if v = 0 \<or> v = 1 then [Passed, Passed] else [Failed LOG_LEVEL_HIGH ''MethodGLKInvalidInteger'']) }
     else Some [Failed LOG_LEVEL_HIGH ''Method_GLKBadReturnType''] }"

section \<open>Section 7: power management\<close>

definition prw_elements :: "nat list" where
  "prw_elements = [ACPI_TYPE_LOCAL_REFERENCE, ACPI_TYPE_INTEGER]"

text \<open>The loop over the power resources ends before the last element.\<close>

definition method_test_PRW_return :: "cstr \<Rightarrow> ACPI_BUFFER \<Rightarrow> outcome" where [returns_defs]:
  "method_test_PRW_return name buf =
     checked name buf ACPI_TYPE_PACKAGE (\<lambda>obj.
       on_ok (fwts_method_package_count_min name obj 2) (do {
         es \<leftarrow> elements obj;
         e0 \<leftarrow> element_at obj 0;
         t1 \<leftarrow> type_at obj 1;
         let bad = Failed LOG_LEVEL_MEDIUM ''Method_PRWBadPackageReturnType'';
         rs \<leftarrow> (if object_type e0 = ACPI_TYPE_PACKAGE then fwts_method_package_elements_type name e0 prw_elements
               else Some (fail_if (object_type e0 \<noteq> ACPI_TYPE_INTEGER) bad));
         Some (no_issues (rs @ fail_if (t1 \<noteq> ACPI_TYPE_INTEGER) bad @
           concat (map (\<lambda>e. fail_if (object_type e \<noteq> ACPI_TYPE_LOCAL_REFERENCE) bad) (drop 2 (butlast es))))) }))"

definition method_test_PS0_return :: "'s method_env \<Rightarrow> cstr \<Rightarrow> ACPI_BUFFER \<Rightarrow> outcome" where
  "method_test_PS0_return env name buf =
     both (Some (fail_if (AcpiGetHandle env [] (name[length name - 1 := CHR ''3'']) = AE_NOT_FOUND)
            (Failed LOG_LEVEL_HIGH ''Method_PS0'')))
       (fwts_method_test_NULL_return (env_slack env) name buf)"

definition method_test_power_resources_return :: "cstr \<Rightarrow> ACPI_BUFFER \<Rightarrow> outcome" where [returns_defs]:
  "method_test_power_resources_return name buf =
     checked name buf ACPI_TYPE_PACKAGE (\<lambda>obj.
       on_ok (fwts_method_package_elements_all_type name obj ACPI_TYPE_LOCAL_REFERENCE) (Some [Passed]))"

definition method_test_PRR_return :: "cstr \<Rightarrow> ACPI_BUFFER \<Rightarrow> outcome" where [returns_defs]:
  "method_test_PRR_return name buf =
     checked name buf ACPI_TYPE_PACKAGE (\<lambda>obj.
       on_ok (fwts_method_package_elements_type name obj [ACPI_TYPE_LOCAL_REFERENCE]) (Some [Passed]))"

definition method_test_Sx__return :: "cstr \<Rightarrow> ACPI_BUFFER \<Rightarrow> outcome" where [returns_defs]:
  "method_test_Sx__return name buf =
     checked name buf ACPI_TYPE_PACKAGE (\<lambda>obj.
       on_ok (fwts_method_package_count_min name obj 1) (do {
         es \<leftarrow> elements obj;
         if length es = 1 then Some [Failed LOG_LEVEL_MEDIUM ''Method_SxElementCount'']
         else do {
           t0 \<leftarrow> type_at obj 0;
           t1 \<leftarrow> type_at obj 1;
           if t0 \<noteq> ACPI_TYPE_INTEGER \<or> t1 \<noteq> ACPI_TYPE_INTEGER
           then Some [Failed LOG_LEVEL_MEDIUM ''Method_SxElementType'']
           else do {
             v0 \<leftarrow> int_at obj 0;
             v1 \<leftarrow> int_at obj 1;
             let bad = Failed LOG_LEVEL_MEDIUM ''Method_SxElementValue'';
             Some (no_issues (fail_if (v0 AND 0xffffff00 \<noteq> 0) bad @ fail_if (v1 AND 0xffffff00 \<noteq> 0) bad)) } } }))"

section \<open>Section 8: processors\<close>

definition method_test_CPC_int_or_buffer :: "ACPI_OBJECT \<Rightarrow> report list" where
  "method_test_CPC_int_or_buffer obj =
     fail_if (\<not> (object_type obj = ACPI_TYPE_INTEGER \<or> object_type obj = ACPI_TYPE_BUFFER))
       (Failed LOG_LEVEL_HIGH ''Method_CPCResourcePriorityBadType'')"

definition CPC_controlled_resources :: "ACPI_OBJECT \<Rightarrow> outcome" where
  "CPC_controlled_resources obj =
     (if object_type obj \<noteq> ACPI_TYPE_PACKAGE
      then Some [Failed LOG_LEVEL_HIGH ''Method_CPCResourcePriorityControlledResourcesType'']
      else do {
        es \<leftarrow> elements obj;
        Some (if length es = 0 then [Failed LOG_LEVEL_HIGH ''Method_CPCResourcePriorityControlledResourcesEmpty'']
              else concat (map (\<lambda>e. fail_if (object_type e \<noteq> ACPI_TYPE_INTEGER)
                     (Failed LOG_LEVEL_HIGH ''Method_CPCResourcePriorityControlledResourcesType'')) es)) })"

definition CPC_priority_count :: "ACPI_OBJECT \<Rightarrow> outcome" where
  "CPC_priority_count obj =
     on_ok (Some (method_test_CPC_int_or_buffer obj))
       (if object_type obj = ACPI_TYPE_INTEGER then do {
          v \<leftarrow> int_value obj;
          Some (fail_if (v < 2) (Failed LOG_LEVEL_HIGH ''Method_CPCResourcePriorityCountValue'')) }
        else Some [])"

definition method_test_CPC_resource_priority_descriptor :: "ACPI_OBJECT \<Rightarrow> outcome" where
  "method_test_CPC_resource_priority_descriptor descriptor =
     (if object_type descriptor \<noteq> ACPI_TYPE_PACKAGE
      then Some [Failed LOG_LEVEL_HIGH ''Method_CPCResourcePriorityDescriptorType'']
      else do {
        es \<leftarrow> elements descriptor;
        if length es \<noteq> 5 then Some [Failed LOG_LEVEL_HIGH ''Method_CPCResourcePriorityDescriptorCount'']
        else do {
          controlled \<leftarrow> element_at descriptor 0;
          enable_value \<leftarrow> element_at descriptor 1;
          enable_type \<leftarrow> type_at descriptor 2;
          count \<leftarrow> element_at descriptor 3;
          register_type \<leftarrow> type_at descriptor 4;
          both (CPC_controlled_resources controlled)
            (both (Some (method_test_CPC_int_or_buffer enable_value @
                fail_if (enable_type \<noteq> ACPI_TYPE_BUFFER) (Failed LOG_LEVEL_HIGH ''Method_CPCResourcePriorityEnableRegisterType'')))
              (both (CPC_priority_count count)
                (Some (fail_if (register_type \<noteq> ACPI_TYPE_BUFFER) (Failed LOG_LEVEL_HIGH ''Method_CPCResourcePriorityRegisterType''))))) } })"

definition method_test_CPC_resource_priority_registers :: "ACPI_OBJECT \<Rightarrow> outcome" where
  "method_test_CPC_resource_priority_registers pkg =
     (if object_type pkg \<noteq> ACPI_TYPE_PACKAGE then Some [Failed LOG_LEVEL_HIGH ''Method_CPCResourcePriorityType'']
      else do { es \<leftarrow> elements pkg; each method_test_CPC_resource_priority_descriptor es })"

definition cpc_elementsv1 :: "nat list" where
  "cpc_elementsv1 = replicate 2 ACPI_TYPE_INTEGER @ replicate 4 ACPI_TYPE_INTBUF @ replicate 6 ACPI_TYPE_BUFFER @
     [ACPI_TYPE_INTBUF] @ replicate 4 ACPI_TYPE_BUFFER"

definition cpc_elementsv2 :: "nat list" where
  "cpc_elementsv2 = replicate 2 ACPI_TYPE_INTEGER @ replicate 4 ACPI_TYPE_INTBUF @ replicate 6 ACPI_TYPE_BUFFER @
     [ACPI_TYPE_INTBUF] @ replicate 4 ACPI_TYPE_BUFFER @ [ACPI_TYPE_INTBUF, ACPI_TYPE_BUFFER, ACPI_TYPE_BUFFER,
     ACPI_TYPE_INTBUF]"

definition cpc_elementsv3 :: "nat list" where
  "cpc_elementsv3 = replicate 2 ACPI_TYPE_INTEGER @ replicate 4 ACPI_TYPE_INTBUF @ replicate 6 ACPI_TYPE_BUFFER @
     [ACPI_TYPE_INTBUF] @ replicate 4 ACPI_TYPE_BUFFER @ [ACPI_TYPE_INTBUF, ACPI_TYPE_BUFFER, ACPI_TYPE_BUFFER,
     ACPI_TYPE_INTBUF, ACPI_TYPE_INTBUF, ACPI_TYPE_INTBUF]"

definition cpc_elementsv4 :: "nat list" where
  "cpc_elementsv4 = replicate 2 ACPI_TYPE_INTEGER @ replicate 4 ACPI_TYPE_INTBUF @ replicate 6 ACPI_TYPE_BUFFER @
     [ACPI_TYPE_INTBUF] @ replicate 4 ACPI_TYPE_BUFFER @ [ACPI_TYPE_INTBUF, ACPI_TYPE_BUFFER, ACPI_TYPE_BUFFER,
     ACPI_TYPE_INTBUF, ACPI_TYPE_INTBUF, ACPI_TYPE_INTBUF, ACPI_TYPE_BUFFER, ACPI_TYPE_PACKAGE]"

text \<open>The revision, of 8 bits, is read before the count and the types of the elements are checked.\<close>

definition method_test_CPC_return :: "cstr \<Rightarrow> ACPI_BUFFER \<Rightarrow> outcome" where
  "method_test_CPC_return name buf =
     checked name buf ACPI_TYPE_PACKAGE (\<lambda>obj. do {
       v \<leftarrow> int_at obj 1;
       let revision = (ucast v :: u8);
       if revision = 1 then on_ok (fwts_method_package_elements_type name obj cpc_elementsv1) (Some [Passed])
       else if revision = 2 then on_ok (fwts_method_package_elements_type name obj cpc_elementsv2) (Some [Passed])
       else if revision = 3 then on_ok (fwts_method_package_elements_type name obj cpc_elementsv3) (Some [Passed])
       else if revision = 4 then
         on_ok (fwts_method_package_elements_type name obj cpc_elementsv4)
           (on_ok (do { pkg \<leftarrow> element_at obj 24; method_test_CPC_resource_priority_registers pkg }) (Some [Passed]))
       else Some [Failed LOG_LEVEL_HIGH ''Method_CPCBadRevision''] })"

definition xSD_subpackage :: "nat \<Rightarrow> cstr \<Rightarrow> cstr \<Rightarrow> ACPI_OBJECT \<Rightarrow> outcome" where
  "xSD_subpackage n objname name pkg =
     on_ok (fwts_method_package_elements_type name pkg (replicate n ACPI_TYPE_INTEGER)) (do {
       entries \<leftarrow> int_at pkg 0;
       revision \<leftarrow> int_at pkg 1;
       coord \<leftarrow> int_at pkg 3;
       let l = ''Method'' @ objname @ ''SubPackageElement'';
       Some (fail_if (entries \<noteq> of_nat n) (Failed LOG_LEVEL_HIGH l) @
             fail_if (revision \<noteq> 0) (Failed LOG_LEVEL_MEDIUM l) @
             fail_if (coord \<noteq> 0xfc \<and> coord \<noteq> 0xfd \<and> coord \<noteq> 0xfe) (Failed LOG_LEVEL_MEDIUM l)) })"

definition FWTS_ACPI_VERSION_62 :: nat where "FWTS_ACPI_VERSION_62 = 0x620"

text \<open>_CSD, _PSD and _TSD; the first has six elements in each package, the others five.\<close>

definition method_test_xSD_return :: "nat \<Rightarrow> cstr \<Rightarrow> cstr \<Rightarrow> ACPI_BUFFER \<Rightarrow> outcome" where [returns_defs]:
  "method_test_xSD_return version objname name buf = (
     let is_csd = is_prefix ''_CSD'' objname in
     checked name buf ACPI_TYPE_PACKAGE (\<lambda>obj.
       on_ok (if \<not> is_csd \<and> version \<ge> FWTS_ACPI_VERSION_62 then fwts_method_package_count_equal name obj 1
              else fwts_method_package_count_min name obj 1)
         (on_ok (fwts_method_package_elements_all_type name obj ACPI_TYPE_PACKAGE) (do {
            es \<leftarrow> elements obj;
            sane_or (each (xSD_subpackage (if is_csd then 6 else 5) objname name) es) }))))"

definition cst_elements :: "nat list" where
  "cst_elements = [ACPI_TYPE_BUFFER, ACPI_TYPE_INTEGER, ACPI_TYPE_INTEGER, ACPI_TYPE_INTEGER]"

definition CST_register :: "bytes option \<Rightarrow> outcome" where
  "CST_register b =
     (case b of
        None \<Rightarrow> Some [Failed LOG_LEVEL_MEDIUM ''Method_CSTCStateRegisterResourceBufferNull'']
      | Some data \<Rightarrow> do {
          b0 \<leftarrow> byte_at data 0;
          if b0 \<noteq> 0x82 then Some [Failed LOG_LEVEL_MEDIUM ''Method_CSTCStateResourceBufferWrongType'']
          else fwts_method_test_CRS_large_size ''_CST'' data 12 12 })"

definition CST_subpackage :: "cstr \<Rightarrow> ACPI_OBJECT \<Rightarrow> outcome" where
  "CST_subpackage name pkg =
     (if object_type pkg \<noteq> ACPI_TYPE_PACKAGE then Some [Failed LOG_LEVEL_MEDIUM ''Method_CSTElementType'']
      else on_ok (fwts_method_package_elements_type name pkg cst_elements) (do {
        e0 \<leftarrow> element_at pkg 0;
        if object_type e0 = ACPI_TYPE_BUFFER then do { b \<leftarrow> buffer_bytes e0; CST_register b } else Some [] }))"

definition method_test_CST_return :: "cstr \<Rightarrow> ACPI_BUFFER \<Rightarrow> outcome" where
  "method_test_CST_return name buf =
     (if buf = None then Some []
      else checked name buf ACPI_TYPE_PACKAGE (\<lambda>obj.
        on_ok (fwts_method_package_count_min name obj 2) (do {
          es \<leftarrow> elements obj;
          t0 \<leftarrow> type_at obj 0;
          if t0 \<noteq> ACPI_TYPE_INTEGER then Some [Failed LOG_LEVEL_MEDIUM ''Method_CSTElement0NotInteger'']
          else do {
            n \<leftarrow> int_at obj 0;
            if n \<noteq> of_nat (length es - 1) then Some [Failed LOG_LEVEL_MEDIUM ''Method_CSTElement0CountMismatch'']
            else sane_or (each (CST_subpackage name) (tl es)) } })))"

definition PCT_PTC_element :: "'s method_env \<Rightarrow> cstr \<Rightarrow> ACPI_OBJECT \<Rightarrow> outcome" where
  "PCT_PTC_element env objname e = do {
     res \<leftarrow> buffer_resources env e;
     Some (case res of
         Some (r # _) \<Rightarrow> fail_if (res_type r \<noteq> ACPI_RESOURCE_TYPE_GENERIC_REGISTER) (Failed LOG_LEVEL_HIGH (crs_label objname ''BadElement''))
       | _ \<Rightarrow> [Failed LOG_LEVEL_HIGH (crs_label objname ''BadElement'')]) }"

definition method_test_PCT_PTC_return :: "'s method_env \<Rightarrow> cstr \<Rightarrow> cstr \<Rightarrow> ACPI_BUFFER \<Rightarrow> outcome" where [returns_defs]:
  "method_test_PCT_PTC_return env objname name buf =
     checked name buf ACPI_TYPE_PACKAGE (\<lambda>obj.
       on_ok (fwts_method_package_elements_type name obj [ACPI_TYPE_BUFFER, ACPI_TYPE_BUFFER]) (do {
         es \<leftarrow> elements obj;
         sane_or (each (PCT_PTC_element env objname) es) }))"

text \<open>
  The performance states: the loop keeps the highest frequency, whether there is one, and the power of the
  last state of the right shape, in 32 bits.
\<close>

fun PSS_loop :: "cstr \<Rightarrow> ACPI_OBJECT list \<Rightarrow> u32 \<Rightarrow> bool \<Rightarrow> u32 \<Rightarrow> (report list \<times> u32 \<times> bool) option" where
  "PSS_loop name [] max_freq valid prev_power = Some ([], max_freq, valid)"
| "PSS_loop name (pstate # ps) max_freq valid prev_power = do {
     rs \<leftarrow> fwts_method_package_elements_type name pstate (replicate 6 ACPI_TYPE_INTEGER);
     if rs \<noteq> [] then do {
       (rs', mf, v) \<leftarrow> PSS_loop name ps max_freq valid prev_power;
       Some (rs @ rs', mf, v) }
     else do {
       freq \<leftarrow> int_at pstate 0;
       power \<leftarrow> int_at pstate 1;
       let higher = ucast max_freq < freq;
       let unordered = prev_power \<noteq> 0 \<and> power > ucast prev_power;
       (rs', mf, v) \<leftarrow> PSS_loop name ps (if higher then ucast freq else max_freq) (valid \<or> higher) (ucast power);
       Some ((if unordered then [Failed LOG_LEVEL_MEDIUM ''Method_PSSSubPackagePowerNotDecending'', Advice] else []) @ rs', mf, v) } }"

definition method_test_PSS_return :: "cstr \<Rightarrow> ACPI_BUFFER \<Rightarrow> outcome" where [returns_defs]:
  "method_test_PSS_return name buf =
     checked name buf ACPI_TYPE_PACKAGE (\<lambda>obj.
       on_ok (fwts_method_package_count_min name obj 1)
         (on_ok (fwts_method_package_elements_all_type name obj ACPI_TYPE_PACKAGE) (do {
            es \<leftarrow> elements obj;
            (rs, max_freq, valid) \<leftarrow> PSS_loop name es 0 False 0;
            Some (no_issues (rs @
              (if valid \<and> max_freq < 1000 then [Failed LOG_LEVEL_LOW ''Method_PSSSubPackageLowFreq'', Advice] else []))) })))"

definition TSS_subpackage :: "cstr \<Rightarrow> ACPI_OBJECT \<Rightarrow> outcome" where
  "TSS_subpackage name pkg =
     on_ok (fwts_method_package_elements_type name pkg (replicate 5 ACPI_TYPE_INTEGER)) (do {
       percent \<leftarrow> int_at pkg 0;
       Some (fail_if (percent < 1 \<or> percent > 100) (Failed LOG_LEVEL_MEDIUM ''Method_TSDSubPackageElement'')) })"

definition method_test_TSS_return :: "cstr \<Rightarrow> ACPI_BUFFER \<Rightarrow> outcome" where [returns_defs]:
  "method_test_TSS_return name buf =
     checked name buf ACPI_TYPE_PACKAGE (\<lambda>obj.
       on_ok (fwts_method_package_count_min name obj 1)
         (on_ok (fwts_method_package_elements_all_type name obj ACPI_TYPE_PACKAGE) (do {
            es \<leftarrow> elements obj;
            sane_or (each (TSS_subpackage name) es) })))"

text \<open>
  _LPI: three integers, then packages of which the elements are checked by their index; only an
  eleventh element is reported, not a package of fewer than ten.
\<close>

definition LPI_state_element :: "nat \<times> ACPI_OBJECT \<Rightarrow> report list" where
  "LPI_state_element = (\<lambda>(j, e).
     let t = object_type e; bad = Failed LOG_LEVEL_HIGH ''Method_LPIBadSubElementType'' in
     if j \<le> 5 then fail_if (t \<noteq> ACPI_TYPE_INTEGER) bad
     else if j = 6 then fail_if (t \<noteq> ACPI_TYPE_INTEGER \<and> t \<noteq> ACPI_TYPE_BUFFER) bad
     else if j \<le> 8 then fail_if (t \<noteq> ACPI_TYPE_BUFFER) bad
     else if j = 9 then fail_if (t \<noteq> ACPI_TYPE_STRING) bad
     else [Failed LOG_LEVEL_HIGH ''Method_LPIBadSubElement''])"

definition LPI_element :: "cstr \<Rightarrow> nat \<Rightarrow> nat \<times> ACPI_OBJECT \<Rightarrow> report list \<times> bool" where
  "LPI_element name n = (\<lambda>(i, e).
     if i < 3 then
       (case e of
          Integer v \<Rightarrow>
            if i = 0 then (let (rs, ok) = fwts_method_test_revision name (ucast v) 0 in (rs, \<not> ok))
            else if i = 2 then (let rs = fail_if (v \<noteq> of_nat (n - 3)) (Failed LOG_LEVEL_HIGH ''Method_LPIBadCount'') in (rs, rs \<noteq> []))
            else ([], False)
        | _ \<Rightarrow> ([Failed LOG_LEVEL_HIGH ''Method_LPIBadElementType''], True))
     else
       (case e of
          Package es \<Rightarrow> (let rs = concat (map LPI_state_element (enumerate 0 es)) in (rs, rs \<noteq> []))
        | _ \<Rightarrow> ([Failed LOG_LEVEL_HIGH ''Method_LPIBadElementType''], True)))"

definition method_test_LPI_return :: "cstr \<Rightarrow> ACPI_BUFFER \<Rightarrow> outcome" where [returns_defs]:
  "method_test_LPI_return name buf =
     checked name buf ACPI_TYPE_PACKAGE (\<lambda>obj.
       on_ok (fwts_method_package_count_min name obj 3) (do {
         es \<leftarrow> elements obj;
         let outs = map (LPI_element name (length es)) (enumerate 0 es);
         Some (concat (map fst outs) @ (if list_ex snd outs then [] else [Passed])) }))"

definition RDI_element :: "ACPI_OBJECT \<Rightarrow> report list" where
  "RDI_element e =
     (case e of
        Package es \<Rightarrow> concat (map (\<lambda>e. fail_if (object_type e \<noteq> ACPI_TYPE_LOCAL_REFERENCE)
          (Failed LOG_LEVEL_HIGH ''Method_RDIBadSubElementType'')) es)
      | _ \<Rightarrow> [Failed LOG_LEVEL_HIGH ''Method_RDIBadElementType''])"

definition method_test_RDI_return :: "cstr \<Rightarrow> ACPI_BUFFER \<Rightarrow> outcome" where
  "method_test_RDI_return name buf =
     checked name buf ACPI_TYPE_PACKAGE (\<lambda>obj. do {
       es \<leftarrow> elements obj;
       revision \<leftarrow> int_at obj 0;
       Some (no_issues (fail_if (revision \<noteq> 0) (Failed LOG_LEVEL_HIGH ''Method_RDIBadID'') @
         concat (map RDI_element (tl es)))) })"

definition method_test_PUR_return :: "cstr \<Rightarrow> ACPI_BUFFER \<Rightarrow> outcome" where [returns_defs]:
  "method_test_PUR_return name buf =
     checked name buf ACPI_TYPE_PACKAGE (\<lambda>obj.
       on_ok (fwts_method_package_count_equal name obj 2)
         (on_ok (fwts_method_package_elements_type name obj [ACPI_TYPE_INTEGER, ACPI_TYPE_INTEGER]) (do {
            revision \<leftarrow> int_at obj 0;
            Some (pass_or (revision = 1) (Failed LOG_LEVEL_MEDIUM ''Method_PURBadID'')) })))"

section \<open>Section 9: devices\<close>

text \<open>
  The ambient light responses have to increase; the last ones are kept in 32 bits. The elements of
  the package are taken for packages without a check of their type.
\<close>

fun ALR_loop :: "cstr \<Rightarrow> ACPI_OBJECT list \<Rightarrow> u32 \<Rightarrow> u32 \<Rightarrow> outcome" where
  "ALR_loop name [] adjustment illuminance = Some []"
| "ALR_loop name (pkg # pkgs) adjustment illuminance = do {
     rs \<leftarrow> fwts_method_subpackage_count_equal name pkg 2;
     if rs \<noteq> [] then both (Some rs) (ALR_loop name pkgs adjustment illuminance)
     else do {
       t0 \<leftarrow> type_at pkg 0;
       t1 \<leftarrow> type_at pkg 1;
       let bad = Failed LOG_LEVEL_MEDIUM ''Method_ALRBadSubPackageReturnType'';
       v0 \<leftarrow> int_at pkg 0;
       v1 \<leftarrow> int_at pkg 1;
       both (Some (fail_if (t0 \<noteq> ACPI_TYPE_INTEGER \<or> ucast adjustment > v0) bad @
               fail_if (t1 \<noteq> ACPI_TYPE_INTEGER \<or> ucast illuminance > v1) bad))
         (ALR_loop name pkgs (ucast v0) (ucast v1)) } }"

definition method_test_ALR_return :: "cstr \<Rightarrow> ACPI_BUFFER \<Rightarrow> outcome" where
  "method_test_ALR_return name buf =
     checked name buf ACPI_TYPE_PACKAGE (\<lambda>obj. do { es \<leftarrow> elements obj; sane_or (ALR_loop name es 0 0) })"

definition method_test_GTF_return :: "cstr \<Rightarrow> ACPI_BUFFER \<Rightarrow> outcome" where [returns_defs]:
  "method_test_GTF_return name buf =
     checked name buf ACPI_TYPE_BUFFER (\<lambda>obj. do {
       b \<leftarrow> buffer_bytes obj;
       Some (pass_or (buffer_length b mod 7 = 0) (Failed LOG_LEVEL_MEDIUM ''Method_GTFBadBufferSize'')) })"

definition method_test_GTM_return :: "cstr \<Rightarrow> ACPI_BUFFER \<Rightarrow> outcome" where [returns_defs]:
  "method_test_GTM_return name buf =
     checked name buf ACPI_TYPE_BUFFER (\<lambda>obj. on_ok (fwts_method_buffer_size name obj 20) (Some [Passed]))"

definition method_test_UPC_return :: "cstr \<Rightarrow> ACPI_BUFFER \<Rightarrow> outcome" where [returns_defs]:
  "method_test_UPC_return name buf =
     checked name buf ACPI_TYPE_PACKAGE (\<lambda>obj.
       on_ok (fwts_method_package_elements_type name obj (replicate 4 ACPI_TYPE_INTEGER)) (do {
         v1 \<leftarrow> int_at obj 1;
         v2 \<leftarrow> int_at obj 2;
         v3 \<leftarrow> int_at obj 3;
         let connector_type = (ucast v1 :: u32);
         let capabilities = (ucast v2 :: u32);
         let reserved = connector_type > 0x0a \<and> connector_type < 0xff;
         let bad = (if connector_type = 0x08 \<or> connector_type = 0x09 \<or> connector_type = 0x0a
                    then capabilities AND 0xffffffc0 \<noteq> 0 else capabilities \<noteq> 0);
         Some (pass_or (\<not> (reserved \<or> bad \<or> v3 \<noteq> 0)) (Failed LOG_LEVEL_MEDIUM ''Method_UPCBadReturnType'')) }))"

definition PDO_power_list :: "ACPI_OBJECT \<Rightarrow> report list" where
  "PDO_power_list e =
     (case e of
        Package es \<Rightarrow> concat (map (\<lambda>e. fail_if (object_type e \<noteq> ACPI_TYPE_INTEGER)
          (Failed LOG_LEVEL_HIGH ''Method_PDOBadSubElementType'')) es)
      | _ \<Rightarrow> [Failed LOG_LEVEL_HIGH ''Method_PDOBadElementType''])"

text \<open>The four elements of _PDO are read without a check of their number.\<close>

definition method_test_PDO_return :: "cstr \<Rightarrow> ACPI_BUFFER \<Rightarrow> outcome" where
  "method_test_PDO_return name buf =
     checked name buf ACPI_TYPE_PACKAGE (\<lambda>obj. do {
       t0 \<leftarrow> type_at obj 0;
       t1 \<leftarrow> type_at obj 1;
       v \<leftarrow> int_at obj 1;
       e2 \<leftarrow> element_at obj 2;
       e3 \<leftarrow> element_at obj 3;
       let pdo_flags = (ucast v :: u32);
       Some (no_issues (
         fail_if (t0 \<noteq> ACPI_TYPE_INTEGER) (Failed LOG_LEVEL_HIGH ''Method_PDOBadElementType'') @
         fail_if (t1 \<noteq> ACPI_TYPE_INTEGER) (Failed LOG_LEVEL_HIGH ''Method_PDOBadElementType'') @
         fail_if (pdo_flags AND 0xfffffff0 \<noteq> 0) (Failed LOG_LEVEL_MEDIUM ''Method_PDOElementValue'') @
         fail_if (pdo_flags AND 7 > 4) (Failed LOG_LEVEL_MEDIUM ''Method_PDOElementValue'') @
         PDO_power_list e2 @ PDO_power_list e3)) })"

text \<open>The capabilities of the wake alarm device, which the later tests read, and the rules for them.\<close>

definition GCP_rules :: "u32 \<Rightarrow> report list" where
  "GCP_rules v = (
     let needs = (\<lambda>a b. fail_if (bit v a \<and> \<not> bit v b) (Failed LOG_LEVEL_MEDIUM ''MethodBadSupport'')) in
     needs 1 0 @ needs 6 5 @ needs 5 0 @ needs 8 7 @ needs 7 1 @ needs 7 5 @ needs 8 6 @
     fail_if (v AND 0x1e0 \<noteq> 0 \<and> \<not> bit v 4) (Failed LOG_LEVEL_MEDIUM ''MethodBadSupport''))"

definition method_test_GCP_return :: "u32 \<Rightarrow> 's check" where
  "method_test_GCP_return msk name buf st =
     (case fwts_method_check_type name buf ACPI_TYPE_INTEGER of
        [] \<Rightarrow> do {
          obj \<leftarrow> buf;
          v \<leftarrow> int_value obj;
          let gcp = (ucast v :: u32);
          Some (no_issues (fail_if (gcp AND msk \<noteq> 0) (Failed LOG_LEVEL_MEDIUM ''MethodIllegalReserved'') @ GCP_rules gcp),
                st\<lparr>gcp_return_value := gcp\<rparr>) }
      | rs \<Rightarrow> Some (rs, st))"

definition method_test_GRT_return :: "cstr \<Rightarrow> ACPI_BUFFER \<Rightarrow> outcome" where [returns_defs]:
  "method_test_GRT_return name buf =
     checked name buf ACPI_TYPE_BUFFER (\<lambda>obj. on_ok (fwts_method_buffer_size name obj 16) (Some [Passed]))"

definition method_test_CWS_return :: "cstr \<Rightarrow> ACPI_BUFFER \<Rightarrow> outcome" where [returns_defs]:
  "method_test_CWS_return name buf =
     checked name buf ACPI_TYPE_INTEGER (\<lambda>obj. do {
       v \<leftarrow> int_value obj;
       Some (pass_or (\<not> (v \<noteq> 0 \<and> v \<noteq> 1)) (Failed LOG_LEVEL_MEDIUM ''Method_CWSInvalidInteger'')) })"

section \<open>Section 10: batteries, power sources and meters\<close>

definition method_test_SBS_return :: "cstr \<Rightarrow> ACPI_BUFFER \<Rightarrow> outcome" where [returns_defs]:
  "method_test_SBS_return name buf =
     checked name buf ACPI_TYPE_INTEGER (\<lambda>obj. do {
       v \<leftarrow> int_value obj;
       Some (if v \<le> 4 then [Passed] else [Failed LOG_LEVEL_MEDIUM ''Method_SBSReturn'', Advice]) })"

definition pif_elements :: "nat list" where
  "pif_elements = replicate 3 ACPI_TYPE_INTEGER @ replicate 3 ACPI_TYPE_STRING"

definition method_test_PIF_return :: "cstr \<Rightarrow> ACPI_BUFFER \<Rightarrow> outcome" where [returns_defs]:
  "method_test_PIF_return name buf =
     checked name buf ACPI_TYPE_PACKAGE (\<lambda>obj.
       on_ok (fwts_method_package_count_equal name obj 6)
         (on_ok (fwts_method_package_elements_type name obj pif_elements) (Some [Passed])))"

definition method_test_PCS_return :: "cstr \<Rightarrow> ACPI_BUFFER \<Rightarrow> outcome" where [returns_defs]:
  "method_test_PCS_return name buf =
     checked name buf ACPI_TYPE_PACKAGE (\<lambda>obj.
       on_ok (fwts_method_package_count_equal name obj 3)
         (on_ok (fwts_method_package_elements_type name obj (replicate 3 ACPI_TYPE_INTEGER)) (do {
            revision \<leftarrow> int_at obj 0;
            reserved \<leftarrow> int_at obj 1;
            Some (no_issues (fail_if (revision \<noteq> 1) (Failed LOG_LEVEL_MEDIUM ''Method_PCSBadRevision'') @
                             fail_if (reserved \<noteq> 0) (Failed LOG_LEVEL_MEDIUM ''Method_PCSBadReserved''))) })))"

definition method_test_PST_return :: "cstr \<Rightarrow> ACPI_BUFFER \<Rightarrow> outcome" where [returns_defs]:
  "method_test_PST_return name buf =
     checked name buf ACPI_TYPE_INTEGER (\<lambda>obj. do {
       v \<leftarrow> int_value obj;
       Some (pass_or (v \<le> 5) (Failed LOG_LEVEL_MEDIUM ''Method_PSTInvalidStatus'')) })"

definition pmc_elements :: "nat list" where
  "pmc_elements = replicate 11 ACPI_TYPE_INTEGER @ replicate 3 ACPI_TYPE_STRING"

definition method_test_PMC_return :: "cstr \<Rightarrow> ACPI_BUFFER \<Rightarrow> outcome" where [returns_defs]:
  "method_test_PMC_return name buf =
     checked name buf ACPI_TYPE_PACKAGE (\<lambda>obj.
       on_ok (fwts_method_package_elements_type name obj pmc_elements) (do {
         v0 \<leftarrow> int_at obj 0;
         v1 \<leftarrow> int_at obj 1;
         v2 \<leftarrow> int_at obj 2;
         v3 \<leftarrow> int_at obj 3;
         v8 \<leftarrow> int_at obj 8;
         let bad = Failed LOG_LEVEL_MEDIUM ''Method_PMCBadElement'';
         Some (no_issues (
           fail_if (v0 AND 0xfffffef0 \<noteq> 0) bad @ fail_if (v1 \<noteq> 0) bad @
           fail_if (v2 \<noteq> 0 \<and> v2 \<noteq> 1) bad @ fail_if (v3 > 100000) bad @
           fail_if (v8 \<noteq> 0 \<and> v8 \<noteq> 0xffffffff) bad)) }))"

definition method_test_WPC_return :: "cstr \<Rightarrow> ACPI_BUFFER \<Rightarrow> outcome" where [returns_defs]:
  "method_test_WPC_return name buf =
     checked name buf ACPI_TYPE_INTEGER (\<lambda>obj. do {
       v \<leftarrow> int_value obj;
       Some (pass_or (v \<le> 2 \<or> v = 0xff) (Failed LOG_LEVEL_HIGH ''Method_WPCInvalidInteger'')) })"

section \<open>Section 11: thermal management\<close>

text \<open>
  _FPS and _ART: a revision, then packages of elements of given types. The first element is read
  without a check that there is one.
\<close>

definition element_types :: "cstr \<Rightarrow> ACPI_OBJECT \<Rightarrow> nat list \<Rightarrow> outcome" where
  "element_types name pkg types =
     each (\<lambda>(j, type). fwts_method_check_element_type name pkg j type) (enumerate 0 types)"

definition revision_then_packages :: "cstr \<Rightarrow> cstr \<Rightarrow> nat list \<Rightarrow> ACPI_BUFFER \<Rightarrow> outcome" where
  "revision_then_packages l name types buf =
     checked name buf ACPI_TYPE_PACKAGE (\<lambda>obj. do {
       es \<leftarrow> elements obj;
       e0 \<leftarrow> element_at obj 0;
       let bad = Failed LOG_LEVEL_MEDIUM l;
       let (rs, ok) = (case e0 of
           Integer v \<Rightarrow> fwts_method_test_revision name (ucast v) 0
         | _ \<Rightarrow> ([bad], False));
       rs' \<leftarrow> each (\<lambda>pkg.
         if object_type pkg \<noteq> ACPI_TYPE_PACKAGE then Some [bad]
         else on_ok (fwts_method_subpackage_count_equal name pkg (length types)) (element_types name pkg types)) (tl es);
       Some (rs @ rs' @ (if ok \<and> rs' = [] then [Passed] else [])) })"

definition method_test_FPS_return :: "cstr \<Rightarrow> ACPI_BUFFER \<Rightarrow> outcome" where
  "method_test_FPS_return name buf =
     revision_then_packages ''Method_FPSBadReturnType'' name (replicate 5 ACPI_TYPE_INTEGER) buf"

text \<open>
  A temperature is only looked at if its evaluation accessed no operation region; all accesses of
  the emulation return made up values.
\<close>

definition method_test_THERM_return :: "'s check" where
  "method_test_THERM_return name buf st =
     map_option (\<lambda>rs. (rs, st)) (checked name buf ACPI_TYPE_INTEGER (\<lambda>obj.
       if region_handler_called st then Some [Passed]
       else do {
         v \<leftarrow> int_value obj;
         Some (if v \<ge> 2732 then [Passed] else [Failed LOG_LEVEL_MEDIUM ''MethodBadTemp'', Advice]) }))"

definition method_test_MTL_return :: "cstr \<Rightarrow> ACPI_BUFFER \<Rightarrow> outcome" where [returns_defs]:
  "method_test_MTL_return name buf =
     checked name buf ACPI_TYPE_INTEGER (\<lambda>obj. do {
       v \<leftarrow> int_value obj;
       Some (pass_or (v \<le> 100) (Failed LOG_LEVEL_MEDIUM ''Method_MTLBadReturnType'')) })"

definition method_test_ART_return :: "cstr \<Rightarrow> ACPI_BUFFER \<Rightarrow> outcome" where
  "method_test_ART_return name buf =
     revision_then_packages ''Method_ARTBadReturnType'' name
       (replicate 2 ACPI_TYPE_LOCAL_REFERENCE @ replicate 11 ACPI_TYPE_INTEGER) buf"

definition trt_types :: "nat list" where
  "trt_types = replicate 2 ACPI_TYPE_LOCAL_REFERENCE @ replicate 6 ACPI_TYPE_INTEGER"

definition method_test_TRT_return :: "cstr \<Rightarrow> ACPI_BUFFER \<Rightarrow> outcome" where [returns_defs]:
  "method_test_TRT_return name buf =
     subpackages name buf (\<lambda>pkg.
       on_ok (fwts_method_subpackage_count_equal name pkg 8) (element_types name pkg trt_types))"

section \<open>Sections 12 and 16: embedded controller, waking and sleeping\<close>

definition method_test_GPE_return :: "cstr \<Rightarrow> ACPI_BUFFER \<Rightarrow> outcome" where
  "method_test_GPE_return name buf = do {
     obj \<leftarrow> buf;
     if object_type obj = ACPI_TYPE_INTEGER then do {
       v \<leftarrow> int_value obj;
       Some (pass_or (v \<le> 255) (Failed LOG_LEVEL_HIGH ''MethodGPEInvalidInteger'')) }
     else if object_type obj = ACPI_TYPE_PACKAGE then
       on_ok (fwts_method_package_elements_type name obj [ACPI_TYPE_LOCAL_REFERENCE, ACPI_TYPE_INTEGER]) (Some [Passed])
     else Some [Failed LOG_LEVEL_HIGH ''Method_GPEBadSubReturnType''] }"

definition method_test_WAK_return :: "cstr \<Rightarrow> ACPI_BUFFER \<Rightarrow> outcome" where
  "method_test_WAK_return name buf = do {
     obj \<leftarrow> buf;
     if object_type obj = ACPI_TYPE_PACKAGE then
       on_ok (fwts_method_package_elements_type name obj [ACPI_TYPE_INTEGER, ACPI_TYPE_INTEGER]) (Some [Passed])
     else if object_type obj = ACPI_TYPE_INTEGER then Some [Warning, Passed]
     else Some [Failed LOG_LEVEL_CRITICAL ''MethodReturnBadType''] }"

section \<open>Appendix B: display adapters, and other specifications\<close>

definition method_test_DOD_return :: "cstr \<Rightarrow> ACPI_BUFFER \<Rightarrow> outcome" where [returns_defs]:
  "method_test_DOD_return name buf =
     checked name buf ACPI_TYPE_PACKAGE (\<lambda>obj. do {
       es \<leftarrow> elements obj;
       Some (pass_or (list_all (\<lambda>e. object_type e = ACPI_TYPE_INTEGER) es)
         (Failed LOG_LEVEL_MEDIUM ''Method_DODNoPackage'')) })"

text \<open>
  The brightness levels: the first two elements are the levels on full power and on battery, the
  others the levels there are. int_values reads the integers of the elements.
\<close>

fun int_values :: "ACPI_OBJECT list \<Rightarrow> u64 list option" where
  "int_values [] = Some []"
| "int_values (e # es) = do { v \<leftarrow> int_value e; vs \<leftarrow> int_values es; Some (v # vs) }"

fun ascending :: "u64 list \<Rightarrow> bool" where
  "ascending (v # w # vs) \<longleftrightarrow> \<not> v > w \<and> ascending (w # vs)"
| "ascending _ \<longleftrightarrow> True"

definition BCL_reports :: "bool \<Rightarrow> u64 list \<Rightarrow> report list" where
  "BCL_reports backlight vs = (
     let levels = drop 2 vs in
     fail_if (vs ! 0 < vs ! 1) (Failed LOG_LEVEL_MEDIUM ''Method_BCLMaxLevel'') @
     fail_if (\<not> ascending levels) (Failed LOG_LEVEL_MEDIUM ''Method_BCLAscendingOrder'') @
     (if backlight
      then fail_if (vs ! 0 \<notin> set levels) (Failed LOG_LEVEL_CRITICAL ''Method_BCLFullNotInList'') @
           fail_if (vs ! 1 \<notin> set levels) (Failed LOG_LEVEL_CRITICAL ''Method_BCLBatteryNotInList'')
      else []))"

definition method_test_BCL_return :: "bool \<Rightarrow> cstr \<Rightarrow> ACPI_BUFFER \<Rightarrow> outcome" where [returns_defs]:
  "method_test_BCL_return backlight name buf =
     checked name buf ACPI_TYPE_PACKAGE (\<lambda>obj.
       on_ok (fwts_method_package_count_min name obj 3)
         (on_ok (fwts_method_package_elements_all_type name obj ACPI_TYPE_INTEGER) (do {
            es \<leftarrow> elements obj;
            vs \<leftarrow> int_values es;
            sane_or_advice (Some (BCL_reports backlight vs)) })))"

definition method_test_DDC_return :: "u32 \<Rightarrow> cstr \<Rightarrow> ACPI_BUFFER \<Rightarrow> outcome" where [returns_defs]:
  "method_test_DDC_return arg name buf = Some
     (case buf of
        None \<Rightarrow> fwts_method_failed_null_object name
      | Some (Buffer b) \<Rightarrow> pass_or (unat (arg * 128) = buffer_length b) (Failed LOG_LEVEL_MEDIUM ''Method_DDCElementCount'')
      | Some (Integer v) \<Rightarrow> [Passed]
      | Some _ \<Rightarrow> [Failed LOG_LEVEL_MEDIUM ''Method_DDCBadReturnType''])"

text \<open>The flag passed of _CBR is never cleared: a bad length or version is reported, and passed.\<close>

definition method_test_CBR_return :: "cstr \<Rightarrow> ACPI_BUFFER \<Rightarrow> outcome" where [returns_defs]:
  "method_test_CBR_return name buf =
     checked name buf ACPI_TYPE_PACKAGE (\<lambda>obj.
       on_ok (fwts_method_package_elements_type name obj (replicate 3 ACPI_TYPE_INTEGER)) (do {
         v0 \<leftarrow> int_at obj 0;
         v2 \<leftarrow> int_at obj 2;
         let version = (ucast v0 :: u32);
         let len = (ucast v2 :: u32);
         Some ((if version = 0 then fail_if (len \<noteq> 0x2000) (Failed LOG_LEVEL_CRITICAL ''Method_CBRLength'')
                else if version = 1 then fail_if (len \<noteq> 0x10000) (Failed LOG_LEVEL_CRITICAL ''Method_CBRLength'')
                else [Failed LOG_LEVEL_HIGH ''Method_CBRBadVersion'']) @ [Passed]) }))"

end
