(* ===== verification/Fwts_Method_Tests.thy ===== *)
theory Fwts_Method_Tests
  imports Fwts_Method
begin

text \<open>
  The tests of src/src/acpi/method/method.c: one for each ACPI name, which evaluates all objects of
  that name with given arguments and checks what they return, and the table of all tests.
\<close>

named_theorems method_defs "the definitions of the tests"

section \<open>Tests that evaluate one name once\<close>

definition method_test_AEI :: "'s method_env \<Rightarrow> 's method_test" where [method_defs]:
  "method_test_AEI env =
     method_evaluate_method env METHOD_OPTIONAL ''_AEI'' [] (pure_check (method_test_AEI_return env))"

definition method_test_DLM :: "'s method_env \<Rightarrow> 's method_test" where [method_defs]:
  "method_test_DLM env =
     method_evaluate_method env METHOD_OPTIONAL ''_DLM'' [] (pure_check method_test_DLM_return)"

definition method_test_CLS :: "'s method_env \<Rightarrow> 's method_test" where [method_defs]:
  "method_test_CLS env =
     method_evaluate_method env METHOD_OPTIONAL ''_CLS'' [] (pure_check (fwts_method_test_package_integer_return 3))"

definition method_test_DDN :: "'s method_env \<Rightarrow> 's method_test" where [method_defs]:
  "method_test_DDN env =
     method_evaluate_method env METHOD_OPTIONAL ''_DDN'' [] (pure_check fwts_method_test_string_return)"

definition method_test_HID :: "'s method_env \<Rightarrow> 's method_test" where [method_defs]:
  "method_test_HID env =
     (if env_sbbr env then method_evaluate_method env METHOD_MANDATORY ''_HID'' [] (pure_check fwts_method_test_HID_return)
      else method_evaluate_method env METHOD_OPTIONAL ''_HID'' [] (pure_check fwts_method_test_HID_return))"

definition method_test_CID :: "'s method_env \<Rightarrow> 's method_test" where [method_defs]:
  "method_test_CID env =
     method_evaluate_method env METHOD_OPTIONAL ''_CID'' [] (pure_check fwts_method_test_CID_return)"

definition method_test_MLS :: "'s method_env \<Rightarrow> 's method_test" where [method_defs]:
  "method_test_MLS env =
     method_evaluate_method env METHOD_OPTIONAL ''_MLS'' [] (pure_check fwts_method_test_MLS_return)"

definition method_test_HRV :: "'s method_env \<Rightarrow> 's method_test" where [method_defs]:
  "method_test_HRV env =
     method_evaluate_method env METHOD_OPTIONAL ''_HRV'' [] (pure_check fwts_method_test_integer_return)"

definition method_test_STR :: "'s method_env \<Rightarrow> 's method_test" where [method_defs]:
  "method_test_STR env =
     method_evaluate_method env METHOD_OPTIONAL ''_STR'' [] (pure_check fwts_method_test_buffer_return)"

definition method_test_PLD :: "'s method_env \<Rightarrow> 's method_test" where [method_defs]:
  "method_test_PLD env =
     method_evaluate_method env METHOD_OPTIONAL ''_PLD'' [] (pure_check fwts_method_test_PLD_return)"

definition method_test_SUB :: "'s method_env \<Rightarrow> 's method_test" where [method_defs]:
  "method_test_SUB env =
     method_evaluate_method env METHOD_OPTIONAL ''_SUB'' [] (pure_check fwts_method_test_SUB_return)"

definition method_test_SUN :: "'s method_env \<Rightarrow> 's method_test" where [method_defs]:
  "method_test_SUN env =
     method_evaluate_method env METHOD_OPTIONAL ''_SUN'' [] (pure_check fwts_method_test_integer_return)"

definition method_test_UID :: "'s method_env \<Rightarrow> 's method_test" where [method_defs]:
  "method_test_UID env =
     (if env_sbbr env then method_evaluate_method env METHOD_MANDATORY ''_UID'' [] (pure_check fwts_method_test_UID_return)
      else method_evaluate_method env METHOD_OPTIONAL ''_UID'' [] (pure_check fwts_method_test_UID_return))"

definition method_test_CRS :: "'s method_env \<Rightarrow> 's method_test" where [method_defs]:
  "method_test_CRS env =
     method_evaluate_method env METHOD_MANDATORY ''_CRS'' [] (pure_check (method_test_CRS_return (env_sbbr env) ''_CRS''))"

definition method_test_MAT :: "'s method_env \<Rightarrow> 's method_test" where [method_defs]:
  "method_test_MAT env =
     method_evaluate_method env METHOD_OPTIONAL ''_MAT'' [] (pure_check fwts_method_test_buffer_return)"

definition method_test_PRS :: "'s method_env \<Rightarrow> 's method_test" where [method_defs]:
  "method_test_PRS env =
     method_evaluate_method env METHOD_OPTIONAL ''_PRS'' [] (pure_check (method_test_CRS_return (env_sbbr env) ''_PRS''))"

definition method_test_PRT :: "'s method_env \<Rightarrow> 's method_test" where [method_defs]:
  "method_test_PRT env =
     method_evaluate_method env METHOD_OPTIONAL ''_PRT'' [] (pure_check method_test_PRT_return)"

definition method_test_DMA :: "'s method_env \<Rightarrow> 's method_test" where [method_defs]:
  "method_test_DMA env =
     method_evaluate_method env METHOD_OPTIONAL ''_DMA'' [] (pure_check fwts_method_test_buffer_return)"

definition method_test_FIX :: "'s method_env \<Rightarrow> 's method_test" where [method_defs]:
  "method_test_FIX env =
     method_evaluate_method env METHOD_OPTIONAL ''_FIX'' [] (pure_check method_test_FIX_return)"

definition method_test_DSD :: "'s method_env \<Rightarrow> 's method_test" where [method_defs]:
  "method_test_DSD env =
     method_evaluate_method env METHOD_OPTIONAL ''_DSD'' [] (pure_check method_test_DSD_return)"

definition method_test_DIS :: "'s method_env \<Rightarrow> 's method_test" where [method_defs]:
  "method_test_DIS env =
     method_evaluate_method env METHOD_OPTIONAL ''_DIS'' [] (pure_check (fwts_method_test_NULL_return (env_slack env)))"

definition method_test_GSB :: "'s method_env \<Rightarrow> 's method_test" where [method_defs]:
  "method_test_GSB env =
     method_evaluate_method env METHOD_OPTIONAL ''_GSB'' [] (pure_check fwts_method_test_integer_return)"

definition method_test_HPP :: "'s method_env \<Rightarrow> 's method_test" where [method_defs]:
  "method_test_HPP env =
     method_evaluate_method env METHOD_OPTIONAL ''_HPP'' [] (pure_check (fwts_method_test_package_integer_return 4))"

definition method_test_PXM :: "'s method_env \<Rightarrow> 's method_test" where [method_defs]:
  "method_test_PXM env =
     method_evaluate_method env METHOD_OPTIONAL ''_PXM'' [] (pure_check fwts_method_test_integer_return)"

definition method_test_SLI :: "'s method_env \<Rightarrow> 's method_test" where [method_defs]:
  "method_test_SLI env =
     method_evaluate_method env METHOD_OPTIONAL ''_SLI'' [] (pure_check fwts_method_test_buffer_return)"

definition method_test_CCA :: "'s method_env \<Rightarrow> 's method_test" where [method_defs]:
  "method_test_CCA env =
     (if env_sbbr env then method_evaluate_method env METHOD_MANDATORY ''_CCA'' [] (pure_check fwts_method_test_passed_failed_return)
      else method_evaluate_method env METHOD_OPTIONAL ''_CCA'' [] (pure_check fwts_method_test_passed_failed_return))"

definition method_test_EDL :: "'s method_env \<Rightarrow> 's method_test" where [method_defs]:
  "method_test_EDL env =
     method_evaluate_method env METHOD_OPTIONAL ''_EDL'' [] (pure_check fwts_method_test_all_reference_package_return)"

definition method_test_EJD :: "'s method_env \<Rightarrow> 's method_test" where [method_defs]:
  "method_test_EJD env =
     method_evaluate_method env METHOD_OPTIONAL ''_EJD'' [] (pure_check fwts_method_test_string_return)"

definition method_test_LCK :: "'s method_env \<Rightarrow> 's method_test" where [method_defs]:
  "method_test_LCK env =
     method_evaluate_method env METHOD_OPTIONAL ''_LCK'' [Integer 1] (pure_check (fwts_method_test_NULL_return (env_slack env)))"

definition method_test_RMV :: "'s method_env \<Rightarrow> 's method_test" where [method_defs]:
  "method_test_RMV env =
     method_evaluate_method env METHOD_OPTIONAL ''_RMV'' [] (pure_check fwts_method_test_passed_failed_return)"

definition method_test_STA :: "'s method_env \<Rightarrow> 's method_test" where [method_defs]:
  "method_test_STA env =
     (if env_sbbr env then method_evaluate_method env METHOD_MANDATORY ''_STA'' [] (pure_check fwts_method_test_STA_return)
      else method_evaluate_method env METHOD_OPTIONAL ''_STA'' [] (pure_check fwts_method_test_STA_return))"

definition method_test_BBN :: "'s method_env \<Rightarrow> 's method_test" where [method_defs]:
  "method_test_BBN env =
     method_evaluate_method env METHOD_OPTIONAL ''_BBN'' [] (pure_check (fwts_method_test_integer_reserved_bits_return (NOT 0xff)))"

definition method_test_BDN :: "'s method_env \<Rightarrow> 's method_test" where [method_defs]:
  "method_test_BDN env =
     method_evaluate_method env METHOD_MOBILE ''_BDN'' [] (pure_check fwts_method_test_integer_return)"

definition method_test_DEP :: "'s method_env \<Rightarrow> 's method_test" where [method_defs]:
  "method_test_DEP env =
     method_evaluate_method env METHOD_OPTIONAL ''_DEP'' [] (pure_check fwts_method_test_all_reference_package_return)"

definition method_test_FIT :: "'s method_env \<Rightarrow> 's method_test" where [method_defs]:
  "method_test_FIT env =
     method_evaluate_method env METHOD_OPTIONAL ''_FIT'' [] (pure_check fwts_method_test_buffer_return)"

definition method_test_LSI :: "'s method_env \<Rightarrow> 's method_test" where [method_defs]:
  "method_test_LSI env =
     method_evaluate_method env METHOD_OPTIONAL ''_LSI'' [] (pure_check (fwts_method_test_package_integer_return 3))"

definition method_test_INI :: "'s method_env \<Rightarrow> 's method_test" where [method_defs]:
  "method_test_INI env =
     method_evaluate_method env METHOD_OPTIONAL ''_INI'' [] (pure_check (fwts_method_test_NULL_return (env_slack env)))"

definition method_test_SEG :: "'s method_env \<Rightarrow> 's method_test" where [method_defs]:
  "method_test_SEG env =
     method_evaluate_method env METHOD_OPTIONAL ''_SEG'' [] (pure_check (fwts_method_test_integer_reserved_bits_return (NOT 0xffff)))"

definition method_test_GLK :: "'s method_env \<Rightarrow> 's method_test" where [method_defs]:
  "method_test_GLK env =
     method_evaluate_method env METHOD_OPTIONAL ''_GLK'' [] (pure_check method_test_GLK_return)"

definition method_test_ON :: "'s method_env \<Rightarrow> 's method_test" where [method_defs]:
  "method_test_ON env =
     method_evaluate_method env METHOD_OPTIONAL ''_ON_'' [] (pure_check (fwts_method_test_NULL_return (env_slack env)))"

definition method_test_OFF :: "'s method_env \<Rightarrow> 's method_test" where [method_defs]:
  "method_test_OFF env =
     method_evaluate_method env METHOD_OPTIONAL ''_OFF'' [] (pure_check (fwts_method_test_NULL_return (env_slack env)))"

definition method_test_DSW :: "'s method_env \<Rightarrow> 's method_test" where [method_defs]:
  "method_test_DSW env =
     method_evaluate_method env METHOD_OPTIONAL ''_DSW'' [Integer 1, Integer 0, Integer 3] (pure_check (fwts_method_test_NULL_return (env_slack env)))"

definition method_test_PRW :: "'s method_env \<Rightarrow> 's method_test" where [method_defs]:
  "method_test_PRW env =
     method_evaluate_method env METHOD_OPTIONAL ''_PRW'' [] (pure_check method_test_PRW_return)"

definition method_test_PS0 :: "'s method_env \<Rightarrow> 's method_test" where [method_defs]:
  "method_test_PS0 env =
     method_evaluate_method env METHOD_OPTIONAL ''_PS0'' [] (pure_check (method_test_PS0_return env))"

definition method_test_PSC :: "'s method_env \<Rightarrow> 's method_test" where [method_defs]:
  "method_test_PSC env =
     method_evaluate_method env METHOD_OPTIONAL ''_PSC'' [] (pure_check (fwts_method_test_integer_max_return 3))"

definition method_test_PSE :: "'s method_env \<Rightarrow> 's method_test" where [method_defs]:
  "method_test_PSE env =
     method_evaluate_method env METHOD_OPTIONAL ''_PSE'' [Integer 1] (pure_check (fwts_method_test_NULL_return (env_slack env)))"

definition method_test_PSW :: "'s method_env \<Rightarrow> 's method_test" where [method_defs]:
  "method_test_PSW env =
     method_evaluate_method env METHOD_OPTIONAL ''_PSW'' [Integer 1] (pure_check (fwts_method_test_NULL_return (env_slack env)))"

definition method_test_RST :: "'s method_env \<Rightarrow> 's method_test" where [method_defs]:
  "method_test_RST env =
     method_evaluate_method env METHOD_OPTIONAL ''_RST'' [] (pure_check (fwts_method_test_NULL_return (env_slack env)))"

definition method_test_PRR :: "'s method_env \<Rightarrow> 's method_test" where [method_defs]:
  "method_test_PRR env =
     method_evaluate_method env METHOD_OPTIONAL ''_PRR'' [] (pure_check method_test_PRR_return)"

definition method_test_IRC :: "'s method_env \<Rightarrow> 's method_test" where [method_defs]:
  "method_test_IRC env =
     method_evaluate_method env METHOD_OPTIONAL ''_IRC'' [] (pure_check (fwts_method_test_NULL_return (env_slack env)))"

definition method_test_SWS :: "'s method_env \<Rightarrow> 's method_test" where [method_defs]:
  "method_test_SWS env =
     method_evaluate_method env METHOD_OPTIONAL ''_SWS'' [] (pure_check fwts_method_test_integer_return)"

definition method_test_CPC :: "'s method_env \<Rightarrow> 's method_test" where [method_defs]:
  "method_test_CPC env =
     method_evaluate_method env METHOD_OPTIONAL ''_CPC'' [] (pure_check method_test_CPC_return)"

definition method_test_CSD :: "'s method_env \<Rightarrow> 's method_test" where [method_defs]:
  "method_test_CSD env =
     method_evaluate_method env METHOD_OPTIONAL ''_CSD'' [] (pure_check (method_test_xSD_return (env_acpi_version env) ''_CSD''))"

definition method_test_CST :: "'s method_env \<Rightarrow> 's method_test" where [method_defs]:
  "method_test_CST env =
     method_evaluate_method env METHOD_OPTIONAL ''_CST'' [] (pure_check method_test_CST_return)"

definition method_test_PCT :: "'s method_env \<Rightarrow> 's method_test" where [method_defs]:
  "method_test_PCT env =
     method_evaluate_method env METHOD_OPTIONAL ''_PCT'' [] (pure_check (method_test_PCT_PTC_return env ''_PCT''))"

definition method_test_PSS :: "'s method_env \<Rightarrow> 's method_test" where [method_defs]:
  "method_test_PSS env =
     method_evaluate_method env METHOD_OPTIONAL ''_PSS'' [] (pure_check method_test_PSS_return)"

definition method_test_PPC :: "'s method_env \<Rightarrow> 's method_test" where [method_defs]:
  "method_test_PPC env =
     method_evaluate_method env METHOD_OPTIONAL ''_PPC'' [] (pure_check fwts_method_test_integer_return)"

definition method_test_PPE :: "'s method_env \<Rightarrow> 's method_test" where [method_defs]:
  "method_test_PPE env =
     method_evaluate_method env METHOD_OPTIONAL ''_PPE'' [] (pure_check fwts_method_test_integer_return)"

definition method_test_PSD :: "'s method_env \<Rightarrow> 's method_test" where [method_defs]:
  "method_test_PSD env =
     method_evaluate_method env METHOD_OPTIONAL ''_PSD'' [] (pure_check (method_test_xSD_return (env_acpi_version env) ''_PSD''))"

definition method_test_PDL :: "'s method_env \<Rightarrow> 's method_test" where [method_defs]:
  "method_test_PDL env =
     method_evaluate_method env METHOD_OPTIONAL ''_PDL'' [] (pure_check fwts_method_test_integer_return)"

definition method_test_PTC :: "'s method_env \<Rightarrow> 's method_test" where [method_defs]:
  "method_test_PTC env =
     method_evaluate_method env METHOD_OPTIONAL ''_PTC'' [] (pure_check (method_test_PCT_PTC_return env ''_PTC''))"

definition method_test_TDL :: "'s method_env \<Rightarrow> 's method_test" where [method_defs]:
  "method_test_TDL env =
     method_evaluate_method env METHOD_OPTIONAL ''_TDL'' [] (pure_check fwts_method_test_integer_return)"

definition method_test_TPC :: "'s method_env \<Rightarrow> 's method_test" where [method_defs]:
  "method_test_TPC env =
     method_evaluate_method env METHOD_OPTIONAL ''_TPC'' [] (pure_check fwts_method_test_integer_return)"

definition method_test_TSD :: "'s method_env \<Rightarrow> 's method_test" where [method_defs]:
  "method_test_TSD env =
     method_evaluate_method env METHOD_OPTIONAL ''_TSD'' [] (pure_check (method_test_xSD_return (env_acpi_version env) ''_TSD''))"

definition method_test_TSS :: "'s method_env \<Rightarrow> 's method_test" where [method_defs]:
  "method_test_TSS env =
     method_evaluate_method env METHOD_OPTIONAL ''_TSS'' [] (pure_check method_test_TSS_return)"

definition method_test_LPI :: "'s method_env \<Rightarrow> 's method_test" where [method_defs]:
  "method_test_LPI env =
     method_evaluate_method env METHOD_OPTIONAL ''_LPI'' [] (pure_check method_test_LPI_return)"

definition method_test_RDI :: "'s method_env \<Rightarrow> 's method_test" where [method_defs]:
  "method_test_RDI env =
     method_evaluate_method env METHOD_OPTIONAL ''_RDI'' [] (pure_check method_test_RDI_return)"

definition method_test_PUR :: "'s method_env \<Rightarrow> 's method_test" where [method_defs]:
  "method_test_PUR env =
     method_evaluate_method env METHOD_OPTIONAL ''_PUR'' [] (pure_check method_test_PUR_return)"

definition method_test_MSG :: "'s method_env \<Rightarrow> 's method_test" where [method_defs]:
  "method_test_MSG env =
     method_evaluate_method env METHOD_OPTIONAL ''_MSG'' [Integer 0] (pure_check (fwts_method_test_NULL_return (env_slack env)))"

definition method_test_ALR :: "'s method_env \<Rightarrow> 's method_test" where [method_defs]:
  "method_test_ALR env =
     method_evaluate_method env METHOD_OPTIONAL ''_ALR'' [] (pure_check method_test_ALR_return)"

definition method_test_ALP :: "'s method_env \<Rightarrow> 's method_test" where [method_defs]:
  "method_test_ALP env =
     method_evaluate_method env METHOD_OPTIONAL ''_ALP'' [] (pure_check fwts_method_test_polling_return)"

definition method_test_LID :: "'s method_env \<Rightarrow> 's method_test" where [method_defs]:
  "method_test_LID env =
     method_evaluate_method env METHOD_MOBILE ''_LID'' [] (pure_check fwts_method_test_integer_return)"

definition method_test_GTF :: "'s method_env \<Rightarrow> 's method_test" where [method_defs]:
  "method_test_GTF env =
     method_evaluate_method env METHOD_OPTIONAL ''_GTF'' [] (pure_check method_test_GTF_return)"

definition method_test_GTM :: "'s method_env \<Rightarrow> 's method_test" where [method_defs]:
  "method_test_GTM env =
     method_evaluate_method env METHOD_OPTIONAL ''_GTM'' [] (pure_check method_test_GTM_return)"

definition method_test_MBM :: "'s method_env \<Rightarrow> 's method_test" where [method_defs]:
  "method_test_MBM env =
     method_evaluate_method env METHOD_OPTIONAL ''_MBM'' [] (pure_check (fwts_method_test_package_integer_return 8))"

definition method_test_UPC :: "'s method_env \<Rightarrow> 's method_test" where [method_defs]:
  "method_test_UPC env =
     method_evaluate_method env METHOD_OPTIONAL ''_UPC'' [] (pure_check method_test_UPC_return)"

definition method_test_PDO :: "'s method_env \<Rightarrow> 's method_test" where [method_defs]:
  "method_test_PDO env =
     method_evaluate_method env METHOD_OPTIONAL ''_PDO'' [] (pure_check method_test_PDO_return)"

definition method_test_UPD :: "'s method_env \<Rightarrow> 's method_test" where [method_defs]:
  "method_test_UPD env =
     method_evaluate_method env METHOD_OPTIONAL ''_UPD'' [] (pure_check fwts_method_test_integer_return)"

definition method_test_UPP :: "'s method_env \<Rightarrow> 's method_test" where [method_defs]:
  "method_test_UPP env =
     method_evaluate_method env METHOD_OPTIONAL ''_UPP'' [] (pure_check fwts_method_test_polling_return)"

definition method_test_GCP :: "'s method_env \<Rightarrow> 's method_test" where [method_defs]:
  "method_test_GCP env =
     method_evaluate_method env METHOD_OPTIONAL ''_GCP'' [] (method_test_GCP_return (NOT 0x1ff))"

definition method_test_GRT :: "'s method_env \<Rightarrow> 's method_test" where [method_defs]:
  "method_test_GRT env st =
     (if bit (gcp_return_value st) 2
      then method_evaluate_method env METHOD_MANDATORY ''_GRT'' [] (pure_check method_test_GRT_return) st
      else method_evaluate_method env METHOD_OPTIONAL ''_GRT'' [] (pure_check method_test_GRT_return) st)"

definition method_test_GWS :: "'s method_env \<Rightarrow> 's method_test" where [method_defs]:
  "method_test_GWS env st =
     (if bit (gcp_return_value st) 0
      then method_evaluate_method env METHOD_MANDATORY ''_GWS'' [Integer 1] (pure_check (fwts_method_test_integer_reserved_bits_return (NOT 0x3))) st
      else method_evaluate_method env METHOD_OPTIONAL ''_GWS'' [Integer 1] (pure_check (fwts_method_test_integer_reserved_bits_return (NOT 0x3))) st)"

definition method_test_STP :: "'s method_env \<Rightarrow> 's method_test" where [method_defs]:
  "method_test_STP env st =
     (if bit (gcp_return_value st) 0
      then method_evaluate_method env METHOD_MANDATORY ''_STP'' [Integer 1, Integer 0] (pure_check fwts_method_test_passed_failed_return) st
      else method_evaluate_method env METHOD_OPTIONAL ''_STP'' [Integer 1, Integer 0] (pure_check fwts_method_test_passed_failed_return) st)"

definition method_test_STV :: "'s method_env \<Rightarrow> 's method_test" where [method_defs]:
  "method_test_STV env st =
     (if bit (gcp_return_value st) 0
      then method_evaluate_method env METHOD_MANDATORY ''_STV'' [Integer 1, Integer 100] (pure_check fwts_method_test_passed_failed_return) st
      else method_evaluate_method env METHOD_OPTIONAL ''_STV'' [Integer 1, Integer 100] (pure_check fwts_method_test_passed_failed_return) st)"

definition method_test_TIP :: "'s method_env \<Rightarrow> 's method_test" where [method_defs]:
  "method_test_TIP env st =
     (if bit (gcp_return_value st) 0
      then method_evaluate_method env METHOD_MANDATORY ''_TIP'' [Integer 1] (pure_check fwts_method_test_integer_return) st
      else method_evaluate_method env METHOD_OPTIONAL ''_TIP'' [Integer 1] (pure_check fwts_method_test_integer_return) st)"

definition method_test_TIV :: "'s method_env \<Rightarrow> 's method_test" where [method_defs]:
  "method_test_TIV env st =
     (if bit (gcp_return_value st) 0
      then method_evaluate_method env METHOD_MANDATORY ''_TIV'' [Integer 1] (pure_check fwts_method_test_integer_return) st
      else method_evaluate_method env METHOD_OPTIONAL ''_TIV'' [Integer 1] (pure_check fwts_method_test_integer_return) st)"

definition method_test_NBS :: "'s method_env \<Rightarrow> 's method_test" where [method_defs]:
  "method_test_NBS env =
     method_evaluate_method env METHOD_OPTIONAL ''_NBS'' [] (pure_check fwts_method_test_NBS_return)"

definition method_test_NCH :: "'s method_env \<Rightarrow> 's method_test" where [method_defs]:
  "method_test_NCH env =
     method_evaluate_method env METHOD_OPTIONAL ''_NCH'' [] (pure_check fwts_method_test_NCH_return)"

definition method_test_NIC :: "'s method_env \<Rightarrow> 's method_test" where [method_defs]:
  "method_test_NIC env =
     method_evaluate_method env METHOD_OPTIONAL ''_NIC'' [] (pure_check fwts_method_test_NIC_return)"

definition method_test_NIG :: "'s method_env \<Rightarrow> 's method_test" where [method_defs]:
  "method_test_NIG env =
     method_evaluate_method env METHOD_OPTIONAL ''_NIG'' [] (pure_check fwts_method_test_NIG_return)"

definition method_test_SBS :: "'s method_env \<Rightarrow> 's method_test" where [method_defs]:
  "method_test_SBS env =
     method_evaluate_method env METHOD_MOBILE ''_SBS'' [] (pure_check method_test_SBS_return)"

definition method_test_BCT :: "'s method_env \<Rightarrow> 's method_test" where [method_defs]:
  "method_test_BCT env =
     method_evaluate_method env METHOD_MOBILE ''_BCT'' [Integer 50] (pure_check fwts_method_test_integer_return)"

definition method_test_BIF :: "'s method_env \<Rightarrow> 's method_test" where [method_defs]:
  "method_test_BIF env =
     method_evaluate_method env METHOD_MOBILE ''_BIF'' [] (pure_check fwts_method_test_BIF_return)"

definition method_test_BIX :: "'s method_env \<Rightarrow> 's method_test" where [method_defs]:
  "method_test_BIX env =
     method_evaluate_method env METHOD_MOBILE ''_BIX'' [] (pure_check fwts_method_test_BIX_return)"

definition method_test_BMA :: "'s method_env \<Rightarrow> 's method_test" where [method_defs]:
  "method_test_BMA env =
     method_evaluate_method env METHOD_MOBILE ''_BMA'' [Integer 1] (pure_check fwts_method_test_passed_failed_return)"

definition method_test_BMS :: "'s method_env \<Rightarrow> 's method_test" where [method_defs]:
  "method_test_BMS env =
     method_evaluate_method env METHOD_MOBILE ''_BMS'' [Integer 1] (pure_check fwts_method_test_passed_failed_return)"

definition method_test_BPC :: "'s method_env \<Rightarrow> 's method_test" where [method_defs]:
  "method_test_BPC env =
     method_evaluate_method env METHOD_OPTIONAL ''_BPC'' [] (pure_check fwts_method_test_BPC_return)"

definition method_test_BPS :: "'s method_env \<Rightarrow> 's method_test" where [method_defs]:
  "method_test_BPS env =
     method_evaluate_method env METHOD_OPTIONAL ''_BPS'' [] (pure_check fwts_method_test_BPS_return)"

definition method_test_BST :: "'s method_env \<Rightarrow> 's method_test" where [method_defs]:
  "method_test_BST env =
     method_evaluate_method env METHOD_MOBILE ''_BST'' [] (pure_check fwts_method_test_BST_return)"

definition method_test_PCL :: "'s method_env \<Rightarrow> 's method_test" where [method_defs]:
  "method_test_PCL env =
     method_evaluate_method env METHOD_MOBILE ''_PCL'' [] (pure_check fwts_method_test_all_reference_package_return)"

definition method_test_BMD :: "'s method_env \<Rightarrow> 's method_test" where [method_defs]:
  "method_test_BMD env =
     method_evaluate_method env METHOD_MOBILE ''_BMD'' [] (pure_check fwts_method_test_BMD_return)"

definition method_test_PRL :: "'s method_env \<Rightarrow> 's method_test" where [method_defs]:
  "method_test_PRL env =
     method_evaluate_method env METHOD_OPTIONAL ''_PRL'' [] (pure_check fwts_method_test_all_reference_package_return)"

definition method_test_PSR :: "'s method_env \<Rightarrow> 's method_test" where [method_defs]:
  "method_test_PSR env =
     method_evaluate_method env METHOD_OPTIONAL ''_PSR'' [] (pure_check fwts_method_test_passed_failed_return)"

definition method_test_PIF :: "'s method_env \<Rightarrow> 's method_test" where [method_defs]:
  "method_test_PIF env =
     method_evaluate_method env METHOD_OPTIONAL ''_PIF'' [] (pure_check method_test_PIF_return)"

definition method_test_PCS :: "'s method_env \<Rightarrow> 's method_test" where [method_defs]:
  "method_test_PCS env =
     method_evaluate_method env METHOD_OPTIONAL ''_PCS'' [] (pure_check method_test_PCS_return)"

definition method_test_PST :: "'s method_env \<Rightarrow> 's method_test" where [method_defs]:
  "method_test_PST env =
     method_evaluate_method env METHOD_OPTIONAL ''_PST'' [Integer 1, Integer 0, Integer 0] (pure_check method_test_PST_return)"

definition method_test_GAI :: "'s method_env \<Rightarrow> 's method_test" where [method_defs]:
  "method_test_GAI env =
     method_evaluate_method env METHOD_OPTIONAL ''_GAI'' [] (pure_check fwts_method_test_integer_return)"

definition method_test_GHL :: "'s method_env \<Rightarrow> 's method_test" where [method_defs]:
  "method_test_GHL env =
     method_evaluate_method env METHOD_OPTIONAL ''_GHL'' [] (pure_check fwts_method_test_integer_return)"

definition method_test_PMC :: "'s method_env \<Rightarrow> 's method_test" where [method_defs]:
  "method_test_PMC env =
     method_evaluate_method env METHOD_OPTIONAL ''_PMC'' [] (pure_check method_test_PMC_return)"

definition method_test_PMD :: "'s method_env \<Rightarrow> 's method_test" where [method_defs]:
  "method_test_PMD env =
     method_evaluate_method env METHOD_OPTIONAL ''_PMD'' [] (pure_check fwts_method_test_all_reference_package_return)"

definition method_test_PMM :: "'s method_env \<Rightarrow> 's method_test" where [method_defs]:
  "method_test_PMM env =
     method_evaluate_method env METHOD_OPTIONAL ''_PMM'' [] (pure_check fwts_method_test_integer_return)"

definition method_test_WPC :: "'s method_env \<Rightarrow> 's method_test" where [method_defs]:
  "method_test_WPC env =
     method_evaluate_method env METHOD_OPTIONAL ''_WPC'' [] (pure_check method_test_WPC_return)"

definition method_test_WPP :: "'s method_env \<Rightarrow> 's method_test" where [method_defs]:
  "method_test_WPP env =
     method_evaluate_method env METHOD_OPTIONAL ''_WPP'' [] (pure_check fwts_method_test_polling_return)"

definition method_test_FIF :: "'s method_env \<Rightarrow> 's method_test" where [method_defs]:
  "method_test_FIF env =
     method_evaluate_method env METHOD_OPTIONAL ''_FIF'' [] (pure_check (fwts_method_test_package_integer_return 4))"

definition method_test_FPS :: "'s method_env \<Rightarrow> 's method_test" where [method_defs]:
  "method_test_FPS env =
     method_evaluate_method env METHOD_OPTIONAL ''_FPS'' [] (pure_check method_test_FPS_return)"

definition method_test_FSL :: "'s method_env \<Rightarrow> 's method_test" where [method_defs]:
  "method_test_FSL env =
     method_evaluate_method env METHOD_OPTIONAL ''_FSL'' [Integer 50] (pure_check (fwts_method_test_NULL_return (env_slack env)))"

definition method_test_FST :: "'s method_env \<Rightarrow> 's method_test" where [method_defs]:
  "method_test_FST env =
     method_evaluate_method env METHOD_OPTIONAL ''_FST'' [] (pure_check (fwts_method_test_package_integer_return 3))"

definition method_test_MTL :: "'s method_env \<Rightarrow> 's method_test" where [method_defs]:
  "method_test_MTL env =
     method_evaluate_method env METHOD_OPTIONAL ''_MTL'' [] (pure_check method_test_MTL_return)"

definition method_test_ART :: "'s method_env \<Rightarrow> 's method_test" where [method_defs]:
  "method_test_ART env =
     method_evaluate_method env METHOD_OPTIONAL ''_ART'' [] (pure_check method_test_ART_return)"

definition method_test_PSL :: "'s method_env \<Rightarrow> 's method_test" where [method_defs]:
  "method_test_PSL env =
     method_evaluate_method env METHOD_OPTIONAL ''_PSL'' [] (pure_check fwts_method_test_all_reference_package_return)"

definition method_test_TRT :: "'s method_env \<Rightarrow> 's method_test" where [method_defs]:
  "method_test_TRT env =
     method_evaluate_method env METHOD_OPTIONAL ''_TRT'' [] (pure_check method_test_TRT_return)"

definition method_test_TSN :: "'s method_env \<Rightarrow> 's method_test" where [method_defs]:
  "method_test_TSN env =
     method_evaluate_method env METHOD_OPTIONAL ''_TSN'' [] (pure_check fwts_method_test_reference_return)"

definition method_test_TSP :: "'s method_env \<Rightarrow> 's method_test" where [method_defs]:
  "method_test_TSP env =
     method_evaluate_method env METHOD_OPTIONAL ''_TSP'' [] (pure_check fwts_method_test_polling_return)"

definition method_test_TC1 :: "'s method_env \<Rightarrow> 's method_test" where [method_defs]:
  "method_test_TC1 env =
     method_evaluate_method env METHOD_OPTIONAL ''_TC1'' [] (pure_check fwts_method_test_integer_return)"

definition method_test_TC2 :: "'s method_env \<Rightarrow> 's method_test" where [method_defs]:
  "method_test_TC2 env =
     method_evaluate_method env METHOD_OPTIONAL ''_TC2'' [] (pure_check fwts_method_test_integer_return)"

definition method_test_TFP :: "'s method_env \<Rightarrow> 's method_test" where [method_defs]:
  "method_test_TFP env =
     method_evaluate_method env METHOD_OPTIONAL ''_TFP'' [] (pure_check fwts_method_test_integer_return)"

definition method_test_DTI :: "'s method_env \<Rightarrow> 's method_test" where [method_defs]:
  "method_test_DTI env =
     method_evaluate_method env METHOD_OPTIONAL ''_DTI'' [Integer 3532] (pure_check (fwts_method_test_NULL_return (env_slack env)))"

definition method_test_RTV :: "'s method_env \<Rightarrow> 's method_test" where [method_defs]:
  "method_test_RTV env =
     method_evaluate_method env METHOD_OPTIONAL ''_RTV'' [] (pure_check fwts_method_test_integer_return)"

definition method_test_TPT :: "'s method_env \<Rightarrow> 's method_test" where [method_defs]:
  "method_test_TPT env =
     method_evaluate_method env METHOD_OPTIONAL ''_TPT'' [Integer 3632] (pure_check (fwts_method_test_NULL_return (env_slack env)))"

definition method_test_TZD :: "'s method_env \<Rightarrow> 's method_test" where [method_defs]:
  "method_test_TZD env =
     method_evaluate_method env METHOD_OPTIONAL ''_TZD'' [] (pure_check fwts_method_test_all_reference_package_return)"

definition method_test_TZM :: "'s method_env \<Rightarrow> 's method_test" where [method_defs]:
  "method_test_TZM env =
     method_evaluate_method env METHOD_OPTIONAL ''_TZM'' [] (pure_check fwts_method_test_reference_return)"

definition method_test_TZP :: "'s method_env \<Rightarrow> 's method_test" where [method_defs]:
  "method_test_TZP env =
     method_evaluate_method env METHOD_OPTIONAL ''_TZP'' [] (pure_check fwts_method_test_polling_return)"

definition method_test_GPE :: "'s method_env \<Rightarrow> 's method_test" where [method_defs]:
  "method_test_GPE env =
     method_evaluate_method env METHOD_OPTIONAL ''_GPE'' [] (pure_check method_test_GPE_return)"

definition method_test_EC :: "'s method_env \<Rightarrow> 's method_test" where [method_defs]:
  "method_test_EC env =
     method_evaluate_method env METHOD_OPTIONAL ''_EC_'' [] (pure_check fwts_method_test_integer_return)"

definition method_test_DOS :: "'s method_env \<Rightarrow> 's method_test" where [method_defs]:
  "method_test_DOS env =
     method_evaluate_method env METHOD_OPTIONAL ''_DOS'' [Integer 1] (pure_check (fwts_method_test_NULL_return (env_slack env)))"

definition method_test_DOD :: "'s method_env \<Rightarrow> 's method_test" where [method_defs]:
  "method_test_DOD env =
     method_evaluate_method env METHOD_OPTIONAL ''_DOD'' [] (pure_check method_test_DOD_return)"

definition method_test_ROM :: "'s method_env \<Rightarrow> 's method_test" where [method_defs]:
  "method_test_ROM env =
     method_evaluate_method env METHOD_OPTIONAL ''_ROM'' [Integer 0, Integer 4096] (pure_check fwts_method_test_buffer_return)"

definition method_test_GPD :: "'s method_env \<Rightarrow> 's method_test" where [method_defs]:
  "method_test_GPD env =
     method_evaluate_method env METHOD_OPTIONAL ''_GPD'' [] (pure_check (fwts_method_test_integer_reserved_bits_return (NOT 0x3)))"

definition method_test_VPO :: "'s method_env \<Rightarrow> 's method_test" where [method_defs]:
  "method_test_VPO env =
     method_evaluate_method env METHOD_OPTIONAL ''_VPO'' [] (pure_check (fwts_method_test_integer_reserved_bits_return (NOT 0xf)))"

definition method_test_ADR :: "'s method_env \<Rightarrow> 's method_test" where [method_defs]:
  "method_test_ADR env =
     method_evaluate_method env METHOD_OPTIONAL ''_ADR'' [] (pure_check fwts_method_test_integer_return)"

definition method_test_BCL :: "'s method_env \<Rightarrow> 's method_test" where [method_defs]:
  "method_test_BCL env =
     method_evaluate_method env METHOD_OPTIONAL ''_BCL'' [] (pure_check (method_test_BCL_return (env_backlight env)))"

definition method_test_BCM :: "'s method_env \<Rightarrow> 's method_test" where [method_defs]:
  "method_test_BCM env =
     method_evaluate_method env METHOD_OPTIONAL ''_BCM'' [Integer 0] (pure_check (fwts_method_test_NULL_return (env_slack env)))"

definition method_test_BQC :: "'s method_env \<Rightarrow> 's method_test" where [method_defs]:
  "method_test_BQC env =
     method_evaluate_method env METHOD_OPTIONAL ''_BQC'' [] (pure_check fwts_method_test_integer_return)"

definition method_test_DCS :: "'s method_env \<Rightarrow> 's method_test" where [method_defs]:
  "method_test_DCS env =
     method_evaluate_method env METHOD_OPTIONAL ''_DCS'' [] (pure_check (fwts_method_test_integer_reserved_bits_return (NOT 0x1f)))"

definition method_test_DGS :: "'s method_env \<Rightarrow> 's method_test" where [method_defs]:
  "method_test_DGS env =
     method_evaluate_method env METHOD_OPTIONAL ''_DGS'' [] (pure_check (fwts_method_test_integer_reserved_bits_return (NOT 0x1)))"

definition method_test_DSS :: "'s method_env \<Rightarrow> 's method_test" where [method_defs]:
  "method_test_DSS env =
     method_evaluate_method env METHOD_OPTIONAL ''_DSS'' [Integer 0] (pure_check (fwts_method_test_NULL_return (env_slack env)))"

definition method_test_CBA :: "'s method_env \<Rightarrow> 's method_test" where [method_defs]:
  "method_test_CBA env =
     method_evaluate_method env METHOD_OPTIONAL ''_CBA'' [] (pure_check fwts_method_test_integer_return)"

definition method_test_CBR :: "'s method_env \<Rightarrow> 's method_test" where [method_defs]:
  "method_test_CBR env =
     method_evaluate_method env METHOD_OPTIONAL ''_CBR'' [] (pure_check method_test_CBR_return)"

definition method_test_CDM :: "'s method_env \<Rightarrow> 's method_test" where [method_defs]:
  "method_test_CDM env =
     method_evaluate_method env METHOD_OPTIONAL ''_CDM'' [] (pure_check fwts_method_test_integer_return)"

definition method_test_VDM :: "'s method_env \<Rightarrow> 's method_test" where [method_defs]:
  "method_test_VDM env =
     method_evaluate_method env METHOD_OPTIONAL ''_VDM'' [] (pure_check fwts_method_test_integer_return)"

definition method_test_IFT :: "'s method_env \<Rightarrow> 's method_test" where [method_defs]:
  "method_test_IFT env =
     method_evaluate_method env METHOD_OPTIONAL ''_IFT'' [] (pure_check fwts_method_test_integer_return)"

definition method_test_SRV :: "'s method_env \<Rightarrow> 's method_test" where [method_defs]:
  "method_test_SRV env =
     method_evaluate_method env METHOD_OPTIONAL ''_SRV'' [] (pure_check fwts_method_test_integer_return)"

definition method_test_EJ0 :: "'s method_env \<Rightarrow> 's method_test" where [method_defs]:
  "method_test_EJ0 env =
     method_evaluate_method env METHOD_OPTIONAL ''_EJ0'' [Integer 1] (pure_check (fwts_method_test_NULL_return (env_slack env)))"

definition method_test_EJ1 :: "'s method_env \<Rightarrow> 's method_test" where [method_defs]:
  "method_test_EJ1 env =
     method_evaluate_method env METHOD_OPTIONAL ''_EJ1'' [Integer 1] (pure_check (fwts_method_test_NULL_return (env_slack env)))"

definition method_test_EJ2 :: "'s method_env \<Rightarrow> 's method_test" where [method_defs]:
  "method_test_EJ2 env =
     method_evaluate_method env METHOD_OPTIONAL ''_EJ2'' [Integer 1] (pure_check (fwts_method_test_NULL_return (env_slack env)))"

definition method_test_EJ3 :: "'s method_env \<Rightarrow> 's method_test" where [method_defs]:
  "method_test_EJ3 env =
     method_evaluate_method env METHOD_OPTIONAL ''_EJ3'' [Integer 1] (pure_check (fwts_method_test_NULL_return (env_slack env)))"

definition method_test_EJ4 :: "'s method_env \<Rightarrow> 's method_test" where [method_defs]:
  "method_test_EJ4 env =
     method_evaluate_method env METHOD_OPTIONAL ''_EJ4'' [Integer 1] (pure_check (fwts_method_test_NULL_return (env_slack env)))"

definition method_test_PR0 :: "'s method_env \<Rightarrow> 's method_test" where [method_defs]:
  "method_test_PR0 env =
     method_evaluate_method env METHOD_OPTIONAL ''_PR0'' [] (pure_check method_test_power_resources_return)"

definition method_test_PR1 :: "'s method_env \<Rightarrow> 's method_test" where [method_defs]:
  "method_test_PR1 env =
     method_evaluate_method env METHOD_OPTIONAL ''_PR1'' [] (pure_check method_test_power_resources_return)"

definition method_test_PR2 :: "'s method_env \<Rightarrow> 's method_test" where [method_defs]:
  "method_test_PR2 env =
     method_evaluate_method env METHOD_OPTIONAL ''_PR2'' [] (pure_check method_test_power_resources_return)"

definition method_test_PR3 :: "'s method_env \<Rightarrow> 's method_test" where [method_defs]:
  "method_test_PR3 env =
     method_evaluate_method env METHOD_OPTIONAL ''_PR3'' [] (pure_check method_test_power_resources_return)"

definition method_test_PRE :: "'s method_env \<Rightarrow> 's method_test" where [method_defs]:
  "method_test_PRE env =
     method_evaluate_method env METHOD_OPTIONAL ''_PRE'' [] (pure_check method_test_power_resources_return)"

definition method_test_S1D :: "'s method_env \<Rightarrow> 's method_test" where [method_defs]:
  "method_test_S1D env =
     method_evaluate_method env METHOD_OPTIONAL ''_S1D'' [] (pure_check (fwts_method_test_integer_max_return 3))"

definition method_test_S2D :: "'s method_env \<Rightarrow> 's method_test" where [method_defs]:
  "method_test_S2D env =
     method_evaluate_method env METHOD_OPTIONAL ''_S2D'' [] (pure_check (fwts_method_test_integer_max_return 3))"

definition method_test_S3D :: "'s method_env \<Rightarrow> 's method_test" where [method_defs]:
  "method_test_S3D env =
     method_evaluate_method env METHOD_OPTIONAL ''_S3D'' [] (pure_check (fwts_method_test_integer_max_return 3))"

definition method_test_S4D :: "'s method_env \<Rightarrow> 's method_test" where [method_defs]:
  "method_test_S4D env =
     method_evaluate_method env METHOD_OPTIONAL ''_S4D'' [] (pure_check (fwts_method_test_integer_max_return 3))"

definition method_test_S0W :: "'s method_env \<Rightarrow> 's method_test" where [method_defs]:
  "method_test_S0W env =
     method_evaluate_method env METHOD_OPTIONAL ''_S0W'' [] (pure_check (fwts_method_test_integer_max_return 4))"

definition method_test_S1W :: "'s method_env \<Rightarrow> 's method_test" where [method_defs]:
  "method_test_S1W env =
     method_evaluate_method env METHOD_OPTIONAL ''_S1W'' [] (pure_check (fwts_method_test_integer_max_return 4))"

definition method_test_S2W :: "'s method_env \<Rightarrow> 's method_test" where [method_defs]:
  "method_test_S2W env =
     method_evaluate_method env METHOD_OPTIONAL ''_S2W'' [] (pure_check (fwts_method_test_integer_max_return 4))"

definition method_test_S3W :: "'s method_env \<Rightarrow> 's method_test" where [method_defs]:
  "method_test_S3W env =
     method_evaluate_method env METHOD_OPTIONAL ''_S3W'' [] (pure_check (fwts_method_test_integer_max_return 4))"

definition method_test_S4W :: "'s method_env \<Rightarrow> 's method_test" where [method_defs]:
  "method_test_S4W env =
     method_evaluate_method env METHOD_OPTIONAL ''_S4W'' [] (pure_check (fwts_method_test_integer_max_return 4))"

definition method_test_DSC :: "'s method_env \<Rightarrow> 's method_test" where [method_defs]:
  "method_test_DSC env =
     method_evaluate_method env METHOD_OPTIONAL ''_DSC'' [] (pure_check (fwts_method_test_integer_max_return 4))"

definition method_test_S0 :: "'s method_env \<Rightarrow> 's method_test" where [method_defs]:
  "method_test_S0 env =
     method_evaluate_method env METHOD_OPTIONAL ''_S0_'' [] (pure_check method_test_Sx__return)"

definition method_test_S1 :: "'s method_env \<Rightarrow> 's method_test" where [method_defs]:
  "method_test_S1 env =
     method_evaluate_method env METHOD_OPTIONAL ''_S1_'' [] (pure_check method_test_Sx__return)"

definition method_test_S2 :: "'s method_env \<Rightarrow> 's method_test" where [method_defs]:
  "method_test_S2 env =
     method_evaluate_method env METHOD_OPTIONAL ''_S2_'' [] (pure_check method_test_Sx__return)"

definition method_test_S3 :: "'s method_env \<Rightarrow> 's method_test" where [method_defs]:
  "method_test_S3 env =
     method_evaluate_method env METHOD_OPTIONAL ''_S3_'' [] (pure_check method_test_Sx__return)"

definition method_test_S4 :: "'s method_env \<Rightarrow> 's method_test" where [method_defs]:
  "method_test_S4 env =
     method_evaluate_method env METHOD_OPTIONAL ''_S4_'' [] (pure_check method_test_Sx__return)"

definition method_test_S5 :: "'s method_env \<Rightarrow> 's method_test" where [method_defs]:
  "method_test_S5 env =
     method_evaluate_method env METHOD_OPTIONAL ''_S5_'' [] (pure_check method_test_Sx__return)"

definition method_test_ALC :: "'s method_env \<Rightarrow> 's method_test" where [method_defs]:
  "method_test_ALC env =
     method_evaluate_method env METHOD_OPTIONAL ''_ALC'' [] (pure_check fwts_method_test_integer_return)"

definition method_test_ALI :: "'s method_env \<Rightarrow> 's method_test" where [method_defs]:
  "method_test_ALI env =
     method_evaluate_method env METHOD_OPTIONAL ''_ALI'' [] (pure_check fwts_method_test_integer_return)"

definition method_test_ALT :: "'s method_env \<Rightarrow> 's method_test" where [method_defs]:
  "method_test_ALT env =
     method_evaluate_method env METHOD_OPTIONAL ''_ALT'' [] (pure_check fwts_method_test_integer_return)"

definition method_test_CRT :: "'s method_env \<Rightarrow> 's method_test" where [method_defs]:
  "method_test_CRT env st =
     method_evaluate_method env METHOD_OPTIONAL ''_CRT'' [] method_test_THERM_return (st\<lparr>region_handler_called := False\<rparr>)"

definition method_test_CR3 :: "'s method_env \<Rightarrow> 's method_test" where [method_defs]:
  "method_test_CR3 env st =
     method_evaluate_method env METHOD_OPTIONAL ''_CR3'' [] method_test_THERM_return (st\<lparr>region_handler_called := False\<rparr>)"

definition method_test_HOT :: "'s method_env \<Rightarrow> 's method_test" where [method_defs]:
  "method_test_HOT env st =
     method_evaluate_method env METHOD_OPTIONAL ''_HOT'' [] method_test_THERM_return (st\<lparr>region_handler_called := False\<rparr>)"

definition method_test_TMP :: "'s method_env \<Rightarrow> 's method_test" where [method_defs]:
  "method_test_TMP env st =
     method_evaluate_method env METHOD_OPTIONAL ''_TMP'' [] method_test_THERM_return (st\<lparr>region_handler_called := False\<rparr>)"

definition method_test_NTT :: "'s method_env \<Rightarrow> 's method_test" where [method_defs]:
  "method_test_NTT env st =
     method_evaluate_method env METHOD_OPTIONAL ''_NTT'' [] method_test_THERM_return (st\<lparr>region_handler_called := False\<rparr>)"

definition method_test_PSV :: "'s method_env \<Rightarrow> 's method_test" where [method_defs]:
  "method_test_PSV env st =
     method_evaluate_method env METHOD_OPTIONAL ''_PSV'' [] method_test_THERM_return (st\<lparr>region_handler_called := False\<rparr>)"

definition method_test_TST :: "'s method_env \<Rightarrow> 's method_test" where [method_defs]:
  "method_test_TST env st =
     method_evaluate_method env METHOD_OPTIONAL ''_TST'' [] method_test_THERM_return (st\<lparr>region_handler_called := False\<rparr>)"

section \<open>Other tests\<close>

text \<open>
  A test that runs others until one of them returns what stops it, or all have run; it returns what
  the last one did, or FWTS_OK.
\<close>

fun evaluate_until :: "(int \<Rightarrow> bool) \<Rightarrow> 's method_test list \<Rightarrow> int \<Rightarrow> 's method_test" where
  "evaluate_until stop [] ret st = Some ([], ret, st)"
| "evaluate_until stop (t # ts) ret st = do {
     (rs, ret1, st1) \<leftarrow> t st;
     if stop ret1 then Some (rs, ret1, st1)
     else do { (rs', ret2, st2) \<leftarrow> evaluate_until stop ts ret1 st1; Some (rs @ rs', ret2, st2) } }"

definition returning_ok :: "'s method_test \<Rightarrow> 's method_test" where
  "returning_ok t st = map_option (\<lambda>(rs, ret, st'). (rs, FWTS_OK, st')) (t st)"

definition not_ok :: "int \<Rightarrow> bool" where "not_ok ret \<longleftrightarrow> ret \<noteq> FWTS_OK"
definition not_exist :: "int \<Rightarrow> bool" where "not_exist ret \<longleftrightarrow> ret = FWTS_NOT_EXIST"
definition never :: "int \<Rightarrow> bool" where "never ret \<longleftrightarrow> False"

abbreviation null_check :: "'s method_env \<Rightarrow> 's check" where
  "null_check env \<equiv> pure_check (fwts_method_test_NULL_return (env_slack env))"

definition method_test_EVT :: "'s method_env \<Rightarrow> 's method_test" where [method_defs]:
  "method_test_EVT env st = do {
     (rs, ret, st1) \<leftarrow> method_evaluate_method env
       ((if env_sbbr env then METHOD_MANDATORY else METHOD_OPTIONAL) OR METHOD_SILENT)
       ''_AEI'' [] (method_test_EVT_return env) st;
     Some (rs @ (if ret = FWTS_NOT_EXIST then [Skipped] else []), ret, st1) }"

definition method_test_PIC :: "'s method_env \<Rightarrow> 's method_test" where [method_defs]:
  "method_test_PIC env =
     evaluate_until not_ok
       (map (\<lambda>i. method_evaluate_method env METHOD_OPTIONAL ''_PIC'' [Integer i] (null_check env)) [0, 1, 2]) FWTS_OK"

definition method_test_DCK :: "'s method_env \<Rightarrow> 's method_test" where [method_defs]:
  "method_test_DCK env =
     returning_ok (evaluate_until not_ok
       (map (\<lambda>i. method_evaluate_method env METHOD_MOBILE ''_DCK'' [Integer i]
          (pure_check fwts_method_test_passed_failed_return)) [0, 1]) FWTS_OK)"

text \<open>The methods for device states: one of _PS1, _PS2 and _PS3 needs a _PS0.\<close>

definition method_test_PSx :: "'s method_env \<Rightarrow> cstr \<Rightarrow> 's method_test" where
  "method_test_PSx env name st = do {
     this \<leftarrow> fwts_acpi_object_exists env name;
     ps0 \<leftarrow> (if this \<noteq> None then fwts_acpi_object_exists env ''_PS0'' else Some None);
     (rs, ret, st1) \<leftarrow> method_evaluate_method env METHOD_OPTIONAL name [] (null_check env) st;
     Some (fail_if (this \<noteq> None \<and> ps0 = None) (Failed LOG_LEVEL_HIGH ''Method_PSx'') @ rs, ret, st1) }"

definition method_test_PS1 :: "'s method_env \<Rightarrow> 's method_test" where [method_defs]:
  "method_test_PS1 env = method_test_PSx env ''_PS1''"

definition method_test_PS2 :: "'s method_env \<Rightarrow> 's method_test" where [method_defs]:
  "method_test_PS2 env = method_test_PSx env ''_PS2''"

definition method_test_PS3 :: "'s method_env \<Rightarrow> 's method_test" where [method_defs]:
  "method_test_PS3 env = method_test_PSx env ''_PS3''"

definition SST_once :: "'s method_env \<Rightarrow> u64 \<Rightarrow> 's method_test" where
  "SST_once env i st = do {
     (rs, ret, st1) \<leftarrow> method_evaluate_method env METHOD_OPTIONAL ''_SST'' [Integer i] (null_check env) st;
     Some (rs @ (if ret = FWTS_NOT_EXIST \<and> env_sbbr env then [Warning] else []), ret, st1) }"

definition method_test_SST :: "'s method_env \<Rightarrow> 's method_test" where [method_defs]:
  "method_test_SST env = evaluate_until not_ok (map (SST_once env) [0, 1, 2, 3, 4]) FWTS_OK"

text \<open>
  The time that _SRT is called with: 2000-01-01, one millisecond past midnight. The seconds, the
  valid flag, the daylight saving and the padding are bytes of the stack that are never written.
\<close>

definition srt_argument :: "(nat \<Rightarrow> u8) \<Rightarrow> bytes" where
  "srt_argument stack =
     [0xd0, 0x07, 1, 1, 0, 0, stack 6, stack 7, 1, 0, 0, 0, stack 12, stack 13, stack 14, stack 15]"

definition method_test_SRT :: "'s method_env \<Rightarrow> 's method_test" where
  "method_test_SRT env st =
     method_evaluate_method env (if bit (gcp_return_value st) 2 then METHOD_MANDATORY else METHOD_OPTIONAL)
       ''_SRT'' [Buffer (Some (srt_argument (env_stack env)))] (pure_check fwts_method_test_integer_return) st"

definition CWS_once :: "'s method_env \<Rightarrow> u64 \<Rightarrow> 's method_test" where
  "CWS_once env i st =
     method_evaluate_method env (if bit (gcp_return_value st) 0 then METHOD_MANDATORY else METHOD_OPTIONAL)
       ''_CWS'' [Integer i] (pure_check method_test_CWS_return) st"

definition method_test_CWS :: "'s method_env \<Rightarrow> 's method_test" where [method_defs]:
  "method_test_CWS env = evaluate_until not_ok (map (CWS_once env) [0, 1]) FWTS_OK"

text \<open>The 64 bytes of an error injection: what to do in byte 0, which errors, and whether they are permanent.\<close>

definition nih_argument :: "u8 \<Rightarrow> u8 \<Rightarrow> bytes" where
  "nih_argument i j = (replicate 64 0)[0 := i, 4 := 3, 5 := 7, 6 := 7, 8 := j]"

definition method_test_NIH :: "'s method_env \<Rightarrow> 's method_test" where [method_defs]:
  "method_test_NIH env =
     evaluate_until not_ok
       (map (\<lambda>(i, j). method_evaluate_method env METHOD_OPTIONAL ''_NIH'' [Buffer (Some (nih_argument i j))]
          (pure_check fwts_method_test_NIH_return)) [(1, 0), (2, 0), (1, 1), (2, 1)]) FWTS_OK"

text \<open>A third argument of _BPT is set, but two are passed.\<close>

definition method_test_BPT :: "'s method_env \<Rightarrow> 's method_test" where [method_defs]:
  "method_test_BPT env =
     returning_ok (evaluate_until not_exist
       (map (\<lambda>i. method_evaluate_method env METHOD_OPTIONAL ''_BPT'' [Integer 1, Integer i]
          (pure_check (fwts_method_test_integer_max_return 5))) [0, 1, 2]) FWTS_OK)"

definition method_test_BTP :: "'s method_env \<Rightarrow> 's method_test" where [method_defs]:
  "method_test_BTP env =
     returning_ok (evaluate_until not_exist
       (map (\<lambda>i. method_evaluate_method env METHOD_MOBILE ''_BTP'' [Integer i] (null_check env))
          [0, 1, 100, 200, 0x7fffffff]) FWTS_OK)"

definition method_test_BTH :: "'s method_env \<Rightarrow> 's method_test" where [method_defs]:
  "method_test_BTH env =
     evaluate_until not_ok
       (map (\<lambda>i. method_evaluate_method env METHOD_OPTIONAL ''_BTH'' [Integer (of_nat i)] (null_check env)) [0..<101]) FWTS_OK"

definition method_test_BTM :: "'s method_env \<Rightarrow> 's method_test" where [method_defs]:
  "method_test_BTM env =
     returning_ok (evaluate_until not_exist
       (map (\<lambda>i. method_evaluate_method env METHOD_MOBILE ''_BTM'' [Integer i] (null_check env))
          [0, 1, 100, 200, 0x7fffffff]) FWTS_OK)"

definition method_test_BMC :: "'s method_env \<Rightarrow> 's method_test" where [method_defs]:
  "method_test_BMC env =
     returning_ok (evaluate_until not_exist
       (map (\<lambda>i. method_evaluate_method env METHOD_MOBILE ''_BMC'' [Integer i] (null_check env)) [0, 1, 2, 4, 8]) FWTS_OK)"

text \<open>_AC0 to _AC9 and _AL0 to _AL9 are all evaluated. The flag of the region handler is not cleared.\<close>

definition method_test_ACx :: "'s method_env \<Rightarrow> 's method_test" where [method_defs]:
  "method_test_ACx env =
     returning_ok (evaluate_until never
       (map (\<lambda>i. method_evaluate_method env METHOD_OPTIONAL (''_AC'' @ show_nat i) [] method_test_THERM_return) [0..<10]) FWTS_OK)"

definition method_test_ALx :: "'s method_env \<Rightarrow> 's method_test" where [method_defs]:
  "method_test_ALx env =
     returning_ok (evaluate_until never
       (map (\<lambda>i. method_evaluate_method env METHOD_OPTIONAL (''_AL'' @ show_nat i) []
          (pure_check fwts_method_test_all_reference_package_return)) [0..<10]) FWTS_OK)"

text \<open>The test of _SCP evaluates _DTI, with one of the three arguments it sets.\<close>

definition method_test_SCP :: "'s method_env \<Rightarrow> 's method_test" where [method_defs]:
  "method_test_SCP env =
     returning_ok (evaluate_until not_exist
       (map (\<lambda>i. method_evaluate_method env METHOD_OPTIONAL ''_DTI'' [Integer i] (null_check env)) [0, 0, 1, 1]) FWTS_OK)"

text \<open>_PTS and _WAK are evaluated for each of the sleep states S1 to S5 that there is.\<close>

definition for_sleep_state :: "'s method_env \<Rightarrow> (u64 \<Rightarrow> 's method_test) \<Rightarrow> nat \<Rightarrow> 's method_test" where
  "for_sleep_state env t i st = do {
     s \<leftarrow> fwts_acpi_object_exists env (''_S'' @ show_nat i @ ''_'');
     if s = None then Some ([], FWTS_OK, st) else t (of_nat i) st }"

definition method_test_PTS :: "'s method_env \<Rightarrow> 's method_test" where [method_defs]:
  "method_test_PTS env =
     returning_ok (evaluate_until never
       (map (for_sleep_state env (\<lambda>i. method_evaluate_method env METHOD_OPTIONAL ''_PTS'' [Integer i] (null_check env)))
          [1..<6]) FWTS_OK)"

definition TTS_once :: "'s method_env \<Rightarrow> u64 \<Rightarrow> 's method_test" where
  "TTS_once env i st = do {
     (rs, ret, st1) \<leftarrow> method_evaluate_method env METHOD_MANDATORY ''_TTS'' [Integer i] (null_check env) st;
     Some (rs @ (if ret = FWTS_NOT_EXIST then [Advice] else []), ret, st1) }"

definition method_test_TTS :: "'s method_env \<Rightarrow> 's method_test" where
  "method_test_TTS env st = do {
     tts \<leftarrow> fwts_acpi_object_exists env ''_TTS'';
     if tts = None then Some ([Skipped], FWTS_OK, st)
     else returning_ok (evaluate_until not_exist (map (TTS_once env) [1, 2, 3, 4, 5]) FWTS_OK) st }"

definition method_test_WAK :: "'s method_env \<Rightarrow> 's method_test" where [method_defs]:
  "method_test_WAK env =
     returning_ok (evaluate_until never
       (map (for_sleep_state env (\<lambda>i. method_evaluate_method env METHOD_OPTIONAL ''_WAK'' [Integer i]
          (pure_check method_test_WAK_return))) [1..<6]) FWTS_OK)"

definition method_test_SPD :: "'s method_env \<Rightarrow> 's method_test" where [method_defs]:
  "method_test_SPD env =
     returning_ok (evaluate_until not_exist
       (map (\<lambda>i. method_evaluate_method env METHOD_OPTIONAL ''_SPD'' [Integer i]
          (pure_check fwts_method_test_passed_failed_return)) [0, 1, 2, 3]) FWTS_OK)"

definition method_test_DDC :: "'s method_env \<Rightarrow> 's method_test" where [method_defs]:
  "method_test_DDC env =
     returning_ok (evaluate_until not_exist
       (map (\<lambda>i. method_evaluate_method env METHOD_OPTIONAL ''_DDC'' [Integer (ucast i)]
          (pure_check (method_test_DDC_return i))) [1, 2, 3, 4]) FWTS_OK)"

section \<open>Names of objects\<close>

definition legal_name_char :: "char \<Rightarrow> bool" where
  "legal_name_char c \<longleftrightarrow> c = CHR 0x5C \<or> c = CHR ''.'' \<or> c = CHR ''_'' \<or> isdigit c \<or> isupper c"

definition method_name_check :: "'s method_env \<Rightarrow> 's method_test" where
  "method_name_check env st = Some
     (case object_names env of
        None \<Rightarrow> []
      | Some paths \<Rightarrow> no_issues (concat (map (\<lambda>path. fail_if (\<not> list_all legal_name_char path)
          (Failed LOG_LEVEL_HIGH ''MethodIllegalName'')) paths)), FWTS_OK, st)"

section \<open>All tests\<close>

text \<open>
  method_init looks for a FADT of a mobile platform; facp gives the preferred power management
  profile of the FADTs that there are. The result is what env_mobile stands for.
\<close>

fun find_mobile :: "(nat \<Rightarrow> u8 option) \<Rightarrow> nat list \<Rightarrow> bool" where
  "find_mobile facp [] = False"
| "find_mobile facp (i # is) =
     (case facp i of None \<Rightarrow> False | Some profile \<Rightarrow> profile = 2 \<or> find_mobile facp is)"

definition method_init :: "(nat \<Rightarrow> u8 option) \<Rightarrow> bool \<Rightarrow> int \<times> bool" where
  "method_init facp acpi_ok = (if acpi_ok then FWTS_OK else FWTS_ERROR, find_mobile facp [0..<256])"

definition method_tests :: "'s method_env \<Rightarrow> ('s method_test \<times> cstr) list" where
  "method_tests env = [
     (method_name_check env, ''Test Method Names.''),
     (method_test_AEI env, ''Test _AEI.''),
     (method_test_EVT env, ''Test _EVT (Event Method).''),
     (method_test_DLM env, ''Test _DLM (Device Lock Mutex).''),
     (method_test_PIC env, ''Test _PIC (Inform AML of Interrupt Model).''),
     (method_test_CID env, ''Test _CID (Compatible ID).''),
     (method_test_CLS env, ''Test _CLS (Class Code).''),
     (method_test_DDN env, ''Test _DDN (DOS Device Name).''),
     (method_test_HID env, ''Test _HID (Hardware ID).''),
     (method_test_HRV env, ''Test _HRV (Hardware Revision Number).''),
     (method_test_MLS env, ''Test _MLS (Multiple Language String).''),
     (method_test_PLD env, ''Test _PLD (Physical Device Location).''),
     (method_test_SUB env, ''Test _SUB (Subsystem ID).''),
     (method_test_SUN env, ''Test _SUN (Slot User Number).''),
     (method_test_STR env, ''Test _STR (String).''),
     (method_test_UID env, ''Test _UID (Unique ID).''),
     (method_test_CDM env, ''Test _CDM (Clock Domain).''),
     (method_test_VDM env, ''Test _VDM (Voltage Domain).''),
     (method_test_CRS env, ''Test _CRS (Current Resource Settings).''),
     (method_test_DSD env, ''Test _DSD (Device Specific Data).''),
     (method_test_DIS env, ''Test _DIS (Disable).''),
     (method_test_DMA env, ''Test _DMA (Direct Memory Access).''),
     (method_test_FIX env, ''Test _FIX (Fixed Register Resource Provider).''),
     (method_test_GSB env, ''Test _GSB (Global System Interrupt Base).''),
     (method_test_HPP env, ''Test _HPP (Hot Plug Parameters).''),
     (method_test_MAT env, ''Test _MAT (Multiple APIC Table Entry).''),
     (method_test_PRS env, ''Test _PRS (Possible Resource Settings).''),
     (method_test_PRT env, ''Test _PRT (PCI Routing Table).''),
     (method_test_PXM env, ''Test _PXM (Proximity).''),
     (method_test_SLI env, ''Test _SLI (System Locality Information).''),
     (method_test_CCA env, ''Test _CCA (Cache Coherency Attribute).''),
     (method_test_EDL env, ''Test _EDL (Eject Device List).''),
     (method_test_EJD env, ''Test _EJD (Ejection Dependent Device).''),
     (method_test_EJ0 env, ''Test _EJ0 (Eject).''),
     (method_test_EJ1 env, ''Test _EJ1 (Eject).''),
     (method_test_EJ2 env, ''Test _EJ2 (Eject).''),
     (method_test_EJ3 env, ''Test _EJ3 (Eject).''),
     (method_test_EJ4 env, ''Test _EJ4 (Eject).''),
     (method_test_LCK env, ''Test _LCK (Lock).''),
     (method_test_RMV env, ''Test _RMV (Remove).''),
     (method_test_STA env, ''Test _STA (Status).''),
     (method_test_DEP env, ''Test _DEP (Operational Region Dependencies).''),
     (method_test_FIT env, ''Test _FIT (Firmware Interface Table).''),
     (method_test_BDN env, ''Test _BDN (BIOS Dock Name).''),
     (method_test_BBN env, ''Test _BBN (Base Bus Number).''),
     (method_test_DCK env, ''Test _DCK (Dock).''),
     (method_test_INI env, ''Test _INI (Initialize).''),
     (method_test_GLK env, ''Test _GLK (Global Lock).''),
     (method_test_SEG env, ''Test _SEG (Segment).''),
     (method_test_LSI env, ''Test _LSI (Label Storage Information).''),
     (method_test_CBR env, ''Test _CBR (CXL Host Bridge Register).''),
     (method_test_OFF env, ''Test _OFF (Set resource off).''),
     (method_test_ON env, ''Test _ON_ (Set resource on).''),
     (method_test_DSW env, ''Test _DSW (Device Sleep Wake).''),
     (method_test_IRC env, ''Test _IRC (In Rush Current).''),
     (method_test_PRE env, ''Test _PRE (Power Resources for Enumeration).''),
     (method_test_PR0 env, ''Test _PR0 (Power Resources for D0).''),
     (method_test_PR1 env, ''Test _PR1 (Power Resources for D1).''),
     (method_test_PR2 env, ''Test _PR2 (Power Resources for D2).''),
     (method_test_PR3 env, ''Test _PR3 (Power Resources for D3).''),
     (method_test_PRW env, ''Test _PRW (Power Resources for Wake).''),
     (method_test_PS0 env, ''Test _PS0 (Power State 0).''),
     (method_test_PS1 env, ''Test _PS1 (Power State 1).''),
     (method_test_PS2 env, ''Test _PS2 (Power State 2).''),
     (method_test_PS3 env, ''Test _PS3 (Power State 3).''),
     (method_test_PSC env, ''Test _PSC (Power State Current).''),
     (method_test_PSE env, ''Test _PSE (Power State for Enumeration).''),
     (method_test_PSW env, ''Test _PSW (Power State Wake).''),
     (method_test_S1D env, ''Test _S1D (S1 Device State).''),
     (method_test_S2D env, ''Test _S2D (S2 Device State).''),
     (method_test_S3D env, ''Test _S3D (S3 Device State).''),
     (method_test_S4D env, ''Test _S4D (S4 Device State).''),
     (method_test_S0W env, ''Test _S0W (S0 Device Wake State).''),
     (method_test_S1W env, ''Test _S1W (S1 Device Wake State).''),
     (method_test_S2W env, ''Test _S2W (S2 Device Wake State).''),
     (method_test_S3W env, ''Test _S3W (S3 Device Wake State).''),
     (method_test_S4W env, ''Test _S4W (S4 Device Wake State).''),
     (method_test_RST env, ''Test _RST (Device Reset).''),
     (method_test_PRR env, ''Test _PRR (Power Resource for Reset).''),
     (method_test_DSC env, ''Test _DSC (Deepest State for Configuration).''),
     (method_test_S0 env, ''Test _S0_ (S0 System State).''),
     (method_test_S1 env, ''Test _S1_ (S1 System State).''),
     (method_test_S2 env, ''Test _S2_ (S2 System State).''),
     (method_test_S3 env, ''Test _S3_ (S3 System State).''),
     (method_test_S4 env, ''Test _S4_ (S4 System State).''),
     (method_test_S5 env, ''Test _S5_ (S5 System State).''),
     (method_test_SWS env, ''Test _SWS (System Wake Source).''),
     (method_test_PSS env, ''Test _PSS (Performance Supported States).''),
     (method_test_CPC env, ''Test _CPC (Continuous Performance Control).''),
     (method_test_CSD env, ''Test _CSD (C State Dependencies).''),
     (method_test_CST env, ''Test _CST (C States).''),
     (method_test_PCT env, ''Test _PCT (Performance Control).''),
     (method_test_PDL env, ''Test _PDL (P-State Depth Limit).''),
     (method_test_PPC env, ''Test _PPC (Performance Present Capabilities).''),
     (method_test_PPE env, ''Test _PPE (Polling for Platform Error).''),
     (method_test_PSD env, ''Test _PSD (Power State Dependencies).''),
     (method_test_PTC env, ''Test _PTC (Processor Throttling Control).''),
     (method_test_TDL env, ''Test _TDL (T-State Depth Limit).''),
     (method_test_TPC env, ''Test _TPC (Throttling Present Capabilities).''),
     (method_test_TSD env, ''Test _TSD (Throttling State Dependencies).''),
     (method_test_TSS env, ''Test _TSS (Throttling Supported States).''),
     (method_test_LPI env, ''Test _LPI (Low Power Idle States).''),
     (method_test_RDI env, ''Test _RDI (Resource Dependencies for Idle).''),
     (method_test_PUR env, ''Test _PUR (Processor Utilization Request).''),
     (method_test_MSG env, ''Test _MSG (Message).''),
     (method_test_SST env, ''Test _SST (System Status).''),
     (method_test_ALC env, ''Test _ALC (Ambient Light Colour Chromaticity).''),
     (method_test_ALI env, ''Test _ALI (Ambient Light Illuminance).''),
     (method_test_ALT env, ''Test _ALT (Ambient Light Temperature).''),
     (method_test_ALP env, ''Test _ALP (Ambient Light Polling).''),
     (method_test_ALR env, ''Test _ALR (Ambient Light Response).''),
     (method_test_LID env, ''Test _LID (Lid Status).''),
     (method_test_GTF env, ''Test _GTF (Get Task File).''),
     (method_test_GTM env, ''Test _GTM (Get Timing Mode).''),
     (method_test_MBM env, ''Test _MBM (Memory Bandwidth Monitoring Data).''),
     (method_test_UPC env, ''Test _UPC (USB Port Capabilities).''),
     (method_test_PDO env, ''Test _PDO (USB Power Data Object).''),
     (method_test_UPD env, ''Test _UPD (User Presence Detect).''),
     (method_test_UPP env, ''Test _UPP (User Presence Polling).''),
     (method_test_GCP env, ''Test _GCP (Get Capabilities).''),
     (method_test_GRT env, ''Test _GRT (Get Real Time).''),
     (method_test_GWS env, ''Test _GWS (Get Wake Status).''),
     (method_test_CWS env, ''Test _CWS (Clear Wake Status).''),
     (method_test_SRT env, ''Test _SRT (Set Real Time).''),
     (method_test_STP env, ''Test _STP (Set Expired Timer Wake Policy).''),
     (method_test_STV env, ''Test _STV (Set Timer Value).''),
     (method_test_TIP env, ''Test _TIP (Expired Timer Wake Policy).''),
     (method_test_TIV env, ''Test _TIV (Timer Values).''),
     (method_test_NBS env, ''Test _NBS (NVDIMM Boot Status).''),
     (method_test_NCH env, ''Test _NCH (NVDIMM Current Health Information).''),
     (method_test_NIC env, ''Test _NIC (NVDIMM Health Error Injection Capabilities).''),
     (method_test_NIH env, ''Test _NIH (NVDIMM Inject/Clear Health Errors).''),
     (method_test_NIG env, ''Test _NIG (NVDIMM Inject Health Error Status).''),
     (method_test_SBS env, ''Test _SBS (Smart Battery Subsystem).''),
     (method_test_BCT env, ''Test _BCT (Battery Charge Time).''),
     (method_test_BIF env, ''Test _BIF (Battery Information).''),
     (method_test_BIX env, ''Test _BIX (Battery Information Extended).''),
     (method_test_BMA env, ''Test _BMA (Battery Measurement Averaging).''),
     (method_test_BMC env, ''Test _BMC (Battery Maintenance Control).''),
     (method_test_BMD env, ''Test _BMD (Battery Maintenance Data).''),
     (method_test_BMS env, ''Test _BMS (Battery Measurement Sampling Time).''),
     (method_test_BPC env, ''Test _BPC (Battery Power Characteristics).''),
     (method_test_BPS env, ''Test _BPS (Battery Power State).''),
     (method_test_BPT env, ''Test _BPT (Battery Power Threshold).''),
     (method_test_BST env, ''Test _BST (Battery Status).''),
     (method_test_BTP env, ''Test _BTP (Battery Trip Point).''),
     (method_test_BTH env, ''Test _BTH (Battery Throttle Limit).''),
     (method_test_BTM env, ''Test _BTM (Battery Time).''),
     (method_test_PCL env, ''Test _PCL (Power Consumer List).''),
     (method_test_PCS env, ''Test _PCS (Power Source Current Status).''),
     (method_test_PIF env, ''Test _PIF (Power Source Information).''),
     (method_test_PRL env, ''Test _PRL (Power Source Redundancy List).''),
     (method_test_PSR env, ''Test _PSR (Power Source).''),
     (method_test_PST env, ''Test _PST (Power Status Threshold).''),
     (method_test_GAI env, ''Test _GAI (Get Averaging Level).''),
     (method_test_GHL env, ''Test _GHL (Get Hardware Limit).''),
     (method_test_PMC env, ''Test _PMC (Power Meter Capabilities).''),
     (method_test_PMD env, ''Test _PMD (Power Meter Devices).''),
     (method_test_PMM env, ''Test _PMM (Power Meter Measurement).''),
     (method_test_WPC env, ''Test _WPC (Wireless Power Calibration).''),
     (method_test_WPP env, ''Test _WPP (Wireless Power Polling).''),
     (method_test_FIF env, ''Test _FIF (Fan Information).''),
     (method_test_FPS env, ''Test _FPS (Fan Performance States).''),
     (method_test_FSL env, ''Test _FSL (Fan Set Level).''),
     (method_test_FST env, ''Test _FST (Fan Status).''),
     (method_test_ACx env, ''Test _ACx (Active Cooling).''),
     (method_test_ART env, ''Test _ART (Active Cooling Relationship Table).''),
     (method_test_ALx env, ''Test _ALx (Active List).''),
     (method_test_CRT env, ''Test _CRT (Critical Trip Point).''),
     (method_test_CR3 env, ''Test _CR3 (Warm/Standby Temperature).''),
     (method_test_DTI env, ''Test _DTI (Device Temperature Indication).''),
     (method_test_HOT env, ''Test _HOT (Hot Temperature).''),
     (method_test_MTL env, ''Test _MTL (Minimum Throttle Limit).''),
     (method_test_NTT env, ''Test _NTT (Notification Temp Threshold).''),
     (method_test_PSL env, ''Test _PSL (Passive List).''),
     (method_test_PSV env, ''Test _PSV (Passive Temp).''),
     (method_test_RTV env, ''Test _RTV (Relative Temp Values).''),
     (method_test_SCP env, ''Test _SCP (Set Cooling Policy).''),
     (method_test_TC1 env, ''Test _TC1 (Thermal Constant 1).''),
     (method_test_TC2 env, ''Test _TC2 (Thermal Constant 2).''),
     (method_test_TFP env, ''Test _TFP (Thermal fast Sampling Period).''),
     (method_test_TMP env, ''Test _TMP (Thermal Zone Current Temp).''),
     (method_test_TPT env, ''Test _TPT (Trip Point Temperature).''),
     (method_test_TRT env, ''Test _TRT (Thermal Relationship Table).''),
     (method_test_TSN env, ''Test _TSN (Thermal Sensor Device).''),
     (method_test_TSP env, ''Test _TSP (Thermal Sampling Period).''),
     (method_test_TST env, ''Test _TST (Temperature Sensor Threshold).''),
     (method_test_TZD env, ''Test _TZD (Thermal Zone Devices).''),
     (method_test_TZM env, ''Test _TZM (Thermal Zone member).''),
     (method_test_TZP env, ''Test _TZP (Thermal Zone Polling).''),
     (method_test_GPE env, ''Test _GPE (General Purpose Events).''),
     (method_test_EC env, ''Test _EC_ (EC Offset Query).''),
     (method_test_PTS env, ''Test _PTS (Prepare to Sleep).''),
     (method_test_TTS env, ''Test _TTS (Transition to State).''),
     (method_test_WAK env, ''Test _WAK (System Wake).''),
     (method_test_ADR env, ''Test _ADR (Return Unique ID for Device).''),
     (method_test_BCL env, ''Test _BCL (Query List of Brightness Control Levels Supported).''),
     (method_test_BCM env, ''Test _BCM (Set Brightness Level).''),
     (method_test_BQC env, ''Test _BQC (Brightness Query Current Level).''),
     (method_test_DCS env, ''Test _DCS (Return the Status of Output Device).''),
     (method_test_DDC env, ''Test _DDC (Return the EDID for this Device).''),
     (method_test_DSS env, ''Test _DSS (Device Set State).''),
     (method_test_DGS env, ''Test _DGS (Query Graphics State).''),
     (method_test_DOD env, ''Test _DOD (Enumerate All Devices Attached to Display Adapter).''),
     (method_test_DOS env, ''Test _DOS (Enable/Disable Output Switching).''),
     (method_test_GPD env, ''Test _GPD (Get POST Device).''),
     (method_test_ROM env, ''Test _ROM (Get ROM Data).''),
     (method_test_SPD env, ''Test _SPD (Set POST Device).''),
     (method_test_VPO env, ''Test _VPO (Video POST Options).''),
     (method_test_CBA env, ''Test _CBA (Configuration Base Address).''),
     (method_test_IFT env, ''Test _IFT (IPMI Interface Type).''),
     (method_test_SRV env, ''Test _SRV (IPMI Interface Revision).'')]"

end
