(* ===== verification/Fwts_Devices.thy ===== *)
theory Fwts_Devices
  imports Fwts_Method_Tests
begin

text \<open>
  The tests of single ACPI devices, under src/src/acpi/devices: the AC adapter, batteries, buttons,
  the embedded controller, the lid, NVDIMMs, the ambient light sensor, the time and alarm device and
  the wireless power calibration. Each looks for the device of a hardware ID and evaluates its
  objects; device is its path. The names are those of the C functions after the name of the module.
\<close>

text \<open>
  Finding the device: AcpiGetDevices gives a status and the first device of the hardware ID. The
  variable for the device is static, and kept from an earlier call.
\<close>

definition device_init ::
    "(cstr \<Rightarrow> u32 \<times> cstr option) \<Rightarrow> bool \<Rightarrow> cstr \<Rightarrow> cstr option \<Rightarrow> int \<times> cstr option" where
  "device_init AcpiGetDevices acpica_ok hid device =
     (if \<not> acpica_ok then (FWTS_ERROR, device)
      else let (status, found) = AcpiGetDevices hid;
               device' = (if found \<noteq> None then found else device) in
        if ACPI_FAILURE status then (FWTS_ERROR, device')
        else if device' = None then (FWTS_SKIP, device')
        else (FWTS_OK, device'))"

section \<open>ac_adapter/ac.c\<close>

definition acpi_ac_init :: "(cstr \<Rightarrow> u32 \<times> cstr option) \<Rightarrow> bool \<Rightarrow> cstr option \<Rightarrow> int \<times> cstr option" where
  "acpi_ac_init AcpiGetDevices acpica_ok device = device_init AcpiGetDevices acpica_ok ''ACPI0003'' device"

definition ac_test_PSR_return :: "cstr \<Rightarrow> ACPI_BUFFER \<Rightarrow> outcome" where
  "ac_test_PSR_return name buf =
     checked name buf ACPI_TYPE_INTEGER (\<lambda>obj. do {
       v \<leftarrow> int_value obj;
       Some (if v \<le> 2 then [Passed] else [Failed LOG_LEVEL_MEDIUM ''Method_PSRZeroOrOne'']) })"

definition ac_test_PSR :: "'s method_env \<Rightarrow> cstr \<Rightarrow> 's method_test" where
  "ac_test_PSR env device =
     fwts_evaluate_method env METHOD_MANDATORY device ''_PSR'' [] (pure_check ac_test_PSR_return)"

definition ac_test_PCL_return :: "cstr \<Rightarrow> ACPI_BUFFER \<Rightarrow> outcome" where
  "ac_test_PCL_return name buf =
     checked name buf ACPI_TYPE_PACKAGE (\<lambda>obj.
       on_ok (fwts_method_package_elements_all_type name obj ACPI_TYPE_LOCAL_REFERENCE) (Some [Passed]))"

definition ac_test_PCL :: "'s method_env \<Rightarrow> cstr \<Rightarrow> 's method_test" where
  "ac_test_PCL env device =
     fwts_evaluate_method env METHOD_MANDATORY device ''_PCL'' [] (pure_check ac_test_PCL_return)"

definition ac_test_PIF_return :: "cstr \<Rightarrow> ACPI_BUFFER \<Rightarrow> outcome" where
  "ac_test_PIF_return name buf =
     checked name buf ACPI_TYPE_PACKAGE (\<lambda>obj.
       on_ok (fwts_method_package_count_equal name obj 6)
         (on_ok (fwts_method_package_elements_type name obj
            (replicate 3 ACPI_TYPE_INTEGER @ replicate 3 ACPI_TYPE_STRING)) (Some [Passed])))"

definition ac_test_PIF :: "'s method_env \<Rightarrow> cstr \<Rightarrow> 's method_test" where
  "ac_test_PIF env device =
     fwts_evaluate_method env METHOD_OPTIONAL device ''_PIF'' [] (pure_check ac_test_PIF_return)"

definition ac_test_PRL_return :: "cstr \<Rightarrow> ACPI_BUFFER \<Rightarrow> outcome" where
  "ac_test_PRL_return name buf =
     checked name buf ACPI_TYPE_PACKAGE (\<lambda>obj.
       on_ok (fwts_method_package_elements_all_type name obj ACPI_TYPE_LOCAL_REFERENCE) (Some [Passed]))"

definition ac_test_PRL :: "'s method_env \<Rightarrow> cstr \<Rightarrow> 's method_test" where
  "ac_test_PRL env device =
     fwts_evaluate_method env METHOD_OPTIONAL device ''_PRL'' [] (pure_check ac_test_PRL_return)"

definition acpi_ac_tests :: "'s method_env \<Rightarrow> cstr \<Rightarrow> ('s method_test \<times> cstr) list" where
  "acpi_ac_tests env device =
     [(ac_test_PSR env device, ''Test _PSR (Power Source).''),
      (ac_test_PCL env device, ''Test _PCL (Power Consumer List).''),
      (ac_test_PIF env device, ''Test _PIF (Power Source Information).''),
      (ac_test_PRL env device, ''Test _PRL (Power Source Redundancy List).''),
      (fwts_method_test_ADR env device, ''Test _ADR (Return Unique ID for Device).''),
      (fwts_method_test_CID env device, ''Test _CID (Compatible ID).''),
      (fwts_method_test_CLS env device, ''Test _CLS (Class Code).''),
      (fwts_method_test_DDN env device, ''Test _DDN (DOS Device Name).''),
      (fwts_method_test_HID env device, ''Test _HID (Hardware ID).''),
      (fwts_method_test_HRV env device, ''Test _HRV (Hardware Revision Number).''),
      (fwts_method_test_MLS env device, ''Test _MLS (Multiple Language String).''),
      (fwts_method_test_PLD env device, ''Test _PLD (Physical Device Location).''),
      (fwts_method_test_SUB env device, ''Test _SUB (Subsystem ID).''),
      (fwts_method_test_SUN env device, ''Test _SUN (Slot User Number).''),
      (fwts_method_test_STR env device, ''Test _STR (String).''),
      (fwts_method_test_UID env device, ''Test _UID (Unique ID).'')]"

section \<open>battery/battery.c\<close>

definition acpi_battery_init :: "(cstr \<Rightarrow> u32 \<times> cstr option) \<Rightarrow> bool \<Rightarrow> cstr option \<Rightarrow> int \<times> cstr option" where
  "acpi_battery_init AcpiGetDevices acpica_ok device = device_init AcpiGetDevices acpica_ok ''PNP0C0A'' device"

definition battery_test_BIF :: "'s method_env \<Rightarrow> cstr \<Rightarrow> 's method_test" where
  "battery_test_BIF env device =
     fwts_evaluate_method env
       (if ACPI_FAILURE (AcpiGetHandle env device ''_BIX'') then METHOD_MANDATORY else METHOD_OPTIONAL)
       device ''_BIF'' [] (pure_check fwts_method_test_BIF_return)"

definition battery_test_BIX :: "'s method_env \<Rightarrow> cstr \<Rightarrow> 's method_test" where
  "battery_test_BIX env device =
     fwts_evaluate_method env
       (if ACPI_FAILURE (AcpiGetHandle env device ''_BIF'') then METHOD_MANDATORY else METHOD_OPTIONAL)
       device ''_BIX'' [] (pure_check fwts_method_test_BIX_return)"

definition battery_test_BMA :: "'s method_env \<Rightarrow> cstr \<Rightarrow> 's method_test" where
  "battery_test_BMA env device =
     fwts_evaluate_method env METHOD_OPTIONAL device ''_BMA'' [Integer 1] (pure_check fwts_method_test_passed_failed_return)"

definition battery_test_BMS :: "'s method_env \<Rightarrow> cstr \<Rightarrow> 's method_test" where
  "battery_test_BMS env device =
     fwts_evaluate_method env METHOD_OPTIONAL device ''_BMS'' [Integer 1] (pure_check fwts_method_test_passed_failed_return)"

definition battery_test_BPC :: "'s method_env \<Rightarrow> cstr \<Rightarrow> 's method_test" where
  "battery_test_BPC env device =
     fwts_evaluate_method env METHOD_OPTIONAL device ''_BPC'' [] (pure_check fwts_method_test_BPC_return)"

definition battery_test_BPS :: "'s method_env \<Rightarrow> cstr \<Rightarrow> 's method_test" where
  "battery_test_BPS env device =
     fwts_evaluate_method env METHOD_OPTIONAL device ''_BPS'' [] (pure_check fwts_method_test_BPS_return)"

definition battery_test_BPT :: "'s method_env \<Rightarrow> cstr \<Rightarrow> 's method_test" where
  "battery_test_BPT env device =
     returning_ok (evaluate_until not_exist
       (map (\<lambda>i. fwts_evaluate_method env METHOD_OPTIONAL device ''_BPT'' [Integer 1, Integer i]
          (pure_check (fwts_method_test_integer_max_return 5))) [0, 1, 2]) FWTS_OK)"

definition battery_test_BST :: "'s method_env \<Rightarrow> cstr \<Rightarrow> 's method_test" where
  "battery_test_BST env device =
     fwts_evaluate_method env METHOD_MANDATORY device ''_BST'' [] (pure_check fwts_method_test_BST_return)"

definition battery_test_BTH :: "'s method_env \<Rightarrow> cstr \<Rightarrow> 's method_test" where
  "battery_test_BTH env device st =
     map_option (\<lambda>(rs, ret, st'). (rs, ret mod 256, st'))
       (evaluate_until not_ok
         (map (\<lambda>i. fwts_evaluate_method env METHOD_OPTIONAL device ''_BTH'' [Integer (of_nat i)] (null_check env)) [0..<101])
         FWTS_OK st)"

definition battery_test_BTP :: "'s method_env \<Rightarrow> cstr \<Rightarrow> 's method_test" where
  "battery_test_BTP env device =
     returning_ok (evaluate_until not_ok
       (map (\<lambda>i. fwts_evaluate_method env METHOD_OPTIONAL device ''_BTP'' [Integer i] (null_check env))
          [0, 1, 100, 200, 0x7fffffff]) FWTS_OK)"

definition battery_test_PCL_return :: "cstr \<Rightarrow> ACPI_BUFFER \<Rightarrow> outcome" where
  "battery_test_PCL_return name buf =
     checked name buf ACPI_TYPE_PACKAGE (\<lambda>obj.
       on_ok (fwts_method_package_elements_all_type name obj ACPI_TYPE_LOCAL_REFERENCE) (Some [Passed]))"

definition battery_test_PCL :: "'s method_env \<Rightarrow> cstr \<Rightarrow> 's method_test" where
  "battery_test_PCL env device =
     fwts_evaluate_method env METHOD_MANDATORY device ''_PCL'' [] (pure_check battery_test_PCL_return)"

definition battery_test_STA :: "'s method_env \<Rightarrow> cstr \<Rightarrow> 's method_test" where
  "battery_test_STA env device =
     fwts_evaluate_method env METHOD_OPTIONAL device ''_STA'' [] (pure_check fwts_method_test_STA_return)"

definition battery_test_BTM :: "'s method_env \<Rightarrow> cstr \<Rightarrow> 's method_test" where
  "battery_test_BTM env device =
     returning_ok (evaluate_until not_ok
       (map (\<lambda>i. fwts_evaluate_method env METHOD_OPTIONAL device ''_BTM'' [Integer i] (null_check env))
          [0, 1, 100, 200, 0x7fffffff]) FWTS_OK)"

definition battery_test_BCT :: "'s method_env \<Rightarrow> cstr \<Rightarrow> 's method_test" where
  "battery_test_BCT env device =
     fwts_evaluate_method env METHOD_OPTIONAL device ''_BCT'' [Integer 50] (pure_check fwts_method_test_integer_return)"

definition battery_test_BMD :: "'s method_env \<Rightarrow> cstr \<Rightarrow> 's method_test" where
  "battery_test_BMD env device =
     fwts_evaluate_method env METHOD_OPTIONAL device ''_BMD'' [] (pure_check fwts_method_test_BMD_return)"

definition battery_test_BMC :: "'s method_env \<Rightarrow> cstr \<Rightarrow> 's method_test" where
  "battery_test_BMC env device =
     returning_ok (evaluate_until not_ok
       (map (\<lambda>i. fwts_evaluate_method env METHOD_OPTIONAL device ''_BMC'' [Integer i] (null_check env))
          [0, 1, 2, 4, 8]) FWTS_OK)"

definition acpi_battery_tests :: "'s method_env \<Rightarrow> cstr \<Rightarrow> ('s method_test \<times> cstr) list" where
  "acpi_battery_tests env device =
     [(battery_test_BIF env device, ''Test _BIF (Battery Information).''),
      (battery_test_BIX env device, ''Test _BIX (Battery Information Extended).''),
      (battery_test_BMA env device, ''Test _BMA (Battery Measurement Averaging).''),
      (battery_test_BMS env device, ''Test _BMS (Battery Measurement Sampling Time).''),
      (battery_test_BPC env device, ''Test _BPC (Battery Power Characteristics).''),
      (battery_test_BPS env device, ''Test _BPS (Battery Power State).''),
      (battery_test_BPT env device, ''Test _BPT (Battery Power Threshold).''),
      (battery_test_BPC env device, ''Test _BPC (Battery Power Characteristics).''),
      (battery_test_BPS env device, ''Test _BPS (Battery Power State).''),
      (battery_test_BPT env device, ''Test _BPT (Battery Power Threshold).''),
      (battery_test_BST env device, ''Test _BST (Battery Status).''),
      (battery_test_BTH env device, ''Test _BTH (Battery Throttle Limit).''),
      (battery_test_BTP env device, ''Test _BTP (Battery Trip Point).''),
      (battery_test_PCL env device, ''Test _PCL (Power Consumer List).''),
      (battery_test_STA env device, ''Test _STA (Status).''),
      (battery_test_BTM env device, ''Test _BTM (Battery Time).''),
      (battery_test_BCT env device, ''Test _BCT (Battery Charge Time).''),
      (battery_test_BMD env device, ''Test _BMD (Battery Maintenance Data).''),
      (battery_test_BMC env device, ''Test _BMC (Battery Maintenance Control).''),
      (fwts_method_test_ADR env device, ''Test _ADR (Return Unique ID for Device).''),
      (fwts_method_test_CID env device, ''Test _CID (Compatible ID).''),
      (fwts_method_test_CLS env device, ''Test _CLS (Class Code).''),
      (fwts_method_test_DDN env device, ''Test _DDN (DOS Device Name).''),
      (fwts_method_test_HID env device, ''Test _HID (Hardware ID).''),
      (fwts_method_test_HRV env device, ''Test _HRV (Hardware Revision Number).''),
      (fwts_method_test_MLS env device, ''Test _MLS (Multiple Language String).''),
      (fwts_method_test_PLD env device, ''Test _PLD (Physical Device Location).''),
      (fwts_method_test_SUB env device, ''Test _SUB (Subsystem ID).''),
      (fwts_method_test_SUN env device, ''Test _SUN (Slot User Number).''),
      (fwts_method_test_STR env device, ''Test _STR (String).''),
      (fwts_method_test_UID env device, ''Test _UID (Unique ID).'')]"

section \<open>battery/smart_battery.c\<close>

definition smart_battery_init :: "(cstr \<Rightarrow> u32 \<times> cstr option) \<Rightarrow> bool \<Rightarrow> cstr option \<Rightarrow> int \<times> cstr option" where
  "smart_battery_init AcpiGetDevices acpica_ok device = device_init AcpiGetDevices acpica_ok ''ACPI0002'' device"

definition smart_battery_test_SBS_return :: "cstr \<Rightarrow> ACPI_BUFFER \<Rightarrow> outcome" where
  "smart_battery_test_SBS_return name buf =
     checked name buf ACPI_TYPE_INTEGER (\<lambda>obj. do {
       v \<leftarrow> int_value obj;
       Some (if v \<le> 4 then [Passed] else [Failed LOG_LEVEL_MEDIUM ''Method_SBSReturn'', Advice]) })"

definition smart_battery_test_SBS :: "'s method_env \<Rightarrow> cstr \<Rightarrow> 's method_test" where
  "smart_battery_test_SBS env device =
     fwts_evaluate_method env METHOD_MANDATORY device ''_SBS'' [] (pure_check smart_battery_test_SBS_return)"

definition smart_battery_tests :: "'s method_env \<Rightarrow> cstr \<Rightarrow> ('s method_test \<times> cstr) list" where
  "smart_battery_tests env device =
     [(smart_battery_test_SBS env device, ''Test _SBS (Smart Battery Subsystem).''),
      (fwts_method_test_ADR env device, ''Test _ADR (Return Unique ID for Device).''),
      (fwts_method_test_CID env device, ''Test _CID (Compatible ID).''),
      (fwts_method_test_CLS env device, ''Test _CLS (Class Code).''),
      (fwts_method_test_DDN env device, ''Test _DDN (DOS Device Name).''),
      (fwts_method_test_HID env device, ''Test _HID (Hardware ID).''),
      (fwts_method_test_HRV env device, ''Test _HRV (Hardware Revision Number).''),
      (fwts_method_test_MLS env device, ''Test _MLS (Multiple Language String).''),
      (fwts_method_test_PLD env device, ''Test _PLD (Physical Device Location).''),
      (fwts_method_test_SUB env device, ''Test _SUB (Subsystem ID).''),
      (fwts_method_test_SUN env device, ''Test _SUN (Slot User Number).''),
      (fwts_method_test_STR env device, ''Test _STR (String).''),
      (fwts_method_test_UID env device, ''Test _UID (Unique ID).'')]"

section \<open>buttons/power_button.c\<close>

definition power_button_init :: "(cstr \<Rightarrow> u32 \<times> cstr option) \<Rightarrow> bool \<Rightarrow> cstr option \<Rightarrow> int \<times> cstr option" where
  "power_button_init AcpiGetDevices acpica_ok device = device_init AcpiGetDevices acpica_ok ''PNP0C0C'' device"

definition power_button_tests :: "'s method_env \<Rightarrow> cstr \<Rightarrow> ('s method_test \<times> cstr) list" where
  "power_button_tests env device =
     [(fwts_method_test_HID env device, ''Test _HID (Hardware ID).''),
      (fwts_method_test_ADR env device, ''Test _ADR (Return Unique ID for Device).''),
      (fwts_method_test_CID env device, ''Test _CID (Compatible ID).''),
      (fwts_method_test_CLS env device, ''Test _CLS (Class Code).''),
      (fwts_method_test_DDN env device, ''Test _DDN (DOS Device Name).''),
      (fwts_method_test_HRV env device, ''Test _HRV (Hardware Revision Number).''),
      (fwts_method_test_MLS env device, ''Test _MLS (Multiple Language String).''),
      (fwts_method_test_PLD env device, ''Test _PLD (Physical Device Location).''),
      (fwts_method_test_SUB env device, ''Test _SUB (Subsystem ID).''),
      (fwts_method_test_SUN env device, ''Test _SUN (Slot User Number).''),
      (fwts_method_test_STR env device, ''Test _STR (String).''),
      (fwts_method_test_UID env device, ''Test _UID (Unique ID).'')]"

section \<open>buttons/sleep_button.c\<close>

definition sleep_button_init :: "(cstr \<Rightarrow> u32 \<times> cstr option) \<Rightarrow> bool \<Rightarrow> cstr option \<Rightarrow> int \<times> cstr option" where
  "sleep_button_init AcpiGetDevices acpica_ok device = device_init AcpiGetDevices acpica_ok ''PNP0C0E'' device"

definition sleep_button_tests :: "'s method_env \<Rightarrow> cstr \<Rightarrow> ('s method_test \<times> cstr) list" where
  "sleep_button_tests env device =
     [(fwts_method_test_HID env device, ''Test _HID (Hardware ID).''),
      (fwts_method_test_ADR env device, ''Test _ADR (Return Unique ID for Device).''),
      (fwts_method_test_CID env device, ''Test _CID (Compatible ID).''),
      (fwts_method_test_CLS env device, ''Test _CLS (Class Code).''),
      (fwts_method_test_DDN env device, ''Test _DDN (DOS Device Name).''),
      (fwts_method_test_HRV env device, ''Test _HRV (Hardware Revision Number).''),
      (fwts_method_test_MLS env device, ''Test _MLS (Multiple Language String).''),
      (fwts_method_test_PLD env device, ''Test _PLD (Physical Device Location).''),
      (fwts_method_test_SUB env device, ''Test _SUB (Subsystem ID).''),
      (fwts_method_test_SUN env device, ''Test _SUN (Slot User Number).''),
      (fwts_method_test_STR env device, ''Test _STR (String).''),
      (fwts_method_test_UID env device, ''Test _UID (Unique ID).'')]"

section \<open>ec/ec.c\<close>

definition acpi_ec_init :: "(cstr \<Rightarrow> u32 \<times> cstr option) \<Rightarrow> bool \<Rightarrow> cstr option \<Rightarrow> int \<times> cstr option" where
  "acpi_ec_init AcpiGetDevices acpica_ok device = device_init AcpiGetDevices acpica_ok ''PNP0C09'' device"

text \<open>The elements of the package are read without a check of their number.\<close>

definition ec_test_GPE_return :: "bool \<Rightarrow> cstr \<Rightarrow> ACPI_BUFFER \<Rightarrow> outcome" where
  "ec_test_GPE_return reduced_hardware name buf =
     (if reduced_hardware then Some [Failed LOG_LEVEL_HIGH ''MethodGPEExist'']
      else do {
        obj \<leftarrow> buf;
        if object_type obj = ACPI_TYPE_INTEGER then do {
          v \<leftarrow> int_value obj;
          Some (pass_or (v \<le> 255) (Failed LOG_LEVEL_CRITICAL ''MethodGPEBadInteger'')) }
        else if object_type obj = ACPI_TYPE_PACKAGE then do {
          t0 \<leftarrow> type_at obj 0;
          t1 \<leftarrow> type_at obj 1;
          Some (no_issues (
            fail_if (t0 \<noteq> ACPI_TYPE_LOCAL_REFERENCE) (Failed LOG_LEVEL_CRITICAL ''MethodGPEBadPackage'') @
            fail_if (t1 \<noteq> ACPI_TYPE_INTEGER) (Failed LOG_LEVEL_CRITICAL ''MethodGPEBadPackage''))) }
        else Some [Failed LOG_LEVEL_CRITICAL ''MethodGPEBadReturnType''] })"

definition ec_test_GPE :: "'s method_env \<Rightarrow> cstr \<Rightarrow> 's method_test" where
  "ec_test_GPE env device =
     fwts_evaluate_method env METHOD_MANDATORY device ''_GPE'' [] (pure_check (ec_test_GPE_return (env_reduced_hardware env)))"

text \<open>The name of the object in the labels is a NULL pointer, which the C library prints as (null).\<close>

definition ec_test_CRS_return :: "bool \<Rightarrow> cstr \<Rightarrow> ACPI_BUFFER \<Rightarrow> outcome" where
  "ec_test_CRS_return sbbr name buf =
     checked name buf ACPI_TYPE_BUFFER (\<lambda>obj. do {
       b \<leftarrow> buffer_bytes obj;
       case b of
         None \<Rightarrow> Some [Failed LOG_LEVEL_CRITICAL (crs_label ''(null)'' ''NullBuffer'')]
       | Some data \<Rightarrow>
           if length data < 1 then Some [Failed LOG_LEVEL_CRITICAL (crs_label ''(null)'' ''BufferTooSmall'')]
           else do {
             b0 \<leftarrow> byte_at data 0;
             (rs, tag) \<leftarrow> (if b0 AND 128 \<noteq> 0 then fwts_method_test_CRS_large_resource_items sbbr ''(null)'' data
                           else fwts_method_test_CRS_small_resource_items ''(null)'' data);
             Some (no_issues rs) } })"

definition ec_test_CRS :: "'s method_env \<Rightarrow> cstr \<Rightarrow> 's method_test" where
  "ec_test_CRS env device =
     fwts_evaluate_method env METHOD_MANDATORY device ''_CRS'' [] (pure_check (ec_test_CRS_return (env_sbbr env)))"

definition acpi_ec_tests :: "'s method_env \<Rightarrow> cstr \<Rightarrow> ('s method_test \<times> cstr) list" where
  "acpi_ec_tests env device =
     [(ec_test_CRS env device, ''Test _CRS (Current Resource Settings).''),
      (fwts_method_test_HID env device, ''Test _HID (Hardware ID).''),
      (ec_test_GPE env device, ''Test _GPE (General Purpose Events).''),
      (fwts_method_test_ADR env device, ''Test _ADR (Return Unique ID for Device).''),
      (fwts_method_test_CID env device, ''Test _CID (Compatible ID).''),
      (fwts_method_test_CLS env device, ''Test _CLS (Class Code).''),
      (fwts_method_test_DDN env device, ''Test _DDN (DOS Device Name).''),
      (fwts_method_test_HID env device, ''Test _HID (Hardware ID).''),
      (fwts_method_test_HRV env device, ''Test _HRV (Hardware Revision Number).''),
      (fwts_method_test_MLS env device, ''Test _MLS (Multiple Language String).''),
      (fwts_method_test_PLD env device, ''Test _PLD (Physical Device Location).''),
      (fwts_method_test_SUB env device, ''Test _SUB (Subsystem ID).''),
      (fwts_method_test_SUN env device, ''Test _SUN (Slot User Number).''),
      (fwts_method_test_STR env device, ''Test _STR (String).''),
      (fwts_method_test_UID env device, ''Test _UID (Unique ID).'')]"

section \<open>lid/lid.c\<close>

definition acpi_lid_init :: "(cstr \<Rightarrow> u32 \<times> cstr option) \<Rightarrow> bool \<Rightarrow> cstr option \<Rightarrow> int \<times> cstr option" where
  "acpi_lid_init AcpiGetDevices acpica_ok device = device_init AcpiGetDevices acpica_ok ''PNP0C0D'' device"

definition lid_test_LID_return :: "cstr \<Rightarrow> ACPI_BUFFER \<Rightarrow> outcome" where
  "lid_test_LID_return name buf =
     checked name buf ACPI_TYPE_INTEGER (\<lambda>obj. do { v \<leftarrow> int_value obj; Some [Passed] })"

definition lid_test_LID :: "'s method_env \<Rightarrow> cstr \<Rightarrow> 's method_test" where
  "lid_test_LID env device =
     fwts_evaluate_method env METHOD_MANDATORY device ''_LID'' [] (pure_check lid_test_LID_return)"

text \<open>A subpackage of the wrong length is reported, and two elements of it are read all the same.\<close>

definition lid_test_PRW_return :: "cstr \<Rightarrow> ACPI_BUFFER \<Rightarrow> outcome" where
  "lid_test_PRW_return name buf =
     checked name buf ACPI_TYPE_PACKAGE (\<lambda>obj.
       on_ok (fwts_method_package_count_min name obj 2) (do {
         es \<leftarrow> elements obj;
         e0 \<leftarrow> element_at obj 0;
         t1 \<leftarrow> type_at obj 1;
         let bad = Failed LOG_LEVEL_CRITICAL ''Method_PRWBadPackageReturnType'';
         let bad_sub = Failed LOG_LEVEL_CRITICAL ''Method_PRWBadSubPackageElementType'';
         rs \<leftarrow> (if object_type e0 = ACPI_TYPE_PACKAGE then do {
                 sub \<leftarrow> elements e0;
                 s0 \<leftarrow> type_at e0 0;
                 s1 \<leftarrow> type_at e0 1;
                 Some (fail_if (length sub \<noteq> 2) (Failed LOG_LEVEL_CRITICAL ''Method_PRWSubPackageElementCount'') @
                       fail_if (s0 \<noteq> ACPI_TYPE_LOCAL_REFERENCE) bad_sub @ fail_if (s1 \<noteq> ACPI_TYPE_INTEGER) bad_sub) }
               else Some (fail_if (object_type e0 \<noteq> ACPI_TYPE_INTEGER) bad));
         Some (no_issues (rs @ fail_if (t1 \<noteq> ACPI_TYPE_INTEGER) bad @
           concat (map (\<lambda>e. fail_if (object_type e \<noteq> ACPI_TYPE_LOCAL_REFERENCE) bad) (drop 2 (butlast es))))) }))"

definition lid_test_PRW :: "'s method_env \<Rightarrow> cstr \<Rightarrow> 's method_test" where
  "lid_test_PRW env device =
     fwts_evaluate_method env METHOD_OPTIONAL device ''_PRW'' [] (pure_check lid_test_PRW_return)"

definition lid_test_PSW :: "'s method_env \<Rightarrow> cstr \<Rightarrow> 's method_test" where
  "lid_test_PSW env device =
     fwts_evaluate_method env METHOD_OPTIONAL device ''_PSW'' [Integer 1] (pure_check (fwts_method_test_NULL_return (env_slack env)))"

definition acpi_lid_tests :: "'s method_env \<Rightarrow> cstr \<Rightarrow> ('s method_test \<times> cstr) list" where
  "acpi_lid_tests env device =
     [(lid_test_LID env device, ''Test _LID (Lid Status).''),
      (lid_test_PRW env device, ''Test _PRW (Power Resources for Wake).''),
      (lid_test_PSW env device, ''Test _PSW (Power State Wake).''),
      (fwts_method_test_ADR env device, ''Test _ADR (Return Unique ID for Device).''),
      (fwts_method_test_CID env device, ''Test _CID (Compatible ID).''),
      (fwts_method_test_CLS env device, ''Test _CLS (Class Code).''),
      (fwts_method_test_DDN env device, ''Test _DDN (DOS Device Name).''),
      (fwts_method_test_HID env device, ''Test _HID (Hardware ID).''),
      (fwts_method_test_HRV env device, ''Test _HRV (Hardware Revision Number).''),
      (fwts_method_test_MLS env device, ''Test _MLS (Multiple Language String).''),
      (fwts_method_test_PLD env device, ''Test _PLD (Physical Device Location).''),
      (fwts_method_test_SUB env device, ''Test _SUB (Subsystem ID).''),
      (fwts_method_test_SUN env device, ''Test _SUN (Slot User Number).''),
      (fwts_method_test_STR env device, ''Test _STR (String).''),
      (fwts_method_test_UID env device, ''Test _UID (Unique ID).'')]"

section \<open>nvdimm/nvdimm.c\<close>

definition acpi_nvdimm_init :: "(cstr \<Rightarrow> u32 \<times> cstr option) \<Rightarrow> bool \<Rightarrow> cstr option \<Rightarrow> int \<times> cstr option" where
  "acpi_nvdimm_init AcpiGetDevices acpica_ok device = device_init AcpiGetDevices acpica_ok ''ACPI0012'' device"

definition nvdimm_test_NCH :: "'s method_env \<Rightarrow> cstr \<Rightarrow> 's method_test" where
  "nvdimm_test_NCH env device =
     fwts_evaluate_method env METHOD_MANDATORY device ''_NCH'' [] (pure_check fwts_method_test_NCH_return)"

definition nvdimm_test_NBS :: "'s method_env \<Rightarrow> cstr \<Rightarrow> 's method_test" where
  "nvdimm_test_NBS env device =
     fwts_evaluate_method env METHOD_MANDATORY device ''_NBS'' [] (pure_check fwts_method_test_NBS_return)"

definition nvdimm_test_NIC :: "'s method_env \<Rightarrow> cstr \<Rightarrow> 's method_test" where
  "nvdimm_test_NIC env device =
     fwts_evaluate_method env METHOD_MANDATORY device ''_NIC'' [] (pure_check fwts_method_test_NIC_return)"

definition nvdimm_test_NIH :: "'s method_env \<Rightarrow> cstr \<Rightarrow> 's method_test" where
  "nvdimm_test_NIH env device =
     fwts_evaluate_method env METHOD_MANDATORY device ''_NIH'' [] (pure_check fwts_method_test_NIH_return)"

definition nvdimm_test_NIG :: "'s method_env \<Rightarrow> cstr \<Rightarrow> 's method_test" where
  "nvdimm_test_NIG env device =
     fwts_evaluate_method env METHOD_MANDATORY device ''_NIG'' [] (pure_check fwts_method_test_NIG_return)"

definition acpi_nvdimm_tests :: "'s method_env \<Rightarrow> cstr \<Rightarrow> ('s method_test \<times> cstr) list" where
  "acpi_nvdimm_tests env device =
     [(nvdimm_test_NCH env device, ''Test _NCH (NVDIMM Current Health Information).''),
      (nvdimm_test_NBS env device, ''Test _NBS (NVDIMM Boot Status).''),
      (nvdimm_test_NIC env device, ''Test _NIC (NVDIMM Health Error Injection Capabilities).''),
      (nvdimm_test_NIH env device, ''Test _NIH (NVDIMM Inject/Clear Health Errors).''),
      (nvdimm_test_NIG env device, ''Test _NIG (NVDIMM Inject Health Error Status).''),
      (fwts_method_test_HID env device, ''Test _HID (Hardware ID).'')]"

section \<open>sensor/als.c\<close>

definition acpi_als_init :: "(cstr \<Rightarrow> u32 \<times> cstr option) \<Rightarrow> bool \<Rightarrow> cstr option \<Rightarrow> int \<times> cstr option" where
  "acpi_als_init AcpiGetDevices acpica_ok device = device_init AcpiGetDevices acpica_ok ''ACPI0008'' device"

definition als_test_ALI :: "'s method_env \<Rightarrow> cstr \<Rightarrow> 's method_test" where
  "als_test_ALI env device =
     fwts_evaluate_method env METHOD_MANDATORY device ''_ALI'' [] (pure_check fwts_method_test_integer_return)"

definition als_test_ALC :: "'s method_env \<Rightarrow> cstr \<Rightarrow> 's method_test" where
  "als_test_ALC env device =
     fwts_evaluate_method env METHOD_OPTIONAL device ''_ALC'' [] (pure_check fwts_method_test_integer_return)"

definition als_test_ALT :: "'s method_env \<Rightarrow> cstr \<Rightarrow> 's method_test" where
  "als_test_ALT env device =
     fwts_evaluate_method env METHOD_OPTIONAL device ''_ALT'' [] (pure_check fwts_method_test_integer_return)"

fun als_ALR_loop :: "ACPI_OBJECT list \<Rightarrow> u32 \<Rightarrow> u32 \<Rightarrow> outcome" where
  "als_ALR_loop [] adjustment illuminance = Some []"
| "als_ALR_loop (pkg # pkgs) adjustment illuminance = do {
     es \<leftarrow> elements pkg;
     if length es \<noteq> 2 then
       both (Some [Failed LOG_LEVEL_MEDIUM ''Method_ALRBadSubPackageElementCount'']) (als_ALR_loop pkgs adjustment illuminance)
     else do {
       t0 \<leftarrow> type_at pkg 0;
       t1 \<leftarrow> type_at pkg 1;
       let bad = Failed LOG_LEVEL_MEDIUM ''Method_ALRBadSubPackageReturnType'';
       v0 \<leftarrow> int_at pkg 0;
       v1 \<leftarrow> int_at pkg 1;
       both (Some (fail_if (t0 \<noteq> ACPI_TYPE_INTEGER \<or> ucast adjustment > v0) bad @
                   fail_if (t1 \<noteq> ACPI_TYPE_INTEGER \<or> ucast illuminance > v1) bad))
         (als_ALR_loop pkgs (ucast v0) (ucast v1)) } }"

definition als_test_ALR_return :: "cstr \<Rightarrow> ACPI_BUFFER \<Rightarrow> outcome" where
  "als_test_ALR_return name buf =
     checked name buf ACPI_TYPE_PACKAGE (\<lambda>obj. do { es \<leftarrow> elements obj; sane_or (als_ALR_loop es 0 0) })"

definition als_test_ALR :: "'s method_env \<Rightarrow> cstr \<Rightarrow> 's method_test" where
  "als_test_ALR env device =
     fwts_evaluate_method env METHOD_MANDATORY device ''_ALR'' [] (pure_check als_test_ALR_return)"

definition als_test_ALP :: "'s method_env \<Rightarrow> cstr \<Rightarrow> 's method_test" where
  "als_test_ALP env device =
     fwts_evaluate_method env METHOD_OPTIONAL device ''_ALP'' [] (pure_check fwts_method_test_polling_return)"

definition ambient_light_tests :: "'s method_env \<Rightarrow> cstr \<Rightarrow> ('s method_test \<times> cstr) list" where
  "ambient_light_tests env device =
     [(als_test_ALI env device, ''Test _ALI (Ambient Light Illuminance).''),
      (als_test_ALC env device, ''Test _ALC (Ambient Light Colour Chromaticity).''),
      (als_test_ALT env device, ''Test _ALT (Ambient Light Temperature).''),
      (fwts_method_test_ADR env device, ''Test _ADR (Return Unique ID for Device).''),
      (fwts_method_test_CID env device, ''Test _CID (Compatible ID).''),
      (fwts_method_test_CLS env device, ''Test _CLS (Class Code).''),
      (fwts_method_test_DDN env device, ''Test _DDN (DOS Device Name).''),
      (fwts_method_test_HID env device, ''Test _HID (Hardware ID).''),
      (fwts_method_test_HRV env device, ''Test _HRV (Hardware Revision Number).''),
      (fwts_method_test_MLS env device, ''Test _MLS (Multiple Language String).''),
      (fwts_method_test_PLD env device, ''Test _PLD (Physical Device Location).''),
      (fwts_method_test_SUB env device, ''Test _SUB (Subsystem ID).''),
      (fwts_method_test_SUN env device, ''Test _SUN (Slot User Number).''),
      (fwts_method_test_STR env device, ''Test _STR (String).''),
      (fwts_method_test_UID env device, ''Test _UID (Unique ID).'')]"

section \<open>time/time.c\<close>

definition acpi_time_alarm_init :: "(cstr \<Rightarrow> u32 \<times> cstr option) \<Rightarrow> bool \<Rightarrow> cstr option \<Rightarrow> int \<times> cstr option" where
  "acpi_time_alarm_init AcpiGetDevices acpica_ok device = device_init AcpiGetDevices acpica_ok ''ACPI000E'' device"

text \<open>The capabilities that the tests of the time and alarm device read are its own variable; it takes the place of that of the method test.\<close>

definition time_test_GCP_return :: "'s check" where
  "time_test_GCP_return name buf st =
     (case fwts_method_check_type name buf ACPI_TYPE_INTEGER of
        [] \<Rightarrow> do {
          obj \<leftarrow> buf;
          v \<leftarrow> int_value obj;
          Some (pass_or (v AND NOT 0x1ff = 0) (Failed LOG_LEVEL_CRITICAL ''Method_GCPReturn''),
                st\<lparr>gcp_return_value := ucast v\<rparr>) }
      | rs \<Rightarrow> Some (rs, st))"

definition time_test_GCP :: "'s method_env \<Rightarrow> cstr \<Rightarrow> 's method_test" where
  "time_test_GCP env device =
     fwts_evaluate_method env METHOD_MANDATORY device ''_GCP'' [] time_test_GCP_return"

definition time_test_GRT_return :: "cstr \<Rightarrow> ACPI_BUFFER \<Rightarrow> outcome" where
  "time_test_GRT_return name buf =
     checked name buf ACPI_TYPE_BUFFER (\<lambda>obj. on_ok (fwts_method_buffer_size name obj 16) (Some [Passed]))"

definition time_test_GRT :: "'s method_env \<Rightarrow> cstr \<Rightarrow> 's method_test" where
  "time_test_GRT env device st =
     fwts_evaluate_method env (if bit (gcp_return_value st) 2 then METHOD_MANDATORY else METHOD_OPTIONAL)
       device ''_GRT'' [] (pure_check time_test_GRT_return) st"

definition time_test_SRT_return :: "cstr \<Rightarrow> ACPI_BUFFER \<Rightarrow> outcome" where
  "time_test_SRT_return name buf =
     checked name buf ACPI_TYPE_INTEGER (\<lambda>obj. do { v \<leftarrow> int_value obj; Some [Passed] })"

definition time_test_SRT :: "'s method_env \<Rightarrow> cstr \<Rightarrow> 's method_test" where
  "time_test_SRT env device st =
     fwts_evaluate_method env (if bit (gcp_return_value st) 2 then METHOD_MANDATORY else METHOD_OPTIONAL)
       device ''_SRT'' [Buffer (Some (srt_argument (env_stack env)))] (pure_check time_test_SRT_return) st"

definition time_test_GWS_return :: "cstr \<Rightarrow> ACPI_BUFFER \<Rightarrow> outcome" where
  "time_test_GWS_return name buf =
     checked name buf ACPI_TYPE_INTEGER (\<lambda>obj. do {
       v \<leftarrow> int_value obj;
       Some (if v AND NOT 0x3 = 0 then [Passed] else [Failed LOG_LEVEL_CRITICAL ''Method_GWSReturn'']) })"

definition time_test_GWS :: "'s method_env \<Rightarrow> cstr \<Rightarrow> 's method_test" where
  "time_test_GWS env device st =
     fwts_evaluate_method env (if bit (gcp_return_value st) 0 then METHOD_MANDATORY else METHOD_OPTIONAL)
       device ''_GWS'' [Integer 1] (pure_check time_test_GWS_return) st"

definition time_test_CWS_return :: "cstr \<Rightarrow> ACPI_BUFFER \<Rightarrow> outcome" where
  "time_test_CWS_return name buf =
     checked name buf ACPI_TYPE_INTEGER (\<lambda>obj. do {
       v \<leftarrow> int_value obj;
       Some (if \<not> (v \<noteq> 0 \<and> v \<noteq> 1) then [Passed] else [Failed LOG_LEVEL_CRITICAL ''Method_CWSInvalidInteger'']) })"

definition time_CWS_once :: "'s method_env \<Rightarrow> cstr \<Rightarrow> u64 \<Rightarrow> 's method_test" where
  "time_CWS_once env device i st =
     fwts_evaluate_method env (if bit (gcp_return_value st) 0 then METHOD_MANDATORY else METHOD_OPTIONAL)
       device ''_CWS'' [Integer i] (pure_check time_test_CWS_return) st"

definition time_test_CWS :: "'s method_env \<Rightarrow> cstr \<Rightarrow> 's method_test" where
  "time_test_CWS env device = evaluate_until not_ok (map (time_CWS_once env device) [0, 1]) FWTS_OK"

definition time_test_STP :: "'s method_env \<Rightarrow> cstr \<Rightarrow> 's method_test" where
  "time_test_STP env device =
     fwts_evaluate_method env METHOD_OPTIONAL device ''_STP'' [Integer 1, Integer 0] (pure_check fwts_method_test_passed_failed_return)"

definition time_test_STV :: "'s method_env \<Rightarrow> cstr \<Rightarrow> 's method_test" where
  "time_test_STV env device st =
     fwts_evaluate_method env (if bit (gcp_return_value st) 0 then METHOD_MANDATORY else METHOD_OPTIONAL)
       device ''_STV'' [Integer 1, Integer 100] (pure_check fwts_method_test_passed_failed_return) st"

definition time_test_TIP :: "'s method_env \<Rightarrow> cstr \<Rightarrow> 's method_test" where
  "time_test_TIP env device st =
     fwts_evaluate_method env (if bit (gcp_return_value st) 0 then METHOD_MANDATORY else METHOD_OPTIONAL)
       device ''_TIP'' [Integer 1] (pure_check fwts_method_test_integer_return) st"

definition time_test_TIV :: "'s method_env \<Rightarrow> cstr \<Rightarrow> 's method_test" where
  "time_test_TIV env device st =
     fwts_evaluate_method env (if bit (gcp_return_value st) 0 then METHOD_MANDATORY else METHOD_OPTIONAL)
       device ''_TIV'' [Integer 1] (pure_check fwts_method_test_integer_return) st"

definition acpi_time_alarm_tests :: "'s method_env \<Rightarrow> cstr \<Rightarrow> ('s method_test \<times> cstr) list" where
  "acpi_time_alarm_tests env device =
     [(time_test_GCP env device, ''Test _GCP (Get Capabilities).''),
      (time_test_GRT env device, ''Test _GRT (Get Real Time).''),
      (time_test_SRT env device, ''Test _SRT (Set Real Time).''),
      (time_test_GWS env device, ''Test _GWS (Get Wake Status).''),
      (time_test_CWS env device, ''Test _CWS (Clear Wake Status).''),
      (time_test_STP env device, ''Test _STP (Set Expired Timer Wake Policy).''),
      (time_test_STV env device, ''Test _STV (Set Timer Value).''),
      (time_test_TIP env device, ''Test _TIP (Expired Timer Wake Policy).''),
      (time_test_TIV env device, ''Test _TIV (Timer Values).''),
      (fwts_method_test_ADR env device, ''Test _ADR (Return Unique ID for Device).''),
      (fwts_method_test_CID env device, ''Test _CID (Compatible ID).''),
      (fwts_method_test_CLS env device, ''Test _CLS (Class Code).''),
      (fwts_method_test_DDN env device, ''Test _DDN (DOS Device Name).''),
      (fwts_method_test_HID env device, ''Test _HID (Hardware ID).''),
      (fwts_method_test_HRV env device, ''Test _HRV (Hardware Revision Number).''),
      (fwts_method_test_MLS env device, ''Test _MLS (Multiple Language String).''),
      (fwts_method_test_PLD env device, ''Test _PLD (Physical Device Location).''),
      (fwts_method_test_SUB env device, ''Test _SUB (Subsystem ID).''),
      (fwts_method_test_SUN env device, ''Test _SUN (Slot User Number).''),
      (fwts_method_test_STR env device, ''Test _STR (String).''),
      (fwts_method_test_UID env device, ''Test _UID (Unique ID).'')]"

section \<open>wpc/wpc.c\<close>

definition acpi_wpc_init :: "(cstr \<Rightarrow> u32 \<times> cstr option) \<Rightarrow> bool \<Rightarrow> cstr option \<Rightarrow> int \<times> cstr option" where
  "acpi_wpc_init AcpiGetDevices acpica_ok device = device_init AcpiGetDevices acpica_ok ''ACPI0014'' device"

definition wpc_test_WPC_return :: "cstr \<Rightarrow> ACPI_BUFFER \<Rightarrow> outcome" where
  "wpc_test_WPC_return name buf =
     checked name buf ACPI_TYPE_INTEGER (\<lambda>obj. do {
       v \<leftarrow> int_value obj;
       Some (if v \<le> 2 \<or> v = 0xff then [Passed] else [Failed LOG_LEVEL_CRITICAL ''Method_WPCInvalidInteger'']) })"

definition wpc_test_WPC :: "'s method_env \<Rightarrow> cstr \<Rightarrow> 's method_test" where
  "wpc_test_WPC env device =
     fwts_evaluate_method env METHOD_MANDATORY device ''_WPC'' [] (pure_check wpc_test_WPC_return)"

definition wpc_test_WPP :: "'s method_env \<Rightarrow> cstr \<Rightarrow> 's method_test" where
  "wpc_test_WPP env device =
     fwts_evaluate_method env METHOD_OPTIONAL device ''_WPP'' [] (pure_check fwts_method_test_integer_return)"

definition acpi_wpc_tests :: "'s method_env \<Rightarrow> cstr \<Rightarrow> ('s method_test \<times> cstr) list" where
  "acpi_wpc_tests env device =
     [(wpc_test_WPC env device, ''Test _WPC (Wireless Power Calibration).''),
      (wpc_test_WPP env device, ''Test _WPP (Wireless Power Polling).''),
      (fwts_method_test_ADR env device, ''Test _ADR (Return Unique ID for Device).''),
      (fwts_method_test_CID env device, ''Test _CID (Compatible ID).''),
      (fwts_method_test_CLS env device, ''Test _CLS (Class Code).''),
      (fwts_method_test_DDN env device, ''Test _DDN (DOS Device Name).''),
      (fwts_method_test_HID env device, ''Test _HID (Hardware ID).''),
      (fwts_method_test_HRV env device, ''Test _HRV (Hardware Revision Number).''),
      (fwts_method_test_MLS env device, ''Test _MLS (Multiple Language String).''),
      (fwts_method_test_PLD env device, ''Test _PLD (Physical Device Location).''),
      (fwts_method_test_SUB env device, ''Test _SUB (Subsystem ID).''),
      (fwts_method_test_SUN env device, ''Test _SUN (Slot User Number).''),
      (fwts_method_test_STR env device, ''Test _STR (String).''),
      (fwts_method_test_UID env device, ''Test _UID (Unique ID).'')]"

end
