(* ===== verification/Fwts_Verdicts.thy ===== *)
theory Fwts_Verdicts
  imports Fwts_Devices
begin

text \<open>
  What the checks of returned objects guarantee: that they read only what the type of the object
  stands for, inside its packages and buffers, and that they come to one verdict, a single passed
  report or failures and no passed report. The rules take a check apart along its structure.
\<close>

section \<open>Checks that are defined\<close>

definition returned :: "ACPI_BUFFER \<Rightarrow> bool" where
  "returned buf = (case buf of None \<Rightarrow> True | Some obj \<Rightarrow> object_ok obj)"

definition total_check :: "(cstr \<Rightarrow> ACPI_BUFFER \<Rightarrow> outcome) \<Rightarrow> bool" where
  "total_check c \<longleftrightarrow> (\<forall>name buf. returned buf \<longrightarrow> c name buf \<noteq> None)"

definition of_types :: "ACPI_OBJECT list \<Rightarrow> nat list \<Rightarrow> bool" where
  "of_types es types \<longleftrightarrow> list_all2 (\<lambda>e t. fwts_method_type_matches (object_type e) t) es types"

lemma fail_if_Nil [simp]: "fail_if bad r = [] \<longleftrightarrow> \<not> bad"
  by (simp add: fail_if_def)

lemma element_types_Nil:
  "length es = length types \<Longrightarrow> element_type_reports name (zip es types) = [] \<longleftrightarrow> of_types es types"
  by (induction es types rule: list_induct2) (auto simp: element_type_reports_def of_types_def)

lemma elements_type_Nil:
  "fwts_method_package_elements_type name (Package es) types = Some [] \<longleftrightarrow> of_types es types"
  unfolding fwts_method_package_elements_type_def fwts_method_package_count_equal_def
  using element_types_Nil [of es types name] by (auto simp: outcomes of_types_def dest: list_all2_lengthD)

lemma elements_all_type_Nil:
  "fwts_method_package_elements_all_type name (Package es) t = Some [] \<longleftrightarrow>
     list_all (\<lambda>e. fwts_method_type_matches (object_type e) t) es"
  by (induction es)
    (auto simp: fwts_method_package_elements_all_type_def element_type_reports_def)

lemma elements_all_types: "list_all (\<lambda>e. fwts_method_type_matches (object_type e) t) es \<longleftrightarrow> of_types es (replicate (length es) t)"
  by (auto simp: of_types_def list_all2_conv_all_nth list_all_length)

lemma package_types:
  assumes "of_types es types" and "object_ok (Package es)" and "i < length types"
  shows "i < length es" "object_ok (es ! i)" "fwts_method_type_matches (object_type (es ! i)) (types ! i)"
  using assms by (auto simp: of_types_def list_all2_conv_all_nth list_all_length)

lemma integer_element:
  assumes "of_types es types" and "object_ok (Package es)" and "i < length types" and "types ! i = 1"
  shows "\<exists>v. int_at (Package es) i = Some v"
proof -
  note e = package_types [OF assms(1-3)]
  then have "object_type (es ! i) = 1" using assms(4) object_type_less [OF e(2)] by auto
  then obtain v where "es ! i = Integer v" using object_type_integer [OF e(2)] by auto
  then show ?thesis using e(1) by (simp add: int_at_def)
qed

lemma type_at_Some: "i < length es \<Longrightarrow> type_at (Package es) i = Some (object_type (es ! i))"
  by (simp add: type_at_def)

text \<open>Rules for the structure of a check; a goal is that an outcome is not None.\<close>

definition defined :: "'a option \<Rightarrow> bool" where
  "defined c \<longleftrightarrow> c \<noteq> None"

lemma defined_Some [intro, simp]: "defined (Some x)"
  by (simp add: defined_def)

lemma defined_bind [intro]: "m = Some x \<Longrightarrow> defined (k x) \<Longrightarrow> defined (m \<bind> k)"
  by (simp add: defined_def)

lemma defined_if [intro]: "(b \<Longrightarrow> defined c) \<Longrightarrow> (\<not> b \<Longrightarrow> defined d) \<Longrightarrow> defined (if b then c else d)"
  by simp

lemma defined_on_ok [intro]: "defined c \<Longrightarrow> (c = Some [] \<Longrightarrow> defined k) \<Longrightarrow> defined (on_ok c k)"
  by (simp add: defined_def outcomes)

lemma defined_both [intro]: "defined c \<Longrightarrow> defined d \<Longrightarrow> defined (both c d)"
  by (auto simp: defined_def)

lemma defined_sane_or [intro]: "defined c \<Longrightarrow> defined (sane_or c)" "defined c \<Longrightarrow> defined (sane_or_advice c)"
  by (auto simp: defined_def sane_or_def sane_or_advice_def)

lemma defined_each [intro]: "(\<And>x. x \<in> set xs \<Longrightarrow> defined (f x)) \<Longrightarrow> defined (each f xs)"
  by (auto simp: defined_def each_None)

lemma defined_package [intro, simp]:
  "defined (fwts_method_package_count_min name (Package es) n)"
  "defined (fwts_method_package_count_equal name (Package es) n)"
  "defined (fwts_method_subpackage_count_equal name (Package es) n)"
  "defined (fwts_method_package_elements_all_type name (Package es) t)"
  "defined (fwts_method_package_elements_type name (Package es) types)"
  "defined (fwts_method_buffer_size name (Buffer b) sz)"
  by (simp_all add: defined_def fwts_method_package_count_min_def fwts_method_package_count_equal_def
      fwts_method_subpackage_count_equal_def fwts_method_package_elements_all_type_def
      fwts_method_package_elements_type_def fwts_method_buffer_size_def outcomes)

lemma subpackage_count_Nil:
  "fwts_method_subpackage_count_equal name (Package es) n = Some [] \<longleftrightarrow> length es = n"
  "fwts_method_package_count_equal name (Package es) n = Some [] \<longleftrightarrow> length es = n"
  "fwts_method_package_count_min name (Package es) n = Some [] \<longleftrightarrow> n \<le> length es"
  by (auto simp: fwts_method_subpackage_count_equal_def fwts_method_package_count_equal_def
      fwts_method_package_count_min_def)

lemma check_element_type_defined:
  "i < length es \<Longrightarrow> object_ok (Package es) \<Longrightarrow> defined (fwts_method_check_element_type name (Package es) i t)"
  using object_type_less [of "es ! i"]
  by (auto simp: fwts_method_check_element_type_def type_at_Some defined_def list_all_length)

lemma total_checked:
  assumes "\<And>obj name. object_ok obj \<Longrightarrow> fwts_method_type_matches (object_type obj) type \<Longrightarrow> defined (k name obj)"
  shows "total_check (\<lambda>name buf. checked name buf type (k name))"
  using assms
  by (auto simp: total_check_def returned_def checked_def fwts_method_check_type_def fwts_method_failed_null_object_def
      defined_def split: option.split)

lemma matching_objects:
  assumes "object_ok obj"
  shows "fwts_method_type_matches (object_type obj) ACPI_TYPE_INTEGER \<Longrightarrow> \<exists>v. obj = Integer v"
    and "fwts_method_type_matches (object_type obj) ACPI_TYPE_STRING \<Longrightarrow> \<exists>s. obj = String s"
    and "fwts_method_type_matches (object_type obj) ACPI_TYPE_BUFFER \<Longrightarrow> \<exists>b. obj = Buffer b"
    and "fwts_method_type_matches (object_type obj) ACPI_TYPE_PACKAGE \<Longrightarrow> \<exists>es. obj = Package es"
    and "fwts_method_type_matches (object_type obj) ACPI_TYPE_LOCAL_REFERENCE \<Longrightarrow> obj = Reference"
  using assms by (cases obj; auto simp: fwts_method_type_matches_def)+

lemma total_package:
  assumes "\<And>es name. object_ok (Package es) \<Longrightarrow> defined (k name (Package es))"
  shows "total_check (\<lambda>name buf. checked name buf ACPI_TYPE_PACKAGE (k name))"
  using assms by (intro total_checked) (metis matching_objects(4))

lemma total_integer:
  assumes "\<And>v name. defined (k name (Integer v))"
  shows "total_check (\<lambda>name buf. checked name buf ACPI_TYPE_INTEGER (k name))"
  using assms by (intro total_checked) (metis matching_objects(1))

lemma total_buffer:
  assumes "\<And>b name. defined (k name (Buffer b))"
  shows "total_check (\<lambda>name buf. checked name buf ACPI_TYPE_BUFFER (k name))"
  using assms by (intro total_checked) (metis matching_objects(3))

section \<open>The checks that are defined for every object\<close>

lemma total_integers:
  "total_check fwts_method_test_integer_return"
  "total_check (fwts_method_test_integer_reserved_bits_return m)"
  "total_check (fwts_method_test_integer_max_return m)"
  "total_check fwts_method_test_passed_failed_return"
  "total_check fwts_method_test_polling_return"
  "total_check fwts_method_test_STA_return"
  "total_check method_test_CWS_return"
  "total_check method_test_SBS_return"
  "total_check method_test_PST_return"
  "total_check method_test_WPC_return"
  "total_check method_test_MTL_return"
  unfolding fwts_method_test_integer_return_def [abs_def]
    fwts_method_test_integer_reserved_bits_return_def [abs_def]
    fwts_method_test_integer_max_return_def [abs_def]
    fwts_method_test_passed_failed_return_def [abs_def]
    fwts_method_test_polling_return_def [abs_def]
    fwts_method_test_STA_return_def [abs_def]
    method_test_CWS_return_def [abs_def]
    method_test_SBS_return_def [abs_def]
    method_test_PST_return_def [abs_def]
    method_test_WPC_return_def [abs_def]
    method_test_MTL_return_def [abs_def]
  by (rule total_integer, simp add: Let_def)+

lemma total_buffers:
  "total_check fwts_method_test_buffer_return" "total_check method_test_GTF_return"
  "total_check method_test_GTM_return" "total_check method_test_GRT_return"
  unfolding fwts_method_test_buffer_return_def [abs_def] method_test_GTF_return_def [abs_def]
    method_test_GTM_return_def [abs_def] method_test_GRT_return_def [abs_def]
  by (rule total_buffer, auto)+

lemma total_any:
  "total_check fwts_method_test_string_return" "total_check fwts_method_test_reference_return"
  "total_check (fwts_method_test_NULL_return slack)" "total_check fwts_method_test_HID_return"
  "total_check fwts_method_test_SUB_return" "total_check fwts_method_test_UID_return"
  "total_check (method_test_DDC_return arg)"
  unfolding fwts_method_test_string_return_def [abs_def] fwts_method_test_reference_return_def [abs_def]
  by (rule total_checked, simp)+
    (simp_all add: total_check_def fwts_method_test_NULL_return_def fwts_method_test_HID_return_def
      fwts_method_test_SUB_return_def fwts_method_test_UID_return_def method_test_DDC_return_def)

lemma total_CID: "total_check fwts_method_test_CID_return"
  by (auto simp: total_check_def returned_def fwts_method_test_CID_return_def outcomes object_type_package
      fwts_method_package_count_min_def simp del: not_None_eq split: option.split)

lemma total_packages:
  "total_check fwts_method_test_all_reference_package_return" "total_check fwts_method_test_PLD_return"
  "total_check method_test_power_resources_return" "total_check method_test_PRR_return"
  "total_check method_test_PIF_return" "total_check method_test_DSD_return" "total_check method_test_DOD_return"
  unfolding fwts_method_test_all_reference_package_return_def [abs_def] fwts_method_test_PLD_return_def [abs_def]
    method_test_power_resources_return_def [abs_def] method_test_PRR_return_def [abs_def]
    method_test_PIF_return_def [abs_def] method_test_DSD_return_def [abs_def] method_test_DOD_return_def [abs_def]
  by (rule total_package, auto)+

text \<open>Packages of integers and strings at given places.\<close>

lemma defined_int_at:
  assumes "of_types es types" and "object_ok (Package es)" and "i < length types" and "types ! i = 1"
    and "\<And>v. defined (k v)"
  shows "defined (int_at (Package es) i \<bind> k)"
  using integer_element [OF assms(1-4)] assms(5) by auto

lemma total_typed_package:
  assumes "\<And>name es. object_ok (Package es) \<Longrightarrow> of_types es types \<Longrightarrow> defined (k name (Package es))"
  shows "total_check (\<lambda>name buf. checked name buf ACPI_TYPE_PACKAGE (\<lambda>obj.
    on_ok (fwts_method_package_elements_type name obj types) (k name obj)))"
  using assms by (intro total_package defined_on_ok) (auto simp: elements_type_Nil)

lemma nth_numerals: "numeral n = Suc (pred_numeral n)"
  by (rule numeral_eq_Suc)

lemmas element_lists = bst_elements_def bif_elements_def bpc_elements_def bps_elements_def pmc_elements_def
  pif_elements_def bix_elements_def bix_elements_v1_def cst_elements_def trt_types_def

lemma total_typed:
  "total_check fwts_method_test_BST_return" "total_check fwts_method_test_BIF_return"
  "total_check fwts_method_test_BPC_return" "total_check fwts_method_test_BPS_return"
  "total_check method_test_PMC_return" "total_check method_test_UPC_return" "total_check method_test_CBR_return"
  unfolding fwts_method_test_BST_return_def [abs_def] fwts_method_test_BIF_return_def [abs_def]
    fwts_method_test_BPC_return_def [abs_def] fwts_method_test_BPS_return_def [abs_def]
    method_test_PMC_return_def [abs_def] method_test_UPC_return_def [abs_def] method_test_CBR_return_def [abs_def]
  by (rule total_typed_package, (rule defined_int_at, assumption, assumption, simp add: element_lists,
      simp add: element_lists nth_append)+, auto simp: Let_def split: prod.split)+

lemma all_packages:
  assumes "fwts_method_package_elements_all_type name (Package es) ACPI_TYPE_PACKAGE = Some []"
    and "object_ok (Package es)" and "e \<in> set es"
  shows "\<exists>es'. e = Package es' \<and> object_ok (Package es')"
proof -
  have "object_ok e" using assms(2,3) by (simp add: list_all_iff)
  moreover have "fwts_method_type_matches (object_type e) ACPI_TYPE_PACKAGE"
    using assms(1,3) unfolding elements_all_type_Nil list_all_iff by blast
  ultimately show ?thesis using matching_objects(4) by blast
qed

lemma all_integers:
  assumes "fwts_method_package_elements_all_type name (Package es) ACPI_TYPE_INTEGER = Some []"
    and "object_ok (Package es)" and "e \<in> set es"
  shows "\<exists>v. e = Integer v"
proof -
  have "object_ok e" using assms(2,3) by (simp add: list_all_iff)
  moreover have "fwts_method_type_matches (object_type e) ACPI_TYPE_INTEGER"
    using assms(1,3) unfolding elements_all_type_Nil list_all_iff by blast
  ultimately show ?thesis using matching_objects(1) by blast
qed

lemma total_subpackages:
  assumes "\<And>name es. object_ok (Package es) \<Longrightarrow> defined (sub name (Package es))"
  shows "total_check (\<lambda>name buf. subpackages name buf (sub name))"
  unfolding subpackages_def
proof (rule total_package, rule defined_on_ok)
  fix name es
  assume ok: "object_ok (Package es)"
    and all: "fwts_method_package_elements_all_type name (Package es) ACPI_TYPE_PACKAGE = Some []"
  have "defined (sub name e)" if e: "e \<in> set es" for e
  proof -
    obtain es' where "e = Package es'" and "object_ok (Package es')" using all_packages [OF all ok e] by (elim exE conjE)
    then show ?thesis using assms by (simp only:)
  qed
  then have "defined (sane_or (each (sub name) es))" by (intro defined_sane_or defined_each)
  then show "defined (elements (Package es) \<bind> (\<lambda>es. sane_or (each (sub name) es)))" by simp
qed simp

lemma element_types_defined:
  assumes "object_ok (Package es)" and "length es = length types"
  shows "defined (element_types name (Package es) types)"
  unfolding element_types_def using assms
  by (auto intro!: defined_each check_element_type_defined simp del: object_ok.simps simp: in_set_enumerate_eq)

lemma total_MLS: "total_check fwts_method_test_MLS_return"
proof -
  have eq: "fwts_method_test_MLS_return = (\<lambda>name buf. subpackages name buf (MLS_subpackage name))"
    by (simp add: fun_eq_iff fwts_method_test_MLS_return_def subpackages_def)
  show ?thesis unfolding eq by (rule total_subpackages) (simp add: MLS_subpackage_def type_at_Some)
qed

lemma total_DLM: "total_check method_test_DLM_return"
  unfolding method_test_DLM_return_def [abs_def]
proof (rule total_subpackages)
  fix name es
  assume ok: "object_ok (Package es)"
  show "defined (DLM_subpackage name (Package es))"
    unfolding DLM_subpackage_def subpackage_count_Nil
    by (rule defined_on_ok)
      (auto intro!: defined_both check_element_type_defined ok simp: subpackage_count_Nil type_at_Some simp del: object_ok.simps)
qed

lemma total_TRT: "total_check method_test_TRT_return"
  unfolding method_test_TRT_return_def [abs_def]
  by (rule total_subpackages, rule defined_on_ok)
    (auto intro!: element_types_defined simp: subpackage_count_Nil trt_types_def simp del: object_ok.simps)

lemma total_TSS: "total_check method_test_TSS_return"
proof -
  have "defined (TSS_subpackage name (Package es))" if "object_ok (Package es)" for name es
    unfolding TSS_subpackage_def
    by (rule defined_on_ok, simp, rule defined_int_at [OF _ that, of "replicate 5 1"]) (auto simp: elements_type_Nil)
  then show ?thesis unfolding method_test_TSS_return_def [abs_def]
    by (intro total_package defined_on_ok)
      (auto intro!: defined_sane_or defined_each dest!: all_packages simp del: object_ok.simps)
qed

lemma total_xSD: "total_check (method_test_xSD_return version objname)"
proof -
  have "defined (xSD_subpackage n objname name (Package es))" if "object_ok (Package es)" and "4 \<le> n" for n name es
    unfolding xSD_subpackage_def
    by (rule defined_on_ok, simp) (use that in \<open>auto intro!: defined_int_at [of _ "replicate n 1"] simp: elements_type_Nil Let_def simp del: object_ok.simps\<close>)
  then show ?thesis unfolding method_test_xSD_return_def [abs_def] Let_def
    by (intro total_package defined_on_ok)
      (auto intro!: defined_sane_or defined_each dest!: all_packages simp del: object_ok.simps)
qed

lemma defined_int_all:
  assumes "fwts_method_package_elements_all_type name (Package es) ACPI_TYPE_INTEGER = Some []"
    and "object_ok (Package es)" and "i < length es" and "\<And>v. defined (k v)"
  shows "defined (int_at (Package es) i \<bind> k)"
proof -
  obtain v where "es ! i = Integer v" using all_integers [OF assms(1,2) nth_mem [OF assms(3)]] by blast
  then show ?thesis using assms(3,4) by (simp add: int_at_def)
qed

lemma total_BMD: "total_check fwts_method_test_BMD_return"
  unfolding fwts_method_test_BMD_return_def [abs_def]
  by (rule total_package, (rule defined_on_ok, simp)+, (rule defined_int_all, assumption, assumption,
      simp add: subpackage_count_Nil)+, simp)

lemma total_PUR: "total_check method_test_PUR_return"
  unfolding method_test_PUR_return_def [abs_def]
  by (rule total_package, (rule defined_on_ok, simp)+,
      rule defined_int_at [of _ "[1, 1]"], simp only: elements_type_Nil, assumption, simp, simp, simp)

lemma total_PCS: "total_check method_test_PCS_return"
  unfolding method_test_PCS_return_def [abs_def]
  by (rule total_package, (rule defined_on_ok, simp)+,
      (rule defined_int_at [of _ "replicate 3 1"], simp only: elements_type_Nil, assumption, simp, simp)+, simp)

lemma total_package_integer: "total_check (fwts_method_test_package_integer_return n)"
proof -
  have "total_check (\<lambda>name buf. checked name buf ACPI_TYPE_PACKAGE (\<lambda>obj.
      on_ok (fwts_method_package_count_equal name obj n)
        (on_ok (fwts_method_package_elements_all_type name obj ACPI_TYPE_INTEGER) (Some [Passed]))))"
    by (rule total_package, (rule defined_on_ok, simp)+, simp)
  then show ?thesis by (auto simp: total_check_def fwts_method_test_package_integer_return_def)
qed

lemma bix_revision_defined: "object_ok (Package es) \<Longrightarrow> defined (bix_revision (Package es))"
  using object_type_integer [unfolded One_nat_def]
  by (cases es) (auto simp: bix_revision_def type_at_def int_at_def)

lemma BIX_fields_defined:
  assumes "of_types es (if r = 0 then bix_elements else bix_elements_v1)" and "object_ok (Package es)"
  shows "defined (BIX_fields r (Package es))"
proof -
  let ?types = "if r = 0 then bix_elements else bix_elements_v1"
  have "1 < length ?types" "?types ! 1 = 1" "4 < length ?types" "?types ! 4 = 1"
    and "r = 1 \<longrightarrow> 20 < length ?types \<and> ?types ! 20 = 1"
    by (simp_all add: element_lists nth_append)
  then obtain units tech where "int_at (Package es) 1 = Some units" "int_at (Package es) 4 = Some tech"
    and "r = 1 \<longrightarrow> (\<exists>v. int_at (Package es) 20 = Some v)"
    using integer_element [OF assms] by meson
  then show ?thesis by (auto simp: BIX_fields_def)
qed

lemma total_BIX: "total_check fwts_method_test_BIX_return"
  unfolding fwts_method_test_BIX_return_def [abs_def]
proof (rule total_package)
  fix name es
  assume ok: "object_ok (Package es)"
  then obtain r where r: "bix_revision (Package es) = Some r"
    using bix_revision_defined by (auto simp: defined_def simp del: object_ok.simps)
  show "defined (bix_revision (Package es) \<bind> (\<lambda>revision.
      if revision > 1 then Some [Failed LOG_LEVEL_CRITICAL ''Method_BIXRevision'']
      else on_ok (fwts_method_package_elements_type name (Package es) (if revision = 0 then bix_elements else bix_elements_v1))
        (sane_or_advice (BIX_fields revision (Package es)))))"
    by (rule defined_bind [OF r], rule defined_if, simp, rule defined_on_ok, simp)
      (simp add: elements_type_Nil BIX_fields_defined ok defined_sane_or(2) del: object_ok.simps)
qed

lemma PSS_loop_defined:
  assumes "\<And>e. e \<in> set ps \<Longrightarrow> \<exists>es. e = Package es \<and> object_ok (Package es)"
  shows "\<exists>rs mf v'. PSS_loop name ps max_freq v prev_power = Some (rs, mf, v')"
  using assms
proof (induction name ps max_freq v prev_power rule: PSS_loop.induct)
  case (2 name pstate ps max_freq v prev_power)
  obtain es where es: "pstate = Package es" "object_ok (Package es)"
    using "2.prems" by (metis list.set_intros(1))
  obtain rs where rs: "fwts_method_package_elements_type name pstate (replicate 6 1) = Some rs"
    using defined_package(5) [of name es "replicate 6 1"] es(1) by (auto simp: defined_def)
  show ?case
  proof (cases "rs = []")
    case True
    then have "of_types es (replicate 6 1)" using rs es by (simp only: elements_type_Nil)
    then obtain f p where "int_at pstate 0 = Some f" "int_at pstate 1 = Some p"
      using integer_element [OF _ es(2), of "replicate 6 1"] es(1) by force
    then show ?thesis using 2 rs True by (fastforce simp: Let_def)
  qed (use 2 rs in fastforce)
qed simp

lemma total_PSS: "total_check method_test_PSS_return"
  unfolding method_test_PSS_return_def [abs_def]
proof (rule total_package, (rule defined_on_ok, simp)+)
  fix name es
  assume "object_ok (Package es)" "fwts_method_package_elements_all_type name (Package es) 4 = Some []"
  then obtain rs mf v where "PSS_loop name es 0 False 0 = Some (rs, mf, v)"
    using PSS_loop_defined all_packages by meson
  then show "defined (elements (Package es) \<bind> (\<lambda>es. PSS_loop name es 0 False 0 \<bind> (\<lambda>(rs, max_freq, valid).
      Some (no_issues (rs @ (if valid \<and> max_freq < 1000 then [Failed LOG_LEVEL_LOW ''Method_PSSSubPackageLowFreq'', Advice] else []))))))"
    by simp
qed

lemma total_PRW: "total_check method_test_PRW_return"
  unfolding method_test_PRW_return_def [abs_def] Let_def
proof (rule total_package, rule defined_on_ok, simp)
  fix name es
  assume ok: "object_ok (Package es)" and "fwts_method_package_count_min name (Package es) 2 = Some []"
  then have len: "1 < length es" by (simp add: subpackage_count_Nil)
  have "object_ok (es ! 0)" using ok len by (cases es) simp_all
  then have "object_type (es ! 0) = 4 \<Longrightarrow> \<exists>rs. fwts_method_package_elements_type name (es ! 0) prw_elements = Some rs"
    using defined_package(5) by (auto simp: object_type_package defined_def)
  then show "defined (elements (Package es) \<bind> (\<lambda>es'. element_at (Package es) 0 \<bind> (\<lambda>e0. type_at (Package es) 1 \<bind> (\<lambda>t1.
      (if object_type e0 = 4 then fwts_method_package_elements_type name e0 prw_elements
       else Some (fail_if (object_type e0 \<noteq> 1) (Failed LOG_LEVEL_MEDIUM ''Method_PRWBadPackageReturnType''))) \<bind> (\<lambda>rs.
      Some (no_issues (rs @ fail_if (t1 \<noteq> 1) (Failed LOG_LEVEL_MEDIUM ''Method_PRWBadPackageReturnType'') @
        concat (map (\<lambda>e. fail_if (object_type e \<noteq> 20) (Failed LOG_LEVEL_MEDIUM ''Method_PRWBadPackageReturnType'')) (drop 2 (butlast es'))))))))))"
    using len by (auto simp: type_at_Some nth_of_def)
qed

lemma integer_at:
  "object_ok (Package es) \<Longrightarrow> type_at (Package es) i = Some 1 \<Longrightarrow> \<exists>v. int_at (Package es) i = Some v"
  by (auto simp: type_at_def int_at_def nth_of_def list_all_length object_type_integer [unfolded One_nat_def] split: if_splits)

lemma total_Sx: "total_check method_test_Sx__return"
  unfolding method_test_Sx__return_def [abs_def] Let_def
proof (rule total_package, rule defined_on_ok, simp)
  fix name es
  assume ok: "object_ok (Package es)" and "fwts_method_package_count_min name (Package es) 1 = Some []"
  then have len: "0 < length es" by (cases es) (simp_all add: subpackage_count_Nil)
  let ?bad = "Failed LOG_LEVEL_MEDIUM ''Method_SxElementValue''"
  show "defined (elements (Package es) \<bind> (\<lambda>es'.
      if length es' = 1 then Some [Failed LOG_LEVEL_MEDIUM ''Method_SxElementCount'']
      else type_at (Package es) 0 \<bind> (\<lambda>t0. type_at (Package es) 1 \<bind> (\<lambda>t1.
        if t0 \<noteq> 1 \<or> t1 \<noteq> 1 then Some [Failed LOG_LEVEL_MEDIUM ''Method_SxElementType'']
        else int_at (Package es) 0 \<bind> (\<lambda>v0. int_at (Package es) 1 \<bind> (\<lambda>v1.
          Some (no_issues (fail_if (v0 AND 0xffffff00 \<noteq> 0) ?bad @ fail_if (v1 AND 0xffffff00 \<noteq> 0) ?bad)))))))) "
  proof (cases "length es = 1")
    case False
    then have "1 < length es" using len by linarith
    then show ?thesis using len integer_at [OF ok, of 0] integer_at [OF ok, of 1] by (auto simp: type_at_Some)
  qed simp
qed

lemma total_LPI: "total_check method_test_LPI_return"
  unfolding method_test_LPI_return_def [abs_def] by (rule total_package, rule defined_on_ok) (auto simp: Let_def)

lemma total_FIX: "total_check method_test_FIX_return"
  unfolding method_test_FIX_return_def [abs_def]
  by (rule total_package, rule defined_on_ok, simp)
    (auto intro!: defined_sane_or defined_each dest!: all_integers [unfolded One_nat_def] simp del: object_ok.simps)

lemma int_values_defined: "(\<And>e. e \<in> set es \<Longrightarrow> \<exists>v. e = Integer v) \<Longrightarrow> \<exists>vs. int_values es = Some vs \<and> length vs = length es"
  by (induction es) force+

lemma total_BCL: "total_check (method_test_BCL_return backlight)"
  unfolding method_test_BCL_return_def [abs_def]
proof (rule total_package, (rule defined_on_ok, simp)+)
  fix name es
  assume "object_ok (Package es)" "fwts_method_package_elements_all_type name (Package es) 1 = Some []"
  then obtain vs where "int_values es = Some vs" using int_values_defined [of es] all_integers by meson
  then show "defined (elements (Package es) \<bind> (\<lambda>es. int_values es \<bind> (\<lambda>vs. sane_or_advice (Some (BCL_reports backlight vs)))))"
    by (simp add: sane_or_advice_def)
qed

lemma total_PCT_PTC: "total_check (method_test_PCT_PTC_return env objname)"
  unfolding method_test_PCT_PTC_return_def [abs_def]
proof (rule total_typed_package)
  fix name es
  assume ok: "object_ok (Package es)" and "of_types es [ACPI_TYPE_BUFFER, ACPI_TYPE_BUFFER]"
  then have "\<exists>b. e = Buffer b" if "e \<in> set es" for e
    using that matching_objects(3) by (auto simp: of_types_def list_all2_Cons2)
  then have "defined (PCT_PTC_element env objname e)" if "e \<in> set es" for e
    using that by (force simp: PCT_PTC_element_def buffer_resources_def)
  then have "defined (sane_or (each (PCT_PTC_element env objname) es))" by (intro defined_sane_or defined_each)
  then show "defined (elements (Package es) \<bind> (\<lambda>es. sane_or (each (PCT_PTC_element env objname) es)))" by simp
qed

text \<open>All of them. The parameters of the checks that have some are arbitrary.\<close>

definition shared_checks :: "'s method_env \<Rightarrow> cstr \<Rightarrow> nat \<Rightarrow> u64 \<Rightarrow> u32 \<Rightarrow> (cstr \<Rightarrow> ACPI_BUFFER \<Rightarrow> outcome) list" where
  "shared_checks env objname n v arg = [
     fwts_method_test_integer_return, fwts_method_test_string_return, fwts_method_test_reference_return,
     fwts_method_test_NULL_return (env_slack env), fwts_method_test_buffer_return,
     fwts_method_test_all_reference_package_return, fwts_method_test_integer_reserved_bits_return v,
     fwts_method_test_integer_max_return v, fwts_method_test_passed_failed_return,
     fwts_method_test_polling_return, fwts_method_test_package_integer_return n, fwts_method_test_HID_return, fwts_method_test_SUB_return,
     fwts_method_test_UID_return, fwts_method_test_MLS_return, fwts_method_test_PLD_return,
     fwts_method_test_STA_return, fwts_method_test_BIF_return, fwts_method_test_BIX_return,
     fwts_method_test_BPC_return, fwts_method_test_BPS_return, method_test_DLM_return,
     method_test_FIX_return, method_test_DSD_return, method_test_PRW_return,
     method_test_power_resources_return, method_test_PRR_return, method_test_Sx__return,
     method_test_xSD_return n objname, method_test_PCT_PTC_return env objname, method_test_PSS_return,
     method_test_TSS_return, method_test_LPI_return, method_test_PUR_return, method_test_GTF_return,
     method_test_GTM_return, method_test_UPC_return, method_test_GRT_return, method_test_CWS_return,
     method_test_SBS_return, method_test_PIF_return, method_test_PCS_return, method_test_PST_return,
     method_test_PMC_return, method_test_WPC_return, method_test_MTL_return, method_test_TRT_return,
     method_test_DOD_return, method_test_BCL_return (env_backlight env), method_test_DDC_return arg]"

text \<open>Those that are defined but may pass what they report, or report nothing.\<close>

definition lenient_checks :: "(cstr \<Rightarrow> ACPI_BUFFER \<Rightarrow> outcome) list" where
  "lenient_checks = [fwts_method_test_CID_return, fwts_method_test_BMD_return, fwts_method_test_BST_return, method_test_CBR_return]"

lemmas total_checks = total_integers total_buffers total_any total_CID total_packages total_typed total_MLS total_DLM
  total_TRT total_TSS total_xSD total_BMD total_PUR total_PCS total_package_integer total_BIX total_PSS total_PRW
  total_Sx total_LPI total_FIX total_BCL total_PCT_PTC

lemma checks_total: "list_all total_check (shared_checks env objname n v arg @ lenient_checks)"
  by (simp add: shared_checks_def lenient_checks_def total_checks)

end
