(* ===== verification/Fwts_Judged.thy ===== *)
theory Fwts_Judged
  imports Fwts_Verdicts
begin

text \<open>
  The verdict of a check: when it returns, it has either passed the object with one report
  or reported failures and not passed it.
\<close>

section \<open>One verdict\<close>

definition verdict :: "report list \<Rightarrow> bool" where
  "verdict rs \<longleftrightarrow> rs = [Passed] \<or> Passed \<notin> set rs \<and> list_ex is_failed rs"

definition failures :: "report list \<Rightarrow> bool" where
  "failures rs \<longleftrightarrow> rs = [] \<or> Passed \<notin> set rs \<and> list_ex is_failed rs"

definition judged :: "outcome \<Rightarrow> bool" where
  "judged c \<longleftrightarrow> (\<forall>rs. c = Some rs \<longrightarrow> verdict rs)"

definition failing :: "outcome \<Rightarrow> bool" where
  "failing c \<longleftrightarrow> (\<forall>rs. c = Some rs \<longrightarrow> failures rs)"

text \<open>The path of an object has at least the four characters of its name.\<close>

definition judged_check :: "(cstr \<Rightarrow> ACPI_BUFFER \<Rightarrow> outcome) \<Rightarrow> bool" where
  "judged_check c \<longleftrightarrow> (\<forall>name buf. 4 \<le> length name \<longrightarrow> judged (c name buf))"

lemma judged_None [simp]: "judged None" "failing None"
  by (simp_all add: judged_def failing_def)

lemma judged_Some [simp]: "judged (Some rs) \<longleftrightarrow> verdict rs"
  by (simp add: judged_def)

lemma failing_Some [simp]: "failing (Some rs) \<longleftrightarrow> failures rs"
  by (simp add: failing_def)

lemma verdict_simps [simp]: "verdict [Passed]" "verdict (Failed l t # rs) \<longleftrightarrow> Passed \<notin> set rs"
  by (auto simp: verdict_def)

lemma verdict_pass_or [simp]: "verdict (pass_or ok (Failed l t))"
  by (simp add: pass_or_def)

lemma verdict_no_issues [simp]: "failures rs \<Longrightarrow> verdict (no_issues rs)"
  by (auto simp: failures_def no_issues_def verdict_def)

lemma failures_simps [simp]: "failures []" "failures (Failed l t # rs) \<longleftrightarrow> Passed \<notin> set rs" "failures (fail_if bad (Failed l t))"
  by (auto simp: failures_def fail_if_def)

lemma failures_append [simp]: "failures rs \<Longrightarrow> failures rs' \<Longrightarrow> failures (rs @ rs')"
  by (auto simp: failures_def)

lemma failures_concat [simp]: "(\<And>x. x \<in> set xs \<Longrightarrow> failures (f x)) \<Longrightarrow> failures (concat (map f xs))"
  by (induction xs) auto

lemma failures_reserved [simp]: "failures (fwts_acpi_reserved_bits table field v lo hi)"
  by (simp add: fwts_acpi_reserved_bits_def)

lemma failures_element_types [simp]: "failures (element_type_reports name ets)"
  by (auto simp: element_type_reports_def split: prod.split)

lemma judged_bind: "(\<And>x. judged (k x)) \<Longrightarrow> judged (m \<bind> k)"
  by (cases m) (auto simp: judged_def)

lemma failing_bind: "(\<And>x. failing (k x)) \<Longrightarrow> failing (m \<bind> k)"
  by (cases m) (auto simp: failing_def)

lemma judged_on_ok: "failing c \<Longrightarrow> judged k \<Longrightarrow> judged (on_ok c k)"
  by (cases c) (auto simp: failing_def judged_def on_ok_def failures_def verdict_def)

lemma failing_on_ok: "failing c \<Longrightarrow> failing k \<Longrightarrow> failing (on_ok c k)"
  by (cases c) (auto simp: failing_def on_ok_def)

lemma failing_both: "failing c \<Longrightarrow> failing d \<Longrightarrow> failing (both c d)"
  by (cases c; cases d) auto

lemma failing_each: "(\<And>x. x \<in> set xs \<Longrightarrow> failing (f x)) \<Longrightarrow> failing (each f xs)"
  by (induction xs) (auto intro: failing_both)

lemma verdict_advice [simp]: "failures rs \<Longrightarrow> verdict (if rs = [] then [Passed] else rs @ [Advice])"
  by (cases "rs = []") (simp_all add: failures_def verdict_def)

lemma judged_sane_or: "failing c \<Longrightarrow> judged (sane_or c)"
  unfolding sane_or_def judged_def failing_def by (cases c) simp_all

lemma judged_sane_or_advice: "failing c \<Longrightarrow> judged (sane_or_advice c)"
  unfolding sane_or_advice_def judged_def failing_def by (cases c) simp_all

lemma judged_checked: "(\<And>obj. judged (k obj)) \<Longrightarrow> judged (checked name buf type k)"
  unfolding checked_def
  by (rule judged_on_ok, cases buf)
    (auto simp: fwts_method_check_type_def fwts_method_failed_null_object_def intro: judged_bind)

lemma failing_count:
  "failing (fwts_method_package_count_min name obj n)" "failing (fwts_method_package_count_equal name obj n)"
  "failing (fwts_method_subpackage_count_equal name obj n)" "failing (fwts_method_buffer_size name obj sz)"
  unfolding fwts_method_package_count_min_def fwts_method_package_count_equal_def
    fwts_method_subpackage_count_equal_def fwts_method_buffer_size_def
  by (rule failing_bind, simp add: failing_def)+

lemma failing_element_type: "t \<le> 27 \<Longrightarrow> failing (fwts_method_check_element_type name obj i t)"
  unfolding fwts_method_check_element_type_def by (rule failing_bind) (auto simp: failing_def)

lemma test_revision_reports:
  "4 \<le> length name \<Longrightarrow> fwts_method_test_revision name a b = (if a \<noteq> b
     then ([Failed LOG_LEVEL_MEDIUM (''Method'' @ drop (length name - 4) name @ ''BadRevision'')], False) else ([], True))"
  by (simp add: fwts_method_test_revision_def)

lemma judged_if: "judged a \<Longrightarrow> judged b \<Longrightarrow> judged (if p then a else b)"
  by simp

lemma failing_if: "failing a \<Longrightarrow> failing b \<Longrightarrow> failing (if p then a else b)"
  by simp

lemma failing_types:
  "failing (fwts_method_package_elements_all_type name obj t)" "failing (fwts_method_package_elements_type name obj types)"
  unfolding fwts_method_package_elements_all_type_def fwts_method_package_elements_type_def
  by (rule failing_bind failing_on_ok failing_count | simp)+

lemma failures_conditional [simp]:
  "failures (if p then [Failed l t] else [])" "failures (if p then [Failed l t, Advice] else [])"
  by simp_all

lemmas judging = judged_checked judged_on_ok judged_sane_or judged_sane_or_advice judged_bind judged_if
  failing_on_ok failing_both failing_each failing_bind failing_if failing_count failing_types

lemma judged_integers:
  "judged_check fwts_method_test_integer_return" "judged_check fwts_method_test_string_return"
  "judged_check fwts_method_test_reference_return" "judged_check (fwts_method_test_integer_reserved_bits_return v)"
  "judged_check (fwts_method_test_integer_max_return v)" "judged_check fwts_method_test_passed_failed_return"
  "judged_check fwts_method_test_polling_return" "judged_check fwts_method_test_STA_return"
  "judged_check method_test_CWS_return" "judged_check method_test_SBS_return" "judged_check method_test_PST_return"
  "judged_check method_test_WPC_return" "judged_check method_test_MTL_return"
  unfolding judged_check_def returns_defs Let_def by (intro allI impI, (rule judging | simp)+)+

lemma judged_any:
  "judged_check (fwts_method_test_NULL_return slack)" "judged_check fwts_method_test_HID_return"
  "judged_check fwts_method_test_SUB_return" "judged_check fwts_method_test_UID_return"
  "judged_check (method_test_DDC_return arg)"
  unfolding judged_check_def returns_defs fwts_method_failed_null_object_def id_string_report_def id_integer_report_def
  by (simp_all split: option.splits ACPI_OBJECT.splits)

lemma judged_packages:
  "judged_check fwts_method_test_buffer_return" "judged_check fwts_method_test_all_reference_package_return"
  "judged_check (fwts_method_test_package_integer_return n)" "judged_check fwts_method_test_PLD_return"
  "judged_check fwts_method_test_BIF_return" "judged_check fwts_method_test_BIX_return"
  "judged_check method_test_power_resources_return" "judged_check method_test_PRR_return"
  "judged_check method_test_PUR_return" "judged_check method_test_GTF_return" "judged_check method_test_GTM_return"
  "judged_check method_test_UPC_return" "judged_check method_test_GRT_return" "judged_check method_test_PIF_return"
  "judged_check method_test_PCS_return" "judged_check method_test_PMC_return" "judged_check method_test_DOD_return"
  "judged_check method_test_Sx__return" "judged_check method_test_FIX_return"
  unfolding judged_check_def returns_defs Let_def BIX_fields_def by (intro allI impI, (rule judging | simp)+)+

lemma failing_element_types: "list_all (\<lambda>t. t \<le> 27) types \<Longrightarrow> failing (element_types name obj types)"
  unfolding element_types_def
  by (rule failing_each) (auto simp: list_all_length in_set_enumerate_eq intro!: failing_element_type)

lemma trt_in_range: "list_all (\<lambda>t. t \<le> 27) trt_types"
  by code_simp

lemma judged_subpackages:
  "judged_check fwts_method_test_MLS_return" "judged_check method_test_DLM_return" "judged_check method_test_TRT_return"
  "judged_check method_test_TSS_return"
  unfolding judged_check_def returns_defs Let_def subpackages_def TSS_subpackage_def
  by (intro allI impI, (rule judging | simp add: failing_element_type failing_element_types trt_in_range)+)+

lemma failing_xSD: "failing (xSD_subpackage n objname name pkg)"
  unfolding xSD_subpackage_def Let_def by (rule judging | simp)+

lemma judged_xSD: "judged_check (method_test_xSD_return n objname)"
  unfolding judged_check_def method_test_xSD_return_def Let_def
  by (intro allI impI) (rule judging failing_xSD)+

text \<open>A bad revision is the only report on one, and it is one when the revision is bad.\<close>

lemma revision_verdict:
  assumes "4 \<le> length name" and "failures rs'"
  shows "case fwts_method_test_revision name a b of (rs, ok) \<Rightarrow> verdict (rs @ rs' @ (if ok \<and> rs' = [] then [Passed] else [Advice]))"
proof (cases "a = b")
  case True
  then show ?thesis using assms by (cases "rs' = []") (simp_all add: test_revision_reports failures_def verdict_def)
next
  case False
  then show ?thesis using assms by (cases "rs' = []") (simp_all add: test_revision_reports failures_def)
qed

lemma judged_BPC: "judged_check fwts_method_test_BPC_return"
  unfolding judged_check_def fwts_method_test_BPC_return_def
proof (intro allI impI)
  fix name :: cstr and buf
  assume "4 \<le> length name"
  then have "judged (let (rs, ok) = fwts_method_test_revision name a b; rs' = fwts_acpi_reserved_bits t l v 2 31
      in Some (rs @ rs' @ (if ok \<and> rs' = [] then [Passed] else [Advice])))" for a b t l v
    using revision_verdict [of name "fwts_acpi_reserved_bits t l v 2 31" a b] by (simp add: case_prod_unfold Let_def)
  then show "judged (checked name buf 4 (\<lambda>obj. on_ok (fwts_method_package_elements_type name obj bpc_elements)
      (int_at obj 0 \<bind> (\<lambda>revision. int_at obj 1 \<bind> (\<lambda>support.
        let (rs, ok) = fwts_method_test_revision name (ucast revision) 1;
            rs' = fwts_acpi_reserved_bits ''_BPC'' ''Power Threshold Support Capability'' support 2 31
        in Some (rs @ rs' @ (if ok \<and> rs' = [] then [Passed] else [Advice])))))))"
    by (intro judged_checked judged_on_ok judged_bind failing_types)
qed

lemma judged_BPS: "judged_check fwts_method_test_BPS_return"
  unfolding judged_check_def fwts_method_test_BPS_return_def
proof (intro allI impI)
  fix name :: cstr and buf
  assume "4 \<le> length name"
  then have "judged (let (rs, ok) = fwts_method_test_revision name a b in Some (rs @ (if ok then [Passed] else [Advice])))" for a b
    using revision_verdict [of name "[]" a b] by (simp add: case_prod_unfold Let_def)
  then show "judged (checked name buf 4 (\<lambda>obj. on_ok (fwts_method_package_elements_type name obj bps_elements)
      (int_at obj 0 \<bind> (\<lambda>revision.
        let (rs, ok) = fwts_method_test_revision name (ucast revision) 1
        in Some (rs @ (if ok then [Passed] else [Advice]))))))"
    by (intro judged_checked judged_on_ok judged_bind failing_types)
qed

lemma failures_DSD: "failures (DSD_pairs es)"
  by (induction es rule: DSD_pairs.induct) simp_all

lemma judged_DSD: "judged_check method_test_DSD_return"
  unfolding judged_check_def method_test_DSD_return_def
  by (intro allI impI, (rule judging | simp add: failures_DSD)+)

lemma judged_PRW: "judged_check method_test_PRW_return"
proof -
  have sub: "failing (if t = ACPI_TYPE_PACKAGE then fwts_method_package_elements_type name e prw_elements
      else Some (fail_if (t \<noteq> ACPI_TYPE_INTEGER) (Failed l s)))" for t name e l s
    by (simp add: failing_types)
  have "judged (c \<bind> (\<lambda>rs. Some (no_issues (rs @ fail_if p (Failed l s) @ concat (map (\<lambda>e. fail_if (f e) (Failed l s)) xs)))))"
    if "failing c" for c p l s xs and f :: "ACPI_OBJECT \<Rightarrow> bool"
    using that by (cases c) simp_all
  note step = this [OF sub]
  show ?thesis
    unfolding judged_check_def method_test_PRW_return_def Let_def
    by (intro allI impI judged_checked judged_on_ok failing_count) (rule step | rule judged_bind)+
qed

lemma judged_PCT_PTC: "judged_check (method_test_PCT_PTC_return env objname)"
proof -
  have "failing (PCT_PTC_element env objname e)" for e
    unfolding PCT_PTC_element_def by (rule failing_bind) (simp split: option.split list.split)
  then show ?thesis
    unfolding judged_check_def method_test_PCT_PTC_return_def
    by (intro allI impI judged_checked judged_on_ok judged_bind judged_sane_or failing_each failing_types)
qed

lemma failures_PSS: "PSS_loop name ps mf v pp = Some (rs, mf', v') \<Longrightarrow> failures rs"
proof (induction name ps mf v pp arbitrary: rs rule: PSS_loop.induct)
  case (2 name p ps mf v pp)
  obtain ts where ts: "fwts_method_package_elements_type name p (replicate 6 ACPI_TYPE_INTEGER) = Some ts"
    using "2.prems" by (auto simp: bind_eq_Some_conv)
  then have fail: "failures ts" using failing_types(2) by (metis failing_Some)
  show ?case
  proof (cases "ts = []")
    case False
    then obtain rs' where "PSS_loop name ps mf v pp = Some (rs', mf', v')" "rs = ts @ rs'"
      using "2.prems" ts by (auto simp: bind_eq_Some_conv)
    with "2.IH"(1) [OF ts False] fail show ?thesis by simp
  next
    case True
    with "2.prems" "2.IH"(2) [OF ts] ts show ?thesis
      by (auto simp: Let_def bind_eq_Some_conv)
  qed
qed simp

lemma judged_PSS: "judged_check method_test_PSS_return"
proof -
  have loop: "judged (PSS_loop name es 0 False 0 \<bind> (\<lambda>(rs, max_freq, valid). Some (no_issues (rs @
      (if valid \<and> max_freq < 1000 then [Failed LOG_LEVEL_LOW s, Advice] else [])))))" for name es s
    by (cases "PSS_loop name es 0 False 0") (auto dest: failures_PSS)
  show ?thesis
    unfolding judged_check_def method_test_PSS_return_def
    by (intro allI impI judged_checked judged_on_ok failing_count failing_types) (rule judged_bind, rule loop)
qed

lemma failures_BCL: "failures (BCL_reports backlight vs)"
  unfolding BCL_reports_def Let_def by simp

lemma judged_BCL: "judged_check (method_test_BCL_return backlight)"
  unfolding judged_check_def method_test_BCL_return_def
  by (intro allI impI, (rule judging | simp add: failures_BCL)+)

lemma failures_LPI_state: "failures (LPI_state_element je)"
  unfolding LPI_state_element_def by (simp add: Let_def split: prod.split)

lemma LPI_element_reports:
  assumes "4 \<le> length name"
  shows "failures (fst (LPI_element name n ie))" and "snd (LPI_element name n ie) \<longleftrightarrow> fst (LPI_element name n ie) \<noteq> []"
  using assms unfolding LPI_element_def
  by (simp_all add: test_revision_reports failures_LPI_state Let_def split: prod.split ACPI_OBJECT.split)

lemma judged_LPI: "judged_check method_test_LPI_return"
proof -
  have "verdict (concat (map fst (map (LPI_element name n) ies)) @
      (if list_ex snd (map (LPI_element name n) ies) then [] else [Passed]))" if "4 \<le> length name" for name n ies
  proof (cases "list_ex snd (map (LPI_element name n) ies)")
    case True
    then have "concat (map fst (map (LPI_element name n) ies)) \<noteq> []"
      using LPI_element_reports(2) [OF that] by (auto simp: list_ex_iff)
    moreover have "failures (concat (map (\<lambda>ie. fst (LPI_element name n ie)) ies))"
      using LPI_element_reports(1) [OF that] by simp
    ultimately show ?thesis using True by (auto simp: failures_def verdict_def comp_def)
  next
    case False
    then have "fst (LPI_element name n ie) = []" if "ie \<in> set ies" for ie
      using that LPI_element_reports(2) [OF \<open>4 \<le> length name\<close>] by (auto simp: list_ex_iff)
    then have "concat (map fst (map (LPI_element name n) ies)) = []" by simp
    then show ?thesis using False by (simp only: append_Nil if_False verdict_simps)
  qed
  then show ?thesis
    unfolding judged_check_def method_test_LPI_return_def Let_def
    by (intro allI impI judged_checked judged_on_ok judged_bind failing_count) simp
qed

lemmas judged_checks = judged_integers judged_any judged_packages judged_subpackages judged_xSD judged_BPC judged_BPS
  judged_DSD judged_PRW judged_PCT_PTC judged_PSS judged_BCL judged_LPI

lemma checks_judged: "list_all judged_check (shared_checks env objname n v arg)"
  by (simp add: shared_checks_def judged_checks)

end
