(* ===== verification/Fwts_Namespace.thy ===== *)
theory Fwts_Namespace
  imports Fwts_Judged
begin

text \<open>
  The objects of a name and their evaluation: which objects of the namespace a test evaluates, in
  which order, and what is reported of the ones that are missing.
\<close>

definition is_target :: "'s method_env \<Rightarrow> cstr \<Rightarrow> cstr \<Rightarrow> bool" where
  "is_target env name path \<longleftrightarrow> name_matches name path = Some True \<and>
     AcpiGetHandle env [] path = AE_OK \<and> AcpiGetType env path \<notin> {None, Some ACPI_TYPE_LOCAL_SCOPE}"

definition targets :: "'s method_env \<Rightarrow> cstr \<Rightarrow> cstr list \<Rightarrow> cstr list" where
  "targets env name paths = filter (is_target env name) paths"

text \<open>An interpreter that keeps the paths of the objects it has evaluated, with the arguments.\<close>

definition recording :: "(cstr \<times> ACPI_OBJECT list) list method_env \<Rightarrow> bool" where
  "recording env \<longleftrightarrow> (\<forall>parent name args s. ev_next (AcpiEvaluateObject env parent name args s) = s @ [(name, args)])"

text \<open>An interpreter returns objects of ACPI types.\<close>

definition sound_env :: "'s method_env \<Rightarrow> bool" where
  "sound_env env \<longleftrightarrow> (\<forall>parent name args s. returned (ev_result (AcpiEvaluateObject env parent name args s)))"

lemma interpreter_evaluate:
  "recording env \<Longrightarrow> evaluate_object env parent name args st = (status, buf, st') \<Longrightarrow>
     interpreter st' = interpreter st @ [(name, args)]"
  by (auto simp: recording_def evaluate_object_def Let_def)

lemma returned_evaluate:
  "sound_env env \<Longrightarrow> evaluate_object env parent name args st = (status, buf, st') \<Longrightarrow> returned buf"
  by (auto simp: sound_env_def evaluate_object_def Let_def)

lemma interpreter_sem_clear [simp]: "interpreter (fwts_acpica_sem_count_clear st) = interpreter st"
  by (simp add: fwts_acpica_sem_count_clear_def)

definition sound_check :: "'s check \<Rightarrow> bool" where
  "sound_check c \<longleftrightarrow> (\<forall>name buf st. returned buf \<longrightarrow> c name buf st \<noteq> None)"

lemma sound_pure [intro]: "total_check c \<Longrightarrow> sound_check (pure_check c)"
  by (auto simp: total_check_def sound_check_def pure_check_def simp del: not_None_eq)

lemma found_method_defined:
  assumes "sound_env env" and "sound_check c"
  shows "method_evaluate_found_method env name c args st \<noteq> None"
proof -
  obtain status buf st1 where ev: "evaluate_object env [] name args (fwts_acpica_sem_count_clear st) = (status, buf, st1)"
    by (metis prod_cases3)
  then have "c name buf st1 \<noteq> None" using assms returned_evaluate unfolding sound_check_def by blast
  then show ?thesis
    by (auto simp: method_evaluate_found_method_def ev)
qed

lemma found_method_interpreter:
  assumes "recording env" and "method_evaluate_found_method env name (pure_check c) args st = Some (rs, st')"
  shows "interpreter st' = interpreter st @ [(name, args)]"
proof -
  obtain status buf st1 where ev: "evaluate_object env [] name args (fwts_acpica_sem_count_clear st) = (status, buf, st1)"
    by (metis prod_cases3)
  then have "interpreter st1 = interpreter st @ [(name, args)]" using interpreter_evaluate [OF assms(1)] by fastforce
  then show ?thesis
    using assms(2) by (auto simp: method_evaluate_found_method_def ev pure_check_def bind_eq_Some_conv split: if_splits)
qed

text \<open>The loop over the names evaluates the objects of the name in order and finds one if there is one.\<close>

lemma name_matches_long: "length name \<le> length path \<Longrightarrow> \<exists>m. name_matches name path = Some m"
  by (simp add: name_matches_def)

lemma evaluate_paths_targets:
  assumes "recording env" and "sound_env env" and "total_check c"
    and "list_all (\<lambda>path. length name \<le> length path) paths"
  shows "\<exists>rs st'. evaluate_paths env name (pure_check c) args paths st = Some (rs, targets env name paths \<noteq> [], st') \<and>
    interpreter st' = interpreter st @ map (\<lambda>path. (path, args)) (targets env name paths)"
  using assms(4)
proof (induction paths arbitrary: st)
  case Nil
  then show ?case by (simp add: targets_def)
next
  case (Cons path paths)
  then obtain m where m: "name_matches name path = Some m" using name_matches_long by fastforce
  have IH: "\<exists>rs st'. evaluate_paths env name (pure_check c) args paths st = Some (rs, targets env name paths \<noteq> [], st') \<and>
      interpreter st' = interpreter st @ map (\<lambda>path. (path, args)) (targets env name paths)" for st
    using Cons by simp
  show ?case
  proof (cases "is_target env name path")
    case True
    obtain rs st1 where ev: "method_evaluate_found_method env path (pure_check c) args st = Some (rs, st1)"
      using found_method_defined [OF assms(2) sound_pure [OF assms(3)]] by fastforce
    have "evaluate_paths env name (pure_check c) args (path # paths) st = map_option
        (\<lambda>(rs', found, st'). (rs @ rs', True, st')) (evaluate_paths env name (pure_check c) args paths st1)"
      using True ev by (cases "evaluate_paths env name (pure_check c) args paths st1") (auto simp: is_target_def ACPI_FAILURE_def)
    with True IH [of st1] found_method_interpreter [OF assms(1) ev] show ?thesis by (auto simp: targets_def)
  next
    case False
    have "evaluate_paths env name (pure_check c) args (path # paths) st = map_option
        (\<lambda>(rs, found, st'). ((if m \<and> (ACPI_FAILURE (AcpiGetHandle env [] path) \<or> AcpiGetType env path = None)
           then [Warning] else []) @ rs, found, st'))
        (evaluate_paths env name (pure_check c) args paths st)"
      using False m by (cases "evaluate_paths env name (pure_check c) args paths st")
        (auto simp: is_target_def ACPI_FAILURE_def split: option.splits)
    with False IH [of st] show ?thesis by (auto simp: targets_def)
  qed
qed

lemma method_evaluates_targets:
  assumes "recording env" and "sound_env env" and "total_check c"
    and "object_names env = Some paths" and "list_all (\<lambda>path. length name \<le> length path) paths"
  shows "\<exists>rs st'. method_evaluate_method env type name args (pure_check c) st =
      Some (rs, if targets env name paths = [] then FWTS_NOT_EXIST else FWTS_OK, st') \<and>
    interpreter st' = interpreter st @ map (\<lambda>path. (path, args)) (targets env name paths)"
  using evaluate_paths_targets [OF assms(1-3,5), of args st] assms(4)
  by (auto simp: method_evaluate_method_def)

text \<open>Where no object has the name, nothing is evaluated, and that is reported unless the test is silent.\<close>

lemma no_match:
  "list_all (\<lambda>path. name_matches name path = Some False) paths \<Longrightarrow>
     evaluate_paths env name check args paths st = Some ([], False, st)"
  by (induction paths arbitrary: st) simp_all

lemma missing_reported:
  assumes "object_names env = Some paths" and "list_all (\<lambda>path. name_matches name path = Some False) paths"
  shows "method_evaluate_method env type name args check st = Some (
     (if type AND METHOD_SILENT \<noteq> 0 then []
      else if type AND METHOD_MANDATORY \<noteq> 0 then [Failed LOG_LEVEL_MEDIUM ''MethodNotExist'', Skipped] else [Skipped]),
     FWTS_NOT_EXIST, st)"
  using assms(1) by (simp add: method_evaluate_method_def no_match [OF assms(2)])

section \<open>Tests that are defined\<close>

text \<open>
  The paths of the objects have at least four characters, those of a name; all names the tests ask
  for have four characters.
\<close>

definition named_objects :: "'s method_env \<Rightarrow> bool" where
  "named_objects env \<longleftrightarrow> (\<forall>paths. object_names env = Some paths \<longrightarrow> list_all (\<lambda>path. 4 \<le> length path) paths)"

definition sound_test :: "'s method_test \<Rightarrow> bool" where
  "sound_test t \<longleftrightarrow> (\<forall>st. t st \<noteq> None)"

lemma sound_evaluate_paths:
  assumes "sound_env env" and "sound_check c" and "length name \<le> 4"
  shows "list_all (\<lambda>path. 4 \<le> length path) paths \<Longrightarrow> evaluate_paths env name c args paths st \<noteq> None"
proof (induction paths arbitrary: st)
  case (Cons path paths)
  then obtain m where "name_matches name path = Some m" using name_matches_long [of name path] assms(3) by fastforce
  moreover obtain rs st1 where "method_evaluate_found_method env path c args st = Some (rs, st1)"
    using found_method_defined [OF assms(1,2)] by fastforce
  moreover have "evaluate_paths env name c args paths st' \<noteq> None" for st' using Cons by simp
  ultimately show ?case by (auto simp: bind_eq_None_conv simp del: not_None_eq split: option.splits prod.splits if_splits)
qed simp

lemma sound_evaluate:
  assumes "sound_env env" and "named_objects env" and "sound_check c" and "length name \<le> 4"
  shows "sound_test (method_evaluate_method env type name args c)"
  unfolding sound_test_def
proof
  fix st
  show "method_evaluate_method env type name args c st \<noteq> None"
    using sound_evaluate_paths [OF assms(1,3,4)] assms(2)
    by (auto simp: method_evaluate_method_def named_objects_def bind_eq_None_conv simp del: not_None_eq split: option.splits prod.splits if_splits)
qed

lemma sound_first_named:
  "list_all (\<lambda>path. 4 \<le> length path) paths \<Longrightarrow> length name \<le> 4 \<Longrightarrow> first_named name paths \<noteq> None"
proof (induction paths)
  case (Cons path paths)
  then show ?case using name_matches_long [of name path] by fastforce
qed simp

lemma sound_exists: "named_objects env \<Longrightarrow> length name \<le> 4 \<Longrightarrow> fwts_acpi_object_exists env name \<noteq> None"
  using sound_first_named by (auto simp: fwts_acpi_object_exists_def named_objects_def simp del: not_None_eq split: option.split)

lemma sound_until: "list_all sound_test ts \<Longrightarrow> sound_test (evaluate_until stop ts ret)"
proof (induction ts arbitrary: ret)
  case (Cons t ts)
  show ?case unfolding sound_test_def
  proof
    fix st
    obtain rs ret1 st1 where t: "t st = Some (rs, ret1, st1)" using Cons.prems by (fastforce simp: sound_test_def)
    have "evaluate_until stop ts ret1 st1 \<noteq> None" using Cons by (simp add: sound_test_def)
    with t show "evaluate_until stop (t # ts) ret st \<noteq> None" by auto
  qed
qed (simp add: sound_test_def)

lemma sound_until_map: "(\<forall>i \<in> set xs. sound_test (f i)) \<Longrightarrow> sound_test (evaluate_until stop (map f xs) ret)"
  by (rule sound_until) (simp add: list_all_iff)

lemma sound_returning_ok: "sound_test t \<Longrightarrow> sound_test (returning_ok t)"
  by (simp add: sound_test_def returning_ok_def)

lemma sound_then:
  assumes "sound_test t" shows "sound_test (\<lambda>st. t st \<bind> (\<lambda>(rs, ret, st1). Some (f rs ret st1, g rs ret st1, h rs ret st1)))"
  using assms by (auto simp: sound_test_def bind_eq_None_conv simp del: not_None_eq split: prod.splits)

lemma checked_integer:
  assumes "returned buf" and "fwts_method_check_type name buf ACPI_TYPE_INTEGER = []"
  shows "\<exists>v. buf = Some (Integer v)"
proof (cases buf)
  case None
  then show ?thesis using assms(2) by (simp add: fwts_method_check_type_def fwts_method_failed_null_object_def)
next
  case (Some obj)
  then have "object_ok obj" "fwts_method_type_matches (object_type obj) ACPI_TYPE_INTEGER"
    using assms by (auto simp: returned_def fwts_method_check_type_def split: if_splits)
  then show ?thesis using Some matching_objects(1) by blast
qed

lemma sound_integer_checks: "sound_check method_test_THERM_return" "sound_check (method_test_GCP_return msk)"
proof -
  have "total_check (\<lambda>name buf. checked name buf ACPI_TYPE_INTEGER (\<lambda>obj. if r then Some [Passed]
      else do { v \<leftarrow> int_value obj; Some (if v \<ge> 2732 then [Passed] else [Failed LOG_LEVEL_MEDIUM ''MethodBadTemp'', Advice]) }))" for r
    by (rule total_integer) simp
  then show "sound_check method_test_THERM_return" by (simp add: sound_check_def method_test_THERM_return_def total_check_def)
  show "sound_check (method_test_GCP_return msk)"
    unfolding sound_check_def method_test_GCP_return_def
    using checked_integer by (fastforce simp: Let_def split: list.split)
qed

lemma total_PS0: "total_check (method_test_PS0_return env)"
  using total_any(3) by (simp add: total_check_def method_test_PS0_return_def both_None del: not_None_eq)

text \<open>
  The tests that may read outside an object or of no object at all: their names in the table.
\<close>

definition fragile_tests :: "cstr list" where
  "fragile_tests = [''_AEI'', ''_EVT'', ''_CRS'', ''_PRS'', ''_PRT'', ''_GLK'', ''_GPE'', ''_WAK'', ''_CPC'', ''_CST'', ''_RDI'',
     ''_PDO'', ''_ALR'', ''_FPS'', ''_ART'', ''_NBS'', ''_NCH'', ''_NIC'', ''_NIG'', ''_NIH'']"

lemma sound_if: "sound_test a \<Longrightarrow> sound_test b \<Longrightarrow> sound_test (if p then a else b)"
  by simp

lemma sound_choice: "sound_test a \<Longrightarrow> sound_test b \<Longrightarrow> sound_test (\<lambda>st. if p st then a st else b st)"
  by (simp add: sound_test_def)

lemma sound_name_check: "sound_test (method_name_check env)"
  by (simp add: sound_test_def method_name_check_def)

lemma single_digits: "i < 10 \<Longrightarrow> length (show_nat i) = Suc 0"
proof -
  have "list_all (\<lambda>i. length (show_nat i) = Suc 0) [0..<10]" by code_simp
  then show "i < 10 \<Longrightarrow> length (show_nat i) = Suc 0" by (simp add: list_all_iff)
qed

lemma sound_sleep_state:
  assumes "named_objects env" and "\<And>i. sound_test (t i)" and "i < 10"
  shows "sound_test (for_sleep_state env t i)"
  unfolding sound_test_def
proof
  fix st
  have "fwts_acpi_object_exists env (''_S'' @ show_nat i @ ''_'') \<noteq> None"
    using single_digits [OF assms(3)] by (intro sound_exists [OF assms(1)]) simp
  then show "for_sleep_state env t i st \<noteq> None"
    using assms(2) by (auto simp: for_sleep_state_def sound_test_def)
qed

text \<open>The tests that are made of several evaluations, or look for other objects first.\<close>

lemma sound_PSx:
  assumes "sound_env env" and "named_objects env" and "length name \<le> 4"
  shows "sound_test (method_test_PSx env name)"
  unfolding sound_test_def
proof
  fix st
  have "sound_test (method_evaluate_method env METHOD_OPTIONAL name [] (null_check env))"
    using assms by (intro sound_evaluate sound_pure total_any)
  with sound_exists [OF assms(2,3)] sound_exists [OF assms(2), of "''_PS0''"]
  show "method_test_PSx env name st \<noteq> None"
    by (auto simp: method_test_PSx_def sound_test_def bind_eq_None_conv simp del: not_None_eq split: if_splits prod.splits)
qed

lemma sound_composite:
  assumes "sound_env env" and "named_objects env"
  shows "sound_test (SST_once env i)" "sound_test (CWS_once env i)" "sound_test (TTS_once env i)"
    "sound_test (method_test_SRT env)" "sound_test (method_test_TTS env)"
proof -
  have eval: "sound_test (method_evaluate_method env type [a, b, c, d] args (pure_check k))" if "total_check k" for type a b c d args k
    using assms that by (intro sound_evaluate sound_pure) simp_all
  note null = eval [OF total_any(3)]
  show "sound_test (SST_once env i)" unfolding SST_once_def [abs_def] by (rule sound_then [OF null])
  show tts: "sound_test (TTS_once env i)" for i unfolding TTS_once_def [abs_def] by (rule sound_then [OF null])
  show "sound_test (CWS_once env i)"
    using eval [OF total_integers(7)] by (simp add: CWS_once_def sound_test_def)
  show "sound_test (method_test_SRT env)"
    using eval [OF total_integers(1)] by (simp add: method_test_SRT_def sound_test_def)
  have "sound_test (returning_ok (evaluate_until not_exist (map (TTS_once env) [1, 2, 3, 4, 5]) FWTS_OK))"
    by (intro sound_returning_ok sound_until) (simp add: tts)
  moreover have "fwts_acpi_object_exists env ''_TTS'' \<noteq> None" by (rule sound_exists [OF assms(2)]) simp
  ultimately show "sound_test (method_test_TTS env)" by (auto simp: method_test_TTS_def sound_test_def)
qed

lemma sound_thermal:
  assumes "sound_env env" and "named_objects env" and "length name \<le> 4"
  shows "sound_test (\<lambda>st. method_evaluate_method env type name args method_test_THERM_return (st\<lparr>region_handler_called := b\<rparr>))"
  using sound_evaluate [OF assms(1,2) sound_integer_checks(1) assms(3)] by (simp add: sound_test_def)

lemmas sound_tests = sound_pure total_checks sound_integer_checks total_PS0 sound_if sound_choice sound_returning_ok
  sound_until sound_until_map sound_name_check sound_composite sound_PSx sound_thermal sound_sleep_state

lemma sound_method_tests:
  assumes "sound_env env" and "named_objects env"
  shows "list_all (\<lambda>(t, d). take 4 (drop 5 d) \<in> set fragile_tests \<or> sound_test t) (method_tests env)"
  using assms sound_evaluate [OF assms]
  by (simp add: method_tests_def method_defs [abs_def] fragile_tests_def sound_tests single_digits)

end
