(* ===== verification/Fwts_Faults.thy ===== *)
theory Fwts_Faults
  imports Fwts_Namespace
begin

text \<open>
  What the checks of objects accept, and where they go wrong: identifiers of devices, the
  descriptors that divide by zero, objects that are missing or empty, short buffers, failures that
  are passed all the same, and the test of _SCP, which evaluates another object.
\<close>

section \<open>Identifiers of devices\<close>

text \<open>A PNP identifier is three capitals, an ACPI identifier four capitals or digits, with four hexadecimal digits each.\<close>

definition device_id :: "cstr \<Rightarrow> bool" where
  "device_id s \<longleftrightarrow> (\<exists>vendor product. s = vendor @ product \<and> length product = 4 \<and> list_all is_xdigit product \<and>
     (length vendor = 3 \<and> list_all isupper vendor \<or>
      length vendor = 4 \<and> list_all (\<lambda>c. isupper c \<or> isdigit c) vendor))"

lemma length_cases:
  "length xs = 7 \<longleftrightarrow> (\<exists>a b c d e f g. xs = [a, b, c, d, e, f, g])"
  "length xs = 8 \<longleftrightarrow> (\<exists>a b c d e f g h. xs = [a, b, c, d, e, f, g, h])"
  "length xs = 3 \<longleftrightarrow> (\<exists>a b c. xs = [a, b, c])"
  "length xs = 4 \<longleftrightarrow> (\<exists>a b c d. xs = [a, b, c, d])"
  by (auto simp: numeral_eq_Suc length_Suc_conv)

lemma valid_HID_string: "fwts_method_valid_HID_string s \<longleftrightarrow> device_id s"
proof
  assume v: "fwts_method_valid_HID_string s"
  then consider "length s = 7" | "length s = 8" by (auto simp: fwts_method_valid_HID_string_def split: if_splits)
  then show "device_id s"
  proof cases
    case 1
    then have "s = take 3 s @ drop 3 s" "length (take 3 s) = 3" "length (drop 3 s) = 4" by simp_all
    moreover have "list_all isupper (take 3 s)" "list_all is_xdigit (drop 3 s)"
      using 1 v unfolding length_cases by (auto simp: fwts_method_valid_HID_string_def split: if_splits)
    ultimately show ?thesis unfolding device_id_def by blast
  next
    case 2
    then have "s = take 4 s @ drop 4 s" "length (take 4 s) = 4" "length (drop 4 s) = 4" by simp_all
    moreover have "list_all (\<lambda>c. isupper c \<or> isdigit c) (take 4 s)" "list_all is_xdigit (drop 4 s)"
      using 2 v unfolding length_cases by (auto simp: fwts_method_valid_HID_string_def split: if_splits)
    ultimately show ?thesis unfolding device_id_def by blast
  qed
next
  assume "device_id s"
  then obtain vendor product where "s = vendor @ product" "length product = 4" "list_all is_xdigit product"
    "length vendor = 3 \<and> list_all isupper vendor \<or> length vendor = 4 \<and> list_all (\<lambda>c. isupper c \<or> isdigit c) vendor"
    unfolding device_id_def by blast
  then show "fwts_method_valid_HID_string s"
    unfolding length_cases by (auto simp: fwts_method_valid_HID_string_def)
qed

section \<open>Resource descriptors\<close>

lemma CRS_return_None:
  assumes "method_test_CRS_return sbbr objname name (Some (Buffer (Some data))) = None"
  shows "data \<noteq> []" and "fwts_method_test_CRS_large_resource_items sbbr objname data = None"
    and "byte_at data 0 = Some b \<Longrightarrow> b AND 128 \<noteq> 0"
proof -
  show data: "data \<noteq> []"
    using assms by (auto simp: method_test_CRS_return_def checked_def fwts_method_check_type_def fwts_method_type_matches_def)
  then obtain b' where b': "byte_at data 0 = Some b'" by (fastforce simp: byte_at_def)
  have "fwts_method_test_CRS_large_resource_items sbbr objname data = None \<and> b' AND 128 \<noteq> 0"
    using assms data b' small_items_defined [OF data, of objname]
    by (auto simp: method_test_CRS_return_def checked_def fwts_method_check_type_def fwts_method_type_matches_def bind_eq_None_conv
        simp del: not_None_eq split: if_splits prod.splits)
  then show "fwts_method_test_CRS_large_resource_items sbbr objname data = None"
    "byte_at data 0 = Some b \<Longrightarrow> b AND 128 \<noteq> 0" using b' by auto
qed

section \<open>Objects that are missing, empty or short\<close>

lemma null_object_undefined:
  "list_all (\<lambda>c. c name None = None) [method_test_GLK_return, method_test_GPE_return, method_test_WAK_return]"
  by (simp add: method_test_GLK_return_def method_test_GPE_return_def method_test_WAK_return_def)

lemma empty_package_undefined:
  "list_all (\<lambda>c. c name (Some (Package [])) = None)
     [method_test_CPC_return, method_test_RDI_return, method_test_PDO_return, method_test_FPS_return, method_test_ART_return]"
  by (simp add: method_test_CPC_return_def method_test_RDI_return_def method_test_PDO_return_def method_test_FPS_return_def
      method_test_ART_return_def revision_then_packages_def checked_def fwts_method_check_type_def fwts_method_type_matches_def
      int_at_def element_at_def nth_of_def type_at_def)

lemma short_nvdimm_buffer:
  assumes "get bs 0 l ''status'' = None"
  shows "nvdimm_buffer name (Some (Buffer (Some bs))) sz l expected k = None"
  using assms
  by (simp add: nvdimm_buffer_def checked_def fwts_method_check_type_def fwts_method_type_matches_def fwts_method_buffer_size_def
      sane_or_def both_def)

lemma short_buffer_undefined:
  assumes "length bs < 2"
  shows "list_all (\<lambda>c. c name (Some (Buffer (Some bs))) = None)
     [fwts_method_test_NBS_return, fwts_method_test_NCH_return, fwts_method_test_NIC_return, fwts_method_test_NIH_return,
      fwts_method_test_NIG_return]"
  using assms
  by (simp add: fwts_method_test_NBS_return_def fwts_method_test_NCH_return_def fwts_method_test_NIC_return_def
      fwts_method_test_NIH_return_def fwts_method_test_NIG_return_def short_nvdimm_buffer get_def layouts read_le_None)

section \<open>Failures that are passed\<close>

text \<open>The flag of the reserved bits of _BMD is passed as the flag of success, and is not looked at.\<close>

lemma BMD_passes:
  "\<exists>rs. fwts_method_test_BMD_return name (Some (Package [Integer s, Integer c, Integer x, Integer y, Integer z])) =
     Some (rs @ [Passed]) \<and> (rs = [] \<longleftrightarrow> s AND bits_mask 7 31 = 0 \<and> c AND bits_mask 6 31 = 0)"
  by (auto simp: fwts_method_test_BMD_return_def checked_def fwts_method_check_type_def fwts_method_type_matches_def
      fwts_method_package_count_equal_def fwts_method_package_elements_all_type_def element_type_reports_def
      int_at_def element_at_def nth_of_def fwts_acpi_reserved_bits_def fail_if_def)

section \<open>The test of _SCP\<close>

lemma until_not_exist: 
  "t st = Some (rs, FWTS_NOT_EXIST, st') \<Longrightarrow> evaluate_until not_exist (t # ts) ret st = Some (rs, FWTS_NOT_EXIST, st')"
  by (simp add: not_exist_def)

lemma SCP_evaluates_DTI:
  assumes "object_names env = Some paths" and "list_all (\<lambda>path. name_matches ''_DTI'' path = Some False) paths"
  shows "method_test_SCP env st = Some ([Skipped], FWTS_OK, st)"
proof -
  have "method_evaluate_method env METHOD_OPTIONAL ''_DTI'' args check st = Some ([Skipped], FWTS_NOT_EXIST, st)" for args check
    using missing_reported [OF assms, of METHOD_OPTIONAL args check st]
    by (simp add: METHOD_OPTIONAL_def METHOD_SILENT_def METHOD_MANDATORY_def)
  then show ?thesis by (simp add: method_test_SCP_def returning_ok_def not_exist_def)
qed

end
