(* ===== verification/Fwts_Table_Layouts.thy ===== *)
theory Fwts_Table_Layouts
  imports Fwts_Acpi
begin

text \<open>
  The packed structs of src/src/lib/include/fwts_acpi.h that the table tests read, as layouts: the
  members in the order of the struct with their sizes in bytes. An array without a length has size 0.
  A union is given as one layout for each of its members.
\<close>

definition fwts_acpi_apmt_node :: layout where [layouts]:
  "fwts_acpi_apmt_node = [(''length'', 2), (''flags'', 1), (''type'', 1), (''identifier'', 4),
     (''instance_prim'', 8), (''instance_secondary'', 4), (''base_addr_0'', 8), (''base_addr_1'', 8),
     (''overflow_intr'', 4), (''reserved1'', 4), (''overflow_intr_flag'', 4), (''processor_affinity'', 4),
     (''implementation_id'', 4)]"

definition fwts_acpi_cpep_processor_info :: layout where [layouts]:
  "fwts_acpi_cpep_processor_info = [(''type'', 1), (''length'', 1), (''processor_id'', 1),
     (''processor_eid'', 1), (''polling_interval'', 4)]"

definition fwts_acpi_drtm_resource :: layout where [layouts]:
  "fwts_acpi_drtm_resource = [(''size'', 7), (''type'', 1), (''address'', 8)]"

definition fwts_acpi_mcfg_configuration :: layout where [layouts]:
  "fwts_acpi_mcfg_configuration = [(''base_address'', 8), (''pci_segment_group_number'', 2),
     (''start_bus_number'', 1), (''end_bus_number'', 1), (''reserved'', 4)]"

definition fwts_acpi_mpam_func_deps :: layout where [layouts]:
  "fwts_acpi_mpam_func_deps = [(''producer'', 4), (''reserved'', 4)]"

definition fwts_acpi_mpam_msc_node :: layout where [layouts]:
  "fwts_acpi_mpam_msc_node = [(''length'', 2), (''interface_type'', 1), (''reserved'', 1),
     (''identifier'', 4), (''base_address'', 8), (''mmio_size'', 4), (''overflow_interrupt'', 4),
     (''overflow_interrupt_flags'', 4), (''reserved1'', 4), (''overflow_interrupt_affinity'', 4),
     (''error_interrupt'', 4), (''error_interrupt_flags'', 4), (''reserved2'', 4),
     (''error_interrupt_affinity'', 4), (''max_nrdy_usec'', 4), (''hardware_id_linked_device'', 8),
     (''instance_id_linked_device'', 4), (''num_resouce_nodes'', 4)]"

definition fwts_acpi_mpam_resource_node :: layout where [layouts]:
  "fwts_acpi_mpam_resource_node = [(''identifier'', 4), (''ris_index'', 1), (''reserved1'', 2),
     (''locator_type'', 1), (''locator'', 12), (''num_functional_deps'', 4)]"

definition fwts_acpi_msct_proximity :: layout where [layouts]:
  "fwts_acpi_msct_proximity = [(''revision'', 1), (''length'', 1), (''range_start'', 4), (''range_end'', 4),
     (''processor_capacity'', 4), (''memory_capacity'', 8)]"

definition fwts_acpi_ras2_pcc_desc :: layout where [layouts]:
  "fwts_acpi_ras2_pcc_desc = [(''pcc_id'', 1), (''reserved'', 2), (''feature_type'', 1), (''instance'', 4)]"

definition fwts_acpi_rhct_node_cmo :: layout where [layouts]:
  "fwts_acpi_rhct_node_cmo = [(''reserved'', 1), (''cbom_size'', 1), (''cbop_size'', 1), (''cboz_size'', 1)]"

definition fwts_acpi_rhct_node_hart_info :: layout where [layouts]:
  "fwts_acpi_rhct_node_hart_info = [(''num_offsets'', 2), (''uid'', 4)]"

definition fwts_acpi_rhct_node_header :: layout where [layouts]:
  "fwts_acpi_rhct_node_header = [(''type'', 2), (''length'', 2), (''revision'', 2)]"

definition fwts_acpi_rhct_node_isa_string :: layout where [layouts]:
  "fwts_acpi_rhct_node_isa_string = [(''isa_length'', 2), (''isa'', 0)]"

definition fwts_acpi_rhct_node_mmu :: layout where [layouts]:
  "fwts_acpi_rhct_node_mmu = [(''reserved'', 1), (''mmu_type'', 1)]"

definition fwts_acpi_serialization_instruction_entries :: layout where [layouts]:
  "fwts_acpi_serialization_instruction_entries = [(''serialization_action'', 1), (''instruction'', 1),
     (''flags'', 1), (''reserved'', 1)] @ nest ''register_region'' fwts_acpi_gas @ [(''value'', 8),
     (''mask'', 8)]"

definition fwts_acpi_skvl_key_struct :: layout where [layouts]:
  "fwts_acpi_skvl_key_struct = [(''key_type'', 2), (''key_format'', 2), (''key_size'', 4),
     (''key_address'', 8)]"

definition fwts_acpi_table_aest :: layout where [layouts]:
  "fwts_acpi_table_aest = nest ''header'' fwts_acpi_table_header"

definition fwts_acpi_table_aest_cache_resource_substructure :: layout where [layouts]:
  "fwts_acpi_table_aest_cache_resource_substructure = [(''cache_reference'', 4), (''reserved'', 4)]"

definition fwts_acpi_table_aest_generic_resource_substructure :: layout where [layouts]:
  "fwts_acpi_table_aest_generic_resource_substructure = [(''data'', 4)]"

definition fwts_acpi_table_aest_gic :: layout where [layouts]:
  "fwts_acpi_table_aest_gic = [(''interface_type'', 4), (''instance_identifier'', 4)]"

definition fwts_acpi_table_aest_interface :: layout where [layouts]:
  "fwts_acpi_table_aest_interface = [(''interface_type'', 1), (''group_format'', 1), (''reserved'', 2),
     (''flags'', 4), (''base_address'', 8), (''start_error_record_index'', 4),
     (''number_of_error_records'', 4)]"

definition fwts_acpi_table_aest_interrupt :: layout where [layouts]:
  "fwts_acpi_table_aest_interrupt = [(''interrupt_type'', 1), (''reserved'', 2), (''interrupt_flags'', 1),
     (''interrupt_gsiv'', 4), (''reserved1'', 4)]"

definition fwts_acpi_table_aest_memory_controller :: layout where [layouts]:
  "fwts_acpi_table_aest_memory_controller = [(''proximity_domain'', 4)]"

definition fwts_acpi_table_aest_node :: layout where [layouts]:
  "fwts_acpi_table_aest_node = [(''type'', 1), (''length'', 2), (''reserved'', 1),
     (''offset_node_specific_data'', 4), (''offset_node_interface'', 4),
     (''offset_node_interrupt_array'', 4), (''node_interrupt_size'', 4), (''timestamp_rate'', 8),
     (''timebase_offset'', 8), (''error_injection_countdown_rate'', 8)]"

definition fwts_acpi_table_aest_pcie_root_complex :: layout where [layouts]:
  "fwts_acpi_table_aest_pcie_root_complex = [(''iort_node_reference'', 4)]"

definition fwts_acpi_table_aest_processor :: layout where [layouts]:
  "fwts_acpi_table_aest_processor = [(''acpi_processor_id'', 4), (''resource_type'', 1), (''reserved'', 1),
     (''flags'', 1), (''revision'', 1), (''processor_affinity_level_indicator'', 8)]"

definition fwts_acpi_table_aest_proxy :: layout where [layouts]:
  "fwts_acpi_table_aest_proxy = [(''node_address'', 8)]"

definition fwts_acpi_table_aest_smmu :: layout where [layouts]:
  "fwts_acpi_table_aest_smmu = [(''iort_node_reference'', 4),
     (''smmu_specific_data_subcomponent_reference'', 4)]"

definition fwts_acpi_table_aest_tlb_resource_substructure :: layout where [layouts]:
  "fwts_acpi_table_aest_tlb_resource_substructure = [(''tlb_reference'', 4), (''reserved'', 4)]"

definition fwts_acpi_table_aest_vendor_defined :: layout where [layouts]:
  "fwts_acpi_table_aest_vendor_defined = [(''hardware_id'', 4), (''unique_id'', 4),
     (''vendor_specific_data'', 16)]"

definition fwts_acpi_table_apmt :: layout where [layouts]:
  "fwts_acpi_table_apmt = nest ''header'' fwts_acpi_table_header @ [(''entry'', 0)]"

definition fwts_acpi_table_bert :: layout where [layouts]:
  "fwts_acpi_table_bert = nest ''header'' fwts_acpi_table_header @ [(''boot_error_region_length'', 4),
     (''boot_error_region'', 8)]"

definition fwts_acpi_table_bgrt :: layout where [layouts]:
  "fwts_acpi_table_bgrt = nest ''header'' fwts_acpi_table_header @ [(''version'', 2), (''status'', 1),
     (''image_type'', 1), (''image_addr'', 8), (''image_offset_x'', 4), (''image_offset_y'', 4)]"

definition fwts_acpi_table_boot :: layout where [layouts]:
  "fwts_acpi_table_boot = nest ''header'' fwts_acpi_table_header @ [(''cmos_index'', 1), (''reserved'', 3)]"

definition fwts_acpi_table_boot_error_region :: layout where [layouts]:
  "fwts_acpi_table_boot_error_region = [(''block_status'', 4), (''raw_data_offset'', 4),
     (''raw_data_length'', 4), (''data_length'', 4), (''error_severity'', 4), (''generic_error_data'', 0)]"

definition fwts_acpi_table_ccel :: layout where [layouts]:
  "fwts_acpi_table_ccel = nest ''header'' fwts_acpi_table_header @ [(''cc_type'', 1), (''cc_subtype'', 1),
     (''reserved'', 2), (''laml'', 8), (''lasa'', 8)]"

definition fwts_acpi_table_cedt :: layout where [layouts]:
  "fwts_acpi_table_cedt = nest ''header'' fwts_acpi_table_header"

definition fwts_acpi_table_cedt_header :: layout where [layouts]:
  "fwts_acpi_table_cedt_header = [(''type'', 1), (''reserved'', 1), (''record_length'', 2)]"

definition fwts_acpi_table_cedt_cfmws :: layout where [layouts]:
  "fwts_acpi_table_cedt_cfmws = nest ''header'' fwts_acpi_table_cedt_header @ [(''reserved1'', 4),
     (''base_hpa'', 8), (''window_size'', 8), (''eniw'', 1), (''interleave_arithmetic'', 1),
     (''reserved2'', 2), (''hbig'', 4), (''window_restrictions'', 2), (''qtg_id'', 2),
     (''interleave_target_list'', 0)]"

definition fwts_acpi_table_cedt_chbs :: layout where [layouts]:
  "fwts_acpi_table_cedt_chbs = nest ''header'' fwts_acpi_table_cedt_header @ [(''uid'', 4),
     (''cxl_version'', 4), (''reserved'', 4), (''base'', 8), (''length'', 8)]"

definition fwts_acpi_table_cedt_csds :: layout where [layouts]:
  "fwts_acpi_table_cedt_csds = nest ''header'' fwts_acpi_table_cedt_header @ [(''system_cap'', 2),
     (''reserved'', 2)]"

definition fwts_acpi_table_cedt_cxims :: layout where [layouts]:
  "fwts_acpi_table_cedt_cxims = nest ''header'' fwts_acpi_table_cedt_header @ [(''reserved'', 2),
     (''hbig'', 1), (''nig'', 1), (''xormap_list'', 0)]"

definition fwts_acpi_table_cedt_rdpas :: layout where [layouts]:
  "fwts_acpi_table_cedt_rdpas = nest ''header'' fwts_acpi_table_cedt_header @ [(''rece_seg_num'', 2),
     (''rece_bdf'', 2), (''protocol_type'', 1), (''base_addr'', 8)]"

definition fwts_acpi_table_cpep :: layout where [layouts]:
  "fwts_acpi_table_cpep = nest ''header'' fwts_acpi_table_header @ [(''reserved'', 8), (''cpep_info'', 0)]"

definition fwts_acpi_table_csrt :: layout where [layouts]:
  "fwts_acpi_table_csrt = nest ''header'' fwts_acpi_table_header"

definition fwts_acpi_table_csrt_resource_descriptor :: layout where [layouts]:
  "fwts_acpi_table_csrt_resource_descriptor = [(''length'', 4), (''type'', 2), (''subtype'', 2),
     (''uid'', 4), (''silicon_vendor_info'', 0)]"

definition fwts_acpi_table_csrt_resource_group :: layout where [layouts]:
  "fwts_acpi_table_csrt_resource_group = [(''length'', 4), (''vendor_id'', 4), (''subvendor_id'', 4),
     (''device_id'', 2), (''subdevice_id'', 2), (''revision'', 2), (''reserved'', 2),
     (''shared_info_length'', 4)]"

definition fwts_acpi_table_dbgp :: layout where [layouts]:
  "fwts_acpi_table_dbgp = nest ''header'' fwts_acpi_table_header @ [(''interface_type'', 1),
     (''reserved'', 3)] @ nest ''base_address'' fwts_acpi_gas"

definition fwts_acpi_table_drtm :: layout where [layouts]:
  "fwts_acpi_table_drtm = nest ''header'' fwts_acpi_table_header @ [(''entry_base_address'', 8),
     (''entry_length'', 8), (''entry_address32'', 4), (''entry_address64'', 8), (''exit_address'', 8),
     (''log_area_address'', 8), (''log_area_length'', 4), (''arch_dependent_address'', 8), (''flags'', 4)]"

definition fwts_acpi_table_drtm_dps :: layout where [layouts]:
  "fwts_acpi_table_drtm_dps = [(''dps_id_length'', 4), (''dps_id'', 16)]"

definition fwts_acpi_table_drtm_rtl :: layout where [layouts]:
  "fwts_acpi_table_drtm_rtl = [(''resource_count'', 4), (''resources'', 0)]"

definition fwts_acpi_table_drtm_vtl :: layout where [layouts]:
  "fwts_acpi_table_drtm_vtl = [(''validated_table_count'', 4), (''validated_tables'', 0)]"

definition fwts_acpi_table_ecdt :: layout where [layouts]:
  "fwts_acpi_table_ecdt = nest ''header'' fwts_acpi_table_header @ nest ''ec_control'' fwts_acpi_gas @
     nest ''ec_data'' fwts_acpi_gas @ [(''uid'', 4), (''gpe_bit'', 1), (''ec_id'', 0)]"

definition fwts_acpi_table_einj :: layout where [layouts]:
  "fwts_acpi_table_einj = nest ''header'' fwts_acpi_table_header @ [(''header_size'', 4), (''flags'', 1),
     (''reserved'', 3), (''count'', 4), (''entries'', 0)]"

definition fwts_acpi_table_erst :: layout where [layouts]:
  "fwts_acpi_table_erst = nest ''header'' fwts_acpi_table_header @ [(''serialization_header_size'', 4),
     (''reserved'', 4), (''instruction_entry_count'', 4), (''entries'', 0)]"

definition fwts_acpi_table_fpdt_header :: layout where [layouts]:
  "fwts_acpi_table_fpdt_header = [(''type'', 2), (''length'', 1), (''revision'', 1)]"

definition fwts_acpi_table_fpdt_basic_boot_perf_ptr :: layout where [layouts]:
  "fwts_acpi_table_fpdt_basic_boot_perf_ptr = nest ''fpdt'' fwts_acpi_table_fpdt_header @
     [(''reserved'', 4), (''fbpt_addr'', 8)]"

definition fwts_acpi_table_fpdt_micro_boot_perf_ptr :: layout where [layouts]:
  "fwts_acpi_table_fpdt_micro_boot_perf_ptr = nest ''fpdt'' fwts_acpi_table_fpdt_header @
     [(''reserved'', 4), (''mbpt_addr'', 8)]"

definition fwts_acpi_table_fpdt_s3_perf_ptr :: layout where [layouts]:
  "fwts_acpi_table_fpdt_s3_perf_ptr = nest ''fpdt'' fwts_acpi_table_fpdt_header @ [(''reserved'', 4),
     (''s3pt_addr'', 8)]"

definition fwts_acpi_table_fpdt_timestamp_delta :: layout where [layouts]:
  "fwts_acpi_table_fpdt_timestamp_delta = nest ''fpdt'' fwts_acpi_table_fpdt_header @ [(''reserved'', 4),
     (''timestamp_domain_id'', 8), (''timestamp_delta'', 8)]"

definition fwts_acpi_table_gtdt :: layout where [layouts]:
  "fwts_acpi_table_gtdt = nest ''header'' fwts_acpi_table_header @ [(''cnt_control_base_phys_addr'', 8),
     (''reserved'', 4), (''secure_EL1_timer_GSIV'', 4), (''secure_EL1_timer_flags'', 4),
     (''non_secure_EL1_timer_GSIV'', 4), (''non_secure_EL1_timer_flags'', 4), (''virtual_timer_GSIV'', 4),
     (''virtual_timer_flags'', 4), (''non_secure_EL2_timer_GSIV'', 4), (''non_secure_EL2_timer_flags'', 4),
     (''cnt_read_base_phys_addr'', 8), (''platform_timer_count'', 4), (''platform_timer_offset'', 4)]"

definition fwts_acpi_table_gtdt_block :: layout where [layouts]:
  "fwts_acpi_table_gtdt_block = [(''type'', 1), (''length'', 2), (''reserved'', 1),
     (''physical_address'', 8), (''block_timer_count'', 4), (''block_timer_offset'', 4),
     (''block_timers'', 0)]"

definition fwts_acpi_table_gtdt_block_timer :: layout where [layouts]:
  "fwts_acpi_table_gtdt_block_timer = [(''frame_number'', 1), (''reserved'', 3), (''cntbase'', 8),
     (''cntel0base'', 8), (''phys_timer_gsiv'', 4), (''phys_timer_flags'', 4), (''virt_timer_gsiv'', 4),
     (''virt_timer_flags'', 4), (''common_flags'', 4)]"

definition fwts_acpi_table_gtdt_watchdog :: layout where [layouts]:
  "fwts_acpi_table_gtdt_watchdog = [(''type'', 1), (''length'', 2), (''reserved'', 1),
     (''refresh_frame_addr'', 8), (''watchdog_control_frame_addr'', 8), (''watchdog_timer_gsiv'', 4),
     (''watchdog_timer_flags'', 4)]"

definition fwts_acpi_table_hmat :: layout where [layouts]:
  "fwts_acpi_table_hmat = nest ''header'' fwts_acpi_table_header @ [(''reserved'', 4)]"

definition fwts_acpi_table_hmat_header :: layout where [layouts]:
  "fwts_acpi_table_hmat_header = [(''type'', 2), (''reserved'', 2), (''length'', 4)]"

definition fwts_acpi_table_hmat_cache :: layout where [layouts]:
  "fwts_acpi_table_hmat_cache = nest ''header'' fwts_acpi_table_hmat_header @
     [(''memory_proximity_domain'', 4), (''reserved1'', 4), (''cache_size'', 8), (''cache_attr'', 4),
     (''reserved2'', 2), (''num_smbios'', 2)]"

definition fwts_acpi_table_hmat_locality :: layout where [layouts]:
  "fwts_acpi_table_hmat_locality = nest ''header'' fwts_acpi_table_hmat_header @ [(''flags'', 1),
     (''data_type'', 1), (''min_transfer_size'', 1), (''reserved1'', 1), (''num_initiator'', 4),
     (''num_target'', 4), (''reserved2'', 4), (''entry_base_unit'', 8)]"

definition fwts_acpi_table_hmat_proximity_domain :: layout where [layouts]:
  "fwts_acpi_table_hmat_proximity_domain = nest ''header'' fwts_acpi_table_hmat_header @ [(''flags'', 2),
     (''reserved1'', 2), (''initiator_proximity_domain'', 4), (''memory_proximity_domain'', 4),
     (''reserved2'', 4), (''reserved3'', 8), (''reserved4'', 8)]"

definition fwts_acpi_table_ivhd :: layout where [layouts]:
  "fwts_acpi_table_ivhd = [(''type'', 1), (''flags'', 1), (''length'', 2), (''device_id'', 2),
     (''capability_offset'', 2), (''iommu_base_address'', 8), (''pci_seg_group'', 2), (''iommu_info'', 2)]"

definition fwts_acpi_table_ivhd_10 :: layout where [layouts]:
  "fwts_acpi_table_ivhd_10 = nest ''ivhd'' fwts_acpi_table_ivhd @ [(''iommu_feature_reoprt'', 4),
     (''ivhd_device_entries'', 0)]"

definition fwts_acpi_table_ivhd_11_40 :: layout where [layouts]:
  "fwts_acpi_table_ivhd_11_40 = nest ''ivhd'' fwts_acpi_table_ivhd @ [(''iommu_attr'', 4),
     (''efr_reg_image'', 8), (''efr_reg_image_2'', 8), (''ivhd_device_entries'', 0)]"

definition fwts_acpi_table_ivmd :: layout where [layouts]:
  "fwts_acpi_table_ivmd = [(''type'', 1), (''flags'', 1), (''length'', 2), (''device_id'', 2),
     (''auxiliary_data'', 2), (''reserved'', 8), (''pci_seg_group'', 2), (''start_address'', 8),
     (''mem_block_len'', 8)]"

definition fwts_acpi_table_ivrs :: layout where [layouts]:
  "fwts_acpi_table_ivrs = nest ''header'' fwts_acpi_table_header @ [(''ivinfo'', 4), (''reserved'', 8)]"

definition fwts_acpi_table_lpit :: layout where [layouts]:
  "fwts_acpi_table_lpit = nest ''header'' fwts_acpi_table_header"

definition fwts_acpi_table_lpit_c_state :: layout where [layouts]:
  "fwts_acpi_table_lpit_c_state = [(''type'', 4), (''length'', 4), (''id'', 2), (''reserved'', 2),
     (''flags'', 4)] @ nest ''entry_trigger'' fwts_acpi_gas @ [(''residency'', 4), (''latency'', 4)] @
     nest ''residency_counter'' fwts_acpi_gas @ [(''residency_counter_freq'', 8)]"

definition fwts_acpi_table_mcfg :: layout where [layouts]:
  "fwts_acpi_table_mcfg = nest ''header'' fwts_acpi_table_header @ [(''reserved'', 8),
     (''configuration'', 0)]"

definition fwts_acpi_table_mchi :: layout where [layouts]:
  "fwts_acpi_table_mchi = nest ''header'' fwts_acpi_table_header @ [(''interface_type'', 1),
     (''protocol_identifier'', 1), (''protocol_data'', 8), (''interrupt_type'', 1), (''gpe'', 1),
     (''pci_device_flag'', 1), (''global_system_interrupt'', 4)] @ nest ''base_address'' fwts_acpi_gas @
     [(''bytes'', 4)]"

definition fwts_acpi_table_mpam :: layout where [layouts]:
  "fwts_acpi_table_mpam = nest ''header'' fwts_acpi_table_header"

definition fwts_acpi_table_mpst :: layout where [layouts]:
  "fwts_acpi_table_mpst = nest ''header'' fwts_acpi_table_header @ [(''channel_id'', 1), (''reserved'', 3)]"

definition fwts_acpi_table_mpst_component :: layout where [layouts]:
  "fwts_acpi_table_mpst_component = [(''id'', 2)]"

definition fwts_acpi_table_mpst_power_char :: layout where [layouts]:
  "fwts_acpi_table_mpst_power_char = [(''structure_id'', 1), (''flags'', 1), (''reserved1'', 2),
     (''average_power'', 4), (''power_saving'', 4), (''exit_latency'', 8), (''reserved2'', 8)]"

definition fwts_acpi_table_mpst_power_char_list :: layout where [layouts]:
  "fwts_acpi_table_mpst_power_char_list = [(''count'', 2), (''reserved'', 2)]"

definition fwts_acpi_table_mpst_power_node :: layout where [layouts]:
  "fwts_acpi_table_mpst_power_node = [(''flags'', 1), (''reserved'', 1), (''node_id'', 2), (''length'', 4),
     (''range_address'', 8), (''range_length'', 8), (''num_states'', 4), (''num_components'', 4)]"

definition fwts_acpi_table_mpst_power_node_list :: layout where [layouts]:
  "fwts_acpi_table_mpst_power_node_list = [(''count'', 2), (''reserved'', 2)]"

definition fwts_acpi_table_mpst_power_state :: layout where [layouts]:
  "fwts_acpi_table_mpst_power_state = [(''value'', 1), (''info_index'', 1)]"

definition fwts_acpi_table_msct :: layout where [layouts]:
  "fwts_acpi_table_msct = nest ''header'' fwts_acpi_table_header @ [(''proximity_offset'', 4),
     (''max_proximity_domains'', 4), (''max_clock_domains'', 4), (''max_address'', 8),
     (''msct_proximity'', 0)]"

definition fwts_acpi_table_msdm :: layout where [layouts]:
  "fwts_acpi_table_msdm = nest ''header'' fwts_acpi_table_header @ [(''version'', 4), (''reserved'', 4),
     (''data_type'', 4), (''data_reserved'', 4), (''data_length'', 4), (''data'', 0)]"

definition fwts_acpi_table_nhlt :: layout where [layouts]:
  "fwts_acpi_table_nhlt = nest ''header'' fwts_acpi_table_header @ [(''ep_descriptor_count'', 1)]"

definition fwts_acpi_table_nhlt_device_info :: layout where [layouts]:
  "fwts_acpi_table_nhlt_device_info = [(''id'', 16), (''instance_id'', 1), (''port_id'', 1)]"

definition fwts_acpi_table_nhlt_ep_descriptor :: layout where [layouts]:
  "fwts_acpi_table_nhlt_ep_descriptor = [(''len'', 4), (''link_type'', 1), (''instance_id'', 1),
     (''vendor_id'', 2), (''device_id'', 2), (''revision_id'', 2), (''subsystem_id'', 4),
     (''device_type'', 1), (''direction'', 1), (''virtual_bus_id'', 1)]"

definition fwts_acpi_table_nhlt_formats_configuration :: layout where [layouts]:
  "fwts_acpi_table_nhlt_formats_configuration = [(''formats_count'', 1), (''formats'', 0)]"

definition fwts_acpi_table_nhlt_wave_format_ext :: layout where [layouts]:
  "fwts_acpi_table_nhlt_wave_format_ext = [(''format_tag'', 2), (''channels'', 2), (''samples_per_sec'', 4),
     (''avg_bytes_per_sec'', 4), (''block_align'', 2), (''bits_per_sample'', 2), (''size'', 2),
     (''valid_bits_per_sample'', 2), (''channel_mask'', 4), (''subformat'', 16)]"

definition fwts_acpi_table_pdtt :: layout where [layouts]:
  "fwts_acpi_table_pdtt = nest ''header'' fwts_acpi_table_header @ [(''trigger_count'', 1),
     (''reserved'', 3), (''array_offset'', 4)]"

definition fwts_acpi_table_pdtt_channel :: layout where [layouts]:
  "fwts_acpi_table_pdtt_channel = [(''sub_channel_id'', 1), (''flags'', 1)]"

definition fwts_acpi_table_phat :: layout where [layouts]:
  "fwts_acpi_table_phat = nest ''header'' fwts_acpi_table_header"

definition fwts_acpi_table_phat_header :: layout where [layouts]:
  "fwts_acpi_table_phat_header = [(''type'', 2), (''length'', 2), (''revision'', 1)]"

definition fwts_acpi_table_phat_health :: layout where [layouts]:
  "fwts_acpi_table_phat_health = nest ''header'' fwts_acpi_table_phat_header @ [(''reserved'', 2),
     (''healthy'', 1), (''data_signature'', 16), (''data_offset'', 4)]"

definition fwts_acpi_table_phat_version :: layout where [layouts]:
  "fwts_acpi_table_phat_version = nest ''header'' fwts_acpi_table_phat_header @ [(''reserved'', 3),
     (''element_count'', 4)]"

definition fwts_acpi_table_phat_version_elem :: layout where [layouts]:
  "fwts_acpi_table_phat_version_elem = [(''component_id'', 16), (''version'', 8), (''producer_id'', 4)]"

definition fwts_acpi_table_pmtt :: layout where [layouts]:
  "fwts_acpi_table_pmtt = nest ''header'' fwts_acpi_table_header @ [(''num_devices'', 4)]"

definition fwts_acpi_table_pmtt_header :: layout where [layouts]:
  "fwts_acpi_table_pmtt_header = [(''type'', 1), (''reserved1'', 1), (''length'', 2), (''flags'', 2),
     (''reserved2'', 2), (''num_devices'', 4)]"

definition fwts_acpi_table_pmtt_controller :: layout where [layouts]:
  "fwts_acpi_table_pmtt_controller = nest ''header'' fwts_acpi_table_pmtt_header @
     [(''memory_controller_id'', 2), (''reserved'', 2)]"

definition fwts_acpi_table_pmtt_physical_component :: layout where [layouts]:
  "fwts_acpi_table_pmtt_physical_component = nest ''header'' fwts_acpi_table_pmtt_header @
     [(''bios_handle'', 4)]"

definition fwts_acpi_table_pmtt_socket :: layout where [layouts]:
  "fwts_acpi_table_pmtt_socket = nest ''header'' fwts_acpi_table_pmtt_header @ [(''socket_id'', 2),
     (''reserved'', 2)]"

definition fwts_acpi_table_pptt :: layout where [layouts]:
  "fwts_acpi_table_pptt = nest ''header'' fwts_acpi_table_header"

definition fwts_acpi_table_pptt_header :: layout where [layouts]:
  "fwts_acpi_table_pptt_header = [(''type'', 1), (''length'', 1)]"

definition fwts_acpi_table_pptt_cache :: layout where [layouts]:
  "fwts_acpi_table_pptt_cache = nest ''header'' fwts_acpi_table_pptt_header @ [(''reserved'', 2),
     (''flags'', 4), (''next_level_cache'', 4), (''size'', 4), (''number_sets'', 4), (''associativity'', 1),
     (''attributes'', 1), (''line_size'', 2), (''cache_id'', 4)]"

definition fwts_acpi_table_pptt_id :: layout where [layouts]:
  "fwts_acpi_table_pptt_id = nest ''header'' fwts_acpi_table_pptt_header @ [(''reserved'', 2),
     (''vendor_id'', 4), (''level1_id'', 8), (''level2_id'', 8), (''major_rev'', 2), (''minor_rev'', 2),
     (''spin_rev'', 2)]"

definition fwts_acpi_table_pptt_processor :: layout where [layouts]:
  "fwts_acpi_table_pptt_processor = nest ''header'' fwts_acpi_table_pptt_header @ [(''reserved'', 2),
     (''flags'', 4), (''parent'', 4), (''acpi_processor_id'', 4), (''number_priv_resources'', 4),
     (''private_resource'', 0)]"

definition fwts_acpi_table_ras2 :: layout where [layouts]:
  "fwts_acpi_table_ras2 = nest ''header'' fwts_acpi_table_header @ [(''reserved'', 2),
     (''num_pcc_descriptors'', 2), (''pcc_descriptors'', 0)]"

definition fwts_acpi_table_rasf :: layout where [layouts]:
  "fwts_acpi_table_rasf = nest ''header'' fwts_acpi_table_header @ [(''platform_cc_id'', 12)]"

definition fwts_acpi_table_rgrt :: layout where [layouts]:
  "fwts_acpi_table_rgrt = nest ''header'' fwts_acpi_table_header @ [(''version'', 2), (''image_type'', 1),
     (''reserved'', 1), (''image'', 0)]"

definition fwts_acpi_table_rhct :: layout where [layouts]:
  "fwts_acpi_table_rhct = nest ''header'' fwts_acpi_table_header @ [(''flags'', 4), (''time_base_freq'', 8),
     (''node_count'', 4), (''node_offset'', 4)]"

definition fwts_acpi_table_sbst :: layout where [layouts]:
  "fwts_acpi_table_sbst = nest ''header'' fwts_acpi_table_header @ [(''warning_energy_level'', 4),
     (''low_energy_level'', 4), (''critical_energy_level'', 4)]"

definition fwts_acpi_table_sdev :: layout where [layouts]:
  "fwts_acpi_table_sdev = nest ''header'' fwts_acpi_table_header"

definition fwts_acpi_table_sdev_header :: layout where [layouts]:
  "fwts_acpi_table_sdev_header = [(''type'', 1), (''flags'', 1), (''length'', 2)]"

definition fwts_acpi_table_sdev_acpi :: layout where [layouts]:
  "fwts_acpi_table_sdev_acpi = nest ''header'' fwts_acpi_table_sdev_header @ [(''device_id_offset'', 2),
     (''device_id_length'', 2), (''vendor_offset'', 2), (''vendor_length'', 2),
     (''secure_access_offset'', 2), (''secure_access_length'', 2)]"

definition fwts_acpi_table_sdev_pcie :: layout where [layouts]:
  "fwts_acpi_table_sdev_pcie = nest ''header'' fwts_acpi_table_sdev_header @ [(''segment'', 2),
     (''start_bus'', 2), (''path_offset'', 2), (''path_length'', 2), (''vendor_offset'', 2),
     (''vendor_length'', 2)]"

definition fwts_acpi_table_skvl :: layout where [layouts]:
  "fwts_acpi_table_skvl = nest ''header'' fwts_acpi_table_header @ [(''key_count'', 4), (''key_struct'', 0)]"

definition fwts_acpi_table_slic_header :: layout where [layouts]:
  "fwts_acpi_table_slic_header = [(''type'', 4), (''length'', 4)]"

definition fwts_acpi_table_slic_key :: layout where [layouts]:
  "fwts_acpi_table_slic_key = nest ''header'' fwts_acpi_table_slic_header @ [(''key_type'', 1),
     (''version'', 1), (''reserved'', 2), (''algorithm'', 4), (''magic'', 4), (''bit_length'', 4),
     (''exponent'', 4), (''modulus'', 128)]"

definition fwts_acpi_table_slic_marker :: layout where [layouts]:
  "fwts_acpi_table_slic_marker = nest ''header'' fwts_acpi_table_slic_header @ [(''version'', 4),
     (''oem_id'', 6), (''oem_table_id'', 8), (''windows_flag'', 8), (''slic_version'', 4),
     (''reserved'', 16), (''signature'', 128)]"

definition fwts_acpi_table_slit :: layout where [layouts]:
  "fwts_acpi_table_slit = nest ''header'' fwts_acpi_table_header @ [(''num_of_system_localities'', 8)]"

definition fwts_acpi_table_spcr :: layout where [layouts]:
  "fwts_acpi_table_spcr = nest ''header'' fwts_acpi_table_header @ [(''interface_type'', 1),
     (''reserved1'', 3)] @ nest ''base_address'' fwts_acpi_gas @ [(''interrupt_type'', 1), (''irq'', 1),
     (''gsi'', 4), (''baud_rate'', 1), (''parity'', 1), (''stop_bits'', 1), (''flow_control'', 1),
     (''terminal_type'', 1), (''language'', 1), (''pci_device_id'', 2), (''pci_vendor_id'', 2),
     (''pci_bus_number'', 1), (''pci_device_number'', 1), (''pci_function_number'', 1), (''pci_flags'', 4),
     (''pci_segment'', 1), (''uart_clock_freq'', 4), (''precise_baud_rate'', 4),
     (''namespace_str_length'', 2), (''namespace_str_offset'', 2), (''namespace_str'', 0)]"

definition fwts_acpi_table_spmi :: layout where [layouts]:
  "fwts_acpi_table_spmi = nest ''header'' fwts_acpi_table_header @ [(''interface_type'', 1),
     (''reserved1'', 1), (''specification_revision'', 2), (''interrupt_type'', 1), (''gpe'', 1),
     (''reserved2'', 1), (''pci_device_flag'', 1), (''global_system_interrupt'', 4)] @
     nest ''base_address'' fwts_acpi_gas @ [(''pci_segment_group_number'', 1), (''pci_bus_number'', 1),
     (''pci_device_number'', 1), (''pci_function_number'', 1), (''reserved3'', 1)]"

definition fwts_acpi_table_stao :: layout where [layouts]:
  "fwts_acpi_table_stao = nest ''header'' fwts_acpi_table_header @ [(''uart'', 1), (''namelist'', 0)]"

definition fwts_acpi_table_svkl :: layout where [layouts]:
  "fwts_acpi_table_svkl = nest ''header'' fwts_acpi_table_header @ [(''key_count'', 4), (''key_struct'', 0)]"

definition fwts_acpi_table_svkl_key_structure :: layout where [layouts]:
  "fwts_acpi_table_svkl_key_structure = [(''key_type'', 2), (''key_format'', 2), (''key_size'', 4),
     (''key_addr'', 8)]"

definition fwts_acpi_table_tpm2 :: layout where [layouts]:
  "fwts_acpi_table_tpm2 = nest ''header'' fwts_acpi_table_header @ [(''platform_class'', 2),
     (''reserved'', 2), (''address_of_control_area'', 8), (''start_method'', 4),
     (''platform_specific_parameters'', 0)]"

definition fwts_acpi_table_uefi :: layout where [layouts]:
  "fwts_acpi_table_uefi = nest ''header'' fwts_acpi_table_header @ [(''uuid'', 16), (''dataoffset'', 2),
     (''data'', 0)]"

definition fwts_acpi_table_uefi_smmcomm :: layout where [layouts]:
  "fwts_acpi_table_uefi_smmcomm = nest ''boot'' fwts_acpi_table_uefi @ [(''sw_smi_number'', 4),
     (''buf_ptr_addr'', 8)]"

definition fwts_acpi_table_viot :: layout where [layouts]:
  "fwts_acpi_table_viot = nest ''header'' fwts_acpi_table_header @ [(''node_count'', 2),
     (''node_offset'', 2), (''reserved'', 8)]"

definition fwts_acpi_table_waet :: layout where [layouts]:
  "fwts_acpi_table_waet = nest ''header'' fwts_acpi_table_header @ [(''flags'', 4)]"

definition fwts_acpi_table_wdat :: layout where [layouts]:
  "fwts_acpi_table_wdat = nest ''header'' fwts_acpi_table_header @ [(''watchdog_header_length'', 4),
     (''pci_segment'', 2), (''pci_bus_number'', 1), (''pci_device_number'', 1),
     (''pci_function_number'', 1), (''reserved1'', 3), (''timer_period'', 4), (''maximum_count'', 4),
     (''minimum_count'', 4), (''watchdog_flags'', 1), (''reserved2'', 3), (''number_of_entries'', 4),
     (''entries'', 0)]"

definition fwts_acpi_table_wdat_instr_entries :: layout where [layouts]:
  "fwts_acpi_table_wdat_instr_entries = [(''watchdog_action'', 1), (''instruction_flags'', 1),
     (''reserved'', 2)] @ nest ''register_region'' fwts_acpi_gas @ [(''value'', 4), (''mask'', 4)]"

definition fwts_acpi_table_wpbt :: layout where [layouts]:
  "fwts_acpi_table_wpbt = nest ''header'' fwts_acpi_table_header @ [(''handoff_size'', 4),
     (''handoff_address'', 8), (''layout'', 1), (''type'', 1)]"

definition fwts_acpi_table_wpbt_type1 :: layout where [layouts]:
  "fwts_acpi_table_wpbt_type1 = [(''arguments_length'', 2), (''arguments'', 0)]"

definition fwts_acpi_table_wsmt :: layout where [layouts]:
  "fwts_acpi_table_wsmt = nest ''header'' fwts_acpi_table_header @ [(''protection_flags'', 4)]"

definition fwts_acpi_table_xenv :: layout where [layouts]:
  "fwts_acpi_table_xenv = nest ''header'' fwts_acpi_table_header @ [(''gnt_start'', 8), (''gnt_size'', 8),
     (''evtchn_intr'', 4), (''evtchn_intr_flags'', 1)]"

definition fwts_acpi_viot_node_hdr :: layout where [layouts]:
  "fwts_acpi_viot_node_hdr = [(''type'', 1), (''reserved'', 1), (''length'', 2)]"

definition fwts_acpi_viot_mmio_ep_node :: layout where [layouts]:
  "fwts_acpi_viot_mmio_ep_node = nest ''hdr'' fwts_acpi_viot_node_hdr @ [(''endpoint_id'', 4),
     (''base_addr'', 8), (''output_node'', 2), (''reserved'', 6)]"

definition fwts_acpi_viot_mmio_iommu_node :: layout where [layouts]:
  "fwts_acpi_viot_mmio_iommu_node = nest ''hdr'' fwts_acpi_viot_node_hdr @ [(''reserved'', 4),
     (''base_addr'', 8)]"

definition fwts_acpi_viot_pci_iommu_node :: layout where [layouts]:
  "fwts_acpi_viot_pci_iommu_node = nest ''hdr'' fwts_acpi_viot_node_hdr @ [(''pci_seg'', 2),
     (''pci_bdf_num'', 2), (''reserved'', 8)]"

definition fwts_acpi_viot_pci_rng_node :: layout where [layouts]:
  "fwts_acpi_viot_pci_rng_node = nest ''hdr'' fwts_acpi_viot_node_hdr @ [(''endpoint_start'', 4),
     (''pci_seg_start'', 2), (''pci_seg_end'', 2), (''pci_bdf_start'', 2), (''pci_bdf_end'', 2),
     (''output_node'', 2), (''reserved'', 6)]"

definition fwts_interconnect_descriptor_table :: layout where [layouts]:
  "fwts_interconnect_descriptor_table = [(''signature'', 16), (''num_of_descriptors'', 4)]"

definition fwts_interconnect_locator_descriptor :: layout where [layouts]:
  "fwts_interconnect_locator_descriptor = [(''intc_des_tbl_offset'', 8), (''reserved'', 4)]"

definition fwts_acpi_ibft_standard :: layout where [layouts]:
  "fwts_acpi_ibft_standard = [(''structure_id'', 1), (''version'', 1), (''length'', 2), (''index'', 1),
     (''flags'', 1)]"

definition fwts_acpi_ibft_control :: layout where [layouts]:
  "fwts_acpi_ibft_control = nest ''std'' fwts_acpi_ibft_standard @ [(''extensions'', 2),
     (''initiator_offset'', 2), (''nic_0_offset'', 2), (''target_0_offset'', 2), (''nic_1_offset'', 2),
     (''target_1_offset'', 2)]"

definition fwts_acpi_ibft_header :: layout where [layouts]:
  "fwts_acpi_ibft_header = [(''signature'', 4), (''length'', 4), (''revision'', 1), (''checksum'', 1),
     (''oem_id'', 6), (''oem_tbl_id'', 8), (''reserved'', 24)]"

definition fwts_acpi_ibft_initiator :: layout where [layouts]:
  "fwts_acpi_ibft_initiator = nest ''std'' fwts_acpi_ibft_standard @ [(''isns_server'', 16),
     (''slp_server'', 16), (''primary_radius_server'', 16), (''secondary_radius_server'', 16),
     (''initiator_name_length'', 2), (''initiator_name_offset'', 2)]"

definition fwts_acpi_ibft_nic :: layout where [layouts]:
  "fwts_acpi_ibft_nic = nest ''std'' fwts_acpi_ibft_standard @ [(''ip_address'', 16),
     (''subnet_mask_prefix'', 1), (''origin'', 1), (''gateway'', 16), (''primary_dns'', 16),
     (''secondary_dns'', 16), (''dhcp'', 16), (''vlan'', 2), (''mac_address'', 6),
     (''pci_bus_dev_func'', 2), (''host_name_length'', 2), (''host_name_offset'', 2)]"

definition fwts_acpi_ibft_target :: layout where [layouts]:
  "fwts_acpi_ibft_target = nest ''std'' fwts_acpi_ibft_standard @ [(''target_ip_address'', 16),
     (''target_ip_socket'', 2), (''target_boot_lun'', 8), (''chap_type'', 1), (''nic_sssociation'', 1),
     (''target_name_length'', 2), (''target_name_offset'', 2), (''chap_name_length'', 2),
     (''chap_name_offset'', 2), (''chap_secret_length'', 2), (''chap_secret_offset'', 2),
     (''reverse_chap_name_length'', 2), (''reverse_chap_name_offset'', 2),
     (''reverse_chap_secret_length'', 2), (''reverse_chap_secret_offset'', 2)]"

definition fwts_acpi_table_asf_addr :: layout where [layouts]:
  "fwts_acpi_table_asf_addr = [(''seeprom_addr'', 1), (''number_of_devices'', 1),
     (''fwts_acpi_table_asf_addr_element'', 0)]"

definition fwts_acpi_table_asf_addr_element :: layout where [layouts]:
  "fwts_acpi_table_asf_addr_element = [(''fixed_smbus_addr'', 1)]"

definition fwts_acpi_table_asf_alrt :: layout where [layouts]:
  "fwts_acpi_table_asf_alrt = [(''assertion_mask'', 1), (''deassertion_mask'', 1),
     (''number_of_alerts'', 1), (''array_length'', 1), (''device_length'', 0)]"

definition fwts_acpi_table_asf_alrt_element :: layout where [layouts]:
  "fwts_acpi_table_asf_alrt_element = [(''device_addr'', 1), (''command'', 1), (''data_mask'', 1),
     (''compare_value'', 1), (''sensor_type'', 1), (''event_type'', 1), (''event_offset'', 1),
     (''event_source_type'', 1), (''event_severity'', 1), (''sensor_number'', 1), (''entity'', 1),
     (''entity_instance'', 1)]"

definition fwts_acpi_table_asf_header :: layout where [layouts]:
  "fwts_acpi_table_asf_header = [(''type'', 1), (''reserved'', 1), (''length'', 2)]"

definition fwts_acpi_table_asf_info :: layout where [layouts]:
  "fwts_acpi_table_asf_info = [(''watchdog_reset_value'', 1), (''min_sensor_poll_wait_time'', 1),
     (''id'', 2), (''iana_id'', 4), (''flags'', 1), (''reserved1'', 1), (''reserved2'', 1),
     (''reserved3'', 1)]"

definition fwts_acpi_table_asf_rctl :: layout where [layouts]:
  "fwts_acpi_table_asf_rctl = [(''number_of_controls'', 1), (''array_element_length'', 1),
     (''reserved'', 2), (''elements'', 0)]"

definition fwts_acpi_table_asf_rctl_element :: layout where [layouts]:
  "fwts_acpi_table_asf_rctl_element = [(''control_function'', 1), (''control_device_addr'', 1),
     (''control_command'', 1), (''control_value'', 1)]"

definition fwts_acpi_table_asf_rmcp :: layout where [layouts]:
  "fwts_acpi_table_asf_rmcp = [(''remote_control_capabilities'', 7), (''completion_code'', 1),
     (''iana'', 4), (''special_command'', 1), (''special_command_param'', 2), (''boot_options'', 2),
     (''oem_parameters'', 2)]"

definition fwts_acpi_table_dbg2 :: layout where [layouts]:
  "fwts_acpi_table_dbg2 = nest ''header'' fwts_acpi_table_header @ [(''info_offset'', 4),
     (''info_count'', 4)]"

definition fwts_acpi_table_dbg2_info :: layout where [layouts]:
  "fwts_acpi_table_dbg2_info = [(''revision'', 1), (''length'', 2), (''number_of_regs'', 1),
     (''namespace_length'', 2), (''namespace_offset'', 2), (''oem_data_length'', 2),
     (''oem_data_offset'', 2), (''port_type'', 2), (''port_subtype'', 2), (''reserved'', 2),
     (''base_address_offset'', 2), (''address_size_offset'', 2)]"

definition fwts_acpi_table_gicc_affinity :: layout where [layouts]:
  "fwts_acpi_table_gicc_affinity = [(''type'', 1), (''length'', 1), (''proximity_domain'', 4),
     (''acpi_processor_uid'', 4), (''flags'', 4), (''clock_domain'', 4)]"

definition fwts_acpi_table_hest :: layout where [layouts]:
  "fwts_acpi_table_hest = nest ''header'' fwts_acpi_table_header @ [(''error_source_count'', 4)]"

definition fwts_acpi_table_hest_hardware_error_notification :: layout where [layouts]:
  "fwts_acpi_table_hest_hardware_error_notification = [(''type'', 1), (''length'', 1),
     (''configuration_write_enable'', 2), (''poll_interval'', 4), (''vector'', 4),
     (''switch_to_polling_threshold_value'', 4), (''switch_to_polling_threshold_window'', 4),
     (''error_threshold_value'', 4), (''error_threshold_window'', 4)]"

definition fwts_acpi_table_hest_generic_hardware_error_source :: layout where [layouts]:
  "fwts_acpi_table_hest_generic_hardware_error_source = [(''type'', 2), (''source_id'', 2),
     (''related_source_id'', 2), (''flags'', 1), (''enabled'', 1),
     (''number_of_records_to_preallocate'', 4), (''max_sections_per_record'', 4),
     (''max_raw_data_length'', 4)] @ nest ''error_status_address'' fwts_acpi_gas @
     nest ''notification'' fwts_acpi_table_hest_hardware_error_notification @
     [(''error_status_block_length'', 4)]"

definition fwts_acpi_table_hest_generic_hardware_error_source_v2 :: layout where [layouts]:
  "fwts_acpi_table_hest_generic_hardware_error_source_v2 = [(''type'', 2), (''source_id'', 2),
     (''related_source_id'', 2), (''flags'', 1), (''enabled'', 1),
     (''number_of_records_to_preallocate'', 4), (''max_sections_per_record'', 4),
     (''max_raw_data_length'', 4)] @ nest ''error_status_address'' fwts_acpi_gas @
     nest ''notification'' fwts_acpi_table_hest_hardware_error_notification @
     [(''error_status_block_length'', 4)] @ nest ''read_ack_register'' fwts_acpi_gas @
     [(''read_ack_preserve'', 8), (''read_ack_write'', 8)]"

definition fwts_acpi_table_hest_ia32_corrected_machine_check :: layout where [layouts]:
  "fwts_acpi_table_hest_ia32_corrected_machine_check = [(''type'', 2), (''source_id'', 2),
     (''reserved1'', 2), (''flags'', 1), (''enabled'', 1), (''number_of_records_to_preallocate'', 4),
     (''max_sections_per_record'', 4)] @
     nest ''notification'' fwts_acpi_table_hest_hardware_error_notification @
     [(''number_of_hardware_banks'', 1), (''reserved2'', 3), (''bank'', 0)]"

definition fwts_acpi_table_hest_ia32_machine_check_exception :: layout where [layouts]:
  "fwts_acpi_table_hest_ia32_machine_check_exception = [(''type'', 2), (''source_id'', 2),
     (''reserved1'', 2), (''flags'', 1), (''enabled'', 1), (''number_of_records_to_preallocate'', 4),
     (''max_sections_per_record'', 4), (''global_capability_init_data'', 8),
     (''global_control_init_data'', 8), (''number_of_hardware_banks'', 1), (''reserved2'', 7),
     (''bank'', 0)]"

definition fwts_acpi_table_hest_machine_check_bank :: layout where [layouts]:
  "fwts_acpi_table_hest_machine_check_bank = [(''bank_number'', 1), (''clear_status_on_initialization'', 1),
     (''status_data_format'', 1), (''reserved'', 1), (''control_register_msr_address'', 4),
     (''control_init_data'', 8), (''status_register_msr_address'', 4),
     (''address_register_msr_address'', 4), (''misc_register_msr_address'', 4)]"

definition fwts_acpi_table_hest_nmi_error :: layout where [layouts]:
  "fwts_acpi_table_hest_nmi_error = [(''type'', 2), (''source_id'', 2), (''reserved1'', 2),
     (''number_of_records_to_preallocate'', 4), (''max_sections_per_record'', 4),
     (''max_raw_data_length'', 4)]"

definition fwts_acpi_table_hest_pci_express_bridge_aer :: layout where [layouts]:
  "fwts_acpi_table_hest_pci_express_bridge_aer = [(''type'', 2), (''source_id'', 2), (''reserved1'', 2),
     (''flags'', 1), (''enabled'', 1), (''number_of_records_to_preallocate'', 4),
     (''max_sections_per_record'', 4), (''bus'', 4), (''device'', 2), (''function'', 2),
     (''device_control'', 2), (''reserved2'', 2), (''uncorrectable_error_mask'', 4),
     (''uncorrectable_error_severity'', 4), (''correctable_error_mask'', 4),
     (''advanced_error_capabilities_and_control'', 4), (''secondary_uncorrectable_error_mask'', 4),
     (''secondary_uncorrectable_error_severity'', 4),
     (''secondary_advanced_error_capabilities_and_control'', 4)]"

definition fwts_acpi_table_hest_pci_express_device_aer :: layout where [layouts]:
  "fwts_acpi_table_hest_pci_express_device_aer = [(''type'', 2), (''source_id'', 2), (''reserved1'', 2),
     (''flags'', 1), (''enabled'', 1), (''number_of_records_to_preallocate'', 4),
     (''max_sections_per_record'', 4), (''bus'', 4), (''device'', 2), (''function'', 2),
     (''device_control'', 2), (''reserved2'', 2), (''uncorrectable_error_mask'', 4),
     (''uncorrectable_error_severity'', 4), (''correctable_error_mask'', 4),
     (''advanced_error_capabilities_and_control'', 4)]"

definition fwts_acpi_table_hest_pci_express_root_port_aer :: layout where [layouts]:
  "fwts_acpi_table_hest_pci_express_root_port_aer = [(''type'', 2), (''source_id'', 2), (''reserved1'', 2),
     (''flags'', 1), (''enabled'', 1), (''number_of_records_to_preallocate'', 4),
     (''max_sections_per_record'', 4), (''bus'', 4), (''device'', 2), (''function'', 2),
     (''device_control'', 2), (''reserved2'', 2), (''uncorrectable_error_mask'', 4),
     (''uncorrectable_error_severity'', 4), (''correctable_error_mask'', 4),
     (''advanced_error_capabilities_and_control'', 4), (''root_error_command'', 4)]"

definition fwts_acpi_table_hpet :: layout where [layouts]:
  "fwts_acpi_table_hpet = nest ''header'' fwts_acpi_table_header @ [(''event_timer_block_id'', 4)] @
     nest ''base_address'' fwts_acpi_gas @ [(''hpet_number'', 1), (''main_counter_minimum'', 2),
     (''page_prot_and_oem_attribute'', 1)]"

definition fwts_acpi_table_initiator_affinity :: layout where [layouts]:
  "fwts_acpi_table_initiator_affinity = [(''type'', 1), (''length'', 1), (''reserved1'', 1),
     (''device_handle_type'', 1), (''proximity_domain'', 4), (''device_handle'', 16), (''flags'', 4),
     (''reserved2'', 4)]"

definition fwts_acpi_table_iort :: layout where [layouts]:
  "fwts_acpi_table_iort = nest ''header'' fwts_acpi_table_header @ [(''io_rt_nodes_count'', 4),
     (''io_rt_offset'', 4), (''reserved'', 4)]"

definition fwts_acpi_table_iort_id_mapping :: layout where [layouts]:
  "fwts_acpi_table_iort_id_mapping = [(''input_base'', 4), (''id_count'', 4), (''output_base'', 4),
     (''output_reference'', 4), (''flags'', 4)]"

definition fwts_acpi_table_iort_node :: layout where [layouts]:
  "fwts_acpi_table_iort_node = [(''type'', 1), (''length'', 2), (''revision'', 1), (''identifier'', 4),
     (''id_mappings_count'', 4), (''id_array_offset'', 4)]"

definition fwts_acpi_table_iort_its_group_node :: layout where [layouts]:
  "fwts_acpi_table_iort_its_group_node = nest ''iort_node'' fwts_acpi_table_iort_node @ [(''its_count'', 4),
     (''identifier_array'', 0)]"

definition fwts_acpi_table_iort_mem_rng_des :: layout where [layouts]:
  "fwts_acpi_table_iort_mem_rng_des = [(''physical_range_offset'', 8), (''physical_range_length'', 8),
     (''reserved'', 4)]"

definition fwts_acpi_table_iort_properties :: layout where [layouts]:
  "fwts_acpi_table_iort_properties = [(''cache_coherent'', 4), (''allocation_hints'', 1), (''reserved'', 2),
     (''memory_access_flags'', 1)]"

definition fwts_acpi_table_iort_named_component_node :: layout where [layouts]:
  "fwts_acpi_table_iort_named_component_node = nest ''iort_node'' fwts_acpi_table_iort_node @
     [(''flags'', 4)] @ nest ''properties'' fwts_acpi_table_iort_properties @
     [(''device_memory_address_size'', 1), (''device_object_name'', 0)]"

definition fwts_acpi_table_iort_pci_root_complex_node :: layout where [layouts]:
  "fwts_acpi_table_iort_pci_root_complex_node = nest ''iort_node'' fwts_acpi_table_iort_node @
     nest ''properties'' fwts_acpi_table_iort_properties @ [(''ats_attribute'', 4),
     (''pci_segment_number'', 4), (''memory_addr_size_limit'', 1), (''pasid_cap'', 2), (''reserved'', 1),
     (''flags'', 4)]"

definition fwts_acpi_table_iort_pmcg_node :: layout where [layouts]:
  "fwts_acpi_table_iort_pmcg_node = nest ''iort_node'' fwts_acpi_table_iort_node @ [(''base_address'', 8),
     (''gsiv'', 4), (''node_ref'', 4), (''p1_base_address'', 8)]"

definition fwts_acpi_table_iort_rmr_node :: layout where [layouts]:
  "fwts_acpi_table_iort_rmr_node = nest ''iort_node'' fwts_acpi_table_iort_node @ [(''flags'', 4),
     (''num_mem_rng_des'', 4), (''mem_rng_des_offset'', 4)]"

definition fwts_acpi_table_iort_smmu_global_interrupt_array :: layout where [layouts]:
  "fwts_acpi_table_iort_smmu_global_interrupt_array = [(''smmu_nsgirpt'', 4), (''smmu_nsgirpt_flags'', 4),
     (''smmu_nsgcfgirpt'', 4), (''smmu_nsgcfgirpt_flags'', 4)]"

definition fwts_acpi_table_iort_smmu_interrupt :: layout where [layouts]:
  "fwts_acpi_table_iort_smmu_interrupt = [(''gsiv'', 4), (''flags'', 4)]"

definition fwts_acpi_table_iort_smmu_node :: layout where [layouts]:
  "fwts_acpi_table_iort_smmu_node = nest ''iort_node'' fwts_acpi_table_iort_node @ [(''base_address'', 8),
     (''span'', 8), (''model'', 4), (''flags'', 4), (''global_interrupt_array_offset'', 4),
     (''context_interrupt_count'', 4), (''context_interrupt_array_offset'', 4),
     (''pmu_interrupt_count'', 4), (''pmu_interrupt_array_offset'', 4)]"

definition fwts_acpi_table_iort_smmuv3_node :: layout where [layouts]:
  "fwts_acpi_table_iort_smmuv3_node = nest ''iort_node'' fwts_acpi_table_iort_node @ [(''base_address'', 8),
     (''flags'', 4), (''reserved'', 4), (''vatos_address'', 8), (''model'', 4), (''event'', 4),
     (''pri'', 4), (''gerr'', 4), (''sync'', 4), (''proximity_domain'', 4), (''deviceid_mapping_idx'', 4)]"

definition fwts_acpi_table_its_affinity :: layout where [layouts]:
  "fwts_acpi_table_its_affinity = [(''type'', 1), (''length'', 1), (''proximity_domain'', 4),
     (''reserved'', 2), (''its_id'', 4)]"

definition fwts_acpi_table_local_apic_sapic_affinity :: layout where [layouts]:
  "fwts_acpi_table_local_apic_sapic_affinity = [(''type'', 1), (''length'', 1), (''proximity_domain_0'', 1),
     (''apic_id'', 1), (''flags'', 4), (''local_sapic_eid'', 1), (''proximity_domain_1'', 1),
     (''proximity_domain_2'', 1), (''proximity_domain_3'', 1), (''clock_domain'', 4)]"

definition fwts_acpi_table_local_x2apic_affinity :: layout where [layouts]:
  "fwts_acpi_table_local_x2apic_affinity = [(''type'', 1), (''length'', 1), (''reserved1'', 2),
     (''proximity_domain'', 4), (''x2apic_id'', 4), (''flags'', 4), (''clock_domain'', 4),
     (''reserved2'', 4)]"

definition fwts_acpi_table_memory_affinity :: layout where [layouts]:
  "fwts_acpi_table_memory_affinity = [(''type'', 1), (''length'', 1), (''proximity_domain'', 4),
     (''reserved1'', 2), (''base_addr_lo'', 4), (''base_addr_hi'', 4), (''length_lo'', 4),
     (''length_hi'', 4), (''reserved2'', 4), (''flags'', 4), (''reserved3'', 8)]"

definition fwts_acpi_table_nfit :: layout where [layouts]:
  "fwts_acpi_table_nfit = nest ''header'' fwts_acpi_table_header @ [(''reserved'', 4)]"

definition fwts_acpi_table_nfit_struct_header :: layout where [layouts]:
  "fwts_acpi_table_nfit_struct_header = [(''type'', 2), (''length'', 2)]"

definition fwts_acpi_table_nfit_control_range :: layout where [layouts]:
  "fwts_acpi_table_nfit_control_range = nest ''header'' fwts_acpi_table_nfit_struct_header @
     [(''region_index'', 2), (''vendor_id'', 2), (''device_id'', 2), (''revision_id'', 2),
     (''subsystem_vendor_id'', 2), (''subsystem_device_id'', 2), (''subsystem_revision_id'', 2),
     (''valid_fields'', 1), (''manufacturing_location'', 1), (''manufacturing_date'', 2), (''reserved'', 2),
     (''serial_number'', 4), (''interface_code'', 2), (''windows_num'', 2), (''window_size'', 8),
     (''command_offset'', 8), (''command_size'', 8), (''status_offset'', 8), (''status_size'', 8),
     (''flags'', 2), (''reserved1'', 6)]"

definition fwts_acpi_table_nfit_data_range :: layout where [layouts]:
  "fwts_acpi_table_nfit_data_range = nest ''header'' fwts_acpi_table_nfit_struct_header @
     [(''region_index'', 2), (''window_num'', 2), (''window_offset'', 8), (''window_size'', 8),
     (''capacity'', 8), (''start_address'', 8)]"

definition fwts_acpi_table_nfit_flush_addr :: layout where [layouts]:
  "fwts_acpi_table_nfit_flush_addr = nest ''header'' fwts_acpi_table_nfit_struct_header @
     [(''device_handle'', 4), (''hint_count'', 2), (''reserved'', 6), (''hint_address'', 0)]"

definition fwts_acpi_table_nfit_interleave :: layout where [layouts]:
  "fwts_acpi_table_nfit_interleave = nest ''header'' fwts_acpi_table_nfit_struct_header @
     [(''interleave_index'', 2), (''reserved'', 2), (''line_count'', 4), (''line_size'', 4),
     (''line_offset'', 0)]"

definition fwts_acpi_table_nfit_memory_map :: layout where [layouts]:
  "fwts_acpi_table_nfit_memory_map = nest ''header'' fwts_acpi_table_nfit_struct_header @
     [(''device_handle'', 4), (''physical_id'', 2), (''region_id'', 2), (''range_index'', 2),
     (''region_index'', 2), (''region_size'', 8), (''region_offset'', 8), (''address'', 8),
     (''interleave_index'', 2), (''interleave_ways'', 2), (''flags'', 2), (''reserved'', 2)]"

definition fwts_acpi_table_nfit_platform_cap :: layout where [layouts]:
  "fwts_acpi_table_nfit_platform_cap = nest ''header'' fwts_acpi_table_nfit_struct_header @
     [(''highest_valid_cap'', 1), (''reserved1'', 3), (''cap'', 4), (''reserved2'', 4)]"

definition fwts_acpi_table_nfit_smbios :: layout where [layouts]:
  "fwts_acpi_table_nfit_smbios = nest ''header'' fwts_acpi_table_nfit_struct_header @ [(''reserved'', 4),
     (''smbios'', 0)]"

definition fwts_acpi_table_nfit_system_memory :: layout where [layouts]:
  "fwts_acpi_table_nfit_system_memory = nest ''header'' fwts_acpi_table_nfit_struct_header @
     [(''range_index'', 2), (''flags'', 2), (''reserved'', 4), (''proximity_domain'', 4),
     (''range_guid'', 16), (''address'', 8), (''length'', 8), (''memory_mapping'', 8),
     (''spa_location_cookie'', 8)]"

definition fwts_acpi_table_pcct :: layout where [layouts]:
  "fwts_acpi_table_pcct = nest ''header'' fwts_acpi_table_header @ [(''flags'', 4), (''reserved'', 8)]"

definition fwts_acpi_table_pcct_subspace_header :: layout where [layouts]:
  "fwts_acpi_table_pcct_subspace_header = [(''type'', 1), (''length'', 1)]"

definition fwts_acpi_table_pcct_subspace_type_0 :: layout where [layouts]:
  "fwts_acpi_table_pcct_subspace_type_0 = nest ''header'' fwts_acpi_table_pcct_subspace_header @
     [(''reserved'', 6), (''base_address'', 8), (''length'', 8)] @
     nest ''doorbell_register'' fwts_acpi_gas @ [(''doorbell_preserve'', 8), (''doorbell_write'', 8),
     (''nominal_latency'', 4), (''max_periodic_access_rate'', 4), (''min_request_turnaround_time'', 2)]"

definition fwts_acpi_table_pcct_subspace_type_1 :: layout where [layouts]:
  "fwts_acpi_table_pcct_subspace_type_1 = nest ''header'' fwts_acpi_table_pcct_subspace_header @
     [(''platform_interrupt'', 4), (''platform_interrupt_flags'', 1), (''reserved'', 1),
     (''base_address'', 8), (''length'', 8)] @ nest ''doorbell_register'' fwts_acpi_gas @
     [(''doorbell_preserve'', 8), (''doorbell_write'', 8), (''nominal_latency'', 4),
     (''max_periodic_access_rate'', 4), (''min_request_turnaround_time'', 2)]"

definition fwts_acpi_table_pcct_subspace_type_2 :: layout where [layouts]:
  "fwts_acpi_table_pcct_subspace_type_2 = nest ''header'' fwts_acpi_table_pcct_subspace_header @
     [(''platform_interrupt'', 4), (''platform_interrupt_flags'', 1), (''reserved'', 1),
     (''base_address'', 8), (''length'', 8)] @ nest ''doorbell_register'' fwts_acpi_gas @
     [(''doorbell_preserve'', 8), (''doorbell_write'', 8), (''nominal_latency'', 4),
     (''max_periodic_access_rate'', 4), (''min_request_turnaround_time'', 2)] @
     nest ''platform_ack_register'' fwts_acpi_gas @ [(''platform_ack_preserve'', 8),
     (''platform_ack_write'', 8)]"

definition fwts_acpi_table_pcct_subspace_type_3_4 :: layout where [layouts]:
  "fwts_acpi_table_pcct_subspace_type_3_4 = nest ''header'' fwts_acpi_table_pcct_subspace_header @
     [(''platform_interrupt'', 4), (''platform_interrupt_flags'', 1), (''reserved1'', 1),
     (''base_address'', 8), (''length'', 4)] @ nest ''doorbell_register'' fwts_acpi_gas @
     [(''doorbell_preserve'', 8), (''doorbell_write'', 8), (''nominal_latency'', 4),
     (''max_periodic_access_rate'', 4), (''min_request_turnaround_time'', 4)] @
     nest ''platform_ack_register'' fwts_acpi_gas @ [(''platform_ack_preserve'', 8),
     (''platform_ack_write'', 8), (''reserved2'', 8)] @ nest ''cmd_complete_register'' fwts_acpi_gas @
     [(''cmd_complete_mask'', 8)] @ nest ''cmd_update_register'' fwts_acpi_gas @
     [(''cmd_update_preserve_mask'', 8), (''cmd_update_set_mask'', 8)] @
     nest ''error_status_register'' fwts_acpi_gas @ [(''error_status_mask'', 8)]"

definition fwts_acpi_table_pcct_subspace_type_5 :: layout where [layouts]:
  "fwts_acpi_table_pcct_subspace_type_5 = nest ''header'' fwts_acpi_table_pcct_subspace_header @
     [(''version'', 2), (''base_address'', 8), (''shared_memory_range_length'', 8)] @
     nest ''doorbell_register'' fwts_acpi_gas @ [(''doorbell_preserve'', 8), (''doorbell_write'', 8)] @
     nest ''cmd_complete_register'' fwts_acpi_gas @ [(''cmd_complete_mask'', 8)] @
     nest ''error_status_register'' fwts_acpi_gas @ [(''error_status_mask'', 8), (''nominal_latency'', 4),
     (''min_request_turnaround_time'', 4)]"

definition fwts_acpi_table_port_affinity :: layout where [layouts]:
  "fwts_acpi_table_port_affinity = [(''type'', 1), (''length'', 1), (''reserved1'', 1),
     (''device_handle_type'', 1), (''proximity_domain'', 4), (''device_handle'', 16), (''flags'', 4),
     (''reserved2'', 4)]"

definition fwts_acpi_table_rintc_affinity :: layout where [layouts]:
  "fwts_acpi_table_rintc_affinity = [(''type'', 1), (''length'', 1), (''reserved'', 2),
     (''proximity_domain'', 4), (''acpi_processor_uid'', 4), (''flags'', 4), (''clock_domain'', 4)]"

definition fwts_acpi_table_srat :: layout where [layouts]:
  "fwts_acpi_table_srat = nest ''header'' fwts_acpi_table_header @ [(''reserved1'', 4), (''reserved2'', 8)]"

section \<open>Structs with a union\<close>

definition fwts_acpi_table_tcpa_client :: layout where [layouts]:
  "fwts_acpi_table_tcpa_client = nest ''header'' fwts_acpi_table_header @ [(''platform_class'', 2),
     (''client.log_zone_length'', 4), (''client.log_zone_addr'', 8)]"

definition fwts_acpi_table_tcpa_server :: layout where [layouts]:
  "fwts_acpi_table_tcpa_server = nest ''header'' fwts_acpi_table_header @ [(''platform_class'', 2),
     (''server.reserved'', 2), (''server.log_zone_length'', 8), (''server.log_zone_addr'', 8),
     (''server.spec_revision'', 2), (''server.device_flag'', 1), (''server.interrupt_flag'', 1),
     (''server.gpe'', 1), (''server.reserved2'', 3), (''server.global_sys_interrupt'', 4)] @
     nest ''server.base_addr'' fwts_acpi_gas @ [(''server.reserved3'', 4)] @
     nest ''server.config_addr'' fwts_acpi_gas @ [(''server.pci_seg_number'', 1),
     (''server.pci_bus_number'', 1), (''server.pci_dev_number'', 1), (''server.pci_func_number'', 1)]"

definition fwts_aspt_sub_header :: layout where [layouts]:
  "fwts_aspt_sub_header = [(''type'', 2), (''length'', 2)]"

definition fwts_acpi_table_asp_global_v1 :: layout where [layouts]:
  "fwts_acpi_table_asp_global_v1 = nest ''header'' fwts_aspt_sub_header @ [(''reserved'', 4),
     (''v1.feature_reg_addr'', 8), (''v1.interrupt_enable_reg_addr'', 8), (''v1.interrupt_stable_reg_addr'', 8)]"

definition fwts_acpi_table_asp_global_v2 :: layout where [layouts]:
  "fwts_acpi_table_asp_global_v2 = nest ''header'' fwts_aspt_sub_header @ [(''reserved'', 4),
     (''v2.feature_reg_offset'', 4), (''v2.interrupt_enable_reg_offset'', 4), (''v2.interrupt_stable_reg_offset'', 4)]"

definition fwts_acpi_table_sev_mailbox_v1 :: layout where [layouts]:
  "fwts_acpi_table_sev_mailbox_v1 = nest ''header'' fwts_aspt_sub_header @ [(''mailbox_interrupt_id'', 1),
     (''reserved'', 3), (''v1.cmdresp_reg_addr'', 8), (''v1.cmdbufaddr_lo_reg_addr'', 8),
     (''v1.cmdbufaddr_hi_reg_addr'', 8)]"

definition fwts_acpi_table_sev_mailbox_v2 :: layout where [layouts]:
  "fwts_acpi_table_sev_mailbox_v2 = nest ''header'' fwts_aspt_sub_header @ [(''mailbox_interrupt_id'', 1),
     (''reserved'', 3), (''v2.cmdresp_reg_offset'', 4), (''v2.cmdbufaddr_lo_reg_offset'', 4),
     (''v2.cmdbufaddr_hi_reg_offset'', 4)]"

definition fwts_acpi_table_acpi_mailbox_v1 :: layout where [layouts]:
  "fwts_acpi_table_acpi_mailbox_v1 = nest ''header'' fwts_aspt_sub_header @ [(''reserved'', 4),
     (''v1.cmdresp_reg_addr'', 8), (''v1.reserved1'', 16)]"

definition fwts_acpi_table_acpi_mailbox_v2 :: layout where [layouts]:
  "fwts_acpi_table_acpi_mailbox_v2 = nest ''header'' fwts_aspt_sub_header @ [(''reserved'', 4),
     (''v2.cmdresp_reg_offset'', 4), (''v2.reserved1'', 8)]"

definition fwts_acpi_table_aspt_v1 :: layout where [layouts]:
  "fwts_acpi_table_aspt_v1 = nest ''header'' fwts_acpi_table_header @ [(''v1.asp_reg_count'', 4)]"

definition fwts_acpi_table_aspt_v2 :: layout where [layouts]:
  "fwts_acpi_table_aspt_v2 = nest ''header'' fwts_acpi_table_header @ [(''v2.asp_reg_base_addr'', 8),
     (''v2.asp_reg_apace_pages'', 4), (''v2.asp_reg_count'', 4)]"

end
