(* ===== verification/Fwts_Table_Tests.thy ===== *)
theory Fwts_Table_Tests
  imports Fwts_Tables Fwts_Table_Layouts
begin

text \<open>
  What the tests of single ACPI tables (src/src/acpi) share. A test gets the bytes of its table and
  gives its reports, in the order they are made; None is an access outside the table, which C leaves
  undefined. A pointer to a packed struct is a view of its members from the first to the last one that
  the test uses, which must lie in the table; their values are words of 64 bits. Lines that are only logged are left
  out, but the accesses they make are not: where a test dumps bytes, it needs them to be there.

  Tests that keep a flag \<open>passed\<close> end with conclude; the statements that clear it are modelled one by
  one. The loops over the records of a table are scan, whose body says where to go on; the locale table_scan holds
  what such loops guarantee, and is interpreted on the loops of the tests in Fwts_Table_Runs.
\<close>

section \<open>Views of packed structs\<close>

type_synonym members = "string \<Rightarrow> u64"

definition member_at :: "bytes \<Rightarrow> nat \<Rightarrow> layout \<Rightarrow> members" where
  "member_at t off l f =
     (case field_at l f off of None \<Rightarrow> 0 | Some (o', n) \<Rightarrow> le_word (take n (drop o' t)))"

definition view :: "bytes \<Rightarrow> nat \<Rightarrow> layout \<Rightarrow> members option" where
  "view t off l = (if off + sizeof l \<le> length t then Some (member_at t off l) else None)"

text \<open>The members of a struct up to one, for tests that use no more.\<close>

fun up_to :: "string \<Rightarrow> layout \<Rightarrow> layout" where
  "up_to f [] = []"
| "up_to f ((g, n) # l) = (if g = f then [(g, n)] else (g, n) # up_to f l)"

text \<open>A dump of n bytes from an offset on, and a byte.\<close>

definition has_bytes :: "bytes \<Rightarrow> nat \<Rightarrow> nat \<Rightarrow> unit option" where
  "has_bytes t off n = (if off + n \<le> length t then Some () else None)"

definition byte_in :: "bytes \<Rightarrow> nat \<Rightarrow> u8 option" where
  "byte_in t off = (if off < length t then Some (t ! off) else None)"

text \<open>Offsets that the code keeps in 32 bits, and unsigned differences.\<close>

definition add32 :: "nat \<Rightarrow> nat \<Rightarrow> nat" where
  "add32 m n = (m + n) mod 2 ^ 32"

definition sub32 :: "nat \<Rightarrow> nat \<Rightarrow> nat" where
  "sub32 m n = unat (of_nat m - of_nat n :: u32)"

definition sub64 :: "nat \<Rightarrow> nat \<Rightarrow> nat" where
  "sub64 m n = unat (of_nat m - of_nat n :: u64)"

section \<open>The flag of a test\<close>

text \<open>
  A test keeps a flag \<open>passed\<close>, which is set at first, cleared by statements of its own, and looked at where
  the test ends. What a test does is the list of its reports and of these statements, in the order of the
  code: a failure that clears the flag is two acts, and where one is missing in the code it is missing here.
\<close>

datatype act =
    Says report
  | Unpass

definition said :: "act list \<Rightarrow> report list" where
  "said acts = concat (map (\<lambda>a. case a of Says r \<Rightarrow> [r] | Unpass \<Rightarrow> []) acts)"

text \<open>The end of a test: it passes the table if nothing has cleared the flag.\<close>

definition conclude :: "act list \<Rightarrow> report list" where
  "conclude acts = said acts @ (if Unpass \<in> set acts then [] else [Passed])"

definition fails :: "u32 \<Rightarrow> cstr \<Rightarrow> act list" where
  "fails level label = [Says (Failed level label), Unpass]"

definition fault_if :: "bool \<Rightarrow> report \<Rightarrow> act list" where
  "fault_if bad r = (if bad then [Says r, Unpass] else [])"

text \<open>
  The checks that give back whether they failed leave the flag to their caller, which clears it; those that
  are given the flag clear it themselves.
\<close>

definition unpass :: "report list \<Rightarrow> act list" where
  "unpass rs = map Says rs @ [Unpass]"

definition clears :: "report list \<Rightarrow> act list" where
  "clears rs = (if rs = [] then [] else unpass rs)"

definition reserved_zero :: "cstr \<Rightarrow> cstr \<Rightarrow> u64 \<Rightarrow> act list" where
  "reserved_zero table field v = clears (fwts_acpi_reserved_zero table field v)"

definition reserved_zero_array :: "cstr \<Rightarrow> cstr \<Rightarrow> bytes \<Rightarrow> act list" where
  "reserved_zero_array table field bs = clears (fwts_acpi_reserved_zero_array table field bs)"

definition fixed_value :: "u32 \<Rightarrow> cstr \<Rightarrow> cstr \<Rightarrow> u64 \<Rightarrow> u64 \<Rightarrow> act list" where
  "fixed_value level table field actual must_be = clears (fwts_acpi_fixed_value level table field actual must_be)"

definition revision_check :: "cstr \<Rightarrow> u64 \<Rightarrow> u64 \<Rightarrow> act list" where
  "revision_check table actual must_be = clears (fwts_acpi_revision_check table actual must_be)"

definition reserved_bits :: "cstr \<Rightarrow> cstr \<Rightarrow> u64 \<Rightarrow> nat \<Rightarrow> nat \<Rightarrow> act list" where
  "reserved_bits table field v lo hi = clears (fwts_acpi_reserved_bits table field v lo hi)"

definition reserved_type :: "cstr \<Rightarrow> u64 \<Rightarrow> u64 \<Rightarrow> u64 \<Rightarrow> act list" where
  "reserved_type table v lo reserved = clears (fwts_acpi_reserved_type table v lo reserved)"

definition space_id :: "cstr \<Rightarrow> cstr \<Rightarrow> u64 \<Rightarrow> u64 list \<Rightarrow> act list" where
  "space_id table field actual ids = clears (fwts_acpi_space_id table field actual ids)"

lemmas flag_checks = fault_if_def fails_def unpass_def clears_def reserved_zero_def reserved_zero_array_def
  fixed_value_def revision_check_def reserved_bits_def reserved_type_def space_id_def

lemma said_simps [simp]:
  "said [] = []" "said (Says r # acts) = r # said acts" "said (Unpass # acts) = said acts"
  "said (map Says rs) = rs"
  by (induction rs) (simp_all add: said_def)

lemma said_append: "said (acts @ acts') = said acts @ said acts'"
  by (simp add: said_def)

type_synonym table_test = "bytes \<Rightarrow> report list option"

section \<open>Loops\<close>

text \<open>The structs of an array.\<close>

definition structs :: "bytes \<Rightarrow> nat \<Rightarrow> layout \<Rightarrow> nat \<Rightarrow> members list option" where
  "structs t off l n = those (map (\<lambda>i. view t (off + i * sizeof l) l) [0..<n])"

text \<open>A loop with a fixed number of rounds and no way out.\<close>

fun rounds :: "nat list \<Rightarrow> (nat \<Rightarrow> 'r list option) \<Rightarrow> 'r list option" where
  "rounds [] body = Some []"
| "rounds (i # is) body = do { rs \<leftarrow> body i; rs' \<leftarrow> rounds is body; Some (rs @ rs') }"

text \<open>
  A loop over positions that satisfy a condition. The body says where to go on, or that the loop is left,
  or that the test returns without its verdict; the position at the end is None in the last case. The
  fuel is only the argument of the recursion: the locale table_scan has how much is enough.
\<close>

datatype 'i advance = Goto 'i | Leave 'i | Return

fun scan :: "nat \<Rightarrow> ('i \<Rightarrow> bool) \<Rightarrow> ('i \<Rightarrow> ('r list \<times> 'i advance) option) \<Rightarrow> 'i \<Rightarrow>
    ('r list \<times> 'i option) option" where
  "scan 0 inside body i = None"
| "scan (Suc fuel) inside body i =
     (if \<not> inside i then Some ([], Some i)
      else do { (rs, next) \<leftarrow> body i;
                case next of
                  Leave j \<Rightarrow> Some (rs, Some j)
                | Return \<Rightarrow> Some (rs, None)
                | Goto j \<Rightarrow> do { (rs', last) \<leftarrow> scan fuel inside body j; Some (rs @ rs', last) } })"

text \<open>The end of a test with such a loop: the acts before it, and what it gives.\<close>

definition after_scan :: "act list \<Rightarrow> act list \<times> 'i option \<Rightarrow> report list" where
  "after_scan rs r = (if snd r = None then said (rs @ fst r) else conclude (rs @ fst r))"

text \<open>
  The two checks around a record: its length must not be zero, and the next must begin in the table or
  at its end.
\<close>

definition on_record :: "cstr \<Rightarrow> u64 \<Rightarrow> nat \<Rightarrow> (act list \<times> nat advance) option \<Rightarrow> (act list \<times> nat advance) option" where
  "on_record table len off k =
     (case fwts_acpi_structure_length_zero table len off of [] \<Rightarrow> k | rs \<Rightarrow> Some (unpass rs, Leave off))"

definition to_next :: "cstr \<Rightarrow> bytes \<Rightarrow> act list \<Rightarrow> nat \<Rightarrow> act list \<times> nat advance" where
  "to_next table t rs off =
     (case fwts_acpi_structure_range table (length t) off of
        [] \<Rightarrow> (rs, Goto off)
      | rs' \<Rightarrow> (rs @ unpass rs', Leave off))"

section \<open>How a loop ends\<close>

text \<open>
  A loop ends with a result, or it faults on a read outside the table, or it goes on for ever; the three
  exclude each other. The result and the reports do not depend on the fuel.
\<close>

inductive faults :: "('i \<Rightarrow> bool) \<Rightarrow> ('i \<Rightarrow> ('r list \<times> 'i advance) option) \<Rightarrow> 'i \<Rightarrow> bool"
  for inside body where
  fault: "inside i \<Longrightarrow> body i = None \<Longrightarrow> faults inside body i"
| fault_later: "inside i \<Longrightarrow> body i = Some (rs, Goto j) \<Longrightarrow> faults inside body j \<Longrightarrow> faults inside body i"

coinductive diverges :: "('i \<Rightarrow> bool) \<Rightarrow> ('i \<Rightarrow> ('r list \<times> 'i advance) option) \<Rightarrow> 'i \<Rightarrow> bool"
  for inside body where
  go_on: "inside i \<Longrightarrow> body i = Some (rs, Goto j) \<Longrightarrow> diverges inside body j \<Longrightarrow> diverges inside body i"

inductive_cases faultsE: "faults inside body i"

lemma scan_Suc:
  "scan (Suc fuel) inside body i =
     (if \<not> inside i then Some ([], Some i)
      else case body i of
          None \<Rightarrow> None
        | Some (rs, Leave j) \<Rightarrow> Some (rs, Some j)
        | Some (rs, Return) \<Rightarrow> Some (rs, None)
        | Some (rs, Goto j) \<Rightarrow> map_option (\<lambda>(rs', last). (rs @ rs', last)) (scan fuel inside body j))"
proof (cases "body i")
  case (Some r)
  obtain rs nx where "r = (rs, nx)" by (cases r)
  then show ?thesis using Some by (cases nx; cases "scan fuel inside body (case nx of Goto j \<Rightarrow> j)") auto
qed simp

declare scan.simps(2) [simp del]

lemma scan_round:
  assumes "inside i"
  shows "body i = None \<Longrightarrow> scan (Suc fuel) inside body i = None"
    and "body i = Some (rs, Leave j) \<Longrightarrow> scan (Suc fuel) inside body i = Some (rs, Some j)"
    and "body i = Some (rs, Return) \<Longrightarrow> scan (Suc fuel) inside body i = Some (rs, None)"
    and "body i = Some (rs, Goto j) \<Longrightarrow>
      scan (Suc fuel) inside body i = map_option (\<lambda>(rs', last). (rs @ rs', last)) (scan fuel inside body j)"
  using assms by (simp_all add: scan_Suc)

lemma scan_more: "scan fuel inside body i = Some r \<Longrightarrow> fuel \<le> fuel' \<Longrightarrow> scan fuel' inside body i = Some r"
proof (induction fuel arbitrary: i r fuel')
  case (Suc fuel)
  obtain k where k: "fuel' = Suc k" "fuel \<le> k" using Suc.prems(2) by (cases fuel') auto
  show ?case
  proof (cases "inside i")
    case True
    with Suc.prems(1) obtain rs nx where b: "body i = Some (rs, nx)" by (cases "body i") (auto simp: scan_round)
    show ?thesis
    proof (cases nx)
      case (Goto j)
      then obtain r' where "scan fuel inside body j = Some r'" using Suc.prems(1) b True
        by (auto simp: scan_round)
      then show ?thesis using Suc.IH [of j r' k] Suc.prems(1) True b Goto k by (simp add: scan_round)
    qed (use Suc.prems(1) True b k in \<open>simp_all add: scan_round\<close>)
  qed (use Suc.prems(1) k in \<open>simp add: scan_Suc\<close>)
qed simp

lemma faults_no_scan: "faults inside body i \<Longrightarrow> scan fuel inside body i = None"
proof (induction arbitrary: fuel rule: faults.induct)
  case (fault i)
  then show ?case by (cases fuel) (simp_all add: scan_Suc)
next
  case (fault_later i rs j)
  then show ?case by (cases fuel) (simp_all add: scan_Suc)
qed

lemma diverges_no_scan: "diverges inside body i \<Longrightarrow> scan fuel inside body i = None"
proof (induction fuel arbitrary: i)
  case (Suc fuel)
  from Suc.prems show ?case by (cases rule: diverges.cases) (simp add: scan_Suc Suc.IH)
qed simp

lemma scan_trichotomy:
  "(\<exists>fuel r. scan fuel inside body i = Some r) \<or> faults inside body i \<or> diverges inside body i"
proof (rule ccontr)
  assume "\<not> ?thesis"
  moreover define lost where
    "lost i \<longleftrightarrow> (\<forall>fuel. scan fuel inside body i = None) \<and> \<not> faults inside body i" for i
  ultimately have "lost i" and *: "\<not> diverges inside body i"
    by (auto simp: lost_def simp del: not_None_eq intro: option.exhaust)
  from this(1) have "diverges inside body i"
  proof (coinduction arbitrary: i)
    case diverges
    then have none: "scan (Suc n) inside body i = None" for n by (simp add: lost_def del: scan.simps)
    have inside: "inside i"
    proof (rule ccontr)
      assume "\<not> inside i"
      then show False using none [of 0] by (simp add: scan_Suc)
    qed
    moreover from inside diverges obtain rs nx where b: "body i = Some (rs, nx)"
      by (cases "body i") (auto simp: lost_def intro: fault)
    moreover from none [of 0] inside b obtain j where nx: "nx = Goto j" by (cases nx) (auto simp: scan_round)
    moreover have "lost j" unfolding lost_def
    proof (intro conjI allI)
      show "scan n inside body j = None" for n using none [of n] inside b nx by (simp add: scan_round)
      show "\<not> faults inside body j" using diverges inside b nx by (auto simp: lost_def intro: fault_later)
    qed
    ultimately show ?case by auto
  qed
  with * show False by simp
qed

lemma diverges_here: "inside i \<Longrightarrow> body i = Some (rs, Goto i) \<Longrightarrow> diverges inside body i"
  by (coinduction) auto

text \<open>A loop whose rounds all come closer to its end does not go on for ever.\<close>

locale table_scan =
  fixes small :: bool
    and left :: "'i \<Rightarrow> nat"
    and inside :: "'i \<Rightarrow> bool"
    and body :: "'i \<Rightarrow> ('r list \<times> 'i advance) option"
  assumes progress: "small \<Longrightarrow> inside i \<Longrightarrow> body i = Some (rs, Goto j) \<Longrightarrow> left j < left i"
begin

lemma fuel_enough:
  assumes small and "left i < fuel" and "left i < fuel'"
  shows "scan fuel inside body i = scan fuel' inside body i"
  using assms(2,3)
proof (induction fuel arbitrary: fuel' i)
  case (Suc fuel)
  then obtain k where k: "fuel' = Suc k" by (cases fuel') auto
  have "scan fuel inside body j = scan k inside body j" if "inside i" and "body i = Some (rs, Goto j)" for rs j
    using progress [OF assms(1) that] Suc.prems k by (intro Suc.IH) auto
  then show ?case by (auto simp: k scan_Suc split: option.split advance.split)
qed simp

lemma ends:
  assumes small
  shows "\<not> diverges inside body i"
proof (induction "left i" arbitrary: i rule: less_induct)
  case less
  show ?case
  proof
    assume "diverges inside body i"
    then obtain rs j where "inside i" "body i = Some (rs, Goto j)" "diverges inside body j"
      by (cases rule: diverges.cases)
    then show False using progress [OF assms] less by blast
  qed
qed

text \<open>With enough fuel a loop without a result has read outside the table.\<close>

lemma no_result_iff:
  assumes small and "left i < fuel"
  shows "scan fuel inside body i = None \<longleftrightarrow> faults inside body i"
proof
  assume none: "scan fuel inside body i = None"
  have "scan n inside body i = None" for n
  proof (cases "left i < n")
    case False
    then show ?thesis using none scan_more [of n inside body i _ fuel] assms(2)
      by (cases "scan n inside body i") (auto simp del: not_None_eq)
  qed (use none fuel_enough [OF assms(1,2)] in metis)
  then show "faults inside body i" using scan_trichotomy [of inside body i] ends [OF assms(1)] by auto
qed (rule faults_no_scan)

lemma result:
  assumes small and "left i < fuel" and "\<And>j. inside j \<Longrightarrow> body j \<noteq> None"
  shows "scan fuel inside body i \<noteq> None"
proof -
  have "\<not> faults inside body i"
  proof
    assume "faults inside body i"
    then show False using assms(3) by (induction rule: faults.induct) auto
  qed
  then show ?thesis using no_result_iff [OF assms(1,2)] by simp
qed

end

end
