(* ===== verification/Fwts_Fixed_Tables.thy ===== *)
theory Fwts_Fixed_Tables
  imports Fwts_Table_Tests Fwts_Object Fwts_Options
begin

text \<open>
  The tests of tables without records, under src/src/acpi: each looks at the members of one struct. The
  definitions have the names of the C functions.
\<close>

text \<open>Address spaces of a generic address (fwts_acpi.h).\<close>

abbreviation (input) FWTS_GAS_ADDR_SPACE_ID_SYSTEM_MEMORY :: u64 where "FWTS_GAS_ADDR_SPACE_ID_SYSTEM_MEMORY \<equiv> 0x00"
abbreviation (input) FWTS_GAS_ADDR_SPACE_ID_SYSTEM_IO :: u64 where "FWTS_GAS_ADDR_SPACE_ID_SYSTEM_IO \<equiv> 0x01"
abbreviation (input) FWTS_GAS_ADDR_SPACE_ID_PCI_CONFIG :: u64 where "FWTS_GAS_ADDR_SPACE_ID_PCI_CONFIG \<equiv> 0x02"
abbreviation (input) FWTS_GAS_ADDR_SPACE_ID_EC :: u64 where "FWTS_GAS_ADDR_SPACE_ID_EC \<equiv> 0x03"
abbreviation (input) FWTS_GAS_ADDR_SPACE_ID_SMBUS :: u64 where "FWTS_GAS_ADDR_SPACE_ID_SMBUS \<equiv> 0x04"
abbreviation (input) FWTS_GAS_ADDR_SPACE_ID_PCC :: u64 where "FWTS_GAS_ADDR_SPACE_ID_PCC \<equiv> 0x0a"
abbreviation (input) FWTS_GAS_ADDR_SPACE_ID_FFH :: u64 where "FWTS_GAS_ADDR_SPACE_ID_FFH \<equiv> 0x7f"

section \<open>Tables with little to check\<close>

definition dppt_test1 :: table_test where
  "dppt_test1 t = Some (conclude [])"

definition sdei_test1 :: table_test where
  "sdei_test1 t = do { revision \<leftarrow> header_field t ''revision''; Some (conclude []) }"

definition rasf_test1 :: table_test where
  "rasf_test1 t =
     do { len \<leftarrow> header_field t ''length'';
          if unat len = sizeof fwts_acpi_table_rasf
          then do { rasf \<leftarrow> view t 0 fwts_acpi_table_rasf; Some (conclude []) }
          else Some (conclude (fails LOG_LEVEL_CRITICAL ''RASFBadLength'')) }"

definition bgrt_test1 :: table_test where
  "bgrt_test1 t =
     do { bgrt \<leftarrow> view t 0 fwts_acpi_table_bgrt;
          Some (conclude
            (fixed_value LOG_LEVEL_MEDIUM ''BGRT'' ''Version'' (bgrt ''version'') 1 @
             reserved_bits ''BGRT'' ''BGRT Status'' (bgrt ''status'') 3 7 @
             fixed_value LOG_LEVEL_MEDIUM ''BGRT'' ''Image Type'' (bgrt ''image_type'') 0)) }"

definition wsmt_test1 :: table_test where
  "wsmt_test1 t =
     do { wsmt \<leftarrow> view t 0 fwts_acpi_table_wsmt;
          let fl = wsmt ''protection_flags'';
          Some (conclude
            (reserved_bits ''WSMT'' ''Protection Flags'' fl 3 31 @
             fault_if (fl AND 2 \<noteq> 0 \<and> fl AND 1 = 0) (Failed LOG_LEVEL_MEDIUM ''WSMTBadFlagsValue''))) }"

text \<open>This test returns an error for a short table.\<close>

definition xenv_test1 :: "bytes \<Rightarrow> (int \<times> report list) option" where
  "xenv_test1 t =
     (if length t < sizeof fwts_acpi_table_xenv then Some (FWTS_ERROR, [Failed LOG_LEVEL_HIGH ''XENVAcpiTableTooSmall''])
      else do { xenv \<leftarrow> view t 0 fwts_acpi_table_xenv;
                Some (FWTS_OK, conclude
                  (revision_check ''XENV'' (xenv ''header.revision'') 1 @
                   reserved_bits ''XENV'' ''Evtchn Intr Flags'' (xenv ''evtchn_intr_flags'') 2 7)) })"

definition ccel_test1 :: table_test where
  "ccel_test1 t =
     do { len \<leftarrow> header_field t ''length'';
          if unat len \<noteq> sizeof fwts_acpi_table_ccel then Some [Failed LOG_LEVEL_HIGH ''CCELBadTableLength'']
          else do { ccel \<leftarrow> view t 0 fwts_acpi_table_ccel;
                    Some (conclude
                      (fault_if (ccel ''cc_type'' = 0 \<or> ccel ''cc_type'' \<ge> 3) (Failed LOG_LEVEL_HIGH ''CCELBadCCType'') @
                       reserved_zero ''CCEL'' ''Reserved'' (ccel ''reserved''))) } }"

definition waet_test1 :: table_test where
  "waet_test1 t =
     (case fwts_acpi_table_length ''WAET'' (of_nat (length t)) (sizeof fwts_acpi_table_waet) of
        [] \<Rightarrow> do { waet \<leftarrow> view t 0 fwts_acpi_table_waet;
                   Some (conclude (reserved_bits ''WAET'' ''Emulated Device Flags'' (waet ''flags'') 2 31)) }
      | rs \<Rightarrow> Some (conclude (unpass rs)))"

definition sbst_test1 :: table_test where
  "sbst_test1 t =
     do { sbst \<leftarrow> view t 0 fwts_acpi_table_sbst;
          Some (conclude
            (fault_if (sbst ''critical_energy_level'' > sbst ''low_energy_level'') (Failed LOG_LEVEL_MEDIUM ''SBSTEnergyLevel1'') @
             fault_if (sbst ''low_energy_level'' > sbst ''warning_energy_level'') (Failed LOG_LEVEL_MEDIUM ''SBSTEnergeyLevel2'') @
             fault_if (sbst ''warning_energy_level'' = 0) (Failed LOG_LEVEL_MEDIUM ''SBSTEnergyLevelZero''))) }"

definition wpbt_test1 :: table_test where
  "wpbt_test1 t =
     do { wpbt \<leftarrow> view t 0 fwts_acpi_table_wpbt;
          type_rs \<leftarrow>
            (if wpbt ''type'' \<noteq> 1 then Some (fixed_value LOG_LEVEL_HIGH ''WPBT'' ''Type'' (wpbt ''type'') 1)
             else do { type1 \<leftarrow> view t (sizeof fwts_acpi_table_wpbt) fwts_acpi_table_wpbt_type1;
                       Some (fault_if (type1 ''arguments_length'' mod 2 \<noteq> 0) (Failed LOG_LEVEL_HIGH ''WPBTBadArgumentLength'')) });
          Some (conclude (fixed_value LOG_LEVEL_HIGH ''WPBT'' ''Layout'' (wpbt ''layout'') 1 @ type_rs)) }"

text \<open>Here a short table is reported and nothing else.\<close>

definition rgrt_test1 :: table_test where
  "rgrt_test1 t =
     (case fwts_acpi_table_length ''RGRT'' (of_nat (length t)) (sizeof fwts_acpi_table_rgrt) of
        [] \<Rightarrow> do { rgrt \<leftarrow> view t 0 fwts_acpi_table_rgrt;
                   Some (conclude
                     (fixed_value LOG_LEVEL_MEDIUM ''RGRT'' ''Version'' (rgrt ''version'') 1 @
                      fixed_value LOG_LEVEL_MEDIUM ''RGRT'' ''Image Type'' (rgrt ''image_type'') 1 @
                      reserved_zero ''RGRT'' ''Reserved'' (rgrt ''reserved''))) }
      | rs \<Rightarrow> Some rs)"

text \<open>The type of the firmware is an argument: whether it is UEFI.\<close>

definition boot_init ::
    "acpi_env \<Rightarrow> fwts_framework \<Rightarrow> bool \<Rightarrow> acpi_state \<Rightarrow> (int \<times> nat option \<times> acpi_state) option" where
  "boot_init env fw uefi st =
     do { (ret, info, st) \<leftarrow> fwts_acpi_find_table env fw ''BOOT'' 0 st;
          let skip = (\<lambda>text. (FWTS_SKIP, info, Fwts_Tables.say (Err text) st));
          Some (if ret \<noteq> FWTS_OK then (FWTS_ERROR, info, Fwts_Tables.say (Err ''Cannot read ACPI tables.'') st)
                else if uefi then skip ''ACPI BOOT table is deprecated on UEFI firmware, skipping test''
                else if (case info of None \<Rightarrow> True | Some i \<Rightarrow> ti_length (tables st ! i) = 0)
                then skip ''ACPI BOOT table does not exist, skipping test''
                else (FWTS_OK, info, st)) }"

definition boot_test1 :: table_test where
  "boot_test1 t =
     (case fwts_acpi_table_length ''BOOT'' (of_nat (length t)) (sizeof fwts_acpi_table_boot) of
        [] \<Rightarrow> do { boot \<leftarrow> view t 0 fwts_acpi_table_boot; Some (conclude []) }
      | rs \<Rightarrow> Some (conclude (unpass rs)))"

definition tpm2_test1 :: table_test where
  "tpm2_test1 t =
     do { tpm2 \<leftarrow> view t 0 fwts_acpi_table_tpm2;
          Some (conclude
            (fault_if (tpm2 ''platform_class'' \<noteq> 0 \<and> tpm2 ''platform_class'' \<noteq> 1) (Failed LOG_LEVEL_HIGH ''TPM2BadPlatformClass'') @
             reserved_zero ''TPM2'' ''Reserved'' (tpm2 ''reserved'') @
             fault_if (tpm2 ''start_method'' < 1 \<or> tpm2 ''start_method'' \<ge> 14) (Failed LOG_LEVEL_HIGH ''TPM2BadStartMethod'') @
             (if length t \<noteq> 76
              then fault_if (tpm2 ''start_method'' = 2 \<and> length t \<noteq> sizeof fwts_acpi_table_tpm2 + 4)
                     (Failed LOG_LEVEL_HIGH ''TPM2BadPlatformParameters'') @
                   fault_if (tpm2 ''start_method'' = 11 \<and> length t < sizeof fwts_acpi_table_tpm2 + 12)
                     (Failed LOG_LEVEL_HIGH ''TPM2BadPlatformParameters'')
              else []))) }"

section \<open>Consoles and management controllers\<close>

definition dbgp_test1 :: table_test where
  "dbgp_test1 t =
     (case fwts_acpi_table_length ''DBGP'' (of_nat (length t)) (sizeof fwts_acpi_table_dbgp) of
        [] \<Rightarrow> do { dbgp \<leftarrow> view t 0 fwts_acpi_table_dbgp;
                   Some (conclude
                     (fault_if (dbgp ''interface_type'' > 2) (Failed LOG_LEVEL_HIGH ''DBGPReservedInterfaceType'') @
                      reserved_zero ''DBGP'' ''Reserved'' (dbgp ''reserved'') @
                      fault_if (dbgp ''base_address.register_bit_width'' = 0) (Failed LOG_LEVEL_HIGH ''DBGPBaseAddrBitWidthZero'') @
                      space_id ''DBGP'' ''Base Address'' (dbgp ''base_address.address_space_id'')
                        [FWTS_GAS_ADDR_SPACE_ID_SYSTEM_MEMORY, FWTS_GAS_ADDR_SPACE_ID_SYSTEM_IO,
                         FWTS_GAS_ADDR_SPACE_ID_PCI_CONFIG, FWTS_GAS_ADDR_SPACE_ID_EC, FWTS_GAS_ADDR_SPACE_ID_SMBUS,
                         FWTS_GAS_ADDR_SPACE_ID_PCC, FWTS_GAS_ADDR_SPACE_ID_FFH])) }
      | rs \<Rightarrow> Some (conclude (unpass rs)))"

definition spmi_test1 :: table_test where
  "spmi_test1 t =
     (case fwts_acpi_table_length ''SPMI'' (of_nat (length t)) (sizeof fwts_acpi_table_spmi) of
        [] \<Rightarrow> do { spmi \<leftarrow> view t 0 fwts_acpi_table_spmi;
                   Some (conclude
                     (fault_if (spmi ''interface_type'' < 1 \<or> spmi ''interface_type'' > 4)
                        (Failed LOG_LEVEL_MEDIUM ''SPMIInterfaceTypeReserved'') @
                      fixed_value LOG_LEVEL_MEDIUM ''SPMI'' ''Reserved1'' (spmi ''reserved1'') 1 @
                      reserved_bits ''SPMI'' ''Interrupt type'' (spmi ''interrupt_type'') 2 7 @
                      fault_if (spmi ''interrupt_type'' AND 1 = 0 \<and> spmi ''gpe'' \<noteq> 0) (Failed LOG_LEVEL_MEDIUM ''SPMIGPENotZero'') @
                      reserved_zero ''SPMI'' ''Reserved2'' (spmi ''reserved2'') @
                      reserved_bits ''SPMI'' ''PCI device flag'' (spmi ''pci_device_flag'') 1 7 @
                      fault_if (spmi ''interrupt_type'' AND 2 = 0 \<and> spmi ''global_system_interrupt'' \<noteq> 0)
                        (Failed LOG_LEVEL_MEDIUM ''SPMIGlobalSystemInterruptNonZero'') @
                      space_id ''SPMI'' ''Base Address'' (spmi ''base_address.address_space_id'')
                        [FWTS_GAS_ADDR_SPACE_ID_SYSTEM_MEMORY, FWTS_GAS_ADDR_SPACE_ID_SYSTEM_IO, FWTS_GAS_ADDR_SPACE_ID_SMBUS] @
                      (if spmi ''interface_type'' = 4
                       then space_id ''SPMI'' ''Base Address for SSIF'' (spmi ''base_address.address_space_id'')
                              [FWTS_GAS_ADDR_SPACE_ID_SMBUS] @
                            fault_if (spmi ''base_address.address'' AND NOT 0x7f \<noteq> 0)
                              (Failed LOG_LEVEL_MEDIUM ''SPMIInvalidBaseAddressForSSIF'')
                       else []))) }
      | rs \<Rightarrow> Some (conclude (unpass rs)))"

text \<open>The four bytes that MCHI has for either a PCI device or a UID.\<close>

definition mchi_byte :: "members \<Rightarrow> nat \<Rightarrow> u64" where
  "mchi_byte mchi i = take_bit 8 (drop_bit (8 * i) (mchi ''bytes''))"

definition mchi_test1 :: table_test where
  "mchi_test1 t =
     (case fwts_acpi_table_length ''MCHI'' (of_nat (length t)) (sizeof fwts_acpi_table_mchi) of
        [] \<Rightarrow> do { mchi \<leftarrow> view t 0 fwts_acpi_table_mchi;
                   Some (conclude
                     (fault_if (mchi ''interface_type'' < 2 \<or> mchi ''interface_type'' > 8)
                        (Failed LOG_LEVEL_HIGH ''MCHIInvalidInterfaceType'') @
                      fault_if (mchi ''protocol_identifier'' > 2 \<and> mchi ''protocol_identifier'' < 255)
                        (Failed LOG_LEVEL_HIGH ''MCHIInvalidProtocolIdentifier'') @
                      reserved_bits ''MCHI'' ''Interrupt Type'' (mchi ''interrupt_type'') 2 7 @
                      fault_if (mchi ''interrupt_type'' AND 1 = 0 \<and> mchi ''gpe'' \<noteq> 0) (Failed LOG_LEVEL_HIGH ''MCHIGpeNonZero'') @
                      reserved_bits ''MCHI'' ''PCI Device Flag'' (mchi ''pci_device_flag'') 1 7 @
                      fault_if (mchi ''interrupt_type'' AND 2 = 0 \<and> mchi ''global_system_interrupt'' \<noteq> 0)
                        (Failed LOG_LEVEL_HIGH ''MCHIGsiNonZero'') @
                      space_id ''MCHI'' ''Base Address'' (mchi ''base_address.address_space_id'')
                        [FWTS_GAS_ADDR_SPACE_ID_SYSTEM_MEMORY, FWTS_GAS_ADDR_SPACE_ID_SYSTEM_IO, FWTS_GAS_ADDR_SPACE_ID_SMBUS] @
                      (if mchi ''base_address.address_space_id'' = FWTS_GAS_ADDR_SPACE_ID_SMBUS
                       then fault_if (mchi ''pci_device_flag'' AND 1 = 1) (Failed LOG_LEVEL_HIGH ''MCHIPciDeviceFlagInvalid'') @
                            fault_if (mchi ''base_address.register_bit_width'' \<noteq> 0)
                              (Failed LOG_LEVEL_MEDIUM ''MCHISmbusRegBitWidthNonZero'') @
                            fault_if (mchi ''base_address.register_bit_offset'' \<noteq> 0)
                              (Failed LOG_LEVEL_MEDIUM ''MCHISmbusRegBitOffsetNonZero'') @
                            fault_if (mchi ''base_address.access_width'' \<noteq> 1)
                              (Failed LOG_LEVEL_MEDIUM ''MCHISmbusRegAddressSizeInvalid'') @
                            fault_if (mchi ''base_address.address'' AND NOT 0x7f \<noteq> 0)
                              (Failed LOG_LEVEL_MEDIUM ''MCHISmbusAddressInvalid'')
                       else []) @
                      (if mchi ''pci_device_flag'' AND 1 \<noteq> 0
                       then fault_if (mchi_byte mchi 2 AND NOT 0x1f \<noteq> 0) (Failed LOG_LEVEL_MEDIUM ''MCHIPciDeviceNumberInvalid'') @
                            fault_if (mchi_byte mchi 3 AND NOT 0x47 \<noteq> 0) (Failed LOG_LEVEL_MEDIUM ''MCHIPciFunctionNumberInvalid'')
                       else []))) }
      | rs \<Rightarrow> Some (conclude (unpass rs)))"

text \<open>The SPCR test has three parts; two of them only report for SBBR.\<close>

definition spcr_not_pci :: "members \<Rightarrow> bool" where
  "spcr_not_pci spcr \<longleftrightarrow> spcr ''pci_device_id'' = 0xffff \<and> spcr ''pci_vendor_id'' = 0xffff \<and> spcr ''pci_bus_number'' = 0 \<and>
     spcr ''pci_device_number'' = 0 \<and> spcr ''pci_function_number'' = 0"

definition spcr_test1 :: table_test where
  "spcr_test1 t =
     do { spcr \<leftarrow> view t 0 (up_to ''pci_flags'' fwts_acpi_table_spcr);
          clock_rs \<leftarrow>
            (if spcr ''header.revision'' \<le> 2
             then do { spcr \<leftarrow> view t 0 (up_to ''uart_clock_freq'' fwts_acpi_table_spcr);
                       Some (reserved_zero ''SPCR'' ''Reserved3'' (spcr ''uart_clock_freq'')) }
             else Some []);
          let ty = spcr ''interface_type'';
          Some (conclude
            (fault_if (ty = 7 \<or> ty > 0x15) (Failed LOG_LEVEL_HIGH ''SPCRInterfaceReserved'') @
             reserved_zero ''SPCR'' ''Reserved1'' (spcr ''reserved1'') @
             fault_if (spcr ''interrupt_type'' AND 0xe0 \<noteq> 0) (Failed LOG_LEVEL_HIGH ''SPCRIllegalReservedInterruptType'') @
             fault_if (spcr ''interrupt_type'' AND 1 \<noteq> 0 \<and> unat (spcr ''irq'') \<notin> {2..7} \<union> {9..12} \<union> {14..15})
               (Failed LOG_LEVEL_HIGH ''SPCRIllegalIRQ'') @
             fault_if (spcr ''baud_rate'' \<notin> {0, 3, 4, 6, 7}) (Failed LOG_LEVEL_HIGH ''SPCRBaudRateReserved'') @
             fixed_value LOG_LEVEL_HIGH ''SPCR'' ''Parity'' (spcr ''parity'') 0 @
             fixed_value LOG_LEVEL_HIGH ''SPCR'' ''Stop'' (spcr ''stop_bits'') 1 @
             reserved_bits ''SPCR'' ''Flow control'' (spcr ''flow_control'') 3 7 @
             fault_if (spcr ''terminal_type'' > 3) (Failed LOG_LEVEL_HIGH ''SPCRTerminalTypeReserved'') @
             reserved_zero ''SPCR'' ''Language'' (spcr ''language'') @
             (if spcr_not_pci spcr then []
              else fault_if (spcr ''pci_device_id'' = 0xffff) (Failed LOG_LEVEL_HIGH ''SPCRPciDeviceID'') @
                   fault_if (spcr ''pci_vendor_id'' = 0xffff) (Failed LOG_LEVEL_HIGH ''SPCRPciVendorID'') @
                   fault_if (spcr ''pci_flags'' AND 1 = 0) (Failed LOG_LEVEL_HIGH ''SPCRPciFlagsBit0'')) @
             reserved_bits ''SPCR'' ''PCI Flags'' (spcr ''pci_flags'') 1 31 @ clock_rs)) }"

definition spcr_sbbr_revision_test :: "bool \<Rightarrow> table_test" where
  "spcr_sbbr_revision_test sbbr t =
     (if \<not> sbbr then Some []
      else do { revision \<leftarrow> header_field t ''revision'';
                Some (pass_or (revision \<ge> 2) (Failed LOG_LEVEL_CRITICAL ''spcr_revision:'')) })"

definition spcr_sbbr_gsiv_test :: "bool \<Rightarrow> table_test" where
  "spcr_sbbr_gsiv_test sbbr t =
     (if \<not> sbbr then Some []
      else do { spcr \<leftarrow> view t 0 (up_to ''gsi'' fwts_acpi_table_spcr);
                Some (pass_or ((spcr ''interrupt_type'' = 8 \<or> spcr ''interrupt_type'' = 2) \<and> spcr ''gsi'' \<noteq> 0)
                  (Failed LOG_LEVEL_CRITICAL ''sbbr_gsiv:'')) })"

section \<open>TCPA\<close>

definition tcpa_client_test :: "bytes \<Rightarrow> act list option" where
  "tcpa_client_test t =
     do { tcpa \<leftarrow> view t 0 fwts_acpi_table_tcpa_client;
          Some (fixed_value LOG_LEVEL_HIGH ''TCPA'' ''Length'' (tcpa ''header.length'') 50 @
                revision_check ''TCPA'' (tcpa ''header.revision'') 2) }"

text \<open>The three reserved bytes are shifted by 0, 4 and 8 bits.\<close>

definition tcpa_server_test :: "bytes \<Rightarrow> act list option" where
  "tcpa_server_test t =
     do { tcpa \<leftarrow> view t 0 fwts_acpi_table_tcpa_server;
          let r = tcpa ''server.reserved2'';
          let reserved2 = take_bit 8 r + push_bit 4 (take_bit 8 (drop_bit 8 r)) + push_bit 8 (drop_bit 16 r);
          Some (fixed_value LOG_LEVEL_HIGH ''TCPA'' ''Length'' (tcpa ''header.length'') 100 @
                revision_check ''TCPA'' (tcpa ''header.revision'') 2 @
                reserved_zero ''TCPA'' ''Reserved'' (tcpa ''server.reserved'') @
                reserved_zero ''TCPA'' ''Reserved2'' reserved2 @
                reserved_zero ''TCPA'' ''Reserved3'' (tcpa ''server.reserved3'') @
                (if tcpa ''server.device_flag'' AND 1 \<noteq> 0
                 then fault_if (tcpa ''server.interrupt_flag'' AND 2 = 0) (Failed LOG_LEVEL_HIGH ''TCPABadInterruptPolarity'') @
                      fault_if (tcpa ''server.interrupt_flag'' AND 1 \<noteq> 0) (Failed LOG_LEVEL_HIGH ''TCPABadInterruptMode'')
                 else []) @
                space_id ''TCPA'' ''Base Address'' (tcpa ''server.base_addr.address_space_id'')
                  [FWTS_GAS_ADDR_SPACE_ID_SYSTEM_MEMORY, FWTS_GAS_ADDR_SPACE_ID_SYSTEM_IO] @
                space_id ''TCPA'' ''Configuration Address'' (tcpa ''server.config_addr.address_space_id'')
                  [FWTS_GAS_ADDR_SPACE_ID_SYSTEM_MEMORY, FWTS_GAS_ADDR_SPACE_ID_SYSTEM_IO]) }"

definition tcpa_test1 :: table_test where
  "tcpa_test1 t =
     do { tcpa \<leftarrow> view t 0 (up_to ''platform_class'' fwts_acpi_table_tcpa_client);
          rs \<leftarrow> (if tcpa ''platform_class'' = 0 then tcpa_client_test t
                else if tcpa ''platform_class'' = 1 then tcpa_server_test t
                else Some (fails LOG_LEVEL_HIGH ''TCPABadPlatformClass''));
          Some (conclude rs) }"

section \<open>Tables that the test compares with the machine\<close>

text \<open>
  A table from the firmware is also looked up at its address: is_reserved says whether the memory map
  has the address in a reserved region.
\<close>

definition facs_test1 :: "bool \<Rightarrow> u64 \<Rightarrow> (u64 \<Rightarrow> bool) \<Rightarrow> table_test" where
  "facs_test1 from_firmware addr is_reserved t =
     (if length t < 64 then Some (conclude (fails LOG_LEVEL_MEDIUM ''FACSInvalidLength''))
      else do { facs \<leftarrow> view t 0 fwts_acpi_table_facs;
                reserved2 \<leftarrow> get_bytes t 0 fwts_acpi_table_facs ''reserved2'';
                Some (conclude
                  ((if from_firmware
                    then fault_if (addr AND 0x3f \<noteq> 0) (Failed LOG_LEVEL_MEDIUM ''FACSInvalidAlignment'') @
                         fault_if (\<not> is_reserved addr) (Failed LOG_LEVEL_MEDIUM ''FACSNotReserved'')
                    else []) @
                   fault_if (facs ''length'' < 64) (Failed LOG_LEVEL_MEDIUM ''FACSInvalidLength'') @
                   reserved_zero ''FACS'' ''Reserved'' (facs ''reserved'') @
                   reserved_bits ''FACS'' ''Flags'' (facs ''flags'') 2 31 @
                   reserved_bits ''FACS'' ''OSPM Flags'' (facs ''ospm_flags'') 1 31 @
                   fault_if (list_ex (\<lambda>b. b \<noteq> 0) reserved2) (Failed LOG_LEVEL_LOW ''FACSInvalidReserved1''))) })"

text \<open>
  The boot error region: memory gives the bytes at an address, or nothing where they cannot be mapped or
  read. The sum of offset and length of the raw data is one of 32 bits, the other sums are wider.
\<close>

definition bert_region :: "u64 \<Rightarrow> bytes \<Rightarrow> report list option" where
  "bert_region len m =
     do { region \<leftarrow> view m 0 fwts_acpi_table_boot_error_region;
          let offset = region ''raw_data_offset''; raw = region ''raw_data_length'';
              data_end = sizeof fwts_acpi_table_boot_error_region + unat (region ''data_length'') in
          Some (conclude
            (fault_if (offset > len) (Failed LOG_LEVEL_HIGH ''BERTBootErrorRegionRawDataOffset'') @
             fault_if (unat offset < data_end \<and> raw \<noteq> 0) (Failed LOG_LEVEL_HIGH ''BERTBootErrorRegionRawDataOffset'') @
             fault_if ((ucast raw + ucast offset :: u32) > ucast len) (Failed LOG_LEVEL_HIGH ''BERTBootErrorRegionRawDatalength'') @
             fault_if (data_end > unat len) (Failed LOG_LEVEL_HIGH ''BERTBootErrorRegionDatalength'') @
             fault_if (region ''error_severity'' > 3) (Failed LOG_LEVEL_HIGH ''BERTBootErrorRegionDataLength''))) }"

definition bert_test1 :: "bool \<Rightarrow> (u64 \<Rightarrow> nat \<Rightarrow> bytes option) \<Rightarrow> table_test" where
  "bert_test1 from_firmware memory t =
     do { bert \<leftarrow> view t 0 fwts_acpi_table_bert;
          let len = bert ''boot_error_region_length'';
          if unat len < sizeof fwts_acpi_table_boot_error_region
          then Some (conclude (fails LOG_LEVEL_HIGH ''BERTBootErrorRegionDataLength''))
          else if \<not> from_firmware then Some (conclude [])
          else case memory (bert ''boot_error_region'') (unat len) of
            None \<Rightarrow> Some (conclude [])
          | Some m \<Rightarrow> bert_region len m }"

text \<open>
  The namespace path of the embedded controller is looked for in the table; its _UID is evaluated. A
  path that cannot be evaluated or has another _UID is reported, but does not clear the flag.
\<close>

definition ec_id_found :: "bytes \<Rightarrow> nat \<Rightarrow> bytes option option" where
  "ec_id_found t len =
     (let off = sizeof fwts_acpi_table_ecdt;
          bs = take (len - off) (drop off t);
          s = takeWhile (\<lambda>b. b \<noteq> 0) bs in
      if length s < length bs then Some (Some s)
      else if len \<le> length t then Some None
      else None)"

definition ecdt_uid :: "u64 \<Rightarrow> u32 \<times> ACPI_BUFFER \<Rightarrow> report list" where
  "ecdt_uid uid r =
     (case r of
        (ret, None) \<Rightarrow> [Failed LOG_LEVEL_MEDIUM ''ECDTEvalUidFailed'']
      | (ret, Some obj) \<Rightarrow>
          if ret \<noteq> 0 then [Failed LOG_LEVEL_MEDIUM ''ECDTEvalUidFailed'']
          else case int_value obj of
            None \<Rightarrow> [Failed LOG_LEVEL_MEDIUM ''ECDTEvalUidInvalidType'']
          | Some v \<Rightarrow> pass_or (v = uid) (Failed LOG_LEVEL_MEDIUM ''ECDTEvalUidInvalidValue''))"

definition ecdt_test1 :: "bool \<Rightarrow> (cstr \<Rightarrow> u32 \<times> ACPI_BUFFER) \<Rightarrow> table_test" where
  "ecdt_test1 acpica_ok evaluate t =
     do { ecdt \<leftarrow> view t 0 fwts_acpi_table_ecdt;
          let gas = [FWTS_GAS_ADDR_SPACE_ID_SYSTEM_MEMORY, FWTS_GAS_ADDR_SPACE_ID_SYSTEM_IO];
              rs = space_id ''ECDT'' ''EC_CONTROL'' (ecdt ''ec_control.address_space_id'') gas @
                   fault_if (ecdt ''ec_control.access_width'' > 4) (Failed LOG_LEVEL_MEDIUM ''ECDTECControlAccessSize'') @
                   space_id ''ECDT'' ''EC_DATA'' (ecdt ''ec_control.address_space_id'') gas @
                   fault_if (ecdt ''ec_data.access_width'' > 4) (Failed LOG_LEVEL_MEDIUM ''ECDTECDataAccessSize'');
              len = unat (ecdt ''header.length'') in
          if len < sizeof fwts_acpi_table_ecdt + 1 then Some (conclude (rs @ fails LOG_LEVEL_MEDIUM ''ECDTBadLength''))
          else do { found \<leftarrow> ec_id_found t len;
                    case found of
                      None \<Rightarrow> Some (conclude (rs @ fails LOG_LEVEL_MEDIUM ''ECDTBadECIDString''))
                    | Some ec_id \<Rightarrow>
                        Some (conclude (rs @
                          (if acpica_ok then map Says (ecdt_uid (ecdt ''uid'') (evaluate (chars ec_id @ ''._UID''))) else []))) } }"

section \<open>Tables of data\<close>

definition guid_smm :: bytes where
  "guid_smm = [0xe2, 0xd8, 0x8e, 0xc6, 0xc6, 0x9d, 0xbd, 0x4c, 0x9d, 0x94, 0xdb, 0x65, 0xac, 0xc5, 0xc3, 0x32]"

text \<open>
  What is not the table for SMM communication is has_bytes from its data on, for the length of the table
  less its data offset, a difference of 64 bits.
\<close>

definition uefi_test1 :: table_test where
  "uefi_test1 t =
     (case fwts_acpi_table_length ''UEFI'' (of_nat (length t)) (sizeof fwts_acpi_table_uefi) of
        [] \<Rightarrow> do { uefi \<leftarrow> view t 0 fwts_acpi_table_uefi;
                   uuid \<leftarrow> get_bytes t 0 fwts_acpi_table_uefi ''uuid'';
                   let off = unat (uefi ''dataoffset'');
                       rs = fault_if (off > length t) (Failed LOG_LEVEL_HIGH ''UEFIDataOffset'') in
                   if uuid = guid_smm
                   then do { smm \<leftarrow> view t 0 fwts_acpi_table_uefi_smmcomm;
                             Some (conclude (rs @ fault_if (smm ''boot.dataoffset'' \<noteq> 54) (Failed LOG_LEVEL_HIGH ''UEFIDataOffset''))) }
                   else do { _ \<leftarrow> has_bytes t (sizeof fwts_acpi_table_uefi) (sub64 (length t) off); Some (conclude rs) } }
      | rs \<Rightarrow> Some (conclude (unpass rs)))"

text \<open>The form of a licence key: five groups of five digits or capitals.\<close>

definition msdm_key_ok :: "bytes \<Rightarrow> bool" where
  "msdm_key_ok key =
     list_all (\<lambda>(i, b). if i mod 6 = 5 then b = 45 else 48 \<le> b \<and> b \<le> 57 \<or> 65 \<le> b \<and> b \<le> 90) (List.enumerate 0 key)"

definition msdm_test1 :: table_test where
  "msdm_test1 t =
     (case fwts_acpi_table_length ''MSDM'' (of_nat (length t)) (sizeof fwts_acpi_table_msdm) of
        [] \<Rightarrow> do { msdm \<leftarrow> view t 0 fwts_acpi_table_msdm;
                   let rs = reserved_zero ''MSDM'' ''Reserved'' (msdm ''reserved'') @
                            reserved_zero ''MSDM'' ''Data Reserved'' (msdm ''data_reserved'');
                       n = msdm ''data_length'' in
                   if length t < sizeof fwts_acpi_table_msdm + unat n
                   then Some (conclude (rs @ fails LOG_LEVEL_HIGH ''MSDMDataLengthInvalid''))
                   else if msdm ''data_type'' \<noteq> 1 then Some (conclude (rs @ fails LOG_LEVEL_HIGH ''MSDMDataTypeInvalid''))
                   else if n \<noteq> 0x1d
                   then Some (conclude (rs @ fixed_value LOG_LEVEL_HIGH ''MSDM'' ''Data Length'' n 29))
                   else do { key \<leftarrow> read_bytes t (sizeof fwts_acpi_table_msdm) 29;
                             Some (conclude (rs @ fault_if (\<not> msdm_key_ok key) (Failed LOG_LEVEL_HIGH ''MSDMDataLengthInvalid''))) } }
      | rs \<Rightarrow> Some (conclude (unpass rs)))"

text \<open>
  The strings of a STAO table. A string is read up to its end mark before it is compared with the end
  of the table; the result is its length, or that it has no end mark.
\<close>

function stao_acpi_string :: "bytes \<Rightarrow> nat \<Rightarrow> nat \<Rightarrow> nat \<Rightarrow> nat option option" where
  "stao_acpi_string t ptr table_end len =
     (if ptr < length t
      then if t ! ptr = 0 then Some (Some len)
           else if ptr > table_end then Some None
           else stao_acpi_string t (ptr + 1) table_end (len + 1)
      else None)"
  by pat_completeness auto
termination by (relation "measure (\<lambda>(t, ptr, table_end, len). length t - ptr)") auto

declare stao_acpi_string.simps [simp del]

definition stao_end_mark :: "act list" where
  "stao_end_mark = fails LOG_LEVEL_HIGH ''STAOAcpiStringNotNullTerminated''"

definition stao_count :: "bytes \<Rightarrow> nat \<Rightarrow> nat \<Rightarrow> (act list \<times> nat advance) option" where
  "stao_count t table_end ptr =
     do { s \<leftarrow> stao_acpi_string t ptr table_end 0;
          Some (case s of None \<Rightarrow> (stao_end_mark, Leave ptr) | Some len \<Rightarrow> ([], Goto (ptr + len + 1))) }"

definition stao_find :: "(cstr \<Rightarrow> bool) \<Rightarrow> bytes \<Rightarrow> nat \<Rightarrow> nat \<Rightarrow> (act list \<times> nat advance) option" where
  "stao_find obj_find t table_end ptr =
     do { s \<leftarrow> stao_acpi_string t ptr table_end 0;
          Some (case s of
              None \<Rightarrow> (stao_end_mark, Leave ptr)
            | Some len \<Rightarrow> (fault_if (\<not> obj_find (chars (take len (drop ptr t)))) (Failed LOG_LEVEL_HIGH ''STAOAcpiStringNotFound''),
                           Goto (ptr + len + 1))) }"

text \<open>The first loop ends without a string if the first has no end mark; then the test is over.\<close>

definition stao_test1 :: "(cstr \<Rightarrow> bool) \<Rightarrow> table_test" where
  "stao_test1 obj_find t =
     do { stao \<leftarrow> view t 0 fwts_acpi_table_stao;
          let len = unat (stao ''header.length''); off = sizeof fwts_acpi_table_stao in
          if len > unat (of_nat (length t) :: u32) then Some (conclude (fails LOG_LEVEL_MEDIUM ''STAOBadLength''))
          else do { (rs, _) \<leftarrow> scan (Suc (length t)) (\<lambda>ptr. ptr < len) (stao_count t len) off;
                    some \<leftarrow> (if off < len then map_option (\<lambda>s. s \<noteq> None) (stao_acpi_string t off len 0) else Some False);
                    if \<not> some then Some (conclude rs)
                    else do { (rs', _) \<leftarrow> scan (Suc (length t)) (\<lambda>ptr. ptr < length t) (stao_find obj_find t (length t)) off;
                              Some (conclude (rs @ rs')) } } }"

section \<open>The root pointer\<close>

definition rsdp_init ::
    "acpi_env \<Rightarrow> fwts_framework \<Rightarrow> acpi_state \<Rightarrow> (int \<times> nat option \<times> acpi_state) option" where
  "rsdp_init env fw st =
     do { (ret, info, st) \<leftarrow> fwts_acpi_find_table env fw ''RSDP'' 0 st;
          Some (if ret \<noteq> FWTS_OK then (FWTS_ERROR, info, Fwts_Tables.say (Err ''Cannot read ACPI tables.'') st)
                else case info of
                  None \<Rightarrow>
                    if target_arch fw = FWTS_ARCH_X86 then (FWTS_SKIP, None, st)
                    else (FWTS_ERROR, None, Fwts_Tables.say (Err (''ACPI RSDP is required for the '' @
                            fwts_arch_get_name (target_arch fw) @ '' target architecture.'')) st)
                | Some i \<Rightarrow>
                    if ti_length (tables st ! i) = 0 then (FWTS_ERROR, info, Fwts_Tables.say (Err ''ACPI RSDP table has zero length'') st)
                    else (FWTS_OK, info, st)) }"

definition is_printable :: "u8 \<Rightarrow> bool" where
  "is_printable b \<longleftrightarrow> 32 \<le> b \<and> b \<le> 126"

text \<open>The architectures take one address or the other; others are only given advice in the log.\<close>

definition rsdp_addresses_ok :: "fwts_architecture \<Rightarrow> u64 \<Rightarrow> u64 \<Rightarrow> bool" where
  "rsdp_addresses_ok arch rsdt xsdt =
     (case arch of
        FWTS_ARCH_X86 \<Rightarrow> rsdt \<noteq> 0 \<or> xsdt \<noteq> 0
      | FWTS_ARCH_ARM64 \<Rightarrow> xsdt \<noteq> 0
      | FWTS_ARCH_RISCV64 \<Rightarrow> xsdt \<noteq> 0
      | _ \<Rightarrow> True)"

definition rsdp_test1 :: "fwts_architecture \<Rightarrow> table_test" where
  "rsdp_test1 arch t =
     do { rsdp \<leftarrow> view t 0 (up_to ''rsdt_address'' fwts_acpi_table_rsdp);
          oem_id \<leftarrow> get_bytes t 0 fwts_acpi_table_rsdp ''oem_id'';
          let rs = pass_or (fwts_checksum t 20 = 0) (Failed LOG_LEVEL_MEDIUM ''RSDPBadFirstChecksum'') @
                   (if list_all is_printable oem_id then [Passed] else [Failed LOG_LEVEL_LOW ''RSDPBadOEMId'', Advice]) @
                   pass_or (rsdp ''revision'' = 0 \<or> rsdp ''revision'' = 2) (Failed LOG_LEVEL_MEDIUM ''RSDPBadRevisionId'');
              rsdt = rsdp ''rsdt_address'' in
          if rsdp ''revision'' = 0
          then Some (rs @ pass_or (rsdt \<noteq> 0) (Failed LOG_LEVEL_MEDIUM ''RSDPNullRSDTPointer''))
          else do { rsdp \<leftarrow> view t 0 fwts_acpi_table_rsdp;
                    reserved \<leftarrow> get_bytes t 0 fwts_acpi_table_rsdp ''reserved'';
                    let xsdt = rsdp ''xsdt_address'' in
                    Some (rs @ pass_or (rsdt \<noteq> 0 \<or> xsdt \<noteq> 0) (Failed LOG_LEVEL_MEDIUM ''RSDPNoAddressesFound'') @
                      pass_or (rsdp_addresses_ok arch rsdt xsdt) (Failed LOG_LEVEL_MEDIUM ''RSDPBadAddresses'') @
                      pass_or (rsdp ''length'' = 36) (Failed LOG_LEVEL_MEDIUM ''RSDPBadLength'') @
                      pass_or (fwts_checksum t 36 = 0) (Failed LOG_LEVEL_MEDIUM ''RSDPBadSecondChecksum'') @
                      conclude (reserved_zero ''RSDP'' ''Reserved'' (sum_list (map ucast reserved)))) } }"

section \<open>Checksums of all tables\<close>

definition checksum_rsdp :: table_test where
  "checksum_rsdp t =
     (if length t < 20 then Some [Failed LOG_LEVEL_HIGH ''ACPITableCheckSumShortRSDP'']
      else do {
        let bad = (\<lambda>n. if fwts_checksum t n \<noteq> 0 then [Failed LOG_LEVEL_CRITICAL ''ACPITableChecksumRSDP'', Advice] else [Passed]);
        rsdp \<leftarrow> view t 0 (up_to ''revision'' fwts_acpi_table_rsdp);
        Some (bad 20 @
          (if rsdp ''revision'' = 0 then []
           else if length t < sizeof fwts_acpi_table_rsdp then [Failed LOG_LEVEL_CRITICAL ''ACPITableCheckSumShortRSDP'']
           else bad (sizeof fwts_acpi_table_rsdp))) })"

text \<open>Both reports name the checksum that the header has, so that it is read in any case.\<close>

definition checksum_table :: "cstr \<times> bytes \<Rightarrow> report list option" where
  "checksum_table table =
     (case table of (name, t) \<Rightarrow>
        if name = ''RSDP'' then checksum_rsdp t
        else if name = ''FACS'' then Some []
        else do { checksum \<leftarrow> header_field t ''checksum'';
                  Some (if fwts_checksum t (length t) = 0 then [Passed]
                        else [Failed LOG_LEVEL_MEDIUM ''ACPITableChecksum'', Advice]) })"

text \<open>The tables are those that fwts_acpi_get_table() gives for 0, 1, ..., up to the first that is not there.\<close>

fun checksum_scan_tables :: "(cstr \<times> bytes) list \<Rightarrow> report list option" where
  "checksum_scan_tables [] = Some []"
| "checksum_scan_tables (table # ts) = do { rs \<leftarrow> checksum_table table; rs' \<leftarrow> checksum_scan_tables ts; Some (rs @ rs') }"

definition checksum_test1 :: "(cstr \<times> bytes) list option \<Rightarrow> (int \<times> report list) option" where
  "checksum_test1 loaded =
     (case loaded of
        None \<Rightarrow> Some (FWTS_ABORTED, [Aborted])
      | Some ts \<Rightarrow> map_option (Pair FWTS_OK) (checksum_scan_tables ts))"

end
