(* ===== verification/Fwts_Counted_Tables.thy ===== *)
theory Fwts_Counted_Tables
  imports Fwts_Fixed_Tables
begin

text \<open>
  The tests of tables with a number of equal structs, under src/src/acpi: arrays that are looked at one
  after the other, each under a count of the table, and matrices. The definitions have the names of
  the C functions; one with the suffix \<open>_entry\<close> is the body of the loop.
\<close>

section \<open>Keys and descriptors\<close>

text \<open>The loops of SKVL and RAS2 return as soon as a struct does not fit into the table.\<close>

definition skvl_entry :: "bytes \<Rightarrow> nat \<Rightarrow> (act list \<times> nat advance) option" where
  "skvl_entry t i =
     (let off = sizeof fwts_acpi_table_skvl + i * sizeof fwts_acpi_skvl_key_struct in
      if off + sizeof fwts_acpi_skvl_key_struct > length t then Some ([Says (Failed LOG_LEVEL_HIGH ''SKVLOutOfRangeOffset'')], Return)
      else do { key \<leftarrow> view t off fwts_acpi_skvl_key_struct;
                Some (fixed_value LOG_LEVEL_HIGH ''SKVL'' ''Key Type'' (key ''key_type'') 0 @
                      fixed_value LOG_LEVEL_HIGH ''SKVL'' ''Key Format'' (key ''key_format'') 0, Goto (i + 1)) })"

definition skvl_test1 :: table_test where
  "skvl_test1 t =
     do { skvl \<leftarrow> view t 0 fwts_acpi_table_skvl;
          let n = unat (skvl ''key_count'');
          r \<leftarrow> scan (Suc n) (\<lambda>i. i < n) (skvl_entry t) 0;
          Some (after_scan [] r) }"

definition ras2_entry :: "bytes \<Rightarrow> nat \<Rightarrow> (act list \<times> nat advance) option" where
  "ras2_entry t i =
     (let off = sizeof fwts_acpi_table_ras2 + i * sizeof fwts_acpi_ras2_pcc_desc in
      if off + sizeof fwts_acpi_ras2_pcc_desc > length t then Some (fails LOG_LEVEL_HIGH ''RAS2TooShort'', Return)
      else do { desc \<leftarrow> view t off fwts_acpi_ras2_pcc_desc;
                Some (reserved_zero ''RAS2'' ''Reserved'' (desc ''reserved'') @
                      fault_if (desc ''feature_type'' \<ge> 0x01 \<and> desc ''feature_type'' \<le> 0x7F)
                        (Failed LOG_LEVEL_HIGH ''RAS2ReservedType''), Goto (i + 1)) })"

text \<open>The length of the table is compared with the size of another struct, that of the IVRS table.\<close>

definition ras2_test1 :: table_test where
  "ras2_test1 t =
     (case fwts_acpi_table_length ''RAS2'' (of_nat (length t)) (sizeof fwts_acpi_table_ivrs) of
        [] \<Rightarrow> do { ras2 \<leftarrow> view t 0 fwts_acpi_table_ras2;
                   let n = unat (ras2 ''num_pcc_descriptors'');
                   r \<leftarrow> scan (Suc n) (\<lambda>i. i < n) (ras2_entry t) 0;
                   Some (after_scan (reserved_zero ''RAS2'' ''Reserved'' (ras2 ''reserved'')) r) }
      | rs \<Rightarrow> Some rs)"

text \<open>
  The loops of PDTT and SVKL look at a struct and then check that the next begins in the table. Their
  count must be the one the lengths give, by a difference of 32 bits.
\<close>

definition pdtt_entry :: "bytes \<Rightarrow> nat \<Rightarrow> nat \<Rightarrow> (act list \<times> nat advance) option" where
  "pdtt_entry t start i =
     (let off = start + i * sizeof fwts_acpi_table_pdtt_channel in
      do { channel \<leftarrow> view t off fwts_acpi_table_pdtt_channel;
           let rs = reserved_bits ''PDTT'' ''Flags'' (channel ''flags'') 3 7;
           Some (if off + sizeof fwts_acpi_table_pdtt_channel > length t
                 then (rs @ fails LOG_LEVEL_CRITICAL ''PDTTBadTableLength'', Leave i) else (rs, Goto (i + 1))) })"

definition pdtt_test1 :: table_test where
  "pdtt_test1 t =
     do { pdtt \<leftarrow> view t 0 fwts_acpi_table_pdtt;
          let start = unat (pdtt ''array_offset''); n = unat (pdtt ''trigger_count'');
              count = sub32 (unat (pdtt ''header.length'')) start div sizeof fwts_acpi_table_pdtt_channel;
              rs = reserved_zero ''PDTT'' ''Reserved'' (pdtt ''reserved'') in
          if count \<noteq> n then Some (said (rs @ fails LOG_LEVEL_CRITICAL ''PDTTBadIDCount''))
          else do { r \<leftarrow> scan (Suc n) (\<lambda>i. i < n) (pdtt_entry t start) 0; Some (after_scan rs r) } }"

definition svkl_entry :: "bytes \<Rightarrow> nat \<Rightarrow> (act list \<times> nat advance) option" where
  "svkl_entry t i =
     (let off = sizeof fwts_acpi_table_svkl + i * sizeof fwts_acpi_table_svkl_key_structure in
      do { key \<leftarrow> view t off fwts_acpi_table_svkl_key_structure;
           let rs = fault_if (key ''key_type'' \<noteq> 0) (Failed LOG_LEVEL_HIGH ''SVKLBadKeyType'') @
                    fault_if (key ''key_format'' \<noteq> 0) (Failed LOG_LEVEL_HIGH ''SVKLBadKeyFormat'');
           Some (if off + sizeof fwts_acpi_table_svkl_key_structure > length t
                 then (rs @ fails LOG_LEVEL_CRITICAL ''SVKLBadTableLength'', Leave i) else (rs, Goto (i + 1))) })"

definition svkl_test1 :: table_test where
  "svkl_test1 t =
     do { len \<leftarrow> header_field t ''length'';
          if length t < unat len then Some [Failed LOG_LEVEL_HIGH ''SVKLTooShort'']
          else if length t < sizeof fwts_acpi_table_svkl then Some [Failed LOG_LEVEL_HIGH ''SVKLTooShort'']
          else do { svkl \<leftarrow> view t 0 fwts_acpi_table_svkl;
                    let n = unat (svkl ''key_count'');
                        count = sub32 (unat len) (sizeof fwts_acpi_table_svkl) div sizeof fwts_acpi_table_svkl_key_structure in
                    if count \<noteq> n then Some (said (fails LOG_LEVEL_CRITICAL ''SVKLBadStructureCount''))
                    else do { r \<leftarrow> scan (Suc n) (\<lambda>i. i < n) (svkl_entry t) 0; Some (after_scan [] r) } } }"

section \<open>Arrays\<close>

definition rsdt_test1 :: table_test where
  "rsdt_test1 t =
     do { rs \<leftarrow> rounds [0..<sub64 (length t) (sizeof fwts_acpi_table_header) div 4]
            (\<lambda>i. do { entry \<leftarrow> read_le t (sizeof fwts_acpi_table_rsdt + 4 * i) 4;
                      Some (if entry = 0 then [Unpass, Says (Failed LOG_LEVEL_HIGH ''RSDTEntryNull''), Says Advice] else []) });
          Some (conclude rs) }"

definition xsdt_test1 :: "bool \<Rightarrow> table_test" where
  "xsdt_test1 sbbr t =
     do { rs \<leftarrow> rounds [0..<sub64 (length t) (sizeof fwts_acpi_table_header) div 8]
            (\<lambda>i. do { entry \<leftarrow> read_le t (sizeof fwts_acpi_table_xsdt + 8 * i) 8;
                      Some (if entry = 0
                            then [Unpass, Says (Failed (if sbbr then LOG_LEVEL_CRITICAL else LOG_LEVEL_MEDIUM) ''XSDTEntryNull''), Says Advice]
                            else []) });
          Some (conclude rs) }"

definition cpep_entry :: "members \<Rightarrow> act list" where
  "cpep_entry info =
     fixed_value LOG_LEVEL_HIGH ''CPEP'' ''Processor Structure Type'' (info ''type'') 0 @
     fixed_value LOG_LEVEL_MEDIUM ''CPEP'' ''Processor Structure Length'' (info ''length'') 8 @
     (if info ''polling_interval'' < 5 then [Says Warning] else [])"

definition cpep_test1 :: table_test where
  "cpep_test1 t =
     do { cpep \<leftarrow> view t 0 fwts_acpi_table_cpep;
          let n = (length t - sizeof fwts_acpi_table_cpep) div sizeof fwts_acpi_cpep_processor_info mod 2 ^ 32;
          infos \<leftarrow> structs t (sizeof fwts_acpi_table_cpep) fwts_acpi_cpep_processor_info n;
          Some (conclude (reserved_zero ''CPEP'' ''Reserved'' (cpep ''reserved'') @ concat (map cpep_entry infos))) }"

text \<open>One more than the number of proximity domains is a sum of 32 bits.\<close>

definition msct_test1 :: table_test where
  "msct_test1 t =
     do { msct \<leftarrow> view t 0 fwts_acpi_table_msct;
          let short = (msct ''proximity_offset'' < 0x38);
          let off = (if short then 0x38 else unat (msct ''proximity_offset''));
          let len = unat (msct ''header.length'');
          let domains = unat ((ucast (msct ''max_proximity_domains'') :: u32) + 1);
          let n = sub32 len off div sizeof fwts_acpi_msct_proximity;
          let rs = fault_if short (Failed LOG_LEVEL_MEDIUM ''MSCTBadProximityOffset'') @
                   fault_if (len > off + sizeof fwts_acpi_msct_proximity * domains) (Failed LOG_LEVEL_MEDIUM ''MSCTBadTableLength'') @
                   fault_if (n > domains) (Failed LOG_LEVEL_MEDIUM ''MSCTBadProimityDomains'');
          proximities \<leftarrow> structs t off fwts_acpi_msct_proximity n;
          Some (conclude rs) }"

definition erst_entry :: "members \<Rightarrow> act list" where
  "erst_entry entry =
     fault_if (entry ''serialization_action'' > 0x10) (Failed LOG_LEVEL_HIGH ''ERSTIInvalidAction'') @
     (if entry ''instruction'' \<le> 1 \<or> 4 \<le> entry ''instruction'' \<and> entry ''instruction'' \<le> 0x12 then []
      else if entry ''instruction'' = 2 \<or> entry ''instruction'' = 3
      then fault_if (entry ''flags'' > 1) (Failed LOG_LEVEL_HIGH ''ERSTIInvalidFlag'')
      else fails LOG_LEVEL_HIGH ''ERSTIInvalidInstruction'') @
     fault_if (entry ''register_region.access_width'' > 4) (Failed LOG_LEVEL_HIGH ''ERSTIInvalidGasAccessSize'')"

definition erst_test1 :: table_test where
  "erst_test1 t =
     do { erst \<leftarrow> view t 0 fwts_acpi_table_erst;
          let n = unat (erst ''instruction_entry_count'');
              rs = reserved_zero ''ERST'' ''Reserved'' (erst ''reserved'') in
          if unat (erst ''serialization_header_size'') > length t
          then Some (conclude (rs @ fails LOG_LEVEL_HIGH ''ERSTHeaderSizeTooLong''))
          else if sizeof fwts_acpi_serialization_instruction_entries * n + sizeof fwts_acpi_table_erst > length t
          then Some (conclude (rs @ fails LOG_LEVEL_HIGH ''ERSTTooManyEntries''))
          else do { entries \<leftarrow> structs t (sizeof fwts_acpi_table_erst) fwts_acpi_serialization_instruction_entries n;
                    Some (conclude (rs @ concat (map erst_entry entries))) } }"

text \<open>The entries are looked for 48 structs, not 48 bytes, behind the start of the table.\<close>

definition einj_entry :: "u64 \<Rightarrow> members \<Rightarrow> act list" where
  "einj_entry revision entry =
     fault_if (entry ''serialization_action'' > (if revision \<ge> 2 then 0x11 else 0x9) \<and> entry ''serialization_action'' \<noteq> 0xFF)
       (Failed LOG_LEVEL_MEDIUM ''EINJBadInjectionAction'') @
     fault_if (entry ''instruction'' > 4) (Failed LOG_LEVEL_MEDIUM ''EINJBadInstruction'') @
     reserved_zero ''EINJ'' ''Reserved'' (entry ''reserved'') @
     space_id ''EINJ'' ''Register Region'' (entry ''register_region.address_space_id'')
       [FWTS_GAS_ADDR_SPACE_ID_SYSTEM_MEMORY, FWTS_GAS_ADDR_SPACE_ID_SYSTEM_IO]"

definition einj_test1 :: table_test where
  "einj_test1 t =
     do { einj \<leftarrow> view t 0 fwts_acpi_table_einj;
          entries \<leftarrow> structs t (48 * sizeof fwts_acpi_table_einj) fwts_acpi_serialization_instruction_entries
                      (unat (einj ''count''));
          Some (conclude
            (reserved_bits ''EINJ'' ''Injection Flags'' (einj ''flags'') 0 31 @
             reserved_zero ''EINJ'' ''Reserved'' (einj ''reserved'') @
             concat (map (einj_entry (einj ''header.revision'')) entries))) }"

text \<open>The instructions of WDAT have a flag of their own, with a report of its own; it is added to that of the test.\<close>

definition wdat_actions :: "u64 list" where
  "wdat_actions = [0x01, 0x04, 0x05, 0x06, 0x08, 0x09, 0x0a, 0x0b, 0x10, 0x11, 0x12, 0x13, 0x20, 0x21]"

definition wdat_instruction :: "members \<Rightarrow> act list" where
  "wdat_instruction entry =
     fault_if (entry ''watchdog_action'' \<notin> set wdat_actions) (Failed LOG_LEVEL_HIGH ''WDATWatchdogActionInvalid'') @
     fault_if (entry ''instruction_flags'' AND NOT 0x83 \<noteq> 0) (Failed LOG_LEVEL_HIGH ''WDATInstructionFlagsInvalid'')"

definition wdat_entry :: "members \<Rightarrow> act list" where
  "wdat_entry entry =
     reserved_zero ''WDAT'' ''Watchdog Entry Reserved'' (entry ''reserved'') @ wdat_instruction entry"

definition wdat_test1 :: table_test where
  "wdat_test1 t =
     do { len \<leftarrow> header_field t ''length'';
          if unat len > unat (of_nat (length t) :: u32) then Some (conclude (fails LOG_LEVEL_MEDIUM ''WDATBadLength''))
          else do {
            wdat \<leftarrow> view t 0 fwts_acpi_table_wdat;
            let n = unat (wdat ''number_of_entries'');
                rs = reserved_zero ''WDAT'' ''Reserved1'' (wdat ''reserved1'') @
                     reserved_zero ''WDAT'' ''Reserved2'' (wdat ''reserved2'') @
                     fault_if (wdat ''minimum_count'' > wdat ''maximum_count'') (Failed LOG_LEVEL_MEDIUM ''WDATMinGreaterThanMax'') @
                     reserved_bits ''WDAT'' ''Watchdog Flags'' (wdat ''watchdog_flags'') 1 6 in
            if sizeof fwts_acpi_table_wdat + n * sizeof fwts_acpi_table_wdat_instr_entries > unat len
            then Some (conclude (rs @ fails LOG_LEVEL_HIGH ''WDATBadLength''))
            else do { entries \<leftarrow> structs t (sizeof fwts_acpi_table_wdat) fwts_acpi_table_wdat_instr_entries n;
                      let entry_rs = concat (map wdat_entry entries);
                          entries_passed = (Unpass \<notin> set (concat (map wdat_instruction entries))) in
                      Some (conclude (rs @ entry_rs @ (if entries_passed then [Says Passed] else []))) } } }"

section \<open>Matrices and lists of lists\<close>

text \<open>
  A matrix of n columns. Offsets are computed in 64 bits, so that without localities the last entry is
  the byte in front of the matrix. Entries below 10 are reported, up to 15 of them, but do not clear the
  flag.
\<close>

definition slit_index :: "u64 \<Rightarrow> u64 \<Rightarrow> u64 \<Rightarrow> nat" where
  "slit_index n i j = unat (of_nat (sizeof fwts_acpi_table_slit) + (i * n + j))"

definition slit_corner :: "bytes \<Rightarrow> u64 \<Rightarrow> u64 \<Rightarrow> act list option" where
  "slit_corner t n i =
     do { entry \<leftarrow> byte_in t (slit_index n i i);
          Some (fault_if (entry \<noteq> 10) (Failed LOG_LEVEL_HIGH ''SLITBadCornerEntry'')) }"

definition slit_reserved :: "bytes \<Rightarrow> u64 \<Rightarrow> nat list" where
  "slit_reserved t n =
     filter (\<lambda>k. t ! (sizeof fwts_acpi_table_slit + k) < 10) [0..<unat n * unat n]"

definition slit_test1 :: table_test where
  "slit_test1 t =
     (case fwts_acpi_table_length ''SLIT'' (of_nat (length t)) (sizeof fwts_acpi_table_slit) of
        [] \<Rightarrow> do { slit \<leftarrow> view t 0 fwts_acpi_table_slit;
                   let n = slit ''num_of_system_localities'' in
                   if n > 0xffff then Some (conclude (fails LOG_LEVEL_HIGH ''SLITTooManySystemLocalities''))
                   else if length t < unat n * unat n + sizeof fwts_acpi_table_slit
                   then Some (conclude (fails LOG_LEVEL_HIGH ''SLITTooManySystemLocalities''))
                   else do { first \<leftarrow> slit_corner t n 0;
                             last \<leftarrow> slit_corner t n (n - 1);
                             Some (conclude (first @ last @
                               map (\<lambda>_. Says (Failed LOG_LEVEL_HIGH ''SLITEntryReserved'')) (take 15 (slit_reserved t n)))) } }
      | rs \<Rightarrow> Some (conclude (unpass rs)))"

text \<open>
  DRTM has three lists one after the other, and MPST nodes with lists of their own. Each is compared with
  the length in the header, which may be more than the table has.
\<close>

definition drtm_resource :: "members \<Rightarrow> act list" where
  "drtm_resource resource =
     fault_if (resource ''type'' AND 0x7C \<noteq> 0) (Failed LOG_LEVEL_MEDIUM ''DRTMBadResourceType'')"

definition drtm_test1 :: table_test where
  "drtm_test1 t =
     do { drtm \<leftarrow> view t 0 fwts_acpi_table_drtm;
          let len = unat (drtm ''header.length'');
          let off = sizeof fwts_acpi_table_drtm;
          let rs = reserved_bits ''DRTM'' ''DRT_Flags'' (drtm ''flags'') 4 31;
          let out = [Says (Failed LOG_LEVEL_HIGH ''DRTMOutOfBound'')];
          vtl \<leftarrow> view t off fwts_acpi_table_drtm_vtl;
          let n = unat (vtl ''validated_table_count''); off = off + 4 in
          if len < off + 8 * n then Some (said (rs @ out))
          else do {
            _ \<leftarrow> has_bytes t off (8 * n);
            let off = off + 8 * n;
            rtl \<leftarrow> view t off fwts_acpi_table_drtm_rtl;
            let m = unat (rtl ''resource_count''); off = off + 4 in
            if len < off + sizeof fwts_acpi_drtm_resource * m then Some (said (rs @ out))
            else do {
              resources \<leftarrow> structs t off fwts_acpi_drtm_resource m;
              let rs = rs @ concat (map drtm_resource resources);
              let off = off + sizeof fwts_acpi_drtm_resource * m;
              dps \<leftarrow> view t off (up_to ''dps_id_length'' fwts_acpi_table_drtm_dps);
              if len < off + sizeof fwts_acpi_table_drtm_dps then Some (said (rs @ out))
              else do { dps \<leftarrow> view t off fwts_acpi_table_drtm_dps; Some (conclude rs) } } } }"

text \<open>A node of MPST: its position is the number of the node and its offset.\<close>

definition mpst_node :: "bytes \<Rightarrow> nat \<Rightarrow> nat \<times> nat \<Rightarrow> (act list \<times> (nat \<times> nat) advance) option" where
  "mpst_node t len pos =
     (case pos of (i, off) \<Rightarrow>
        do { node \<leftarrow> view t off fwts_acpi_table_mpst_power_node;
             let states = unat (node ''num_states''); components = unat (node ''num_components'');
                 size = sizeof fwts_acpi_table_mpst_power_node;
                 rs = reserved_bits ''MPST'' ''Power Node Flags'' (node ''flags'') 3 7 @
                      reserved_zero ''MPST'' ''Reserved'' (node ''reserved'') @
                      fault_if (node ''length'' \<noteq> of_nat ((size + 2 * states + 2 * components) mod 2 ^ 32))
                        (Failed LOG_LEVEL_HIGH ''MPSTBadPowerNodeLength'');
                 out = [Says (Failed LOG_LEVEL_HIGH ''MPSTOutOfBound'')]; off = off + size in
             if len < off + sizeof fwts_acpi_table_mpst_power_state * states then Some (rs @ out, Return)
             else do {
               _ \<leftarrow> has_bytes t off (sizeof fwts_acpi_table_mpst_power_state * states);
               let off = off + sizeof fwts_acpi_table_mpst_power_state * states in
               if len < off + sizeof fwts_acpi_table_mpst_component * components then Some (rs @ out, Return)
               else do { _ \<leftarrow> has_bytes t off (sizeof fwts_acpi_table_mpst_component * components);
                         Some (rs, Goto (i + 1, off + sizeof fwts_acpi_table_mpst_component * components)) } } })"

definition mpst_char :: "members \<Rightarrow> act list" where
  "mpst_char power_char =
     fault_if (power_char ''structure_id'' AND 0x3F \<noteq> 1) (Failed LOG_LEVEL_HIGH ''MPSTBadPowerCharacteristicsID'') @
     fault_if (drop_bit 6 (power_char ''structure_id'' AND 0xC0) \<noteq> 1) (Failed LOG_LEVEL_HIGH ''MPSTBadPowerCharacteristicsRevision'') @
     reserved_bits ''MPST'' ''Power Characteristics Flags'' (power_char ''flags'') 3 7 @
     reserved_zero ''MPST'' ''Reserved1'' (power_char ''reserved1'') @
     reserved_zero ''MPST'' ''Reserved2'' (power_char ''reserved2'')"

definition mpst_test1 :: table_test where
  "mpst_test1 t =
     do { mpst \<leftarrow> view t 0 fwts_acpi_table_mpst;
          nodes \<leftarrow> view t (sizeof fwts_acpi_table_mpst) fwts_acpi_table_mpst_power_node_list;
          let len = unat (mpst ''header.length''); n = unat (nodes ''count'');
              off = sizeof fwts_acpi_table_mpst + sizeof fwts_acpi_table_mpst_power_node_list;
              rs = reserved_zero ''MPST'' ''Reserved'' (mpst ''reserved'') @
                   reserved_zero ''MPST'' ''Reserved'' (nodes ''reserved'');
              out = [Says (Failed LOG_LEVEL_HIGH ''MPSTOutOfBound'')] in
          if len < off + sizeof fwts_acpi_table_mpst_power_node * n then Some (said (rs @ out))
          else do {
            (node_rs, last) \<leftarrow> scan (Suc n) (\<lambda>(i, off). i < n) (mpst_node t len) (0, off);
            case last of
              None \<Rightarrow> Some (said (rs @ node_rs))
            | Some (_, off) \<Rightarrow> do {
                list \<leftarrow> view t off fwts_acpi_table_mpst_power_char_list;
                let rs = rs @ node_rs @ reserved_zero ''MPST'' ''Reserved'' (list ''reserved'');
                    m = unat (list ''count''); off = off + sizeof fwts_acpi_table_mpst_power_char_list in
                if len < off + sizeof fwts_acpi_table_mpst_power_char * m then Some (said (rs @ out))
                else do { chars \<leftarrow> structs t off fwts_acpi_table_mpst_power_char m;
                          Some (conclude (rs @ concat (map mpst_char chars))) } } } }"

end
