(* ===== verification/Fwts_Node_Tables.thy ===== *)
theory Fwts_Node_Tables
  imports Fwts_Counted_Tables
begin

text \<open>
  The tests of tables whose loops keep more than an offset, under src/src/acpi: a number of the record,
  a remaining length, identifiers of the record before. The position of a loop is the tuple of these
  variables. Then the MCFG test, which looks at the machine.
\<close>

section \<open>VIOT and ASPT\<close>

text \<open>The offset advances by the size of the struct of the type, not by the length in the node.\<close>

definition viot_node :: "bytes \<Rightarrow> nat \<times> nat \<Rightarrow> (act list \<times> (nat \<times> nat) advance) option" where
  "viot_node t pos =
     (case pos of (i, off) \<Rightarrow>
        do { hdr \<leftarrow> view t off fwts_acpi_viot_node_hdr;
             let len = hdr ''length''; ty = hdr ''type'';
                 hdr_rs = reserved_zero ''VIOT'' ''Reserved'' (hdr ''reserved'') in
             case fwts_acpi_structure_length_zero ''VIOT'' len off of
               r # rs \<Rightarrow> Some (unpass (r # rs), Leave pos)
             | [] \<Rightarrow>
                 if off + unat len > length t then Some ([Says (Failed LOG_LEVEL_HIGH ''VIOTOutOfRangeOffset'')], Return)
                 else if ty = 1 then do {
                   node \<leftarrow> view t off fwts_acpi_viot_pci_rng_node;
                   reserved \<leftarrow> get_bytes t off fwts_acpi_viot_pci_rng_node ''reserved'';
                   Some (hdr_rs @ reserved_zero_array ''VIOT'' ''Reserved'' reserved,
                         Goto (i + 1, off + sizeof fwts_acpi_viot_pci_rng_node)) }
                 else if ty = 2 then do {
                   node \<leftarrow> view t off fwts_acpi_viot_mmio_ep_node;
                   reserved \<leftarrow> get_bytes t off fwts_acpi_viot_mmio_ep_node ''reserved'';
                   Some (hdr_rs @ reserved_zero_array ''VIOT'' ''Reserved'' reserved,
                         Goto (i + 1, off + sizeof fwts_acpi_viot_mmio_ep_node)) }
                 else if ty = 3 then do {
                   node \<leftarrow> view t off fwts_acpi_viot_pci_iommu_node;
                   Some (hdr_rs @ reserved_zero ''VIOT'' ''Reserved'' (node ''reserved''),
                         Goto (i + 1, off + sizeof fwts_acpi_viot_pci_iommu_node)) }
                 else if ty = 4 then do {
                   node \<leftarrow> view t off fwts_acpi_viot_mmio_iommu_node;
                   Some (hdr_rs @ reserved_zero ''VIOT'' ''Reserved'' (node ''reserved''),
                         Goto (i + 1, off + sizeof fwts_acpi_viot_mmio_iommu_node)) }
                 else Some (fails LOG_LEVEL_HIGH ''VIOTBadNodeType'', Goto (i + 1, off + unat len)) })"

definition viot_test1 :: table_test where
  "viot_test1 t =
     do { viot \<leftarrow> view t 0 fwts_acpi_table_viot;
          let off = unat (viot ''node_offset''); n = unat (viot ''node_count'');
              rs = reserved_zero ''VIOT'' ''Reserved'' (viot ''reserved'') in
          if off = 0 then Some [Failed LOG_LEVEL_HIGH ''VIOTinvalidOffset'']
          else if off \<ge> length t then Some (said rs @ [Failed LOG_LEVEL_HIGH ''VIOTOutOfRangeOffset''])
          else do { r \<leftarrow> scan (Suc n) (\<lambda>(i, off). i < n) (viot_node t) (0, off); Some (after_scan rs r) } }"

text \<open>
  The two revisions of ASPT have the same loop over other structs. Its records are skipped by the length
  in their header, and their number ends the loop. They give their flag to the test; where a record is
  out of range they return FWTS_OK, which is false.
\<close>

definition aspt_record ::
    "layout \<times> layout \<times> layout \<Rightarrow> string \<Rightarrow> bytes \<Rightarrow> nat \<times> nat \<Rightarrow> (act list \<times> (nat \<times> nat) advance) option" where
  "aspt_record ls reserved1 t pos =
     (case (ls, pos) of ((glob, sev, mailbox), (i, off)) \<Rightarrow>
        if off + sizeof fwts_aspt_sub_header > length t then Some (fails LOG_LEVEL_HIGH ''ASPTOutOfRangeOffset'', Leave pos)
        else do {
          hdr \<leftarrow> view t off fwts_aspt_sub_header;
          let next = Goto (i + 1, off + unat (hdr ''length''));
          if hdr ''type'' = 0 then do {
            entry \<leftarrow> view t off glob;
            Some (reserved_zero ''ASPT'' ''Reserved'' (entry ''reserved''), next) }
          else if hdr ''type'' = 1 then do {
            entry \<leftarrow> view t off sev;
            reserved \<leftarrow> get_bytes t off sev ''reserved'';
            Some (reserved_bits ''ASPT'' ''Mailbox Interrupt ID'' (entry ''mailbox_interrupt_id'') 6 7 @
                  reserved_zero_array ''ASPT'' ''Reserved'' reserved, next) }
          else if hdr ''type'' = 2 then do {
            entry \<leftarrow> view t off mailbox;
            reserved \<leftarrow> get_bytes t off mailbox reserved1;
            Some (reserved_zero ''ASPT'' ''Reserved'' (entry ''reserved'') @
                  reserved_zero_array ''ASPT'' ''Reserved'' reserved, next) }
          else Some (fails LOG_LEVEL_HIGH ''ASPTBadType'', Leave pos) })"

definition aspt_revision1_test :: "bytes \<Rightarrow> act list option" where
  "aspt_revision1_test t =
     do { aspt \<leftarrow> view t 0 fwts_acpi_table_aspt_v1;
          let n = unat (aspt ''v1.asp_reg_count'');
          r \<leftarrow> scan (Suc n) (\<lambda>(i, off). i < n)
            (aspt_record (fwts_acpi_table_asp_global_v1, fwts_acpi_table_sev_mailbox_v1, fwts_acpi_table_acpi_mailbox_v1)
              ''v1.reserved1'' t) (0, sizeof fwts_acpi_table_aspt_v1);
          Some (fst r) }"

definition aspt_revision2_test :: "bytes \<Rightarrow> act list option" where
  "aspt_revision2_test t =
     do { aspt \<leftarrow> view t 0 fwts_acpi_table_aspt_v2;
          let n = unat (aspt ''v2.asp_reg_count'');
          r \<leftarrow> scan (Suc n) (\<lambda>(i, off). i < n)
            (aspt_record (fwts_acpi_table_asp_global_v2, fwts_acpi_table_sev_mailbox_v2, fwts_acpi_table_acpi_mailbox_v2)
              ''v2.reserved1'' t) (0, sizeof fwts_acpi_table_aspt_v2);
          Some (fst r) }"

definition aspt_test1 :: table_test where
  "aspt_test1 t =
     do { revision \<leftarrow> header_field t ''revision'';
          if revision = 1 then map_option conclude (aspt_revision1_test t)
          else if revision = 2 then map_option conclude (aspt_revision2_test t)
          else Some (said (fails LOG_LEVEL_HIGH ''ASPTUnknowRevision'')) }"

section \<open>LPIT\<close>

text \<open>
  The position is the length left, the offset, the last identifier and whether one was accepted. A state
  that is too short is reported, and nothing is left after it.
\<close>

definition lpit_check_type_0 :: "bytes \<Rightarrow> nat \<Rightarrow> nat \<Rightarrow> (act list \<times> nat \<times> nat) option" where
  "lpit_check_type_0 t len off =
     do { lpi \<leftarrow> view t off (up_to ''length'' fwts_acpi_table_lpit_c_state);
          if unat (lpi ''length'') < sizeof fwts_acpi_table_lpit_c_state
          then Some (fails LOG_LEVEL_HIGH ''LPITNativeCStateLpitShort'', 0, off)
          else do {
            lpi \<leftarrow> view t off fwts_acpi_table_lpit_c_state;
            Some (reserved_zero ''LPIT'' ''Native C-state based LPI structure reserved'' (lpi ''reserved'') @
                  reserved_bits ''LPIT'' ''LPI structure flags'' (lpi ''flags'') 2 31 @
                  (if lpi ''flags'' AND 2 = 0 \<and> lpi ''residency_counter.address_space_id'' = FWTS_GAS_ADDR_SPACE_ID_FFH
                   then fault_if (lpi ''residency_counter.register_bit_width'' \<noteq> 64)
                          (Failed LOG_LEVEL_LOW ''LPITNativeCStateLpitResidencyCounterWidth'') @
                        fault_if (lpi ''residency_counter.register_bit_offset'' \<noteq> 0)
                          (Failed LOG_LEVEL_LOW ''LPITNativeCStateLpitResidencyCounterOffset'') @
                        fault_if (lpi ''residency_counter.access_width'' \<noteq> 0)
                          (Failed LOG_LEVEL_LOW ''LPITNativeCStateLpitResidencyCounterAccessSize'')
                   else []),
                  sub32 len (unat (lpi ''length'')), off + unat (lpi ''length'')) } }"

type_synonym lpit_position = "nat \<times> nat \<times> u64 \<times> bool"

definition lpit_state :: "bytes \<Rightarrow> lpit_position \<Rightarrow> (act list \<times> lpit_position advance) option" where
  "lpit_state t pos =
     (case pos of (len, off, uid, seen) \<Rightarrow>
        do { lpi \<leftarrow> view t off (up_to ''length'' fwts_acpi_table_lpit_c_state);
             if len < unat (lpi ''length'') then Some (fails LOG_LEVEL_HIGH ''LPITTooShort'', Leave pos)
             else if lpi ''type'' \<noteq> 0 then Some (fails LOG_LEVEL_HIGH ''LPITInvalidType'', Leave pos)
             else do {
               (rs, len', off') \<leftarrow> lpit_check_type_0 t len off;
               lpi \<leftarrow> view t off (up_to ''id'' fwts_acpi_table_lpit_c_state);
               let lid = lpi ''id''; bad = (\<not> seen \<and> lid \<noteq> 0) in
               Some (rs @ fault_if bad (Failed LOG_LEVEL_CRITICAL ''LPITNativeCStateBadUID'') @
                     fault_if (uid > lid \<or> lid - uid > 1) (Failed LOG_LEVEL_CRITICAL ''LPITNativeCStateBadUID''),
                     Goto (len', off', lid, seen \<or> \<not> bad)) } })"

definition lpit_test1 :: table_test where
  "lpit_test1 t =
     (if length t < sizeof fwts_acpi_table_lpit then Some (conclude (fails LOG_LEVEL_HIGH ''LPITTooShort''))
      else do { len \<leftarrow> header_field t ''length'';
                let left = sub32 (unat len) (sizeof fwts_acpi_table_lpit);
                r \<leftarrow> scan (Suc left) (\<lambda>(len, off, uid, seen). len > 8) (lpit_state t)
                      (left, sizeof fwts_acpi_table_lpit, 0, False);
                Some (after_scan [] r) })"

section \<open>RHCT\<close>

text \<open>
  The position is the offset and the length left, a signed number; it is compared with sizes as an
  unsigned one. A node is skipped by the length in its header, which the test does not check.
\<close>

definition exceeds :: "nat \<Rightarrow> int \<Rightarrow> bool" where
  "exceeds n len \<longleftrightarrow> n > unat (of_int len :: u64)"

definition rhct_revision :: "members \<Rightarrow> act list" where
  "rhct_revision hdr = fixed_value LOG_LEVEL_MEDIUM ''RHCT'' ''revision'' (hdr ''revision'') 1"

definition rhct_check_node_isa_string :: "bytes \<Rightarrow> members \<Rightarrow> nat \<Rightarrow> int \<Rightarrow> act list option" where
  "rhct_check_node_isa_string t hdr off len =
     do { node \<leftarrow> view t off fwts_acpi_rhct_node_isa_string;
          let n = unat (node ''isa_length'');
          if exceeds (sizeof fwts_acpi_rhct_node_isa_string + n) len
          then Some (fails LOG_LEVEL_MEDIUM ''RHCTNodeISAStringShort'')
          else do { isa \<leftarrow> read_str t (off + offsetof fwts_acpi_rhct_node_isa_string ''isa'');
                    Some (rhct_revision hdr @
                      fault_if (n \<noteq> length isa + 1) (Failed LOG_LEVEL_CRITICAL ''RHCTBadISAStringLength'')) } }"

definition rhct_check_node_cmo :: "bytes \<Rightarrow> members \<Rightarrow> nat \<Rightarrow> int \<Rightarrow> act list option" where
  "rhct_check_node_cmo t hdr off len =
     (if exceeds (sizeof fwts_acpi_rhct_node_cmo) len then Some (fails LOG_LEVEL_MEDIUM ''RHCTNodeCMOShort'')
      else do { node \<leftarrow> view t off fwts_acpi_rhct_node_cmo;
                Some (rhct_revision hdr @
                  fault_if (node ''reserved'' \<noteq> 0) (Failed LOG_LEVEL_MEDIUM ''RHCTNodeCMOReserved'')) })"

definition rhct_check_node_mmu :: "bytes \<Rightarrow> members \<Rightarrow> nat \<Rightarrow> int \<Rightarrow> act list option" where
  "rhct_check_node_mmu t hdr off len =
     (if exceeds (sizeof fwts_acpi_rhct_node_mmu) len then Some (fails LOG_LEVEL_MEDIUM ''RHCTNodeMMUShort'')
      else do { node \<leftarrow> view t off fwts_acpi_rhct_node_mmu;
                Some (rhct_revision hdr @
                  fault_if (node ''reserved'' \<noteq> 0) (Failed LOG_LEVEL_MEDIUM ''RHCTNodeMMUReserved'') @
                  fault_if (node ''mmu_type'' > 2) (Failed LOG_LEVEL_MEDIUM ''RHCTNodeMMUType'')) })"

definition rhct_check_node_hart_info :: "bytes \<Rightarrow> members \<Rightarrow> nat \<Rightarrow> int \<Rightarrow> act list option" where
  "rhct_check_node_hart_info t hdr off len =
     do { node \<leftarrow> view t off (up_to ''num_offsets'' fwts_acpi_rhct_node_hart_info);
          if exceeds (sizeof fwts_acpi_rhct_node_hart_info + 4 * unat (node ''num_offsets'')) len
          then Some (fails LOG_LEVEL_MEDIUM ''RHCTNodeHartInfoShort'')
          else do { node \<leftarrow> view t off fwts_acpi_rhct_node_hart_info; Some (rhct_revision hdr) } }"

definition rhct_node :: "bytes \<Rightarrow> nat \<times> int \<Rightarrow> (act list \<times> (nat \<times> int) advance) option" where
  "rhct_node t pos =
     (case pos of (off, len) \<Rightarrow>
        do { hdr \<leftarrow> view t off fwts_acpi_rhct_node_header;
             let off' = off + sizeof fwts_acpi_rhct_node_header;
             let len' = len - int (sizeof fwts_acpi_rhct_node_header);
             let next = Goto (off + unat (hdr ''length''), len - uint (hdr ''length''));
             let ty = hdr ''type'';
             if ty = 0 then do { rs \<leftarrow> rhct_check_node_isa_string t hdr off' len'; Some (rs, next) }
             else if ty = 1 then do { rs \<leftarrow> rhct_check_node_cmo t hdr off' len'; Some (rs, next) }
             else if ty = 2 then do { rs \<leftarrow> rhct_check_node_mmu t hdr off' len'; Some (rs, next) }
             else if ty = 0xFFFF then do { rs \<leftarrow> rhct_check_node_hart_info t hdr off' len'; Some (rs, next) }
             else Some (fails LOG_LEVEL_HIGH ''RHCTInvalidType'', Leave pos) })"

text \<open>The checksum and the flags do not clear the flag of the test, and the loop may not end.\<close>

definition rhct_test1 :: "nat \<Rightarrow> table_test" where
  "rhct_test1 fuel t =
     do { rhct \<leftarrow> view t 0 fwts_acpi_table_rhct;
          let len = unat (rhct ''header.length'');
          _ \<leftarrow> has_bytes t 0 len;
          let rs = fail_if (fwts_checksum t len \<noteq> 0) (Failed LOG_LEVEL_MEDIUM ''SPECRHCTChecksum'') @
                   fail_if (rhct ''flags'' AND 0xfffe \<noteq> 0) (Failed LOG_LEVEL_MEDIUM ''RHCTFlagsNonZero'');
          r \<leftarrow> scan fuel (\<lambda>(off, len). len > 0) (rhct_node t)
                (sizeof fwts_acpi_table_rhct, int len - int (sizeof fwts_acpi_table_rhct));
          Some (after_scan (map Says rs) r) }"

section \<open>GTDT\<close>

text \<open>
  The timers of a block are counted, but the pointer to the timer does not move: the first is looked at
  each time. A block with too many timers is reported, and the next round looks at it again.
\<close>

definition gtdt_timer :: "members \<Rightarrow> act list" where
  "gtdt_timer timer =
     fault_if (timer ''frame_number'' > 7) (Failed LOG_LEVEL_HIGH ''GTDTInvalidGTFrameNumber'') @
     fault_if (timer ''reserved'' \<noteq> 0) (Failed LOG_LEVEL_HIGH ''GTDTBlockTimerReservedNotZero'') @
     fault_if (timer ''cntbase'' = 0) (Failed LOG_LEVEL_HIGH ''GTDTGTxInvalidBaseAddr'') @
     fault_if (timer ''cntel0base'' = 0) (Failed LOG_LEVEL_MEDIUM ''GTDTGTxInvalidBaseAddr'') @
     reserved_bits ''GTDT'' ''block physical timer flags'' (timer ''phys_timer_flags'') 2 31 @
     reserved_bits ''GTDT'' ''block virtual timer flags'' (timer ''virt_timer_flags'') 2 31 @
     reserved_bits ''GTDT'' ''block common flags'' (timer ''common_flags'') 2 31"

definition gtdt_timers :: "bytes \<Rightarrow> nat \<Rightarrow> nat \<Rightarrow> act list option" where
  "gtdt_timers t off n =
     (if n = 0 \<or> off + sizeof fwts_acpi_table_gtdt_block_timer > length t then Some []
      else do { timer \<leftarrow> view t off fwts_acpi_table_gtdt_block_timer;
                Some (concat (replicate n (gtdt_timer timer))) })"

definition gtdt_block :: "bytes \<Rightarrow> nat \<times> nat \<Rightarrow> (act list \<times> (nat \<times> nat) advance) option" where
  "gtdt_block t pos =
     (case pos of (i, off) \<Rightarrow>
        if off + 20 > length t then Some (fails LOG_LEVEL_HIGH ''GTDTShortBlock'', Leave pos)
        else do {
          block \<leftarrow> view t off fwts_acpi_table_gtdt_block;
          let n = unat (block ''block_timer_count'');
              rs = fault_if (block ''physical_address'' = 0) (Failed LOG_LEVEL_HIGH ''GTDTBlockInvalidBaseAddr'') @
                   fault_if (block ''reserved'' \<noteq> 0) (Failed LOG_LEVEL_HIGH ''GTDTInvalidBlockReserved'') in
          if block ''length'' < 20 then Some (fails LOG_LEVEL_HIGH ''GTDTInvalidBlockLength'', Leave pos)
          else if n > 8 then Some (rs @ fails LOG_LEVEL_HIGH ''GTDTInvalidBlockTimerCount'', Goto (i + 1, off))
          else if n * 40 + 20 \<noteq> unat (block ''length'')
          then Some (rs @ fails LOG_LEVEL_HIGH ''GTDTInvalidTimerCountOrLength'', Leave pos)
          else do { timer_rs \<leftarrow> gtdt_timers t (off + offsetof fwts_acpi_table_gtdt_block ''block_timers'') n;
                    Some (rs @ timer_rs, Goto (i + 1, off + unat (block ''length''))) } })"

definition gtdt_watchdog :: "bytes \<Rightarrow> nat \<times> nat \<Rightarrow> (act list \<times> (nat \<times> nat) advance) option" where
  "gtdt_watchdog t pos =
     (case pos of (i, off) \<Rightarrow>
        if off + 28 > length t then Some (fails LOG_LEVEL_HIGH ''GTDTShortWatchDogTimer'', Leave pos)
        else do {
          watchdog \<leftarrow> view t off fwts_acpi_table_gtdt_watchdog;
          if watchdog ''length'' \<noteq> 28 then Some (fails LOG_LEVEL_HIGH ''GTDTInvalidWatchDogTimeLength'', Leave pos)
          else Some
            (fault_if (watchdog ''reserved'' \<noteq> 0) (Failed LOG_LEVEL_HIGH ''GTDTInvalidWatchDogReserved'') @
             fault_if (watchdog ''refresh_frame_addr'' = 0) (Failed LOG_LEVEL_HIGH ''GTDTInvalidWatchDogBaseAddr'') @
             fault_if (watchdog ''watchdog_control_frame_addr'' = 0) (Failed LOG_LEVEL_HIGH ''GTDTInvalidWatchDogBaseAddr'') @
             reserved_bits ''GTDT'' ''SBSA generic watchdog timer flags'' (watchdog ''watchdog_timer_flags'') 3 31,
             Goto (i + 1, off + 28)) })"

definition gtdt_structure :: "bytes \<Rightarrow> nat \<times> nat \<Rightarrow> (act list \<times> (nat \<times> nat) advance) option" where
  "gtdt_structure t pos =
     do { ty \<leftarrow> byte_in t (snd pos);
          if ty = 0 then gtdt_block t pos
          else if ty = 1 then gtdt_watchdog t pos
          else Some (fails LOG_LEVEL_HIGH ''GTDTInvalidType'', Leave pos) }"

definition gtdt_test1 :: table_test where
  "gtdt_test1 t =
     do { gtdt \<leftarrow> view t 0 fwts_acpi_table_gtdt;
          let n = unat (gtdt ''platform_timer_count'');
          let rs = fault_if (gtdt ''cnt_control_base_phys_addr'' = 0) (Failed LOG_LEVEL_MEDIUM ''GTDTInvalidBaseAddr'') @
                   fault_if (gtdt ''cnt_read_base_phys_addr'' = 0) (Failed LOG_LEVEL_MEDIUM ''GTDTInvalidBaseAddr'') @
                   reserved_bits ''GTDT'' ''Flags'' (gtdt ''virtual_timer_flags'') 3 31;
          r \<leftarrow> scan (Suc n) (\<lambda>(i, off). i < n \<and> off < length t) (gtdt_structure t) (0, unat (gtdt ''platform_timer_offset''));
          Some (after_scan rs r) }"

section \<open>NHLT\<close>

text \<open>
  Every part is compared with what is left before it is read. The functions give the reports and the
  offset behind what they looked at, or that they failed; then the test ends without a verdict.
\<close>

type_synonym nhlt_result = "act list \<times> nat option"

definition nhlt_short :: nhlt_result where
  "nhlt_short = (fails LOG_LEVEL_HIGH ''NHLTFieldTooShort'', None)"

definition nhlt_format :: "bytes \<Rightarrow> nat \<Rightarrow> nat \<times> nat \<Rightarrow> (act list \<times> (nat \<times> nat) advance) option" where
  "nhlt_format t bound pos =
     (case pos of (i, off) \<Rightarrow>
        let off' = off + sizeof fwts_acpi_table_nhlt_wave_format_ext in
        if off > bound \<or> off' > bound \<or> off' + 4 > bound then Some (fst nhlt_short, Return)
        else do { config_size \<leftarrow> read_le t off' 4;
                  if unat config_size > bound - (off' + 4) then Some (fst nhlt_short, Return)
                  else Some ([], Goto (i + 1, off' + 4 + unat config_size)) })"

definition nhlt_validate_format_configs :: "bytes \<Rightarrow> nat \<Rightarrow> nat \<Rightarrow> nhlt_result option" where
  "nhlt_validate_format_configs t off bound =
     (if off > bound \<or> off + 1 > bound then Some nhlt_short
      else do { conf \<leftarrow> view t off fwts_acpi_table_nhlt_formats_configuration;
                let n = unat (conf ''formats_count'');
                (rs, last) \<leftarrow> scan (Suc n) (\<lambda>(i, off). i < n) (nhlt_format t bound) (0, off + 1);
                Some (rs, map_option snd last) })"

definition nhlt_devices :: "bytes \<Rightarrow> nat \<Rightarrow> nat \<Rightarrow> nhlt_result option" where
  "nhlt_devices t off bound =
     (if off < bound
      then do { count \<leftarrow> read_le t off 1;
                Some (if unat count * sizeof fwts_acpi_table_nhlt_device_info > bound - (off + 1) then nhlt_short
                      else ([], Some bound)) }
      else Some ([], Some bound))"

definition nhlt_validate_endpoint :: "bytes \<Rightarrow> nat \<Rightarrow> nhlt_result option" where
  "nhlt_validate_endpoint t off =
     (if off > length t \<or> off + sizeof fwts_acpi_table_nhlt_ep_descriptor > length t then Some ([], None)
      else do {
        ep \<leftarrow> view t off fwts_acpi_table_nhlt_ep_descriptor;
        let len = unat (ep ''len'');
        let bound = off + len;
        let rs = fault_if (ep ''link_type'' > 6) (Failed LOG_LEVEL_HIGH ''NHLTBadLinkType'') @
                 fault_if (ep ''direction'' > 1) (Failed LOG_LEVEL_HIGH ''NHLTBadDirection'') @
                 fault_if (ep ''link_type'' = 2 \<and> ep ''device_type'' > 1) (Failed LOG_LEVEL_HIGH ''NHLTBadDeviceType'') @
                 fault_if (ep ''link_type'' = 3 \<and> ep ''device_type'' > 4) (Failed LOG_LEVEL_HIGH ''NHLTBadDeviceType'');
        let config = off + sizeof fwts_acpi_table_nhlt_ep_descriptor;
        if len < sizeof fwts_acpi_table_nhlt_ep_descriptor then Some (fails LOG_LEVEL_HIGH ''NHLTShortEndpoint'', None)
        else if len > length t - off then Some nhlt_short
        else if config + 4 > bound then Some (rs @ fst nhlt_short, None)
        else do {
          size \<leftarrow> read_le t config 4;
          if unat size > bound - (config + 4) then Some (rs @ fst nhlt_short, None)
          else do {
            (rs', next) \<leftarrow> nhlt_validate_format_configs t (config + 4 + unat size) bound;
            case next of
              None \<Rightarrow> Some (rs @ rs', None)
            | Some off' \<Rightarrow> do { (rs'', next) \<leftarrow> nhlt_devices t off' bound; Some (rs @ rs' @ rs'', next) } } } })"

definition nhlt_endpoint :: "bytes \<Rightarrow> nat \<times> nat \<Rightarrow> (act list \<times> (nat \<times> nat) advance) option" where
  "nhlt_endpoint t pos =
     (case pos of (i, off) \<Rightarrow>
        do { (rs, next) \<leftarrow> nhlt_validate_endpoint t off;
             Some (rs, case next of None \<Rightarrow> Return | Some off' \<Rightarrow> Goto (i + 1, off')) })"

definition nhlt_test1 :: table_test where
  "nhlt_test1 t =
     (if length t < sizeof fwts_acpi_table_nhlt then Some [Failed LOG_LEVEL_HIGH ''NHLTTableTooSmall'']
      else do {
        nhlt \<leftarrow> view t 0 fwts_acpi_table_nhlt;
        let n = unat (nhlt ''ep_descriptor_count'');
        (rs, last) \<leftarrow> scan (Suc n) (\<lambda>(i, off). i < n) (nhlt_endpoint t) (0, sizeof fwts_acpi_table_nhlt);
        case last of
          None \<Rightarrow> Some (said rs)
        | Some (_, off) \<Rightarrow>
            if \<not> off < length t then Some (conclude rs)
            else if off + 4 > length t then Some (said (rs @ fst nhlt_short))
            else do { config_size \<leftarrow> read_le t off 4;
                      Some (if unat config_size > length t - (off + 4) then said (rs @ fst nhlt_short) else conclude rs) } })"

section \<open>MCFG\<close>

text \<open>
  The memory map is None where it cannot be read. Then a failure is reported, which does not clear the
  flag of the test.
\<close>

definition mcfg_test1 :: "(u64 \<Rightarrow> bool) option \<Rightarrow> bytes \<Rightarrow> (int \<times> report list) option" where
  "mcfg_test1 memory_map t =
     (if length t < sizeof fwts_acpi_table_mcfg then Some (FWTS_ERROR, [Failed LOG_LEVEL_HIGH ''MCFGInvalidSize'', Advice])
      else let size = length t - sizeof fwts_acpi_table_mcfg; n = size div sizeof fwts_acpi_mcfg_configuration in
        if n = 0 then Some (FWTS_ERROR, [Failed LOG_LEVEL_MEDIUM ''MCFGNoEntries''])
        else if size \<noteq> n * sizeof fwts_acpi_mcfg_configuration then Some (FWTS_ERROR, [Failed LOG_LEVEL_HIGH ''MCFGInvalidSize2''])
        else do {
          configs \<leftarrow> structs t (sizeof fwts_acpi_table_mcfg) fwts_acpi_mcfg_configuration n;
          let rs = (case memory_map of
                      None \<Rightarrow> []
                    | Some is_reserved \<Rightarrow> concat (map (\<lambda>config.
                        if is_reserved (config ''base_address'') then []
                        else [Says (Failed LOG_LEVEL_HIGH ''MCFGMMIONotReserved''), Says Advice, Unpass]) configs));
          Some (FWTS_OK, conclude
            (map Says (fail_if (memory_map = None) (Failed LOG_LEVEL_MEDIUM ''MMapUnreadable'')) @ rs)) })"

text \<open>
  The configuration space of the first entry: the file of its first device, what mapping its address
  gives, and the file that says whether the kernel is locked down.
\<close>

definition compare_config_space ::
    "(u64 \<Rightarrow> bytes option) \<Rightarrow> (u64 \<Rightarrow> mapping) \<Rightarrow> cstr option \<Rightarrow> members \<Rightarrow> int \<times> report list" where
  "compare_config_space config_file memory lockdown config =
     (case config_file (config ''pci_segment_group_number'') of
        None \<Rightarrow> (FWTS_ERROR, [Warning])
      | Some bs \<Rightarrow>
          if length bs < 16 then (FWTS_ERROR, [Warning])
          else case memory (config ''base_address'') of
            Unmapped \<Rightarrow>
              (case lockdown of
                 Some s \<Rightarrow> if c_strstr s ''[none]'' = None then (FWTS_ABORTED, [])
                           else (FWTS_ERROR, [Failed LOG_LEVEL_MEDIUM ''MMapUnmappable''])
               | None \<Rightarrow> (FWTS_ERROR, [Failed LOG_LEVEL_MEDIUM ''MMapUnmappable'']))
          | Unreadable \<Rightarrow> (FWTS_ERROR, [Failed LOG_LEVEL_MEDIUM ''PCIUnreadable''])
          | Mapped m \<Rightarrow> (FWTS_OK, pass_or (take 16 bs = take 16 m) (Failed LOG_LEVEL_MEDIUM ''PCIConfigSpaceBad'')))"

definition mcfg_test2 ::
    "(u64 \<Rightarrow> bytes option) \<Rightarrow> (u64 \<Rightarrow> mapping) \<Rightarrow> cstr option \<Rightarrow> bytes \<Rightarrow> (int \<times> report list) option" where
  "mcfg_test2 config_file memory lockdown t =
     (if length t < sizeof fwts_acpi_table_mcfg + sizeof fwts_acpi_mcfg_configuration
      then Some (FWTS_ERROR, [Failed LOG_LEVEL_MEDIUM ''MCFGNoEntries''])
      else do { config \<leftarrow> view t (sizeof fwts_acpi_table_mcfg) fwts_acpi_mcfg_configuration;
                Some (compare_config_space config_file memory lockdown config) })"

end
