(* ===== verification/Fwts_Record_Tables.thy ===== *)
theory Fwts_Record_Tables
  imports Fwts_Counted_Tables
begin

text \<open>
  The tests of tables that are a sequence of records with a length of their own, under src/src/acpi. The
  position of the loop is the offset of the record, which the code keeps in 32 bits. A function with the
  suffix \<open>_record\<close> is the body of the loop; it is given the table and the offset.
\<close>

type_synonym record_body = "bytes \<Rightarrow> nat \<Rightarrow> (act list \<times> nat advance) option"

text \<open>The loop over records behind the struct of the table.\<close>

definition records :: "bytes \<Rightarrow> record_body \<Rightarrow> nat \<Rightarrow> (act list \<times> nat option) option" where
  "records t body off = scan (Suc (length t)) (\<lambda>off. off < length t) (body t) off"

section \<open>APMT, SDEV and CEDT\<close>

definition apmt_record :: record_body where
  "apmt_record t off =
     do { hdr \<leftarrow> view t off (up_to ''length'' fwts_acpi_apmt_node);
          let len = unat (hdr ''length'');
          on_record ''APMT'' (hdr ''length'') off
            (if off + len > length t then Some (fails LOG_LEVEL_HIGH ''APMTOutOfRangeOffset'', Leave off)
             else do {
               node \<leftarrow> view t off fwts_acpi_apmt_node;
               let ty = node ''type'';
               Some (reserved_bits ''APMT'' ''Node flags'' (node ''flags'') 3 7 @
                     (if ty \<le> 2 then fault_if (node ''instance_secondary'' \<noteq> 0) (Failed LOG_LEVEL_HIGH ''APMTInvalidNodeType'')
                      else if ty = 3 then []
                      else if ty = 4 then fault_if (node ''instance_prim'' \<noteq> 0) (Failed LOG_LEVEL_HIGH ''APMTInvalidNodeType'')
                      else fails LOG_LEVEL_HIGH ''APMTNodeTypeUnknown'') @
                     reserved_zero ''APMT'' ''Reserved1'' (node ''reserved1'') @
                     reserved_bits ''APMT'' ''Overflow interrupt flags'' (node ''overflow_intr_flag'') 1 31,
                     Goto (add32 off len)) }) }"

definition apmt_test1 :: table_test where
  "apmt_test1 t = map_option (after_scan []) (records t apmt_record (sizeof fwts_acpi_table_apmt))"

definition sdev_acpi_namespace_device_test :: "members \<Rightarrow> act list" where
  "sdev_acpi_namespace_device_test entry = reserved_bits ''SDEV'' ''Flags'' (entry ''header.flags'') 2 15"

definition sdev_pcie_endpoint_device_test :: "members \<Rightarrow> act list" where
  "sdev_pcie_endpoint_device_test entry = reserved_bits ''SDEV'' ''Flags'' (entry ''header.flags'') 1 15"

text \<open>The end of a record: its length must be the one its type gives, a number of 32 bits.\<close>

definition sized_record :: "cstr \<Rightarrow> bytes \<Rightarrow> nat \<Rightarrow> u64 \<Rightarrow> u64 \<Rightarrow> nat \<Rightarrow> act list \<Rightarrow> act list \<times> nat advance" where
  "sized_record table t off ty len type_length rs =
     (case fwts_acpi_structure_length table ty len (type_length mod 2 ^ 32) of
        [] \<Rightarrow> to_next table t rs (add32 off (unat len))
      | rs' \<Rightarrow> (rs @ unpass rs', Leave off))"

definition sdev_record :: record_body where
  "sdev_record t off =
     do { hdr \<leftarrow> view t off fwts_acpi_table_sdev_header;
          let len = hdr ''length''; ty = hdr ''type'' in
          on_record ''SDEV'' len off
            (if ty = 0 then do {
               acpi \<leftarrow> view t off (up_to ''vendor_length'' fwts_acpi_table_sdev_acpi);
               let n = sizeof fwts_acpi_table_sdev_acpi + unat (acpi ''device_id_length'') + unat (acpi ''vendor_length'');
               sz \<leftarrow> (if acpi ''header.flags'' AND 2 \<noteq> 0
                       then do { acpi \<leftarrow> view t off fwts_acpi_table_sdev_acpi; Some (n + unat (acpi ''secure_access_length'')) }
                       else Some (n - 4));
               Some (sized_record ''SDEV'' t off ty len sz (sdev_acpi_namespace_device_test acpi)) }
             else if ty = 1 then do {
               pcie \<leftarrow> view t off fwts_acpi_table_sdev_pcie;
               Some (sized_record ''SDEV'' t off ty len
                 (sizeof fwts_acpi_table_sdev_pcie + unat (pcie ''path_length'') + unat (pcie ''vendor_length''))
                 (sdev_pcie_endpoint_device_test pcie)) }
             else Some (reserved_type ''SDEV'' ty 0 2, Leave off)) }"

definition sdev_test1 :: table_test where
  "sdev_test1 t = map_option (after_scan []) (records t sdev_record (sizeof fwts_acpi_table_sdev))"

definition cedt_reserved :: "u64 \<Rightarrow> act list" where
  "cedt_reserved v = reserved_zero ''CEDT'' ''Reserved'' v"

definition cedt_chbs_test :: "bytes \<Rightarrow> nat \<Rightarrow> act list option" where
  "cedt_chbs_test t off =
     do { entry \<leftarrow> view t off fwts_acpi_table_cedt_chbs;
          Some (cedt_reserved (entry ''header.reserved'') @ cedt_reserved (entry ''reserved'') @
                (if entry ''cxl_version'' = 0 then fault_if (entry ''length'' \<noteq> 0x2000) (Failed LOG_LEVEL_HIGH ''CEDTBadCHBSLength'')
                 else if entry ''cxl_version'' = 1
                 then fault_if (entry ''length'' \<noteq> 0x10000) (Failed LOG_LEVEL_HIGH ''CEDTBadCHBSLength'')
                 else fails LOG_LEVEL_HIGH ''CEDTBadCXLVersion'')) }"

definition cedt_cfmws_test :: "bytes \<Rightarrow> nat \<Rightarrow> act list option" where
  "cedt_cfmws_test t off =
     do { entry \<leftarrow> view t off fwts_acpi_table_cedt_cfmws;
          _ \<leftarrow> has_bytes t (off + offsetof fwts_acpi_table_cedt_cfmws ''interleave_target_list'') (4 * unat (entry ''eniw''));
          Some (cedt_reserved (entry ''header.reserved'') @ cedt_reserved (entry ''reserved1'') @
                cedt_reserved (entry ''reserved2'') @
                fault_if (entry ''interleave_arithmetic'' > 1) (Failed LOG_LEVEL_HIGH ''CEDTBadInterleaveArithmetic'') @
                reserved_bits ''CEDT'' ''Window Restrictions'' (entry ''window_restrictions'') 6 15) }"

definition cedt_cxims_test :: "bytes \<Rightarrow> nat \<Rightarrow> act list option" where
  "cedt_cxims_test t off =
     do { entry \<leftarrow> view t off fwts_acpi_table_cedt_cxims;
          _ \<leftarrow> has_bytes t (off + offsetof fwts_acpi_table_cedt_cxims ''xormap_list'') (8 * unat (entry ''nig''));
          Some (cedt_reserved (entry ''header.reserved'') @ cedt_reserved (entry ''reserved'')) }"

definition cedt_rdpas_test :: "bytes \<Rightarrow> nat \<Rightarrow> act list option" where
  "cedt_rdpas_test t off =
     do { entry \<leftarrow> view t off fwts_acpi_table_cedt_rdpas;
          Some (cedt_reserved (entry ''header.reserved'') @
                fault_if (entry ''protocol_type'' > 1) (Failed LOG_LEVEL_HIGH ''CEDTBadProtocolType'')) }"

definition cedt_csds_test :: "bytes \<Rightarrow> nat \<Rightarrow> act list option" where
  "cedt_csds_test t off =
     do { entry \<leftarrow> view t off fwts_acpi_table_cedt_csds;
          Some (cedt_reserved (entry ''header.reserved'') @
                reserved_bits ''CEDT'' ''System Capabilities'' (entry ''system_cap'') 6 15 @
                cedt_reserved (entry ''reserved'')) }"

definition cedt_structure :: "bytes \<Rightarrow> nat \<Rightarrow> u64 \<Rightarrow> act list option" where
  "cedt_structure t off ty =
     (if ty = 0 then cedt_chbs_test t off
      else if ty = 1 then cedt_cfmws_test t off
      else if ty = 2 then cedt_cxims_test t off
      else if ty = 3 then cedt_rdpas_test t off
      else if ty = 4 then cedt_csds_test t off
      else Some (fails LOG_LEVEL_HIGH ''CEDTBadSubtableType''))"

definition cedt_record :: record_body where
  "cedt_record t off =
     do { hdr \<leftarrow> view t off fwts_acpi_table_cedt_header;
          on_record ''CEDT'' (hdr ''record_length'') off
            (do { rs \<leftarrow> cedt_structure t off (hdr ''type'');
                  Some (to_next ''CEDT'' t rs (add32 off (unat (hdr ''record_length'')))) }) }"

definition cedt_test1 :: table_test where
  "cedt_test1 t =
     (case fwts_acpi_table_length ''CEDT'' (of_nat (length t)) (sizeof fwts_acpi_table_cedt) of
        [] \<Rightarrow> map_option (after_scan []) (records t cedt_record (sizeof fwts_acpi_table_cedt))
      | rs \<Rightarrow> Some rs)"

section \<open>HMAT and PPTT\<close>

definition FWTS_ACPI_VERSION_64 :: u32 where "FWTS_ACPI_VERSION_64 = 0x640"
definition FWTS_ACPI_VERSION_66 :: u32 where "FWTS_ACPI_VERSION_66 = 0x660"

definition hmat_proximity_domain_test :: "members \<Rightarrow> act list" where
  "hmat_proximity_domain_test entry =
     reserved_zero ''HMAT'' ''Reserved'' (entry ''header.reserved'') @
     reserved_bits ''HMAT'' ''Flags'' (entry ''flags'') 1 15 @
     reserved_zero ''HMAT'' ''Reserved'' (entry ''reserved1'') @
     reserved_zero ''HMAT'' ''Reserved'' (entry ''reserved2'') @
     reserved_zero ''HMAT'' ''Reserved'' (entry ''reserved3'') @
     reserved_zero ''HMAT'' ''Reserved'' (entry ''reserved4'')"

text \<open>The size of the lists of a locality structure, in arithmetic of 32 bits.\<close>

definition hmat_pd_size :: "members \<Rightarrow> nat" where
  "hmat_pd_size entry =
     (let i = ucast (entry ''num_initiator'') :: u32; n = ucast (entry ''num_target'') in unat ((i + n) * 4 + i * n * 2))"

definition hmat_locality_test :: "u32 \<Rightarrow> members \<Rightarrow> act list" where
  "hmat_locality_test version entry =
     (let reserved1 = push_bit 8 (entry ''reserved1'') + entry ''min_transfer_size'' in
      reserved_zero ''HMAT'' ''Reserved'' (entry ''header.reserved'') @
      reserved_bits ''HMAT'' ''Flags'' (entry ''flags'') 6 7 @
      fault_if (entry ''data_type'' > 5) (Failed LOG_LEVEL_CRITICAL ''HMATBadFDataType'') @
      reserved_zero ''HMAT'' ''Reserved'' (if version \<ge> FWTS_ACPI_VERSION_64 then entry ''reserved1'' else reserved1) @
      reserved_zero ''HMAT'' ''Reserved'' (entry ''reserved2'') @
      fault_if (sub64 (unat (entry ''header.length'')) (sizeof fwts_acpi_table_hmat_locality) \<noteq> hmat_pd_size entry)
        (Failed LOG_LEVEL_LOW ''HMATBadNumProximityDomain'') @
      fault_if (entry ''entry_base_unit'' = 0) (Failed LOG_LEVEL_CRITICAL ''HMATBadBaseUnit''))"

definition hmat_cache_test :: "members \<Rightarrow> act list" where
  "hmat_cache_test entry =
     (let attr = (\<lambda>i. drop_bit (4 * i) (entry ''cache_attr'') AND 0xf) in
      reserved_zero ''HMAT'' ''Reserved'' (entry ''header.reserved'') @
      fault_if (attr 0 > 3 \<or> attr 1 > 3 \<or> attr 2 > 2 \<or> attr 3 > 2) (Failed LOG_LEVEL_CRITICAL ''HMATBadCacheAttributeReserved'') @
      reserved_zero ''HMAT'' ''Reserved'' (entry ''reserved1'') @
      reserved_zero ''HMAT'' ''Reserved'' (entry ''reserved2'') @
      fault_if (sub64 (unat (entry ''header.length'')) (sizeof fwts_acpi_table_hmat_cache) div 2 \<noteq> unat (entry ''num_smbios''))
        (Failed LOG_LEVEL_CRITICAL ''HMATBadNumberOfSMBIOS''))"

definition hmat_record :: "u32 \<Rightarrow> record_body" where
  "hmat_record version t off =
     do { hdr \<leftarrow> view t off fwts_acpi_table_hmat_header;
          let len = hdr ''length''; ty = hdr ''type'' in
          on_record ''HMAT'' len off
            (if ty = 0 then do {
               entry \<leftarrow> view t off fwts_acpi_table_hmat_proximity_domain;
               Some (sized_record ''HMAT'' t off ty len (sizeof fwts_acpi_table_hmat_proximity_domain)
                 (hmat_proximity_domain_test entry)) }
             else if ty = 1 then do {
               entry \<leftarrow> view t off fwts_acpi_table_hmat_locality;
               Some (sized_record ''HMAT'' t off ty len (sizeof fwts_acpi_table_hmat_locality + hmat_pd_size entry)
                 (hmat_locality_test version entry)) }
             else if ty = 2 then do {
               entry \<leftarrow> view t off fwts_acpi_table_hmat_cache;
               Some (sized_record ''HMAT'' t off ty len (sizeof fwts_acpi_table_hmat_cache + unat (entry ''num_smbios'') * 2)
                 (hmat_cache_test entry)) }
             else Some (reserved_type ''HMAT'' ty 0 3, Leave off)) }"

text \<open>The lengths of HMAT have 32 bits, so that the offset may go back: the fuel is an argument.\<close>

definition hmat_test1 :: "nat \<Rightarrow> u32 \<Rightarrow> table_test" where
  "hmat_test1 fuel version t =
     do { hmat \<leftarrow> view t 0 fwts_acpi_table_hmat;
          r \<leftarrow> scan fuel (\<lambda>off. off < length t) (hmat_record version t) (sizeof fwts_acpi_table_hmat);
          Some (after_scan (reserved_zero ''HMAT'' ''Reserved'' (hmat ''reserved'')) r) }"

definition pptt_processor_test :: "bytes \<Rightarrow> nat \<Rightarrow> u64 \<Rightarrow> members \<Rightarrow> act list option" where
  "pptt_processor_test t off revision entry =
     (let n = unat (entry ''number_priv_resources'');
          sz = sizeof fwts_acpi_table_pptt_processor in
      do { rs \<leftarrow> (if sub64 (unat (entry ''header.length'')) sz div 4 = n
                 then do { _ \<leftarrow> has_bytes t (off + sz) (4 * n); Some [] }
                 else Some (fails LOG_LEVEL_CRITICAL ''PPTTBadProcessorLength''));
           Some (rs @ reserved_zero ''PPTT'' ''Reserved'' (entry ''reserved'') @
                 reserved_bits ''PPTT'' ''Flags'' (entry ''flags'') (if revision = 1 then 2 else 5) 31) })"

definition pptt_cache_test :: "u64 \<Rightarrow> members \<Rightarrow> act list" where
  "pptt_cache_test revision entry =
     reserved_zero ''PPTT'' ''Reserved'' (entry ''reserved'') @
     reserved_bits ''PPTT'' ''Flags'' (entry ''flags'') (if revision = 1 \<or> revision = 2 then 7 else 8) 31 @
     reserved_bits ''PPTT'' ''Attributes'' (entry ''attributes'') 5 7"

definition pptt_id_test :: "members \<Rightarrow> act list" where
  "pptt_id_test entry = reserved_zero ''PPTT'' ''Reserved'' (entry ''reserved'')"

definition pptt_record :: "u64 \<Rightarrow> record_body" where
  "pptt_record revision t off =
     do { hdr \<leftarrow> view t off fwts_acpi_table_pptt_header;
          let len = hdr ''length''; ty = hdr ''type'' in
          on_record ''PPTT'' len off
            (if ty = 0 then do {
               entry \<leftarrow> view t off fwts_acpi_table_pptt_processor;
               rs \<leftarrow> pptt_processor_test t off revision entry;
               Some (sized_record ''PPTT'' t off ty len
                 (sizeof fwts_acpi_table_pptt_processor + unat (entry ''number_priv_resources'') * 4 mod 2 ^ 32) rs) }
             else if ty = 1 then do {
               entry \<leftarrow> view t off (up_to (if revision \<ge> 3 then ''cache_id'' else ''line_size'') fwts_acpi_table_pptt_cache);
               Some (sized_record ''PPTT'' t off ty len (sizeof fwts_acpi_table_pptt_cache - (if revision < 3 then 4 else 0))
                 (pptt_cache_test revision entry)) }
             else if ty = 2 then do {
               entry \<leftarrow> view t off fwts_acpi_table_pptt_id;
               Some (sized_record ''PPTT'' t off ty len (sizeof fwts_acpi_table_pptt_id) (pptt_id_test entry)) }
             else Some (reserved_type ''PPTT'' ty 0 3, Leave off)) }"

definition pptt_test1 :: table_test where
  "pptt_test1 t =
     (if sizeof fwts_acpi_table_pptt < length t
      then do { pptt \<leftarrow> view t 0 fwts_acpi_table_pptt;
                r \<leftarrow> records t (pptt_record (pptt ''header.revision'')) (sizeof fwts_acpi_table_pptt);
                Some (after_scan [] r) }
      else Some (conclude []))"

section \<open>PHAT and PMTT\<close>

text \<open>The elements of a version record are counted, but the pointer to the element does not move.\<close>

definition phat_version_test :: "bytes \<Rightarrow> nat \<Rightarrow> act list option" where
  "phat_version_test t off =
     do { entry \<leftarrow> view t off fwts_acpi_table_phat_version;
          let n = unat (entry ''element_count'');
          let start = off + sizeof fwts_acpi_table_phat_version;
          let rs = clears (fwts_acpi_structure_range ''PHAT'' (length t) (start + n * sizeof fwts_acpi_table_phat_version_elem));
          Some (rs @ reserved_zero ''PHAT'' ''Reserved'' (entry ''reserved'')) }"

text \<open>fwts_uefi_str16len(): the characters of 16 bits in front of the first that is zero.\<close>

function fwts_uefi_str16len :: "bytes \<Rightarrow> nat \<Rightarrow> nat option" where
  "fwts_uefi_str16len t off =
     (if off + 2 \<le> length t
      then if t ! off = 0 \<and> t ! (off + 1) = 0 then Some 0 else map_option Suc (fwts_uefi_str16len t (off + 2))
      else None)"
  by pat_completeness auto
termination by (relation "measure (\<lambda>(t, off). length t - off)") auto

declare fwts_uefi_str16len.simps [simp del]

definition reset_reason_guid :: cstr where
  "reset_reason_guid = ''7A014CE2-F263-4B77-B88A-E6336B782C14''"

definition phat_reset_reason :: "bytes \<Rightarrow> nat \<Rightarrow> bytes \<Rightarrow> act list option" where
  "phat_reset_reason t off signature =
     (if fwts_guid_buf_to_str signature 37 = Some reset_reason_guid
      then do { supported_src \<leftarrow> read_le t off 1;
                source \<leftarrow> read_le t (off + 1) 1;
                Some (reserved_bits ''PHAT'' ''Supported Sources'' supported_src 5 7 @
                      reserved_bits ''PHAT'' ''Source'' source 5 7) }
      else Some [])"

definition phat_health_test :: "bytes \<Rightarrow> nat \<Rightarrow> act list option" where
  "phat_health_test t off =
     do { entry \<leftarrow> view t off fwts_acpi_table_phat_health;
          signature \<leftarrow> get_bytes t off fwts_acpi_table_phat_health ''data_signature'';
          n \<leftarrow> fwts_uefi_str16len t (off + sizeof fwts_acpi_table_phat_health);
          let data = unat (entry ''data_offset'');
          let len = unat (entry ''header.length'');
          let range = fwts_acpi_structure_range ''PHAT'' (length t) (off + sizeof fwts_acpi_table_phat_health + (n + 1) * 2);
          rs \<leftarrow> (if data = 0 then Some []
                else if range \<noteq> [] then Some (unpass range)
                else if data > len then Some (fails LOG_LEVEL_CRITICAL ''PHATOutOfRangeOffset'')
                else do { _ \<leftarrow> has_bytes t (off + data) (len - data); phat_reset_reason t (off + data) signature });
          Some (reserved_zero ''PHAT'' ''Reserved'' (entry ''reserved'') @ rs) }"

definition phat_record :: record_body where
  "phat_record t off =
     do { hdr \<leftarrow> view t off (up_to ''length'' fwts_acpi_table_phat_header);
          let next = add32 off (unat (hdr ''length''));
          on_record ''PHAT'' (hdr ''length'') off
            (if hdr ''type'' = 0 then map_option (\<lambda>rs. to_next ''PHAT'' t rs next) (phat_version_test t off)
             else if hdr ''type'' = 1 then map_option (\<lambda>rs. to_next ''PHAT'' t rs next) (phat_health_test t off)
             else Some (reserved_type ''PHAT'' (hdr ''type'') 0 2, Leave off)) }"

definition phat_test1 :: table_test where
  "phat_test1 t = map_option (after_scan []) (records t phat_record (sizeof fwts_acpi_table_phat))"

definition pmtt_subtable_header_test :: "members \<Rightarrow> act list" where
  "pmtt_subtable_header_test entry =
     reserved_zero ''PMTT'' ''Reserved1'' (entry ''header.reserved1'') @
     reserved_bits ''PMTT'' ''Flags'' (entry ''header.flags'') 4 15 @
     fault_if (entry ''header.flags'' AND 0x0C = 0x0C) (Failed LOG_LEVEL_HIGH ''PMTTBadFlags'') @
     reserved_zero ''PMTT'' ''Reserved2'' (entry ''header.reserved2'')"

definition pmtt_physical_component_test :: "bytes \<Rightarrow> nat \<Rightarrow> act list option" where
  "pmtt_physical_component_test t off =
     do { entry \<leftarrow> view t off fwts_acpi_table_pmtt_physical_component;
          Some (pmtt_subtable_header_test entry @
                fault_if (entry ''bios_handle'' AND 0xFFFF0000 \<noteq> 0 \<and> entry ''bios_handle'' \<noteq> 0xFFFFFFFF)
                  (Failed LOG_LEVEL_HIGH ''PMTTBADSMBIOSHandle'')) }"

text \<open>
  A socket and a memory controller have devices of their own behind their struct. The position is the
  offset from the start of the record; the devices are tested by the function that is given.
\<close>

definition pmtt_devices ::
    "layout \<Rightarrow> (nat \<Rightarrow> act list option) \<Rightarrow> bytes \<Rightarrow> nat \<Rightarrow> act list option" where
  "pmtt_devices l device t off =
     do { entry \<leftarrow> view t off l;
          let len = unat (entry ''header.length'');
          (rs, _) \<leftarrow> scan (Suc len) (\<lambda>pos. pos < len)
            (\<lambda>pos. case fwts_acpi_structure_range ''PMTT'' (length t) (off + pos) of
                r # rs \<Rightarrow> Some (unpass (r # rs), Leave pos)
              | [] \<Rightarrow> do { hdr \<leftarrow> view t (off + pos) (up_to ''length'' fwts_acpi_table_pmtt_header);
                          on_record ''PMTT'' (hdr ''length'') pos
                            (do { rs \<leftarrow> device (off + pos); Some (rs, Goto (pos + unat (hdr ''length''))) }) })
            (sizeof l);
          Some (pmtt_subtable_header_test entry @ reserved_zero ''PMTT'' ''Reserved'' (entry ''reserved'') @ rs) }"

text \<open>The fuel is the depth of the nesting; each level takes more than the bytes of a header.\<close>

fun pmtt_memory_device :: "nat \<Rightarrow> bytes \<Rightarrow> nat \<Rightarrow> act list option" where
  "pmtt_memory_device 0 t off = None"
| "pmtt_memory_device (Suc fuel) t off =
     do { hdr \<leftarrow> view t off (up_to ''type'' fwts_acpi_table_pmtt_header);
          let ty = hdr ''type'';
          if ty = 0 then pmtt_devices fwts_acpi_table_pmtt_socket (pmtt_memory_device fuel t) t off
          else if ty = 1 then pmtt_devices fwts_acpi_table_pmtt_controller (pmtt_memory_device fuel t) t off
          else if ty = 2 then pmtt_physical_component_test t off
          else if ty = 0xFF then Some []
          else Some (fails LOG_LEVEL_HIGH ''PMTTBadSubtableType'') }"

definition pmtt_record :: record_body where
  "pmtt_record t off =
     do { hdr \<leftarrow> view t off (up_to ''length'' fwts_acpi_table_pmtt_header);
          on_record ''PMTT'' (hdr ''length'') off
            (do { rs \<leftarrow> pmtt_memory_device (Suc (length t)) t off;
                  Some (to_next ''PMTT'' t rs (add32 off (unat (hdr ''length'')))) }) }"

definition pmtt_test1 :: table_test where
  "pmtt_test1 t =
     do { revision \<leftarrow> header_field t ''revision'';
          if revision < 2 then Some [Failed LOG_LEVEL_CRITICAL ''PMTTDeprecatedRevision'']
          else do { pmtt \<leftarrow> view t 0 fwts_acpi_table_pmtt;
                    r \<leftarrow> records t pmtt_record (sizeof fwts_acpi_table_pmtt);
                    Some (after_scan [] r) } }"

section \<open>IVRS\<close>

text \<open>
  The device entries of a record: the offset has 16 bits, and a type of the other two ranges ends the
  loop. The first entry is read in any case.
\<close>

definition ivrs_device_entry :: "bytes \<Rightarrow> nat \<Rightarrow> nat \<Rightarrow> (act list \<times> nat advance) option" where
  "ivrs_device_entry t start off =
     do { entry \<leftarrow> read_le t (start + off) 1;
          let range = drop_bit 6 entry;
          Some (if range = 0 then (reserved_type ''IVRS'' entry 1 5, Goto ((off + 4) mod 2 ^ 16))
                else if range = 1
                then (fault_if (entry < 66 \<or> entry = 68 \<or> entry > 72) (Failed LOG_LEVEL_HIGH ''IVRSBadType''), Goto ((off + 8) mod 2 ^ 16))
                else ([], Leave off)) }"

definition ivrs_ivhd_device_entries_check :: "bytes \<Rightarrow> nat \<Rightarrow> nat \<Rightarrow> act list option" where
  "ivrs_ivhd_device_entries_check t start entries_len =
     do { first \<leftarrow> byte_in t start;
          map_option fst (scan (2 ^ 16) (\<lambda>off. off < entries_len) (ivrs_device_entry t start) 0) }"

definition ivrs_entries_len :: "members \<Rightarrow> nat \<Rightarrow> nat" where
  "ivrs_entries_len entry sz = unat (ucast (entry ''ivhd.length'') - of_nat sz :: u16)"

definition ivrs_info :: "members \<Rightarrow> act list" where
  "ivrs_info entry =
     reserved_bits ''IVRS'' ''IOMMU Info'' (entry ''ivhd.iommu_info'') 5 7 @
     reserved_bits ''IVRS'' ''IOMMU Info'' (entry ''ivhd.iommu_info'') 13 15"

definition ivrs_ivhd_10_test :: "bytes \<Rightarrow> nat \<Rightarrow> act list option" where
  "ivrs_ivhd_10_test t off =
     do { entry \<leftarrow> view t off fwts_acpi_table_ivhd_10;
          let sz = sizeof fwts_acpi_table_ivhd_10;
          rs \<leftarrow> ivrs_ivhd_device_entries_check t (off + sz) (ivrs_entries_len entry sz);
          Some (ivrs_info entry @ rs) }"

definition ivrs_ivhd_11_40_test :: "bytes \<Rightarrow> nat \<Rightarrow> act list option" where
  "ivrs_ivhd_11_40_test t off =
     do { entry \<leftarrow> view t off fwts_acpi_table_ivhd_11_40;
          let sz = sizeof fwts_acpi_table_ivhd_11_40;
          rs \<leftarrow> ivrs_ivhd_device_entries_check t (off + sz) (ivrs_entries_len entry sz);
          Some (reserved_bits ''IVRS'' ''Flags'' (entry ''ivhd.flags'') 6 7 @ ivrs_info entry @
                reserved_bits ''IVRS'' ''IOMMU Attribute'' (entry ''iommu_attr'') 0 12 @
                reserved_bits ''IVRS'' ''IOMMU Attribute'' (entry ''iommu_attr'') 28 31 @ rs) }"

definition ivrs_ivmd_test :: "bytes \<Rightarrow> nat \<Rightarrow> act list option" where
  "ivrs_ivmd_test t off =
     do { entry \<leftarrow> view t off fwts_acpi_table_ivmd;
          Some (reserved_bits ''IVRS'' ''Flags'' (entry ''flags'') 4 7 @
                reserved_zero ''IVRS'' ''Reserved'' (entry ''reserved'')) }"

definition ivrs_record :: "u64 \<Rightarrow> record_body" where
  "ivrs_record revision t off =
     do { hdr \<leftarrow> view t off (up_to ''length'' fwts_acpi_table_ivhd);
          let ty = hdr ''type'';
          rs \<leftarrow> (if ty = 0x10 then ivrs_ivhd_10_test t off
                else if ty = 0x11 then ivrs_ivhd_11_40_test t off
                else if ty = 0x40
                then map_option (\<lambda>rs. fault_if (revision \<noteq> 2) (Failed LOG_LEVEL_HIGH ''IVRSBadRevision'') @ rs)
                       (ivrs_ivhd_11_40_test t off)
                else if ty = 0x20 \<or> ty = 0x21 \<or> ty = 0x22 then ivrs_ivmd_test t off
                else Some (fails LOG_LEVEL_HIGH ''IVRSBadIVHDType''));
          Some (to_next ''IVRS'' t rs (add32 off (unat (hdr ''length'')))) }"

text \<open>A record of length 0 is not refused, and the test may not end.\<close>

definition ivrs_test1 :: "nat \<Rightarrow> table_test" where
  "ivrs_test1 fuel t =
     (case fwts_acpi_table_length ''IVRS'' (of_nat (length t)) (sizeof fwts_acpi_table_ivrs) of
        [] \<Rightarrow> do { ivrs \<leftarrow> view t 0 fwts_acpi_table_ivrs;
                   let revision = ivrs ''header.revision'';
                   let rs = fault_if (revision = 0 \<or> revision > 2) (Failed LOG_LEVEL_HIGH ''IVRSBadRevision'') @
                            reserved_bits ''IVRS'' ''IVinfo'' (ivrs ''ivinfo'') 2 4 @
                            reserved_bits ''IVRS'' ''IVinfo'' (ivrs ''ivinfo'') 23 31 @
                            reserved_zero ''IVRS'' ''Reserved'' (ivrs ''reserved'');
                   r \<leftarrow> scan fuel (\<lambda>off. off < length t) (ivrs_record revision t) (sizeof fwts_acpi_table_ivrs);
                   Some (after_scan rs r) }
      | rs \<Rightarrow> Some rs)"

section \<open>CSRT and SLIC\<close>

definition csrt_descriptor :: "bytes \<Rightarrow> nat \<Rightarrow> nat \<Rightarrow> (act list \<times> nat advance) option" where
  "csrt_descriptor t rg pos =
     do { rd \<leftarrow> view t (rg + pos) (up_to ''length'' fwts_acpi_table_csrt_resource_descriptor);
          if unat (rd ''length'') < sizeof fwts_acpi_table_csrt_resource_descriptor
          then Some (fails LOG_LEVEL_HIGH ''CSRTResourceDescriptorLengthFieldTooShort'', Leave pos)
          else do {
            rd \<leftarrow> view t (rg + pos) fwts_acpi_table_csrt_resource_descriptor;
            let ty = rd ''type'';
            let subtype = fails LOG_LEVEL_HIGH ''CSRTResourceDescriptorResourceSubTypeInvalid'';
            Some ((if ty = 1 \<or> ty = 3 then (if rd ''subtype'' > 1 then subtype else [])
                   else if ty = 2 then (if rd ''subtype'' > 0 then subtype else [])
                   else fails LOG_LEVEL_HIGH ''CSRTResourceDescriptorResourceTypeInvalid'') @
                  fault_if (rd ''uid'' = 0xffffffff) (Failed LOG_LEVEL_HIGH ''CSRTResourceDescriptorReservedUID''),
                  Goto (pos + unat (rd ''length''))) } }"

definition csrt_record :: record_body where
  "csrt_record t off =
     (if length t - off < sizeof fwts_acpi_table_csrt_resource_group
      then Some (fails LOG_LEVEL_HIGH ''CSRTResourceGroupTooShort'', Leave off)
      else do {
        rg \<leftarrow> view t off fwts_acpi_table_csrt_resource_group;
        let len = unat (rg ''length'');
        let start = sizeof fwts_acpi_table_csrt_resource_group + unat (rg ''shared_info_length'');
        if len < sizeof fwts_acpi_table_csrt_resource_group \<or> len < start
        then Some (fails LOG_LEVEL_HIGH ''CSRTResourceGroupLengthFieldTooShort'', Leave off)
        else do {
          rs \<leftarrow> (if length t - off > sizeof fwts_acpi_table_csrt_resource_descriptor
                then map_option fst (scan (Suc len) (\<lambda>pos. pos < len) (csrt_descriptor t off) start) else Some []);
          Some (fault_if (rg ''reserved'' \<noteq> 0) (Failed LOG_LEVEL_HIGH ''CSRTResourceGroupReservedFieldNonZero'') @ rs,
                Goto (off + len)) } })"

definition csrt_test1 :: table_test where
  "csrt_test1 t =
     (if length t < sizeof fwts_acpi_table_csrt then Some (conclude (fails LOG_LEVEL_HIGH ''CSRTToosShort''))
      else map_option (after_scan []) (records t csrt_record (sizeof fwts_acpi_table_csrt)))"

text \<open>
  The structures of SLIC are looked for behind the header of the table, while the length that ends the
  loop counts the header of the first structure as well.
\<close>

definition slic_record :: record_body where
  "slic_record t off =
     do { hdr \<leftarrow> view t off fwts_acpi_table_slic_header;
          let len = unat (hdr ''length'');
          let ty = hdr ''type'';
          Some (if len < sizeof fwts_acpi_table_slic_header then ([], Leave off)
                else if ty = 0
                then (fault_if (len < sizeof fwts_acpi_table_slic_key) (Failed LOG_LEVEL_HIGH ''SLICShortPublicKeyStructure''),
                      Goto (off + len))
                else if ty = 1
                then (fault_if (len < sizeof fwts_acpi_table_slic_marker) (Failed LOG_LEVEL_HIGH ''SLICShortWindowsMarkerStructure''),
                      Goto (off + len))
                else (fails LOG_LEVEL_HIGH ''SLICInvaldType'', Leave off)) }"

definition slic_test1 :: table_test where
  "slic_test1 t =
     (let sz = sizeof fwts_acpi_table_slic_header in
      case fwts_acpi_table_length ''SLIC'' (of_nat (length t)) (sizeof fwts_acpi_table_header + sz) of
        [] \<Rightarrow> map_option (after_scan [])
                (scan (Suc (length t)) (\<lambda>off. off + sz < length t) (slic_record t) (sizeof fwts_acpi_table_header))
      | rs \<Rightarrow> Some (conclude (unpass rs)))"

section \<open>FPDT\<close>

text \<open>
  The position is the offset and the numbers of pointer records to the boot performance tables, of the
  host and of a microcontroller. Records of a reserved type are has_bytes, from behind their header on.
\<close>

type_synonym fpdt_position = "nat \<times> nat \<times> nat"

text \<open>A record of a known type: its name in the labels and its struct.\<close>

definition fpdt_known :: "cstr \<Rightarrow> cstr \<Rightarrow> layout \<Rightarrow> bytes \<Rightarrow> nat \<Rightarrow> members \<Rightarrow> act list option" where
  "fpdt_known label revision_of l t off fpdt =
     do { rs \<leftarrow> (if unat (fpdt ''length'') \<noteq> sizeof l then Some (fails LOG_LEVEL_HIGH label)
                else do { p \<leftarrow> view t off l; Some (reserved_zero ''FPDT'' ''Reserved'' (p ''reserved'')) });
          Some (rs @ fixed_value LOG_LEVEL_MEDIUM ''FPDT'' revision_of (fpdt ''revision'') 1) }"

definition fpdt_record :: "bytes \<Rightarrow> fpdt_position \<Rightarrow> (act list \<times> fpdt_position advance) option" where
  "fpdt_record t pos =
     (case pos of (off, host, micro) \<Rightarrow>
        let n = sizeof fwts_acpi_table_fpdt_header in
        if off + n > length t then Some (fails LOG_LEVEL_HIGH ''FPDTPerformanceRecordOutsideTable'', Leave pos)
        else do {
          fpdt \<leftarrow> view t off fwts_acpi_table_fpdt_header;
          let ty = fpdt ''type'';
          let len = unat (fpdt ''length'');
          rs \<leftarrow>
            (if ty = 0 then fpdt_known ''FPDTHostBootPerfPtrBadLength'' ''FBPT Revision''
                              fwts_acpi_table_fpdt_basic_boot_perf_ptr t off fpdt
             else if ty = 1 then fpdt_known ''FPDTS3PerfPrtRecBadLength'' ''S3PT Revision''
                              fwts_acpi_table_fpdt_s3_perf_ptr t off fpdt
             else if ty = 2 then fpdt_known ''FPDTMBPTRecBadLength'' ''MBPT Revision''
                              fwts_acpi_table_fpdt_micro_boot_perf_ptr t off fpdt
             else if ty = 3 then fpdt_known ''FPDTTimestampDeltaBadLength'' ''Timestamp Delta Revision''
                              fwts_acpi_table_fpdt_timestamp_delta t off fpdt
             else if ty \<le> 0x3fff then do { _ \<leftarrow> has_bytes t (off + n) (sub64 len n); Some [] }
             else Some (fails LOG_LEVEL_HIGH ''FPDTPerformanceRecordTypeInvalid''));
          let next = (off + len, if ty = 0 then host + 1 else host, if ty = 2 then micro + 1 else micro);
          Some (rs, if len = 0 then Leave next else Goto next) })"

definition fpdt_count :: "nat \<Rightarrow> cstr \<Rightarrow> cstr \<Rightarrow> act list" where
  "fpdt_count n missing many =
     (if n = 0 then fails LOG_LEVEL_HIGH missing else if n > 1 then fails LOG_LEVEL_HIGH many else [])"

definition fpdt_counts :: "u32 \<Rightarrow> nat \<Rightarrow> nat \<Rightarrow> act list" where
  "fpdt_counts version host micro =
     fpdt_count host ''FPDTHostBootPointerMissing'' ''FPDTHostBootPointerCount'' @
     (if version \<ge> FWTS_ACPI_VERSION_66
      then fpdt_count micro ''FPDTMicroBootPointerMissing'' ''FPDTMicroBootPointerCount'' else [])"

definition fpdt_test1 :: "u32 \<Rightarrow> table_test" where
  "fpdt_test1 version t =
     (case fwts_acpi_table_length ''FPDT'' (of_nat (length t)) (sizeof fwts_acpi_table_header) of
        [] \<Rightarrow> do { revision \<leftarrow> header_field t ''revision'';
                   (rs, last) \<leftarrow> scan (Suc (length t)) (\<lambda>(off, host, micro). off < length t) (fpdt_record t)
                     (sizeof fwts_acpi_table_header, 0, 0);
                   let (host, micro) = (case last of None \<Rightarrow> (0, 0) | Some (off, host, micro) \<Rightarrow> (host, micro));
                   Some (conclude (revision_check ''FPDT'' revision 1 @ rs @ fpdt_counts version host micro)) }
      | rs \<Rightarrow> Some (conclude (unpass rs @ fpdt_counts version 0 0)))"

section \<open>AEST\<close>

text \<open>The reports of a processor, and the size of the struct with its substructure.\<close>

definition aest_processor_test :: "bytes \<Rightarrow> nat \<Rightarrow> (act list \<times> nat) option" where
  "aest_processor_test t off =
     do { entry \<leftarrow> view t off fwts_acpi_table_aest_processor;
          let ty = entry ''resource_type'';
          let n = sizeof fwts_acpi_table_aest_processor;
          let rs = reserved_zero ''AEST'' ''Reserved'' (entry ''reserved'') @
                   reserved_bits ''AEST'' ''Flags'' (entry ''flags'') 2 7;
          if ty = 0 then do {
            cache \<leftarrow> view t (off + n) fwts_acpi_table_aest_cache_resource_substructure;
            Some (rs @ reserved_zero ''AEST'' ''Reserved'' (cache ''reserved''),
                  n + sizeof fwts_acpi_table_aest_cache_resource_substructure) }
          else if ty = 1 then do {
            tlb \<leftarrow> view t (off + n) fwts_acpi_table_aest_tlb_resource_substructure;
            Some (rs @ reserved_zero ''AEST'' ''Reserved'' (tlb ''reserved''),
                  n + sizeof fwts_acpi_table_aest_tlb_resource_substructure) }
          else if ty = 2 then do {
            generic \<leftarrow> view t (off + n) fwts_acpi_table_aest_generic_resource_substructure;
            Some (rs, n + sizeof fwts_acpi_table_aest_generic_resource_substructure) }
          else Some (rs @ reserved_type ''AEST'' ty 0 3, n) }"

definition aest_group_format :: "u64 \<Rightarrow> nat option" where
  "aest_group_format v = (if v = 0 then Some 1 else if v = 1 then Some 4 else if v = 2 then Some 14 else None)"

definition aest_interface_test :: "bytes \<Rightarrow> nat \<Rightarrow> act list option" where
  "aest_interface_test t off =
     do { entry \<leftarrow> view t off fwts_acpi_table_aest_interface;
          rs \<leftarrow> (case aest_group_format (entry ''group_format'') of
                  None \<Rightarrow> Some (fails LOG_LEVEL_HIGH ''AESTInvalidGroupFormat'')
                | Some gf \<Rightarrow> do { _ \<leftarrow> has_bytes t (off + sizeof fwts_acpi_table_aest_interface) (24 * gf + 32); Some [] });
          Some (rs @ reserved_zero ''AEST'' ''Reserved'' (entry ''reserved'') @
                reserved_bits ''AEST'' ''Flags'' (entry ''flags'') 2 31 @
                reserved_type ''AEST'' (entry ''interface_type'') 0 2) }"

definition aest_interrupt_test :: "members \<Rightarrow> act list" where
  "aest_interrupt_test entry =
     reserved_zero ''AEST'' ''Reserved'' (entry ''reserved'') @
     reserved_bits ''AEST'' ''Interrupt Type'' (entry ''interrupt_type'') 2 7 @
     reserved_bits ''AEST'' ''Interrupt Flags'' (entry ''interrupt_flags'') 2 31 @
     reserved_zero ''AEST'' ''Reserved'' (entry ''reserved1'') @
     reserved_type ''AEST'' (entry ''interrupt_type'') 0 2"

text \<open>The data of a node by its type: the reports and the size.\<close>

definition aest_node_data :: "bytes \<Rightarrow> nat \<Rightarrow> u64 \<Rightarrow> (act list \<times> nat) option" where
  "aest_node_data t off ty =
     (let plain = (\<lambda>l. do { s \<leftarrow> view t off l; Some ([], sizeof l) }) in
      if ty = 0 then aest_processor_test t off
      else if ty = 1 then plain fwts_acpi_table_aest_memory_controller
      else if ty = 2 then plain fwts_acpi_table_aest_smmu
      else if ty = 3 then plain fwts_acpi_table_aest_vendor_defined
      else if ty = 4 then do {
        gic \<leftarrow> view t off fwts_acpi_table_aest_gic;
        Some (reserved_type ''AEST'' (gic ''interface_type'') 0 4, sizeof fwts_acpi_table_aest_gic) }
      else if ty = 5 then plain fwts_acpi_table_aest_pcie_root_complex
      else if ty = 6 then plain fwts_acpi_table_aest_proxy
      else Some (reserved_type ''AEST'' ty 0 7, 0))"

text \<open>The offset advances by the structs that were found, not by the length in the node.\<close>

definition aest_record :: record_body where
  "aest_record t off =
     do { hdr \<leftarrow> view t off (up_to ''length'' fwts_acpi_table_aest_node);
          on_record ''AEST'' (hdr ''length'') off
            (do {
               node \<leftarrow> view t off fwts_acpi_table_aest_node;
               let start = off + sizeof fwts_acpi_table_aest_node;
               (data_rs, n) \<leftarrow> aest_node_data t start (node ''type'');
               let rs = reserved_zero ''AEST'' ''Reserved'' (node ''reserved'') @ data_rs;
               let interrupts = (\<lambda>rs off.
                 do { entries \<leftarrow> structs t off fwts_acpi_table_aest_interrupt (unat (node ''node_interrupt_size''));
                      Some (rs @ concat (map aest_interrupt_test entries),
                            Goto (off + unat (node ''node_interrupt_size'') * sizeof fwts_acpi_table_aest_interrupt)) });
               if unat (node ''offset_node_interface'') < sizeof fwts_acpi_table_aest_interface then interrupts rs (start + n)
               else do {
                 iface \<leftarrow> view t (start + n) (up_to ''group_format'' fwts_acpi_table_aest_interface);
                 case aest_group_format (iface ''group_format'') of
                   None \<Rightarrow> Some (rs @ fails LOG_LEVEL_HIGH ''AESTInvalidGroupFormat'', Return)
                 | Some gf \<Rightarrow> do {
                     rs' \<leftarrow> aest_interface_test t (start + n);
                     interrupts (rs @ rs') (start + n + sizeof fwts_acpi_table_aest_interface + 24 * gf + 32) } } }) }"

definition aest_test1 :: table_test where
  "aest_test1 t = map_option (after_scan []) (records t aest_record (sizeof fwts_acpi_table_aest))"

section \<open>MPAM\<close>

text \<open>
  A resource node of MPAM: its position is its number and its offset from the node. Behind it are its
  functional dependencies. An interconnect has its descriptor table at an offset of the table.
\<close>

definition mpam_locator :: "bytes \<Rightarrow> nat \<Rightarrow> u64 \<Rightarrow> act list option" where
  "mpam_locator t off ty =
     (let locator = off + offsetof fwts_acpi_mpam_resource_node ''locator'';
          zero = (\<lambda>off n. do { bs \<leftarrow> read_bytes t off n; Some (reserved_zero_array ''MPAM'' ''Locator'' bs) }) in
      if ty = 0 \<or> ty = 1 \<or> ty = 2 then zero (locator + 8) 4
      else if ty = 3 then zero locator 7
      else if ty = 4 \<or> ty = 0xFF then Some []
      else if ty = 5 then do {
        desc \<leftarrow> view t locator fwts_interconnect_locator_descriptor;
        rs \<leftarrow> zero (locator + 8) 4;
        let tbl = unat (desc ''intc_des_tbl_offset'');
        d \<leftarrow> view t tbl fwts_interconnect_descriptor_table;
        bs \<leftarrow> read_bytes t (tbl + sizeof fwts_interconnect_descriptor_table + 9) 3;
        Some (rs @ reserved_zero_array ''MPAM'' ''reserved'' bs) }
      else Some (fails LOG_LEVEL_HIGH ''MPAMBadLocaterType''))"

definition mpam_resource :: "bytes \<Rightarrow> nat \<Rightarrow> nat \<times> nat \<Rightarrow> (act list \<times> (nat \<times> nat) advance) option" where
  "mpam_resource t base pos =
     (case pos of (i, off) \<Rightarrow>
        do { res \<leftarrow> view t (base + off) fwts_acpi_mpam_resource_node;
             rs \<leftarrow> mpam_locator t (base + off) (res ''locator_type'');
             let deps = off + sizeof fwts_acpi_mpam_resource_node;
             let n = unat (res ''num_functional_deps'');
             fun_deps \<leftarrow> structs t (base + deps) fwts_acpi_mpam_func_deps n;
             Some (rs @ reserved_zero ''MPAM'' ''Reserved1'' (res ''reserved1'') @
                   concat (map (\<lambda>d. reserved_zero ''MPAM'' ''Reserved1'' (d ''reserved'')) fun_deps),
                   Goto (i + 1, deps + n * sizeof fwts_acpi_mpam_func_deps)) })"

definition mpam_record :: record_body where
  "mpam_record t off =
     do { hdr \<leftarrow> view t off (up_to ''length'' fwts_acpi_mpam_msc_node);
          on_record ''MPAM'' (hdr ''length'') off
            (do {
               node \<leftarrow> view t off fwts_acpi_mpam_msc_node;
               let n = unat (node ''num_resouce_nodes'');
               let len = unat (hdr ''length'');
               (rs, last) \<leftarrow> scan (Suc n) (\<lambda>(i, pos). i < n) (mpam_resource t off) (0, sizeof fwts_acpi_mpam_msc_node);
               let msc = (case last of None \<Rightarrow> 0 | Some (i, pos) \<Rightarrow> pos);
               _ \<leftarrow> (if len > msc then has_bytes t (off + msc) (len - msc) else Some ());
               Some (fault_if (node ''interface_type'' \<noteq> 0 \<and> node ''interface_type'' \<noteq> 0x0a)
                       (Failed LOG_LEVEL_HIGH ''MPAMBadInterfaceType'') @
                     reserved_zero ''MPAM'' ''Reserved'' (node ''reserved'') @
                     reserved_bits ''MPAM'' ''Overflow interrupt flags'' (node ''overflow_interrupt_flags'') 1 2 @
                     reserved_bits ''MPAM'' ''Overflow interrupt flags'' (node ''overflow_interrupt_flags'') 5 31 @
                     reserved_zero ''MPAM'' ''Reserved1'' (node ''reserved1'') @
                     reserved_bits ''MPAM'' ''Error interrupt flags'' (node ''error_interrupt_flags'') 1 2 @
                     reserved_bits ''MPAM'' ''Error interrupt flags'' (node ''error_interrupt_flags'') 5 31 @
                     reserved_zero ''MPAM'' ''Reserved2'' (node ''reserved2'') @ rs,
                     Goto (add32 off len)) }) }"

definition mpam_test1 :: table_test where
  "mpam_test1 t = map_option (after_scan []) (records t mpam_record (sizeof fwts_acpi_table_mpam))"


end
