(* ===== verification/Fwts_Table_Runs.thy ===== *)
theory Fwts_Table_Runs
  imports Fwts_Fixed_Tables Fwts_Node_Tables Fwts_Record_Tables
begin

text \<open>
  When the tests of single tables return. Every round of a loop over records comes closer to the end of
  the table, as the interpretations of table_scan show, so that a test without a result has read outside
  its table. The loops of RHCT and IVRS stay where they are on a structure of length 0.
\<close>

section \<open>Views\<close>

lemma view_defined [simp]: "view t off l = None \<longleftrightarrow> \<not> off + sizeof l \<le> length t"
  by (simp add: view_def)

lemma view_SomeD: "view t off l = Some m \<Longrightarrow> off + sizeof l \<le> length t \<and> m = member_at t off l"
  by (auto simp: view_def split: if_splits)

lemma field_at_shift: "field_at l f (off + k) = map_option (\<lambda>(o', n). (o' + k, n)) (field_at l f off)"
proof (induction l arbitrary: off)
  case (Cons gn l)
  obtain g n where gn: "gn = (g, n)" by (cases gn)
  show ?case using Cons [of "off + n"] by (simp add: gn add.commute add.left_commute)
qed simp

text \<open>The value of a member is below the bound that its bytes give.\<close>

lemma member_bound: "field_at l f 0 = Some (o', n) \<Longrightarrow> unat (member_at t off l f) < 256 ^ n"
proof -
  assume f: "field_at l f 0 = Some (o', n)"
  have "unat (member_at t off l f) < 256 ^ length (take n (drop (o' + off) t))"
    using f field_at_shift [of l f 0 off] le_word_bound by (simp add: member_at_def del: length_take)
  also have "\<dots> \<le> 256 ^ n" by (rule power_increasing) simp_all
  finally show ?thesis .
qed

text \<open>A view of bytes in the middle of a table depends on these bytes only.\<close>

lemma member_inside:
  assumes "sizeof l \<le> length s" and "k \<le> length s" and "k + sizeof l \<le> length s"
  shows "member_at (pre @ s @ post) (length pre + k) l f = member_at s k l f"
proof (cases "field_at l f 0")
  case None
  then show ?thesis using field_at_shift [of l f 0 "length pre + k"] field_at_shift [of l f 0 k]
    by (simp add: member_at_def)
next
  case (Some r)
  then obtain o' n where r: "field_at l f 0 = Some (o', n)" by (cases r) auto
  then have "o' + n \<le> sizeof l" using field_at_bound [of l f 0] by simp
  then have "take n (drop (o' + (length pre + k)) (pre @ s @ post)) = take n (drop (o' + k) s)"
    using assms by (simp add: add.commute)
  then show ?thesis using r field_at_shift [of l f 0 "length pre + k"] field_at_shift [of l f 0 k]
    by (simp add: member_at_def del: take_append drop_append)
qed

lemma view_inside:
  "k + sizeof l \<le> length s \<Longrightarrow> view (pre @ s @ post) (length pre + k) l = Some (member_at s k l)"
  using member_inside [of l s k pre post] by (auto simp: view_def)

lemma view_start: "sizeof l \<le> length s \<Longrightarrow> view (pre @ s @ post) (length pre) l = Some (member_at s 0 l)"
  using view_inside [of 0 l s pre post] by simp

lemma add32_small: "m + n < 2 ^ 32 \<Longrightarrow> add32 m n = m + n"
  by (simp add: add32_def)

section \<open>Loops over records end\<close>

lemma unat_of_nat_le: "unat (of_nat n :: 'a :: len word) \<le> n"
  by (simp add: unat_of_nat)

lemma ucast_32: "(ucast (of_nat n :: u64) :: u32) = of_nat n"
  by (rule bit_word_eqI) (simp add: bit_simps)

lemma unat_32: "n < 2 ^ 31 \<Longrightarrow> unat (of_nat n :: u32) = n"
  by (simp add: unat_of_nat take_bit_nat_eq_self)

lemma on_record_Goto:
  "on_record table len off k = Some (rs, Goto j) \<longleftrightarrow> take_bit 16 len \<noteq> 0 \<and> k = Some (rs, Goto j)"
  by (auto simp: on_record_def fwts_acpi_structure_length_zero_def fail_if_def)

lemma to_next_Goto [dest]: "to_next table t rs off = (rs', Goto j) \<Longrightarrow> j = off \<and> rs' = rs \<and> off \<le> length t"
  using unat_of_nat_le [of "length t", where 'a = 32]
  by (auto simp: to_next_def fwts_acpi_structure_range_def fail_if_def split: if_splits)

lemma sized_record_Goto [dest]:
  "sized_record table t off ty len n rs = (rs', Goto j) \<Longrightarrow> j = add32 off (unat len)"
  by (auto simp: sized_record_def split: list.splits)

lemma take_bit_pos: "take_bit 16 (len :: u64) \<noteq> 0 \<Longrightarrow> 0 < unat len"
  by (auto simp: unat_gt_0)

text \<open>A length that is not zero in its low 16 bits, and has no more, brings the loop on.\<close>

lemma advances:
  assumes "length t < 2 ^ 31" and "off < length t" and "take_bit 16 len \<noteq> 0" and "unat (len :: u64) < 2 ^ 16"
  shows "off < add32 off (unat len)"
proof -
  have "add32 off (unat len) = off + unat len" using assms by (intro add32_small) simp
  then show ?thesis using take_bit_pos [OF assms(3)] by simp
qed

lemmas round_simps = bind_eq_Some_conv on_record_Goto Let_def

lemma member_bound16: "case field_at l f 0 of None \<Rightarrow> False | Some (o', n) \<Rightarrow> n \<le> 2 \<Longrightarrow> unat (member_at t off l f) < 2 ^ 16"
proof -
  assume "case field_at l f 0 of None \<Rightarrow> False | Some (o', n) \<Rightarrow> n \<le> 2"
  then obtain o' n where f: "field_at l f 0 = Some (o', n)" and n: "n \<le> 2" by (auto split: option.splits)
  have "unat (member_at t off l f) < 256 ^ n" by (rule member_bound [OF f])
  also have "(256 :: nat) ^ n \<le> 256 ^ 2" using n by (intro power_increasing) simp_all
  finally show ?thesis by simp
qed

lemma member_lengths:
  "unat (member_at t off (fwts_acpi_table_cedt_header) ''record_length'') < 2 ^ 16"
  "unat (member_at t off (up_to ''length'' fwts_acpi_apmt_node) ''length'') < 2 ^ 16"
  "unat (member_at t off (fwts_acpi_table_sdev_header) ''length'') < 2 ^ 16"
  "unat (member_at t off (fwts_acpi_table_pptt_header) ''length'') < 2 ^ 16"
  "unat (member_at t off (up_to ''length'' fwts_acpi_table_phat_header) ''length'') < 2 ^ 16"
  "unat (member_at t off (up_to ''length'' fwts_acpi_table_pmtt_header) ''length'') < 2 ^ 16"
  "unat (member_at t off (up_to ''length'' fwts_acpi_mpam_msc_node) ''length'') < 2 ^ 16"
  by (rule member_bound16, simp add: layouts)+

lemma record_lengths:
  "view t off (fwts_acpi_table_cedt_header) = Some hdr \<Longrightarrow> unat (hdr ''record_length'') < 2 ^ 16"
  "view t off (up_to ''length'' fwts_acpi_apmt_node) = Some hdr \<Longrightarrow> unat (hdr ''length'') < 2 ^ 16"
  "view t off (fwts_acpi_table_sdev_header) = Some hdr \<Longrightarrow> unat (hdr ''length'') < 2 ^ 16"
  "view t off (fwts_acpi_table_pptt_header) = Some hdr \<Longrightarrow> unat (hdr ''length'') < 2 ^ 16"
  "view t off (up_to ''length'' fwts_acpi_table_phat_header) = Some hdr \<Longrightarrow> unat (hdr ''length'') < 2 ^ 16"
  "view t off (up_to ''length'' fwts_acpi_table_pmtt_header) = Some hdr \<Longrightarrow> unat (hdr ''length'') < 2 ^ 16"
  "view t off (up_to ''length'' fwts_acpi_mpam_msc_node) = Some hdr \<Longrightarrow> unat (hdr ''length'') < 2 ^ 16"
  using member_lengths by (auto dest!: view_SomeD)

interpretation cedt: table_scan "length t < 2 ^ 31" "\<lambda>off. length t - off" "\<lambda>off. off < length t" "cedt_record t" for t
  by unfold_locales
    (auto simp: cedt_record_def round_simps split: if_splits dest!: to_next_Goto sized_record_Goto
      intro!: diff_less_mono2 advances dest: record_lengths)

interpretation apmt: table_scan "length t < 2 ^ 31" "\<lambda>off. length t - off" "\<lambda>off. off < length t" "apmt_record t" for t
  by unfold_locales
    (auto simp: apmt_record_def round_simps split: if_splits dest!: to_next_Goto sized_record_Goto
      intro!: diff_less_mono2 advances dest: record_lengths)

interpretation sdev: table_scan "length t < 2 ^ 31" "\<lambda>off. length t - off" "\<lambda>off. off < length t" "sdev_record t" for t
  by unfold_locales
    (auto simp: sdev_record_def round_simps split: if_splits dest!: to_next_Goto sized_record_Goto
      intro!: diff_less_mono2 advances dest: record_lengths)

interpretation pptt: table_scan "length t < 2 ^ 31" "\<lambda>off. length t - off" "\<lambda>off. off < length t" "pptt_record revision t" for t revision
  by unfold_locales
    (auto simp: pptt_record_def round_simps split: if_splits dest!: to_next_Goto sized_record_Goto
      intro!: diff_less_mono2 advances dest: record_lengths)

interpretation phat: table_scan "length t < 2 ^ 31" "\<lambda>off. length t - off" "\<lambda>off. off < length t" "phat_record t" for t
  by unfold_locales
    (auto simp: phat_record_def round_simps split: if_splits dest!: to_next_Goto sized_record_Goto
      intro!: diff_less_mono2 advances dest: record_lengths)

interpretation pmtt: table_scan "length t < 2 ^ 31" "\<lambda>off. length t - off" "\<lambda>off. off < length t" "pmtt_record t" for t
  by unfold_locales
    (auto simp: pmtt_record_def round_simps simp del: pmtt_memory_device.simps split: if_splits dest!: to_next_Goto sized_record_Goto
      intro!: diff_less_mono2 advances dest: record_lengths)

interpretation mpam: table_scan "length t < 2 ^ 31" "\<lambda>off. length t - off" "\<lambda>off. off < length t" "mpam_record t" for t
  by unfold_locales
    (auto simp: mpam_record_def round_simps split: if_splits dest!: to_next_Goto sized_record_Goto
      intro!: diff_less_mono2 advances dest: record_lengths)

interpretation csrt: table_scan True "\<lambda>off. length t - off" "\<lambda>off. off < length t" "csrt_record t" for t
  by unfold_locales (auto simp: csrt_record_def round_simps sizeof_def layouts split: if_splits)

interpretation slic: table_scan True "\<lambda>off. length t - off" "\<lambda>off. off + sizeof fwts_acpi_table_slic_header < length t" "slic_record t" for t
  by unfold_locales (auto simp: slic_record_def round_simps sizeof_def layouts split: if_splits)

interpretation fpdt: table_scan True "\<lambda>(off, host, micro). length t - off" "\<lambda>(off, host, micro). off < length t" "fpdt_record t" for t
  by unfold_locales (auto simp: fpdt_record_def round_simps split: if_splits)

interpretation aest: table_scan True "\<lambda>off. length t - off" "\<lambda>off. off < length t" "aest_record t" for t
  by unfold_locales
    (auto simp: aest_record_def round_simps sizeof_def layouts split: if_splits prod.splits option.splits)

text \<open>Loops that count their rounds.\<close>

lemmas counted_round = round_simps if_splits

interpretation viot: table_scan True "\<lambda>(i, off). n - i" "\<lambda>(i, off). i < n" "viot_node t" for t n
  by unfold_locales
    (auto simp: viot_node_def round_simps split: if_splits list.splits)

interpretation aspt: table_scan True "\<lambda>(i, off). n - i" "\<lambda>(i, off). i < n" "aspt_record ls f t" for ls f t n
  by unfold_locales (auto simp: aspt_record_def round_simps split: if_splits prod.splits)

interpretation gtdt: table_scan True "\<lambda>(i, off). n - i" "\<lambda>(i, off). i < n \<and> off < length t" "gtdt_structure t" for t n
  by unfold_locales
    (auto simp: gtdt_structure_def gtdt_block_def gtdt_watchdog_def round_simps split: if_splits)

interpretation mpst: table_scan True "\<lambda>(i, off). n - i" "\<lambda>(i, off). i < n" "mpst_node t len" for t len n
  by unfold_locales (auto simp: mpst_node_def round_simps split: if_splits)

interpretation nhlt: table_scan True "\<lambda>(i, off). n - i" "\<lambda>(i, off). i < n" "nhlt_endpoint t" for t n
  by unfold_locales (auto simp: nhlt_endpoint_def round_simps split: option.splits)

text \<open>LPIT counts what is left down to nothing; a state that is too short ends its loop.\<close>

lemma sub32_left:
  assumes "0 < n" and "n \<le> len" and "n < 2 ^ 32"
  shows "sub32 len n < len"
proof (cases "len < 2 ^ 32")
  case True
  then have "(of_nat n :: u32) \<le> of_nat len" using assms
    by (simp add: word_le_nat_alt unat_of_nat take_bit_nat_eq_self)
  then have "sub32 len n = len - n" using True assms
    by (simp add: sub32_def unat_sub unat_of_nat take_bit_nat_eq_self)
  then show ?thesis using assms by simp
next
  case False
  have "sub32 len n < 2 ^ 32" unfolding sub32_def by (rule order.strict_trans2 [OF unsigned_less]) simp
  then show ?thesis using False by simp
qed

lemma lpit_length: "view t off fwts_acpi_table_lpit_c_state = Some lpi \<Longrightarrow> unat (lpi ''length'') < 2 ^ 32"
  using member_bound [of fwts_acpi_table_lpit_c_state "''length''" 4 4 t off]
  by (auto dest!: view_SomeD simp: layouts)

lemma lpit_same_length:
  "view t off fwts_acpi_table_lpit_c_state = Some lpi \<Longrightarrow>
    member_at t off (up_to ''length'' fwts_acpi_table_lpit_c_state) ''length'' = lpi ''length''"
  by (auto dest!: view_SomeD simp: member_at_def layouts)

lemma lpit_check_left:
  assumes "lpit_check_type_0 t len off = Some (rs, len', off')"
    and "view t off (up_to ''length'' fwts_acpi_table_lpit_c_state) = Some hdr"
    and "unat (hdr ''length'') \<le> len" and "8 < len"
  shows "len' < len"
proof (cases "unat (hdr ''length'') < sizeof fwts_acpi_table_lpit_c_state")
  case True
  then show ?thesis using assms by (simp add: lpit_check_type_0_def)
next
  case False
  then obtain lpi where lpi: "view t off fwts_acpi_table_lpit_c_state = Some lpi"
      and len': "len' = sub32 len (unat (lpi ''length''))"
    using assms(1,2) by (auto simp: lpit_check_type_0_def bind_eq_Some_conv)
  have "hdr = member_at t off (up_to ''length'' fwts_acpi_table_lpit_c_state)"
    using assms(2) view_SomeD by blast
  then have same: "hdr ''length'' = lpi ''length''" using lpit_same_length [OF lpi] by simp
  moreover have "0 < sizeof fwts_acpi_table_lpit_c_state" by (simp add: sizeof_def layouts)
  ultimately show ?thesis unfolding len' using False assms(3) lpit_length [OF lpi] by (intro sub32_left) simp_all
qed

lemma lpit_state_Goto:
  assumes "lpit_state t (len, off, uid, seen) = Some (rs, Goto (len', off', uid', seen'))"
  obtains hdr rs' where "view t off (up_to ''length'' fwts_acpi_table_lpit_c_state) = Some hdr"
    and "unat (hdr ''length'') \<le> len" and "lpit_check_type_0 t len off = Some (rs', len', off')"
proof -
  obtain hdr where "view t off (up_to ''length'' fwts_acpi_table_lpit_c_state) = Some hdr"
      and "\<not> len < unat (hdr ''length'')" and "\<exists>rs'. lpit_check_type_0 t len off = Some (rs', len', off')"
    using assms unfolding lpit_state_def by (simp add: round_simps split: if_splits) blast
  then show thesis using that by auto
qed

interpretation lpit: table_scan True "\<lambda>(len, off, uid, seen). len" "\<lambda>(len, off, uid, seen). len > 8" "lpit_state t" for t
  by unfold_locales (auto elim!: lpit_state_Goto dest: lpit_check_left)

lemma lpit_no_result:
  "lpit_test1 t = None \<longleftrightarrow>
     sizeof fwts_acpi_table_lpit \<le> length t \<and>
     (\<exists>len. header_field t ''length'' = Some len \<and>
       faults (\<lambda>(len, off, uid, seen). len > 8) (lpit_state t)
         (sub32 (unat len) (sizeof fwts_acpi_table_lpit), sizeof fwts_acpi_table_lpit, 0, False))"
proof (cases "sizeof fwts_acpi_table_lpit \<le> length t")
  case True
  then have "header_field t ''length'' \<noteq> None"
    using get_defined [of "''length''" fwts_acpi_table_header 0 t]
    by (simp add: header_field_def sizeof_def layouts Fwts_Acpi.nest_def)
  then obtain len where "header_field t ''length'' = Some len" by (auto simp del: not_None_eq intro: option.exhaust)
  moreover have "scan (Suc n) (\<lambda>(len, off, uid, seen). len > 8) (lpit_state t) (n, off, uid, seen) = None \<longleftrightarrow>
      faults (\<lambda>(len, off, uid, seen). len > 8) (lpit_state t) (n, off, uid, seen)" for n off uid seen
    by (rule lpit.no_result_iff) simp_all
  ultimately show ?thesis using True by (simp add: lpit_test1_def Let_def bind_eq_None_conv)
qed (simp add: lpit_test1_def)

section \<open>Tables of complete records\<close>

text \<open>
  A record is complete if the round that looks at it, run on its bytes alone, goes on exactly behind it.
\<close>

definition complete :: "record_body \<Rightarrow> bytes \<Rightarrow> bool" where
  "complete body s \<longleftrightarrow> s \<noteq> [] \<and> (case body s 0 of Some (rs, Goto j) \<Rightarrow> j = length s | _ \<Rightarrow> False)"

definition record_acts :: "record_body \<Rightarrow> bytes \<Rightarrow> act list" where
  "record_acts body s = (case body s 0 of Some (rs, nx) \<Rightarrow> rs | None \<Rightarrow> [])"

lemma complete_iff: "complete body s \<longleftrightarrow> s \<noteq> [] \<and> body s 0 = Some (record_acts body s, Goto (length s))"
  by (auto simp: complete_def record_acts_def split: option.split advance.split)

text \<open>What a round gives for a complete record does not depend on what is around it.\<close>

locale local_records =
  fixes body :: record_body
  assumes elsewhere: "body s 0 = Some (rs, Goto (length s)) \<Longrightarrow> length (pre @ s @ post) < 2 ^ 31 \<Longrightarrow>
    body (pre @ s @ post) (length pre) = Some (rs, Goto (length pre + length s))"
begin

lemma scan_complete:
  assumes "list_all (complete body) ss" and "length (pre @ concat ss) < 2 ^ 31" and "length ss < fuel"
  shows "scan fuel (\<lambda>off. off < length (pre @ concat ss)) (body (pre @ concat ss)) (length pre) =
    Some (concat (map (record_acts body) ss), Some (length (pre @ concat ss)))"
  using assms
proof (induction ss arbitrary: pre fuel)
  case Nil
  then show ?case by (cases fuel) (simp_all add: scan_Suc)
next
  case (Cons s ss)
  obtain k where k: "fuel = Suc k" "length ss < k" using Cons.prems(3) by (cases fuel) auto
  have s: "s \<noteq> []" "body s 0 = Some (record_acts body s, Goto (length s))"
    using Cons.prems(1) by (simp_all add: complete_iff)
  let ?t = "pre @ concat (s # ss)"
  have "body ?t (length pre) = Some (record_acts body s, Goto (length (pre @ s)))"
    using elsewhere [OF s(2), of pre "concat ss"] Cons.prems(2) by simp
  moreover have "length pre < length ?t" using s(1) by simp
  moreover have "scan k (\<lambda>off. off < length ?t) (body ?t) (length (pre @ s)) =
      Some (concat (map (record_acts body) ss), Some (length ?t))"
    using Cons.IH [of "pre @ s" k] Cons.prems k by simp
  ultimately show ?case unfolding k(1) by (subst scan_round(4)) auto
qed

lemma length_complete: "list_all (complete body) ss \<Longrightarrow> length ss \<le> length (concat ss)"
proof (induction ss)
  case (Cons s ss)
  then show ?case by (cases s) (simp_all add: complete_def)
qed simp

lemma records_complete:
  assumes "list_all (complete body) ss" and "length (hdr @ concat ss) < 2 ^ 31"
  shows "records (hdr @ concat ss) body (length hdr) =
    Some (concat (map (record_acts body) ss), Some (length (hdr @ concat ss)))"
  unfolding records_def using length_complete [OF assms(1)] assms by (intro scan_complete) simp_all

end

text \<open>Reads within a record.\<close>

lemma view_Some_iff: "view t off l = Some m \<longleftrightarrow> off + sizeof l \<le> length t \<and> m = member_at t off l"
  by (auto simp: view_def)

lemma member_local: "k + sizeof l \<le> length s \<Longrightarrow> member_at (pre @ s @ post) (length pre + k) l = member_at s k l"
  by (rule ext) (simp add: member_inside)

lemma member_local_0: "sizeof l \<le> length s \<Longrightarrow> member_at (pre @ s @ post) (length pre) l = member_at s 0 l"
  using member_local [of 0 l s pre post] by simp

lemmas local_simps = view_Some_iff member_local member_local_0 bind_eq_Some_conv

lemma has_bytes_local: "has_bytes s k n = Some u \<Longrightarrow> has_bytes (pre @ s @ post) (length pre + k) n = Some u"
  by (auto simp: has_bytes_def split: if_splits)

lemma to_next_local:
  "to_next table s rs n = (rs', Goto j) \<Longrightarrow> length (pre @ s @ post) < 2 ^ 31 \<Longrightarrow>
    to_next table (pre @ s @ post) rs (length pre + n) = (rs', Goto (length pre + j))"
  using unat_32 [of "length s"] unat_32 [of "length (pre @ s @ post)"]
  by (auto simp: to_next_def fwts_acpi_structure_range_def fail_if_def split: if_splits)

lemma next_local:
  assumes "to_next table s rs (add32 0 (unat len)) = (rs', Goto (length s))" and "unat (len :: u64) < 2 ^ 16"
    and "length (pre @ s @ post) < 2 ^ 31"
  shows "to_next table (pre @ s @ post) rs (add32 (length pre) (unat len)) = (rs', Goto (length pre + length s))"
proof -
  have len: "add32 0 (unat len) = unat len" and s: "unat len = length s"
    using assms(1,2) by (auto simp: add32_small dest: to_next_Goto)
  moreover have "add32 (length pre) (unat len) = length pre + unat len" using assms(3) s by (intro add32_small) simp
  ultimately show ?thesis using to_next_local [OF _ assms(3)] assms(1) by metis
qed

lemma cedt_structure_local:
  "cedt_structure s 0 ty = Some rs \<Longrightarrow> cedt_structure (pre @ s @ post) (length pre) ty = Some rs"
  by (auto simp: cedt_structure_def cedt_chbs_test_def cedt_cfmws_test_def cedt_cxims_test_def cedt_rdpas_test_def
      cedt_csds_test_def local_simps has_bytes_local split: if_splits)

interpretation cedt_local: local_records cedt_record
  by unfold_locales
    (auto simp: cedt_record_def round_simps local_simps cedt_structure_local intro!: next_local member_lengths)

lemma sized_local:
  assumes "sized_record table s 0 ty len n rs = (rs', Goto (length s))" and "unat len < 2 ^ 16"
    and "length (pre @ s @ post) < 2 ^ 31"
  shows "sized_record table (pre @ s @ post) (length pre) ty len n rs = (rs', Goto (length pre + length s))"
proof -
  have "fwts_acpi_structure_length table ty len (n mod 2 ^ 32) = []"
    using assms(1) by (simp add: sized_record_def split: list.splits)
  then show ?thesis using assms next_local [of table s rs len rs' pre post] by (simp add: sized_record_def)
qed

interpretation apmt_local: local_records apmt_record
  by unfold_locales
    (auto simp: apmt_record_def round_simps local_simps add32_small split: if_splits
      intro!: next_local member_lengths)

interpretation sdev_local: local_records sdev_record
  by unfold_locales
    (auto simp: sdev_record_def round_simps local_simps split: if_splits intro!: sized_local member_lengths)

lemma pptt_processor_local:
  "pptt_processor_test s 0 revision entry = Some rs \<Longrightarrow>
    pptt_processor_test (pre @ s @ post) (length pre) revision entry = Some rs"
  by (auto simp: pptt_processor_test_def round_simps has_bytes_local split: if_splits)

interpretation pptt_local: local_records "pptt_record revision" for revision
  by unfold_locales
    (auto simp: pptt_record_def round_simps local_simps pptt_processor_local split: if_splits
      intro!: sized_local member_lengths)

section \<open>Loops that stay where they are\<close>

text \<open>A round that goes on from a structure of length 0 goes on at the same structure.\<close>

lemma rhct_same:
  assumes "rhct_node t (off, len) = Some (acts, Goto next)"
    and "member_at t off fwts_acpi_rhct_node_header ''length'' = 0"
  shows "next = (off, len)"
  using assms by (auto simp: rhct_node_def Let_def bind_eq_Some_conv view_def split: if_splits)

lemma ivrs_same:
  assumes "ivrs_record revision t off = Some (acts, Goto next)"
    and "member_at t off (up_to ''length'' fwts_acpi_table_ivhd) ''length'' = 0" and "off < 2 ^ 32"
  shows "next = off"
proof -
  have "add32 off 0 = off" using assms(3) by (simp add: add32_small)
  then show ?thesis using assms(1,2)
    by (auto simp: ivrs_record_def Let_def bind_eq_Some_conv dest!: view_SomeD to_next_Goto)
qed

section \<open>Reads of fixed tables\<close>

text \<open>
  Some tests read their struct without asking whether the table has it, and read outside a shorter one;
  others look at the length first, and read within every table.
\<close>

definition unchecked_tests :: "(table_test \<times> nat) list" where
  "unchecked_tests =
     [(bgrt_test1, sizeof fwts_acpi_table_bgrt), (wsmt_test1, sizeof fwts_acpi_table_wsmt),
      (sbst_test1, sizeof fwts_acpi_table_sbst), (tpm2_test1, sizeof fwts_acpi_table_tpm2)]"

text \<open>TCPA has the struct of a client or of a server, or is read up to the class that says which.\<close>

definition tcpa_least :: "bytes \<Rightarrow> nat" where
  "tcpa_least t =
     (let l = up_to ''platform_class'' fwts_acpi_table_tcpa_client; platform_class = member_at t 0 l ''platform_class'' in
      if platform_class = 0 then sizeof fwts_acpi_table_tcpa_client
      else if platform_class = 1 then sizeof fwts_acpi_table_tcpa_server
      else sizeof l)"

definition checked_tests :: "bool \<Rightarrow> u64 \<Rightarrow> (u64 \<Rightarrow> bool) \<Rightarrow> table_test list" where
  "checked_tests from_firmware addr is_reserved =
     [waet_test1, rgrt_test1, boot_test1, dbgp_test1, spmi_test1, mchi_test1, msdm_test1,
      facs_test1 from_firmware addr is_reserved, map_option snd \<circ> xenv_test1, slic_test1]"

lemma table_length_ok:
  assumes "fwts_acpi_table_length table (of_nat (length t)) n = []" and "length t < 2 ^ 32" and "n < 2 ^ 32"
  shows "n \<le> length (t :: bytes)"
proof -
  have "\<not> (of_nat (length t) :: u32) < of_nat n"
    using assms(1) by (simp add: fwts_acpi_table_length_def fail_if_def ucast_32 del: of_nat_less_iff split: if_splits)
  then show ?thesis using assms(2,3) by (simp add: word_less_nat_alt unat_of_nat take_bit_nat_eq_self)
qed

lemma get_bytes_within:
  "f \<in> fst ` set l \<Longrightarrow> off + sizeof l \<le> length t \<Longrightarrow> get_bytes t off l f \<noteq> None"
  using field_at_defined [of f l off] field_at_bound [of l f off]
  by (auto simp: get_bytes_def read_bytes_def split: option.split)

lemma view_then: "view t off l \<bind> (\<lambda>m. Some (g m)) = None \<longleftrightarrow> length t < off + sizeof l"
  by (auto simp: view_def)

lemma unchecked_reads: "(f, n) \<in> set unchecked_tests \<Longrightarrow> f t = None \<longleftrightarrow> length t < n"
  by (auto simp: unchecked_tests_def bgrt_test1_def wsmt_test1_def sbst_test1_def tpm2_test1_def Let_def view_then)

lemma tcpa_reads: "tcpa_test1 t = None \<longleftrightarrow> length t < tcpa_least t"
proof -
  have "sizeof (up_to ''platform_class'' fwts_acpi_table_tcpa_client) \<le> sizeof fwts_acpi_table_tcpa_client"
    and "sizeof fwts_acpi_table_tcpa_client \<le> sizeof fwts_acpi_table_tcpa_server"
    by (simp_all add: sizeof_def layouts Fwts_Acpi.nest_def)
  then show ?thesis
    by (auto simp: tcpa_test1_def tcpa_least_def tcpa_client_test_def tcpa_server_test_def Let_def view_then view_def)
qed

text \<open>What follows a check of the length finds the struct.\<close>

lemma checked_view:
  assumes "length t < 2 ^ 32" and "sizeof l < 2 ^ 32" and "\<And>m. \<exists>rs. k m = Some rs" and "\<And>rs. \<exists>rs'. c rs = Some rs'"
  shows "(case fwts_acpi_table_length table (of_nat (length t)) (sizeof l) of
      [] \<Rightarrow> view t 0 l \<bind> k | r # rs \<Rightarrow> c (r # rs)) \<noteq> None"
proof (cases "fwts_acpi_table_length table (of_nat (length t)) (sizeof l)")
  case Nil
  then have "view t 0 l = Some (member_at t 0 l)" using table_length_ok assms(1,2) by (simp add: view_def)
  then show ?thesis using Nil assms(3) by (auto simp del: not_None_eq)
qed (use assms(4) in \<open>auto simp del: not_None_eq\<close>)

lemma checked_reads:
  assumes "f \<in> set (checked_tests from_firmware addr is_reserved)" and "length t < 2 ^ 32"
  shows "f t \<noteq> None"
proof -
  have "facs_test1 from_firmware addr is_reserved t \<noteq> None"
    using get_bytes_within [of "''reserved2''" fwts_acpi_table_facs 0 t]
    by (auto simp: facs_test1_def view_def sizeof_def layouts)
  moreover have "waet_test1 t \<noteq> None" "rgrt_test1 t \<noteq> None" "boot_test1 t \<noteq> None" "dbgp_test1 t \<noteq> None"
    "spmi_test1 t \<noteq> None" "mchi_test1 t \<noteq> None"
    unfolding waet_test1_def rgrt_test1_def boot_test1_def dbgp_test1_def spmi_test1_def mchi_test1_def
    using assms(2) by (intro checked_view; simp add: sizeof_def layouts Fwts_Acpi.nest_def)+
  moreover have "msdm_test1 t \<noteq> None"
    unfolding msdm_test1_def using assms(2) 
    by (intro checked_view) (auto simp: Let_def read_bytes_def sizeof_def layouts Fwts_Acpi.nest_def)
  moreover have "slic_test1 t \<noteq> None"
  proof -
    have "slic_record t off \<noteq> None" if "off + sizeof fwts_acpi_table_slic_header < length t" for off
      using that by (auto simp: slic_record_def view_def Let_def)
    then have "scan (Suc (length t)) (\<lambda>off. off + sizeof fwts_acpi_table_slic_header < length t) (slic_record t)
        (sizeof fwts_acpi_table_header) \<noteq> None"
      by (intro slic.result) auto
    then show ?thesis by (auto simp: slic_test1_def Let_def split: list.split)
  qed
  moreover have "xenv_test1 t \<noteq> None" by (auto simp: xenv_test1_def view_def)
  ultimately show ?thesis using assms(1) by (auto simp: checked_tests_def)
qed

section \<open>The loops together\<close>

definition record_bodies :: "u64 \<Rightarrow> record_body list" where
  "record_bodies revision =
     [cedt_record, apmt_record, sdev_record, pptt_record revision, phat_record, pmtt_record, mpam_record,
      csrt_record, aest_record]"

lemma records_end:
  assumes "body \<in> set (record_bodies revision)" and "length t < 2 ^ 31"
  shows "\<not> diverges (\<lambda>off. off < length t) (body t) off"
    and "records t body off = None \<longleftrightarrow> faults (\<lambda>off. off < length t) (body t) off"
  unfolding records_def using assms
    cedt.ends cedt.no_result_iff apmt.ends apmt.no_result_iff sdev.ends sdev.no_result_iff
    pptt.ends pptt.no_result_iff phat.ends phat.no_result_iff pmtt.ends pmtt.no_result_iff
    mpam.ends mpam.no_result_iff csrt.ends csrt.no_result_iff aest.ends aest.no_result_iff
  by (auto simp: record_bodies_def)

text \<open>Tests, the body of their loop, which PPTT chooses by the revision in its header, and their struct.\<close>

definition record_tests :: "(table_test \<times> (bytes \<Rightarrow> record_body) \<times> nat) list" where
  "record_tests =
     [(cedt_test1, \<lambda>hdr. cedt_record, sizeof fwts_acpi_table_cedt),
      (apmt_test1, \<lambda>hdr. apmt_record, sizeof fwts_acpi_table_apmt),
      (sdev_test1, \<lambda>hdr. sdev_record, sizeof fwts_acpi_table_sdev),
      (pptt_test1, \<lambda>hdr. pptt_record (member_at hdr 0 fwts_acpi_table_pptt ''header.revision''),
       sizeof fwts_acpi_table_pptt)]"

lemma after_complete: "after_scan [] (rs, Some i) = conclude rs"
  by (simp add: after_scan_def)

lemma record_tests_complete:
  assumes "(f, body, n) \<in> set record_tests" and "length hdr = n" and "list_all (complete (body hdr)) ss"
    and "length (hdr @ concat ss) < 2 ^ 31"
  shows "f (hdr @ concat ss) = Some (conclude (concat (map (record_acts (body hdr)) ss)))"
proof -
  note records = cedt_local.records_complete [of ss hdr] apmt_local.records_complete [of ss hdr]
    sdev_local.records_complete [of ss hdr]
  have len: "fwts_acpi_table_length ''CEDT'' (of_nat (length (hdr @ concat ss))) (length hdr) = []"
  proof -
    let ?n = "length (hdr @ concat ss)"
    have "\<not> (of_nat ?n :: u32) < of_nat (length hdr)"
      using assms(4) unat_32 [of ?n] unat_32 [of "length hdr"] by (simp add: word_less_nat_alt)
    then show ?thesis unfolding fwts_acpi_table_length_def by (simp add: fail_if_def ucast_32 del: length_append)
  qed
  let ?r = "member_at hdr 0 fwts_acpi_table_pptt ''header.revision''"
  have pptt: "pptt_test1 (hdr @ concat ss) = Some (conclude (concat (map (record_acts (pptt_record ?r)) ss)))"
    if "length hdr = sizeof fwts_acpi_table_pptt" and ok: "list_all (complete (pptt_record ?r)) ss"
  proof (cases "ss = []")
    case False
    then obtain s ss' where ss: "ss = s # ss'" "s \<noteq> []" using ok by (cases ss) (auto simp: complete_def)
    have "view (hdr @ concat ss) 0 fwts_acpi_table_pptt = Some (member_at hdr 0 fwts_acpi_table_pptt)"
      using that(1) view_start [of fwts_acpi_table_pptt hdr "[]" "concat ss"] by simp
    then show ?thesis using pptt_local.records_complete [OF ok assms(4)] that(1) ss
      by (simp add: pptt_test1_def after_complete)
  qed (use that(1) in \<open>simp add: pptt_test1_def\<close>)
  show ?thesis using assms records len pptt
    by (auto simp: record_tests_def cedt_test1_def apmt_test1_def sdev_test1_def after_complete)
qed

section \<open>HMAT\<close>

text \<open>
  A length of 32 bits can lead back: the second structure of this table, with 0xFFFFFFDE initiators and
  0xFFFFFFFF targets, has the length 0xFFFFFFD8 that these numbers give modulo 2^32, and the structure
  behind it is the first one.
\<close>

definition hmat_circle :: bytes where
  "hmat_circle =
     replicate 40 0 @ [0, 0, 0, 0, 40, 0, 0, 0] @ replicate 32 0 @
     [1, 0, 0, 0, 0xD8, 0xFF, 0xFF, 0xFF, 0, 0, 0, 0, 0xDE, 0xFF, 0xFF, 0xFF, 0xFF, 0xFF, 0xFF, 0xFF,
      0, 0, 0, 0, 1, 0, 0, 0, 0, 0, 0, 0]"


lemma hmat_sizes:
  "sizeof fwts_acpi_table_hmat_header = 8" "sizeof fwts_acpi_table_hmat_proximity_domain = 40"
  "sizeof fwts_acpi_table_hmat_locality = 32" "length hmat_circle = 112"
  by (simp_all add: sizeof_def layouts Fwts_Acpi.nest_def hmat_circle_def)

lemma hmat_values:
  "member_at hmat_circle 40 fwts_acpi_table_hmat_header ''type'' = 0"
  "member_at hmat_circle 40 fwts_acpi_table_hmat_header ''length'' = 40"
  "member_at hmat_circle 80 fwts_acpi_table_hmat_header ''type'' = 1"
  "member_at hmat_circle 80 fwts_acpi_table_hmat_header ''length'' = 0xFFFFFFD8"
  "member_at hmat_circle 80 fwts_acpi_table_hmat_locality ''num_initiator'' = 0xFFFFFFDE"
  "member_at hmat_circle 80 fwts_acpi_table_hmat_locality ''num_target'' = 0xFFFFFFFF"
  by code_simp+

lemmas hmat_eval = hmat_sizes hmat_values hmat_record_def view_def round_simps on_record_def sized_record_def to_next_def
  fwts_acpi_structure_length_zero_def fwts_acpi_structure_length_def fwts_acpi_structure_range_def fail_if_def add32_def

lemma hmat_tests:
  "hmat_proximity_domain_test (member_at hmat_circle 40 fwts_acpi_table_hmat_proximity_domain) = []"
  "hmat_locality_test version (member_at hmat_circle 80 fwts_acpi_table_hmat_locality) = []"
proof -
  have "map (member_at hmat_circle 40 fwts_acpi_table_hmat_proximity_domain)
      [''header.reserved'', ''flags'', ''reserved1'', ''reserved2'', ''reserved3'', ''reserved4''] = [0, 0, 0, 0, 0, 0]"
    by code_simp
  then show "hmat_proximity_domain_test (member_at hmat_circle 40 fwts_acpi_table_hmat_proximity_domain) = []"
    by (simp add: hmat_proximity_domain_test_def flag_checks acpi_checks)
  have "map (member_at hmat_circle 80 fwts_acpi_table_hmat_locality)
      [''header.reserved'', ''flags'', ''data_type'', ''reserved1'', ''min_transfer_size'', ''reserved2'', ''header.length'',
       ''entry_base_unit''] = [0, 0, 0, 0, 0, 0, 0xFFFFFFD8, 1]"
    by code_simp
  then show "hmat_locality_test version (member_at hmat_circle 80 fwts_acpi_table_hmat_locality) = []"
    using hmat_values hmat_sizes
    by (simp add: hmat_locality_test_def hmat_pd_size_def sub64_def flag_checks acpi_checks Let_def)
qed

lemma hmat_rounds:
  "hmat_record version hmat_circle 40 = Some ([], Goto 80)"
  "hmat_record version hmat_circle 80 = Some ([], Goto 40)"
  by (simp_all add: hmat_eval hmat_pd_size_def hmat_tests)

lemma diverges_circle:
  assumes "inside i" "body i = Some (rs, Goto j)" "inside j" "body j = Some (rs', Goto i)"
  shows "diverges inside body i"
proof -
  have "diverges inside body k" if "k = i \<or> k = j" for k
    using that assms by (coinduction arbitrary: k) auto
  then show ?thesis by simp
qed

lemma hmat_diverges: "diverges (\<lambda>off. off < length hmat_circle) (hmat_record version hmat_circle) 40"
  using hmat_rounds [of version] by (auto simp: hmat_sizes intro: diverges_circle)

lemma hmat_hangs: "hmat_test1 fuel version hmat_circle = None"
  using diverges_no_scan [OF hmat_diverges, of fuel version]
  by (simp add: hmat_test1_def view_def sizeof_def layouts Fwts_Acpi.nest_def hmat_circle_def)

section \<open>The tests whose loop stays where it is\<close>

text \<open>A node for cache management of RHCT and a memory block of IVRS, both of length 0.\<close>

definition rhct_zero :: bytes where
  "rhct_zero = [0, 0, 0, 0, 66] @ replicate 51 0 @ [1, 0, 0, 0, 1, 0, 0, 0, 0, 0]"

definition ivrs_zero :: bytes where
  "ivrs_zero = [0, 0, 0, 0, 82, 0, 0, 0, 2] @ replicate 39 0 @ [0x20] @ replicate 33 0"

lemma rhct_zero_node: "rhct_node rhct_zero (56, 10) = Some ([], Goto (56, 10))"
  by code_simp

lemma rhct_zero_diverges: "diverges (\<lambda>(off, len). len > 0) (rhct_node rhct_zero) (56, 10)"
  using rhct_zero_node by (intro diverges_here [where rs = "[]"]) simp_all

lemma rhct_hangs: "rhct_test1 fuel rhct_zero = None"
proof -
  have "view rhct_zero 0 fwts_acpi_table_rhct = Some (member_at rhct_zero 0 fwts_acpi_table_rhct)"
    and "sizeof fwts_acpi_table_rhct = 56" and "length rhct_zero = 66"
    by (simp_all add: view_def sizeof_def layouts Fwts_Acpi.nest_def rhct_zero_def)
  moreover have "member_at rhct_zero 0 fwts_acpi_table_rhct ''header.length'' = 66" by code_simp
  ultimately show ?thesis using diverges_no_scan [OF rhct_zero_diverges, of fuel]
    by (simp add: rhct_test1_def has_bytes_def)
qed

lemma ivrs_zero_values:
  "ivrs_ivmd_test ivrs_zero 48 = Some []"
  "member_at ivrs_zero 48 (up_to ''length'' fwts_acpi_table_ivhd) ''type'' = 0x20"
  "member_at ivrs_zero 48 (up_to ''length'' fwts_acpi_table_ivhd) ''length'' = 0"
  "member_at ivrs_zero 0 fwts_acpi_table_ivrs ''header.revision'' = 2"
  by code_simp+

lemma ivrs_zero_sizes:
  "sizeof fwts_acpi_table_ivrs = 48" "sizeof (up_to ''length'' fwts_acpi_table_ivhd) = 4" "length ivrs_zero = 82"
  by (simp_all add: sizeof_def layouts Fwts_Acpi.nest_def ivrs_zero_def)

lemma ivrs_zero_record: "ivrs_record 2 ivrs_zero 48 = Some ([], Goto 48)"
  by (simp add: ivrs_record_def view_def ivrs_zero_sizes ivrs_zero_values to_next_def fwts_acpi_structure_range_def
      fail_if_def add32_def)

lemma ivrs_zero_diverges: "diverges (\<lambda>off. off < length ivrs_zero) (ivrs_record 2 ivrs_zero) 48"
  using ivrs_zero_record by (intro diverges_here [where rs = "[]"]) (simp_all add: ivrs_zero_sizes)

lemma ivrs_hangs: "ivrs_test1 fuel ivrs_zero = None"
  using diverges_no_scan [OF ivrs_zero_diverges, of fuel]
  by (simp add: ivrs_test1_def view_def ivrs_zero_sizes ivrs_zero_values fwts_acpi_table_length_def fail_if_def)

end
