(* ===== verification/Fwts_Table_Verdicts.thy ===== *)
theory Fwts_Table_Verdicts
  imports Fwts_Fixed_Tables Fwts_Node_Tables Fwts_Record_Tables
begin

text \<open>
  The verdicts of the tests of single tables. A test is fair if it passes the table exactly once when it
  has reported no failure, and never otherwise. As the verdict is that of the flag, this needs that every
  failure clears it where the test goes on. This is proved test by test, for the tests that keep one
  verdict; those that do not are in Fwts_Unfair_Tests.
\<close>

section \<open>Results that satisfy a predicate\<close>

definition whenever :: "'a option \<Rightarrow> ('a \<Rightarrow> bool) \<Rightarrow> bool" where
  "whenever m Q \<longleftrightarrow> (\<forall>x. m = Some x \<longrightarrow> Q x)"

lemma whenever_simps [simp]:
  "whenever None Q"
  "whenever (Some x) Q \<longleftrightarrow> Q x"
  "whenever (m \<bind> k) Q \<longleftrightarrow> whenever m (\<lambda>x. whenever (k x) Q)"
  "whenever (map_option f m) Q \<longleftrightarrow> whenever m (\<lambda>x. Q (f x))"
  "whenever m (\<lambda>x. True)"
  by (auto simp: whenever_def bind_eq_Some_conv)

lemma whenever_if [simp]: "whenever (if b then m else m') Q \<longleftrightarrow> (b \<longrightarrow> whenever m Q) \<and> (\<not> b \<longrightarrow> whenever m' Q)"
  by simp

lemma wheneverI: "(\<And>x. Q x) \<Longrightarrow> whenever m Q"
  by (simp add: whenever_def)

lemmas whenever_reads =
  wheneverI [where m = "view t off l"] wheneverI [where m = "get_bytes t off l f"]
  wheneverI [where m = "read_le t off n"] wheneverI [where m = "read_bytes t off n"]
  wheneverI [where m = "header_field t f"] wheneverI [where m = "structs t off l n"]
  wheneverI [where m = "has_bytes t off n"] wheneverI [where m = "byte_in t off"] for t off l f n

lemma whenever_mono: "whenever m P \<Longrightarrow> (\<And>x. P x \<Longrightarrow> Q x) \<Longrightarrow> whenever m Q"
  by (simp add: whenever_def)

section \<open>Fair reports\<close>

definition fair :: "report list \<Rightarrow> bool" where
  "fair rs \<longleftrightarrow> count_list rs Passed = (if list_ex is_failed rs then 0 else 1)"

text \<open>
  Acts without a passed report are clean if the flag is cleared exactly where a failure is reported, and lost
  if a failure is reported, whatever becomes of the flag.
\<close>

definition clean :: "act list \<Rightarrow> bool" where
  "clean acts \<longleftrightarrow> Passed \<notin> set (said acts) \<and> (list_ex is_failed (said acts) \<longleftrightarrow> Unpass \<in> set acts)"

definition loses :: "act list \<Rightarrow> bool" where
  "loses acts \<longleftrightarrow> Passed \<notin> set (said acts) \<and> list_ex is_failed (said acts)"

definition fair_test :: "table_test \<Rightarrow> bool" where
  "fair_test f \<longleftrightarrow> (\<forall>t. whenever (f t) fair)"

lemma clean_append [simp]: "clean acts \<Longrightarrow> clean acts' \<Longrightarrow> clean (acts @ acts')"
  by (auto simp: clean_def said_append)

lemma loses_append [simp]: "clean acts \<Longrightarrow> loses acts' \<Longrightarrow> loses (acts @ acts')"
  by (auto simp: clean_def loses_def said_append)

lemma clean_simps [simp]:
  "clean []" "clean (fails l s)" "clean (fault_if b (Failed l s))" "clean [Says Warning]"
  "clean [Unpass, Says (Failed l s), Says Advice]"
  by (auto simp: clean_def fails_def fault_if_def)

lemma loses_simps [simp]: "loses (fails l s)" "loses [Says (Failed l s)]"
  by (auto simp: loses_def fails_def)

text \<open>The shared checks make failures only, and the flag is cleared with them.\<close>

lemma check_failures [simp]:
  "list_all is_failed (fail_if b (Failed l s))"
  "list_all is_failed (fwts_acpi_reserved_zero table field v)"
  "list_all is_failed (fwts_acpi_reserved_zero_array table field bs)"
  "list_all is_failed (fwts_acpi_reserved_bits table field v lo hi)"
  "list_all is_failed (fwts_acpi_reserved_type table ty lo32 hi32)"
  "list_all is_failed (fwts_acpi_fixed_value l table field v w)"
  "list_all is_failed (fwts_acpi_revision_check table v w)"
  "list_all is_failed (fwts_acpi_space_id table field v ids)"
  "list_all is_failed (fwts_acpi_table_length table len n)"
  "list_all is_failed (fwts_acpi_structure_length table ty len n)"
  "list_all is_failed (fwts_acpi_structure_length_zero table len off)"
  "list_all is_failed (fwts_acpi_structure_range table n off)"
  by (auto simp: acpi_checks)

lemma failures_no_pass: "list_all is_failed rs \<Longrightarrow> Passed \<notin> set rs"
  by (induction rs) auto

lemma clean_unpass [simp]: "list_all is_failed rs \<Longrightarrow> rs \<noteq> [] \<Longrightarrow> clean (unpass rs)"
  by (cases rs) (auto simp: clean_def unpass_def said_append failures_no_pass)

lemma clean_clears [simp]: "list_all is_failed rs \<Longrightarrow> clean (clears rs)"
  by (simp add: clears_def clean_unpass)

lemma clean_checks [simp]:
  "clean (reserved_zero table field v)" "clean (reserved_zero_array table field bs)"
  "clean (reserved_bits table field v lo hi)" "clean (reserved_type table ty lo32 hi32)"
  "clean (fixed_value l table field v w)" "clean (revision_check table v w)" "clean (space_id table field v ids)"
  by (simp_all add: reserved_zero_def reserved_zero_array_def reserved_bits_def reserved_type_def fixed_value_def
      revision_check_def space_id_def)

text \<open>A check whose caller clears the flag.\<close>

lemma clean_failed:
  "fwts_acpi_table_length table len n = r # rs \<Longrightarrow> clean (unpass (r # rs))"
  "fwts_acpi_structure_length table ty len n = r # rs \<Longrightarrow> clean (unpass (r # rs))"
  "fwts_acpi_structure_length_zero table len off = r # rs \<Longrightarrow> clean (unpass (r # rs))"
  "fwts_acpi_structure_range table n off = r # rs \<Longrightarrow> clean (unpass (r # rs))"
  by (metis check_failures(9) clean_unpass list.discI) (metis check_failures(10) clean_unpass list.discI,
    metis check_failures(11) clean_unpass list.discI, metis check_failures(12) clean_unpass list.discI)

lemma clean_concat [simp]: "(\<forall>acts \<in> set actss. clean acts) \<Longrightarrow> clean (concat actss)"
  by (induction actss) auto

lemma count_no_pass: "Passed \<notin> set rs \<Longrightarrow> count_list rs Passed = 0"
  by (simp add: count_list_0_iff)

lemma fair_conclude [simp]: "clean acts \<Longrightarrow> fair (conclude acts)"
  by (auto simp: fair_def conclude_def clean_def count_no_pass)

lemma fair_said [simp]: "loses acts \<Longrightarrow> fair (said acts)"
  by (simp add: fair_def loses_def count_no_pass)

lemma fair_returns [simp]: "fair [Failed l s]" "clean acts \<Longrightarrow> fair (said acts @ [Failed l s])"
  by (auto simp: fair_def clean_def count_no_pass)

lemma said_fails [simp]: "said (fails l s) = [Failed l s]"
  by (simp add: fails_def)

lemma fair_table_length:
  "fwts_acpi_table_length table len n = r # rs \<Longrightarrow> fair (r # rs)"
  "fwts_acpi_table_length table len n = r # rs \<Longrightarrow> clean (unpass (r # rs))"
  using check_failures(9) [of table len n] clean_failed(1) [of table len n]
  by (auto simp: fair_def failures_no_pass count_no_pass)

section \<open>Fair loops\<close>

text \<open>A round passes nothing; it may forget to clear the flag only where it returns from the test.\<close>

definition fair_round :: "act list \<times> 'i advance \<Rightarrow> bool" where
  "fair_round r \<longleftrightarrow> (if snd r = Return then loses (fst r) else clean (fst r))"

definition fair_body :: "('i \<Rightarrow> (act list \<times> 'i advance) option) \<Rightarrow> bool" where
  "fair_body body \<longleftrightarrow> (\<forall>i. whenever (body i) fair_round)"

lemma fair_round_simps [simp]:
  "fair_round (acts, Goto i) \<longleftrightarrow> clean acts" "fair_round (acts, Leave i) \<longleftrightarrow> clean acts"
  "fair_round (acts, Return) \<longleftrightarrow> loses acts"
  by (simp_all add: fair_round_def)

lemma fair_round_if: "(b \<Longrightarrow> fair_round (acts, nx)) \<Longrightarrow> (\<not> b \<Longrightarrow> fair_round (acts, nx')) \<Longrightarrow>
    fair_round (acts, if b then nx else nx')"
  by simp

lemma fair_scan:
  assumes "fair_body body"
  shows "whenever (scan fuel inside body i) (\<lambda>(acts, e). if e = None then loses acts else clean acts)"
proof (induction fuel arbitrary: i)
  case (Suc fuel)
  show ?case
  proof (cases "inside i \<and> body i \<noteq> None")
    case True
    then obtain acts nx where b: "body i = Some (acts, nx)" by auto
    then have "fair_round (acts, nx)" using assms by (auto simp: fair_body_def whenever_def)
    then show ?thesis using b True whenever_mono [OF Suc.IH] by (cases nx) (auto simp: scan_round split: if_splits)
  qed (auto simp: scan_Suc split: option.split)
qed simp

lemma fair_after_scan:
  assumes "fair_body body" and "clean acts"
  shows "whenever (scan fuel inside body i) (\<lambda>r. fair (after_scan acts r))"
proof (rule whenever_mono [OF fair_scan [OF assms(1)]])
  fix r :: "act list \<times> 'a option"
  assume "case r of (acts, e) \<Rightarrow> if e = None then loses acts else clean acts"
  then show "fair (after_scan acts r)" using assms(2) loses_append [of acts "fst r"]
    by (auto simp: after_scan_def split: prod.splits if_splits)
qed

lemma fair_records: "fair_body (body t) \<Longrightarrow> clean acts \<Longrightarrow> whenever (records t body off) (\<lambda>r. fair (after_scan acts r))"
  unfolding records_def by (rule fair_after_scan)

lemma fair_scan_case:
  assumes "fair_body body"
    and "\<And>acts end_pos. clean acts \<Longrightarrow> whenever (k acts (Some end_pos)) Q" and "\<And>acts. loses acts \<Longrightarrow> whenever (k acts None) Q"
  shows "whenever (scan fuel inside body i) (\<lambda>r. whenever (case r of (acts, end_pos) \<Rightarrow> k acts end_pos) Q)"
proof (rule whenever_mono [OF fair_scan [OF assms(1)]])
  fix r :: "act list \<times> 'a option"
  assume "case r of (acts, e) \<Rightarrow> if e = None then loses acts else clean acts"
  then show "whenever (case r of (acts, e) \<Rightarrow> k acts e) Q" using assms(2,3) by (cases r; cases "snd r") auto
qed

lemma fair_bodyI: "(\<And>i. whenever (body i) fair_round) \<Longrightarrow> fair_body body"
  by (simp add: fair_body_def)

text \<open>Loops that do not return from the test.\<close>

definition clean_body :: "('i \<Rightarrow> (act list \<times> 'i advance) option) \<Rightarrow> bool" where
  "clean_body body \<longleftrightarrow> (\<forall>i. whenever (body i) (\<lambda>r. clean (fst r) \<and> snd r \<noteq> Return))"

lemma clean_bodyI: "(\<And>i. whenever (body i) (\<lambda>r. clean (fst r) \<and> snd r \<noteq> Return)) \<Longrightarrow> clean_body body"
  by (simp add: clean_body_def)

lemma clean_scan:
  assumes "clean_body body"
  shows "whenever (scan fuel inside body i) (\<lambda>r. clean (fst r) \<and> snd r \<noteq> None)"
proof (induction fuel arbitrary: i)
  case (Suc fuel)
  show ?case
  proof (cases "inside i \<and> body i \<noteq> None")
    case True
    then obtain acts nx where b: "body i = Some (acts, nx)" by auto
    then have "clean acts \<and> nx \<noteq> Return" using assms by (auto simp: clean_body_def whenever_def)
    then show ?thesis using b True whenever_mono [OF Suc.IH] by (cases nx) (auto simp: scan_round)
  qed (auto simp: scan_Suc split: option.split)
qed simp

lemma clean_scan_case:
  assumes "clean_body body" and "\<And>acts end_pos. clean acts \<Longrightarrow> whenever (k acts (Some end_pos)) Q"
  shows "whenever (scan fuel inside body i) (\<lambda>r. whenever (case r of (acts, end_pos) \<Rightarrow> k acts end_pos) Q)"
  by (rule whenever_mono [OF clean_scan [OF assms(1)]]) (use assms(2) in auto)

text \<open>What holds for the acts of every round, and for acts together, holds for the loop.\<close>

lemma scan_holds:
  assumes "P []" and "\<And>acts acts'. P acts \<Longrightarrow> P acts' \<Longrightarrow> P (acts @ acts')"
    and "\<And>i. whenever (body i) (\<lambda>r. P (fst r))"
  shows "whenever (scan fuel inside body i) (\<lambda>r. P (fst r))"
proof (induction fuel arbitrary: i)
  case (Suc fuel)
  show ?case
  proof (cases "inside i \<and> body i \<noteq> None")
    case True
    then obtain acts nx where b: "body i = Some (acts, nx)" by auto
    then have "P acts" using assms(3) [of i] by (simp add: whenever_def)
    then show ?thesis using b True whenever_mono [OF Suc.IH] assms(2) by (cases nx) (auto simp: scan_round)
  qed (use assms(1) in \<open>auto simp: scan_Suc split: option.split\<close>)
qed simp

lemma clean_rounds: "(\<And>i. whenever (body i) clean) \<Longrightarrow> whenever (rounds is body) clean"
  by (induction "is") (auto simp: whenever_def bind_eq_Some_conv)

text \<open>The checks around a record.\<close>

lemma fair_on_record:
  assumes "whenever k Q" and "\<And>acts. clean acts \<Longrightarrow> Q (acts, Leave off)"
  shows "whenever (on_record table len off k) Q"
  using assms clean_failed(3) [of table len off] by (auto simp: on_record_def split: list.split)

lemma fair_to_next [simp]: "clean acts \<Longrightarrow> fair_round (to_next table t acts off)"
  by (auto simp: to_next_def clean_failed split: list.split)

lemma fair_sized [simp]: "clean acts \<Longrightarrow> fair_round (sized_record table t off ty len n acts)"
  by (auto simp: sized_record_def clean_failed split: list.split)

section \<open>Fixed tables\<close>

lemma fair_dppt_test1: "fair_test dppt_test1"
  by (auto simp: fair_test_def dppt_test1_def Let_def fair_table_length intro!: whenever_reads split: list.split)

lemma fair_sdei_test1: "fair_test sdei_test1"
  by (auto simp: fair_test_def sdei_test1_def Let_def fair_table_length intro!: whenever_reads split: list.split)

lemma fair_rasf_test1: "fair_test rasf_test1"
  by (auto simp: fair_test_def rasf_test1_def Let_def fair_table_length intro!: whenever_reads split: list.split)

lemma fair_bgrt_test1: "fair_test bgrt_test1"
  by (auto simp: fair_test_def bgrt_test1_def Let_def fair_table_length intro!: whenever_reads split: list.split)

lemma fair_wsmt_test1: "fair_test wsmt_test1"
  by (auto simp: fair_test_def wsmt_test1_def Let_def fair_table_length intro!: whenever_reads split: list.split)

lemma fair_ccel_test1: "fair_test ccel_test1"
  by (auto simp: fair_test_def ccel_test1_def Let_def fair_table_length intro!: whenever_reads split: list.split)

lemma fair_waet_test1: "fair_test waet_test1"
  by (auto simp: fair_test_def waet_test1_def Let_def fair_table_length intro!: whenever_reads split: list.split)

lemma fair_sbst_test1: "fair_test sbst_test1"
  by (auto simp: fair_test_def sbst_test1_def Let_def fair_table_length intro!: whenever_reads split: list.split)

lemma fair_wpbt_test1: "fair_test wpbt_test1"
  by (auto simp: fair_test_def wpbt_test1_def Let_def fair_table_length intro!: whenever_reads split: list.split)

lemma fair_rgrt_test1: "fair_test rgrt_test1"
  by (auto simp: fair_test_def rgrt_test1_def Let_def fair_table_length intro!: whenever_reads split: list.split)

lemma fair_boot_test1: "fair_test boot_test1"
  by (auto simp: fair_test_def boot_test1_def Let_def fair_table_length intro!: whenever_reads split: list.split)

lemma fair_tpm2_test1: "fair_test tpm2_test1"
  by (auto simp: fair_test_def tpm2_test1_def Let_def fair_table_length intro!: whenever_reads split: list.split)

lemma fair_dbgp_test1: "fair_test dbgp_test1"
  by (auto simp: fair_test_def dbgp_test1_def Let_def fair_table_length intro!: whenever_reads split: list.split)

lemma fair_spmi_test1: "fair_test spmi_test1"
  by (auto simp: fair_test_def spmi_test1_def Let_def fair_table_length intro!: whenever_reads split: list.split)

lemma fair_mchi_test1: "fair_test mchi_test1"
  by (auto simp: fair_test_def mchi_test1_def Let_def fair_table_length intro!: whenever_reads split: list.split)

lemma fair_spcr_test1: "fair_test spcr_test1"
  by (auto simp: fair_test_def spcr_test1_def Let_def fair_table_length intro!: whenever_reads split: list.split)

lemma fair_tcpa_test1: "fair_test tcpa_test1"
  by (auto simp: fair_test_def tcpa_test1_def tcpa_client_test_def tcpa_server_test_def Let_def fair_table_length intro!: whenever_reads split: list.split)

lemma fair_uefi_test1: "fair_test uefi_test1"
  by (auto simp: fair_test_def uefi_test1_def Let_def fair_table_length intro!: whenever_reads split: list.split)

lemma fair_msdm_test1: "fair_test msdm_test1"
  by (auto simp: fair_test_def msdm_test1_def Let_def fair_table_length intro!: whenever_reads split: list.split)

lemma fair_facs_test1: "fair_test (facs_test1 from_firmware addr is_reserved)"
  by (auto simp: fair_test_def facs_test1_def intro!: whenever_reads)

lemma fair_bert_region: "whenever (bert_region len m) fair"
  by (auto simp: bert_region_def Let_def intro!: whenever_reads)

lemma clean_stao_bodies: "clean_body (stao_count t n)" "clean_body (stao_find obj_find t n)"
  by (auto simp: clean_body_def stao_count_def stao_find_def stao_end_mark_def intro!: wheneverI split: option.split)

lemma fair_stao_test1: "fair_test (stao_test1 obj_find)"
  by (auto simp: fair_test_def stao_test1_def Let_def
      intro!: whenever_reads wheneverI [where m = "stao_acpi_string t p n k" for t p n k]
        clean_scan_case [OF clean_stao_bodies(1)] clean_scan_case [OF clean_stao_bodies(2)])

section \<open>Counted tables\<close>

lemma fair_skvl_test1: "fair_test skvl_test1"
  by (auto simp: fair_test_def skvl_test1_def skvl_entry_def Let_def
      intro!: whenever_reads fair_after_scan fair_bodyI)

lemma fair_ras2_test1: "fair_test ras2_test1"
  by (auto simp: fair_test_def ras2_test1_def ras2_entry_def Let_def fair_table_length
      intro!: whenever_reads fair_after_scan fair_bodyI split: list.split)

lemma fair_pdtt_test1: "fair_test pdtt_test1"
  by (auto simp: fair_test_def pdtt_test1_def pdtt_entry_def Let_def
      intro!: whenever_reads fair_after_scan fair_bodyI)

lemma fair_svkl_test1: "fair_test svkl_test1"
  by (auto simp: fair_test_def svkl_test1_def svkl_entry_def Let_def
      intro!: whenever_reads fair_after_scan fair_bodyI)

lemma fair_rsdt_test1: "fair_test rsdt_test1"
  by (auto simp: fair_test_def rsdt_test1_def
      intro!: whenever_reads whenever_mono [OF clean_rounds])

lemma fair_xsdt_test1: "fair_test (xsdt_test1 sbbr)"
  by (auto simp: fair_test_def xsdt_test1_def
      intro!: whenever_reads whenever_mono [OF clean_rounds])

lemma fair_cpep_test1: "fair_test cpep_test1"
  by (auto simp: fair_test_def cpep_test1_def cpep_entry_def Let_def intro!: whenever_reads)

lemma fair_msct_test1: "fair_test msct_test1"
  by (auto simp: fair_test_def msct_test1_def Let_def intro!: whenever_reads)

lemma clean_erst: "clean (erst_entry entry)"
  by (simp add: erst_entry_def)

lemma fair_erst_test1: "fair_test erst_test1"
  by (auto simp: fair_test_def erst_test1_def Let_def clean_erst intro!: whenever_reads)

lemma fair_einj_test1: "fair_test einj_test1"
  by (auto simp: fair_test_def einj_test1_def einj_entry_def Let_def intro!: whenever_reads)

lemma fair_drtm_test1: "fair_test drtm_test1"
  by (auto simp: fair_test_def drtm_test1_def drtm_resource_def Let_def intro!: whenever_reads)

lemma fair_mpst_node: "fair_body (mpst_node t len)"
  by (auto simp: mpst_node_def Let_def intro!: whenever_reads fair_bodyI)

lemma fair_mpst_test1: "fair_test mpst_test1"
  by (auto simp: fair_test_def mpst_test1_def mpst_char_def Let_def
      intro!: whenever_reads fair_scan_case [OF fair_mpst_node])

section \<open>Tables with nodes\<close>

lemma fair_length_zero:
  assumes "whenever k Q" and "\<And>acts. clean acts \<Longrightarrow> Q (acts, nx)"
  shows "whenever (case fwts_acpi_structure_length_zero table len off of r # rs \<Rightarrow> Some (unpass (r # rs), nx) | [] \<Rightarrow> k) Q"
  using assms clean_failed(3) [of table len off] by (auto split: list.split)

lemma fair_viot_node: "fair_body (viot_node t)"
  by (auto simp: viot_node_def Let_def intro!: whenever_reads fair_bodyI fair_length_zero)

lemma fair_viot_test1: "fair_test viot_test1"
  by (auto simp: fair_test_def viot_test1_def Let_def intro!: whenever_reads fair_after_scan fair_viot_node)

lemma clean_aspt_record: "clean_body (aspt_record ls f t)"
  by (auto simp: aspt_record_def Let_def intro!: whenever_reads clean_bodyI split: prod.split)

lemma fair_aspt_test1: "fair_test aspt_test1"
  by (auto simp: fair_test_def aspt_test1_def aspt_revision1_test_def aspt_revision2_test_def Let_def
      intro!: whenever_reads whenever_mono [OF clean_scan [OF clean_aspt_record]])

lemma fair_lpit_state: "fair_body (lpit_state t)"
  by (auto simp: lpit_state_def lpit_check_type_0_def Let_def intro!: whenever_reads fair_bodyI)

lemma fair_lpit_test1: "fair_test lpit_test1"
  by (auto simp: fair_test_def lpit_test1_def Let_def intro!: whenever_reads fair_after_scan fair_lpit_state)

lemma clean_gtdt_timers: "whenever (gtdt_timers t off n) clean"
  by (auto simp: gtdt_timers_def gtdt_timer_def intro!: whenever_reads)

lemma fair_gtdt_structure: "fair_body (gtdt_structure t)"
  by (auto simp: gtdt_structure_def gtdt_block_def gtdt_watchdog_def Let_def
      intro!: whenever_reads fair_bodyI whenever_mono [OF clean_gtdt_timers])

lemma fair_gtdt_test1: "fair_test gtdt_test1"
  by (auto simp: fair_test_def gtdt_test1_def Let_def intro!: whenever_reads fair_after_scan fair_gtdt_structure)

section \<open>Tables of records\<close>

lemmas fair_body_intros = whenever_reads fair_bodyI fair_on_record

lemma fair_apmt_record: "fair_body (apmt_record t)"
  by (auto simp: apmt_record_def Let_def intro!: fair_body_intros)

lemma fair_apmt_test1: "fair_test apmt_test1"
  by (auto simp: fair_test_def apmt_test1_def intro!: fair_records fair_apmt_record)

lemma fair_sdev_record: "fair_body (sdev_record t)"
  by (auto simp: sdev_record_def sdev_acpi_namespace_device_test_def sdev_pcie_endpoint_device_test_def Let_def
      intro!: fair_body_intros)

lemma fair_sdev_test1: "fair_test sdev_test1"
  by (auto simp: fair_test_def sdev_test1_def intro!: fair_records fair_sdev_record)

lemma clean_cedt_structure: "whenever (cedt_structure t off ty) clean"
  by (auto simp: cedt_structure_def cedt_chbs_test_def cedt_cfmws_test_def cedt_cxims_test_def cedt_rdpas_test_def
      cedt_csds_test_def cedt_reserved_def intro!: whenever_reads)

lemma fair_cedt_record: "fair_body (cedt_record t)"
  by (auto simp: cedt_record_def intro!: fair_body_intros whenever_mono [OF clean_cedt_structure])

lemma fair_cedt_test1: "fair_test cedt_test1"
  by (auto simp: fair_test_def cedt_test1_def fair_table_length intro!: fair_records fair_cedt_record split: list.split)

lemma fair_hmat_record: "fair_body (hmat_record version t)"
  by (auto simp: hmat_record_def hmat_proximity_domain_test_def hmat_locality_test_def hmat_cache_test_def Let_def
      intro!: fair_body_intros)

lemma fair_hmat_test1: "fair_test (hmat_test1 fuel version)"
  by (auto simp: fair_test_def hmat_test1_def intro!: whenever_reads fair_after_scan fair_hmat_record)

lemma clean_pptt_processor: "whenever (pptt_processor_test t off revision entry) clean"
  by (auto simp: pptt_processor_test_def Let_def intro!: whenever_reads)

lemma fair_pptt_record: "fair_body (pptt_record revision t)"
  by (auto simp: pptt_record_def pptt_cache_test_def pptt_id_test_def Let_def
      intro!: fair_body_intros whenever_mono [OF clean_pptt_processor])

lemma fair_pptt_test1: "fair_test pptt_test1"
  by (auto simp: fair_test_def pptt_test1_def intro!: whenever_reads fair_records fair_pptt_record)

lemma clean_phat_health: "whenever (phat_health_test t off) clean"
  by (auto simp: phat_health_test_def phat_reset_reason_def Let_def
      intro!: whenever_reads wheneverI [where m = "fwts_uefi_str16len t n" for t n])

lemma clean_phat_version: "whenever (phat_version_test t off) clean"
  by (auto simp: phat_version_test_def Let_def intro!: whenever_reads)

lemma fair_phat_record: "fair_body (phat_record t)"
  by (auto simp: phat_record_def Let_def
      intro!: fair_body_intros whenever_mono [OF clean_phat_health] whenever_mono [OF clean_phat_version])

lemma fair_phat_test1: "fair_test phat_test1"
  by (auto simp: fair_test_def phat_test1_def intro!: fair_records fair_phat_record)

lemma clean_pmtt_devices:
  assumes "\<And>off. whenever (device off) clean"
  shows "whenever (pmtt_devices l device t off) clean"
proof -
  let ?round = "\<lambda>pos. case fwts_acpi_structure_range ''PMTT'' (length t) (off + pos) of
      r # rs \<Rightarrow> Some (unpass (r # rs), Leave pos)
    | [] \<Rightarrow> do { hdr \<leftarrow> view t (off + pos) (up_to ''length'' fwts_acpi_table_pmtt_header);
                on_record ''PMTT'' (hdr ''length'') pos
                  (do { rs \<leftarrow> device (off + pos); Some (rs, Goto (pos + unat (hdr ''length''))) }) }"
  have "clean_body ?round"
  proof (rule clean_bodyI)
    fix pos
    show "whenever (?round pos) (\<lambda>r. clean (fst r) \<and> snd r \<noteq> Return)"
    proof (cases "fwts_acpi_structure_range ''PMTT'' (length t) (off + pos)")
      case (Cons r rs)
      then show ?thesis using clean_failed(4) by simp
    qed (auto intro!: fair_body_intros whenever_mono [OF assms])
  qed
  then show ?thesis
    by (auto simp: pmtt_devices_def pmtt_subtable_header_test_def Let_def intro!: whenever_reads clean_scan_case)
qed

lemma clean_pmtt_device: "whenever (pmtt_memory_device fuel t off) clean"
proof (induction fuel arbitrary: off)
  case (Suc fuel)
  show ?case
    by (auto simp: Let_def pmtt_physical_component_test_def pmtt_subtable_header_test_def
        intro!: whenever_reads clean_pmtt_devices Suc.IH)
qed simp

lemma fair_pmtt_record: "fair_body (pmtt_record t)"
  by (auto simp: pmtt_record_def simp del: pmtt_memory_device.simps
      intro!: fair_body_intros whenever_mono [OF clean_pmtt_device])

lemma fair_pmtt_test1: "fair_test pmtt_test1"
  by (auto simp: fair_test_def pmtt_test1_def intro!: whenever_reads fair_records fair_pmtt_record)

lemma clean_ivrs_entry: "clean_body (ivrs_device_entry t start)"
  by (auto simp: ivrs_device_entry_def Let_def intro!: whenever_reads clean_bodyI)

lemma clean_ivrs_entries: "whenever (ivrs_ivhd_device_entries_check t start n) clean"
  by (auto simp: ivrs_ivhd_device_entries_check_def intro!: whenever_reads whenever_mono [OF clean_scan [OF clean_ivrs_entry]])

lemma fair_ivrs_record: "fair_body (ivrs_record revision t)"
  by (auto simp: ivrs_record_def ivrs_ivhd_10_test_def ivrs_ivhd_11_40_test_def ivrs_ivmd_test_def ivrs_info_def Let_def
      intro!: fair_body_intros whenever_mono [OF clean_ivrs_entries])

lemma fair_ivrs_test1: "fair_test (ivrs_test1 fuel)"
  by (auto simp: fair_test_def ivrs_test1_def Let_def fair_table_length
      intro!: whenever_reads fair_after_scan fair_ivrs_record split: list.split)

lemma clean_csrt_descriptor: "clean_body (csrt_descriptor t rg)"
  by (auto simp: csrt_descriptor_def Let_def intro!: whenever_reads clean_bodyI)

lemma fair_csrt_record: "fair_body (csrt_record t)"
  by (auto simp: csrt_record_def Let_def intro!: fair_body_intros whenever_mono [OF clean_scan [OF clean_csrt_descriptor]])

lemma fair_csrt_test1: "fair_test csrt_test1"
  by (auto simp: fair_test_def csrt_test1_def intro!: fair_records fair_csrt_record)

lemma fair_slic_record: "fair_body (slic_record t)"
  by (auto simp: slic_record_def Let_def intro!: fair_body_intros)

lemma fair_slic_test1: "fair_test slic_test1"
  by (auto simp: fair_test_def slic_test1_def Let_def fair_table_length
      intro!: fair_after_scan fair_slic_record split: list.split)

lemma clean_fpdt_record: "clean_body (fpdt_record t)"
  by (auto simp: fpdt_record_def fpdt_known_def Let_def intro!: whenever_reads clean_bodyI)

lemma clean_fpdt_counts [simp]: "clean (fpdt_counts version host micro)"
  by (simp add: fpdt_counts_def fpdt_count_def)

lemma fair_fpdt_test1: "fair_test (fpdt_test1 version)"
  unfolding fair_test_def
proof
  fix t :: bytes
  let ?len = "fwts_acpi_table_length ''FPDT'' (of_nat (length t)) (sizeof fwts_acpi_table_header)"
  show "whenever (fpdt_test1 version t) fair"
  proof (cases ?len)
    case Nil
    then show ?thesis
      by (auto simp: fpdt_test1_def intro!: whenever_reads whenever_mono [OF clean_scan [OF clean_fpdt_record]]
          split: prod.split)
  next
    case (Cons r rs)
    then show ?thesis using fair_table_length(2) [OF Cons] by (simp add: fpdt_test1_def)
  qed
qed

lemma clean_aest_data: "whenever (aest_node_data t off ty) (\<lambda>r. clean (fst r))"
  by (auto simp: aest_node_data_def aest_processor_test_def Let_def intro!: whenever_reads)

lemma clean_aest_interface: "whenever (aest_interface_test t off) clean"
  by (auto simp: aest_interface_test_def Let_def intro!: whenever_reads split: option.split)

lemma fair_aest_record: "fair_body (aest_record t)"
  by (auto simp: aest_record_def aest_interrupt_test_def Let_def split: prod.split option.split
      intro!: fair_body_intros whenever_mono [OF clean_aest_data] whenever_mono [OF clean_aest_interface])

lemma fair_aest_test1: "fair_test aest_test1"
  by (auto simp: fair_test_def aest_test1_def intro!: fair_records fair_aest_record)

lemma clean_mpam_resource: "clean_body (mpam_resource t base)"
  by (auto simp: mpam_resource_def mpam_locator_def Let_def intro!: whenever_reads clean_bodyI)

lemma fair_mpam_record: "fair_body (mpam_record t)"
  by (auto simp: mpam_record_def Let_def
      intro!: fair_body_intros clean_scan_case clean_mpam_resource split: option.split)

lemma fair_mpam_test1: "fair_test mpam_test1"
  by (auto simp: fair_test_def mpam_test1_def intro!: fair_records fair_mpam_record)

section \<open>What a fair test promises\<close>

lemma fair_testD: "fair_test f \<Longrightarrow> f t = Some rs \<Longrightarrow> count_list rs Passed = (if list_ex is_failed rs then 0 else 1)"
  by (auto simp: fair_test_def whenever_def fair_def)

section \<open>Checksums\<close>

text \<open>
  What a table must sum to: the RSDP over its first 20 bytes and, from revision 1 on, over all its 36; FACS
  has no checksum; any other table over its length.
\<close>

definition sums_to_zero :: "cstr \<times> bytes \<Rightarrow> bool" where
  "sums_to_zero table \<longleftrightarrow>
     (case table of (name, t) \<Rightarrow>
        if name = ''RSDP''
        then 20 \<le> length t \<and> fwts_checksum t 20 = 0 \<and> (t ! 15 = 0 \<or> 36 \<le> length t \<and> fwts_checksum t 36 = 0)
        else name = ''FACS'' \<or> fwts_checksum t (length t) = 0)"

lemma rsdp_revision:
  assumes "20 \<le> length t"
  shows "\<exists>rsdp. view t 0 (up_to ''revision'' fwts_acpi_table_rsdp) = Some rsdp \<and> (rsdp ''revision'' = 0 \<longleftrightarrow> t ! 15 = 0)"
proof -
  have "unat (ucast (t ! 15) :: u64) = unat (t ! 15)"
    using byte_less [of "t ! 15"] by (simp add: unsigned_ucast_eq take_bit_nat_eq_self_iff)
  then have "ucast (t ! 15) = (0 :: u64) \<longleftrightarrow> t ! 15 = 0" by (metis unat_eq_zero)
  moreover have "take 1 (drop 15 t) = [t ! 15]" using assms by (simp add: take_Suc hd_drop_conv_nth)
  ultimately show ?thesis using assms by (auto simp: view_def sizeof_def member_at_def layouts)
qed

text \<open>A table that is not the RSDP or FACS is read up to the byte of its checksum in any case.\<close>

definition has_checksum :: "cstr \<times> bytes \<Rightarrow> bool" where
  "has_checksum table \<longleftrightarrow> fst table = ''RSDP'' \<or> fst table = ''FACS'' \<or> 10 \<le> length (snd table)"

lemma header_checksum: "header_field t ''checksum'' = None \<longleftrightarrow> length t < 10"
  by (simp add: header_field_def get_def layouts read_le_def read_bytes_def)

lemma checksum_table_none: "checksum_table table = None \<longleftrightarrow> \<not> has_checksum table"
proof -
  obtain name t where table: "table = (name, t)" by (cases table)
  have "checksum_rsdp t \<noteq> None"
    using rsdp_revision [of t] by (cases "20 \<le> length t") (auto simp: checksum_rsdp_def Let_def)
  then show ?thesis using header_checksum [of t]
    by (cases "header_field t ''checksum''") (auto simp: table checksum_table_def has_checksum_def)
qed

lemma checksum_table_ok:
  assumes "checksum_table table = Some rs"
  shows "list_ex is_failed rs \<longleftrightarrow> \<not> sums_to_zero table"
proof -
  obtain name t where table: "table = (name, t)" by (cases table)
  have "sizeof fwts_acpi_table_rsdp = 36" by (simp add: sizeof_def layouts)
  then show ?thesis using assms rsdp_revision [of t]
    by (cases "20 \<le> length t")
      (auto simp: table checksum_table_def sums_to_zero_def checksum_rsdp_def bind_eq_Some_conv Let_def split: if_splits)
qed

lemma checksum_scan_none: "checksum_scan_tables ts = None \<longleftrightarrow> \<not> list_all has_checksum ts"
  by (induction ts) (auto simp: checksum_table_none bind_eq_None_conv)

lemma checksum_scan_ok:
  "checksum_scan_tables ts = Some rs \<Longrightarrow> list_ex is_failed rs \<longleftrightarrow> \<not> list_all sums_to_zero ts"
proof (induction ts arbitrary: rs)
  case (Cons table ts)
  then show ?case using checksum_table_ok [of table] by (auto simp: bind_eq_Some_conv)
qed simp

end
