(* ===== verification/Fwts_Structure_Tables.thy ===== *)
theory Fwts_Structure_Tables
  imports Fwts_Record_Tables
begin

text \<open>
  The tests of SRAT, PCCT, NFIT, iBFT and DBG2, under src/src/acpi: tables whose structures differ by a
  type. A function that checks one structure is given the table and the offset of the structure.
\<close>

section \<open>SRAT\<close>

text \<open>
  The code counts down the length that is left, a signed number; one below zero ends the loop as zero
  does. Every structure begins with what is common to all: there must be enough left for its struct, and
  its length must be that of the struct.
\<close>

definition srat_structure ::
    "cstr \<Rightarrow> layout \<Rightarrow> (members \<Rightarrow> act list option) \<Rightarrow> bytes \<Rightarrow> nat \<Rightarrow> nat \<Rightarrow> act list option" where
  "srat_structure label l checks t len off =
     (if sizeof l > len then Some (fails LOG_LEVEL_MEDIUM label)
      else do { affinity \<leftarrow> view t off l;
                case fwts_acpi_structure_length ''SRAT'' (affinity ''type'') (affinity ''length'') (sizeof l) of
                  [] \<Rightarrow> checks affinity
                | rs \<Rightarrow> Some (unpass rs) })"

definition srat_check_local_apic_sapic_affinity :: "bytes \<Rightarrow> nat \<Rightarrow> nat \<Rightarrow> act list option" where
  "srat_check_local_apic_sapic_affinity =
     srat_structure ''SRATLocalApicSapicAffinityShort'' fwts_acpi_table_local_apic_sapic_affinity
       (\<lambda>affinity. Some (reserved_bits ''SRAT'' ''Local APIC/SPAIC Affinity Flags'' (affinity ''flags'') 1 31))"

definition srat_check_memory_affinity :: "bytes \<Rightarrow> nat \<Rightarrow> nat \<Rightarrow> act list option" where
  "srat_check_memory_affinity =
     srat_structure ''SRATMemoryAffinityShort'' fwts_acpi_table_memory_affinity
       (\<lambda>affinity. Some (reserved_bits ''SRAT'' ''Memory Affinity Flags'' (affinity ''flags'') 3 31))"

definition srat_check_local_x2apic_affinity :: "bytes \<Rightarrow> nat \<Rightarrow> nat \<Rightarrow> act list option" where
  "srat_check_local_x2apic_affinity =
     srat_structure ''SRATLocalx2apicAffinityShort'' fwts_acpi_table_local_x2apic_affinity
       (\<lambda>affinity. Some
          (fault_if (affinity ''reserved1'' \<noteq> 0) (Failed LOG_LEVEL_MEDIUM ''SRATLocalx2apicReserved1'') @
           reserved_bits ''SRAT'' ''Local x2APIC Affinity Flags'' (affinity ''flags'') 1 31))"

definition srat_check_gicc_affinity :: "bytes \<Rightarrow> nat \<Rightarrow> nat \<Rightarrow> act list option" where
  "srat_check_gicc_affinity =
     srat_structure ''SRATGICCAffinityShort'' fwts_acpi_table_gicc_affinity
       (\<lambda>affinity. Some (reserved_bits ''SRAT'' ''GICC Affinity Flags'' (affinity ''flags'') 1 31))"

definition srat_check_its_affinity :: "bytes \<Rightarrow> nat \<Rightarrow> nat \<Rightarrow> act list option" where
  "srat_check_its_affinity =
     srat_structure ''SRATITSAffinityShort'' fwts_acpi_table_its_affinity
       (\<lambda>affinity. Some (reserved_zero ''SRAT'' ''ITS Affinity Reserved'' (affinity ''reserved'')))"

text \<open>
  Initiators and ports have the same members. Of the 16 bytes of a device handle, the last 4 are reserved
  for an ACPI device and the last 12 for a PCI device.
\<close>

definition srat_device_handle :: "bytes \<Rightarrow> nat \<Rightarrow> u64 \<Rightarrow> act list option" where
  "srat_device_handle t off handle_type =
     (if handle_type = 0
      then map_option (reserved_zero ''SRAT'' ''Device Handle Reserved'') (read_le t (off + 12) 4)
      else if handle_type = 1
      then map_option (reserved_zero_array ''SRAT'' ''Device Handle Reserved'') (read_bytes t (off + 4) 12)
      else Some [])"

definition srat_generic_affinity :: "layout \<Rightarrow> bytes \<Rightarrow> nat \<Rightarrow> members \<Rightarrow> act list option" where
  "srat_generic_affinity l t off affinity =
     do { rs \<leftarrow> srat_device_handle t (off + offsetof l ''device_handle'') (affinity ''device_handle_type'');
          Some (reserved_zero ''SRAT'' ''Affinity Reserved'' (affinity ''reserved1'') @
                reserved_bits ''SRAT'' ''Affinity Device Handle Type'' (affinity ''device_handle_type'') 1 7 @
                rs @
                reserved_bits ''SRAT'' ''Affinity Flags'' (affinity ''flags'') 2 31 @
                reserved_zero ''SRAT'' ''Affinity Reserved'' (affinity ''reserved2'')) }"

definition srat_check_initiator_affinity :: "bytes \<Rightarrow> nat \<Rightarrow> nat \<Rightarrow> act list option" where
  "srat_check_initiator_affinity t len off =
     srat_structure ''SRATInitiatorAffinityShort'' fwts_acpi_table_initiator_affinity
       (srat_generic_affinity fwts_acpi_table_initiator_affinity t off) t len off"

definition srat_check_port_affinity :: "bytes \<Rightarrow> nat \<Rightarrow> nat \<Rightarrow> act list option" where
  "srat_check_port_affinity t len off =
     srat_structure ''SRATPortAffinityShort'' fwts_acpi_table_port_affinity
       (srat_generic_affinity fwts_acpi_table_port_affinity t off) t len off"

definition srat_check_rintc_affinity :: "bytes \<Rightarrow> nat \<Rightarrow> nat \<Rightarrow> act list option" where
  "srat_check_rintc_affinity =
     srat_structure ''SRATRintcAffinityShort'' fwts_acpi_table_rintc_affinity
       (\<lambda>affinity. Some (reserved_zero ''SRAT'' ''RINTC Affinity Reserved'' (affinity ''reserved'') @
          reserved_bits ''SRAT'' ''RINTC Affinity Flags'' (affinity ''flags'') 1 31))"

definition srat_checks :: "((bytes \<Rightarrow> nat \<Rightarrow> nat \<Rightarrow> act list option) \<times> layout) list" where
  "srat_checks =
     [(srat_check_local_apic_sapic_affinity, fwts_acpi_table_local_apic_sapic_affinity),
      (srat_check_memory_affinity, fwts_acpi_table_memory_affinity),
      (srat_check_local_x2apic_affinity, fwts_acpi_table_local_x2apic_affinity),
      (srat_check_gicc_affinity, fwts_acpi_table_gicc_affinity),
      (srat_check_its_affinity, fwts_acpi_table_its_affinity),
      (srat_check_initiator_affinity, fwts_acpi_table_initiator_affinity),
      (srat_check_port_affinity, fwts_acpi_table_port_affinity),
      (srat_check_rintc_affinity, fwts_acpi_table_rintc_affinity)]"

definition srat_affinity :: "bytes \<Rightarrow> nat \<times> nat \<Rightarrow> (act list \<times> (nat \<times> nat) advance) option" where
  "srat_affinity t pos =
     (case pos of (len, off) \<Rightarrow>
        do { ty \<leftarrow> byte_in t off;
             if unat ty < length srat_checks
             then case srat_checks ! unat ty of (check, l) \<Rightarrow>
               do { rs \<leftarrow> check t len off; Some (rs, Goto (len - sizeof l, off + sizeof l)) }
             else Some (fails LOG_LEVEL_HIGH ''SRATInvalidType'', Leave pos) })"

definition srat_test1 :: table_test where
  "srat_test1 t =
     do { srat \<leftarrow> view t 0 (up_to ''reserved1'' fwts_acpi_table_srat);
          r \<leftarrow> scan (Suc (length t)) (\<lambda>(len, off). len > 0) (srat_affinity t)
                 (length t - sizeof fwts_acpi_table_srat, sizeof fwts_acpi_table_srat);
          Some (after_scan (fixed_value LOG_LEVEL_MEDIUM ''SRAT'' ''Revision1'' (srat ''reserved1'') 1) r) }"

section \<open>PCCT\<close>

definition subspace_length_equal :: "nat \<Rightarrow> u64 \<Rightarrow> report list" where
  "subspace_length_equal type_size len =
     fail_if (type_size mod 256 \<noteq> unat len) (Failed LOG_LEVEL_HIGH ''PCCTBadSubspaceLength'')"

definition gas_messages :: "members \<Rightarrow> string \<Rightarrow> act list" where
  "gas_messages entry reg =
     space_id ''PCCT'' ''Subspace Type'' (entry (reg @ ''.address_space_id''))
       [FWTS_GAS_ADDR_SPACE_ID_SYSTEM_MEMORY, FWTS_GAS_ADDR_SPACE_ID_SYSTEM_IO, FWTS_GAS_ADDR_SPACE_ID_FFH]"

definition gas_messages2 :: "members \<Rightarrow> string \<Rightarrow> act list" where
  "gas_messages2 entry reg =
     space_id ''PCCT'' ''Subspace Type'' (entry (reg @ ''.address_space_id''))
       [FWTS_GAS_ADDR_SPACE_ID_SYSTEM_MEMORY, FWTS_GAS_ADDR_SPACE_ID_SYSTEM_IO]"

definition memory_length :: "u64 \<Rightarrow> u64 \<Rightarrow> u64 \<Rightarrow> act list" where
  "memory_length ty memory_range min_length =
     fault_if (ty \<le> 4 \<and> memory_range \<le> min_length) (Failed LOG_LEVEL_HIGH ''PCCTBadSubtypeMemoryLength'')"

definition generic_comm_test :: "members \<Rightarrow> act list" where
  "generic_comm_test entry =
     memory_length (entry ''header.type'') (entry ''length'') 8 @ gas_messages2 entry ''doorbell_register''"

definition pcct_interrupt_flags :: "members \<Rightarrow> act list" where
  "pcct_interrupt_flags entry =
     reserved_bits ''PCCT'' ''Platform Interrupt Flags'' (entry ''platform_interrupt_flags'') 2 7"

definition hw_reduced_comm_test_type1 :: "members \<Rightarrow> act list" where
  "hw_reduced_comm_test_type1 entry =
     memory_length (entry ''header.type'') (entry ''length'') 8 @ gas_messages entry ''doorbell_register'' @
     pcct_interrupt_flags entry"

definition hw_reduced_comm_test_type2 :: "members \<Rightarrow> act list" where
  "hw_reduced_comm_test_type2 entry =
     memory_length (entry ''header.type'') (entry ''length'') 8 @ gas_messages entry ''doorbell_register'' @
     gas_messages entry ''platform_ack_register'' @ pcct_interrupt_flags entry"

definition extended_pcc_test :: "members \<Rightarrow> act list" where
  "extended_pcc_test entry =
     memory_length (entry ''header.type'') (entry ''length'') 16 @ gas_messages entry ''doorbell_register'' @
     gas_messages entry ''platform_ack_register'' @ gas_messages entry ''cmd_complete_register'' @
     gas_messages entry ''cmd_update_register'' @ gas_messages entry ''error_status_register'' @
     pcct_interrupt_flags entry"

definition hw_registers_based_comm_test :: "members \<Rightarrow> act list" where
  "hw_registers_based_comm_test entry =
     gas_messages2 entry ''doorbell_register'' @ gas_messages2 entry ''cmd_complete_register'' @
     gas_messages2 entry ''error_status_register''"

text \<open>A subspace, given the flags of the table.\<close>

definition pcct_subspace :: "u64 \<Rightarrow> record_body" where
  "pcct_subspace pcct_flags t off =
     do { hdr \<leftarrow> view t off fwts_acpi_table_pcct_subspace_header;
          let ty = hdr ''type''; len = hdr ''length'';
              subspace = (\<lambda>l checks.
                case subspace_length_equal (sizeof l) len of
                  [] \<Rightarrow> do { entry \<leftarrow> view t off l; Some (checks entry, Goto (off + unat len)) }
                | rs \<Rightarrow> Some (unpass rs, Leave off)) in
          if ty = 0 then subspace fwts_acpi_table_pcct_subspace_type_0 generic_comm_test
          else if ty = 1 then subspace fwts_acpi_table_pcct_subspace_type_1 hw_reduced_comm_test_type1
          else if ty = 2 then subspace fwts_acpi_table_pcct_subspace_type_2 hw_reduced_comm_test_type2
          else if ty = 3 then subspace fwts_acpi_table_pcct_subspace_type_3_4 extended_pcc_test
          else if ty = 4 then subspace fwts_acpi_table_pcct_subspace_type_3_4
            (\<lambda>entry. fault_if (pcct_flags AND 1 = 0) (Failed LOG_LEVEL_HIGH ''PCCTBadFlags'') @ extended_pcc_test entry)
          else if ty = 5 then subspace fwts_acpi_table_pcct_subspace_type_5 hw_registers_based_comm_test
          else Some (fails LOG_LEVEL_HIGH ''PCCTBadSubType'', Leave off) }"

definition pcct_test1 :: table_test where
  "pcct_test1 t =
     do { pcct \<leftarrow> view t 0 fwts_acpi_table_pcct;
          r \<leftarrow> records t (pcct_subspace (pcct ''flags'')) (sizeof fwts_acpi_table_pcct);
          Some (after_scan (reserved_bits ''PCCT'' ''Flags'' (pcct ''flags'') 1 31 @
                            reserved_zero ''PCCT'' ''Reserved'' (pcct ''reserved'')) r) }"

section \<open>NFIT\<close>

text \<open>
  A structure of NFIT gives its reports and, unless the loop is left, what its reserved members hold: the
  last of those that are not zero. The least length of a structure is an \<open>int\<close>, so that a number of lines
  of more than 2^29 makes it negative or small.
\<close>

definition EFI_MEMORY_ALL :: u64 where "EFI_MEMORY_ALL = 0x7F01F"

abbreviation (input) FWTS_NFIT_MINLEN_SYSTEM_ADDRESS :: nat where "FWTS_NFIT_MINLEN_SYSTEM_ADDRESS \<equiv> 56"
abbreviation (input) FWTS_NFIT_MINLEN_MEMORY_MAP :: nat where "FWTS_NFIT_MINLEN_MEMORY_MAP \<equiv> 48"
abbreviation (input) FWTS_NFIT_MINLEN_INTERLEAVE :: nat where "FWTS_NFIT_MINLEN_INTERLEAVE \<equiv> 16"
abbreviation (input) FWTS_NFIT_MINLEN_SMBIOS :: nat where "FWTS_NFIT_MINLEN_SMBIOS \<equiv> 8"
abbreviation (input) FWTS_NFIT_MINLEN_CONTROL_REGION :: nat where "FWTS_NFIT_MINLEN_CONTROL_REGION \<equiv> 32"
abbreviation (input) FWTS_NFIT_MINLEN_DATA_REGION :: nat where "FWTS_NFIT_MINLEN_DATA_REGION \<equiv> 32"
abbreviation (input) FWTS_NFIT_MINLEN_FLUSH_ADDRESS :: nat where "FWTS_NFIT_MINLEN_FLUSH_ADDRESS \<equiv> 16"
abbreviation (input) FWTS_NFIT_MINLEN_PLATFORM_CAPABILITY :: nat where "FWTS_NFIT_MINLEN_PLATFORM_CAPABILITY \<equiv> 16"

definition guid_virtual_device :: "bytes list" where
  "guid_virtual_device =
     [[0x5a, 0x53, 0xab, 0x77, 0xfc, 0x45, 0x4b, 0x62, 0x55, 0x60, 0xf7, 0xb2, 0x81, 0xd1, 0xf9, 0x6e],
      [0x30, 0xbd, 0x5a, 0x3d, 0x75, 0x41, 0xce, 0x87, 0x6d, 0x64, 0xd2, 0xad, 0xe5, 0x23, 0xc4, 0xbb],
      [0xc9, 0x02, 0xea, 0x5c, 0x07, 0x4d, 0xd3, 0x69, 0x26, 0x9f, 0x44, 0x96, 0xfb, 0xe0, 0x96, 0xf9],
      [0x88, 0x81, 0x01, 0x08, 0xcd, 0x42, 0x48, 0xbb, 0x10, 0x0f, 0x53, 0x87, 0xd5, 0x3d, 0xed, 0x3d]]"

definition nfit_check_length :: "u64 \<Rightarrow> nat \<Rightarrow> report list" where
  "nfit_check_length actual least =
     fail_if (int (unat actual) < sint (of_nat least :: u32)) (Failed LOG_LEVEL_HIGH ''NFITSubtableLength'')"

type_synonym nfit_result = "(act list \<times> u64 option) option"

definition nfit_sized :: "u64 \<Rightarrow> nat \<Rightarrow> nfit_result \<Rightarrow> nfit_result" where
  "nfit_sized len least k =
     (case nfit_check_length len least of [] \<Rightarrow> k | rs \<Rightarrow> Some (unpass rs, None))"

definition nfit_system_address :: "u32 \<Rightarrow> bytes \<Rightarrow> nat \<Rightarrow> u64 \<Rightarrow> nfit_result" where
  "nfit_system_address version t off len =
     nfit_sized len FWTS_NFIT_MINLEN_SYSTEM_ADDRESS
       (do { s \<leftarrow> view t off (up_to (if version \<ge> FWTS_ACPI_VERSION_64 then ''spa_location_cookie'' else ''memory_mapping'')
                       fwts_acpi_table_nfit_system_memory);
             guid \<leftarrow> get_bytes t off fwts_acpi_table_nfit_system_memory ''range_guid'';
             let guid_skip = list_ex (\<lambda>g. fwts_guid_match guid g 16) guid_virtual_device;
             let zero = (\<lambda>f label. fault_if (guid_skip \<and> s f \<noteq> 0) (Failed LOG_LEVEL_HIGH label));
             Some (fault_if (\<not> guid_skip \<and> s ''range_index'' = 0) (Failed LOG_LEVEL_HIGH ''NFITBadRangeIndexZero'') @
                   zero ''range_index'' ''NFITBadRangeIndexNonZero'' @
                   zero ''flags'' ''NFITBadFlagsNonZero'' @
                   zero ''proximity_domain'' ''NFITBadProximityDomainNonZero'' @
                   zero ''memory_mapping'' ''NFITBadMemoryAttributeNonZero'' @
                   reserved_bits ''NFIT'' ''Flags'' (s ''flags'') 3 15 @
                   fault_if (s ''memory_mapping'' AND NOT EFI_MEMORY_ALL \<noteq> 0)
                     (Failed LOG_LEVEL_HIGH ''NFITBadMemoryMappingAttribute''),
                   Some (s ''reserved'')) })"

definition nfit_memory_map :: "bytes \<Rightarrow> nat \<Rightarrow> u64 \<Rightarrow> nfit_result" where
  "nfit_memory_map t off len =
     nfit_sized len FWTS_NFIT_MINLEN_MEMORY_MAP
       (do { s \<leftarrow> view t off fwts_acpi_table_nfit_memory_map;
             Some (reserved_bits ''NFIT'' ''NVDIMM State Flags'' (s ''flags'') 7 15, Some (s ''reserved'')) })"

definition nfit_interleave :: "bytes \<Rightarrow> nat \<Rightarrow> u64 \<Rightarrow> nfit_result" where
  "nfit_interleave t off len =
     nfit_sized len FWTS_NFIT_MINLEN_INTERLEAVE
       (do { s \<leftarrow> view t off fwts_acpi_table_nfit_interleave;
             let lines = 4 * unat (s ''line_count'');
             nfit_sized len (FWTS_NFIT_MINLEN_INTERLEAVE + lines)
               (do { _ \<leftarrow> has_bytes t (off + offsetof fwts_acpi_table_nfit_interleave ''line_offset'') lines;
                     Some (fault_if (s ''line_count'' = 0) (Failed LOG_LEVEL_HIGH ''NFITBadLineCount''),
                           Some (s ''reserved'')) }) })"

text \<open>
  The entries of SMBIOS: each has its length in its second byte, and strings behind it that end with two
  zero bytes. The length left is signed.
\<close>

fun nfit_strings :: "bytes \<Rightarrow> nat \<Rightarrow> nat \<Rightarrow> (nat \<times> nat) option" where
  "nfit_strings t off 0 = Some (off, 0)"
| "nfit_strings t off (Suc n) =
     (if Suc n > 2
      then do { b0 \<leftarrow> byte_in t off;
                b1 \<leftarrow> (if b0 \<noteq> 0 then Some b0 else byte_in t (off + 1));
                if b1 \<noteq> 0 then nfit_strings t (off + 1) n else Some (off, Suc n) }
      else Some (off, Suc n))"

definition nfit_smbios_entry :: "bytes \<Rightarrow> nat \<times> int \<Rightarrow> (report list \<times> (nat \<times> int) advance) option" where
  "nfit_smbios_entry t pos =
     (case pos of (off, len) \<Rightarrow>
        do { _ \<leftarrow> has_bytes t off 4;
             entry_length \<leftarrow> byte_in t (off + 1);
             if entry_length < 4 then Some ([Failed LOG_LEVEL_HIGH ''NFIT_SMBIOS_EntryLength''], Return)
             else do {
               let len = len - int (unat entry_length);
               let off = off + unat entry_length;
               (off, len) \<leftarrow> (if len > 2
                  then map_option (\<lambda>(off, n). (off, int n)) (nfit_strings t off (nat len)) else Some (off, len));
               Some ([], Goto (off + 2, len - 2)) } })"

definition scan_nfit_smbios :: "bytes \<Rightarrow> nat \<Rightarrow> int \<Rightarrow> report list option" where
  "scan_nfit_smbios t off len =
     do { (rs, last) \<leftarrow> scan (Suc (nat len)) (\<lambda>(off, len). len > 4) (nfit_smbios_entry t) (off, len);
          Some (case last of
              None \<Rightarrow> rs
            | Some (off, len) \<Rightarrow> rs @ fail_if (len \<noteq> 0) (Failed LOG_LEVEL_HIGH ''NFIT_SMBIOS_ListLength'')) }"

definition nfit_smbios :: "bytes \<Rightarrow> nat \<Rightarrow> u64 \<Rightarrow> nfit_result" where
  "nfit_smbios t off len =
     nfit_sized len FWTS_NFIT_MINLEN_SMBIOS
       (do { s \<leftarrow> view t off fwts_acpi_table_nfit_smbios;
             rs \<leftarrow> scan_nfit_smbios t (off + 8) (int (unat len) - 8);
             Some (clears rs, Some (s ''reserved'')) })"

definition nfit_control_region :: "bytes \<Rightarrow> nat \<Rightarrow> u64 \<Rightarrow> nfit_result" where
  "nfit_control_region t off len =
     nfit_sized len FWTS_NFIT_MINLEN_CONTROL_REGION
       (do { s \<leftarrow> view t off (up_to ''windows_num'' fwts_acpi_table_nfit_control_range);
             let rs = fault_if (s ''revision_id'' AND 0xFF00 \<noteq> 0) (Failed LOG_LEVEL_HIGH ''NFITBadRevisionId'') @
                      fault_if (s ''subsystem_revision_id'' AND 0xFF00 \<noteq> 0) (Failed LOG_LEVEL_HIGH ''NFITBadRevisionId'') @
                      reserved_bits ''NFIT'' ''Valid'' (s ''valid_fields'') 1 7;
             if unat len \<ge> sizeof fwts_acpi_table_nfit_control_range
             then do { s \<leftarrow> view t off fwts_acpi_table_nfit_control_range;
                       Some (rs @ reserved_bits ''NFIT'' ''NVDIMM Control Region Flags'' (s ''flags'') 1 15,
                             Some (if s ''reserved1'' \<noteq> 0 then s ''reserved1'' else s ''reserved'')) }
             else Some (rs, Some (s ''reserved'')) })"

definition nfit_data_region :: "bytes \<Rightarrow> nat \<Rightarrow> u64 \<Rightarrow> nfit_result" where
  "nfit_data_region t off len =
     nfit_sized len FWTS_NFIT_MINLEN_DATA_REGION
       (do { s \<leftarrow> view t off fwts_acpi_table_nfit_data_range;
             Some (fault_if (s ''region_index'' = 0) (Failed LOG_LEVEL_HIGH ''NFITBadRegionIndex''), Some 0) })"

definition nfit_flush_address :: "bytes \<Rightarrow> nat \<Rightarrow> u64 \<Rightarrow> nfit_result" where
  "nfit_flush_address t off len =
     nfit_sized len FWTS_NFIT_MINLEN_FLUSH_ADDRESS
       (do { s \<leftarrow> view t off fwts_acpi_table_nfit_flush_addr;
             let hints = 8 * unat (s ''hint_count'');
             nfit_sized len (FWTS_NFIT_MINLEN_FLUSH_ADDRESS + hints)
               (do { _ \<leftarrow> has_bytes t (off + offsetof fwts_acpi_table_nfit_flush_addr ''hint_address'') hints;
                     Some ([], Some (s ''reserved'')) }) })"

definition nfit_platform_capability :: "bytes \<Rightarrow> nat \<Rightarrow> u64 \<Rightarrow> nfit_result" where
  "nfit_platform_capability t off len =
     nfit_sized len FWTS_NFIT_MINLEN_PLATFORM_CAPABILITY
       (do { s \<leftarrow> view t off fwts_acpi_table_nfit_platform_cap;
             Some (reserved_zero ''NFIT'' ''Reserved1'' (s ''reserved1'') @
                   reserved_bits ''NFIT'' ''Capabilities'' (s ''cap'') 3 31 @
                   fault_if (s ''cap'' AND 1 \<noteq> 0 \<and> s ''cap'' AND 2 = 0) (Failed LOG_LEVEL_CRITICAL ''NFITBadCapabilities''),
                   Some (s ''reserved2'')) })"

definition nfit_structure :: "u32 \<Rightarrow> bytes \<Rightarrow> nat \<Rightarrow> u64 \<Rightarrow> u64 \<Rightarrow> nfit_result" where
  "nfit_structure version t off ty len =
     (if ty = 0 then nfit_system_address version t off len
      else if ty = 1 then nfit_memory_map t off len
      else if ty = 2 then nfit_interleave t off len
      else if ty = 3 then nfit_smbios t off len
      else if ty = 4 then nfit_control_region t off len
      else if ty = 5 then nfit_data_region t off len
      else if ty = 6 then nfit_flush_address t off len
      else if ty = 7 then nfit_platform_capability t off len
      else Some (reserved_type ''NFIT'' ty 0 8, None))"

definition nfit_record :: "u32 \<Rightarrow> record_body" where
  "nfit_record version t off =
     do { entry \<leftarrow> view t off fwts_acpi_table_nfit_struct_header;
          on_record ''NFIT'' (entry ''length'') off
            (do { (rs, reserved) \<leftarrow> nfit_structure version t off (entry ''type'') (entry ''length'');
                  Some (case reserved of
                      None \<Rightarrow> (rs, Leave off)
                    | Some v \<Rightarrow> to_next ''NFIT'' t (rs @ reserved_zero ''NFIT'' ''Reserved'' v)
                                 (add32 off (unat (entry ''length'')))) }) }"

definition nfit_test1 :: "u32 \<Rightarrow> table_test" where
  "nfit_test1 version t =
     do { nfit \<leftarrow> view t 0 fwts_acpi_table_nfit;
          r \<leftarrow> records t (nfit_record version) (sizeof fwts_acpi_table_nfit);
          Some (after_scan (reserved_zero ''NFIT'' ''Reserved'' (nfit ''reserved'')) r) }"

section \<open>iBFT\<close>

text \<open>
  A structure at an offset of the control structure: it must begin in the table, and its length, which is
  the member named, must not be below that of the struct.
\<close>

definition ibft_structure :: "bytes \<Rightarrow> nat \<Rightarrow> string \<Rightarrow> layout \<Rightarrow> (members \<Rightarrow> act list) \<Rightarrow> act list option" where
  "ibft_structure t off f l checks =
     (if off \<ge> length t then Some (fails LOG_LEVEL_HIGH ''iBFTBadStructureOffset'')
      else do { std \<leftarrow> view t off (up_to f l);
                if unat (std f) < sizeof l then Some (fails LOG_LEVEL_HIGH ''iBFTBadStructureLength'')
                else do { m \<leftarrow> view t off l; Some (checks m) } })"

definition ibft_in_table :: "bytes \<Rightarrow> members \<Rightarrow> string \<Rightarrow> string \<Rightarrow> act list" where
  "ibft_in_table t m len off =
     fault_if (unat (m len) + unat (m off) > length t) (Failed LOG_LEVEL_HIGH ''iBFTBadOffset'')"

definition ibfg_extensions_check :: "bytes \<Rightarrow> nat \<Rightarrow> act list option" where
  "ibfg_extensions_check t off = ibft_structure t off ''length'' fwts_acpi_ibft_standard (\<lambda>std. [])"

definition ibfg_initiator_check :: "bytes \<Rightarrow> nat \<Rightarrow> act list option" where
  "ibfg_initiator_check t off =
     ibft_structure t off ''std.length'' fwts_acpi_ibft_initiator (\<lambda>initiator.
       reserved_bits ''iBAF'' ''Flags'' (initiator ''std.flags'') 2 7 @
       ibft_in_table t initiator ''initiator_name_length'' ''initiator_name_offset'')"

definition ibfg_nic_check :: "bytes \<Rightarrow> nat \<Rightarrow> act list option" where
  "ibfg_nic_check t off =
     ibft_structure t off ''std.length'' fwts_acpi_ibft_nic (\<lambda>nic.
       reserved_bits ''iBAF'' ''Flags'' (nic ''std.flags'') 3 7 @
       ibft_in_table t nic ''host_name_length'' ''host_name_offset'')"

definition ibfg_target_check :: "bytes \<Rightarrow> nat \<Rightarrow> act list option" where
  "ibfg_target_check t off =
     ibft_structure t off ''std.length'' fwts_acpi_ibft_target (\<lambda>target.
       reserved_bits ''iBAF'' ''Flags'' (target ''std.flags'') 4 7 @
       reserved_type ''iBFT'' (target ''chap_type'') 0 2 @
       ibft_in_table t target ''target_name_length'' ''target_name_offset'' @
       ibft_in_table t target ''chap_name_length'' ''chap_name_offset'' @
       ibft_in_table t target ''chap_secret_length'' ''chap_secret_offset'' @
       ibft_in_table t target ''reverse_chap_name_length'' ''reverse_chap_name_offset'' @
       ibft_in_table t target ''reverse_chap_secret_length'' ''reverse_chap_secret_offset'')"

text \<open>
  The loop over optional structures adds the offset to the pointer to the record of the table, not to the
  data: it reads outside the table as soon as there is one.
\<close>

definition ibfg_test1 :: table_test where
  "ibfg_test1 t =
     do { reserved \<leftarrow> get_bytes t 0 fwts_acpi_ibft_header ''reserved'';
          let rs = reserved_zero_array ''iBFT'' ''Reserved'' reserved; start = sizeof fwts_acpi_ibft_header in
          do { std \<leftarrow> view t start (up_to ''std.length'' fwts_acpi_ibft_control);
               if unat (std ''std.length'') < sizeof fwts_acpi_ibft_control
               then Some (said rs @ [Failed LOG_LEVEL_HIGH ''iBFTBadStructureLength''])
               else if std ''std.structure_id'' \<noteq> 1 then Some (said (rs @ fails LOG_LEVEL_HIGH ''iBFTBadStructureType''))
               else do {
                 control \<leftarrow> view t start fwts_acpi_ibft_control;
                 let check = (\<lambda>f g. if control f \<noteq> 0 then g t (unat (control f)) else Some []);
                 extensions \<leftarrow> check ''extensions'' ibfg_extensions_check;
                 initiator \<leftarrow> check ''initiator_offset'' ibfg_initiator_check;
                 nic_0 \<leftarrow> check ''nic_0_offset'' ibfg_nic_check;
                 target_0 \<leftarrow> check ''target_0_offset'' ibfg_target_check;
                 nic_1 \<leftarrow> check ''nic_1_offset'' ibfg_nic_check;
                 target_1 \<leftarrow> check ''target_1_offset'' ibfg_target_check;
                 if start + sizeof fwts_acpi_ibft_control < unat (control ''std.length'') then None
                 else Some (conclude (rs @ reserved_bits ''iBAF'' ''Flags'' (control ''std.flags'') 1 7 @
                        extensions @ initiator @ nic_0 @ target_0 @ nic_1 @ target_1)) } } }"

section \<open>DBG2\<close>

text \<open>Offsets are added in 32 bits; the sizes of arrays are added to them in 64 bits.\<close>

definition dbg2_check_offset :: "bytes \<Rightarrow> nat \<Rightarrow> act list" where
  "dbg2_check_offset t off = fault_if (length t < off) (Failed LOG_LEVEL_HIGH ''DBG2TooShort'')"

definition dbg2_check_namespace_string :: "bytes \<Rightarrow> act list" where
  "dbg2_check_namespace_string str = fault_if (0 \<notin> set str) (Failed LOG_LEVEL_HIGH ''DBG2NameSpaceStringNull'')"

text \<open>The types of ports that are not reserved, and their subtypes.\<close>

definition dbg2_port :: "u64 \<Rightarrow> bool" where
  "dbg2_port port_type \<longleftrightarrow> port_type \<in> {0x8000, 0x8001, 0x8002, 0x8003}"

definition dbg2_subport :: "u64 \<Rightarrow> u64 \<Rightarrow> bool" where
  "dbg2_subport port_type port_subtype \<longleftrightarrow>
     (if port_type = 0x8000 then port_subtype \<le> 0x15 \<and> port_subtype \<noteq> 7
      else if port_type = 0x8001 then port_subtype = 0
      else if port_type = 0x8002 then port_subtype \<le> 1
      else port_type = 0x8003)"

text \<open>A string in the table up to its end mark; without one it is read outside the table.\<close>

definition string_in :: "bytes \<Rightarrow> nat \<Rightarrow> cstr option" where
  "string_in t off =
     (if 0 \<in> set (drop off t) then Some (chars (takeWhile (\<lambda>b. b \<noteq> 0) (drop off t))) else None)"

text \<open>
  The checks of an information structure come in three parts. The checks of the offsets of its name are given
  a flag of their own, which is never added to that of the test.
\<close>

definition dbg2_namespace_offsets :: "bytes \<Rightarrow> nat \<Rightarrow> members \<Rightarrow> act list" where
  "dbg2_namespace_offsets t off info =
     (let start = add32 off (unat (info ''namespace_offset'')) in
      dbg2_check_offset t start @ dbg2_check_offset t (add32 start (unat (info ''namespace_length''))))"

definition dbg2_namespace :: "(cstr \<Rightarrow> bool) \<Rightarrow> bytes \<Rightarrow> nat \<Rightarrow> members \<Rightarrow> act list option" where
  "dbg2_namespace obj_find t off info =
     (if Unpass \<in> set (dbg2_namespace_offsets t off info) then Some []
      else do { s \<leftarrow> read_bytes t (off + unat (info ''namespace_offset'')) (unat (info ''namespace_length''));
                str \<leftarrow> string_in t (off + unat (info ''namespace_offset''));
                Some (dbg2_check_namespace_string s @
                      fault_if (str \<noteq> ''.'' \<and> \<not> obj_find str) (Failed LOG_LEVEL_HIGH ''DBG2DeviceNotFound'')) })"

definition dbg2_register :: "u64 \<Rightarrow> members \<Rightarrow> act list" where
  "dbg2_register addrsize gas =
     fault_if (addrsize = 0) (Failed LOG_LEVEL_HIGH ''DBG2InvalidAddressSize'') @
     fault_if (gas ''register_bit_width'' = 0) (Failed LOG_LEVEL_HIGH ''DBG2InvalidGasWidth'') @
     fault_if (gas ''address'' = 0) (Failed LOG_LEVEL_HIGH ''DBG2InvalidGasAddress'')"

definition dbg2_registers :: "bytes \<Rightarrow> nat \<Rightarrow> members \<Rightarrow> act list option" where
  "dbg2_registers t off info =
     (let n = unat (info ''number_of_regs'');
          base = add32 off (unat (info ''base_address_offset''));
          sizes = add32 off (unat (info ''address_size_offset''));
          rs = dbg2_check_offset t base @ dbg2_check_offset t (base + n * sizeof fwts_acpi_gas) @
               dbg2_check_offset t sizes @ dbg2_check_offset t (sizes + n * 4) in
      if Unpass \<in> set rs then Some rs
      else rounds [0..<n] (\<lambda>j.
        do { gas \<leftarrow> view t (off + unat (info ''base_address_offset'') + j * sizeof fwts_acpi_gas) fwts_acpi_gas;
             addrsize \<leftarrow> read_le t (off + unat (info ''address_size_offset'') + j * 4) 4;
             Some (dbg2_register addrsize gas) }))"

definition dbg2_type :: "members \<Rightarrow> act list" where
  "dbg2_type info =
     fixed_value LOG_LEVEL_HIGH ''DBG2'' ''Info Structure Revision'' (info ''revision'') 0 @
     fault_if (\<not> dbg2_port (info ''port_type'')) (Failed LOG_LEVEL_HIGH ''DBG2PortTypeReserved'') @
     fault_if (\<not> dbg2_subport (info ''port_type'') (info ''port_subtype'')) (Failed LOG_LEVEL_HIGH ''DBG2PortSubTypeReserved'') @
     reserved_zero ''DBG2'' ''Info Structure Reserved'' (info ''reserved'')"

definition dbg2_info :: "(cstr \<Rightarrow> bool) \<Rightarrow> bytes \<Rightarrow> nat \<times> nat \<Rightarrow> (act list \<times> (nat \<times> nat) advance) option" where
  "dbg2_info obj_find t pos =
     (case pos of (i, off) \<Rightarrow>
        do { info \<leftarrow> view t off fwts_acpi_table_dbg2_info;
             name_rs \<leftarrow> dbg2_namespace obj_find t off info;
             register_rs \<leftarrow> dbg2_registers t off info;
             let length_rs = dbg2_check_offset t (add32 off (unat (info ''length'')));
             let oem = add32 off (unat (info ''oem_data_offset''));
             let oem_rs = dbg2_check_offset t oem @ dbg2_check_offset t (add32 oem (unat (info ''oem_data_length'')));
             Some (dbg2_type info @ length_rs @ map Says (said (dbg2_namespace_offsets t off info)) @ name_rs @ oem_rs @
                   register_rs,
                   if Unpass \<in> set length_rs then Leave pos else Goto (i + 1, off + unat (info ''length''))) })"

definition dbg2_test1 :: "(cstr \<Rightarrow> bool) \<Rightarrow> table_test" where
  "dbg2_test1 obj_find t =
     (case fwts_acpi_table_length ''DBG2'' (of_nat (length t)) (sizeof fwts_acpi_table_dbg2) of
        [] \<Rightarrow> do { dbg2 \<leftarrow> view t 0 fwts_acpi_table_dbg2;
                   let n = unat (dbg2 ''info_count''); off = unat (dbg2 ''info_offset'') in
                   if length t < off + n * sizeof fwts_acpi_table_dbg2_info then Some (conclude (fails LOG_LEVEL_HIGH ''DBG2TooShort''))
                   else do { r \<leftarrow> scan (Suc n) (\<lambda>(i, off). i < n) (dbg2_info obj_find t) (0, off);
                             Some (after_scan [] r) } }
      | rs \<Rightarrow> Some (conclude (unpass rs)))"

text \<open>
  The second test compares pointers into the table with the end of a table that would begin at its record:
  gap is how far the bytes of the table are behind the record.
\<close>

definition dbg2_uart :: "int \<Rightarrow> bytes \<Rightarrow> nat \<times> nat \<Rightarrow> (report list \<times> (nat \<times> nat) advance) option" where
  "dbg2_uart gap t pos =
     (case pos of (i, off) \<Rightarrow>
        if gap + int (off + 1) \<ge> int (length t) then Some ([], Leave pos)
        else do { info \<leftarrow> view t off (up_to ''length'' fwts_acpi_table_dbg2_info);
                  let len = unat (info ''length'') in
                  if gap + int (off + len) \<ge> int (length t) then Some ([], Leave pos)
                  else do { info \<leftarrow> view t off (up_to ''port_subtype'' fwts_acpi_table_dbg2_info);
                            Some (if info ''port_type'' = 0x8000 \<and> info ''port_subtype'' \<in> {0, 1, 3, 0xE, 0x12}
                                  then ([Passed], Return) else ([], Goto (i + 1, off + len))) } })"

definition dbg2_test2 :: "u32 \<Rightarrow> int \<Rightarrow> bytes \<Rightarrow> (int \<times> report list) option" where
  "dbg2_test2 fw_flags gap t =
     (if fw_flags AND FWTS_FLAG_SBBR = 0 then Some (FWTS_SKIP, [])
      else do { dbg2 \<leftarrow> view t 0 fwts_acpi_table_dbg2;
                let n = unat (dbg2 ''info_count'');
                (rs, last) \<leftarrow> scan (Suc n) (\<lambda>(i, off). i < n) (dbg2_uart gap t) (0, unat (dbg2 ''info_offset''));
                Some (FWTS_OK, rs @ (case last of
                    None \<Rightarrow> []
                  | Some _ \<Rightarrow> [Failed LOG_LEVEL_CRITICAL ''dbg2_sbsa_uart:''])) })"

end
