(* ===== verification/Fwts_Source_Tables.thy ===== *)
theory Fwts_Source_Tables
  imports Fwts_Record_Tables
begin

text \<open>
  The tests of HEST, ASF! and IORT, under src/src/acpi: tables with arrays inside their structures. The
  code counts down the signed length that is left; it is a natural number here where the code has compared
  it with what it takes off, and where a number below zero ends the loop as zero does.
\<close>

section \<open>HEST\<close>

text \<open>
  A check is given the length left and the offset; it gives its acts, the length left and the offset behind
  the structure. A structure whose banks are not all in the table clears the flag in silence. A structure that
  is too short ends the loop.
\<close>

type_synonym hest_check = "bytes \<Rightarrow> nat \<Rightarrow> nat \<Rightarrow> (act list \<times> nat \<times> nat) option"

definition hest_sized :: "cstr \<Rightarrow> layout \<Rightarrow> (members \<Rightarrow> act list) \<Rightarrow> hest_check" where
  "hest_sized label l checks t len off =
     (if len < sizeof l then Some (fails LOG_LEVEL_HIGH label, 0, off)
      else do { s \<leftarrow> view t off l; Some (checks s, len - sizeof l, off + sizeof l) })"

definition hest_bank :: "members \<Rightarrow> act list" where
  "hest_bank bank =
     fault_if (bank ''clear_status_on_initialization'' > 1) (Failed LOG_LEVEL_HIGH ''HESTIA32InvalidClearStatusOnInit'') @
     fault_if (bank ''status_data_format'' > 2) (Failed LOG_LEVEL_HIGH ''HESTIA32InvalidBankStatusDataFormat'')"

definition hest_with_banks :: "cstr \<Rightarrow> layout \<Rightarrow> (members \<Rightarrow> act list) \<Rightarrow> hest_check" where
  "hest_with_banks label l checks t len off =
     (if len < sizeof l then Some (fails LOG_LEVEL_HIGH label, 0, off)
      else do { s \<leftarrow> view t off l;
                let n = unat (s ''number_of_hardware_banks'');
                    total_size = sizeof l + n * sizeof fwts_acpi_table_hest_machine_check_bank in
                if len < total_size then Some ([Unpass], 0, off)
                else do { banks \<leftarrow> structs t (off + sizeof l) fwts_acpi_table_hest_machine_check_bank n;
                          Some (checks s @ concat (map hest_bank banks), len - total_size, off + total_size) } })"

definition hest_flags :: "cstr \<Rightarrow> cstr \<Rightarrow> members \<Rightarrow> act list" where
  "hest_flags reserved_label bad_label s =
     (if s ''flags'' AND NOT 5 \<noteq> 0 then fails LOG_LEVEL_MEDIUM reserved_label
      else fault_if (s ''flags'' = 5) (Failed LOG_LEVEL_HIGH bad_label))"

definition hest_check_ia32_arch_machine_check_exception :: hest_check where
  "hest_check_ia32_arch_machine_check_exception =
     hest_with_banks ''HESTIA32MachineCheckTooShort'' fwts_acpi_table_hest_ia32_machine_check_exception
       (\<lambda>exception.
          reserved_zero ''HEST'' ''MCE Reserved1'' (exception ''reserved1'') @
          hest_flags ''HESTIA32FlagsReserved'' ''HESTIA32BadFlags'' exception @
          reserved_zero ''HEST'' ''MCE Reserved2'' (exception ''reserved2''))"

definition hest_notification_type :: "members \<Rightarrow> act list" where
  "hest_notification_type s =
     fault_if (s ''notification.type'' > 11) (Failed LOG_LEVEL_HIGH ''HESTInvalidHardwareErrorNotificationType'')"

definition hest_check_ia32_arch_corrected_machine_check :: hest_check where
  "hest_check_ia32_arch_corrected_machine_check =
     hest_with_banks ''HESTIA32CorrectedMachineCheckTooShort'' fwts_acpi_table_hest_ia32_corrected_machine_check
       (\<lambda>check.
          reserved_zero ''HEST'' ''Machine Check Reserved1'' (check ''reserved1'') @
          hest_flags ''HESTIA32CorrectedMachineCheckFlagsReserved'' ''HESTIA32CorrectedMachineCheckBadFlags'' check @
          hest_notification_type check @
          reserved_zero ''HEST'' ''Machine Check Reserved2'' (check ''reserved2''))"

definition hest_records :: "members \<Rightarrow> act list" where
  "hest_records s =
     fault_if (s ''number_of_records_to_preallocate'' < 1) (Failed LOG_LEVEL_HIGH ''HESTInvalidRecordsToPreallocate'') @
     fault_if (s ''max_sections_per_record'' < 1) (Failed LOG_LEVEL_HIGH ''HESTInvalidMaxSectionsPerRecord'')"

definition hest_check_acpi_table_hest_nmi_error :: hest_check where
  "hest_check_acpi_table_hest_nmi_error =
     hest_sized ''HESTIA-32ArchitectureNmiTooShort'' fwts_acpi_table_hest_nmi_error
       (\<lambda>err. reserved_zero ''HEST'' ''NMI Reserved'' (err ''reserved1'') @ hest_records err)"

definition hest_aer :: "members \<Rightarrow> act list" where
  "hest_aer aer =
     reserved_zero ''HEST'' ''PCI Express Reserved1'' (aer ''reserved1'') @
     reserved_bits ''HEST'' ''PCI Express Flags'' (aer ''flags'') 2 7 @
     reserved_zero ''HEST'' ''PCI Express Reserved2'' (aer ''reserved2'') @
     hest_records aer"

definition hest_check_pci_express_root_port_aer :: hest_check where
  "hest_check_pci_express_root_port_aer =
     hest_sized ''HESTPciExpressRootPortAerTooShort'' fwts_acpi_table_hest_pci_express_root_port_aer hest_aer"

definition hest_check_pci_express_device_aer :: hest_check where
  "hest_check_pci_express_device_aer =
     hest_sized ''HESTPciExpressDeviceAerTooShort'' fwts_acpi_table_hest_pci_express_device_aer hest_aer"

definition hest_heck_pci_express_bridge_aer :: hest_check where
  "hest_heck_pci_express_bridge_aer =
     hest_sized ''HESTPciExpressBridgeAerTooShort'' fwts_acpi_table_hest_pci_express_bridge_aer hest_aer"

definition hest_source :: "members \<Rightarrow> act list" where
  "hest_source s =
     hest_records s @ hest_notification_type s @
     reserved_bits ''HEST'' ''HEST Configuration Write Enabled'' (s ''notification.configuration_write_enable'') 6 31"

definition hest_check_generic_error_source :: hest_check where
  "hest_check_generic_error_source =
     hest_sized ''HESTGenericHardwareErrorSourceTooShort'' fwts_acpi_table_hest_generic_hardware_error_source hest_source"

definition hest_check_generic_error_source_v2 :: hest_check where
  "hest_check_generic_error_source_v2 =
     hest_sized ''HESTGenericHardwareErrorSourceTooShort'' fwts_acpi_table_hest_generic_hardware_error_source_v2 hest_source"

definition hest_checks :: "u64 \<Rightarrow> hest_check option" where
  "hest_checks ty =
     (if ty = 0 then Some hest_check_ia32_arch_machine_check_exception
      else if ty = 1 \<or> ty = 11 then Some hest_check_ia32_arch_corrected_machine_check
      else if ty = 2 then Some hest_check_acpi_table_hest_nmi_error
      else if ty = 6 then Some hest_check_pci_express_root_port_aer
      else if ty = 7 then Some hest_check_pci_express_device_aer
      else if ty = 8 then Some hest_heck_pci_express_bridge_aer
      else if ty = 9 then Some hest_check_generic_error_source
      else if ty = 10 then Some hest_check_generic_error_source_v2
      else None)"

text \<open>
  The position: the length left, the offset, and the types met, of which the first three may occur once.
\<close>

type_synonym hest_position = "nat \<times> nat \<times> u64 list"

definition hest_structure :: "bytes \<Rightarrow> hest_position \<Rightarrow> (act list \<times> hest_position advance) option" where
  "hest_structure t pos =
     (case pos of (len, off, types) \<Rightarrow>
        do { ty \<leftarrow> read_le t off 2;
             case hest_checks ty of
               None \<Rightarrow> Some (fails LOG_LEVEL_HIGH ''HESTInvalidType'', Leave pos)
             | Some check \<Rightarrow>
                 do { (rs, len', off') \<leftarrow> check t len off; Some (rs, Goto (len', off', types @ [ty])) } })"

definition hest_counts :: "u64 list \<Rightarrow> act list" where
  "hest_counts types =
     fault_if (count_list types 0 > 1) (Failed LOG_LEVEL_HIGH ''HESTTooManyIA32ArchMachineCheckExceptions'') @
     fault_if (count_list types 1 > 1) (Failed LOG_LEVEL_HIGH ''HESTTooManyIA32CorrectedMachineChecks'') @
     fault_if (count_list types 2 > 1) (Failed LOG_LEVEL_HIGH ''HESTTooManyNmiErrors'')"

definition hest_test1 :: table_test where
  "hest_test1 t =
     do { len \<leftarrow> header_field t ''length'';
          case fwts_acpi_table_length ''HEST'' (of_nat (length t)) (sizeof fwts_acpi_table_hest) of
            [] \<Rightarrow> do { hest \<leftarrow> view t 0 fwts_acpi_table_hest;
                       let left = unat len - sizeof fwts_acpi_table_hest;
                       (rs, last) \<leftarrow> scan (Suc left) (\<lambda>(len, off, types). len > 0) (hest_structure t)
                          (left, sizeof fwts_acpi_table_hest, []);
                       Some (case last of
                           Some (len, off, types) \<Rightarrow> conclude (rs @ hest_counts types)
                         | None \<Rightarrow> said rs) }
          | rs \<Rightarrow> Some rs }"

section \<open>ASF!\<close>

definition asf_init ::
    "acpi_env \<Rightarrow> fwts_framework \<Rightarrow> acpi_state \<Rightarrow> (int \<times> nat option \<times> acpi_state) option" where
  "asf_init env fw st =
     do { (ret, info, st) \<leftarrow> fwts_acpi_find_table env fw ''ASF!'' 0 st;
          Some (if ret \<noteq> FWTS_OK then (FWTS_ERROR, info, Fwts_Tables.say (Err ''Cannot read ACPI tables.'') st)
                else if (case info of None \<Rightarrow> True | Some i \<Rightarrow> ti_length (tables st ! i) = 0)
                then (FWTS_SKIP, info, Fwts_Tables.say (Err ''ACPI ASF! table does not exist, skipping test'') st)
                else (FWTS_OK, info, st)) }"

text \<open>
  A check is given the length of the record, the length left behind its header and the offset of its data.
  It has a flag of its own, which is set at first, and passes the record if nothing has cleared it; then the
  flag is added to that of the test. It also gives whether the test is to stop.
\<close>

type_synonym asf_check = "bytes \<Rightarrow> nat \<Rightarrow> nat \<Rightarrow> nat \<Rightarrow> (act list \<times> bool) option"

definition record_verdict :: "act list \<Rightarrow> act list" where
  "record_verdict acts = acts @ (if Unpass \<in> set acts then [] else [Says Passed])"

definition asf_check_info :: asf_check where
  "asf_check_info t record_length len off =
     (if len < sizeof fwts_acpi_table_asf_info then Some (fails LOG_LEVEL_HIGH ''ASF!InfoRecordTooShort'', True)
      else do { info \<leftarrow> view t off fwts_acpi_table_asf_info;
                Some (record_verdict
                  (fault_if (info ''min_sensor_poll_wait_time'' < 2) (Failed LOG_LEVEL_HIGH ''ASF!InfoMinPollWaitTimeInvalid'') @
                   reserved_bits ''ASF!'' ''ASF_INFO Feature Flags'' (info ''flags'') 1 7 @
                   reserved_zero ''ASF!'' ''ASF_INFO Reserved1'' (info ''reserved1'') @
                   reserved_zero ''ASF!'' ''ASF_INFO Reserved2'' (info ''reserved2'') @
                   reserved_zero ''ASF!'' ''ASF_INFO Reserved3'' (info ''reserved3'')), False) })"

definition asf_check_alrt :: asf_check where
  "asf_check_alrt t record_length len off =
     (if len < sizeof fwts_acpi_table_asf_alrt then Some (fails LOG_LEVEL_HIGH ''ASF!AlrtRecordTooShort'', True)
      else do { alrt \<leftarrow> view t off fwts_acpi_table_asf_alrt;
                let n = unat (alrt ''number_of_alerts'');
                    size_rs = fault_if (unat (alrt ''array_length'') \<noteq> sizeof fwts_acpi_table_asf_alrt_element)
                      (Failed LOG_LEVEL_HIGH ''ASF!AlrtArrayElementLengthInvalid'') in
                if n < 1 \<or> n > 8 then Some (fails LOG_LEVEL_HIGH ''ASF!AlrtNumOfAlertsInvalid'', False)
                else if sizeof fwts_acpi_table_asf_alrt + n * sizeof fwts_acpi_table_asf_alrt_element > record_length
                then Some (size_rs @ fails LOG_LEVEL_HIGH ''ASF!AlrtArrayElementLengthInvalid'', True)
                else do { elements \<leftarrow> structs t (off + sizeof fwts_acpi_table_asf_alrt) fwts_acpi_table_asf_alrt_element n;
                          Some (record_verdict (size_rs @ concat (map (\<lambda>element.
                              fault_if (element ''event_offset'' AND 0x80 \<noteq> 0)
                                (Failed LOG_LEVEL_HIGH ''ASF!AlrtEventOffsetBit7Set'')) elements)), False) } })"

definition asf_check_rctl :: asf_check where
  "asf_check_rctl t record_length len off =
     (if len < sizeof fwts_acpi_table_asf_rctl then Some (fails LOG_LEVEL_HIGH ''ASF!RctlRecordTooShort'', True)
      else do { rctl \<leftarrow> view t off fwts_acpi_table_asf_rctl;
                let n = unat (rctl ''number_of_controls'');
                    size_rs = fault_if (unat (rctl ''array_element_length'') \<noteq> sizeof fwts_acpi_table_asf_rctl_element)
                      (Failed LOG_LEVEL_HIGH ''ASF!RctlArrayElementLengthInvalid'') in
                if sizeof fwts_acpi_table_asf_rctl + n * sizeof fwts_acpi_table_asf_rctl_element > record_length
                then Some (size_rs @ fails LOG_LEVEL_HIGH ''ASF!RctlArrayElementLengthInvalid'', True)
                else do { elements \<leftarrow> structs t (off + sizeof fwts_acpi_table_asf_rctl) fwts_acpi_table_asf_rctl_element n;
                          Some (record_verdict (size_rs @ concat (map (\<lambda>element.
                              fault_if (element ''control_function'' > 3)
                                (Failed LOG_LEVEL_HIGH ''ASF!RctlCtrlFuncInvalid'')) elements)), False) } })"

definition asf_check_rmcp :: asf_check where
  "asf_check_rmcp t record_length len off =
     (if len < sizeof fwts_acpi_table_asf_rmcp then Some (fails LOG_LEVEL_HIGH ''ASF!RmcpRecordTooShort'', True)
      else do { rmcp \<leftarrow> view t off fwts_acpi_table_asf_rmcp;
                Some (record_verdict
                  (fault_if (rmcp ''iana'' = 0x4542 \<and> rmcp ''special_command'' > 5 \<and> rmcp ''special_command'' < 0xc0)
                     (Failed LOG_LEVEL_HIGH ''ASF!RmcpSpecialCommandInvalid'')), False) })"

definition asf_check_addr :: asf_check where
  "asf_check_addr t record_length len off =
     (if len < sizeof fwts_acpi_table_asf_addr then Some (fails LOG_LEVEL_HIGH ''ASF!AddrRecordTooShort'', True)
      else do { addr \<leftarrow> view t off fwts_acpi_table_asf_addr;
                let n = unat (addr ''number_of_devices'') in
                if sizeof fwts_acpi_table_asf_addr + n * sizeof fwts_acpi_table_asf_addr_element > record_length
                then Some (fails LOG_LEVEL_HIGH ''ASF!AddrArrayElementLengthInvalid'', True)
                else do { elements \<leftarrow> structs t (off + sizeof fwts_acpi_table_asf_addr) fwts_acpi_table_asf_addr_element n;
                          Some (record_verdict [], False) } })"

definition asf_checks :: "u64 \<Rightarrow> asf_check option" where
  "asf_checks ty =
     (if ty = 0 \<or> ty = 0x80 then Some asf_check_info
      else if ty = 1 \<or> ty = 0x81 then Some asf_check_alrt
      else if ty = 2 \<or> ty = 0x82 then Some asf_check_rctl
      else if ty = 3 \<or> ty = 0x83 then Some asf_check_rmcp
      else if ty = 4 \<or> ty = 0x84 then Some asf_check_addr
      else None)"

definition asf_record :: "bytes \<Rightarrow> nat \<times> nat \<Rightarrow> (act list \<times> (nat \<times> nat) advance) option" where
  "asf_record t pos =
     (case pos of (len, off) \<Rightarrow>
        let header = sizeof fwts_acpi_table_asf_header in
        if len < header then Some (fails LOG_LEVEL_HIGH ''ASF!TooShort'', Leave pos)
        else do { asf_hdr \<leftarrow> view t off fwts_acpi_table_asf_header;
                  let n = unat (asf_hdr ''length'');
                      rs = reserved_zero ''ASF!'' ''Information Record Reserved'' (asf_hdr ''reserved'') in
                  if n > len then Some (rs @ fails LOG_LEVEL_HIGH ''ASF!InfoRecordLengthTooLong'', Leave pos)
                  else case asf_checks (asf_hdr ''type'') of
                      None \<Rightarrow> Some (rs @ fails LOG_LEVEL_HIGH ''ASF!InvalidType'', Leave pos)
                    | Some check \<Rightarrow>
                        do { (rs', abort) \<leftarrow> check t n (len - header) (off + header);
                             let next = (len - n, off + n) in
                             Some (rs @ rs', if abort then Leave next else Goto next) } })"

text \<open>The fuel is an argument here, because the test may not end: a record may have the length 0.\<close>

definition asf_test1 :: "nat \<Rightarrow> table_test" where
  "asf_test1 fuel t =
     do { len \<leftarrow> header_field t ''length'';
          r \<leftarrow> scan fuel (\<lambda>(len, off). len > 0) (asf_record t)
                 (unat len - sizeof fwts_acpi_table_header, sizeof fwts_acpi_table_header);
          Some (after_scan [] r) }"

section \<open>IORT\<close>

text \<open>
  Nodes with arrays at offsets of their own. An array is walked until an element would end behind the node.
\<close>

definition iort_node_check :: "members \<Rightarrow> bool \<Rightarrow> bool \<Rightarrow> act list" where
  "iort_node_check node no_id_mappings no_id_array =
     (let ty = node ''iort_node.type'';
          newest = (if ty = 1 \<or> ty = 2 then 4 else if ty = 3 \<or> ty = 6 then 3 else if ty = 5 then 2
                    else if ty = 4 then 5 else 1) in
      fault_if (node ''iort_node.revision'' > newest) (Failed LOG_LEVEL_LOW ''IORTNodeRevisionInvalid'') @
      fault_if (no_id_mappings \<and> node ''iort_node.id_mappings_count'' \<noteq> 0)
        (Failed LOG_LEVEL_LOW ''IORTNodeMappingsCountNonZero'') @
      fault_if (no_id_array \<and> node ''iort_node.id_array_offset'' \<noteq> 0)
        (Failed LOG_LEVEL_LOW ''IORTNodeRefToIdArrayNonZero''))"

definition iort_element ::
    "bytes \<Rightarrow> nat \<Rightarrow> nat \<Rightarrow> layout \<Rightarrow> cstr \<Rightarrow> (members \<Rightarrow> act list) \<Rightarrow> nat \<Rightarrow> (act list \<times> nat advance) option" where
  "iort_element t start node_end l label check i =
     (let off = start + i * sizeof l in
      if off + sizeof l > node_end then Some (fails LOG_LEVEL_HIGH label, Leave i)
      else do { m \<leftarrow> view t off l; Some (check m, Goto (i + 1)) })"

definition iort_array ::
    "bytes \<Rightarrow> nat \<Rightarrow> nat \<Rightarrow> layout \<Rightarrow> cstr \<Rightarrow> (members \<Rightarrow> act list) \<Rightarrow> nat \<Rightarrow> act list option" where
  "iort_array t start node_end l label check n =
     map_option fst (scan (Suc n) (\<lambda>i. i < n) (iort_element t start node_end l label check) 0)"

definition iort_id_mappings_check :: "bytes \<Rightarrow> nat \<Rightarrow> nat \<Rightarrow> members \<Rightarrow> act list option" where
  "iort_id_mappings_check t off node_end node =
     iort_array t (off + unat (node ''iort_node.id_array_offset'')) node_end fwts_acpi_table_iort_id_mapping
       ''IORTIdMappingOutsideTable''
       (\<lambda>id_mapping. reserved_bits ''IORT'' ''ID Mapping flags'' (id_mapping ''flags'') 1 31)
       (unat (node ''iort_node.id_mappings_count''))"

definition iort_smmu_interrupt_flags_check :: "cstr \<Rightarrow> u64 \<Rightarrow> act list" where
  "iort_smmu_interrupt_flags_check name v = reserved_bits ''IORT'' name v 1 31"

definition iort_smmu_interrupt_check :: "bytes \<Rightarrow> nat \<Rightarrow> nat \<Rightarrow> u64 \<Rightarrow> u64 \<Rightarrow> act list option" where
  "iort_smmu_interrupt_check t off node_end offset n =
     iort_array t (off + unat offset) node_end fwts_acpi_table_iort_smmu_interrupt ''IORTSmmuInterruptsOutsideTable''
       (\<lambda>intr. iort_smmu_interrupt_flags_check ''SMMU_GSV'' (intr ''flags'')) (unat n)"

definition iort_smmu_global_interrupt_check :: "bytes \<Rightarrow> nat \<Rightarrow> nat \<Rightarrow> u64 \<Rightarrow> act list option" where
  "iort_smmu_global_interrupt_check t off node_end offset =
     (let start = off + unat offset in
      if start + sizeof fwts_acpi_table_iort_smmu_global_interrupt_array > node_end
      then Some (fails LOG_LEVEL_HIGH ''IORTSmmuGlobalInterruptsOutsideTable'')
      else do { intr \<leftarrow> view t start fwts_acpi_table_iort_smmu_global_interrupt_array;
                Some (iort_smmu_interrupt_flags_check ''SMMU_NsgIrpt'' (intr ''smmu_nsgirpt_flags'') @
                      iort_smmu_interrupt_flags_check ''SMMU_NsgCfgIrpt'' (intr ''smmu_nsgcfgirpt_flags'')) })"

definition iort_check_its_group :: "bytes \<Rightarrow> nat \<Rightarrow> nat \<Rightarrow> act list option" where
  "iort_check_its_group t off node_end =
     do { node \<leftarrow> view t off fwts_acpi_table_iort_its_group_node;
          let ids = off + offsetof fwts_acpi_table_iort_its_group_node ''identifier_array'';
          let n = 4 * unat (node ''its_count'');
          rs \<leftarrow> (if n + ids > node_end then Some (fails LOG_LEVEL_HIGH ''IORTItsIdArrayOutsideTable'')
                 else do { _ \<leftarrow> has_bytes t ids n; Some [] });
          Some (rs @ iort_node_check node True True) }"

definition iort_memory_access_properties_check :: "members \<Rightarrow> act list" where
  "iort_memory_access_properties_check node =
     (let cache_coherent = node ''properties.cache_coherent''; memory_access_flags = node ''properties.memory_access_flags'';
          cca = cache_coherent AND 1; cpm = memory_access_flags AND 1; dacs = drop_bit 1 memory_access_flags AND 1 in
      fault_if (cache_coherent > 1) (Failed LOG_LEVEL_HIGH ''IORTCacheCoherentAttrInvalid'') @
      reserved_bits ''IORT'' ''Allocation Hints'' (node ''properties.allocation_hints'') 4 7 @
      reserved_zero ''IORT'' ''Reserved'' (node ''properties.reserved'') @
      reserved_bits ''IORT'' ''Memory Access Flags'' memory_access_flags 3 7 @
      fault_if (cca = 1 \<and> cpm = 0) (Failed LOG_LEVEL_HIGH ''IORTMemAttrInvalid'') @
      fault_if (cca = 0 \<and> cpm = 1 \<and> dacs = 1) (Failed LOG_LEVEL_HIGH ''IORTMemAttrInvalid''))"

text \<open>
  The name of a named component: every byte is read before its place is compared with the end of the node.
\<close>

definition iort_name_char :: "bytes \<Rightarrow> nat \<Rightarrow> nat \<Rightarrow> (act list \<times> nat advance) option" where
  "iort_name_char t node_end p =
     do { c \<leftarrow> byte_in t p;
          Some (if c = 0 then ([], Leave p)
                else if p > node_end then (fails LOG_LEVEL_HIGH ''IORTBadNamedComponentDeviceObjectName'', Leave p)
                else ([], Goto (p + 1))) }"

definition iort_check_named_component :: "bytes \<Rightarrow> nat \<Rightarrow> nat \<Rightarrow> act list option" where
  "iort_check_named_component t off node_end =
     do { node \<leftarrow> view t off fwts_acpi_table_iort_named_component_node;
          (name_rs, _) \<leftarrow> scan (Suc (length t)) (\<lambda>p. True) (iort_name_char t node_end)
             (off + offsetof fwts_acpi_table_iort_named_component_node ''device_object_name'');
          rs \<leftarrow> iort_id_mappings_check t off node_end node;
          Some (name_rs @ iort_node_check node False False @
                fault_if (node ''flags'' \<noteq> 0) (Failed LOG_LEVEL_HIGH ''IORTNamedComponentNodeFlagsNonZero'') @
                iort_memory_access_properties_check node @ rs) }"

definition iort_check_pci_root_complex :: "bytes \<Rightarrow> nat \<Rightarrow> nat \<Rightarrow> act list option" where
  "iort_check_pci_root_complex t off node_end =
     do { node \<leftarrow> view t off fwts_acpi_table_iort_pci_root_complex_node;
          rs \<leftarrow> iort_id_mappings_check t off node_end node;
          Some (iort_node_check node False False @ iort_memory_access_properties_check node @
                reserved_bits ''IORT'' ''ATS Attribute'' (node ''ats_attribute'') 3 31 @
                reserved_bits ''IORT'' ''PASID capabilities'' (node ''pasid_cap'') 5 15 @
                reserved_zero ''IORT'' ''Reserved'' (node ''reserved'') @
                fault_if (node ''flags'' > 1) (Failed LOG_LEVEL_HIGH ''IORTPCIRootComplexNodeFlagsInvalid'') @ rs) }"

definition iort_check_smmu :: "bytes \<Rightarrow> nat \<Rightarrow> nat \<Rightarrow> act list option" where
  "iort_check_smmu t off node_end =
     do { node \<leftarrow> view t off fwts_acpi_table_iort_smmu_node;
          global \<leftarrow> iort_smmu_global_interrupt_check t off node_end (node ''global_interrupt_array_offset'');
          context_rs \<leftarrow> iort_smmu_interrupt_check t off node_end
             (node ''context_interrupt_array_offset'') (node ''context_interrupt_count'');
          pmu \<leftarrow> iort_smmu_interrupt_check t off node_end
             (node ''pmu_interrupt_array_offset'') (node ''pmu_interrupt_count'');
          rs \<leftarrow> iort_id_mappings_check t off node_end node;
          Some (iort_node_check node False False @ global @ context_rs @ pmu @ rs @
                fault_if (node ''model'' > 5) (Failed LOG_LEVEL_HIGH ''IORTSmmuInvalidModel'') @
                reserved_bits ''IORT'' ''SMMU Reserved Flags'' (node ''flags'') 2 31) }"

definition iort_check_smmuv3 :: "bytes \<Rightarrow> nat \<Rightarrow> nat \<Rightarrow> act list option" where
  "iort_check_smmuv3 t off node_end =
     do { node \<leftarrow> view t off fwts_acpi_table_iort_smmuv3_node;
          rs \<leftarrow> iort_id_mappings_check t off node_end node;
          Some (iort_node_check node False False @ rs @
                reserved_bits ''IORT'' ''SMMUv3 Reserved Flags'' (node ''flags'') 5 31 @
                reserved_zero ''IORT'' ''Reserved'' (node ''reserved'') @
                fault_if (node ''model'' > 2) (Failed LOG_LEVEL_HIGH ''IORTSmmuv3InvalidModel'')) }"

definition iort_check_pmcg :: "bytes \<Rightarrow> nat \<Rightarrow> nat \<Rightarrow> act list option" where
  "iort_check_pmcg t off node_end =
     do { node \<leftarrow> view t off fwts_acpi_table_iort_pmcg_node;
          rs \<leftarrow> iort_id_mappings_check t off node_end node;
          Some (iort_node_check node False False @ rs) }"

definition iort_check_rmr :: "bytes \<Rightarrow> nat \<Rightarrow> nat \<Rightarrow> act list option" where
  "iort_check_rmr t off node_end =
     do { node \<leftarrow> view t off fwts_acpi_table_iort_rmr_node;
          rs \<leftarrow> iort_id_mappings_check t off node_end node;
          descriptors \<leftarrow> iort_array t (off + unat (node ''mem_rng_des_offset'')) node_end
             fwts_acpi_table_iort_mem_rng_des ''IORTMemRangeDescriptorOutsideTable''
             (\<lambda>descriptor. reserved_zero ''IORT'' ''Reserved'' (descriptor ''reserved''))
             (unat (node ''num_mem_rng_des''));
          Some (iort_node_check node False False @ rs @
                reserved_bits ''IORT'' ''RMR Reserved Flags'' (node ''flags'') 10 31 @ descriptors) }"

definition iort_checks :: "(bytes \<Rightarrow> nat \<Rightarrow> nat \<Rightarrow> act list option) list" where
  "iort_checks =
     [iort_check_its_group, iort_check_named_component, iort_check_pci_root_complex, iort_check_smmu,
      iort_check_smmuv3, iort_check_pmcg, iort_check_rmr]"

text \<open>
  A node of another type moves the pointer to the end of the table and then on by the length of the node, so
  that the next round, if there is one, reads outside.
\<close>

definition iort_node :: "bytes \<Rightarrow> nat \<times> nat \<Rightarrow> (act list \<times> (nat \<times> nat) advance) option" where
  "iort_node t pos =
     (case pos of (i, off) \<Rightarrow>
        do { node \<leftarrow> view t off (up_to ''length'' fwts_acpi_table_iort_node);
             let len = unat (node ''length''); ty = unat (node ''type'') in
             if off + len > length t then Some (fails LOG_LEVEL_HIGH ''IORTTooShort'', Leave pos)
             else if ty < length iort_checks
             then do { rs \<leftarrow> (iort_checks ! ty) t off (off + len); Some (rs, Goto (i + 1, off + len)) }
             else Some (fails LOG_LEVEL_HIGH ''IORTInvalidType'', Goto (i + 1, length t + len)) })"

definition iort_test1 :: table_test where
  "iort_test1 t =
     do { len \<leftarrow> header_field t ''length'';
          if length t < unat len then Some [Failed LOG_LEVEL_HIGH ''IORTTooShort'']
          else if length t < sizeof fwts_acpi_table_iort then Some [Failed LOG_LEVEL_HIGH ''IORTTooShort'']
          else do {
            iort \<leftarrow> view t 0 fwts_acpi_table_iort;
            let n = unat (iort ''io_rt_nodes_count'');
            r \<leftarrow> scan (Suc n) (\<lambda>(i, off). i < n) (iort_node t) (0, unat (iort ''io_rt_offset''));
            Some (after_scan (reserved_zero ''IORT'' ''Reserved'' (iort ''reserved'')) r) } }"

end
