(* ===== verification/Fwts_Structure_Verdicts.thy ===== *)
theory Fwts_Structure_Verdicts
  imports Fwts_Table_Verdicts Fwts_Structure_Tables Fwts_Source_Tables
begin

text \<open>
  The verdicts of the tests of tables with structures, and the list of all tests that keep one verdict.
\<close>

section \<open>SRAT and PCCT\<close>

lemma fair_structure_length:
  assumes "whenever k Q" and "\<And>acts. clean acts \<Longrightarrow> Q acts"
  shows "whenever (case fwts_acpi_structure_length table ty len n of [] \<Rightarrow> k | r # rs \<Rightarrow> Some (unpass (r # rs))) Q"
  using assms clean_failed(2) [of table ty len n] by (auto split: list.split)

lemma clean_srat_structure:
  assumes "\<And>affinity. whenever (checks affinity) clean"
  shows "whenever (srat_structure label l checks t len off) clean"
  by (auto simp: srat_structure_def intro!: whenever_reads fair_structure_length assms)

lemma clean_srat_handle: "whenever (srat_device_handle t off ty) clean"
  by (auto simp: srat_device_handle_def intro!: whenever_reads)

lemma clean_srat_generic: "whenever (srat_generic_affinity l t off affinity) clean"
  by (auto simp: srat_generic_affinity_def intro!: whenever_mono [OF clean_srat_handle])

lemma clean_srat_checks: "(check, l) \<in> set srat_checks \<Longrightarrow> whenever (check t len off) clean"
  by (auto simp: srat_checks_def srat_check_local_apic_sapic_affinity_def srat_check_memory_affinity_def
      srat_check_local_x2apic_affinity_def srat_check_gicc_affinity_def srat_check_its_affinity_def
      srat_check_initiator_affinity_def srat_check_port_affinity_def srat_check_rintc_affinity_def
      intro!: clean_srat_structure clean_srat_generic)

lemma clean_srat_nth: "n < length srat_checks \<Longrightarrow> srat_checks ! n = (check, l) \<Longrightarrow> whenever (check t len off) clean"
  using clean_srat_checks [of check l t len off] nth_mem [of n srat_checks] by simp

lemma fair_srat_affinity: "fair_body (srat_affinity t)"
  by (auto simp: srat_affinity_def split: prod.split intro!: whenever_reads fair_bodyI clean_srat_nth)

lemma fair_srat_test1: "fair_test srat_test1"
  by (auto simp: fair_test_def srat_test1_def intro!: whenever_reads fair_after_scan fair_srat_affinity)

lemma clean_pcct_checks [simp]:
  "clean (gas_messages entry reg)" "clean (gas_messages2 entry reg)"
  "clean (memory_length ty mem_range least)" "clean (generic_comm_test entry)" "clean (pcct_interrupt_flags entry)"
  "clean (hw_reduced_comm_test_type1 entry)" "clean (hw_reduced_comm_test_type2 entry)"
  "clean (extended_pcc_test entry)" "clean (hw_registers_based_comm_test entry)"
  by (simp_all add: gas_messages_def gas_messages2_def memory_length_def generic_comm_test_def
      pcct_interrupt_flags_def hw_reduced_comm_test_type1_def hw_reduced_comm_test_type2_def extended_pcc_test_def
      hw_registers_based_comm_test_def)

lemma clean_subspace_length: "subspace_length_equal n len = r # rs \<Longrightarrow> clean (unpass (r # rs))"
  by (metis check_failures(1) clean_unpass list.discI subspace_length_equal_def)

lemma fair_pcct_subspace: "fair_body (pcct_subspace table_flags t)"
  by (auto simp: pcct_subspace_def Let_def clean_subspace_length split: list.split intro!: whenever_reads fair_bodyI)

lemma fair_pcct_test1: "fair_test pcct_test1"
  by (auto simp: fair_test_def pcct_test1_def intro!: whenever_reads fair_records fair_pcct_subspace)

section \<open>NFIT and iBFT\<close>

definition clean_result :: "act list \<times> u64 option \<Rightarrow> bool" where
  "clean_result r \<longleftrightarrow> clean (fst r)"

lemma clean_nfit_sized: "whenever k clean_result \<Longrightarrow> whenever (nfit_sized len n k) clean_result"
  by (auto simp: nfit_sized_def nfit_check_length_def fail_if_def clean_result_def)

lemma nfit_entry_failures: "whenever (nfit_smbios_entry t i) (\<lambda>r. list_all is_failed (fst r))"
  by (auto simp: nfit_smbios_entry_def Let_def split: prod.split
      intro!: whenever_reads wheneverI [where m = "nfit_strings t off n" for t off n])

lemma nfit_smbios_failures: "whenever (scan_nfit_smbios t off len) (list_all is_failed)"
  by (auto simp: scan_nfit_smbios_def split: option.split
      intro!: whenever_mono [OF scan_holds [where P = "list_all is_failed", OF _ _ nfit_entry_failures]])

lemma clean_nfit_structure: "whenever (nfit_structure version t off ty len) clean_result"
  unfolding nfit_structure_def nfit_system_address_def nfit_memory_map_def nfit_interleave_def nfit_smbios_def
    nfit_control_region_def nfit_data_region_def nfit_flush_address_def nfit_platform_capability_def
  by (auto simp: Let_def clean_result_def split: if_splits
      intro!: clean_nfit_sized whenever_reads whenever_mono [OF nfit_smbios_failures])

lemma fair_nfit_record: "fair_body (nfit_record version t)"
  by (auto simp: nfit_record_def clean_result_def split: prod.split option.split
      intro!: fair_body_intros whenever_mono [OF clean_nfit_structure])

lemma fair_nfit_test1: "fair_test (nfit_test1 version)"
  by (auto simp: fair_test_def nfit_test1_def intro!: whenever_reads fair_records fair_nfit_record)

lemma clean_ibft_structure:
  "(\<And>m. clean (checks m)) \<Longrightarrow> whenever (ibft_structure t off f l checks) clean"
  by (auto simp: ibft_structure_def intro!: whenever_reads)

lemma clean_ibft_checks:
  "whenever (ibfg_extensions_check t off) clean" "whenever (ibfg_initiator_check t off) clean"
  "whenever (ibfg_nic_check t off) clean" "whenever (ibfg_target_check t off) clean"
  by (auto simp: ibfg_extensions_check_def ibfg_initiator_check_def ibfg_nic_check_def ibfg_target_check_def
      ibft_in_table_def intro!: clean_ibft_structure)

lemma fair_ibfg_test1: "fair_test ibfg_test1"
  by (auto simp: fair_test_def ibfg_test1_def Let_def
      intro!: whenever_reads whenever_mono [OF clean_ibft_checks(1)] whenever_mono [OF clean_ibft_checks(2)]
        whenever_mono [OF clean_ibft_checks(3)] whenever_mono [OF clean_ibft_checks(4)])

section \<open>IORT\<close>

lemma clean_iort_element: "(\<And>m. clean (check m)) \<Longrightarrow> clean_body (iort_element t start node_end l label check)"
  by (auto simp: iort_element_def Let_def intro!: whenever_reads clean_bodyI)

lemma clean_iort_array: "(\<And>m. clean (check m)) \<Longrightarrow> whenever (iort_array t start node_end l label check n) clean"
  by (auto simp: iort_array_def intro!: whenever_mono [OF clean_scan [OF clean_iort_element]])

lemma clean_iort_name: "clean_body (iort_name_char t node_end)"
  by (auto simp: iort_name_char_def intro!: whenever_reads clean_bodyI)

lemma clean_iort_parts:
  "whenever (iort_id_mappings_check t off node_end node) clean"
  "whenever (iort_smmu_interrupt_check t off node_end offset n) clean"
  "whenever (iort_smmu_global_interrupt_check t off node_end offset) clean"
  "clean (iort_node_check node a b)" "clean (iort_memory_access_properties_check node)"
  by (auto simp: iort_id_mappings_check_def iort_smmu_interrupt_check_def iort_smmu_global_interrupt_check_def
      iort_smmu_interrupt_flags_check_def iort_node_check_def iort_memory_access_properties_check_def Let_def
      intro!: whenever_reads clean_iort_array)

lemma clean_iort_checks: "check \<in> set iort_checks \<Longrightarrow> whenever (check t off node_end) clean"
  by (auto simp: iort_checks_def iort_check_its_group_def iort_check_named_component_def iort_check_pci_root_complex_def
      iort_check_smmu_def iort_check_smmuv3_def iort_check_pmcg_def iort_check_rmr_def Let_def clean_iort_parts(4,5)
      intro!: whenever_reads clean_scan_case clean_iort_name whenever_mono [OF clean_iort_parts(1)]
        whenever_mono [OF clean_iort_parts(2)] whenever_mono [OF clean_iort_parts(3)]
        whenever_mono [OF clean_iort_array])

lemma fair_iort_node: "fair_body (iort_node t)"
  by (auto simp: iort_node_def Let_def split: prod.split
      intro!: whenever_reads fair_bodyI whenever_mono [OF clean_iort_checks])

lemma fair_iort_test1: "fair_test iort_test1"
  by (auto simp: fair_test_def iort_test1_def Let_def intro!: whenever_reads fair_after_scan fair_iort_node)

section \<open>All of them\<close>

text \<open>
  The tests that keep one verdict. The arguments are what the tests of FACS, STAO, XSDT, FPDT, NFIT and HMAT
  know besides their table, and the fuel of the loops that may go on for ever.
\<close>

definition fair_tests ::
    "bool \<Rightarrow> u64 \<Rightarrow> (u64 \<Rightarrow> bool) \<Rightarrow> (cstr \<Rightarrow> bool) \<Rightarrow> bool \<Rightarrow> u32 \<Rightarrow> nat \<Rightarrow> (cstr \<times> table_test) list" where
  "fair_tests from_firmware addr is_reserved obj_find sbbr version fuel =
     [(''dppt'', dppt_test1), (''sdei'', sdei_test1), (''rasf'', rasf_test1), (''bgrt'', bgrt_test1),
      (''wsmt'', wsmt_test1), (''ccel'', ccel_test1), (''waet'', waet_test1), (''sbst'', sbst_test1),
      (''wpbt'', wpbt_test1), (''rgrt'', rgrt_test1), (''boot'', boot_test1), (''tpm2'', tpm2_test1),
      (''dbgp'', dbgp_test1), (''spmi'', spmi_test1), (''mchi'', mchi_test1), (''spcr'', spcr_test1),
      (''tcpa'', tcpa_test1), (''uefi'', uefi_test1), (''msdm'', msdm_test1),
      (''facs'', facs_test1 from_firmware addr is_reserved), (''stao'', stao_test1 obj_find),
      (''skvl'', skvl_test1), (''ras2'', ras2_test1), (''pdtt'', pdtt_test1), (''svkl'', svkl_test1),
      (''rsdt'', rsdt_test1), (''xsdt'', xsdt_test1 sbbr), (''cpep'', cpep_test1), (''msct'', msct_test1),
      (''erst'', erst_test1), (''einj'', einj_test1), (''drtm'', drtm_test1), (''mpst'', mpst_test1),
      (''viot'', viot_test1), (''aspt'', aspt_test1), (''lpit'', lpit_test1), (''gtdt'', gtdt_test1),
      (''apmt'', apmt_test1), (''sdev'', sdev_test1), (''cedt'', cedt_test1), (''hmat'', hmat_test1 fuel version),
      (''pptt'', pptt_test1), (''phat'', phat_test1), (''pmtt'', pmtt_test1), (''ivrs'', ivrs_test1 fuel),
      (''csrt'', csrt_test1), (''slic'', slic_test1), (''fpdt'', fpdt_test1 version), (''aest'', aest_test1),
      (''mpam'', mpam_test1), (''srat'', srat_test1), (''pcct'', pcct_test1),
      (''nfit'', nfit_test1 version), (''ibft'', ibfg_test1), (''iort'', iort_test1)]"

lemmas fair_table_tests =
  fair_dppt_test1 fair_sdei_test1 fair_rasf_test1 fair_bgrt_test1 fair_wsmt_test1 fair_ccel_test1 fair_waet_test1
  fair_sbst_test1 fair_wpbt_test1 fair_rgrt_test1 fair_boot_test1 fair_tpm2_test1 fair_dbgp_test1 fair_spmi_test1
  fair_mchi_test1 fair_spcr_test1 fair_tcpa_test1 fair_uefi_test1 fair_msdm_test1 fair_facs_test1 fair_stao_test1
  fair_skvl_test1 fair_ras2_test1 fair_pdtt_test1 fair_svkl_test1 fair_rsdt_test1 fair_xsdt_test1 fair_cpep_test1
  fair_msct_test1 fair_erst_test1 fair_einj_test1 fair_drtm_test1 fair_mpst_test1 fair_viot_test1 fair_aspt_test1
  fair_lpit_test1 fair_gtdt_test1 fair_apmt_test1 fair_sdev_test1 fair_cedt_test1 fair_hmat_test1 fair_pptt_test1
  fair_phat_test1 fair_pmtt_test1 fair_ivrs_test1 fair_csrt_test1 fair_slic_test1 fair_fpdt_test1 fair_aest_test1
  fair_mpam_test1 fair_srat_test1 fair_pcct_test1 fair_nfit_test1 fair_ibfg_test1 fair_iort_test1

lemma fair_tests_fair:
  "list_all (\<lambda>(name, f). fair_test f) (fair_tests from_firmware addr is_reserved obj_find sbbr version fuel)"
  by (simp add: fair_tests_def fair_table_tests)

end
