(* ===== verification/Fwts_Structure_Runs.thy ===== *)
theory Fwts_Structure_Runs
  imports Fwts_Table_Runs Fwts_Structure_Verdicts
begin

text \<open>
  When the tests of tables with structures return: their loops end, except that of ASF!, and the test of
  SRAT stays inside every table that has its struct.
\<close>

section \<open>Loops end\<close>

lemma nfit_length: "view t off fwts_acpi_table_nfit_struct_header = Some hdr \<Longrightarrow> unat (hdr ''length'') < 2 ^ 16"
  using member_bound16 [of fwts_acpi_table_nfit_struct_header "''length''" t off]
  by (auto dest!: view_SomeD simp: layouts)

interpretation nfit: table_scan "length t < 2 ^ 31" "\<lambda>off. length t - off" "\<lambda>off. off < length t" "nfit_record version t" for t version
  by unfold_locales
    (auto simp: nfit_record_def round_simps split: if_splits option.splits dest!: to_next_Goto
      intro!: diff_less_mono2 advances dest: nfit_length)

lemma subspace_length: "subspace_length_equal n len = [] \<longleftrightarrow> unat len = n mod 256"
  by (auto simp: subspace_length_equal_def fail_if_def)

lemma pcct_sizes:
  "sizeof fwts_acpi_table_pcct_subspace_type_0 = 62" "sizeof fwts_acpi_table_pcct_subspace_type_1 = 62"
  "sizeof fwts_acpi_table_pcct_subspace_type_2 = 90" "sizeof fwts_acpi_table_pcct_subspace_type_3_4 = 164"
  "sizeof fwts_acpi_table_pcct_subspace_type_5 = 96"
  by (simp_all add: sizeof_def layouts Fwts_Acpi.nest_def)

interpretation pcct: table_scan True "\<lambda>off. length t - off" "\<lambda>off. off < length t" "pcct_subspace table_flags t" for t table_flags
  by unfold_locales
    (auto simp: pcct_subspace_def round_simps subspace_length pcct_sizes split: if_splits list.splits)

lemma srat_sizes: "list_all (\<lambda>(check, l). 0 < sizeof l) srat_checks"
  by (simp add: srat_checks_def sizeof_def layouts Fwts_Acpi.nest_def)

lemma srat_size: "n < length srat_checks \<Longrightarrow> srat_checks ! n = (check, l) \<Longrightarrow> 0 < sizeof l"
  using srat_sizes nth_mem [of n srat_checks] by (auto simp: list_all_iff)

interpretation srat: table_scan True "\<lambda>(len, off). len" "\<lambda>(len, off). len > 0" "srat_affinity t" for t
  by unfold_locales (auto simp: srat_affinity_def round_simps split: if_splits prod.splits dest: srat_size)

lemma hest_left:
  "hest_sized label l checks t len off = Some (rs, len', off') \<Longrightarrow> 0 < len \<Longrightarrow> 0 < sizeof l \<Longrightarrow> len' < len"
  "hest_with_banks label l checks t len off = Some (rs, len', off') \<Longrightarrow> 0 < len \<Longrightarrow> 0 < sizeof l \<Longrightarrow> len' < len"
  by (auto simp: hest_sized_def hest_with_banks_def round_simps split: if_splits)

lemma hest_sizes:
  "0 < sizeof fwts_acpi_table_hest_ia32_machine_check_exception"
  "0 < sizeof fwts_acpi_table_hest_ia32_corrected_machine_check"
  "0 < sizeof fwts_acpi_table_hest_nmi_error" "0 < sizeof fwts_acpi_table_hest_pci_express_root_port_aer"
  "0 < sizeof fwts_acpi_table_hest_pci_express_device_aer" "0 < sizeof fwts_acpi_table_hest_pci_express_bridge_aer"
  "0 < sizeof fwts_acpi_table_hest_generic_hardware_error_source"
  "0 < sizeof fwts_acpi_table_hest_generic_hardware_error_source_v2"
  by (simp_all add: sizeof_def layouts Fwts_Acpi.nest_def)

lemmas hest_check_defs =
  hest_check_ia32_arch_machine_check_exception_def hest_check_ia32_arch_corrected_machine_check_def
  hest_check_acpi_table_hest_nmi_error_def hest_check_pci_express_root_port_aer_def
  hest_check_pci_express_device_aer_def hest_heck_pci_express_bridge_aer_def hest_check_generic_error_source_def
  hest_check_generic_error_source_v2_def

lemma hest_checks_left:
  "hest_checks ty = Some check \<Longrightarrow> check t len off = Some (rs, len', off') \<Longrightarrow> 0 < len \<Longrightarrow> len' < len"
  by (auto simp: hest_checks_def hest_check_defs hest_sizes split: if_splits dest!: hest_left)

interpretation hest: table_scan True "\<lambda>(len, off, types). len" "\<lambda>(len, off, types). len > 0" "hest_structure t" for t
  by unfold_locales (auto simp: hest_structure_def round_simps split: option.splits prod.splits dest: hest_checks_left)

interpretation iort: table_scan True "\<lambda>(i, off). n - i" "\<lambda>(i, off). i < n" "iort_node t" for t n
  by unfold_locales (auto simp: iort_node_def round_simps split: if_splits)

interpretation iort_elements: table_scan True "\<lambda>i. n - i" "\<lambda>i. i < n" "iort_element t start node_end l label check"
  for t start node_end l label check n
  by unfold_locales (auto simp: iort_element_def round_simps split: if_splits)

interpretation iort_name: table_scan True "\<lambda>p. length t - p" "\<lambda>p. True" "iort_name_char t node_end" for t node_end
  by unfold_locales (auto simp: iort_name_char_def byte_in_def round_simps split: if_splits)

interpretation dbg2: table_scan True "\<lambda>(i, off). n - i" "\<lambda>(i, off). i < n" "dbg2_info obj_find t" for t obj_find n
  by unfold_locales (auto simp: dbg2_info_def round_simps split: if_splits)

lemma nfit_strings_left: "nfit_strings t off m = Some (off', n) \<Longrightarrow> n \<le> m"
  by (induction t off m rule: nfit_strings.induct) (force simp: bind_eq_Some_conv split: if_splits)+

lemma nfit_entry_left:
  assumes "4 < len" and "nfit_smbios_entry t (off, len) = Some (rs, Goto (off', len'))"
  shows "len' < len"
proof -
  obtain k :: u8 and n where len': "len' = n - 2" and n: "n = len - uint k \<or> 2 < len - uint k \<and> n \<le> len - uint k"
    using assms by (auto simp: nfit_smbios_entry_def round_simps split: if_splits dest!: nfit_strings_left) fastforce+
  have "0 \<le> uint k" by simp
  then show ?thesis using len' n by linarith
qed

interpretation smbios: table_scan True "\<lambda>(off, len). nat len" "\<lambda>(off, len). len > 4" "nfit_smbios_entry t" for t
  by unfold_locales (auto dest: nfit_entry_left)

definition structure_bodies :: "u32 \<Rightarrow> u64 \<Rightarrow> record_body list" where
  "structure_bodies version table_flags = [nfit_record version, pcct_subspace table_flags]"

lemma structures_end:
  assumes "body \<in> set (structure_bodies version table_flags)" and "length t < 2 ^ 31"
  shows "\<not> diverges (\<lambda>off. off < length t) (body t) off"
    and "records t body off = None \<longleftrightarrow> faults (\<lambda>off. off < length t) (body t) off"
  unfolding records_def using assms nfit.ends nfit.no_result_iff pcct.ends pcct.no_result_iff
  by (auto simp: structure_bodies_def)

section \<open>SRAT stays inside\<close>

lemma no_fault:
  assumes "P i" and "\<And>j. P j \<Longrightarrow> inside j \<Longrightarrow> body j \<noteq> None"
    and "\<And>j rs k. P j \<Longrightarrow> inside j \<Longrightarrow> body j = Some (rs, Goto k) \<Longrightarrow> P k"
  shows "\<not> faults inside body i"
proof
  assume "faults inside body i"
  then show False using assms(1) by (induction rule: faults.induct) (use assms(2,3) in auto)
qed

text \<open>The code counts down what is left; with a view that follows it, nothing is read behind the table.\<close>

lemma srat_structure_defined:
  assumes "off + len = length t" and "\<And>affinity. off + sizeof l \<le> length t \<Longrightarrow> checks affinity \<noteq> None"
  shows "srat_structure label l checks t len off \<noteq> None"
  using assms by (auto simp: srat_structure_def view_def split: list.split simp del: not_None_eq)

lemma srat_generic_defined:
  assumes "off + sizeof l \<le> length t" and "l \<in> {fwts_acpi_table_initiator_affinity, fwts_acpi_table_port_affinity}"
  shows "srat_generic_affinity l t off affinity \<noteq> None"
  using assms
  by (auto simp: srat_generic_affinity_def srat_device_handle_def read_le_def read_bytes_def offsetof_def sizeof_def layouts)

lemma srat_checks_defined:
  assumes "off + len = length t"
  shows "list_all (\<lambda>(check, l). check t len off \<noteq> None) srat_checks"
  unfolding srat_checks_def list.pred_inject prod.case srat_check_local_apic_sapic_affinity_def srat_check_memory_affinity_def
    srat_check_local_x2apic_affinity_def srat_check_gicc_affinity_def srat_check_its_affinity_def
    srat_check_initiator_affinity_def srat_check_port_affinity_def srat_check_rintc_affinity_def
  using assms by (intro conjI TrueI srat_structure_defined srat_generic_defined; simp)

definition srat_inside :: "bytes \<Rightarrow> nat \<times> nat \<Rightarrow> bool" where
  "srat_inside t pos \<longleftrightarrow> (case pos of (len, off) \<Rightarrow> len > 0 \<longrightarrow> off + len = length t)"

lemma srat_stays_inside: "srat_inside t pos \<Longrightarrow> \<not> faults (\<lambda>(len, off). len > 0) (srat_affinity t) pos"
proof (rule no_fault [where P = "srat_inside t"])
  fix pos :: "nat \<times> nat" and rs next_pos
  assume *: "srat_inside t pos" "case pos of (len, off) \<Rightarrow> len > 0"
  obtain len off where pos: "pos = (len, off)" by (cases pos)
  have "check t len off \<noteq> None" if "srat_checks ! n = (check, l)" "n < length srat_checks" for n check l
    using srat_checks_defined [of off len t] * that nth_mem [OF that(2)]
    by (auto simp: pos srat_inside_def list_all_iff simp del: not_None_eq)
  then show "srat_affinity t pos \<noteq> None"
    using * by (fastforce simp: pos srat_affinity_def srat_inside_def byte_in_def split: prod.split)
  show "srat_affinity t pos = Some (rs, Goto next_pos) \<Longrightarrow> srat_inside t next_pos"
    using * by (auto simp: pos srat_affinity_def srat_inside_def round_simps split: if_splits prod.splits)
qed

lemma srat_reads: "srat_test1 t = None \<longleftrightarrow> length t < 40"
proof -
  have size: "sizeof (up_to ''reserved1'' fwts_acpi_table_srat) = 40"
    by (simp add: sizeof_def layouts Fwts_Acpi.nest_def)
  have "srat_inside t (length t - sizeof fwts_acpi_table_srat, sizeof fwts_acpi_table_srat)"
    by (simp add: srat_inside_def)
  then have "scan (Suc (length t)) (\<lambda>(len, off). len > 0) (srat_affinity t)
      (length t - sizeof fwts_acpi_table_srat, sizeof fwts_acpi_table_srat) \<noteq> None"
    using srat_stays_inside by (subst srat.no_result_iff) simp_all
  then show ?thesis using size by (auto simp: srat_test1_def bind_eq_None_conv)
qed

section \<open>ASF! without an end\<close>

text \<open>An ASF! with a record of length 0.\<close>

definition asf_zero :: bytes where
  "asf_zero = [0, 0, 0, 0, 60] @ replicate 31 0 @ [0, 0, 0, 0] @ [0, 2] @ replicate 18 0"

lemma asf_zero_record: "asf_record asf_zero (24, 36) = Some ([Says Passed], Goto (24, 36))"
  by code_simp

lemma asf_zero_diverges: "diverges (\<lambda>(len, off). len > 0) (asf_record asf_zero) (24, 36)"
  using asf_zero_record by (intro diverges_here [where rs = "[Says Passed]"]) simp_all

lemma asf_same:
  assumes "asf_record t (len, off) = Some (acts, Goto next)"
    and "member_at t off fwts_acpi_table_asf_header ''length'' = 0"
  shows "next = (len, off)"
  using assms by (auto simp: asf_record_def round_simps view_def split: if_splits option.splits prod.splits)

lemma asf_hangs: "asf_test1 fuel asf_zero = None"
proof -
  have "header_field asf_zero ''length'' = Some 60" by code_simp
  moreover have "sizeof fwts_acpi_table_header = 36" by (simp add: sizeof_def layouts)
  ultimately show ?thesis using diverges_no_scan [OF asf_zero_diverges, of fuel] by (simp add: asf_test1_def)
qed

end
