(* ===== verification/Fwts_Unfair_Tests.thy ===== *)
theory Fwts_Unfair_Tests
  imports Fwts_Structure_Runs
begin

text \<open>
  Tests of single tables that do not keep one verdict: SLIT and RHCT leave the flag as it is after some of
  their failures, and DBG2 after those of the offsets of a name; NHLT and HEST can end without a report; WDAT
  has two flags.
\<close>

section \<open>Failures that do not clear the flag\<close>

text \<open>The flag is cleared exactly if a failure has a label that is none of these.\<close>

definition clean_but :: "cstr set \<Rightarrow> act list \<Rightarrow> bool" where
  "clean_but K acts \<longleftrightarrow> Passed \<notin> set (said acts) \<and>
     (Unpass \<in> set acts \<longleftrightarrow> (\<exists>l s. Failed l s \<in> set (said acts) \<and> s \<notin> K))"

lemma clean_but_append [simp]: "clean_but K acts \<Longrightarrow> clean_but K acts' \<Longrightarrow> clean_but K (acts @ acts')"
  by (auto simp: clean_but_def said_append)

lemma clean_but_simps [simp]:
  "clean_but K []" "s \<notin> K \<Longrightarrow> clean_but K (fails l s)" "s \<notin> K \<Longrightarrow> clean_but K (fault_if b (Failed l s))"
  "s \<in> K \<Longrightarrow> clean_but K (map (\<lambda>_. Says (Failed l s)) xs)"
  "s \<in> K \<Longrightarrow> clean_but K (map Says (fail_if b (Failed l s)))"
  "s \<notin> K \<Longrightarrow> clean_but K (clears (fail_if b (Failed l s)))"
  "s \<notin> K \<Longrightarrow> clean_but K (unpass [Failed l s])"
  by (auto simp: clean_but_def fails_def fault_if_def clears_def unpass_def fail_if_def said_def)

lemma conclude_but:
  assumes "clean_but K acts"
  shows "Passed \<in> set (conclude acts) \<longleftrightarrow> (\<forall>l s. Failed l s \<in> set (conclude acts) \<longrightarrow> s \<in> K)"
  using assms by (auto simp: clean_but_def conclude_def)

lemma slit_but: "whenever (slit_test1 t) (\<lambda>rs. Passed \<in> set rs \<longleftrightarrow>
    (\<forall>l s. Failed l s \<in> set rs \<longrightarrow> s = ''SLITEntryReserved''))"
proof -
  let ?K = "{''SLITEntryReserved''}"
  have corner: "whenever (slit_corner t n i) (clean_but ?K)" for n i
    by (auto simp: slit_corner_def intro!: whenever_reads)
  have short: "clean_but ?K (unpass (r # rs))" if "fwts_acpi_table_length ''SLIT'' len n = r # rs" for len n r rs
    using that by (auto simp: fwts_acpi_table_length_def fail_if_def acpi_label_def split: if_splits)
  show ?thesis unfolding slit_test1_def
    by (auto simp: Let_def conclude_but [where K = ?K, simplified] short split: list.split
        intro!: whenever_reads whenever_mono [OF corner])
qed

lemma rhct_but: "whenever (rhct_test1 fuel t) (\<lambda>rs. Passed \<in> set rs \<longleftrightarrow>
    (\<forall>l s. Failed l s \<in> set rs \<longrightarrow> s \<in> {''SPECRHCTChecksum'', ''RHCTFlagsNonZero''}))"
proof -
  let ?K = "{''SPECRHCTChecksum'', ''RHCTFlagsNonZero''}"
  note nodes = rhct_check_node_isa_string_def rhct_check_node_cmo_def rhct_check_node_mmu_def
    rhct_check_node_hart_info_def
  have rev: "clean_but ?K (rhct_revision hdr)" for hdr
    by (simp add: rhct_revision_def fixed_value_def fwts_acpi_fixed_value_def acpi_label_def)
  have checks: "whenever (rhct_check_node_isa_string t hdr off len) (clean_but ?K)"
    "whenever (rhct_check_node_cmo t hdr off len) (clean_but ?K)"
    "whenever (rhct_check_node_mmu t hdr off len) (clean_but ?K)"
    "whenever (rhct_check_node_hart_info t hdr off len) (clean_but ?K)" for hdr off len
    unfolding nodes by (auto simp: rev Let_def intro!: whenever_reads wheneverI [where m = "read_str t n" for n])
  have round: "whenever (rhct_node t i) (\<lambda>r. clean_but ?K (fst r))" for i
    by (auto simp: rhct_node_def Let_def split: prod.split intro!: whenever_reads whenever_mono [OF checks(1)]
        whenever_mono [OF checks(2)] whenever_mono [OF checks(3)] whenever_mono [OF checks(4)])
  have "clean_body (rhct_node t)"
    by (auto simp: rhct_node_def nodes rhct_revision_def Let_def split: prod.split
        intro!: clean_bodyI whenever_reads wheneverI [where m = "read_str t n" for n])
  then have scans: "whenever (scan fuel inside (rhct_node t) i) (\<lambda>r. clean_but ?K (fst r) \<and> snd r \<noteq> None)" for inside i
    using clean_scan [of "rhct_node t" fuel inside i] scan_holds [of "clean_but ?K" "rhct_node t" fuel inside i, OF _ _ round]
    by (auto simp: whenever_def)
  have front: "clean_but ?K (map Says (fail_if a (Failed LOG_LEVEL_MEDIUM ''SPECRHCTChecksum'') @
      fail_if b (Failed LOG_LEVEL_MEDIUM ''RHCTFlagsNonZero'')))" for a b
    by (simp del: map_append add: map_append)
  have ends: "Passed \<in> set (after_scan front r) \<longleftrightarrow> (\<forall>l s. Failed l s \<in> set (after_scan front r) \<longrightarrow> s \<in> ?K)"
    if "clean_but ?K (fst r) \<and> snd r \<noteq> None" and "clean_but ?K front" for front and r :: "act list \<times> (nat \<times> int) option"
    using conclude_but [of ?K "front @ fst r"] that by (simp add: after_scan_def del: not_None_eq)
  show ?thesis unfolding rhct_test1_def Let_def whenever_simps
    by (intro whenever_reads whenever_mono [OF scans]) (rule ends [OF _ front])
qed


text \<open>DBG2 uses the same label where it clears the flag and where it does not.\<close>

definition loud_but :: "cstr set \<Rightarrow> act list \<Rightarrow> bool" where
  "loud_but K acts \<longleftrightarrow> Passed \<notin> set (said acts) \<and>
     ((\<exists>l s. Failed l s \<in> set (said acts) \<and> s \<notin> K) \<longrightarrow> Unpass \<in> set acts)"

lemma loud_but_simps [simp]:
  "loud_but K []" "loud_but K acts \<Longrightarrow> loud_but K acts' \<Longrightarrow> loud_but K (acts @ acts')"
  by (auto simp: loud_but_def said_append)

lemma clean_loud: "clean acts \<Longrightarrow> loud_but K acts"
  by (fastforce simp: loud_but_def clean_def list_ex_iff)

lemma dbg2_loud: "whenever (dbg2_test1 obj_find t) (\<lambda>rs. Passed \<in> set rs \<longrightarrow>
    (\<forall>l s. Failed l s \<in> set rs \<longrightarrow> s = ''DBG2TooShort''))"
proof -
  let ?K = "{''DBG2TooShort''}"
  have offset: "clean (dbg2_check_offset t n)" "Failed l s \<in> set (said (dbg2_check_offset t n)) \<Longrightarrow> s = ''DBG2TooShort''"
      "Passed \<notin> set (said (dbg2_check_offset t n))" for n l s
    by (simp_all add: dbg2_check_offset_def) (auto simp: fault_if_def split: if_splits)
  have name_offsets: "loud_but ?K (map Says (said (dbg2_namespace_offsets t off info)))" for off info
    using offset(2,3) by (auto simp: loud_but_def dbg2_namespace_offsets_def said_append Let_def)
  have parts: "whenever (dbg2_namespace obj_find t off info) clean" "whenever (dbg2_registers t off info) clean"
      "clean (dbg2_type info)" for off info
    by (auto simp: dbg2_namespace_def dbg2_check_namespace_string_def dbg2_registers_def dbg2_register_def dbg2_type_def
        offset(1) Let_def intro!: whenever_reads wheneverI [where m = "string_in t n" for n] whenever_mono [OF clean_rounds])
  have round: "whenever (dbg2_info obj_find t i) (\<lambda>r. loud_but ?K (fst r))" for i
    by (auto simp: dbg2_info_def parts(3) offset(1) name_offsets clean_loud Let_def split: prod.split
        intro!: whenever_reads whenever_mono [OF parts(1)] whenever_mono [OF parts(2)])
  have ends: "Passed \<in> set (after_scan [] r) \<longrightarrow> (\<forall>l s. Failed l s \<in> set (after_scan [] r) \<longrightarrow> s = ''DBG2TooShort'')"
    if "loud_but ?K (fst r)" for r :: "act list \<times> (nat \<times> nat) option"
    using that by (auto simp: after_scan_def loud_but_def conclude_def split: if_splits)
  have short: "Passed \<notin> set (conclude (unpass (r # rs)))" if "fwts_acpi_table_length ''DBG2'' n k = r # rs" for n k r rs
    using fair_table_length(2) [OF that] by (auto simp: conclude_def clean_def unpass_def said_append)
  have early: "Passed \<notin> set (conclude (fails l s))" for l s by (simp add: conclude_def fails_def)
  have scans: "whenever (scan fuel inside (dbg2_info obj_find t) i) (\<lambda>r. loud_but ?K (fst r))" for fuel inside i
    by (rule scan_holds) (simp_all add: round)
  show ?thesis unfolding dbg2_test1_def
    by (auto simp: Let_def short early split: list.split
        intro!: whenever_reads whenever_mono [OF scans] dest: ends [rule_format])
qed

section \<open>Tests that end without a report\<close>

text \<open>The table has an endpoint, and ends before the descriptor of the first.\<close>

definition nhlt_ends_short :: "bytes \<Rightarrow> bool" where
  "nhlt_ends_short t \<longleftrightarrow>
     sizeof fwts_acpi_table_nhlt \<le> length t \<and>
     length t < sizeof fwts_acpi_table_nhlt + sizeof fwts_acpi_table_nhlt_ep_descriptor \<and>
     member_at t 0 fwts_acpi_table_nhlt ''ep_descriptor_count'' \<noteq> 0"

lemma nhlt_short_table:
  assumes "nhlt_ends_short t"
  shows "nhlt_test1 t = Some []"
proof -
  have "0 < unat (member_at t 0 fwts_acpi_table_nhlt ''ep_descriptor_count'')"
    using assms by (simp add: nhlt_ends_short_def unat_gt_0)
  then show ?thesis using assms
    by (simp add: nhlt_ends_short_def nhlt_test1_def nhlt_endpoint_def nhlt_validate_endpoint_def view_def scan_Suc Let_def)
qed

text \<open>
  The first structure of the table is a machine check exception, which is in the table, but not, by the length
  in the header, all the banks it says to have.
\<close>

definition hest_ends_short :: "bytes \<Rightarrow> bool" where
  "hest_ends_short t \<longleftrightarrow>
     length t < 2 ^ 32 \<and> sizeof fwts_acpi_table_hest \<le> length t \<and>
     (case (header_field t ''length'', read_le t (sizeof fwts_acpi_table_hest) 2,
            view t (sizeof fwts_acpi_table_hest) fwts_acpi_table_hest_ia32_machine_check_exception) of
        (Some len, Some ty, Some exc) \<Rightarrow>
          ty = 0 \<and>
          (let left = unat len - sizeof fwts_acpi_table_hest; size = sizeof fwts_acpi_table_hest_ia32_machine_check_exception in
           size \<le> left \<and>
           left < size + unat (exc ''number_of_hardware_banks'') * sizeof fwts_acpi_table_hest_machine_check_bank)
      | _ \<Rightarrow> False)"

lemma hest_short_banks:
  assumes "hest_ends_short t"
  shows "hest_test1 t = Some []"
proof -
  let ?off = "sizeof fwts_acpi_table_hest"
  obtain len exc where len: "header_field t ''length'' = Some len" and ty: "read_le t ?off 2 = Some 0"
    and exc: "view t ?off fwts_acpi_table_hest_ia32_machine_check_exception = Some exc"
    using assms by (auto simp: hest_ends_short_def split: option.splits)
  define left where "left = unat len - ?off"
  have short: "sizeof fwts_acpi_table_hest_ia32_machine_check_exception \<le> left"
    "left < sizeof fwts_acpi_table_hest_ia32_machine_check_exception +
       unat (exc ''number_of_hardware_banks'') * sizeof fwts_acpi_table_hest_machine_check_bank"
    and size: "length t < 2 ^ 32" "?off \<le> length t"
    using assms len ty exc by (simp_all add: hest_ends_short_def left_def Let_def)
  have table_len: "fwts_acpi_table_length ''HEST'' (of_nat (length t)) ?off = []"
    using size unsigned_less [of "of_nat (length t) :: u32"]
    by (simp add: fwts_acpi_table_length_def fail_if_def ucast_32 word_less_nat_alt unat_of_nat take_bit_nat_eq_self)
  have "hest_structure t (left, ?off, []) = Some ([Unpass], Goto (0, ?off, [0]))"
    using ty exc short by (simp add: hest_structure_def hest_checks_def hest_check_ia32_arch_machine_check_exception_def
        hest_with_banks_def Let_def)
  moreover have "0 < left" using short(1) hest_sizes(1) by simp
  ultimately have "scan (Suc left) (\<lambda>(len, off, types). len > 0) (hest_structure t) (left, ?off, []) =
      Some ([Unpass], Some (0, ?off, [0]))"
    by (cases left) (simp_all add: scan_Suc)
  then show ?thesis using size(2) len left_def table_len
    by (simp add: hest_test1_def view_def conclude_def hest_counts_def fault_if_def)
qed

section \<open>Two flags\<close>

text \<open>WDAT has two flags, and passes a table without failures for each.\<close>

definition twice :: "report list \<Rightarrow> bool" where
  "twice rs \<longleftrightarrow> (\<not> list_ex is_failed rs \<longrightarrow> count_list rs Passed = 2)"

lemma wdat_twice: "whenever (wdat_test1 t) twice"
proof -
  have early: "twice (conclude (rs @ fails l s))" "twice (conclude (fails l s))" for rs l s
    by (simp_all add: twice_def conclude_def said_append)
  have entry: "clean (wdat_entry entry)" "clean (wdat_instruction entry)" for entry
    by (simp_all add: wdat_entry_def wdat_instruction_def)
  have part: "Unpass \<in> set (wdat_instruction entry) \<Longrightarrow> Unpass \<in> set (wdat_entry entry)" for entry
    by (simp add: wdat_entry_def)
  have verdict: "twice (conclude ((rs @ concat (map wdat_entry es)) @
      (if Unpass \<notin> set (concat (map wdat_instruction es)) then [Says Passed] else [])))" if "clean rs" for rs es
  proof -
    have "clean (rs @ concat (map wdat_entry es))" using that entry(1) by simp
    then show ?thesis
      by (auto simp: twice_def clean_def conclude_def said_append count_no_pass dest: part)
  qed
  show ?thesis unfolding wdat_test1_def Let_def append_assoc [symmetric]
    by (simp only: whenever_simps whenever_if early simp_thms) (intro whenever_reads impI conjI verdict; simp)
qed

section \<open>Examples\<close>

text \<open>
  A SLIT with reserved distances; an NHLT that ends before its endpoint; an RHCT with reserved flags; a HEST
  whose first structure has one bank that is not in the table; a DBG2 with a name behind its end; a WDAT without entries.
\<close>

definition bad_slit :: bytes where "bad_slit = replicate 36 0 @ [2, 0, 0, 0, 0, 0, 0, 0, 10, 5, 5, 10]"
definition bad_nhlt :: bytes where "bad_nhlt = replicate 36 0 @ [1, 0]"
definition bad_rhct :: bytes where "bad_rhct = [0, 0, 0, 0, 56] @ replicate 31 0 @ [2] @ replicate 18 0 @ [198]"

lemma bad_slit_reports: "slit_test1 bad_slit = Some [Failed LOG_LEVEL_HIGH ''SLITEntryReserved'', Failed LOG_LEVEL_HIGH ''SLITEntryReserved'', Passed]"
  by code_simp

lemma bad_nhlt_short: "nhlt_ends_short bad_nhlt"
  by code_simp

lemma bad_rhct_reports: "rhct_test1 2 bad_rhct = Some [Failed LOG_LEVEL_MEDIUM ''RHCTFlagsNonZero'', Passed]"
  by code_simp

definition bad_hest :: bytes where
  "bad_hest = [0, 0, 0, 0, 80] @ replicate 35 0 @ replicate 32 0 @ [1] @ replicate 7 0"

lemma bad_hest_short: "hest_ends_short bad_hest"
proof -
  have "header_field bad_hest ''length'' = Some 80" "read_le bad_hest 40 2 = Some 0" by code_simp+
  moreover have "member_at bad_hest 40 fwts_acpi_table_hest_ia32_machine_check_exception ''number_of_hardware_banks'' = 1"
    by code_simp
  ultimately show ?thesis
    by (simp add: hest_ends_short_def view_def Let_def) (simp add: sizeof_def layouts Fwts_Acpi.nest_def bad_hest_def)
qed

definition empty_wdat :: bytes where
  "empty_wdat = [0, 0, 0, 0, 68] @ replicate 63 0"

lemma empty_wdat_reports: "wdat_test1 empty_wdat = Some [Passed, Passed]"
  by code_simp

definition bad_dbg2 :: bytes where
  "bad_dbg2 =
     replicate 36 0 @ [44, 0, 0, 0, 1, 0, 0, 0] @
     [0, 22, 0, 0, 0, 0, 0, 16, 0, 0, 0, 0, 0, 128, 0, 0, 0, 0, 0, 0, 0, 0]"

lemma bad_dbg2_values:
  "member_at bad_dbg2 0 fwts_acpi_table_dbg2 ''info_offset'' = 44"
  "member_at bad_dbg2 0 fwts_acpi_table_dbg2 ''info_count'' = 1"
  "map (member_at bad_dbg2 44 fwts_acpi_table_dbg2_info)
     [''revision'', ''length'', ''number_of_regs'', ''namespace_length'', ''namespace_offset'', ''oem_data_length'',
      ''oem_data_offset'', ''port_type'', ''port_subtype'', ''reserved'', ''base_address_offset'', ''address_size_offset''] =
   [0, 22, 0, 0, 0x1000, 0, 0, 0x8000, 0, 0, 0, 0]"
  by code_simp+

lemma bad_dbg2_sizes:
  "sizeof fwts_acpi_table_dbg2 = 44" "sizeof fwts_acpi_table_dbg2_info = 22" "length bad_dbg2 = 66"
  by (simp_all add: sizeof_def layouts Fwts_Acpi.nest_def bad_dbg2_def)

lemma bad_dbg2_reports:
  "dbg2_test1 obj_find bad_dbg2 = Some [Failed LOG_LEVEL_HIGH ''DBG2TooShort'', Failed LOG_LEVEL_HIGH ''DBG2TooShort'', Passed]"
  using bad_dbg2_values
  by (simp add: dbg2_test1_def dbg2_info_def dbg2_namespace_def dbg2_namespace_offsets_def dbg2_registers_def dbg2_type_def
      dbg2_check_offset_def dbg2_port_def dbg2_subport_def view_def bad_dbg2_sizes scan_Suc add32_def Let_def
      fwts_acpi_table_length_def fwts_acpi_fixed_value_def fwts_acpi_reserved_zero_def fail_if_def flag_checks
      after_scan_def conclude_def said_append)

end
