(* ===== verification/Fwts_Fadt.thy ===== *)
theory Fwts_Fadt
  imports Fwts_Table_Tests Fwts_Evaluate
begin

text \<open>
  The test of the FADT (src/src/acpi/fadt/fadt.c). Its checks read the struct of the newest FADT without
  asking how long the table is, so that each is None on a table that is shorter than what it reads. What the
  code asks elsewhere is an argument: whether the hardware is reduced, the version of ACPI, the FACS, the
  namespace with the interpreter, the addresses of processor objects, and the ports.
\<close>

abbreviation (input) ACPI_TYPE_PROCESSOR :: nat where "ACPI_TYPE_PROCESSOR \<equiv> 12"
abbreviation (input) FADT_RESET_SUPPORTED :: u64 where "FADT_RESET_SUPPORTED \<equiv> 0x400"
abbreviation (input) FWTS_FACP_FLAG_PERSISTENT_CPU_CACHES :: u64 where "FWTS_FACP_FLAG_PERSISTENT_CPU_CACHES \<equiv> 0xC00000"
abbreviation (input) FWTS_FACP_FLAG_FORCE_APIC_CLUSTER_MODEL :: u64 where "FWTS_FACP_FLAG_FORCE_APIC_CLUSTER_MODEL \<equiv> 0x40000"
abbreviation (input) FWTS_FACP_FLAG_FORCE_APIC_PHYSICAL_DESTINATION_MODE :: u64
  where "FWTS_FACP_FLAG_FORCE_APIC_PHYSICAL_DESTINATION_MODE \<equiv> 0x80000"
abbreviation (input) FWTS_FACS_FLAG_S4BIOS_F :: u64 where "FWTS_FACS_FLAG_S4BIOS_F \<equiv> 1"

definition FWTS_ACPI_VERSION_61 :: nat where "FWTS_ACPI_VERSION_61 = 0x610"
definition FWTS_ACPI_VERSION_NOW :: nat where "FWTS_ACPI_VERSION_NOW = 0x660"

type_synonym fadt_check = "bytes \<Rightarrow> report list option"

text \<open>The members of the struct up to one, and a report with advice.\<close>

definition fadt_to :: "bytes \<Rightarrow> string \<Rightarrow> members option" where
  "fadt_to t f = view t 0 (up_to f fwts_acpi_table_fadt)"

definition failed_advice :: "u32 \<Rightarrow> cstr \<Rightarrow> report list" where
  "failed_advice level label = [Failed level label, Advice]"

definition gas_zero :: "members \<Rightarrow> string \<Rightarrow> bool" where
  "gas_zero m reg =
     list_all (\<lambda>f. m (reg @ ''.'' @ f) = 0)
       [''address_space_id'', ''register_bit_width'', ''register_bit_offset'', ''access_width'', ''address'']"

section \<open>Initialisation\<close>

text \<open>The result, the FADT, the FACS and the state of the tables.\<close>

definition fadt_init ::
    "acpi_env \<Rightarrow> fwts_framework \<Rightarrow> acpi_state \<Rightarrow> (int \<times> nat option \<times> nat option \<times> acpi_state) option" where
  "fadt_init env fw st =
     (let err = (\<lambda>text fadt st. Some (FWTS_ERROR, fadt, None, Fwts_Tables.say (Err text) st)) in
      do { (ret, fadt, st) \<leftarrow> fwts_acpi_find_table env fw ''FACP'' 0 st;
           if ret \<noteq> FWTS_OK then err ''Cannot read ACPI table FACP.'' None st
           else case fadt of
             None \<Rightarrow> err ''ACPI table FACP does not exist!'' None st
           | Some i \<Rightarrow>
               if ti_length (tables st ! i) = 0
               then if target_arch fw = FWTS_ARCH_X86
                    then Some (FWTS_SKIP, Some i, None, Fwts_Tables.say (Info (''FADT does not exist, this is not '' @
                           ''necessarily a failure, skipping tests.'')) st)
                    else err ''ACPI table FACP has zero length!'' (Some i) st
               else do { (reduced, st) \<leftarrow> fwts_acpi_is_reduced_hardware env fw st;
                         if reduced \<noteq> 0 then Some (FWTS_OK, Some i, None, st)
                         else do { (ret, facs, st) \<leftarrow> fwts_acpi_find_table env fw ''FACS'' 0 st;
                                   if ret \<noteq> FWTS_OK then err ''Cannot read ACPI table FACS.'' (Some i) st
                                   else if facs = None then err ''ACPI table FACS does not exist!'' (Some i) st
                                   else Some (FWTS_OK, Some i, facs, st) } } })"

section \<open>Flags, checksum and revision\<close>

definition fadt_info :: fadt_check where
  "fadt_info t =
     do { fadt \<leftarrow> fadt_to t ''arm_boot_flags'';
          Some (fail_if (fadt ''flags'' AND FWTS_FACP_FLAG_PERSISTENT_CPU_CACHES = FWTS_FACP_FLAG_PERSISTENT_CPU_CACHES)
                  (Failed LOG_LEVEL_HIGH ''FADTCPUCACHESRESERVED'') @ [Infoonly]) }"

definition fadt_checksum :: fadt_check where
  "fadt_checksum t =
     do { len \<leftarrow> header_field t ''length'';
          bs \<leftarrow> read_bytes t 0 (unat len);
          Some [if fwts_checksum bs (unat len) = 0 then Passed else Failed LOG_LEVEL_MEDIUM ''SPECMADTChecksum''] }"

definition fadt_revision :: "u8 \<Rightarrow> u8 \<Rightarrow> report list" where
  "fadt_revision major minor =
     (if unat major = FWTS_ACPI_VERSION_NOW mod 4096 div 256 \<and> unat minor = FWTS_ACPI_VERSION_NOW mod 256 div 16
      then [Passed] else [Warning, Advice])"

section \<open>The checks of the members\<close>

definition acpi_table_check_fadt_firmware_ctrl :: "bool \<Rightarrow> fadt_check" where
  "acpi_table_check_fadt_firmware_ctrl reduced t =
     do { fadt \<leftarrow> fadt_to t ''firmware_control'';
          if fadt ''header.length'' < 140 \<and> fadt ''firmware_control'' = 0
          then Some (failed_advice LOG_LEVEL_MEDIUM ''FADT32BitFACSNull'')
          else do { fadt \<leftarrow> fadt_to t ''x_firmware_ctrl'';
                    let fc = fadt ''firmware_control''; xfc = fadt ''x_firmware_ctrl'' in
                    Some (if fc = 0 \<and> xfc = 0
                          then if reduced then [Passed, Advice] else failed_advice LOG_LEVEL_CRITICAL ''FADTFACSZero''
                          else if fc \<noteq> 0 \<and> xfc \<noteq> 0
                          then if fc = xfc then [Passed, Advice] else failed_advice LOG_LEVEL_MEDIUM ''FwCtrl32and64Differ''
                          else [Passed]) } }"

definition acpi_table_check_fadt_dsdt :: fadt_check where
  "acpi_table_check_fadt_dsdt t =
     do { fadt \<leftarrow> fadt_to t ''dsdt'';
          if fadt ''header.length'' < 148
          then Some (fail_if (fadt ''dsdt'' = 0) (Failed LOG_LEVEL_MEDIUM ''FADTDSDTNull''))
          else do { fadt \<leftarrow> fadt_to t ''x_dsdt'';
                    let dsdt = fadt ''dsdt''; x_dsdt = fadt ''x_dsdt'' in
                    Some ((if (dsdt \<noteq> 0) \<noteq> (x_dsdt \<noteq> 0) then [Passed]
                           else fail_if (dsdt = 0 \<and> x_dsdt = 0) (Failed LOG_LEVEL_MEDIUM ''FADTOneDSDTNull'')) @
                          (if dsdt \<noteq> 0 \<and> x_dsdt = 0 then failed_advice LOG_LEVEL_MEDIUM ''FADTXDSDTNull'' else []) @
                          (if dsdt = x_dsdt \<and> dsdt \<noteq> 0 then [Passed, Advice] else []) @
                          (if dsdt \<noteq> x_dsdt \<and> dsdt \<noteq> 0 then failed_advice LOG_LEVEL_MEDIUM ''FADT32And64Mismatch'' else [])) } }"

definition acpi_table_check_fadt_reserved :: fadt_check where
  "acpi_table_check_fadt_reserved t =
     do { fadt \<leftarrow> fadt_to t ''reserved'';
          let first = [if fadt ''reserved'' \<le> 1 then Passed else Failed LOG_LEVEL_MEDIUM ''FADTReservedZero''] in
          if fadt ''header.length'' < 112 then Some first
          else do { fadt \<leftarrow> fadt_to t (if fadt ''header.revision'' = 5 then ''minor_version'' else ''reserved1'');
                    Some (first @ [if fadt ''reserved1'' = 0 then Passed else Failed LOG_LEVEL_MEDIUM ''FADTReservedZero''] @
                          fail_if (fadt ''header.revision'' = 5 \<and> fadt ''minor_version'' = 0 \<and> fadt ''arm_boot_flags'' \<noteq> 0)
                            (Failed LOG_LEVEL_MEDIUM ''FADTReservedZero'')) } }"

definition acpi_table_check_fadt_pm_profile :: fadt_check where
  "acpi_table_check_fadt_pm_profile t =
     do { fadt \<leftarrow> fadt_to t ''preferred_pm_profile'';
          Some [if fadt ''preferred_pm_profile'' \<le> 8 then Passed else Failed LOG_LEVEL_MEDIUM ''FADTPMProfile''] }"

text \<open>The members and registers that reduced hardware ignores, and the flags that must not be set then.\<close>

definition ignored_members :: "string list" where
  "ignored_members =
     [''smi_cmd'', ''acpi_enable'', ''acpi_disable'', ''s4bios_req'', ''pstate_cnt'', ''pm1a_evt_blk'', ''pm1b_evt_blk'',
      ''pm1a_cnt_blk'', ''pm1b_cnt_blk'', ''pm2_cnt_blk'', ''pm_tmr_blk'', ''gpe0_blk'', ''gpe1_blk'', ''pm1_evt_len'',
      ''pm1_cnt_len'', ''pm2_cnt_len'', ''pm_tmr_len'', ''gpe0_blk_len'', ''gpe1_blk_len'', ''gpe1_base'', ''cst_cnt'',
      ''p_lvl2_lat'', ''p_lvl3_lat'', ''flush_size'', ''flush_stride'', ''duty_offset'', ''duty_width'', ''day_alrm'',
      ''mon_alrm'', ''century'']"

definition ignored_registers :: "string list" where
  "ignored_registers =
     [''x_pm1a_evt_blk'', ''x_pm1b_evt_blk'', ''x_pm1a_cnt_blk'', ''x_pm1b_cnt_blk'', ''x_pm2_cnt_blk'', ''x_pm_tmr_blk'',
      ''x_gpe0_blk'', ''x_gpe1_blk'']"

definition reduced_flag_mask :: u64 where
  "reduced_flag_mask = 0x2 OR 0x4 OR 0x8 OR 0x80 OR 0x100 OR 0x2000 OR 0x4000 OR 0x10000 OR 0x20000"

definition acpi_table_check_fadt_reduced_hardware :: "bool \<Rightarrow> fadt_check" where
  "acpi_table_check_fadt_reduced_hardware reduced t =
     (if \<not> reduced then Some []
      else do { fadt \<leftarrow> fadt_to t ''x_gpe1_blk.address'';
                Some [if list_all (\<lambda>f. fadt f = 0) ignored_members \<and> list_all (gas_zero fadt) ignored_registers
                      then Passed else Failed LOG_LEVEL_MEDIUM ''FADTRHWNonZero'',
                      if fadt ''flags'' AND reduced_flag_mask \<noteq> 0
                      then Failed LOG_LEVEL_MEDIUM ''FADTRHWFlagsNonZero'' else Passed,
                      if fadt ''flags'' AND FWTS_FACP_FLAG_FORCE_APIC_CLUSTER_MODEL \<noteq> 0 \<or>
                         fadt ''flags'' AND FWTS_FACP_FLAG_FORCE_APIC_PHYSICAL_DESTINATION_MODE \<noteq> 0
                      then Failed LOG_LEVEL_MEDIUM ''FADTRHWAPICFlags'' else Passed] })"

definition acpi_table_check_fadt_smi_cmd :: fadt_check where
  "acpi_table_check_fadt_smi_cmd t =
     do { fadt \<leftarrow> fadt_to t ''cst_cnt'';
          Some (if fadt ''smi_cmd'' \<noteq> 0
                then [if fadt ''sci_int'' = 0 then Failed LOG_LEVEL_MEDIUM ''FADTSCIIRQZero'' else Passed]
                else if list_all (\<lambda>f. fadt f = 0) [''acpi_enable'', ''acpi_disable'', ''s4bios_req'', ''pstate_cnt'', ''cst_cnt'']
                then [Passed] else failed_advice LOG_LEVEL_MEDIUM ''FADTSMICMDZero'') }"

text \<open>A command that needs the port of SMI commands.\<close>

definition fadt_command :: "string \<Rightarrow> u32 \<Rightarrow> cstr \<Rightarrow> bool \<Rightarrow> fadt_check" where
  "fadt_command f level label pass_unset t =
     do { fadt \<leftarrow> fadt_to t f;
          Some (if fadt f \<noteq> 0 then [if fadt ''smi_cmd'' = 0 then Failed level label else Passed]
                else if pass_unset \<and> fadt ''smi_cmd'' = 0 then [Passed] else []) }"

definition acpi_table_check_fadt_acpi_enable :: fadt_check where
  "acpi_table_check_fadt_acpi_enable = fadt_command ''acpi_enable'' LOG_LEVEL_HIGH ''SMMNeedsAcpiEnableCmd'' False"

definition acpi_table_check_fadt_acpi_disable :: fadt_check where
  "acpi_table_check_fadt_acpi_disable = fadt_command ''acpi_disable'' LOG_LEVEL_HIGH ''SMMNeedsAcpiDisableCmd'' False"

definition acpi_table_check_fadt_pstate_cnt :: fadt_check where
  "acpi_table_check_fadt_pstate_cnt = fadt_command ''pstate_cnt'' LOG_LEVEL_MEDIUM ''SMMHasExtraPstateCntCmd'' True"

definition acpi_table_check_fadt_cst_cnt :: fadt_check where
  "acpi_table_check_fadt_cst_cnt = fadt_command ''cst_cnt'' LOG_LEVEL_MEDIUM ''SMMHasExtraCSTCntCmd'' True"

definition acpi_table_check_fadt_s4bios_req :: "bytes option \<Rightarrow> fadt_check" where
  "acpi_table_check_fadt_s4bios_req facs t =
     do { (present, s4bios) \<leftarrow>
            (case facs of
               None \<Rightarrow> Some (False, False)
             | Some bs \<Rightarrow> do { m \<leftarrow> view bs 0 (up_to ''flags'' fwts_acpi_table_facs);
                               Some (m ''length'' \<ge> 24, m ''flags'' AND FWTS_FACS_FLAG_S4BIOS_F \<noteq> 0) });
          fadt \<leftarrow> fadt_to t ''s4bios_req'';
          let unset = fadt ''s4bios_req'' = 0; no_smm = fadt ''smi_cmd'' = 0 in
          Some ([if present then Passed else Failed LOG_LEVEL_MEDIUM ''FACSMustBePresent''] @
                (if s4bios
                 then if no_smm then [Passed, Advice]
                      else [if unset then Failed LOG_LEVEL_MEDIUM ''SMMHasNoS4BIOSReqCmd'' else Passed]
                 else [if unset then Passed else Failed LOG_LEVEL_MEDIUM ''SMMS4BIOSCmdDefined''])) }"

section \<open>Register blocks\<close>

text \<open>What is said of the 32 and 64 bit addresses of a block once one of them, or none, is known to be set.\<close>

definition fadt_blocks_agree :: "nat \<Rightarrow> cstr \<Rightarrow> u64 \<Rightarrow> u64 \<Rightarrow> report list" where
  "fadt_blocks_agree version label blk x_blk =
     (if blk = x_blk then [Passed, Advice]
      else (if version \<le> FWTS_ACPI_VERSION_61 then failed_advice LOG_LEVEL_MEDIUM label else []) @ [Passed])"

definition only_one :: "u64 \<Rightarrow> u64 \<Rightarrow> report list" where
  "only_one blk x_blk = (if (blk \<noteq> 0) \<noteq> (x_blk \<noteq> 0) then [Passed] else [])"

definition acpi_table_check_fadt_pm1a_evt_blk :: "nat \<Rightarrow> fadt_check" where
  "acpi_table_check_fadt_pm1a_evt_blk version t =
     do { fadt \<leftarrow> fadt_to t ''pm1a_evt_blk'';
          let unset = Failed LOG_LEVEL_MEDIUM ''FADTPm1aEvtBlkNotSet'' in
          if fadt ''header.length'' < 160 then Some [if fadt ''pm1a_evt_blk'' = 0 then unset else Passed]
          else do { fadt \<leftarrow> fadt_to t ''x_pm1a_evt_blk.address'';
                    let blk = fadt ''pm1a_evt_blk''; x_blk = fadt ''x_pm1a_evt_blk.address'';
                        both_zero = (blk = 0 \<and> x_blk = 0); both_nonzero = (blk \<noteq> 0 \<and> x_blk \<noteq> 0) in
                    Some ([if both_zero then unset else Passed] @
                          (if \<not> both_nonzero \<and> \<not> both_zero then [Passed] else []) @
                          (if both_nonzero \<and> blk = x_blk then [Passed, Advice]
                           else (if version \<le> FWTS_ACPI_VERSION_61 then [unset, Advice] else []) @ [Passed])) } }"

definition acpi_table_check_fadt_pm1a_cnt_blk :: "nat \<Rightarrow> fadt_check" where
  "acpi_table_check_fadt_pm1a_cnt_blk version t =
     do { fadt \<leftarrow> fadt_to t ''pm1a_cnt_blk'';
          let unset = Failed LOG_LEVEL_MEDIUM ''FADTPm1aCntBlkNotSet'' in
          if fadt ''header.length'' < 184 then Some [if fadt ''pm1a_cnt_blk'' = 0 then unset else Passed]
          else do { fadt \<leftarrow> fadt_to t ''x_pm1a_cnt_blk.address'';
                    let blk = fadt ''pm1a_cnt_blk''; x_blk = fadt ''x_pm1a_cnt_blk.address'' in
                    Some ([if blk \<noteq> 0 \<or> x_blk \<noteq> 0 then Passed else unset] @ only_one blk x_blk @
                          fadt_blocks_agree version ''FADTPm1aCntBlkNotSet'' blk x_blk) } }"

text \<open>A block that need not be there, in a FADT that has its 64 bit address from some length on.\<close>

definition fadt_optional_block :: "string \<Rightarrow> u64 \<Rightarrow> cstr \<Rightarrow> nat \<Rightarrow> fadt_check" where
  "fadt_optional_block f len label version t =
     do { fadt \<leftarrow> fadt_to t f;
          if fadt f = 0 \<and> fadt ''header.length'' < len then Some [Skipped]
          else do { fadt \<leftarrow> fadt_to t (''x_'' @ f @ ''.address'');
                    let blk = fadt f; x_blk = fadt (''x_'' @ f @ ''.address'') in
                    Some (if blk = 0 \<and> x_blk = 0 then [Skipped]
                          else only_one blk x_blk @ fadt_blocks_agree version label blk x_blk) } }"

definition acpi_table_check_fadt_pm1b_evt_blk :: "nat \<Rightarrow> fadt_check" where
  "acpi_table_check_fadt_pm1b_evt_blk = fadt_optional_block ''pm1b_evt_blk'' 172 ''FADTPm1bEvtBlkNotSet''"

definition acpi_table_check_fadt_pm1b_cnt_blk :: "nat \<Rightarrow> fadt_check" where
  "acpi_table_check_fadt_pm1b_cnt_blk = fadt_optional_block ''pm1b_cnt_blk'' 196 ''FADTPm1bCntBlkNotSet''"

definition acpi_table_check_fadt_pm2_cnt_blk :: "nat \<Rightarrow> fadt_check" where
  "acpi_table_check_fadt_pm2_cnt_blk = fadt_optional_block ''pm2_cnt_blk'' 208 ''FADTPm2CntBlkNotSet''"

definition acpi_table_check_fadt_pm_tmr_blk :: "nat \<Rightarrow> fadt_check" where
  "acpi_table_check_fadt_pm_tmr_blk = fadt_optional_block ''pm_tmr_blk'' 220 ''FADTPm2CntBlkNotSet''"

section \<open>Lengths\<close>

definition acpi_table_check_fadt_pm1_evt_len :: fadt_check where
  "acpi_table_check_fadt_pm1_evt_len t =
     do { fadt \<leftarrow> fadt_to t ''pm1_evt_len'';
          Some [if fadt ''pm1_evt_len'' \<ge> 4 then Passed else Failed LOG_LEVEL_MEDIUM ''FADTPm1EvtLenTooSmall''] }"

definition acpi_table_check_fadt_pm1_cnt_len :: fadt_check where
  "acpi_table_check_fadt_pm1_cnt_len t =
     do { fadt \<leftarrow> fadt_to t ''pm1_cnt_len'';
          Some [if fadt ''pm1_cnt_len'' \<ge> 2 then Passed else Failed LOG_LEVEL_MEDIUM ''FADTPm1CntLenTooSmall''] }"

definition acpi_table_check_fadt_pm2_cnt_len :: fadt_check where
  "acpi_table_check_fadt_pm2_cnt_len t =
     do { fadt \<leftarrow> fadt_to t ''pm2_cnt_len'';
          let len = fadt ''pm2_cnt_len'' in
          Some [if fadt ''pm2_cnt_blk'' = 0
                then if len = 0 then Passed else Failed LOG_LEVEL_MEDIUM ''FADTPm2CntLenInconsistent''
                else if len \<ge> 1 then Passed else Failed LOG_LEVEL_MEDIUM ''FADTPm2CntLenTooSmall''] }"

definition acpi_table_check_fadt_pm_tmr_len :: fadt_check where
  "acpi_table_check_fadt_pm_tmr_len t =
     do { fadt \<leftarrow> fadt_to t ''pm_tmr_len'';
          Some (if fadt ''pm_tmr_len'' = 0
                then [if fadt ''pm_tmr_blk'' = 0 then Passed else Failed LOG_LEVEL_MEDIUM ''FADTPmTmrLenInconsistent'']
                else if fadt ''pm_tmr_len'' = 4 then [Passed] else failed_advice LOG_LEVEL_MEDIUM ''FADTBadPMTMRLEN'') }"

definition acpi_table_check_fadt_gpe0_blk_len :: fadt_check where
  "acpi_table_check_fadt_gpe0_blk_len t =
     do { fadt \<leftarrow> fadt_to t ''gpe0_blk_len'';
          Some (if fadt ''gpe0_blk_len'' AND 1 \<noteq> 0 then failed_advice LOG_LEVEL_MEDIUM ''FADTBadGPE0BLKLEN''
                else [if fadt ''gpe0_blk_len'' \<noteq> 0 then Passed else Failed LOG_LEVEL_MEDIUM ''FADTZeroGPE0BlkLen'']) }"

definition acpi_table_check_fadt_gpe1_blk_len :: fadt_check where
  "acpi_table_check_fadt_gpe1_blk_len t =
     do { fadt \<leftarrow> fadt_to t ''gpe1_blk_len'';
          Some (if fadt ''gpe1_blk_len'' = 0
                then [if fadt ''gpe1_blk'' = 0 then Passed else Failed LOG_LEVEL_MEDIUM ''FADTGPE1BlkLenInconsistent'']
                else if fadt ''gpe1_blk_len'' AND 1 \<noteq> 0 then failed_advice LOG_LEVEL_MEDIUM ''FADTBadGPE1BLKLEN''
                else [Passed]) }"

section \<open>Sleep states\<close>

text \<open>The last address of a register block that a processor object has; evaluating one gives a status and the address.\<close>

fun fadt_find_p_blk_in :: "'s method_env \<Rightarrow> (cstr \<Rightarrow> u32 \<times> u64) \<Rightarrow> u64 \<Rightarrow> cstr list \<Rightarrow> report list \<times> u64" where
  "fadt_find_p_blk_in env processor pblk [] = ([], pblk)"
| "fadt_find_p_blk_in env processor pblk (name # names) =
     (if ACPI_FAILURE (AcpiGetHandle env [] name)
      then (let (rs, p) = fadt_find_p_blk_in env processor pblk names in (Warning # rs, p))
      else case AcpiGetType env name of
          None \<Rightarrow> (let (rs, p) = fadt_find_p_blk_in env processor pblk names in (Warning # rs, p))
        | Some ty \<Rightarrow>
            if ty \<noteq> ACPI_TYPE_PROCESSOR then fadt_find_p_blk_in env processor pblk names
            else case processor name of (status, addr) \<Rightarrow>
              if ACPI_FAILURE status
              then (let (rs, p) = fadt_find_p_blk_in env processor pblk names in (Warning # rs, p))
              else fadt_find_p_blk_in env processor (if addr \<noteq> 0 then addr else pblk) names)"

definition fadt_find_p_blk :: "'s method_env \<Rightarrow> (cstr \<Rightarrow> u32 \<times> u64) \<Rightarrow> report list \<times> u64" where
  "fadt_find_p_blk env processor =
     (case object_names env of None \<Rightarrow> ([], 0) | Some names \<Rightarrow> fadt_find_p_blk_in env processor 0 names)"

text \<open>The latencies of C2 and C3, from the packages that _CST gives; the elements are not checked.\<close>

type_synonym latencies = "u16 \<times> u16"

definition cst_latency :: "ACPI_OBJECT \<Rightarrow> latencies \<Rightarrow> latencies option" where
  "cst_latency pkg c =
     (case c of (c2, c3) \<Rightarrow>
        if c2 \<noteq> 0 \<and> c3 \<noteq> 0 then Some c
        else do { ty \<leftarrow> int_at pkg 1;
                  if (ucast ty :: u8) = 2 then do { v \<leftarrow> int_at pkg 2; Some (ucast v, c3) }
                  else if (ucast ty :: u8) = 3 then do { v \<leftarrow> int_at pkg 2; Some (c2, ucast v) }
                  else Some c })"

fun cst_latencies :: "ACPI_OBJECT list \<Rightarrow> latencies \<Rightarrow> latencies option" where
  "cst_latencies [] c = Some c"
| "cst_latencies (pkg # pkgs) c = do { c \<leftarrow> cst_latency pkg c; cst_latencies pkgs c }"

definition cst_object :: "ACPI_OBJECT \<Rightarrow> latencies \<Rightarrow> latencies option" where
  "cst_object obj c =
     (case obj of
        Package (Integer n # pkgs) \<Rightarrow> if n = of_nat (length pkgs) then cst_latencies pkgs c else Some c
      | _ \<Rightarrow> Some c)"

fun get_cst_c2c3_in ::
    "'s method_env \<Rightarrow> cstr list \<Rightarrow> latencies \<Rightarrow> 's method_state \<Rightarrow> (latencies \<times> 's method_state) option" where
  "get_cst_c2c3_in env [] c st = Some (c, st)"
| "get_cst_c2c3_in env (name # names) c st =
     do { m \<leftarrow> name_matches ''_CST'' name;
          if \<not> m then get_cst_c2c3_in env names c st
          else (let (status, buf, st) = evaluate_object env [] name [] st in
                case buf of
                  None \<Rightarrow> get_cst_c2c3_in env names c st
                | Some obj \<Rightarrow>
                    if ACPI_FAILURE status then get_cst_c2c3_in env names c st
                    else do { c \<leftarrow> cst_object obj c; get_cst_c2c3_in env names c st }) }"

definition get_cst_c2c3 :: "'s method_env \<Rightarrow> 's method_state \<Rightarrow> (latencies \<times> 's method_state) option" where
  "get_cst_c2c3 env st =
     (case object_names env of None \<Rightarrow> Some ((0, 0), st) | Some names \<Rightarrow> get_cst_c2c3_in env names (0, 0) st)"

text \<open>A latency above its bound says that the state is not there; a register block or _CST says that it is.\<close>

definition fadt_latency :: "string \<Rightarrow> u64 \<Rightarrow> cstr \<Rightarrow> bool \<Rightarrow> fadt_check" where
  "fadt_latency f bound label defined t =
     do { fadt \<leftarrow> fadt_to t f;
          Some [if defined then if fadt f \<le> bound then Passed else Warning
                else if fadt f \<le> bound then Failed LOG_LEVEL_MEDIUM label else Passed] }"

definition acpi_table_check_fadt_p_lvl2_lat :: "u64 \<Rightarrow> u16 \<Rightarrow> fadt_check" where
  "acpi_table_check_fadt_p_lvl2_lat pblk c2 =
     fadt_latency ''p_lvl2_lat'' 100 ''PLvl2LatDefinedButNotUsable'' (pblk \<noteq> 0 \<or> c2 \<noteq> 0)"

definition acpi_table_check_fadt_p_lvl3_lat :: "u64 \<Rightarrow> u16 \<Rightarrow> fadt_check" where
  "acpi_table_check_fadt_p_lvl3_lat pblk c3 =
     fadt_latency ''p_lvl3_lat'' 1000 ''PLvl3LatDefinedButNotUsable'' (pblk \<noteq> 0 \<or> c3 \<noteq> 0)"

section \<open>Registers of newer tables\<close>

definition gpe_access_width :: "members \<Rightarrow> string \<Rightarrow> cstr \<Rightarrow> report list" where
  "gpe_access_width fadt reg label =
     (if fadt (reg @ ''.access_width'') = 1 then [Passed]
      else fail_if (\<not> gas_zero fadt reg) (Failed LOG_LEVEL_HIGH label))"

definition acpi_table_check_fadt_x_gpex_blk :: "bool \<Rightarrow> fadt_check" where
  "acpi_table_check_fadt_x_gpex_blk reduced t =
     (if reduced then Some []
      else do { fadt \<leftarrow> fadt_to t ''x_gpe1_blk.address'';
                Some (gpe_access_width fadt ''x_gpe0_blk'' ''X_GPE0_BLKBadAccessWidth'' @
                      gpe_access_width fadt ''x_gpe1_blk'' ''X_GPE1_BLKBadAccessWidth'') })"

definition sleep_register :: "bool \<Rightarrow> string \<Rightarrow> cstr \<Rightarrow> cstr \<Rightarrow> fadt_check" where
  "sleep_register reduced reg bad_gas not_allowed t =
     do { fadt \<leftarrow> fadt_to t (reg @ ''.address'');
          Some [if fadt (reg @ ''.address'') = 0 then Passed
                else if \<not> reduced then Failed LOG_LEVEL_MEDIUM not_allowed
                else if fadt (reg @ ''.register_bit_width'') = 8 \<and> fadt (reg @ ''.register_bit_offset'') = 0 then Passed
                else Failed LOG_LEVEL_MEDIUM bad_gas] }"

definition acpi_table_check_fadt_sleep_control_reg :: "bool \<Rightarrow> fadt_check" where
  "acpi_table_check_fadt_sleep_control_reg reduced =
     sleep_register reduced ''sleep_control_reg'' ''SleepControlRegHasBadGAS'' ''SleepControlRegNotAllowed''"

definition acpi_table_check_fadt_sleep_status_reg :: "bool \<Rightarrow> fadt_check" where
  "acpi_table_check_fadt_sleep_status_reg reduced =
     sleep_register reduced ''sleep_status_reg'' ''SleepStatusRegHasBadGAS'' ''SleepStatusRegNotAllowed''"

section \<open>The tests\<close>

text \<open>The checks before the namespace is looked at, and those after it.\<close>

definition fadt_fixed_checks :: "bytes option \<Rightarrow> nat \<Rightarrow> fadt_check list" where
  "fadt_fixed_checks facs version =
     [acpi_table_check_fadt_smi_cmd, acpi_table_check_fadt_acpi_enable, acpi_table_check_fadt_acpi_disable,
      acpi_table_check_fadt_s4bios_req facs, acpi_table_check_fadt_pstate_cnt,
      acpi_table_check_fadt_pm1a_evt_blk version, acpi_table_check_fadt_pm1b_evt_blk version,
      acpi_table_check_fadt_pm1a_cnt_blk version, acpi_table_check_fadt_pm1b_cnt_blk version,
      acpi_table_check_fadt_pm2_cnt_blk version, acpi_table_check_fadt_pm_tmr_blk version,
      acpi_table_check_fadt_pm1_evt_len, acpi_table_check_fadt_pm1_cnt_len, acpi_table_check_fadt_pm2_cnt_len,
      acpi_table_check_fadt_pm_tmr_len, acpi_table_check_fadt_gpe0_blk_len, acpi_table_check_fadt_gpe1_blk_len,
      acpi_table_check_fadt_cst_cnt]"

definition fadt_first_checks :: "bool \<Rightarrow> fadt_check list" where
  "fadt_first_checks reduced =
     [acpi_table_check_fadt_firmware_ctrl reduced, acpi_table_check_fadt_dsdt, acpi_table_check_fadt_reserved,
      acpi_table_check_fadt_pm_profile, acpi_table_check_fadt_reduced_hardware reduced]"

definition fadt_last_checks :: "bool \<Rightarrow> fadt_check list" where
  "fadt_last_checks reduced =
     [acpi_table_check_fadt_x_gpex_blk reduced, acpi_table_check_fadt_sleep_control_reg reduced,
      acpi_table_check_fadt_sleep_status_reg reduced,
      \<lambda>t. map_option (\<lambda>fadt. []) (fadt_to t ''hypervisor_id'')]"

definition run_checks :: "fadt_check list \<Rightarrow> fadt_check" where
  "run_checks cs t = each (\<lambda>c. c t) cs"

text \<open>With the namespace, the latencies; init tells whether it could be initialised.\<close>

definition fadt_latencies :: "bool \<Rightarrow> 's method_env \<Rightarrow> (cstr \<Rightarrow> u32 \<times> u64) \<Rightarrow> bytes \<Rightarrow> 's method_state \<Rightarrow>
    (report list \<times> 's method_state) option" where
  "fadt_latencies init env processor t st =
     (if \<not> init then Some ([], st)
      else case fadt_find_p_blk env processor of (rs, pblk) \<Rightarrow>
        do { ((c2, c3), st) \<leftarrow> get_cst_c2c3 env st;
             rs2 \<leftarrow> acpi_table_check_fadt_p_lvl2_lat pblk c2 t;
             rs3 \<leftarrow> acpi_table_check_fadt_p_lvl3_lat pblk c3 t;
             Some (rs @ rs2 @ rs3, st) })"

definition fadt_test1 :: "bytes option \<Rightarrow> bool \<Rightarrow> 's method_env \<Rightarrow> (cstr \<Rightarrow> u32 \<times> u64) \<Rightarrow> bytes \<Rightarrow> 's method_state \<Rightarrow>
    (report list \<times> int \<times> 's method_state) option" where
  "fadt_test1 facs init env processor t st =
     (let reduced = env_reduced_hardware env in
      do { first \<leftarrow> run_checks (fadt_first_checks reduced) t;
           (middle, st) \<leftarrow>
             (if reduced then Some ([], st)
              else do { fixed \<leftarrow> run_checks (fadt_fixed_checks facs (env_acpi_version env)) t;
                        (rs, st) \<leftarrow> fadt_latencies init env processor t st;
                        Some (fixed @ rs, st) });
           last \<leftarrow> run_checks (fadt_last_checks reduced) t;
           Some (first @ middle @ last, FWTS_OK, st) })"

text \<open>
  The second test reads the port of the PM1a control register: allowed says whether ioperm() succeeds, and
  port_in gives what is read by the width, or None when the read fails.
\<close>

definition fadt_test2 :: "bool \<Rightarrow> (u32 \<Rightarrow> nat \<Rightarrow> bool) \<Rightarrow> (nat \<Rightarrow> u32 \<Rightarrow> u32 option) \<Rightarrow> bytes \<Rightarrow> (report list \<times> int) option" where
  "fadt_test2 reduced allowed port_in t =
     (if reduced then Some ([Skipped], FWTS_OK)
      else do {
        fadt \<leftarrow> fadt_to t ''pm1_cnt_len'';
        let port = ucast (fadt ''pm1a_cnt_blk'') :: u32; width = unat (fadt ''pm1_cnt_len'') * 8;
            newer = (fadt ''header.revision'' > 1 \<or> fadt ''header.length'' \<ge> 244) in
        do { (rs, port, width) \<leftarrow>
               (if \<not> newer then Some ([], port, width)
                else do { fadt \<leftarrow> fadt_to t ''x_pm1a_cnt_blk.address'';
                          let x_port = fadt ''x_pm1a_cnt_blk.address''; x_width = unat (fadt ''x_pm1a_cnt_blk.register_bit_width'') in
                          Some (fail_if (ucast port \<noteq> x_port) (Failed LOG_LEVEL_MEDIUM ''FADTPM1CNTAddrMismatch'') @
                                fail_if (width \<noteq> x_width) (Failed LOG_LEVEL_MEDIUM ''FADTPM1CNTSizeMismatch''),
                                ucast x_port, x_width) });
             if width \<notin> {8, 16, 32} then Some (rs @ [Failed LOG_LEVEL_HIGH ''FADTPM1AInvalidWidth''], FWTS_OK)
             else case (if allowed port (width div 8) then port_in width port else None) of
                 None \<Rightarrow> Some (rs, FWTS_ERROR)
               | Some v \<Rightarrow> Some (rs @ [if v AND 1 \<noteq> 0 then Passed else Failed LOG_LEVEL_HIGH ''SCI_ENNotEnabled''], FWTS_OK) } })"

definition fadt_test3 :: "bool \<Rightarrow> bytes \<Rightarrow> (report list \<times> int) option" where
  "fadt_test3 reduced t =
     (if reduced then Some ([Skipped], FWTS_OK)
      else do {
        revision \<leftarrow> header_field t ''revision'';
        len \<leftarrow> header_field t ''length'';
        if revision = 1 \<or> len < 244 then Some ([Skipped], FWTS_SKIP)
        else do {
          fadt \<leftarrow> fadt_to t ''reset_value'';
          if fadt ''flags'' AND FADT_RESET_SUPPORTED = 0 then Some ([Skipped], FWTS_SKIP)
          else Some ((if fadt ''reset_reg.register_bit_width'' \<noteq> 8
                      then failed_advice LOG_LEVEL_HIGH ''FadtResetRegWidth'' else [Passed]) @
                     (if fadt ''reset_reg.register_bit_offset'' \<noteq> 0
                      then failed_advice LOG_LEVEL_HIGH ''FadtResetRegBitOffset'' else [Passed]) @
                     (if fadt ''reset_reg.address_space_id'' > 2
                      then failed_advice LOG_LEVEL_MEDIUM ''FADTBadRESETREG'' else []) @
                     (if fadt ''reset_value'' = 0 \<and> fadt ''reset_reg.address'' \<noteq> 0 then [Warning] else []),
                     FWTS_OK) } })"

end
