(* ===== verification/Fwts_Fadt_Reads.thy ===== *)
theory Fwts_Fadt_Reads
  imports Fwts_Fadt
begin

text \<open>
  Where the checks of the FADT read, and what they say of a register block with one address: the lemmas on
  the struct up to a member are about any struct.
\<close>

section \<open>A struct up to a member\<close>

lemma up_to_prefix: "\<exists>rest. l = up_to f l @ rest"
  by (induction l rule: up_to.induct [of _ f]) auto

lemma sizeof_up_to: "sizeof (up_to f l) \<le> sizeof l"
proof -
  obtain rest where "l = up_to f l @ rest" using up_to_prefix by blast
  then have "sizeof l = sizeof (up_to f l) + sizeof rest" by (metis map_append sizeof_def sum_list_append)
  then show ?thesis by simp
qed

lemma field_up_to: "g \<in> fst ` set (up_to f l) \<Longrightarrow> field_at (up_to f l) g off = field_at l g off"
  by (induction f l arbitrary: off rule: up_to.induct) (auto split: if_splits)

lemma member_up_to: "g \<in> fst ` set (up_to f l) \<Longrightarrow> member_at t off (up_to f l) g = member_at t off l g"
  by (simp add: member_at_def field_up_to)

lemma fadt_to_iff: "fadt_to t f = None \<longleftrightarrow> length t < sizeof (up_to f fwts_acpi_table_fadt)"
  by (auto simp: fadt_to_def view_def)

lemma fadt_to_Some:
  "sizeof fwts_acpi_table_fadt \<le> length t \<Longrightarrow>
    fadt_to t f = Some (member_at t 0 (up_to f fwts_acpi_table_fadt))"
  using sizeof_up_to [of f fwts_acpi_table_fadt] by (simp add: fadt_to_def view_def)

section \<open>The checks of a whole table\<close>

lemma fadt_header:
  "sizeof fwts_acpi_table_fadt \<le> length t \<Longrightarrow> f \<in> fst ` set fwts_acpi_table_header \<Longrightarrow> header_field t f \<noteq> None"
  using get_defined [of f fwts_acpi_table_header 0 t]
  by (auto simp: header_field_def sizeof_def layouts Fwts_Acpi.nest_def)

lemma run_checks_defined: "run_checks cs t \<noteq> None \<longleftrightarrow> list_all (\<lambda>c. c t \<noteq> None) cs"
proof (induction cs)
  case (Cons c cs)
  then show ?case unfolding run_checks_def each_def by (cases "c t") auto
qed (simp add: run_checks_def each_def)

lemma fadt_last_needs: "run_checks (fadt_last_checks reduced) t \<noteq> None \<Longrightarrow> sizeof fwts_acpi_table_fadt \<le> length t"
proof -
  assume "run_checks (fadt_last_checks reduced) t \<noteq> None"
  then have "fadt_to t ''hypervisor_id'' \<noteq> None"
    unfolding run_checks_defined by (simp add: fadt_last_checks_def del: not_None_eq)
  moreover have "up_to ''hypervisor_id'' fwts_acpi_table_fadt = fwts_acpi_table_fadt"
    by (simp add: layouts Fwts_Acpi.nest_def)
  ultimately show ?thesis using fadt_to_iff [of t "''hypervisor_id''"] by (simp del: not_None_eq)
qed

lemmas fadt_check_defs =
  acpi_table_check_fadt_firmware_ctrl_def acpi_table_check_fadt_dsdt_def acpi_table_check_fadt_reserved_def
  acpi_table_check_fadt_pm_profile_def acpi_table_check_fadt_reduced_hardware_def acpi_table_check_fadt_smi_cmd_def
  fadt_command_def acpi_table_check_fadt_acpi_enable_def acpi_table_check_fadt_acpi_disable_def
  acpi_table_check_fadt_pstate_cnt_def acpi_table_check_fadt_cst_cnt_def acpi_table_check_fadt_pm1a_evt_blk_def
  acpi_table_check_fadt_pm1a_cnt_blk_def fadt_optional_block_def acpi_table_check_fadt_pm1b_evt_blk_def
  acpi_table_check_fadt_pm1b_cnt_blk_def acpi_table_check_fadt_pm2_cnt_blk_def acpi_table_check_fadt_pm_tmr_blk_def
  acpi_table_check_fadt_pm1_evt_len_def acpi_table_check_fadt_pm1_cnt_len_def acpi_table_check_fadt_pm2_cnt_len_def
  acpi_table_check_fadt_pm_tmr_len_def acpi_table_check_fadt_gpe0_blk_len_def acpi_table_check_fadt_gpe1_blk_len_def
  acpi_table_check_fadt_x_gpex_blk_def sleep_register_def acpi_table_check_fadt_sleep_control_reg_def
  acpi_table_check_fadt_sleep_status_reg_def fadt_latency_def acpi_table_check_fadt_p_lvl2_lat_def
  acpi_table_check_fadt_p_lvl3_lat_def

lemma fadt_checks_defined:
  assumes "sizeof fwts_acpi_table_fadt \<le> length t"
  shows "run_checks (fadt_first_checks reduced) t \<noteq> None" "run_checks (fadt_last_checks reduced) t \<noteq> None"
  using assms unfolding run_checks_defined
  by (simp_all add: fadt_first_checks_def fadt_last_checks_def fadt_check_defs fadt_to_Some Let_def)

definition facs_ok :: "bytes option \<Rightarrow> bool" where
  "facs_ok facs \<longleftrightarrow> (case facs of None \<Rightarrow> True | Some bs \<Rightarrow> sizeof (up_to ''flags'' fwts_acpi_table_facs) \<le> length bs)"

lemma fadt_s4bios_defined:
  "sizeof fwts_acpi_table_fadt \<le> length t \<Longrightarrow> acpi_table_check_fadt_s4bios_req facs t \<noteq> None \<longleftrightarrow> facs_ok facs"
  by (auto simp: acpi_table_check_fadt_s4bios_req_def fadt_to_Some facs_ok_def view_def Let_def split: option.split)

lemma fadt_fixed_defined:
  "sizeof fwts_acpi_table_fadt \<le> length t \<Longrightarrow> run_checks (fadt_fixed_checks facs version) t \<noteq> None \<longleftrightarrow> facs_ok facs"
  unfolding run_checks_defined fadt_fixed_checks_def using fadt_s4bios_defined [of t facs]
  by (simp add: fadt_check_defs fadt_to_Some Let_def)

text \<open>What the first test needs: the whole table, the FACS up to its flags, and packages of _CST that it can read.\<close>

lemma fadt_test1_reads:
  "fadt_test1 facs init env processor t st \<noteq> None \<longleftrightarrow>
     sizeof fwts_acpi_table_fadt \<le> length t \<and>
     (env_reduced_hardware env \<or> facs_ok facs \<and> (init \<longrightarrow> get_cst_c2c3 env st \<noteq> None))"
proof (cases "sizeof fwts_acpi_table_fadt \<le> length t")
  case True
  let ?reduced = "env_reduced_hardware env"
  obtain first last where "run_checks (fadt_first_checks ?reduced) t = Some first"
      and "run_checks (fadt_last_checks ?reduced) t = Some last"
    using fadt_checks_defined [OF True] by blast
  moreover have "fadt_latencies init env processor t st \<noteq> None \<longleftrightarrow> (init \<longrightarrow> get_cst_c2c3 env st \<noteq> None)"
    by (cases "get_cst_c2c3 env st")
      (auto simp: fadt_latencies_def acpi_table_check_fadt_p_lvl2_lat_def acpi_table_check_fadt_p_lvl3_lat_def
        fadt_latency_def fadt_to_Some [OF True] split: prod.splits)
  ultimately show ?thesis using True fadt_fixed_defined [OF True, of facs "env_acpi_version env"]
    by (cases "run_checks (fadt_fixed_checks facs (env_acpi_version env)) t"; cases "fadt_latencies init env processor t st")
      (auto simp: fadt_test1_def Let_def)
next
  case False
  then show ?thesis using fadt_last_needs [of "env_reduced_hardware env" t]
    by (auto simp: fadt_test1_def Let_def bind_eq_Some_conv)
qed

section \<open>Register blocks\<close>

text \<open>The blocks that need not be there: the member, from which length on the table has the 64 bit address, and the check.\<close>

definition optional_blocks :: "(string \<times> u64 \<times> cstr \<times> (nat \<Rightarrow> fadt_check)) list" where
  "optional_blocks =
     [(''pm1b_evt_blk'', 172, ''FADTPm1bEvtBlkNotSet'', acpi_table_check_fadt_pm1b_evt_blk),
      (''pm1b_cnt_blk'', 196, ''FADTPm1bCntBlkNotSet'', acpi_table_check_fadt_pm1b_cnt_blk),
      (''pm2_cnt_blk'', 208, ''FADTPm2CntBlkNotSet'', acpi_table_check_fadt_pm2_cnt_blk),
      (''pm_tmr_blk'', 220, ''FADTPm2CntBlkNotSet'', acpi_table_check_fadt_pm_tmr_blk)]"

definition block_reports :: "nat \<Rightarrow> cstr \<Rightarrow> u64 \<Rightarrow> u64 \<Rightarrow> report list" where
  "block_reports version label blk x_blk =
     (if blk = 0 \<and> x_blk = 0 then [Skipped]
      else if blk = x_blk then [Passed, Advice]
      else (if blk = 0 \<or> x_blk = 0 then [Passed] else []) @
           (if version \<le> FWTS_ACPI_VERSION_61 then [Failed LOG_LEVEL_MEDIUM label, Advice, Passed] else [Passed]))"

definition has_members :: "string list \<Rightarrow> layout \<Rightarrow> bool" where
  "has_members fs l \<longleftrightarrow> list_all (\<lambda>f. f \<in> fst ` set l) fs"

lemma optional_block_members:
  "list_all (\<lambda>(f, len, label, check).
     has_members [f, ''header.length''] (up_to f fwts_acpi_table_fadt) \<and>
     has_members [f, ''x_'' @ f @ ''.address''] (up_to (''x_'' @ f @ ''.address'') fwts_acpi_table_fadt)) optional_blocks"
  by code_simp

lemma fadt_optional_reports:
  assumes "sizeof fwts_acpi_table_fadt \<le> length t" and "m = member_at t 0 fwts_acpi_table_fadt" and "len \<le> m ''header.length''"
    and "has_members [f, ''header.length''] (up_to f fwts_acpi_table_fadt)"
    and "has_members [f, ''x_'' @ f @ ''.address''] (up_to (''x_'' @ f @ ''.address'') fwts_acpi_table_fadt)"
  shows "fadt_optional_block f len label version t = Some (block_reports version label (m f) (m (''x_'' @ f @ ''.address'')))"
  using assms
  by (auto simp: has_members_def fadt_optional_block_def fadt_to_Some member_up_to only_one_def fadt_blocks_agree_def failed_advice_def
      block_reports_def)

lemma optional_block_reports:
  assumes "(f, len, label, check) \<in> set optional_blocks" and "sizeof fwts_acpi_table_fadt \<le> length t"
    and "m = member_at t 0 fwts_acpi_table_fadt" and "len \<le> m ''header.length''"
  shows "check version t = Some (block_reports version label (m f) (m (''x_'' @ f @ ''.address'')))"
proof -
  have "check = fadt_optional_block f len label"
    using assms(1) by (auto simp: optional_blocks_def acpi_table_check_fadt_pm1b_evt_blk_def
        acpi_table_check_fadt_pm1b_cnt_blk_def acpi_table_check_fadt_pm2_cnt_blk_def acpi_table_check_fadt_pm_tmr_blk_def)
  moreover have "has_members [f, ''header.length''] (up_to f fwts_acpi_table_fadt)"
    and "has_members [f, ''x_'' @ f @ ''.address''] (up_to (''x_'' @ f @ ''.address'') fwts_acpi_table_fadt)"
    using assms(1) optional_block_members by (auto simp: list_all_iff)
  ultimately show ?thesis using fadt_optional_reports [OF assms(2-4)] by simp
qed

text \<open>The blocks that must be there are passed for that first.\<close>

definition required_blocks :: "(string \<times> u64 \<times> cstr \<times> (nat \<Rightarrow> fadt_check)) list" where
  "required_blocks =
     [(''pm1a_evt_blk'', 160, ''FADTPm1aEvtBlkNotSet'', acpi_table_check_fadt_pm1a_evt_blk),
      (''pm1a_cnt_blk'', 184, ''FADTPm1aCntBlkNotSet'', acpi_table_check_fadt_pm1a_cnt_blk)]"

lemma required_block_members:
  "list_all (\<lambda>(f, len, label, check).
     has_members [f, ''header.length''] (up_to f fwts_acpi_table_fadt) \<and>
     has_members [f, ''x_'' @ f @ ''.address''] (up_to (''x_'' @ f @ ''.address'') fwts_acpi_table_fadt)) required_blocks"
  by code_simp

lemma required_block_reports:
  assumes "(f, len, label, check) \<in> set required_blocks" and "sizeof fwts_acpi_table_fadt \<le> length t"
    and "m = member_at t 0 fwts_acpi_table_fadt" and "len \<le> m ''header.length''"
    and "(m f = 0) \<noteq> (m (''x_'' @ f @ ''.address'') = 0)"
  shows "check version t = Some (Passed # block_reports version label (m f) (m (''x_'' @ f @ ''.address'')))"
proof -
  let ?x = "''x_'' @ f @ ''.address''"
  have members: "has_members [f, ''header.length''] (up_to f fwts_acpi_table_fadt)"
    "has_members [f, ?x] (up_to ?x fwts_acpi_table_fadt)"
    using assms(1) required_block_members by (auto simp: list_all_iff)
  obtain low where low: "fadt_to t f = Some low" "low ''header.length'' = m ''header.length''"
    using assms(2,3) members(1) by (simp add: has_members_def fadt_to_Some member_up_to)
  obtain v where v: "fadt_to t ?x = Some v" "v f = m f" "v ?x = m ?x"
    using assms(2,3) members(2) by (simp add: has_members_def fadt_to_Some member_up_to)
  have reports: "block_reports version label (m f) (m ?x) =
      [Passed] @ (if version \<le> FWTS_ACPI_VERSION_61 then [Failed LOG_LEVEL_MEDIUM label, Advice] else []) @ [Passed]"
    using assms(5) by (auto simp: block_reports_def)
  have long: "\<not> low ''header.length'' < len" and differ: "m f \<noteq> m ?x" using assms(4,5) low(2) by auto
  consider "f = ''pm1a_evt_blk''" "len = 160" "label = ''FADTPm1aEvtBlkNotSet''" "check = acpi_table_check_fadt_pm1a_evt_blk"
    | "f = ''pm1a_cnt_blk''" "len = 184" "label = ''FADTPm1aCntBlkNotSet''" "check = acpi_table_check_fadt_pm1a_cnt_blk"
    using assms(1) by (auto simp: required_blocks_def)
  then show ?thesis
  proof cases
    case 1
    then show ?thesis using low(1) long v assms(5) unfolding reports
      by (simp add: acpi_table_check_fadt_pm1a_evt_blk_def Let_def)
  next
    case 2
    then show ?thesis using low(1) long v assms(5) differ unfolding reports
      by (simp add: acpi_table_check_fadt_pm1a_cnt_blk_def only_one_def fadt_blocks_agree_def failed_advice_def Let_def)
  qed
qed

end
