(* ===== verification/Spec2Isabelle.thy ===== *)
theory Spec2Isabelle
  imports Fwts_List Fwts_Strings Fwts_Log Fwts_State Fwts_Summary Fwts_Framework Fwts_Run Fwts_Options
    Fwts_Args Fwts_Main Fwts_Json Fwts_Log_Json Fwts_Numbers Fwts_Reports Fwts_Klog Fwts_Mtrr
    Fwts_Acpi Fwts_Dump Fwts_Tables Fwts_Madt Fwts_Log_Text Fwts_Faults Fwts_Fixed_Tables
    Fwts_Node_Tables Fwts_Record_Tables Fwts_Structure_Runs Fwts_Unfair_Tests Fwts_Fadt_Reads
begin

text \<open>
  A verification library for fwts, the firmware test suite. All paths below are under src/.

  \<^bold>\<open>The program.\<close> main() (src/main.c) calls fwts_framework_args() (src/lib/src/fwts_framework.c): the tests have
  registered themselves in an ordered list, the options are parsed by tables of handlers
  (fwts_args.c), a log with up to four files is opened (fwts_log.c), the tests named or of the
  selected categories are run (fwts_framework_tests_run()), every result is recorded
  (fwts_framework_log()), failures are collected for a summary (fwts_summary.c), and the exit
  status says whether anything failed. The calls of the log front end are dispatched to back ends,
  one of which writes json (fwts_log_json.c), through a json library (fwts_json.c) that also
  reads the tables of kernel log patterns.

  \<^bold>\<open>The theories, bottom up.\<close>
  \<^item> Fwts_Prelude, Fwts_Numbers: types, list and word lemmas, and the C library functions used
    (strings without their end mark, strtok, strstr, strtol, strtoul, isspace).
  \<^item> Fwts_List: fwts_list.c over a heap of links; the operations refine operations on sequences.
    The locale of ordered lists is interpreted on them.
  \<^item> Fwts_Strings: text lists, chopping and formatting of text, GUIDs, checksums, comma lists.
  \<^item> Fwts_Log: fields, levels, filter, log file names, and the dispatch: a log file is the list
    of the calls its back end got (log_event), so a property of a back end is one of such lists.
  \<^item> Fwts_State: the structs of fwts_framework.h as records, with the flags.
  \<^item> Fwts_Summary: the failure summary: one list of texts per level.
  \<^item> Fwts_Framework: registration, lookup, results, error filters, fwts_framework_log().
    A minor test is a list of reports followed by its return value; its messages are data.
  \<^item> Fwts_Run: one test and a run of tests, with every early exit.
  \<^item> Fwts_Options, Fwts_Args, Fwts_Main: the option table and its handlers, the parser, and the
    main program from the command line to the exit status.
  \<^item> Fwts_Json: the json reader, object interface and printer.
  \<^item> Fwts_Log_Json: the json log: shared objects in a store, refined to a tree of sections.
  \<^item> Fwts_Reports: the log and report macros of the test modules as data (test_output), and what
    performing them does to the framework.
  \<^item> Fwts_Klog: text files, the reduction of the kernel log, its patterns and their reports, the
    tests klog and oops. Fwts_Mtrr: the MTRR test.
  \<^item> Fwts_Acpi: the packed structs of fwts_acpi.h as layouts (names and sizes of the members) over
    lists of bytes; a read outside the table is None. The checks table tests share, and the loop
    over subtables with its contract (locale subtable_walk).
  \<^item> Fwts_Dump: the text of fwts --dump for a table, and the reader of such files.
  \<^item> Fwts_Tables: the cache of ACPI tables (fwts_acpi_tables.c) as a state: search of the RSDP,
    loading from memory or files, completion of tables from files, lookups, ACPI version. A use of
    freed memory is None. The locales table_invariant and fixable_invariant carry an invariant
    through every way to load; they are interpreted on the numbering of the slots and on the
    distinctness of addresses.
  \<^item> Fwts_Madt: the MADT test (acpi/madt/madt.c), all subtables.
  \<^item> Fwts_Log_Text: the plain text, xml and html logs: what each writes for a call of the front end.
  \<^item> Fwts_Object: the objects that ACPI methods return, access to them that is None outside an object or for a
    member it does not have, and the checks of fwts_acpi_object_eval.c that others are made of (on_ok
    for an early return, each for a loop, sane_or for the verdict at the end).
  \<^item> Fwts_Crs: resource descriptors. Fwts_Returns: the checks of returned objects, each a function from the
    name and the object to the reports. Fwts_Evaluate: the environment (ACPICA as a record of functions), one
    evaluation with its locks, the errors, and the evaluation of all objects of a name.
  \<^item> Fwts_Method, Fwts_Method_Tests: the method test (acpi/method/method.c): the checks, then the tests, each a
    function of the state of the evaluations, and the table of tests. Fwts_Devices: the tests of single
    devices (acpi/devices).
  \<^item> Fwts_Verdicts, Fwts_Judged: rules that take a check apart, by which the checks are defined on every
    object and come to one verdict. Fwts_Namespace: what a test evaluates, and which tests are defined.
    Fwts_Faults: identifiers, and the inputs on which checks go wrong.
  \<^item> Fwts_Table_Layouts: the structs the tests of single ACPI tables read. Fwts_Table_Tests: what these tests share:
    a test is a function from the bytes of its table to its reports, None for a read outside; views of structs;
    the flag of a test, as what it does: a list of acts, which are reports (Says) and the statements that clear the flag
    (Unpass), each where the code has it, from which conclude gives the reports with the verdict; and the loops over records (scan), with the three ways a loop can end (a result,
    faults, diverges) and the locale table_scan of loops that come closer to their end with every round.
  \<^item> Fwts_Fixed_Tables, Fwts_Counted_Tables, Fwts_Node_Tables, Fwts_Record_Tables, Fwts_Structure_Tables,
    Fwts_Source_Tables: the tests of 68 files under acpi/, grouped by what their tables consist of: members only, arrays of
    structs, nodes, records with a length, structures with a type, and structures with arrays of their own.
  \<^item> Fwts_Fadt: the FADT test (acpi/fadt/fadt.c), all its checks and its six tests. Fwts_Fadt_Reads: where it reads, and
    its verdicts on register blocks.
  \<^item> Fwts_Table_Verdicts, Fwts_Structure_Verdicts: which tests pass a table exactly if they have not failed it, by rules
    that no failure goes without clearing the flag (clean). Fwts_Unfair_Tests: the tests that do not keep one verdict.
    Fwts_Table_Runs, Fwts_Structure_Runs: table_scan interpreted on the loops, and with it which tests end and stay inside;
    the locale local_records of records whose reports do not depend on what is around them, interpreted on four tables;
    tables on which a loop goes on for ever.
  \<^bold>\<open>What the lemmas show.\<close> For the lists, that the heap operations are the operations on sequences. For the
  results, that totals, per-test results, failure summary and log agree with what the tests
  report, on every path, up to the exit status. For the options, that the tables are consistent (no two tests or
  options answer to one name), that short and long forms do the same, and what each argument parser accepts. For the json
  library, which objects survive printing and reading, and where they do not. For the log,
  that sections are balanced whatever the tests report, and so that the stack of the json log is
  large enough. For the ACPI tables, that the cache is a list per name, that a dump is read back,
  that made-up root tables are valid, and which inputs make the code read memory it has freed; for
  the MADT, that complete subtables are all checked, in order and inside the table, and the loop ends. For ACPI objects, which
  checks stay inside the object whatever it is and which do not, that they pass or fail it and never both, and
  that every object of a name is evaluated. For the tests of ACPI tables, which keep one verdict, that loops over
  records end, that a table of complete records is judged record by record, which tests read outside
  short tables, and the tables on which a test does not end or gives no verdict, or two.
  \<^bold>\<open>Bounds and fuel.\<close> Loops over lists are structural recursions. The json reader, which recurses on
  the text, takes fuel: json_parser_ends shows that two units per character and one more are enough,
  after which fuel-free equations are used. tree_of in Fwts_Log_Json takes the number of cells as fuel,
  enough since a cell comes before its members (tree_of_rep). The loop over subtables (walk) takes one unit
  more than the table has bytes, enough because every round advances (fuel_enough of subtable_walk). u8 to u64 are words, so additions
  wrap; C ints that count list members and results are words of 32 bits where the
  wrap can be reached by the inputs. The loops of the table tests take more fuel than the measure their
  interpretation of table_scan gives, which by fuel_enough and no_result_iff there is enough. The tests of RHCT,
  IVRS, HMAT and ASF! have their fuel as an argument, because their loops may not end: zero_length_structures.
  \<^bold>\<open>Parameters.\<close> Code that is not in the repository and the machine: malloc (a predicate that says
  when it fails), getopt_long, regcomp and regexec, the clock, the file system, directories, kernel
  files, model-specific registers, PCI configuration space, physical memory, the ACPI namespace and the
  interpreter of ACPI methods (ACPICA) are arguments, and for single table tests the memory map, whether an address is
  reserved or an object exists, processor objects, ports, and how far the data of a table are from its record (DBG2). Message
  texts that come from a test's format string are data.
  \<^bold>\<open>Not modelled.\<close> The vendored ACPICA sources and their glue; drivers and external
  services (s3, s4, UEFI runtime services); the tests of HPET and DMAR, which follow the kernel log, devices and
  PCI configuration space; the tests of SMBIOS; the message texts and plain log lines of the ACPI table tests; progress output on the terminal;
  freeing of memory, except where a claim is about it; the texts of error messages on stderr.
\<close>

section \<open>Inputs for the witnesses\<close>

definition demo_minor :: fwts_framework_minor_test where
  "demo_minor =
     \<lparr>minor_func = (\<lambda>fw. (FWTS_OK, run_reports (\<lambda>_. ''demo'') (\<lambda>_. ''fine'') 0 [Passed] fw)),
      minor_name = Some ''A minor test''\<rparr>"

definition demo_ops :: fwts_framework_ops where
  "demo_ops =
     \<lparr>ops_description = Some ''A test'', ops_init = None, ops_deinit = None, ops_options = None,
      ops_options_handler = None, ops_options_check = None, ops_minor_tests = [demo_minor], ops_total_tests = 1\<rparr>"

definition demo_test :: "nat \<Rightarrow> cstr \<Rightarrow> fwts_framework_test" where
  "demo_test i name =
     \<lparr>test_id = i, test_name = name, test_ops = demo_ops, test_priority = FWTS_TEST_ANYTIME,
      test_flags = FWTS_FLAG_BATCH, test_fw_features = 0\<rparr>"

definition demo_env :: args_env where
  "demo_env =
     \<lparr>ae_alloc = (\<lambda>_. True), ae_root = True, ae_exists = (\<lambda>_. False), ae_machine = Some ''x86_64'',
      ae_getopt = (\<lambda>so lo argv. \<lparr>go_calls = [], go_argv = argv, go_optind = 1\<rparr>), ae_argv = [''fwts''],
      ae_stdin_width = 80, ae_log_width = 80, ae_special = (\<lambda>_. False), ae_can_open = (\<lambda>_. True),
      ae_version = ''V1'', ae_date = ''today'', ae_json_data_path = ''/usr/share/fwts'', ae_when = ''now'',
      ae_logind = True, ae_disassemble = (\<lambda>_ fw. fw), ae_dump_info = (\<lambda>fw. fw),
      ae_devicetree_read = (\<lambda>fw. fw)\<rparr>"

definition demo_fw :: fwts_framework where
  "demo_fw = args_defaults demo_env (fw_init demo_env)"

definition demo_tests :: "fwts_framework_test list" where
  "demo_tests = [demo_test 1 ''one'', demo_test 2 ''two'']"

lemma demo_minor_frame: "well_behaved (minor_func demo_minor)"
  using well_behaved_reports [of "\<lambda>_. FWTS_OK" "\<lambda>_. ''demo''" "\<lambda>_. ''fine''" 0 "\<lambda>_. [Passed]"]
  by (simp add: demo_minor_def)

lemma demo_wb: "wb_test (demo_test i n)"
  using demo_minor_frame by (simp add: wb_test_def demo_test_def demo_ops_def)

lemma demo_tests_wb: "\<forall>t \<in> set demo_tests. wb_test t"
  by (simp add: demo_tests_def demo_wb)

lemma demo_tests_ids: "distinct (map test_id demo_tests)"
  by (simp add: demo_tests_def demo_test_def)

definition demo_opened :: fwts_framework where
  "demo_opened = demo_fw\<lparr>results := fwts_log_open log_globals_init (\<lambda>_. False) (\<lambda>_. True) (\<lambda>_. True) 80
                            ''fwts'' ''results'' LOG_TYPE_PLAINTEXT\<rparr>"

lemma demo_mem: "\<forall>n. ae_alloc demo_env n"
  by (simp add: demo_env_def)

lemma demo_alloc: "alloc_ok demo_fw 16"
  by (simp add: demo_fw_def args_defaults_def fw_init_def demo_env_def fwts_summary_init_def Let_def)

lemma demo_flags: "flags demo_fw = FWTS_FLAG_SHOW_PROGRESS"
  by (simp add: demo_fw_def args_defaults_def fw_init_def demo_env_def fwts_summary_init_def Let_def)

lemma demo_log:
  "fwts_log_open log_globals_init (\<lambda>_. False) (\<lambda>_. True) (\<lambda>_. True) 80 ''fwts'' ''results'' LOG_TYPE_PLAINTEXT =
     Some \<lparr>log_magic = LOG_MAGIC,
           log_files = [\<lparr>lf_type = LOG_TYPE_PLAINTEXT, lf_filename_type = LOG_FILENAME_TYPE_FILE,
                         lf_line_width = 80, lf_calls = [EvOpen]\<rparr>],
           log_owner = ''fwts''\<rparr>"
  by code_simp

lemmas demo_fw_defs = demo_fw_def args_defaults_def fw_init_def fwts_summary_init_def Let_def

lemma demo_parse:
  "fwts_args_parse (ae_getopt demo_env) (main_tables demo_env demo_tests []) (ae_argv demo_env)
     (args_defaults demo_env (fw_init demo_env)) = (FWTS_OK, demo_fw, [''fwts''], 1)"
proof -
  let ?fw = "args_defaults demo_env (fw_init demo_env)" and ?t = "main_tables demo_env demo_tests []"
  have mem: "alloc_ok ?fw n" for n by (simp add: demo_fw_defs demo_env_def)
  then obtain s where "short_options_of (alloc_ok ?fw) ?t = Some s"
    using short_options_mem [of "alloc_ok ?fw" ?t] by auto
  moreover have "args_checks ?t ?fw = (FWTS_OK, ?fw)" by (simp add: main_tables_def Let_def)
  ultimately show ?thesis using mem
    by (simp add: fwts_args_parse_def Let_def demo_env_def demo_fw_def)
qed

lemma demo_gate: "args_gate demo_env demo_tests (args_dash [''fwts''] demo_fw) = Inr demo_opened"
proof -
  have "fwts_log_type_count LOG_TYPE_PLAINTEXT = 1" by code_simp
  then show ?thesis
    by (simp add: args_dash_def args_gate_def demo_flags demo_fw_defs demo_opened_def demo_env_def
        fwts_framework_strdup_def demo_log [simplified] del: One_nat_def)
qed

lemma demo_select:
  "args_select demo_tests (drop 1 [''fwts'']) (ae_devicetree_read demo_env demo_opened) =
     Some (demo_tests, demo_opened\<lparr>flags := FWTS_FLAG_SHOW_PROGRESS OR FWTS_FLAG_BATCH\<rparr>)"
proof -
  have "alloc_ok demo_opened 16" and "flags demo_opened = FWTS_FLAG_SHOW_PROGRESS" and "tests_to_skip demo_opened = []"
    using demo_alloc demo_flags by (simp_all add: demo_opened_def) (simp add: demo_fw_defs)
  then show ?thesis
    by (simp add: args_select_def demo_env_def demo_tests_def demo_test_def tests_append_def
        fwts_framework_skip_test_def FWTS_FLAG_RUN_ALL_value)
qed

lemma demo_closed: "fwts_log_close (results (args_run demo_env demo_tests [] demo_tests demo_opened)) \<noteq> []"
proof -
  let ?r = "results (args_run demo_env demo_tests [] demo_tests demo_opened)"
  obtain evs where "sec_ext evs (results demo_opened) ?r" using args_run_ext [OF demo_tests_wb] by blast
  moreover have "log_ok (results demo_opened)" "sections (results demo_opened) = [[EvOpen]]"
    by (simp_all add: demo_opened_def demo_log [simplified] log_ok_def sections_def log_calls_def)
  ultimately have "log_ok ?r" "sections ?r \<noteq> []" by (simp_all add: sec_ext_def)
  then show ?thesis using closed_length [of ?r] by (auto simp: sections_def)
qed

section \<open>The test runner\<close>

text \<open>C1: After a run of tests, each registered once, the framework's grand totals are what they were
  plus the results recorded for each test of the run, in every counter and on every path of a
  test (privilege missing, firmware features missing, initialisation skipped or failed, a minor
  test aborting), and the recorded results of all other tests are unchanged.\<close>

theorem framework_totals:
  assumes "\<forall>t \<in> set ts. wb_test t" and "distinct (map test_id ts)"
  shows "totals (fwts_framework_tests_run ts fw) =
           fold (\<lambda>t acc. fwts_framework_summate_results acc
                    (test_results (fwts_framework_tests_run ts fw) (test_id t))) ts (totals fw) \<and>
         (\<forall>i. i \<notin> test_id ` set ts \<longrightarrow>
            test_results (fwts_framework_tests_run ts fw) i = test_results fw i)"
  unfolding fwts_framework_tests_run_def
  using tests_run_totals [OF assms,
      of "fw\<lparr>current_major_test_num := 1, major_tests_total := of_nat (length ts)\<rparr>"] by simp

theorem framework_totals_witness:
  "totals (fwts_framework_tests_run demo_tests demo_fw) =
     fold (\<lambda>t acc. fwts_framework_summate_results acc
       (test_results (fwts_framework_tests_run demo_tests demo_fw) (test_id t))) demo_tests (totals demo_fw)"
  using framework_totals [OF demo_tests_wb demo_tests_ids, of demo_fw] by blast

text \<open>C2: When every minor test that does not abort reports one outcome, the counters recorded for a
  test add up to its number of minor tests, whatever happens: minor tests that were never reached
  are counted as aborted or skipped.\<close>

theorem framework_outcomes:
  assumes "wb_test t" and "one_outcome t"
  shows "outcomes (test_results (fwts_framework_run_test t fw) (test_id t)) = total_tests t"
  by (rule run_test_outcomes [OF assms])

lemma demo_outcome: "one_outcome (demo_test i n)"
  by (simp add: one_outcome_def demo_test_def demo_ops_def demo_minor_def report_counter
      count_one_def counted_def outcomes_def)

theorem framework_outcomes_witness:
  "outcomes (test_results (fwts_framework_run_test (demo_test 1 ''one'') demo_fw) 1) = 1"
  using framework_outcomes [OF demo_wb demo_outcome, of 1 "''one''" demo_fw]
  by (simp add: demo_test_def total_tests_def demo_ops_def)

section \<open>A whole run of the program\<close>

text \<open>C3: In a run of the program, whatever its tests report, every log file is opened once, before
  everything else, and closed once, after everything else, and the section marks in between are
  balanced: no section is ended that was not begun, at most five are open at any time, and
  none is left open when the log is closed.\<close>

theorem log_balanced:
  assumes "args_gate env tests fw0 = Inr fw" and "\<forall>t \<in> set run. wb_test t"
    and "es \<in> set (fwts_log_close (results (args_run env tests' argv run fw)))"
  shows "\<exists>evs. es = EvOpen # evs @ [EvClose] \<and> (\<forall>ev \<in> set evs. \<not> opens_closes ev) \<and> sec_run 5 0 evs = Some 0"
  by (rule closed_log [OF assms])

theorem log_balanced_witness:
  "\<exists>evs. hd (fwts_log_close (results (args_run demo_env demo_tests [] demo_tests demo_opened))) = EvOpen # evs @ [EvClose] \<and>
     (\<forall>ev \<in> set evs. \<not> opens_closes ev) \<and> sec_run 5 0 evs = Some 0"
  by (rule log_balanced [OF demo_gate demo_tests_wb hd_in_set [OF demo_closed]])

text \<open>C4: For whatever a run of the program logs, the json log neither runs over nor under its stack of
  sections, and what it writes when it is closed is the text of the tree of sections: every
  section an object with one array that holds the log entries and the sections begun while it
  was open, in the order they were logged.\<close>

theorem json_log_text:
  assumes "args_gate env tests fw0 = Inr fw" and "\<forall>t \<in> set run. wb_test t"
    and "es \<in> set (fwts_log_close (results (args_run env tests' argv run fw)))"
  shows "\<exists>evs jl. es = EvOpen # evs @ [EvClose] \<and> json_events g clock es json_log_init = Some jl \<and>
           jl_out jl = json_object_to_json_string (log_tree g clock evs) @ [NL]"
  by (rule json_log_of_run [OF assms])

theorem json_log_text_witness:
  "\<exists>evs jl. hd (fwts_log_close (results (args_run demo_env demo_tests [] demo_tests demo_opened))) = EvOpen # evs @ [EvClose] \<and>
     json_events log_globals_init (\<lambda>n. (''01/02/26'', ''12:00:00''))
       (hd (fwts_log_close (results (args_run demo_env demo_tests [] demo_tests demo_opened)))) json_log_init = Some jl \<and>
     jl_out jl = json_object_to_json_string (log_tree log_globals_init (\<lambda>n. (''01/02/26'', ''12:00:00'')) evs) @ [NL]"
  by (rule json_log_text [OF demo_gate demo_tests_wb hd_in_set [OF demo_closed]])

text \<open>C5: A run is refused exactly when an argument that is not an option names no registered test;
  otherwise the tests run are those named, in the order named, followed by those registered in
  one of the selected categories, in the order of registration, and no skipped test is among
  them; without any selected category and any test named, the batch category is selected.\<close>

theorem selected_tests:
  assumes "alloc_ok fw 16"
  shows "args_select tests args fw =
     (if \<exists>a \<in> set (named_args args). \<forall>t \<in> set tests. test_name t \<noteq> a then None
      else
        (let wanted = (\<lambda>t. test_id t \<notin> set (tests_to_skip fw));
             named = filter wanted (map (\<lambda>a. the (fwts_framework_test_find tests a)) (named_args args));
             fw' = (if FWTS_FLAG_RUN_ALL AND flags fw = 0 \<and> named = []
                    then fw\<lparr>flags := flags fw OR FWTS_FLAG_BATCH\<rparr> else fw)
         in Some (named @ filter (\<lambda>t. flags fw' AND test_flags t AND FWTS_FLAG_RUN_ALL \<noteq> 0 \<and> wanted t) tests, fw')))"
proof (cases "args_select tests args fw")
  case None
  then show ?thesis by (simp add: args_select_None)
next
  case (Some p)
  obtain run fw' where p: "p = (run, fw')" by (cases p)
  have "runnable fw = (\<lambda>t. test_id t \<notin> set (tests_to_skip fw))"
    using assms by (auto simp: runnable_def fwts_framework_skip_test_def)
  with args_select_Some [OF Some [unfolded p]] Some p show ?thesis
    using args_select_None [of tests args fw] by (auto simp: Let_def)
qed

theorem selected_tests_witness:
  "args_select demo_tests [''two''] (demo_fw\<lparr>tests_to_skip := [1]\<rparr>) =
     Some ([demo_test 2 ''two''], demo_fw\<lparr>tests_to_skip := [1]\<rparr>)"
  using selected_tests [of "demo_fw\<lparr>tests_to_skip := [1]\<rparr>" demo_tests "[''two'']"] demo_alloc
  by (simp add: named_args_def demo_tests_def demo_test_def demo_flags Let_def fwts_framework_test_find_def
      FWTS_FLAG_RUN_ALL_value)

text \<open>C6: When the framework can be allocated, the arguments are accepted, the log can be opened and the tests are
  found, the program runs them and exits with the error status exactly when the results recorded for them add up, in
  32 bits, to a number of failures or of warnings other than zero; the status depends on nothing else. This is for runs
  that name no test twice, with tests that report only as tests do, where the option handlers and checks of the tests, the
  disassembler and the reader of the device tree leave the framework's totals alone.\<close>

theorem exit_code:
  assumes "ae_alloc env 488" and "ae_alloc env 32" and "keeps_totals env tabs"
    and "fwts_args_parse (ae_getopt env) (main_tables env tests tabs) (ae_argv env)
           (args_defaults env (fw_init env)) = (FWTS_OK, fw, argv, optind)"
    and "args_gate env tests (args_dash argv fw) = Inr fw1"
    and "args_select tests (drop optind argv) (ae_devicetree_read env fw1) = Some (run, fw2)"
    and "\<forall>t \<in> set run. wb_test t" and "distinct (map test_id run)"
    and "fw3 = args_run env tests argv run fw2"
    and "grand = fold (\<lambda>t acc. fwts_framework_summate_results acc (test_results fw3 (test_id t))) run fwts_results_zero"
  shows "fwts_framework_args env tests tabs =
    (if failed grand \<noteq> 0 \<or> warning grand \<noteq> 0 then FWTS_ERROR else FWTS_OK, Some fw3, fwts_log_close (results fw3))"
  using main_exit [OF assms(1-9)] assms(10) by simp

theorem exit_code_witness:
  "\<exists>fw3. fwts_framework_args demo_env demo_tests [] =
     (let grand = fwts_framework_summate_results (fwts_framework_summate_results fwts_results_zero (test_results fw3 1)) (test_results fw3 2)
      in (if failed grand \<noteq> 0 \<or> warning grand \<noteq> 0 then FWTS_ERROR else FWTS_OK, Some fw3, fwts_log_close (results fw3)))"
proof -
  have "ae_alloc demo_env 488" "ae_alloc demo_env 32" "keeps_totals demo_env []"
    using demo_mem by (simp_all add: keeps_totals_def) (simp_all add: demo_env_def)
  then show ?thesis
    using exit_code [OF _ _ _ demo_parse demo_gate demo_select demo_tests_wb demo_tests_ids refl refl]
    by (auto simp: demo_tests_def demo_test_def Let_def)
qed

section \<open>Options\<close>

text \<open>C7: Whatever the command line, after it has been parsed exactly one of the output modes quiet,
  progress and progress dialog is set, provided the option handlers and checks of the tests
  leave the flags alone.\<close>

theorem one_output_mode:
  assumes "\<forall>t \<in> set tabs. \<forall>f c i arg. flags (snd (ot_handler t f c i arg)) = flags f"
    and "\<forall>t \<in> set tabs. \<forall>f chk. ot_check t = Some chk \<longrightarrow> flags (snd (chk f)) = flags f"
    and "\<forall>a f. flags (ae_disassemble env a f) = flags f"
  shows "one_mode (fst (snd (fwts_args_parse getopt (main_tables env tests tabs) argv
           (args_defaults env (fw_init env)))))"
  by (rule parsed_one_mode [OF assms])

theorem one_output_mode_witness:
  "one_mode (fst (snd (fwts_args_parse (\<lambda>_ _ argv. \<lparr>go_calls = [(of_char CHR ''q'', 0, []), (0, 7, [])],
       go_argv = argv, go_optind = 3\<rparr>) (main_tables demo_env demo_tests []) [''fwts'', ''-q'', ''--show-progress'']
     (args_defaults demo_env (fw_init demo_env)))))"
  by (rule one_output_mode) (simp_all add: demo_env_def)

text \<open>C8: Every short option of the framework's table (the question mark, which reports an unknown
  option, apart) does what the long option in the same row of the table does.\<close>

theorem short_is_long:
  assumes "i < length (fwts_framework_options v)"
    and "c \<in> set (short_chars (fwts_framework_options v ! i))" and "c \<noteq> CHR ''?''"
  shows "fwts_framework_options_handler env fw (of_char c) j arg =
         fwts_framework_options_handler env fw 0 (int i) arg"
proof -
  have "(of_char c :: int) \<noteq> 0"
    using short_char_pairs [of i c v] assms by (auto simp: options_length short_pairs_def)
  then show ?thesis
    using short_long_step [OF short_char_pairs] assms
    by (simp add: fwts_framework_options_handler_def options_length)
qed

theorem short_is_long_witness:
  "fwts_framework_options_handler (main_opt_env demo_env [] []) demo_fw (of_char CHR ''b'') 0 [] =
   fwts_framework_options_handler (main_opt_env demo_env [] []) demo_fw 0 13 []"
proof -
  have "short_chars (fwts_framework_options [] ! 13) = ''b''"
    using arg_cong [OF options_short_chars, of "\<lambda>l. l ! 13" "[]"] by (simp add: options_length)
  then show ?thesis
    using short_is_long [of 13 "[]" "CHR ''b''" "main_opt_env demo_env [] []" demo_fw 0 "[]"]
    by (simp add: options_length)
qed

text \<open>When all long option names are distinct, a long option is handled by the handler of the table
  it is declared in, with its index in that table, however many tables come before.\<close>

theorem long_option_owner:
  assumes "distinct (map long_name (all_options tabs))" and "k < length tabs"
    and "i < length (ot_options (tabs ! k))"
  shows "args_dispatch tabs 0 (long_name (ot_options (tabs ! k) ! i)) arg fw =
         ot_handler (tabs ! k) fw 0 (int i) arg"
  by (rule dispatch_long [OF assms])

definition demo_table :: "cstr \<Rightarrow> fwts_options_table" where
  "demo_table n = \<lparr>ot_options = [fw_option n [] 0 []], ot_num_options = 1,
                   ot_handler = (\<lambda>fw c i arg. (i, fw\<lparr>klog := Some n\<rparr>)), ot_check = None\<rparr>"

theorem long_option_owner_witness:
  "args_dispatch [demo_table ''s3'', demo_table ''s4''] 0 ''s4'' [] demo_fw = (0, demo_fw\<lparr>klog := Some ''s4''\<rparr>)"
  using long_option_owner [of "[demo_table ''s3'', demo_table ''s4'']" 1 0 "[]" demo_fw]
  by (simp add: demo_table_def all_options_def fw_option_def)

text \<open>A list of tests to skip is accepted exactly when each of its names is that of a registered
  test; the tests named, up to the first unknown name, are added to those to skip in order.\<close>

theorem skip_list:
  assumes "alloc_ok fw 16"
  shows "fwts_framework_skip_test_parse tests arg fw =
           (let known = takeWhile (\<lambda>n. fwts_framework_test_find tests n \<noteq> None) (comma_tokens arg)
            in (if known = comma_tokens arg then FWTS_OK else FWTS_ERROR,
                fw\<lparr>tests_to_skip := tests_to_skip fw @
                     map (\<lambda>n. test_id (the (fwts_framework_test_find tests n))) known\<rparr>))"
proof -
  have "length (takeWhile P xs) = length xs \<longleftrightarrow> takeWhile P xs = xs" for P and xs :: "cstr list"
    by (metis takeWhile_eq_take take_all_iff order_refl)
  then show ?thesis
    using skip_test_loop_spec [OF assms] by (simp add: fwts_framework_skip_test_parse_def Let_def)
qed

theorem skip_list_witness:
  "fwts_framework_skip_test_parse demo_tests ''two,three'' demo_fw = (FWTS_ERROR, demo_fw\<lparr>tests_to_skip := [2]\<rparr>)"
proof -
  have "comma_tokens ''two,three'' = [''two'', ''three'']" by code_simp
  moreover have "tests_to_skip demo_fw = []" by (simp add: demo_fw_defs)
  ultimately show ?thesis
    using skip_list [OF demo_alloc, of demo_tests "''two,three''"]
    by (simp add: fwts_framework_test_find_def demo_tests_def demo_test_def)
qed

text \<open>With the option log-level a failure is reported exactly when its level is at least as severe
  as the one named.\<close>

theorem log_level_filter:
  assumes "i < 5" and "j < 5"
  shows "fst (fwts_framework_ll_parse (fst (log_levels ! i)) fw) = FWTS_OK \<and>
         (FWTS_LEVEL_IGNORE (filter_level (snd (fwts_framework_ll_parse (fst (log_levels ! i)) fw)))
            ([LOG_LEVEL_CRITICAL, LOG_LEVEL_HIGH, LOG_LEVEL_MEDIUM, LOG_LEVEL_LOW, LOG_LEVEL_INFO] ! j) \<longleftrightarrow> i < j)"
proof -
  have "i = 0 \<or> i = 1 \<or> i = 2 \<or> i = 3 \<or> i = 4" using assms(1) by auto
  then have "map_of log_levels (fst (log_levels ! i)) = Some (snd (log_levels ! i))"
    by (elim disjE) (simp_all add: log_levels_def)
  then show ?thesis using log_levels_reported [OF assms] by (simp add: fwts_framework_ll_parse_def)
qed

theorem log_level_filter_witness:
  "FWTS_LEVEL_IGNORE (filter_level (snd (fwts_framework_ll_parse ''high'' demo_fw))) LOG_LEVEL_MEDIUM"
  using log_level_filter [of 1 2 demo_fw] by (simp add: log_levels_def)

section \<open>Json\<close>

text \<open>C9: An object of the format (members that are strings or non-empty arrays of such objects, with
  keys free of quotes, and no backslash or NUL in keys and strings, each below 4096 characters),
  written to a file, is read back as it was.\<close>

theorem json_round_trip:
  assumes "obj_ok x" and "no_ints x" and "fs f = Some (json_object_to_json_string x)"
  shows "json_object_from_file fs f = Some x"
  using parse_written [OF assms(1), of f] assms(3) reread_no_ints [OF assms(2)]
  by (simp add: json_object_from_file_def)

theorem json_round_trip_witness:
  "json_object_from_file (\<lambda>_. Some (json_object_to_json_string
     (JObject None [JArray (Some ''log'') [JObject None [JString (Some ''text'') ''a, b'']]]))) ''f'' =
   Some (JObject None [JArray (Some ''log'') [JObject None [JString (Some ''text'') ''a, b'']]])"
  by (rule json_round_trip) (simp_all add: json_key_def json_text_def json_chars)

text \<open>A number is not read back as it was: json_get_int() starts after the digit json_get_token()
  has consumed, so every positive number comes back smaller, its first digit missing.\<close>

theorem json_number_loses_digit:
  assumes "json_key (Some k)" and "0 < v" and "v < 2 ^ 31"
    and "fs f = Some (json_object_to_json_string (JObject None [JInt (Some k) v]))"
  shows "\<exists>w. json_object_from_file fs f = Some (JObject None [JInt (Some k) w]) \<and> w < v"
proof -
  have "obj_ok (JObject None [JInt (Some k) v])" using assms by simp
  from parse_written [OF this, of f] show ?thesis
    using assms(4) reread_int_less [OF assms(2,3)] by (simp add: json_object_from_file_def)
qed

theorem json_number_loses_digit_witness:
  "\<exists>w. json_object_from_file (\<lambda>_. Some (json_object_to_json_string (JObject None [JInt (Some ''line'') 123]))) ''f'' =
       Some (JObject None [JInt (Some ''line'') w]) \<and> w < 123"
  by (rule json_number_loses_digit) (simp_all add: json_key_def json_text_def json_chars)

text \<open>C10: The parser ends on every file: two units of fuel per character and one more are enough, and
  more fuel never changes the result.\<close>

theorem json_parser_ends:
  assumes "2 * length cs + 1 \<le> n"
  shows "json_parse_object n cs \<noteq> PFuel \<and> json_parse_object n cs = json_parse_object (2 * length cs + 1) cs"
  using parse_fuel(1) [OF assms] json_enough [of n] assms unfolding parse_object_def by blast

theorem json_parser_ends_witness: "json_parse_object 9 ''[{}'' \<noteq> PFuel"
proof -
  have "2 * length ''[{}'' + 1 \<le> 9" by simp
  from json_parser_ends [OF this] show ?thesis by blast
qed

text \<open>The parser accepts malformed arrays and objects: array elements without a comma between them
  give the array with both, while the empty array is refused, and a member whose value is a
  closing bracket is dropped without an error.\<close>

theorem json_missing_comma:
  "json_parse_object 40 ''{\"k\":[{}{}]}'' =
     POk (JObject None [JArray (Some ''k'') [JObject None [], JObject None []]]) [] \<and>
   json_parse_object 40 ''{\"k\":[]}'' = PFail \<and>
   json_parse_object 40 ''{\"k\":]}'' = POk (JObject None []) []"
  by code_simp

text \<open>A backslash is written unescaped and read as the start of an escape: the two characters
  backslash and n come back as a newline.\<close>

theorem json_backslash:
  "json_get_string [] (str_escape [BACKSLASH, CHR ''n''] @ QUOTE # r) = (TString [NL], r)"
  by (rule backslash_lost)

text \<open>What is added to an object under a new key is found under it; other keys keep their values,
  and so does a key that was there before (the first member of a key wins).\<close>

theorem json_get_after_add:
  assumes "obj = JObject k xs"
  shows "json_object_object_get (Some (json_object_object_add obj key v)) key' =
     (case json_object_object_get (Some obj) key' of
        Some w \<Rightarrow> Some w
      | None \<Rightarrow> if key' = key then Some (set_key key v) else None)"
  using assms object_get_add [of k xs key v] object_get_add_other [of key' key obj v]
    object_get_first [of k xs key _ v]
  by (auto split: option.split)

theorem json_get_after_add_witness:
  "json_object_object_get (Some (json_object_object_add (JObject None [JInt (Some ''a'') 1]) ''b'' (JInt None 2))) ''b'' =
     Some (JInt (Some ''b'') 2)"
  using json_get_after_add [of _ None "[JInt (Some ''a'') 1]" "''b''" "JInt None 2" "''b''"]
  by (simp add: json_object_object_get_def)

section \<open>Registration, results and the summary\<close>

text \<open>Registering a test keeps the registry sorted by priority and adds exactly that test to it,
  with its minor tests counted.\<close>

theorem registry_order:
  assumes "fwts_framework_test_add mem i name ops p fl ff (tests, tabs) = Some (tests', tabs')"
    and "sorted (map test_priority tests)"
  shows "sorted (map test_priority tests') \<and>
         (\<exists>t. mset tests' = add_mset t (mset tests) \<and> test_name t = name \<and> test_id t = i \<and>
              ops_total_tests (test_ops t) = int (length (ops_minor_tests ops)))"
  by (rule test_add_sorted [OF assms])

theorem registry_order_witness:
  "sorted (map test_priority (fst (the (fwts_framework_test_add (\<lambda>_. True) 3 ''early'' demo_ops FWTS_TEST_EARLY
     FWTS_FLAG_BATCH 0 (demo_tests, [])))))"
proof -
  obtain tests' where t: "fwts_framework_test_add (\<lambda>_. True) 3 ''early'' demo_ops FWTS_TEST_EARLY
     FWTS_FLAG_BATCH 0 (demo_tests, []) = Some (tests', [])"
    by (simp add: fwts_framework_test_add_def Let_def FWTS_FLAG_RUN_ALL_value demo_ops_def)
  have "sorted (map test_priority demo_tests)" by (simp add: demo_tests_def demo_test_def)
  with registry_order [OF t] t show ?thesis by simp
qed

text \<open>C11: The ordered insertion into the linked list (new link, slot found through the pointer to a
  pointer, tail and length updated) gives a well-formed list whose contents are those of the
  insertion into a sequence: before the first element that does not compare as smaller.\<close>

theorem ordered_list_refines:
  assumes "list_rep h l ps" and "brk h < limit h"
  shows "\<exists>h' l' ps'. fwts_list_add_ordered h l d cmp = Some (h', l', Some (brk h)) \<and>
           list_rep h' l' ps' \<and>
           map snd ps' = takeWhile (\<lambda>x. cmp x d < 0) (map snd ps) @ d # dropWhile (\<lambda>x. cmp x d < 0) (map snd ps)"
  using add_ordered_ins_ordered [OF assms, of d cmp] by (auto simp: ins_ordered_def)

theorem ordered_list_refines_witness:
  "\<exists>h' l' ps'. fwts_list_add_ordered (empty_heap 1) fwts_list_init (7 :: int) (\<lambda>a b. a - b) = Some (h', l', Some 0) \<and>
     list_rep h' l' ps' \<and> map snd ps' = [7]"
  using ordered_list_refines [of "empty_heap 1" fwts_list_init "[]" "7 :: int" "\<lambda>a b. a - b"]
  by (simp add: empty_heap_def [symmetric]) (simp add: empty_heap_def)

text \<open>Freeing the items of a well-formed list ends, hands every datum to the destructor once, in
  order, frees exactly the links of the list, and touches no other cell.\<close>

theorem list_freed:
  assumes "list_rep h l ps"
  shows "\<exists>h'. free_links h (lhead l) = Some (h', map snd ps) \<and>
           (\<forall>a. cells h' a = (if a \<in> fst ` set ps then None else cells h a))"
  using assms by (intro free_links_lseg) (simp_all add: list_rep_def)

theorem list_freed_witness:
  "\<exists>h'. free_links (empty_heap 1 :: int lheap) (lhead fwts_list_init) = Some (h', []) \<and> (\<forall>a. cells h' a = None)"
  using list_freed [of "empty_heap 1 :: int lheap" fwts_list_init "[]"]
  by (simp add: empty_heap_def [symmetric]) (simp add: empty_heap_def)

text \<open>The counters of a minor test after a sequence of reports are, in each category, the number
  of its reports that the level and label filters let through: nothing else changes them.\<close>

theorem report_counts:
  "minor_tests (run_reports name_of msg i rs fw) =
     (let n = (\<lambda>c. of_nat (count_reports (\<lambda>r. counter_of r = Some c \<and> counted fw r) rs)); r0 = minor_tests fw in
      r0\<lparr>passed := passed r0 + n CPassed, failed := failed r0 + n CFailed, aborted := aborted r0 + n CAborted,
         warning := warning r0 + n CWarning, skipped := skipped r0 + n CSkipped, infoonly := infoonly r0 + n CInfoonly\<rparr>)"
  by (simp add: run_reports_counters add_reports_value Let_def)

text \<open>The buffer of 128 characters in which the results of a test are formatted is never too small:
  the text is complete, whatever the counters, and at most 119 characters long.\<close>

theorem results_line:
  "fwts_framework_format_results 128 r True = results_text r \<and> length (results_text r) \<le> 119"
  by (simp add: format_results_text results_text_length)

text \<open>A failure whose text does not end in blanks or newlines is listed in the summary of its level
  once, however often it is added, and the other levels are left alone.\<close>

theorem summary_texts:
  assumes "summary_inv fw" and "fwts_chop_newline txt = txt"
  shows "summary_inv (snd (fwts_summary_add test level txt fw)) \<and>
         (\<forall>i. i \<noteq> fwts_summary_level_to_index level \<longrightarrow>
            summaries (snd (fwts_summary_add test level txt fw)) i = summaries fw i)"
  using summary_add_inv [OF assms] summary_add_other_levels by blast

theorem summary_texts_witness:
  "summary_inv (snd (fwts_summary_add ''acpi'' LOG_LEVEL_HIGH ''bad table'' (demo_fw\<lparr>summaries := \<lambda>_. []\<rparr>)))"
proof -
  have "summary_inv (demo_fw\<lparr>summaries := \<lambda>_. []\<rparr>)" by (simp add: summary_inv_def)
  moreover have "fwts_chop_newline ''bad table'' = ''bad table''" by code_simp
  ultimately show ?thesis using summary_texts by blast
qed

text \<open>A failure whose text ends in blanks or newlines is listed again each time it is added: the
  text stored is chopped, the one searched for is not.\<close>

theorem summary_duplicates:
  assumes "\<not> FWTS_LEVEL_IGNORE (filter_level fw) level" and "\<forall>n. alloc_ok fw n"
    and "\<forall>it \<in> set (summaries fw (fwts_summary_level_to_index level)). si_text it \<noteq> txt"
    and "fwts_chop_newline txt \<noteq> txt"
  shows "summaries (snd (fwts_summary_add t level txt (snd (fwts_summary_add t level txt fw))))
           (fwts_summary_level_to_index level) =
         summaries fw (fwts_summary_level_to_index level) @
           replicate 2 \<lparr>si_test = t, si_text = fwts_chop_newline txt\<rparr>"
  by (rule summary_add_repeats [OF assms])

theorem summary_duplicates_witness:
  "length (summaries (snd (fwts_summary_add ''madt'' LOG_LEVEL_HIGH [CHR ''x'', NL]
     (snd (fwts_summary_add ''madt'' LOG_LEVEL_HIGH [CHR ''x'', NL] demo_fw)))) 1) = 2"
proof -
  have "fwts_summary_level_to_index LOG_LEVEL_HIGH = 1" by code_simp
  moreover have "fwts_chop_newline [CHR ''x'', NL] \<noteq> [CHR ''x'', NL]" by code_simp
  moreover have "\<not> FWTS_LEVEL_IGNORE (filter_level demo_fw) LOG_LEVEL_HIGH" "\<forall>n. alloc_ok demo_fw n"
    "summaries demo_fw 1 = []"
    by (simp_all add: demo_fw_defs demo_env_def FWTS_LEVEL_IGNORE_def)
  ultimately show ?thesis using summary_duplicates [of demo_fw LOG_LEVEL_HIGH "[CHR ''x'', NL]" "''madt''"]
    by simp
qed

section \<open>Strings and logs\<close>

text \<open>A GUID formatted as a string and scanned back is the same sixteen bytes, in the mixed byte
  order of the format.\<close>

theorem guid_round_trip:
  assumes "length guid = 16" and "length buf = 16" and "36 < n" and "16 \<le> m"
    and "fwts_guid_buf_to_str guid n = Some s"
  shows "fwts_guid_str_to_buf s buf m = guid"
  by (rule guid_roundtrip [OF assms])

theorem guid_round_trip_witness:
  "fwts_guid_str_to_buf (the (fwts_guid_buf_to_str (replicate 16 7) 37)) (replicate 16 0) 16 = replicate 16 7"
proof -
  obtain s where "fwts_guid_buf_to_str (replicate 16 7) 37 = Some s"
    by (simp add: fwts_guid_buf_to_str_def)
  with guid_round_trip [of "replicate 16 7" "replicate 16 0" 37 16 s] show ?thesis by simp
qed

text \<open>The checksum of the first n bytes is their sum modulo 256.\<close>

theorem checksum_adds: "fwts_checksum data n = sum_list (take n data)"
  by (rule checksum_sum)

text \<open>Breaking a text into lines of a width loses and reorders nothing but white space.\<close>

theorem format_keeps_text: "ink (concat (fwts_format_text s width)) = ink s"
  by (rule format_text_ink)

text \<open>The name of a log file depends on the stem of the given name only: giving the name of the log
  of one type for a log of another type exchanges the suffix.\<close>

theorem log_file_names:
  assumes "\<not> special filename" and "fwts_log_filename special (\<lambda>_. True) filename t = Some n" and "\<not> special n"
  shows "fwts_log_filename special (\<lambda>_. True) n t' = fwts_log_filename special (\<lambda>_. True) filename t'"
  by (rule log_filename_retype [OF assms])

theorem log_file_names_witness:
  "fwts_log_filename (\<lambda>_. False) (\<lambda>_. True) ''results.xml'' LOG_TYPE_HTML =
   fwts_log_filename (\<lambda>_. False) (\<lambda>_. True) ''results'' LOG_TYPE_HTML"
proof -
  have "fwts_log_filename (\<lambda>_. False) (\<lambda>_. True) ''results'' LOG_TYPE_XML = Some ''results.xml''" by code_simp
  from log_file_names [OF _ this] show ?thesis by simp
qed

text \<open>The option log-filter works on the set of enabled log fields token by token, from the left: a
  name adds its fields, a name after a caret or a tilde removes them, and an unknown name does
  nothing.\<close>

theorem log_filter_option:
  "bits_of (log_filter (fwts_log_set_field_filter str g)) =
     fold (\<lambda>t S. case t of
                   [] \<Rightarrow> S
                 | c # cs \<Rightarrow> if c = CHR ''^'' \<or> c = CHR ''~'' then S - bits_of (fwts_log_str_to_field cs)
                            else S \<union> bits_of (fwts_log_str_to_field t))
       (c_strtok (\<lambda>c. c = CHR '','' \<or> c = CHR ''|'') str) (bits_of (log_filter g))"
proof -
  have "token_bits = (\<lambda>t S. case t of
                   [] \<Rightarrow> S
                 | c # cs \<Rightarrow> if c = CHR ''^'' \<or> c = CHR ''~'' then S - bits_of (fwts_log_str_to_field cs)
                            else S \<union> bits_of (fwts_log_str_to_field t))"
    by (rule ext, rule ext) (simp split: list.split)
  then show ?thesis by (simp add: set_field_filter_bits)
qed

section \<open>Logs and their patterns\<close>

definition demo_rx :: regex_lib where
  "demo_rx = \<lparr>re_comp = (\<lambda>p. 0),
              re_exec = (\<lambda>p s. case ere_atoms p of
                 Some as \<Rightarrow> if ere_search as s then REG_OK else REG_NOMATCH | None \<Rightarrow> REG_NOMATCH)\<rparr>"

lemma demo_rx_plain: "regex_plain demo_rx"
  by (simp add: regex_plain_def demo_rx_def)

definition demo_objects :: json_object where
  "demo_objects = JObject None [JArray (Some ''firmware_error_warning_patterns'')
     [JObject None [JString (Some ''compare_mode'') ''string'', JString (Some ''log_level'') ''HIGH'',
        JString (Some ''pattern'') ''ACPI Error'', JString (Some ''advice'') [], JString (Some ''label'') ''KlogAcpi'']]]"

definition demo_json :: cstr where
  "demo_json = json_object_to_json_string demo_objects"

definition demo_pattern :: fwts_log_pattern where
  "demo_pattern = \<lparr>lp_compare_mode = FWTS_COMPARE_STRING, lp_level = LOG_LEVEL_HIGH, lp_pattern = ''ACPI Error'',
                   lp_advice = [], lp_label = ''KlogAcpi'', lp_compiled_ok = False\<rparr>"

lemma demo_json_parsed: "json_object_from_file (\<lambda>_. Some demo_json) f = Some demo_objects"
proof -
  have "obj_ok demo_objects" by (simp add: demo_objects_def json_key_def json_text_def json_chars)
  moreover have "reread demo_objects = demo_objects" by (rule reread_no_ints) (simp add: demo_objects_def)
  ultimately show ?thesis using parse_written [of demo_objects f]
    by (simp add: json_object_from_file_def demo_json_def)
qed

lemma demo_patterns: "klog_patterns demo_rx (\<lambda>_. Some demo_json) demo_fw = Some [demo_pattern]"
  by (simp add: klog_patterns_def demo_json_parsed demo_objects_def json_object_object_get_def
      json_object_array_length_def json_object_array_get_idx_def load_pattern_def fwts_json_str_def
      json_object_get_string_def fwts_log_compare_mode_str_to_val_def fwts_log_str_to_level_def
      demo_pattern_def demo_rx_def c_strstr.simps Let_def)

definition demo_log :: "cstr list" where
  "demo_log = [''[    1.000000] ACPI Error: bad'', ''[    2.000000] ACPI Error: bad'', ''<6>ok'']"

lemma demo_log_strips: "\<forall>l \<in> set demo_log. fwts_log_remove_timestamp l \<noteq> None"
  by code_simp

text \<open>C12: The scan of a log looks at every text once: the lines it keeps stand for the texts of the
  log, without time stamps and without empty ones, in the order in which they first occur, and the
  repetitions it reports with a line are the further occurrences of its text.\<close>

theorem log_reduced:
  assumes "reduce_log rt log [] = Some red"
  shows "map (reduced_text rt) red = first_texts (log_texts rt log) \<and>
    (\<forall>r \<in> set red. Suc (snd r) = count_list (log_texts rt log) (reduced_text rt r) \<and> fst r \<in> set log)"
  using reduce_log_spec [OF assms] by (auto simp: reduced_rep_def)

theorem log_reduced_witness:
  "map (reduced_text True) [(''[    1.000000] ACPI Error: bad'', 1), (''<6>ok'', 0)] = first_texts (log_texts True demo_log)"
proof -
  have "reduce_log True demo_log [] = Some [(''[    1.000000] ACPI Error: bad'', 1), (''<6>ok'', 0)]" by code_simp
  from log_reduced [OF this] show ?thesis by blast
qed

text \<open>The scan of a log without its time stamps stays inside its lines unless a line is a single
  opening angle bracket, or ends, after its priority, with the bracket that closes its time stamp
  (or is that bracket): there the pointer is moved behind the end of the line.\<close>

theorem log_scan_pointer:
  "fwts_log_scan (Some log) f True = None \<longleftrightarrow>
     (\<exists>l \<in> set log. l = ''<'' \<or> (\<exists>ptr. skip_priority l = Some ptr \<and>
        (ptr = '']'' \<or> (\<exists>stamp. CHR '']'' \<notin> set stamp \<and> ptr = ''['' @ stamp @ '']''))))"
  unfolding log_scan_None by (simp only: remove_timestamp_None)

text \<open>C13: The kernel log test reports, for every different text of the log in turn, a failure with the
  level and the label of the first pattern that matches it (none if its level is that of
  information) and an advice; and it passes exactly if no such failure is left after the filters of
  errors.\<close>

theorem klog_test_verdict:
  assumes "klog_patterns rx fs fw = Some ps" and "\<forall>l \<in> set log. fwts_log_remove_timestamp l \<noteq> None"
  shows "\<exists>outs. klog_test1 rx fs fw (Some log) = Some (FWTS_OK, outs) \<and>
     reports_of outs = concat (map (\<lambda>l. match_reports (first_match rx ps l)) (unique_lines log)) @
       (if \<exists>l \<in> set (unique_lines log). match_error fw (first_match rx ps l) then [] else [Passed])"
  by (rule klog_verdict [OF assms])

theorem klog_test_verdict_witness:
  "\<exists>outs. klog_test1 demo_rx (\<lambda>_. Some demo_json) demo_fw (Some demo_log) = Some (FWTS_OK, outs) \<and>
     reports_of outs = [Failed LOG_LEVEL_HIGH ''KlogAcpi'', Advice]"
proof -
  have u: "unique_lines demo_log = [''[    1.000000] ACPI Error: bad'', ''ok'']" by code_simp
  have "\<not> fwts_error_filtered_out demo_fw ''KlogAcpi''" by (simp add: fwts_error_filtered_out_def demo_fw_defs demo_env_def)
  moreover have "first_match demo_rx [demo_pattern] ''[    1.000000] ACPI Error: bad'' = Some demo_pattern"
    "first_match demo_rx [demo_pattern] ''ok'' = None" by code_simp+
  ultimately show ?thesis using klog_test_verdict [OF demo_patterns demo_log_strips]
    by (simp add: u match_error_def match_reports_def demo_pattern_def)
qed

text \<open>When lines are added to a log whose last line occurs once, the changes found are the lines
  added; but of an empty log nothing is found to have changed, whatever is added.\<close>

theorem log_changes:
  assumes "last old \<notin> set (butlast old)"
  shows "fwts_log_find_changes (Some old) (Some (old @ added)) = Some (if old = [] then [] else added)"
  using find_changes_added [OF _ assms] by (simp add: fwts_log_find_changes_def)

theorem log_changes_witness: "fwts_log_find_changes (Some [''a'', ''b'']) (Some ([''a'', ''b''] @ [''c''])) = Some [''c'']"
proof -
  have "last [''a'', ''b''] \<notin> set (butlast [''a'', ''b''])" by simp
  from log_changes [OF this, of "[''c'']"] show ?thesis by simp
qed

text \<open>Reading a text file gives back its lines if each ends with a newline and fits the buffer; if
  the last one has no newline, it loses its last character.\<close>

theorem text_file_lines:
  assumes "\<forall>l \<in> set (ls @ [rest]). NL \<notin> set l \<and> length l < 8191"
  shows "fwts_file_read (concat (map (\<lambda>l. l @ [NL]) ls) @ rest) = ls @ (if rest = [] then [] else [butlast rest])"
  using file_read_lines [of ls rest] file_read_last [of rest] assms by simp

theorem text_file_lines_witness: "fwts_file_read (''one'' @ [NL] @ ''two'') = [''one'', ''tw'']"
proof -
  have "\<forall>l \<in> set ([''one''] @ [''two'']). NL \<notin> set l \<and> length l < 8191" by (simp add: NL_def)
  from text_file_lines [OF this] show ?thesis by simp
qed

section \<open>Memory types\<close>

definition demo_message :: cstr where
  "demo_message = ''SYSCFG[MtrrFixDramModEn] not cleared by BIOS, clearing this bit''"

definition demo_mtrr :: mtrr_state where
  "demo_mtrr = mtrr_state_init\<lparr>
     mtrr_list := [\<lparr>me_reg = 0, me_start = 0, me_end = 0x7fffffff, me_size = 0x80000000, me_type = 2\<rparr>],
     mtrr_default := 1, amd_tom2_addr := 0x100000000, mtrr_klog := Some [demo_message],
     mtrr_vendor := Some ''AuthenticAMD''\<rparr>"

definition demo_mtrr_env :: mtrr_env where
  "demo_mtrr_env = \<lparr>env_proc_mtrr = Some [], env_proc_iomem = Some [''00001000-0009ffff : System RAM''],
     env_mtrr_access = True, env_readmsr = (\<lambda>r. if r = MTRR_DEF_TYPE_MSR then Some 0xc00 else None),
     env_pci_config = (\<lambda>_. None), env_klog = Some [], env_cpu_vendor = Some None, env_regex = demo_rx\<rparr>"

text \<open>C14: The cache types found for a range are those of the registers it overlaps, and the default type
  if and only if some address of the range is in no register (for registers and ranges that end
  on page borders; here even and odd addresses are enough), except where the second top of memory
  of an AMD processor forces write-back.\<close>

theorem mtrr_range_types:
  assumes "\<forall>x \<in> set (mtrr_list s). aligned (me_start x) (me_end x) \<and> \<not> has_bits (ucast (me_type x)) DEFAULT"
    and "aligned start e" and "start \<le> e"
  shows "cache_types s start e =
    (let ty = overlap_types (mtrr_list s) start e;
         rest = (if mtrr_default s = ucast UNCACHED then DEFAULT else ucast (mtrr_default s))
     in if ty = 0 \<and> amd_Tom2ForceMemTypeWB s \<and> 0x100000000 \<le> start \<and> start \<le> amd_tom2_addr s then WRITE_BACK
        else if \<forall>a. start \<le> a \<and> a \<le> e \<longrightarrow> covered (mtrr_list s) a then ty else ty OR rest)"
  by (rule cache_types_value [OF assms])

theorem mtrr_range_types_witness: "cache_types demo_mtrr 0x1000 0x9ffff = WRITE_BACK"
proof -
  have "\<forall>x \<in> set (mtrr_list demo_mtrr). aligned (me_start x) (me_end x) \<and> \<not> has_bits (ucast (me_type x)) DEFAULT"
    by code_simp
  moreover have "aligned 0x1000 0x9ffff" by code_simp
  moreover have "overlap_types (mtrr_list demo_mtrr) 0x1000 0x9ffff = WRITE_BACK" by code_simp
  moreover have "covered (mtrr_list demo_mtrr) a" if "a \<le> 0x9ffff" for a
    using that by (auto simp: covered_def demo_mtrr_def elim: order.trans)
  ultimately show ?thesis using mtrr_range_types [of demo_mtrr "0x1000" "0x9ffff"] by simp
qed

text \<open>C15: Where the memory map is checked to its end, the test passes exactly if every range has the types
  it should: system memory write-back alone, prefetchable memory of a PCI device not write-back,
  other memory of a PCI device uncached alone; and a failure is reported exactly if some range
  has not.\<close>

theorem mtrr_verdict:
  assumes "mtrr_test1 env s = Some (FWTS_OK, outs, s')" and "env_proc_iomem env = Some lines"
  shows "(Passed \<in> set (reports_of outs) \<longleftrightarrow> (\<forall>r \<in> set (iomem_ranges 0 lines). range_ok env s' r)) \<and>
    ((\<exists>r \<in> set (reports_of outs). is_failed r) \<longleftrightarrow> (\<exists>r \<in> set (iomem_ranges 0 lines). \<not> range_ok env s' r))"
  using assms validate_loop_verdict [of env s' lines 0 0 outs]
  by (auto simp: mtrr_test1_def validate_iomem_def Let_def split: option.splits prod.splits)

lemma demo_iomem: "iomem_line 0 ''00001000-0009ffff : System RAM'' = (0, Some (0x1000, 0x9ffff, ''System RAM''))"
proof -
  have "fwts_chop_newline ''00001000-0009ffff : System RAM'' = ''00001000-0009ffff : System RAM''" by code_simp
  moreover have "fst (c_strtoull 16 ''00001000-0009ffff : System RAM'') = 0x1000" and "fst (c_strtoull 16 ''0009ffff : System RAM'') = 0x9ffff"
    by (simp_all add: c_strtoull_def c_sign_def c_prefix16_def radix_run_def radix_val_def digit_value_def isdigit_def isspace_def)
  moreover have "c_strstr ''00001000-0009ffff : System RAM'' '': PCI Bus '' = None"
    and "c_strstr ''00001000-0009ffff : System RAM'' '' : '' = Some '' : System RAM''" by code_simp+
  moreover have "c_strchr ''00001000-0009ffff : System RAM'' CHR ''-'' = Some ''-0009ffff : System RAM''" by code_simp
  ultimately show ?thesis by (simp add: iomem_line_def pci_depth_def)
qed

theorem mtrr_verdict_witness:
  "list_all (range_ok demo_mtrr_env demo_mtrr) (iomem_ranges 0 [''00001000-0009ffff : System RAM''])"
proof -
  have types: "multi_types_check (cache_types demo_mtrr 0x1000 0x9ffff) = (WRITE_BACK, [])" by code_simp
  have "c_strstr ''System RAM'' ''System RAM'' \<noteq> None" by code_simp
  then have guess: "guess_cache_type demo_mtrr_env ''System RAM'' 0x1000 = (FWTS_OK, WRITE_BACK, NOT WRITE_BACK, [])"
    by (simp add: guess_cache_type_def)
  have bits: "has_bits WRITE_BACK (NOT WRITE_BACK) = False" "has_bits WRITE_BACK DEFAULT = False" by code_simp+
  have "range_check demo_mtrr_env demo_mtrr 0x1000 0x9ffff ''System RAM'' = (FWTS_OK, 0, [])"
    unfolding range_check_def types guess Let_def prod.case bits if_False by simp
  moreover have "get_default_mtrr demo_mtrr_env demo_mtrr = Some (FWTS_OK, demo_mtrr)" by code_simp
  moreover have lines: "env_proc_iomem demo_mtrr_env = Some [''00001000-0009ffff : System RAM'']" by (simp add: demo_mtrr_env_def)
  ultimately have "mtrr_test1 demo_mtrr_env demo_mtrr =
      Some (FWTS_OK, [Rep Passed ''Memory ranges seem to have correct attributes.''], demo_mtrr)"
    by (simp add: mtrr_test1_def validate_iomem_def demo_iomem)
  with lines show ?thesis using mtrr_verdict by (fastforce simp: list_all_iff)
qed

lemma demo_syscfg:
  "\<forall>n \<in> set [0..<length demo_message].
     is_prefix ''SYSCFG'' (drop n demo_message) \<longrightarrow> take 1 (drop 6 (drop n demo_message)) = ''[''"
  by code_simp

text \<open>The test for the MtrrFixDramModEn bit passes on every log in which SYSCFG is followed by an
  opening bracket wherever it occurs, as it is in the message of the kernel it looks for: the name
  in brackets is a bracket expression of the pattern and matches one character.\<close>

theorem syscfg_message_missed:
  assumes "regex_plain (env_regex env)" and "mtrr_vendor s = Some vendor" and "amd_or_hygon vendor"
    and "mtrr_klog s = Some log" and "\<forall>l \<in> set log. fwts_log_remove_timestamp l \<noteq> None"
    and "\<forall>l \<in> set log. \<forall>a c b. l = a @ ''SYSCFG'' @ c # b \<longrightarrow> c = CHR ''[''"
  shows "mtrr_test3 env s = Some (FWTS_OK, [Rep Passed ''No MtrrFixDramModEn error detected.''])"
  by (rule syscfg_passes [OF assms])

theorem syscfg_message_missed_witness:
  "mtrr_test3 demo_mtrr_env demo_mtrr = Some (FWTS_OK, [Rep Passed ''No MtrrFixDramModEn error detected.''])"
proof (rule syscfg_message_missed)
  show "regex_plain (env_regex demo_mtrr_env)" by (simp add: demo_mtrr_env_def demo_rx_plain)
  show "mtrr_vendor demo_mtrr = Some ''AuthenticAMD''" and "amd_or_hygon ''AuthenticAMD''" by code_simp+
  show "mtrr_klog demo_mtrr = Some [demo_message]" by (simp add: demo_mtrr_def)
  show "\<forall>l \<in> set [demo_message]. fwts_log_remove_timestamp l \<noteq> None" by code_simp
  show "\<forall>l \<in> set [demo_message]. \<forall>a c b. l = a @ ''SYSCFG'' @ c # b \<longrightarrow> c = CHR ''[''"
  proof (intro ballI allI impI)
    fix l a c b
    assume "l \<in> set [demo_message]" and "l = a @ ''SYSCFG'' @ c # b"
    then have m: "demo_message = a @ ''SYSCFG'' @ c # b" by simp
    have "length a < length demo_message" unfolding m by simp
    then have "length a \<in> set [0..<length demo_message]" by simp
    moreover have "drop (length a) demo_message = ''SYSCFG'' @ c # b" by (simp add: m)
    ultimately have "is_prefix ''SYSCFG'' (''SYSCFG'' @ c # b) \<longrightarrow> take 1 (drop 6 (''SYSCFG'' @ c # b)) = ''[''"
      using demo_syscfg by metis
    then show "c = CHR ''[''" by simp
  qed
qed

section \<open>The other logs\<close>

text \<open>The line number of a plain text log is the number of lines written, whatever is printed, wrapped,
  underlined or skipped, as long as the format, the owner and the clock contain no newline; so the number in
  the header of a line is that of the line, counted from zero.\<close>

theorem text_line_numbers:
  assumes "one_line g clock owner" and "EvUnderline NL \<notin> set evs"
    and "events (text_event g clock line_width owner) evs text_log_init = Some pl"
  shows "pl_line pl = word_of_nat (newlines (pl_out pl))"
  using text_events_numbered [OF assms(1,2) _ assms(3)] by (simp add: numbered_lines_def text_log_init_def)

theorem text_line_numbers_witness:
  "\<exists>pl. events (text_event (log_globals_init\<lparr>log_format := ''> ''\<rparr>) (\<lambda>n. (''01/02/26'', ''12:00:00'')) 80 (Some ''fwts''))
       [EvPrint LOG_INFO 0 [] None [] ''hello'', EvUnderline CHR ''='', EvNewline] text_log_init = Some pl \<and>
     pl_line pl = word_of_nat (newlines (pl_out pl))"
proof -
  let ?clock = "\<lambda>n. (''01/02/26'', ''12:00:00'')"
  let ?evs = "[EvPrint LOG_INFO 0 [] None [] ''hello'', EvUnderline CHR ''='', EvNewline]"
  define g where "g = log_globals_init\<lparr>log_format := ''> ''\<rparr>"
  have g: "log_format g = ''> ''" "log_filter g = NOT 0" by (simp_all add: g_def log_globals_init_def)
  have one: "one_line g ?clock (Some ''fwts'')" by (simp add: one_line_def NL_def g)
  have head: "fwts_log_header_plaintext g ?clock (Some ''fwts'') field level n pl =
      Some (take (n - 1) ''> '', 2, pl\<lparr>pl_ticks := pl_ticks pl + 1\<rparr>)" if "1 < n" for field level n pl
    using that by (simp add: fwts_log_header_plaintext_def g)
  have "text_event g ?clock 80 (Some ''fwts'') (hd ?evs) text_log_init \<noteq> None"
    using print_lines_total [of 2 g ?clock "Some ''fwts''"]
    by (simp add: text_event_def fwts_log_print_plaintext_def head TMPBUF_def Let_def g)
  then have "events (text_event g ?clock 80 (Some ''fwts'')) ?evs text_log_init \<noteq> None"
    by (auto simp: text_event_def fwts_log_underline_plaintext_def head Let_def)
  then show ?thesis using text_line_numbers [OF one, of ?evs 80] unfolding g_def by (auto simp: NL_def)
qed

text \<open>C16: The text of a message in the html log can open or close no tag, and decoding its entities gives the
  message back, byte for byte.\<close>

theorem html_text_round_trip:
  "html_decode (fwts_log_html_convert_ascii_str s) = s \<and>
   CHR ''<'' \<notin> set (fwts_log_html_convert_ascii_str s) \<and> CHR ''>'' \<notin> set (fwts_log_html_convert_ascii_str s)"
  by (simp add: html_decode_str html_no_markup)

text \<open>C17: The xml log of balanced sections (log_balanced: those of every run are) does not run over its stack, and
  as long as the texts logged contain no tags, every element of the document it writes is closed by its own
  end tag.\<close>

theorem xml_log_well_nested:
  assumes "plain_clock clock" and "list_all (\<lambda>ev. \<not> opens_closes ev \<and> xml_plain ev) evs" and "sec_run 63 0 evs = Some 0"
  shows "\<exists>xl. events (xml_event g clock) (EvOpen # evs @ [EvClose]) xml_log_init = Some xl \<and> scan_tags [] (xl_out xl) = Some []"
  using xml_log_nests [OF assms(1) _ assms(3)] assms(2) by (simp add: list_all_iff)

theorem xml_log_well_nested_witness:
  "\<exists>xl. events (xml_event log_globals_init (\<lambda>n. (''01/02/26'', ''12:00:00'')))
       (EvOpen # [EvBegin ''heading'', EvPrint LOG_INFO 0 [] None [] ''a > b'', EvEnd] @ [EvClose]) xml_log_init = Some xl \<and>
     scan_tags [] (xl_out xl) = Some []"
  by (rule xml_log_well_nested) (simp_all add: plain_clock_def tag_text_def xml_plain_def tag_name_def opens_closes_def)

lemma xml_text_not_escaped:
  "scan_tags [] (xl_out (fwts_log_print_xml log_globals_init (\<lambda>n. (''01/02/26'', ''12:00:00'')) LOG_INFO 0 [] None
     ''see </b>'' xml_log_init)) = None"
  by code_simp

text \<open>No html log is well nested, whatever is logged: opening it writes the end tag of a row right behind the
  start of the table.\<close>

theorem html_log_not_nested:
  assumes "events (html_event g) (EvOpen # evs) html_log_init = Some hl"
  shows "scan_tags [] (hl_out hl) = None"
  by (rule html_log_stuck [OF assms])

theorem html_log_not_nested_witness:
  "\<exists>hl. events (html_event log_globals_init) (EvOpen # [EvClose]) html_log_init = Some hl \<and> scan_tags [] (hl_out hl) = None"
proof -
  have "events (html_event log_globals_init) (EvOpen # [EvClose]) html_log_init \<noteq> None" by code_simp
  then show ?thesis using html_log_not_nested [of log_globals_init "[EvClose]"] by blast
qed

section \<open>ACPI tables\<close>

text \<open>C18: The cache of ACPI tables implements a list per name: whatever loaded the tables and completed them,
  fwts_acpi_find_table() gives the k-th table of a name in the order they were added, and nothing when there
  are fewer.\<close>

theorem table_lookup:
  assumes "slots_ok (tables st)" and "name \<noteq> []"
    and "fwts_acpi_find_table env fw name k st = Some (FWTS_OK, r, st')"
  shows "slots_ok (tables st') \<and>
    map_option (\<lambda>i. tables st' ! i) r =
      (if k < length (named_tables name st') then Some (named_tables name st' ! k) else None)"
proof -
  have "FWTS_ERROR \<noteq> FWTS_OK" by (simp add: FWTS_ERROR_def FWTS_OK_def)
  then have "slots_ok (tables st') \<and> r = lookup_name name k st'"
    using assms(1,3) load_slots [OF assms(1), of env fw]
    by (auto simp: fwts_acpi_find_table_def find_name_with_def find_table_with_def bind_eq_Some_conv
        split: acpi_table_load_state.splits if_splits)
  then show ?thesis using lookup_named [OF _ assms(2)] by simp
qed

definition demo_acpi :: acpi_state where
  "demo_acpi =
     (let (st, _) = fwts_acpi_add_table ''SSDT'' [1] 0x1000 1 FWTS_ACPI_TABLE_FROM_FILE acpi_state_start;
          (st, _) = fwts_acpi_add_table ''SSDT'' [2] 0x2000 1 FWTS_ACPI_TABLE_FROM_FILE st
      in st\<lparr>acpi_tables_loaded := ACPI_TABLES_LOADED_OK\<rparr>)"

definition demo_acpi_env :: acpi_env where
  "demo_acpi_env =
     \<lparr>env_phys = (\<lambda>a n. Unmapped), env_fs = (\<lambda>_. None), env_klog = None, env_intel = True, env_low_alloc = (\<lambda>_. True),
      env_scandir = (\<lambda>_. None), env_garbage = [], env_pointer = ''0x1000''\<rparr>"

lemma demo_acpi_slots: "slots_ok (tables demo_acpi)"
  by (simp add: demo_acpi_def split_beta Let_def add_table_slots slots_ok_start)

theorem table_lookup_witness:
  "\<exists>r st'. fwts_acpi_find_table demo_acpi_env demo_fw ''SSDT'' 1 demo_acpi = Some (FWTS_OK, r, st') \<and>
     map_option (\<lambda>i. tables st' ! i) r = Some (named_tables ''SSDT'' demo_acpi ! 1)"
proof -
  have "acpi_tables_loaded demo_acpi = ACPI_TABLES_LOADED_OK" by (simp add: demo_acpi_def split_beta Let_def)
  then have "fwts_acpi_find_table demo_acpi_env demo_fw ''SSDT'' 1 demo_acpi =
      Some (FWTS_OK, lookup_name ''SSDT'' 1 demo_acpi, demo_acpi)"
    by (simp add: fwts_acpi_find_table_def find_name_with_def find_table_with_def)
  moreover have "length (named_tables ''SSDT'' demo_acpi) = 2" by code_simp
  ultimately show ?thesis
    using table_lookup [OF demo_acpi_slots, of "''SSDT''" demo_acpi_env demo_fw 1] by fastforce
qed

text \<open>C19: When the tables are read from memory, no table is kept twice: whatever the root tables and the FADT
  point to, and if the load fails as well, the addresses in the cache are distinct.\<close>

theorem memory_addresses_distinct:
  assumes "acpi_table_path fw = None" and "acpi_table_acpidump_file fw = None"
    and "fst (fwts_acpi_load_tables_from_sysfs env acpi_state_start) \<noteq> FWTS_OK"
    and "fwts_acpi_load_tables env fw acpi_state_start = Some (ret, st)"
  shows "distinct (addresses (tables st))"
proof -
  have "addresses_ok acpi_state_start" by (simp add: addresses_ok_def slots_ok_start addresses_start)
  then show ?thesis using memory_addresses [OF assms] by (simp add: addresses_ok_def)
qed

definition demo_xsdt :: bytes where
  "demo_xsdt = bytes_of ''XSDT'' @ [52] @ replicate 31 0 @ [0, 0x30, 0, 0, 0, 0, 0, 0] @ [0, 0x30, 0, 0, 0, 0, 0, 0]"

definition demo_ssdt :: bytes where
  "demo_ssdt = bytes_of ''SSDT'' @ [36] @ replicate 31 0"

definition demo_rsdp :: bytes where
  "demo_rsdp = RSD_PTR @ replicate 7 0 @ [2] @ replicate 8 0 @ [0, 0x20] @ replicate 10 0"

definition demo_memory :: "u64 \<Rightarrow> nat \<Rightarrow> mapping" where
  "demo_memory a n =
     (if a = 0xe0000 then Mapped (take n demo_rsdp) else if a = 0x2000 then Mapped (take n demo_xsdt)
      else if a = 0x3000 then Mapped (take n demo_ssdt) else Unmapped)"

definition demo_memory_env :: acpi_env where
  "demo_memory_env = demo_acpi_env\<lparr>env_phys := demo_memory\<rparr>"

definition demo_root_fw :: fwts_framework where
  "demo_root_fw = demo_fw\<lparr>rsdp := 0xe0000, euid_root := True\<rparr>"

lemma demo_root_fields:
  "acpi_table_path demo_root_fw = None" "acpi_table_acpidump_file demo_root_fw = None" "euid_root demo_root_fw"
  "rsdp demo_root_fw = 0xe0000"
  by (simp_all add: demo_root_fw_def demo_fw_defs)

lemma demo_headers:
  "header_field (take 36 demo_xsdt) ''length'' = Some 52" "header_field demo_xsdt ''length'' = Some 52"
  "header_field (take 36 demo_ssdt) ''length'' = Some 36" "header_field demo_ssdt ''length'' = Some 36"
  "length demo_xsdt = 52" "length demo_ssdt = 36" "sizeof fwts_acpi_table_header = 36"
  "take 4 demo_ssdt \<noteq> bytes_of ''FACP''" "cname 4 demo_ssdt = ''SSDT''" "entries_of 8 (drop 36 demo_xsdt) = [0x3000, 0x3000]"
  "get demo_rsdp 0 fwts_acpi_table_rsdp ''xsdt_address'' = Some 0x2000"
  "get demo_rsdp 0 fwts_acpi_table_rsdp ''rsdt_address'' = Some 0"
  by code_simp+

lemma demo_table_loads:
  "fwts_acpi_load_table demo_memory_env 0x2000 = Some demo_xsdt" "fwts_acpi_load_table demo_memory_env 0x3000 = Some demo_ssdt"
  by (simp_all add: fwts_acpi_load_table_def demo_memory_env_def demo_memory_def demo_acpi_env_def demo_headers)

lemma demo_rsdp_loads: "fwts_acpi_get_rsdp demo_memory_env 0xe0000 acpi_state_start = (Some (demo_rsdp, 36), acpi_state_start)"
  by code_simp

lemma demo_sysfs:
  "fwts_acpi_load_tables_from_sysfs demo_memory_env st =
     (FWTS_ERROR, say (Err (''Could not find any ACPI tables in directory '' @ quoted ''/sys/firmware/acpi/tables'' @ ''.'' @ [NL])) st)"
  by (simp add: fwts_acpi_load_tables_from_sysfs_def fwts_acpi_load_tables_from_file_generic_def demo_memory_env_def demo_acpi_env_def)

lemma demo_added:
  "\<not> snd (fwts_acpi_add_table ''RSDP'' demo_rsdp 0xe0000 36 FWTS_ACPI_TABLE_FROM_FIRMWARE acpi_state_start)"
  "\<not> snd (fwts_acpi_add_table ''XSDT'' demo_xsdt 0x2000 52 FWTS_ACPI_TABLE_FROM_FIRMWARE
      (fst (fwts_acpi_add_table ''RSDP'' demo_rsdp 0xe0000 36 FWTS_ACPI_TABLE_FROM_FIRMWARE acpi_state_start)))"
  by code_simp+

lemma demo_say:
  "snd (fwts_acpi_add_table n t a l p (say out st)) = snd (fwts_acpi_add_table n t a l p st)"
  "fst (fwts_acpi_add_table n t a l p (say out st)) = say out (fst (fwts_acpi_add_table n t a l p st))"
  "fwts_acpi_get_rsdp demo_memory_env 0xe0000 (say out acpi_state_start) = (Some (demo_rsdp, 36), say out acpi_state_start)"
  using demo_rsdp_loads
  by (auto simp: fwts_acpi_add_table_def say_def split_beta fwts_acpi_get_rsdp_def split: mapping.splits if_splits)

lemma demo_load: "\<exists>st. fwts_acpi_load_tables demo_memory_env demo_root_fw acpi_state_start = Some (FWTS_OK, st)"
  unfolding fwts_acpi_load_tables_def load_tables_with_def [of demo_memory_env demo_root_fw "load_tables_with demo_memory_env demo_root_fw (\<lambda>st. None)"]
  by (simp add: demo_root_fields demo_sysfs load_tables_from_firmware_def find_rsdp_def demo_say demo_added split_beta Let_def
      load_root_def demo_headers demo_table_loads add_loaded_def FWTS_ERROR_def FWTS_OK_def)

theorem memory_addresses_distinct_witness:
  "\<exists>ret st. fwts_acpi_load_tables demo_memory_env demo_root_fw acpi_state_start = Some (ret, st) \<and> distinct (addresses (tables st))"
proof -
  have "fst (fwts_acpi_load_tables_from_sysfs demo_memory_env acpi_state_start) \<noteq> FWTS_OK"
    by (simp add: demo_sysfs FWTS_ERROR_def FWTS_OK_def)
  then show ?thesis
    using demo_load memory_addresses_distinct [OF demo_root_fields(1,2)] by blast
qed

text \<open>C20: What fwts --dump writes for tables with four-letter names and contents, fwts --dumpfile reads back:
  the same names, addresses and bytes, in the same order, with no message, whatever was in the line buffer.\<close>

theorem dump_round_trip:
  assumes "list_all dumpable ts" and "acpi_table_acpidump_file fw = Some f" and "env_fs env f = Some (dump_all ts)"
  shows "fwts_acpi_load_tables_from_acpidump env fw st = Some (FWTS_OK, fold add_dumped ts st)"
  using dump_loaded [of ts] assms
  by (simp add: list_all_iff fwts_acpi_load_tables_from_acpidump_def)

theorem dump_round_trip_witness:
  "fwts_acpi_load_tables_from_acpidump
     (demo_acpi_env\<lparr>env_fs := (\<lambda>_. Some (dump_all [(''SSDT'', 0x3000, [1, 2, 3]), (''HPET'', 0, [4])]))\<rparr>)
     (demo_fw\<lparr>acpi_table_acpidump_file := Some ''acpidump.log''\<rparr>) acpi_state_start =
   Some (FWTS_OK, fold add_dumped [(''SSDT'', 0x3000, [1, 2, 3]), (''HPET'', 0, [4])] acpi_state_start)"
  by (rule dump_round_trip) (simp_all add: dumpable_def NL_def)

text \<open>C21: The root tables that are made up for tables from files are valid: the bytes of each add up to zero,
  and their entries are the addresses of the tables in order, cut to 32 bits in the RSDT.\<close>

theorem fixup_root_tables:
  assumes "length oem = 8"
  shows "fwts_checksum (root_table ''RSDT'' 4 oem addrs) (36 + 4 * length addrs) = 0 \<and>
    fwts_checksum (root_table ''XSDT'' 8 oem addrs) (36 + 8 * length addrs) = 0 \<and>
    entries_of 4 (drop 36 (root_table ''RSDT'' 4 oem addrs)) = map (take_bit 32) addrs \<and>
    entries_of 8 (drop 36 (root_table ''XSDT'' 8 oem addrs)) = addrs"
proof -
  have "take_bit 64 a = a" for a :: u64 using take_bit_length_eq [of a] by simp
  then have "map (take_bit 64) addrs = addrs" by (intro map_idI)
  then show ?thesis
    using root_table_sum [of "''RSDT''" oem 4 addrs] root_table_sum [of "''XSDT''" oem 8 addrs] assms
    by (simp add: checksum_sum word_le_entries)
qed

theorem fixup_root_tables_witness:
  "fwts_checksum (root_table ''XSDT'' 8 [1, 2, 3, 4, 5, 6, 7, 8] [0x3000, 0x4000]) 52 = 0"
  using fixup_root_tables [of "[1, 2, 3, 4, 5, 6, 7, 8]" "[0x3000, 0x4000]"] by simp

text \<open>C22: A FADT without an address of the FACS, met while the tables are read from memory, makes the load
  use freed memory: the question whether the hardware is reduced starts the load again, from the RSDP that
  is in the cache already, so that its second copy is freed and then read.\<close>

theorem missing_facs:
  assumes "acpi_table_path fw = None" and "acpi_table_acpidump_file fw = None" and "euid_root fw"
    and "fst (fwts_acpi_load_tables_from_sysfs env st) \<noteq> FWTS_OK"
    and "slots_ok (tables st)" and "acpi_tables_loaded st = ACPI_TABLES_NOT_LOADED"
    and "find_rsdp env fw = Some addr" and "addr \<in> set (addresses (tables st))"
    and "fst (fwts_acpi_get_rsdp env addr st) \<noteq> None"
    and "facs_last_phys_addr st \<noteq> phys"
    and "header_field fadt ''length'' = Some len" and "44 \<le> len"
    and "get fadt 0 fwts_acpi_table_fadt ''firmware_control'' = Some 0"
    and "140 \<le> len \<Longrightarrow> get fadt 0 fwts_acpi_table_fadt ''x_firmware_ctrl'' = Some 0"
  shows "fwts_acpi_handle_fadt env (load_tables_with env fw load) phys fadt st = None"
  by (rule missing_facs_nested [OF assms])

theorem missing_facs_witness:
  "fwts_acpi_handle_fadt demo_memory_env (load_tables_with demo_memory_env demo_root_fw (\<lambda>st. None)) 0x3000
     (replicate 4 0 @ [44] @ replicate 39 0)
     (fst (fwts_acpi_add_table ''RSDP'' demo_rsdp 0xe0000 36 FWTS_ACPI_TABLE_FROM_FIRMWARE acpi_state_start)) = None"
proof -
  let ?st = "fst (fwts_acpi_add_table ''RSDP'' demo_rsdp 0xe0000 36 FWTS_ACPI_TABLE_FROM_FIRMWARE acpi_state_start)"
  let ?fadt = "replicate 4 0 @ [44] @ replicate 39 0 :: bytes"
  have "header_field ?fadt ''length'' = Some 44" "get ?fadt 0 fwts_acpi_table_fadt ''firmware_control'' = Some 0"
    "acpi_tables_loaded ?st = ACPI_TABLES_NOT_LOADED" "facs_last_phys_addr ?st = 0"
    "0xe0000 \<in> set (addresses (tables ?st))" "fst (fwts_acpi_get_rsdp demo_memory_env 0xe0000 ?st) \<noteq> None"
    by code_simp+
  moreover have "find_rsdp demo_memory_env demo_root_fw = Some 0xe0000" by (simp add: find_rsdp_def demo_root_fields)
  ultimately show ?thesis
    by (intro missing_facs [where addr = "0xe0000" and len = 44])
      (simp_all add: demo_root_fields demo_sysfs add_table_slots slots_ok_start FWTS_ERROR_def FWTS_OK_def)
qed

text \<open>An ACPI version out of range is refused by the first call of fwts_get_acpi_version(), which returns 0,
  but it has been kept, and every later call returns it.\<close>

theorem acpi_version_second_call:
  assumes "acpi_version st = 0" and "acpi_tables_loaded st = ACPI_TABLES_LOADED_OK"
    and "lookup_name ''FACP'' 0 st = Some i" and "table_at st i = Some fadt" and "version_of_fadt fadt = Some v"
    and "v \<noteq> 0" and "v > FWTS_ACPI_VERSION_NEXT \<or> v < FWTS_ACPI_VERSION_10"
  shows "\<exists>st'. fwts_get_acpi_version env fw st = Some (0, st') \<and> fwts_get_acpi_version env fw st' = Some (v, st')"
  by (rule version_cached [OF assms])

definition demo_fadt :: bytes where
  "demo_fadt = replicate 8 0 @ [7] @ replicate 124 0"

theorem acpi_version_second_call_witness:
  "\<exists>st'. fwts_get_acpi_version demo_acpi_env demo_fw
       (fst (fwts_acpi_add_table ''FACP'' demo_fadt 0x3000 133 FWTS_ACPI_TABLE_FROM_FILE acpi_state_start)
          \<lparr>acpi_tables_loaded := ACPI_TABLES_LOADED_OK\<rparr>) = Some (0, st') \<and>
     fwts_get_acpi_version demo_acpi_env demo_fw st' = Some (0x700, st')"
proof (rule acpi_version_second_call)
  let ?st = "fst (fwts_acpi_add_table ''FACP'' demo_fadt 0x3000 133 FWTS_ACPI_TABLE_FROM_FILE acpi_state_start)
    \<lparr>acpi_tables_loaded := ACPI_TABLES_LOADED_OK\<rparr>"
  show "acpi_version ?st = 0" by code_simp
  show "acpi_tables_loaded ?st = ACPI_TABLES_LOADED_OK" by code_simp
  show "lookup_name ''FACP'' 0 ?st = Some 0" by code_simp
  show "table_at ?st 0 = Some demo_fadt" by code_simp
  show "version_of_fadt demo_fadt = Some 0x700" by code_simp
qed (simp_all add: FWTS_ACPI_VERSION_NEXT_def)

section \<open>The MADT test\<close>

text \<open>C23: On a MADT whose subtables are each as long as they say and as their kind needs, beside a FADT, if there is
  one, of at least 131 bytes, the check ends and reads nothing outside the tables. It visits every subtable once, in
  order: its reports are that on the revision, then those of every subtable at its offset and, without --sbbr, those
  of the comparison of the I/O APICs with the I/O SAPICs, of which it has counted all. It leaves the tables and the
  processors found as they were.\<close>

theorem madt_checked:
  assumes "list_all complete_subtable subs" and "mtable m = hdr @ concat subs" and "length hdr = 44" and "madt_ready m"
    and "a = length (filter (\<lambda>s. s ! 0 = 1) subs)" and "b = length (filter (\<lambda>s. s ! 0 = 6) subs)"
  shows "\<exists>rs m'. each_subtable 44 subs (m, 0, 0) = Some (rs, m', a, b) \<and> madt_same m m' \<and>
    madt_subtables m = Some (pass_or (num_types (spec_data m) \<noteq> 0) (Failed LOG_LEVEL_MEDIUM ''SPECMADTRevision'') @ rs @
      (if madt_sbbr m then [] else madt_ioapic_sapic_compare m' a b), m')"
  using subtables_complete [of subs m hdr a b] assms by (simp add: list_all_iff)

text \<open>A Local APIC and a Local SAPIC.\<close>

definition demo_subtables :: "bytes list" where
  "demo_subtables = [[0, 8, 0, 0, 1, 0, 0, 0], [7, 18, 0, 0, 0, 0, 0, 0, 1, 0, 0, 0, 5, 0, 0, 0, 0x35, 0]]"

definition demo_madt :: madt where
  "demo_madt =
     \<lparr>mtable = replicate 44 0 @ [0, 8, 0, 0, 1, 0, 0, 0] @ [7, 18, 0, 0, 0, 0, 0, 0, 1, 0, 0, 0, 5, 0, 0, 0, 0x35, 0],
      ftable = None, spec_data = spec_info ! 5, fadt_major = 6, fadt_minor = 0, madt_sbbr = False, madt_arch = FWTS_ARCH_X86,
      madt_acpi_version = 0x600, msi_frame_ids = [], its_ids = [], processor_uids = [],
      madt_io_apics = replicate 256 False, madt_io_sapics = replicate 256 False, laao_count = 0\<rparr>"

theorem madt_checked_witness:
  "\<exists>rs m'. each_subtable 44 demo_subtables (demo_madt, 0, 0) = Some (rs, m', 0, 0) \<and> madt_same demo_madt m' \<and>
    madt_subtables demo_madt = Some (pass_or (num_types (spec_data demo_madt) \<noteq> 0) (Failed LOG_LEVEL_MEDIUM ''SPECMADTRevision'') @ rs @
      (if madt_sbbr demo_madt then [] else madt_ioapic_sapic_compare m' 0 0), m')"
proof (rule madt_checked)
  show "list_all complete_subtable demo_subtables"
    by (simp add: complete_subtable_def subtable_size_def demo_subtables_def) (rule exI [of _ 17], simp)
  show "mtable demo_madt = replicate 44 0 @ concat demo_subtables"
    by (simp add: demo_madt_def demo_subtables_def)
qed (simp_all add: madt_ready_def demo_madt_def demo_subtables_def)

text \<open>C24: Without --sbbr, and under a version of the specification that gives Local SAPICs a variable length, as all from
  ACPI 4.0 on, no Local SAPIC with a UID value below 65536 that is checked inside the table passes the test: its length is compared with 15 by the
  loop, which looks for the string in the upper half of the UID value, and with at least 16 by its handler.\<close>

theorem local_sapic_refused:
  assumes "madt_body off (m, a, b) = Some (rs, s', n)"
    and "get (mtable m) off fwts_acpi_madt_sub_table_header ''type'' = Some 7"
    and "get (mtable m) (off + 2) fwts_acpi_madt_local_sapic ''uid_value'' = Some v" and "unat v < 2 ^ 16"
    and "lengths (spec_data m) ! 7 = SUBTABLE_VARIABLE" and "\<not> madt_sbbr m"
  shows "Failed LOG_LEVEL_MEDIUM ''SPECMADTSubLen'' \<in> set rs \<or> Failed LOG_LEVEL_MEDIUM ''MADTLSAPICLength'' \<in> set rs"
  by (rule local_sapic_lengths [OF assms])

theorem local_sapic_refused_witness:
  "\<exists>rs s' n. madt_body 52 (demo_madt, 0, 0) = Some (rs, s', n) \<and>
     (Failed LOG_LEVEL_MEDIUM ''SPECMADTSubLen'' \<in> set rs \<or> Failed LOG_LEVEL_MEDIUM ''MADTLSAPICLength'' \<in> set rs)"
proof -
  have "madt_body 52 (demo_madt, 0, 0) \<noteq> None" by code_simp
  then obtain rs s' n where b: "madt_body 52 (demo_madt, 0, 0) = Some (rs, s', n)" by auto
  have "get (mtable demo_madt) 52 fwts_acpi_madt_sub_table_header ''type'' = Some 7"
    "get (mtable demo_madt) (52 + 2) fwts_acpi_madt_local_sapic ''uid_value'' = Some 5" 
    "lengths (spec_data demo_madt) ! 7 = SUBTABLE_VARIABLE" "\<not> madt_sbbr demo_madt"
    by code_simp+
  moreover have "unat (5 :: u64) < 2 ^ 16" by simp
  ultimately show ?thesis using local_sapic_refused [OF b] b by blast
qed

section \<open>ACPI objects\<close>

text \<open>A namespace with two thermal zones and a device, whose objects return the integer 1, with a log of what is evaluated.\<close>

definition demo_names :: "cstr list" where
  "demo_names = [''_TZ_.TZ00._SCP'', ''_SB_.PCI0._STA'', ''_SB_.PCI0'', ''_SB_.LID0._STA'']"

definition demo_namespace :: "(cstr \<times> ACPI_OBJECT list) list method_env" where
  "demo_namespace =
     \<lparr>object_names = Some demo_names, AcpiGetHandle = (\<lambda>parent name. AE_OK), AcpiGetType = (\<lambda>path. Some 8),
      AcpiEvaluateObject = (\<lambda>parent name args s.
        \<lparr>ev_status = AE_OK, ev_result = Some (Integer 1), ev_acquired = 0, ev_released = 0, ev_region = False,
         ev_next = s @ [(name, args)]\<rparr>),
      AcpiBufferToResource = (\<lambda>bs. None), env_sbbr = False, env_slack = False, env_acpi_version = 0x650,
      env_mobile = False, env_reduced_hardware = False, env_backlight = False, env_stack = (\<lambda>i. 0)\<rparr>"

definition demo_evaluations :: "(cstr \<times> ACPI_OBJECT list) list method_state" where
  "demo_evaluations =
     \<lparr>interpreter = [], locks_acquired = 0, locks_released = 0, region_handler_called = False, gcp_return_value = 0\<rparr>"

lemma demo_namespace_sound: "sound_env demo_namespace" "recording demo_namespace"
  by (simp_all add: sound_env_def recording_def demo_namespace_def returned_def)

lemma demo_namespace_names: "object_names demo_namespace = Some demo_names" "named_objects demo_namespace"
  by (simp_all add: demo_namespace_def named_objects_def demo_names_def)

text \<open>C25: Whatever the objects of the firmware return, as long as each result is an object of an ACPI type, and
  whatever the state of the interpreter, no test of the method test but those named in fragile_tests reads
  outside an object, through a null pointer, or a member that the type of an object does not have.\<close>

theorem method_tests_defined:
  assumes "sound_env env" and "named_objects env"
  shows "list_all (\<lambda>(t, d). take 4 (drop 5 d) \<in> set fragile_tests \<or> (\<forall>st. t st \<noteq> None)) (method_tests env)"
  using sound_method_tests [OF assms] by (simp only: sound_test_def)

theorem method_tests_defined_witness:
  "list_all (\<lambda>(t, d). take 4 (drop 5 d) \<in> set fragile_tests \<or> (\<forall>st. t st \<noteq> None)) (method_tests demo_namespace)"
  by (rule method_tests_defined [OF demo_namespace_sound(1) demo_namespace_names(2)])

text \<open>C26: Each of the checks of shared_checks comes to one verdict on every object that is returned to it: either
  it passes it, and that is all it reports, or it reports at least one failure and does not pass it.\<close>

theorem one_verdict:
  assumes "c \<in> set (shared_checks env objname n v arg)" and "returned buf" and "4 \<le> length name"
  shows "\<exists>rs. c name buf = Some rs \<and> (rs = [Passed] \<or> Passed \<notin> set rs \<and> list_ex is_failed rs)"
proof -
  have "total_check c" "judged_check c"
    using assms(1) checks_total [of env objname n v arg] checks_judged [of env objname n v arg] by (auto simp: list_all_iff)
  moreover from this(1) obtain rs where "c name buf = Some rs" using assms(2) by (auto simp: total_check_def)
  ultimately show ?thesis
    using assms(2,3) by (fastforce simp: judged_check_def judged_def verdict_def)
qed

theorem one_verdict_witness:
  "\<exists>rs. fwts_method_test_BPC_return ''_SB_.BAT0._BPC'' (Some (Package [Integer 1, Integer 8, Integer 0, Integer 0])) = Some rs \<and>
     (rs = [Passed] \<or> Passed \<notin> set rs \<and> list_ex is_failed rs)"
  by (rule one_verdict [where env = demo_namespace and objname = "''_CSD''" and n = 0 and v = 0 and arg = 0])
    (simp_all add: shared_checks_def returned_def)

text \<open>C27: A test evaluates every object of its name, with its arguments, once and in the order of the namespace,
  whatever the interpreter answers, and returns whether there was one: all paths that end with the name, have a
  handle and a type, and are not scopes.\<close>

theorem objects_evaluated:
  assumes "recording env" and "sound_env env" and "total_check c"
    and "object_names env = Some paths" and "list_all (\<lambda>path. length name \<le> length path) paths"
  shows "\<exists>rs st'. method_evaluate_method env type name args (pure_check c) st =
      Some (rs, if targets env name paths = [] then FWTS_NOT_EXIST else FWTS_OK, st') \<and>
    interpreter st' = interpreter st @ map (\<lambda>path. (path, args)) (targets env name paths)"
  by (rule method_evaluates_targets [OF assms])

theorem objects_evaluated_witness:
  "\<exists>rs st'. method_evaluate_method demo_namespace METHOD_OPTIONAL ''_STA'' [] (pure_check fwts_method_test_STA_return)
      demo_evaluations = Some (rs, FWTS_OK, st') \<and>
    interpreter st' = [(''_SB_.PCI0._STA'', []), (''_SB_.LID0._STA'', [])]"
proof -
  have names: "list_all (\<lambda>path. length ''_STA'' \<le> length path) demo_names" by (simp add: demo_names_def)
  have targets: "targets demo_namespace ''_STA'' demo_names = [''_SB_.PCI0._STA'', ''_SB_.LID0._STA'']"
    by (simp add: targets_def is_target_def name_matches_def demo_names_def demo_namespace_def)
  have start: "interpreter demo_evaluations = []" by (simp add: demo_evaluations_def)
  show ?thesis
    using objects_evaluated [OF demo_namespace_sound(2,1) total_integers(6) demo_namespace_names(1) names,
        of METHOD_OPTIONAL "[]" demo_evaluations]
    unfolding targets start by simp
qed

text \<open>C28: The check of a resource descriptor reads nothing outside its buffer, whatever the bytes, and is undefined
  at most for a 64-bit address space descriptor whose granularity is all ones, by which, plus one, it divides.\<close>

theorem crs_descriptors:
  assumes "method_test_CRS_return sbbr objname name (Some (Buffer (Some data))) = None"
  shows "crs_large_tag (ucast (data ! 0)) \<in> {0xa, 0xb} \<and>
    method_CRS_val64 data (if crs_large_tag (ucast (data ! 0)) = 0xa then 6 else 8) = Some 0xffffffffffffffff"
proof -
  note none = CRS_return_None [OF assms]
  show ?thesis using large_items_None [OF none(1,2)] by simp
qed

text \<open>A QWORD address space descriptor of 46 bytes: its maximum is not fixed, and its length is 1.\<close>

definition demo_descriptor :: bytes where
  "demo_descriptor = [0x8a, 43, 0, 0, 0, 0] @ [0xff, 0xff, 0xff, 0xff, 0xff, 0xff, 0xff, 0xff] @
     [0, 0, 0, 0, 0, 0, 0, 0] @ [0, 0, 0, 0, 0, 0, 0, 0] @ [0, 0, 0, 0, 0, 0, 0, 0] @ [1, 0, 0, 0, 0, 0, 0, 0]"

theorem crs_descriptors_witness:
  "method_test_CRS_return False ''_CRS'' ''_SB_.PCI0._CRS'' (Some (Buffer (Some demo_descriptor))) = None \<and>
   method_CRS_val64 demo_descriptor 6 = Some 0xffffffffffffffff"
proof -
  have none: "method_test_CRS_return False ''_CRS'' ''_SB_.PCI0._CRS'' (Some (Buffer (Some demo_descriptor))) = None"
    by (simp add: method_test_CRS_return_def fwts_method_test_CRS_large_resource_items_def checked_def fwts_method_check_type_def
      fwts_method_type_matches_def byte_at_def nth_of_def demo_descriptor_def crs_large_tag_def crs_qword_space_def
      crs_address_space_def fwts_method_test_CRS_large_size_def method_test_CRS_size_def crs_values read_le_def read_bytes_def
      mif_maf_None bind_eq_None_conv fail_if_def crs_large_types_def)
  have "crs_large_tag (ucast (demo_descriptor ! 0)) = 0xa" by code_simp
  with crs_descriptors [OF none] none show ?thesis by simp
qed

text \<open>C29: The rules for the fields of an address space descriptor are those of table 6-179 of the ACPI
  specification: no report if and only if the flags, the range, the length and the granularity are one of its
  valid combinations, except for a fixed maximum with no length, which the code tests against another number.\<close>

theorem crs_address_space:
  assumes "gra + 1 \<noteq> 0" and "\<not> (len = 0 \<and> \<not> bit flag 2 \<and> bit flag 3)"
  shows "method_test_CRS_mif_maf sbbr objname flag mn mx len gra tag = Some [] \<longleftrightarrow>
    (if len = 0 then \<not> bit flag 3 \<and> (bit flag 2 \<longrightarrow> (unat gra + 1) dvd unat mn)
     else if bit flag 2 \<and> bit flag 3 then gra = 0 \<and> mn \<le> mx \<and> len = mx - mn + 1
     else \<not> bit flag 2 \<and> \<not> bit flag 3 \<and> (unat gra + 1) dvd unat len)"
  using mif_maf_verdict [OF assms] by (simp only: address_space_allowed_def)

theorem crs_address_space_witness:
  "method_test_CRS_mif_maf False ''_CRS'' 0xc 0xd0000 0xd3fff 0x4000 0 ''64BitDWordAddrSpace'' = Some []"
proof -
  have "(0 :: u64) + 1 \<noteq> 0" "\<not> ((0x4000 :: u64) = 0 \<and> \<not> bit (0xc :: u64) 2 \<and> bit (0xc :: u64) 3)" by simp_all
  from crs_address_space [OF this] show ?thesis by (simp add: bit_numeral_rec)
qed

text \<open>C30: A string passes as _HID exactly if it is a PNP or an ACPI identifier: three capital letters, or four
  capital letters or digits, and four hexadecimal digits behind them; otherwise there is one failure.\<close>

theorem device_identifiers:
  "fwts_method_test_HID_return name (Some (String (Some s))) = Some
     (if \<exists>vendor product. s = vendor @ product \<and> length product = 4 \<and> list_all is_xdigit product \<and>
           (length vendor = 3 \<and> list_all isupper vendor \<or>
            length vendor = 4 \<and> list_all (\<lambda>c. isupper c \<or> isdigit c) vendor)
      then [Passed] else [Failed LOG_LEVEL_MEDIUM ''MethodHIDInvalidString''])"
  using valid_HID_string [of s]
  by (simp only: fwts_method_test_HID_return_def id_string_report_def option.case ACPI_OBJECT.case device_id_def append.simps if_distrib [of "\<lambda>r. [r]"])

text \<open>The checks of _GLK, _GPE and _WAK look at the type of the object without asking whether there is one, and
  those of _CPC, _RDI, _PDO, _FPS and _ART look at an element of the package before they know how many it has: each is
  undefined on a method that returns nothing, or an empty package.\<close>

theorem missing_objects:
  "list_all (\<lambda>c. c name None = None) [method_test_GLK_return, method_test_GPE_return, method_test_WAK_return] \<and>
   list_all (\<lambda>c. c name (Some (Package [])) = None)
     [method_test_CPC_return, method_test_RDI_return, method_test_PDO_return, method_test_FPS_return, method_test_ART_return]"
  using null_object_undefined empty_package_undefined by (rule conjI)

text \<open>A _BMD with reserved bits set is reported as a failure and passed in the same breath: the check ends with
  a passed report whatever it has found.\<close>

theorem failures_passed:
  "\<exists>rs. fwts_method_test_BMD_return name (Some (Package [Integer s, Integer c, Integer x, Integer y, Integer z])) =
     Some (rs @ [Passed]) \<and> (rs = [] \<longleftrightarrow> s AND bits_mask 7 31 = 0 \<and> c AND bits_mask 6 31 = 0)"
  by (rule BMD_passes)

text \<open>The test of _SCP evaluates _DTI: where no object has that name it is skipped, however many _SCP there are.\<close>

theorem scp_not_evaluated:
  assumes "object_names env = Some paths" and "list_all (\<lambda>path. name_matches ''_DTI'' path = Some False) paths"
  shows "method_test_SCP env st = Some ([Skipped], FWTS_OK, st)"
  by (rule SCP_evaluates_DTI [OF assms])

theorem scp_not_evaluated_witness:
  "method_test_SCP demo_namespace demo_evaluations = Some ([Skipped], FWTS_OK, demo_evaluations) \<and>
   targets demo_namespace ''_SCP'' demo_names = [''_TZ_.TZ00._SCP'']"
proof -
  have "list_all (\<lambda>path. name_matches ''_DTI'' path = Some False) demo_names"
    by (simp add: name_matches_def demo_names_def)
  moreover have "targets demo_namespace ''_SCP'' demo_names = [''_TZ_.TZ00._SCP'']"
    by (simp add: targets_def is_target_def name_matches_def demo_names_def demo_namespace_def)
  ultimately show ?thesis using scp_not_evaluated [OF demo_namespace_names(1)] by blast
qed

section \<open>Tests of single tables\<close>





text \<open>C32: Six tests do not keep one verdict, on all tables. Whenever they end inside the table, SLIT passes it exactly
  if no failure is another than that of a reserved entry, so also with such failures, and RHCT exactly if none is another
  than those of its checksum and flags; DBG2 passes a table with failures only if they are all of things outside it, but it does pass one whose
  name it has failed so twice; WDAT passes a table without failures twice. NHLT neither passes nor fails a table that has its struct and an endpoint but
  ends before the descriptor of the first, nor HEST one that ends within the banks of a first machine check exception.\<close>

theorem unfair_tests:
  "(slit_test1 t = Some rs \<longrightarrow> (Passed \<in> set rs \<longleftrightarrow> (\<forall>l s. Failed l s \<in> set rs \<longrightarrow> s = ''SLITEntryReserved''))) \<and>
   (rhct_test1 fuel t = Some rs \<longrightarrow>
      (Passed \<in> set rs \<longleftrightarrow> (\<forall>l s. Failed l s \<in> set rs \<longrightarrow> s \<in> {''SPECRHCTChecksum'', ''RHCTFlagsNonZero''}))) \<and>
   (dbg2_test1 obj_find t = Some rs \<longrightarrow> Passed \<in> set rs \<longrightarrow> (\<forall>l s. Failed l s \<in> set rs \<longrightarrow> s = ''DBG2TooShort'')) \<and>
   (wdat_test1 t = Some rs \<longrightarrow> \<not> list_ex is_failed rs \<longrightarrow> count_list rs Passed = 2) \<and>
   (nhlt_ends_short t \<longrightarrow> nhlt_test1 t = Some []) \<and> (hest_ends_short t \<longrightarrow> hest_test1 t = Some []) \<and>
   dbg2_test1 obj_find bad_dbg2 = Some [Failed LOG_LEVEL_HIGH ''DBG2TooShort'', Failed LOG_LEVEL_HIGH ''DBG2TooShort'', Passed]"
proof (intro conjI impI)
  show "Passed \<in> set rs \<longleftrightarrow> (\<forall>l s. Failed l s \<in> set rs \<longrightarrow> s = ''SLITEntryReserved'')" if "slit_test1 t = Some rs"
    using that slit_but [of t] by (simp add: whenever_def)
  show "Passed \<in> set rs \<longleftrightarrow> (\<forall>l s. Failed l s \<in> set rs \<longrightarrow> s \<in> {''SPECRHCTChecksum'', ''RHCTFlagsNonZero''})"
    if "rhct_test1 fuel t = Some rs" using that rhct_but [of fuel t] by (simp add: whenever_def)
  show "\<forall>l s. Failed l s \<in> set rs \<longrightarrow> s = ''DBG2TooShort''" if "dbg2_test1 obj_find t = Some rs" and "Passed \<in> set rs"
    using that dbg2_loud [of obj_find t] by (simp add: whenever_def)
  show "count_list rs Passed = 2" if "wdat_test1 t = Some rs" and "\<not> list_ex is_failed rs"
    using that wdat_twice [of t] by (simp add: whenever_def twice_def)
qed (simp_all add: nhlt_short_table hest_short_banks bad_dbg2_reports)

theorem unfair_tests_witness:
  "Passed \<in> set (the (slit_test1 bad_slit)) \<and> Passed \<in> set (the (rhct_test1 2 bad_rhct)) \<and>
   slit_test1 bad_slit \<noteq> Some [Passed] \<and> rhct_test1 2 bad_rhct \<noteq> Some [Passed] \<and>
   {s. \<exists>l. Failed l s \<in> set (the (dbg2_test1 (\<lambda>_. True) bad_dbg2))} \<subseteq> {''DBG2TooShort''} \<and>
   count_list (the (wdat_test1 empty_wdat)) Passed = 2 \<and>
   nhlt_test1 bad_nhlt = Some [] \<and> hest_test1 bad_hest = Some []"
proof -
  note parts = unfair_tests [THEN conjunct1] unfair_tests [THEN conjunct2, THEN conjunct1]
    unfair_tests [THEN conjunct2, THEN conjunct2, THEN conjunct1]
    unfair_tests [THEN conjunct2, THEN conjunct2, THEN conjunct2, THEN conjunct1]
    unfair_tests [THEN conjunct2, THEN conjunct2, THEN conjunct2, THEN conjunct2, THEN conjunct1]
    unfair_tests [THEN conjunct2, THEN conjunct2, THEN conjunct2, THEN conjunct2, THEN conjunct2, THEN conjunct1]
  have "Passed \<in> set (the (slit_test1 bad_slit)) \<and> slit_test1 bad_slit \<noteq> Some [Passed]"
    using parts(1) [rule_format, OF bad_slit_reports] by (simp add: bad_slit_reports)
  moreover have "Passed \<in> set (the (rhct_test1 2 bad_rhct)) \<and> rhct_test1 2 bad_rhct \<noteq> Some [Passed]"
    using parts(2) [rule_format, OF bad_rhct_reports] by (simp add: bad_rhct_reports)
  moreover have "{s. \<exists>l. Failed l s \<in> set (the (dbg2_test1 (\<lambda>_. True) bad_dbg2))} \<subseteq> {''DBG2TooShort''}"
    using parts(3) [rule_format, OF bad_dbg2_reports [of "\<lambda>_. True"]] by (auto simp: bad_dbg2_reports)
  moreover have "count_list (the (wdat_test1 empty_wdat)) Passed = 2"
    using parts(4) [rule_format, OF empty_wdat_reports] by (simp add: empty_wdat_reports)
  moreover have "nhlt_test1 bad_nhlt = Some []" "hest_test1 bad_hest = Some []"
    using parts(5) [rule_format, OF bad_nhlt_short] parts(6) [rule_format, OF bad_hest_short] by simp_all
  ultimately show ?thesis by simp
qed

text \<open>Two records of CEDT for devices of a root complex, the second with a protocol that there is not.\<close>

definition demo_rdpas :: "u8 \<Rightarrow> bytes" where
  "demo_rdpas protocol = [3, 0, 17, 0, 0, 0, 0, 0, protocol, 0, 0, 0, 0, 0, 0, 0, 0]"

definition demo_cedt :: "bytes list" where
  "demo_cedt = [demo_rdpas 0, demo_rdpas 2]"

lemma demo_cedt_record:
  assumes "cedt_structure (demo_rdpas p) 0 3 = Some rs"
  shows "cedt_record (demo_rdpas p) 0 = Some (rs, Goto 17)"
proof -
  have "member_at (demo_rdpas p) 0 fwts_acpi_table_cedt_header ''record_length'' = 17"
    and "member_at (demo_rdpas p) 0 fwts_acpi_table_cedt_header ''type'' = 3"
    and "sizeof fwts_acpi_table_cedt_header = 4" and "length (demo_rdpas p) = 17"
    by (simp_all add: member_at_def sizeof_def layouts demo_rdpas_def)
  then show ?thesis using assms
    by (simp add: cedt_record_def view_def on_record_def fwts_acpi_structure_length_zero_def to_next_def
        fwts_acpi_structure_range_def fail_if_def add32_def)
qed

lemma demo_cedt_structures:
  "cedt_structure (demo_rdpas 0) 0 3 = Some []"
  "cedt_structure (demo_rdpas 2) 0 3 = Some (fails LOG_LEVEL_HIGH ''CEDTBadProtocolType'')"
  by code_simp+

lemma demo_cedt_complete: "list_all (complete cedt_record) demo_cedt"
  by (simp add: demo_cedt_def complete_def demo_cedt_record [OF demo_cedt_structures(1)]
      demo_cedt_record [OF demo_cedt_structures(2)]) (simp add: demo_rdpas_def)

lemma demo_cedt_acts: "map (record_acts cedt_record) demo_cedt = [[], fails LOG_LEVEL_HIGH ''CEDTBadProtocolType'']"
  by (simp add: demo_cedt_def record_acts_def demo_cedt_record [OF demo_cedt_structures(1)]
      demo_cedt_record [OF demo_cedt_structures(2)])

text \<open>C33: The tests of CEDT, APMT, SDEV and PPTT visit every record once, in order: on a table of complete records they
  report for each what it gives on its own bytes, and pass the table exactly if none of them fails.\<close>

theorem record_tables_compose:
  assumes "(f, body, n) \<in> set record_tests" and "length hdr = n" and "list_all (complete (body hdr)) ss"
    and "length (hdr @ concat ss) < 2 ^ 31"
  shows "f (hdr @ concat ss) = Some (conclude (concat (map (record_acts (body hdr)) ss)))"
  by (rule record_tests_complete [OF assms])

theorem record_tables_compose_witness:
  "cedt_test1 (replicate 36 0 @ concat demo_cedt) = Some [Failed LOG_LEVEL_HIGH ''CEDTBadProtocolType'']"
proof -
  have "length (replicate 36 0 @ concat demo_cedt) < 2 ^ 31" and "sizeof fwts_acpi_table_cedt = 36"
    by (simp_all add: demo_cedt_def demo_rdpas_def sizeof_def layouts Fwts_Acpi.nest_def)
  then show ?thesis
    using record_tables_compose [of cedt_test1 "\<lambda>hdr. cedt_record" 36 "replicate 36 0" demo_cedt]
      demo_cedt_complete demo_cedt_acts
    by (simp add: record_tests_def conclude_def fails_def)
qed

text \<open>C34: The loops over the records of eleven tables end on every table of less than 2 GB: none goes on for ever, and the only
  reason not to have a result is a round that reads outside the table.\<close>

theorem record_loops_end:
  assumes "body \<in> set (record_bodies revision @ structure_bodies version table_flags)" and "length t < 2 ^ 31"
  shows "\<not> diverges (\<lambda>off. off < length t) (body t) off \<and>
    (records t body off = None \<longleftrightarrow> faults (\<lambda>off. off < length t) (body t) off)"
proof (cases "body \<in> set (record_bodies revision)")
  case True
  then show ?thesis using records_end assms(2) by blast
next
  case False
  then show ?thesis using structures_end assms by auto
qed

theorem record_loops_end_witness:
  "\<not> diverges (\<lambda>off. off < length (concat demo_cedt)) (cedt_record (concat demo_cedt)) 0"
  using record_loops_end [of cedt_record 0 0 0 "concat demo_cedt" 0] by (simp add: record_bodies_def demo_cedt_def demo_rdpas_def)

text \<open>C35: The loop over the states of LPIT ends from every position, also behind a state that is shorter than it must be,
  and the test has no result only if the table has its header and the loop reads outside it.\<close>

theorem lpit_loop_ends:
  "\<not> diverges (\<lambda>(len, off, uid, seen). len > 8) (lpit_state t) pos \<and>
   (lpit_test1 t = None \<longleftrightarrow>
      sizeof fwts_acpi_table_lpit \<le> length t \<and>
      (\<exists>len. header_field t ''length'' = Some len \<and>
         faults (\<lambda>(len, off, uid, seen). len > 8) (lpit_state t)
           (sub32 (unat len) (sizeof fwts_acpi_table_lpit), sizeof fwts_acpi_table_lpit, 0, False)))"
  using lpit.ends lpit_no_result by blast

text \<open>C36: RHCT, IVRS and ASF! stay for ever at a structure of length 0 from which they go on at all: they go on at the same
  structure. On a table each with such a node, memory block and record, the round reports no failure and the test has no
  result, whatever the fuel; ASF! passes the record in every round. HMAT goes round in a table of 112 bytes whose second
  structure has a length that leads back to the first, without a report.\<close>

theorem zero_length_structures:
  "(rhct_node t (off, left) = Some (acts, Goto rhct_next) \<and> 0 < left \<and>
      member_at t off fwts_acpi_rhct_node_header ''length'' = 0 \<longrightarrow>
      rhct_next = (off, left) \<and> diverges (\<lambda>(off, len). len > 0) (rhct_node t) (off, left)) \<and>
   (ivrs_record revision t off = Some (acts, Goto ivrs_next) \<and> off < length t \<and> off < 2 ^ 32 \<and>
      member_at t off (up_to ''length'' fwts_acpi_table_ivhd) ''length'' = 0 \<longrightarrow>
      ivrs_next = off \<and> diverges (\<lambda>off. off < length t) (ivrs_record revision t) off) \<and>
   (asf_record t (asf_left, off) = Some (acts, Goto asf_next) \<and> 0 < asf_left \<and>
      member_at t off fwts_acpi_table_asf_header ''length'' = 0 \<longrightarrow>
      asf_next = (asf_left, off) \<and> diverges (\<lambda>(len, off). len > 0) (asf_record t) (asf_left, off)) \<and>
   rhct_node rhct_zero (56, 10) = Some ([], Goto (56, 10)) \<and> rhct_test1 fuel rhct_zero = None \<and>
   ivrs_record 2 ivrs_zero 48 = Some ([], Goto 48) \<and> ivrs_test1 fuel ivrs_zero = None \<and>
   asf_record asf_zero (24, 36) = Some ([Says Passed], Goto (24, 36)) \<and> asf_test1 fuel asf_zero = None \<and>
   hmat_record version hmat_circle 40 = Some ([], Goto 80) \<and> hmat_record version hmat_circle 80 = Some ([], Goto 40) \<and>
   hmat_test1 fuel version hmat_circle = None"
proof (intro conjI impI)
  show "rhct_next = (off, left)" "diverges (\<lambda>(off, len). len > 0) (rhct_node t) (off, left)"
    if "rhct_node t (off, left) = Some (acts, Goto rhct_next) \<and> 0 < left \<and>
      member_at t off fwts_acpi_rhct_node_header ''length'' = 0"
    using that rhct_same [of t off left acts rhct_next] by (auto intro: diverges_here)
  show "ivrs_next = off" "diverges (\<lambda>off. off < length t) (ivrs_record revision t) off"
    if "ivrs_record revision t off = Some (acts, Goto ivrs_next) \<and> off < length t \<and> off < 2 ^ 32 \<and>
      member_at t off (up_to ''length'' fwts_acpi_table_ivhd) ''length'' = 0"
    using that ivrs_same [of revision t off acts ivrs_next] by (auto intro: diverges_here)
  show "asf_next = (asf_left, off)" "diverges (\<lambda>(len, off). len > 0) (asf_record t) (asf_left, off)"
    if "asf_record t (asf_left, off) = Some (acts, Goto asf_next) \<and> 0 < asf_left \<and>
      member_at t off fwts_acpi_table_asf_header ''length'' = 0"
    using that asf_same [of t asf_left off acts asf_next] by (auto intro: diverges_here)
qed (rule rhct_zero_node rhct_hangs ivrs_zero_record ivrs_hangs asf_zero_record asf_hangs hmat_rounds hmat_hangs)+

theorem zero_length_structures_witness:
  "diverges (\<lambda>(off, len). len > 0) (rhct_node rhct_zero) (56, 10) \<and>
   diverges (\<lambda>off. off < length ivrs_zero) (ivrs_record 2 ivrs_zero) 48 \<and>
   diverges (\<lambda>(len, off). len > 0) (asf_record asf_zero) (24, 36)"
proof -
  have "member_at rhct_zero 56 fwts_acpi_rhct_node_header ''length'' = 0"
    "member_at ivrs_zero 48 (up_to ''length'' fwts_acpi_table_ivhd) ''length'' = 0"
    "member_at asf_zero 36 fwts_acpi_table_asf_header ''length'' = 0"
    by code_simp+
  then show ?thesis
    using zero_length_structures [of rhct_zero 56 10 "[]" "(56, 10)"] rhct_zero_node
      zero_length_structures [where t = ivrs_zero and off = 48 and acts = "[]" and ivrs_next = 48 and revision = 2] ivrs_zero_record
      zero_length_structures [where t = asf_zero and off = 36 and acts = "[Says Passed]" and asf_left = 24 and asf_next = "(24, 36)"]
      asf_zero_record ivrs_zero_sizes
    by simp
qed



text \<open>A FADT of 276 bytes with the 64 bit address of the PM2 control block alone.\<close>

definition block_fadt :: bytes where
  "block_fadt = [70, 65, 67, 80, 20, 1] @ replicate 194 0 @ [16] @ replicate 75 0"

text \<open>C38: The compliance test of the FADT has a result exactly on tables that have the whole struct of ACPI 6, whatever
  the length in their header, and, unless the hardware is reduced, with a FACS that reaches to its flags and packages of
  _CST that have what is read of them: every older FADT is read behind its end.\<close>

theorem fadt_reads:
  "fadt_test1 facs init env processor t st \<noteq> None \<longleftrightarrow>
     sizeof fwts_acpi_table_fadt \<le> length t \<and>
     (env_reduced_hardware env \<or> facs_ok facs \<and> (init \<longrightarrow> get_cst_c2c3 env st \<noteq> None))"
  by (rule fadt_test1_reads)

lemma demo_fadt_sizes: "sizeof fwts_acpi_table_fadt = 276" "length block_fadt = 276"
  by (simp_all add: sizeof_def layouts Fwts_Acpi.nest_def block_fadt_def)

theorem fadt_reads_witness:
  "fadt_test1 None True demo_namespace (\<lambda>_. (0, 0)) block_fadt demo_evaluations \<noteq> None \<and>
   fadt_test1 None True demo_namespace (\<lambda>_. (0, 0)) (take 116 block_fadt) demo_evaluations = None"
proof -
  have "get_cst_c2c3 demo_namespace demo_evaluations = Some ((0, 0), demo_evaluations)"
    by (simp add: get_cst_c2c3_def demo_namespace_names(1) demo_names_def name_matches_def)
  moreover have "facs_ok None" by (simp add: facs_ok_def)
  ultimately show ?thesis
    using fadt_reads [of None True demo_namespace "\<lambda>_. (0, 0)" block_fadt demo_evaluations]
      fadt_reads [of None True demo_namespace "\<lambda>_. (0, 0)" "take 116 block_fadt" demo_evaluations] demo_fadt_sizes
    by (simp del: not_None_eq)
qed

text \<open>C39: A register block of the FADT, one of PM1A_EVT, PM1A_CNT, PM1B_EVT, PM1B_CNT, PM2_CNT and PM_TMR, of which exactly one
  address is set, as the advice of the test asks for, in a table that by the length in its header has the 64 bit address:
  it is passed for it and, up to ACPI 6.1, failed as well, since the addresses differ, and then passed once more; from
  ACPI 6.2 on it is passed twice. PM1A_EVT and PM1A_CNT, which must be there, are passed once before that.\<close>

theorem fadt_one_address:
  assumes "(f, least, err, chk) \<in> set (required_blocks @ optional_blocks)" and "sizeof fwts_acpi_table_fadt \<le> length t"
    and "m = member_at t 0 fwts_acpi_table_fadt" and "least \<le> m ''header.length''"
    and "(m f = 0) \<noteq> (m (''x_'' @ f @ ''.address'') = 0)"
  shows "chk v t = Some ((if f \<in> {''pm1a_evt_blk'', ''pm1a_cnt_blk''} then [Passed] else []) @
    (if v \<le> FWTS_ACPI_VERSION_61 then [Passed, Failed LOG_LEVEL_MEDIUM err, Advice, Passed] else [Passed, Passed]))"
proof -
  have reports: "block_reports v err (m f) (m (''x_'' @ f @ ''.address'')) =
      (if v \<le> FWTS_ACPI_VERSION_61 then [Passed, Failed LOG_LEVEL_MEDIUM err, Advice, Passed] else [Passed, Passed])"
    using assms(5) by (auto simp: block_reports_def)
  show ?thesis
  proof (cases "(f, least, err, chk) \<in> set required_blocks")
    case True
    then have "f \<in> {''pm1a_evt_blk'', ''pm1a_cnt_blk''}" by (auto simp: required_blocks_def)
    then show ?thesis using required_block_reports [OF True assms(2-5), of v] unfolding reports by simp
  next
    case False
    then have optional: "(f, least, err, chk) \<in> set optional_blocks" using assms(1) by auto
    then have "f \<notin> {''pm1a_evt_blk'', ''pm1a_cnt_blk''}" by (auto simp: optional_blocks_def)
    then show ?thesis using optional_block_reports [OF optional assms(2-4), of v] unfolding reports by simp
  qed
qed

lemma block_fadt_values:
  "member_at block_fadt 0 fwts_acpi_table_fadt ''header.length'' = 276"
  "member_at block_fadt 0 fwts_acpi_table_fadt ''pm2_cnt_blk'' = 0"
  "member_at block_fadt 0 fwts_acpi_table_fadt ''x_pm2_cnt_blk.address'' = 16"
  by code_simp+

theorem fadt_one_address_witness:
  "acpi_table_check_fadt_pm2_cnt_blk 0x600 block_fadt =
     Some [Passed, Failed LOG_LEVEL_MEDIUM ''FADTPm2CntBlkNotSet'', Advice, Passed]"
  using fadt_one_address [where f = "''pm2_cnt_blk''" and least = 208 and err = "''FADTPm2CntBlkNotSet''"
      and chk = acpi_table_check_fadt_pm2_cnt_blk and t = block_fadt and v = "0x600"] block_fadt_values
  by (simp add: optional_blocks_def FWTS_ACPI_VERSION_61_def)
    (simp add: block_fadt_def sizeof_def layouts Fwts_Acpi.nest_def)

text \<open>C40: The checksum test reads behind the end of a table exactly if one that is neither RSDP nor FACS has less than the 10
  bytes up to its checksum. Otherwise it looks at every table and ends, and it reports a failure exactly if one of them does
  not sum to zero: over its length, or over 20 and, from revision 1 on, 36 bytes for the RSDP, while FACS is left out.\<close>

theorem checksum_test_verdict:
  "case checksum_test1 (Some ts) of
     None \<Rightarrow> \<not> list_all has_checksum ts
   | Some (ret, rs) \<Rightarrow> list_all has_checksum ts \<and> ret = FWTS_OK \<and> (list_ex is_failed rs \<longleftrightarrow> \<not> list_all sums_to_zero ts)"
  using checksum_scan_none [of ts] checksum_scan_ok [of ts]
  by (cases "checksum_scan_tables ts") (auto simp: checksum_test1_def)

end
